(* ===== verification/VP_Prelude.thy ===== *)
theory VP_Prelude
  imports Main "HOL-Library.Word"
begin

text \<open>
  Shared vocabulary of the development: machine integers, the bit-manipulation macros of
  \<^verbatim>\<open>vp/src/util/common.h\<close>, C bit-fields, little-endian bytes, the C++ \<^verbatim>\<open>switch\<close>, and the
  state-and-exception monad in which the stateful C++ code is expressed (an exception keeps the
  state changes made before the throw, as C++ does).
\<close>

unbundle bit_operations_syntax

type_synonym u8 = "8 word"
type_synonym u16 = "16 word"
type_synonym u32 = "32 word"
type_synonym u64 = "64 word"

named_theorems monad_simps \<open>unfolding of the state-exception monad\<close>
named_theorems bitfield_simps \<open>reads and writes of C bit-fields\<close>

section \<open>Bit manipulation macros\<close>

text \<open>
  The C shift operators on 32-bit operands: \<^verbatim>\<open>>>\<close> on \<^verbatim>\<open>int32_t\<close> is arithmetic, on \<^verbatim>\<open>uint32_t\<close>
  logical.
\<close>

definition BIT_RANGE :: "'a::len word \<Rightarrow> nat \<Rightarrow> nat \<Rightarrow> 'a word" where
  "BIT_RANGE w upper lower = w AND push_bit lower (mask (upper - lower + 1))"

definition BIT_SLICE_u :: "'a::len word \<Rightarrow> nat \<Rightarrow> nat \<Rightarrow> 'a word" where
  "BIT_SLICE_u w upper lower = drop_bit lower (BIT_RANGE w upper lower)"

definition BIT_SLICE_s :: "'a::len word \<Rightarrow> nat \<Rightarrow> nat \<Rightarrow> 'a word" where
  "BIT_SLICE_s w upper lower = signed_drop_bit lower (BIT_RANGE w upper lower)"

definition BIT_SINGLE :: "'a::len word \<Rightarrow> nat \<Rightarrow> 'a word" where
  "BIT_SINGLE w pos = w AND push_bit pos 1"

definition BIT_SINGLE_P1_u :: "'a::len word \<Rightarrow> nat \<Rightarrow> 'a word" where
  "BIT_SINGLE_P1_u w pos = drop_bit pos (BIT_SINGLE w pos)"

definition BIT_SINGLE_P1_s :: "'a::len word \<Rightarrow> nat \<Rightarrow> 'a word" where
  "BIT_SINGLE_P1_s w pos = signed_drop_bit pos (BIT_SINGLE w pos)"

definition BIT_SINGLE_PN_u :: "'a::len word \<Rightarrow> nat \<Rightarrow> nat \<Rightarrow> 'a word" where
  "BIT_SINGLE_PN_u w pos new_pos = push_bit new_pos (BIT_SINGLE_P1_u w pos)"

definition BIT_SINGLE_PN_s :: "'a::len word \<Rightarrow> nat \<Rightarrow> nat \<Rightarrow> 'a word" where
  "BIT_SINGLE_PN_s w pos new_pos = push_bit new_pos (BIT_SINGLE_P1_s w pos)"

text \<open>Only ever applied to \<^verbatim>\<open>int32_t\<close> operands: the right shift is arithmetic.\<close>

definition EXTRACT_SIGN_BIT :: "u32 \<Rightarrow> nat \<Rightarrow> nat \<Rightarrow> u32" where
  "EXTRACT_SIGN_BIT w pos new_pos =
     signed_drop_bit (31 - new_pos) (push_bit 31 (BIT_SINGLE_P1_s w pos))"

section \<open>Bits of the macros\<close>

lemma bit_BIT_RANGE:
  "lower \<le> upper \<Longrightarrow> bit (BIT_RANGE w upper lower) n \<longleftrightarrow> lower \<le> n \<and> n \<le> upper \<and> bit w n"
  by (auto simp: BIT_RANGE_def bit_simps dest: bit_imp_le_length)

lemma bit_BIT_SINGLE: "bit (BIT_SINGLE w pos) n \<longleftrightarrow> n = pos \<and> bit w n"
  by (auto simp: BIT_SINGLE_def bit_simps dest: bit_imp_le_length)

lemma bit_BIT_SLICE_u:
  "lower \<le> upper \<Longrightarrow> bit (BIT_SLICE_u w upper lower) n \<longleftrightarrow> n \<le> upper - lower \<and> bit w (n + lower)"
  by (auto simp: BIT_SLICE_u_def bit_simps bit_BIT_RANGE add.commute dest: bit_imp_le_length)

text \<open>Below the sign bit the signed and the unsigned slice agree.\<close>

lemma bit_BIT_SLICE_s:
  assumes "lower \<le> upper" "upper < LENGTH('a) - 1"
  shows "bit (BIT_SLICE_s (w :: 'a::len word) upper lower) n \<longleftrightarrow>
    n \<le> upper - lower \<and> bit w (n + lower)"
proof -
  have "\<not> bit (BIT_RANGE w upper lower) (LENGTH('a) - 1)"
    using assms by (simp add: bit_BIT_RANGE)
  then show ?thesis
    using assms by (auto simp: BIT_SLICE_s_def bit_signed_drop_bit_iff bit_BIT_RANGE
        add.commute dest: bit_imp_le_length)
qed

lemma bit_BIT_SINGLE_P1_u: "bit (BIT_SINGLE_P1_u w pos) n \<longleftrightarrow> n = 0 \<and> bit w pos"
  by (auto simp: BIT_SINGLE_P1_u_def bit_simps bit_BIT_SINGLE dest: bit_imp_le_length)

lemma bit_BIT_SINGLE_P1_s:
  assumes "pos < LENGTH('a) - 1"
  shows "bit (BIT_SINGLE_P1_s (w :: 'a::len word) pos) n \<longleftrightarrow> n = 0 \<and> bit w pos"
  using assms
  by (auto simp: BIT_SINGLE_P1_s_def bit_signed_drop_bit_iff bit_BIT_SINGLE
      dest: bit_imp_le_length)

lemma bit_BIT_SINGLE_PN_u:
  "bit (BIT_SINGLE_PN_u (w :: 'a::len word) pos k) n \<longleftrightarrow> n = k \<and> k < LENGTH('a) \<and> bit w pos"
  by (auto simp: BIT_SINGLE_PN_u_def bit_push_bit_iff bit_BIT_SINGLE_P1_u
      dest: bit_imp_le_length)

lemma bit_BIT_SINGLE_PN_s:
  assumes "pos < LENGTH('a) - 1"
  shows "bit (BIT_SINGLE_PN_s (w :: 'a::len word) pos k) n \<longleftrightarrow> n = k \<and> k < LENGTH('a) \<and> bit w pos"
  using assms
  by (auto simp: BIT_SINGLE_PN_s_def bit_push_bit_iff bit_BIT_SINGLE_P1_s
      dest: bit_imp_le_length)

lemma bit_EXTRACT_SIGN_BIT:
  assumes "pos < 31" "new_pos \<le> 31"
  shows "bit (EXTRACT_SIGN_BIT w pos new_pos) n \<longleftrightarrow> new_pos \<le> n \<and> n < 32 \<and> bit w pos"
  using assms
  by (auto simp: EXTRACT_SIGN_BIT_def bit_signed_drop_bit_iff bit_push_bit_iff
      bit_BIT_SINGLE_P1_s dest: bit_imp_le_length split: if_splits)

lemmas bit_macros =
  bit_BIT_RANGE bit_BIT_SINGLE bit_BIT_SLICE_u bit_BIT_SLICE_s bit_BIT_SINGLE_P1_u
  bit_BIT_SINGLE_P1_s bit_BIT_SINGLE_PN_u bit_BIT_SINGLE_PN_s bit_EXTRACT_SIGN_BIT

text \<open>Extensionality of 32-bit words by enumeration of the bits.\<close>

lemma less_32_cases:
  "n < (32 :: nat) \<Longrightarrow>
   n = 31 \<or> n = 30 \<or> n = 29 \<or> n = 28 \<or> n = 27 \<or> n = 26 \<or> n = 25 \<or> n = 24 \<or>
   n = 23 \<or> n = 22 \<or> n = 21 \<or> n = 20 \<or> n = 19 \<or> n = 18 \<or> n = 17 \<or> n = 16 \<or>
   n = 15 \<or> n = 14 \<or> n = 13 \<or> n = 12 \<or> n = 11 \<or> n = 10 \<or> n = 9 \<or> n = 8 \<or>
   n = 7 \<or> n = 6 \<or> n = 5 \<or> n = 4 \<or> n = 3 \<or> n = 2 \<or> n = 1 \<or> n = 0"
  by presburger

lemma len32: "LENGTH(32) = 32"
  by simp

lemma word32_eqI:
  "\<lbrakk>bit x 0 = bit y 0; bit x 1 = bit y 1; bit x 2 = bit y 2; bit x 3 = bit y 3; 
    bit x 4 = bit y 4; bit x 5 = bit y 5; bit x 6 = bit y 6; bit x 7 = bit y 7; 
    bit x 8 = bit y 8; bit x 9 = bit y 9; bit x 10 = bit y 10; bit x 11 = bit y 11; 
    bit x 12 = bit y 12; bit x 13 = bit y 13; bit x 14 = bit y 14; bit x 15 = bit y 15; 
    bit x 16 = bit y 16; bit x 17 = bit y 17; bit x 18 = bit y 18; bit x 19 = bit y 19; 
    bit x 20 = bit y 20; bit x 21 = bit y 21; bit x 22 = bit y 22; bit x 23 = bit y 23; 
    bit x 24 = bit y 24; bit x 25 = bit y 25; bit x 26 = bit y 26; bit x 27 = bit y 27; 
    bit x 28 = bit y 28; bit x 29 = bit y 29; bit x 30 = bit y 30; bit x 31 = bit y 31\<rbrakk>
   \<Longrightarrow> x = (y :: u32)"
  by (rule bit_word_eqI, unfold len32, drule less_32_cases, elim disjE; hypsubst; assumption)

section \<open>The C++ switch\<close>

text \<open>
  \<open>switch_on x cases d\<close> is \<^verbatim>\<open>switch (x) { case k1: return v1; ... }\<close> followed by \<^verbatim>\<open>return d\<close>;
  \<open>d\<close> also stands for a \<^verbatim>\<open>default:\<close> label.
\<close>

fun switch_on :: "'k \<Rightarrow> ('k \<times> 'v) list \<Rightarrow> 'v \<Rightarrow> 'v" where
  "switch_on x [] d = d"
| "switch_on x ((k, v) # cs) d = (if x = k then v else switch_on x cs d)"

lemma switch_on_cases:
  "(\<And>k v. (k, v) \<in> set cs \<Longrightarrow> x = k \<Longrightarrow> P v) \<Longrightarrow> P d \<Longrightarrow> P (switch_on x cs d)"
  by (induction x cs d rule: switch_on.induct) auto

lemma switch_on_Nil_P: "P d \<Longrightarrow> P (switch_on x [] d)"
  by simp

lemma switch_on_Cons_P:
  "(x = k \<Longrightarrow> P v) \<Longrightarrow> P (switch_on x cs d) \<Longrightarrow> P (switch_on x ((k, v) # cs) d)"
  by simp

section \<open>C bit-fields\<close>

text \<open>
  A bit-field of a register union is a pair \<open>(lsb, width)\<close>. \<open>fget\<close> reads it, \<open>fset\<close> assigns to it:
  assignment truncates the value to the field's width and keeps all other bits.
\<close>

type_synonym bitfield = "nat \<times> nat"

definition fget :: "bitfield \<Rightarrow> 'a::len word \<Rightarrow> 'a word" where
  "fget f w = take_bit (snd f) (drop_bit (fst f) w)"

definition fset :: "bitfield \<Rightarrow> 'a::len word \<Rightarrow> 'a word \<Rightarrow> 'a word" where
  "fset f v w = (w AND NOT (push_bit (fst f) (mask (snd f)))) OR push_bit (fst f) (take_bit (snd f) v)"

text \<open>Two bit-fields occupy different bits.\<close>

definition fdisj :: "bitfield \<Rightarrow> bitfield \<Rightarrow> bool" where
  "fdisj f g \<longleftrightarrow> fst f + snd f \<le> fst g \<or> fst g + snd g \<le> fst f"

lemma bit_fget: "bit (fget f w) n \<longleftrightarrow> n < snd f \<and> bit w (n + fst f)"
  by (auto simp: fget_def bit_simps add.commute)

lemma bit_fset:
  "bit (fset f v (w :: 'a::len word)) n \<longleftrightarrow>
     n < LENGTH('a) \<and>
     (if fst f \<le> n \<and> n < fst f + snd f then bit v (n - fst f) else bit w n)"
  by (auto simp: fset_def bit_simps dest: bit_imp_le_length)

lemma fget_fset_same [bitfield_simps]:
  "fst f + snd f \<le> LENGTH('a) \<Longrightarrow> fget f (fset f v (w :: 'a::len word)) = take_bit (snd f) v"
  by (rule bit_eqI) (auto simp: bit_fget bit_fset bit_take_bit_iff)

lemma fget_fset_other [bitfield_simps]:
  "fdisj f g \<Longrightarrow> fget f (fset g v w) = fget f w"
  by (rule bit_eqI) (auto simp: bit_fget bit_fset fdisj_def dest: bit_imp_le_length)

lemma fset_fset_same [bitfield_simps]: "fset f v (fset f v' w) = fset f v w"
  by (rule bit_eqI) (auto simp: bit_fset)

lemma fset_fset_commute: "fdisj f g \<Longrightarrow> fset f v (fset g v' w) = fset g v' (fset f v w)"
  by (rule bit_eqI) (auto simp: bit_fset fdisj_def)

lemma fset_fget_id: "fset f (fget f w) w = w"
  by (rule bit_eqI) (auto simp: bit_fset bit_fget dest: bit_imp_le_length)

lemma fdisj_code [simp]: "fdisj (a, m) (b, n) \<longleftrightarrow> a + m \<le> b \<or> b + n \<le> a"
  by (simp add: fdisj_def)

section \<open>Little-endian bytes\<close>

fun bytes_to_word :: "u8 list \<Rightarrow> 'a::len word" where
  "bytes_to_word [] = 0"
| "bytes_to_word (b # bs) = ucast b OR push_bit 8 (bytes_to_word bs)"

fun word_to_bytes :: "nat \<Rightarrow> 'a::len word \<Rightarrow> u8 list" where
  "word_to_bytes 0 w = []"
| "word_to_bytes (Suc n) w = ucast w # word_to_bytes n (drop_bit 8 w)"

lemma length_word_to_bytes [simp]: "length (word_to_bytes n w) = n"
  by (induction n arbitrary: w) auto

lemma bit_bytes_to_word:
  "bit (bytes_to_word bs :: 'a::len word) n \<longleftrightarrow>
     n < LENGTH('a) \<and> n div 8 < length bs \<and> bit (bs ! (n div 8)) (n mod 8)"
proof (induction bs arbitrary: n)
  case Nil
  then show ?case by simp
next
  case (Cons b bs)
  show ?case
  proof (cases "n < 8")
    case True
    then show ?thesis by (auto simp: bit_simps)
  next
    case False
    then obtain m where m: "n = m + 8" by (metis add.commute le_Suc_ex not_less)
    have d: "(m + 8) div 8 = Suc (m div 8)" by simp
    show ?thesis by (auto simp: m d Cons bit_simps dest: bit_imp_le_length)
  qed
qed

lemma bytes_to_word_to_bytes:
  "LENGTH('a) \<le> 8 * n \<Longrightarrow> bytes_to_word (word_to_bytes n w) = (w :: 'a::len word)"
proof -
  have gen: "bytes_to_word (word_to_bytes n w) = take_bit (8 * n) w" for w :: "'a word"
  proof (induction n arbitrary: w)
    case 0
    then show ?case by simp
  next
    case (Suc n)
    show ?case
      by (rule bit_eqI) (auto simp: Suc bit_simps)
  qed
  assume "LENGTH('a) \<le> 8 * n"
  then show ?thesis by (simp add: gen take_bit_word_eq_self)
qed

section \<open>The state-exception monad\<close>

text \<open>
  What can stop a C++ function: a \<^verbatim>\<open>SimulationTrap\<close> (reason and \<^verbatim>\<open>mtval\<close>), a
  \<^verbatim>\<open>std::runtime_error\<close> or another exception nobody catches, a failed \<^verbatim>\<open>assert\<close>, or a SystemC
  \<^verbatim>\<open>wait\<close>, at which the thread is suspended. The build never defines \<^verbatim>\<open>NDEBUG\<close>
  (\<^verbatim>\<open>vp/CMakeLists.txt\<close> overwrites the release flags), so asserts are live.
\<close>

datatype exn = SimulationTrap (trap_reason: u32) (trap_mtval: u64) | RuntimeError | AssertFail | Suspended

type_synonym ('s, 'a) M = "'s \<Rightarrow> (exn + 'a) \<times> 's"

definition ret :: "'a \<Rightarrow> ('s, 'a) M" where
  "ret x s = (Inr x, s)"

definition raise :: "exn \<Rightarrow> ('s, 'a) M" where
  "raise e s = (Inl e, s)"

definition bindM :: "('s, 'a) M \<Rightarrow> ('a \<Rightarrow> ('s, 'b) M) \<Rightarrow> ('s, 'b) M" where
  "bindM m f s = (case m s of (Inl e, s') \<Rightarrow> (Inl e, s') | (Inr x, s') \<Rightarrow> f x s')"

definition seqM :: "('s, 'a) M \<Rightarrow> ('s, 'b) M \<Rightarrow> ('s, 'b) M" where
  "seqM m n = bindM m (\<lambda>_. n)"

definition getsM :: "('s \<Rightarrow> 'a) \<Rightarrow> ('s, 'a) M" where
  "getsM f s = (Inr (f s), s)"

definition modifyM :: "('s \<Rightarrow> 's) \<Rightarrow> ('s, unit) M" where
  "modifyM f s = (Inr (), f s)"

definition whenM :: "bool \<Rightarrow> ('s, unit) M \<Rightarrow> ('s, unit) M" where
  "whenM b m = (if b then m else ret ())"

definition assertM :: "bool \<Rightarrow> ('s, unit) M" where
  "assertM b = (if b then ret () else raise AssertFail)"

text \<open>\<^verbatim>\<open>try m catch (SimulationTrap &e) h(e)\<close>.\<close>

definition catch_trap :: "('s, 'a) M \<Rightarrow> (u32 \<Rightarrow> u64 \<Rightarrow> ('s, 'a) M) \<Rightarrow> ('s, 'a) M" where
  "catch_trap m h s = (case m s of (Inl (SimulationTrap r v), s') \<Rightarrow> h r v s' | x \<Rightarrow> x)"

lemma ret_simp [monad_simps]: "ret x s = (Inr x, s)"
  by (simp add: ret_def)

lemma raise_simp [monad_simps]: "raise e s = (Inl e, s)"
  by (simp add: raise_def)

lemma bindM_simp [monad_simps]:
  "bindM m f s = (case m s of (Inl e, s') \<Rightarrow> (Inl e, s') | (Inr x, s') \<Rightarrow> f x s')"
  by (simp add: bindM_def)

lemma seqM_simp [monad_simps]:
  "seqM m n s = (case m s of (Inl e, s') \<Rightarrow> (Inl e, s') | (Inr x, s') \<Rightarrow> n s')"
  by (simp add: seqM_def bindM_def)

lemma getsM_simp [monad_simps]: "getsM f s = (Inr (f s), s)"
  by (simp add: getsM_def)

lemma modifyM_simp [monad_simps]: "modifyM f s = (Inr (), f s)"
  by (simp add: modifyM_def)

lemma whenM_simp [monad_simps]: "whenM b m s = (if b then m s else (Inr (), s))"
  by (simp add: whenM_def ret_def)

lemma assertM_simp [monad_simps]: "assertM b s = (if b then Inr () else Inl AssertFail, s)"
  by (simp add: assertM_def ret_def raise_def)

lemma catch_trap_simp [monad_simps]:
  "catch_trap m h s = (case m s of (Inl (SimulationTrap r v), s') \<Rightarrow> h r v s' | x \<Rightarrow> x)"
  by (simp add: catch_trap_def)

section \<open>Invariants of monadic code\<close>

text \<open>
  \<open>keeps P m\<close>: whenever \<open>P\<close> holds before \<open>m\<close>, it holds after it, on a normal return and on an
  exception. The rules decompose code along its structure.
\<close>

definition keeps :: "('s \<Rightarrow> bool) \<Rightarrow> ('s, 'a) M \<Rightarrow> bool" where
  "keeps P m \<longleftrightarrow> (\<forall>s. P s \<longrightarrow> P (snd (m s)))"

named_theorems keeps_intros \<open>structural rules for preserved predicates\<close>

lemma keepsD: "keeps P m \<Longrightarrow> P s \<Longrightarrow> P (snd (m s))"
  by (simp add: keeps_def)

lemma keepsI: "(\<And>s. P s \<Longrightarrow> P (snd (m s))) \<Longrightarrow> keeps P m"
  by (simp add: keeps_def)

lemma keeps_ret [keeps_intros]: "keeps P (ret x)"
  by (simp add: keeps_def ret_def)

lemma keeps_raise [keeps_intros]: "keeps P (raise e)"
  by (simp add: keeps_def raise_def)

lemma keeps_getsM [keeps_intros]: "keeps P (getsM f)"
  by (simp add: keeps_def getsM_def)

lemma keeps_modifyM: "(\<And>s. P s \<Longrightarrow> P (f s)) \<Longrightarrow> keeps P (modifyM f)"
  by (simp add: keeps_def modifyM_def)

lemma keeps_assertM [keeps_intros]: "keeps P (assertM b)"
  by (simp add: assertM_def keeps_intros)

lemma keeps_bindM [keeps_intros]:
  "keeps P m \<Longrightarrow> (\<And>x. keeps P (f x)) \<Longrightarrow> keeps P (bindM m f)"
  by (fastforce simp: keeps_def bindM_def split: prod.splits sum.splits)

lemma keeps_seqM [keeps_intros]: "keeps P m \<Longrightarrow> keeps P n \<Longrightarrow> keeps P (seqM m n)"
  by (simp add: seqM_def keeps_bindM)

lemma keeps_whenM [keeps_intros]: "(b \<Longrightarrow> keeps P m) \<Longrightarrow> keeps P (whenM b m)"
  by (simp add: whenM_def keeps_intros)

lemma keeps_if [keeps_intros]:
  "(b \<Longrightarrow> keeps P m) \<Longrightarrow> (\<not> b \<Longrightarrow> keeps P n) \<Longrightarrow> keeps P (if b then m else n)"
  by simp

lemma keeps_catch_trap [keeps_intros]:
  "keeps P m \<Longrightarrow> (\<And>r v. keeps P (h r v)) \<Longrightarrow> keeps P (catch_trap m h)"
  by (fastforce simp: keeps_def catch_trap_def split: prod.splits sum.splits exn.splits)

lemma keeps_switch_on [keeps_intros]:
  "(\<And>k v. (k, v) \<in> set cs \<Longrightarrow> keeps P v) \<Longrightarrow> keeps P d \<Longrightarrow> keeps P (switch_on x cs d)"
  by (rule switch_on_cases [where P = "keeps P"])

named_theorems keeps_cases \<open>rules for case distinctions and updates\<close>

lemma keeps_gets_bindM:
  "(\<And>s. P s \<Longrightarrow> keeps P (f (g s))) \<Longrightarrow> keeps P (bindM (getsM g) f)"
  by (auto simp: keeps_def bindM_def getsM_def)

lemma keeps_ex: "(\<And>z. keeps (P z) m) \<Longrightarrow> keeps (\<lambda>s. \<exists>z. P z s) m"
  by (fastforce simp: keeps_def)

lemma keeps_case_prod [keeps_cases]: "(\<And>a b. keeps P (f a b)) \<Longrightarrow> keeps P (case x of (a, b) \<Rightarrow> f a b)"
  by (cases x) simp

lemma keeps_case_option [keeps_cases]:
  "keeps P m \<Longrightarrow> (\<And>a. keeps P (f a)) \<Longrightarrow> keeps P (case x of None \<Rightarrow> m | Some a \<Rightarrow> f a)"
  by (cases x) simp_all

lemma keeps_case_sum [keeps_cases]:
  "(\<And>a. keeps P (f a)) \<Longrightarrow> (\<And>a. keeps P (g a)) \<Longrightarrow> keeps P (case x of Inl a \<Rightarrow> f a | Inr a \<Rightarrow> g a)"
  by (cases x) simp_all

lemma keeps_switch_Nil [keeps_cases]: "keeps P d \<Longrightarrow> keeps P (switch_on x [] d)"
  by simp

lemma keeps_switch_Cons [keeps_cases]:
  "(x = k \<Longrightarrow> keeps P v) \<Longrightarrow> keeps P (switch_on x cs d) \<Longrightarrow> keeps P (switch_on x ((k, v) # cs) d)"
  by simp

declare keeps_modifyM [keeps_cases]

section \<open>Triples\<close>

text \<open>A triple has a postcondition for a normal return and one for an exception.\<close>

definition hoare :: "('s \<Rightarrow> bool) \<Rightarrow> ('s, 'a) M \<Rightarrow> ('a \<Rightarrow> 's \<Rightarrow> bool) \<Rightarrow> ('s \<Rightarrow> bool) \<Rightarrow> bool" where
  "hoare P m Q R \<longleftrightarrow> (\<forall>s. P s \<longrightarrow> (case m s of (Inl e, s') \<Rightarrow> R s' | (Inr x, s') \<Rightarrow> Q x s'))"

lemma hoare_keeps: "keeps P m \<Longrightarrow> (\<And>s. P s \<Longrightarrow> R s) \<Longrightarrow> hoare P m (\<lambda>_. P) R"
  by (fastforce simp: hoare_def keeps_def split: prod.splits sum.splits)

lemma hoare_bindM:
  "hoare P m Q R \<Longrightarrow> (\<And>x. hoare (Q x) (f x) Q' R) \<Longrightarrow> hoare P (bindM m f) Q' R"
  by (fastforce simp: hoare_def bindM_def split: prod.splits sum.splits)

lemma hoare_seqM: "hoare P m (\<lambda>_. Q) R \<Longrightarrow> hoare Q n Q' R \<Longrightarrow> hoare P (seqM m n) Q' R"
  unfolding seqM_def by (rule hoare_bindM)

lemma hoare_bind_keeps:
  "keeps P m \<Longrightarrow> (\<And>s. P s \<Longrightarrow> R s) \<Longrightarrow> (\<And>x. hoare P (f x) Q R) \<Longrightarrow> hoare P (bindM m f) Q R"
  by (blast intro: hoare_bindM hoare_keeps)

lemma hoare_seq_keeps:
  "keeps P m \<Longrightarrow> (\<And>s. P s \<Longrightarrow> R s) \<Longrightarrow> hoare P n Q R \<Longrightarrow> hoare P (seqM m n) Q R"
  unfolding seqM_def by (rule hoare_bind_keeps)

lemma hoare_catch_trap:
  "hoare P m Q R' \<Longrightarrow> (\<And>r v. hoare R' (h r v) Q R) \<Longrightarrow> (\<And>s. R' s \<Longrightarrow> R s) \<Longrightarrow> hoare P (catch_trap m h) Q R"
  by (fastforce simp: hoare_def catch_trap_def split: prod.splits sum.splits exn.splits)

lemma hoare_if: "hoare P m Q R \<Longrightarrow> hoare P n Q R \<Longrightarrow> hoare P (if b then m else n) Q R"
  by simp

lemma hoare_ret: "(\<And>s. P s \<Longrightarrow> Q x s) \<Longrightarrow> hoare P (ret x) Q R"
  by (simp add: hoare_def ret_def)

section \<open>Code that returns\<close>

text \<open>
  \<open>returns P m\<close>: from a state with \<open>P\<close>, \<open>m\<close> returns and \<open>P\<close> holds again.
\<close>

definition returns :: "('s \<Rightarrow> bool) \<Rightarrow> ('s, 'a) M \<Rightarrow> bool" where
  "returns P m \<longleftrightarrow> (\<forall>s. P s \<longrightarrow> (\<exists>x s'. m s = (Inr x, s') \<and> P s'))"

named_theorems returns_intros \<open>structural rules for code that returns\<close>

lemma returns_basic [returns_intros]: "returns P (ret x)" "returns P (getsM g)"
  by (simp_all add: returns_def ret_def getsM_def)

lemma returns_modifyM: "(\<And>s. P s \<Longrightarrow> P (f s)) \<Longrightarrow> returns P (modifyM f)"
  by (simp add: returns_def modifyM_def)

lemma returns_gets_bindM: "(\<And>s. P s \<Longrightarrow> returns P (f (g s))) \<Longrightarrow> returns P (bindM (getsM g) f)"
  by (auto simp: returns_def bindM_def getsM_def)

lemma returns_bindM: "returns P m \<Longrightarrow> (\<And>x. returns P (f x)) \<Longrightarrow> returns P (bindM m f)"
  by (fastforce simp: returns_def bindM_def)

lemma returns_seqM [returns_intros]: "returns P m \<Longrightarrow> returns P n \<Longrightarrow> returns P (seqM m n)"
  unfolding seqM_def by (rule returns_bindM)

lemma returns_if [returns_intros]:
  "(b \<Longrightarrow> returns P m) \<Longrightarrow> (\<not> b \<Longrightarrow> returns P n) \<Longrightarrow> returns P (if b then m else n)"
  by simp

lemma returns_case_prod [returns_intros]:
  "(\<And>a b. returns P (f a b)) \<Longrightarrow> returns P (case x of (a, b) \<Rightarrow> f a b)"
  by (cases x) simp

lemma keeps_hoare: "hoare P m (\<lambda>_. P) P \<Longrightarrow> keeps P m"
proof (rule keepsI)
  fix s
  assume "hoare P m (\<lambda>_. P) P" "P s"
  then show "P (snd (m s))"
    by (cases "m s"; cases "fst (m s)") (auto simp: hoare_def dest: spec [of _ s])
qed

lemma hoare_weaken: "hoare P m Q R \<Longrightarrow> (\<And>x s. Q x s \<Longrightarrow> Q' x s) \<Longrightarrow> hoare P m Q' R"
  by (fastforce simp: hoare_def split: prod.splits sum.splits)

lemma hoare_ex: "(\<And>z. b z \<Longrightarrow> hoare (P z) m Q R) \<Longrightarrow> hoare (\<lambda>s. \<exists>z. b z \<and> P z s) m Q R"
  unfolding hoare_def by (intro allI impI, elim exE conjE) simp

lemma hoare_gets_bindM:
  "(\<And>x. hoare (\<lambda>s. P s \<and> g s = x) (f x) Q R) \<Longrightarrow> hoare P (bindM (getsM g) f) Q R"
  by (auto simp: hoare_def bindM_simp getsM_simp)

lemma hoare_returns: "returns P m \<Longrightarrow> hoare P m (\<lambda>_. P) R"
  by (fastforce simp: returns_def hoare_def)

lemma hoare_modify_seq: "(\<And>s. P s \<Longrightarrow> P' (f s)) \<Longrightarrow> hoare P' m Q R \<Longrightarrow> hoare P (seqM (modifyM f) m) Q R"
  by (simp add: hoare_def seqM_simp modifyM_simp)

lemma bindM_seq_ret: "bindM (seqM m (ret x)) g = seqM m (g x)"
  by (auto simp: fun_eq_iff monad_simps split: prod.splits sum.splits)

end
