(* ===== verification/VP_Opcodes.thy ===== *)
theory VP_Opcodes
  imports VP_Prelude
begin

text \<open>
  The enumerators of \<^verbatim>\<open>vp/src/core/common/instr.h\<close>: the operation identifiers
  \<^verbatim>\<open>Operation::OpId\<close>, the field constants \<^verbatim>\<open>Instruction::Parts\<close> the decoder switches on, and
  the extension bits of \<^verbatim>\<open>core_defs.h\<close>. An \<^verbatim>\<open>OpId\<close> is its integer value, as in C++; the three
  identifiers that clash with the bit operators carry the suffix \<open>_op\<close>.
\<close>

type_synonym OpId = nat

section \<open>Operation identifiers\<close>

abbreviation (input) UNDEF :: OpId where "UNDEF \<equiv> 0"
abbreviation (input) UNSUP :: OpId where "UNSUP \<equiv> 1"
abbreviation (input) LUI :: OpId where "LUI \<equiv> 2"
abbreviation (input) LUI_NOP :: OpId where "LUI_NOP \<equiv> 3"
abbreviation (input) AUIPC :: OpId where "AUIPC \<equiv> 4"
abbreviation (input) AUIPC_NOP :: OpId where "AUIPC_NOP \<equiv> 5"
abbreviation (input) JAL :: OpId where "JAL \<equiv> 6"
abbreviation (input) J :: OpId where "J \<equiv> 7"
abbreviation (input) JALR :: OpId where "JALR \<equiv> 8"
abbreviation (input) JR :: OpId where "JR \<equiv> 9"
abbreviation (input) BEQ :: OpId where "BEQ \<equiv> 10"
abbreviation (input) BNE :: OpId where "BNE \<equiv> 11"
abbreviation (input) BLT :: OpId where "BLT \<equiv> 12"
abbreviation (input) BGE :: OpId where "BGE \<equiv> 13"
abbreviation (input) BLTU :: OpId where "BLTU \<equiv> 14"
abbreviation (input) BGEU :: OpId where "BGEU \<equiv> 15"
abbreviation (input) LB :: OpId where "LB \<equiv> 16"
abbreviation (input) LH :: OpId where "LH \<equiv> 17"
abbreviation (input) LW :: OpId where "LW \<equiv> 18"
abbreviation (input) LBU :: OpId where "LBU \<equiv> 19"
abbreviation (input) LHU :: OpId where "LHU \<equiv> 20"
abbreviation (input) SB :: OpId where "SB \<equiv> 21"
abbreviation (input) SH :: OpId where "SH \<equiv> 22"
abbreviation (input) SW :: OpId where "SW \<equiv> 23"
abbreviation (input) ADDI :: OpId where "ADDI \<equiv> 24"
abbreviation (input) ADDI_NOP :: OpId where "ADDI_NOP \<equiv> 25"
abbreviation (input) SLTI :: OpId where "SLTI \<equiv> 26"
abbreviation (input) SLTI_NOP :: OpId where "SLTI_NOP \<equiv> 27"
abbreviation (input) SLTIU :: OpId where "SLTIU \<equiv> 28"
abbreviation (input) SLTIU_NOP :: OpId where "SLTIU_NOP \<equiv> 29"
abbreviation (input) XORI :: OpId where "XORI \<equiv> 30"
abbreviation (input) XORI_NOP :: OpId where "XORI_NOP \<equiv> 31"
abbreviation (input) ORI :: OpId where "ORI \<equiv> 32"
abbreviation (input) ORI_NOP :: OpId where "ORI_NOP \<equiv> 33"
abbreviation (input) ANDI :: OpId where "ANDI \<equiv> 34"
abbreviation (input) ANDI_NOP :: OpId where "ANDI_NOP \<equiv> 35"
abbreviation (input) SLLI :: OpId where "SLLI \<equiv> 36"
abbreviation (input) SLLI_NOP :: OpId where "SLLI_NOP \<equiv> 37"
abbreviation (input) SRLI :: OpId where "SRLI \<equiv> 38"
abbreviation (input) SRLI_NOP :: OpId where "SRLI_NOP \<equiv> 39"
abbreviation (input) SRAI :: OpId where "SRAI \<equiv> 40"
abbreviation (input) SRAI_NOP :: OpId where "SRAI_NOP \<equiv> 41"
abbreviation (input) ADD :: OpId where "ADD \<equiv> 42"
abbreviation (input) ADD_NOP :: OpId where "ADD_NOP \<equiv> 43"
abbreviation (input) SUB :: OpId where "SUB \<equiv> 44"
abbreviation (input) SUB_NOP :: OpId where "SUB_NOP \<equiv> 45"
abbreviation (input) SLL :: OpId where "SLL \<equiv> 46"
abbreviation (input) SLL_NOP :: OpId where "SLL_NOP \<equiv> 47"
abbreviation (input) SLT :: OpId where "SLT \<equiv> 48"
abbreviation (input) SLT_NOP :: OpId where "SLT_NOP \<equiv> 49"
abbreviation (input) SLTU :: OpId where "SLTU \<equiv> 50"
abbreviation (input) SLTU_NOP :: OpId where "SLTU_NOP \<equiv> 51"
abbreviation (input) XOR_op :: OpId where "XOR_op \<equiv> 52"
abbreviation (input) XOR_NOP :: OpId where "XOR_NOP \<equiv> 53"
abbreviation (input) SRL :: OpId where "SRL \<equiv> 54"
abbreviation (input) SRL_NOP :: OpId where "SRL_NOP \<equiv> 55"
abbreviation (input) SRA :: OpId where "SRA \<equiv> 56"
abbreviation (input) SRA_NOP :: OpId where "SRA_NOP \<equiv> 57"
abbreviation (input) OR_op :: OpId where "OR_op \<equiv> 58"
abbreviation (input) OR_NOP :: OpId where "OR_NOP \<equiv> 59"
abbreviation (input) AND_op :: OpId where "AND_op \<equiv> 60"
abbreviation (input) AND_NOP :: OpId where "AND_NOP \<equiv> 61"
abbreviation (input) FENCE :: OpId where "FENCE \<equiv> 62"
abbreviation (input) ECALL :: OpId where "ECALL \<equiv> 63"
abbreviation (input) EBREAK :: OpId where "EBREAK \<equiv> 64"
abbreviation (input) FENCE_I :: OpId where "FENCE_I \<equiv> 65"
abbreviation (input) CSRRW :: OpId where "CSRRW \<equiv> 66"
abbreviation (input) CSRRS :: OpId where "CSRRS \<equiv> 67"
abbreviation (input) CSRRC :: OpId where "CSRRC \<equiv> 68"
abbreviation (input) CSRRWI :: OpId where "CSRRWI \<equiv> 69"
abbreviation (input) CSRRSI :: OpId where "CSRRSI \<equiv> 70"
abbreviation (input) CSRRCI :: OpId where "CSRRCI \<equiv> 71"
abbreviation (input) MUL :: OpId where "MUL \<equiv> 72"
abbreviation (input) MUL_NOP :: OpId where "MUL_NOP \<equiv> 73"
abbreviation (input) MULH :: OpId where "MULH \<equiv> 74"
abbreviation (input) MULH_NOP :: OpId where "MULH_NOP \<equiv> 75"
abbreviation (input) MULHSU :: OpId where "MULHSU \<equiv> 76"
abbreviation (input) MULHSU_NOP :: OpId where "MULHSU_NOP \<equiv> 77"
abbreviation (input) MULHU :: OpId where "MULHU \<equiv> 78"
abbreviation (input) MULHU_NOP :: OpId where "MULHU_NOP \<equiv> 79"
abbreviation (input) DIV :: OpId where "DIV \<equiv> 80"
abbreviation (input) DIV_NOP :: OpId where "DIV_NOP \<equiv> 81"
abbreviation (input) DIVU :: OpId where "DIVU \<equiv> 82"
abbreviation (input) DIVU_NOP :: OpId where "DIVU_NOP \<equiv> 83"
abbreviation (input) REM :: OpId where "REM \<equiv> 84"
abbreviation (input) REM_NOP :: OpId where "REM_NOP \<equiv> 85"
abbreviation (input) REMU :: OpId where "REMU \<equiv> 86"
abbreviation (input) REMU_NOP :: OpId where "REMU_NOP \<equiv> 87"
abbreviation (input) LR_W :: OpId where "LR_W \<equiv> 88"
abbreviation (input) SC_W :: OpId where "SC_W \<equiv> 89"
abbreviation (input) AMOSWAP_W :: OpId where "AMOSWAP_W \<equiv> 90"
abbreviation (input) AMOADD_W :: OpId where "AMOADD_W \<equiv> 91"
abbreviation (input) AMOXOR_W :: OpId where "AMOXOR_W \<equiv> 92"
abbreviation (input) AMOAND_W :: OpId where "AMOAND_W \<equiv> 93"
abbreviation (input) AMOOR_W :: OpId where "AMOOR_W \<equiv> 94"
abbreviation (input) AMOMIN_W :: OpId where "AMOMIN_W \<equiv> 95"
abbreviation (input) AMOMAX_W :: OpId where "AMOMAX_W \<equiv> 96"
abbreviation (input) AMOMINU_W :: OpId where "AMOMINU_W \<equiv> 97"
abbreviation (input) AMOMAXU_W :: OpId where "AMOMAXU_W \<equiv> 98"
abbreviation (input) LWU :: OpId where "LWU \<equiv> 99"
abbreviation (input) LD :: OpId where "LD \<equiv> 100"
abbreviation (input) SD :: OpId where "SD \<equiv> 101"
abbreviation (input) ADDIW :: OpId where "ADDIW \<equiv> 102"
abbreviation (input) ADDIW_NOP :: OpId where "ADDIW_NOP \<equiv> 103"
abbreviation (input) SLLIW :: OpId where "SLLIW \<equiv> 104"
abbreviation (input) SLLIW_NOP :: OpId where "SLLIW_NOP \<equiv> 105"
abbreviation (input) SRLIW :: OpId where "SRLIW \<equiv> 106"
abbreviation (input) SRLIW_NOP :: OpId where "SRLIW_NOP \<equiv> 107"
abbreviation (input) SRAIW :: OpId where "SRAIW \<equiv> 108"
abbreviation (input) SRAIW_NOP :: OpId where "SRAIW_NOP \<equiv> 109"
abbreviation (input) ADDW :: OpId where "ADDW \<equiv> 110"
abbreviation (input) ADDW_NOP :: OpId where "ADDW_NOP \<equiv> 111"
abbreviation (input) SUBW :: OpId where "SUBW \<equiv> 112"
abbreviation (input) SUBW_NOP :: OpId where "SUBW_NOP \<equiv> 113"
abbreviation (input) SLLW :: OpId where "SLLW \<equiv> 114"
abbreviation (input) SLLW_NOP :: OpId where "SLLW_NOP \<equiv> 115"
abbreviation (input) SRLW :: OpId where "SRLW \<equiv> 116"
abbreviation (input) SRLW_NOP :: OpId where "SRLW_NOP \<equiv> 117"
abbreviation (input) SRAW :: OpId where "SRAW \<equiv> 118"
abbreviation (input) SRAW_NOP :: OpId where "SRAW_NOP \<equiv> 119"
abbreviation (input) MULW :: OpId where "MULW \<equiv> 120"
abbreviation (input) MULW_NOP :: OpId where "MULW_NOP \<equiv> 121"
abbreviation (input) DIVW :: OpId where "DIVW \<equiv> 122"
abbreviation (input) DIVW_NOP :: OpId where "DIVW_NOP \<equiv> 123"
abbreviation (input) DIVUW :: OpId where "DIVUW \<equiv> 124"
abbreviation (input) DIVUW_NOP :: OpId where "DIVUW_NOP \<equiv> 125"
abbreviation (input) REMW :: OpId where "REMW \<equiv> 126"
abbreviation (input) REMW_NOP :: OpId where "REMW_NOP \<equiv> 127"
abbreviation (input) REMUW :: OpId where "REMUW \<equiv> 128"
abbreviation (input) REMUW_NOP :: OpId where "REMUW_NOP \<equiv> 129"
abbreviation (input) LR_D :: OpId where "LR_D \<equiv> 130"
abbreviation (input) SC_D :: OpId where "SC_D \<equiv> 131"
abbreviation (input) AMOSWAP_D :: OpId where "AMOSWAP_D \<equiv> 132"
abbreviation (input) AMOADD_D :: OpId where "AMOADD_D \<equiv> 133"
abbreviation (input) AMOXOR_D :: OpId where "AMOXOR_D \<equiv> 134"
abbreviation (input) AMOAND_D :: OpId where "AMOAND_D \<equiv> 135"
abbreviation (input) AMOOR_D :: OpId where "AMOOR_D \<equiv> 136"
abbreviation (input) AMOMIN_D :: OpId where "AMOMIN_D \<equiv> 137"
abbreviation (input) AMOMAX_D :: OpId where "AMOMAX_D \<equiv> 138"
abbreviation (input) AMOMINU_D :: OpId where "AMOMINU_D \<equiv> 139"
abbreviation (input) AMOMAXU_D :: OpId where "AMOMAXU_D \<equiv> 140"
abbreviation (input) FLH :: OpId where "FLH \<equiv> 141"
abbreviation (input) FSH :: OpId where "FSH \<equiv> 142"
abbreviation (input) FMADD_H :: OpId where "FMADD_H \<equiv> 143"
abbreviation (input) FMSUB_H :: OpId where "FMSUB_H \<equiv> 144"
abbreviation (input) FNMADD_H :: OpId where "FNMADD_H \<equiv> 145"
abbreviation (input) FNMSUB_H :: OpId where "FNMSUB_H \<equiv> 146"
abbreviation (input) FADD_H :: OpId where "FADD_H \<equiv> 147"
abbreviation (input) FSUB_H :: OpId where "FSUB_H \<equiv> 148"
abbreviation (input) FMUL_H :: OpId where "FMUL_H \<equiv> 149"
abbreviation (input) FDIV_H :: OpId where "FDIV_H \<equiv> 150"
abbreviation (input) FSQRT_H :: OpId where "FSQRT_H \<equiv> 151"
abbreviation (input) FSGNJ_H :: OpId where "FSGNJ_H \<equiv> 152"
abbreviation (input) FSGNJN_H :: OpId where "FSGNJN_H \<equiv> 153"
abbreviation (input) FSGNJX_H :: OpId where "FSGNJX_H \<equiv> 154"
abbreviation (input) FMIN_H :: OpId where "FMIN_H \<equiv> 155"
abbreviation (input) FMAX_H :: OpId where "FMAX_H \<equiv> 156"
abbreviation (input) FCVT_W_H :: OpId where "FCVT_W_H \<equiv> 157"
abbreviation (input) FCVT_WU_H :: OpId where "FCVT_WU_H \<equiv> 158"
abbreviation (input) FMV_X_H :: OpId where "FMV_X_H \<equiv> 159"
abbreviation (input) FEQ_H :: OpId where "FEQ_H \<equiv> 160"
abbreviation (input) FLT_H :: OpId where "FLT_H \<equiv> 161"
abbreviation (input) FLE_H :: OpId where "FLE_H \<equiv> 162"
abbreviation (input) FCLASS_H :: OpId where "FCLASS_H \<equiv> 163"
abbreviation (input) FCVT_H_W :: OpId where "FCVT_H_W \<equiv> 164"
abbreviation (input) FCVT_H_WU :: OpId where "FCVT_H_WU \<equiv> 165"
abbreviation (input) FMV_H_X :: OpId where "FMV_H_X \<equiv> 166"
abbreviation (input) FCVT_S_H :: OpId where "FCVT_S_H \<equiv> 167"
abbreviation (input) FCVT_H_S :: OpId where "FCVT_H_S \<equiv> 168"
abbreviation (input) FCVT_H_D :: OpId where "FCVT_H_D \<equiv> 169"
abbreviation (input) FCVT_D_H :: OpId where "FCVT_D_H \<equiv> 170"
abbreviation (input) FCVT_L_H :: OpId where "FCVT_L_H \<equiv> 171"
abbreviation (input) FCVT_LU_H :: OpId where "FCVT_LU_H \<equiv> 172"
abbreviation (input) FCVT_H_L :: OpId where "FCVT_H_L \<equiv> 173"
abbreviation (input) FCVT_H_LU :: OpId where "FCVT_H_LU \<equiv> 174"
abbreviation (input) FLW :: OpId where "FLW \<equiv> 175"
abbreviation (input) FSW :: OpId where "FSW \<equiv> 176"
abbreviation (input) FMADD_S :: OpId where "FMADD_S \<equiv> 177"
abbreviation (input) FMSUB_S :: OpId where "FMSUB_S \<equiv> 178"
abbreviation (input) FNMADD_S :: OpId where "FNMADD_S \<equiv> 179"
abbreviation (input) FNMSUB_S :: OpId where "FNMSUB_S \<equiv> 180"
abbreviation (input) FADD_S :: OpId where "FADD_S \<equiv> 181"
abbreviation (input) FSUB_S :: OpId where "FSUB_S \<equiv> 182"
abbreviation (input) FMUL_S :: OpId where "FMUL_S \<equiv> 183"
abbreviation (input) FDIV_S :: OpId where "FDIV_S \<equiv> 184"
abbreviation (input) FSQRT_S :: OpId where "FSQRT_S \<equiv> 185"
abbreviation (input) FSGNJ_S :: OpId where "FSGNJ_S \<equiv> 186"
abbreviation (input) FSGNJN_S :: OpId where "FSGNJN_S \<equiv> 187"
abbreviation (input) FSGNJX_S :: OpId where "FSGNJX_S \<equiv> 188"
abbreviation (input) FMIN_S :: OpId where "FMIN_S \<equiv> 189"
abbreviation (input) FMAX_S :: OpId where "FMAX_S \<equiv> 190"
abbreviation (input) FCVT_W_S :: OpId where "FCVT_W_S \<equiv> 191"
abbreviation (input) FCVT_WU_S :: OpId where "FCVT_WU_S \<equiv> 192"
abbreviation (input) FMV_X_W :: OpId where "FMV_X_W \<equiv> 193"
abbreviation (input) FEQ_S :: OpId where "FEQ_S \<equiv> 194"
abbreviation (input) FLT_S :: OpId where "FLT_S \<equiv> 195"
abbreviation (input) FLE_S :: OpId where "FLE_S \<equiv> 196"
abbreviation (input) FCLASS_S :: OpId where "FCLASS_S \<equiv> 197"
abbreviation (input) FCVT_S_W :: OpId where "FCVT_S_W \<equiv> 198"
abbreviation (input) FCVT_S_WU :: OpId where "FCVT_S_WU \<equiv> 199"
abbreviation (input) FMV_W_X :: OpId where "FMV_W_X \<equiv> 200"
abbreviation (input) FCVT_L_S :: OpId where "FCVT_L_S \<equiv> 201"
abbreviation (input) FCVT_LU_S :: OpId where "FCVT_LU_S \<equiv> 202"
abbreviation (input) FCVT_S_L :: OpId where "FCVT_S_L \<equiv> 203"
abbreviation (input) FCVT_S_LU :: OpId where "FCVT_S_LU \<equiv> 204"
abbreviation (input) FLD :: OpId where "FLD \<equiv> 205"
abbreviation (input) FSD :: OpId where "FSD \<equiv> 206"
abbreviation (input) FMADD_D :: OpId where "FMADD_D \<equiv> 207"
abbreviation (input) FMSUB_D :: OpId where "FMSUB_D \<equiv> 208"
abbreviation (input) FNMSUB_D :: OpId where "FNMSUB_D \<equiv> 209"
abbreviation (input) FNMADD_D :: OpId where "FNMADD_D \<equiv> 210"
abbreviation (input) FADD_D :: OpId where "FADD_D \<equiv> 211"
abbreviation (input) FSUB_D :: OpId where "FSUB_D \<equiv> 212"
abbreviation (input) FMUL_D :: OpId where "FMUL_D \<equiv> 213"
abbreviation (input) FDIV_D :: OpId where "FDIV_D \<equiv> 214"
abbreviation (input) FSQRT_D :: OpId where "FSQRT_D \<equiv> 215"
abbreviation (input) FSGNJ_D :: OpId where "FSGNJ_D \<equiv> 216"
abbreviation (input) FSGNJN_D :: OpId where "FSGNJN_D \<equiv> 217"
abbreviation (input) FSGNJX_D :: OpId where "FSGNJX_D \<equiv> 218"
abbreviation (input) FMIN_D :: OpId where "FMIN_D \<equiv> 219"
abbreviation (input) FMAX_D :: OpId where "FMAX_D \<equiv> 220"
abbreviation (input) FCVT_S_D :: OpId where "FCVT_S_D \<equiv> 221"
abbreviation (input) FCVT_D_S :: OpId where "FCVT_D_S \<equiv> 222"
abbreviation (input) FEQ_D :: OpId where "FEQ_D \<equiv> 223"
abbreviation (input) FLT_D :: OpId where "FLT_D \<equiv> 224"
abbreviation (input) FLE_D :: OpId where "FLE_D \<equiv> 225"
abbreviation (input) FCLASS_D :: OpId where "FCLASS_D \<equiv> 226"
abbreviation (input) FCVT_W_D :: OpId where "FCVT_W_D \<equiv> 227"
abbreviation (input) FCVT_WU_D :: OpId where "FCVT_WU_D \<equiv> 228"
abbreviation (input) FCVT_D_W :: OpId where "FCVT_D_W \<equiv> 229"
abbreviation (input) FCVT_D_WU :: OpId where "FCVT_D_WU \<equiv> 230"
abbreviation (input) FCVT_L_D :: OpId where "FCVT_L_D \<equiv> 231"
abbreviation (input) FCVT_LU_D :: OpId where "FCVT_LU_D \<equiv> 232"
abbreviation (input) FMV_X_D :: OpId where "FMV_X_D \<equiv> 233"
abbreviation (input) FCVT_D_L :: OpId where "FCVT_D_L \<equiv> 234"
abbreviation (input) FCVT_D_LU :: OpId where "FCVT_D_LU \<equiv> 235"
abbreviation (input) FMV_D_X :: OpId where "FMV_D_X \<equiv> 236"
abbreviation (input) VSETVLI :: OpId where "VSETVLI \<equiv> 237"
abbreviation (input) VSETIVLI :: OpId where "VSETIVLI \<equiv> 238"
abbreviation (input) VSETVL :: OpId where "VSETVL \<equiv> 239"
abbreviation (input) VLM_V :: OpId where "VLM_V \<equiv> 240"
abbreviation (input) VSM_V :: OpId where "VSM_V \<equiv> 241"
abbreviation (input) VLE8_V :: OpId where "VLE8_V \<equiv> 242"
abbreviation (input) VLE16_V :: OpId where "VLE16_V \<equiv> 243"
abbreviation (input) VLE32_V :: OpId where "VLE32_V \<equiv> 244"
abbreviation (input) VLE64_V :: OpId where "VLE64_V \<equiv> 245"
abbreviation (input) VSE8_V :: OpId where "VSE8_V \<equiv> 246"
abbreviation (input) VSE16_V :: OpId where "VSE16_V \<equiv> 247"
abbreviation (input) VSE32_V :: OpId where "VSE32_V \<equiv> 248"
abbreviation (input) VSE64_V :: OpId where "VSE64_V \<equiv> 249"
abbreviation (input) VLSE8_V :: OpId where "VLSE8_V \<equiv> 250"
abbreviation (input) VLSE16_V :: OpId where "VLSE16_V \<equiv> 251"
abbreviation (input) VLSE32_V :: OpId where "VLSE32_V \<equiv> 252"
abbreviation (input) VLSE64_V :: OpId where "VLSE64_V \<equiv> 253"
abbreviation (input) VSSE8_V :: OpId where "VSSE8_V \<equiv> 254"
abbreviation (input) VSSE16_V :: OpId where "VSSE16_V \<equiv> 255"
abbreviation (input) VSSE32_V :: OpId where "VSSE32_V \<equiv> 256"
abbreviation (input) VSSE64_V :: OpId where "VSSE64_V \<equiv> 257"
abbreviation (input) VLUXEI8_V :: OpId where "VLUXEI8_V \<equiv> 258"
abbreviation (input) VLUXEI16_V :: OpId where "VLUXEI16_V \<equiv> 259"
abbreviation (input) VLUXEI32_V :: OpId where "VLUXEI32_V \<equiv> 260"
abbreviation (input) VLUXEI64_V :: OpId where "VLUXEI64_V \<equiv> 261"
abbreviation (input) VLOXEI8_V :: OpId where "VLOXEI8_V \<equiv> 262"
abbreviation (input) VLOXEI16_V :: OpId where "VLOXEI16_V \<equiv> 263"
abbreviation (input) VLOXEI32_V :: OpId where "VLOXEI32_V \<equiv> 264"
abbreviation (input) VLOXEI64_V :: OpId where "VLOXEI64_V \<equiv> 265"
abbreviation (input) VSUXEI8_V :: OpId where "VSUXEI8_V \<equiv> 266"
abbreviation (input) VSUXEI16_V :: OpId where "VSUXEI16_V \<equiv> 267"
abbreviation (input) VSUXEI32_V :: OpId where "VSUXEI32_V \<equiv> 268"
abbreviation (input) VSUXEI64_V :: OpId where "VSUXEI64_V \<equiv> 269"
abbreviation (input) VSOXEI8_V :: OpId where "VSOXEI8_V \<equiv> 270"
abbreviation (input) VSOXEI16_V :: OpId where "VSOXEI16_V \<equiv> 271"
abbreviation (input) VSOXEI32_V :: OpId where "VSOXEI32_V \<equiv> 272"
abbreviation (input) VSOXEI64_V :: OpId where "VSOXEI64_V \<equiv> 273"
abbreviation (input) VLE8FF_V :: OpId where "VLE8FF_V \<equiv> 274"
abbreviation (input) VLE16FF_V :: OpId where "VLE16FF_V \<equiv> 275"
abbreviation (input) VLE32FF_V :: OpId where "VLE32FF_V \<equiv> 276"
abbreviation (input) VLE64FF_V :: OpId where "VLE64FF_V \<equiv> 277"
abbreviation (input) VLSEG2E8_V :: OpId where "VLSEG2E8_V \<equiv> 278"
abbreviation (input) VLSEG2E16_V :: OpId where "VLSEG2E16_V \<equiv> 279"
abbreviation (input) VLSEG2E32_V :: OpId where "VLSEG2E32_V \<equiv> 280"
abbreviation (input) VLSEG2E64_V :: OpId where "VLSEG2E64_V \<equiv> 281"
abbreviation (input) VSSEG2E8_V :: OpId where "VSSEG2E8_V \<equiv> 282"
abbreviation (input) VSSEG2E16_V :: OpId where "VSSEG2E16_V \<equiv> 283"
abbreviation (input) VSSEG2E32_V :: OpId where "VSSEG2E32_V \<equiv> 284"
abbreviation (input) VSSEG2E64_V :: OpId where "VSSEG2E64_V \<equiv> 285"
abbreviation (input) VLSSEG2E8_V :: OpId where "VLSSEG2E8_V \<equiv> 286"
abbreviation (input) VLSSEG2E16_V :: OpId where "VLSSEG2E16_V \<equiv> 287"
abbreviation (input) VLSSEG2E32_V :: OpId where "VLSSEG2E32_V \<equiv> 288"
abbreviation (input) VLSSEG2E64_V :: OpId where "VLSSEG2E64_V \<equiv> 289"
abbreviation (input) VSSSEG2E8_V :: OpId where "VSSSEG2E8_V \<equiv> 290"
abbreviation (input) VSSSEG2E16_V :: OpId where "VSSSEG2E16_V \<equiv> 291"
abbreviation (input) VSSSEG2E32_V :: OpId where "VSSSEG2E32_V \<equiv> 292"
abbreviation (input) VSSSEG2E64_V :: OpId where "VSSSEG2E64_V \<equiv> 293"
abbreviation (input) VLUXSEG2EI8_V :: OpId where "VLUXSEG2EI8_V \<equiv> 294"
abbreviation (input) VLUXSEG2EI16_V :: OpId where "VLUXSEG2EI16_V \<equiv> 295"
abbreviation (input) VLUXSEG2EI32_V :: OpId where "VLUXSEG2EI32_V \<equiv> 296"
abbreviation (input) VLUXSEG2EI64_V :: OpId where "VLUXSEG2EI64_V \<equiv> 297"
abbreviation (input) VLOXSEG2EI8_V :: OpId where "VLOXSEG2EI8_V \<equiv> 298"
abbreviation (input) VLOXSEG2EI16_V :: OpId where "VLOXSEG2EI16_V \<equiv> 299"
abbreviation (input) VLOXSEG2EI32_V :: OpId where "VLOXSEG2EI32_V \<equiv> 300"
abbreviation (input) VLOXSEG2EI64_V :: OpId where "VLOXSEG2EI64_V \<equiv> 301"
abbreviation (input) VSUXSEG2EI8_V :: OpId where "VSUXSEG2EI8_V \<equiv> 302"
abbreviation (input) VSUXSEG2EI16_V :: OpId where "VSUXSEG2EI16_V \<equiv> 303"
abbreviation (input) VSUXSEG2EI32_V :: OpId where "VSUXSEG2EI32_V \<equiv> 304"
abbreviation (input) VSUXSEG2EI64_V :: OpId where "VSUXSEG2EI64_V \<equiv> 305"
abbreviation (input) VSOXSEG2EI8_V :: OpId where "VSOXSEG2EI8_V \<equiv> 306"
abbreviation (input) VSOXSEG2EI16_V :: OpId where "VSOXSEG2EI16_V \<equiv> 307"
abbreviation (input) VSOXSEG2EI32_V :: OpId where "VSOXSEG2EI32_V \<equiv> 308"
abbreviation (input) VSOXSEG2EI64_V :: OpId where "VSOXSEG2EI64_V \<equiv> 309"
abbreviation (input) VLSEG2E8FF_V :: OpId where "VLSEG2E8FF_V \<equiv> 310"
abbreviation (input) VLSEG2E16FF_V :: OpId where "VLSEG2E16FF_V \<equiv> 311"
abbreviation (input) VLSEG2E32FF_V :: OpId where "VLSEG2E32FF_V \<equiv> 312"
abbreviation (input) VLSEG2E64FF_V :: OpId where "VLSEG2E64FF_V \<equiv> 313"
abbreviation (input) VLSEG3E8_V :: OpId where "VLSEG3E8_V \<equiv> 314"
abbreviation (input) VLSEG3E16_V :: OpId where "VLSEG3E16_V \<equiv> 315"
abbreviation (input) VLSEG3E32_V :: OpId where "VLSEG3E32_V \<equiv> 316"
abbreviation (input) VLSEG3E64_V :: OpId where "VLSEG3E64_V \<equiv> 317"
abbreviation (input) VSSEG3E8_V :: OpId where "VSSEG3E8_V \<equiv> 318"
abbreviation (input) VSSEG3E16_V :: OpId where "VSSEG3E16_V \<equiv> 319"
abbreviation (input) VSSEG3E32_V :: OpId where "VSSEG3E32_V \<equiv> 320"
abbreviation (input) VSSEG3E64_V :: OpId where "VSSEG3E64_V \<equiv> 321"
abbreviation (input) VLSSEG3E8_V :: OpId where "VLSSEG3E8_V \<equiv> 322"
abbreviation (input) VLSSEG3E16_V :: OpId where "VLSSEG3E16_V \<equiv> 323"
abbreviation (input) VLSSEG3E32_V :: OpId where "VLSSEG3E32_V \<equiv> 324"
abbreviation (input) VLSSEG3E64_V :: OpId where "VLSSEG3E64_V \<equiv> 325"
abbreviation (input) VSSSEG3E8_V :: OpId where "VSSSEG3E8_V \<equiv> 326"
abbreviation (input) VSSSEG3E16_V :: OpId where "VSSSEG3E16_V \<equiv> 327"
abbreviation (input) VSSSEG3E32_V :: OpId where "VSSSEG3E32_V \<equiv> 328"
abbreviation (input) VSSSEG3E64_V :: OpId where "VSSSEG3E64_V \<equiv> 329"
abbreviation (input) VLUXSEG3EI8_V :: OpId where "VLUXSEG3EI8_V \<equiv> 330"
abbreviation (input) VLUXSEG3EI16_V :: OpId where "VLUXSEG3EI16_V \<equiv> 331"
abbreviation (input) VLUXSEG3EI32_V :: OpId where "VLUXSEG3EI32_V \<equiv> 332"
abbreviation (input) VLUXSEG3EI64_V :: OpId where "VLUXSEG3EI64_V \<equiv> 333"
abbreviation (input) VLOXSEG3EI8_V :: OpId where "VLOXSEG3EI8_V \<equiv> 334"
abbreviation (input) VLOXSEG3EI16_V :: OpId where "VLOXSEG3EI16_V \<equiv> 335"
abbreviation (input) VLOXSEG3EI32_V :: OpId where "VLOXSEG3EI32_V \<equiv> 336"
abbreviation (input) VLOXSEG3EI64_V :: OpId where "VLOXSEG3EI64_V \<equiv> 337"
abbreviation (input) VSUXSEG3EI8_V :: OpId where "VSUXSEG3EI8_V \<equiv> 338"
abbreviation (input) VSUXSEG3EI16_V :: OpId where "VSUXSEG3EI16_V \<equiv> 339"
abbreviation (input) VSUXSEG3EI32_V :: OpId where "VSUXSEG3EI32_V \<equiv> 340"
abbreviation (input) VSUXSEG3EI64_V :: OpId where "VSUXSEG3EI64_V \<equiv> 341"
abbreviation (input) VSOXSEG3EI8_V :: OpId where "VSOXSEG3EI8_V \<equiv> 342"
abbreviation (input) VSOXSEG3EI16_V :: OpId where "VSOXSEG3EI16_V \<equiv> 343"
abbreviation (input) VSOXSEG3EI32_V :: OpId where "VSOXSEG3EI32_V \<equiv> 344"
abbreviation (input) VSOXSEG3EI64_V :: OpId where "VSOXSEG3EI64_V \<equiv> 345"
abbreviation (input) VLSEG3E8FF_V :: OpId where "VLSEG3E8FF_V \<equiv> 346"
abbreviation (input) VLSEG3E16FF_V :: OpId where "VLSEG3E16FF_V \<equiv> 347"
abbreviation (input) VLSEG3E32FF_V :: OpId where "VLSEG3E32FF_V \<equiv> 348"
abbreviation (input) VLSEG3E64FF_V :: OpId where "VLSEG3E64FF_V \<equiv> 349"
abbreviation (input) VLSEG4E8_V :: OpId where "VLSEG4E8_V \<equiv> 350"
abbreviation (input) VLSEG4E16_V :: OpId where "VLSEG4E16_V \<equiv> 351"
abbreviation (input) VLSEG4E32_V :: OpId where "VLSEG4E32_V \<equiv> 352"
abbreviation (input) VLSEG4E64_V :: OpId where "VLSEG4E64_V \<equiv> 353"
abbreviation (input) VSSEG4E8_V :: OpId where "VSSEG4E8_V \<equiv> 354"
abbreviation (input) VSSEG4E16_V :: OpId where "VSSEG4E16_V \<equiv> 355"
abbreviation (input) VSSEG4E32_V :: OpId where "VSSEG4E32_V \<equiv> 356"
abbreviation (input) VSSEG4E64_V :: OpId where "VSSEG4E64_V \<equiv> 357"
abbreviation (input) VLSSEG4E8_V :: OpId where "VLSSEG4E8_V \<equiv> 358"
abbreviation (input) VLSSEG4E16_V :: OpId where "VLSSEG4E16_V \<equiv> 359"
abbreviation (input) VLSSEG4E32_V :: OpId where "VLSSEG4E32_V \<equiv> 360"
abbreviation (input) VLSSEG4E64_V :: OpId where "VLSSEG4E64_V \<equiv> 361"
abbreviation (input) VSSSEG4E8_V :: OpId where "VSSSEG4E8_V \<equiv> 362"
abbreviation (input) VSSSEG4E16_V :: OpId where "VSSSEG4E16_V \<equiv> 363"
abbreviation (input) VSSSEG4E32_V :: OpId where "VSSSEG4E32_V \<equiv> 364"
abbreviation (input) VSSSEG4E64_V :: OpId where "VSSSEG4E64_V \<equiv> 365"
abbreviation (input) VLUXSEG4EI8_V :: OpId where "VLUXSEG4EI8_V \<equiv> 366"
abbreviation (input) VLUXSEG4EI16_V :: OpId where "VLUXSEG4EI16_V \<equiv> 367"
abbreviation (input) VLUXSEG4EI32_V :: OpId where "VLUXSEG4EI32_V \<equiv> 368"
abbreviation (input) VLUXSEG4EI64_V :: OpId where "VLUXSEG4EI64_V \<equiv> 369"
abbreviation (input) VLOXSEG4EI8_V :: OpId where "VLOXSEG4EI8_V \<equiv> 370"
abbreviation (input) VLOXSEG4EI16_V :: OpId where "VLOXSEG4EI16_V \<equiv> 371"
abbreviation (input) VLOXSEG4EI32_V :: OpId where "VLOXSEG4EI32_V \<equiv> 372"
abbreviation (input) VLOXSEG4EI64_V :: OpId where "VLOXSEG4EI64_V \<equiv> 373"
abbreviation (input) VSUXSEG4EI8_V :: OpId where "VSUXSEG4EI8_V \<equiv> 374"
abbreviation (input) VSUXSEG4EI16_V :: OpId where "VSUXSEG4EI16_V \<equiv> 375"
abbreviation (input) VSUXSEG4EI32_V :: OpId where "VSUXSEG4EI32_V \<equiv> 376"
abbreviation (input) VSUXSEG4EI64_V :: OpId where "VSUXSEG4EI64_V \<equiv> 377"
abbreviation (input) VSOXSEG4EI8_V :: OpId where "VSOXSEG4EI8_V \<equiv> 378"
abbreviation (input) VSOXSEG4EI16_V :: OpId where "VSOXSEG4EI16_V \<equiv> 379"
abbreviation (input) VSOXSEG4EI32_V :: OpId where "VSOXSEG4EI32_V \<equiv> 380"
abbreviation (input) VSOXSEG4EI64_V :: OpId where "VSOXSEG4EI64_V \<equiv> 381"
abbreviation (input) VLSEG4E8FF_V :: OpId where "VLSEG4E8FF_V \<equiv> 382"
abbreviation (input) VLSEG4E16FF_V :: OpId where "VLSEG4E16FF_V \<equiv> 383"
abbreviation (input) VLSEG4E32FF_V :: OpId where "VLSEG4E32FF_V \<equiv> 384"
abbreviation (input) VLSEG4E64FF_V :: OpId where "VLSEG4E64FF_V \<equiv> 385"
abbreviation (input) VLSEG5E8_V :: OpId where "VLSEG5E8_V \<equiv> 386"
abbreviation (input) VLSEG5E16_V :: OpId where "VLSEG5E16_V \<equiv> 387"
abbreviation (input) VLSEG5E32_V :: OpId where "VLSEG5E32_V \<equiv> 388"
abbreviation (input) VLSEG5E64_V :: OpId where "VLSEG5E64_V \<equiv> 389"
abbreviation (input) VSSEG5E8_V :: OpId where "VSSEG5E8_V \<equiv> 390"
abbreviation (input) VSSEG5E16_V :: OpId where "VSSEG5E16_V \<equiv> 391"
abbreviation (input) VSSEG5E32_V :: OpId where "VSSEG5E32_V \<equiv> 392"
abbreviation (input) VSSEG5E64_V :: OpId where "VSSEG5E64_V \<equiv> 393"
abbreviation (input) VLSSEG5E8_V :: OpId where "VLSSEG5E8_V \<equiv> 394"
abbreviation (input) VLSSEG5E16_V :: OpId where "VLSSEG5E16_V \<equiv> 395"
abbreviation (input) VLSSEG5E32_V :: OpId where "VLSSEG5E32_V \<equiv> 396"
abbreviation (input) VLSSEG5E64_V :: OpId where "VLSSEG5E64_V \<equiv> 397"
abbreviation (input) VSSSEG5E8_V :: OpId where "VSSSEG5E8_V \<equiv> 398"
abbreviation (input) VSSSEG5E16_V :: OpId where "VSSSEG5E16_V \<equiv> 399"
abbreviation (input) VSSSEG5E32_V :: OpId where "VSSSEG5E32_V \<equiv> 400"
abbreviation (input) VSSSEG5E64_V :: OpId where "VSSSEG5E64_V \<equiv> 401"
abbreviation (input) VLUXSEG5EI8_V :: OpId where "VLUXSEG5EI8_V \<equiv> 402"
abbreviation (input) VLUXSEG5EI16_V :: OpId where "VLUXSEG5EI16_V \<equiv> 403"
abbreviation (input) VLUXSEG5EI32_V :: OpId where "VLUXSEG5EI32_V \<equiv> 404"
abbreviation (input) VLUXSEG5EI64_V :: OpId where "VLUXSEG5EI64_V \<equiv> 405"
abbreviation (input) VLOXSEG5EI8_V :: OpId where "VLOXSEG5EI8_V \<equiv> 406"
abbreviation (input) VLOXSEG5EI16_V :: OpId where "VLOXSEG5EI16_V \<equiv> 407"
abbreviation (input) VLOXSEG5EI32_V :: OpId where "VLOXSEG5EI32_V \<equiv> 408"
abbreviation (input) VLOXSEG5EI64_V :: OpId where "VLOXSEG5EI64_V \<equiv> 409"
abbreviation (input) VSUXSEG5EI8_V :: OpId where "VSUXSEG5EI8_V \<equiv> 410"
abbreviation (input) VSUXSEG5EI16_V :: OpId where "VSUXSEG5EI16_V \<equiv> 411"
abbreviation (input) VSUXSEG5EI32_V :: OpId where "VSUXSEG5EI32_V \<equiv> 412"
abbreviation (input) VSUXSEG5EI64_V :: OpId where "VSUXSEG5EI64_V \<equiv> 413"
abbreviation (input) VSOXSEG5EI8_V :: OpId where "VSOXSEG5EI8_V \<equiv> 414"
abbreviation (input) VSOXSEG5EI16_V :: OpId where "VSOXSEG5EI16_V \<equiv> 415"
abbreviation (input) VSOXSEG5EI32_V :: OpId where "VSOXSEG5EI32_V \<equiv> 416"
abbreviation (input) VSOXSEG5EI64_V :: OpId where "VSOXSEG5EI64_V \<equiv> 417"
abbreviation (input) VLSEG5E8FF_V :: OpId where "VLSEG5E8FF_V \<equiv> 418"
abbreviation (input) VLSEG5E16FF_V :: OpId where "VLSEG5E16FF_V \<equiv> 419"
abbreviation (input) VLSEG5E32FF_V :: OpId where "VLSEG5E32FF_V \<equiv> 420"
abbreviation (input) VLSEG5E64FF_V :: OpId where "VLSEG5E64FF_V \<equiv> 421"
abbreviation (input) VLSEG6E8_V :: OpId where "VLSEG6E8_V \<equiv> 422"
abbreviation (input) VLSEG6E16_V :: OpId where "VLSEG6E16_V \<equiv> 423"
abbreviation (input) VLSEG6E32_V :: OpId where "VLSEG6E32_V \<equiv> 424"
abbreviation (input) VLSEG6E64_V :: OpId where "VLSEG6E64_V \<equiv> 425"
abbreviation (input) VSSEG6E8_V :: OpId where "VSSEG6E8_V \<equiv> 426"
abbreviation (input) VSSEG6E16_V :: OpId where "VSSEG6E16_V \<equiv> 427"
abbreviation (input) VSSEG6E32_V :: OpId where "VSSEG6E32_V \<equiv> 428"
abbreviation (input) VSSEG6E64_V :: OpId where "VSSEG6E64_V \<equiv> 429"
abbreviation (input) VLSSEG6E8_V :: OpId where "VLSSEG6E8_V \<equiv> 430"
abbreviation (input) VLSSEG6E16_V :: OpId where "VLSSEG6E16_V \<equiv> 431"
abbreviation (input) VLSSEG6E32_V :: OpId where "VLSSEG6E32_V \<equiv> 432"
abbreviation (input) VLSSEG6E64_V :: OpId where "VLSSEG6E64_V \<equiv> 433"
abbreviation (input) VSSSEG6E8_V :: OpId where "VSSSEG6E8_V \<equiv> 434"
abbreviation (input) VSSSEG6E16_V :: OpId where "VSSSEG6E16_V \<equiv> 435"
abbreviation (input) VSSSEG6E32_V :: OpId where "VSSSEG6E32_V \<equiv> 436"
abbreviation (input) VSSSEG6E64_V :: OpId where "VSSSEG6E64_V \<equiv> 437"
abbreviation (input) VLUXSEG6EI8_V :: OpId where "VLUXSEG6EI8_V \<equiv> 438"
abbreviation (input) VLUXSEG6EI16_V :: OpId where "VLUXSEG6EI16_V \<equiv> 439"
abbreviation (input) VLUXSEG6EI32_V :: OpId where "VLUXSEG6EI32_V \<equiv> 440"
abbreviation (input) VLUXSEG6EI64_V :: OpId where "VLUXSEG6EI64_V \<equiv> 441"
abbreviation (input) VLOXSEG6EI8_V :: OpId where "VLOXSEG6EI8_V \<equiv> 442"
abbreviation (input) VLOXSEG6EI16_V :: OpId where "VLOXSEG6EI16_V \<equiv> 443"
abbreviation (input) VLOXSEG6EI32_V :: OpId where "VLOXSEG6EI32_V \<equiv> 444"
abbreviation (input) VLOXSEG6EI64_V :: OpId where "VLOXSEG6EI64_V \<equiv> 445"
abbreviation (input) VSUXSEG6EI8_V :: OpId where "VSUXSEG6EI8_V \<equiv> 446"
abbreviation (input) VSUXSEG6EI16_V :: OpId where "VSUXSEG6EI16_V \<equiv> 447"
abbreviation (input) VSUXSEG6EI32_V :: OpId where "VSUXSEG6EI32_V \<equiv> 448"
abbreviation (input) VSUXSEG6EI64_V :: OpId where "VSUXSEG6EI64_V \<equiv> 449"
abbreviation (input) VSOXSEG6EI8_V :: OpId where "VSOXSEG6EI8_V \<equiv> 450"
abbreviation (input) VSOXSEG6EI16_V :: OpId where "VSOXSEG6EI16_V \<equiv> 451"
abbreviation (input) VSOXSEG6EI32_V :: OpId where "VSOXSEG6EI32_V \<equiv> 452"
abbreviation (input) VSOXSEG6EI64_V :: OpId where "VSOXSEG6EI64_V \<equiv> 453"
abbreviation (input) VLSEG6E8FF_V :: OpId where "VLSEG6E8FF_V \<equiv> 454"
abbreviation (input) VLSEG6E16FF_V :: OpId where "VLSEG6E16FF_V \<equiv> 455"
abbreviation (input) VLSEG6E32FF_V :: OpId where "VLSEG6E32FF_V \<equiv> 456"
abbreviation (input) VLSEG6E64FF_V :: OpId where "VLSEG6E64FF_V \<equiv> 457"
abbreviation (input) VLSEG7E8_V :: OpId where "VLSEG7E8_V \<equiv> 458"
abbreviation (input) VLSEG7E16_V :: OpId where "VLSEG7E16_V \<equiv> 459"
abbreviation (input) VLSEG7E32_V :: OpId where "VLSEG7E32_V \<equiv> 460"
abbreviation (input) VLSEG7E64_V :: OpId where "VLSEG7E64_V \<equiv> 461"
abbreviation (input) VSSEG7E8_V :: OpId where "VSSEG7E8_V \<equiv> 462"
abbreviation (input) VSSEG7E16_V :: OpId where "VSSEG7E16_V \<equiv> 463"
abbreviation (input) VSSEG7E32_V :: OpId where "VSSEG7E32_V \<equiv> 464"
abbreviation (input) VSSEG7E64_V :: OpId where "VSSEG7E64_V \<equiv> 465"
abbreviation (input) VLSSEG7E8_V :: OpId where "VLSSEG7E8_V \<equiv> 466"
abbreviation (input) VLSSEG7E16_V :: OpId where "VLSSEG7E16_V \<equiv> 467"
abbreviation (input) VLSSEG7E32_V :: OpId where "VLSSEG7E32_V \<equiv> 468"
abbreviation (input) VLSSEG7E64_V :: OpId where "VLSSEG7E64_V \<equiv> 469"
abbreviation (input) VSSSEG7E8_V :: OpId where "VSSSEG7E8_V \<equiv> 470"
abbreviation (input) VSSSEG7E16_V :: OpId where "VSSSEG7E16_V \<equiv> 471"
abbreviation (input) VSSSEG7E32_V :: OpId where "VSSSEG7E32_V \<equiv> 472"
abbreviation (input) VSSSEG7E64_V :: OpId where "VSSSEG7E64_V \<equiv> 473"
abbreviation (input) VLUXSEG7EI8_V :: OpId where "VLUXSEG7EI8_V \<equiv> 474"
abbreviation (input) VLUXSEG7EI16_V :: OpId where "VLUXSEG7EI16_V \<equiv> 475"
abbreviation (input) VLUXSEG7EI32_V :: OpId where "VLUXSEG7EI32_V \<equiv> 476"
abbreviation (input) VLUXSEG7EI64_V :: OpId where "VLUXSEG7EI64_V \<equiv> 477"
abbreviation (input) VLOXSEG7EI8_V :: OpId where "VLOXSEG7EI8_V \<equiv> 478"
abbreviation (input) VLOXSEG7EI16_V :: OpId where "VLOXSEG7EI16_V \<equiv> 479"
abbreviation (input) VLOXSEG7EI32_V :: OpId where "VLOXSEG7EI32_V \<equiv> 480"
abbreviation (input) VLOXSEG7EI64_V :: OpId where "VLOXSEG7EI64_V \<equiv> 481"
abbreviation (input) VSUXSEG7EI8_V :: OpId where "VSUXSEG7EI8_V \<equiv> 482"
abbreviation (input) VSUXSEG7EI16_V :: OpId where "VSUXSEG7EI16_V \<equiv> 483"
abbreviation (input) VSUXSEG7EI32_V :: OpId where "VSUXSEG7EI32_V \<equiv> 484"
abbreviation (input) VSUXSEG7EI64_V :: OpId where "VSUXSEG7EI64_V \<equiv> 485"
abbreviation (input) VSOXSEG7EI8_V :: OpId where "VSOXSEG7EI8_V \<equiv> 486"
abbreviation (input) VSOXSEG7EI16_V :: OpId where "VSOXSEG7EI16_V \<equiv> 487"
abbreviation (input) VSOXSEG7EI32_V :: OpId where "VSOXSEG7EI32_V \<equiv> 488"
abbreviation (input) VSOXSEG7EI64_V :: OpId where "VSOXSEG7EI64_V \<equiv> 489"
abbreviation (input) VLSEG7E8FF_V :: OpId where "VLSEG7E8FF_V \<equiv> 490"
abbreviation (input) VLSEG7E16FF_V :: OpId where "VLSEG7E16FF_V \<equiv> 491"
abbreviation (input) VLSEG7E32FF_V :: OpId where "VLSEG7E32FF_V \<equiv> 492"
abbreviation (input) VLSEG7E64FF_V :: OpId where "VLSEG7E64FF_V \<equiv> 493"
abbreviation (input) VLSEG8E8_V :: OpId where "VLSEG8E8_V \<equiv> 494"
abbreviation (input) VLSEG8E16_V :: OpId where "VLSEG8E16_V \<equiv> 495"
abbreviation (input) VLSEG8E32_V :: OpId where "VLSEG8E32_V \<equiv> 496"
abbreviation (input) VLSEG8E64_V :: OpId where "VLSEG8E64_V \<equiv> 497"
abbreviation (input) VSSEG8E8_V :: OpId where "VSSEG8E8_V \<equiv> 498"
abbreviation (input) VSSEG8E16_V :: OpId where "VSSEG8E16_V \<equiv> 499"
abbreviation (input) VSSEG8E32_V :: OpId where "VSSEG8E32_V \<equiv> 500"
abbreviation (input) VSSEG8E64_V :: OpId where "VSSEG8E64_V \<equiv> 501"
abbreviation (input) VLSSEG8E8_V :: OpId where "VLSSEG8E8_V \<equiv> 502"
abbreviation (input) VLSSEG8E16_V :: OpId where "VLSSEG8E16_V \<equiv> 503"
abbreviation (input) VLSSEG8E32_V :: OpId where "VLSSEG8E32_V \<equiv> 504"
abbreviation (input) VLSSEG8E64_V :: OpId where "VLSSEG8E64_V \<equiv> 505"
abbreviation (input) VSSSEG8E8_V :: OpId where "VSSSEG8E8_V \<equiv> 506"
abbreviation (input) VSSSEG8E16_V :: OpId where "VSSSEG8E16_V \<equiv> 507"
abbreviation (input) VSSSEG8E32_V :: OpId where "VSSSEG8E32_V \<equiv> 508"
abbreviation (input) VSSSEG8E64_V :: OpId where "VSSSEG8E64_V \<equiv> 509"
abbreviation (input) VLUXSEG8EI8_V :: OpId where "VLUXSEG8EI8_V \<equiv> 510"
abbreviation (input) VLUXSEG8EI16_V :: OpId where "VLUXSEG8EI16_V \<equiv> 511"
abbreviation (input) VLUXSEG8EI32_V :: OpId where "VLUXSEG8EI32_V \<equiv> 512"
abbreviation (input) VLUXSEG8EI64_V :: OpId where "VLUXSEG8EI64_V \<equiv> 513"
abbreviation (input) VLOXSEG8EI8_V :: OpId where "VLOXSEG8EI8_V \<equiv> 514"
abbreviation (input) VLOXSEG8EI16_V :: OpId where "VLOXSEG8EI16_V \<equiv> 515"
abbreviation (input) VLOXSEG8EI32_V :: OpId where "VLOXSEG8EI32_V \<equiv> 516"
abbreviation (input) VLOXSEG8EI64_V :: OpId where "VLOXSEG8EI64_V \<equiv> 517"
abbreviation (input) VSUXSEG8EI8_V :: OpId where "VSUXSEG8EI8_V \<equiv> 518"
abbreviation (input) VSUXSEG8EI16_V :: OpId where "VSUXSEG8EI16_V \<equiv> 519"
abbreviation (input) VSUXSEG8EI32_V :: OpId where "VSUXSEG8EI32_V \<equiv> 520"
abbreviation (input) VSUXSEG8EI64_V :: OpId where "VSUXSEG8EI64_V \<equiv> 521"
abbreviation (input) VSOXSEG8EI8_V :: OpId where "VSOXSEG8EI8_V \<equiv> 522"
abbreviation (input) VSOXSEG8EI16_V :: OpId where "VSOXSEG8EI16_V \<equiv> 523"
abbreviation (input) VSOXSEG8EI32_V :: OpId where "VSOXSEG8EI32_V \<equiv> 524"
abbreviation (input) VSOXSEG8EI64_V :: OpId where "VSOXSEG8EI64_V \<equiv> 525"
abbreviation (input) VLSEG8E8FF_V :: OpId where "VLSEG8E8FF_V \<equiv> 526"
abbreviation (input) VLSEG8E16FF_V :: OpId where "VLSEG8E16FF_V \<equiv> 527"
abbreviation (input) VLSEG8E32FF_V :: OpId where "VLSEG8E32FF_V \<equiv> 528"
abbreviation (input) VLSEG8E64FF_V :: OpId where "VLSEG8E64FF_V \<equiv> 529"
abbreviation (input) VL1RE8_V :: OpId where "VL1RE8_V \<equiv> 530"
abbreviation (input) VL1RE16_V :: OpId where "VL1RE16_V \<equiv> 531"
abbreviation (input) VL1RE32_V :: OpId where "VL1RE32_V \<equiv> 532"
abbreviation (input) VL1RE64_V :: OpId where "VL1RE64_V \<equiv> 533"
abbreviation (input) VS1R_V :: OpId where "VS1R_V \<equiv> 534"
abbreviation (input) VL2RE8_V :: OpId where "VL2RE8_V \<equiv> 535"
abbreviation (input) VL2RE16_V :: OpId where "VL2RE16_V \<equiv> 536"
abbreviation (input) VL2RE32_V :: OpId where "VL2RE32_V \<equiv> 537"
abbreviation (input) VL2RE64_V :: OpId where "VL2RE64_V \<equiv> 538"
abbreviation (input) VS2R_V :: OpId where "VS2R_V \<equiv> 539"
abbreviation (input) VL4RE8_V :: OpId where "VL4RE8_V \<equiv> 540"
abbreviation (input) VL4RE16_V :: OpId where "VL4RE16_V \<equiv> 541"
abbreviation (input) VL4RE32_V :: OpId where "VL4RE32_V \<equiv> 542"
abbreviation (input) VL4RE64_V :: OpId where "VL4RE64_V \<equiv> 543"
abbreviation (input) VS4R_V :: OpId where "VS4R_V \<equiv> 544"
abbreviation (input) VL8RE8_V :: OpId where "VL8RE8_V \<equiv> 545"
abbreviation (input) VL8RE16_V :: OpId where "VL8RE16_V \<equiv> 546"
abbreviation (input) VL8RE32_V :: OpId where "VL8RE32_V \<equiv> 547"
abbreviation (input) VL8RE64_V :: OpId where "VL8RE64_V \<equiv> 548"
abbreviation (input) VS8R_V :: OpId where "VS8R_V \<equiv> 549"
abbreviation (input) VADD_VV :: OpId where "VADD_VV \<equiv> 550"
abbreviation (input) VADD_VI :: OpId where "VADD_VI \<equiv> 551"
abbreviation (input) VADD_VX :: OpId where "VADD_VX \<equiv> 552"
abbreviation (input) VSUB_VV :: OpId where "VSUB_VV \<equiv> 553"
abbreviation (input) VSUB_VX :: OpId where "VSUB_VX \<equiv> 554"
abbreviation (input) VRSUB_VX :: OpId where "VRSUB_VX \<equiv> 555"
abbreviation (input) VRSUB_VI :: OpId where "VRSUB_VI \<equiv> 556"
abbreviation (input) VWADD_VV :: OpId where "VWADD_VV \<equiv> 557"
abbreviation (input) VWADD_VX :: OpId where "VWADD_VX \<equiv> 558"
abbreviation (input) VWSUB_VV :: OpId where "VWSUB_VV \<equiv> 559"
abbreviation (input) VWSUB_VX :: OpId where "VWSUB_VX \<equiv> 560"
abbreviation (input) VWADDU_VV :: OpId where "VWADDU_VV \<equiv> 561"
abbreviation (input) VWADDU_VX :: OpId where "VWADDU_VX \<equiv> 562"
abbreviation (input) VWSUBU_VV :: OpId where "VWSUBU_VV \<equiv> 563"
abbreviation (input) VWSUBU_VX :: OpId where "VWSUBU_VX \<equiv> 564"
abbreviation (input) VWADD_WV :: OpId where "VWADD_WV \<equiv> 565"
abbreviation (input) VWADD_WX :: OpId where "VWADD_WX \<equiv> 566"
abbreviation (input) VWSUB_WV :: OpId where "VWSUB_WV \<equiv> 567"
abbreviation (input) VWSUB_WX :: OpId where "VWSUB_WX \<equiv> 568"
abbreviation (input) VWADDU_WV :: OpId where "VWADDU_WV \<equiv> 569"
abbreviation (input) VWADDU_WX :: OpId where "VWADDU_WX \<equiv> 570"
abbreviation (input) VWSUBU_WV :: OpId where "VWSUBU_WV \<equiv> 571"
abbreviation (input) VWSUBU_WX :: OpId where "VWSUBU_WX \<equiv> 572"
abbreviation (input) VZEXT_VF2 :: OpId where "VZEXT_VF2 \<equiv> 573"
abbreviation (input) VSEXT_VF2 :: OpId where "VSEXT_VF2 \<equiv> 574"
abbreviation (input) VZEXT_VF4 :: OpId where "VZEXT_VF4 \<equiv> 575"
abbreviation (input) VSEXT_VF4 :: OpId where "VSEXT_VF4 \<equiv> 576"
abbreviation (input) VZEXT_VF8 :: OpId where "VZEXT_VF8 \<equiv> 577"
abbreviation (input) VSEXT_VF8 :: OpId where "VSEXT_VF8 \<equiv> 578"
abbreviation (input) VADC_VVM :: OpId where "VADC_VVM \<equiv> 579"
abbreviation (input) VADC_VXM :: OpId where "VADC_VXM \<equiv> 580"
abbreviation (input) VADC_VIM :: OpId where "VADC_VIM \<equiv> 581"
abbreviation (input) VMADC_VVM :: OpId where "VMADC_VVM \<equiv> 582"
abbreviation (input) VMADC_VXM :: OpId where "VMADC_VXM \<equiv> 583"
abbreviation (input) VMADC_VIM :: OpId where "VMADC_VIM \<equiv> 584"
abbreviation (input) VMADC_VV :: OpId where "VMADC_VV \<equiv> 585"
abbreviation (input) VMADC_VX :: OpId where "VMADC_VX \<equiv> 586"
abbreviation (input) VMADC_VI :: OpId where "VMADC_VI \<equiv> 587"
abbreviation (input) VSBC_VVM :: OpId where "VSBC_VVM \<equiv> 588"
abbreviation (input) VSBC_VXM :: OpId where "VSBC_VXM \<equiv> 589"
abbreviation (input) VMSBC_VVM :: OpId where "VMSBC_VVM \<equiv> 590"
abbreviation (input) VMSBC_VXM :: OpId where "VMSBC_VXM \<equiv> 591"
abbreviation (input) VMSBC_VV :: OpId where "VMSBC_VV \<equiv> 592"
abbreviation (input) VMSBC_VX :: OpId where "VMSBC_VX \<equiv> 593"
abbreviation (input) VAND_VI :: OpId where "VAND_VI \<equiv> 594"
abbreviation (input) VAND_VV :: OpId where "VAND_VV \<equiv> 595"
abbreviation (input) VAND_VX :: OpId where "VAND_VX \<equiv> 596"
abbreviation (input) VOR_VV :: OpId where "VOR_VV \<equiv> 597"
abbreviation (input) VOR_VI :: OpId where "VOR_VI \<equiv> 598"
abbreviation (input) VOR_VX :: OpId where "VOR_VX \<equiv> 599"
abbreviation (input) VXOR_VV :: OpId where "VXOR_VV \<equiv> 600"
abbreviation (input) VXOR_VI :: OpId where "VXOR_VI \<equiv> 601"
abbreviation (input) VXOR_VX :: OpId where "VXOR_VX \<equiv> 602"
abbreviation (input) VSLL_VI :: OpId where "VSLL_VI \<equiv> 603"
abbreviation (input) VSLL_VV :: OpId where "VSLL_VV \<equiv> 604"
abbreviation (input) VSLL_VX :: OpId where "VSLL_VX \<equiv> 605"
abbreviation (input) VSRL_VV :: OpId where "VSRL_VV \<equiv> 606"
abbreviation (input) VSRL_VI :: OpId where "VSRL_VI \<equiv> 607"
abbreviation (input) VSRL_VX :: OpId where "VSRL_VX \<equiv> 608"
abbreviation (input) VSRA_VV :: OpId where "VSRA_VV \<equiv> 609"
abbreviation (input) VSRA_VI :: OpId where "VSRA_VI \<equiv> 610"
abbreviation (input) VSRA_VX :: OpId where "VSRA_VX \<equiv> 611"
abbreviation (input) VNSRL_WV :: OpId where "VNSRL_WV \<equiv> 612"
abbreviation (input) VNSRL_WI :: OpId where "VNSRL_WI \<equiv> 613"
abbreviation (input) VNSRL_WX :: OpId where "VNSRL_WX \<equiv> 614"
abbreviation (input) VNSRA_WV :: OpId where "VNSRA_WV \<equiv> 615"
abbreviation (input) VNSRA_WI :: OpId where "VNSRA_WI \<equiv> 616"
abbreviation (input) VNSRA_WX :: OpId where "VNSRA_WX \<equiv> 617"
abbreviation (input) VMSEQ_VV :: OpId where "VMSEQ_VV \<equiv> 618"
abbreviation (input) VMSEQ_VX :: OpId where "VMSEQ_VX \<equiv> 619"
abbreviation (input) VMSEQ_VI :: OpId where "VMSEQ_VI \<equiv> 620"
abbreviation (input) VMSNE_VV :: OpId where "VMSNE_VV \<equiv> 621"
abbreviation (input) VMSNE_VX :: OpId where "VMSNE_VX \<equiv> 622"
abbreviation (input) VMSNE_VI :: OpId where "VMSNE_VI \<equiv> 623"
abbreviation (input) VMSLTU_VV :: OpId where "VMSLTU_VV \<equiv> 624"
abbreviation (input) VMSLTU_VX :: OpId where "VMSLTU_VX \<equiv> 625"
abbreviation (input) VMSLT_VV :: OpId where "VMSLT_VV \<equiv> 626"
abbreviation (input) VMSLT_VX :: OpId where "VMSLT_VX \<equiv> 627"
abbreviation (input) VMSLEU_VV :: OpId where "VMSLEU_VV \<equiv> 628"
abbreviation (input) VMSLEU_VX :: OpId where "VMSLEU_VX \<equiv> 629"
abbreviation (input) VMSLEU_VI :: OpId where "VMSLEU_VI \<equiv> 630"
abbreviation (input) VMSLE_VV :: OpId where "VMSLE_VV \<equiv> 631"
abbreviation (input) VMSLE_VX :: OpId where "VMSLE_VX \<equiv> 632"
abbreviation (input) VMSLE_VI :: OpId where "VMSLE_VI \<equiv> 633"
abbreviation (input) VMSGTU_VX :: OpId where "VMSGTU_VX \<equiv> 634"
abbreviation (input) VMSGTU_VI :: OpId where "VMSGTU_VI \<equiv> 635"
abbreviation (input) VMSGT_VX :: OpId where "VMSGT_VX \<equiv> 636"
abbreviation (input) VMSGT_VI :: OpId where "VMSGT_VI \<equiv> 637"
abbreviation (input) VMINU_VV :: OpId where "VMINU_VV \<equiv> 638"
abbreviation (input) VMINU_VX :: OpId where "VMINU_VX \<equiv> 639"
abbreviation (input) VMIN_VV :: OpId where "VMIN_VV \<equiv> 640"
abbreviation (input) VMIN_VX :: OpId where "VMIN_VX \<equiv> 641"
abbreviation (input) VMAXU_VV :: OpId where "VMAXU_VV \<equiv> 642"
abbreviation (input) VMAXU_VX :: OpId where "VMAXU_VX \<equiv> 643"
abbreviation (input) VMAX_VV :: OpId where "VMAX_VV \<equiv> 644"
abbreviation (input) VMAX_VX :: OpId where "VMAX_VX \<equiv> 645"
abbreviation (input) VMUL_VV :: OpId where "VMUL_VV \<equiv> 646"
abbreviation (input) VMUL_VX :: OpId where "VMUL_VX \<equiv> 647"
abbreviation (input) VMULH_VV :: OpId where "VMULH_VV \<equiv> 648"
abbreviation (input) VMULH_VX :: OpId where "VMULH_VX \<equiv> 649"
abbreviation (input) VMULHU_VV :: OpId where "VMULHU_VV \<equiv> 650"
abbreviation (input) VMULHU_VX :: OpId where "VMULHU_VX \<equiv> 651"
abbreviation (input) VMULHSU_VV :: OpId where "VMULHSU_VV \<equiv> 652"
abbreviation (input) VMULHSU_VX :: OpId where "VMULHSU_VX \<equiv> 653"
abbreviation (input) VDIVU_VV :: OpId where "VDIVU_VV \<equiv> 654"
abbreviation (input) VDIVU_VX :: OpId where "VDIVU_VX \<equiv> 655"
abbreviation (input) VDIV_VV :: OpId where "VDIV_VV \<equiv> 656"
abbreviation (input) VDIV_VX :: OpId where "VDIV_VX \<equiv> 657"
abbreviation (input) VREMU_VV :: OpId where "VREMU_VV \<equiv> 658"
abbreviation (input) VREMU_VX :: OpId where "VREMU_VX \<equiv> 659"
abbreviation (input) VREM_VV :: OpId where "VREM_VV \<equiv> 660"
abbreviation (input) VREM_VX :: OpId where "VREM_VX \<equiv> 661"
abbreviation (input) VWMUL_VV :: OpId where "VWMUL_VV \<equiv> 662"
abbreviation (input) VWMUL_VX :: OpId where "VWMUL_VX \<equiv> 663"
abbreviation (input) VWMULU_VV :: OpId where "VWMULU_VV \<equiv> 664"
abbreviation (input) VWMULU_VX :: OpId where "VWMULU_VX \<equiv> 665"
abbreviation (input) VWMULSU_VV :: OpId where "VWMULSU_VV \<equiv> 666"
abbreviation (input) VWMULSU_VX :: OpId where "VWMULSU_VX \<equiv> 667"
abbreviation (input) VMACC_VV :: OpId where "VMACC_VV \<equiv> 668"
abbreviation (input) VMACC_VX :: OpId where "VMACC_VX \<equiv> 669"
abbreviation (input) VNMSAC_VV :: OpId where "VNMSAC_VV \<equiv> 670"
abbreviation (input) VNMSAC_VX :: OpId where "VNMSAC_VX \<equiv> 671"
abbreviation (input) VMADD_VV :: OpId where "VMADD_VV \<equiv> 672"
abbreviation (input) VMADD_VX :: OpId where "VMADD_VX \<equiv> 673"
abbreviation (input) VNMSUB_VV :: OpId where "VNMSUB_VV \<equiv> 674"
abbreviation (input) VNMSUB_VX :: OpId where "VNMSUB_VX \<equiv> 675"
abbreviation (input) VWMACCU_VV :: OpId where "VWMACCU_VV \<equiv> 676"
abbreviation (input) VWMACCU_VX :: OpId where "VWMACCU_VX \<equiv> 677"
abbreviation (input) VWMACC_VV :: OpId where "VWMACC_VV \<equiv> 678"
abbreviation (input) VWMACC_VX :: OpId where "VWMACC_VX \<equiv> 679"
abbreviation (input) VWMACCSU_VV :: OpId where "VWMACCSU_VV \<equiv> 680"
abbreviation (input) VWMACCSU_VX :: OpId where "VWMACCSU_VX \<equiv> 681"
abbreviation (input) VWMACCUS_VX :: OpId where "VWMACCUS_VX \<equiv> 682"
abbreviation (input) VMERGE_VVM :: OpId where "VMERGE_VVM \<equiv> 683"
abbreviation (input) VMERGE_VXM :: OpId where "VMERGE_VXM \<equiv> 684"
abbreviation (input) VMERGE_VIM :: OpId where "VMERGE_VIM \<equiv> 685"
abbreviation (input) VMV_V_V :: OpId where "VMV_V_V \<equiv> 686"
abbreviation (input) VMV_V_X :: OpId where "VMV_V_X \<equiv> 687"
abbreviation (input) VMV_V_I :: OpId where "VMV_V_I \<equiv> 688"
abbreviation (input) VSADDU_VV :: OpId where "VSADDU_VV \<equiv> 689"
abbreviation (input) VSADDU_VX :: OpId where "VSADDU_VX \<equiv> 690"
abbreviation (input) VSADDU_VI :: OpId where "VSADDU_VI \<equiv> 691"
abbreviation (input) VSADD_VV :: OpId where "VSADD_VV \<equiv> 692"
abbreviation (input) VSADD_VX :: OpId where "VSADD_VX \<equiv> 693"
abbreviation (input) VSADD_VI :: OpId where "VSADD_VI \<equiv> 694"
abbreviation (input) VSSUBU_VV :: OpId where "VSSUBU_VV \<equiv> 695"
abbreviation (input) VSSUBU_VX :: OpId where "VSSUBU_VX \<equiv> 696"
abbreviation (input) VSSUB_VV :: OpId where "VSSUB_VV \<equiv> 697"
abbreviation (input) VSSUB_VX :: OpId where "VSSUB_VX \<equiv> 698"
abbreviation (input) VAADDU_VV :: OpId where "VAADDU_VV \<equiv> 699"
abbreviation (input) VAADDU_VX :: OpId where "VAADDU_VX \<equiv> 700"
abbreviation (input) VAADD_VV :: OpId where "VAADD_VV \<equiv> 701"
abbreviation (input) VAADD_VX :: OpId where "VAADD_VX \<equiv> 702"
abbreviation (input) VASUBU_VV :: OpId where "VASUBU_VV \<equiv> 703"
abbreviation (input) VASUBU_VX :: OpId where "VASUBU_VX \<equiv> 704"
abbreviation (input) VASUB_VV :: OpId where "VASUB_VV \<equiv> 705"
abbreviation (input) VASUB_VX :: OpId where "VASUB_VX \<equiv> 706"
abbreviation (input) VSMUL_VV :: OpId where "VSMUL_VV \<equiv> 707"
abbreviation (input) VSMUL_VX :: OpId where "VSMUL_VX \<equiv> 708"
abbreviation (input) VSSRL_VV :: OpId where "VSSRL_VV \<equiv> 709"
abbreviation (input) VSSRL_VX :: OpId where "VSSRL_VX \<equiv> 710"
abbreviation (input) VSSRL_VI :: OpId where "VSSRL_VI \<equiv> 711"
abbreviation (input) VSSRA_VV :: OpId where "VSSRA_VV \<equiv> 712"
abbreviation (input) VSSRA_VX :: OpId where "VSSRA_VX \<equiv> 713"
abbreviation (input) VSSRA_VI :: OpId where "VSSRA_VI \<equiv> 714"
abbreviation (input) VNCLIPU_WV :: OpId where "VNCLIPU_WV \<equiv> 715"
abbreviation (input) VNCLIPU_WX :: OpId where "VNCLIPU_WX \<equiv> 716"
abbreviation (input) VNCLIPU_WI :: OpId where "VNCLIPU_WI \<equiv> 717"
abbreviation (input) VNCLIP_WV :: OpId where "VNCLIP_WV \<equiv> 718"
abbreviation (input) VNCLIP_WX :: OpId where "VNCLIP_WX \<equiv> 719"
abbreviation (input) VNCLIP_WI :: OpId where "VNCLIP_WI \<equiv> 720"
abbreviation (input) VFADD_VV :: OpId where "VFADD_VV \<equiv> 721"
abbreviation (input) VFADD_VF :: OpId where "VFADD_VF \<equiv> 722"
abbreviation (input) VFSUB_VV :: OpId where "VFSUB_VV \<equiv> 723"
abbreviation (input) VFSUB_VF :: OpId where "VFSUB_VF \<equiv> 724"
abbreviation (input) VFRSUB_VF :: OpId where "VFRSUB_VF \<equiv> 725"
abbreviation (input) VFWADD_VV :: OpId where "VFWADD_VV \<equiv> 726"
abbreviation (input) VFWADD_VF :: OpId where "VFWADD_VF \<equiv> 727"
abbreviation (input) VFWSUB_VV :: OpId where "VFWSUB_VV \<equiv> 728"
abbreviation (input) VFWSUB_VF :: OpId where "VFWSUB_VF \<equiv> 729"
abbreviation (input) VFWADD_WV :: OpId where "VFWADD_WV \<equiv> 730"
abbreviation (input) VFWADD_WF :: OpId where "VFWADD_WF \<equiv> 731"
abbreviation (input) VFWSUB_WV :: OpId where "VFWSUB_WV \<equiv> 732"
abbreviation (input) VFWSUB_WF :: OpId where "VFWSUB_WF \<equiv> 733"
abbreviation (input) VFMUL_VV :: OpId where "VFMUL_VV \<equiv> 734"
abbreviation (input) VFMUL_VF :: OpId where "VFMUL_VF \<equiv> 735"
abbreviation (input) VFDIV_VV :: OpId where "VFDIV_VV \<equiv> 736"
abbreviation (input) VFDIV_VF :: OpId where "VFDIV_VF \<equiv> 737"
abbreviation (input) VFRDIV_VF :: OpId where "VFRDIV_VF \<equiv> 738"
abbreviation (input) VFWMUL_VV :: OpId where "VFWMUL_VV \<equiv> 739"
abbreviation (input) VFWMUL_VF :: OpId where "VFWMUL_VF \<equiv> 740"
abbreviation (input) VFMACC_VV :: OpId where "VFMACC_VV \<equiv> 741"
abbreviation (input) VFMACC_VF :: OpId where "VFMACC_VF \<equiv> 742"
abbreviation (input) VFNMACC_VV :: OpId where "VFNMACC_VV \<equiv> 743"
abbreviation (input) VFNMACC_VF :: OpId where "VFNMACC_VF \<equiv> 744"
abbreviation (input) VFMSAC_VV :: OpId where "VFMSAC_VV \<equiv> 745"
abbreviation (input) VFMSAC_VF :: OpId where "VFMSAC_VF \<equiv> 746"
abbreviation (input) VFNMSAC_VV :: OpId where "VFNMSAC_VV \<equiv> 747"
abbreviation (input) VFNMSAC_VF :: OpId where "VFNMSAC_VF \<equiv> 748"
abbreviation (input) VFMADD_VV :: OpId where "VFMADD_VV \<equiv> 749"
abbreviation (input) VFMADD_VF :: OpId where "VFMADD_VF \<equiv> 750"
abbreviation (input) VFNMADD_VV :: OpId where "VFNMADD_VV \<equiv> 751"
abbreviation (input) VFNMADD_VF :: OpId where "VFNMADD_VF \<equiv> 752"
abbreviation (input) VFMSUB_VV :: OpId where "VFMSUB_VV \<equiv> 753"
abbreviation (input) VFMSUB_VF :: OpId where "VFMSUB_VF \<equiv> 754"
abbreviation (input) VFNMSUB_VV :: OpId where "VFNMSUB_VV \<equiv> 755"
abbreviation (input) VFNMSUB_VF :: OpId where "VFNMSUB_VF \<equiv> 756"
abbreviation (input) VFWMACC_VV :: OpId where "VFWMACC_VV \<equiv> 757"
abbreviation (input) VFWMACC_VF :: OpId where "VFWMACC_VF \<equiv> 758"
abbreviation (input) VFWNMACC_VV :: OpId where "VFWNMACC_VV \<equiv> 759"
abbreviation (input) VFWNMACC_VF :: OpId where "VFWNMACC_VF \<equiv> 760"
abbreviation (input) VFWMSAC_VV :: OpId where "VFWMSAC_VV \<equiv> 761"
abbreviation (input) VFWMSAC_VF :: OpId where "VFWMSAC_VF \<equiv> 762"
abbreviation (input) VFWNMSAC_VV :: OpId where "VFWNMSAC_VV \<equiv> 763"
abbreviation (input) VFWNMSAC_VF :: OpId where "VFWNMSAC_VF \<equiv> 764"
abbreviation (input) VFSQRT_V :: OpId where "VFSQRT_V \<equiv> 765"
abbreviation (input) VFRSQRT7_V :: OpId where "VFRSQRT7_V \<equiv> 766"
abbreviation (input) VFREC7_V :: OpId where "VFREC7_V \<equiv> 767"
abbreviation (input) VFMIN_VV :: OpId where "VFMIN_VV \<equiv> 768"
abbreviation (input) VFMIN_VF :: OpId where "VFMIN_VF \<equiv> 769"
abbreviation (input) VFMAX_VV :: OpId where "VFMAX_VV \<equiv> 770"
abbreviation (input) VFMAX_VF :: OpId where "VFMAX_VF \<equiv> 771"
abbreviation (input) VFSGNJ_VV :: OpId where "VFSGNJ_VV \<equiv> 772"
abbreviation (input) VFSGNJ_VF :: OpId where "VFSGNJ_VF \<equiv> 773"
abbreviation (input) VFSGNJN_VV :: OpId where "VFSGNJN_VV \<equiv> 774"
abbreviation (input) VFSGNJN_VF :: OpId where "VFSGNJN_VF \<equiv> 775"
abbreviation (input) VFSGNJX_VV :: OpId where "VFSGNJX_VV \<equiv> 776"
abbreviation (input) VFSGNJX_VF :: OpId where "VFSGNJX_VF \<equiv> 777"
abbreviation (input) VMFEQ_VV :: OpId where "VMFEQ_VV \<equiv> 778"
abbreviation (input) VMFEQ_VF :: OpId where "VMFEQ_VF \<equiv> 779"
abbreviation (input) VMFNE_VV :: OpId where "VMFNE_VV \<equiv> 780"
abbreviation (input) VMFNE_VF :: OpId where "VMFNE_VF \<equiv> 781"
abbreviation (input) VMFLT_VV :: OpId where "VMFLT_VV \<equiv> 782"
abbreviation (input) VMFLT_VF :: OpId where "VMFLT_VF \<equiv> 783"
abbreviation (input) VMFLE_VV :: OpId where "VMFLE_VV \<equiv> 784"
abbreviation (input) VMFLE_VF :: OpId where "VMFLE_VF \<equiv> 785"
abbreviation (input) VMFGT_VF :: OpId where "VMFGT_VF \<equiv> 786"
abbreviation (input) VMFGE_VF :: OpId where "VMFGE_VF \<equiv> 787"
abbreviation (input) VFCLASS_V :: OpId where "VFCLASS_V \<equiv> 788"
abbreviation (input) VFMERGE_VFM :: OpId where "VFMERGE_VFM \<equiv> 789"
abbreviation (input) VFMV_V_F :: OpId where "VFMV_V_F \<equiv> 790"
abbreviation (input) VFCVT_XU_F_V :: OpId where "VFCVT_XU_F_V \<equiv> 791"
abbreviation (input) VFCVT_X_F_V :: OpId where "VFCVT_X_F_V \<equiv> 792"
abbreviation (input) VFCVT_RTZ_XU_F_V :: OpId where "VFCVT_RTZ_XU_F_V \<equiv> 793"
abbreviation (input) VFCVT_RTZ_X_F_V :: OpId where "VFCVT_RTZ_X_F_V \<equiv> 794"
abbreviation (input) VFCVT_F_XU_V :: OpId where "VFCVT_F_XU_V \<equiv> 795"
abbreviation (input) VFCVT_F_X_V :: OpId where "VFCVT_F_X_V \<equiv> 796"
abbreviation (input) VFWCVT_XU_F_V :: OpId where "VFWCVT_XU_F_V \<equiv> 797"
abbreviation (input) VFWCVT_X_F_V :: OpId where "VFWCVT_X_F_V \<equiv> 798"
abbreviation (input) VFWCVT_RTZ_XU_F_V :: OpId where "VFWCVT_RTZ_XU_F_V \<equiv> 799"
abbreviation (input) VFWCVT_RTZ_X_F_V :: OpId where "VFWCVT_RTZ_X_F_V \<equiv> 800"
abbreviation (input) VFWCVT_F_XU_V :: OpId where "VFWCVT_F_XU_V \<equiv> 801"
abbreviation (input) VFWCVT_F_X_V :: OpId where "VFWCVT_F_X_V \<equiv> 802"
abbreviation (input) VFWCVT_F_F_V :: OpId where "VFWCVT_F_F_V \<equiv> 803"
abbreviation (input) VFNCVT_XU_F_W :: OpId where "VFNCVT_XU_F_W \<equiv> 804"
abbreviation (input) VFNCVT_X_F_W :: OpId where "VFNCVT_X_F_W \<equiv> 805"
abbreviation (input) VFNCVT_RTZ_XU_F_W :: OpId where "VFNCVT_RTZ_XU_F_W \<equiv> 806"
abbreviation (input) VFNCVT_RTZ_X_F_W :: OpId where "VFNCVT_RTZ_X_F_W \<equiv> 807"
abbreviation (input) VFNCVT_F_XU_W :: OpId where "VFNCVT_F_XU_W \<equiv> 808"
abbreviation (input) VFNCVT_F_X_W :: OpId where "VFNCVT_F_X_W \<equiv> 809"
abbreviation (input) VFNCVT_F_F_W :: OpId where "VFNCVT_F_F_W \<equiv> 810"
abbreviation (input) VFNCVT_ROD_F_F_W :: OpId where "VFNCVT_ROD_F_F_W \<equiv> 811"
abbreviation (input) VREDSUM_VS :: OpId where "VREDSUM_VS \<equiv> 812"
abbreviation (input) VREDMAXU_VS :: OpId where "VREDMAXU_VS \<equiv> 813"
abbreviation (input) VREDMAX_VS :: OpId where "VREDMAX_VS \<equiv> 814"
abbreviation (input) VREDMINU_VS :: OpId where "VREDMINU_VS \<equiv> 815"
abbreviation (input) VREDMIN_VS :: OpId where "VREDMIN_VS \<equiv> 816"
abbreviation (input) VREDAND_VS :: OpId where "VREDAND_VS \<equiv> 817"
abbreviation (input) VREDOR_VS :: OpId where "VREDOR_VS \<equiv> 818"
abbreviation (input) VREDXOR_VS :: OpId where "VREDXOR_VS \<equiv> 819"
abbreviation (input) VWREDSUMU_VS :: OpId where "VWREDSUMU_VS \<equiv> 820"
abbreviation (input) VWREDSUM_VS :: OpId where "VWREDSUM_VS \<equiv> 821"
abbreviation (input) VFREDUSUM_VS :: OpId where "VFREDUSUM_VS \<equiv> 822"
abbreviation (input) VFREDOSUM_VS :: OpId where "VFREDOSUM_VS \<equiv> 823"
abbreviation (input) VFREDMAX_VS :: OpId where "VFREDMAX_VS \<equiv> 824"
abbreviation (input) VFREDMIN_VS :: OpId where "VFREDMIN_VS \<equiv> 825"
abbreviation (input) VFWREDUSUM_VS :: OpId where "VFWREDUSUM_VS \<equiv> 826"
abbreviation (input) VFWREDOSUM_VS :: OpId where "VFWREDOSUM_VS \<equiv> 827"
abbreviation (input) VMAND_MM :: OpId where "VMAND_MM \<equiv> 828"
abbreviation (input) VMNAND_MM :: OpId where "VMNAND_MM \<equiv> 829"
abbreviation (input) VMANDN_MM :: OpId where "VMANDN_MM \<equiv> 830"
abbreviation (input) VMXOR_MM :: OpId where "VMXOR_MM \<equiv> 831"
abbreviation (input) VMOR_MM :: OpId where "VMOR_MM \<equiv> 832"
abbreviation (input) VMNOR_MM :: OpId where "VMNOR_MM \<equiv> 833"
abbreviation (input) VMORN_MM :: OpId where "VMORN_MM \<equiv> 834"
abbreviation (input) VMXNOR_MM :: OpId where "VMXNOR_MM \<equiv> 835"
abbreviation (input) VCPOP_M :: OpId where "VCPOP_M \<equiv> 836"
abbreviation (input) VFIRST_M :: OpId where "VFIRST_M \<equiv> 837"
abbreviation (input) VMSBF_M :: OpId where "VMSBF_M \<equiv> 838"
abbreviation (input) VMSIF_M :: OpId where "VMSIF_M \<equiv> 839"
abbreviation (input) VMSOF_M :: OpId where "VMSOF_M \<equiv> 840"
abbreviation (input) VIOTA_M :: OpId where "VIOTA_M \<equiv> 841"
abbreviation (input) VID_V :: OpId where "VID_V \<equiv> 842"
abbreviation (input) VMV_X_S :: OpId where "VMV_X_S \<equiv> 843"
abbreviation (input) VMV_S_X :: OpId where "VMV_S_X \<equiv> 844"
abbreviation (input) VFMV_F_S :: OpId where "VFMV_F_S \<equiv> 845"
abbreviation (input) VFMV_S_F :: OpId where "VFMV_S_F \<equiv> 846"
abbreviation (input) VSLIDEUP_VX :: OpId where "VSLIDEUP_VX \<equiv> 847"
abbreviation (input) VSLIDEUP_VI :: OpId where "VSLIDEUP_VI \<equiv> 848"
abbreviation (input) VSLIDEDOWN_VX :: OpId where "VSLIDEDOWN_VX \<equiv> 849"
abbreviation (input) VSLIDEDOWN_VI :: OpId where "VSLIDEDOWN_VI \<equiv> 850"
abbreviation (input) VSLIDE1UP_VX :: OpId where "VSLIDE1UP_VX \<equiv> 851"
abbreviation (input) VFSLIDE1UP_VF :: OpId where "VFSLIDE1UP_VF \<equiv> 852"
abbreviation (input) VSLIDE1DOWN_VX :: OpId where "VSLIDE1DOWN_VX \<equiv> 853"
abbreviation (input) VFSLIDE1DOWN_VF :: OpId where "VFSLIDE1DOWN_VF \<equiv> 854"
abbreviation (input) VRGATHER_VV :: OpId where "VRGATHER_VV \<equiv> 855"
abbreviation (input) VRGATHEREI16_VV :: OpId where "VRGATHEREI16_VV \<equiv> 856"
abbreviation (input) VRGATHER_VX :: OpId where "VRGATHER_VX \<equiv> 857"
abbreviation (input) VRGATHER_VI :: OpId where "VRGATHER_VI \<equiv> 858"
abbreviation (input) VCOMPRESS_VM :: OpId where "VCOMPRESS_VM \<equiv> 859"
abbreviation (input) VMV_NR_R_V :: OpId where "VMV_NR_R_V \<equiv> 860"
abbreviation (input) URET :: OpId where "URET \<equiv> 861"
abbreviation (input) SRET :: OpId where "SRET \<equiv> 862"
abbreviation (input) MRET :: OpId where "MRET \<equiv> 863"
abbreviation (input) WFI :: OpId where "WFI \<equiv> 864"
abbreviation (input) SFENCE_VMA :: OpId where "SFENCE_VMA \<equiv> 865"
abbreviation (input) NUMBER_OF_OPERATIONS :: OpId where "NUMBER_OF_OPERATIONS \<equiv> 866"

section \<open>Instruction field constants\<close>

abbreviation (input) OP_LUI :: nat where "OP_LUI \<equiv> 55"
abbreviation (input) OP_AUIPC :: nat where "OP_AUIPC \<equiv> 23"
abbreviation (input) OP_JAL :: nat where "OP_JAL \<equiv> 111"
abbreviation (input) OP_JALR :: nat where "OP_JALR \<equiv> 103"
abbreviation (input) F3_JALR :: nat where "F3_JALR \<equiv> 0"
abbreviation (input) OP_LB :: nat where "OP_LB \<equiv> 3"
abbreviation (input) F3_LB :: nat where "F3_LB \<equiv> 0"
abbreviation (input) F3_LH :: nat where "F3_LH \<equiv> 1"
abbreviation (input) F3_LW :: nat where "F3_LW \<equiv> 2"
abbreviation (input) F3_LBU :: nat where "F3_LBU \<equiv> 4"
abbreviation (input) F3_LHU :: nat where "F3_LHU \<equiv> 5"
abbreviation (input) F3_LWU :: nat where "F3_LWU \<equiv> 6"
abbreviation (input) F3_LD :: nat where "F3_LD \<equiv> 3"
abbreviation (input) OP_SB :: nat where "OP_SB \<equiv> 35"
abbreviation (input) F3_SB :: nat where "F3_SB \<equiv> 0"
abbreviation (input) F3_SH :: nat where "F3_SH \<equiv> 1"
abbreviation (input) F3_SW :: nat where "F3_SW \<equiv> 2"
abbreviation (input) F3_SD :: nat where "F3_SD \<equiv> 3"
abbreviation (input) OP_BEQ :: nat where "OP_BEQ \<equiv> 99"
abbreviation (input) F3_BEQ :: nat where "F3_BEQ \<equiv> 0"
abbreviation (input) F3_BNE :: nat where "F3_BNE \<equiv> 1"
abbreviation (input) F3_BLT :: nat where "F3_BLT \<equiv> 4"
abbreviation (input) F3_BGE :: nat where "F3_BGE \<equiv> 5"
abbreviation (input) F3_BLTU :: nat where "F3_BLTU \<equiv> 6"
abbreviation (input) F3_BGEU :: nat where "F3_BGEU \<equiv> 7"
abbreviation (input) OP_ADDI :: nat where "OP_ADDI \<equiv> 19"
abbreviation (input) F3_ADDI :: nat where "F3_ADDI \<equiv> 0"
abbreviation (input) F3_SLTI :: nat where "F3_SLTI \<equiv> 2"
abbreviation (input) F3_SLTIU :: nat where "F3_SLTIU \<equiv> 3"
abbreviation (input) F3_XORI :: nat where "F3_XORI \<equiv> 4"
abbreviation (input) F3_ORI :: nat where "F3_ORI \<equiv> 6"
abbreviation (input) F3_ANDI :: nat where "F3_ANDI \<equiv> 7"
abbreviation (input) F3_SLLI :: nat where "F3_SLLI \<equiv> 1"
abbreviation (input) F3_SRLI :: nat where "F3_SRLI \<equiv> 5"
abbreviation (input) F7_SRLI :: nat where "F7_SRLI \<equiv> 0"
abbreviation (input) F7_SRAI :: nat where "F7_SRAI \<equiv> 32"
abbreviation (input) F6_SRLI :: nat where "F6_SRLI \<equiv> 0"
abbreviation (input) F6_SRAI :: nat where "F6_SRAI \<equiv> 16"
abbreviation (input) OP_ADD :: nat where "OP_ADD \<equiv> 51"
abbreviation (input) F3_ADD :: nat where "F3_ADD \<equiv> 0"
abbreviation (input) F7_ADD :: nat where "F7_ADD \<equiv> 0"
abbreviation (input) F3_SUB :: nat where "F3_SUB \<equiv> 0"
abbreviation (input) F7_SUB :: nat where "F7_SUB \<equiv> 32"
abbreviation (input) F3_SLL :: nat where "F3_SLL \<equiv> 1"
abbreviation (input) F3_SLT :: nat where "F3_SLT \<equiv> 2"
abbreviation (input) F3_SLTU :: nat where "F3_SLTU \<equiv> 3"
abbreviation (input) F3_XOR :: nat where "F3_XOR \<equiv> 4"
abbreviation (input) F3_SRL :: nat where "F3_SRL \<equiv> 5"
abbreviation (input) F3_SRA :: nat where "F3_SRA \<equiv> 5"
abbreviation (input) F3_OR :: nat where "F3_OR \<equiv> 6"
abbreviation (input) F3_AND :: nat where "F3_AND \<equiv> 7"
abbreviation (input) F3_MUL :: nat where "F3_MUL \<equiv> 0"
abbreviation (input) F7_MUL :: nat where "F7_MUL \<equiv> 1"
abbreviation (input) F3_MULH :: nat where "F3_MULH \<equiv> 1"
abbreviation (input) F3_MULHSU :: nat where "F3_MULHSU \<equiv> 2"
abbreviation (input) F3_MULHU :: nat where "F3_MULHU \<equiv> 3"
abbreviation (input) F3_DIV :: nat where "F3_DIV \<equiv> 4"
abbreviation (input) F3_DIVU :: nat where "F3_DIVU \<equiv> 5"
abbreviation (input) F3_REM :: nat where "F3_REM \<equiv> 6"
abbreviation (input) F3_REMU :: nat where "F3_REMU \<equiv> 7"
abbreviation (input) OP_FENCE :: nat where "OP_FENCE \<equiv> 15"
abbreviation (input) F3_FENCE :: nat where "F3_FENCE \<equiv> 0"
abbreviation (input) F3_FENCE_I :: nat where "F3_FENCE_I \<equiv> 1"
abbreviation (input) OP_ECALL :: nat where "OP_ECALL \<equiv> 115"
abbreviation (input) F3_SYS :: nat where "F3_SYS \<equiv> 0"
abbreviation (input) F12_ECALL :: nat where "F12_ECALL \<equiv> 0"
abbreviation (input) F12_EBREAK :: nat where "F12_EBREAK \<equiv> 1"
abbreviation (input) F12_URET :: nat where "F12_URET \<equiv> 2"
abbreviation (input) F12_SRET :: nat where "F12_SRET \<equiv> 258"
abbreviation (input) F12_MRET :: nat where "F12_MRET \<equiv> 770"
abbreviation (input) F12_WFI :: nat where "F12_WFI \<equiv> 261"
abbreviation (input) F7_SFENCE_VMA :: nat where "F7_SFENCE_VMA \<equiv> 9"
abbreviation (input) F3_CSRRW :: nat where "F3_CSRRW \<equiv> 1"
abbreviation (input) F3_CSRRS :: nat where "F3_CSRRS \<equiv> 2"
abbreviation (input) F3_CSRRC :: nat where "F3_CSRRC \<equiv> 3"
abbreviation (input) F3_CSRRWI :: nat where "F3_CSRRWI \<equiv> 5"
abbreviation (input) F3_CSRRSI :: nat where "F3_CSRRSI \<equiv> 6"
abbreviation (input) F3_CSRRCI :: nat where "F3_CSRRCI \<equiv> 7"
abbreviation (input) OP_AMO :: nat where "OP_AMO \<equiv> 47"
abbreviation (input) F5_LR_W :: nat where "F5_LR_W \<equiv> 2"
abbreviation (input) F5_SC_W :: nat where "F5_SC_W \<equiv> 3"
abbreviation (input) F5_AMOSWAP_W :: nat where "F5_AMOSWAP_W \<equiv> 1"
abbreviation (input) F5_AMOADD_W :: nat where "F5_AMOADD_W \<equiv> 0"
abbreviation (input) F5_AMOXOR_W :: nat where "F5_AMOXOR_W \<equiv> 4"
abbreviation (input) F5_AMOAND_W :: nat where "F5_AMOAND_W \<equiv> 12"
abbreviation (input) F5_AMOOR_W :: nat where "F5_AMOOR_W \<equiv> 8"
abbreviation (input) F5_AMOMIN_W :: nat where "F5_AMOMIN_W \<equiv> 16"
abbreviation (input) F5_AMOMAX_W :: nat where "F5_AMOMAX_W \<equiv> 20"
abbreviation (input) F5_AMOMINU_W :: nat where "F5_AMOMINU_W \<equiv> 24"
abbreviation (input) F5_AMOMAXU_W :: nat where "F5_AMOMAXU_W \<equiv> 28"
abbreviation (input) F3_AMO_W :: nat where "F3_AMO_W \<equiv> 2"
abbreviation (input) F3_AMO_D :: nat where "F3_AMO_D \<equiv> 3"
abbreviation (input) OP_ADDIW :: nat where "OP_ADDIW \<equiv> 27"
abbreviation (input) F3_ADDIW :: nat where "F3_ADDIW \<equiv> 0"
abbreviation (input) F3_SLLIW :: nat where "F3_SLLIW \<equiv> 1"
abbreviation (input) F3_SRLIW :: nat where "F3_SRLIW \<equiv> 5"
abbreviation (input) F7_SRLIW :: nat where "F7_SRLIW \<equiv> 0"
abbreviation (input) F7_SRAIW :: nat where "F7_SRAIW \<equiv> 32"
abbreviation (input) OP_ADDW :: nat where "OP_ADDW \<equiv> 59"
abbreviation (input) F3_ADDW :: nat where "F3_ADDW \<equiv> 0"
abbreviation (input) F7_ADDW :: nat where "F7_ADDW \<equiv> 0"
abbreviation (input) F3_SUBW :: nat where "F3_SUBW \<equiv> 0"
abbreviation (input) F7_SUBW :: nat where "F7_SUBW \<equiv> 32"
abbreviation (input) F3_SLLW :: nat where "F3_SLLW \<equiv> 1"
abbreviation (input) F3_SRLW :: nat where "F3_SRLW \<equiv> 5"
abbreviation (input) F7_SRLW :: nat where "F7_SRLW \<equiv> 0"
abbreviation (input) F3_SRAW :: nat where "F3_SRAW \<equiv> 5"
abbreviation (input) F7_SRAW :: nat where "F7_SRAW \<equiv> 32"
abbreviation (input) F7_MULW :: nat where "F7_MULW \<equiv> 1"
abbreviation (input) F3_MULW :: nat where "F3_MULW \<equiv> 0"
abbreviation (input) F3_DIVW :: nat where "F3_DIVW \<equiv> 4"
abbreviation (input) F3_DIVUW :: nat where "F3_DIVUW \<equiv> 5"
abbreviation (input) F3_REMW :: nat where "F3_REMW \<equiv> 6"
abbreviation (input) F3_REMUW :: nat where "F3_REMUW \<equiv> 7"
abbreviation (input) F3_FLH :: nat where "F3_FLH \<equiv> 1"
abbreviation (input) F3_FSH :: nat where "F3_FSH \<equiv> 1"
abbreviation (input) F2_FMADD_H :: nat where "F2_FMADD_H \<equiv> 2"
abbreviation (input) F2_FMSUB_H :: nat where "F2_FMSUB_H \<equiv> 2"
abbreviation (input) F2_FNMSUB_H :: nat where "F2_FNMSUB_H \<equiv> 2"
abbreviation (input) F2_FNMADD_H :: nat where "F2_FNMADD_H \<equiv> 2"
abbreviation (input) F7_FADD_H :: nat where "F7_FADD_H \<equiv> 2"
abbreviation (input) F7_FSUB_H :: nat where "F7_FSUB_H \<equiv> 6"
abbreviation (input) F7_FMUL_H :: nat where "F7_FMUL_H \<equiv> 10"
abbreviation (input) F7_FDIV_H :: nat where "F7_FDIV_H \<equiv> 14"
abbreviation (input) F7_FSQRT_H :: nat where "F7_FSQRT_H \<equiv> 46"
abbreviation (input) F7_FSGNJ_H :: nat where "F7_FSGNJ_H \<equiv> 18"
abbreviation (input) F3_FSGNJ_H :: nat where "F3_FSGNJ_H \<equiv> 0"
abbreviation (input) F3_FSGNJN_H :: nat where "F3_FSGNJN_H \<equiv> 1"
abbreviation (input) F3_FSGNJX_H :: nat where "F3_FSGNJX_H \<equiv> 2"
abbreviation (input) F7_FMIN_H :: nat where "F7_FMIN_H \<equiv> 22"
abbreviation (input) F3_FMIN_H :: nat where "F3_FMIN_H \<equiv> 0"
abbreviation (input) F3_FMAX_H :: nat where "F3_FMAX_H \<equiv> 1"
abbreviation (input) F7_FCVT_S_H :: nat where "F7_FCVT_S_H \<equiv> 32"
abbreviation (input) F7_FCVT_H_S :: nat where "F7_FCVT_H_S \<equiv> 34"
abbreviation (input) F7_FCVT_D_H :: nat where "F7_FCVT_D_H \<equiv> 33"
abbreviation (input) F7_FCVT_H_D :: nat where "F7_FCVT_H_D \<equiv> 34"
abbreviation (input) F7_FLE_H :: nat where "F7_FLE_H \<equiv> 82"
abbreviation (input) F3_FLE_H :: nat where "F3_FLE_H \<equiv> 0"
abbreviation (input) F3_FLT_H :: nat where "F3_FLT_H \<equiv> 1"
abbreviation (input) F3_FEQ_H :: nat where "F3_FEQ_H \<equiv> 2"
abbreviation (input) F3_FCLASS_H :: nat where "F3_FCLASS_H \<equiv> 1"
abbreviation (input) F7_FCVT_W_H :: nat where "F7_FCVT_W_H \<equiv> 98"
abbreviation (input) RS2_FCVT_W_H :: nat where "RS2_FCVT_W_H \<equiv> 0"
abbreviation (input) F7_FCVT_WU_H :: nat where "F7_FCVT_WU_H \<equiv> 98"
abbreviation (input) RS2_FCVT_WU_H :: nat where "RS2_FCVT_WU_H \<equiv> 1"
abbreviation (input) F7_FMV_X_H :: nat where "F7_FMV_X_H \<equiv> 114"
abbreviation (input) F3_FMV_X_H :: nat where "F3_FMV_X_H \<equiv> 0"
abbreviation (input) F7_FCVT_H_W :: nat where "F7_FCVT_H_W \<equiv> 106"
abbreviation (input) RS2_FCVT_H_W :: nat where "RS2_FCVT_H_W \<equiv> 0"
abbreviation (input) F7_FCVT_H_WU :: nat where "F7_FCVT_H_WU \<equiv> 106"
abbreviation (input) RS2_FCVT_H_WU :: nat where "RS2_FCVT_H_WU \<equiv> 1"
abbreviation (input) F7_FMV_H_X :: nat where "F7_FMV_H_X \<equiv> 122"
abbreviation (input) RS2_FCVT_S_H :: nat where "RS2_FCVT_S_H \<equiv> 2"
abbreviation (input) RS2_FCVT_H_S :: nat where "RS2_FCVT_H_S \<equiv> 0"
abbreviation (input) RS2_FCVT_D_H :: nat where "RS2_FCVT_D_H \<equiv> 2"
abbreviation (input) RS2_FCVT_H_D :: nat where "RS2_FCVT_H_D \<equiv> 1"
abbreviation (input) RS2_FCVT_H_L :: nat where "RS2_FCVT_H_L \<equiv> 2"
abbreviation (input) RS2_FCVT_H_LU :: nat where "RS2_FCVT_H_LU \<equiv> 3"
abbreviation (input) RS2_FCVT_L_H :: nat where "RS2_FCVT_L_H \<equiv> 2"
abbreviation (input) RS2_FCVT_LU_H :: nat where "RS2_FCVT_LU_H \<equiv> 3"
abbreviation (input) OP_FMADD_S :: nat where "OP_FMADD_S \<equiv> 67"
abbreviation (input) F2_FMADD_S :: nat where "F2_FMADD_S \<equiv> 0"
abbreviation (input) F2_FMADD_D :: nat where "F2_FMADD_D \<equiv> 1"
abbreviation (input) OP_FADD_S :: nat where "OP_FADD_S \<equiv> 83"
abbreviation (input) F7_FADD_S :: nat where "F7_FADD_S \<equiv> 0"
abbreviation (input) F7_FADD_D :: nat where "F7_FADD_D \<equiv> 1"
abbreviation (input) F7_FSUB_S :: nat where "F7_FSUB_S \<equiv> 4"
abbreviation (input) F7_FSUB_D :: nat where "F7_FSUB_D \<equiv> 5"
abbreviation (input) F7_FCVT_D_S :: nat where "F7_FCVT_D_S \<equiv> 33"
abbreviation (input) F7_FMUL_S :: nat where "F7_FMUL_S \<equiv> 8"
abbreviation (input) F7_FMUL_D :: nat where "F7_FMUL_D \<equiv> 9"
abbreviation (input) F7_FDIV_S :: nat where "F7_FDIV_S \<equiv> 12"
abbreviation (input) F7_FDIV_D :: nat where "F7_FDIV_D \<equiv> 13"
abbreviation (input) F7_FLE_S :: nat where "F7_FLE_S \<equiv> 80"
abbreviation (input) F3_FLE_S :: nat where "F3_FLE_S \<equiv> 0"
abbreviation (input) F3_FLT_S :: nat where "F3_FLT_S \<equiv> 1"
abbreviation (input) F3_FEQ_S :: nat where "F3_FEQ_S \<equiv> 2"
abbreviation (input) F7_FSGNJ_D :: nat where "F7_FSGNJ_D \<equiv> 17"
abbreviation (input) F3_FSGNJ_D :: nat where "F3_FSGNJ_D \<equiv> 0"
abbreviation (input) F3_FSGNJN_D :: nat where "F3_FSGNJN_D \<equiv> 1"
abbreviation (input) F3_FSGNJX_D :: nat where "F3_FSGNJX_D \<equiv> 2"
abbreviation (input) F7_FMIN_S :: nat where "F7_FMIN_S \<equiv> 20"
abbreviation (input) F3_FMIN_S :: nat where "F3_FMIN_S \<equiv> 0"
abbreviation (input) F3_FMAX_S :: nat where "F3_FMAX_S \<equiv> 1"
abbreviation (input) F7_FMIN_D :: nat where "F7_FMIN_D \<equiv> 21"
abbreviation (input) F3_FMIN_D :: nat where "F3_FMIN_D \<equiv> 0"
abbreviation (input) F3_FMAX_D :: nat where "F3_FMAX_D \<equiv> 1"
abbreviation (input) F7_FCVT_S_D :: nat where "F7_FCVT_S_D \<equiv> 32"
abbreviation (input) F7_FSGNJ_S :: nat where "F7_FSGNJ_S \<equiv> 16"
abbreviation (input) F3_FSGNJ_S :: nat where "F3_FSGNJ_S \<equiv> 0"
abbreviation (input) F3_FSGNJN_S :: nat where "F3_FSGNJN_S \<equiv> 1"
abbreviation (input) F3_FSGNJX_S :: nat where "F3_FSGNJX_S \<equiv> 2"
abbreviation (input) F7_FLE_D :: nat where "F7_FLE_D \<equiv> 81"
abbreviation (input) F3_FLE_D :: nat where "F3_FLE_D \<equiv> 0"
abbreviation (input) F3_FLT_D :: nat where "F3_FLT_D \<equiv> 1"
abbreviation (input) F3_FEQ_D :: nat where "F3_FEQ_D \<equiv> 2"
abbreviation (input) RS2_FCVT_S_D :: nat where "RS2_FCVT_S_D \<equiv> 1"
abbreviation (input) RS2_FCVT_D_S :: nat where "RS2_FCVT_D_S \<equiv> 0"
abbreviation (input) F7_FCVT_S_W :: nat where "F7_FCVT_S_W \<equiv> 104"
abbreviation (input) RS2_FCVT_S_W :: nat where "RS2_FCVT_S_W \<equiv> 0"
abbreviation (input) RS2_FCVT_S_WU :: nat where "RS2_FCVT_S_WU \<equiv> 1"
abbreviation (input) RS2_FCVT_S_L :: nat where "RS2_FCVT_S_L \<equiv> 2"
abbreviation (input) RS2_FCVT_S_LU :: nat where "RS2_FCVT_S_LU \<equiv> 3"
abbreviation (input) F7_FCVT_D_W :: nat where "F7_FCVT_D_W \<equiv> 105"
abbreviation (input) RS2_FCVT_D_W :: nat where "RS2_FCVT_D_W \<equiv> 0"
abbreviation (input) RS2_FCVT_D_WU :: nat where "RS2_FCVT_D_WU \<equiv> 1"
abbreviation (input) RS2_FCVT_D_L :: nat where "RS2_FCVT_D_L \<equiv> 2"
abbreviation (input) RS2_FCVT_D_LU :: nat where "RS2_FCVT_D_LU \<equiv> 3"
abbreviation (input) F7_FCVT_W_D :: nat where "F7_FCVT_W_D \<equiv> 97"
abbreviation (input) RS2_FCVT_W_D :: nat where "RS2_FCVT_W_D \<equiv> 0"
abbreviation (input) RS2_FCVT_WU_D :: nat where "RS2_FCVT_WU_D \<equiv> 1"
abbreviation (input) RS2_FCVT_L_D :: nat where "RS2_FCVT_L_D \<equiv> 2"
abbreviation (input) RS2_FCVT_LU_D :: nat where "RS2_FCVT_LU_D \<equiv> 3"
abbreviation (input) F7_FSQRT_S :: nat where "F7_FSQRT_S \<equiv> 44"
abbreviation (input) F7_FSQRT_D :: nat where "F7_FSQRT_D \<equiv> 45"
abbreviation (input) F7_FCVT_W_S :: nat where "F7_FCVT_W_S \<equiv> 96"
abbreviation (input) RS2_FCVT_W_S :: nat where "RS2_FCVT_W_S \<equiv> 0"
abbreviation (input) RS2_FCVT_WU_S :: nat where "RS2_FCVT_WU_S \<equiv> 1"
abbreviation (input) RS2_FCVT_L_S :: nat where "RS2_FCVT_L_S \<equiv> 2"
abbreviation (input) RS2_FCVT_LU_S :: nat where "RS2_FCVT_LU_S \<equiv> 3"
abbreviation (input) F7_FMV_X_W :: nat where "F7_FMV_X_W \<equiv> 112"
abbreviation (input) F3_FMV_X_W :: nat where "F3_FMV_X_W \<equiv> 0"
abbreviation (input) F3_FCLASS_S :: nat where "F3_FCLASS_S \<equiv> 1"
abbreviation (input) F7_FMV_X_D :: nat where "F7_FMV_X_D \<equiv> 113"
abbreviation (input) F3_FMV_X_D :: nat where "F3_FMV_X_D \<equiv> 0"
abbreviation (input) F3_FCLASS_D :: nat where "F3_FCLASS_D \<equiv> 1"
abbreviation (input) F7_FMV_W_X :: nat where "F7_FMV_W_X \<equiv> 120"
abbreviation (input) F7_FMV_D_X :: nat where "F7_FMV_D_X \<equiv> 121"
abbreviation (input) OP_FLW :: nat where "OP_FLW \<equiv> 7"
abbreviation (input) F3_FLW :: nat where "F3_FLW \<equiv> 2"
abbreviation (input) F3_FLD :: nat where "F3_FLD \<equiv> 3"
abbreviation (input) OP_FSW :: nat where "OP_FSW \<equiv> 39"
abbreviation (input) F3_FSW :: nat where "F3_FSW \<equiv> 2"
abbreviation (input) F3_FSD :: nat where "F3_FSD \<equiv> 3"
abbreviation (input) OP_FMSUB_S :: nat where "OP_FMSUB_S \<equiv> 71"
abbreviation (input) F2_FMSUB_S :: nat where "F2_FMSUB_S \<equiv> 0"
abbreviation (input) F2_FMSUB_D :: nat where "F2_FMSUB_D \<equiv> 1"
abbreviation (input) OP_FNMSUB_S :: nat where "OP_FNMSUB_S \<equiv> 75"
abbreviation (input) F2_FNMSUB_S :: nat where "F2_FNMSUB_S \<equiv> 0"
abbreviation (input) F2_FNMSUB_D :: nat where "F2_FNMSUB_D \<equiv> 1"
abbreviation (input) OP_FNMADD_S :: nat where "OP_FNMADD_S \<equiv> 79"
abbreviation (input) F2_FNMADD_S :: nat where "F2_FNMADD_S \<equiv> 0"
abbreviation (input) F2_FNMADD_D :: nat where "F2_FNMADD_D \<equiv> 1"
abbreviation (input) OP_CUST1 :: nat where "OP_CUST1 \<equiv> 43"
abbreviation (input) OP_CUST0 :: nat where "OP_CUST0 \<equiv> 11"

section \<open>ISA configuration\<close>

text \<open>
  \<^verbatim>\<open>RV_ISA_Config::cfg\<close>: bits 0 to 25 are the misa extension letters, the upper half holds
  extensions misa does not describe.
\<close>

abbreviation (input) misa_A :: u64 where "misa_A \<equiv> 0x1"
abbreviation (input) misa_C :: u64 where "misa_C \<equiv> 0x4"
abbreviation (input) misa_D :: u64 where "misa_D \<equiv> 0x8"
abbreviation (input) misa_E :: u64 where "misa_E \<equiv> 0x10"
abbreviation (input) misa_F :: u64 where "misa_F \<equiv> 0x20"
abbreviation (input) misa_I :: u64 where "misa_I \<equiv> 0x100"
abbreviation (input) misa_M :: u64 where "misa_M \<equiv> 0x1000"
abbreviation (input) misa_N :: u64 where "misa_N \<equiv> 0x2000"
abbreviation (input) misa_S :: u64 where "misa_S \<equiv> 0x40000"
abbreviation (input) misa_U :: u64 where "misa_U \<equiv> 0x100000"
abbreviation (input) misa_V :: u64 where "misa_V \<equiv> 0x200000"
abbreviation (input) misa_X :: u64 where "misa_X \<equiv> 0x800000"
abbreviation (input) Zfh :: u64 where "Zfh \<equiv> 0x100000000"

definition misa_extensions_mask :: u64 where
  "misa_extensions_mask = 0x3FFFFFF"

definition select_E_base_isa :: "u64 \<Rightarrow> u64" where
  "select_E_base_isa cfg = (cfg AND NOT misa_I) OR misa_E"

definition select_Zfh :: "u64 \<Rightarrow> u64" where
  "select_Zfh cfg = cfg OR Zfh"

definition RV_ISA_Config :: "bool \<Rightarrow> bool \<Rightarrow> u64" where
  "RV_ISA_Config use_E_base_isa en_Zfh =
     (let cfg = misa_I OR misa_M OR misa_A OR misa_F OR misa_D OR misa_C OR misa_N OR
                misa_U OR misa_S OR misa_V;
          cfg = (if use_E_base_isa then select_E_base_isa cfg else cfg)
      in if en_Zfh then select_Zfh cfg else cfg)"

definition get_misa_extensions :: "u64 \<Rightarrow> u32" where
  "get_misa_extensions cfg = ucast (cfg AND misa_extensions_mask)"

definition set_misa_extension :: "u64 \<Rightarrow> u64 \<Rightarrow> u64" where
  "set_misa_extension ext cfg = cfg OR ext"

definition clear_misa_extension :: "u64 \<Rightarrow> u64 \<Rightarrow> u64" where
  "clear_misa_extension ext cfg = cfg AND NOT ext"

datatype Architecture = RV32 | RV64 | RV128

end
