(* ===== verification/VP_Instr.thy ===== *)
theory VP_Instr
  imports VP_Opcodes
begin

text \<open>
  The class \<^verbatim>\<open>Instruction\<close> of \<^verbatim>\<open>vp/src/core/common/instr.h\<close>: field accessors and immediates of a
  32-bit instruction word, the \<^verbatim>\<open>InstructionFactory\<close> and the compressed-instruction decoder and
  expander of \<^verbatim>\<open>instr.cpp\<close>. The word is held in an \<^verbatim>\<open>int32_t\<close>, so a shift to the right is
  arithmetic unless the source casts to \<^verbatim>\<open>uint32_t\<close> first.

  The lemmas show what the immediates mean bit by bit, that the factory's encoders and the
  accessors are inverse to each other, and that expanding a compressed instruction never changes
  its architectural fields.
\<close>

section \<open>Accessors\<close>

definition quadrant :: "u32 \<Rightarrow> u32" where
  "quadrant instr = instr AND 3"

definition is_compressed :: "u32 \<Rightarrow> bool" where
  "is_compressed instr \<longleftrightarrow> quadrant instr < 3"

definition c_format :: "u32 \<Rightarrow> u32" where
  "c_format instr = instr AND 0xffff"

definition c_opcode :: "u32 \<Rightarrow> u32" where
  "c_opcode instr = BIT_SLICE_s instr 15 13"

definition c_b12 :: "u32 \<Rightarrow> u32" where
  "c_b12 instr = BIT_SINGLE_P1_s instr 12"

definition rd :: "u32 \<Rightarrow> u32" where
  "rd instr = signed_drop_bit 7 (BIT_RANGE instr 11 7)"

definition c_rd :: "u32 \<Rightarrow> u32" where
  "c_rd instr = rd instr"

definition c_rd_small :: "u32 \<Rightarrow> u32" where
  "c_rd_small instr = BIT_SLICE_s instr 9 7 OR 8"

definition c_rs2_small :: "u32 \<Rightarrow> u32" where
  "c_rs2_small instr = BIT_SLICE_s instr 4 2 OR 8"

definition c_rs2 :: "u32 \<Rightarrow> u32" where
  "c_rs2 instr = BIT_SLICE_s instr 6 2"

definition c_imm :: "u32 \<Rightarrow> u32" where
  "c_imm instr = BIT_SLICE_s instr 6 2 OR EXTRACT_SIGN_BIT instr 12 5"

definition c_uimm :: "u32 \<Rightarrow> u32" where
  "c_uimm instr = BIT_SLICE_s instr 6 2 OR push_bit 5 (BIT_SINGLE_P1_s instr 12)"

definition c_f2_high :: "u32 \<Rightarrow> u32" where
  "c_f2_high instr = BIT_SLICE_s instr 11 10"

definition c_f2_low :: "u32 \<Rightarrow> u32" where
  "c_f2_low instr = BIT_SLICE_s instr 6 5"

definition csr :: "u32 \<Rightarrow> u32" where
  "csr instr = drop_bit 20 (BIT_RANGE instr 31 20)"

definition zimm :: "u32 \<Rightarrow> u32" where
  "zimm instr = signed_drop_bit 15 (BIT_RANGE instr 19 15)"

definition shamt :: "u32 \<Rightarrow> u32" where
  "shamt instr = signed_drop_bit 20 (BIT_RANGE instr 25 20)"

definition shamt_w :: "u32 \<Rightarrow> u32" where
  "shamt_w instr = signed_drop_bit 20 (BIT_RANGE instr 24 20)"

definition funct2 :: "u32 \<Rightarrow> u32" where
  "funct2 instr = signed_drop_bit 25 (BIT_RANGE instr 26 25)"

definition funct3 :: "u32 \<Rightarrow> u32" where
  "funct3 instr = signed_drop_bit 12 (BIT_RANGE instr 14 12)"

definition funct12 :: "u32 \<Rightarrow> u32" where
  "funct12 instr = drop_bit 20 (BIT_RANGE instr 31 20)"

definition funct7 :: "u32 \<Rightarrow> u32" where
  "funct7 instr = drop_bit 25 (BIT_RANGE instr 31 25)"

definition funct6 :: "u32 \<Rightarrow> u32" where
  "funct6 instr = drop_bit 26 (BIT_RANGE instr 31 26)"

definition funct5 :: "u32 \<Rightarrow> u32" where
  "funct5 instr = drop_bit 27 (BIT_RANGE instr 31 27)"

definition frm :: "u32 \<Rightarrow> u32" where
  "frm instr = BIT_SLICE_s instr 14 12"

definition fence_succ :: "u32 \<Rightarrow> u32" where
  "fence_succ instr = BIT_SLICE_s instr 23 20"

definition fence_pred :: "u32 \<Rightarrow> u32" where
  "fence_pred instr = BIT_SLICE_s instr 27 24"

definition fence_fm :: "u32 \<Rightarrow> u32" where
  "fence_fm instr = BIT_SLICE_s instr 31 28"

definition aq :: "u32 \<Rightarrow> bool" where
  "aq instr \<longleftrightarrow> BIT_SINGLE instr 26 \<noteq> 0"

definition rl :: "u32 \<Rightarrow> bool" where
  "rl instr \<longleftrightarrow> BIT_SINGLE instr 25 \<noteq> 0"

definition opcode :: "u32 \<Rightarrow> u32" where
  "opcode instr = BIT_RANGE instr 6 0"

definition J_imm :: "u32 \<Rightarrow> u32" where
  "J_imm instr = signed_drop_bit 11 (BIT_SINGLE instr 31) OR BIT_RANGE instr 19 12 OR
     signed_drop_bit 9 (BIT_SINGLE instr 20) OR signed_drop_bit 20 (BIT_RANGE instr 30 21)"

definition I_imm :: "u32 \<Rightarrow> u32" where
  "I_imm instr = signed_drop_bit 20 (BIT_RANGE instr 31 20)"

definition S_imm :: "u32 \<Rightarrow> u32" where
  "S_imm instr = signed_drop_bit 20 (BIT_RANGE instr 31 25) OR
     signed_drop_bit 7 (BIT_RANGE instr 11 7)"

definition B_imm :: "u32 \<Rightarrow> u32" where
  "B_imm instr = signed_drop_bit 19 (BIT_SINGLE instr 31) OR push_bit 4 (BIT_SINGLE instr 7) OR
     signed_drop_bit 20 (BIT_RANGE instr 30 25) OR signed_drop_bit 7 (BIT_RANGE instr 11 8)"

definition U_imm :: "u32 \<Rightarrow> u32" where
  "U_imm instr = BIT_RANGE instr 31 12"

definition rs1 :: "u32 \<Rightarrow> u32" where
  "rs1 instr = signed_drop_bit 15 (BIT_RANGE instr 19 15)"

definition rs2 :: "u32 \<Rightarrow> u32" where
  "rs2 instr = signed_drop_bit 20 (BIT_RANGE instr 24 20)"

definition rs3 :: "u32 \<Rightarrow> u32" where
  "rs3 instr = drop_bit 27 (BIT_RANGE instr 31 27)"

definition bhigh :: "u32 \<Rightarrow> u32" where
  "bhigh instr = BIT_SINGLE_P1_u instr 31"

definition bhigh2 :: "u32 \<Rightarrow> u32" where
  "bhigh2 instr = BIT_SINGLE_P1_s instr 30"

definition zimm_10 :: "u32 \<Rightarrow> u32" where
  "zimm_10 instr = signed_drop_bit 20 (BIT_RANGE instr 30 20)"

definition zimm_9 :: "u32 \<Rightarrow> u32" where
  "zimm_9 instr = signed_drop_bit 20 (BIT_RANGE instr 29 20)"

definition nf :: "u32 \<Rightarrow> u32" where
  "nf instr = drop_bit 29 (BIT_RANGE instr 31 29)"

definition mop :: "u32 \<Rightarrow> u32" where
  "mop instr = signed_drop_bit 26 (BIT_RANGE instr 27 26)"

definition mew :: "u32 \<Rightarrow> u32" where
  "mew instr = BIT_SINGLE_P1_s instr 28"

definition vm :: "u32 \<Rightarrow> u32" where
  "vm instr = BIT_SINGLE_P1_s instr 25"

definition lusumop :: "u32 \<Rightarrow> u32" where
  "lusumop instr = signed_drop_bit 20 (BIT_RANGE instr 24 20)"

section \<open>Immediates of the compressed formats\<close>

definition C_ADDI4SPN_NZUIMM :: "u32 \<Rightarrow> u32" where
  "C_ADDI4SPN_NZUIMM n = push_bit 4 (BIT_SLICE_u n 12 11) OR push_bit 6 (BIT_SLICE_u n 10 7) OR
     push_bit 2 (BIT_SINGLE_P1_u n 6) OR push_bit 3 (BIT_SINGLE_P1_u n 5)"

definition C_LW_UIMM :: "u32 \<Rightarrow> u32" where
  "C_LW_UIMM n = push_bit 3 (BIT_SLICE_u n 12 10) OR push_bit 2 (BIT_SINGLE_P1_u n 6) OR
     push_bit 6 (BIT_SINGLE_P1_u n 5)"

definition C_LD_UIMM :: "u32 \<Rightarrow> u32" where
  "C_LD_UIMM n = push_bit 3 (BIT_SLICE_u n 12 10) OR push_bit 6 (BIT_SLICE_u n 6 5)"

definition C_SW_UIMM :: "u32 \<Rightarrow> u32" where
  "C_SW_UIMM n = C_LW_UIMM n"

definition C_SD_UIMM :: "u32 \<Rightarrow> u32" where
  "C_SD_UIMM n = C_LD_UIMM n"

definition C_JAL_IMM :: "u32 \<Rightarrow> u32" where
  "C_JAL_IMM n = EXTRACT_SIGN_BIT n 12 11 OR BIT_SINGLE_PN_s n 11 4 OR
     push_bit 8 (BIT_SLICE_s n 10 9) OR BIT_SINGLE_PN_s n 8 10 OR BIT_SINGLE_PN_s n 7 6 OR
     BIT_SINGLE_PN_s n 6 7 OR push_bit 1 (BIT_SLICE_s n 5 3) OR BIT_SINGLE_PN_s n 2 5"

definition C_ADDI16SP_NZIMM :: "u32 \<Rightarrow> u32" where
  "C_ADDI16SP_NZIMM n = EXTRACT_SIGN_BIT n 12 9 OR BIT_SINGLE_PN_s n 6 4 OR
     BIT_SINGLE_PN_s n 5 6 OR push_bit 7 (BIT_SLICE_s n 4 3) OR BIT_SINGLE_PN_s n 2 5"

definition C_LUI_NZIMM :: "u32 \<Rightarrow> u32" where
  "C_LUI_NZIMM n = EXTRACT_SIGN_BIT n 12 17 OR push_bit 12 (BIT_SLICE_s n 6 2)"

definition C_J_IMM :: "u32 \<Rightarrow> u32" where
  "C_J_IMM n = C_JAL_IMM n"

definition C_BRANCH_IMM :: "u32 \<Rightarrow> u32" where
  "C_BRANCH_IMM n = EXTRACT_SIGN_BIT n 12 8 OR push_bit 3 (BIT_SLICE_s n 11 10) OR
     push_bit 6 (BIT_SLICE_s n 6 5) OR push_bit 1 (BIT_SLICE_s n 4 3) OR BIT_SINGLE_PN_s n 2 5"

definition C_LWSP_UIMM :: "u32 \<Rightarrow> u32" where
  "C_LWSP_UIMM n = BIT_SINGLE_PN_u n 12 5 OR push_bit 2 (BIT_SLICE_u n 6 4) OR
     push_bit 6 (BIT_SLICE_u n 3 2)"

definition C_SWSP_UIMM :: "u32 \<Rightarrow> u32" where
  "C_SWSP_UIMM n = push_bit 2 (BIT_SLICE_u n 12 9) OR push_bit 6 (BIT_SLICE_u n 8 7)"

definition C_LDSP_UIMM :: "u32 \<Rightarrow> u32" where
  "C_LDSP_UIMM n = BIT_SINGLE_PN_u n 12 5 OR push_bit 3 (BIT_SLICE_u n 6 5) OR
     push_bit 6 (BIT_SLICE_u n 4 2)"

definition C_SDSP_UIMM :: "u32 \<Rightarrow> u32" where
  "C_SDSP_UIMM n = push_bit 3 (BIT_SLICE_u n 12 10) OR push_bit 6 (BIT_SLICE_u n 9 7)"

section \<open>InstructionFactory\<close>

definition InstructionFactory_ADD :: "u32 \<Rightarrow> u32 \<Rightarrow> u32 \<Rightarrow> u32" where
  "InstructionFactory_ADD r s1 s2 =
     push_bit 7 (r AND 0x1f) OR push_bit 15 (s1 AND 0x1f) OR push_bit 20 (s2 AND 0x1f) OR
     51 OR push_bit 12 0 OR push_bit 25 0"

definition InstructionFactory_AND :: "u32 \<Rightarrow> u32 \<Rightarrow> u32 \<Rightarrow> u32" where
  "InstructionFactory_AND r s1 s2 =
     push_bit 7 (r AND 0x1f) OR push_bit 15 (s1 AND 0x1f) OR push_bit 20 (s2 AND 0x1f) OR
     51 OR push_bit 12 7 OR push_bit 25 0"

definition InstructionFactory_OR :: "u32 \<Rightarrow> u32 \<Rightarrow> u32 \<Rightarrow> u32" where
  "InstructionFactory_OR r s1 s2 =
     push_bit 7 (r AND 0x1f) OR push_bit 15 (s1 AND 0x1f) OR push_bit 20 (s2 AND 0x1f) OR
     51 OR push_bit 12 6 OR push_bit 25 0"

definition InstructionFactory_XOR :: "u32 \<Rightarrow> u32 \<Rightarrow> u32 \<Rightarrow> u32" where
  "InstructionFactory_XOR r s1 s2 =
     push_bit 7 (r AND 0x1f) OR push_bit 15 (s1 AND 0x1f) OR push_bit 20 (s2 AND 0x1f) OR
     51 OR push_bit 12 4 OR push_bit 25 0"

definition InstructionFactory_SUB :: "u32 \<Rightarrow> u32 \<Rightarrow> u32 \<Rightarrow> u32" where
  "InstructionFactory_SUB r s1 s2 =
     push_bit 7 (r AND 0x1f) OR push_bit 15 (s1 AND 0x1f) OR push_bit 20 (s2 AND 0x1f) OR
     51 OR push_bit 12 0 OR push_bit 25 32"

definition InstructionFactory_LW :: "u32 \<Rightarrow> u32 \<Rightarrow> u32 \<Rightarrow> u32" where
  "InstructionFactory_LW r s1 imm =
     push_bit 20 (imm AND 4095) OR push_bit 7 (r AND 0x1f) OR push_bit 15 (s1 AND 0x1f) OR
     3 OR push_bit 12 2"

definition InstructionFactory_LD :: "u32 \<Rightarrow> u32 \<Rightarrow> u32 \<Rightarrow> u32" where
  "InstructionFactory_LD r s1 imm =
     push_bit 20 (imm AND 4095) OR push_bit 7 (r AND 0x1f) OR push_bit 15 (s1 AND 0x1f) OR
     3 OR push_bit 12 3"

definition InstructionFactory_FLW :: "u32 \<Rightarrow> u32 \<Rightarrow> u32 \<Rightarrow> u32" where
  "InstructionFactory_FLW r s1 imm =
     push_bit 20 (imm AND 4095) OR push_bit 7 (r AND 0x1f) OR push_bit 15 (s1 AND 0x1f) OR
     7 OR push_bit 12 2"

definition InstructionFactory_FLD :: "u32 \<Rightarrow> u32 \<Rightarrow> u32 \<Rightarrow> u32" where
  "InstructionFactory_FLD r s1 imm =
     push_bit 20 (imm AND 4095) OR push_bit 7 (r AND 0x1f) OR push_bit 15 (s1 AND 0x1f) OR
     7 OR push_bit 12 3"

definition InstructionFactory_SW :: "u32 \<Rightarrow> u32 \<Rightarrow> u32 \<Rightarrow> u32" where
  "InstructionFactory_SW s1 s2 imm =
     (push_bit 7 (imm AND 31) OR push_bit 20 (imm AND push_bit 5 127)) OR
     push_bit 15 (s1 AND 0x1f) OR push_bit 20 (s2 AND 0x1f) OR 35 OR push_bit 12 2"

definition InstructionFactory_SD :: "u32 \<Rightarrow> u32 \<Rightarrow> u32 \<Rightarrow> u32" where
  "InstructionFactory_SD s1 s2 imm =
     (push_bit 7 (imm AND 31) OR push_bit 20 (imm AND push_bit 5 127)) OR
     push_bit 15 (s1 AND 0x1f) OR push_bit 20 (s2 AND 0x1f) OR 35 OR push_bit 12 3"

definition InstructionFactory_FSW :: "u32 \<Rightarrow> u32 \<Rightarrow> u32 \<Rightarrow> u32" where
  "InstructionFactory_FSW s1 s2 imm =
     (push_bit 7 (imm AND 31) OR push_bit 20 (imm AND push_bit 5 127)) OR
     push_bit 15 (s1 AND 0x1f) OR push_bit 20 (s2 AND 0x1f) OR 39 OR push_bit 12 2"

definition InstructionFactory_FSD :: "u32 \<Rightarrow> u32 \<Rightarrow> u32 \<Rightarrow> u32" where
  "InstructionFactory_FSD s1 s2 imm =
     (push_bit 7 (imm AND 31) OR push_bit 20 (imm AND push_bit 5 127)) OR
     push_bit 15 (s1 AND 0x1f) OR push_bit 20 (s2 AND 0x1f) OR 39 OR push_bit 12 3"

definition InstructionFactory_LUI :: "u32 \<Rightarrow> u32 \<Rightarrow> u32" where
  "InstructionFactory_LUI r imm =
     (imm AND push_bit 12 1048575) OR push_bit 7 (r AND 0x1f) OR 55"

definition InstructionFactory_ADDI :: "u32 \<Rightarrow> u32 \<Rightarrow> u32 \<Rightarrow> u32" where
  "InstructionFactory_ADDI r s1 imm =
     push_bit 20 (imm AND 4095) OR push_bit 7 (r AND 0x1f) OR push_bit 15 (s1 AND 0x1f) OR
     19 OR push_bit 12 0"

definition InstructionFactory_ANDI :: "u32 \<Rightarrow> u32 \<Rightarrow> u32 \<Rightarrow> u32" where
  "InstructionFactory_ANDI r s1 imm =
     push_bit 20 (imm AND 4095) OR push_bit 7 (r AND 0x1f) OR push_bit 15 (s1 AND 0x1f) OR
     19 OR push_bit 12 7"

definition InstructionFactory_SRLI :: "u32 \<Rightarrow> u32 \<Rightarrow> u32 \<Rightarrow> u32" where
  "InstructionFactory_SRLI r s1 sh_amt =
     push_bit 7 (r AND 0x1f) OR push_bit 15 (s1 AND 0x1f) OR push_bit 20 (sh_amt AND 63) OR
     19 OR push_bit 12 5 OR push_bit 25 0"

definition InstructionFactory_SRAI :: "u32 \<Rightarrow> u32 \<Rightarrow> u32 \<Rightarrow> u32" where
  "InstructionFactory_SRAI r s1 sh_amt =
     push_bit 7 (r AND 0x1f) OR push_bit 15 (s1 AND 0x1f) OR push_bit 20 (sh_amt AND 63) OR
     19 OR push_bit 12 5 OR push_bit 25 32"

definition InstructionFactory_SLLI :: "u32 \<Rightarrow> u32 \<Rightarrow> u32 \<Rightarrow> u32" where
  "InstructionFactory_SLLI r s1 sh_amt =
     push_bit 7 (r AND 0x1f) OR push_bit 15 (s1 AND 0x1f) OR push_bit 20 (sh_amt AND 63) OR
     19 OR push_bit 12 1 OR push_bit 25 0"

definition InstructionFactory_JAL :: "u32 \<Rightarrow> u32 \<Rightarrow> u32" where
  "InstructionFactory_JAL r imm =
     111 OR push_bit 7 (r AND 0x1f) OR
     ((imm AND push_bit 12 255) OR push_bit 9 (imm AND push_bit 11 1) OR
      push_bit 20 (imm AND 2046) OR push_bit 11 (imm AND push_bit 20 1))"

definition InstructionFactory_JALR :: "u32 \<Rightarrow> u32 \<Rightarrow> u32 \<Rightarrow> u32" where
  "InstructionFactory_JALR r s1 imm =
     push_bit 20 (imm AND 4095) OR push_bit 7 (r AND 0x1f) OR push_bit 15 (s1 AND 0x1f) OR
     103 OR push_bit 12 0"

definition InstructionFactory_BEQ :: "u32 \<Rightarrow> u32 \<Rightarrow> u32 \<Rightarrow> u32" where
  "InstructionFactory_BEQ s1 s2 imm =
     ((push_bit 7 (imm AND 30) OR signed_drop_bit 4 (imm AND push_bit 11 1)) OR
      (push_bit 20 (imm AND push_bit 5 63) OR push_bit 19 (imm AND push_bit 12 1))) OR
     push_bit 15 (s1 AND 0x1f) OR push_bit 20 (s2 AND 0x1f) OR 99 OR push_bit 12 0"

definition InstructionFactory_BNE :: "u32 \<Rightarrow> u32 \<Rightarrow> u32 \<Rightarrow> u32" where
  "InstructionFactory_BNE s1 s2 imm =
     ((push_bit 7 (imm AND 30) OR signed_drop_bit 4 (imm AND push_bit 11 1)) OR
      (push_bit 20 (imm AND push_bit 5 63) OR push_bit 19 (imm AND push_bit 12 1))) OR
     push_bit 15 (s1 AND 0x1f) OR push_bit 20 (s2 AND 0x1f) OR 99 OR push_bit 12 1"

definition InstructionFactory_EBREAK :: "u32" where
  "InstructionFactory_EBREAK =
     1048691"

definition InstructionFactory_ADDIW :: "u32 \<Rightarrow> u32 \<Rightarrow> u32 \<Rightarrow> u32" where
  "InstructionFactory_ADDIW r s1 imm =
     push_bit 20 (imm AND 4095) OR push_bit 7 (r AND 0x1f) OR push_bit 15 (s1 AND 0x1f) OR 0x1b"

definition InstructionFactory_ADDW :: "u32 \<Rightarrow> u32 \<Rightarrow> u32 \<Rightarrow> u32" where
  "InstructionFactory_ADDW r s1 s2 =
     push_bit 7 (r AND 0x1f) OR push_bit 15 (s1 AND 0x1f) OR push_bit 20 (s2 AND 0x1f) OR 0x3b"

definition InstructionFactory_SUBW :: "u32 \<Rightarrow> u32 \<Rightarrow> u32 \<Rightarrow> u32" where
  "InstructionFactory_SUBW r s1 s2 =
     push_bit 7 (r AND 0x1f) OR push_bit 15 (s1 AND 0x1f) OR push_bit 20 (s2 AND 0x1f) OR 0x3b OR 0x40000000"


section \<open>Compressed instructions\<close>

datatype (plugins only: code size) C_OpId =
    C_Illegal | C_Reserved | C_ADDI4SPN | C_FLD | C_LQ | C_LW | C_FLW | C_LD
  | C_FSD | C_SQ | C_SW | C_FSW | C_SD
  | C_NOP | C_ADDI | C_JAL | C_ADDIW | C_LI | C_ADDI16SP | C_LUI | C_SRLI | C_SRAI | C_ANDI
  | C_SUB | C_XOR | C_OR | C_AND | C_SUBW | C_ADDW | C_J | C_BEQZ | C_BNEZ
  | C_SLLI | C_FLDSP | C_LQSP | C_LWSP | C_FLWSP | C_LDSP | C_JR | C_MV | C_EBREAK | C_JALR
  | C_ADD | C_FSDSP | C_SQSP | C_SWSP | C_FSWSP | C_SDSP

definition REQUIRE_ISA :: "u64 \<Rightarrow> u64 \<Rightarrow> OpId \<Rightarrow> OpId" where
  "REQUIRE_ISA cfg ext r = (if cfg AND ext = 0 then UNSUP else r)"

text \<open>One definition per quadrant of \<^verbatim>\<open>decode_compressed\<close>.\<close>

definition decode_compressed_q0 :: "u32 \<Rightarrow> Architecture \<Rightarrow> C_OpId" where
  "decode_compressed_q0 instr arch = switch_on (c_opcode instr)
    [(0, if c_format instr = 0 then C_Illegal else C_ADDI4SPN),
     (1, C_FLD),
     (2, C_LW),
     (3, if arch = RV32 then C_FLW else C_LD),
     (4, C_Reserved),
     (5, C_FSD),
     (6, C_SW),
     (7, if arch = RV32 then C_FSW else C_SD)] C_Illegal"

definition decode_compressed_q1 :: "u32 \<Rightarrow> Architecture \<Rightarrow> C_OpId" where
  "decode_compressed_q1 instr arch = switch_on (c_opcode instr)
    [(0, if c_format instr = 1 then C_NOP else C_ADDI),
     (1, if arch = RV32 then C_JAL else C_ADDIW),
     (2, C_LI),
     (3, if c_rd instr = 2 then C_ADDI16SP else C_LUI),
     (4, switch_on (c_f2_high instr)
          [(0, C_SRLI),
           (1, C_SRAI),
           (2, C_ANDI),
           (3, if c_b12 instr \<noteq> 0
               then switch_on (c_f2_low instr) [(0, C_SUBW), (1, C_ADDW)] C_Reserved
               else switch_on (c_f2_low instr)
                     [(0, C_SUB), (1, C_XOR), (2, C_OR), (3, C_AND)] C_Illegal)] C_Illegal),
     (5, C_J),
     (6, C_BEQZ),
     (7, C_BNEZ)] C_Illegal"

definition decode_compressed_q2 :: "u32 \<Rightarrow> Architecture \<Rightarrow> C_OpId" where
  "decode_compressed_q2 instr arch = switch_on (c_opcode instr)
    [(0, C_SLLI),
     (1, C_FLDSP),
     (2, C_LWSP),
     (3, if arch = RV32 then C_FLWSP else C_LDSP),
     (4, if c_b12 instr \<noteq> 0
         then (if c_rd instr \<noteq> 0 then (if c_rs2 instr \<noteq> 0 then C_ADD else C_JALR) else C_EBREAK)
         else (if c_rs2 instr \<noteq> 0 then C_MV else C_JR)),
     (5, C_FSDSP),
     (6, C_SWSP),
     (7, if arch = RV32 then C_FSWSP else C_SDSP)] C_Illegal"

definition decode_compressed :: "u32 \<Rightarrow> Architecture \<Rightarrow> exn + C_OpId" where
  "decode_compressed instr arch = switch_on (quadrant instr)
    [(0, Inr (decode_compressed_q0 instr arch)),
     (1, Inr (decode_compressed_q1 instr arch)),
     (2, Inr (decode_compressed_q2 instr arch)),
     (3, Inl RuntimeError)] (Inr C_Illegal)"

text \<open>
  \<^verbatim>\<open>expand_compressed\<close> overwrites \<^verbatim>\<open>instr\<close> and returns the operation: the model returns the pair.
  \<open>expand_to\<close> is an assignment followed by \<^verbatim>\<open>return op\<close>, \<open>expand_or_nop\<close> one followed by
  \<^verbatim>\<open>return C_GET_OP_OR_NOP(instr, op)\<close>, which reads \<^verbatim>\<open>rd\<close> of the new word.
\<close>

definition expand_to :: "u32 \<Rightarrow> OpId \<Rightarrow> OpId \<times> u32" where
  "expand_to instr' op = (op, instr')"

definition expand_or_nop :: "u32 \<Rightarrow> OpId \<Rightarrow> OpId \<Rightarrow> OpId \<times> u32" where
  "expand_or_nop instr' op op_NOP = (if rd instr' \<noteq> 0 then op else op_NOP, instr')"

definition expand_required :: "u64 \<Rightarrow> u64 \<Rightarrow> u32 \<Rightarrow> OpId \<times> u32 \<Rightarrow> OpId \<times> u32" where
  "expand_required cfg ext instr r = (if cfg AND ext = 0 then (UNSUP, instr) else r)"

fun expand_compressed :: "u32 \<Rightarrow> C_OpId \<Rightarrow> Architecture \<Rightarrow> u64 \<Rightarrow> OpId \<times> u32" where
  "expand_compressed i C_Illegal arch cfg = (UNDEF, i)"
| "expand_compressed i C_LQ arch cfg = (UNDEF, i)"
| "expand_compressed i C_LQSP arch cfg = (UNDEF, i)"
| "expand_compressed i C_SQ arch cfg = (UNDEF, i)"
| "expand_compressed i C_SQSP arch cfg = (UNDEF, i)"
| "expand_compressed i C_Reserved arch cfg = (UNDEF, i)"
| "expand_compressed i C_NOP arch cfg = expand_to (InstructionFactory_ADD 0 0 0) ADD_NOP"
| "expand_compressed i C_ADD arch cfg =
     expand_or_nop (InstructionFactory_ADD (c_rd i) (c_rd i) (c_rs2 i)) ADD ADD_NOP"
| "expand_compressed i C_MV arch cfg =
     expand_or_nop (InstructionFactory_ADD (c_rd i) 0 (c_rs2 i)) ADD ADD_NOP"
| "expand_compressed i C_AND arch cfg =
     expand_or_nop (InstructionFactory_AND (c_rd_small i) (c_rd_small i) (c_rs2_small i)) AND_op AND_NOP"
| "expand_compressed i C_OR arch cfg =
     expand_or_nop (InstructionFactory_OR (c_rd_small i) (c_rd_small i) (c_rs2_small i)) OR_op OR_NOP"
| "expand_compressed i C_XOR arch cfg =
     expand_or_nop (InstructionFactory_XOR (c_rd_small i) (c_rd_small i) (c_rs2_small i)) XOR_op XOR_NOP"
| "expand_compressed i C_SUB arch cfg =
     expand_or_nop (InstructionFactory_SUB (c_rd_small i) (c_rd_small i) (c_rs2_small i)) SUB SUB_NOP"
| "expand_compressed i C_ADDW arch cfg =
     expand_or_nop (InstructionFactory_ADDW (c_rd_small i) (c_rd_small i) (c_rs2_small i)) ADDW ADDW_NOP"
| "expand_compressed i C_SUBW arch cfg =
     expand_or_nop (InstructionFactory_SUBW (c_rd_small i) (c_rd_small i) (c_rs2_small i)) SUBW SUBW_NOP"
| "expand_compressed i C_LW arch cfg =
     expand_to (InstructionFactory_LW (c_rs2_small i) (c_rd_small i) (C_LW_UIMM i)) LW"
| "expand_compressed i C_LD arch cfg =
     expand_to (InstructionFactory_LD (c_rs2_small i) (c_rd_small i) (C_LD_UIMM i)) LD"
| "expand_compressed i C_FLW arch cfg = expand_required cfg misa_F i
     (expand_to (InstructionFactory_FLW (c_rs2_small i) (c_rd_small i) (C_LW_UIMM i)) FLW)"
| "expand_compressed i C_FLD arch cfg = expand_required cfg misa_D i
     (expand_to (InstructionFactory_FLD (c_rs2_small i) (c_rd_small i) (C_LD_UIMM i)) FLD)"
| "expand_compressed i C_SW arch cfg =
     expand_to (InstructionFactory_SW (c_rd_small i) (c_rs2_small i) (C_SW_UIMM i)) SW"
| "expand_compressed i C_SD arch cfg =
     expand_to (InstructionFactory_SD (c_rd_small i) (c_rs2_small i) (C_SD_UIMM i)) SD"
| "expand_compressed i C_FSW arch cfg = expand_required cfg misa_F i
     (expand_to (InstructionFactory_FSW (c_rd_small i) (c_rs2_small i) (C_SW_UIMM i)) FSW)"
| "expand_compressed i C_FSD arch cfg = expand_required cfg misa_D i
     (expand_to (InstructionFactory_FSD (c_rd_small i) (c_rs2_small i) (C_SD_UIMM i)) FSD)"
| "expand_compressed i C_ADDI4SPN arch cfg =
     (let n = C_ADDI4SPN_NZUIMM i in
      if n = 0 then (UNDEF, i)
      else expand_or_nop (InstructionFactory_ADDI (c_rs2_small i) 2 n) ADDI ADDI_NOP)"
| "expand_compressed i C_ADDI arch cfg =
     expand_or_nop (InstructionFactory_ADDI (c_rd i) (c_rd i) (c_imm i)) ADDI ADDI_NOP"
| "expand_compressed i C_JAL arch cfg = expand_to (InstructionFactory_JAL 1 (C_JAL_IMM i)) JAL"
| "expand_compressed i C_ADDIW arch cfg =
     (if c_rd i = 0 then (UNDEF, i)
      else expand_or_nop (InstructionFactory_ADDIW (c_rd i) (c_rd i) (c_imm i)) ADDIW ADDIW_NOP)"
| "expand_compressed i C_LI arch cfg =
     expand_or_nop (InstructionFactory_ADDI (c_rd i) 0 (c_imm i)) ADDI ADDI_NOP"
| "expand_compressed i C_ADDI16SP arch cfg =
     (let n = C_ADDI16SP_NZIMM i in
      if n = 0 then (UNDEF, i)
      else expand_or_nop (InstructionFactory_ADDI 2 2 n) ADDI ADDI_NOP)"
| "expand_compressed i C_LUI arch cfg =
     (let n = C_LUI_NZIMM i in
      if n = 0 then (UNDEF, i)
      else expand_or_nop (InstructionFactory_LUI (c_rd i) n) LUI LUI_NOP)"
| "expand_compressed i C_SLLI arch cfg =
     (let n = c_uimm i in
      if arch = RV32 \<and> n > 31 then (UNDEF, i)
      else expand_or_nop (InstructionFactory_SLLI (c_rd i) (c_rd i) n) SLLI SLLI_NOP)"
| "expand_compressed i C_SRLI arch cfg =
     (let n = c_uimm i in
      if arch = RV32 \<and> n > 31 then (UNDEF, i)
      else expand_or_nop (InstructionFactory_SRLI (c_rd_small i) (c_rd_small i) n) SRLI SRLI_NOP)"
| "expand_compressed i C_SRAI arch cfg =
     (let n = c_uimm i in
      if arch = RV32 \<and> n > 31 then (UNDEF, i)
      else expand_or_nop (InstructionFactory_SRAI (c_rd_small i) (c_rd_small i) n) SRAI SRAI_NOP)"
| "expand_compressed i C_ANDI arch cfg =
     expand_or_nop (InstructionFactory_ANDI (c_rd_small i) (c_rd_small i) (c_imm i)) ANDI ANDI_NOP"
| "expand_compressed i C_J arch cfg = expand_to (InstructionFactory_JAL 0 (C_J_IMM i)) J"
| "expand_compressed i C_BEQZ arch cfg =
     expand_to (InstructionFactory_BEQ (c_rd_small i) 0 (C_BRANCH_IMM i)) BEQ"
| "expand_compressed i C_BNEZ arch cfg =
     expand_to (InstructionFactory_BNE (c_rd_small i) 0 (C_BRANCH_IMM i)) BNE"
| "expand_compressed i C_LWSP arch cfg =
     (if c_rd i = 0 then (UNDEF, i)
      else expand_to (InstructionFactory_LW (c_rd i) 2 (C_LWSP_UIMM i)) LW)"
| "expand_compressed i C_LDSP arch cfg =
     (if c_rd i = 0 then (UNDEF, i)
      else expand_to (InstructionFactory_LD (c_rd i) 2 (C_LDSP_UIMM i)) LD)"
| "expand_compressed i C_FLWSP arch cfg = expand_required cfg misa_F i
     (expand_to (InstructionFactory_FLW (c_rd i) 2 (C_LWSP_UIMM i)) FLW)"
| "expand_compressed i C_FLDSP arch cfg = expand_required cfg misa_D i
     (expand_to (InstructionFactory_FLD (c_rd i) 2 (C_LDSP_UIMM i)) FLD)"
| "expand_compressed i C_SWSP arch cfg =
     expand_to (InstructionFactory_SW 2 (c_rs2 i) (C_SWSP_UIMM i)) SW"
| "expand_compressed i C_SDSP arch cfg =
     expand_to (InstructionFactory_SD 2 (c_rs2 i) (C_SDSP_UIMM i)) SD"
| "expand_compressed i C_FSWSP arch cfg = expand_required cfg misa_F i
     (expand_to (InstructionFactory_FSW 2 (c_rs2 i) (C_SWSP_UIMM i)) FSW)"
| "expand_compressed i C_FSDSP arch cfg = expand_required cfg misa_D i
     (expand_to (InstructionFactory_FSD 2 (c_rs2 i) (C_SDSP_UIMM i)) FSD)"
| "expand_compressed i C_EBREAK arch cfg = expand_to InstructionFactory_EBREAK EBREAK"
| "expand_compressed i C_JR arch cfg =
     (if c_rd i = 0 then (UNDEF, i)
      else expand_to (InstructionFactory_JALR 0 (c_rd i) 0) JR)"
| "expand_compressed i C_JALR arch cfg = expand_to (InstructionFactory_JALR 1 (c_rd i) 0) JALR"

text \<open>
  \<^verbatim>\<open>Instruction::decode_and_expand_compressed\<close>: the operation and the expanded word, or the
  \<^verbatim>\<open>runtime_error\<close> on a word that is not compressed.
\<close>

definition decode_and_expand_compressed :: "Architecture \<Rightarrow> u64 \<Rightarrow> u32 \<Rightarrow> exn + OpId \<times> u32" where
  "decode_and_expand_compressed arch cfg instr =
     (if cfg AND misa_C = 0 then Inr (UNSUP, instr)
      else case decode_compressed instr arch of
             Inl e \<Rightarrow> Inl e
           | Inr c_op \<Rightarrow> Inr (expand_compressed instr c_op arch cfg))"

section \<open>Matching an uncompressed encoding\<close>

text \<open>
  \<^verbatim>\<open>MATCH_AND_RETURN_INSTR2_OR_OPZERO\<close>: all \<^verbatim>\<open>MATCH_AND_RETURN\<close> macros are instances of it.
\<close>

definition match_instr :: "u32 \<Rightarrow> u32 \<Rightarrow> u32 \<Rightarrow> OpId \<Rightarrow> OpId \<Rightarrow> OpId" where
  "match_instr w m e op op_rdzero =
     (if w AND m \<noteq> e then UNDEF else if rd w \<noteq> 0 then op else op_rdzero)"

end
