(* ===== verification/VP_DecodeV.thy ===== *)
theory VP_DecodeV
  imports VP_Instr
begin

text \<open>
  The part of \<^verbatim>\<open>Instruction::decode_normal\<close> (\<^verbatim>\<open>vp/src/core/common/instr.cpp\<close>) that decodes the
  vector extension: the opcodes of vector loads and stores, shared with the scalar floating-point
  loads and stores, and the vector arithmetic opcode 87. One definition per larger
  \<^verbatim>\<open>switch\<close>; a leaf holds the mask and the encoding constant of the instruction.
\<close>

definition decode_OP_FLW_funct3_0_mew_0_mop_0 :: "Architecture \<Rightarrow> u64 \<Rightarrow> u32 \<Rightarrow> OpId" where
  "decode_OP_FLW_funct3_0_mew_0_mop_0 arch cfg w =
    switch_on (unat (lusumop w))
      [(11, switch_on (unat (nf w))
        [(0, REQUIRE_ISA cfg misa_V (match_instr w 0xFDF0707F 0xB00007 VLM_V VLM_V))] UNDEF),
       (0, switch_on (unat (nf w))
        [(0, REQUIRE_ISA cfg misa_V (match_instr w 0xFDF0707F 0x7 VLE8_V VLE8_V)),
         (1, REQUIRE_ISA cfg misa_V (match_instr w 0xFDF0707F 0x20000007 VLSEG2E8_V VLSEG2E8_V)),
         (2, REQUIRE_ISA cfg misa_V (match_instr w 0xFDF0707F 0x40000007 VLSEG3E8_V VLSEG3E8_V)),
         (3, REQUIRE_ISA cfg misa_V (match_instr w 0xFDF0707F 0x60000007 VLSEG4E8_V VLSEG4E8_V)),
         (4, REQUIRE_ISA cfg misa_V (match_instr w 0xFDF0707F 0x80000007 VLSEG5E8_V VLSEG5E8_V)),
         (5, REQUIRE_ISA cfg misa_V (match_instr w 0xFDF0707F 0xA0000007 VLSEG6E8_V VLSEG6E8_V)),
         (6, REQUIRE_ISA cfg misa_V (match_instr w 0xFDF0707F 0xC0000007 VLSEG7E8_V VLSEG7E8_V)),
         (7, REQUIRE_ISA cfg misa_V (match_instr w 0xFDF0707F 0xE0000007 VLSEG8E8_V VLSEG8E8_V))] UNDEF),
       (16, switch_on (unat (nf w))
        [(0, REQUIRE_ISA cfg misa_V (match_instr w 0xFDF0707F 0x1000007 VLE8FF_V VLE8FF_V)),
         (1, REQUIRE_ISA cfg misa_V (match_instr w 0xFDF0707F 0x21000007 VLSEG2E8FF_V VLSEG2E8FF_V)),
         (2, REQUIRE_ISA cfg misa_V (match_instr w 0xFDF0707F 0x41000007 VLSEG3E8FF_V VLSEG3E8FF_V)),
         (3, REQUIRE_ISA cfg misa_V (match_instr w 0xFDF0707F 0x61000007 VLSEG4E8FF_V VLSEG4E8FF_V)),
         (4, REQUIRE_ISA cfg misa_V (match_instr w 0xFDF0707F 0x81000007 VLSEG5E8FF_V VLSEG5E8FF_V)),
         (5, REQUIRE_ISA cfg misa_V (match_instr w 0xFDF0707F 0xA1000007 VLSEG6E8FF_V VLSEG6E8FF_V)),
         (6, REQUIRE_ISA cfg misa_V (match_instr w 0xFDF0707F 0xC1000007 VLSEG7E8FF_V VLSEG7E8FF_V)),
         (7, REQUIRE_ISA cfg misa_V (match_instr w 0xFDF0707F 0xE1000007 VLSEG8E8FF_V VLSEG8E8FF_V))] UNDEF),
       (8, switch_on (unat (nf w))
        [(0, REQUIRE_ISA cfg misa_V (match_instr w 0xFDF0707F 0x800007 VL1RE8_V VL1RE8_V)),
         (1, REQUIRE_ISA cfg misa_V (match_instr w 0xFDF0707F 0x20800007 VL2RE8_V VL2RE8_V)),
         (3, REQUIRE_ISA cfg misa_V (match_instr w 0xFDF0707F 0x60800007 VL4RE8_V VL4RE8_V)),
         (7, REQUIRE_ISA cfg misa_V (match_instr w 0xFDF0707F 0xE0800007 VL8RE8_V VL8RE8_V))] UNDEF)] UNDEF"

definition decode_OP_FLW_funct3_0_mew_0 :: "Architecture \<Rightarrow> u64 \<Rightarrow> u32 \<Rightarrow> OpId" where
  "decode_OP_FLW_funct3_0_mew_0 arch cfg w =
    switch_on (unat (mop w))
      [(0, decode_OP_FLW_funct3_0_mew_0_mop_0 arch cfg w),
       (2, switch_on (unat (nf w))
        [(0, REQUIRE_ISA cfg misa_V (match_instr w 0xFC00707F 0x8000007 VLSE8_V VLSE8_V)),
         (1, REQUIRE_ISA cfg misa_V (match_instr w 0xFC00707F 0x28000007 VLSSEG2E8_V VLSSEG2E8_V)),
         (2, REQUIRE_ISA cfg misa_V (match_instr w 0xFC00707F 0x48000007 VLSSEG3E8_V VLSSEG3E8_V)),
         (3, REQUIRE_ISA cfg misa_V (match_instr w 0xFC00707F 0x68000007 VLSSEG4E8_V VLSSEG4E8_V)),
         (4, REQUIRE_ISA cfg misa_V (match_instr w 0xFC00707F 0x88000007 VLSSEG5E8_V VLSSEG5E8_V)),
         (5, REQUIRE_ISA cfg misa_V (match_instr w 0xFC00707F 0xA8000007 VLSSEG6E8_V VLSSEG6E8_V)),
         (6, REQUIRE_ISA cfg misa_V (match_instr w 0xFC00707F 0xC8000007 VLSSEG7E8_V VLSSEG7E8_V)),
         (7, REQUIRE_ISA cfg misa_V (match_instr w 0xFC00707F 0xE8000007 VLSSEG8E8_V VLSSEG8E8_V))] UNDEF),
       (1, switch_on (unat (nf w))
        [(0, REQUIRE_ISA cfg misa_V (match_instr w 0xFC00707F 0x4000007 VLUXEI8_V VLUXEI8_V)),
         (1, REQUIRE_ISA cfg misa_V (match_instr w 0xFC00707F 0x24000007 VLUXSEG2EI8_V VLUXSEG2EI8_V)),
         (2, REQUIRE_ISA cfg misa_V (match_instr w 0xFC00707F 0x44000007 VLUXSEG3EI8_V VLUXSEG3EI8_V)),
         (3, REQUIRE_ISA cfg misa_V (match_instr w 0xFC00707F 0x64000007 VLUXSEG4EI8_V VLUXSEG4EI8_V)),
         (4, REQUIRE_ISA cfg misa_V (match_instr w 0xFC00707F 0x84000007 VLUXSEG5EI8_V VLUXSEG5EI8_V)),
         (5, REQUIRE_ISA cfg misa_V (match_instr w 0xFC00707F 0xA4000007 VLUXSEG6EI8_V VLUXSEG6EI8_V)),
         (6, REQUIRE_ISA cfg misa_V (match_instr w 0xFC00707F 0xC4000007 VLUXSEG7EI8_V VLUXSEG7EI8_V)),
         (7, REQUIRE_ISA cfg misa_V (match_instr w 0xFC00707F 0xE4000007 VLUXSEG8EI8_V VLUXSEG8EI8_V))] UNDEF),
       (3, switch_on (unat (nf w))
        [(0, REQUIRE_ISA cfg misa_V (match_instr w 0xFC00707F 0xC000007 VLOXEI8_V VLOXEI8_V)),
         (1, REQUIRE_ISA cfg misa_V (match_instr w 0xFC00707F 0x2C000007 VLOXSEG2EI8_V VLOXSEG2EI8_V)),
         (2, REQUIRE_ISA cfg misa_V (match_instr w 0xFC00707F 0x4C000007 VLOXSEG3EI8_V VLOXSEG3EI8_V)),
         (3, REQUIRE_ISA cfg misa_V (match_instr w 0xFC00707F 0x6C000007 VLOXSEG4EI8_V VLOXSEG4EI8_V)),
         (4, REQUIRE_ISA cfg misa_V (match_instr w 0xFC00707F 0x8C000007 VLOXSEG5EI8_V VLOXSEG5EI8_V)),
         (5, REQUIRE_ISA cfg misa_V (match_instr w 0xFC00707F 0xAC000007 VLOXSEG6EI8_V VLOXSEG6EI8_V)),
         (6, REQUIRE_ISA cfg misa_V (match_instr w 0xFC00707F 0xCC000007 VLOXSEG7EI8_V VLOXSEG7EI8_V)),
         (7, REQUIRE_ISA cfg misa_V (match_instr w 0xFC00707F 0xEC000007 VLOXSEG8EI8_V VLOXSEG8EI8_V))] UNDEF)] UNDEF"

definition decode_OP_FLW_funct3_0 :: "Architecture \<Rightarrow> u64 \<Rightarrow> u32 \<Rightarrow> OpId" where
  "decode_OP_FLW_funct3_0 arch cfg w =
    switch_on (unat (mew w))
      [(0, decode_OP_FLW_funct3_0_mew_0 arch cfg w)] UNDEF"

definition decode_OP_FLW_funct3_5_mew_0_mop_0 :: "Architecture \<Rightarrow> u64 \<Rightarrow> u32 \<Rightarrow> OpId" where
  "decode_OP_FLW_funct3_5_mew_0_mop_0 arch cfg w =
    switch_on (unat (lusumop w))
      [(0, switch_on (unat (nf w))
        [(0, REQUIRE_ISA cfg misa_V (match_instr w 0xFDF0707F 0x5007 VLE16_V VLE16_V)),
         (1, REQUIRE_ISA cfg misa_V (match_instr w 0xFDF0707F 0x20005007 VLSEG2E16_V VLSEG2E16_V)),
         (2, REQUIRE_ISA cfg misa_V (match_instr w 0xFDF0707F 0x40005007 VLSEG3E16_V VLSEG3E16_V)),
         (3, REQUIRE_ISA cfg misa_V (match_instr w 0xFDF0707F 0x60005007 VLSEG4E16_V VLSEG4E16_V)),
         (4, REQUIRE_ISA cfg misa_V (match_instr w 0xFDF0707F 0x80005007 VLSEG5E16_V VLSEG5E16_V)),
         (5, REQUIRE_ISA cfg misa_V (match_instr w 0xFDF0707F 0xA0005007 VLSEG6E16_V VLSEG6E16_V)),
         (6, REQUIRE_ISA cfg misa_V (match_instr w 0xFDF0707F 0xC0005007 VLSEG7E16_V VLSEG7E16_V)),
         (7, REQUIRE_ISA cfg misa_V (match_instr w 0xFDF0707F 0xE0005007 VLSEG8E16_V VLSEG8E16_V))] UNDEF),
       (16, switch_on (unat (nf w))
        [(0, REQUIRE_ISA cfg misa_V (match_instr w 0xFDF0707F 0x1005007 VLE16FF_V VLE16FF_V)),
         (1, REQUIRE_ISA cfg misa_V (match_instr w 0xFDF0707F 0x21005007 VLSEG2E16FF_V VLSEG2E16FF_V)),
         (2, REQUIRE_ISA cfg misa_V (match_instr w 0xFDF0707F 0x41005007 VLSEG3E16FF_V VLSEG3E16FF_V)),
         (3, REQUIRE_ISA cfg misa_V (match_instr w 0xFDF0707F 0x61005007 VLSEG4E16FF_V VLSEG4E16FF_V)),
         (4, REQUIRE_ISA cfg misa_V (match_instr w 0xFDF0707F 0x81005007 VLSEG5E16FF_V VLSEG5E16FF_V)),
         (5, REQUIRE_ISA cfg misa_V (match_instr w 0xFDF0707F 0xA1005007 VLSEG6E16FF_V VLSEG6E16FF_V)),
         (6, REQUIRE_ISA cfg misa_V (match_instr w 0xFDF0707F 0xC1005007 VLSEG7E16FF_V VLSEG7E16FF_V)),
         (7, REQUIRE_ISA cfg misa_V (match_instr w 0xFDF0707F 0xE1005007 VLSEG8E16FF_V VLSEG8E16FF_V))] UNDEF),
       (8, switch_on (unat (nf w))
        [(0, REQUIRE_ISA cfg misa_V (match_instr w 0xFDF0707F 0x805007 VL1RE16_V VL1RE16_V)),
         (1, REQUIRE_ISA cfg misa_V (match_instr w 0xFDF0707F 0x20805007 VL2RE16_V VL2RE16_V)),
         (3, REQUIRE_ISA cfg misa_V (match_instr w 0xFDF0707F 0x60805007 VL4RE16_V VL4RE16_V)),
         (7, REQUIRE_ISA cfg misa_V (match_instr w 0xFDF0707F 0xE0805007 VL8RE16_V VL8RE16_V))] UNDEF)] UNDEF"

definition decode_OP_FLW_funct3_5_mew_0 :: "Architecture \<Rightarrow> u64 \<Rightarrow> u32 \<Rightarrow> OpId" where
  "decode_OP_FLW_funct3_5_mew_0 arch cfg w =
    switch_on (unat (mop w))
      [(0, decode_OP_FLW_funct3_5_mew_0_mop_0 arch cfg w),
       (2, switch_on (unat (nf w))
        [(0, REQUIRE_ISA cfg misa_V (match_instr w 0xFC00707F 0x8005007 VLSE16_V VLSE16_V)),
         (1, REQUIRE_ISA cfg misa_V (match_instr w 0xFC00707F 0x28005007 VLSSEG2E16_V VLSSEG2E16_V)),
         (2, REQUIRE_ISA cfg misa_V (match_instr w 0xFC00707F 0x48005007 VLSSEG3E16_V VLSSEG3E16_V)),
         (3, REQUIRE_ISA cfg misa_V (match_instr w 0xFC00707F 0x68005007 VLSSEG4E16_V VLSSEG4E16_V)),
         (4, REQUIRE_ISA cfg misa_V (match_instr w 0xFC00707F 0x88005007 VLSSEG5E16_V VLSSEG5E16_V)),
         (5, REQUIRE_ISA cfg misa_V (match_instr w 0xFC00707F 0xA8005007 VLSSEG6E16_V VLSSEG6E16_V)),
         (6, REQUIRE_ISA cfg misa_V (match_instr w 0xFC00707F 0xC8005007 VLSSEG7E16_V VLSSEG7E16_V)),
         (7, REQUIRE_ISA cfg misa_V (match_instr w 0xFC00707F 0xE8005007 VLSSEG8E16_V VLSSEG8E16_V))] UNDEF),
       (1, switch_on (unat (nf w))
        [(0, REQUIRE_ISA cfg misa_V (match_instr w 0xFC00707F 0x4005007 VLUXEI16_V VLUXEI16_V)),
         (1, REQUIRE_ISA cfg misa_V (match_instr w 0xFC00707F 0x24005007 VLUXSEG2EI16_V VLUXSEG2EI16_V)),
         (2, REQUIRE_ISA cfg misa_V (match_instr w 0xFC00707F 0x44005007 VLUXSEG3EI16_V VLUXSEG3EI16_V)),
         (3, REQUIRE_ISA cfg misa_V (match_instr w 0xFC00707F 0x64005007 VLUXSEG4EI16_V VLUXSEG4EI16_V)),
         (4, REQUIRE_ISA cfg misa_V (match_instr w 0xFC00707F 0x84005007 VLUXSEG5EI16_V VLUXSEG5EI16_V)),
         (5, REQUIRE_ISA cfg misa_V (match_instr w 0xFC00707F 0xA4005007 VLUXSEG6EI16_V VLUXSEG6EI16_V)),
         (6, REQUIRE_ISA cfg misa_V (match_instr w 0xFC00707F 0xC4005007 VLUXSEG7EI16_V VLUXSEG7EI16_V)),
         (7, REQUIRE_ISA cfg misa_V (match_instr w 0xFC00707F 0xE4005007 VLUXSEG8EI16_V VLUXSEG8EI16_V))] UNDEF),
       (3, switch_on (unat (nf w))
        [(0, REQUIRE_ISA cfg misa_V (match_instr w 0xFC00707F 0xC005007 VLOXEI16_V VLOXEI16_V)),
         (1, REQUIRE_ISA cfg misa_V (match_instr w 0xFC00707F 0x2C005007 VLOXSEG2EI16_V VLOXSEG2EI16_V)),
         (2, REQUIRE_ISA cfg misa_V (match_instr w 0xFC00707F 0x4C005007 VLOXSEG3EI16_V VLOXSEG3EI16_V)),
         (3, REQUIRE_ISA cfg misa_V (match_instr w 0xFC00707F 0x6C005007 VLOXSEG4EI16_V VLOXSEG4EI16_V)),
         (4, REQUIRE_ISA cfg misa_V (match_instr w 0xFC00707F 0x8C005007 VLOXSEG5EI16_V VLOXSEG5EI16_V)),
         (5, REQUIRE_ISA cfg misa_V (match_instr w 0xFC00707F 0xAC005007 VLOXSEG6EI16_V VLOXSEG6EI16_V)),
         (6, REQUIRE_ISA cfg misa_V (match_instr w 0xFC00707F 0xCC005007 VLOXSEG7EI16_V VLOXSEG7EI16_V)),
         (7, REQUIRE_ISA cfg misa_V (match_instr w 0xFC00707F 0xEC005007 VLOXSEG8EI16_V VLOXSEG8EI16_V))] UNDEF)] UNDEF"

definition decode_OP_FLW_funct3_5 :: "Architecture \<Rightarrow> u64 \<Rightarrow> u32 \<Rightarrow> OpId" where
  "decode_OP_FLW_funct3_5 arch cfg w =
    switch_on (unat (mew w))
      [(0, decode_OP_FLW_funct3_5_mew_0 arch cfg w)] UNDEF"

definition decode_OP_FLW_funct3_6_mew_0_mop_0 :: "Architecture \<Rightarrow> u64 \<Rightarrow> u32 \<Rightarrow> OpId" where
  "decode_OP_FLW_funct3_6_mew_0_mop_0 arch cfg w =
    switch_on (unat (lusumop w))
      [(0, switch_on (unat (nf w))
        [(0, REQUIRE_ISA cfg misa_V (match_instr w 0xFDF0707F 0x6007 VLE32_V VLE32_V)),
         (1, REQUIRE_ISA cfg misa_V (match_instr w 0xFDF0707F 0x20006007 VLSEG2E32_V VLSEG2E32_V)),
         (2, REQUIRE_ISA cfg misa_V (match_instr w 0xFDF0707F 0x40006007 VLSEG3E32_V VLSEG3E32_V)),
         (3, REQUIRE_ISA cfg misa_V (match_instr w 0xFDF0707F 0x60006007 VLSEG4E32_V VLSEG4E32_V)),
         (4, REQUIRE_ISA cfg misa_V (match_instr w 0xFDF0707F 0x80006007 VLSEG5E32_V VLSEG5E32_V)),
         (5, REQUIRE_ISA cfg misa_V (match_instr w 0xFDF0707F 0xA0006007 VLSEG6E32_V VLSEG6E32_V)),
         (6, REQUIRE_ISA cfg misa_V (match_instr w 0xFDF0707F 0xC0006007 VLSEG7E32_V VLSEG7E32_V)),
         (7, REQUIRE_ISA cfg misa_V (match_instr w 0xFDF0707F 0xE0006007 VLSEG8E32_V VLSEG8E32_V))] UNDEF),
       (16, switch_on (unat (nf w))
        [(0, REQUIRE_ISA cfg misa_V (match_instr w 0xFDF0707F 0x1006007 VLE32FF_V VLE32FF_V)),
         (1, REQUIRE_ISA cfg misa_V (match_instr w 0xFDF0707F 0x21006007 VLSEG2E32FF_V VLSEG2E32FF_V)),
         (2, REQUIRE_ISA cfg misa_V (match_instr w 0xFDF0707F 0x41006007 VLSEG3E32FF_V VLSEG3E32FF_V)),
         (3, REQUIRE_ISA cfg misa_V (match_instr w 0xFDF0707F 0x61006007 VLSEG4E32FF_V VLSEG4E32FF_V)),
         (4, REQUIRE_ISA cfg misa_V (match_instr w 0xFDF0707F 0x81006007 VLSEG5E32FF_V VLSEG5E32FF_V)),
         (5, REQUIRE_ISA cfg misa_V (match_instr w 0xFDF0707F 0xA1006007 VLSEG6E32FF_V VLSEG6E32FF_V)),
         (6, REQUIRE_ISA cfg misa_V (match_instr w 0xFDF0707F 0xC1006007 VLSEG7E32FF_V VLSEG7E32FF_V)),
         (7, REQUIRE_ISA cfg misa_V (match_instr w 0xFDF0707F 0xE1006007 VLSEG8E32FF_V VLSEG8E32FF_V))] UNDEF),
       (8, switch_on (unat (nf w))
        [(0, REQUIRE_ISA cfg misa_V (match_instr w 0xFDF0707F 0x806007 VL1RE32_V VL1RE32_V)),
         (1, REQUIRE_ISA cfg misa_V (match_instr w 0xFDF0707F 0x20806007 VL2RE32_V VL2RE32_V)),
         (3, REQUIRE_ISA cfg misa_V (match_instr w 0xFDF0707F 0x60806007 VL4RE32_V VL4RE32_V)),
         (7, REQUIRE_ISA cfg misa_V (match_instr w 0xFDF0707F 0xE0806007 VL8RE32_V VL8RE32_V))] UNDEF)] UNDEF"

definition decode_OP_FLW_funct3_6_mew_0 :: "Architecture \<Rightarrow> u64 \<Rightarrow> u32 \<Rightarrow> OpId" where
  "decode_OP_FLW_funct3_6_mew_0 arch cfg w =
    switch_on (unat (mop w))
      [(0, decode_OP_FLW_funct3_6_mew_0_mop_0 arch cfg w),
       (2, switch_on (unat (nf w))
        [(0, REQUIRE_ISA cfg misa_V (match_instr w 0xFC00707F 0x8006007 VLSE32_V VLSE32_V)),
         (1, REQUIRE_ISA cfg misa_V (match_instr w 0xFC00707F 0x28006007 VLSSEG2E32_V VLSSEG2E32_V)),
         (2, REQUIRE_ISA cfg misa_V (match_instr w 0xFC00707F 0x48006007 VLSSEG3E32_V VLSSEG3E32_V)),
         (3, REQUIRE_ISA cfg misa_V (match_instr w 0xFC00707F 0x68006007 VLSSEG4E32_V VLSSEG4E32_V)),
         (4, REQUIRE_ISA cfg misa_V (match_instr w 0xFC00707F 0x88006007 VLSSEG5E32_V VLSSEG5E32_V)),
         (5, REQUIRE_ISA cfg misa_V (match_instr w 0xFC00707F 0xA8006007 VLSSEG6E32_V VLSSEG6E32_V)),
         (6, REQUIRE_ISA cfg misa_V (match_instr w 0xFC00707F 0xC8006007 VLSSEG7E32_V VLSSEG7E32_V)),
         (7, REQUIRE_ISA cfg misa_V (match_instr w 0xFC00707F 0xE8006007 VLSSEG8E32_V VLSSEG8E32_V))] UNDEF),
       (1, switch_on (unat (nf w))
        [(0, REQUIRE_ISA cfg misa_V (match_instr w 0xFC00707F 0x4006007 VLUXEI32_V VLUXEI32_V)),
         (1, REQUIRE_ISA cfg misa_V (match_instr w 0xFC00707F 0x24006007 VLUXSEG2EI32_V VLUXSEG2EI32_V)),
         (2, REQUIRE_ISA cfg misa_V (match_instr w 0xFC00707F 0x44006007 VLUXSEG3EI32_V VLUXSEG3EI32_V)),
         (3, REQUIRE_ISA cfg misa_V (match_instr w 0xFC00707F 0x64006007 VLUXSEG4EI32_V VLUXSEG4EI32_V)),
         (4, REQUIRE_ISA cfg misa_V (match_instr w 0xFC00707F 0x84006007 VLUXSEG5EI32_V VLUXSEG5EI32_V)),
         (5, REQUIRE_ISA cfg misa_V (match_instr w 0xFC00707F 0xA4006007 VLUXSEG6EI32_V VLUXSEG6EI32_V)),
         (6, REQUIRE_ISA cfg misa_V (match_instr w 0xFC00707F 0xC4006007 VLUXSEG7EI32_V VLUXSEG7EI32_V)),
         (7, REQUIRE_ISA cfg misa_V (match_instr w 0xFC00707F 0xE4006007 VLUXSEG8EI32_V VLUXSEG8EI32_V))] UNDEF),
       (3, switch_on (unat (nf w))
        [(0, REQUIRE_ISA cfg misa_V (match_instr w 0xFC00707F 0xC006007 VLOXEI32_V VLOXEI32_V)),
         (1, REQUIRE_ISA cfg misa_V (match_instr w 0xFC00707F 0x2C006007 VLOXSEG2EI32_V VLOXSEG2EI32_V)),
         (2, REQUIRE_ISA cfg misa_V (match_instr w 0xFC00707F 0x4C006007 VLOXSEG3EI32_V VLOXSEG3EI32_V)),
         (3, REQUIRE_ISA cfg misa_V (match_instr w 0xFC00707F 0x6C006007 VLOXSEG4EI32_V VLOXSEG4EI32_V)),
         (4, REQUIRE_ISA cfg misa_V (match_instr w 0xFC00707F 0x8C006007 VLOXSEG5EI32_V VLOXSEG5EI32_V)),
         (5, REQUIRE_ISA cfg misa_V (match_instr w 0xFC00707F 0xAC006007 VLOXSEG6EI32_V VLOXSEG6EI32_V)),
         (6, REQUIRE_ISA cfg misa_V (match_instr w 0xFC00707F 0xCC006007 VLOXSEG7EI32_V VLOXSEG7EI32_V)),
         (7, REQUIRE_ISA cfg misa_V (match_instr w 0xFC00707F 0xEC006007 VLOXSEG8EI32_V VLOXSEG8EI32_V))] UNDEF)] UNDEF"

definition decode_OP_FLW_funct3_6 :: "Architecture \<Rightarrow> u64 \<Rightarrow> u32 \<Rightarrow> OpId" where
  "decode_OP_FLW_funct3_6 arch cfg w =
    switch_on (unat (mew w))
      [(0, decode_OP_FLW_funct3_6_mew_0 arch cfg w)] UNDEF"

definition decode_OP_FLW_funct3_7_mew_0_mop_0 :: "Architecture \<Rightarrow> u64 \<Rightarrow> u32 \<Rightarrow> OpId" where
  "decode_OP_FLW_funct3_7_mew_0_mop_0 arch cfg w =
    switch_on (unat (lusumop w))
      [(0, switch_on (unat (nf w))
        [(0, REQUIRE_ISA cfg misa_V (match_instr w 0xFDF0707F 0x7007 VLE64_V VLE64_V)),
         (1, REQUIRE_ISA cfg misa_V (match_instr w 0xFDF0707F 0x20007007 VLSEG2E64_V VLSEG2E64_V)),
         (2, REQUIRE_ISA cfg misa_V (match_instr w 0xFDF0707F 0x40007007 VLSEG3E64_V VLSEG3E64_V)),
         (3, REQUIRE_ISA cfg misa_V (match_instr w 0xFDF0707F 0x60007007 VLSEG4E64_V VLSEG4E64_V)),
         (4, REQUIRE_ISA cfg misa_V (match_instr w 0xFDF0707F 0x80007007 VLSEG5E64_V VLSEG5E64_V)),
         (5, REQUIRE_ISA cfg misa_V (match_instr w 0xFDF0707F 0xA0007007 VLSEG6E64_V VLSEG6E64_V)),
         (6, REQUIRE_ISA cfg misa_V (match_instr w 0xFDF0707F 0xC0007007 VLSEG7E64_V VLSEG7E64_V)),
         (7, REQUIRE_ISA cfg misa_V (match_instr w 0xFDF0707F 0xE0007007 VLSEG8E64_V VLSEG8E64_V))] UNDEF),
       (16, switch_on (unat (nf w))
        [(0, REQUIRE_ISA cfg misa_V (match_instr w 0xFDF0707F 0x1007007 VLE64FF_V VLE64FF_V)),
         (1, REQUIRE_ISA cfg misa_V (match_instr w 0xFDF0707F 0x21007007 VLSEG2E64FF_V VLSEG2E64FF_V)),
         (2, REQUIRE_ISA cfg misa_V (match_instr w 0xFDF0707F 0x41007007 VLSEG3E64FF_V VLSEG3E64FF_V)),
         (3, REQUIRE_ISA cfg misa_V (match_instr w 0xFDF0707F 0x61007007 VLSEG4E64FF_V VLSEG4E64FF_V)),
         (4, REQUIRE_ISA cfg misa_V (match_instr w 0xFDF0707F 0x81007007 VLSEG5E64FF_V VLSEG5E64FF_V)),
         (5, REQUIRE_ISA cfg misa_V (match_instr w 0xFDF0707F 0xA1007007 VLSEG6E64FF_V VLSEG6E64FF_V)),
         (6, REQUIRE_ISA cfg misa_V (match_instr w 0xFDF0707F 0xC1007007 VLSEG7E64FF_V VLSEG7E64FF_V)),
         (7, REQUIRE_ISA cfg misa_V (match_instr w 0xFDF0707F 0xE1007007 VLSEG8E64FF_V VLSEG8E64FF_V))] UNDEF),
       (8, switch_on (unat (nf w))
        [(0, REQUIRE_ISA cfg misa_V (match_instr w 0xFDF0707F 0x807007 VL1RE64_V VL1RE64_V)),
         (1, REQUIRE_ISA cfg misa_V (match_instr w 0xFDF0707F 0x20807007 VL2RE64_V VL2RE64_V)),
         (3, REQUIRE_ISA cfg misa_V (match_instr w 0xFDF0707F 0x60807007 VL4RE64_V VL4RE64_V)),
         (7, REQUIRE_ISA cfg misa_V (match_instr w 0xFDF0707F 0xE0807007 VL8RE64_V VL8RE64_V))] UNDEF)] UNDEF"

definition decode_OP_FLW_funct3_7_mew_0 :: "Architecture \<Rightarrow> u64 \<Rightarrow> u32 \<Rightarrow> OpId" where
  "decode_OP_FLW_funct3_7_mew_0 arch cfg w =
    switch_on (unat (mop w))
      [(0, decode_OP_FLW_funct3_7_mew_0_mop_0 arch cfg w),
       (2, switch_on (unat (nf w))
        [(0, REQUIRE_ISA cfg misa_V (match_instr w 0xFC00707F 0x8007007 VLSE64_V VLSE64_V)),
         (1, REQUIRE_ISA cfg misa_V (match_instr w 0xFC00707F 0x28007007 VLSSEG2E64_V VLSSEG2E64_V)),
         (2, REQUIRE_ISA cfg misa_V (match_instr w 0xFC00707F 0x48007007 VLSSEG3E64_V VLSSEG3E64_V)),
         (3, REQUIRE_ISA cfg misa_V (match_instr w 0xFC00707F 0x68007007 VLSSEG4E64_V VLSSEG4E64_V)),
         (4, REQUIRE_ISA cfg misa_V (match_instr w 0xFC00707F 0x88007007 VLSSEG5E64_V VLSSEG5E64_V)),
         (5, REQUIRE_ISA cfg misa_V (match_instr w 0xFC00707F 0xA8007007 VLSSEG6E64_V VLSSEG6E64_V)),
         (6, REQUIRE_ISA cfg misa_V (match_instr w 0xFC00707F 0xC8007007 VLSSEG7E64_V VLSSEG7E64_V)),
         (7, REQUIRE_ISA cfg misa_V (match_instr w 0xFC00707F 0xE8007007 VLSSEG8E64_V VLSSEG8E64_V))] UNDEF),
       (1, switch_on (unat (nf w))
        [(0, REQUIRE_ISA cfg misa_V (match_instr w 0xFC00707F 0x4007007 VLUXEI64_V VLUXEI64_V)),
         (1, REQUIRE_ISA cfg misa_V (match_instr w 0xFC00707F 0x24007007 VLUXSEG2EI64_V VLUXSEG2EI64_V)),
         (2, REQUIRE_ISA cfg misa_V (match_instr w 0xFC00707F 0x44007007 VLUXSEG3EI64_V VLUXSEG3EI64_V)),
         (3, REQUIRE_ISA cfg misa_V (match_instr w 0xFC00707F 0x64007007 VLUXSEG4EI64_V VLUXSEG4EI64_V)),
         (4, REQUIRE_ISA cfg misa_V (match_instr w 0xFC00707F 0x84007007 VLUXSEG5EI64_V VLUXSEG5EI64_V)),
         (5, REQUIRE_ISA cfg misa_V (match_instr w 0xFC00707F 0xA4007007 VLUXSEG6EI64_V VLUXSEG6EI64_V)),
         (6, REQUIRE_ISA cfg misa_V (match_instr w 0xFC00707F 0xC4007007 VLUXSEG7EI64_V VLUXSEG7EI64_V)),
         (7, REQUIRE_ISA cfg misa_V (match_instr w 0xFC00707F 0xE4007007 VLUXSEG8EI64_V VLUXSEG8EI64_V))] UNDEF),
       (3, switch_on (unat (nf w))
        [(0, REQUIRE_ISA cfg misa_V (match_instr w 0xFC00707F 0xC007007 VLOXEI64_V VLOXEI64_V)),
         (1, REQUIRE_ISA cfg misa_V (match_instr w 0xFC00707F 0x2C007007 VLOXSEG2EI64_V VLOXSEG2EI64_V)),
         (2, REQUIRE_ISA cfg misa_V (match_instr w 0xFC00707F 0x4C007007 VLOXSEG3EI64_V VLOXSEG3EI64_V)),
         (3, REQUIRE_ISA cfg misa_V (match_instr w 0xFC00707F 0x6C007007 VLOXSEG4EI64_V VLOXSEG4EI64_V)),
         (4, REQUIRE_ISA cfg misa_V (match_instr w 0xFC00707F 0x8C007007 VLOXSEG5EI64_V VLOXSEG5EI64_V)),
         (5, REQUIRE_ISA cfg misa_V (match_instr w 0xFC00707F 0xAC007007 VLOXSEG6EI64_V VLOXSEG6EI64_V)),
         (6, REQUIRE_ISA cfg misa_V (match_instr w 0xFC00707F 0xCC007007 VLOXSEG7EI64_V VLOXSEG7EI64_V)),
         (7, REQUIRE_ISA cfg misa_V (match_instr w 0xFC00707F 0xEC007007 VLOXSEG8EI64_V VLOXSEG8EI64_V))] UNDEF)] UNDEF"

definition decode_OP_FLW_funct3_7 :: "Architecture \<Rightarrow> u64 \<Rightarrow> u32 \<Rightarrow> OpId" where
  "decode_OP_FLW_funct3_7 arch cfg w =
    switch_on (unat (mew w))
      [(0, decode_OP_FLW_funct3_7_mew_0 arch cfg w)] UNDEF"

definition decode_OP_FLW :: "Architecture \<Rightarrow> u64 \<Rightarrow> u32 \<Rightarrow> OpId" where
  "decode_OP_FLW arch cfg w =
    switch_on (unat (funct3 w))
      [(F3_FLH, REQUIRE_ISA cfg Zfh (match_instr w 0x707F 0x1007 FLH FLH)),
       (F3_FLW, REQUIRE_ISA cfg misa_F (match_instr w 0x707F 0x2007 FLW FLW)),
       (F3_FLD, REQUIRE_ISA cfg misa_D (match_instr w 0x707F 0x3007 FLD FLD)),
       (0, decode_OP_FLW_funct3_0 arch cfg w),
       (5, decode_OP_FLW_funct3_5 arch cfg w),
       (6, decode_OP_FLW_funct3_6 arch cfg w),
       (7, decode_OP_FLW_funct3_7 arch cfg w)] UNDEF"

definition decode_OP_FSW_funct3_0_mew_0_mop_0 :: "Architecture \<Rightarrow> u64 \<Rightarrow> u32 \<Rightarrow> OpId" where
  "decode_OP_FSW_funct3_0_mew_0_mop_0 arch cfg w =
    switch_on (unat (lusumop w))
      [(11, switch_on (unat (nf w))
        [(0, REQUIRE_ISA cfg misa_V (match_instr w 0xFDF0707F 0xB00027 VSM_V VSM_V))] UNDEF),
       (0, switch_on (unat (nf w))
        [(0, REQUIRE_ISA cfg misa_V (match_instr w 0xFDF0707F 0x27 VSE8_V VSE8_V)),
         (1, REQUIRE_ISA cfg misa_V (match_instr w 0xFDF0707F 0x20000027 VSSEG2E8_V VSSEG2E8_V)),
         (2, REQUIRE_ISA cfg misa_V (match_instr w 0xFDF0707F 0x40000027 VSSEG3E8_V VSSEG3E8_V)),
         (3, REQUIRE_ISA cfg misa_V (match_instr w 0xFDF0707F 0x60000027 VSSEG4E8_V VSSEG4E8_V)),
         (4, REQUIRE_ISA cfg misa_V (match_instr w 0xFDF0707F 0x80000027 VSSEG5E8_V VSSEG5E8_V)),
         (5, REQUIRE_ISA cfg misa_V (match_instr w 0xFDF0707F 0xA0000027 VSSEG6E8_V VSSEG6E8_V)),
         (6, REQUIRE_ISA cfg misa_V (match_instr w 0xFDF0707F 0xC0000027 VSSEG7E8_V VSSEG7E8_V)),
         (7, REQUIRE_ISA cfg misa_V (match_instr w 0xFDF0707F 0xE0000027 VSSEG8E8_V VSSEG8E8_V))] UNDEF),
       (8, switch_on (unat (nf w))
        [(0, REQUIRE_ISA cfg misa_V (match_instr w 0xFDF0707F 0x800027 VS1R_V VS1R_V)),
         (1, REQUIRE_ISA cfg misa_V (match_instr w 0xFDF0707F 0x20800027 VS2R_V VS2R_V)),
         (3, REQUIRE_ISA cfg misa_V (match_instr w 0xFDF0707F 0x60800027 VS4R_V VS4R_V)),
         (7, REQUIRE_ISA cfg misa_V (match_instr w 0xFDF0707F 0xE0800027 VS8R_V VS8R_V))] UNDEF)] UNDEF"

definition decode_OP_FSW_funct3_0_mew_0 :: "Architecture \<Rightarrow> u64 \<Rightarrow> u32 \<Rightarrow> OpId" where
  "decode_OP_FSW_funct3_0_mew_0 arch cfg w =
    switch_on (unat (mop w))
      [(0, decode_OP_FSW_funct3_0_mew_0_mop_0 arch cfg w),
       (2, switch_on (unat (nf w))
        [(0, REQUIRE_ISA cfg misa_V (match_instr w 0xFC00707F 0x8000027 VSSE8_V VSSE8_V)),
         (1, REQUIRE_ISA cfg misa_V (match_instr w 0xFC00707F 0x28000027 VSSSEG2E8_V VSSSEG2E8_V)),
         (2, REQUIRE_ISA cfg misa_V (match_instr w 0xFC00707F 0x48000027 VSSSEG3E8_V VSSSEG3E8_V)),
         (3, REQUIRE_ISA cfg misa_V (match_instr w 0xFC00707F 0x68000027 VSSSEG4E8_V VSSSEG4E8_V)),
         (4, REQUIRE_ISA cfg misa_V (match_instr w 0xFC00707F 0x88000027 VSSSEG5E8_V VSSSEG5E8_V)),
         (5, REQUIRE_ISA cfg misa_V (match_instr w 0xFC00707F 0xA8000027 VSSSEG6E8_V VSSSEG6E8_V)),
         (6, REQUIRE_ISA cfg misa_V (match_instr w 0xFC00707F 0xC8000027 VSSSEG7E8_V VSSSEG7E8_V)),
         (7, REQUIRE_ISA cfg misa_V (match_instr w 0xFC00707F 0xE8000027 VSSSEG8E8_V VSSSEG8E8_V))] UNDEF),
       (1, switch_on (unat (nf w))
        [(0, REQUIRE_ISA cfg misa_V (match_instr w 0xFC00707F 0x4000027 VSUXEI8_V VSUXEI8_V)),
         (1, REQUIRE_ISA cfg misa_V (match_instr w 0xFC00707F 0x24000027 VSUXSEG2EI8_V VSUXSEG2EI8_V)),
         (2, REQUIRE_ISA cfg misa_V (match_instr w 0xFC00707F 0x44000027 VSUXSEG3EI8_V VSUXSEG3EI8_V)),
         (3, REQUIRE_ISA cfg misa_V (match_instr w 0xFC00707F 0x64000027 VSUXSEG4EI8_V VSUXSEG4EI8_V)),
         (4, REQUIRE_ISA cfg misa_V (match_instr w 0xFC00707F 0x84000027 VSUXSEG5EI8_V VSUXSEG5EI8_V)),
         (5, REQUIRE_ISA cfg misa_V (match_instr w 0xFC00707F 0xA4000027 VSUXSEG6EI8_V VSUXSEG6EI8_V)),
         (6, REQUIRE_ISA cfg misa_V (match_instr w 0xFC00707F 0xC4000027 VSUXSEG7EI8_V VSUXSEG7EI8_V)),
         (7, REQUIRE_ISA cfg misa_V (match_instr w 0xFC00707F 0xE4000027 VSUXSEG8EI8_V VSUXSEG8EI8_V))] UNDEF),
       (3, switch_on (unat (nf w))
        [(0, REQUIRE_ISA cfg misa_V (match_instr w 0xFC00707F 0xC000027 VSOXEI8_V VSOXEI8_V)),
         (1, REQUIRE_ISA cfg misa_V (match_instr w 0xFC00707F 0x2C000027 VSOXSEG2EI8_V VSOXSEG2EI8_V)),
         (2, REQUIRE_ISA cfg misa_V (match_instr w 0xFC00707F 0x4C000027 VSOXSEG3EI8_V VSOXSEG3EI8_V)),
         (3, REQUIRE_ISA cfg misa_V (match_instr w 0xFC00707F 0x6C000027 VSOXSEG4EI8_V VSOXSEG4EI8_V)),
         (4, REQUIRE_ISA cfg misa_V (match_instr w 0xFC00707F 0x8C000027 VSOXSEG5EI8_V VSOXSEG5EI8_V)),
         (5, REQUIRE_ISA cfg misa_V (match_instr w 0xFC00707F 0xAC000027 VSOXSEG6EI8_V VSOXSEG6EI8_V)),
         (6, REQUIRE_ISA cfg misa_V (match_instr w 0xFC00707F 0xCC000027 VSOXSEG7EI8_V VSOXSEG7EI8_V)),
         (7, REQUIRE_ISA cfg misa_V (match_instr w 0xFC00707F 0xEC000027 VSOXSEG8EI8_V VSOXSEG8EI8_V))] UNDEF)] UNDEF"

definition decode_OP_FSW_funct3_0 :: "Architecture \<Rightarrow> u64 \<Rightarrow> u32 \<Rightarrow> OpId" where
  "decode_OP_FSW_funct3_0 arch cfg w =
    switch_on (unat (mew w))
      [(0, decode_OP_FSW_funct3_0_mew_0 arch cfg w)] UNDEF"

definition decode_OP_FSW_funct3_5_mew_0 :: "Architecture \<Rightarrow> u64 \<Rightarrow> u32 \<Rightarrow> OpId" where
  "decode_OP_FSW_funct3_5_mew_0 arch cfg w =
    switch_on (unat (mop w))
      [(0, switch_on (unat (lusumop w))
        [(0, switch_on (unat (nf w))
          [(0, REQUIRE_ISA cfg misa_V (match_instr w 0xFDF0707F 0x5027 VSE16_V VSE16_V)),
           (1, REQUIRE_ISA cfg misa_V (match_instr w 0xFDF0707F 0x20005027 VSSEG2E16_V VSSEG2E16_V)),
           (2, REQUIRE_ISA cfg misa_V (match_instr w 0xFDF0707F 0x40005027 VSSEG3E16_V VSSEG3E16_V)),
           (3, REQUIRE_ISA cfg misa_V (match_instr w 0xFDF0707F 0x60005027 VSSEG4E16_V VSSEG4E16_V)),
           (4, REQUIRE_ISA cfg misa_V (match_instr w 0xFDF0707F 0x80005027 VSSEG5E16_V VSSEG5E16_V)),
           (5, REQUIRE_ISA cfg misa_V (match_instr w 0xFDF0707F 0xA0005027 VSSEG6E16_V VSSEG6E16_V)),
           (6, REQUIRE_ISA cfg misa_V (match_instr w 0xFDF0707F 0xC0005027 VSSEG7E16_V VSSEG7E16_V)),
           (7, REQUIRE_ISA cfg misa_V (match_instr w 0xFDF0707F 0xE0005027 VSSEG8E16_V VSSEG8E16_V))] UNDEF)] UNDEF),
       (2, switch_on (unat (nf w))
        [(0, REQUIRE_ISA cfg misa_V (match_instr w 0xFC00707F 0x8005027 VSSE16_V VSSE16_V)),
         (1, REQUIRE_ISA cfg misa_V (match_instr w 0xFC00707F 0x28005027 VSSSEG2E16_V VSSSEG2E16_V)),
         (2, REQUIRE_ISA cfg misa_V (match_instr w 0xFC00707F 0x48005027 VSSSEG3E16_V VSSSEG3E16_V)),
         (3, REQUIRE_ISA cfg misa_V (match_instr w 0xFC00707F 0x68005027 VSSSEG4E16_V VSSSEG4E16_V)),
         (4, REQUIRE_ISA cfg misa_V (match_instr w 0xFC00707F 0x88005027 VSSSEG5E16_V VSSSEG5E16_V)),
         (5, REQUIRE_ISA cfg misa_V (match_instr w 0xFC00707F 0xA8005027 VSSSEG6E16_V VSSSEG6E16_V)),
         (6, REQUIRE_ISA cfg misa_V (match_instr w 0xFC00707F 0xC8005027 VSSSEG7E16_V VSSSEG7E16_V)),
         (7, REQUIRE_ISA cfg misa_V (match_instr w 0xFC00707F 0xE8005027 VSSSEG8E16_V VSSSEG8E16_V))] UNDEF),
       (1, switch_on (unat (nf w))
        [(0, REQUIRE_ISA cfg misa_V (match_instr w 0xFC00707F 0x4005027 VSUXEI16_V VSUXEI16_V)),
         (1, REQUIRE_ISA cfg misa_V (match_instr w 0xFC00707F 0x24005027 VSUXSEG2EI16_V VSUXSEG2EI16_V)),
         (2, REQUIRE_ISA cfg misa_V (match_instr w 0xFC00707F 0x44005027 VSUXSEG3EI16_V VSUXSEG3EI16_V)),
         (3, REQUIRE_ISA cfg misa_V (match_instr w 0xFC00707F 0x64005027 VSUXSEG4EI16_V VSUXSEG4EI16_V)),
         (4, REQUIRE_ISA cfg misa_V (match_instr w 0xFC00707F 0x84005027 VSUXSEG5EI16_V VSUXSEG5EI16_V)),
         (5, REQUIRE_ISA cfg misa_V (match_instr w 0xFC00707F 0xA4005027 VSUXSEG6EI16_V VSUXSEG6EI16_V)),
         (6, REQUIRE_ISA cfg misa_V (match_instr w 0xFC00707F 0xC4005027 VSUXSEG7EI16_V VSUXSEG7EI16_V)),
         (7, REQUIRE_ISA cfg misa_V (match_instr w 0xFC00707F 0xE4005027 VSUXSEG8EI16_V VSUXSEG8EI16_V))] UNDEF),
       (3, switch_on (unat (nf w))
        [(0, REQUIRE_ISA cfg misa_V (match_instr w 0xFC00707F 0xC005027 VSOXEI16_V VSOXEI16_V)),
         (1, REQUIRE_ISA cfg misa_V (match_instr w 0xFC00707F 0x2C005027 VSOXSEG2EI16_V VSOXSEG2EI16_V)),
         (2, REQUIRE_ISA cfg misa_V (match_instr w 0xFC00707F 0x4C005027 VSOXSEG3EI16_V VSOXSEG3EI16_V)),
         (3, REQUIRE_ISA cfg misa_V (match_instr w 0xFC00707F 0x6C005027 VSOXSEG4EI16_V VSOXSEG4EI16_V)),
         (4, REQUIRE_ISA cfg misa_V (match_instr w 0xFC00707F 0x8C005027 VSOXSEG5EI16_V VSOXSEG5EI16_V)),
         (5, REQUIRE_ISA cfg misa_V (match_instr w 0xFC00707F 0xAC005027 VSOXSEG6EI16_V VSOXSEG6EI16_V)),
         (6, REQUIRE_ISA cfg misa_V (match_instr w 0xFC00707F 0xCC005027 VSOXSEG7EI16_V VSOXSEG7EI16_V)),
         (7, REQUIRE_ISA cfg misa_V (match_instr w 0xFC00707F 0xEC005027 VSOXSEG8EI16_V VSOXSEG8EI16_V))] UNDEF)] UNDEF"

definition decode_OP_FSW_funct3_5 :: "Architecture \<Rightarrow> u64 \<Rightarrow> u32 \<Rightarrow> OpId" where
  "decode_OP_FSW_funct3_5 arch cfg w =
    switch_on (unat (mew w))
      [(0, decode_OP_FSW_funct3_5_mew_0 arch cfg w)] UNDEF"

definition decode_OP_FSW_funct3_6_mew_0 :: "Architecture \<Rightarrow> u64 \<Rightarrow> u32 \<Rightarrow> OpId" where
  "decode_OP_FSW_funct3_6_mew_0 arch cfg w =
    switch_on (unat (mop w))
      [(0, switch_on (unat (lusumop w))
        [(0, switch_on (unat (nf w))
          [(0, REQUIRE_ISA cfg misa_V (match_instr w 0xFDF0707F 0x6027 VSE32_V VSE32_V)),
           (1, REQUIRE_ISA cfg misa_V (match_instr w 0xFDF0707F 0x20006027 VSSEG2E32_V VSSEG2E32_V)),
           (2, REQUIRE_ISA cfg misa_V (match_instr w 0xFDF0707F 0x40006027 VSSEG3E32_V VSSEG3E32_V)),
           (3, REQUIRE_ISA cfg misa_V (match_instr w 0xFDF0707F 0x60006027 VSSEG4E32_V VSSEG4E32_V)),
           (4, REQUIRE_ISA cfg misa_V (match_instr w 0xFDF0707F 0x80006027 VSSEG5E32_V VSSEG5E32_V)),
           (5, REQUIRE_ISA cfg misa_V (match_instr w 0xFDF0707F 0xA0006027 VSSEG6E32_V VSSEG6E32_V)),
           (6, REQUIRE_ISA cfg misa_V (match_instr w 0xFDF0707F 0xC0006027 VSSEG7E32_V VSSEG7E32_V)),
           (7, REQUIRE_ISA cfg misa_V (match_instr w 0xFDF0707F 0xE0006027 VSSEG8E32_V VSSEG8E32_V))] UNDEF)] UNDEF),
       (2, switch_on (unat (nf w))
        [(0, REQUIRE_ISA cfg misa_V (match_instr w 0xFC00707F 0x8006027 VSSE32_V VSSE32_V)),
         (1, REQUIRE_ISA cfg misa_V (match_instr w 0xFC00707F 0x28006027 VSSSEG2E32_V VSSSEG2E32_V)),
         (2, REQUIRE_ISA cfg misa_V (match_instr w 0xFC00707F 0x48006027 VSSSEG3E32_V VSSSEG3E32_V)),
         (3, REQUIRE_ISA cfg misa_V (match_instr w 0xFC00707F 0x68006027 VSSSEG4E32_V VSSSEG4E32_V)),
         (4, REQUIRE_ISA cfg misa_V (match_instr w 0xFC00707F 0x88006027 VSSSEG5E32_V VSSSEG5E32_V)),
         (5, REQUIRE_ISA cfg misa_V (match_instr w 0xFC00707F 0xA8006027 VSSSEG6E32_V VSSSEG6E32_V)),
         (6, REQUIRE_ISA cfg misa_V (match_instr w 0xFC00707F 0xC8006027 VSSSEG7E32_V VSSSEG7E32_V)),
         (7, REQUIRE_ISA cfg misa_V (match_instr w 0xFC00707F 0xE8006027 VSSSEG8E32_V VSSSEG8E32_V))] UNDEF),
       (1, switch_on (unat (nf w))
        [(0, REQUIRE_ISA cfg misa_V (match_instr w 0xFC00707F 0x4006027 VSUXEI32_V VSUXEI32_V)),
         (1, REQUIRE_ISA cfg misa_V (match_instr w 0xFC00707F 0x24006027 VSUXSEG2EI32_V VSUXSEG2EI32_V)),
         (2, REQUIRE_ISA cfg misa_V (match_instr w 0xFC00707F 0x44006027 VSUXSEG3EI32_V VSUXSEG3EI32_V)),
         (3, REQUIRE_ISA cfg misa_V (match_instr w 0xFC00707F 0x64006027 VSUXSEG4EI32_V VSUXSEG4EI32_V)),
         (4, REQUIRE_ISA cfg misa_V (match_instr w 0xFC00707F 0x84006027 VSUXSEG5EI32_V VSUXSEG5EI32_V)),
         (5, REQUIRE_ISA cfg misa_V (match_instr w 0xFC00707F 0xA4006027 VSUXSEG6EI32_V VSUXSEG6EI32_V)),
         (6, REQUIRE_ISA cfg misa_V (match_instr w 0xFC00707F 0xC4006027 VSUXSEG7EI32_V VSUXSEG7EI32_V)),
         (7, REQUIRE_ISA cfg misa_V (match_instr w 0xFC00707F 0xE4006027 VSUXSEG8EI32_V VSUXSEG8EI32_V))] UNDEF),
       (3, switch_on (unat (nf w))
        [(0, REQUIRE_ISA cfg misa_V (match_instr w 0xFC00707F 0xC006027 VSOXEI32_V VSOXEI32_V)),
         (1, REQUIRE_ISA cfg misa_V (match_instr w 0xFC00707F 0x2C006027 VSOXSEG2EI32_V VSOXSEG2EI32_V)),
         (2, REQUIRE_ISA cfg misa_V (match_instr w 0xFC00707F 0x4C006027 VSOXSEG3EI32_V VSOXSEG3EI32_V)),
         (3, REQUIRE_ISA cfg misa_V (match_instr w 0xFC00707F 0x6C006027 VSOXSEG4EI32_V VSOXSEG4EI32_V)),
         (4, REQUIRE_ISA cfg misa_V (match_instr w 0xFC00707F 0x8C006027 VSOXSEG5EI32_V VSOXSEG5EI32_V)),
         (5, REQUIRE_ISA cfg misa_V (match_instr w 0xFC00707F 0xAC006027 VSOXSEG6EI32_V VSOXSEG6EI32_V)),
         (6, REQUIRE_ISA cfg misa_V (match_instr w 0xFC00707F 0xCC006027 VSOXSEG7EI32_V VSOXSEG7EI32_V)),
         (7, REQUIRE_ISA cfg misa_V (match_instr w 0xFC00707F 0xEC006027 VSOXSEG8EI32_V VSOXSEG8EI32_V))] UNDEF)] UNDEF"

definition decode_OP_FSW_funct3_6 :: "Architecture \<Rightarrow> u64 \<Rightarrow> u32 \<Rightarrow> OpId" where
  "decode_OP_FSW_funct3_6 arch cfg w =
    switch_on (unat (mew w))
      [(0, decode_OP_FSW_funct3_6_mew_0 arch cfg w)] UNDEF"

definition decode_OP_FSW_funct3_7_mew_0 :: "Architecture \<Rightarrow> u64 \<Rightarrow> u32 \<Rightarrow> OpId" where
  "decode_OP_FSW_funct3_7_mew_0 arch cfg w =
    switch_on (unat (mop w))
      [(0, switch_on (unat (lusumop w))
        [(0, switch_on (unat (nf w))
          [(0, REQUIRE_ISA cfg misa_V (match_instr w 0xFDF0707F 0x7027 VSE64_V VSE64_V)),
           (1, REQUIRE_ISA cfg misa_V (match_instr w 0xFDF0707F 0x20007027 VSSEG2E64_V VSSEG2E64_V)),
           (2, REQUIRE_ISA cfg misa_V (match_instr w 0xFDF0707F 0x40007027 VSSEG3E64_V VSSEG3E64_V)),
           (3, REQUIRE_ISA cfg misa_V (match_instr w 0xFDF0707F 0x60007027 VSSEG4E64_V VSSEG4E64_V)),
           (4, REQUIRE_ISA cfg misa_V (match_instr w 0xFDF0707F 0x80007027 VSSEG5E64_V VSSEG5E64_V)),
           (5, REQUIRE_ISA cfg misa_V (match_instr w 0xFDF0707F 0xA0007027 VSSEG6E64_V VSSEG6E64_V)),
           (6, REQUIRE_ISA cfg misa_V (match_instr w 0xFDF0707F 0xC0007027 VSSEG7E64_V VSSEG7E64_V)),
           (7, REQUIRE_ISA cfg misa_V (match_instr w 0xFDF0707F 0xE0007027 VSSEG8E64_V VSSEG8E64_V))] UNDEF)] UNDEF),
       (2, switch_on (unat (nf w))
        [(0, REQUIRE_ISA cfg misa_V (match_instr w 0xFC00707F 0x8007027 VSSE64_V VSSE64_V)),
         (1, REQUIRE_ISA cfg misa_V (match_instr w 0xFC00707F 0x28007027 VSSSEG2E64_V VSSSEG2E64_V)),
         (2, REQUIRE_ISA cfg misa_V (match_instr w 0xFC00707F 0x48007027 VSSSEG3E64_V VSSSEG3E64_V)),
         (3, REQUIRE_ISA cfg misa_V (match_instr w 0xFC00707F 0x68007027 VSSSEG4E64_V VSSSEG4E64_V)),
         (4, REQUIRE_ISA cfg misa_V (match_instr w 0xFC00707F 0x88007027 VSSSEG5E64_V VSSSEG5E64_V)),
         (5, REQUIRE_ISA cfg misa_V (match_instr w 0xFC00707F 0xA8007027 VSSSEG6E64_V VSSSEG6E64_V)),
         (6, REQUIRE_ISA cfg misa_V (match_instr w 0xFC00707F 0xC8007027 VSSSEG7E64_V VSSSEG7E64_V)),
         (7, REQUIRE_ISA cfg misa_V (match_instr w 0xFC00707F 0xE8007027 VSSSEG8E64_V VSSSEG8E64_V))] UNDEF),
       (1, switch_on (unat (nf w))
        [(0, REQUIRE_ISA cfg misa_V (match_instr w 0xFC00707F 0x4007027 VSUXEI64_V VSUXEI64_V)),
         (1, REQUIRE_ISA cfg misa_V (match_instr w 0xFC00707F 0x24007027 VSUXSEG2EI64_V VSUXSEG2EI64_V)),
         (2, REQUIRE_ISA cfg misa_V (match_instr w 0xFC00707F 0x44007027 VSUXSEG3EI64_V VSUXSEG3EI64_V)),
         (3, REQUIRE_ISA cfg misa_V (match_instr w 0xFC00707F 0x64007027 VSUXSEG4EI64_V VSUXSEG4EI64_V)),
         (4, REQUIRE_ISA cfg misa_V (match_instr w 0xFC00707F 0x84007027 VSUXSEG5EI64_V VSUXSEG5EI64_V)),
         (5, REQUIRE_ISA cfg misa_V (match_instr w 0xFC00707F 0xA4007027 VSUXSEG6EI64_V VSUXSEG6EI64_V)),
         (6, REQUIRE_ISA cfg misa_V (match_instr w 0xFC00707F 0xC4007027 VSUXSEG7EI64_V VSUXSEG7EI64_V)),
         (7, REQUIRE_ISA cfg misa_V (match_instr w 0xFC00707F 0xE4007027 VSUXSEG8EI64_V VSUXSEG8EI64_V))] UNDEF),
       (3, switch_on (unat (nf w))
        [(0, REQUIRE_ISA cfg misa_V (match_instr w 0xFC00707F 0xC007027 VSOXEI64_V VSOXEI64_V)),
         (1, REQUIRE_ISA cfg misa_V (match_instr w 0xFC00707F 0x2C007027 VSOXSEG2EI64_V VSOXSEG2EI64_V)),
         (2, REQUIRE_ISA cfg misa_V (match_instr w 0xFC00707F 0x4C007027 VSOXSEG3EI64_V VSOXSEG3EI64_V)),
         (3, REQUIRE_ISA cfg misa_V (match_instr w 0xFC00707F 0x6C007027 VSOXSEG4EI64_V VSOXSEG4EI64_V)),
         (4, REQUIRE_ISA cfg misa_V (match_instr w 0xFC00707F 0x8C007027 VSOXSEG5EI64_V VSOXSEG5EI64_V)),
         (5, REQUIRE_ISA cfg misa_V (match_instr w 0xFC00707F 0xAC007027 VSOXSEG6EI64_V VSOXSEG6EI64_V)),
         (6, REQUIRE_ISA cfg misa_V (match_instr w 0xFC00707F 0xCC007027 VSOXSEG7EI64_V VSOXSEG7EI64_V)),
         (7, REQUIRE_ISA cfg misa_V (match_instr w 0xFC00707F 0xEC007027 VSOXSEG8EI64_V VSOXSEG8EI64_V))] UNDEF)] UNDEF"

definition decode_OP_FSW_funct3_7 :: "Architecture \<Rightarrow> u64 \<Rightarrow> u32 \<Rightarrow> OpId" where
  "decode_OP_FSW_funct3_7 arch cfg w =
    switch_on (unat (mew w))
      [(0, decode_OP_FSW_funct3_7_mew_0 arch cfg w)] UNDEF"

definition decode_OP_FSW :: "Architecture \<Rightarrow> u64 \<Rightarrow> u32 \<Rightarrow> OpId" where
  "decode_OP_FSW arch cfg w =
    switch_on (unat (funct3 w))
      [(F3_FSH, REQUIRE_ISA cfg Zfh (match_instr w 0x707F 0x1027 FSH FSH)),
       (F3_FSW, REQUIRE_ISA cfg misa_F (match_instr w 0x707F 0x2027 FSW FSW)),
       (F3_FSD, REQUIRE_ISA cfg misa_D (match_instr w 0x707F 0x3027 FSD FSD)),
       (0, decode_OP_FSW_funct3_0 arch cfg w),
       (5, decode_OP_FSW_funct3_5 arch cfg w),
       (6, decode_OP_FSW_funct3_6 arch cfg w),
       (7, decode_OP_FSW_funct3_7 arch cfg w)] UNDEF"

definition decode_OP_87_funct3_0 :: "Architecture \<Rightarrow> u64 \<Rightarrow> u32 \<Rightarrow> OpId" where
  "decode_OP_87_funct3_0 arch cfg w =
    switch_on (unat (funct6 w))
      [(0, REQUIRE_ISA cfg misa_V (match_instr w 0xFC00707F 0x57 VADD_VV VADD_VV)),
       (2, REQUIRE_ISA cfg misa_V (match_instr w 0xFC00707F 0x8000057 VSUB_VV VSUB_VV)),
       (16, switch_on (unat (vm w))
        [(0, REQUIRE_ISA cfg misa_V (match_instr w 0xFE00707F 0x40000057 VADC_VVM VADC_VVM))] UNDEF),
       (17, switch_on (unat (vm w))
        [(0, REQUIRE_ISA cfg misa_V (match_instr w 0xFE00707F 0x44000057 VMADC_VVM VMADC_VVM)),
         (1, REQUIRE_ISA cfg misa_V (match_instr w 0xFE00707F 0x46000057 VMADC_VV VMADC_VV))] UNDEF),
       (18, switch_on (unat (vm w))
        [(0, REQUIRE_ISA cfg misa_V (match_instr w 0xFE00707F 0x48000057 VSBC_VVM VSBC_VVM))] UNDEF),
       (19, switch_on (unat (vm w))
        [(0, REQUIRE_ISA cfg misa_V (match_instr w 0xFE00707F 0x4C000057 VMSBC_VVM VMSBC_VVM)),
         (1, REQUIRE_ISA cfg misa_V (match_instr w 0xFE00707F 0x4E000057 VMSBC_VV VMSBC_VV))] UNDEF),
       (9, REQUIRE_ISA cfg misa_V (match_instr w 0xFC00707F 0x24000057 VAND_VV VAND_VV)),
       (10, REQUIRE_ISA cfg misa_V (match_instr w 0xFC00707F 0x28000057 VOR_VV VOR_VV)),
       (11, REQUIRE_ISA cfg misa_V (match_instr w 0xFC00707F 0x2C000057 VXOR_VV VXOR_VV)),
       (37, REQUIRE_ISA cfg misa_V (match_instr w 0xFC00707F 0x94000057 VSLL_VV VSLL_VV)),
       (40, REQUIRE_ISA cfg misa_V (match_instr w 0xFC00707F 0xA0000057 VSRL_VV VSRL_VV)),
       (41, REQUIRE_ISA cfg misa_V (match_instr w 0xFC00707F 0xA4000057 VSRA_VV VSRA_VV)),
       (44, REQUIRE_ISA cfg misa_V (match_instr w 0xFC00707F 0xB0000057 VNSRL_WV VNSRL_WV)),
       (45, REQUIRE_ISA cfg misa_V (match_instr w 0xFC00707F 0xB4000057 VNSRA_WV VNSRA_WV)),
       (24, REQUIRE_ISA cfg misa_V (match_instr w 0xFC00707F 0x60000057 VMSEQ_VV VMSEQ_VV)),
       (25, REQUIRE_ISA cfg misa_V (match_instr w 0xFC00707F 0x64000057 VMSNE_VV VMSNE_VV)),
       (26, REQUIRE_ISA cfg misa_V (match_instr w 0xFC00707F 0x68000057 VMSLTU_VV VMSLTU_VV)),
       (27, REQUIRE_ISA cfg misa_V (match_instr w 0xFC00707F 0x6C000057 VMSLT_VV VMSLT_VV)),
       (28, REQUIRE_ISA cfg misa_V (match_instr w 0xFC00707F 0x70000057 VMSLEU_VV VMSLEU_VV)),
       (29, REQUIRE_ISA cfg misa_V (match_instr w 0xFC00707F 0x74000057 VMSLE_VV VMSLE_VV)),
       (4, REQUIRE_ISA cfg misa_V (match_instr w 0xFC00707F 0x10000057 VMINU_VV VMINU_VV)),
       (5, REQUIRE_ISA cfg misa_V (match_instr w 0xFC00707F 0x14000057 VMIN_VV VMIN_VV)),
       (6, REQUIRE_ISA cfg misa_V (match_instr w 0xFC00707F 0x18000057 VMAXU_VV VMAXU_VV)),
       (7, REQUIRE_ISA cfg misa_V (match_instr w 0xFC00707F 0x1C000057 VMAX_VV VMAX_VV)),
       (23, switch_on (unat (vm w))
        [(0, REQUIRE_ISA cfg misa_V (match_instr w 0xFE00707F 0x5C000057 VMERGE_VVM VMERGE_VVM)),
         (1, REQUIRE_ISA cfg misa_V (match_instr w 0xFE00707F 0x5E000057 VMV_V_V VMV_V_V))] UNDEF),
       (32, REQUIRE_ISA cfg misa_V (match_instr w 0xFC00707F 0x80000057 VSADDU_VV VSADDU_VV)),
       (33, REQUIRE_ISA cfg misa_V (match_instr w 0xFC00707F 0x84000057 VSADD_VV VSADD_VV)),
       (34, REQUIRE_ISA cfg misa_V (match_instr w 0xFC00707F 0x88000057 VSSUBU_VV VSSUBU_VV)),
       (35, REQUIRE_ISA cfg misa_V (match_instr w 0xFC00707F 0x8C000057 VSSUB_VV VSSUB_VV)),
       (39, REQUIRE_ISA cfg misa_V (match_instr w 0xFC00707F 0x9C000057 VSMUL_VV VSMUL_VV)),
       (42, REQUIRE_ISA cfg misa_V (match_instr w 0xFC00707F 0xA8000057 VSSRL_VV VSSRL_VV)),
       (43, REQUIRE_ISA cfg misa_V (match_instr w 0xFC00707F 0xAC000057 VSSRA_VV VSSRA_VV)),
       (46, REQUIRE_ISA cfg misa_V (match_instr w 0xFC00707F 0xB8000057 VNCLIPU_WV VNCLIPU_WV)),
       (47, REQUIRE_ISA cfg misa_V (match_instr w 0xFC00707F 0xBC000057 VNCLIP_WV VNCLIP_WV)),
       (48, REQUIRE_ISA cfg misa_V (match_instr w 0xFC00707F 0xC0000057 VWREDSUMU_VS VWREDSUMU_VS)),
       (49, REQUIRE_ISA cfg misa_V (match_instr w 0xFC00707F 0xC4000057 VWREDSUM_VS VWREDSUM_VS)),
       (12, REQUIRE_ISA cfg misa_V (match_instr w 0xFC00707F 0x30000057 VRGATHER_VV VRGATHER_VV)),
       (14, REQUIRE_ISA cfg misa_V (match_instr w 0xFC00707F 0x38000057 VRGATHEREI16_VV VRGATHEREI16_VV))] UNDEF"

definition decode_OP_87_funct3_3 :: "Architecture \<Rightarrow> u64 \<Rightarrow> u32 \<Rightarrow> OpId" where
  "decode_OP_87_funct3_3 arch cfg w =
    switch_on (unat (funct6 w))
      [(0, REQUIRE_ISA cfg misa_V (match_instr w 0xFC00707F 0x3057 VADD_VI VADD_VI)),
       (3, REQUIRE_ISA cfg misa_V (match_instr w 0xFC00707F 0xC003057 VRSUB_VI VRSUB_VI)),
       (16, switch_on (unat (vm w))
        [(0, REQUIRE_ISA cfg misa_V (match_instr w 0xFE00707F 0x40003057 VADC_VIM VADC_VIM))] UNDEF),
       (17, switch_on (unat (vm w))
        [(0, REQUIRE_ISA cfg misa_V (match_instr w 0xFE00707F 0x44003057 VMADC_VIM VMADC_VIM)),
         (1, REQUIRE_ISA cfg misa_V (match_instr w 0xFE00707F 0x46003057 VMADC_VI VMADC_VI))] UNDEF),
       (9, REQUIRE_ISA cfg misa_V (match_instr w 0xFC00707F 0x24003057 VAND_VI VAND_VI)),
       (10, REQUIRE_ISA cfg misa_V (match_instr w 0xFC00707F 0x28003057 VOR_VI VOR_VI)),
       (11, REQUIRE_ISA cfg misa_V (match_instr w 0xFC00707F 0x2C003057 VXOR_VI VXOR_VI)),
       (37, REQUIRE_ISA cfg misa_V (match_instr w 0xFC00707F 0x94003057 VSLL_VI VSLL_VI)),
       (40, REQUIRE_ISA cfg misa_V (match_instr w 0xFC00707F 0xA0003057 VSRL_VI VSRL_VI)),
       (41, REQUIRE_ISA cfg misa_V (match_instr w 0xFC00707F 0xA4003057 VSRA_VI VSRA_VI)),
       (44, REQUIRE_ISA cfg misa_V (match_instr w 0xFC00707F 0xB0003057 VNSRL_WI VNSRL_WI)),
       (45, REQUIRE_ISA cfg misa_V (match_instr w 0xFC00707F 0xB4003057 VNSRA_WI VNSRA_WI)),
       (24, REQUIRE_ISA cfg misa_V (match_instr w 0xFC00707F 0x60003057 VMSEQ_VI VMSEQ_VI)),
       (25, REQUIRE_ISA cfg misa_V (match_instr w 0xFC00707F 0x64003057 VMSNE_VI VMSNE_VI)),
       (28, REQUIRE_ISA cfg misa_V (match_instr w 0xFC00707F 0x70003057 VMSLEU_VI VMSLEU_VI)),
       (29, REQUIRE_ISA cfg misa_V (match_instr w 0xFC00707F 0x74003057 VMSLE_VI VMSLE_VI)),
       (30, REQUIRE_ISA cfg misa_V (match_instr w 0xFC00707F 0x78003057 VMSGTU_VI VMSGTU_VI)),
       (31, REQUIRE_ISA cfg misa_V (match_instr w 0xFC00707F 0x7C003057 VMSGT_VI VMSGT_VI)),
       (23, switch_on (unat (vm w))
        [(0, REQUIRE_ISA cfg misa_V (match_instr w 0xFE00707F 0x5C003057 VMERGE_VIM VMERGE_VIM)),
         (1, REQUIRE_ISA cfg misa_V (match_instr w 0xFE00707F 0x5E003057 VMV_V_I VMV_V_I))] UNDEF),
       (32, REQUIRE_ISA cfg misa_V (match_instr w 0xFC00707F 0x80003057 VSADDU_VI VSADDU_VI)),
       (33, REQUIRE_ISA cfg misa_V (match_instr w 0xFC00707F 0x84003057 VSADD_VI VSADD_VI)),
       (42, REQUIRE_ISA cfg misa_V (match_instr w 0xFC00707F 0xA8003057 VSSRL_VI VSSRL_VI)),
       (43, REQUIRE_ISA cfg misa_V (match_instr w 0xFC00707F 0xAC003057 VSSRA_VI VSSRA_VI)),
       (46, REQUIRE_ISA cfg misa_V (match_instr w 0xFC00707F 0xB8003057 VNCLIPU_WI VNCLIPU_WI)),
       (47, REQUIRE_ISA cfg misa_V (match_instr w 0xFC00707F 0xBC003057 VNCLIP_WI VNCLIP_WI)),
       (14, REQUIRE_ISA cfg misa_V (match_instr w 0xFC00707F 0x38003057 VSLIDEUP_VI VSLIDEUP_VI)),
       (15, REQUIRE_ISA cfg misa_V (match_instr w 0xFC00707F 0x3C003057 VSLIDEDOWN_VI VSLIDEDOWN_VI)),
       (12, REQUIRE_ISA cfg misa_V (match_instr w 0xFC00707F 0x30003057 VRGATHER_VI VRGATHER_VI)),
       (39, REQUIRE_ISA cfg misa_V (match_instr w 0xFC00707F 0x9C003057 VMV_NR_R_V VMV_NR_R_V))] UNDEF"

definition decode_OP_87_funct3_4 :: "Architecture \<Rightarrow> u64 \<Rightarrow> u32 \<Rightarrow> OpId" where
  "decode_OP_87_funct3_4 arch cfg w =
    switch_on (unat (funct6 w))
      [(0, REQUIRE_ISA cfg misa_V (match_instr w 0xFC00707F 0x4057 VADD_VX VADD_VX)),
       (2, REQUIRE_ISA cfg misa_V (match_instr w 0xFC00707F 0x8004057 VSUB_VX VSUB_VX)),
       (3, REQUIRE_ISA cfg misa_V (match_instr w 0xFC00707F 0xC004057 VRSUB_VX VRSUB_VX)),
       (16, switch_on (unat (vm w))
        [(0, REQUIRE_ISA cfg misa_V (match_instr w 0xFE00707F 0x40004057 VADC_VXM VADC_VXM))] UNDEF),
       (17, switch_on (unat (vm w))
        [(0, REQUIRE_ISA cfg misa_V (match_instr w 0xFE00707F 0x44004057 VMADC_VXM VMADC_VXM)),
         (1, REQUIRE_ISA cfg misa_V (match_instr w 0xFE00707F 0x46004057 VMADC_VX VMADC_VX))] UNDEF),
       (18, switch_on (unat (vm w))
        [(0, REQUIRE_ISA cfg misa_V (match_instr w 0xFE00707F 0x48004057 VSBC_VXM VSBC_VXM))] UNDEF),
       (19, switch_on (unat (vm w))
        [(0, REQUIRE_ISA cfg misa_V (match_instr w 0xFE00707F 0x4C004057 VMSBC_VXM VMSBC_VXM)),
         (1, REQUIRE_ISA cfg misa_V (match_instr w 0xFE00707F 0x4E004057 VMSBC_VX VMSBC_VX))] UNDEF),
       (9, REQUIRE_ISA cfg misa_V (match_instr w 0xFC00707F 0x24004057 VAND_VX VAND_VX)),
       (10, REQUIRE_ISA cfg misa_V (match_instr w 0xFC00707F 0x28004057 VOR_VX VOR_VX)),
       (11, REQUIRE_ISA cfg misa_V (match_instr w 0xFC00707F 0x2C004057 VXOR_VX VXOR_VX)),
       (37, REQUIRE_ISA cfg misa_V (match_instr w 0xFC00707F 0x94004057 VSLL_VX VSLL_VX)),
       (40, REQUIRE_ISA cfg misa_V (match_instr w 0xFC00707F 0xA0004057 VSRL_VX VSRL_VX)),
       (41, REQUIRE_ISA cfg misa_V (match_instr w 0xFC00707F 0xA4004057 VSRA_VX VSRA_VX)),
       (44, REQUIRE_ISA cfg misa_V (match_instr w 0xFC00707F 0xB0004057 VNSRL_WX VNSRL_WX)),
       (45, REQUIRE_ISA cfg misa_V (match_instr w 0xFC00707F 0xB4004057 VNSRA_WX VNSRA_WX)),
       (24, REQUIRE_ISA cfg misa_V (match_instr w 0xFC00707F 0x60004057 VMSEQ_VX VMSEQ_VX)),
       (25, REQUIRE_ISA cfg misa_V (match_instr w 0xFC00707F 0x64004057 VMSNE_VX VMSNE_VX)),
       (26, REQUIRE_ISA cfg misa_V (match_instr w 0xFC00707F 0x68004057 VMSLTU_VX VMSLTU_VX)),
       (27, REQUIRE_ISA cfg misa_V (match_instr w 0xFC00707F 0x6C004057 VMSLT_VX VMSLT_VX)),
       (28, REQUIRE_ISA cfg misa_V (match_instr w 0xFC00707F 0x70004057 VMSLEU_VX VMSLEU_VX)),
       (29, REQUIRE_ISA cfg misa_V (match_instr w 0xFC00707F 0x74004057 VMSLE_VX VMSLE_VX)),
       (30, REQUIRE_ISA cfg misa_V (match_instr w 0xFC00707F 0x78004057 VMSGTU_VX VMSGTU_VX)),
       (31, REQUIRE_ISA cfg misa_V (match_instr w 0xFC00707F 0x7C004057 VMSGT_VX VMSGT_VX)),
       (4, REQUIRE_ISA cfg misa_V (match_instr w 0xFC00707F 0x10004057 VMINU_VX VMINU_VX)),
       (5, REQUIRE_ISA cfg misa_V (match_instr w 0xFC00707F 0x14004057 VMIN_VX VMIN_VX)),
       (6, REQUIRE_ISA cfg misa_V (match_instr w 0xFC00707F 0x18004057 VMAXU_VX VMAXU_VX)),
       (7, REQUIRE_ISA cfg misa_V (match_instr w 0xFC00707F 0x1C004057 VMAX_VX VMAX_VX)),
       (23, switch_on (unat (vm w))
        [(0, REQUIRE_ISA cfg misa_V (match_instr w 0xFE00707F 0x5C004057 VMERGE_VXM VMERGE_VXM)),
         (1, REQUIRE_ISA cfg misa_V (match_instr w 0xFE00707F 0x5E004057 VMV_V_X VMV_V_X))] UNDEF),
       (32, REQUIRE_ISA cfg misa_V (match_instr w 0xFC00707F 0x80004057 VSADDU_VX VSADDU_VX)),
       (33, REQUIRE_ISA cfg misa_V (match_instr w 0xFC00707F 0x84004057 VSADD_VX VSADD_VX)),
       (34, REQUIRE_ISA cfg misa_V (match_instr w 0xFC00707F 0x88004057 VSSUBU_VX VSSUBU_VX)),
       (35, REQUIRE_ISA cfg misa_V (match_instr w 0xFC00707F 0x8C004057 VSSUB_VX VSSUB_VX)),
       (39, REQUIRE_ISA cfg misa_V (match_instr w 0xFC00707F 0x9C004057 VSMUL_VX VSMUL_VX)),
       (42, REQUIRE_ISA cfg misa_V (match_instr w 0xFC00707F 0xA8004057 VSSRL_VX VSSRL_VX)),
       (43, REQUIRE_ISA cfg misa_V (match_instr w 0xFC00707F 0xAC004057 VSSRA_VX VSSRA_VX)),
       (46, REQUIRE_ISA cfg misa_V (match_instr w 0xFC00707F 0xB8004057 VNCLIPU_WX VNCLIPU_WX)),
       (47, REQUIRE_ISA cfg misa_V (match_instr w 0xFC00707F 0xBC004057 VNCLIP_WX VNCLIP_WX)),
       (14, REQUIRE_ISA cfg misa_V (match_instr w 0xFC00707F 0x38004057 VSLIDEUP_VX VSLIDEUP_VX)),
       (15, REQUIRE_ISA cfg misa_V (match_instr w 0xFC00707F 0x3C004057 VSLIDEDOWN_VX VSLIDEDOWN_VX)),
       (12, REQUIRE_ISA cfg misa_V (match_instr w 0xFC00707F 0x30004057 VRGATHER_VX VRGATHER_VX))] UNDEF"

definition decode_OP_87_funct3_2 :: "Architecture \<Rightarrow> u64 \<Rightarrow> u32 \<Rightarrow> OpId" where
  "decode_OP_87_funct3_2 arch cfg w =
    switch_on (unat (funct6 w))
      [(49, REQUIRE_ISA cfg misa_V (match_instr w 0xFC00707F 0xC4002057 VWADD_VV VWADD_VV)),
       (51, REQUIRE_ISA cfg misa_V (match_instr w 0xFC00707F 0xCC002057 VWSUB_VV VWSUB_VV)),
       (48, REQUIRE_ISA cfg misa_V (match_instr w 0xFC00707F 0xC0002057 VWADDU_VV VWADDU_VV)),
       (50, REQUIRE_ISA cfg misa_V (match_instr w 0xFC00707F 0xC8002057 VWSUBU_VV VWSUBU_VV)),
       (53, REQUIRE_ISA cfg misa_V (match_instr w 0xFC00707F 0xD4002057 VWADD_WV VWADD_WV)),
       (55, REQUIRE_ISA cfg misa_V (match_instr w 0xFC00707F 0xDC002057 VWSUB_WV VWSUB_WV)),
       (52, REQUIRE_ISA cfg misa_V (match_instr w 0xFC00707F 0xD0002057 VWADDU_WV VWADDU_WV)),
       (54, REQUIRE_ISA cfg misa_V (match_instr w 0xFC00707F 0xD8002057 VWSUBU_WV VWSUBU_WV)),
       (18, switch_on (unat (rs1 w))
        [(6, REQUIRE_ISA cfg misa_V (match_instr w 0xFC0FF07F 0x48032057 VZEXT_VF2 VZEXT_VF2)),
         (7, REQUIRE_ISA cfg misa_V (match_instr w 0xFC0FF07F 0x4803A057 VSEXT_VF2 VSEXT_VF2)),
         (4, REQUIRE_ISA cfg misa_V (match_instr w 0xFC0FF07F 0x48022057 VZEXT_VF4 VZEXT_VF4)),
         (5, REQUIRE_ISA cfg misa_V (match_instr w 0xFC0FF07F 0x4802A057 VSEXT_VF4 VSEXT_VF4)),
         (2, REQUIRE_ISA cfg misa_V (match_instr w 0xFC0FF07F 0x48012057 VZEXT_VF8 VZEXT_VF8)),
         (3, REQUIRE_ISA cfg misa_V (match_instr w 0xFC0FF07F 0x4801A057 VSEXT_VF8 VSEXT_VF8))] UNDEF),
       (37, REQUIRE_ISA cfg misa_V (match_instr w 0xFC00707F 0x94002057 VMUL_VV VMUL_VV)),
       (39, REQUIRE_ISA cfg misa_V (match_instr w 0xFC00707F 0x9C002057 VMULH_VV VMULH_VV)),
       (36, REQUIRE_ISA cfg misa_V (match_instr w 0xFC00707F 0x90002057 VMULHU_VV VMULHU_VV)),
       (38, REQUIRE_ISA cfg misa_V (match_instr w 0xFC00707F 0x98002057 VMULHSU_VV VMULHSU_VV)),
       (32, REQUIRE_ISA cfg misa_V (match_instr w 0xFC00707F 0x80002057 VDIVU_VV VDIVU_VV)),
       (33, REQUIRE_ISA cfg misa_V (match_instr w 0xFC00707F 0x84002057 VDIV_VV VDIV_VV)),
       (34, REQUIRE_ISA cfg misa_V (match_instr w 0xFC00707F 0x88002057 VREMU_VV VREMU_VV)),
       (35, REQUIRE_ISA cfg misa_V (match_instr w 0xFC00707F 0x8C002057 VREM_VV VREM_VV)),
       (59, REQUIRE_ISA cfg misa_V (match_instr w 0xFC00707F 0xEC002057 VWMUL_VV VWMUL_VV)),
       (56, REQUIRE_ISA cfg misa_V (match_instr w 0xFC00707F 0xE0002057 VWMULU_VV VWMULU_VV)),
       (58, REQUIRE_ISA cfg misa_V (match_instr w 0xFC00707F 0xE8002057 VWMULSU_VV VWMULSU_VV)),
       (45, REQUIRE_ISA cfg misa_V (match_instr w 0xFC00707F 0xB4002057 VMACC_VV VMACC_VV)),
       (47, REQUIRE_ISA cfg misa_V (match_instr w 0xFC00707F 0xBC002057 VNMSAC_VV VNMSAC_VV)),
       (41, REQUIRE_ISA cfg misa_V (match_instr w 0xFC00707F 0xA4002057 VMADD_VV VMADD_VV)),
       (43, REQUIRE_ISA cfg misa_V (match_instr w 0xFC00707F 0xAC002057 VNMSUB_VV VNMSUB_VV)),
       (60, REQUIRE_ISA cfg misa_V (match_instr w 0xFC00707F 0xF0002057 VWMACCU_VV VWMACCU_VV)),
       (61, REQUIRE_ISA cfg misa_V (match_instr w 0xFC00707F 0xF4002057 VWMACC_VV VWMACC_VV)),
       (63, REQUIRE_ISA cfg misa_V (match_instr w 0xFC00707F 0xFC002057 VWMACCSU_VV VWMACCSU_VV)),
       (8, REQUIRE_ISA cfg misa_V (match_instr w 0xFC00707F 0x20002057 VAADDU_VV VAADDU_VV)),
       (9, REQUIRE_ISA cfg misa_V (match_instr w 0xFC00707F 0x24002057 VAADD_VV VAADD_VV)),
       (10, REQUIRE_ISA cfg misa_V (match_instr w 0xFC00707F 0x28002057 VASUBU_VV VASUBU_VV)),
       (11, REQUIRE_ISA cfg misa_V (match_instr w 0xFC00707F 0x2C002057 VASUB_VV VASUB_VV)),
       (0, REQUIRE_ISA cfg misa_V (match_instr w 0xFC00707F 0x2057 VREDSUM_VS VREDSUM_VS)),
       (6, REQUIRE_ISA cfg misa_V (match_instr w 0xFC00707F 0x18002057 VREDMAXU_VS VREDMAXU_VS)),
       (7, REQUIRE_ISA cfg misa_V (match_instr w 0xFC00707F 0x1C002057 VREDMAX_VS VREDMAX_VS)),
       (4, REQUIRE_ISA cfg misa_V (match_instr w 0xFC00707F 0x10002057 VREDMINU_VS VREDMINU_VS)),
       (5, REQUIRE_ISA cfg misa_V (match_instr w 0xFC00707F 0x14002057 VREDMIN_VS VREDMIN_VS)),
       (1, REQUIRE_ISA cfg misa_V (match_instr w 0xFC00707F 0x4002057 VREDAND_VS VREDAND_VS)),
       (2, REQUIRE_ISA cfg misa_V (match_instr w 0xFC00707F 0x8002057 VREDOR_VS VREDOR_VS)),
       (3, REQUIRE_ISA cfg misa_V (match_instr w 0xFC00707F 0xC002057 VREDXOR_VS VREDXOR_VS)),
       (25, REQUIRE_ISA cfg misa_V (match_instr w 0xFC00707F 0x64002057 VMAND_MM VMAND_MM)),
       (29, REQUIRE_ISA cfg misa_V (match_instr w 0xFC00707F 0x74002057 VMNAND_MM VMNAND_MM)),
       (24, REQUIRE_ISA cfg misa_V (match_instr w 0xFC00707F 0x60002057 VMANDN_MM VMANDN_MM)),
       (27, REQUIRE_ISA cfg misa_V (match_instr w 0xFC00707F 0x6C002057 VMXOR_MM VMXOR_MM)),
       (26, REQUIRE_ISA cfg misa_V (match_instr w 0xFC00707F 0x68002057 VMOR_MM VMOR_MM)),
       (30, REQUIRE_ISA cfg misa_V (match_instr w 0xFC00707F 0x78002057 VMNOR_MM VMNOR_MM)),
       (28, REQUIRE_ISA cfg misa_V (match_instr w 0xFC00707F 0x70002057 VMORN_MM VMORN_MM)),
       (31, REQUIRE_ISA cfg misa_V (match_instr w 0xFC00707F 0x7C002057 VMXNOR_MM VMXNOR_MM)),
       (16, switch_on (unat (rs1 w))
        [(16, REQUIRE_ISA cfg misa_V (match_instr w 0xFC0FF07F 0x40082057 VCPOP_M VCPOP_M)),
         (17, REQUIRE_ISA cfg misa_V (match_instr w 0xFC0FF07F 0x4008A057 VFIRST_M VFIRST_M)),
         (0, REQUIRE_ISA cfg misa_V (match_instr w 0xFC0FF07F 0x40002057 VMV_X_S VMV_X_S))] UNDEF),
       (20, switch_on (unat (rs1 w))
        [(1, REQUIRE_ISA cfg misa_V (match_instr w 0xFC0FF07F 0x5000A057 VMSBF_M VMSBF_M)),
         (3, REQUIRE_ISA cfg misa_V (match_instr w 0xFC0FF07F 0x5001A057 VMSIF_M VMSIF_M)),
         (2, REQUIRE_ISA cfg misa_V (match_instr w 0xFC0FF07F 0x50012057 VMSOF_M VMSOF_M)),
         (16, REQUIRE_ISA cfg misa_V (match_instr w 0xFC0FF07F 0x50082057 VIOTA_M VIOTA_M)),
         (17, REQUIRE_ISA cfg misa_V (match_instr w 0xFC0FF07F 0x5008A057 VID_V VID_V))] UNDEF),
       (23, REQUIRE_ISA cfg misa_V (match_instr w 0xFC00707F 0x5C002057 VCOMPRESS_VM VCOMPRESS_VM))] UNDEF"

definition decode_OP_87_funct3_6 :: "Architecture \<Rightarrow> u64 \<Rightarrow> u32 \<Rightarrow> OpId" where
  "decode_OP_87_funct3_6 arch cfg w =
    switch_on (unat (funct6 w))
      [(49, REQUIRE_ISA cfg misa_V (match_instr w 0xFC00707F 0xC4006057 VWADD_VX VWADD_VX)),
       (51, REQUIRE_ISA cfg misa_V (match_instr w 0xFC00707F 0xCC006057 VWSUB_VX VWSUB_VX)),
       (48, REQUIRE_ISA cfg misa_V (match_instr w 0xFC00707F 0xC0006057 VWADDU_VX VWADDU_VX)),
       (50, REQUIRE_ISA cfg misa_V (match_instr w 0xFC00707F 0xC8006057 VWSUBU_VX VWSUBU_VX)),
       (53, REQUIRE_ISA cfg misa_V (match_instr w 0xFC00707F 0xD4006057 VWADD_WX VWADD_WX)),
       (55, REQUIRE_ISA cfg misa_V (match_instr w 0xFC00707F 0xDC006057 VWSUB_WX VWSUB_WX)),
       (52, REQUIRE_ISA cfg misa_V (match_instr w 0xFC00707F 0xD0006057 VWADDU_WX VWADDU_WX)),
       (54, REQUIRE_ISA cfg misa_V (match_instr w 0xFC00707F 0xD8006057 VWSUBU_WX VWSUBU_WX)),
       (37, REQUIRE_ISA cfg misa_V (match_instr w 0xFC00707F 0x94006057 VMUL_VX VMUL_VX)),
       (39, REQUIRE_ISA cfg misa_V (match_instr w 0xFC00707F 0x9C006057 VMULH_VX VMULH_VX)),
       (36, REQUIRE_ISA cfg misa_V (match_instr w 0xFC00707F 0x90006057 VMULHU_VX VMULHU_VX)),
       (38, REQUIRE_ISA cfg misa_V (match_instr w 0xFC00707F 0x98006057 VMULHSU_VX VMULHSU_VX)),
       (32, REQUIRE_ISA cfg misa_V (match_instr w 0xFC00707F 0x80006057 VDIVU_VX VDIVU_VX)),
       (33, REQUIRE_ISA cfg misa_V (match_instr w 0xFC00707F 0x84006057 VDIV_VX VDIV_VX)),
       (34, REQUIRE_ISA cfg misa_V (match_instr w 0xFC00707F 0x88006057 VREMU_VX VREMU_VX)),
       (35, REQUIRE_ISA cfg misa_V (match_instr w 0xFC00707F 0x8C006057 VREM_VX VREM_VX)),
       (59, REQUIRE_ISA cfg misa_V (match_instr w 0xFC00707F 0xEC006057 VWMUL_VX VWMUL_VX)),
       (56, REQUIRE_ISA cfg misa_V (match_instr w 0xFC00707F 0xE0006057 VWMULU_VX VWMULU_VX)),
       (58, REQUIRE_ISA cfg misa_V (match_instr w 0xFC00707F 0xE8006057 VWMULSU_VX VWMULSU_VX)),
       (45, REQUIRE_ISA cfg misa_V (match_instr w 0xFC00707F 0xB4006057 VMACC_VX VMACC_VX)),
       (47, REQUIRE_ISA cfg misa_V (match_instr w 0xFC00707F 0xBC006057 VNMSAC_VX VNMSAC_VX)),
       (41, REQUIRE_ISA cfg misa_V (match_instr w 0xFC00707F 0xA4006057 VMADD_VX VMADD_VX)),
       (43, REQUIRE_ISA cfg misa_V (match_instr w 0xFC00707F 0xAC006057 VNMSUB_VX VNMSUB_VX)),
       (60, REQUIRE_ISA cfg misa_V (match_instr w 0xFC00707F 0xF0006057 VWMACCU_VX VWMACCU_VX)),
       (61, REQUIRE_ISA cfg misa_V (match_instr w 0xFC00707F 0xF4006057 VWMACC_VX VWMACC_VX)),
       (63, REQUIRE_ISA cfg misa_V (match_instr w 0xFC00707F 0xFC006057 VWMACCSU_VX VWMACCSU_VX)),
       (62, REQUIRE_ISA cfg misa_V (match_instr w 0xFC00707F 0xF8006057 VWMACCUS_VX VWMACCUS_VX)),
       (8, REQUIRE_ISA cfg misa_V (match_instr w 0xFC00707F 0x20006057 VAADDU_VX VAADDU_VX)),
       (9, REQUIRE_ISA cfg misa_V (match_instr w 0xFC00707F 0x24006057 VAADD_VX VAADD_VX)),
       (10, REQUIRE_ISA cfg misa_V (match_instr w 0xFC00707F 0x28006057 VASUBU_VX VASUBU_VX)),
       (11, REQUIRE_ISA cfg misa_V (match_instr w 0xFC00707F 0x2C006057 VASUB_VX VASUB_VX)),
       (16, switch_on (unat (lusumop w))
        [(0, REQUIRE_ISA cfg misa_V (match_instr w 0xFDF0707F 0x40006057 VMV_S_X VMV_S_X))] UNDEF),
       (14, REQUIRE_ISA cfg misa_V (match_instr w 0xFC00707F 0x38006057 VSLIDE1UP_VX VSLIDE1UP_VX)),
       (15, REQUIRE_ISA cfg misa_V (match_instr w 0xFC00707F 0x3C006057 VSLIDE1DOWN_VX VSLIDE1DOWN_VX))] UNDEF"

definition decode_OP_87_funct3_1_funct6_18 :: "Architecture \<Rightarrow> u64 \<Rightarrow> u32 \<Rightarrow> OpId" where
  "decode_OP_87_funct3_1_funct6_18 arch cfg w =
    switch_on (unat (rs1 w))
      [(0, REQUIRE_ISA cfg misa_V (match_instr w 0xFC0FF07F 0x48001057 VFCVT_XU_F_V VFCVT_XU_F_V)),
       (1, REQUIRE_ISA cfg misa_V (match_instr w 0xFC0FF07F 0x48009057 VFCVT_X_F_V VFCVT_X_F_V)),
       (6, REQUIRE_ISA cfg misa_V (match_instr w 0xFC0FF07F 0x48031057 VFCVT_RTZ_XU_F_V VFCVT_RTZ_XU_F_V)),
       (7, REQUIRE_ISA cfg misa_V (match_instr w 0xFC0FF07F 0x48039057 VFCVT_RTZ_X_F_V VFCVT_RTZ_X_F_V)),
       (2, REQUIRE_ISA cfg misa_V (match_instr w 0xFC0FF07F 0x48011057 VFCVT_F_XU_V VFCVT_F_XU_V)),
       (3, REQUIRE_ISA cfg misa_V (match_instr w 0xFC0FF07F 0x48019057 VFCVT_F_X_V VFCVT_F_X_V)),
       (8, REQUIRE_ISA cfg misa_V (match_instr w 0xFC0FF07F 0x48041057 VFWCVT_XU_F_V VFWCVT_XU_F_V)),
       (9, REQUIRE_ISA cfg misa_V (match_instr w 0xFC0FF07F 0x48049057 VFWCVT_X_F_V VFWCVT_X_F_V)),
       (14, REQUIRE_ISA cfg misa_V (match_instr w 0xFC0FF07F 0x48071057 VFWCVT_RTZ_XU_F_V VFWCVT_RTZ_XU_F_V)),
       (15, REQUIRE_ISA cfg misa_V (match_instr w 0xFC0FF07F 0x48079057 VFWCVT_RTZ_X_F_V VFWCVT_RTZ_X_F_V)),
       (10, REQUIRE_ISA cfg misa_V (match_instr w 0xFC0FF07F 0x48051057 VFWCVT_F_XU_V VFWCVT_F_XU_V)),
       (11, REQUIRE_ISA cfg misa_V (match_instr w 0xFC0FF07F 0x48059057 VFWCVT_F_X_V VFWCVT_F_X_V)),
       (12, REQUIRE_ISA cfg misa_V (match_instr w 0xFC0FF07F 0x48061057 VFWCVT_F_F_V VFWCVT_F_F_V)),
       (16, REQUIRE_ISA cfg misa_V (match_instr w 0xFC0FF07F 0x48081057 VFNCVT_XU_F_W VFNCVT_XU_F_W)),
       (17, REQUIRE_ISA cfg misa_V (match_instr w 0xFC0FF07F 0x48089057 VFNCVT_X_F_W VFNCVT_X_F_W)),
       (22, REQUIRE_ISA cfg misa_V (match_instr w 0xFC0FF07F 0x480B1057 VFNCVT_RTZ_XU_F_W VFNCVT_RTZ_XU_F_W)),
       (23, REQUIRE_ISA cfg misa_V (match_instr w 0xFC0FF07F 0x480B9057 VFNCVT_RTZ_X_F_W VFNCVT_RTZ_X_F_W)),
       (18, REQUIRE_ISA cfg misa_V (match_instr w 0xFC0FF07F 0x48091057 VFNCVT_F_XU_W VFNCVT_F_XU_W)),
       (19, REQUIRE_ISA cfg misa_V (match_instr w 0xFC0FF07F 0x48099057 VFNCVT_F_X_W VFNCVT_F_X_W)),
       (20, REQUIRE_ISA cfg misa_V (match_instr w 0xFC0FF07F 0x480A1057 VFNCVT_F_F_W VFNCVT_F_F_W)),
       (21, REQUIRE_ISA cfg misa_V (match_instr w 0xFC0FF07F 0x480A9057 VFNCVT_ROD_F_F_W VFNCVT_ROD_F_F_W))] UNDEF"

definition decode_OP_87_funct3_1 :: "Architecture \<Rightarrow> u64 \<Rightarrow> u32 \<Rightarrow> OpId" where
  "decode_OP_87_funct3_1 arch cfg w =
    switch_on (unat (funct6 w))
      [(0, REQUIRE_ISA cfg misa_V (match_instr w 0xFC00707F 0x1057 VFADD_VV VFADD_VV)),
       (2, REQUIRE_ISA cfg misa_V (match_instr w 0xFC00707F 0x8001057 VFSUB_VV VFSUB_VV)),
       (48, REQUIRE_ISA cfg misa_V (match_instr w 0xFC00707F 0xC0001057 VFWADD_VV VFWADD_VV)),
       (50, REQUIRE_ISA cfg misa_V (match_instr w 0xFC00707F 0xC8001057 VFWSUB_VV VFWSUB_VV)),
       (52, REQUIRE_ISA cfg misa_V (match_instr w 0xFC00707F 0xD0001057 VFWADD_WV VFWADD_WV)),
       (54, REQUIRE_ISA cfg misa_V (match_instr w 0xFC00707F 0xD8001057 VFWSUB_WV VFWSUB_WV)),
       (36, REQUIRE_ISA cfg misa_V (match_instr w 0xFC00707F 0x90001057 VFMUL_VV VFMUL_VV)),
       (32, REQUIRE_ISA cfg misa_V (match_instr w 0xFC00707F 0x80001057 VFDIV_VV VFDIV_VV)),
       (56, REQUIRE_ISA cfg misa_V (match_instr w 0xFC00707F 0xE0001057 VFWMUL_VV VFWMUL_VV)),
       (44, REQUIRE_ISA cfg misa_V (match_instr w 0xFC00707F 0xB0001057 VFMACC_VV VFMACC_VV)),
       (45, REQUIRE_ISA cfg misa_V (match_instr w 0xFC00707F 0xB4001057 VFNMACC_VV VFNMACC_VV)),
       (46, REQUIRE_ISA cfg misa_V (match_instr w 0xFC00707F 0xB8001057 VFMSAC_VV VFMSAC_VV)),
       (47, REQUIRE_ISA cfg misa_V (match_instr w 0xFC00707F 0xBC001057 VFNMSAC_VV VFNMSAC_VV)),
       (40, REQUIRE_ISA cfg misa_V (match_instr w 0xFC00707F 0xA0001057 VFMADD_VV VFMADD_VV)),
       (41, REQUIRE_ISA cfg misa_V (match_instr w 0xFC00707F 0xA4001057 VFNMADD_VV VFNMADD_VV)),
       (42, REQUIRE_ISA cfg misa_V (match_instr w 0xFC00707F 0xA8001057 VFMSUB_VV VFMSUB_VV)),
       (43, REQUIRE_ISA cfg misa_V (match_instr w 0xFC00707F 0xAC001057 VFNMSUB_VV VFNMSUB_VV)),
       (60, REQUIRE_ISA cfg misa_V (match_instr w 0xFC00707F 0xF0001057 VFWMACC_VV VFWMACC_VV)),
       (61, REQUIRE_ISA cfg misa_V (match_instr w 0xFC00707F 0xF4001057 VFWNMACC_VV VFWNMACC_VV)),
       (62, REQUIRE_ISA cfg misa_V (match_instr w 0xFC00707F 0xF8001057 VFWMSAC_VV VFWMSAC_VV)),
       (63, REQUIRE_ISA cfg misa_V (match_instr w 0xFC00707F 0xFC001057 VFWNMSAC_VV VFWNMSAC_VV)),
       (19, switch_on (unat (rs1 w))
        [(0, REQUIRE_ISA cfg misa_V (match_instr w 0xFC0FF07F 0x4C001057 VFSQRT_V VFSQRT_V)),
         (4, REQUIRE_ISA cfg misa_V (match_instr w 0xFC0FF07F 0x4C021057 VFRSQRT7_V VFRSQRT7_V)),
         (5, REQUIRE_ISA cfg misa_V (match_instr w 0xFC0FF07F 0x4C029057 VFREC7_V VFREC7_V)),
         (16, REQUIRE_ISA cfg misa_V (match_instr w 0xFC0FF07F 0x4C081057 VFCLASS_V VFCLASS_V))] UNDEF),
       (4, REQUIRE_ISA cfg misa_V (match_instr w 0xFC00707F 0x10001057 VFMIN_VV VFMIN_VV)),
       (6, REQUIRE_ISA cfg misa_V (match_instr w 0xFC00707F 0x18001057 VFMAX_VV VFMAX_VV)),
       (8, REQUIRE_ISA cfg misa_V (match_instr w 0xFC00707F 0x20001057 VFSGNJ_VV VFSGNJ_VV)),
       (9, REQUIRE_ISA cfg misa_V (match_instr w 0xFC00707F 0x24001057 VFSGNJN_VV VFSGNJN_VV)),
       (10, REQUIRE_ISA cfg misa_V (match_instr w 0xFC00707F 0x28001057 VFSGNJX_VV VFSGNJX_VV)),
       (24, REQUIRE_ISA cfg misa_V (match_instr w 0xFC00707F 0x60001057 VMFEQ_VV VMFEQ_VV)),
       (28, REQUIRE_ISA cfg misa_V (match_instr w 0xFC00707F 0x70001057 VMFNE_VV VMFNE_VV)),
       (27, REQUIRE_ISA cfg misa_V (match_instr w 0xFC00707F 0x6C001057 VMFLT_VV VMFLT_VV)),
       (25, REQUIRE_ISA cfg misa_V (match_instr w 0xFC00707F 0x64001057 VMFLE_VV VMFLE_VV)),
       (18, decode_OP_87_funct3_1_funct6_18 arch cfg w),
       (1, REQUIRE_ISA cfg misa_V (match_instr w 0xFC00707F 0x4001057 VFREDUSUM_VS VFREDUSUM_VS)),
       (3, REQUIRE_ISA cfg misa_V (match_instr w 0xFC00707F 0xC001057 VFREDOSUM_VS VFREDOSUM_VS)),
       (7, REQUIRE_ISA cfg misa_V (match_instr w 0xFC00707F 0x1C001057 VFREDMAX_VS VFREDMAX_VS)),
       (5, REQUIRE_ISA cfg misa_V (match_instr w 0xFC00707F 0x14001057 VFREDMIN_VS VFREDMIN_VS)),
       (49, REQUIRE_ISA cfg misa_V (match_instr w 0xFC00707F 0xC4001057 VFWREDUSUM_VS VFWREDUSUM_VS)),
       (51, REQUIRE_ISA cfg misa_V (match_instr w 0xFC00707F 0xCC001057 VFWREDOSUM_VS VFWREDOSUM_VS)),
       (16, switch_on (unat (rs1 w))
        [(0, REQUIRE_ISA cfg misa_V (match_instr w 0xFC0FF07F 0x40001057 VFMV_F_S VFMV_F_S))] UNDEF)] UNDEF"

definition decode_OP_87_funct3_5 :: "Architecture \<Rightarrow> u64 \<Rightarrow> u32 \<Rightarrow> OpId" where
  "decode_OP_87_funct3_5 arch cfg w =
    switch_on (unat (funct6 w))
      [(0, REQUIRE_ISA cfg misa_V (match_instr w 0xFC00707F 0x5057 VFADD_VF VFADD_VF)),
       (2, REQUIRE_ISA cfg misa_V (match_instr w 0xFC00707F 0x8005057 VFSUB_VF VFSUB_VF)),
       (39, REQUIRE_ISA cfg misa_V (match_instr w 0xFC00707F 0x9C005057 VFRSUB_VF VFRSUB_VF)),
       (48, REQUIRE_ISA cfg misa_V (match_instr w 0xFC00707F 0xC0005057 VFWADD_VF VFWADD_VF)),
       (50, REQUIRE_ISA cfg misa_V (match_instr w 0xFC00707F 0xC8005057 VFWSUB_VF VFWSUB_VF)),
       (52, REQUIRE_ISA cfg misa_V (match_instr w 0xFC00707F 0xD0005057 VFWADD_WF VFWADD_WF)),
       (54, REQUIRE_ISA cfg misa_V (match_instr w 0xFC00707F 0xD8005057 VFWSUB_WF VFWSUB_WF)),
       (36, REQUIRE_ISA cfg misa_V (match_instr w 0xFC00707F 0x90005057 VFMUL_VF VFMUL_VF)),
       (32, REQUIRE_ISA cfg misa_V (match_instr w 0xFC00707F 0x80005057 VFDIV_VF VFDIV_VF)),
       (33, REQUIRE_ISA cfg misa_V (match_instr w 0xFC00707F 0x84005057 VFRDIV_VF VFRDIV_VF)),
       (56, REQUIRE_ISA cfg misa_V (match_instr w 0xFC00707F 0xE0005057 VFWMUL_VF VFWMUL_VF)),
       (44, REQUIRE_ISA cfg misa_V (match_instr w 0xFC00707F 0xB0005057 VFMACC_VF VFMACC_VF)),
       (45, REQUIRE_ISA cfg misa_V (match_instr w 0xFC00707F 0xB4005057 VFNMACC_VF VFNMACC_VF)),
       (46, REQUIRE_ISA cfg misa_V (match_instr w 0xFC00707F 0xB8005057 VFMSAC_VF VFMSAC_VF)),
       (47, REQUIRE_ISA cfg misa_V (match_instr w 0xFC00707F 0xBC005057 VFNMSAC_VF VFNMSAC_VF)),
       (40, REQUIRE_ISA cfg misa_V (match_instr w 0xFC00707F 0xA0005057 VFMADD_VF VFMADD_VF)),
       (41, REQUIRE_ISA cfg misa_V (match_instr w 0xFC00707F 0xA4005057 VFNMADD_VF VFNMADD_VF)),
       (42, REQUIRE_ISA cfg misa_V (match_instr w 0xFC00707F 0xA8005057 VFMSUB_VF VFMSUB_VF)),
       (43, REQUIRE_ISA cfg misa_V (match_instr w 0xFC00707F 0xAC005057 VFNMSUB_VF VFNMSUB_VF)),
       (60, REQUIRE_ISA cfg misa_V (match_instr w 0xFC00707F 0xF0005057 VFWMACC_VF VFWMACC_VF)),
       (61, REQUIRE_ISA cfg misa_V (match_instr w 0xFC00707F 0xF4005057 VFWNMACC_VF VFWNMACC_VF)),
       (62, REQUIRE_ISA cfg misa_V (match_instr w 0xFC00707F 0xF8005057 VFWMSAC_VF VFWMSAC_VF)),
       (63, REQUIRE_ISA cfg misa_V (match_instr w 0xFC00707F 0xFC005057 VFWNMSAC_VF VFWNMSAC_VF)),
       (4, REQUIRE_ISA cfg misa_V (match_instr w 0xFC00707F 0x10005057 VFMIN_VF VFMIN_VF)),
       (6, REQUIRE_ISA cfg misa_V (match_instr w 0xFC00707F 0x18005057 VFMAX_VF VFMAX_VF)),
       (8, REQUIRE_ISA cfg misa_V (match_instr w 0xFC00707F 0x20005057 VFSGNJ_VF VFSGNJ_VF)),
       (9, REQUIRE_ISA cfg misa_V (match_instr w 0xFC00707F 0x24005057 VFSGNJN_VF VFSGNJN_VF)),
       (10, REQUIRE_ISA cfg misa_V (match_instr w 0xFC00707F 0x28005057 VFSGNJX_VF VFSGNJX_VF)),
       (24, REQUIRE_ISA cfg misa_V (match_instr w 0xFC00707F 0x60005057 VMFEQ_VF VMFEQ_VF)),
       (28, REQUIRE_ISA cfg misa_V (match_instr w 0xFC00707F 0x70005057 VMFNE_VF VMFNE_VF)),
       (27, REQUIRE_ISA cfg misa_V (match_instr w 0xFC00707F 0x6C005057 VMFLT_VF VMFLT_VF)),
       (25, REQUIRE_ISA cfg misa_V (match_instr w 0xFC00707F 0x64005057 VMFLE_VF VMFLE_VF)),
       (29, REQUIRE_ISA cfg misa_V (match_instr w 0xFC00707F 0x74005057 VMFGT_VF VMFGT_VF)),
       (31, REQUIRE_ISA cfg misa_V (match_instr w 0xFC00707F 0x7C005057 VMFGE_VF VMFGE_VF)),
       (23, switch_on (unat (vm w))
        [(0, REQUIRE_ISA cfg misa_V (match_instr w 0xFE00707F 0x5C005057 VFMERGE_VFM VFMERGE_VFM)),
         (1, REQUIRE_ISA cfg misa_V (match_instr w 0xFE00707F 0x5E005057 VFMV_V_F VFMV_V_F))] UNDEF),
       (16, switch_on (unat (lusumop w))
        [(0, REQUIRE_ISA cfg misa_V (match_instr w 0xFDF0707F 0x40005057 VFMV_S_F VFMV_S_F))] UNDEF),
       (14, REQUIRE_ISA cfg misa_V (match_instr w 0xFC00707F 0x38005057 VFSLIDE1UP_VF VFSLIDE1UP_VF)),
       (15, REQUIRE_ISA cfg misa_V (match_instr w 0xFC00707F 0x3C005057 VFSLIDE1DOWN_VF VFSLIDE1DOWN_VF))] UNDEF"

definition decode_OP_87 :: "Architecture \<Rightarrow> u64 \<Rightarrow> u32 \<Rightarrow> OpId" where
  "decode_OP_87 arch cfg w =
    switch_on (unat (funct3 w))
      [(7, switch_on (unat (bhigh w))
        [(0, REQUIRE_ISA cfg misa_V (match_instr w 0x8000707F 0x7057 VSETVLI VSETVLI)),
         (1, switch_on (unat (bhigh2 w))
          [(1, REQUIRE_ISA cfg misa_V (match_instr w 0xC000707F 0xC0007057 VSETIVLI VSETIVLI)),
           (0, REQUIRE_ISA cfg misa_V (match_instr w 0xC000707F 0x80007057 VSETVL VSETVL))] UNDEF)] UNDEF),
       (0, decode_OP_87_funct3_0 arch cfg w),
       (3, decode_OP_87_funct3_3 arch cfg w),
       (4, decode_OP_87_funct3_4 arch cfg w),
       (2, decode_OP_87_funct3_2 arch cfg w),
       (6, decode_OP_87_funct3_6 arch cfg w),
       (1, decode_OP_87_funct3_1 arch cfg w),
       (5, decode_OP_87_funct3_5 arch cfg w)] UNDEF"

end
