(* ===== verification/VP_Decode.thy ===== *)
theory VP_Decode
  imports VP_DecodeV
begin

text \<open>
  The rest of \<^verbatim>\<open>Instruction::decode_normal\<close> (\<^verbatim>\<open>vp/src/core/common/instr.cpp\<close>): one definition per
  major opcode and the outer \<^verbatim>\<open>switch\<close>. Every path of the source ends in a
  \<^verbatim>\<open>MATCH_AND_RETURN\<close> macro or leaves all switches, and then the decoder returns \<^verbatim>\<open>UNDEF\<close>.
\<close>

definition decode_OP_LUI :: "Architecture \<Rightarrow> u64 \<Rightarrow> u32 \<Rightarrow> OpId" where
  "decode_OP_LUI arch cfg w =
    match_instr w 0x7F 0x37 LUI LUI_NOP"

definition decode_OP_AUIPC :: "Architecture \<Rightarrow> u64 \<Rightarrow> u32 \<Rightarrow> OpId" where
  "decode_OP_AUIPC arch cfg w =
    match_instr w 0x7F 0x17 AUIPC AUIPC_NOP"

definition decode_OP_JAL :: "Architecture \<Rightarrow> u64 \<Rightarrow> u32 \<Rightarrow> OpId" where
  "decode_OP_JAL arch cfg w =
    match_instr w 0x7F 0x6F JAL J"

definition decode_OP_JALR :: "Architecture \<Rightarrow> u64 \<Rightarrow> u32 \<Rightarrow> OpId" where
  "decode_OP_JALR arch cfg w =
    match_instr w 0x707F 0x67 JALR JR"

definition decode_OP_BEQ :: "Architecture \<Rightarrow> u64 \<Rightarrow> u32 \<Rightarrow> OpId" where
  "decode_OP_BEQ arch cfg w =
    switch_on (unat (funct3 w))
      [(F3_BEQ, match_instr w 0x707F 0x63 BEQ BEQ),
       (F3_BNE, match_instr w 0x707F 0x1063 BNE BNE),
       (F3_BLT, match_instr w 0x707F 0x4063 BLT BLT),
       (F3_BGE, match_instr w 0x707F 0x5063 BGE BGE),
       (F3_BLTU, match_instr w 0x707F 0x6063 BLTU BLTU),
       (F3_BGEU, match_instr w 0x707F 0x7063 BGEU BGEU)] UNDEF"

definition decode_OP_LB :: "Architecture \<Rightarrow> u64 \<Rightarrow> u32 \<Rightarrow> OpId" where
  "decode_OP_LB arch cfg w =
    switch_on (unat (funct3 w))
      [(F3_LB, match_instr w 0x707F 0x3 LB LB),
       (F3_LH, match_instr w 0x707F 0x1003 LH LH),
       (F3_LW, match_instr w 0x707F 0x2003 LW LW),
       (F3_LBU, match_instr w 0x707F 0x4003 LBU LBU),
       (F3_LHU, match_instr w 0x707F 0x5003 LHU LHU),
       (F3_LWU, match_instr w 0x707F 0x6003 LWU LWU),
       (F3_LD, match_instr w 0x707F 0x3003 LD LD)] UNDEF"

definition decode_OP_SB :: "Architecture \<Rightarrow> u64 \<Rightarrow> u32 \<Rightarrow> OpId" where
  "decode_OP_SB arch cfg w =
    switch_on (unat (funct3 w))
      [(F3_SB, match_instr w 0x707F 0x23 SB SB),
       (F3_SH, match_instr w 0x707F 0x1023 SH SH),
       (F3_SW, match_instr w 0x707F 0x2023 SW SW),
       (F3_SD, match_instr w 0x707F 0x3023 SD SD)] UNDEF"

definition decode_OP_ADDI :: "Architecture \<Rightarrow> u64 \<Rightarrow> u32 \<Rightarrow> OpId" where
  "decode_OP_ADDI arch cfg w =
    switch_on (unat (funct3 w))
      [(F3_ADDI, match_instr w 0x707F 0x13 ADDI ADDI_NOP),
       (F3_SLTI, match_instr w 0x707F 0x2013 SLTI SLTI_NOP),
       (F3_SLTIU, match_instr w 0x707F 0x3013 SLTIU SLTIU_NOP),
       (F3_XORI, match_instr w 0x707F 0x4013 XORI XORI_NOP),
       (F3_ORI, match_instr w 0x707F 0x6013 ORI ORI_NOP),
       (F3_ANDI, match_instr w 0x707F 0x7013 ANDI ANDI_NOP),
       (F3_SLLI, if arch = RV32
        then match_instr w 0xFE00707F 0x1013 SLLI SLLI_NOP
        else match_instr w 0xFC00707F 0x1013 SLLI SLLI_NOP),
       (F3_SRLI, switch_on (unat (funct6 w))
        [(F6_SRLI, if arch = RV32
          then match_instr w 0xFE00707F 0x5013 SRLI SRLI_NOP
          else match_instr w 0xFC00707F 0x5013 SRLI SRLI_NOP),
         (F6_SRAI, if arch = RV32
          then match_instr w 0xFE00707F 0x40005013 SRAI SRAI_NOP
          else match_instr w 0xFC00707F 0x40005013 SRAI SRAI_NOP)] UNDEF)] UNDEF"

definition decode_OP_ADDIW :: "Architecture \<Rightarrow> u64 \<Rightarrow> u32 \<Rightarrow> OpId" where
  "decode_OP_ADDIW arch cfg w =
    switch_on (unat (funct3 w))
      [(F3_ADDIW, match_instr w 0x707F 0x1B ADDIW ADDIW_NOP),
       (F3_SLLIW, match_instr w 0xFE00707F 0x101B SLLIW SLLIW_NOP),
       (F3_SRLIW, switch_on (unat (funct7 w))
        [(F7_SRLIW, match_instr w 0xFE00707F 0x501B SRLIW SRLIW_NOP),
         (F7_SRAIW, match_instr w 0xFE00707F 0x4000501B SRAIW SRAIW_NOP)] UNDEF)] UNDEF"

definition decode_OP_ADD :: "Architecture \<Rightarrow> u64 \<Rightarrow> u32 \<Rightarrow> OpId" where
  "decode_OP_ADD arch cfg w =
    switch_on (unat (funct7 w))
      [(F7_ADD, switch_on (unat (funct3 w))
        [(F3_ADD, match_instr w 0xFE00707F 0x33 ADD ADD_NOP),
         (F3_SLL, match_instr w 0xFE00707F 0x1033 SLL SLL_NOP),
         (F3_SLT, match_instr w 0xFE00707F 0x2033 SLT SLT_NOP),
         (F3_SLTU, match_instr w 0xFE00707F 0x3033 SLTU SLTU_NOP),
         (F3_XOR, match_instr w 0xFE00707F 0x4033 XOR_op XOR_NOP),
         (F3_SRL, match_instr w 0xFE00707F 0x5033 SRL SRL_NOP),
         (F3_OR, match_instr w 0xFE00707F 0x6033 OR_op OR_NOP),
         (F3_AND, match_instr w 0xFE00707F 0x7033 AND_op AND_NOP)] UNDEF),
       (F7_SUB, switch_on (unat (funct3 w))
        [(F3_SUB, match_instr w 0xFE00707F 0x40000033 SUB SUB_NOP),
         (F3_SRA, match_instr w 0xFE00707F 0x40005033 SRA SRA_NOP)] UNDEF),
       (F7_MUL, switch_on (unat (funct3 w))
        [(F3_MUL, REQUIRE_ISA cfg misa_M (match_instr w 0xFE00707F 0x2000033 MUL MUL_NOP)),
         (F3_MULH, REQUIRE_ISA cfg misa_M (match_instr w 0xFE00707F 0x2001033 MULH MULH_NOP)),
         (F3_MULHSU, REQUIRE_ISA cfg misa_M (match_instr w 0xFE00707F 0x2002033 MULHSU MULHSU_NOP)),
         (F3_MULHU, REQUIRE_ISA cfg misa_M (match_instr w 0xFE00707F 0x2003033 MULHU MULHU_NOP)),
         (F3_DIV, REQUIRE_ISA cfg misa_M (match_instr w 0xFE00707F 0x2004033 DIV DIV_NOP)),
         (F3_DIVU, REQUIRE_ISA cfg misa_M (match_instr w 0xFE00707F 0x2005033 DIVU DIVU_NOP)),
         (F3_REM, REQUIRE_ISA cfg misa_M (match_instr w 0xFE00707F 0x2006033 REM REM_NOP)),
         (F3_REMU, REQUIRE_ISA cfg misa_M (match_instr w 0xFE00707F 0x2007033 REMU REMU_NOP))] UNDEF)] UNDEF"

definition decode_OP_ADDW :: "Architecture \<Rightarrow> u64 \<Rightarrow> u32 \<Rightarrow> OpId" where
  "decode_OP_ADDW arch cfg w =
    switch_on (unat (funct7 w))
      [(F7_ADDW, switch_on (unat (funct3 w))
        [(F3_ADDW, match_instr w 0xFE00707F 0x3B ADDW ADDW_NOP),
         (F3_SLLW, match_instr w 0xFE00707F 0x103B SLLW SLLW_NOP),
         (F3_SRLW, match_instr w 0xFE00707F 0x503B SRLW SRLW_NOP)] UNDEF),
       (F7_SUBW, switch_on (unat (funct3 w))
        [(F3_SUBW, match_instr w 0xFE00707F 0x4000003B SUBW SUBW_NOP),
         (F3_SRAW, match_instr w 0xFE00707F 0x4000503B SRAW SRAW_NOP)] UNDEF),
       (F7_MULW, switch_on (unat (funct3 w))
        [(F3_MULW, REQUIRE_ISA cfg misa_M (match_instr w 0xFE00707F 0x200003B MULW MULW_NOP)),
         (F3_DIVW, REQUIRE_ISA cfg misa_M (match_instr w 0xFE00707F 0x200403B DIVW DIVW_NOP)),
         (F3_DIVUW, REQUIRE_ISA cfg misa_M (match_instr w 0xFE00707F 0x200503B DIVUW DIVUW_NOP)),
         (F3_REMW, REQUIRE_ISA cfg misa_M (match_instr w 0xFE00707F 0x200603B REMW REMW_NOP)),
         (F3_REMUW, REQUIRE_ISA cfg misa_M (match_instr w 0xFE00707F 0x200703B REMUW REMUW_NOP))] UNDEF)] UNDEF"

definition decode_OP_FENCE :: "Architecture \<Rightarrow> u64 \<Rightarrow> u32 \<Rightarrow> OpId" where
  "decode_OP_FENCE arch cfg w =
    switch_on (unat (funct3 w))
      [(F3_FENCE, match_instr w 0x707F 0xF FENCE FENCE),
       (F3_FENCE_I, match_instr w 0x707F 0x100F FENCE_I FENCE_I)] UNDEF"

definition decode_OP_ECALL :: "Architecture \<Rightarrow> u64 \<Rightarrow> u32 \<Rightarrow> OpId" where
  "decode_OP_ECALL arch cfg w =
    switch_on (unat (funct3 w))
      [(F3_SYS, switch_on (unat (funct12 w))
        [(F12_ECALL, match_instr w 0xFFFFFFFF 0x73 ECALL ECALL),
         (F12_EBREAK, match_instr w 0xFFFFFFFF 0x100073 EBREAK EBREAK),
         (F12_URET, match_instr w 0xFFFFFFFF 0x200073 URET URET),
         (F12_SRET, match_instr w 0xFFFFFFFF 0x10200073 SRET SRET),
         (F12_MRET, match_instr w 0xFFFFFFFF 0x30200073 MRET MRET),
         (F12_WFI, match_instr w 0xFFFFFFFF 0x10500073 WFI WFI)] (match_instr w 0xFE007FFF 0x12000073 SFENCE_VMA SFENCE_VMA)),
       (F3_CSRRW, match_instr w 0x707F 0x1073 CSRRW CSRRW),
       (F3_CSRRS, match_instr w 0x707F 0x2073 CSRRS CSRRS),
       (F3_CSRRC, match_instr w 0x707F 0x3073 CSRRC CSRRC),
       (F3_CSRRWI, match_instr w 0x707F 0x5073 CSRRWI CSRRWI),
       (F3_CSRRSI, match_instr w 0x707F 0x6073 CSRRSI CSRRSI),
       (F3_CSRRCI, match_instr w 0x707F 0x7073 CSRRCI CSRRCI)] UNDEF"

definition decode_OP_AMO :: "Architecture \<Rightarrow> u64 \<Rightarrow> u32 \<Rightarrow> OpId" where
  "decode_OP_AMO arch cfg w =
    switch_on (unat (funct5 w))
      [(F5_LR_W, REQUIRE_ISA cfg misa_A (if unat (funct3 w) = F3_AMO_D
        then match_instr w 0xF9F0707F 0x1000302F LR_D LR_D
        else match_instr w 0xF9F0707F 0x1000202F LR_W LR_W)),
       (F5_SC_W, REQUIRE_ISA cfg misa_A (if unat (funct3 w) = F3_AMO_D
        then match_instr w 0xF800707F 0x1800302F SC_D SC_D
        else match_instr w 0xF800707F 0x1800202F SC_W SC_W)),
       (F5_AMOSWAP_W, REQUIRE_ISA cfg misa_A (if unat (funct3 w) = F3_AMO_D
        then match_instr w 0xF800707F 0x800302F AMOSWAP_D AMOSWAP_D
        else match_instr w 0xF800707F 0x800202F AMOSWAP_W AMOSWAP_W)),
       (F5_AMOADD_W, REQUIRE_ISA cfg misa_A (if unat (funct3 w) = F3_AMO_D
        then match_instr w 0xF800707F 0x302F AMOADD_D AMOADD_D
        else match_instr w 0xF800707F 0x202F AMOADD_W AMOADD_W)),
       (F5_AMOXOR_W, REQUIRE_ISA cfg misa_A (if unat (funct3 w) = F3_AMO_D
        then match_instr w 0xF800707F 0x2000302F AMOXOR_D AMOXOR_D
        else match_instr w 0xF800707F 0x2000202F AMOXOR_W AMOXOR_W)),
       (F5_AMOAND_W, REQUIRE_ISA cfg misa_A (if unat (funct3 w) = F3_AMO_D
        then match_instr w 0xF800707F 0x6000302F AMOAND_D AMOAND_D
        else match_instr w 0xF800707F 0x6000202F AMOAND_W AMOAND_W)),
       (F5_AMOOR_W, REQUIRE_ISA cfg misa_A (if unat (funct3 w) = F3_AMO_D
        then match_instr w 0xF800707F 0x4000302F AMOOR_D AMOOR_D
        else match_instr w 0xF800707F 0x4000202F AMOOR_W AMOOR_W)),
       (F5_AMOMIN_W, REQUIRE_ISA cfg misa_A (if unat (funct3 w) = F3_AMO_D
        then match_instr w 0xF800707F 0x8000302F AMOMIN_D AMOMIN_D
        else match_instr w 0xF800707F 0x8000202F AMOMIN_W AMOMIN_W)),
       (F5_AMOMAX_W, REQUIRE_ISA cfg misa_A (if unat (funct3 w) = F3_AMO_D
        then match_instr w 0xF800707F 0xA000302F AMOMAX_D AMOMAX_D
        else match_instr w 0xF800707F 0xA000202F AMOMAX_W AMOMAX_W)),
       (F5_AMOMINU_W, REQUIRE_ISA cfg misa_A (if unat (funct3 w) = F3_AMO_D
        then match_instr w 0xF800707F 0xC000302F AMOMINU_D AMOMINU_D
        else match_instr w 0xF800707F 0xC000202F AMOMINU_W AMOMINU_W)),
       (F5_AMOMAXU_W, REQUIRE_ISA cfg misa_A (if unat (funct3 w) = F3_AMO_D
        then match_instr w 0xF800707F 0xE000302F AMOMAXU_D AMOMAXU_D
        else match_instr w 0xF800707F 0xE000202F AMOMAXU_W AMOMAXU_W))] UNDEF"

definition decode_OP_FMADD_S :: "Architecture \<Rightarrow> u64 \<Rightarrow> u32 \<Rightarrow> OpId" where
  "decode_OP_FMADD_S arch cfg w =
    switch_on (unat (funct2 w))
      [(F2_FMADD_H, REQUIRE_ISA cfg Zfh (match_instr w 0x600007F 0x4000043 FMADD_H FMADD_H)),
       (F2_FMADD_S, REQUIRE_ISA cfg misa_F (match_instr w 0x600007F 0x43 FMADD_S FMADD_S)),
       (F2_FMADD_D, REQUIRE_ISA cfg misa_D (match_instr w 0x600007F 0x2000043 FMADD_D FMADD_D))] UNDEF"

definition decode_OP_FADD_S :: "Architecture \<Rightarrow> u64 \<Rightarrow> u32 \<Rightarrow> OpId" where
  "decode_OP_FADD_S arch cfg w =
    switch_on (unat (funct7 w))
      [(F7_FADD_H, REQUIRE_ISA cfg Zfh (match_instr w 0xFE00007F 0x4000053 FADD_H FADD_H)),
       (F7_FADD_S, REQUIRE_ISA cfg misa_F (match_instr w 0xFE00007F 0x53 FADD_S FADD_S)),
       (F7_FADD_D, REQUIRE_ISA cfg misa_D (match_instr w 0xFE00007F 0x2000053 FADD_D FADD_D)),
       (F7_FSUB_H, REQUIRE_ISA cfg Zfh (match_instr w 0xFE00007F 0xC000053 FSUB_H FSUB_H)),
       (F7_FSUB_S, REQUIRE_ISA cfg misa_F (match_instr w 0xFE00007F 0x8000053 FSUB_S FSUB_S)),
       (F7_FSUB_D, REQUIRE_ISA cfg misa_D (match_instr w 0xFE00007F 0xA000053 FSUB_D FSUB_D)),
       (F7_FCVT_D_S, switch_on (unat (rs2 w))
        [(RS2_FCVT_D_S, REQUIRE_ISA cfg misa_D (match_instr w 0xFFF0007F 0x42000053 FCVT_D_S FCVT_D_S)),
         (RS2_FCVT_D_H, REQUIRE_ISA cfg Zfh (match_instr w 0xFFF0007F 0x42200053 FCVT_D_H FCVT_D_H))] UNDEF),
       (F7_FMUL_H, REQUIRE_ISA cfg Zfh (match_instr w 0xFE00007F 0x14000053 FMUL_H FMUL_H)),
       (F7_FMUL_S, REQUIRE_ISA cfg misa_F (match_instr w 0xFE00007F 0x10000053 FMUL_S FMUL_S)),
       (F7_FMUL_D, REQUIRE_ISA cfg misa_D (match_instr w 0xFE00007F 0x12000053 FMUL_D FMUL_D)),
       (F7_FDIV_H, REQUIRE_ISA cfg Zfh (match_instr w 0xFE00007F 0x1C000053 FDIV_H FDIV_H)),
       (F7_FDIV_S, REQUIRE_ISA cfg misa_F (match_instr w 0xFE00007F 0x18000053 FDIV_S FDIV_S)),
       (F7_FDIV_D, REQUIRE_ISA cfg misa_D (match_instr w 0xFE00007F 0x1A000053 FDIV_D FDIV_D)),
       (F7_FLE_H, switch_on (unat (funct3 w))
        [(F3_FLE_H, REQUIRE_ISA cfg Zfh (match_instr w 0xFE00707F 0xA4000053 FLE_H FLE_H)),
         (F3_FLT_H, REQUIRE_ISA cfg Zfh (match_instr w 0xFE00707F 0xA4001053 FLT_H FLT_H)),
         (F3_FEQ_H, REQUIRE_ISA cfg Zfh (match_instr w 0xFE00707F 0xA4002053 FEQ_H FEQ_H))] UNDEF),
       (F7_FLE_S, switch_on (unat (funct3 w))
        [(F3_FLE_S, REQUIRE_ISA cfg misa_F (match_instr w 0xFE00707F 0xA0000053 FLE_S FLE_S)),
         (F3_FLT_S, REQUIRE_ISA cfg misa_F (match_instr w 0xFE00707F 0xA0001053 FLT_S FLT_S)),
         (F3_FEQ_S, REQUIRE_ISA cfg misa_F (match_instr w 0xFE00707F 0xA0002053 FEQ_S FEQ_S))] UNDEF),
       (F7_FSGNJ_D, switch_on (unat (funct3 w))
        [(F3_FSGNJ_D, REQUIRE_ISA cfg misa_D (match_instr w 0xFE00707F 0x22000053 FSGNJ_D FSGNJ_D)),
         (F3_FSGNJN_D, REQUIRE_ISA cfg misa_D (match_instr w 0xFE00707F 0x22001053 FSGNJN_D FSGNJN_D)),
         (F3_FSGNJX_D, REQUIRE_ISA cfg misa_D (match_instr w 0xFE00707F 0x22002053 FSGNJX_D FSGNJX_D))] UNDEF),
       (F7_FMIN_H, switch_on (unat (funct3 w))
        [(F3_FMIN_H, REQUIRE_ISA cfg Zfh (match_instr w 0xFE00707F 0x2C000053 FMIN_H FMIN_H)),
         (F3_FMAX_H, REQUIRE_ISA cfg Zfh (match_instr w 0xFE00707F 0x2C001053 FMAX_H FMAX_H))] UNDEF),
       (F7_FMIN_S, switch_on (unat (funct3 w))
        [(F3_FMIN_S, REQUIRE_ISA cfg misa_F (match_instr w 0xFE00707F 0x28000053 FMIN_S FMIN_S)),
         (F3_FMAX_S, REQUIRE_ISA cfg misa_F (match_instr w 0xFE00707F 0x28001053 FMAX_S FMAX_S))] UNDEF),
       (F7_FMIN_D, switch_on (unat (funct3 w))
        [(F3_FMIN_D, REQUIRE_ISA cfg misa_D (match_instr w 0xFE00707F 0x2A000053 FMIN_D FMIN_D)),
         (F3_FMAX_D, REQUIRE_ISA cfg misa_D (match_instr w 0xFE00707F 0x2A001053 FMAX_D FMAX_D))] UNDEF),
       (F7_FCVT_S_D, switch_on (unat (rs2 w))
        [(RS2_FCVT_S_D, REQUIRE_ISA cfg misa_D (match_instr w 0xFFF0007F 0x40100053 FCVT_S_D FCVT_S_D)),
         (RS2_FCVT_S_H, REQUIRE_ISA cfg Zfh (match_instr w 0xFFF0007F 0x40200053 FCVT_S_H FCVT_S_H))] UNDEF),
       (F7_FCVT_H_S, switch_on (unat (rs2 w))
        [(RS2_FCVT_H_S, REQUIRE_ISA cfg Zfh (match_instr w 0xFFF0007F 0x44000053 FCVT_H_S FCVT_H_S)),
         (RS2_FCVT_H_D, REQUIRE_ISA cfg Zfh (match_instr w 0xFFF0007F 0x44100053 FCVT_H_D FCVT_H_D))] UNDEF),
       (F7_FSGNJ_H, switch_on (unat (funct3 w))
        [(F3_FSGNJ_H, REQUIRE_ISA cfg Zfh (match_instr w 0xFE00707F 0x24000053 FSGNJ_H FSGNJ_H)),
         (F3_FSGNJN_H, REQUIRE_ISA cfg Zfh (match_instr w 0xFE00707F 0x24001053 FSGNJN_H FSGNJN_H)),
         (F3_FSGNJX_H, REQUIRE_ISA cfg Zfh (match_instr w 0xFE00707F 0x24002053 FSGNJX_H FSGNJX_H))] UNDEF),
       (F7_FSGNJ_S, switch_on (unat (funct3 w))
        [(F3_FSGNJ_S, REQUIRE_ISA cfg misa_F (match_instr w 0xFE00707F 0x20000053 FSGNJ_S FSGNJ_S)),
         (F3_FSGNJN_S, REQUIRE_ISA cfg misa_F (match_instr w 0xFE00707F 0x20001053 FSGNJN_S FSGNJN_S)),
         (F3_FSGNJX_S, REQUIRE_ISA cfg misa_F (match_instr w 0xFE00707F 0x20002053 FSGNJX_S FSGNJX_S))] UNDEF),
       (F7_FLE_D, switch_on (unat (funct3 w))
        [(F3_FLE_D, REQUIRE_ISA cfg misa_D (match_instr w 0xFE00707F 0xA2000053 FLE_D FLE_D)),
         (F3_FLT_D, REQUIRE_ISA cfg misa_D (match_instr w 0xFE00707F 0xA2001053 FLT_D FLT_D)),
         (F3_FEQ_D, REQUIRE_ISA cfg misa_D (match_instr w 0xFE00707F 0xA2002053 FEQ_D FEQ_D))] UNDEF),
       (F7_FCVT_H_W, switch_on (unat (rs2 w))
        [(RS2_FCVT_H_W, REQUIRE_ISA cfg Zfh (match_instr w 0xFFF0007F 0xD4000053 FCVT_H_W FCVT_H_W)),
         (RS2_FCVT_H_WU, REQUIRE_ISA cfg Zfh (match_instr w 0xFFF0007F 0xD4100053 FCVT_H_WU FCVT_H_WU)),
         (RS2_FCVT_H_L, REQUIRE_ISA cfg Zfh (match_instr w 0xFFF0007F 0xD4200053 FCVT_H_L FCVT_H_L)),
         (RS2_FCVT_H_LU, REQUIRE_ISA cfg Zfh (match_instr w 0xFFF0007F 0xD4300053 FCVT_H_LU FCVT_H_LU))] UNDEF),
       (F7_FCVT_S_W, switch_on (unat (rs2 w))
        [(RS2_FCVT_S_W, REQUIRE_ISA cfg misa_F (match_instr w 0xFFF0007F 0xD0000053 FCVT_S_W FCVT_S_W)),
         (RS2_FCVT_S_WU, REQUIRE_ISA cfg misa_F (match_instr w 0xFFF0007F 0xD0100053 FCVT_S_WU FCVT_S_WU)),
         (RS2_FCVT_S_L, REQUIRE_ISA cfg misa_F (match_instr w 0xFFF0007F 0xD0200053 FCVT_S_L FCVT_S_L)),
         (RS2_FCVT_S_LU, REQUIRE_ISA cfg misa_F (match_instr w 0xFFF0007F 0xD0300053 FCVT_S_LU FCVT_S_LU))] UNDEF),
       (F7_FCVT_D_W, switch_on (unat (rs2 w))
        [(RS2_FCVT_D_W, REQUIRE_ISA cfg misa_D (match_instr w 0xFFF0007F 0xD2000053 FCVT_D_W FCVT_D_W)),
         (RS2_FCVT_D_WU, REQUIRE_ISA cfg misa_D (match_instr w 0xFFF0007F 0xD2100053 FCVT_D_WU FCVT_D_WU)),
         (RS2_FCVT_D_L, REQUIRE_ISA cfg misa_D (match_instr w 0xFFF0007F 0xD2200053 FCVT_D_L FCVT_D_L)),
         (RS2_FCVT_D_LU, REQUIRE_ISA cfg misa_D (match_instr w 0xFFF0007F 0xD2300053 FCVT_D_LU FCVT_D_LU))] UNDEF),
       (F7_FCVT_W_D, switch_on (unat (rs2 w))
        [(RS2_FCVT_W_D, REQUIRE_ISA cfg misa_D (match_instr w 0xFFF0007F 0xC2000053 FCVT_W_D FCVT_W_D)),
         (RS2_FCVT_WU_D, REQUIRE_ISA cfg misa_D (match_instr w 0xFFF0007F 0xC2100053 FCVT_WU_D FCVT_WU_D)),
         (RS2_FCVT_L_D, REQUIRE_ISA cfg misa_D (match_instr w 0xFFF0007F 0xC2200053 FCVT_L_D FCVT_L_D)),
         (RS2_FCVT_LU_D, REQUIRE_ISA cfg misa_D (match_instr w 0xFFF0007F 0xC2300053 FCVT_LU_D FCVT_LU_D))] UNDEF),
       (F7_FSQRT_H, REQUIRE_ISA cfg Zfh (match_instr w 0xFFF0007F 0x5C000053 FSQRT_H FSQRT_H)),
       (F7_FSQRT_S, REQUIRE_ISA cfg misa_F (match_instr w 0xFFF0007F 0x58000053 FSQRT_S FSQRT_S)),
       (F7_FSQRT_D, REQUIRE_ISA cfg misa_D (match_instr w 0xFFF0007F 0x5A000053 FSQRT_D FSQRT_D)),
       (F7_FCVT_W_H, switch_on (unat (rs2 w))
        [(RS2_FCVT_W_H, REQUIRE_ISA cfg Zfh (match_instr w 0xFFF0007F 0xC4000053 FCVT_W_H FCVT_W_H)),
         (RS2_FCVT_WU_H, REQUIRE_ISA cfg Zfh (match_instr w 0xFFF0007F 0xC4100053 FCVT_WU_H FCVT_WU_H)),
         (RS2_FCVT_L_H, REQUIRE_ISA cfg Zfh (match_instr w 0xFFF0007F 0xC4200053 FCVT_L_H FCVT_L_H)),
         (RS2_FCVT_LU_H, REQUIRE_ISA cfg Zfh (match_instr w 0xFFF0007F 0xC4300053 FCVT_LU_H FCVT_LU_H))] UNDEF),
       (F7_FCVT_W_S, switch_on (unat (rs2 w))
        [(RS2_FCVT_W_S, REQUIRE_ISA cfg misa_F (match_instr w 0xFFF0007F 0xC0000053 FCVT_W_S FCVT_W_S)),
         (RS2_FCVT_WU_S, REQUIRE_ISA cfg misa_F (match_instr w 0xFFF0007F 0xC0100053 FCVT_WU_S FCVT_WU_S)),
         (RS2_FCVT_L_S, REQUIRE_ISA cfg misa_F (match_instr w 0xFFF0007F 0xC0200053 FCVT_L_S FCVT_L_S)),
         (RS2_FCVT_LU_S, REQUIRE_ISA cfg misa_F (match_instr w 0xFFF0007F 0xC0300053 FCVT_LU_S FCVT_LU_S))] UNDEF),
       (F7_FMV_X_H, switch_on (unat (funct3 w))
        [(F3_FMV_X_H, REQUIRE_ISA cfg Zfh (match_instr w 0xFFF0707F 0xE4000053 FMV_X_H FMV_X_H)),
         (F3_FCLASS_H, REQUIRE_ISA cfg Zfh (match_instr w 0xFFF0707F 0xE4001053 FCLASS_H FCLASS_H))] UNDEF),
       (F7_FMV_X_W, switch_on (unat (funct3 w))
        [(F3_FMV_X_W, REQUIRE_ISA cfg misa_F (match_instr w 0xFFF0707F 0xE0000053 FMV_X_W FMV_X_W)),
         (F3_FCLASS_S, REQUIRE_ISA cfg misa_F (match_instr w 0xFFF0707F 0xE0001053 FCLASS_S FCLASS_S))] UNDEF),
       (F7_FMV_X_D, switch_on (unat (funct3 w))
        [(F3_FMV_X_D, REQUIRE_ISA cfg misa_D (match_instr w 0xFFF0707F 0xE2000053 FMV_X_D FMV_X_D)),
         (F3_FCLASS_D, REQUIRE_ISA cfg misa_D (match_instr w 0xFFF0707F 0xE2001053 FCLASS_D FCLASS_D))] UNDEF),
       (F7_FMV_H_X, REQUIRE_ISA cfg Zfh (match_instr w 0xFFF0707F 0xF4000053 FMV_H_X FMV_H_X)),
       (F7_FMV_W_X, REQUIRE_ISA cfg misa_F (match_instr w 0xFFF0707F 0xF0000053 FMV_W_X FMV_W_X)),
       (F7_FMV_D_X, REQUIRE_ISA cfg misa_D (match_instr w 0xFFF0707F 0xF2000053 FMV_D_X FMV_D_X))] UNDEF"

definition decode_OP_FMSUB_S :: "Architecture \<Rightarrow> u64 \<Rightarrow> u32 \<Rightarrow> OpId" where
  "decode_OP_FMSUB_S arch cfg w =
    switch_on (unat (funct2 w))
      [(F2_FMSUB_H, REQUIRE_ISA cfg Zfh (match_instr w 0x600007F 0x4000047 FMSUB_H FMSUB_H)),
       (F2_FMSUB_S, REQUIRE_ISA cfg misa_F (match_instr w 0x600007F 0x47 FMSUB_S FMSUB_S)),
       (F2_FMSUB_D, REQUIRE_ISA cfg misa_D (match_instr w 0x600007F 0x2000047 FMSUB_D FMSUB_D))] UNDEF"

definition decode_OP_FNMSUB_S :: "Architecture \<Rightarrow> u64 \<Rightarrow> u32 \<Rightarrow> OpId" where
  "decode_OP_FNMSUB_S arch cfg w =
    switch_on (unat (funct2 w))
      [(F2_FNMSUB_H, REQUIRE_ISA cfg Zfh (match_instr w 0x600007F 0x400004B FNMSUB_H FNMSUB_H)),
       (F2_FNMSUB_S, REQUIRE_ISA cfg misa_F (match_instr w 0x600007F 0x4B FNMSUB_S FNMSUB_S)),
       (F2_FNMSUB_D, REQUIRE_ISA cfg misa_D (match_instr w 0x600007F 0x200004B FNMSUB_D FNMSUB_D))] UNDEF"

definition decode_OP_FNMADD_S :: "Architecture \<Rightarrow> u64 \<Rightarrow> u32 \<Rightarrow> OpId" where
  "decode_OP_FNMADD_S arch cfg w =
    switch_on (unat (funct2 w))
      [(F2_FNMADD_H, REQUIRE_ISA cfg Zfh (match_instr w 0x600007F 0x400004F FNMADD_H FNMADD_H)),
       (F2_FNMADD_S, REQUIRE_ISA cfg misa_F (match_instr w 0x600007F 0x4F FNMADD_S FNMADD_S)),
       (F2_FNMADD_D, REQUIRE_ISA cfg misa_D (match_instr w 0x600007F 0x200004F FNMADD_D FNMADD_D))] UNDEF"

text \<open>
  \<^verbatim>\<open>Instruction::decode_normal\<close>: the outer \<^verbatim>\<open>switch\<close> on the major opcode.
\<close>

definition decode_normal :: "Architecture \<Rightarrow> u64 \<Rightarrow> u32 \<Rightarrow> OpId" where
  "decode_normal arch cfg w =
    switch_on (unat (opcode w))
      [(OP_LUI, decode_OP_LUI arch cfg w),
       (OP_AUIPC, decode_OP_AUIPC arch cfg w),
       (OP_JAL, decode_OP_JAL arch cfg w),
       (OP_JALR, decode_OP_JALR arch cfg w),
       (OP_BEQ, decode_OP_BEQ arch cfg w),
       (OP_LB, decode_OP_LB arch cfg w),
       (OP_SB, decode_OP_SB arch cfg w),
       (OP_ADDI, decode_OP_ADDI arch cfg w),
       (OP_ADDIW, decode_OP_ADDIW arch cfg w),
       (OP_ADD, decode_OP_ADD arch cfg w),
       (OP_ADDW, decode_OP_ADDW arch cfg w),
       (OP_FENCE, decode_OP_FENCE arch cfg w),
       (OP_ECALL, decode_OP_ECALL arch cfg w),
       (OP_AMO, decode_OP_AMO arch cfg w),
       (OP_FMADD_S, decode_OP_FMADD_S arch cfg w),
       (OP_FADD_S, decode_OP_FADD_S arch cfg w),
       (OP_FLW, decode_OP_FLW arch cfg w),
       (OP_FSW, decode_OP_FSW arch cfg w),
       (OP_FMSUB_S, decode_OP_FMSUB_S arch cfg w),
       (OP_FNMSUB_S, decode_OP_FNMSUB_S arch cfg w),
       (OP_FNMADD_S, decode_OP_FNMADD_S arch cfg w),
       (87, decode_OP_87 arch cfg w)] UNDEF"

end
