(* ===== verification/VP_CSR.thy ===== *)
theory VP_CSR
  imports VP_Opcodes
begin

text \<open>
  The control and status registers of RV32, \<^verbatim>\<open>vp/src/core/rv32/csr.h\<close>: bit-field layouts, masks,
  addresses, the table of registers and its address map. A register of \<^verbatim>\<open>csr_table\<close> is a cell; the
  \<^verbatim>\<open>uint32_t *\<close> values of \<^verbatim>\<open>register_mapping\<close> are cells as well, so that two addresses that share
  a register (such as \<^verbatim>\<open>CYCLE_ADDR\<close> and \<^verbatim>\<open>MCYCLE_ADDR\<close>) share a cell. The 64-bit counters
  consist of two cells.

  The lemmas show that the masks of the source are what the bit-field layouts say, and what a masked
  write does to every bit and every field.
\<close>

section \<open>Constants\<close>

text \<open>\<^verbatim>\<open>vp/src/core/common/irq_if.h\<close>\<close>

abbreviation (input) MachineMode :: u32 where "MachineMode \<equiv> 3"
abbreviation (input) HypervisorMode :: u32 where "HypervisorMode \<equiv> 2"
abbreviation (input) SupervisorMode :: u32 where "SupervisorMode \<equiv> 1"
abbreviation (input) UserMode :: u32 where "UserMode \<equiv> 0"
abbreviation (input) NoneMode :: u32 where "NoneMode \<equiv> 0xFFFFFFFF"

text \<open>\<^verbatim>\<open>vp/src/core/common/trap.h\<close>\<close>

abbreviation (input) EXC_U_SOFTWARE_INTERRUPT :: u32 where "EXC_U_SOFTWARE_INTERRUPT \<equiv> 0"
abbreviation (input) EXC_S_SOFTWARE_INTERRUPT :: u32 where "EXC_S_SOFTWARE_INTERRUPT \<equiv> 1"
abbreviation (input) EXC_M_SOFTWARE_INTERRUPT :: u32 where "EXC_M_SOFTWARE_INTERRUPT \<equiv> 3"
abbreviation (input) EXC_U_TIMER_INTERRUPT :: u32 where "EXC_U_TIMER_INTERRUPT \<equiv> 4"
abbreviation (input) EXC_S_TIMER_INTERRUPT :: u32 where "EXC_S_TIMER_INTERRUPT \<equiv> 5"
abbreviation (input) EXC_M_TIMER_INTERRUPT :: u32 where "EXC_M_TIMER_INTERRUPT \<equiv> 7"
abbreviation (input) EXC_U_EXTERNAL_INTERRUPT :: u32 where "EXC_U_EXTERNAL_INTERRUPT \<equiv> 8"
abbreviation (input) EXC_S_EXTERNAL_INTERRUPT :: u32 where "EXC_S_EXTERNAL_INTERRUPT \<equiv> 9"
abbreviation (input) EXC_M_EXTERNAL_INTERRUPT :: u32 where "EXC_M_EXTERNAL_INTERRUPT \<equiv> 11"
abbreviation (input) EXC_INSTR_ADDR_MISALIGNED :: u32 where "EXC_INSTR_ADDR_MISALIGNED \<equiv> 0"
abbreviation (input) EXC_INSTR_ACCESS_FAULT :: u32 where "EXC_INSTR_ACCESS_FAULT \<equiv> 1"
abbreviation (input) EXC_ILLEGAL_INSTR :: u32 where "EXC_ILLEGAL_INSTR \<equiv> 2"
abbreviation (input) EXC_BREAKPOINT :: u32 where "EXC_BREAKPOINT \<equiv> 3"
abbreviation (input) EXC_LOAD_ADDR_MISALIGNED :: u32 where "EXC_LOAD_ADDR_MISALIGNED \<equiv> 4"
abbreviation (input) EXC_LOAD_ACCESS_FAULT :: u32 where "EXC_LOAD_ACCESS_FAULT \<equiv> 5"
abbreviation (input) EXC_STORE_AMO_ADDR_MISALIGNED :: u32 where "EXC_STORE_AMO_ADDR_MISALIGNED \<equiv> 6"
abbreviation (input) EXC_STORE_AMO_ACCESS_FAULT :: u32 where "EXC_STORE_AMO_ACCESS_FAULT \<equiv> 7"
abbreviation (input) EXC_ECALL_U_MODE :: u32 where "EXC_ECALL_U_MODE \<equiv> 8"
abbreviation (input) EXC_ECALL_S_MODE :: u32 where "EXC_ECALL_S_MODE \<equiv> 9"
abbreviation (input) EXC_ECALL_M_MODE :: u32 where "EXC_ECALL_M_MODE \<equiv> 11"
abbreviation (input) EXC_INSTR_PAGE_FAULT :: u32 where "EXC_INSTR_PAGE_FAULT \<equiv> 12"
abbreviation (input) EXC_LOAD_PAGE_FAULT :: u32 where "EXC_LOAD_PAGE_FAULT \<equiv> 13"
abbreviation (input) EXC_STORE_AMO_PAGE_FAULT :: u32 where "EXC_STORE_AMO_PAGE_FAULT \<equiv> 15"
abbreviation (input) EXC_CHERI_LOAD_FAULT :: u32 where "EXC_CHERI_LOAD_FAULT \<equiv> 26"
abbreviation (input) EXC_CHERI_STORE_FAULT :: u32 where "EXC_CHERI_STORE_FAULT \<equiv> 27"
abbreviation (input) EXC_CHERI_FAULT :: u32 where "EXC_CHERI_FAULT \<equiv> 28"

text \<open>Masks of namespace \<^verbatim>\<open>csr\<close>\<close>

abbreviation (input) MIE_MASK :: u32 where "MIE_MASK \<equiv> 0xBBB"
abbreviation (input) SIE_MASK :: u32 where "SIE_MASK \<equiv> 0x333"
abbreviation (input) UIE_MASK :: u32 where "UIE_MASK \<equiv> 0x111"
abbreviation (input) MIP_WRITE_MASK :: u32 where "MIP_WRITE_MASK \<equiv> 0x333"
abbreviation (input) MIP_READ_MASK :: u32 where "MIP_READ_MASK \<equiv> 0xBBB"
abbreviation (input) SIP_MASK :: u32 where "SIP_MASK \<equiv> 0x3"
abbreviation (input) UIP_MASK :: u32 where "UIP_MASK \<equiv> 0x1"
abbreviation (input) MEDELEG_MASK :: u32 where "MEDELEG_MASK \<equiv> 0xBBFF"
abbreviation (input) MIDELEG_MASK :: u32 where "MIDELEG_MASK \<equiv> 0xBBB"
abbreviation (input) MTVEC_MASK :: u32 where "MTVEC_MASK \<equiv> 0xFFFFFFFD"
abbreviation (input) MCOUNTEREN_MASK :: u32 where "MCOUNTEREN_MASK \<equiv> 0x7"
abbreviation (input) MCOUNTINHIBIT_MASK :: u32 where "MCOUNTINHIBIT_MASK \<equiv> 0x5"
abbreviation (input) SEDELEG_MASK :: u32 where "SEDELEG_MASK \<equiv> 0xB1FF"
abbreviation (input) SIDELEG_MASK :: u32 where "SIDELEG_MASK \<equiv> 0xBBB"
abbreviation (input) MSTATUS_WRITE_MASK :: u32 where "MSTATUS_WRITE_MASK \<equiv> 0x807FFFBB"
abbreviation (input) MSTATUS_READ_MASK :: u32 where "MSTATUS_READ_MASK \<equiv> 0x807FFFFB"
abbreviation (input) SSTATUS_WRITE_MASK :: u32 where "SSTATUS_WRITE_MASK \<equiv> 0x800DE733"
abbreviation (input) SSTATUS_READ_MASK :: u32 where "SSTATUS_READ_MASK \<equiv> 0x800DE773"
abbreviation (input) USTATUS_WRITE_MASK :: u32 where "USTATUS_WRITE_MASK \<equiv> 0x11"
abbreviation (input) USTATUS_READ_MASK :: u32 where "USTATUS_READ_MASK \<equiv> 0x51"
abbreviation (input) MSTATUSH_WRITE_MASK :: u32 where "MSTATUSH_WRITE_MASK \<equiv> 0x0"
abbreviation (input) MSTATUSH_READ_MASK :: u32 where "MSTATUSH_READ_MASK \<equiv> 0x30"
abbreviation (input) SATP_MASK :: u32 where "SATP_MASK \<equiv> 0x803FFFFF"
abbreviation (input) SATP_MODE :: u32 where "SATP_MODE \<equiv> 0x80000000"
abbreviation (input) FCSR_MASK :: u32 where "FCSR_MASK \<equiv> 0xFF"
abbreviation (input) VTYPE_MASK :: u32 where "VTYPE_MASK \<equiv> 0x800000FF"
abbreviation (input) VXRM_MASK :: u32 where "VXRM_MASK \<equiv> 0x3"
abbreviation (input) VXSAT_MASK :: u32 where "VXSAT_MASK \<equiv> 0x1"
abbreviation (input) VCSR_MASK :: u32 where "VCSR_MASK \<equiv> 0x7"

text \<open>Addresses\<close>

abbreviation (input) CYCLE_ADDR :: nat where "CYCLE_ADDR \<equiv> 0xC00"
abbreviation (input) CYCLEH_ADDR :: nat where "CYCLEH_ADDR \<equiv> 0xC80"
abbreviation (input) TIME_ADDR :: nat where "TIME_ADDR \<equiv> 0xC01"
abbreviation (input) TIMEH_ADDR :: nat where "TIMEH_ADDR \<equiv> 0xC81"
abbreviation (input) INSTRET_ADDR :: nat where "INSTRET_ADDR \<equiv> 0xC02"
abbreviation (input) INSTRETH_ADDR :: nat where "INSTRETH_ADDR \<equiv> 0xC82"
abbreviation (input) MCYCLE_ADDR :: nat where "MCYCLE_ADDR \<equiv> 0xB00"
abbreviation (input) MCYCLEH_ADDR :: nat where "MCYCLEH_ADDR \<equiv> 0xB80"
abbreviation (input) MTIME_ADDR :: nat where "MTIME_ADDR \<equiv> 0xB01"
abbreviation (input) MTIMEH_ADDR :: nat where "MTIMEH_ADDR \<equiv> 0xB81"
abbreviation (input) MINSTRET_ADDR :: nat where "MINSTRET_ADDR \<equiv> 0xB02"
abbreviation (input) MINSTRETH_ADDR :: nat where "MINSTRETH_ADDR \<equiv> 0xB82"
abbreviation (input) TSELECT_ADDR :: nat where "TSELECT_ADDR \<equiv> 0x7A0"
abbreviation (input) TDATA1_ADDR :: nat where "TDATA1_ADDR \<equiv> 0x7A1"
abbreviation (input) TDATA2_ADDR :: nat where "TDATA2_ADDR \<equiv> 0x7A2"
abbreviation (input) TDATA3_ADDR :: nat where "TDATA3_ADDR \<equiv> 0x7A3"
abbreviation (input) DCSR_ADDR :: nat where "DCSR_ADDR \<equiv> 0x7B0"
abbreviation (input) DPC_ADDR :: nat where "DPC_ADDR \<equiv> 0x7B1"
abbreviation (input) DSCRATCH0_ADDR :: nat where "DSCRATCH0_ADDR \<equiv> 0x7B2"
abbreviation (input) DSCRATCH1_ADDR :: nat where "DSCRATCH1_ADDR \<equiv> 0x7B3"
abbreviation (input) MVENDORID_ADDR :: nat where "MVENDORID_ADDR \<equiv> 0xF11"
abbreviation (input) MARCHID_ADDR :: nat where "MARCHID_ADDR \<equiv> 0xF12"
abbreviation (input) MIMPID_ADDR :: nat where "MIMPID_ADDR \<equiv> 0xF13"
abbreviation (input) MHARTID_ADDR :: nat where "MHARTID_ADDR \<equiv> 0xF14"
abbreviation (input) MSTATUS_ADDR :: nat where "MSTATUS_ADDR \<equiv> 0x300"
abbreviation (input) MSTATUSH_ADDR :: nat where "MSTATUSH_ADDR \<equiv> 0x310"
abbreviation (input) MISA_ADDR :: nat where "MISA_ADDR \<equiv> 0x301"
abbreviation (input) MEDELEG_ADDR :: nat where "MEDELEG_ADDR \<equiv> 0x302"
abbreviation (input) MIDELEG_ADDR :: nat where "MIDELEG_ADDR \<equiv> 0x303"
abbreviation (input) MIE_ADDR :: nat where "MIE_ADDR \<equiv> 0x304"
abbreviation (input) MTVEC_ADDR :: nat where "MTVEC_ADDR \<equiv> 0x305"
abbreviation (input) MCOUNTEREN_ADDR :: nat where "MCOUNTEREN_ADDR \<equiv> 0x306"
abbreviation (input) MCOUNTINHIBIT_ADDR :: nat where "MCOUNTINHIBIT_ADDR \<equiv> 0x320"
abbreviation (input) MSCRATCH_ADDR :: nat where "MSCRATCH_ADDR \<equiv> 0x340"
abbreviation (input) MEPC_ADDR :: nat where "MEPC_ADDR \<equiv> 0x341"
abbreviation (input) MCAUSE_ADDR :: nat where "MCAUSE_ADDR \<equiv> 0x342"
abbreviation (input) MTVAL_ADDR :: nat where "MTVAL_ADDR \<equiv> 0x343"
abbreviation (input) MIP_ADDR :: nat where "MIP_ADDR \<equiv> 0x344"
abbreviation (input) PMPCFG0_ADDR :: nat where "PMPCFG0_ADDR \<equiv> 0x3A0"
abbreviation (input) PMPADDR0_ADDR :: nat where "PMPADDR0_ADDR \<equiv> 0x3B0"
abbreviation (input) SSTATUS_ADDR :: nat where "SSTATUS_ADDR \<equiv> 0x100"
abbreviation (input) SEDELEG_ADDR :: nat where "SEDELEG_ADDR \<equiv> 0x102"
abbreviation (input) SIDELEG_ADDR :: nat where "SIDELEG_ADDR \<equiv> 0x103"
abbreviation (input) SIE_ADDR :: nat where "SIE_ADDR \<equiv> 0x104"
abbreviation (input) STVEC_ADDR :: nat where "STVEC_ADDR \<equiv> 0x105"
abbreviation (input) SCOUNTEREN_ADDR :: nat where "SCOUNTEREN_ADDR \<equiv> 0x106"
abbreviation (input) SSCRATCH_ADDR :: nat where "SSCRATCH_ADDR \<equiv> 0x140"
abbreviation (input) SEPC_ADDR :: nat where "SEPC_ADDR \<equiv> 0x141"
abbreviation (input) SCAUSE_ADDR :: nat where "SCAUSE_ADDR \<equiv> 0x142"
abbreviation (input) STVAL_ADDR :: nat where "STVAL_ADDR \<equiv> 0x143"
abbreviation (input) SIP_ADDR :: nat where "SIP_ADDR \<equiv> 0x144"
abbreviation (input) SATP_ADDR :: nat where "SATP_ADDR \<equiv> 0x180"
abbreviation (input) USTATUS_ADDR :: nat where "USTATUS_ADDR \<equiv> 0x000"
abbreviation (input) UIE_ADDR :: nat where "UIE_ADDR \<equiv> 0x004"
abbreviation (input) UTVEC_ADDR :: nat where "UTVEC_ADDR \<equiv> 0x005"
abbreviation (input) USCRATCH_ADDR :: nat where "USCRATCH_ADDR \<equiv> 0x040"
abbreviation (input) UEPC_ADDR :: nat where "UEPC_ADDR \<equiv> 0x041"
abbreviation (input) UCAUSE_ADDR :: nat where "UCAUSE_ADDR \<equiv> 0x042"
abbreviation (input) UTVAL_ADDR :: nat where "UTVAL_ADDR \<equiv> 0x043"
abbreviation (input) UIP_ADDR :: nat where "UIP_ADDR \<equiv> 0x044"
abbreviation (input) FFLAGS_ADDR :: nat where "FFLAGS_ADDR \<equiv> 0x001"
abbreviation (input) FRM_ADDR :: nat where "FRM_ADDR \<equiv> 0x002"
abbreviation (input) FCSR_ADDR :: nat where "FCSR_ADDR \<equiv> 0x003"
abbreviation (input) VSTART_ADDR :: nat where "VSTART_ADDR \<equiv> 0x008"
abbreviation (input) VXSAT_ADDR :: nat where "VXSAT_ADDR \<equiv> 0x009"
abbreviation (input) VXRM_ADDR :: nat where "VXRM_ADDR \<equiv> 0x00A"
abbreviation (input) VCSR_ADDR :: nat where "VCSR_ADDR \<equiv> 0x00F"
abbreviation (input) VL_ADDR :: nat where "VL_ADDR \<equiv> 0xC20"
abbreviation (input) VTYPE_ADDR :: nat where "VTYPE_ADDR \<equiv> 0xC21"
abbreviation (input) VLENB_ADDR :: nat where "VLENB_ADDR \<equiv> 0xC22"

text \<open>\<^verbatim>\<open>SWITCH_CASE_MATCH_ANY_HPMCOUNTER_RV32\<close>: the labels are five contiguous blocks.\<close>

definition is_hpmcounter :: "nat \<Rightarrow> bool" where
  "is_hpmcounter a \<longleftrightarrow> 0xC03 \<le> a \<and> a \<le> 0xC1F \<or> 0xC83 \<le> a \<and> a \<le> 0xC9F \<or>
     0xB03 \<le> a \<and> a \<le> 0xB1F \<or> 0xB83 \<le> a \<and> a \<le> 0xB9F \<or> 0x323 \<le> a \<and> a \<le> 0x33F"

section \<open>Bit-fields\<close>

abbreviation (input) misa_extensions :: bitfield where "misa_extensions \<equiv> (0, 26)"
abbreviation (input) misa_mxl :: bitfield where "misa_mxl \<equiv> (30, 2)"
abbreviation (input) mstatus_uie :: bitfield where "mstatus_uie \<equiv> (0, 1)"
abbreviation (input) mstatus_sie :: bitfield where "mstatus_sie \<equiv> (1, 1)"
abbreviation (input) mstatus_mie :: bitfield where "mstatus_mie \<equiv> (3, 1)"
abbreviation (input) mstatus_upie :: bitfield where "mstatus_upie \<equiv> (4, 1)"
abbreviation (input) mstatus_spie :: bitfield where "mstatus_spie \<equiv> (5, 1)"
abbreviation (input) mstatus_mpie :: bitfield where "mstatus_mpie \<equiv> (7, 1)"
abbreviation (input) mstatus_spp :: bitfield where "mstatus_spp \<equiv> (8, 1)"
abbreviation (input) mstatus_vs :: bitfield where "mstatus_vs \<equiv> (9, 2)"
abbreviation (input) mstatus_mpp :: bitfield where "mstatus_mpp \<equiv> (11, 2)"
abbreviation (input) mstatus_fs :: bitfield where "mstatus_fs \<equiv> (13, 2)"
abbreviation (input) mstatus_xs :: bitfield where "mstatus_xs \<equiv> (15, 2)"
abbreviation (input) mstatus_mprv :: bitfield where "mstatus_mprv \<equiv> (17, 1)"
abbreviation (input) mstatus_sum :: bitfield where "mstatus_sum \<equiv> (18, 1)"
abbreviation (input) mstatus_mxr :: bitfield where "mstatus_mxr \<equiv> (19, 1)"
abbreviation (input) mstatus_tvm :: bitfield where "mstatus_tvm \<equiv> (20, 1)"
abbreviation (input) mstatus_tw :: bitfield where "mstatus_tw \<equiv> (21, 1)"
abbreviation (input) mstatus_tsr :: bitfield where "mstatus_tsr \<equiv> (22, 1)"
abbreviation (input) mstatus_sd :: bitfield where "mstatus_sd \<equiv> (31, 1)"
abbreviation (input) mtvec_mode :: bitfield where "mtvec_mode \<equiv> (0, 2)"
abbreviation (input) mtvec_base :: bitfield where "mtvec_base \<equiv> (2, 30)"
abbreviation (input) mip_usip :: bitfield where "mip_usip \<equiv> (0, 1)"
abbreviation (input) mip_ssip :: bitfield where "mip_ssip \<equiv> (1, 1)"
abbreviation (input) mip_msip :: bitfield where "mip_msip \<equiv> (3, 1)"
abbreviation (input) mip_utip :: bitfield where "mip_utip \<equiv> (4, 1)"
abbreviation (input) mip_stip :: bitfield where "mip_stip \<equiv> (5, 1)"
abbreviation (input) mip_mtip :: bitfield where "mip_mtip \<equiv> (7, 1)"
abbreviation (input) mip_ueip :: bitfield where "mip_ueip \<equiv> (8, 1)"
abbreviation (input) mip_seip :: bitfield where "mip_seip \<equiv> (9, 1)"
abbreviation (input) mip_meip :: bitfield where "mip_meip \<equiv> (11, 1)"
abbreviation (input) mcause_exception_code :: bitfield where "mcause_exception_code \<equiv> (0, 31)"
abbreviation (input) mcause_interrupt :: bitfield where "mcause_interrupt \<equiv> (31, 1)"
abbreviation (input) mcountinhibit_CY :: bitfield where "mcountinhibit_CY \<equiv> (0, 1)"
abbreviation (input) mcountinhibit_IR :: bitfield where "mcountinhibit_IR \<equiv> (2, 1)"
abbreviation (input) satp_ppn :: bitfield where "satp_ppn \<equiv> (0, 22)"
abbreviation (input) satp_asid :: bitfield where "satp_asid \<equiv> (22, 9)"
abbreviation (input) satp_mode :: bitfield where "satp_mode \<equiv> (31, 1)"
abbreviation (input) fcsr_fflags :: bitfield where "fcsr_fflags \<equiv> (0, 5)"
abbreviation (input) fcsr_frm :: bitfield where "fcsr_frm \<equiv> (5, 3)"
abbreviation (input) vxrm_vxrm :: bitfield where "vxrm_vxrm \<equiv> (0, 2)"
abbreviation (input) vxsat_vxsat :: bitfield where "vxsat_vxsat \<equiv> (0, 1)"
abbreviation (input) vcsr_vxsat :: bitfield where "vcsr_vxsat \<equiv> (0, 1)"
abbreviation (input) vcsr_vxrm :: bitfield where "vcsr_vxrm \<equiv> (1, 2)"

abbreviation (input) FS_OFF :: u32 where "FS_OFF \<equiv> 0"
abbreviation (input) FS_DIRTY :: u32 where "FS_DIRTY \<equiv> 3"

section \<open>The table\<close>

datatype (plugins only: code) csr_cell =
    csr_cycle_lo | csr_cycle_hi | csr_time_lo | csr_time_hi | csr_instret_lo | csr_instret_hi
  | csr_mvendorid | csr_marchid | csr_mimpid | csr_mhartid | csr_mstatus | csr_mstatush
  | csr_misa | csr_medeleg | csr_mideleg | csr_mie | csr_mtvec | csr_mcounteren
  | csr_mcountinhibit | csr_mscratch | csr_mepc | csr_mcause | csr_mtval | csr_mip
  | csr_pmpaddr nat | csr_pmpcfg nat | csr_sedeleg | csr_sideleg | csr_stvec | csr_scounteren
  | csr_sscratch | csr_sepc | csr_scause | csr_stval | csr_satp | csr_utvec
  | csr_uscratch | csr_uepc | csr_ucause | csr_utval | csr_fcsr | csr_vstart
  | csr_vxsat | csr_vxrm | csr_vcsr | csr_vtype | csr_vl | csr_vlenb

type_synonym csr_table = "csr_cell \<Rightarrow> u32"

text \<open>The constructor fills \<^verbatim>\<open>register_mapping\<close>; the two loops map the PMP registers.\<close>

definition register_mapping_entries :: "(nat \<times> csr_cell) list" where
  "register_mapping_entries =
    [(CYCLE_ADDR, csr_cycle_lo), (CYCLEH_ADDR, csr_cycle_hi), (TIME_ADDR, csr_time_lo),
     (TIMEH_ADDR, csr_time_hi), (INSTRET_ADDR, csr_instret_lo), (INSTRETH_ADDR, csr_instret_hi),
     (MCYCLE_ADDR, csr_cycle_lo), (MCYCLEH_ADDR, csr_cycle_hi), (MTIME_ADDR, csr_time_lo),
     (MTIMEH_ADDR, csr_time_hi), (MINSTRET_ADDR, csr_instret_lo), (MINSTRETH_ADDR, csr_instret_hi),
     (MVENDORID_ADDR, csr_mvendorid), (MARCHID_ADDR, csr_marchid), (MIMPID_ADDR, csr_mimpid),
     (MHARTID_ADDR, csr_mhartid), (MSTATUS_ADDR, csr_mstatus), (MSTATUSH_ADDR, csr_mstatush),
     (MISA_ADDR, csr_misa), (MEDELEG_ADDR, csr_medeleg), (MIDELEG_ADDR, csr_mideleg),
     (MIE_ADDR, csr_mie), (MTVEC_ADDR, csr_mtvec), (MCOUNTEREN_ADDR, csr_mcounteren),
     (MCOUNTINHIBIT_ADDR, csr_mcountinhibit), (MSCRATCH_ADDR, csr_mscratch), (MEPC_ADDR, csr_mepc),
     (MCAUSE_ADDR, csr_mcause), (MTVAL_ADDR, csr_mtval), (MIP_ADDR, csr_mip),
     (SEDELEG_ADDR, csr_sedeleg), (SIDELEG_ADDR, csr_sideleg), (STVEC_ADDR, csr_stvec),
     (SCOUNTEREN_ADDR, csr_scounteren), (SSCRATCH_ADDR, csr_sscratch), (SEPC_ADDR, csr_sepc),
     (SCAUSE_ADDR, csr_scause), (STVAL_ADDR, csr_stval), (SATP_ADDR, csr_satp),
     (UTVEC_ADDR, csr_utvec), (USCRATCH_ADDR, csr_uscratch), (UEPC_ADDR, csr_uepc),
     (UCAUSE_ADDR, csr_ucause), (UTVAL_ADDR, csr_utval), (FCSR_ADDR, csr_fcsr),
     (VSTART_ADDR, csr_vstart), (VXSAT_ADDR, csr_vxsat), (VXRM_ADDR, csr_vxrm),
     (VCSR_ADDR, csr_vcsr), (VL_ADDR, csr_vl), (VTYPE_ADDR, csr_vtype),
     (VLENB_ADDR, csr_vlenb)]"

definition register_mapping :: "nat \<Rightarrow> csr_cell option" where
  "register_mapping addr =
     (if PMPADDR0_ADDR \<le> addr \<and> addr < PMPADDR0_ADDR + 16 then Some (csr_pmpaddr (addr - PMPADDR0_ADDR))
      else if PMPCFG0_ADDR \<le> addr \<and> addr < PMPCFG0_ADDR + 4 then Some (csr_pmpcfg (addr - PMPCFG0_ADDR))
      else map_of register_mapping_entries addr)"

definition is_valid_csr32_addr :: "nat \<Rightarrow> bool" where
  "is_valid_csr32_addr addr \<longleftrightarrow> register_mapping addr \<noteq> None"

text \<open>\<^verbatim>\<open>ensure\<close> throws a \<^verbatim>\<open>runtime_error\<close> on an address that is not mapped.\<close>

definition default_write32 :: "nat \<Rightarrow> u32 \<Rightarrow> csr_table \<Rightarrow> exn + csr_table" where
  "default_write32 addr v t = (case register_mapping addr of
     None \<Rightarrow> Inl RuntimeError | Some c \<Rightarrow> Inr (t(c := v)))"

definition default_read32 :: "nat \<Rightarrow> csr_table \<Rightarrow> exn + u32" where
  "default_read32 addr t = (case register_mapping addr of
     None \<Rightarrow> Inl RuntimeError | Some c \<Rightarrow> Inr (t c))"

text \<open>The 64-bit counters, through the cells of their halves.\<close>

definition get_csr64 :: "csr_cell \<Rightarrow> csr_cell \<Rightarrow> csr_table \<Rightarrow> u64" where
  "get_csr64 lo hi t = ucast (t lo) OR push_bit 32 (ucast (t hi))"

definition set_csr64 :: "csr_cell \<Rightarrow> csr_cell \<Rightarrow> u64 \<Rightarrow> csr_table \<Rightarrow> csr_table" where
  "set_csr64 lo hi v t = t(lo := ucast v, hi := ucast (drop_bit 32 v))"

definition is_valid_privilege_level :: "u32 \<Rightarrow> bool" where
  "is_valid_privilege_level mode \<longleftrightarrow> mode = MachineMode \<or> mode = SupervisorMode \<or> mode = UserMode"

definition has_C_extension :: "csr_table \<Rightarrow> bool" where
  "has_C_extension t \<longleftrightarrow> fget misa_extensions (t csr_misa) AND 0x4 \<noteq> 0"

definition has_E_base_isa :: "csr_table \<Rightarrow> bool" where
  "has_E_base_isa t \<longleftrightarrow> fget misa_extensions (t csr_misa) AND 0x10 \<noteq> 0"

definition has_user_mode_extension :: "csr_table \<Rightarrow> bool" where
  "has_user_mode_extension t \<longleftrightarrow> fget misa_extensions (t csr_misa) AND 0x100000 \<noteq> 0"

definition has_supervisor_mode_extension :: "csr_table \<Rightarrow> bool" where
  "has_supervisor_mode_extension t \<longleftrightarrow> fget misa_extensions (t csr_misa) AND 0x40000 \<noteq> 0"

definition misa_init :: u32 where
  "misa_init = fset misa_mxl 1 (fset (26, 4) 0 (fset misa_extensions 0 0))"

text \<open>\<^verbatim>\<open>csr_mtvec::get_base_address\<close>\<close>

definition get_base_address :: "u32 \<Rightarrow> u32" where
  "get_base_address v = push_bit 2 (fget mtvec_base v)"

definition checked_write :: "u32 \<Rightarrow> u32" where
  "checked_write v = (if fget mtvec_mode v \<ge> 1 then fset mtvec_mode 0 v else v)"

text \<open>\<^verbatim>\<open>csr::is_bitset\<close>\<close>

definition is_bitset :: "u32 \<Rightarrow> nat \<Rightarrow> bool" where
  "is_bitset v bitpos \<longleftrightarrow> v AND push_bit bitpos 1 \<noteq> 0"

text \<open>
  The state of the table after construction: all registers are zero except \<^verbatim>\<open>misa\<close> and the value
  the source gives \<^verbatim>\<open>vtype\<close>.
\<close>

definition csr_table_init :: csr_table where
  "csr_table_init = (\<lambda>_. 0)(csr_misa := misa_init, csr_vtype := 0x8000000)"

text \<open>The lambda \<^verbatim>\<open>write\<close> of \<^verbatim>\<open>ISS::set_csr_value\<close>: only bits in the mask change.\<close>

definition masked_write :: "u32 \<Rightarrow> u32 \<Rightarrow> u32 \<Rightarrow> u32" where
  "masked_write m v old = (old AND NOT m) OR (v AND m)"

section \<open>Lemmas\<close>

lemma bit_masked_write: "bit (masked_write m v old) n = (if bit m n then bit v n else bit old n)"
  by (auto simp: masked_write_def bit_simps dest: bit_imp_le_length)

definition field_bits :: "bitfield \<Rightarrow> u32" where
  "field_bits f = push_bit (fst f) (mask (snd f))"

lemma bit_field_bits: "bit (field_bits f) n \<longleftrightarrow> fst f \<le> n \<and> n < fst f + snd f \<and> n < 32"
  by (auto simp: field_bits_def bit_simps)

lemma word_and_bitwise: "x AND m = m \<Longrightarrow> bit m n \<Longrightarrow> bit x n" for x m :: u32
  by (metis bit_and_iff)

lemma fget_masked_write_in:
  assumes "m AND field_bits f = field_bits f" "fst f + snd f \<le> 32"
  shows "fget f (masked_write m v old) = fget f v"
proof (rule bit_eqI)
  fix n
  show "bit (fget f (masked_write m v old)) n = bit (fget f v) n"
    using word_and_bitwise [OF assms(1), of "n + fst f"] assms(2)
    by (auto simp: bit_fget bit_masked_write bit_field_bits)
qed

lemma fget_masked_write_out:
  assumes "m AND field_bits f = 0" "fst f + snd f \<le> 32"
  shows "fget f (masked_write m v old) = fget f old"
proof (rule bit_eqI)
  fix n
  have "\<not> (bit m (n + fst f) \<and> bit (field_bits f) (n + fst f))"
    using assms(1) by (metis bit_0_eq bit_and_iff bot_apply bot_bool_def)
  then show "bit (fget f (masked_write m v old)) n = bit (fget f old) n"
    using assms(2) by (auto simp: bit_fget bit_masked_write bit_field_bits)
qed

lemma field_bits_code: "field_bits (l, w) = push_bit l (2 ^ w - 1)"
  by (simp add: field_bits_def mask_eq_exp_minus_1)

lemmas masked_write_fields = fget_masked_write_in fget_masked_write_out

lemma get_set_csr64:
  assumes "lo \<noteq> hi"
  shows "get_csr64 lo hi (set_csr64 lo hi v t) = v"
proof (rule bit_word_eqI)
  fix n
  assume "n < LENGTH(64)"
  then show "bit (get_csr64 lo hi (set_csr64 lo hi v t)) n = bit v n"
    using assms by (cases "n < 32") (auto simp: get_csr64_def set_csr64_def bit_simps)
qed

lemma default_read_write:
  "default_write32 addr v t = Inr t' \<Longrightarrow> default_read32 addr t' = Inr v"
  by (auto simp: default_write32_def default_read32_def split: option.splits)

lemma default_write_valid:
  "is_valid_csr32_addr addr \<Longrightarrow> \<exists>t'. default_write32 addr v t = Inr t'"
  by (auto simp: is_valid_csr32_addr_def default_write32_def)

end
