(* ===== verification/VP_State.thy ===== *)
theory VP_State
  imports VP_Decode VP_CSR
begin

text \<open>
  The state of the RV32 instruction set simulator: the members of class \<^verbatim>\<open>ISS_CT\<close>
  (\<^verbatim>\<open>vp/src/core/rv32/iss_ctemplate.h\<close>), the members of its \<^verbatim>\<open>DBBCacheDummy_T\<close>
  (\<^verbatim>\<open>vp/src/core/common/dbbcache.h\<close>) and the local variables of \<^verbatim>\<open>exec_steps\<close> that outlive one
  instruction. The type parameter is the state of everything behind the memory interfaces. The two global
  variables of the softfloat library, its exception flags and its rounding mode, are part of the state.

  The interfaces the simulator calls through pointers (\<^verbatim>\<open>mem\<close>, \<^verbatim>\<open>instr_mem\<close>, \<^verbatim>\<open>clint\<close>, \<^verbatim>\<open>sys\<close>) and
  its \<^verbatim>\<open>lscache\<close> are records of functions over this state, one field per virtual function. The
  SystemC quantum keeper is such an interface as well. Statistics, trace output, \<^verbatim>\<open>wfi_event\<close> and
  the local time of the quantum keeper are not part of the state.
\<close>

datatype CoreExecStatus = Runnable | HitBreakpoint | Terminated

text \<open>\<^verbatim>\<open>DBBCacheDummy_T\<close>: the fetch/decode unit without caching.\<close>

record dbbcache_dummy =
  dbb_pc :: u32
  dbb_last_pc :: u32
  cycle_counter_raw :: u64
  mem_word :: u32

text \<open>
  The members of class \<^verbatim>\<open>VExtension\<close> (\<^verbatim>\<open>vp/src/core/common/v.h\<close>), the vector unit: the register file as
  its bytes, and the settings the functions of one instruction share. The bits of an \<open>elem_sel_t\<close> say, from the
  lowest: first operand signed, second operand signed, destination signed, and the same three widened.
\<close>

datatype elem_sel_t =
    xxxuuu | xxxuus | xxxssu | xxxsss | xwxuuu | xwxssu | xwxsss | wxxuuu | wxxuus | wxxusu | wxxsss
  | wxwuuu | wxwsss | wwxuuu | wwxsss

datatype param_sel_t = sel_vv | sel_vi | sel_vx | sel_vf | sel_v

record vext =
  v_regs :: "u8 list"
  elem_sel :: elem_sel_t
  param_sel :: param_sel_t
  vd_eew_overwrite :: u64
  o2_eew_overwrite :: u64
  o1_eew_overwrite :: u64
  require_no_overlap :: bool
  require_vd_not_v0 :: bool
  ignoreAlignment :: bool
  ignoreOverlap :: bool
  vd_is_mask :: bool
  vs1_is_mask :: bool
  vs2_is_mask :: bool
  vd_is_scalar :: bool
  vs1_is_scalar :: bool

record 'd iss =
  regs :: "u32 list"
  fp_regs :: "u64 list"
  csrs :: csr_table
  prv :: u32
  pc :: u32
  instr :: u32
  isa_config :: u64
  dbbcache :: dbbcache_dummy
  lr_sc_counter :: int
  iss_slow_path :: bool
  trace :: bool
  shall_exit :: bool
  status :: CoreExecStatus
  debug_mode :: bool
  breakpoints :: "u32 list"
  ignore_wfi :: bool
  error_on_zero_traphandler :: bool
  cycle_counter :: u64
  cycle_counter_raw_last :: u64
  ninstr_last :: u64
  ninstr :: u64
  debug_single_step_done :: bool
  prop_clock_cycle_period :: u64
  opMap :: "OpId \<Rightarrow> u64"
  softfloat_exceptionFlags :: u8
  softfloat_roundingMode :: u8
  v_ext :: vext
  mem_st :: 'd

section \<open>Interfaces\<close>

text \<open>A pointer into host memory: a block and an offset.\<close>

type_synonym host_ptr = "nat \<times> u64"

text \<open>\<^verbatim>\<open>data_memory_if_T\<close> of \<^verbatim>\<open>mem_if.h\<close>, the functions RV32 uses.\<close>

record 'd data_memory_if =
  load_double :: "u64 \<Rightarrow> ('d iss, u64) M"
  load_word :: "u64 \<Rightarrow> ('d iss, u32) M"
  load_half :: "u64 \<Rightarrow> ('d iss, u32) M"
  load_byte :: "u64 \<Rightarrow> ('d iss, u32) M"
  load_uword :: "u64 \<Rightarrow> ('d iss, u32) M"
  load_uhalf :: "u64 \<Rightarrow> ('d iss, u32) M"
  load_ubyte :: "u64 \<Rightarrow> ('d iss, u32) M"
  store_double :: "u64 \<Rightarrow> u64 \<Rightarrow> ('d iss, unit) M"
  store_word :: "u64 \<Rightarrow> u32 \<Rightarrow> ('d iss, unit) M"
  store_half :: "u64 \<Rightarrow> u16 \<Rightarrow> ('d iss, unit) M"
  store_byte :: "u64 \<Rightarrow> u8 \<Rightarrow> ('d iss, unit) M"
  atomic_load_word :: "u64 \<Rightarrow> ('d iss, u32) M"
  atomic_store_word :: "u64 \<Rightarrow> u32 \<Rightarrow> ('d iss, unit) M"
  atomic_load_reserved_word :: "u64 \<Rightarrow> ('d iss, u32) M"
  atomic_store_conditional_word :: "u64 \<Rightarrow> u32 \<Rightarrow> ('d iss, bool) M"
  atomic_unlock :: "('d iss, unit) M"
  is_bus_locked :: "('d iss, bool) M"
  get_last_dmi_page_host_addr :: "('d iss, host_ptr option) M"
  flush_tlb :: "('d iss, unit) M"

text \<open>The public operations of \<^verbatim>\<open>LSCache_IF_T\<close> (\<^verbatim>\<open>lscache.h\<close>).\<close>

record 'd lscache_if =
  ls_load_double :: "u64 \<Rightarrow> ('d iss, u64) M"
  ls_load_word :: "u64 \<Rightarrow> ('d iss, u32) M"
  ls_load_half :: "u64 \<Rightarrow> ('d iss, u32) M"
  ls_load_byte :: "u64 \<Rightarrow> ('d iss, u32) M"
  ls_load_uword :: "u64 \<Rightarrow> ('d iss, u32) M"
  ls_load_uhalf :: "u64 \<Rightarrow> ('d iss, u32) M"
  ls_load_ubyte :: "u64 \<Rightarrow> ('d iss, u32) M"
  ls_store_double :: "u64 \<Rightarrow> u64 \<Rightarrow> ('d iss, unit) M"
  ls_store_word :: "u64 \<Rightarrow> u32 \<Rightarrow> ('d iss, unit) M"
  ls_store_half :: "u64 \<Rightarrow> u16 \<Rightarrow> ('d iss, unit) M"
  ls_store_byte :: "u64 \<Rightarrow> u8 \<Rightarrow> ('d iss, unit) M"
  ls_fence :: "('d iss, unit) M"
  ls_fence_vma :: "('d iss, unit) M"

text \<open>
  What an ISS is connected to. \<open>need_sync\<close> and \<open>sync\<close> are those of the quantum keeper: a
  synchronisation lets the other SystemC processes run.
\<close>

record 'd iss_env =
  mem :: "'d data_memory_if"
  lscache :: "'d lscache_if"
  load_instr :: "u64 \<Rightarrow> ('d iss, u32) M"
  update_and_get_mtime :: "('d iss, u64) M"
  sys :: "('d iss, unit) M option"
  need_sync :: "'d iss \<Rightarrow> bool"
  sync :: "('d iss, unit) M"
  fast_quantum_ins_granularity :: u64

section \<open>Registers\<close>

definition reg :: "u32 \<Rightarrow> 'd iss \<Rightarrow> u32" where
  "reg i s = regs s ! unat i"

definition set_reg :: "u32 \<Rightarrow> u32 \<Rightarrow> 'd iss \<Rightarrow> 'd iss" where
  "set_reg i v s = s\<lparr>regs := (regs s)[unat i := v]\<rparr>"

definition reset_reg_zero :: "'d iss \<Rightarrow> 'd iss" where
  "reset_reg_zero s = s\<lparr>regs := (regs s)[0 := 0]\<rparr>"

text \<open>\<^verbatim>\<open>RegFile_T::write\<close>, \<^verbatim>\<open>RegFile_T::read\<close> and \<^verbatim>\<open>RegFile_T::shamt\<close>.\<close>

definition regfile_write :: "nat \<Rightarrow> u32 \<Rightarrow> ('d iss, unit) M" where
  "regfile_write index v = seqM (assertM (index \<le> 31)) (seqM (assertM (index \<noteq> 0))
     (modifyM (\<lambda>s. s\<lparr>regs := (regs s)[index := v]\<rparr>)))"

definition regfile_read :: "nat \<Rightarrow> ('d iss, u32) M" where
  "regfile_read index = (if index > 31 then raise RuntimeError else getsM (\<lambda>s. regs s ! index))"

definition reg_shamt :: "u32 \<Rightarrow> 'd iss \<Rightarrow> nat" where
  "reg_shamt index s = unat (BIT_RANGE (reg index s) 4 0)"

section \<open>Small operations of the ISS\<close>

definition RAISE_ILLEGAL_INSTRUCTION :: "('d iss, 'a) M" where
  "RAISE_ILLEGAL_INSTRUCTION = bindM (getsM instr) (\<lambda>i. raise (SimulationTrap EXC_ILLEGAL_INSTR (ucast i)))"

text \<open>\<^verbatim>\<open>DBBCacheDummy_T::force_slow_path\<close> does nothing.\<close>

definition force_slow_path :: "'d iss \<Rightarrow> 'd iss" where
  "force_slow_path s = s\<lparr>iss_slow_path := True\<rparr>"

definition maybe_interrupt_pending :: "'d iss \<Rightarrow> 'd iss" where
  "maybe_interrupt_pending s = force_slow_path s"

definition set_status :: "CoreExecStatus \<Rightarrow> 'd iss \<Rightarrow> 'd iss" where
  "set_status st s = force_slow_path (s\<lparr>status := st\<rparr>)"

definition sys_exit :: "'d iss \<Rightarrow> 'd iss" where
  "sys_exit s = force_slow_path (s\<lparr>shall_exit := True\<rparr>)"

definition get_hart_id :: "'d iss \<Rightarrow> u64" where
  "get_hart_id s = ucast (csrs s csr_mhartid)"

definition get_syscall_register_index :: "'d iss \<Rightarrow> nat" where
  "get_syscall_register_index s = (if has_E_base_isa (csrs s) then 15 else 17)"

definition commit_cycles :: "'d iss \<Rightarrow> 'd iss" where
  "commit_cycles s =
     (let raw = cycle_counter_raw (dbbcache s);
          inc = raw - cycle_counter_raw_last s;
          s = s\<lparr>cycle_counter_raw_last := raw\<rparr>
      in if fget mcountinhibit_CY (csrs s csr_mcountinhibit) = 0
         then s\<lparr>cycle_counter := cycle_counter s + inc\<rparr> else s)"

definition commit_instructions :: "u64 \<Rightarrow> 'd iss \<Rightarrow> 'd iss" where
  "commit_instructions n s =
     (let inc = n - ninstr_last s;
          s = s\<lparr>ninstr_last := n\<rparr>
      in if fget mcountinhibit_IR (csrs s csr_mcountinhibit) = 0
         then s\<lparr>csrs := set_csr64 csr_instret_lo csr_instret_hi
                  (get_csr64 csr_instret_lo csr_instret_hi (csrs s) + inc) (csrs s)\<rparr>
         else s)"

definition commit_all_and_reset_fast_quantum :: "'d iss \<Rightarrow> 'd iss" where
  "commit_all_and_reset_fast_quantum s =
     (let s = commit_cycles (commit_instructions (ninstr s) s)
      in s\<lparr>ninstr := 0, ninstr_last := 0\<rparr>)"

text \<open>The cycle counter must be a whole number of clock periods: the source asserts it.\<close>

definition compute_and_get_current_cycles :: "('d iss, u64) M" where
  "compute_and_get_current_cycles =
     bindM (getsM (\<lambda>s. (cycle_counter s, prop_clock_cycle_period s)))
       (\<lambda>(cc, p). seqM (assertM (cc mod p = 0)) (ret (cc div p)))"

definition release_lr_sc_reservation :: "'d iss_env \<Rightarrow> ('d iss, unit) M" where
  "release_lr_sc_reservation E =
     seqM (modifyM (\<lambda>s. s\<lparr>lr_sc_counter := 0\<rparr>)) (atomic_unlock (mem E))"

definition pc_alignment_mask :: "'d iss \<Rightarrow> u32" where
  "pc_alignment_mask s = (if has_C_extension (csrs s) then NOT 1 else NOT 3)"

definition m_mode :: "'d iss \<Rightarrow> bool" where "m_mode s \<longleftrightarrow> prv s = MachineMode"
definition s_mode :: "'d iss \<Rightarrow> bool" where "s_mode s \<longleftrightarrow> prv s = SupervisorMode"
definition u_mode :: "'d iss \<Rightarrow> bool" where "u_mode s \<longleftrightarrow> prv s = UserMode"

definition trap_check_addr_alignment :: "u32 \<Rightarrow> bool \<Rightarrow> u32 \<Rightarrow> ('d iss, unit) M" where
  "trap_check_addr_alignment alignment is_load addr =
     (if addr mod alignment \<noteq> 0
      then raise (SimulationTrap (if is_load then EXC_LOAD_ADDR_MISALIGNED
                                  else EXC_STORE_AMO_ADDR_MISALIGNED) (ucast addr))
      else ret ())"

section \<open>Fetch and decode\<close>

definition dbb_fetch :: "'d iss_env \<Rightarrow> u32 \<Rightarrow> ('d iss, u32) M" where
  "dbb_fetch E p =
     bindM (catch_trap (load_instr E (ucast p))
              (\<lambda>r v. seqM (modifyM (\<lambda>s. s\<lparr>instr := 0\<rparr>)) (raise (SimulationTrap r v))))
       (\<lambda>w. seqM (modifyM (\<lambda>s. s\<lparr>instr := w\<rparr>)) (ret w))"

text \<open>The operation and the length of the instruction in \<open>instr\<close>, which is expanded in place.\<close>

definition dbb_decode :: "('d iss, OpId \<times> u32) M" where
  "dbb_decode = bindM (getsM (\<lambda>s. (instr s, isa_config s))) (\<lambda>(i, cfg).
     if is_compressed i
     then (case decode_and_expand_compressed RV32 cfg i of
             Inl e \<Rightarrow> raise e
           | Inr (op, i') \<Rightarrow> seqM (modifyM (\<lambda>s. s\<lparr>instr := i'\<rparr>)) (ret (op, 2)))
     else ret (decode_normal RV32 cfg i, 4))"

definition fetch_decode :: "'d iss_env \<Rightarrow> ('d iss, OpId) M" where
  "fetch_decode E =
     seqM (modifyM (\<lambda>s. s\<lparr>dbbcache := (dbbcache s)\<lparr>dbb_last_pc := dbb_pc (dbbcache s)\<rparr>\<rparr>))
     (bindM (getsM pc) (\<lambda>p.
      bindM (dbb_fetch E p) (\<lambda>w.
      bindM dbb_decode (\<lambda>(op, len).
      seqM (modifyM (\<lambda>s. s\<lparr>pc := p + len,
              dbbcache := (dbbcache s)\<lparr>mem_word := w, dbb_pc := p + len,
                cycle_counter_raw := cycle_counter_raw (dbbcache s) + opMap s op\<rparr>\<rparr>))
        (ret op)))))"

definition branch_taken :: "u32 \<Rightarrow> 'd iss \<Rightarrow> 'd iss" where
  "branch_taken pc_offset s =
     s\<lparr>dbbcache := (dbbcache s)\<lparr>dbb_pc := dbb_last_pc (dbbcache s) + pc_offset\<rparr>\<rparr>"

definition jump_and_link :: "u32 \<Rightarrow> 'd iss \<Rightarrow> u32 \<times> 'd iss" where
  "jump_and_link pc_offset s = (dbb_pc (dbbcache s), branch_taken pc_offset s)"

definition jump_dyn :: "u32 \<Rightarrow> 'd iss \<Rightarrow> 'd iss" where
  "jump_dyn p s = s\<lparr>dbbcache := (dbbcache s)\<lparr>dbb_pc := p\<rparr>\<rparr>"

definition jump_dyn_and_link :: "u32 \<Rightarrow> 'd iss \<Rightarrow> u32 \<times> 'd iss" where
  "jump_dyn_and_link p s = (dbb_pc (dbbcache s), jump_dyn p s)"

definition enter_trap :: "u32 \<Rightarrow> 'd iss \<Rightarrow> 'd iss" where
  "enter_trap p s = s\<lparr>dbbcache := (dbbcache s)\<lparr>dbb_pc := p\<rparr>\<rparr>"

definition ret_trap :: "u32 \<Rightarrow> 'd iss \<Rightarrow> 'd iss" where
  "ret_trap p s = s\<lparr>dbbcache := (dbbcache s)\<lparr>dbb_pc := p\<rparr>\<rparr>"

section \<open>Construction and the debug interface\<close>

text \<open>
  \<^verbatim>\<open>ISS_CT::ISS_CT\<close> with the default property tree: all members have their default values except the
  hart identifier, the extensions of \<^verbatim>\<open>misa\<close> and the cycle times of the operations. The clock period
  is 10 ns in ps. The constructor of the vector unit sets \<^verbatim>\<open>vlenb\<close>. Members the source leaves uninitialised are zero.
\<close>

definition dbbcache_init :: dbbcache_dummy where
  "dbbcache_init = \<lparr>dbb_pc = 0, dbb_last_pc = 0, cycle_counter_raw = 0, mem_word = 0\<rparr>"

definition VLENB :: nat where "VLENB = 64"
definition NUM_REGS :: nat where "NUM_REGS = 32"

definition VExtension :: vext where
  "VExtension = \<lparr>v_regs = replicate (NUM_REGS * VLENB) 0, elem_sel = xxxuuu, param_sel = sel_vv,
     vd_eew_overwrite = 0, o2_eew_overwrite = 0, o1_eew_overwrite = 0, require_no_overlap = False,
     require_vd_not_v0 = False, ignoreAlignment = False, ignoreOverlap = False, vd_is_mask = False,
     vs1_is_mask = False, vs2_is_mask = False, vd_is_scalar = False, vs1_is_scalar = False\<rparr>"

definition ISS_CT :: "u64 \<Rightarrow> u32 \<Rightarrow> (OpId \<Rightarrow> u64) \<Rightarrow> 'd \<Rightarrow> 'd iss" where
  "ISS_CT cfg hart_id op_times d =
    \<lparr>regs = replicate 32 0, fp_regs = replicate 32 0,
     csrs = csr_table_init(csr_mhartid := hart_id,
              csr_misa := fset misa_extensions (ucast (get_misa_extensions cfg)) misa_init,
              csr_vlenb := of_nat VLENB),
     prv = MachineMode, pc = 0, instr = 0, isa_config = cfg, dbbcache = dbbcache_init,
     lr_sc_counter = 0, iss_slow_path = False, trace = False, shall_exit = False, status = Runnable,
     debug_mode = False, breakpoints = [], ignore_wfi = False, error_on_zero_traphandler = False,
     cycle_counter = 0, cycle_counter_raw_last = 0, ninstr_last = 0, ninstr = 0,
     debug_single_step_done = False, prop_clock_cycle_period = 10000, opMap = op_times,
     softfloat_exceptionFlags = 0, softfloat_roundingMode = 0, v_ext = VExtension, mem_st = d\<rparr>"

definition rv_align_stack_pointer_address :: "u32 \<Rightarrow> u32" where
  "rv_align_stack_pointer_address addr = addr - addr mod 16"

definition iss_init :: "u32 \<Rightarrow> u32 \<Rightarrow> 'd iss \<Rightarrow> 'd iss" where
  "iss_init entrypoint sp_base s =
     s\<lparr>regs := (regs s)[2 := rv_align_stack_pointer_address sp_base], pc := entrypoint,
       dbbcache := (dbbcache s)\<lparr>mem_word := 0, dbb_pc := entrypoint\<rparr>,
       cycle_counter_raw_last := 0, ninstr_last := 0\<rparr>"

definition read_register :: "nat \<Rightarrow> ('d iss, u64) M" where
  "read_register idx = bindM (regfile_read idx) (\<lambda>v. ret (ucast v))"

definition write_register :: "nat \<Rightarrow> u64 \<Rightarrow> ('d iss, unit) M" where
  "write_register idx v = regfile_write idx (ucast v)"

definition get_registers :: "'d iss \<Rightarrow> u64 list" where
  "get_registers s = map ucast (regs s)"

definition enable_debug :: "'d iss \<Rightarrow> 'd iss" where
  "enable_debug s = force_slow_path (s\<lparr>debug_mode := True\<rparr>)"

definition block_on_wfi :: "bool \<Rightarrow> 'd iss \<Rightarrow> 'd iss" where
  "block_on_wfi block s = s\<lparr>ignore_wfi := \<not> block\<rparr>"

definition insert_breakpoint :: "u64 \<Rightarrow> 'd iss \<Rightarrow> 'd iss" where
  "insert_breakpoint addr s = s\<lparr>breakpoints := List.insert (ucast addr) (breakpoints s)\<rparr>"

definition remove_breakpoint :: "u64 \<Rightarrow> 'd iss \<Rightarrow> 'd iss" where
  "remove_breakpoint addr s = s\<lparr>breakpoints := removeAll (ucast addr) (breakpoints s)\<rparr>"

definition enable_trace :: "bool \<Rightarrow> 'd iss \<Rightarrow> 'd iss" where
  "enable_trace ena s = force_slow_path (s\<lparr>trace := ena\<rparr>)"

end
