(* ===== verification/VP_Trap.thy ===== *)
theory VP_Trap
  imports VP_State
begin

text \<open>
  The privileged architecture of the RV32 ISS (\<^verbatim>\<open>vp/src/core/rv32/iss_ctemplate.cpp\<close>): access rights,
  reads and writes of the control and status registers, traps, interrupts, trap entry and trap return.
  The interrupt lines of the CLINT and the PLIC are set and cleared here as well.
\<close>

section \<open>CSR access\<close>

definition csr_upd :: "csr_cell \<Rightarrow> u32 \<Rightarrow> 'd iss \<Rightarrow> 'd iss" where
  "csr_upd c v s = s\<lparr>csrs := (csrs s)(c := v)\<rparr>"

text \<open>\<^verbatim>\<open>csrs.c.reg.fields.f = v\<close>\<close>

definition csr_fset :: "csr_cell \<Rightarrow> bitfield \<Rightarrow> u32 \<Rightarrow> 'd iss \<Rightarrow> 'd iss" where
  "csr_fset c f v s = csr_upd c (fset f v (csrs s c)) s"

definition csr_fget :: "csr_cell \<Rightarrow> bitfield \<Rightarrow> 'd iss \<Rightarrow> u32" where
  "csr_fget c f s = fget f (csrs s c)"

definition fp_require_not_off :: "('d iss, unit) M" where
  "fp_require_not_off = bindM (getsM (csr_fget csr_mstatus mstatus_fs))
     (\<lambda>fs. if fs = FS_OFF then RAISE_ILLEGAL_INSTRUCTION else ret ())"

text \<open>\<^verbatim>\<open>VExtension::requireNotOff\<close> of \<^verbatim>\<open>v.h\<close>.\<close>

definition requireNotOff :: "('d iss, unit) M" where
  "requireNotOff = bindM (getsM (csr_fget csr_mstatus mstatus_vs))
     (\<lambda>vs. if vs = 0 then RAISE_ILLEGAL_INSTRUCTION else ret ())"

definition is_invalid_csr_access :: "u32 \<Rightarrow> bool \<Rightarrow> ('d iss, bool) M" where
  "is_invalid_csr_access csr_addr is_write =
     seqM (whenM (unat csr_addr \<in> {FFLAGS_ADDR, FRM_ADDR, FCSR_ADDR}) fp_require_not_off)
     (seqM (whenM (unat csr_addr \<in> {VSTART_ADDR, VXSAT_ADDR, VXRM_ADDR, VCSR_ADDR, VL_ADDR, VTYPE_ADDR,
                     VLENB_ADDR}) requireNotOff)
      (getsM (\<lambda>s.
         let csr_prv = drop_bit 8 (0x300 AND csr_addr);
             csr_readonly = (drop_bit 10 (0xC00 AND csr_addr) = 3);
             s_invalid = (csr_prv = SupervisorMode \<and> \<not> has_supervisor_mode_extension (csrs s));
             u_invalid = (csr_prv = UserMode \<and> \<not> has_user_mode_extension (csrs s))
         in is_write \<and> csr_readonly \<or> prv s < csr_prv \<or> s_invalid \<or> u_invalid)))"

definition validate_csr_counter_read_access_rights :: "u32 \<Rightarrow> ('d iss, unit) M" where
  "validate_csr_counter_read_access_rights addr =
     (if 0xC00 \<le> addr \<and> addr \<le> 0xC1F \<or> 0xC80 \<le> addr \<and> addr \<le> 0xC9F
      then (let cnt = unat (addr AND 0x1F) in
        bindM (getsM (\<lambda>s. s_mode s \<and> \<not> is_bitset (csrs s csr_mcounteren) cnt))
          (\<lambda>b. seqM (whenM b RAISE_ILLEGAL_INSTRUCTION)
        (bindM (getsM (\<lambda>s. u_mode s \<and> (\<not> is_bitset (csrs s csr_mcounteren) cnt \<or>
                             \<not> is_bitset (csrs s csr_scounteren) cnt)))
          (\<lambda>b. whenM b RAISE_ILLEGAL_INSTRUCTION))))
      else ret ())"

text \<open>The lambda \<^verbatim>\<open>read\<close>.\<close>

definition csr_read :: "csr_cell \<Rightarrow> u32 \<Rightarrow> ('d iss, u32) M" where
  "csr_read c m = getsM (\<lambda>s. csrs s c AND m)"

definition read_mtime :: "'d iss_env \<Rightarrow> csr_cell \<Rightarrow> ('d iss, u32) M" where
  "read_mtime E word = bindM (update_and_get_mtime E) (\<lambda>mtime.
     seqM (modifyM (\<lambda>s. s\<lparr>csrs := set_csr64 csr_time_lo csr_time_hi mtime (csrs s)\<rparr>))
       (getsM (\<lambda>s. csrs s word)))"

definition read_cycles :: "csr_cell \<Rightarrow> ('d iss, u32) M" where
  "read_cycles word = seqM (modifyM commit_cycles) (bindM compute_and_get_current_cycles (\<lambda>n.
     seqM (modifyM (\<lambda>s. s\<lparr>csrs := set_csr64 csr_cycle_lo csr_cycle_hi n (csrs s)\<rparr>))
       (getsM (\<lambda>s. csrs s word))))"

definition csr_default_read :: "u32 \<Rightarrow> ('d iss, u32) M" where
  "csr_default_read addr =
     (if \<not> is_valid_csr32_addr (unat addr) then RAISE_ILLEGAL_INSTRUCTION
      else bindM (getsM csrs) (\<lambda>t. case default_read32 (unat addr) t of
             Inl e \<Rightarrow> raise e | Inr v \<Rightarrow> ret v))"

definition read_vcsr :: "('d iss, u32) M" where
  "read_vcsr =
     seqM (modifyM (\<lambda>s. csr_fset csr_vcsr vcsr_vxrm (csr_fget csr_vxrm vxrm_vxrm s) s))
     (seqM (modifyM (\<lambda>s. csr_fset csr_vcsr vcsr_vxsat (csr_fget csr_vxsat vxsat_vxsat s) s))
       (getsM (\<lambda>s. csrs s csr_vcsr)))"

text \<open>\<^verbatim>\<open>SATP\<close> is trapped when \<^verbatim>\<open>mstatus.TVM\<close> is set, and falls through to the default read.\<close>

definition check_tvm :: "('d iss, unit) M" where
  "check_tvm = bindM (getsM (csr_fget csr_mstatus mstatus_tvm))
     (\<lambda>tvm. whenM (tvm \<noteq> 0) RAISE_ILLEGAL_INSTRUCTION)"

definition get_csr_value :: "'d iss_env \<Rightarrow> u32 \<Rightarrow> ('d iss, u32) M" where
  "get_csr_value E addr = seqM (validate_csr_counter_read_access_rights addr)
    (if is_hpmcounter (unat addr) then ret 0
     else switch_on (unat addr)
      [(TIME_ADDR, read_mtime E csr_time_lo), (MTIME_ADDR, read_mtime E csr_time_lo),
       (TIMEH_ADDR, read_mtime E csr_time_hi), (MTIMEH_ADDR, read_mtime E csr_time_hi),
       (CYCLE_ADDR, read_cycles csr_cycle_lo), (MCYCLE_ADDR, read_cycles csr_cycle_lo),
       (CYCLEH_ADDR, read_cycles csr_cycle_hi), (MCYCLEH_ADDR, read_cycles csr_cycle_hi),
       (MINSTRET_ADDR, getsM (\<lambda>s. csrs s csr_instret_lo)),
       (MINSTRETH_ADDR, getsM (\<lambda>s. csrs s csr_instret_hi)),
       (MSTATUS_ADDR, csr_read csr_mstatus MSTATUS_READ_MASK),
       (SSTATUS_ADDR, csr_read csr_mstatus SSTATUS_READ_MASK),
       (USTATUS_ADDR, csr_read csr_mstatus USTATUS_READ_MASK),
       (MSTATUSH_ADDR, csr_read csr_mstatush MSTATUSH_READ_MASK),
       (MIP_ADDR, csr_read csr_mip MIP_READ_MASK),
       (SIP_ADDR, csr_read csr_mip SIP_MASK),
       (UIP_ADDR, csr_read csr_mip UIP_MASK),
       (MIE_ADDR, csr_read csr_mie MIE_MASK),
       (SIE_ADDR, csr_read csr_mie SIE_MASK),
       (UIE_ADDR, csr_read csr_mie UIE_MASK),
       (SATP_ADDR, seqM check_tvm (csr_default_read addr)),
       (FCSR_ADDR, csr_read csr_fcsr FCSR_MASK),
       (FFLAGS_ADDR, getsM (csr_fget csr_fcsr fcsr_fflags)),
       (FRM_ADDR, getsM (csr_fget csr_fcsr fcsr_frm)),
       (VCSR_ADDR, read_vcsr),
       (TSELECT_ADDR, ret 1),
       (TDATA1_ADDR, ret 0), (TDATA2_ADDR, ret 0), (TDATA3_ADDR, ret 0), (DCSR_ADDR, ret 0),
       (DPC_ADDR, ret 0), (DSCRATCH0_ADDR, ret 0), (DSCRATCH1_ADDR, ret 0)]
      (csr_default_read addr))"

text \<open>The lambda \<^verbatim>\<open>write\<close>.\<close>

definition csr_write :: "csr_cell \<Rightarrow> u32 \<Rightarrow> u32 \<Rightarrow> ('d iss, unit) M" where
  "csr_write c m v = modifyM (\<lambda>s. csr_upd c (masked_write m v (csrs s c)) s)"

definition csr_default_write :: "u32 \<Rightarrow> u32 \<Rightarrow> ('d iss, unit) M" where
  "csr_default_write addr v =
     (if \<not> is_valid_csr32_addr (unat addr) then RAISE_ILLEGAL_INSTRUCTION
      else bindM (getsM csrs) (\<lambda>t. case default_write32 (unat addr) v t of
             Inl e \<Rightarrow> raise e | Inr t' \<Rightarrow> modifyM (\<lambda>s. s\<lparr>csrs := t'\<rparr>)))"

definition write_epc :: "csr_cell \<Rightarrow> u32 \<Rightarrow> ('d iss, unit) M" where
  "write_epc c v = bindM (getsM pc_alignment_mask) (\<lambda>m. csr_write c m v)"

definition set_csr_value :: "u32 \<Rightarrow> u32 \<Rightarrow> ('d iss, unit) M" where
  "set_csr_value addr v = seqM
    (if is_hpmcounter (unat addr) then ret ()
     else switch_on (unat addr)
      [(MISA_ADDR, ret ()),
       (SATP_ADDR, seqM check_tvm (csr_write csr_satp SATP_MASK v)),
       (MTVEC_ADDR, csr_write csr_mtvec MTVEC_MASK v),
       (STVEC_ADDR, csr_write csr_stvec MTVEC_MASK v),
       (UTVEC_ADDR, csr_write csr_utvec MTVEC_MASK v),
       (MEPC_ADDR, write_epc csr_mepc v),
       (SEPC_ADDR, write_epc csr_sepc v),
       (UEPC_ADDR, write_epc csr_uepc v),
       (MSTATUS_ADDR, csr_write csr_mstatus MSTATUS_WRITE_MASK v),
       (SSTATUS_ADDR, csr_write csr_mstatus SSTATUS_WRITE_MASK v),
       (USTATUS_ADDR, csr_write csr_mstatus USTATUS_WRITE_MASK v),
       (MSTATUSH_ADDR, csr_write csr_mstatush MSTATUSH_WRITE_MASK v),
       (MIP_ADDR, csr_write csr_mip MIP_WRITE_MASK v),
       (SIP_ADDR, csr_write csr_mip SIP_MASK v),
       (UIP_ADDR, csr_write csr_mip UIP_MASK v),
       (MIE_ADDR, csr_write csr_mie MIE_MASK v),
       (SIE_ADDR, csr_write csr_mie SIE_MASK v),
       (UIE_ADDR, csr_write csr_mie UIE_MASK v),
       (MIDELEG_ADDR, csr_write csr_mideleg MIDELEG_MASK v),
       (MEDELEG_ADDR, csr_write csr_medeleg MEDELEG_MASK v),
       (SIDELEG_ADDR, csr_write csr_sideleg SIDELEG_MASK v),
       (SEDELEG_ADDR, csr_write csr_sedeleg SEDELEG_MASK v),
       (MCOUNTEREN_ADDR, csr_write csr_mcounteren MCOUNTEREN_MASK v),
       (SCOUNTEREN_ADDR, csr_write csr_scounteren MCOUNTEREN_MASK v),
       (MCOUNTINHIBIT_ADDR, seqM (modifyM commit_cycles) (csr_write csr_mcountinhibit MCOUNTINHIBIT_MASK v)),
       (FCSR_ADDR, csr_write csr_fcsr FCSR_MASK v),
       (FFLAGS_ADDR, modifyM (csr_fset csr_fcsr fcsr_fflags v)),
       (FRM_ADDR, modifyM (csr_fset csr_fcsr fcsr_frm v)),
       (VXSAT_ADDR, seqM (csr_write csr_vxsat VXSAT_MASK v)
          (modifyM (\<lambda>s. csr_fset csr_vcsr vcsr_vxsat (csr_fget csr_vxsat vxsat_vxsat s) s))),
       (VXRM_ADDR, seqM (csr_write csr_vxrm VXRM_MASK v)
          (modifyM (\<lambda>s. csr_fset csr_vcsr vcsr_vxrm (csr_fget csr_vxrm vxrm_vxrm s) s))),
       (VCSR_ADDR, seqM (csr_write csr_vcsr VCSR_MASK v)
          (seqM (modifyM (\<lambda>s. csr_fset csr_vxrm vxrm_vxrm (csr_fget csr_vcsr vcsr_vxrm s) s))
            (modifyM (\<lambda>s. csr_fset csr_vxsat vxsat_vxsat (csr_fget csr_vcsr vcsr_vxsat s) s)))),
       (VTYPE_ADDR, csr_write csr_vtype VTYPE_MASK v),
       (TSELECT_ADDR, ret ()), (TDATA1_ADDR, ret ()), (TDATA2_ADDR, ret ()), (TDATA3_ADDR, ret ()),
       (DCSR_ADDR, ret ()), (DPC_ADDR, ret ()), (DSCRATCH0_ADDR, ret ()), (DSCRATCH1_ADDR, ret ())]
      (csr_default_write addr v))
    (modifyM maybe_interrupt_pending)"

section \<open>Traps\<close>

text \<open>
  \<^verbatim>\<open>boost::lexical_cast<uint32_t>\<close> throws when the value does not fit.
\<close>

definition lexical_cast_u32 :: "u64 \<Rightarrow> ('d iss, u32) M" where
  "lexical_cast_u32 v = (if v \<le> 0xFFFFFFFF then ret (ucast v) else raise RuntimeError)"

definition set_cause :: "csr_cell \<Rightarrow> u32 \<Rightarrow> u32 \<Rightarrow> 'd iss \<Rightarrow> 'd iss" where
  "set_cause c code irq s = csr_fset c mcause_interrupt irq (csr_fset c mcause_exception_code code s)"

definition record_trap :: "csr_cell \<Rightarrow> csr_cell \<Rightarrow> u32 \<Rightarrow> u64 \<Rightarrow> ('d iss, unit) M" where
  "record_trap cause tval reason mtval =
     seqM (modifyM (set_cause cause reason 0))
     (bindM (lexical_cast_u32 mtval) (\<lambda>v. modifyM (csr_upd tval v)))"

definition prepare_trap :: "u32 \<Rightarrow> u64 \<Rightarrow> u32 \<Rightarrow> ('d iss, u32) M" where
  "prepare_trap reason mtval last_pc =
     seqM (modifyM (\<lambda>s. s\<lparr>pc := last_pc\<rparr>))
     (let exc_bit = push_bit (unat reason) 1 in
      bindM (getsM (\<lambda>s. prv s = MachineMode \<or> exc_bit AND csrs s csr_medeleg = 0)) (\<lambda>m.
       if m then seqM (record_trap csr_mcause csr_mtval reason mtval) (ret MachineMode)
       else bindM (getsM (\<lambda>s. prv s = SupervisorMode \<or> exc_bit AND csrs s csr_sedeleg = 0)) (\<lambda>sv.
        if sv then seqM (record_trap csr_scause csr_stval reason mtval) (ret SupervisorMode)
        else bindM (getsM (\<lambda>s. prv s = UserMode \<and> exc_bit AND csrs s csr_medeleg \<noteq> 0 \<and>
                              exc_bit AND csrs s csr_sedeleg \<noteq> 0)) (\<lambda>ok.
         seqM (assertM ok)
         (seqM (record_trap csr_ucause csr_utval reason mtval) (ret UserMode))))))"

text \<open>The \<^verbatim>\<open>if\<close> cascade of \<^verbatim>\<open>prepare_interrupt\<close>: external before software before timer, machine before
  supervisor before user.\<close>

definition interrupt_code :: "u32 \<Rightarrow> u32 option" where
  "interrupt_code x =
     (if fget mip_meip x \<noteq> 0 then Some EXC_M_EXTERNAL_INTERRUPT
      else if fget mip_msip x \<noteq> 0 then Some EXC_M_SOFTWARE_INTERRUPT
      else if fget mip_mtip x \<noteq> 0 then Some EXC_M_TIMER_INTERRUPT
      else if fget mip_seip x \<noteq> 0 then Some EXC_S_EXTERNAL_INTERRUPT
      else if fget mip_ssip x \<noteq> 0 then Some EXC_S_SOFTWARE_INTERRUPT
      else if fget mip_stip x \<noteq> 0 then Some EXC_S_TIMER_INTERRUPT
      else if fget mip_ueip x \<noteq> 0 then Some EXC_U_EXTERNAL_INTERRUPT
      else if fget mip_usip x \<noteq> 0 then Some EXC_U_SOFTWARE_INTERRUPT
      else if fget mip_utip x \<noteq> 0 then Some EXC_U_TIMER_INTERRUPT
      else None)"

definition prepare_interrupt :: "u32 \<Rightarrow> u32 \<Rightarrow> ('d iss, unit) M" where
  "prepare_interrupt target_mode pending = (case interrupt_code pending of
     None \<Rightarrow> raise RuntimeError
   | Some exc \<Rightarrow> switch_on target_mode
       [(MachineMode, modifyM (set_cause csr_mcause exc 1)),
        (SupervisorMode, modifyM (set_cause csr_scause exc 1)),
        (UserMode, modifyM (set_cause csr_ucause exc 1))]
       (raise RuntimeError))"

definition compute_pending_interrupts :: "'d iss \<Rightarrow> u32 \<times> u32" where
  "compute_pending_interrupts s =
     (let pending = csrs s csr_mie AND csrs s csr_mip in
      if pending = 0 then (NoneMode, 0)
      else let m_pending = pending AND NOT (csrs s csr_mideleg) in
      if m_pending \<noteq> 0 \<and>
         (prv s < MachineMode \<or> prv s = MachineMode \<and> csr_fget csr_mstatus mstatus_mie s \<noteq> 0)
      then (MachineMode, m_pending)
      else let pending = pending AND csrs s csr_mideleg;
               s_pending = pending AND NOT (csrs s csr_sideleg) in
      if s_pending \<noteq> 0 \<and>
         (prv s < SupervisorMode \<or> prv s = SupervisorMode \<and> csr_fget csr_mstatus mstatus_sie s \<noteq> 0)
      then (SupervisorMode, s_pending)
      else let u_pending = pending AND csrs s csr_sideleg in
      if u_pending \<noteq> 0 \<and> prv s = UserMode \<and> csr_fget csr_mstatus mstatus_uie s \<noteq> 0
      then (UserMode, u_pending)
      else (NoneMode, 0))"

definition has_pending_enabled_interrupts :: "'d iss \<Rightarrow> bool" where
  "has_pending_enabled_interrupts s \<longleftrightarrow> fst (compute_pending_interrupts s) \<noteq> NoneMode"

definition has_local_pending_enabled_interrupts :: "'d iss \<Rightarrow> bool" where
  "has_local_pending_enabled_interrupts s \<longleftrightarrow> csrs s csr_mie AND csrs s csr_mip \<noteq> 0"

section \<open>Trap entry and return\<close>

text \<open>\<^verbatim>\<open>pc = xtvec.get_base_address()\<close>, plus the vector offset of an interrupt.\<close>

definition vectored_pc :: "csr_cell \<Rightarrow> csr_cell \<Rightarrow> u32 \<Rightarrow> 'd iss \<Rightarrow> u32" where
  "vectored_pc cause tvec base s =
     (if csr_fget cause mcause_interrupt s \<noteq> 0 \<and> csr_fget tvec mtvec_mode s = 1
      then base + 4 * csr_fget cause mcause_exception_code s else base)"

definition enter_machine :: "u32 \<Rightarrow> ('d iss, unit) M" where
  "enter_machine pp =
     seqM (modifyM (\<lambda>s. csr_upd csr_mepc (pc s) s))
     (seqM (modifyM (\<lambda>s. csr_fset csr_mstatus mstatus_mpie (csr_fget csr_mstatus mstatus_mie s) s))
     (seqM (modifyM (csr_fset csr_mstatus mstatus_mie 0))
     (seqM (modifyM (csr_fset csr_mstatus mstatus_mpp pp))
     (seqM (modifyM (\<lambda>s. s\<lparr>pc := get_base_address (csrs s csr_mtvec)\<rparr>))
     (bindM (getsM (\<lambda>s. pc s = 0 \<and> error_on_zero_traphandler s)) (\<lambda>err.
      if err then raise RuntimeError
      else modifyM (\<lambda>s. s\<lparr>pc := vectored_pc csr_mcause csr_mtvec (pc s) s\<rparr>)))))))"

definition enter_supervisor :: "u32 \<Rightarrow> ('d iss, unit) M" where
  "enter_supervisor pp =
     bindM (getsM (\<lambda>s. prv s = SupervisorMode \<or> prv s = UserMode)) (\<lambda>ok.
     seqM (assertM ok)
     (seqM (modifyM (\<lambda>s. csr_upd csr_sepc (pc s) s))
     (seqM (modifyM (\<lambda>s. csr_fset csr_mstatus mstatus_spie (csr_fget csr_mstatus mstatus_sie s) s))
     (seqM (modifyM (csr_fset csr_mstatus mstatus_sie 0))
     (seqM (modifyM (csr_fset csr_mstatus mstatus_spp pp))
     (seqM (modifyM (\<lambda>s. s\<lparr>pc := get_base_address (csrs s csr_stvec)\<rparr>))
       (modifyM (\<lambda>s. s\<lparr>pc := vectored_pc csr_scause csr_stvec (pc s) s\<rparr>))))))))"

definition enter_user :: "('d iss, unit) M" where
  "enter_user =
     bindM (getsM (\<lambda>s. prv s = UserMode)) (\<lambda>ok.
     seqM (assertM ok)
     (seqM (modifyM (\<lambda>s. csr_upd csr_uepc (pc s) s))
     (seqM (modifyM (\<lambda>s. csr_fset csr_mstatus mstatus_upie (csr_fget csr_mstatus mstatus_uie s) s))
     (seqM (modifyM (csr_fset csr_mstatus mstatus_uie 0))
     (seqM (modifyM (\<lambda>s. s\<lparr>pc := get_base_address (csrs s csr_utvec)\<rparr>))
       (modifyM (\<lambda>s. s\<lparr>pc := vectored_pc csr_ucause csr_utvec (pc s) s\<rparr>)))))))"

definition switch_to_trap_handler :: "'d iss_env \<Rightarrow> u32 \<Rightarrow> ('d iss, unit) M" where
  "switch_to_trap_handler E target_mode =
     seqM (release_lr_sc_reservation E)
     (bindM (getsM prv) (\<lambda>pp.
      seqM (modifyM (\<lambda>s. s\<lparr>prv := target_mode\<rparr>))
      (seqM (switch_on target_mode
               [(MachineMode, enter_machine pp), (SupervisorMode, enter_supervisor pp),
                (UserMode, enter_user)] (raise RuntimeError))
        (modifyM (\<lambda>s. enter_trap (pc s) s)))))"

definition handle_interrupt :: "'d iss_env \<Rightarrow> ('d iss, unit) M" where
  "handle_interrupt E = bindM (getsM compute_pending_interrupts) (\<lambda>(target_mode, pending).
     whenM (target_mode \<noteq> NoneMode)
       (seqM (prepare_interrupt target_mode pending) (switch_to_trap_handler E target_mode)))"

definition handle_trap :: "'d iss_env \<Rightarrow> u32 \<Rightarrow> u64 \<Rightarrow> u32 \<Rightarrow> ('d iss, unit) M" where
  "handle_trap E reason mtval last_pc =
     bindM (prepare_trap reason mtval last_pc) (switch_to_trap_handler E)"

definition return_machine :: "'d iss \<Rightarrow> 'd iss" where
  "return_machine s =
     (let s = s\<lparr>prv := csr_fget csr_mstatus mstatus_mpp s\<rparr>;
          s = csr_fset csr_mstatus mstatus_mie (csr_fget csr_mstatus mstatus_mpie s) s;
          s = csr_fset csr_mstatus mstatus_mpie 1 s;
          s = s\<lparr>pc := csrs s csr_mepc\<rparr>
      in csr_fset csr_mstatus mstatus_mpp
           (if has_user_mode_extension (csrs s) then UserMode else MachineMode) s)"

definition return_supervisor :: "'d iss \<Rightarrow> 'd iss" where
  "return_supervisor s =
     (let s = s\<lparr>prv := csr_fget csr_mstatus mstatus_spp s\<rparr>;
          s = csr_fset csr_mstatus mstatus_sie (csr_fget csr_mstatus mstatus_spie s) s;
          s = csr_fset csr_mstatus mstatus_spie 1 s;
          s = s\<lparr>pc := csrs s csr_sepc\<rparr>
      in csr_fset csr_mstatus mstatus_spp
           (if has_user_mode_extension (csrs s) then UserMode else SupervisorMode) s)"

definition return_user :: "'d iss \<Rightarrow> 'd iss" where
  "return_user s =
     (let s = s\<lparr>prv := UserMode\<rparr>;
          s = csr_fset csr_mstatus mstatus_uie (csr_fget csr_mstatus mstatus_upie s) s;
          s = csr_fset csr_mstatus mstatus_upie 1 s
      in s\<lparr>pc := csrs s csr_uepc\<rparr>)"

definition return_from_trap_handler :: "u32 \<Rightarrow> ('d iss, unit) M" where
  "return_from_trap_handler return_mode =
     seqM (switch_on return_mode
             [(MachineMode, modifyM return_machine), (SupervisorMode, modifyM return_supervisor),
              (UserMode, modifyM return_user)] (raise RuntimeError))
       (modifyM (\<lambda>s. force_slow_path (ret_trap (pc s) s)))"

section \<open>Interrupt lines\<close>

definition trigger_external_interrupt :: "u32 \<Rightarrow> 'd iss \<Rightarrow> 'd iss" where
  "trigger_external_interrupt level s = maybe_interrupt_pending (switch_on level
     [(UserMode, csr_fset csr_mip mip_ueip 1 s), (SupervisorMode, csr_fset csr_mip mip_seip 1 s),
      (MachineMode, csr_fset csr_mip mip_meip 1 s)] s)"

definition clear_external_interrupt :: "u32 \<Rightarrow> 'd iss \<Rightarrow> 'd iss" where
  "clear_external_interrupt level s = switch_on level
     [(UserMode, csr_fset csr_mip mip_ueip 0 s), (SupervisorMode, csr_fset csr_mip mip_seip 0 s),
      (MachineMode, csr_fset csr_mip mip_meip 0 s)] s"

definition trigger_timer_interrupt :: "'d iss \<Rightarrow> 'd iss" where
  "trigger_timer_interrupt s = maybe_interrupt_pending (csr_fset csr_mip mip_mtip 1 s)"

definition clear_timer_interrupt :: "'d iss \<Rightarrow> 'd iss" where
  "clear_timer_interrupt s = csr_fset csr_mip mip_mtip 0 s"

definition trigger_software_interrupt :: "'d iss \<Rightarrow> 'd iss" where
  "trigger_software_interrupt s = maybe_interrupt_pending (csr_fset csr_mip mip_msip 1 s)"

definition clear_software_interrupt :: "'d iss \<Rightarrow> 'd iss" where
  "clear_software_interrupt s = csr_fset csr_mip mip_msip 0 s"

end
