(* ===== verification/VP_ISS32.thy ===== *)
theory VP_ISS32
  imports VP_Trap "HOL-Library.Signed_Division"
begin

text \<open>
  The operations of the RV32 instruction set simulator, \<^verbatim>\<open>vp/src/core/rv32/iss_ctemplate.cpp\<close>: one
  definition per \<^verbatim>\<open>OP_CASE\<close> of the base instruction set, the M and A extensions, Zicsr and the
  privileged instructions, their dispatch, and the loop of \<^verbatim>\<open>exec_steps\<close>. The operations of the
  floating-point and vector extensions are the parameter \<open>ext_op\<close>.

  With \<^verbatim>\<open>DBBCacheDummy_T\<close> every operation ends in \<^verbatim>\<open>ninstr++\<close> and a jump to the global fetch, decode
  and dispatch; the quantum test some operations make before it leads to the same place.
\<close>

section \<open>Operands\<close>

definition rs1_val :: "'d iss \<Rightarrow> u32" where "rs1_val s = reg (rs1 (instr s)) s"
definition rs2_val :: "'d iss \<Rightarrow> u32" where "rs2_val s = reg (rs2 (instr s)) s"
definition set_rd :: "u32 \<Rightarrow> 'd iss \<Rightarrow> 'd iss" where "set_rd v s = set_reg (rd (instr s)) v s"

text \<open>\<^verbatim>\<open>regs[instr.rd()] = e\<close> with an \<open>e\<close> that has no side effect.\<close>

definition assign_rd :: "('d iss \<Rightarrow> u32) \<Rightarrow> ('d iss, unit) M" where
  "assign_rd e = modifyM (\<lambda>s. set_rd (e s) s)"

definition bool_reg :: "bool \<Rightarrow> u32" where "bool_reg b = (if b then 1 else 0)"

section \<open>Integer operations\<close>

definition op_ADDI :: "('d iss, unit) M" where
  "op_ADDI = assign_rd (\<lambda>s. rs1_val s + I_imm (instr s))"

definition op_SLTI :: "('d iss, unit) M" where
  "op_SLTI = assign_rd (\<lambda>s. bool_reg (sint (rs1_val s) < sint (I_imm (instr s))))"

definition op_SLTIU :: "('d iss, unit) M" where
  "op_SLTIU = assign_rd (\<lambda>s. bool_reg (rs1_val s < I_imm (instr s)))"

definition op_XORI :: "('d iss, unit) M" where
  "op_XORI = assign_rd (\<lambda>s. rs1_val s XOR I_imm (instr s))"

definition op_ORI :: "('d iss, unit) M" where
  "op_ORI = assign_rd (\<lambda>s. rs1_val s OR I_imm (instr s))"

definition op_ANDI :: "('d iss, unit) M" where
  "op_ANDI = assign_rd (\<lambda>s. rs1_val s AND I_imm (instr s))"

definition op_ADD :: "('d iss, unit) M" where
  "op_ADD = assign_rd (\<lambda>s. rs1_val s + rs2_val s)"

definition op_SUB :: "('d iss, unit) M" where
  "op_SUB = assign_rd (\<lambda>s. rs1_val s - rs2_val s)"

definition op_SLL :: "('d iss, unit) M" where
  "op_SLL = assign_rd (\<lambda>s. push_bit (reg_shamt (rs2 (instr s)) s) (rs1_val s))"

definition op_SLT :: "('d iss, unit) M" where
  "op_SLT = assign_rd (\<lambda>s. bool_reg (sint (rs1_val s) < sint (rs2_val s)))"

definition op_SLTU :: "('d iss, unit) M" where
  "op_SLTU = assign_rd (\<lambda>s. bool_reg (rs1_val s < rs2_val s))"

definition op_SRL :: "('d iss, unit) M" where
  "op_SRL = assign_rd (\<lambda>s. drop_bit (reg_shamt (rs2 (instr s)) s) (rs1_val s))"

definition op_SRA :: "('d iss, unit) M" where
  "op_SRA = assign_rd (\<lambda>s. signed_drop_bit (reg_shamt (rs2 (instr s)) s) (rs1_val s))"

definition op_XOR :: "('d iss, unit) M" where
  "op_XOR = assign_rd (\<lambda>s. rs1_val s XOR rs2_val s)"

definition op_OR :: "('d iss, unit) M" where
  "op_OR = assign_rd (\<lambda>s. rs1_val s OR rs2_val s)"

definition op_AND :: "('d iss, unit) M" where
  "op_AND = assign_rd (\<lambda>s. rs1_val s AND rs2_val s)"

definition op_SLLI :: "('d iss, unit) M" where
  "op_SLLI = assign_rd (\<lambda>s. push_bit (unat (shamt (instr s))) (rs1_val s))"

definition op_SRLI :: "('d iss, unit) M" where
  "op_SRLI = assign_rd (\<lambda>s. drop_bit (unat (shamt (instr s))) (rs1_val s))"

definition op_SRAI :: "('d iss, unit) M" where
  "op_SRAI = assign_rd (\<lambda>s. signed_drop_bit (unat (shamt (instr s))) (rs1_val s))"

definition op_LUI :: "('d iss, unit) M" where
  "op_LUI = assign_rd (\<lambda>s. U_imm (instr s))"

definition op_AUIPC :: "('d iss, unit) M" where
  "op_AUIPC = assign_rd (\<lambda>s. dbb_last_pc (dbbcache s) + U_imm (instr s))"

section \<open>Control flow\<close>

definition op_J :: "('d iss, unit) M" where
  "op_J = modifyM (\<lambda>s. branch_taken (J_imm (instr s)) s)"

definition op_JAL :: "('d iss, unit) M" where
  "op_JAL = modifyM (\<lambda>s. let (link, s') = jump_and_link (J_imm (instr s)) s in set_rd link s')"

text \<open>The target of an indirect jump, with the check for a misaligned address.\<close>

definition jump_target :: "('d iss, u32) M" where
  "jump_target = bindM (getsM (\<lambda>s. ((rs1_val s + I_imm (instr s)) AND NOT 1, has_C_extension (csrs s))))
     (\<lambda>(p, c). if p AND 3 \<noteq> 0 \<and> \<not> c
                then raise (SimulationTrap EXC_INSTR_ADDR_MISALIGNED (ucast p)) else ret p)"

definition op_JR :: "('d iss, unit) M" where
  "op_JR = bindM jump_target (\<lambda>p. modifyM (jump_dyn p))"

definition op_JALR :: "('d iss, unit) M" where
  "op_JALR = bindM jump_target (\<lambda>p.
     modifyM (\<lambda>s. let (link, s') = jump_dyn_and_link p s in set_rd link s'))"

text \<open>\<^verbatim>\<open>DBBCacheDummy_T::branch_not_taken\<close> does nothing.\<close>

definition branch_if :: "('d iss \<Rightarrow> bool) \<Rightarrow> ('d iss, unit) M" where
  "branch_if b = modifyM (\<lambda>s. if b s then branch_taken (B_imm (instr s)) s else s)"

definition op_BEQ :: "('d iss, unit) M" where
  "op_BEQ = branch_if (\<lambda>s. rs1_val s = rs2_val s)"

definition op_BNE :: "('d iss, unit) M" where
  "op_BNE = branch_if (\<lambda>s. rs1_val s \<noteq> rs2_val s)"

definition op_BLT :: "('d iss, unit) M" where
  "op_BLT = branch_if (\<lambda>s. sint (rs1_val s) < sint (rs2_val s))"

definition op_BGE :: "('d iss, unit) M" where
  "op_BGE = branch_if (\<lambda>s. sint (rs1_val s) \<ge> sint (rs2_val s))"

definition op_BLTU :: "('d iss, unit) M" where
  "op_BLTU = branch_if (\<lambda>s. rs1_val s < rs2_val s)"

definition op_BGEU :: "('d iss, unit) M" where
  "op_BGEU = branch_if (\<lambda>s. rs1_val s \<ge> rs2_val s)"

section \<open>Loads and stores\<close>

definition store_addr :: "'d iss \<Rightarrow> u32" where "store_addr s = rs1_val s + S_imm (instr s)"
definition load_addr :: "'d iss \<Rightarrow> u32" where "load_addr s = rs1_val s + I_imm (instr s)"

definition op_SB :: "'d iss_env \<Rightarrow> ('d iss, unit) M" where
  "op_SB E = bindM (getsM (\<lambda>s. (store_addr s, rs2_val s)))
     (\<lambda>(addr, v). ls_store_byte (lscache E) (ucast addr) (ucast v))"

definition op_SH :: "'d iss_env \<Rightarrow> ('d iss, unit) M" where
  "op_SH E = bindM (getsM (\<lambda>s. (store_addr s, rs2_val s))) (\<lambda>(addr, v).
     seqM (trap_check_addr_alignment 2 False addr) (ls_store_half (lscache E) (ucast addr) (ucast v)))"

definition op_SW :: "'d iss_env \<Rightarrow> ('d iss, unit) M" where
  "op_SW E = bindM (getsM (\<lambda>s. (store_addr s, rs2_val s))) (\<lambda>(addr, v).
     seqM (trap_check_addr_alignment 4 False addr) (ls_store_word (lscache E) (ucast addr) v))"

text \<open>\<^verbatim>\<open>regs[instr.rd()] = load; reset_reg_zero()\<close>: a load decoded with \<^verbatim>\<open>rd = x0\<close> is executed as well.\<close>

definition load_to_rd :: "('d iss, u32) M \<Rightarrow> ('d iss, unit) M" where
  "load_to_rd m = bindM m (\<lambda>v. seqM (modifyM (set_rd v)) (modifyM reset_reg_zero))"

definition op_LB :: "'d iss_env \<Rightarrow> ('d iss, unit) M" where
  "op_LB E = bindM (getsM load_addr) (\<lambda>addr. load_to_rd (ls_load_byte (lscache E) (ucast addr)))"

definition op_LH :: "'d iss_env \<Rightarrow> ('d iss, unit) M" where
  "op_LH E = bindM (getsM load_addr) (\<lambda>addr. seqM (trap_check_addr_alignment 2 True addr)
     (load_to_rd (ls_load_half (lscache E) (ucast addr))))"

definition op_LW :: "'d iss_env \<Rightarrow> ('d iss, unit) M" where
  "op_LW E = bindM (getsM load_addr) (\<lambda>addr. seqM (trap_check_addr_alignment 4 True addr)
     (load_to_rd (ls_load_word (lscache E) (ucast addr))))"

definition op_LBU :: "'d iss_env \<Rightarrow> ('d iss, unit) M" where
  "op_LBU E = bindM (getsM load_addr) (\<lambda>addr. load_to_rd (ls_load_ubyte (lscache E) (ucast addr)))"

definition op_LHU :: "'d iss_env \<Rightarrow> ('d iss, unit) M" where
  "op_LHU E = bindM (getsM load_addr) (\<lambda>addr. seqM (trap_check_addr_alignment 2 True addr)
     (load_to_rd (ls_load_uhalf (lscache E) (ucast addr))))"

definition op_FENCE :: "'d iss_env \<Rightarrow> ('d iss, unit) M" where
  "op_FENCE E = ls_fence (lscache E)"

text \<open>\<^verbatim>\<open>DBBCacheDummy_T::fence_i\<close> does nothing.\<close>

definition op_FENCE_I :: "('d iss, unit) M" where
  "op_FENCE_I = ret ()"

section \<open>Environment calls\<close>

definition op_ECALL :: "'d iss_env \<Rightarrow> ('d iss, unit) M" where
  "op_ECALL E = (case sys E of
     Some execute_syscall \<Rightarrow> execute_syscall
   | None \<Rightarrow> bindM (getsM (\<lambda>s. (prv s, dbb_last_pc (dbbcache s)))) (\<lambda>(m, last_pc).
       switch_on m
         [(MachineMode, raise (SimulationTrap EXC_ECALL_M_MODE (ucast last_pc))),
          (SupervisorMode, raise (SimulationTrap EXC_ECALL_S_MODE (ucast last_pc))),
          (UserMode, raise (SimulationTrap EXC_ECALL_U_MODE (ucast last_pc)))]
         (raise RuntimeError)))"

definition op_EBREAK :: "('d iss, unit) M" where
  "op_EBREAK = bindM (getsM (\<lambda>s. (debug_mode s, dbb_last_pc (dbbcache s)))) (\<lambda>(dbg, last_pc).
     if dbg then modifyM (set_status HitBreakpoint)
     else raise (SimulationTrap EXC_BREAKPOINT (ucast last_pc)))"

section \<open>CSR instructions\<close>

text \<open>\<^verbatim>\<open>if (is_invalid_csr_access(addr, write)) RAISE_ILLEGAL_INSTRUCTION() else m\<close>\<close>

definition csr_guard :: "u32 \<Rightarrow> bool \<Rightarrow> ('d iss, unit) M \<Rightarrow> ('d iss, unit) M" where
  "csr_guard addr write m = bindM (is_invalid_csr_access addr write)
     (\<lambda>invalid. if invalid then RAISE_ILLEGAL_INSTRUCTION else m)"

definition commit_ninstr :: "('d iss, unit) M" where
  "commit_ninstr = modifyM (\<lambda>s. commit_instructions (ninstr s) s)"

text \<open>Swap: the CSR is read only when \<^verbatim>\<open>rd\<close> is not \<^verbatim>\<open>x0\<close>.\<close>

definition csr_swap :: "'d iss_env \<Rightarrow> u32 \<Rightarrow> u32 \<Rightarrow> u32 \<Rightarrow> ('d iss, unit) M" where
  "csr_swap E addr d v =
     seqM (whenM (d \<noteq> 0) (seqM commit_ninstr (bindM (get_csr_value E addr) (\<lambda>x. modifyM (set_reg d x)))))
       (set_csr_value addr v)"

text \<open>Set or clear bits: the CSR is always read, and written only when the source operand says so.\<close>

definition csr_modify :: "'d iss_env \<Rightarrow> u32 \<Rightarrow> u32 \<Rightarrow> bool \<Rightarrow> (u32 \<Rightarrow> u32) \<Rightarrow> ('d iss, unit) M" where
  "csr_modify E addr d write f =
     seqM commit_ninstr (bindM (get_csr_value E addr) (\<lambda>x.
       seqM (whenM (d \<noteq> 0) (modifyM (set_reg d x)))
         (whenM write (set_csr_value addr (f x)))))"

definition op_CSRRW :: "'d iss_env \<Rightarrow> ('d iss, unit) M" where
  "op_CSRRW E = bindM (getsM (\<lambda>s. (instr s, rs1_val s))) (\<lambda>(i, v).
     csr_guard (csr i) True (csr_swap E (csr i) (rd i) v))"

definition op_CSRRS :: "'d iss_env \<Rightarrow> ('d iss, unit) M" where
  "op_CSRRS E = bindM (getsM (\<lambda>s. (instr s, rs1_val s))) (\<lambda>(i, v).
     let write = (rs1 i \<noteq> 0) in
     csr_guard (csr i) write (csr_modify E (csr i) (rd i) write (\<lambda>x. x OR v)))"

definition op_CSRRC :: "'d iss_env \<Rightarrow> ('d iss, unit) M" where
  "op_CSRRC E = bindM (getsM (\<lambda>s. (instr s, rs1_val s))) (\<lambda>(i, v).
     let write = (rs1 i \<noteq> 0) in
     csr_guard (csr i) write (csr_modify E (csr i) (rd i) write (\<lambda>x. x AND NOT v)))"

definition op_CSRRWI :: "'d iss_env \<Rightarrow> ('d iss, unit) M" where
  "op_CSRRWI E = bindM (getsM instr) (\<lambda>i.
     csr_guard (csr i) True (csr_swap E (csr i) (rd i) (zimm i)))"

definition op_CSRRSI :: "'d iss_env \<Rightarrow> ('d iss, unit) M" where
  "op_CSRRSI E = bindM (getsM instr) (\<lambda>i.
     let write = (zimm i \<noteq> 0) in
     csr_guard (csr i) write (csr_modify E (csr i) (rd i) write (\<lambda>x. x OR zimm i)))"

definition op_CSRRCI :: "'d iss_env \<Rightarrow> ('d iss, unit) M" where
  "op_CSRRCI E = bindM (getsM instr) (\<lambda>i.
     let write = (zimm i \<noteq> 0) in
     csr_guard (csr i) write (csr_modify E (csr i) (rd i) write (\<lambda>x. x AND NOT (zimm i))))"

section \<open>M extension\<close>

definition REG_MIN :: u32 where "REG_MIN = 0x80000000"

text \<open>The upper half of a 64-bit product; the mask constant makes the shift logical.\<close>

definition upper_half :: "u64 \<Rightarrow> u32" where
  "upper_half ans = ucast (drop_bit 32 (ans AND 0xFFFFFFFF00000000))"

definition mul_val :: "u32 \<Rightarrow> u32 \<Rightarrow> u32" where
  "mul_val a b = (let ans = scast a * scast b :: u64 in ucast (ans AND 0xFFFFFFFF))"

definition mulh_val :: "u32 \<Rightarrow> u32 \<Rightarrow> u32" where
  "mulh_val a b = upper_half (scast a * scast b)"

definition mulhu_val :: "u32 \<Rightarrow> u32 \<Rightarrow> u32" where
  "mulhu_val a b = upper_half (ucast a * ucast b)"

definition mulhsu_val :: "u32 \<Rightarrow> u32 \<Rightarrow> u32" where
  "mulhsu_val a b = upper_half (scast a * ucast b)"

definition div_val :: "u32 \<Rightarrow> u32 \<Rightarrow> u32" where
  "div_val a b = (if b = 0 then -1 else if a = REG_MIN \<and> b = -1 then a
     else word_of_int (sint a sdiv sint b))"

definition divu_val :: "u32 \<Rightarrow> u32 \<Rightarrow> u32" where
  "divu_val a b = (if b = 0 then -1 else a div b)"

definition rem_val :: "u32 \<Rightarrow> u32 \<Rightarrow> u32" where
  "rem_val a b = (if b = 0 then a else if a = REG_MIN \<and> b = -1 then 0
     else word_of_int (sint a smod sint b))"

definition remu_val :: "u32 \<Rightarrow> u32 \<Rightarrow> u32" where
  "remu_val a b = (if b = 0 then a else a mod b)"

definition op_MUL :: "('d iss, unit) M" where
  "op_MUL = assign_rd (\<lambda>s. mul_val (rs1_val s) (rs2_val s))"

definition op_MULH :: "('d iss, unit) M" where
  "op_MULH = assign_rd (\<lambda>s. mulh_val (rs1_val s) (rs2_val s))"

definition op_MULHU :: "('d iss, unit) M" where
  "op_MULHU = assign_rd (\<lambda>s. mulhu_val (rs1_val s) (rs2_val s))"

definition op_MULHSU :: "('d iss, unit) M" where
  "op_MULHSU = assign_rd (\<lambda>s. mulhsu_val (rs1_val s) (rs2_val s))"

definition op_DIV :: "('d iss, unit) M" where
  "op_DIV = assign_rd (\<lambda>s. div_val (rs1_val s) (rs2_val s))"

definition op_DIVU :: "('d iss, unit) M" where
  "op_DIVU = assign_rd (\<lambda>s. divu_val (rs1_val s) (rs2_val s))"

definition op_REM :: "('d iss, unit) M" where
  "op_REM = assign_rd (\<lambda>s. rem_val (rs1_val s) (rs2_val s))"

definition op_REMU :: "('d iss, unit) M" where
  "op_REMU = assign_rd (\<lambda>s. remu_val (rs1_val s) (rs2_val s))"

section \<open>A extension\<close>

definition op_LR_W :: "'d iss_env \<Rightarrow> ('d iss, unit) M" where
  "op_LR_W E = bindM (getsM rs1_val) (\<lambda>addr. seqM (trap_check_addr_alignment 4 True addr)
     (bindM (atomic_load_reserved_word (mem E) (ucast addr)) (\<lambda>v.
      seqM (modifyM (set_rd v))
      (seqM (modifyM (\<lambda>s. if lr_sc_counter s = 0 then force_slow_path (s\<lparr>lr_sc_counter := 17\<rparr>) else s))
        (modifyM reset_reg_zero)))))"

definition op_SC_W :: "'d iss_env \<Rightarrow> ('d iss, unit) M" where
  "op_SC_W E = bindM (getsM rs1_val) (\<lambda>addr. seqM (trap_check_addr_alignment 4 False addr)
     (bindM (getsM rs2_val) (\<lambda>v.
      seqM (modifyM (set_rd 1))
      (bindM (atomic_store_conditional_word (mem E) (ucast addr) v) (\<lambda>ok.
       seqM (modifyM (set_rd (if ok then 0 else 1)))
       (seqM (modifyM (\<lambda>s. s\<lparr>lr_sc_counter := 0\<rparr>))
         (modifyM reset_reg_zero)))))))"

definition execute_amo_w :: "'d iss_env \<Rightarrow> (u32 \<Rightarrow> u32 \<Rightarrow> u32) \<Rightarrow> ('d iss, unit) M" where
  "execute_amo_w E operation = bindM (getsM rs1_val) (\<lambda>addr.
     seqM (trap_check_addr_alignment 4 False addr)
     (bindM (catch_trap (atomic_load_word (mem E) (ucast addr))
               (\<lambda>r v. raise (SimulationTrap
                  (if r = EXC_LOAD_ACCESS_FAULT then EXC_STORE_AMO_ACCESS_FAULT else r) v))) (\<lambda>data.
      bindM (getsM (\<lambda>s. operation data (rs2_val s))) (\<lambda>v.
      seqM (atomic_store_word (mem E) (ucast addr) v)
        (bindM (getsM (\<lambda>s. rd (instr s) \<noteq> 0)) (\<lambda>b. whenM b (modifyM (set_rd data))))))))"

definition op_AMOSWAP_W :: "'d iss_env \<Rightarrow> ('d iss, unit) M" where
  "op_AMOSWAP_W E = execute_amo_w E (\<lambda>a b. b)"

definition op_AMOADD_W :: "'d iss_env \<Rightarrow> ('d iss, unit) M" where
  "op_AMOADD_W E = execute_amo_w E (\<lambda>a b. a + b)"

definition op_AMOXOR_W :: "'d iss_env \<Rightarrow> ('d iss, unit) M" where
  "op_AMOXOR_W E = execute_amo_w E (\<lambda>a b. a XOR b)"

definition op_AMOAND_W :: "'d iss_env \<Rightarrow> ('d iss, unit) M" where
  "op_AMOAND_W E = execute_amo_w E (\<lambda>a b. a AND b)"

definition op_AMOOR_W :: "'d iss_env \<Rightarrow> ('d iss, unit) M" where
  "op_AMOOR_W E = execute_amo_w E (\<lambda>a b. a OR b)"

definition op_AMOMIN_W :: "'d iss_env \<Rightarrow> ('d iss, unit) M" where
  "op_AMOMIN_W E = execute_amo_w E (\<lambda>a b. if sint b < sint a then b else a)"

definition op_AMOMINU_W :: "'d iss_env \<Rightarrow> ('d iss, unit) M" where
  "op_AMOMINU_W E = execute_amo_w E (\<lambda>a b. min a b)"

definition op_AMOMAX_W :: "'d iss_env \<Rightarrow> ('d iss, unit) M" where
  "op_AMOMAX_W E = execute_amo_w E (\<lambda>a b. if sint a < sint b then b else a)"

definition op_AMOMAXU_W :: "'d iss_env \<Rightarrow> ('d iss, unit) M" where
  "op_AMOMAXU_W E = execute_amo_w E (\<lambda>a b. max a b)"

section \<open>Privileged instructions\<close>

text \<open>
  \<^verbatim>\<open>WFI\<close> suspends the SystemC process until an interrupt is pending; executing it again from this
  point is the same as resuming it, because the release of the reservation is idempotent.
\<close>

definition op_WFI :: "'d iss_env \<Rightarrow> ('d iss, unit) M" where
  "op_WFI E = seqM (release_lr_sc_reservation E)
     (bindM (getsM (\<lambda>s. s_mode s \<and> csr_fget csr_mstatus mstatus_tw s \<noteq> 0)) (\<lambda>b.
      seqM (whenM b RAISE_ILLEGAL_INSTRUCTION)
     (bindM (getsM (\<lambda>s. u_mode s \<and> has_supervisor_mode_extension (csrs s))) (\<lambda>b.
      seqM (whenM b RAISE_ILLEGAL_INSTRUCTION)
      (bindM (getsM (\<lambda>s. \<not> ignore_wfi s \<and> \<not> has_local_pending_enabled_interrupts s)) (\<lambda>wait.
       whenM wait (raise Suspended)))))))"

definition op_SFENCE_VMA :: "'d iss_env \<Rightarrow> ('d iss, unit) M" where
  "op_SFENCE_VMA E =
     bindM (getsM (\<lambda>s. s_mode s \<and> csr_fget csr_mstatus mstatus_tvm s \<noteq> 0)) (\<lambda>b.
      seqM (whenM b RAISE_ILLEGAL_INSTRUCTION) (ls_fence_vma (lscache E)))"

definition op_URET :: "('d iss, unit) M" where
  "op_URET = bindM (getsM (\<lambda>s. \<not> has_user_mode_extension (csrs s))) (\<lambda>b.
     seqM (whenM b RAISE_ILLEGAL_INSTRUCTION) (return_from_trap_handler UserMode))"

definition op_SRET :: "('d iss, unit) M" where
  "op_SRET = bindM (getsM (\<lambda>s. \<not> has_supervisor_mode_extension (csrs s) \<or>
                          s_mode s \<and> csr_fget csr_mstatus mstatus_tsr s \<noteq> 0)) (\<lambda>b.
     seqM (whenM b RAISE_ILLEGAL_INSTRUCTION) (return_from_trap_handler SupervisorMode))"

definition op_MRET :: "('d iss, unit) M" where
  "op_MRET = return_from_trap_handler MachineMode"

section \<open>Dispatch\<close>

text \<open>The \<^verbatim>\<open>OP_CASE_INVALID\<close> list: RV64 operations are illegal on RV32.\<close>

definition invalid_ops :: "OpId list" where
  "invalid_ops =
    [SD, LD, LWU, ADDIW, ADDIW_NOP, SLLIW, SLLIW_NOP, SRLIW,
     SRLIW_NOP, SRAIW, SRAIW_NOP, ADDW, ADDW_NOP, SUBW, SUBW_NOP, SLLW,
     SLLW_NOP, SRLW, SRLW_NOP, SRAW, SRAW_NOP, MULW, MULW_NOP, DIVW,
     DIVW_NOP, DIVUW, DIVUW_NOP, REMW, REMW_NOP, REMUW, REMUW_NOP, LR_D,
     SC_D, AMOSWAP_D, AMOADD_D, AMOXOR_D, AMOAND_D, AMOOR_D, AMOMIN_D, AMOMINU_D,
     AMOMAX_D, AMOMAXU_D, FCVT_L_H, FCVT_LU_H, FCVT_H_L, FCVT_H_LU, FCVT_L_S, FCVT_LU_S,
     FCVT_S_L, FCVT_S_LU, FCVT_L_D, FCVT_LU_D, FMV_X_D, FCVT_D_L, FCVT_D_LU, FMV_D_X]"

text \<open>The \<^verbatim>\<open>OP_CASE_NOP\<close> list: operations decoded with \<^verbatim>\<open>rd = x0\<close> that have no effect.\<close>

definition nop_ops :: "OpId list" where
  "nop_ops =
    [LUI_NOP, AUIPC_NOP, ADDI_NOP, SLTI_NOP, SLTIU_NOP, XORI_NOP, ORI_NOP, ANDI_NOP,
     SLLI_NOP, SRLI_NOP, SRAI_NOP, ADD_NOP, SUB_NOP, SLL_NOP, SLT_NOP, SLTU_NOP,
     XOR_NOP, SRL_NOP, SRA_NOP, OR_NOP, AND_NOP, MUL_NOP, MULH_NOP, MULHSU_NOP,
     MULHU_NOP, DIV_NOP, DIVU_NOP, REM_NOP, REMU_NOP]"

definition exec_op :: "(OpId \<Rightarrow> ('d iss, unit) M) \<Rightarrow> 'd iss_env \<Rightarrow> OpId \<Rightarrow> ('d iss, unit) M" where
  "exec_op ext_op E op =
     (if op \<in> set nop_ops then ret ()
      else if op \<in> set invalid_ops then RAISE_ILLEGAL_INSTRUCTION
      else switch_on op
       [(UNDEF, RAISE_ILLEGAL_INSTRUCTION), (UNSUP, RAISE_ILLEGAL_INSTRUCTION), (ADDI, op_ADDI),
        (SLTI, op_SLTI), (SLTIU, op_SLTIU), (XORI, op_XORI),
        (ORI, op_ORI), (ANDI, op_ANDI), (ADD, op_ADD),
        (SUB, op_SUB), (SLL, op_SLL), (SLT, op_SLT),
        (SLTU, op_SLTU), (SRL, op_SRL), (SRA, op_SRA),
        (XOR_op, op_XOR), (OR_op, op_OR), (AND_op, op_AND),
        (SLLI, op_SLLI), (SRLI, op_SRLI), (SRAI, op_SRAI),
        (LUI, op_LUI), (AUIPC, op_AUIPC), (J, op_J),
        (JAL, op_JAL), (JR, op_JR), (JALR, op_JALR),
        (BEQ, op_BEQ), (BNE, op_BNE), (BLT, op_BLT),
        (BGE, op_BGE), (BLTU, op_BLTU), (BGEU, op_BGEU),
        (SB, op_SB E), (SH, op_SH E), (SW, op_SW E),
        (LB, op_LB E), (LH, op_LH E), (LW, op_LW E),
        (LBU, op_LBU E), (LHU, op_LHU E), (FENCE, op_FENCE E),
        (FENCE_I, op_FENCE_I), (ECALL, op_ECALL E), (EBREAK, op_EBREAK),
        (CSRRW, op_CSRRW E), (CSRRS, op_CSRRS E), (CSRRC, op_CSRRC E),
        (CSRRWI, op_CSRRWI E), (CSRRSI, op_CSRRSI E), (CSRRCI, op_CSRRCI E),
        (MUL, op_MUL), (MULH, op_MULH), (MULHU, op_MULHU),
        (MULHSU, op_MULHSU), (DIV, op_DIV), (DIVU, op_DIVU),
        (REM, op_REM), (REMU, op_REMU), (LR_W, op_LR_W E),
        (SC_W, op_SC_W E), (AMOSWAP_W, op_AMOSWAP_W E), (AMOADD_W, op_AMOADD_W E),
        (AMOXOR_W, op_AMOXOR_W E), (AMOAND_W, op_AMOAND_W E), (AMOOR_W, op_AMOOR_W E),
        (AMOMIN_W, op_AMOMIN_W E), (AMOMINU_W, op_AMOMINU_W E), (AMOMAX_W, op_AMOMAX_W E),
        (AMOMAXU_W, op_AMOMAXU_W E), (WFI, op_WFI E), (SFENCE_VMA, op_SFENCE_VMA E),
        (URET, op_URET), (SRET, op_SRET), (MRET, op_MRET)]
       (ext_op op))"

section \<open>The execution loop\<close>

text \<open>
  The slow path of the global fetch, decode and dispatch. The result says whether the loop is left.
\<close>

definition lr_sc_tick :: "'d iss_env \<Rightarrow> ('d iss, unit) M" where
  "lr_sc_tick E = bindM (getsM lr_sc_counter) (\<lambda>k.
     if k \<noteq> 0
     then seqM (modifyM (\<lambda>s. s\<lparr>lr_sc_counter := k - 1\<rparr>))
          (seqM (assertM (k - 1 \<ge> 0))
           (if k - 1 = 0 then release_lr_sc_reservation E else modifyM force_slow_path))
     else bindM (getsM (need_sync E)) (\<lambda>b. whenM b (sync E)))"

definition debug_check :: "bool \<Rightarrow> ('d iss, bool) M" where
  "debug_check debug_single_step = bindM (getsM debug_mode) (\<lambda>dbg.
     if \<not> dbg then ret False
     else seqM (modifyM force_slow_path)
       (bindM (getsM (\<lambda>s. (debug_single_step_done s, pc s \<in> set (breakpoints s)))) (\<lambda>(stepped, bp).
        if debug_single_step \<and> stepped then ret True
        else if bp then seqM (modifyM (set_status HitBreakpoint)) (ret True)
        else seqM (modifyM (\<lambda>s. s\<lparr>debug_single_step_done := True\<rparr>)) (ret False))))"

definition slow_path :: "'d iss_env \<Rightarrow> bool \<Rightarrow> ('d iss, bool) M" where
  "slow_path E debug_single_step =
     seqM (modifyM (\<lambda>s. commit_all_and_reset_fast_quantum (s\<lparr>iss_slow_path := False\<rparr>)))
     (seqM (handle_interrupt E)
     (seqM (modifyM (\<lambda>s. if shall_exit s then set_status Terminated s else s))
     (bindM (getsM status) (\<lambda>st.
      if st \<noteq> Runnable then ret True
      else seqM (lr_sc_tick E) (debug_check debug_single_step)))))"

definition exec_and_count :: "(OpId \<Rightarrow> ('d iss, unit) M) \<Rightarrow> 'd iss_env \<Rightarrow> OpId \<Rightarrow> ('d iss, bool) M" where
  "exec_and_count ext_op E op = seqM (exec_op ext_op E op)
     (seqM (modifyM (\<lambda>s. s\<lparr>ninstr := ninstr s + 1\<rparr>)) (ret False))"

definition slow_fdd :: "(OpId \<Rightarrow> ('d iss, unit) M) \<Rightarrow> 'd iss_env \<Rightarrow> ('d iss, bool) M" where
  "slow_fdd ext_op E = bindM (getsM (\<lambda>s. pc s AND NOT (pc_alignment_mask s) = 0)) (\<lambda>aligned.
     seqM (assertM aligned)
     (bindM (fetch_decode E) (\<lambda>op.
      seqM (modifyM (\<lambda>s. if trace s then force_slow_path s else s)) (exec_and_count ext_op E op))))"

definition med_fdd :: "(OpId \<Rightarrow> ('d iss, unit) M) \<Rightarrow> 'd iss_env \<Rightarrow> ('d iss, bool) M" where
  "med_fdd ext_op E =
     bindM (getsM (\<lambda>s. ninstr s > fast_quantum_ins_granularity E)) (\<lambda>q.
     seqM (whenM q (seqM (modifyM commit_all_and_reset_fast_quantum)
             (bindM (getsM (need_sync E)) (\<lambda>b. whenM b (sync E)))))
       (bindM (fetch_decode E) (exec_and_count ext_op E)))"

text \<open>One pass of the \<^verbatim>\<open>do\<close> loop, with its \<^verbatim>\<open>try\<close> and \<^verbatim>\<open>catch\<close>.\<close>

definition iteration :: "(OpId \<Rightarrow> ('d iss, unit) M) \<Rightarrow> 'd iss_env \<Rightarrow> bool \<Rightarrow> ('d iss, bool) M" where
  "iteration ext_op E debug_single_step = catch_trap
     (seqM (modifyM (\<lambda>s. s\<lparr>pc := dbb_pc (dbbcache s)\<rparr>))
      (bindM (getsM iss_slow_path) (\<lambda>slow.
       if slow then bindM (slow_path E debug_single_step)
                      (\<lambda>leave. if leave then ret True else slow_fdd ext_op E)
       else med_fdd ext_op E)))
     (\<lambda>r v. bindM (getsM (\<lambda>s. dbb_last_pc (dbbcache s))) (\<lambda>last_pc.
       seqM (modifyM (\<lambda>s. s\<lparr>ninstr := ninstr s + 1\<rparr>))
       (seqM (handle_trap E r v last_pc) (ret False))))"

text \<open>The loop with a bound on the number of passes: the result is false when the bound is reached.\<close>

fun exec_loop :: "(OpId \<Rightarrow> ('d iss, unit) M) \<Rightarrow> 'd iss_env \<Rightarrow> bool \<Rightarrow> nat \<Rightarrow> ('d iss, bool) M" where
  "exec_loop ext_op E dss 0 = ret False"
| "exec_loop ext_op E dss (Suc n) = bindM (iteration ext_op E dss)
     (\<lambda>leave. if leave then ret True else exec_loop ext_op E dss n)"

definition exec_steps :: "(OpId \<Rightarrow> ('d iss, unit) M) \<Rightarrow> 'd iss_env \<Rightarrow> bool \<Rightarrow> nat \<Rightarrow> ('d iss, bool) M" where
  "exec_steps ext_op E dss n =
     bindM (getsM (\<lambda>s. regs s ! 0 = 0)) (\<lambda>z. seqM (assertM z)
     (seqM (modifyM (\<lambda>s. s\<lparr>debug_single_step_done := False, ninstr := 0, ninstr_last := 0\<rparr>))
     (bindM (getsM (\<lambda>s. pc s AND NOT (pc_alignment_mask s) = 0)) (\<lambda>aligned. seqM (assertM aligned)
     (seqM (modifyM force_slow_path)
     (bindM (exec_loop ext_op E dss n) (\<lambda>leave.
      if \<not> leave then ret False
      else seqM (modifyM (\<lambda>s. commit_all_and_reset_fast_quantum (s\<lparr>pc := dbb_pc (dbbcache s)\<rparr>)))
             (seqM (sync E) (ret True)))))))))"

text \<open>\<^verbatim>\<open>run_step\<close> and \<^verbatim>\<open>run\<close>, bounded in the same way.\<close>

definition run_step :: "(OpId \<Rightarrow> ('d iss, unit) M) \<Rightarrow> 'd iss_env \<Rightarrow> nat \<Rightarrow> ('d iss, bool) M" where
  "run_step ext_op E n = bindM (getsM debug_mode) (\<lambda>dbg.
     if \<not> dbg then raise RuntimeError else exec_steps ext_op E True n)"

definition run :: "(OpId \<Rightarrow> ('d iss, unit) M) \<Rightarrow> 'd iss_env \<Rightarrow> nat \<Rightarrow> ('d iss, bool) M" where
  "run ext_op E n = exec_steps ext_op E False n"

end
