(* ===== verification/VP_Arith.thy ===== *)
theory VP_Arith
  imports VP_ISS32
begin

text \<open>
  The multiplications and divisions of the M extension against integer arithmetic. The source computes
  them through 64-bit products and C++ division with guards for the two undefined cases.
\<close>

section \<open>Products\<close>

lemma product_of_int:
  "scast (a :: u32) * scast (b :: u32) = (word_of_int (sint a * sint b) :: u64)"
  "ucast a * ucast b = (word_of_int (uint a * uint b) :: u64)"
  "scast a * ucast b = (word_of_int (sint a * uint b) :: u64)"
  unfolding scast_eq ucast_eq wi_hom_mult by (rule refl)+

lemma high_mask: "(0xFFFFFFFF00000000 :: u64) = push_bit 32 (mask 32)"
  by (simp add: mask_eq_exp_minus_1)

lemma low_mask: "(0xFFFFFFFF :: u64) = mask 32"
  by (simp add: mask_eq_exp_minus_1)

lemma upper_half_of_int: "upper_half (word_of_int i) = word_of_int (i div 2 ^ 32)"
  unfolding drop_bit_eq_div [symmetric] upper_half_def high_mask
  by (rule bit_word_eqI) (auto simp: bit_simps ac_simps)

lemma lower_half_of_int: "ucast (word_of_int i AND 0xFFFFFFFF :: u64) = (word_of_int i :: u32)"
  unfolding low_mask by (rule bit_word_eqI) (auto simp: bit_simps)

text \<open>
  C22. \<^verbatim>\<open>MUL\<close>, \<^verbatim>\<open>MULH\<close>, \<^verbatim>\<open>MULHU\<close> and \<^verbatim>\<open>MULHSU\<close> return the lower half, and the upper half of the signed,
  the unsigned and the mixed product of the mathematical integers.\<close>

theorem multiplication_spec:
  "mul_val a b = word_of_int (sint a * sint b) \<and>
   mulh_val a b = word_of_int (sint a * sint b div 2 ^ 32) \<and>
   mulhu_val a b = word_of_int (uint a * uint b div 2 ^ 32) \<and>
   mulhsu_val a b = word_of_int (sint a * uint b div 2 ^ 32)"
  unfolding mul_val_def mulh_val_def mulhu_val_def mulhsu_val_def Let_def
    product_of_int upper_half_of_int lower_half_of_int
  by (intro conjI) (rule refl)+

section \<open>Quotients\<close>

lemma sint_bounds:
  fixes a :: "'a::len word"
  shows "- (2 ^ (LENGTH('a) - 1)) \<le> sint a" "sint a < 2 ^ (LENGTH('a) - 1)"
  using sint_range_size [of a] by (simp_all add: word_size)

lemma sint_of_small:
  "- (2 ^ (LENGTH('a) - 1)) \<le> i \<Longrightarrow> i < 2 ^ (LENGTH('a) - 1) \<Longrightarrow> sint (word_of_int i :: 'a::len word) = i"
  by (simp add: sint_sbintrunc' signed_take_bit_int_eq_self)

lemma sint_inject: "sint a = sint b \<longleftrightarrow> a = b" for a b :: "'a::len word"
  using signed_word_eqI [of a b] by auto

lemma sint_nonzero: "sint b = 0 \<longleftrightarrow> b = 0" for b :: "'a::len word"
  using sint_inject [of b 0] by simp

text \<open>The one quotient that is no word is that of the smallest number by -1.\<close>

lemma quotient_fits:
  fixes a b :: "'a::len word"
  assumes "b \<noteq> 0" "\<not> (sint a = - (2 ^ (LENGTH('a) - 1)) \<and> sint b = -1)"
  shows "- (2 ^ (LENGTH('a) - 1)) \<le> sint a sdiv sint b" "sint a sdiv sint b < 2 ^ (LENGTH('a) - 1)"
proof -
  have range: "- \<bar>sint a\<bar> \<le> sint a sdiv sint b" "sint a sdiv sint b \<le> \<bar>sint a\<bar>"
    using sdiv_int_range [of "sint a" "sint b"] by auto
  then show "- (2 ^ (LENGTH('a) - 1)) \<le> sint a sdiv sint b"
    using sint_bounds [of a] by linarith
  show "sint a sdiv sint b < 2 ^ (LENGTH('a) - 1)"
  proof (cases "sint a = - (2 ^ (LENGTH('a) - 1))")
    case False
    then show ?thesis using range sint_bounds [of a] by linarith
  next
    case True
    have "sint b \<noteq> 0" "sint b \<noteq> -1"
      using assms True sint_nonzero [of b] by auto
    then consider "sint b > 0" | "\<bar>sint b\<bar> \<ge> 2" "sint b < 0" by linarith
    then show ?thesis
    proof cases
      case 1
      then have "0 \<le> (2 ^ (LENGTH('a) - 1) :: int) div sint b" by (simp add: pos_imp_zdiv_nonneg_iff)
      then have "- ((2 ^ (LENGTH('a) - 1) :: int) div sint b) < 2 ^ (LENGTH('a) - 1)"
        using zero_less_power [of "2 :: int" "LENGTH('a) - 1"] by linarith
      then show ?thesis using 1 True by (simp add: signed_divide_int_def)
    next
      case 2
      then have "(2 ^ (LENGTH('a) - 1) :: int) div \<bar>sint b\<bar> < 2 ^ (LENGTH('a) - 1)"
        by (intro int_div_less_self) simp_all
      then show ?thesis using 2 True by (simp add: signed_divide_int_def)
    qed
  qed
qed

lemma remainder_fits:
  fixes a b :: "'a::len word"
  assumes "b \<noteq> 0"
  shows "- (2 ^ (LENGTH('a) - 1)) \<le> sint a smod sint b" "sint a smod sint b < 2 ^ (LENGTH('a) - 1)"
proof -
  have "sint a smod sint b \<in> {- \<bar>sint b\<bar> + 1..\<bar>sint b\<bar> - 1}"
    using assms by (intro smod_int_range) (simp add: sint_nonzero)
  then show "- (2 ^ (LENGTH('a) - 1)) \<le> sint a smod sint b" "sint a smod sint b < 2 ^ (LENGTH('a) - 1)"
    using sint_bounds [of b] by auto
qed

text \<open>What the guarded C++ division computes is exact on the integers, at any width.\<close>

lemma signed_division_exact:
  fixes a b q r :: "'a::len word"
  assumes b: "b \<noteq> 0" and ov: "\<not> (sint a = - (2 ^ (LENGTH('a) - 1)) \<and> sint b = -1)"
    and q: "q = word_of_int (sint a sdiv sint b)" and r: "r = word_of_int (sint a smod sint b)"
  shows "sint a = sint q * sint b + sint r \<and> \<bar>sint r\<bar> < \<bar>sint b\<bar> \<and> (r = 0 \<or> sgn (sint r) = sgn (sint a))"
proof -
  have qr: "sint q = sint a sdiv sint b" "sint r = sint a smod sint b"
    unfolding q r using quotient_fits [OF b ov] remainder_fits [OF b] by (simp_all only: sint_of_small)
  have "\<bar>sint a smod sint b\<bar> < \<bar>sint b\<bar>"
    using smod_int_range [of "sint b" "sint a"] b by (auto simp: sint_nonzero)
  moreover have "sint a smod sint b = 0 \<or> sgn (sint a smod sint b) = sgn (sint a)"
  proof -
    have "\<bar>sint a\<bar> mod \<bar>sint b\<bar> \<ge> 0" using b by (simp add: sint_nonzero)
    then show ?thesis by (auto simp: signed_modulo_int_def sgn_mult sgn_if)
  qed
  moreover have "r = 0 \<longleftrightarrow> sint r = 0"
    by (simp add: sint_nonzero)
  ultimately show ?thesis
    using sdiv_mult_smod_eq [of "sint a" "sint b"] by (simp add: qr)
qed

lemma REG_MIN_sint: "sint a = - 2147483648 \<longleftrightarrow> a = REG_MIN" for a :: u32
  using sint_inject [of a REG_MIN] by (simp add: REG_MIN_def)

lemma sint_minus_1: "sint b = -1 \<longleftrightarrow> b = -1" for b :: "'a::len word"
  using sint_inject [of b "-1"] by simp

text \<open>
  C23. \<^verbatim>\<open>DIV\<close> and \<^verbatim>\<open>REM\<close>: division by zero gives -1 and the dividend, the overflowing division gives the
  dividend and 0, and every other division is exact on the integers: quotient times divisor plus
  remainder is the dividend, the remainder is smaller than the divisor and has the sign of the dividend.\<close>

theorem signed_division_spec:
  "(b = 0 \<longrightarrow> div_val a b = -1 \<and> rem_val a b = a) \<and>
   (a = REG_MIN \<and> b = -1 \<longrightarrow> div_val a b = REG_MIN \<and> rem_val a b = 0) \<and>
   (b \<noteq> 0 \<and> \<not> (a = REG_MIN \<and> b = -1) \<longrightarrow>
      sint a = sint (div_val a b) * sint b + sint (rem_val a b) \<and>
      \<bar>sint (rem_val a b)\<bar> < \<bar>sint b\<bar> \<and>
      (rem_val a b = 0 \<or> sgn (sint (rem_val a b)) = sgn (sint a)))"
proof -
  have "sint a = sint (div_val a b) * sint b + sint (rem_val a b) \<and> \<bar>sint (rem_val a b)\<bar> < \<bar>sint b\<bar> \<and>
      (rem_val a b = 0 \<or> sgn (sint (rem_val a b)) = sgn (sint a))" if "b \<noteq> 0" "\<not> (a = REG_MIN \<and> b = -1)"
    using that by (intro signed_division_exact) (auto simp: div_val_def rem_val_def REG_MIN_sint sint_minus_1)
  then show ?thesis by (auto simp: div_val_def rem_val_def REG_MIN_def)
qed

theorem signed_division_spec_witness:
  "sint (-7 :: u32) = sint (div_val (-7) 2) * sint (2 :: u32) + sint (rem_val (-7) 2) \<and>
   \<bar>sint (rem_val (-7) 2)\<bar> < 2"
  using signed_division_spec [of 2 "-7"] by (simp add: REG_MIN_def)

text \<open>
  \<^verbatim>\<open>DIVU\<close> and \<^verbatim>\<open>REMU\<close>: division by zero gives the largest value and the dividend, every other division
  is exact on the natural numbers.\<close>

theorem unsigned_division_spec:
  "(b = 0 \<longrightarrow> divu_val a b = -1 \<and> remu_val a b = a) \<and>
   (b \<noteq> 0 \<longrightarrow> unat a = unat (divu_val a b) * unat b + unat (remu_val a b) \<and> remu_val a b < b)"
  by (auto simp: divu_val_def remu_val_def unat_div_distrib unat_mod_distrib word_mod_less_divisor word_gt_0)

theorem unsigned_division_spec_witness:
  "unat (7 :: u32) = unat (divu_val 7 2) * unat (2 :: u32) + unat (remu_val 7 2) \<and> remu_val 7 2 < 2"
  using unsigned_division_spec [of 2 7] by simp

end
