(* ===== verification/VP_Encodings.thy ===== *)
theory VP_Encodings
  imports VP_Opcodes
begin

text \<open>
  The specification of the decoder: the instruction encodings the virtual prototype supports, as a
  flat table. A row is the operation, the operation when \<^verbatim>\<open>rd\<close> is \<^verbatim>\<open>x0\<close>, the extension that must
  be enabled, and the \<^verbatim>\<open>*_MASK\<close> and \<^verbatim>\<open>*_ENCODING\<close> constants of \<^verbatim>\<open>instr.cpp\<close>: a word is such
  an instruction when it agrees with the encoding on the mask. On RV32 the shift amount of an
  immediate shift has one bit less.
\<close>

type_synonym encoding = "OpId \<times> OpId \<times> u64 \<times> u32 \<times> u32"

text \<open>A base instruction needs no extension bit.\<close>

abbreviation (input) no_ext :: u64 where "no_ext \<equiv> 0"

definition rows_OP_LUI :: "encoding list" where
  "rows_OP_LUI =
    [(LUI, LUI_NOP, no_ext, 0x7F, 0x37)]"

definition rows_OP_AUIPC :: "encoding list" where
  "rows_OP_AUIPC =
    [(AUIPC, AUIPC_NOP, no_ext, 0x7F, 0x17)]"

definition rows_OP_JAL :: "encoding list" where
  "rows_OP_JAL =
    [(JAL, J, no_ext, 0x7F, 0x6F)]"

definition rows_OP_JALR :: "encoding list" where
  "rows_OP_JALR =
    [(JALR, JR, no_ext, 0x707F, 0x67)]"

definition rows_OP_BEQ :: "encoding list" where
  "rows_OP_BEQ =
    [(BEQ, BEQ, no_ext, 0x707F, 0x63),
     (BNE, BNE, no_ext, 0x707F, 0x1063),
     (BLT, BLT, no_ext, 0x707F, 0x4063),
     (BGE, BGE, no_ext, 0x707F, 0x5063),
     (BLTU, BLTU, no_ext, 0x707F, 0x6063),
     (BGEU, BGEU, no_ext, 0x707F, 0x7063)]"

definition rows_OP_LB :: "encoding list" where
  "rows_OP_LB =
    [(LB, LB, no_ext, 0x707F, 0x3),
     (LH, LH, no_ext, 0x707F, 0x1003),
     (LW, LW, no_ext, 0x707F, 0x2003),
     (LBU, LBU, no_ext, 0x707F, 0x4003),
     (LHU, LHU, no_ext, 0x707F, 0x5003),
     (LWU, LWU, no_ext, 0x707F, 0x6003),
     (LD, LD, no_ext, 0x707F, 0x3003)]"

definition rows_OP_SB :: "encoding list" where
  "rows_OP_SB =
    [(SB, SB, no_ext, 0x707F, 0x23),
     (SH, SH, no_ext, 0x707F, 0x1023),
     (SW, SW, no_ext, 0x707F, 0x2023),
     (SD, SD, no_ext, 0x707F, 0x3023)]"

definition rows_OP_ADDI_common :: "encoding list" where
  "rows_OP_ADDI_common =
    [(ADDI, ADDI_NOP, no_ext, 0x707F, 0x13),
     (SLTI, SLTI_NOP, no_ext, 0x707F, 0x2013),
     (SLTIU, SLTIU_NOP, no_ext, 0x707F, 0x3013),
     (XORI, XORI_NOP, no_ext, 0x707F, 0x4013),
     (ORI, ORI_NOP, no_ext, 0x707F, 0x6013),
     (ANDI, ANDI_NOP, no_ext, 0x707F, 0x7013)]"

definition rows_OP_ADDI_RV32 :: "encoding list" where
  "rows_OP_ADDI_RV32 =
    [(SLLI, SLLI_NOP, no_ext, 0xFE00707F, 0x1013),
     (SRLI, SRLI_NOP, no_ext, 0xFE00707F, 0x5013),
     (SRAI, SRAI_NOP, no_ext, 0xFE00707F, 0x40005013)]"

definition rows_OP_ADDI_RV64 :: "encoding list" where
  "rows_OP_ADDI_RV64 =
    [(SLLI, SLLI_NOP, no_ext, 0xFC00707F, 0x1013),
     (SRLI, SRLI_NOP, no_ext, 0xFC00707F, 0x5013),
     (SRAI, SRAI_NOP, no_ext, 0xFC00707F, 0x40005013)]"

definition rows_OP_ADDIW :: "encoding list" where
  "rows_OP_ADDIW =
    [(ADDIW, ADDIW_NOP, no_ext, 0x707F, 0x1B),
     (SLLIW, SLLIW_NOP, no_ext, 0xFE00707F, 0x101B),
     (SRLIW, SRLIW_NOP, no_ext, 0xFE00707F, 0x501B),
     (SRAIW, SRAIW_NOP, no_ext, 0xFE00707F, 0x4000501B)]"

definition rows_OP_ADD :: "encoding list" where
  "rows_OP_ADD =
    [(ADD, ADD_NOP, no_ext, 0xFE00707F, 0x33),
     (SLL, SLL_NOP, no_ext, 0xFE00707F, 0x1033),
     (SLT, SLT_NOP, no_ext, 0xFE00707F, 0x2033),
     (SLTU, SLTU_NOP, no_ext, 0xFE00707F, 0x3033),
     (XOR_op, XOR_NOP, no_ext, 0xFE00707F, 0x4033),
     (SRL, SRL_NOP, no_ext, 0xFE00707F, 0x5033),
     (OR_op, OR_NOP, no_ext, 0xFE00707F, 0x6033),
     (AND_op, AND_NOP, no_ext, 0xFE00707F, 0x7033),
     (SUB, SUB_NOP, no_ext, 0xFE00707F, 0x40000033),
     (SRA, SRA_NOP, no_ext, 0xFE00707F, 0x40005033),
     (MUL, MUL_NOP, misa_M, 0xFE00707F, 0x2000033),
     (MULH, MULH_NOP, misa_M, 0xFE00707F, 0x2001033),
     (MULHSU, MULHSU_NOP, misa_M, 0xFE00707F, 0x2002033),
     (MULHU, MULHU_NOP, misa_M, 0xFE00707F, 0x2003033),
     (DIV, DIV_NOP, misa_M, 0xFE00707F, 0x2004033),
     (DIVU, DIVU_NOP, misa_M, 0xFE00707F, 0x2005033),
     (REM, REM_NOP, misa_M, 0xFE00707F, 0x2006033),
     (REMU, REMU_NOP, misa_M, 0xFE00707F, 0x2007033)]"

definition rows_OP_ADDW :: "encoding list" where
  "rows_OP_ADDW =
    [(ADDW, ADDW_NOP, no_ext, 0xFE00707F, 0x3B),
     (SLLW, SLLW_NOP, no_ext, 0xFE00707F, 0x103B),
     (SRLW, SRLW_NOP, no_ext, 0xFE00707F, 0x503B),
     (SUBW, SUBW_NOP, no_ext, 0xFE00707F, 0x4000003B),
     (SRAW, SRAW_NOP, no_ext, 0xFE00707F, 0x4000503B),
     (MULW, MULW_NOP, misa_M, 0xFE00707F, 0x200003B),
     (DIVW, DIVW_NOP, misa_M, 0xFE00707F, 0x200403B),
     (DIVUW, DIVUW_NOP, misa_M, 0xFE00707F, 0x200503B),
     (REMW, REMW_NOP, misa_M, 0xFE00707F, 0x200603B),
     (REMUW, REMUW_NOP, misa_M, 0xFE00707F, 0x200703B)]"

definition rows_OP_FENCE :: "encoding list" where
  "rows_OP_FENCE =
    [(FENCE, FENCE, no_ext, 0x707F, 0xF),
     (FENCE_I, FENCE_I, no_ext, 0x707F, 0x100F)]"

definition rows_OP_ECALL :: "encoding list" where
  "rows_OP_ECALL =
    [(ECALL, ECALL, no_ext, 0xFFFFFFFF, 0x73),
     (EBREAK, EBREAK, no_ext, 0xFFFFFFFF, 0x100073),
     (URET, URET, no_ext, 0xFFFFFFFF, 0x200073),
     (SRET, SRET, no_ext, 0xFFFFFFFF, 0x10200073),
     (MRET, MRET, no_ext, 0xFFFFFFFF, 0x30200073),
     (WFI, WFI, no_ext, 0xFFFFFFFF, 0x10500073),
     (SFENCE_VMA, SFENCE_VMA, no_ext, 0xFE007FFF, 0x12000073),
     (CSRRW, CSRRW, no_ext, 0x707F, 0x1073),
     (CSRRS, CSRRS, no_ext, 0x707F, 0x2073),
     (CSRRC, CSRRC, no_ext, 0x707F, 0x3073),
     (CSRRWI, CSRRWI, no_ext, 0x707F, 0x5073),
     (CSRRSI, CSRRSI, no_ext, 0x707F, 0x6073),
     (CSRRCI, CSRRCI, no_ext, 0x707F, 0x7073)]"

definition rows_OP_AMO :: "encoding list" where
  "rows_OP_AMO =
    [(LR_D, LR_D, misa_A, 0xF9F0707F, 0x1000302F),
     (LR_W, LR_W, misa_A, 0xF9F0707F, 0x1000202F),
     (SC_D, SC_D, misa_A, 0xF800707F, 0x1800302F),
     (SC_W, SC_W, misa_A, 0xF800707F, 0x1800202F),
     (AMOSWAP_D, AMOSWAP_D, misa_A, 0xF800707F, 0x800302F),
     (AMOSWAP_W, AMOSWAP_W, misa_A, 0xF800707F, 0x800202F),
     (AMOADD_D, AMOADD_D, misa_A, 0xF800707F, 0x302F),
     (AMOADD_W, AMOADD_W, misa_A, 0xF800707F, 0x202F),
     (AMOXOR_D, AMOXOR_D, misa_A, 0xF800707F, 0x2000302F),
     (AMOXOR_W, AMOXOR_W, misa_A, 0xF800707F, 0x2000202F),
     (AMOAND_D, AMOAND_D, misa_A, 0xF800707F, 0x6000302F),
     (AMOAND_W, AMOAND_W, misa_A, 0xF800707F, 0x6000202F),
     (AMOOR_D, AMOOR_D, misa_A, 0xF800707F, 0x4000302F),
     (AMOOR_W, AMOOR_W, misa_A, 0xF800707F, 0x4000202F),
     (AMOMIN_D, AMOMIN_D, misa_A, 0xF800707F, 0x8000302F),
     (AMOMIN_W, AMOMIN_W, misa_A, 0xF800707F, 0x8000202F),
     (AMOMAX_D, AMOMAX_D, misa_A, 0xF800707F, 0xA000302F),
     (AMOMAX_W, AMOMAX_W, misa_A, 0xF800707F, 0xA000202F),
     (AMOMINU_D, AMOMINU_D, misa_A, 0xF800707F, 0xC000302F),
     (AMOMINU_W, AMOMINU_W, misa_A, 0xF800707F, 0xC000202F),
     (AMOMAXU_D, AMOMAXU_D, misa_A, 0xF800707F, 0xE000302F),
     (AMOMAXU_W, AMOMAXU_W, misa_A, 0xF800707F, 0xE000202F)]"

definition rows_OP_FMADD_S :: "encoding list" where
  "rows_OP_FMADD_S =
    [(FMADD_H, FMADD_H, Zfh, 0x600007F, 0x4000043),
     (FMADD_S, FMADD_S, misa_F, 0x600007F, 0x43),
     (FMADD_D, FMADD_D, misa_D, 0x600007F, 0x2000043)]"

definition rows_OP_FADD_S :: "encoding list" where
  "rows_OP_FADD_S =
    [(FADD_H, FADD_H, Zfh, 0xFE00007F, 0x4000053),
     (FADD_S, FADD_S, misa_F, 0xFE00007F, 0x53),
     (FADD_D, FADD_D, misa_D, 0xFE00007F, 0x2000053),
     (FSUB_H, FSUB_H, Zfh, 0xFE00007F, 0xC000053),
     (FSUB_S, FSUB_S, misa_F, 0xFE00007F, 0x8000053),
     (FSUB_D, FSUB_D, misa_D, 0xFE00007F, 0xA000053),
     (FCVT_D_S, FCVT_D_S, misa_D, 0xFFF0007F, 0x42000053),
     (FCVT_D_H, FCVT_D_H, Zfh, 0xFFF0007F, 0x42200053),
     (FMUL_H, FMUL_H, Zfh, 0xFE00007F, 0x14000053),
     (FMUL_S, FMUL_S, misa_F, 0xFE00007F, 0x10000053),
     (FMUL_D, FMUL_D, misa_D, 0xFE00007F, 0x12000053),
     (FDIV_H, FDIV_H, Zfh, 0xFE00007F, 0x1C000053),
     (FDIV_S, FDIV_S, misa_F, 0xFE00007F, 0x18000053),
     (FDIV_D, FDIV_D, misa_D, 0xFE00007F, 0x1A000053),
     (FLE_H, FLE_H, Zfh, 0xFE00707F, 0xA4000053),
     (FLT_H, FLT_H, Zfh, 0xFE00707F, 0xA4001053),
     (FEQ_H, FEQ_H, Zfh, 0xFE00707F, 0xA4002053),
     (FLE_S, FLE_S, misa_F, 0xFE00707F, 0xA0000053),
     (FLT_S, FLT_S, misa_F, 0xFE00707F, 0xA0001053),
     (FEQ_S, FEQ_S, misa_F, 0xFE00707F, 0xA0002053),
     (FSGNJ_D, FSGNJ_D, misa_D, 0xFE00707F, 0x22000053),
     (FSGNJN_D, FSGNJN_D, misa_D, 0xFE00707F, 0x22001053),
     (FSGNJX_D, FSGNJX_D, misa_D, 0xFE00707F, 0x22002053),
     (FMIN_H, FMIN_H, Zfh, 0xFE00707F, 0x2C000053),
     (FMAX_H, FMAX_H, Zfh, 0xFE00707F, 0x2C001053),
     (FMIN_S, FMIN_S, misa_F, 0xFE00707F, 0x28000053),
     (FMAX_S, FMAX_S, misa_F, 0xFE00707F, 0x28001053),
     (FMIN_D, FMIN_D, misa_D, 0xFE00707F, 0x2A000053),
     (FMAX_D, FMAX_D, misa_D, 0xFE00707F, 0x2A001053),
     (FCVT_S_D, FCVT_S_D, misa_D, 0xFFF0007F, 0x40100053),
     (FCVT_S_H, FCVT_S_H, Zfh, 0xFFF0007F, 0x40200053),
     (FCVT_H_S, FCVT_H_S, Zfh, 0xFFF0007F, 0x44000053),
     (FCVT_H_D, FCVT_H_D, Zfh, 0xFFF0007F, 0x44100053),
     (FSGNJ_H, FSGNJ_H, Zfh, 0xFE00707F, 0x24000053),
     (FSGNJN_H, FSGNJN_H, Zfh, 0xFE00707F, 0x24001053),
     (FSGNJX_H, FSGNJX_H, Zfh, 0xFE00707F, 0x24002053),
     (FSGNJ_S, FSGNJ_S, misa_F, 0xFE00707F, 0x20000053),
     (FSGNJN_S, FSGNJN_S, misa_F, 0xFE00707F, 0x20001053),
     (FSGNJX_S, FSGNJX_S, misa_F, 0xFE00707F, 0x20002053),
     (FLE_D, FLE_D, misa_D, 0xFE00707F, 0xA2000053),
     (FLT_D, FLT_D, misa_D, 0xFE00707F, 0xA2001053),
     (FEQ_D, FEQ_D, misa_D, 0xFE00707F, 0xA2002053),
     (FCVT_H_W, FCVT_H_W, Zfh, 0xFFF0007F, 0xD4000053),
     (FCVT_H_WU, FCVT_H_WU, Zfh, 0xFFF0007F, 0xD4100053),
     (FCVT_H_L, FCVT_H_L, Zfh, 0xFFF0007F, 0xD4200053),
     (FCVT_H_LU, FCVT_H_LU, Zfh, 0xFFF0007F, 0xD4300053),
     (FCVT_S_W, FCVT_S_W, misa_F, 0xFFF0007F, 0xD0000053),
     (FCVT_S_WU, FCVT_S_WU, misa_F, 0xFFF0007F, 0xD0100053),
     (FCVT_S_L, FCVT_S_L, misa_F, 0xFFF0007F, 0xD0200053),
     (FCVT_S_LU, FCVT_S_LU, misa_F, 0xFFF0007F, 0xD0300053),
     (FCVT_D_W, FCVT_D_W, misa_D, 0xFFF0007F, 0xD2000053),
     (FCVT_D_WU, FCVT_D_WU, misa_D, 0xFFF0007F, 0xD2100053),
     (FCVT_D_L, FCVT_D_L, misa_D, 0xFFF0007F, 0xD2200053),
     (FCVT_D_LU, FCVT_D_LU, misa_D, 0xFFF0007F, 0xD2300053),
     (FCVT_W_D, FCVT_W_D, misa_D, 0xFFF0007F, 0xC2000053),
     (FCVT_WU_D, FCVT_WU_D, misa_D, 0xFFF0007F, 0xC2100053),
     (FCVT_L_D, FCVT_L_D, misa_D, 0xFFF0007F, 0xC2200053),
     (FCVT_LU_D, FCVT_LU_D, misa_D, 0xFFF0007F, 0xC2300053),
     (FSQRT_H, FSQRT_H, Zfh, 0xFFF0007F, 0x5C000053),
     (FSQRT_S, FSQRT_S, misa_F, 0xFFF0007F, 0x58000053),
     (FSQRT_D, FSQRT_D, misa_D, 0xFFF0007F, 0x5A000053),
     (FCVT_W_H, FCVT_W_H, Zfh, 0xFFF0007F, 0xC4000053),
     (FCVT_WU_H, FCVT_WU_H, Zfh, 0xFFF0007F, 0xC4100053),
     (FCVT_L_H, FCVT_L_H, Zfh, 0xFFF0007F, 0xC4200053),
     (FCVT_LU_H, FCVT_LU_H, Zfh, 0xFFF0007F, 0xC4300053),
     (FCVT_W_S, FCVT_W_S, misa_F, 0xFFF0007F, 0xC0000053),
     (FCVT_WU_S, FCVT_WU_S, misa_F, 0xFFF0007F, 0xC0100053),
     (FCVT_L_S, FCVT_L_S, misa_F, 0xFFF0007F, 0xC0200053),
     (FCVT_LU_S, FCVT_LU_S, misa_F, 0xFFF0007F, 0xC0300053),
     (FMV_X_H, FMV_X_H, Zfh, 0xFFF0707F, 0xE4000053),
     (FCLASS_H, FCLASS_H, Zfh, 0xFFF0707F, 0xE4001053),
     (FMV_X_W, FMV_X_W, misa_F, 0xFFF0707F, 0xE0000053),
     (FCLASS_S, FCLASS_S, misa_F, 0xFFF0707F, 0xE0001053),
     (FMV_X_D, FMV_X_D, misa_D, 0xFFF0707F, 0xE2000053),
     (FCLASS_D, FCLASS_D, misa_D, 0xFFF0707F, 0xE2001053),
     (FMV_H_X, FMV_H_X, Zfh, 0xFFF0707F, 0xF4000053),
     (FMV_W_X, FMV_W_X, misa_F, 0xFFF0707F, 0xF0000053),
     (FMV_D_X, FMV_D_X, misa_D, 0xFFF0707F, 0xF2000053)]"

definition rows_OP_FLW_funct3_0_mew_0_mop_0 :: "encoding list" where
  "rows_OP_FLW_funct3_0_mew_0_mop_0 =
    [(VLM_V, VLM_V, misa_V, 0xFDF0707F, 0xB00007),
     (VLE8_V, VLE8_V, misa_V, 0xFDF0707F, 0x7),
     (VLSEG2E8_V, VLSEG2E8_V, misa_V, 0xFDF0707F, 0x20000007),
     (VLSEG3E8_V, VLSEG3E8_V, misa_V, 0xFDF0707F, 0x40000007),
     (VLSEG4E8_V, VLSEG4E8_V, misa_V, 0xFDF0707F, 0x60000007),
     (VLSEG5E8_V, VLSEG5E8_V, misa_V, 0xFDF0707F, 0x80000007),
     (VLSEG6E8_V, VLSEG6E8_V, misa_V, 0xFDF0707F, 0xA0000007),
     (VLSEG7E8_V, VLSEG7E8_V, misa_V, 0xFDF0707F, 0xC0000007),
     (VLSEG8E8_V, VLSEG8E8_V, misa_V, 0xFDF0707F, 0xE0000007),
     (VLE8FF_V, VLE8FF_V, misa_V, 0xFDF0707F, 0x1000007),
     (VLSEG2E8FF_V, VLSEG2E8FF_V, misa_V, 0xFDF0707F, 0x21000007),
     (VLSEG3E8FF_V, VLSEG3E8FF_V, misa_V, 0xFDF0707F, 0x41000007),
     (VLSEG4E8FF_V, VLSEG4E8FF_V, misa_V, 0xFDF0707F, 0x61000007),
     (VLSEG5E8FF_V, VLSEG5E8FF_V, misa_V, 0xFDF0707F, 0x81000007),
     (VLSEG6E8FF_V, VLSEG6E8FF_V, misa_V, 0xFDF0707F, 0xA1000007),
     (VLSEG7E8FF_V, VLSEG7E8FF_V, misa_V, 0xFDF0707F, 0xC1000007),
     (VLSEG8E8FF_V, VLSEG8E8FF_V, misa_V, 0xFDF0707F, 0xE1000007),
     (VL1RE8_V, VL1RE8_V, misa_V, 0xFDF0707F, 0x800007),
     (VL2RE8_V, VL2RE8_V, misa_V, 0xFDF0707F, 0x20800007),
     (VL4RE8_V, VL4RE8_V, misa_V, 0xFDF0707F, 0x60800007),
     (VL8RE8_V, VL8RE8_V, misa_V, 0xFDF0707F, 0xE0800007)]"

definition rows_OP_FLW_funct3_0_mew_0 :: "encoding list" where
  "rows_OP_FLW_funct3_0_mew_0 =
    [(VLSE8_V, VLSE8_V, misa_V, 0xFC00707F, 0x8000007),
     (VLSSEG2E8_V, VLSSEG2E8_V, misa_V, 0xFC00707F, 0x28000007),
     (VLSSEG3E8_V, VLSSEG3E8_V, misa_V, 0xFC00707F, 0x48000007),
     (VLSSEG4E8_V, VLSSEG4E8_V, misa_V, 0xFC00707F, 0x68000007),
     (VLSSEG5E8_V, VLSSEG5E8_V, misa_V, 0xFC00707F, 0x88000007),
     (VLSSEG6E8_V, VLSSEG6E8_V, misa_V, 0xFC00707F, 0xA8000007),
     (VLSSEG7E8_V, VLSSEG7E8_V, misa_V, 0xFC00707F, 0xC8000007),
     (VLSSEG8E8_V, VLSSEG8E8_V, misa_V, 0xFC00707F, 0xE8000007),
     (VLUXEI8_V, VLUXEI8_V, misa_V, 0xFC00707F, 0x4000007),
     (VLUXSEG2EI8_V, VLUXSEG2EI8_V, misa_V, 0xFC00707F, 0x24000007),
     (VLUXSEG3EI8_V, VLUXSEG3EI8_V, misa_V, 0xFC00707F, 0x44000007),
     (VLUXSEG4EI8_V, VLUXSEG4EI8_V, misa_V, 0xFC00707F, 0x64000007),
     (VLUXSEG5EI8_V, VLUXSEG5EI8_V, misa_V, 0xFC00707F, 0x84000007),
     (VLUXSEG6EI8_V, VLUXSEG6EI8_V, misa_V, 0xFC00707F, 0xA4000007),
     (VLUXSEG7EI8_V, VLUXSEG7EI8_V, misa_V, 0xFC00707F, 0xC4000007),
     (VLUXSEG8EI8_V, VLUXSEG8EI8_V, misa_V, 0xFC00707F, 0xE4000007),
     (VLOXEI8_V, VLOXEI8_V, misa_V, 0xFC00707F, 0xC000007),
     (VLOXSEG2EI8_V, VLOXSEG2EI8_V, misa_V, 0xFC00707F, 0x2C000007),
     (VLOXSEG3EI8_V, VLOXSEG3EI8_V, misa_V, 0xFC00707F, 0x4C000007),
     (VLOXSEG4EI8_V, VLOXSEG4EI8_V, misa_V, 0xFC00707F, 0x6C000007),
     (VLOXSEG5EI8_V, VLOXSEG5EI8_V, misa_V, 0xFC00707F, 0x8C000007),
     (VLOXSEG6EI8_V, VLOXSEG6EI8_V, misa_V, 0xFC00707F, 0xAC000007),
     (VLOXSEG7EI8_V, VLOXSEG7EI8_V, misa_V, 0xFC00707F, 0xCC000007),
     (VLOXSEG8EI8_V, VLOXSEG8EI8_V, misa_V, 0xFC00707F, 0xEC000007)]"

definition rows_OP_FLW_funct3_5_mew_0_mop_0 :: "encoding list" where
  "rows_OP_FLW_funct3_5_mew_0_mop_0 =
    [(VLE16_V, VLE16_V, misa_V, 0xFDF0707F, 0x5007),
     (VLSEG2E16_V, VLSEG2E16_V, misa_V, 0xFDF0707F, 0x20005007),
     (VLSEG3E16_V, VLSEG3E16_V, misa_V, 0xFDF0707F, 0x40005007),
     (VLSEG4E16_V, VLSEG4E16_V, misa_V, 0xFDF0707F, 0x60005007),
     (VLSEG5E16_V, VLSEG5E16_V, misa_V, 0xFDF0707F, 0x80005007),
     (VLSEG6E16_V, VLSEG6E16_V, misa_V, 0xFDF0707F, 0xA0005007),
     (VLSEG7E16_V, VLSEG7E16_V, misa_V, 0xFDF0707F, 0xC0005007),
     (VLSEG8E16_V, VLSEG8E16_V, misa_V, 0xFDF0707F, 0xE0005007),
     (VLE16FF_V, VLE16FF_V, misa_V, 0xFDF0707F, 0x1005007),
     (VLSEG2E16FF_V, VLSEG2E16FF_V, misa_V, 0xFDF0707F, 0x21005007),
     (VLSEG3E16FF_V, VLSEG3E16FF_V, misa_V, 0xFDF0707F, 0x41005007),
     (VLSEG4E16FF_V, VLSEG4E16FF_V, misa_V, 0xFDF0707F, 0x61005007),
     (VLSEG5E16FF_V, VLSEG5E16FF_V, misa_V, 0xFDF0707F, 0x81005007),
     (VLSEG6E16FF_V, VLSEG6E16FF_V, misa_V, 0xFDF0707F, 0xA1005007),
     (VLSEG7E16FF_V, VLSEG7E16FF_V, misa_V, 0xFDF0707F, 0xC1005007),
     (VLSEG8E16FF_V, VLSEG8E16FF_V, misa_V, 0xFDF0707F, 0xE1005007),
     (VL1RE16_V, VL1RE16_V, misa_V, 0xFDF0707F, 0x805007),
     (VL2RE16_V, VL2RE16_V, misa_V, 0xFDF0707F, 0x20805007),
     (VL4RE16_V, VL4RE16_V, misa_V, 0xFDF0707F, 0x60805007),
     (VL8RE16_V, VL8RE16_V, misa_V, 0xFDF0707F, 0xE0805007)]"

definition rows_OP_FLW_funct3_5_mew_0 :: "encoding list" where
  "rows_OP_FLW_funct3_5_mew_0 =
    [(VLSE16_V, VLSE16_V, misa_V, 0xFC00707F, 0x8005007),
     (VLSSEG2E16_V, VLSSEG2E16_V, misa_V, 0xFC00707F, 0x28005007),
     (VLSSEG3E16_V, VLSSEG3E16_V, misa_V, 0xFC00707F, 0x48005007),
     (VLSSEG4E16_V, VLSSEG4E16_V, misa_V, 0xFC00707F, 0x68005007),
     (VLSSEG5E16_V, VLSSEG5E16_V, misa_V, 0xFC00707F, 0x88005007),
     (VLSSEG6E16_V, VLSSEG6E16_V, misa_V, 0xFC00707F, 0xA8005007),
     (VLSSEG7E16_V, VLSSEG7E16_V, misa_V, 0xFC00707F, 0xC8005007),
     (VLSSEG8E16_V, VLSSEG8E16_V, misa_V, 0xFC00707F, 0xE8005007),
     (VLUXEI16_V, VLUXEI16_V, misa_V, 0xFC00707F, 0x4005007),
     (VLUXSEG2EI16_V, VLUXSEG2EI16_V, misa_V, 0xFC00707F, 0x24005007),
     (VLUXSEG3EI16_V, VLUXSEG3EI16_V, misa_V, 0xFC00707F, 0x44005007),
     (VLUXSEG4EI16_V, VLUXSEG4EI16_V, misa_V, 0xFC00707F, 0x64005007),
     (VLUXSEG5EI16_V, VLUXSEG5EI16_V, misa_V, 0xFC00707F, 0x84005007),
     (VLUXSEG6EI16_V, VLUXSEG6EI16_V, misa_V, 0xFC00707F, 0xA4005007),
     (VLUXSEG7EI16_V, VLUXSEG7EI16_V, misa_V, 0xFC00707F, 0xC4005007),
     (VLUXSEG8EI16_V, VLUXSEG8EI16_V, misa_V, 0xFC00707F, 0xE4005007),
     (VLOXEI16_V, VLOXEI16_V, misa_V, 0xFC00707F, 0xC005007),
     (VLOXSEG2EI16_V, VLOXSEG2EI16_V, misa_V, 0xFC00707F, 0x2C005007),
     (VLOXSEG3EI16_V, VLOXSEG3EI16_V, misa_V, 0xFC00707F, 0x4C005007),
     (VLOXSEG4EI16_V, VLOXSEG4EI16_V, misa_V, 0xFC00707F, 0x6C005007),
     (VLOXSEG5EI16_V, VLOXSEG5EI16_V, misa_V, 0xFC00707F, 0x8C005007),
     (VLOXSEG6EI16_V, VLOXSEG6EI16_V, misa_V, 0xFC00707F, 0xAC005007),
     (VLOXSEG7EI16_V, VLOXSEG7EI16_V, misa_V, 0xFC00707F, 0xCC005007),
     (VLOXSEG8EI16_V, VLOXSEG8EI16_V, misa_V, 0xFC00707F, 0xEC005007)]"

definition rows_OP_FLW_funct3_6_mew_0_mop_0 :: "encoding list" where
  "rows_OP_FLW_funct3_6_mew_0_mop_0 =
    [(VLE32_V, VLE32_V, misa_V, 0xFDF0707F, 0x6007),
     (VLSEG2E32_V, VLSEG2E32_V, misa_V, 0xFDF0707F, 0x20006007),
     (VLSEG3E32_V, VLSEG3E32_V, misa_V, 0xFDF0707F, 0x40006007),
     (VLSEG4E32_V, VLSEG4E32_V, misa_V, 0xFDF0707F, 0x60006007),
     (VLSEG5E32_V, VLSEG5E32_V, misa_V, 0xFDF0707F, 0x80006007),
     (VLSEG6E32_V, VLSEG6E32_V, misa_V, 0xFDF0707F, 0xA0006007),
     (VLSEG7E32_V, VLSEG7E32_V, misa_V, 0xFDF0707F, 0xC0006007),
     (VLSEG8E32_V, VLSEG8E32_V, misa_V, 0xFDF0707F, 0xE0006007),
     (VLE32FF_V, VLE32FF_V, misa_V, 0xFDF0707F, 0x1006007),
     (VLSEG2E32FF_V, VLSEG2E32FF_V, misa_V, 0xFDF0707F, 0x21006007),
     (VLSEG3E32FF_V, VLSEG3E32FF_V, misa_V, 0xFDF0707F, 0x41006007),
     (VLSEG4E32FF_V, VLSEG4E32FF_V, misa_V, 0xFDF0707F, 0x61006007),
     (VLSEG5E32FF_V, VLSEG5E32FF_V, misa_V, 0xFDF0707F, 0x81006007),
     (VLSEG6E32FF_V, VLSEG6E32FF_V, misa_V, 0xFDF0707F, 0xA1006007),
     (VLSEG7E32FF_V, VLSEG7E32FF_V, misa_V, 0xFDF0707F, 0xC1006007),
     (VLSEG8E32FF_V, VLSEG8E32FF_V, misa_V, 0xFDF0707F, 0xE1006007),
     (VL1RE32_V, VL1RE32_V, misa_V, 0xFDF0707F, 0x806007),
     (VL2RE32_V, VL2RE32_V, misa_V, 0xFDF0707F, 0x20806007),
     (VL4RE32_V, VL4RE32_V, misa_V, 0xFDF0707F, 0x60806007),
     (VL8RE32_V, VL8RE32_V, misa_V, 0xFDF0707F, 0xE0806007)]"

definition rows_OP_FLW_funct3_6_mew_0 :: "encoding list" where
  "rows_OP_FLW_funct3_6_mew_0 =
    [(VLSE32_V, VLSE32_V, misa_V, 0xFC00707F, 0x8006007),
     (VLSSEG2E32_V, VLSSEG2E32_V, misa_V, 0xFC00707F, 0x28006007),
     (VLSSEG3E32_V, VLSSEG3E32_V, misa_V, 0xFC00707F, 0x48006007),
     (VLSSEG4E32_V, VLSSEG4E32_V, misa_V, 0xFC00707F, 0x68006007),
     (VLSSEG5E32_V, VLSSEG5E32_V, misa_V, 0xFC00707F, 0x88006007),
     (VLSSEG6E32_V, VLSSEG6E32_V, misa_V, 0xFC00707F, 0xA8006007),
     (VLSSEG7E32_V, VLSSEG7E32_V, misa_V, 0xFC00707F, 0xC8006007),
     (VLSSEG8E32_V, VLSSEG8E32_V, misa_V, 0xFC00707F, 0xE8006007),
     (VLUXEI32_V, VLUXEI32_V, misa_V, 0xFC00707F, 0x4006007),
     (VLUXSEG2EI32_V, VLUXSEG2EI32_V, misa_V, 0xFC00707F, 0x24006007),
     (VLUXSEG3EI32_V, VLUXSEG3EI32_V, misa_V, 0xFC00707F, 0x44006007),
     (VLUXSEG4EI32_V, VLUXSEG4EI32_V, misa_V, 0xFC00707F, 0x64006007),
     (VLUXSEG5EI32_V, VLUXSEG5EI32_V, misa_V, 0xFC00707F, 0x84006007),
     (VLUXSEG6EI32_V, VLUXSEG6EI32_V, misa_V, 0xFC00707F, 0xA4006007),
     (VLUXSEG7EI32_V, VLUXSEG7EI32_V, misa_V, 0xFC00707F, 0xC4006007),
     (VLUXSEG8EI32_V, VLUXSEG8EI32_V, misa_V, 0xFC00707F, 0xE4006007),
     (VLOXEI32_V, VLOXEI32_V, misa_V, 0xFC00707F, 0xC006007),
     (VLOXSEG2EI32_V, VLOXSEG2EI32_V, misa_V, 0xFC00707F, 0x2C006007),
     (VLOXSEG3EI32_V, VLOXSEG3EI32_V, misa_V, 0xFC00707F, 0x4C006007),
     (VLOXSEG4EI32_V, VLOXSEG4EI32_V, misa_V, 0xFC00707F, 0x6C006007),
     (VLOXSEG5EI32_V, VLOXSEG5EI32_V, misa_V, 0xFC00707F, 0x8C006007),
     (VLOXSEG6EI32_V, VLOXSEG6EI32_V, misa_V, 0xFC00707F, 0xAC006007),
     (VLOXSEG7EI32_V, VLOXSEG7EI32_V, misa_V, 0xFC00707F, 0xCC006007),
     (VLOXSEG8EI32_V, VLOXSEG8EI32_V, misa_V, 0xFC00707F, 0xEC006007)]"

definition rows_OP_FLW_funct3_7_mew_0_mop_0 :: "encoding list" where
  "rows_OP_FLW_funct3_7_mew_0_mop_0 =
    [(VLE64_V, VLE64_V, misa_V, 0xFDF0707F, 0x7007),
     (VLSEG2E64_V, VLSEG2E64_V, misa_V, 0xFDF0707F, 0x20007007),
     (VLSEG3E64_V, VLSEG3E64_V, misa_V, 0xFDF0707F, 0x40007007),
     (VLSEG4E64_V, VLSEG4E64_V, misa_V, 0xFDF0707F, 0x60007007),
     (VLSEG5E64_V, VLSEG5E64_V, misa_V, 0xFDF0707F, 0x80007007),
     (VLSEG6E64_V, VLSEG6E64_V, misa_V, 0xFDF0707F, 0xA0007007),
     (VLSEG7E64_V, VLSEG7E64_V, misa_V, 0xFDF0707F, 0xC0007007),
     (VLSEG8E64_V, VLSEG8E64_V, misa_V, 0xFDF0707F, 0xE0007007),
     (VLE64FF_V, VLE64FF_V, misa_V, 0xFDF0707F, 0x1007007),
     (VLSEG2E64FF_V, VLSEG2E64FF_V, misa_V, 0xFDF0707F, 0x21007007),
     (VLSEG3E64FF_V, VLSEG3E64FF_V, misa_V, 0xFDF0707F, 0x41007007),
     (VLSEG4E64FF_V, VLSEG4E64FF_V, misa_V, 0xFDF0707F, 0x61007007),
     (VLSEG5E64FF_V, VLSEG5E64FF_V, misa_V, 0xFDF0707F, 0x81007007),
     (VLSEG6E64FF_V, VLSEG6E64FF_V, misa_V, 0xFDF0707F, 0xA1007007),
     (VLSEG7E64FF_V, VLSEG7E64FF_V, misa_V, 0xFDF0707F, 0xC1007007),
     (VLSEG8E64FF_V, VLSEG8E64FF_V, misa_V, 0xFDF0707F, 0xE1007007),
     (VL1RE64_V, VL1RE64_V, misa_V, 0xFDF0707F, 0x807007),
     (VL2RE64_V, VL2RE64_V, misa_V, 0xFDF0707F, 0x20807007),
     (VL4RE64_V, VL4RE64_V, misa_V, 0xFDF0707F, 0x60807007),
     (VL8RE64_V, VL8RE64_V, misa_V, 0xFDF0707F, 0xE0807007)]"

definition rows_OP_FLW_funct3_7_mew_0 :: "encoding list" where
  "rows_OP_FLW_funct3_7_mew_0 =
    [(VLSE64_V, VLSE64_V, misa_V, 0xFC00707F, 0x8007007),
     (VLSSEG2E64_V, VLSSEG2E64_V, misa_V, 0xFC00707F, 0x28007007),
     (VLSSEG3E64_V, VLSSEG3E64_V, misa_V, 0xFC00707F, 0x48007007),
     (VLSSEG4E64_V, VLSSEG4E64_V, misa_V, 0xFC00707F, 0x68007007),
     (VLSSEG5E64_V, VLSSEG5E64_V, misa_V, 0xFC00707F, 0x88007007),
     (VLSSEG6E64_V, VLSSEG6E64_V, misa_V, 0xFC00707F, 0xA8007007),
     (VLSSEG7E64_V, VLSSEG7E64_V, misa_V, 0xFC00707F, 0xC8007007),
     (VLSSEG8E64_V, VLSSEG8E64_V, misa_V, 0xFC00707F, 0xE8007007),
     (VLUXEI64_V, VLUXEI64_V, misa_V, 0xFC00707F, 0x4007007),
     (VLUXSEG2EI64_V, VLUXSEG2EI64_V, misa_V, 0xFC00707F, 0x24007007),
     (VLUXSEG3EI64_V, VLUXSEG3EI64_V, misa_V, 0xFC00707F, 0x44007007),
     (VLUXSEG4EI64_V, VLUXSEG4EI64_V, misa_V, 0xFC00707F, 0x64007007),
     (VLUXSEG5EI64_V, VLUXSEG5EI64_V, misa_V, 0xFC00707F, 0x84007007),
     (VLUXSEG6EI64_V, VLUXSEG6EI64_V, misa_V, 0xFC00707F, 0xA4007007),
     (VLUXSEG7EI64_V, VLUXSEG7EI64_V, misa_V, 0xFC00707F, 0xC4007007),
     (VLUXSEG8EI64_V, VLUXSEG8EI64_V, misa_V, 0xFC00707F, 0xE4007007),
     (VLOXEI64_V, VLOXEI64_V, misa_V, 0xFC00707F, 0xC007007),
     (VLOXSEG2EI64_V, VLOXSEG2EI64_V, misa_V, 0xFC00707F, 0x2C007007),
     (VLOXSEG3EI64_V, VLOXSEG3EI64_V, misa_V, 0xFC00707F, 0x4C007007),
     (VLOXSEG4EI64_V, VLOXSEG4EI64_V, misa_V, 0xFC00707F, 0x6C007007),
     (VLOXSEG5EI64_V, VLOXSEG5EI64_V, misa_V, 0xFC00707F, 0x8C007007),
     (VLOXSEG6EI64_V, VLOXSEG6EI64_V, misa_V, 0xFC00707F, 0xAC007007),
     (VLOXSEG7EI64_V, VLOXSEG7EI64_V, misa_V, 0xFC00707F, 0xCC007007),
     (VLOXSEG8EI64_V, VLOXSEG8EI64_V, misa_V, 0xFC00707F, 0xEC007007)]"

definition rows_OP_FLW :: "encoding list" where
  "rows_OP_FLW =
    [(FLH, FLH, Zfh, 0x707F, 0x1007),
     (FLW, FLW, misa_F, 0x707F, 0x2007),
     (FLD, FLD, misa_D, 0x707F, 0x3007)]"

definition rows_OP_FSW_funct3_0_mew_0_mop_0 :: "encoding list" where
  "rows_OP_FSW_funct3_0_mew_0_mop_0 =
    [(VSM_V, VSM_V, misa_V, 0xFDF0707F, 0xB00027),
     (VSE8_V, VSE8_V, misa_V, 0xFDF0707F, 0x27),
     (VSSEG2E8_V, VSSEG2E8_V, misa_V, 0xFDF0707F, 0x20000027),
     (VSSEG3E8_V, VSSEG3E8_V, misa_V, 0xFDF0707F, 0x40000027),
     (VSSEG4E8_V, VSSEG4E8_V, misa_V, 0xFDF0707F, 0x60000027),
     (VSSEG5E8_V, VSSEG5E8_V, misa_V, 0xFDF0707F, 0x80000027),
     (VSSEG6E8_V, VSSEG6E8_V, misa_V, 0xFDF0707F, 0xA0000027),
     (VSSEG7E8_V, VSSEG7E8_V, misa_V, 0xFDF0707F, 0xC0000027),
     (VSSEG8E8_V, VSSEG8E8_V, misa_V, 0xFDF0707F, 0xE0000027),
     (VS1R_V, VS1R_V, misa_V, 0xFDF0707F, 0x800027),
     (VS2R_V, VS2R_V, misa_V, 0xFDF0707F, 0x20800027),
     (VS4R_V, VS4R_V, misa_V, 0xFDF0707F, 0x60800027),
     (VS8R_V, VS8R_V, misa_V, 0xFDF0707F, 0xE0800027)]"

definition rows_OP_FSW_funct3_0_mew_0 :: "encoding list" where
  "rows_OP_FSW_funct3_0_mew_0 =
    [(VSSE8_V, VSSE8_V, misa_V, 0xFC00707F, 0x8000027),
     (VSSSEG2E8_V, VSSSEG2E8_V, misa_V, 0xFC00707F, 0x28000027),
     (VSSSEG3E8_V, VSSSEG3E8_V, misa_V, 0xFC00707F, 0x48000027),
     (VSSSEG4E8_V, VSSSEG4E8_V, misa_V, 0xFC00707F, 0x68000027),
     (VSSSEG5E8_V, VSSSEG5E8_V, misa_V, 0xFC00707F, 0x88000027),
     (VSSSEG6E8_V, VSSSEG6E8_V, misa_V, 0xFC00707F, 0xA8000027),
     (VSSSEG7E8_V, VSSSEG7E8_V, misa_V, 0xFC00707F, 0xC8000027),
     (VSSSEG8E8_V, VSSSEG8E8_V, misa_V, 0xFC00707F, 0xE8000027),
     (VSUXEI8_V, VSUXEI8_V, misa_V, 0xFC00707F, 0x4000027),
     (VSUXSEG2EI8_V, VSUXSEG2EI8_V, misa_V, 0xFC00707F, 0x24000027),
     (VSUXSEG3EI8_V, VSUXSEG3EI8_V, misa_V, 0xFC00707F, 0x44000027),
     (VSUXSEG4EI8_V, VSUXSEG4EI8_V, misa_V, 0xFC00707F, 0x64000027),
     (VSUXSEG5EI8_V, VSUXSEG5EI8_V, misa_V, 0xFC00707F, 0x84000027),
     (VSUXSEG6EI8_V, VSUXSEG6EI8_V, misa_V, 0xFC00707F, 0xA4000027),
     (VSUXSEG7EI8_V, VSUXSEG7EI8_V, misa_V, 0xFC00707F, 0xC4000027),
     (VSUXSEG8EI8_V, VSUXSEG8EI8_V, misa_V, 0xFC00707F, 0xE4000027),
     (VSOXEI8_V, VSOXEI8_V, misa_V, 0xFC00707F, 0xC000027),
     (VSOXSEG2EI8_V, VSOXSEG2EI8_V, misa_V, 0xFC00707F, 0x2C000027),
     (VSOXSEG3EI8_V, VSOXSEG3EI8_V, misa_V, 0xFC00707F, 0x4C000027),
     (VSOXSEG4EI8_V, VSOXSEG4EI8_V, misa_V, 0xFC00707F, 0x6C000027),
     (VSOXSEG5EI8_V, VSOXSEG5EI8_V, misa_V, 0xFC00707F, 0x8C000027),
     (VSOXSEG6EI8_V, VSOXSEG6EI8_V, misa_V, 0xFC00707F, 0xAC000027),
     (VSOXSEG7EI8_V, VSOXSEG7EI8_V, misa_V, 0xFC00707F, 0xCC000027),
     (VSOXSEG8EI8_V, VSOXSEG8EI8_V, misa_V, 0xFC00707F, 0xEC000027)]"

definition rows_OP_FSW_funct3_5_mew_0 :: "encoding list" where
  "rows_OP_FSW_funct3_5_mew_0 =
    [(VSE16_V, VSE16_V, misa_V, 0xFDF0707F, 0x5027),
     (VSSEG2E16_V, VSSEG2E16_V, misa_V, 0xFDF0707F, 0x20005027),
     (VSSEG3E16_V, VSSEG3E16_V, misa_V, 0xFDF0707F, 0x40005027),
     (VSSEG4E16_V, VSSEG4E16_V, misa_V, 0xFDF0707F, 0x60005027),
     (VSSEG5E16_V, VSSEG5E16_V, misa_V, 0xFDF0707F, 0x80005027),
     (VSSEG6E16_V, VSSEG6E16_V, misa_V, 0xFDF0707F, 0xA0005027),
     (VSSEG7E16_V, VSSEG7E16_V, misa_V, 0xFDF0707F, 0xC0005027),
     (VSSEG8E16_V, VSSEG8E16_V, misa_V, 0xFDF0707F, 0xE0005027),
     (VSSE16_V, VSSE16_V, misa_V, 0xFC00707F, 0x8005027),
     (VSSSEG2E16_V, VSSSEG2E16_V, misa_V, 0xFC00707F, 0x28005027),
     (VSSSEG3E16_V, VSSSEG3E16_V, misa_V, 0xFC00707F, 0x48005027),
     (VSSSEG4E16_V, VSSSEG4E16_V, misa_V, 0xFC00707F, 0x68005027),
     (VSSSEG5E16_V, VSSSEG5E16_V, misa_V, 0xFC00707F, 0x88005027),
     (VSSSEG6E16_V, VSSSEG6E16_V, misa_V, 0xFC00707F, 0xA8005027),
     (VSSSEG7E16_V, VSSSEG7E16_V, misa_V, 0xFC00707F, 0xC8005027),
     (VSSSEG8E16_V, VSSSEG8E16_V, misa_V, 0xFC00707F, 0xE8005027),
     (VSUXEI16_V, VSUXEI16_V, misa_V, 0xFC00707F, 0x4005027),
     (VSUXSEG2EI16_V, VSUXSEG2EI16_V, misa_V, 0xFC00707F, 0x24005027),
     (VSUXSEG3EI16_V, VSUXSEG3EI16_V, misa_V, 0xFC00707F, 0x44005027),
     (VSUXSEG4EI16_V, VSUXSEG4EI16_V, misa_V, 0xFC00707F, 0x64005027),
     (VSUXSEG5EI16_V, VSUXSEG5EI16_V, misa_V, 0xFC00707F, 0x84005027),
     (VSUXSEG6EI16_V, VSUXSEG6EI16_V, misa_V, 0xFC00707F, 0xA4005027),
     (VSUXSEG7EI16_V, VSUXSEG7EI16_V, misa_V, 0xFC00707F, 0xC4005027),
     (VSUXSEG8EI16_V, VSUXSEG8EI16_V, misa_V, 0xFC00707F, 0xE4005027),
     (VSOXEI16_V, VSOXEI16_V, misa_V, 0xFC00707F, 0xC005027),
     (VSOXSEG2EI16_V, VSOXSEG2EI16_V, misa_V, 0xFC00707F, 0x2C005027),
     (VSOXSEG3EI16_V, VSOXSEG3EI16_V, misa_V, 0xFC00707F, 0x4C005027),
     (VSOXSEG4EI16_V, VSOXSEG4EI16_V, misa_V, 0xFC00707F, 0x6C005027),
     (VSOXSEG5EI16_V, VSOXSEG5EI16_V, misa_V, 0xFC00707F, 0x8C005027),
     (VSOXSEG6EI16_V, VSOXSEG6EI16_V, misa_V, 0xFC00707F, 0xAC005027),
     (VSOXSEG7EI16_V, VSOXSEG7EI16_V, misa_V, 0xFC00707F, 0xCC005027),
     (VSOXSEG8EI16_V, VSOXSEG8EI16_V, misa_V, 0xFC00707F, 0xEC005027)]"

definition rows_OP_FSW_funct3_6_mew_0 :: "encoding list" where
  "rows_OP_FSW_funct3_6_mew_0 =
    [(VSE32_V, VSE32_V, misa_V, 0xFDF0707F, 0x6027),
     (VSSEG2E32_V, VSSEG2E32_V, misa_V, 0xFDF0707F, 0x20006027),
     (VSSEG3E32_V, VSSEG3E32_V, misa_V, 0xFDF0707F, 0x40006027),
     (VSSEG4E32_V, VSSEG4E32_V, misa_V, 0xFDF0707F, 0x60006027),
     (VSSEG5E32_V, VSSEG5E32_V, misa_V, 0xFDF0707F, 0x80006027),
     (VSSEG6E32_V, VSSEG6E32_V, misa_V, 0xFDF0707F, 0xA0006027),
     (VSSEG7E32_V, VSSEG7E32_V, misa_V, 0xFDF0707F, 0xC0006027),
     (VSSEG8E32_V, VSSEG8E32_V, misa_V, 0xFDF0707F, 0xE0006027),
     (VSSE32_V, VSSE32_V, misa_V, 0xFC00707F, 0x8006027),
     (VSSSEG2E32_V, VSSSEG2E32_V, misa_V, 0xFC00707F, 0x28006027),
     (VSSSEG3E32_V, VSSSEG3E32_V, misa_V, 0xFC00707F, 0x48006027),
     (VSSSEG4E32_V, VSSSEG4E32_V, misa_V, 0xFC00707F, 0x68006027),
     (VSSSEG5E32_V, VSSSEG5E32_V, misa_V, 0xFC00707F, 0x88006027),
     (VSSSEG6E32_V, VSSSEG6E32_V, misa_V, 0xFC00707F, 0xA8006027),
     (VSSSEG7E32_V, VSSSEG7E32_V, misa_V, 0xFC00707F, 0xC8006027),
     (VSSSEG8E32_V, VSSSEG8E32_V, misa_V, 0xFC00707F, 0xE8006027),
     (VSUXEI32_V, VSUXEI32_V, misa_V, 0xFC00707F, 0x4006027),
     (VSUXSEG2EI32_V, VSUXSEG2EI32_V, misa_V, 0xFC00707F, 0x24006027),
     (VSUXSEG3EI32_V, VSUXSEG3EI32_V, misa_V, 0xFC00707F, 0x44006027),
     (VSUXSEG4EI32_V, VSUXSEG4EI32_V, misa_V, 0xFC00707F, 0x64006027),
     (VSUXSEG5EI32_V, VSUXSEG5EI32_V, misa_V, 0xFC00707F, 0x84006027),
     (VSUXSEG6EI32_V, VSUXSEG6EI32_V, misa_V, 0xFC00707F, 0xA4006027),
     (VSUXSEG7EI32_V, VSUXSEG7EI32_V, misa_V, 0xFC00707F, 0xC4006027),
     (VSUXSEG8EI32_V, VSUXSEG8EI32_V, misa_V, 0xFC00707F, 0xE4006027),
     (VSOXEI32_V, VSOXEI32_V, misa_V, 0xFC00707F, 0xC006027),
     (VSOXSEG2EI32_V, VSOXSEG2EI32_V, misa_V, 0xFC00707F, 0x2C006027),
     (VSOXSEG3EI32_V, VSOXSEG3EI32_V, misa_V, 0xFC00707F, 0x4C006027),
     (VSOXSEG4EI32_V, VSOXSEG4EI32_V, misa_V, 0xFC00707F, 0x6C006027),
     (VSOXSEG5EI32_V, VSOXSEG5EI32_V, misa_V, 0xFC00707F, 0x8C006027),
     (VSOXSEG6EI32_V, VSOXSEG6EI32_V, misa_V, 0xFC00707F, 0xAC006027),
     (VSOXSEG7EI32_V, VSOXSEG7EI32_V, misa_V, 0xFC00707F, 0xCC006027),
     (VSOXSEG8EI32_V, VSOXSEG8EI32_V, misa_V, 0xFC00707F, 0xEC006027)]"

definition rows_OP_FSW_funct3_7_mew_0 :: "encoding list" where
  "rows_OP_FSW_funct3_7_mew_0 =
    [(VSE64_V, VSE64_V, misa_V, 0xFDF0707F, 0x7027),
     (VSSEG2E64_V, VSSEG2E64_V, misa_V, 0xFDF0707F, 0x20007027),
     (VSSEG3E64_V, VSSEG3E64_V, misa_V, 0xFDF0707F, 0x40007027),
     (VSSEG4E64_V, VSSEG4E64_V, misa_V, 0xFDF0707F, 0x60007027),
     (VSSEG5E64_V, VSSEG5E64_V, misa_V, 0xFDF0707F, 0x80007027),
     (VSSEG6E64_V, VSSEG6E64_V, misa_V, 0xFDF0707F, 0xA0007027),
     (VSSEG7E64_V, VSSEG7E64_V, misa_V, 0xFDF0707F, 0xC0007027),
     (VSSEG8E64_V, VSSEG8E64_V, misa_V, 0xFDF0707F, 0xE0007027),
     (VSSE64_V, VSSE64_V, misa_V, 0xFC00707F, 0x8007027),
     (VSSSEG2E64_V, VSSSEG2E64_V, misa_V, 0xFC00707F, 0x28007027),
     (VSSSEG3E64_V, VSSSEG3E64_V, misa_V, 0xFC00707F, 0x48007027),
     (VSSSEG4E64_V, VSSSEG4E64_V, misa_V, 0xFC00707F, 0x68007027),
     (VSSSEG5E64_V, VSSSEG5E64_V, misa_V, 0xFC00707F, 0x88007027),
     (VSSSEG6E64_V, VSSSEG6E64_V, misa_V, 0xFC00707F, 0xA8007027),
     (VSSSEG7E64_V, VSSSEG7E64_V, misa_V, 0xFC00707F, 0xC8007027),
     (VSSSEG8E64_V, VSSSEG8E64_V, misa_V, 0xFC00707F, 0xE8007027),
     (VSUXEI64_V, VSUXEI64_V, misa_V, 0xFC00707F, 0x4007027),
     (VSUXSEG2EI64_V, VSUXSEG2EI64_V, misa_V, 0xFC00707F, 0x24007027),
     (VSUXSEG3EI64_V, VSUXSEG3EI64_V, misa_V, 0xFC00707F, 0x44007027),
     (VSUXSEG4EI64_V, VSUXSEG4EI64_V, misa_V, 0xFC00707F, 0x64007027),
     (VSUXSEG5EI64_V, VSUXSEG5EI64_V, misa_V, 0xFC00707F, 0x84007027),
     (VSUXSEG6EI64_V, VSUXSEG6EI64_V, misa_V, 0xFC00707F, 0xA4007027),
     (VSUXSEG7EI64_V, VSUXSEG7EI64_V, misa_V, 0xFC00707F, 0xC4007027),
     (VSUXSEG8EI64_V, VSUXSEG8EI64_V, misa_V, 0xFC00707F, 0xE4007027),
     (VSOXEI64_V, VSOXEI64_V, misa_V, 0xFC00707F, 0xC007027),
     (VSOXSEG2EI64_V, VSOXSEG2EI64_V, misa_V, 0xFC00707F, 0x2C007027),
     (VSOXSEG3EI64_V, VSOXSEG3EI64_V, misa_V, 0xFC00707F, 0x4C007027),
     (VSOXSEG4EI64_V, VSOXSEG4EI64_V, misa_V, 0xFC00707F, 0x6C007027),
     (VSOXSEG5EI64_V, VSOXSEG5EI64_V, misa_V, 0xFC00707F, 0x8C007027),
     (VSOXSEG6EI64_V, VSOXSEG6EI64_V, misa_V, 0xFC00707F, 0xAC007027),
     (VSOXSEG7EI64_V, VSOXSEG7EI64_V, misa_V, 0xFC00707F, 0xCC007027),
     (VSOXSEG8EI64_V, VSOXSEG8EI64_V, misa_V, 0xFC00707F, 0xEC007027)]"

definition rows_OP_FSW :: "encoding list" where
  "rows_OP_FSW =
    [(FSH, FSH, Zfh, 0x707F, 0x1027),
     (FSW, FSW, misa_F, 0x707F, 0x2027),
     (FSD, FSD, misa_D, 0x707F, 0x3027)]"

definition rows_OP_FMSUB_S :: "encoding list" where
  "rows_OP_FMSUB_S =
    [(FMSUB_H, FMSUB_H, Zfh, 0x600007F, 0x4000047),
     (FMSUB_S, FMSUB_S, misa_F, 0x600007F, 0x47),
     (FMSUB_D, FMSUB_D, misa_D, 0x600007F, 0x2000047)]"

definition rows_OP_FNMSUB_S :: "encoding list" where
  "rows_OP_FNMSUB_S =
    [(FNMSUB_H, FNMSUB_H, Zfh, 0x600007F, 0x400004B),
     (FNMSUB_S, FNMSUB_S, misa_F, 0x600007F, 0x4B),
     (FNMSUB_D, FNMSUB_D, misa_D, 0x600007F, 0x200004B)]"

definition rows_OP_FNMADD_S :: "encoding list" where
  "rows_OP_FNMADD_S =
    [(FNMADD_H, FNMADD_H, Zfh, 0x600007F, 0x400004F),
     (FNMADD_S, FNMADD_S, misa_F, 0x600007F, 0x4F),
     (FNMADD_D, FNMADD_D, misa_D, 0x600007F, 0x200004F)]"

definition rows_OP_87_funct3_0 :: "encoding list" where
  "rows_OP_87_funct3_0 =
    [(VADD_VV, VADD_VV, misa_V, 0xFC00707F, 0x57),
     (VSUB_VV, VSUB_VV, misa_V, 0xFC00707F, 0x8000057),
     (VADC_VVM, VADC_VVM, misa_V, 0xFE00707F, 0x40000057),
     (VMADC_VVM, VMADC_VVM, misa_V, 0xFE00707F, 0x44000057),
     (VMADC_VV, VMADC_VV, misa_V, 0xFE00707F, 0x46000057),
     (VSBC_VVM, VSBC_VVM, misa_V, 0xFE00707F, 0x48000057),
     (VMSBC_VVM, VMSBC_VVM, misa_V, 0xFE00707F, 0x4C000057),
     (VMSBC_VV, VMSBC_VV, misa_V, 0xFE00707F, 0x4E000057),
     (VAND_VV, VAND_VV, misa_V, 0xFC00707F, 0x24000057),
     (VOR_VV, VOR_VV, misa_V, 0xFC00707F, 0x28000057),
     (VXOR_VV, VXOR_VV, misa_V, 0xFC00707F, 0x2C000057),
     (VSLL_VV, VSLL_VV, misa_V, 0xFC00707F, 0x94000057),
     (VSRL_VV, VSRL_VV, misa_V, 0xFC00707F, 0xA0000057),
     (VSRA_VV, VSRA_VV, misa_V, 0xFC00707F, 0xA4000057),
     (VNSRL_WV, VNSRL_WV, misa_V, 0xFC00707F, 0xB0000057),
     (VNSRA_WV, VNSRA_WV, misa_V, 0xFC00707F, 0xB4000057),
     (VMSEQ_VV, VMSEQ_VV, misa_V, 0xFC00707F, 0x60000057),
     (VMSNE_VV, VMSNE_VV, misa_V, 0xFC00707F, 0x64000057),
     (VMSLTU_VV, VMSLTU_VV, misa_V, 0xFC00707F, 0x68000057),
     (VMSLT_VV, VMSLT_VV, misa_V, 0xFC00707F, 0x6C000057),
     (VMSLEU_VV, VMSLEU_VV, misa_V, 0xFC00707F, 0x70000057),
     (VMSLE_VV, VMSLE_VV, misa_V, 0xFC00707F, 0x74000057),
     (VMINU_VV, VMINU_VV, misa_V, 0xFC00707F, 0x10000057),
     (VMIN_VV, VMIN_VV, misa_V, 0xFC00707F, 0x14000057),
     (VMAXU_VV, VMAXU_VV, misa_V, 0xFC00707F, 0x18000057),
     (VMAX_VV, VMAX_VV, misa_V, 0xFC00707F, 0x1C000057),
     (VMERGE_VVM, VMERGE_VVM, misa_V, 0xFE00707F, 0x5C000057),
     (VMV_V_V, VMV_V_V, misa_V, 0xFE00707F, 0x5E000057),
     (VSADDU_VV, VSADDU_VV, misa_V, 0xFC00707F, 0x80000057),
     (VSADD_VV, VSADD_VV, misa_V, 0xFC00707F, 0x84000057),
     (VSSUBU_VV, VSSUBU_VV, misa_V, 0xFC00707F, 0x88000057),
     (VSSUB_VV, VSSUB_VV, misa_V, 0xFC00707F, 0x8C000057),
     (VSMUL_VV, VSMUL_VV, misa_V, 0xFC00707F, 0x9C000057),
     (VSSRL_VV, VSSRL_VV, misa_V, 0xFC00707F, 0xA8000057),
     (VSSRA_VV, VSSRA_VV, misa_V, 0xFC00707F, 0xAC000057),
     (VNCLIPU_WV, VNCLIPU_WV, misa_V, 0xFC00707F, 0xB8000057),
     (VNCLIP_WV, VNCLIP_WV, misa_V, 0xFC00707F, 0xBC000057),
     (VWREDSUMU_VS, VWREDSUMU_VS, misa_V, 0xFC00707F, 0xC0000057),
     (VWREDSUM_VS, VWREDSUM_VS, misa_V, 0xFC00707F, 0xC4000057),
     (VRGATHER_VV, VRGATHER_VV, misa_V, 0xFC00707F, 0x30000057),
     (VRGATHEREI16_VV, VRGATHEREI16_VV, misa_V, 0xFC00707F, 0x38000057)]"

definition rows_OP_87_funct3_3 :: "encoding list" where
  "rows_OP_87_funct3_3 =
    [(VADD_VI, VADD_VI, misa_V, 0xFC00707F, 0x3057),
     (VRSUB_VI, VRSUB_VI, misa_V, 0xFC00707F, 0xC003057),
     (VADC_VIM, VADC_VIM, misa_V, 0xFE00707F, 0x40003057),
     (VMADC_VIM, VMADC_VIM, misa_V, 0xFE00707F, 0x44003057),
     (VMADC_VI, VMADC_VI, misa_V, 0xFE00707F, 0x46003057),
     (VAND_VI, VAND_VI, misa_V, 0xFC00707F, 0x24003057),
     (VOR_VI, VOR_VI, misa_V, 0xFC00707F, 0x28003057),
     (VXOR_VI, VXOR_VI, misa_V, 0xFC00707F, 0x2C003057),
     (VSLL_VI, VSLL_VI, misa_V, 0xFC00707F, 0x94003057),
     (VSRL_VI, VSRL_VI, misa_V, 0xFC00707F, 0xA0003057),
     (VSRA_VI, VSRA_VI, misa_V, 0xFC00707F, 0xA4003057),
     (VNSRL_WI, VNSRL_WI, misa_V, 0xFC00707F, 0xB0003057),
     (VNSRA_WI, VNSRA_WI, misa_V, 0xFC00707F, 0xB4003057),
     (VMSEQ_VI, VMSEQ_VI, misa_V, 0xFC00707F, 0x60003057),
     (VMSNE_VI, VMSNE_VI, misa_V, 0xFC00707F, 0x64003057),
     (VMSLEU_VI, VMSLEU_VI, misa_V, 0xFC00707F, 0x70003057),
     (VMSLE_VI, VMSLE_VI, misa_V, 0xFC00707F, 0x74003057),
     (VMSGTU_VI, VMSGTU_VI, misa_V, 0xFC00707F, 0x78003057),
     (VMSGT_VI, VMSGT_VI, misa_V, 0xFC00707F, 0x7C003057),
     (VMERGE_VIM, VMERGE_VIM, misa_V, 0xFE00707F, 0x5C003057),
     (VMV_V_I, VMV_V_I, misa_V, 0xFE00707F, 0x5E003057),
     (VSADDU_VI, VSADDU_VI, misa_V, 0xFC00707F, 0x80003057),
     (VSADD_VI, VSADD_VI, misa_V, 0xFC00707F, 0x84003057),
     (VSSRL_VI, VSSRL_VI, misa_V, 0xFC00707F, 0xA8003057),
     (VSSRA_VI, VSSRA_VI, misa_V, 0xFC00707F, 0xAC003057),
     (VNCLIPU_WI, VNCLIPU_WI, misa_V, 0xFC00707F, 0xB8003057),
     (VNCLIP_WI, VNCLIP_WI, misa_V, 0xFC00707F, 0xBC003057),
     (VSLIDEUP_VI, VSLIDEUP_VI, misa_V, 0xFC00707F, 0x38003057),
     (VSLIDEDOWN_VI, VSLIDEDOWN_VI, misa_V, 0xFC00707F, 0x3C003057),
     (VRGATHER_VI, VRGATHER_VI, misa_V, 0xFC00707F, 0x30003057),
     (VMV_NR_R_V, VMV_NR_R_V, misa_V, 0xFC00707F, 0x9C003057)]"

definition rows_OP_87_funct3_4 :: "encoding list" where
  "rows_OP_87_funct3_4 =
    [(VADD_VX, VADD_VX, misa_V, 0xFC00707F, 0x4057),
     (VSUB_VX, VSUB_VX, misa_V, 0xFC00707F, 0x8004057),
     (VRSUB_VX, VRSUB_VX, misa_V, 0xFC00707F, 0xC004057),
     (VADC_VXM, VADC_VXM, misa_V, 0xFE00707F, 0x40004057),
     (VMADC_VXM, VMADC_VXM, misa_V, 0xFE00707F, 0x44004057),
     (VMADC_VX, VMADC_VX, misa_V, 0xFE00707F, 0x46004057),
     (VSBC_VXM, VSBC_VXM, misa_V, 0xFE00707F, 0x48004057),
     (VMSBC_VXM, VMSBC_VXM, misa_V, 0xFE00707F, 0x4C004057),
     (VMSBC_VX, VMSBC_VX, misa_V, 0xFE00707F, 0x4E004057),
     (VAND_VX, VAND_VX, misa_V, 0xFC00707F, 0x24004057),
     (VOR_VX, VOR_VX, misa_V, 0xFC00707F, 0x28004057),
     (VXOR_VX, VXOR_VX, misa_V, 0xFC00707F, 0x2C004057),
     (VSLL_VX, VSLL_VX, misa_V, 0xFC00707F, 0x94004057),
     (VSRL_VX, VSRL_VX, misa_V, 0xFC00707F, 0xA0004057),
     (VSRA_VX, VSRA_VX, misa_V, 0xFC00707F, 0xA4004057),
     (VNSRL_WX, VNSRL_WX, misa_V, 0xFC00707F, 0xB0004057),
     (VNSRA_WX, VNSRA_WX, misa_V, 0xFC00707F, 0xB4004057),
     (VMSEQ_VX, VMSEQ_VX, misa_V, 0xFC00707F, 0x60004057),
     (VMSNE_VX, VMSNE_VX, misa_V, 0xFC00707F, 0x64004057),
     (VMSLTU_VX, VMSLTU_VX, misa_V, 0xFC00707F, 0x68004057),
     (VMSLT_VX, VMSLT_VX, misa_V, 0xFC00707F, 0x6C004057),
     (VMSLEU_VX, VMSLEU_VX, misa_V, 0xFC00707F, 0x70004057),
     (VMSLE_VX, VMSLE_VX, misa_V, 0xFC00707F, 0x74004057),
     (VMSGTU_VX, VMSGTU_VX, misa_V, 0xFC00707F, 0x78004057),
     (VMSGT_VX, VMSGT_VX, misa_V, 0xFC00707F, 0x7C004057),
     (VMINU_VX, VMINU_VX, misa_V, 0xFC00707F, 0x10004057),
     (VMIN_VX, VMIN_VX, misa_V, 0xFC00707F, 0x14004057),
     (VMAXU_VX, VMAXU_VX, misa_V, 0xFC00707F, 0x18004057),
     (VMAX_VX, VMAX_VX, misa_V, 0xFC00707F, 0x1C004057),
     (VMERGE_VXM, VMERGE_VXM, misa_V, 0xFE00707F, 0x5C004057),
     (VMV_V_X, VMV_V_X, misa_V, 0xFE00707F, 0x5E004057),
     (VSADDU_VX, VSADDU_VX, misa_V, 0xFC00707F, 0x80004057),
     (VSADD_VX, VSADD_VX, misa_V, 0xFC00707F, 0x84004057),
     (VSSUBU_VX, VSSUBU_VX, misa_V, 0xFC00707F, 0x88004057),
     (VSSUB_VX, VSSUB_VX, misa_V, 0xFC00707F, 0x8C004057),
     (VSMUL_VX, VSMUL_VX, misa_V, 0xFC00707F, 0x9C004057),
     (VSSRL_VX, VSSRL_VX, misa_V, 0xFC00707F, 0xA8004057),
     (VSSRA_VX, VSSRA_VX, misa_V, 0xFC00707F, 0xAC004057),
     (VNCLIPU_WX, VNCLIPU_WX, misa_V, 0xFC00707F, 0xB8004057),
     (VNCLIP_WX, VNCLIP_WX, misa_V, 0xFC00707F, 0xBC004057),
     (VSLIDEUP_VX, VSLIDEUP_VX, misa_V, 0xFC00707F, 0x38004057),
     (VSLIDEDOWN_VX, VSLIDEDOWN_VX, misa_V, 0xFC00707F, 0x3C004057),
     (VRGATHER_VX, VRGATHER_VX, misa_V, 0xFC00707F, 0x30004057)]"

definition rows_OP_87_funct3_2 :: "encoding list" where
  "rows_OP_87_funct3_2 =
    [(VWADD_VV, VWADD_VV, misa_V, 0xFC00707F, 0xC4002057),
     (VWSUB_VV, VWSUB_VV, misa_V, 0xFC00707F, 0xCC002057),
     (VWADDU_VV, VWADDU_VV, misa_V, 0xFC00707F, 0xC0002057),
     (VWSUBU_VV, VWSUBU_VV, misa_V, 0xFC00707F, 0xC8002057),
     (VWADD_WV, VWADD_WV, misa_V, 0xFC00707F, 0xD4002057),
     (VWSUB_WV, VWSUB_WV, misa_V, 0xFC00707F, 0xDC002057),
     (VWADDU_WV, VWADDU_WV, misa_V, 0xFC00707F, 0xD0002057),
     (VWSUBU_WV, VWSUBU_WV, misa_V, 0xFC00707F, 0xD8002057),
     (VZEXT_VF2, VZEXT_VF2, misa_V, 0xFC0FF07F, 0x48032057),
     (VSEXT_VF2, VSEXT_VF2, misa_V, 0xFC0FF07F, 0x4803A057),
     (VZEXT_VF4, VZEXT_VF4, misa_V, 0xFC0FF07F, 0x48022057),
     (VSEXT_VF4, VSEXT_VF4, misa_V, 0xFC0FF07F, 0x4802A057),
     (VZEXT_VF8, VZEXT_VF8, misa_V, 0xFC0FF07F, 0x48012057),
     (VSEXT_VF8, VSEXT_VF8, misa_V, 0xFC0FF07F, 0x4801A057),
     (VMUL_VV, VMUL_VV, misa_V, 0xFC00707F, 0x94002057),
     (VMULH_VV, VMULH_VV, misa_V, 0xFC00707F, 0x9C002057),
     (VMULHU_VV, VMULHU_VV, misa_V, 0xFC00707F, 0x90002057),
     (VMULHSU_VV, VMULHSU_VV, misa_V, 0xFC00707F, 0x98002057),
     (VDIVU_VV, VDIVU_VV, misa_V, 0xFC00707F, 0x80002057),
     (VDIV_VV, VDIV_VV, misa_V, 0xFC00707F, 0x84002057),
     (VREMU_VV, VREMU_VV, misa_V, 0xFC00707F, 0x88002057),
     (VREM_VV, VREM_VV, misa_V, 0xFC00707F, 0x8C002057),
     (VWMUL_VV, VWMUL_VV, misa_V, 0xFC00707F, 0xEC002057),
     (VWMULU_VV, VWMULU_VV, misa_V, 0xFC00707F, 0xE0002057),
     (VWMULSU_VV, VWMULSU_VV, misa_V, 0xFC00707F, 0xE8002057),
     (VMACC_VV, VMACC_VV, misa_V, 0xFC00707F, 0xB4002057),
     (VNMSAC_VV, VNMSAC_VV, misa_V, 0xFC00707F, 0xBC002057),
     (VMADD_VV, VMADD_VV, misa_V, 0xFC00707F, 0xA4002057),
     (VNMSUB_VV, VNMSUB_VV, misa_V, 0xFC00707F, 0xAC002057),
     (VWMACCU_VV, VWMACCU_VV, misa_V, 0xFC00707F, 0xF0002057),
     (VWMACC_VV, VWMACC_VV, misa_V, 0xFC00707F, 0xF4002057),
     (VWMACCSU_VV, VWMACCSU_VV, misa_V, 0xFC00707F, 0xFC002057),
     (VAADDU_VV, VAADDU_VV, misa_V, 0xFC00707F, 0x20002057),
     (VAADD_VV, VAADD_VV, misa_V, 0xFC00707F, 0x24002057),
     (VASUBU_VV, VASUBU_VV, misa_V, 0xFC00707F, 0x28002057),
     (VASUB_VV, VASUB_VV, misa_V, 0xFC00707F, 0x2C002057),
     (VREDSUM_VS, VREDSUM_VS, misa_V, 0xFC00707F, 0x2057),
     (VREDMAXU_VS, VREDMAXU_VS, misa_V, 0xFC00707F, 0x18002057),
     (VREDMAX_VS, VREDMAX_VS, misa_V, 0xFC00707F, 0x1C002057),
     (VREDMINU_VS, VREDMINU_VS, misa_V, 0xFC00707F, 0x10002057),
     (VREDMIN_VS, VREDMIN_VS, misa_V, 0xFC00707F, 0x14002057),
     (VREDAND_VS, VREDAND_VS, misa_V, 0xFC00707F, 0x4002057),
     (VREDOR_VS, VREDOR_VS, misa_V, 0xFC00707F, 0x8002057),
     (VREDXOR_VS, VREDXOR_VS, misa_V, 0xFC00707F, 0xC002057),
     (VMAND_MM, VMAND_MM, misa_V, 0xFC00707F, 0x64002057),
     (VMNAND_MM, VMNAND_MM, misa_V, 0xFC00707F, 0x74002057),
     (VMANDN_MM, VMANDN_MM, misa_V, 0xFC00707F, 0x60002057),
     (VMXOR_MM, VMXOR_MM, misa_V, 0xFC00707F, 0x6C002057),
     (VMOR_MM, VMOR_MM, misa_V, 0xFC00707F, 0x68002057),
     (VMNOR_MM, VMNOR_MM, misa_V, 0xFC00707F, 0x78002057),
     (VMORN_MM, VMORN_MM, misa_V, 0xFC00707F, 0x70002057),
     (VMXNOR_MM, VMXNOR_MM, misa_V, 0xFC00707F, 0x7C002057),
     (VCPOP_M, VCPOP_M, misa_V, 0xFC0FF07F, 0x40082057),
     (VFIRST_M, VFIRST_M, misa_V, 0xFC0FF07F, 0x4008A057),
     (VMV_X_S, VMV_X_S, misa_V, 0xFC0FF07F, 0x40002057),
     (VMSBF_M, VMSBF_M, misa_V, 0xFC0FF07F, 0x5000A057),
     (VMSIF_M, VMSIF_M, misa_V, 0xFC0FF07F, 0x5001A057),
     (VMSOF_M, VMSOF_M, misa_V, 0xFC0FF07F, 0x50012057),
     (VIOTA_M, VIOTA_M, misa_V, 0xFC0FF07F, 0x50082057),
     (VID_V, VID_V, misa_V, 0xFC0FF07F, 0x5008A057),
     (VCOMPRESS_VM, VCOMPRESS_VM, misa_V, 0xFC00707F, 0x5C002057)]"

definition rows_OP_87_funct3_6 :: "encoding list" where
  "rows_OP_87_funct3_6 =
    [(VWADD_VX, VWADD_VX, misa_V, 0xFC00707F, 0xC4006057),
     (VWSUB_VX, VWSUB_VX, misa_V, 0xFC00707F, 0xCC006057),
     (VWADDU_VX, VWADDU_VX, misa_V, 0xFC00707F, 0xC0006057),
     (VWSUBU_VX, VWSUBU_VX, misa_V, 0xFC00707F, 0xC8006057),
     (VWADD_WX, VWADD_WX, misa_V, 0xFC00707F, 0xD4006057),
     (VWSUB_WX, VWSUB_WX, misa_V, 0xFC00707F, 0xDC006057),
     (VWADDU_WX, VWADDU_WX, misa_V, 0xFC00707F, 0xD0006057),
     (VWSUBU_WX, VWSUBU_WX, misa_V, 0xFC00707F, 0xD8006057),
     (VMUL_VX, VMUL_VX, misa_V, 0xFC00707F, 0x94006057),
     (VMULH_VX, VMULH_VX, misa_V, 0xFC00707F, 0x9C006057),
     (VMULHU_VX, VMULHU_VX, misa_V, 0xFC00707F, 0x90006057),
     (VMULHSU_VX, VMULHSU_VX, misa_V, 0xFC00707F, 0x98006057),
     (VDIVU_VX, VDIVU_VX, misa_V, 0xFC00707F, 0x80006057),
     (VDIV_VX, VDIV_VX, misa_V, 0xFC00707F, 0x84006057),
     (VREMU_VX, VREMU_VX, misa_V, 0xFC00707F, 0x88006057),
     (VREM_VX, VREM_VX, misa_V, 0xFC00707F, 0x8C006057),
     (VWMUL_VX, VWMUL_VX, misa_V, 0xFC00707F, 0xEC006057),
     (VWMULU_VX, VWMULU_VX, misa_V, 0xFC00707F, 0xE0006057),
     (VWMULSU_VX, VWMULSU_VX, misa_V, 0xFC00707F, 0xE8006057),
     (VMACC_VX, VMACC_VX, misa_V, 0xFC00707F, 0xB4006057),
     (VNMSAC_VX, VNMSAC_VX, misa_V, 0xFC00707F, 0xBC006057),
     (VMADD_VX, VMADD_VX, misa_V, 0xFC00707F, 0xA4006057),
     (VNMSUB_VX, VNMSUB_VX, misa_V, 0xFC00707F, 0xAC006057),
     (VWMACCU_VX, VWMACCU_VX, misa_V, 0xFC00707F, 0xF0006057),
     (VWMACC_VX, VWMACC_VX, misa_V, 0xFC00707F, 0xF4006057),
     (VWMACCSU_VX, VWMACCSU_VX, misa_V, 0xFC00707F, 0xFC006057),
     (VWMACCUS_VX, VWMACCUS_VX, misa_V, 0xFC00707F, 0xF8006057),
     (VAADDU_VX, VAADDU_VX, misa_V, 0xFC00707F, 0x20006057),
     (VAADD_VX, VAADD_VX, misa_V, 0xFC00707F, 0x24006057),
     (VASUBU_VX, VASUBU_VX, misa_V, 0xFC00707F, 0x28006057),
     (VASUB_VX, VASUB_VX, misa_V, 0xFC00707F, 0x2C006057),
     (VMV_S_X, VMV_S_X, misa_V, 0xFDF0707F, 0x40006057),
     (VSLIDE1UP_VX, VSLIDE1UP_VX, misa_V, 0xFC00707F, 0x38006057),
     (VSLIDE1DOWN_VX, VSLIDE1DOWN_VX, misa_V, 0xFC00707F, 0x3C006057)]"

definition rows_OP_87_funct3_1_funct6_18 :: "encoding list" where
  "rows_OP_87_funct3_1_funct6_18 =
    [(VFCVT_XU_F_V, VFCVT_XU_F_V, misa_V, 0xFC0FF07F, 0x48001057),
     (VFCVT_X_F_V, VFCVT_X_F_V, misa_V, 0xFC0FF07F, 0x48009057),
     (VFCVT_RTZ_XU_F_V, VFCVT_RTZ_XU_F_V, misa_V, 0xFC0FF07F, 0x48031057),
     (VFCVT_RTZ_X_F_V, VFCVT_RTZ_X_F_V, misa_V, 0xFC0FF07F, 0x48039057),
     (VFCVT_F_XU_V, VFCVT_F_XU_V, misa_V, 0xFC0FF07F, 0x48011057),
     (VFCVT_F_X_V, VFCVT_F_X_V, misa_V, 0xFC0FF07F, 0x48019057),
     (VFWCVT_XU_F_V, VFWCVT_XU_F_V, misa_V, 0xFC0FF07F, 0x48041057),
     (VFWCVT_X_F_V, VFWCVT_X_F_V, misa_V, 0xFC0FF07F, 0x48049057),
     (VFWCVT_RTZ_XU_F_V, VFWCVT_RTZ_XU_F_V, misa_V, 0xFC0FF07F, 0x48071057),
     (VFWCVT_RTZ_X_F_V, VFWCVT_RTZ_X_F_V, misa_V, 0xFC0FF07F, 0x48079057),
     (VFWCVT_F_XU_V, VFWCVT_F_XU_V, misa_V, 0xFC0FF07F, 0x48051057),
     (VFWCVT_F_X_V, VFWCVT_F_X_V, misa_V, 0xFC0FF07F, 0x48059057),
     (VFWCVT_F_F_V, VFWCVT_F_F_V, misa_V, 0xFC0FF07F, 0x48061057),
     (VFNCVT_XU_F_W, VFNCVT_XU_F_W, misa_V, 0xFC0FF07F, 0x48081057),
     (VFNCVT_X_F_W, VFNCVT_X_F_W, misa_V, 0xFC0FF07F, 0x48089057),
     (VFNCVT_RTZ_XU_F_W, VFNCVT_RTZ_XU_F_W, misa_V, 0xFC0FF07F, 0x480B1057),
     (VFNCVT_RTZ_X_F_W, VFNCVT_RTZ_X_F_W, misa_V, 0xFC0FF07F, 0x480B9057),
     (VFNCVT_F_XU_W, VFNCVT_F_XU_W, misa_V, 0xFC0FF07F, 0x48091057),
     (VFNCVT_F_X_W, VFNCVT_F_X_W, misa_V, 0xFC0FF07F, 0x48099057),
     (VFNCVT_F_F_W, VFNCVT_F_F_W, misa_V, 0xFC0FF07F, 0x480A1057),
     (VFNCVT_ROD_F_F_W, VFNCVT_ROD_F_F_W, misa_V, 0xFC0FF07F, 0x480A9057)]"

definition rows_OP_87_funct3_1 :: "encoding list" where
  "rows_OP_87_funct3_1 =
    [(VFADD_VV, VFADD_VV, misa_V, 0xFC00707F, 0x1057),
     (VFSUB_VV, VFSUB_VV, misa_V, 0xFC00707F, 0x8001057),
     (VFWADD_VV, VFWADD_VV, misa_V, 0xFC00707F, 0xC0001057),
     (VFWSUB_VV, VFWSUB_VV, misa_V, 0xFC00707F, 0xC8001057),
     (VFWADD_WV, VFWADD_WV, misa_V, 0xFC00707F, 0xD0001057),
     (VFWSUB_WV, VFWSUB_WV, misa_V, 0xFC00707F, 0xD8001057),
     (VFMUL_VV, VFMUL_VV, misa_V, 0xFC00707F, 0x90001057),
     (VFDIV_VV, VFDIV_VV, misa_V, 0xFC00707F, 0x80001057),
     (VFWMUL_VV, VFWMUL_VV, misa_V, 0xFC00707F, 0xE0001057),
     (VFMACC_VV, VFMACC_VV, misa_V, 0xFC00707F, 0xB0001057),
     (VFNMACC_VV, VFNMACC_VV, misa_V, 0xFC00707F, 0xB4001057),
     (VFMSAC_VV, VFMSAC_VV, misa_V, 0xFC00707F, 0xB8001057),
     (VFNMSAC_VV, VFNMSAC_VV, misa_V, 0xFC00707F, 0xBC001057),
     (VFMADD_VV, VFMADD_VV, misa_V, 0xFC00707F, 0xA0001057),
     (VFNMADD_VV, VFNMADD_VV, misa_V, 0xFC00707F, 0xA4001057),
     (VFMSUB_VV, VFMSUB_VV, misa_V, 0xFC00707F, 0xA8001057),
     (VFNMSUB_VV, VFNMSUB_VV, misa_V, 0xFC00707F, 0xAC001057),
     (VFWMACC_VV, VFWMACC_VV, misa_V, 0xFC00707F, 0xF0001057),
     (VFWNMACC_VV, VFWNMACC_VV, misa_V, 0xFC00707F, 0xF4001057),
     (VFWMSAC_VV, VFWMSAC_VV, misa_V, 0xFC00707F, 0xF8001057),
     (VFWNMSAC_VV, VFWNMSAC_VV, misa_V, 0xFC00707F, 0xFC001057),
     (VFSQRT_V, VFSQRT_V, misa_V, 0xFC0FF07F, 0x4C001057),
     (VFRSQRT7_V, VFRSQRT7_V, misa_V, 0xFC0FF07F, 0x4C021057),
     (VFREC7_V, VFREC7_V, misa_V, 0xFC0FF07F, 0x4C029057),
     (VFCLASS_V, VFCLASS_V, misa_V, 0xFC0FF07F, 0x4C081057),
     (VFMIN_VV, VFMIN_VV, misa_V, 0xFC00707F, 0x10001057),
     (VFMAX_VV, VFMAX_VV, misa_V, 0xFC00707F, 0x18001057),
     (VFSGNJ_VV, VFSGNJ_VV, misa_V, 0xFC00707F, 0x20001057),
     (VFSGNJN_VV, VFSGNJN_VV, misa_V, 0xFC00707F, 0x24001057),
     (VFSGNJX_VV, VFSGNJX_VV, misa_V, 0xFC00707F, 0x28001057),
     (VMFEQ_VV, VMFEQ_VV, misa_V, 0xFC00707F, 0x60001057),
     (VMFNE_VV, VMFNE_VV, misa_V, 0xFC00707F, 0x70001057),
     (VMFLT_VV, VMFLT_VV, misa_V, 0xFC00707F, 0x6C001057),
     (VMFLE_VV, VMFLE_VV, misa_V, 0xFC00707F, 0x64001057),
     (VFREDUSUM_VS, VFREDUSUM_VS, misa_V, 0xFC00707F, 0x4001057),
     (VFREDOSUM_VS, VFREDOSUM_VS, misa_V, 0xFC00707F, 0xC001057),
     (VFREDMAX_VS, VFREDMAX_VS, misa_V, 0xFC00707F, 0x1C001057),
     (VFREDMIN_VS, VFREDMIN_VS, misa_V, 0xFC00707F, 0x14001057),
     (VFWREDUSUM_VS, VFWREDUSUM_VS, misa_V, 0xFC00707F, 0xC4001057),
     (VFWREDOSUM_VS, VFWREDOSUM_VS, misa_V, 0xFC00707F, 0xCC001057),
     (VFMV_F_S, VFMV_F_S, misa_V, 0xFC0FF07F, 0x40001057)]"

definition rows_OP_87_funct3_5 :: "encoding list" where
  "rows_OP_87_funct3_5 =
    [(VFADD_VF, VFADD_VF, misa_V, 0xFC00707F, 0x5057),
     (VFSUB_VF, VFSUB_VF, misa_V, 0xFC00707F, 0x8005057),
     (VFRSUB_VF, VFRSUB_VF, misa_V, 0xFC00707F, 0x9C005057),
     (VFWADD_VF, VFWADD_VF, misa_V, 0xFC00707F, 0xC0005057),
     (VFWSUB_VF, VFWSUB_VF, misa_V, 0xFC00707F, 0xC8005057),
     (VFWADD_WF, VFWADD_WF, misa_V, 0xFC00707F, 0xD0005057),
     (VFWSUB_WF, VFWSUB_WF, misa_V, 0xFC00707F, 0xD8005057),
     (VFMUL_VF, VFMUL_VF, misa_V, 0xFC00707F, 0x90005057),
     (VFDIV_VF, VFDIV_VF, misa_V, 0xFC00707F, 0x80005057),
     (VFRDIV_VF, VFRDIV_VF, misa_V, 0xFC00707F, 0x84005057),
     (VFWMUL_VF, VFWMUL_VF, misa_V, 0xFC00707F, 0xE0005057),
     (VFMACC_VF, VFMACC_VF, misa_V, 0xFC00707F, 0xB0005057),
     (VFNMACC_VF, VFNMACC_VF, misa_V, 0xFC00707F, 0xB4005057),
     (VFMSAC_VF, VFMSAC_VF, misa_V, 0xFC00707F, 0xB8005057),
     (VFNMSAC_VF, VFNMSAC_VF, misa_V, 0xFC00707F, 0xBC005057),
     (VFMADD_VF, VFMADD_VF, misa_V, 0xFC00707F, 0xA0005057),
     (VFNMADD_VF, VFNMADD_VF, misa_V, 0xFC00707F, 0xA4005057),
     (VFMSUB_VF, VFMSUB_VF, misa_V, 0xFC00707F, 0xA8005057),
     (VFNMSUB_VF, VFNMSUB_VF, misa_V, 0xFC00707F, 0xAC005057),
     (VFWMACC_VF, VFWMACC_VF, misa_V, 0xFC00707F, 0xF0005057),
     (VFWNMACC_VF, VFWNMACC_VF, misa_V, 0xFC00707F, 0xF4005057),
     (VFWMSAC_VF, VFWMSAC_VF, misa_V, 0xFC00707F, 0xF8005057),
     (VFWNMSAC_VF, VFWNMSAC_VF, misa_V, 0xFC00707F, 0xFC005057),
     (VFMIN_VF, VFMIN_VF, misa_V, 0xFC00707F, 0x10005057),
     (VFMAX_VF, VFMAX_VF, misa_V, 0xFC00707F, 0x18005057),
     (VFSGNJ_VF, VFSGNJ_VF, misa_V, 0xFC00707F, 0x20005057),
     (VFSGNJN_VF, VFSGNJN_VF, misa_V, 0xFC00707F, 0x24005057),
     (VFSGNJX_VF, VFSGNJX_VF, misa_V, 0xFC00707F, 0x28005057),
     (VMFEQ_VF, VMFEQ_VF, misa_V, 0xFC00707F, 0x60005057),
     (VMFNE_VF, VMFNE_VF, misa_V, 0xFC00707F, 0x70005057),
     (VMFLT_VF, VMFLT_VF, misa_V, 0xFC00707F, 0x6C005057),
     (VMFLE_VF, VMFLE_VF, misa_V, 0xFC00707F, 0x64005057),
     (VMFGT_VF, VMFGT_VF, misa_V, 0xFC00707F, 0x74005057),
     (VMFGE_VF, VMFGE_VF, misa_V, 0xFC00707F, 0x7C005057),
     (VFMERGE_VFM, VFMERGE_VFM, misa_V, 0xFE00707F, 0x5C005057),
     (VFMV_V_F, VFMV_V_F, misa_V, 0xFE00707F, 0x5E005057),
     (VFMV_S_F, VFMV_S_F, misa_V, 0xFDF0707F, 0x40005057),
     (VFSLIDE1UP_VF, VFSLIDE1UP_VF, misa_V, 0xFC00707F, 0x38005057),
     (VFSLIDE1DOWN_VF, VFSLIDE1DOWN_VF, misa_V, 0xFC00707F, 0x3C005057)]"

definition rows_OP_87 :: "encoding list" where
  "rows_OP_87 =
    [(VSETVLI, VSETVLI, misa_V, 0x8000707F, 0x7057),
     (VSETIVLI, VSETIVLI, misa_V, 0xC000707F, 0xC0007057),
     (VSETVL, VSETVL, misa_V, 0xC000707F, 0x80007057)]"

definition encodings :: "Architecture \<Rightarrow> encoding list" where
  "encodings arch = rows_OP_LUI @
     rows_OP_AUIPC @
     rows_OP_JAL @
     rows_OP_JALR @
     rows_OP_BEQ @
     rows_OP_LB @
     rows_OP_SB @
     rows_OP_ADDI_common @
     rows_OP_ADDIW @
     rows_OP_ADD @
     rows_OP_ADDW @
     rows_OP_FENCE @
     rows_OP_ECALL @
     rows_OP_AMO @
     rows_OP_FMADD_S @
     rows_OP_FADD_S @
     rows_OP_FLW_funct3_0_mew_0_mop_0 @
     rows_OP_FLW_funct3_0_mew_0 @
     rows_OP_FLW_funct3_5_mew_0_mop_0 @
     rows_OP_FLW_funct3_5_mew_0 @
     rows_OP_FLW_funct3_6_mew_0_mop_0 @
     rows_OP_FLW_funct3_6_mew_0 @
     rows_OP_FLW_funct3_7_mew_0_mop_0 @
     rows_OP_FLW_funct3_7_mew_0 @
     rows_OP_FLW @
     rows_OP_FSW_funct3_0_mew_0_mop_0 @
     rows_OP_FSW_funct3_0_mew_0 @
     rows_OP_FSW_funct3_5_mew_0 @
     rows_OP_FSW_funct3_6_mew_0 @
     rows_OP_FSW_funct3_7_mew_0 @
     rows_OP_FSW @
     rows_OP_FMSUB_S @
     rows_OP_FNMSUB_S @
     rows_OP_FNMADD_S @
     rows_OP_87_funct3_0 @
     rows_OP_87_funct3_3 @
     rows_OP_87_funct3_4 @
     rows_OP_87_funct3_2 @
     rows_OP_87_funct3_6 @
     rows_OP_87_funct3_1_funct6_18 @
     rows_OP_87_funct3_1 @
     rows_OP_87_funct3_5 @
     rows_OP_87 @
     (if arch = RV32 then rows_OP_ADDI_RV32 else rows_OP_ADDI_RV64)"

end
