(* ===== verification/VP_DecodeSpec.thy ===== *)
theory VP_DecodeSpec
  imports VP_Decode VP_Encodings
begin

text \<open>
  The nested switches of \<^verbatim>\<open>Instruction::decode_normal\<close> implement the flat table of
  \<open>VP_Encodings\<close>: every word that matches a row is decoded to that row's operation
  (completeness), and every operation the decoder returns is the operation of a row the word matches
  (soundness). Rows are checked one by one: that \<open>w\<close> agrees with an encoding on a mask fixes every
  instruction field the mask covers.
\<close>

section \<open>Instruction fields as masked shifts\<close>

lemma switch_on_weak_cong [cong]: "x = y \<Longrightarrow> switch_on x cs d = switch_on y cs d"
  by simp

lemma match_field:
  assumes "w AND m = (e :: u32)" "m AND f = f"
  shows "w AND f = e AND f"
  using assms by (metis and.assoc)

lemma signed_slice:
  assumes "lower \<le> upper" "upper < 31"
  shows "signed_drop_bit lower (BIT_RANGE (w :: u32) upper lower) =
    drop_bit lower (BIT_RANGE w upper lower)"
  using bit_BIT_SLICE_s [of lower upper w] bit_BIT_SLICE_u [of lower upper w] assms
  by (intro bit_eqI) (simp add: BIT_SLICE_s_def BIT_SLICE_u_def)

lemma signed_single:
  assumes "pos < 31"
  shows "BIT_SINGLE_P1_s (w :: u32) pos = drop_bit pos (w AND push_bit pos 1)"
  using bit_BIT_SINGLE_P1_s [of pos w] bit_BIT_SINGLE_P1_u [of w pos] assms
  by (intro bit_eqI) (simp add: BIT_SINGLE_P1_u_def BIT_SINGLE_def)

lemma field_opcode: "opcode w = drop_bit 0 (w AND 0x7F)"
  by (simp add: opcode_def BIT_RANGE_def mask_eq_exp_minus_1)

lemma field_funct5: "funct5 w = drop_bit 27 (w AND 0xF8000000)"
  by (simp add: funct5_def BIT_RANGE_def mask_eq_exp_minus_1)

lemma field_funct6: "funct6 w = drop_bit 26 (w AND 0xFC000000)"
  by (simp add: funct6_def BIT_RANGE_def mask_eq_exp_minus_1)

lemma field_funct7: "funct7 w = drop_bit 25 (w AND 0xFE000000)"
  by (simp add: funct7_def BIT_RANGE_def mask_eq_exp_minus_1)

lemma field_funct12: "funct12 w = drop_bit 20 (w AND 0xFFF00000)"
  by (simp add: funct12_def BIT_RANGE_def mask_eq_exp_minus_1)

lemma field_nf: "nf w = drop_bit 29 (w AND 0xE0000000)"
  by (simp add: nf_def BIT_RANGE_def mask_eq_exp_minus_1)

lemma field_funct3: "funct3 w = drop_bit 12 (w AND 0x7000)"
  unfolding funct3_def by (subst signed_slice) (simp_all add: BIT_RANGE_def mask_eq_exp_minus_1)

lemma field_funct2: "funct2 w = drop_bit 25 (w AND 0x6000000)"
  unfolding funct2_def by (subst signed_slice) (simp_all add: BIT_RANGE_def mask_eq_exp_minus_1)

lemma field_rs2: "rs2 w = drop_bit 20 (w AND 0x1F00000)"
  unfolding rs2_def by (subst signed_slice) (simp_all add: BIT_RANGE_def mask_eq_exp_minus_1)

lemma field_mop: "mop w = drop_bit 26 (w AND 0xC000000)"
  unfolding mop_def by (subst signed_slice) (simp_all add: BIT_RANGE_def mask_eq_exp_minus_1)

lemma field_lusumop: "lusumop w = drop_bit 20 (w AND 0x1F00000)"
  unfolding lusumop_def by (subst signed_slice) (simp_all add: BIT_RANGE_def mask_eq_exp_minus_1)

lemma field_rs1: "rs1 w = drop_bit 15 (w AND 0xF8000)"
  unfolding rs1_def by (subst signed_slice) (simp_all add: BIT_RANGE_def mask_eq_exp_minus_1)

lemma field_mew: "mew w = drop_bit 28 (w AND 0x10000000)"
  by (simp add: mew_def signed_single)

lemma field_vm: "vm w = drop_bit 25 (w AND 0x2000000)"
  by (simp add: vm_def signed_single)

lemma field_bhigh2: "bhigh2 w = drop_bit 30 (w AND 0x40000000)"
  by (simp add: bhigh2_def signed_single)

lemma field_bhigh: "bhigh w = drop_bit 31 (w AND 0x80000000)"
  by (simp add: bhigh_def BIT_SINGLE_P1_u_def BIT_SINGLE_def)

lemmas fields =
  field_opcode field_funct3 field_funct2 field_funct5 field_funct6 field_funct7 field_funct12 field_rs2
  field_lusumop field_rs1 field_mew field_mop field_nf field_vm field_bhigh field_bhigh2

section \<open>What a row of the table promises\<close>

fun enc_matches :: "u32 \<Rightarrow> encoding \<Rightarrow> bool" where
  "enc_matches w (op, opz, ext, m, e) \<longleftrightarrow> w AND m = e"

fun enc_result :: "u64 \<Rightarrow> u32 \<Rightarrow> encoding \<Rightarrow> OpId" where
  "enc_result cfg w (op, opz, ext, m, e) =
     (if ext \<noteq> 0 \<and> cfg AND ext = 0 then UNSUP else if rd w \<noteq> 0 then op else opz)"

definition decodes :: "Architecture \<Rightarrow> encoding \<Rightarrow> bool" where
  "decodes arch r \<longleftrightarrow>
     (\<forall>cfg w. enc_matches w r \<longrightarrow> decode_normal arch cfg w = enc_result cfg w r)"

definition fixes_field :: "u32 \<Rightarrow> u32 \<Rightarrow> nat \<Rightarrow> u32 \<Rightarrow> u32 \<Rightarrow> bool" where
  "fixes_field m e k f x \<longleftrightarrow> (m AND f = f \<longrightarrow> unat x = unat (drop_bit k (e AND f)))"

lemma fixes_fieldI:
  assumes "w AND m = e" "x = drop_bit k (w AND f)"
  shows "fixes_field m e k f x"
  using assms match_field [of w m e f] by (auto simp only: fixes_field_def)

text \<open>
  To check a row it is enough to decode a word whose covered fields have the row's values.
\<close>

lemma decodesI_scalar:
  assumes "\<And>cfg w. \<lbrakk>w AND m = e;
     fixes_field m e 0 0x7F (opcode w);
     fixes_field m e 12 0x7000 (funct3 w);
     fixes_field m e 25 0x6000000 (funct2 w);
     fixes_field m e 27 0xF8000000 (funct5 w);
     fixes_field m e 26 0xFC000000 (funct6 w);
     fixes_field m e 25 0xFE000000 (funct7 w);
     fixes_field m e 20 0xFFF00000 (funct12 w);
     fixes_field m e 20 0x1F00000 (rs2 w)\<rbrakk>
     \<Longrightarrow> decode_normal arch cfg w = enc_result cfg w (op, opz, ext, m, e)"
  shows "decodes arch (op, opz, ext, m, e)"
  unfolding decodes_def enc_matches.simps
  by (intro allI impI assms fixes_fieldI; (assumption | rule fields))

lemma decodesI_vmem:
  assumes "\<And>cfg w. \<lbrakk>w AND m = e;
     fixes_field m e 0 0x7F (opcode w);
     fixes_field m e 12 0x7000 (funct3 w);
     fixes_field m e 28 0x10000000 (mew w);
     fixes_field m e 26 0xC000000 (mop w);
     fixes_field m e 29 0xE0000000 (nf w);
     fixes_field m e 20 0x1F00000 (lusumop w)\<rbrakk>
     \<Longrightarrow> decode_normal arch cfg w = enc_result cfg w (op, opz, ext, m, e)"
  shows "decodes arch (op, opz, ext, m, e)"
  unfolding decodes_def enc_matches.simps
  by (intro allI impI assms fixes_fieldI; (assumption | rule fields))

lemma decodesI_varith:
  assumes "\<And>cfg w. \<lbrakk>w AND m = e;
     fixes_field m e 0 0x7F (opcode w);
     fixes_field m e 12 0x7000 (funct3 w);
     fixes_field m e 26 0xFC000000 (funct6 w);
     fixes_field m e 25 0x2000000 (vm w);
     fixes_field m e 15 0xF8000 (rs1 w);
     fixes_field m e 20 0x1F00000 (lusumop w);
     fixes_field m e 31 0x80000000 (bhigh w);
     fixes_field m e 30 0x40000000 (bhigh2 w)\<rbrakk>
     \<Longrightarrow> decode_normal arch cfg w = enc_result cfg w (op, opz, ext, m, e)"
  shows "decodes arch (op, opz, ext, m, e)"
  unfolding decodes_def enc_matches.simps
  by (intro allI impI assms fixes_fieldI; (assumption | rule fields))

lemma list_all_NilI: "list_all P []"
  by simp

lemma list_all_ConsI: "P x \<Longrightarrow> list_all P xs \<Longrightarrow> list_all P (x # xs)"
  by simp

text \<open>
  \<^verbatim>\<open>funct12\<close> extends \<^verbatim>\<open>funct7\<close>; the source relies on it in the \<^verbatim>\<open>default\<close> label that decodes
  \<^verbatim>\<open>SFENCE.VMA\<close>.
\<close>

lemma funct12_div: "unat (funct12 w) div 32 = unat (funct7 w)"
proof -
  have "funct7 w = drop_bit 5 (funct12 w)"
    by (rule bit_eqI)
      (auto simp: funct7_def funct12_def bit_simps bit_BIT_RANGE dest: bit_imp_le_length)
  then show ?thesis
    by (simp only: unat_drop_bit_eq) (simp add: drop_bit_eq_div)
qed

lemma funct12_neq: "unat (funct7 w) \<noteq> k div 32 \<Longrightarrow> (unat (funct12 w) = k) = False"
  using funct12_div [of w] by auto

lemmas leaf_defs = match_instr_def REQUIRE_ISA_def fixes_field_def decode_normal_def

section \<open>Completeness\<close>

lemma complete_OP_LUI: "list_all (decodes arch) rows_OP_LUI"
  unfolding rows_OP_LUI_def
  by (intro list_all_ConsI list_all_NilI decodesI_scalar; simp add: leaf_defs decode_OP_LUI_def)

lemma complete_OP_AUIPC: "list_all (decodes arch) rows_OP_AUIPC"
  unfolding rows_OP_AUIPC_def
  by (intro list_all_ConsI list_all_NilI decodesI_scalar; simp add: leaf_defs decode_OP_AUIPC_def)

lemma complete_OP_JAL: "list_all (decodes arch) rows_OP_JAL"
  unfolding rows_OP_JAL_def
  by (intro list_all_ConsI list_all_NilI decodesI_scalar; simp add: leaf_defs decode_OP_JAL_def)

lemma complete_OP_JALR: "list_all (decodes arch) rows_OP_JALR"
  unfolding rows_OP_JALR_def
  by (intro list_all_ConsI list_all_NilI decodesI_scalar; simp add: leaf_defs decode_OP_JALR_def)

lemma complete_OP_BEQ: "list_all (decodes arch) rows_OP_BEQ"
  unfolding rows_OP_BEQ_def
  by (intro list_all_ConsI list_all_NilI decodesI_scalar; simp add: leaf_defs decode_OP_BEQ_def)

lemma complete_OP_LB: "list_all (decodes arch) rows_OP_LB"
  unfolding rows_OP_LB_def
  by (intro list_all_ConsI list_all_NilI decodesI_scalar; simp add: leaf_defs decode_OP_LB_def)

lemma complete_OP_SB: "list_all (decodes arch) rows_OP_SB"
  unfolding rows_OP_SB_def
  by (intro list_all_ConsI list_all_NilI decodesI_scalar; simp add: leaf_defs decode_OP_SB_def)

lemma complete_OP_ADDI_common: "list_all (decodes arch) rows_OP_ADDI_common"
  unfolding rows_OP_ADDI_common_def
  by (intro list_all_ConsI list_all_NilI decodesI_scalar; simp add: leaf_defs decode_OP_ADDI_def)

lemma complete_OP_ADDI_RV32: "list_all (decodes RV32) rows_OP_ADDI_RV32"
  unfolding rows_OP_ADDI_RV32_def
  by (intro list_all_ConsI list_all_NilI decodesI_scalar; simp add: leaf_defs decode_OP_ADDI_def)

lemma complete_OP_ADDI_RV64: "list_all (decodes RV64) rows_OP_ADDI_RV64"
  unfolding rows_OP_ADDI_RV64_def
  by (intro list_all_ConsI list_all_NilI decodesI_scalar; simp add: leaf_defs decode_OP_ADDI_def)

lemma complete_OP_ADDI_RV64_128: "list_all (decodes RV128) rows_OP_ADDI_RV64"
  unfolding rows_OP_ADDI_RV64_def
  by (intro list_all_ConsI list_all_NilI decodesI_scalar; simp add: leaf_defs decode_OP_ADDI_def)

lemma complete_OP_ADDIW: "list_all (decodes arch) rows_OP_ADDIW"
  unfolding rows_OP_ADDIW_def
  by (intro list_all_ConsI list_all_NilI decodesI_scalar; simp add: leaf_defs decode_OP_ADDIW_def)

lemma complete_OP_ADD: "list_all (decodes arch) rows_OP_ADD"
  unfolding rows_OP_ADD_def
  by (intro list_all_ConsI list_all_NilI decodesI_scalar; simp add: leaf_defs decode_OP_ADD_def)

lemma complete_OP_ADDW: "list_all (decodes arch) rows_OP_ADDW"
  unfolding rows_OP_ADDW_def
  by (intro list_all_ConsI list_all_NilI decodesI_scalar; simp add: leaf_defs decode_OP_ADDW_def)

lemma complete_OP_FENCE: "list_all (decodes arch) rows_OP_FENCE"
  unfolding rows_OP_FENCE_def
  by (intro list_all_ConsI list_all_NilI decodesI_scalar; simp add: leaf_defs decode_OP_FENCE_def)

lemma complete_OP_ECALL: "list_all (decodes arch) rows_OP_ECALL"
  unfolding rows_OP_ECALL_def
  by (intro list_all_ConsI list_all_NilI decodesI_scalar; simp add: leaf_defs decode_OP_ECALL_def funct12_neq)

lemma complete_OP_AMO: "list_all (decodes arch) rows_OP_AMO"
  unfolding rows_OP_AMO_def
  by (intro list_all_ConsI list_all_NilI decodesI_scalar; simp add: leaf_defs decode_OP_AMO_def)

lemma complete_OP_FMADD_S: "list_all (decodes arch) rows_OP_FMADD_S"
  unfolding rows_OP_FMADD_S_def
  by (intro list_all_ConsI list_all_NilI decodesI_scalar; simp add: leaf_defs decode_OP_FMADD_S_def)

lemma complete_OP_FADD_S: "list_all (decodes arch) rows_OP_FADD_S"
  unfolding rows_OP_FADD_S_def
  by (intro list_all_ConsI list_all_NilI decodesI_scalar; simp add: leaf_defs decode_OP_FADD_S_def)

lemma complete_OP_FLW_funct3_0_mew_0_mop_0: "list_all (decodes arch) rows_OP_FLW_funct3_0_mew_0_mop_0"
  unfolding rows_OP_FLW_funct3_0_mew_0_mop_0_def
  by (intro list_all_ConsI list_all_NilI decodesI_vmem; simp add: leaf_defs decode_OP_FLW_funct3_0_mew_0_mop_0_def decode_OP_FLW_funct3_0_mew_0_def decode_OP_FLW_funct3_0_def decode_OP_FLW_def)

lemma complete_OP_FLW_funct3_0_mew_0: "list_all (decodes arch) rows_OP_FLW_funct3_0_mew_0"
  unfolding rows_OP_FLW_funct3_0_mew_0_def
  by (intro list_all_ConsI list_all_NilI decodesI_vmem; simp add: leaf_defs decode_OP_FLW_funct3_0_mew_0_def decode_OP_FLW_funct3_0_def decode_OP_FLW_def)

lemma complete_OP_FLW_funct3_5_mew_0_mop_0: "list_all (decodes arch) rows_OP_FLW_funct3_5_mew_0_mop_0"
  unfolding rows_OP_FLW_funct3_5_mew_0_mop_0_def
  by (intro list_all_ConsI list_all_NilI decodesI_vmem; simp add: leaf_defs decode_OP_FLW_funct3_5_mew_0_mop_0_def decode_OP_FLW_funct3_5_mew_0_def decode_OP_FLW_funct3_5_def decode_OP_FLW_def)

lemma complete_OP_FLW_funct3_5_mew_0: "list_all (decodes arch) rows_OP_FLW_funct3_5_mew_0"
  unfolding rows_OP_FLW_funct3_5_mew_0_def
  by (intro list_all_ConsI list_all_NilI decodesI_vmem; simp add: leaf_defs decode_OP_FLW_funct3_5_mew_0_def decode_OP_FLW_funct3_5_def decode_OP_FLW_def)

lemma complete_OP_FLW_funct3_6_mew_0_mop_0: "list_all (decodes arch) rows_OP_FLW_funct3_6_mew_0_mop_0"
  unfolding rows_OP_FLW_funct3_6_mew_0_mop_0_def
  by (intro list_all_ConsI list_all_NilI decodesI_vmem; simp add: leaf_defs decode_OP_FLW_funct3_6_mew_0_mop_0_def decode_OP_FLW_funct3_6_mew_0_def decode_OP_FLW_funct3_6_def decode_OP_FLW_def)

lemma complete_OP_FLW_funct3_6_mew_0: "list_all (decodes arch) rows_OP_FLW_funct3_6_mew_0"
  unfolding rows_OP_FLW_funct3_6_mew_0_def
  by (intro list_all_ConsI list_all_NilI decodesI_vmem; simp add: leaf_defs decode_OP_FLW_funct3_6_mew_0_def decode_OP_FLW_funct3_6_def decode_OP_FLW_def)

lemma complete_OP_FLW_funct3_7_mew_0_mop_0: "list_all (decodes arch) rows_OP_FLW_funct3_7_mew_0_mop_0"
  unfolding rows_OP_FLW_funct3_7_mew_0_mop_0_def
  by (intro list_all_ConsI list_all_NilI decodesI_vmem; simp add: leaf_defs decode_OP_FLW_funct3_7_mew_0_mop_0_def decode_OP_FLW_funct3_7_mew_0_def decode_OP_FLW_funct3_7_def decode_OP_FLW_def)

lemma complete_OP_FLW_funct3_7_mew_0: "list_all (decodes arch) rows_OP_FLW_funct3_7_mew_0"
  unfolding rows_OP_FLW_funct3_7_mew_0_def
  by (intro list_all_ConsI list_all_NilI decodesI_vmem; simp add: leaf_defs decode_OP_FLW_funct3_7_mew_0_def decode_OP_FLW_funct3_7_def decode_OP_FLW_def)

lemma complete_OP_FLW: "list_all (decodes arch) rows_OP_FLW"
  unfolding rows_OP_FLW_def
  by (intro list_all_ConsI list_all_NilI decodesI_vmem; simp add: leaf_defs decode_OP_FLW_def)

lemma complete_OP_FSW_funct3_0_mew_0_mop_0: "list_all (decodes arch) rows_OP_FSW_funct3_0_mew_0_mop_0"
  unfolding rows_OP_FSW_funct3_0_mew_0_mop_0_def
  by (intro list_all_ConsI list_all_NilI decodesI_vmem; simp add: leaf_defs decode_OP_FSW_funct3_0_mew_0_mop_0_def decode_OP_FSW_funct3_0_mew_0_def decode_OP_FSW_funct3_0_def decode_OP_FSW_def)

lemma complete_OP_FSW_funct3_0_mew_0: "list_all (decodes arch) rows_OP_FSW_funct3_0_mew_0"
  unfolding rows_OP_FSW_funct3_0_mew_0_def
  by (intro list_all_ConsI list_all_NilI decodesI_vmem; simp add: leaf_defs decode_OP_FSW_funct3_0_mew_0_def decode_OP_FSW_funct3_0_def decode_OP_FSW_def)

lemma complete_OP_FSW_funct3_5_mew_0: "list_all (decodes arch) rows_OP_FSW_funct3_5_mew_0"
  unfolding rows_OP_FSW_funct3_5_mew_0_def
  by (intro list_all_ConsI list_all_NilI decodesI_vmem; simp add: leaf_defs decode_OP_FSW_funct3_5_mew_0_def decode_OP_FSW_funct3_5_def decode_OP_FSW_def)

lemma complete_OP_FSW_funct3_6_mew_0: "list_all (decodes arch) rows_OP_FSW_funct3_6_mew_0"
  unfolding rows_OP_FSW_funct3_6_mew_0_def
  by (intro list_all_ConsI list_all_NilI decodesI_vmem; simp add: leaf_defs decode_OP_FSW_funct3_6_mew_0_def decode_OP_FSW_funct3_6_def decode_OP_FSW_def)

lemma complete_OP_FSW_funct3_7_mew_0: "list_all (decodes arch) rows_OP_FSW_funct3_7_mew_0"
  unfolding rows_OP_FSW_funct3_7_mew_0_def
  by (intro list_all_ConsI list_all_NilI decodesI_vmem; simp add: leaf_defs decode_OP_FSW_funct3_7_mew_0_def decode_OP_FSW_funct3_7_def decode_OP_FSW_def)

lemma complete_OP_FSW: "list_all (decodes arch) rows_OP_FSW"
  unfolding rows_OP_FSW_def
  by (intro list_all_ConsI list_all_NilI decodesI_vmem; simp add: leaf_defs decode_OP_FSW_def)

lemma complete_OP_FMSUB_S: "list_all (decodes arch) rows_OP_FMSUB_S"
  unfolding rows_OP_FMSUB_S_def
  by (intro list_all_ConsI list_all_NilI decodesI_scalar; simp add: leaf_defs decode_OP_FMSUB_S_def)

lemma complete_OP_FNMSUB_S: "list_all (decodes arch) rows_OP_FNMSUB_S"
  unfolding rows_OP_FNMSUB_S_def
  by (intro list_all_ConsI list_all_NilI decodesI_scalar; simp add: leaf_defs decode_OP_FNMSUB_S_def)

lemma complete_OP_FNMADD_S: "list_all (decodes arch) rows_OP_FNMADD_S"
  unfolding rows_OP_FNMADD_S_def
  by (intro list_all_ConsI list_all_NilI decodesI_scalar; simp add: leaf_defs decode_OP_FNMADD_S_def)

lemma complete_OP_87_funct3_0: "list_all (decodes arch) rows_OP_87_funct3_0"
  unfolding rows_OP_87_funct3_0_def
  by (intro list_all_ConsI list_all_NilI decodesI_varith; simp add: leaf_defs decode_OP_87_funct3_0_def decode_OP_87_def)

lemma complete_OP_87_funct3_3: "list_all (decodes arch) rows_OP_87_funct3_3"
  unfolding rows_OP_87_funct3_3_def
  by (intro list_all_ConsI list_all_NilI decodesI_varith; simp add: leaf_defs decode_OP_87_funct3_3_def decode_OP_87_def)

lemma complete_OP_87_funct3_4: "list_all (decodes arch) rows_OP_87_funct3_4"
  unfolding rows_OP_87_funct3_4_def
  by (intro list_all_ConsI list_all_NilI decodesI_varith; simp add: leaf_defs decode_OP_87_funct3_4_def decode_OP_87_def)

lemma complete_OP_87_funct3_2: "list_all (decodes arch) rows_OP_87_funct3_2"
  unfolding rows_OP_87_funct3_2_def
  by (intro list_all_ConsI list_all_NilI decodesI_varith; simp add: leaf_defs decode_OP_87_funct3_2_def decode_OP_87_def)

lemma complete_OP_87_funct3_6: "list_all (decodes arch) rows_OP_87_funct3_6"
  unfolding rows_OP_87_funct3_6_def
  by (intro list_all_ConsI list_all_NilI decodesI_varith; simp add: leaf_defs decode_OP_87_funct3_6_def decode_OP_87_def)

lemma complete_OP_87_funct3_1_funct6_18: "list_all (decodes arch) rows_OP_87_funct3_1_funct6_18"
  unfolding rows_OP_87_funct3_1_funct6_18_def
  by (intro list_all_ConsI list_all_NilI decodesI_varith; simp add: leaf_defs decode_OP_87_funct3_1_funct6_18_def decode_OP_87_funct3_1_def decode_OP_87_def)

lemma complete_OP_87_funct3_1: "list_all (decodes arch) rows_OP_87_funct3_1"
  unfolding rows_OP_87_funct3_1_def
  by (intro list_all_ConsI list_all_NilI decodesI_varith; simp add: leaf_defs decode_OP_87_funct3_1_def decode_OP_87_def)

lemma complete_OP_87_funct3_5: "list_all (decodes arch) rows_OP_87_funct3_5"
  unfolding rows_OP_87_funct3_5_def
  by (intro list_all_ConsI list_all_NilI decodesI_varith; simp add: leaf_defs decode_OP_87_funct3_5_def decode_OP_87_def)

lemma complete_OP_87: "list_all (decodes arch) rows_OP_87"
  unfolding rows_OP_87_def
  by (intro list_all_ConsI list_all_NilI decodesI_varith; simp add: leaf_defs decode_OP_87_def)

section \<open>Soundness\<close>

text \<open>The extension bits the decoder tests.\<close>

definition decoder_exts :: "u64 list" where
  "decoder_exts = [misa_A, misa_D, misa_F, misa_M, misa_V, Zfh]"

definition missing_ext :: "u64 \<Rightarrow> bool" where
  "missing_ext cfg \<longleftrightarrow> (\<exists>ext\<in>set decoder_exts. cfg AND ext = 0)"

lemma decoder_exts_intros:
  "misa_A \<in> set decoder_exts" "misa_D \<in> set decoder_exts" "misa_F \<in> set decoder_exts"
  "misa_M \<in> set decoder_exts" "misa_V \<in> set decoder_exts" "Zfh \<in> set decoder_exts"
  by (simp_all add: decoder_exts_def)

definition sound_for :: "u64 \<Rightarrow> u32 \<Rightarrow> encoding list \<Rightarrow> OpId \<Rightarrow> bool" where
  "sound_for cfg w rows r \<longleftrightarrow> r = UNDEF \<or> r = UNSUP \<and> missing_ext cfg \<or>
     (\<exists>row\<in>set rows. enc_matches w row \<and> r = enc_result cfg w row)"

lemma sound_UNDEF: "sound_for cfg w rows UNDEF"
  by (simp add: sound_for_def)

lemma sound_leaf:
  "(op, opz, 0, m, e) \<in> set rows \<Longrightarrow> sound_for cfg w rows (match_instr w m e op opz)"
  by (force simp: sound_for_def match_instr_def)

lemma sound_required:
  "(op, opz, ext, m, e) \<in> set rows \<Longrightarrow> ext \<in> set decoder_exts \<Longrightarrow>
     sound_for cfg w rows (REQUIRE_ISA cfg ext (match_instr w m e op opz))"
  by (force simp: sound_for_def match_instr_def REQUIRE_ISA_def missing_ext_def)

lemma sound_if:
  "sound_for cfg w rows a \<Longrightarrow> sound_for cfg w rows b \<Longrightarrow> sound_for cfg w rows (if c then a else b)"
  by simp

lemma sound_required_if:
  "sound_for cfg w rows (REQUIRE_ISA cfg ext a) \<Longrightarrow> sound_for cfg w rows (REQUIRE_ISA cfg ext b) \<Longrightarrow>
     sound_for cfg w rows (REQUIRE_ISA cfg ext (if c then a else b))"
  by simp

lemma sound_switch_Nil: "sound_for cfg w rows d \<Longrightarrow> sound_for cfg w rows (switch_on x [] d)"
  by simp

lemma sound_switch_Cons:
  "sound_for cfg w rows v \<Longrightarrow> sound_for cfg w rows (switch_on x cs d) \<Longrightarrow>
     sound_for cfg w rows (switch_on x ((k, v) # cs) d)"
  by simp

lemmas sound_structure =
  sound_UNDEF sound_switch_Nil sound_switch_Cons sound_required_if sound_if
  decoder_exts_intros

lemma sub_OP_LUI: "set rows_OP_LUI \<subseteq> set (encodings arch)"
  unfolding encodings_def set_append by blast

lemma sub_OP_AUIPC: "set rows_OP_AUIPC \<subseteq> set (encodings arch)"
  unfolding encodings_def set_append by blast

lemma sub_OP_JAL: "set rows_OP_JAL \<subseteq> set (encodings arch)"
  unfolding encodings_def set_append by blast

lemma sub_OP_JALR: "set rows_OP_JALR \<subseteq> set (encodings arch)"
  unfolding encodings_def set_append by blast

lemma sub_OP_BEQ: "set rows_OP_BEQ \<subseteq> set (encodings arch)"
  unfolding encodings_def set_append by blast

lemma sub_OP_LB: "set rows_OP_LB \<subseteq> set (encodings arch)"
  unfolding encodings_def set_append by blast

lemma sub_OP_SB: "set rows_OP_SB \<subseteq> set (encodings arch)"
  unfolding encodings_def set_append by blast

lemma sub_OP_ADDI_common: "set rows_OP_ADDI_common \<subseteq> set (encodings arch)"
  unfolding encodings_def set_append by blast

lemma sub_OP_ADDIW: "set rows_OP_ADDIW \<subseteq> set (encodings arch)"
  unfolding encodings_def set_append by blast

lemma sub_OP_ADD: "set rows_OP_ADD \<subseteq> set (encodings arch)"
  unfolding encodings_def set_append by blast

lemma sub_OP_ADDW: "set rows_OP_ADDW \<subseteq> set (encodings arch)"
  unfolding encodings_def set_append by blast

lemma sub_OP_FENCE: "set rows_OP_FENCE \<subseteq> set (encodings arch)"
  unfolding encodings_def set_append by blast

lemma sub_OP_ECALL: "set rows_OP_ECALL \<subseteq> set (encodings arch)"
  unfolding encodings_def set_append by blast

lemma sub_OP_AMO: "set rows_OP_AMO \<subseteq> set (encodings arch)"
  unfolding encodings_def set_append by blast

lemma sub_OP_FMADD_S: "set rows_OP_FMADD_S \<subseteq> set (encodings arch)"
  unfolding encodings_def set_append by blast

lemma sub_OP_FADD_S: "set rows_OP_FADD_S \<subseteq> set (encodings arch)"
  unfolding encodings_def set_append by blast

lemma sub_OP_FLW_funct3_0_mew_0_mop_0: "set rows_OP_FLW_funct3_0_mew_0_mop_0 \<subseteq> set (encodings arch)"
  unfolding encodings_def set_append by blast

lemma sub_OP_FLW_funct3_0_mew_0: "set rows_OP_FLW_funct3_0_mew_0 \<subseteq> set (encodings arch)"
  unfolding encodings_def set_append by blast

lemma sub_OP_FLW_funct3_5_mew_0_mop_0: "set rows_OP_FLW_funct3_5_mew_0_mop_0 \<subseteq> set (encodings arch)"
  unfolding encodings_def set_append by blast

lemma sub_OP_FLW_funct3_5_mew_0: "set rows_OP_FLW_funct3_5_mew_0 \<subseteq> set (encodings arch)"
  unfolding encodings_def set_append by blast

lemma sub_OP_FLW_funct3_6_mew_0_mop_0: "set rows_OP_FLW_funct3_6_mew_0_mop_0 \<subseteq> set (encodings arch)"
  unfolding encodings_def set_append by blast

lemma sub_OP_FLW_funct3_6_mew_0: "set rows_OP_FLW_funct3_6_mew_0 \<subseteq> set (encodings arch)"
  unfolding encodings_def set_append by blast

lemma sub_OP_FLW_funct3_7_mew_0_mop_0: "set rows_OP_FLW_funct3_7_mew_0_mop_0 \<subseteq> set (encodings arch)"
  unfolding encodings_def set_append by blast

lemma sub_OP_FLW_funct3_7_mew_0: "set rows_OP_FLW_funct3_7_mew_0 \<subseteq> set (encodings arch)"
  unfolding encodings_def set_append by blast

lemma sub_OP_FLW: "set rows_OP_FLW \<subseteq> set (encodings arch)"
  unfolding encodings_def set_append by blast

lemma sub_OP_FSW_funct3_0_mew_0_mop_0: "set rows_OP_FSW_funct3_0_mew_0_mop_0 \<subseteq> set (encodings arch)"
  unfolding encodings_def set_append by blast

lemma sub_OP_FSW_funct3_0_mew_0: "set rows_OP_FSW_funct3_0_mew_0 \<subseteq> set (encodings arch)"
  unfolding encodings_def set_append by blast

lemma sub_OP_FSW_funct3_5_mew_0: "set rows_OP_FSW_funct3_5_mew_0 \<subseteq> set (encodings arch)"
  unfolding encodings_def set_append by blast

lemma sub_OP_FSW_funct3_6_mew_0: "set rows_OP_FSW_funct3_6_mew_0 \<subseteq> set (encodings arch)"
  unfolding encodings_def set_append by blast

lemma sub_OP_FSW_funct3_7_mew_0: "set rows_OP_FSW_funct3_7_mew_0 \<subseteq> set (encodings arch)"
  unfolding encodings_def set_append by blast

lemma sub_OP_FSW: "set rows_OP_FSW \<subseteq> set (encodings arch)"
  unfolding encodings_def set_append by blast

lemma sub_OP_FMSUB_S: "set rows_OP_FMSUB_S \<subseteq> set (encodings arch)"
  unfolding encodings_def set_append by blast

lemma sub_OP_FNMSUB_S: "set rows_OP_FNMSUB_S \<subseteq> set (encodings arch)"
  unfolding encodings_def set_append by blast

lemma sub_OP_FNMADD_S: "set rows_OP_FNMADD_S \<subseteq> set (encodings arch)"
  unfolding encodings_def set_append by blast

lemma sub_OP_87_funct3_0: "set rows_OP_87_funct3_0 \<subseteq> set (encodings arch)"
  unfolding encodings_def set_append by blast

lemma sub_OP_87_funct3_3: "set rows_OP_87_funct3_3 \<subseteq> set (encodings arch)"
  unfolding encodings_def set_append by blast

lemma sub_OP_87_funct3_4: "set rows_OP_87_funct3_4 \<subseteq> set (encodings arch)"
  unfolding encodings_def set_append by blast

lemma sub_OP_87_funct3_2: "set rows_OP_87_funct3_2 \<subseteq> set (encodings arch)"
  unfolding encodings_def set_append by blast

lemma sub_OP_87_funct3_6: "set rows_OP_87_funct3_6 \<subseteq> set (encodings arch)"
  unfolding encodings_def set_append by blast

lemma sub_OP_87_funct3_1_funct6_18: "set rows_OP_87_funct3_1_funct6_18 \<subseteq> set (encodings arch)"
  unfolding encodings_def set_append by blast

lemma sub_OP_87_funct3_1: "set rows_OP_87_funct3_1 \<subseteq> set (encodings arch)"
  unfolding encodings_def set_append by blast

lemma sub_OP_87_funct3_5: "set rows_OP_87_funct3_5 \<subseteq> set (encodings arch)"
  unfolding encodings_def set_append by blast

lemma sub_OP_87: "set rows_OP_87 \<subseteq> set (encodings arch)"
  unfolding encodings_def set_append by blast

lemma sub_OP_ADDI_RV32: "arch = RV32 \<Longrightarrow> set rows_OP_ADDI_RV32 \<subseteq> set (encodings arch)"
  unfolding encodings_def set_append by auto

lemma sub_OP_ADDI_RV64: "arch \<noteq> RV32 \<Longrightarrow> set rows_OP_ADDI_RV64 \<subseteq> set (encodings arch)"
  unfolding encodings_def set_append by auto

lemma sound_OP_LUI: "sound_for cfg w (encodings arch) (decode_OP_LUI arch cfg w)"
  unfolding decode_OP_LUI_def
  by (intro sound_structure sound_leaf [OF subsetD [OF sub_OP_LUI]]
      sound_required [OF subsetD [OF sub_OP_LUI]]; unfold rows_OP_LUI_def; intro list.set_intros)

lemma sound_OP_AUIPC: "sound_for cfg w (encodings arch) (decode_OP_AUIPC arch cfg w)"
  unfolding decode_OP_AUIPC_def
  by (intro sound_structure sound_leaf [OF subsetD [OF sub_OP_AUIPC]]
      sound_required [OF subsetD [OF sub_OP_AUIPC]]; unfold rows_OP_AUIPC_def; intro list.set_intros)

lemma sound_OP_JAL: "sound_for cfg w (encodings arch) (decode_OP_JAL arch cfg w)"
  unfolding decode_OP_JAL_def
  by (intro sound_structure sound_leaf [OF subsetD [OF sub_OP_JAL]]
      sound_required [OF subsetD [OF sub_OP_JAL]]; unfold rows_OP_JAL_def; intro list.set_intros)

lemma sound_OP_JALR: "sound_for cfg w (encodings arch) (decode_OP_JALR arch cfg w)"
  unfolding decode_OP_JALR_def
  by (intro sound_structure sound_leaf [OF subsetD [OF sub_OP_JALR]]
      sound_required [OF subsetD [OF sub_OP_JALR]]; unfold rows_OP_JALR_def; intro list.set_intros)

lemma sound_OP_BEQ: "sound_for cfg w (encodings arch) (decode_OP_BEQ arch cfg w)"
  unfolding decode_OP_BEQ_def
  by (intro sound_structure sound_leaf [OF subsetD [OF sub_OP_BEQ]]
      sound_required [OF subsetD [OF sub_OP_BEQ]]; unfold rows_OP_BEQ_def; intro list.set_intros)

lemma sound_OP_LB: "sound_for cfg w (encodings arch) (decode_OP_LB arch cfg w)"
  unfolding decode_OP_LB_def
  by (intro sound_structure sound_leaf [OF subsetD [OF sub_OP_LB]]
      sound_required [OF subsetD [OF sub_OP_LB]]; unfold rows_OP_LB_def; intro list.set_intros)

lemma sound_OP_SB: "sound_for cfg w (encodings arch) (decode_OP_SB arch cfg w)"
  unfolding decode_OP_SB_def
  by (intro sound_structure sound_leaf [OF subsetD [OF sub_OP_SB]]
      sound_required [OF subsetD [OF sub_OP_SB]]; unfold rows_OP_SB_def; intro list.set_intros)

lemma sound_OP_ADDI: "sound_for cfg w (encodings arch) (decode_OP_ADDI arch cfg w)"
proof (cases "arch = RV32")
  case True
  then show ?thesis
    unfolding decode_OP_ADDI_def if_P [OF True]
    by (intro sound_structure sound_leaf)
      (rule subsetD [OF sub_OP_ADDI_common] subsetD [OF sub_OP_ADDI_RV32 [OF True]],
       unfold rows_OP_ADDI_common_def rows_OP_ADDI_RV32_def, (intro list.set_intros; fail))+
next
  case False
  then show ?thesis
    unfolding decode_OP_ADDI_def if_not_P [OF False]
    by (intro sound_structure sound_leaf)
      (rule subsetD [OF sub_OP_ADDI_common] subsetD [OF sub_OP_ADDI_RV64 [OF False]],
       unfold rows_OP_ADDI_common_def rows_OP_ADDI_RV64_def, (intro list.set_intros; fail))+
qed

lemma sound_OP_ADDIW: "sound_for cfg w (encodings arch) (decode_OP_ADDIW arch cfg w)"
  unfolding decode_OP_ADDIW_def
  by (intro sound_structure sound_leaf [OF subsetD [OF sub_OP_ADDIW]]
      sound_required [OF subsetD [OF sub_OP_ADDIW]]; unfold rows_OP_ADDIW_def; intro list.set_intros)

lemma sound_OP_ADD: "sound_for cfg w (encodings arch) (decode_OP_ADD arch cfg w)"
  unfolding decode_OP_ADD_def
  by (intro sound_structure sound_leaf [OF subsetD [OF sub_OP_ADD]]
      sound_required [OF subsetD [OF sub_OP_ADD]]; unfold rows_OP_ADD_def; intro list.set_intros)

lemma sound_OP_ADDW: "sound_for cfg w (encodings arch) (decode_OP_ADDW arch cfg w)"
  unfolding decode_OP_ADDW_def
  by (intro sound_structure sound_leaf [OF subsetD [OF sub_OP_ADDW]]
      sound_required [OF subsetD [OF sub_OP_ADDW]]; unfold rows_OP_ADDW_def; intro list.set_intros)

lemma sound_OP_FENCE: "sound_for cfg w (encodings arch) (decode_OP_FENCE arch cfg w)"
  unfolding decode_OP_FENCE_def
  by (intro sound_structure sound_leaf [OF subsetD [OF sub_OP_FENCE]]
      sound_required [OF subsetD [OF sub_OP_FENCE]]; unfold rows_OP_FENCE_def; intro list.set_intros)

lemma sound_OP_ECALL: "sound_for cfg w (encodings arch) (decode_OP_ECALL arch cfg w)"
  unfolding decode_OP_ECALL_def
  by (intro sound_structure sound_leaf [OF subsetD [OF sub_OP_ECALL]]
      sound_required [OF subsetD [OF sub_OP_ECALL]]; unfold rows_OP_ECALL_def; intro list.set_intros)

lemma sound_OP_AMO: "sound_for cfg w (encodings arch) (decode_OP_AMO arch cfg w)"
  unfolding decode_OP_AMO_def
  by (intro sound_structure sound_leaf [OF subsetD [OF sub_OP_AMO]]
      sound_required [OF subsetD [OF sub_OP_AMO]]; unfold rows_OP_AMO_def; intro list.set_intros)

lemma sound_OP_FMADD_S: "sound_for cfg w (encodings arch) (decode_OP_FMADD_S arch cfg w)"
  unfolding decode_OP_FMADD_S_def
  by (intro sound_structure sound_leaf [OF subsetD [OF sub_OP_FMADD_S]]
      sound_required [OF subsetD [OF sub_OP_FMADD_S]]; unfold rows_OP_FMADD_S_def; intro list.set_intros)

lemma sound_OP_FADD_S: "sound_for cfg w (encodings arch) (decode_OP_FADD_S arch cfg w)"
  unfolding decode_OP_FADD_S_def
  by (intro sound_structure sound_leaf [OF subsetD [OF sub_OP_FADD_S]]
      sound_required [OF subsetD [OF sub_OP_FADD_S]]; unfold rows_OP_FADD_S_def; intro list.set_intros)

lemma sound_OP_FLW_funct3_0_mew_0_mop_0: "sound_for cfg w (encodings arch) (decode_OP_FLW_funct3_0_mew_0_mop_0 arch cfg w)"
  unfolding decode_OP_FLW_funct3_0_mew_0_mop_0_def
  by (intro sound_structure sound_leaf [OF subsetD [OF sub_OP_FLW_funct3_0_mew_0_mop_0]]
      sound_required [OF subsetD [OF sub_OP_FLW_funct3_0_mew_0_mop_0]]; unfold rows_OP_FLW_funct3_0_mew_0_mop_0_def; intro list.set_intros)

lemma sound_OP_FLW_funct3_0_mew_0: "sound_for cfg w (encodings arch) (decode_OP_FLW_funct3_0_mew_0 arch cfg w)"
  unfolding decode_OP_FLW_funct3_0_mew_0_def
  by (intro sound_structure sound_OP_FLW_funct3_0_mew_0_mop_0 sound_leaf [OF subsetD [OF sub_OP_FLW_funct3_0_mew_0]]
      sound_required [OF subsetD [OF sub_OP_FLW_funct3_0_mew_0]]; unfold rows_OP_FLW_funct3_0_mew_0_def; intro list.set_intros)

lemma sound_OP_FLW_funct3_0: "sound_for cfg w (encodings arch) (decode_OP_FLW_funct3_0 arch cfg w)"
  unfolding decode_OP_FLW_funct3_0_def
  by (intro sound_structure sound_OP_FLW_funct3_0_mew_0)

lemma sound_OP_FLW_funct3_5_mew_0_mop_0: "sound_for cfg w (encodings arch) (decode_OP_FLW_funct3_5_mew_0_mop_0 arch cfg w)"
  unfolding decode_OP_FLW_funct3_5_mew_0_mop_0_def
  by (intro sound_structure sound_leaf [OF subsetD [OF sub_OP_FLW_funct3_5_mew_0_mop_0]]
      sound_required [OF subsetD [OF sub_OP_FLW_funct3_5_mew_0_mop_0]]; unfold rows_OP_FLW_funct3_5_mew_0_mop_0_def; intro list.set_intros)

lemma sound_OP_FLW_funct3_5_mew_0: "sound_for cfg w (encodings arch) (decode_OP_FLW_funct3_5_mew_0 arch cfg w)"
  unfolding decode_OP_FLW_funct3_5_mew_0_def
  by (intro sound_structure sound_OP_FLW_funct3_5_mew_0_mop_0 sound_leaf [OF subsetD [OF sub_OP_FLW_funct3_5_mew_0]]
      sound_required [OF subsetD [OF sub_OP_FLW_funct3_5_mew_0]]; unfold rows_OP_FLW_funct3_5_mew_0_def; intro list.set_intros)

lemma sound_OP_FLW_funct3_5: "sound_for cfg w (encodings arch) (decode_OP_FLW_funct3_5 arch cfg w)"
  unfolding decode_OP_FLW_funct3_5_def
  by (intro sound_structure sound_OP_FLW_funct3_5_mew_0)

lemma sound_OP_FLW_funct3_6_mew_0_mop_0: "sound_for cfg w (encodings arch) (decode_OP_FLW_funct3_6_mew_0_mop_0 arch cfg w)"
  unfolding decode_OP_FLW_funct3_6_mew_0_mop_0_def
  by (intro sound_structure sound_leaf [OF subsetD [OF sub_OP_FLW_funct3_6_mew_0_mop_0]]
      sound_required [OF subsetD [OF sub_OP_FLW_funct3_6_mew_0_mop_0]]; unfold rows_OP_FLW_funct3_6_mew_0_mop_0_def; intro list.set_intros)

lemma sound_OP_FLW_funct3_6_mew_0: "sound_for cfg w (encodings arch) (decode_OP_FLW_funct3_6_mew_0 arch cfg w)"
  unfolding decode_OP_FLW_funct3_6_mew_0_def
  by (intro sound_structure sound_OP_FLW_funct3_6_mew_0_mop_0 sound_leaf [OF subsetD [OF sub_OP_FLW_funct3_6_mew_0]]
      sound_required [OF subsetD [OF sub_OP_FLW_funct3_6_mew_0]]; unfold rows_OP_FLW_funct3_6_mew_0_def; intro list.set_intros)

lemma sound_OP_FLW_funct3_6: "sound_for cfg w (encodings arch) (decode_OP_FLW_funct3_6 arch cfg w)"
  unfolding decode_OP_FLW_funct3_6_def
  by (intro sound_structure sound_OP_FLW_funct3_6_mew_0)

lemma sound_OP_FLW_funct3_7_mew_0_mop_0: "sound_for cfg w (encodings arch) (decode_OP_FLW_funct3_7_mew_0_mop_0 arch cfg w)"
  unfolding decode_OP_FLW_funct3_7_mew_0_mop_0_def
  by (intro sound_structure sound_leaf [OF subsetD [OF sub_OP_FLW_funct3_7_mew_0_mop_0]]
      sound_required [OF subsetD [OF sub_OP_FLW_funct3_7_mew_0_mop_0]]; unfold rows_OP_FLW_funct3_7_mew_0_mop_0_def; intro list.set_intros)

lemma sound_OP_FLW_funct3_7_mew_0: "sound_for cfg w (encodings arch) (decode_OP_FLW_funct3_7_mew_0 arch cfg w)"
  unfolding decode_OP_FLW_funct3_7_mew_0_def
  by (intro sound_structure sound_OP_FLW_funct3_7_mew_0_mop_0 sound_leaf [OF subsetD [OF sub_OP_FLW_funct3_7_mew_0]]
      sound_required [OF subsetD [OF sub_OP_FLW_funct3_7_mew_0]]; unfold rows_OP_FLW_funct3_7_mew_0_def; intro list.set_intros)

lemma sound_OP_FLW_funct3_7: "sound_for cfg w (encodings arch) (decode_OP_FLW_funct3_7 arch cfg w)"
  unfolding decode_OP_FLW_funct3_7_def
  by (intro sound_structure sound_OP_FLW_funct3_7_mew_0)

lemma sound_OP_FLW: "sound_for cfg w (encodings arch) (decode_OP_FLW arch cfg w)"
  unfolding decode_OP_FLW_def
  by (intro sound_structure sound_OP_FLW_funct3_0 sound_OP_FLW_funct3_5 sound_OP_FLW_funct3_6 sound_OP_FLW_funct3_7 sound_leaf [OF subsetD [OF sub_OP_FLW]]
      sound_required [OF subsetD [OF sub_OP_FLW]]; unfold rows_OP_FLW_def; intro list.set_intros)

lemma sound_OP_FSW_funct3_0_mew_0_mop_0: "sound_for cfg w (encodings arch) (decode_OP_FSW_funct3_0_mew_0_mop_0 arch cfg w)"
  unfolding decode_OP_FSW_funct3_0_mew_0_mop_0_def
  by (intro sound_structure sound_leaf [OF subsetD [OF sub_OP_FSW_funct3_0_mew_0_mop_0]]
      sound_required [OF subsetD [OF sub_OP_FSW_funct3_0_mew_0_mop_0]]; unfold rows_OP_FSW_funct3_0_mew_0_mop_0_def; intro list.set_intros)

lemma sound_OP_FSW_funct3_0_mew_0: "sound_for cfg w (encodings arch) (decode_OP_FSW_funct3_0_mew_0 arch cfg w)"
  unfolding decode_OP_FSW_funct3_0_mew_0_def
  by (intro sound_structure sound_OP_FSW_funct3_0_mew_0_mop_0 sound_leaf [OF subsetD [OF sub_OP_FSW_funct3_0_mew_0]]
      sound_required [OF subsetD [OF sub_OP_FSW_funct3_0_mew_0]]; unfold rows_OP_FSW_funct3_0_mew_0_def; intro list.set_intros)

lemma sound_OP_FSW_funct3_0: "sound_for cfg w (encodings arch) (decode_OP_FSW_funct3_0 arch cfg w)"
  unfolding decode_OP_FSW_funct3_0_def
  by (intro sound_structure sound_OP_FSW_funct3_0_mew_0)

lemma sound_OP_FSW_funct3_5_mew_0: "sound_for cfg w (encodings arch) (decode_OP_FSW_funct3_5_mew_0 arch cfg w)"
  unfolding decode_OP_FSW_funct3_5_mew_0_def
  by (intro sound_structure sound_leaf [OF subsetD [OF sub_OP_FSW_funct3_5_mew_0]]
      sound_required [OF subsetD [OF sub_OP_FSW_funct3_5_mew_0]]; unfold rows_OP_FSW_funct3_5_mew_0_def; intro list.set_intros)

lemma sound_OP_FSW_funct3_5: "sound_for cfg w (encodings arch) (decode_OP_FSW_funct3_5 arch cfg w)"
  unfolding decode_OP_FSW_funct3_5_def
  by (intro sound_structure sound_OP_FSW_funct3_5_mew_0)

lemma sound_OP_FSW_funct3_6_mew_0: "sound_for cfg w (encodings arch) (decode_OP_FSW_funct3_6_mew_0 arch cfg w)"
  unfolding decode_OP_FSW_funct3_6_mew_0_def
  by (intro sound_structure sound_leaf [OF subsetD [OF sub_OP_FSW_funct3_6_mew_0]]
      sound_required [OF subsetD [OF sub_OP_FSW_funct3_6_mew_0]]; unfold rows_OP_FSW_funct3_6_mew_0_def; intro list.set_intros)

lemma sound_OP_FSW_funct3_6: "sound_for cfg w (encodings arch) (decode_OP_FSW_funct3_6 arch cfg w)"
  unfolding decode_OP_FSW_funct3_6_def
  by (intro sound_structure sound_OP_FSW_funct3_6_mew_0)

lemma sound_OP_FSW_funct3_7_mew_0: "sound_for cfg w (encodings arch) (decode_OP_FSW_funct3_7_mew_0 arch cfg w)"
  unfolding decode_OP_FSW_funct3_7_mew_0_def
  by (intro sound_structure sound_leaf [OF subsetD [OF sub_OP_FSW_funct3_7_mew_0]]
      sound_required [OF subsetD [OF sub_OP_FSW_funct3_7_mew_0]]; unfold rows_OP_FSW_funct3_7_mew_0_def; intro list.set_intros)

lemma sound_OP_FSW_funct3_7: "sound_for cfg w (encodings arch) (decode_OP_FSW_funct3_7 arch cfg w)"
  unfolding decode_OP_FSW_funct3_7_def
  by (intro sound_structure sound_OP_FSW_funct3_7_mew_0)

lemma sound_OP_FSW: "sound_for cfg w (encodings arch) (decode_OP_FSW arch cfg w)"
  unfolding decode_OP_FSW_def
  by (intro sound_structure sound_OP_FSW_funct3_0 sound_OP_FSW_funct3_5 sound_OP_FSW_funct3_6 sound_OP_FSW_funct3_7 sound_leaf [OF subsetD [OF sub_OP_FSW]]
      sound_required [OF subsetD [OF sub_OP_FSW]]; unfold rows_OP_FSW_def; intro list.set_intros)

lemma sound_OP_FMSUB_S: "sound_for cfg w (encodings arch) (decode_OP_FMSUB_S arch cfg w)"
  unfolding decode_OP_FMSUB_S_def
  by (intro sound_structure sound_leaf [OF subsetD [OF sub_OP_FMSUB_S]]
      sound_required [OF subsetD [OF sub_OP_FMSUB_S]]; unfold rows_OP_FMSUB_S_def; intro list.set_intros)

lemma sound_OP_FNMSUB_S: "sound_for cfg w (encodings arch) (decode_OP_FNMSUB_S arch cfg w)"
  unfolding decode_OP_FNMSUB_S_def
  by (intro sound_structure sound_leaf [OF subsetD [OF sub_OP_FNMSUB_S]]
      sound_required [OF subsetD [OF sub_OP_FNMSUB_S]]; unfold rows_OP_FNMSUB_S_def; intro list.set_intros)

lemma sound_OP_FNMADD_S: "sound_for cfg w (encodings arch) (decode_OP_FNMADD_S arch cfg w)"
  unfolding decode_OP_FNMADD_S_def
  by (intro sound_structure sound_leaf [OF subsetD [OF sub_OP_FNMADD_S]]
      sound_required [OF subsetD [OF sub_OP_FNMADD_S]]; unfold rows_OP_FNMADD_S_def; intro list.set_intros)

lemma sound_OP_87_funct3_0: "sound_for cfg w (encodings arch) (decode_OP_87_funct3_0 arch cfg w)"
  unfolding decode_OP_87_funct3_0_def
  by (intro sound_structure sound_leaf [OF subsetD [OF sub_OP_87_funct3_0]]
      sound_required [OF subsetD [OF sub_OP_87_funct3_0]]; unfold rows_OP_87_funct3_0_def; intro list.set_intros)

lemma sound_OP_87_funct3_3: "sound_for cfg w (encodings arch) (decode_OP_87_funct3_3 arch cfg w)"
  unfolding decode_OP_87_funct3_3_def
  by (intro sound_structure sound_leaf [OF subsetD [OF sub_OP_87_funct3_3]]
      sound_required [OF subsetD [OF sub_OP_87_funct3_3]]; unfold rows_OP_87_funct3_3_def; intro list.set_intros)

lemma sound_OP_87_funct3_4: "sound_for cfg w (encodings arch) (decode_OP_87_funct3_4 arch cfg w)"
  unfolding decode_OP_87_funct3_4_def
  by (intro sound_structure sound_leaf [OF subsetD [OF sub_OP_87_funct3_4]]
      sound_required [OF subsetD [OF sub_OP_87_funct3_4]]; unfold rows_OP_87_funct3_4_def; intro list.set_intros)

lemma sound_OP_87_funct3_2: "sound_for cfg w (encodings arch) (decode_OP_87_funct3_2 arch cfg w)"
  unfolding decode_OP_87_funct3_2_def
  by (intro sound_structure sound_leaf [OF subsetD [OF sub_OP_87_funct3_2]]
      sound_required [OF subsetD [OF sub_OP_87_funct3_2]]; unfold rows_OP_87_funct3_2_def; intro list.set_intros)

lemma sound_OP_87_funct3_6: "sound_for cfg w (encodings arch) (decode_OP_87_funct3_6 arch cfg w)"
  unfolding decode_OP_87_funct3_6_def
  by (intro sound_structure sound_leaf [OF subsetD [OF sub_OP_87_funct3_6]]
      sound_required [OF subsetD [OF sub_OP_87_funct3_6]]; unfold rows_OP_87_funct3_6_def; intro list.set_intros)

lemma sound_OP_87_funct3_1_funct6_18: "sound_for cfg w (encodings arch) (decode_OP_87_funct3_1_funct6_18 arch cfg w)"
  unfolding decode_OP_87_funct3_1_funct6_18_def
  by (intro sound_structure sound_leaf [OF subsetD [OF sub_OP_87_funct3_1_funct6_18]]
      sound_required [OF subsetD [OF sub_OP_87_funct3_1_funct6_18]]; unfold rows_OP_87_funct3_1_funct6_18_def; intro list.set_intros)

lemma sound_OP_87_funct3_1: "sound_for cfg w (encodings arch) (decode_OP_87_funct3_1 arch cfg w)"
  unfolding decode_OP_87_funct3_1_def
  by (intro sound_structure sound_OP_87_funct3_1_funct6_18 sound_leaf [OF subsetD [OF sub_OP_87_funct3_1]]
      sound_required [OF subsetD [OF sub_OP_87_funct3_1]]; unfold rows_OP_87_funct3_1_def; intro list.set_intros)

lemma sound_OP_87_funct3_5: "sound_for cfg w (encodings arch) (decode_OP_87_funct3_5 arch cfg w)"
  unfolding decode_OP_87_funct3_5_def
  by (intro sound_structure sound_leaf [OF subsetD [OF sub_OP_87_funct3_5]]
      sound_required [OF subsetD [OF sub_OP_87_funct3_5]]; unfold rows_OP_87_funct3_5_def; intro list.set_intros)

lemma sound_OP_87: "sound_for cfg w (encodings arch) (decode_OP_87 arch cfg w)"
  unfolding decode_OP_87_def
  by (intro sound_structure sound_OP_87_funct3_0 sound_OP_87_funct3_3 sound_OP_87_funct3_4 sound_OP_87_funct3_2 sound_OP_87_funct3_6 sound_OP_87_funct3_1 sound_OP_87_funct3_5 sound_leaf [OF subsetD [OF sub_OP_87]]
      sound_required [OF subsetD [OF sub_OP_87]]; unfold rows_OP_87_def; intro list.set_intros)

lemma sound_decode_normal: "sound_for cfg w (encodings arch) (decode_normal arch cfg w)"
  unfolding decode_normal_def
  by (intro sound_structure
      sound_OP_LUI sound_OP_AUIPC sound_OP_JAL sound_OP_JALR sound_OP_BEQ
      sound_OP_LB sound_OP_SB sound_OP_ADDI sound_OP_ADDIW sound_OP_ADD
      sound_OP_ADDW sound_OP_FENCE sound_OP_ECALL sound_OP_AMO sound_OP_FMADD_S
      sound_OP_FADD_S sound_OP_FLW sound_OP_FSW sound_OP_FMSUB_S sound_OP_FNMSUB_S
      sound_OP_FNMADD_S sound_OP_87)

lemma complete_decode_normal: "list_all (decodes arch) (encodings arch)"
  unfolding encodings_def list_all_append
  by (cases arch)
    (simp_all add: complete_OP_LUI complete_OP_AUIPC complete_OP_JAL complete_OP_JALR complete_OP_BEQ
      complete_OP_LB complete_OP_SB complete_OP_ADDI_common complete_OP_ADDI_RV32 complete_OP_ADDI_RV64
      complete_OP_ADDI_RV64_128 complete_OP_ADDIW complete_OP_ADD complete_OP_ADDW complete_OP_FENCE
      complete_OP_ECALL complete_OP_AMO complete_OP_FMADD_S complete_OP_FADD_S complete_OP_FLW_funct3_0_mew_0_mop_0
      complete_OP_FLW_funct3_0_mew_0 complete_OP_FLW_funct3_5_mew_0_mop_0 complete_OP_FLW_funct3_5_mew_0 complete_OP_FLW_funct3_6_mew_0_mop_0 complete_OP_FLW_funct3_6_mew_0
      complete_OP_FLW_funct3_7_mew_0_mop_0 complete_OP_FLW_funct3_7_mew_0 complete_OP_FLW complete_OP_FSW_funct3_0_mew_0_mop_0 complete_OP_FSW_funct3_0_mew_0
      complete_OP_FSW_funct3_5_mew_0 complete_OP_FSW_funct3_6_mew_0 complete_OP_FSW_funct3_7_mew_0 complete_OP_FSW complete_OP_FMSUB_S
      complete_OP_FNMSUB_S complete_OP_FNMADD_S complete_OP_87_funct3_0 complete_OP_87_funct3_3 complete_OP_87_funct3_4
      complete_OP_87_funct3_2 complete_OP_87_funct3_6 complete_OP_87_funct3_1_funct6_18 complete_OP_87_funct3_1 complete_OP_87_funct3_5
      complete_OP_87)

section \<open>The decoder implements the table\<close>

text \<open>The reference decoder: search the table for a row the word matches.\<close>

definition decode_table :: "Architecture \<Rightarrow> u64 \<Rightarrow> u32 \<Rightarrow> OpId" where
  "decode_table arch cfg w =
     (case find (enc_matches w) (encodings arch) of None \<Rightarrow> UNDEF | Some r \<Rightarrow> enc_result cfg w r)"

lemma decode_row:
  "r \<in> set (encodings arch) \<Longrightarrow> enc_matches w r \<Longrightarrow> decode_normal arch cfg w = enc_result cfg w r"
  using complete_decode_normal [of arch] by (auto simp: list_all_iff decodes_def)

lemma decode_no_row:
  assumes "\<And>r. r \<in> set (encodings arch) \<Longrightarrow> \<not> enc_matches w r"
  shows "decode_normal arch cfg w = UNDEF \<or> decode_normal arch cfg w = UNSUP \<and> missing_ext cfg"
  using sound_decode_normal [of cfg w arch] assms by (auto simp: sound_for_def)

text \<open>
  C1. The decoder of 32-bit instructions (all 822 leaves of its nested switches) agrees with the flat
  table of instruction encodings on every word, for every architecture and extension configuration.
  The only difference is between two answers that both stand for an illegal instruction: on a word
  that matches no row the decoder may answer \<^verbatim>\<open>UNSUP\<close> instead of \<^verbatim>\<open>UNDEF\<close>, and only when an
  extension is disabled.
\<close>

theorem decode_normal_implements_table:
  "decode_normal arch cfg w = decode_table arch cfg w \<or>
   (decode_normal arch cfg w = UNSUP \<and> decode_table arch cfg w = UNDEF \<and> missing_ext cfg)"
proof (cases "find (enc_matches w) (encodings arch)")
  case None
  then have "\<not> enc_matches w r" if "r \<in> set (encodings arch)" for r
    using that by (metis find_None_iff)
  from decode_no_row [OF this] show ?thesis
    using None by (simp add: decode_table_def)
next
  case (Some r)
  then have "r \<in> set (encodings arch)" "enc_matches w r"
    by (metis find_Some_iff nth_mem)+
  then have "decode_normal arch cfg w = enc_result cfg w r"
    by (rule decode_row)
  with Some show ?thesis
    by (simp add: decode_table_def)
qed

end
