(* ===== verification/VP_Expand.thy ===== *)
theory VP_Expand
  imports VP_DecodeSpec
begin

text \<open>
  The compressed-instruction path of \<^verbatim>\<open>vp/src/core/common/instr.cpp\<close> against the rest of the decoder:
  what the encoders of \<^verbatim>\<open>InstructionFactory\<close> build is what the accessors of \<^verbatim>\<open>Instruction\<close> and
  \<^verbatim>\<open>decode_normal\<close> read back, and expanding a compressed instruction yields an uncompressed word that
  \<^verbatim>\<open>decode_normal\<close> decodes to the same operation, with no immediate bit lost.
\<close>

section \<open>Fields of the factory's words\<close>

lemma bit_times_2: "bit (x * 2) n \<longleftrightarrow> 1 \<le> n \<and> n < 32 \<and> bit x (n - 1)" for x :: u32
  using bit_push_bit_iff [of 1 x n] by (auto simp: push_bit_eq_mult dest: bit_imp_le_length)

lemmas bits32 = bit_times_2
  bit_signed_drop_bit_iff bit_BIT_RANGE bit_BIT_SINGLE bit_or_iff bit_and_iff bit_push_bit_iff
  bit_signed_take_bit_iff bit_not_iff bit_drop_bit_eq

lemma rd_ADD: "rd (InstructionFactory_ADD r s1 s2) = r AND 31"
  by (rule word32_eqI; simp add: rd_def InstructionFactory_ADD_def bits32)

lemma rs1_ADD: "rs1 (InstructionFactory_ADD r s1 s2) = s1 AND 31"
  by (rule word32_eqI; simp add: rs1_def InstructionFactory_ADD_def bits32)

lemma rs2_ADD: "rs2 (InstructionFactory_ADD r s1 s2) = s2 AND 31"
  by (rule word32_eqI; simp add: rs2_def InstructionFactory_ADD_def bits32)

lemma rd_AND: "rd (InstructionFactory_AND r s1 s2) = r AND 31"
  by (rule word32_eqI; simp add: rd_def InstructionFactory_AND_def bits32)

lemma rs1_AND: "rs1 (InstructionFactory_AND r s1 s2) = s1 AND 31"
  by (rule word32_eqI; simp add: rs1_def InstructionFactory_AND_def bits32)

lemma rs2_AND: "rs2 (InstructionFactory_AND r s1 s2) = s2 AND 31"
  by (rule word32_eqI; simp add: rs2_def InstructionFactory_AND_def bits32)

lemma rd_OR: "rd (InstructionFactory_OR r s1 s2) = r AND 31"
  by (rule word32_eqI; simp add: rd_def InstructionFactory_OR_def bits32)

lemma rs1_OR: "rs1 (InstructionFactory_OR r s1 s2) = s1 AND 31"
  by (rule word32_eqI; simp add: rs1_def InstructionFactory_OR_def bits32)

lemma rs2_OR: "rs2 (InstructionFactory_OR r s1 s2) = s2 AND 31"
  by (rule word32_eqI; simp add: rs2_def InstructionFactory_OR_def bits32)

lemma rd_XOR: "rd (InstructionFactory_XOR r s1 s2) = r AND 31"
  by (rule word32_eqI; simp add: rd_def InstructionFactory_XOR_def bits32)

lemma rs1_XOR: "rs1 (InstructionFactory_XOR r s1 s2) = s1 AND 31"
  by (rule word32_eqI; simp add: rs1_def InstructionFactory_XOR_def bits32)

lemma rs2_XOR: "rs2 (InstructionFactory_XOR r s1 s2) = s2 AND 31"
  by (rule word32_eqI; simp add: rs2_def InstructionFactory_XOR_def bits32)

lemma rd_SUB: "rd (InstructionFactory_SUB r s1 s2) = r AND 31"
  by (rule word32_eqI; simp add: rd_def InstructionFactory_SUB_def bits32)

lemma rs1_SUB: "rs1 (InstructionFactory_SUB r s1 s2) = s1 AND 31"
  by (rule word32_eqI; simp add: rs1_def InstructionFactory_SUB_def bits32)

lemma rs2_SUB: "rs2 (InstructionFactory_SUB r s1 s2) = s2 AND 31"
  by (rule word32_eqI; simp add: rs2_def InstructionFactory_SUB_def bits32)

lemma rd_LW: "rd (InstructionFactory_LW r s1 imm) = r AND 31"
  by (rule word32_eqI; simp add: rd_def InstructionFactory_LW_def bits32)

lemma rs1_LW: "rs1 (InstructionFactory_LW r s1 imm) = s1 AND 31"
  by (rule word32_eqI; simp add: rs1_def InstructionFactory_LW_def bits32)

lemma imm_LW: "I_imm (InstructionFactory_LW r s1 imm) = signed_take_bit 11 imm"
  by (rule word32_eqI; simp add: I_imm_def InstructionFactory_LW_def bits32)

lemma rd_LD: "rd (InstructionFactory_LD r s1 imm) = r AND 31"
  by (rule word32_eqI; simp add: rd_def InstructionFactory_LD_def bits32)

lemma rs1_LD: "rs1 (InstructionFactory_LD r s1 imm) = s1 AND 31"
  by (rule word32_eqI; simp add: rs1_def InstructionFactory_LD_def bits32)

lemma imm_LD: "I_imm (InstructionFactory_LD r s1 imm) = signed_take_bit 11 imm"
  by (rule word32_eqI; simp add: I_imm_def InstructionFactory_LD_def bits32)

lemma rd_FLW: "rd (InstructionFactory_FLW r s1 imm) = r AND 31"
  by (rule word32_eqI; simp add: rd_def InstructionFactory_FLW_def bits32)

lemma rs1_FLW: "rs1 (InstructionFactory_FLW r s1 imm) = s1 AND 31"
  by (rule word32_eqI; simp add: rs1_def InstructionFactory_FLW_def bits32)

lemma imm_FLW: "I_imm (InstructionFactory_FLW r s1 imm) = signed_take_bit 11 imm"
  by (rule word32_eqI; simp add: I_imm_def InstructionFactory_FLW_def bits32)

lemma rd_FLD: "rd (InstructionFactory_FLD r s1 imm) = r AND 31"
  by (rule word32_eqI; simp add: rd_def InstructionFactory_FLD_def bits32)

lemma rs1_FLD: "rs1 (InstructionFactory_FLD r s1 imm) = s1 AND 31"
  by (rule word32_eqI; simp add: rs1_def InstructionFactory_FLD_def bits32)

lemma imm_FLD: "I_imm (InstructionFactory_FLD r s1 imm) = signed_take_bit 11 imm"
  by (rule word32_eqI; simp add: I_imm_def InstructionFactory_FLD_def bits32)

lemma rs1_SW: "rs1 (InstructionFactory_SW s1 s2 imm) = s1 AND 31"
  by (rule word32_eqI; simp add: rs1_def InstructionFactory_SW_def bits32)

lemma rs2_SW: "rs2 (InstructionFactory_SW s1 s2 imm) = s2 AND 31"
  by (rule word32_eqI; simp add: rs2_def InstructionFactory_SW_def bits32)

lemma imm_SW: "S_imm (InstructionFactory_SW s1 s2 imm) = signed_take_bit 11 imm"
  by (rule word32_eqI; simp add: S_imm_def InstructionFactory_SW_def bits32)

lemma rs1_SD: "rs1 (InstructionFactory_SD s1 s2 imm) = s1 AND 31"
  by (rule word32_eqI; simp add: rs1_def InstructionFactory_SD_def bits32)

lemma rs2_SD: "rs2 (InstructionFactory_SD s1 s2 imm) = s2 AND 31"
  by (rule word32_eqI; simp add: rs2_def InstructionFactory_SD_def bits32)

lemma imm_SD: "S_imm (InstructionFactory_SD s1 s2 imm) = signed_take_bit 11 imm"
  by (rule word32_eqI; simp add: S_imm_def InstructionFactory_SD_def bits32)

lemma rs1_FSW: "rs1 (InstructionFactory_FSW s1 s2 imm) = s1 AND 31"
  by (rule word32_eqI; simp add: rs1_def InstructionFactory_FSW_def bits32)

lemma rs2_FSW: "rs2 (InstructionFactory_FSW s1 s2 imm) = s2 AND 31"
  by (rule word32_eqI; simp add: rs2_def InstructionFactory_FSW_def bits32)

lemma imm_FSW: "S_imm (InstructionFactory_FSW s1 s2 imm) = signed_take_bit 11 imm"
  by (rule word32_eqI; simp add: S_imm_def InstructionFactory_FSW_def bits32)

lemma rs1_FSD: "rs1 (InstructionFactory_FSD s1 s2 imm) = s1 AND 31"
  by (rule word32_eqI; simp add: rs1_def InstructionFactory_FSD_def bits32)

lemma rs2_FSD: "rs2 (InstructionFactory_FSD s1 s2 imm) = s2 AND 31"
  by (rule word32_eqI; simp add: rs2_def InstructionFactory_FSD_def bits32)

lemma imm_FSD: "S_imm (InstructionFactory_FSD s1 s2 imm) = signed_take_bit 11 imm"
  by (rule word32_eqI; simp add: S_imm_def InstructionFactory_FSD_def bits32)

lemma rd_LUI: "rd (InstructionFactory_LUI r imm) = r AND 31"
  by (rule word32_eqI; simp add: rd_def InstructionFactory_LUI_def bits32)

lemma imm_LUI: "U_imm (InstructionFactory_LUI r imm) = imm AND NOT 0xFFF"
  by (rule word32_eqI; simp add: U_imm_def InstructionFactory_LUI_def bits32)

lemma rd_ADDI: "rd (InstructionFactory_ADDI r s1 imm) = r AND 31"
  by (rule word32_eqI; simp add: rd_def InstructionFactory_ADDI_def bits32)

lemma rs1_ADDI: "rs1 (InstructionFactory_ADDI r s1 imm) = s1 AND 31"
  by (rule word32_eqI; simp add: rs1_def InstructionFactory_ADDI_def bits32)

lemma imm_ADDI: "I_imm (InstructionFactory_ADDI r s1 imm) = signed_take_bit 11 imm"
  by (rule word32_eqI; simp add: I_imm_def InstructionFactory_ADDI_def bits32)

lemma rd_ANDI: "rd (InstructionFactory_ANDI r s1 imm) = r AND 31"
  by (rule word32_eqI; simp add: rd_def InstructionFactory_ANDI_def bits32)

lemma rs1_ANDI: "rs1 (InstructionFactory_ANDI r s1 imm) = s1 AND 31"
  by (rule word32_eqI; simp add: rs1_def InstructionFactory_ANDI_def bits32)

lemma imm_ANDI: "I_imm (InstructionFactory_ANDI r s1 imm) = signed_take_bit 11 imm"
  by (rule word32_eqI; simp add: I_imm_def InstructionFactory_ANDI_def bits32)

lemma rd_JAL: "rd (InstructionFactory_JAL r imm) = r AND 31"
  by (rule word32_eqI; simp add: rd_def InstructionFactory_JAL_def bits32)

lemma imm_JAL: "J_imm (InstructionFactory_JAL r imm) = signed_take_bit 20 imm AND NOT 1"
  by (rule word32_eqI; simp add: J_imm_def InstructionFactory_JAL_def bits32)

lemma rd_JALR: "rd (InstructionFactory_JALR r s1 imm) = r AND 31"
  by (rule word32_eqI; simp add: rd_def InstructionFactory_JALR_def bits32)

lemma rs1_JALR: "rs1 (InstructionFactory_JALR r s1 imm) = s1 AND 31"
  by (rule word32_eqI; simp add: rs1_def InstructionFactory_JALR_def bits32)

lemma imm_JALR: "I_imm (InstructionFactory_JALR r s1 imm) = signed_take_bit 11 imm"
  by (rule word32_eqI; simp add: I_imm_def InstructionFactory_JALR_def bits32)

lemma rs1_BEQ: "rs1 (InstructionFactory_BEQ s1 s2 imm) = s1 AND 31"
  by (rule word32_eqI; simp add: rs1_def InstructionFactory_BEQ_def bits32)

lemma rs2_BEQ: "rs2 (InstructionFactory_BEQ s1 s2 imm) = s2 AND 31"
  by (rule word32_eqI; simp add: rs2_def InstructionFactory_BEQ_def bits32)

lemma imm_BEQ: "B_imm (InstructionFactory_BEQ s1 s2 imm) = signed_take_bit 12 imm AND NOT 1"
  by (rule word32_eqI; simp add: B_imm_def InstructionFactory_BEQ_def bits32)

lemma rs1_BNE: "rs1 (InstructionFactory_BNE s1 s2 imm) = s1 AND 31"
  by (rule word32_eqI; simp add: rs1_def InstructionFactory_BNE_def bits32)

lemma rs2_BNE: "rs2 (InstructionFactory_BNE s1 s2 imm) = s2 AND 31"
  by (rule word32_eqI; simp add: rs2_def InstructionFactory_BNE_def bits32)

lemma imm_BNE: "B_imm (InstructionFactory_BNE s1 s2 imm) = signed_take_bit 12 imm AND NOT 1"
  by (rule word32_eqI; simp add: B_imm_def InstructionFactory_BNE_def bits32)

lemma rd_ADDIW: "rd (InstructionFactory_ADDIW r s1 imm) = r AND 31"
  by (rule word32_eqI; simp add: rd_def InstructionFactory_ADDIW_def bits32)

lemma rs1_ADDIW: "rs1 (InstructionFactory_ADDIW r s1 imm) = s1 AND 31"
  by (rule word32_eqI; simp add: rs1_def InstructionFactory_ADDIW_def bits32)

lemma imm_ADDIW: "I_imm (InstructionFactory_ADDIW r s1 imm) = signed_take_bit 11 imm"
  by (rule word32_eqI; simp add: I_imm_def InstructionFactory_ADDIW_def bits32)

lemma rd_ADDW: "rd (InstructionFactory_ADDW r s1 s2) = r AND 31"
  by (rule word32_eqI; simp add: rd_def InstructionFactory_ADDW_def bits32)

lemma rs1_ADDW: "rs1 (InstructionFactory_ADDW r s1 s2) = s1 AND 31"
  by (rule word32_eqI; simp add: rs1_def InstructionFactory_ADDW_def bits32)

lemma rs2_ADDW: "rs2 (InstructionFactory_ADDW r s1 s2) = s2 AND 31"
  by (rule word32_eqI; simp add: rs2_def InstructionFactory_ADDW_def bits32)

lemma rd_SUBW: "rd (InstructionFactory_SUBW r s1 s2) = r AND 31"
  by (rule word32_eqI; simp add: rd_def InstructionFactory_SUBW_def bits32)

lemma rs1_SUBW: "rs1 (InstructionFactory_SUBW r s1 s2) = s1 AND 31"
  by (rule word32_eqI; simp add: rs1_def InstructionFactory_SUBW_def bits32)

lemma rs2_SUBW: "rs2 (InstructionFactory_SUBW r s1 s2) = s2 AND 31"
  by (rule word32_eqI; simp add: rs2_def InstructionFactory_SUBW_def bits32)

lemma rd_SLLI: "rd (InstructionFactory_SLLI r s1 sh_amt) = r AND 31"
  by (rule word32_eqI; simp add: rd_def InstructionFactory_SLLI_def bits32)

lemma rs1_SLLI: "rs1 (InstructionFactory_SLLI r s1 sh_amt) = s1 AND 31"
  by (rule word32_eqI; simp add: rs1_def InstructionFactory_SLLI_def bits32)

lemma shamt_SLLI: "shamt (InstructionFactory_SLLI r s1 sh_amt) = sh_amt AND 63"
  by (rule word32_eqI; simp add: shamt_def InstructionFactory_SLLI_def bits32)

lemma rd_SRLI: "rd (InstructionFactory_SRLI r s1 sh_amt) = r AND 31"
  by (rule word32_eqI; simp add: rd_def InstructionFactory_SRLI_def bits32)

lemma rs1_SRLI: "rs1 (InstructionFactory_SRLI r s1 sh_amt) = s1 AND 31"
  by (rule word32_eqI; simp add: rs1_def InstructionFactory_SRLI_def bits32)

lemma shamt_SRLI: "shamt (InstructionFactory_SRLI r s1 sh_amt) = sh_amt AND 63"
  by (rule word32_eqI; simp add: shamt_def InstructionFactory_SRLI_def bits32)

lemma rd_SRAI: "rd (InstructionFactory_SRAI r s1 sh_amt) = r AND 31"
  by (rule word32_eqI; simp add: rd_def InstructionFactory_SRAI_def bits32)

lemma rs1_SRAI: "rs1 (InstructionFactory_SRAI r s1 sh_amt) = s1 AND 31"
  by (rule word32_eqI; simp add: rs1_def InstructionFactory_SRAI_def bits32)

lemma shamt_SRAI: "shamt (InstructionFactory_SRAI r s1 sh_amt) = sh_amt AND 63"
  by (rule word32_eqI; simp add: shamt_def InstructionFactory_SRAI_def bits32)

lemmas factory_rd [simp] =
  rd_ADD rd_AND rd_OR rd_XOR rd_SUB rd_LW rd_LD rd_FLW rd_FLD rd_LUI rd_ADDI rd_ANDI rd_JAL rd_JALR rd_ADDIW rd_ADDW rd_SUBW rd_SLLI rd_SRLI rd_SRAI

lemmas factory_rs =
  rs1_ADD rs1_AND rs1_OR rs1_XOR rs1_SUB rs1_LW rs1_LD rs1_FLW rs1_FLD rs1_SW rs1_SD rs1_FSW rs1_FSD rs1_ADDI rs1_ANDI rs1_JALR rs1_BEQ rs1_BNE rs1_ADDIW rs1_ADDW rs1_SUBW rs1_SLLI rs1_SRLI rs1_SRAI
  rs2_ADD rs2_AND rs2_OR rs2_XOR rs2_SUB rs2_SW rs2_SD rs2_FSW rs2_FSD rs2_BEQ rs2_BNE rs2_ADDW rs2_SUBW

lemmas factory_imm =
  imm_LW imm_LD imm_FLW imm_FLD imm_SW imm_SD imm_FSW imm_FSD imm_LUI imm_ADDI imm_ANDI imm_JAL imm_JALR imm_BEQ imm_BNE imm_ADDIW shamt_SLLI shamt_SRLI shamt_SRAI

section \<open>Decoding the factory\<close>

lemma match_ADD: "(InstructionFactory_ADD r s1 s2) AND 0xFE00707F = 0x33"
  by (rule word32_eqI; simp add: InstructionFactory_ADD_def bits32)

lemma decode_ADD:
  "decode_normal arch cfg (InstructionFactory_ADD r s1 s2) = enc_result cfg (InstructionFactory_ADD r s1 s2) (ADD, ADD_NOP, no_ext, 0xFE00707F, 0x33)"
  by (rule decode_row, rule subsetD [OF sub_OP_ADD], unfold rows_OP_ADD_def, intro list.set_intros,
      simp add: match_ADD)

lemma match_AND: "(InstructionFactory_AND r s1 s2) AND 0xFE00707F = 0x7033"
  by (rule word32_eqI; simp add: InstructionFactory_AND_def bits32)

lemma decode_AND:
  "decode_normal arch cfg (InstructionFactory_AND r s1 s2) = enc_result cfg (InstructionFactory_AND r s1 s2) (AND_op, AND_NOP, no_ext, 0xFE00707F, 0x7033)"
  by (rule decode_row, rule subsetD [OF sub_OP_ADD], unfold rows_OP_ADD_def, intro list.set_intros,
      simp add: match_AND)

lemma match_OR: "(InstructionFactory_OR r s1 s2) AND 0xFE00707F = 0x6033"
  by (rule word32_eqI; simp add: InstructionFactory_OR_def bits32)

lemma decode_OR:
  "decode_normal arch cfg (InstructionFactory_OR r s1 s2) = enc_result cfg (InstructionFactory_OR r s1 s2) (OR_op, OR_NOP, no_ext, 0xFE00707F, 0x6033)"
  by (rule decode_row, rule subsetD [OF sub_OP_ADD], unfold rows_OP_ADD_def, intro list.set_intros,
      simp add: match_OR)

lemma match_XOR: "(InstructionFactory_XOR r s1 s2) AND 0xFE00707F = 0x4033"
  by (rule word32_eqI; simp add: InstructionFactory_XOR_def bits32)

lemma decode_XOR:
  "decode_normal arch cfg (InstructionFactory_XOR r s1 s2) = enc_result cfg (InstructionFactory_XOR r s1 s2) (XOR_op, XOR_NOP, no_ext, 0xFE00707F, 0x4033)"
  by (rule decode_row, rule subsetD [OF sub_OP_ADD], unfold rows_OP_ADD_def, intro list.set_intros,
      simp add: match_XOR)

lemma match_SUB: "(InstructionFactory_SUB r s1 s2) AND 0xFE00707F = 0x40000033"
  by (rule word32_eqI; simp add: InstructionFactory_SUB_def bits32)

lemma decode_SUB:
  "decode_normal arch cfg (InstructionFactory_SUB r s1 s2) = enc_result cfg (InstructionFactory_SUB r s1 s2) (SUB, SUB_NOP, no_ext, 0xFE00707F, 0x40000033)"
  by (rule decode_row, rule subsetD [OF sub_OP_ADD], unfold rows_OP_ADD_def, intro list.set_intros,
      simp add: match_SUB)

lemma match_LW: "(InstructionFactory_LW r s1 imm) AND 0x707F = 0x2003"
  by (rule word32_eqI; simp add: InstructionFactory_LW_def bits32)

lemma decode_LW:
  "decode_normal arch cfg (InstructionFactory_LW r s1 imm) = enc_result cfg (InstructionFactory_LW r s1 imm) (LW, LW, no_ext, 0x707F, 0x2003)"
  by (rule decode_row, rule subsetD [OF sub_OP_LB], unfold rows_OP_LB_def, intro list.set_intros,
      simp add: match_LW)

lemma match_LD: "(InstructionFactory_LD r s1 imm) AND 0x707F = 0x3003"
  by (rule word32_eqI; simp add: InstructionFactory_LD_def bits32)

lemma decode_LD:
  "decode_normal arch cfg (InstructionFactory_LD r s1 imm) = enc_result cfg (InstructionFactory_LD r s1 imm) (LD, LD, no_ext, 0x707F, 0x3003)"
  by (rule decode_row, rule subsetD [OF sub_OP_LB], unfold rows_OP_LB_def, intro list.set_intros,
      simp add: match_LD)

lemma match_FLW: "(InstructionFactory_FLW r s1 imm) AND 0x707F = 0x2007"
  by (rule word32_eqI; simp add: InstructionFactory_FLW_def bits32)

lemma decode_FLW:
  "decode_normal arch cfg (InstructionFactory_FLW r s1 imm) = enc_result cfg (InstructionFactory_FLW r s1 imm) (FLW, FLW, misa_F, 0x707F, 0x2007)"
  by (rule decode_row, rule subsetD [OF sub_OP_FLW], unfold rows_OP_FLW_def, intro list.set_intros,
      simp add: match_FLW)

lemma match_FLD: "(InstructionFactory_FLD r s1 imm) AND 0x707F = 0x3007"
  by (rule word32_eqI; simp add: InstructionFactory_FLD_def bits32)

lemma decode_FLD:
  "decode_normal arch cfg (InstructionFactory_FLD r s1 imm) = enc_result cfg (InstructionFactory_FLD r s1 imm) (FLD, FLD, misa_D, 0x707F, 0x3007)"
  by (rule decode_row, rule subsetD [OF sub_OP_FLW], unfold rows_OP_FLW_def, intro list.set_intros,
      simp add: match_FLD)

lemma match_SW: "(InstructionFactory_SW s1 s2 imm) AND 0x707F = 0x2023"
  by (rule word32_eqI; simp add: InstructionFactory_SW_def bits32)

lemma decode_SW:
  "decode_normal arch cfg (InstructionFactory_SW s1 s2 imm) = enc_result cfg (InstructionFactory_SW s1 s2 imm) (SW, SW, no_ext, 0x707F, 0x2023)"
  by (rule decode_row, rule subsetD [OF sub_OP_SB], unfold rows_OP_SB_def, intro list.set_intros,
      simp add: match_SW)

lemma match_SD: "(InstructionFactory_SD s1 s2 imm) AND 0x707F = 0x3023"
  by (rule word32_eqI; simp add: InstructionFactory_SD_def bits32)

lemma decode_SD:
  "decode_normal arch cfg (InstructionFactory_SD s1 s2 imm) = enc_result cfg (InstructionFactory_SD s1 s2 imm) (SD, SD, no_ext, 0x707F, 0x3023)"
  by (rule decode_row, rule subsetD [OF sub_OP_SB], unfold rows_OP_SB_def, intro list.set_intros,
      simp add: match_SD)

lemma match_FSW: "(InstructionFactory_FSW s1 s2 imm) AND 0x707F = 0x2027"
  by (rule word32_eqI; simp add: InstructionFactory_FSW_def bits32)

lemma decode_FSW:
  "decode_normal arch cfg (InstructionFactory_FSW s1 s2 imm) = enc_result cfg (InstructionFactory_FSW s1 s2 imm) (FSW, FSW, misa_F, 0x707F, 0x2027)"
  by (rule decode_row, rule subsetD [OF sub_OP_FSW], unfold rows_OP_FSW_def, intro list.set_intros,
      simp add: match_FSW)

lemma match_FSD: "(InstructionFactory_FSD s1 s2 imm) AND 0x707F = 0x3027"
  by (rule word32_eqI; simp add: InstructionFactory_FSD_def bits32)

lemma decode_FSD:
  "decode_normal arch cfg (InstructionFactory_FSD s1 s2 imm) = enc_result cfg (InstructionFactory_FSD s1 s2 imm) (FSD, FSD, misa_D, 0x707F, 0x3027)"
  by (rule decode_row, rule subsetD [OF sub_OP_FSW], unfold rows_OP_FSW_def, intro list.set_intros,
      simp add: match_FSD)

lemma match_LUI: "(InstructionFactory_LUI r imm) AND 0x7F = 0x37"
  by (rule word32_eqI; simp add: InstructionFactory_LUI_def bits32)

lemma decode_LUI:
  "decode_normal arch cfg (InstructionFactory_LUI r imm) = enc_result cfg (InstructionFactory_LUI r imm) (LUI, LUI_NOP, no_ext, 0x7F, 0x37)"
  by (rule decode_row, rule subsetD [OF sub_OP_LUI], unfold rows_OP_LUI_def, intro list.set_intros,
      simp add: match_LUI)

lemma match_ADDI: "(InstructionFactory_ADDI r s1 imm) AND 0x707F = 0x13"
  by (rule word32_eqI; simp add: InstructionFactory_ADDI_def bits32)

lemma decode_ADDI:
  "decode_normal arch cfg (InstructionFactory_ADDI r s1 imm) = enc_result cfg (InstructionFactory_ADDI r s1 imm) (ADDI, ADDI_NOP, no_ext, 0x707F, 0x13)"
  by (rule decode_row, rule subsetD [OF sub_OP_ADDI_common], unfold rows_OP_ADDI_common_def, intro list.set_intros,
      simp add: match_ADDI)

lemma match_ANDI: "(InstructionFactory_ANDI r s1 imm) AND 0x707F = 0x7013"
  by (rule word32_eqI; simp add: InstructionFactory_ANDI_def bits32)

lemma decode_ANDI:
  "decode_normal arch cfg (InstructionFactory_ANDI r s1 imm) = enc_result cfg (InstructionFactory_ANDI r s1 imm) (ANDI, ANDI_NOP, no_ext, 0x707F, 0x7013)"
  by (rule decode_row, rule subsetD [OF sub_OP_ADDI_common], unfold rows_OP_ADDI_common_def, intro list.set_intros,
      simp add: match_ANDI)

lemma match_JAL: "(InstructionFactory_JAL r imm) AND 0x7F = 0x6F"
  by (rule word32_eqI; simp add: InstructionFactory_JAL_def bits32)

lemma decode_JAL:
  "decode_normal arch cfg (InstructionFactory_JAL r imm) = enc_result cfg (InstructionFactory_JAL r imm) (JAL, J, no_ext, 0x7F, 0x6F)"
  by (rule decode_row, rule subsetD [OF sub_OP_JAL], unfold rows_OP_JAL_def, intro list.set_intros,
      simp add: match_JAL)

lemma match_JALR: "(InstructionFactory_JALR r s1 imm) AND 0x707F = 0x67"
  by (rule word32_eqI; simp add: InstructionFactory_JALR_def bits32)

lemma decode_JALR:
  "decode_normal arch cfg (InstructionFactory_JALR r s1 imm) = enc_result cfg (InstructionFactory_JALR r s1 imm) (JALR, JR, no_ext, 0x707F, 0x67)"
  by (rule decode_row, rule subsetD [OF sub_OP_JALR], unfold rows_OP_JALR_def, intro list.set_intros,
      simp add: match_JALR)

lemma match_BEQ: "(InstructionFactory_BEQ s1 s2 imm) AND 0x707F = 0x63"
  by (rule word32_eqI; simp add: InstructionFactory_BEQ_def bits32)

lemma decode_BEQ:
  "decode_normal arch cfg (InstructionFactory_BEQ s1 s2 imm) = enc_result cfg (InstructionFactory_BEQ s1 s2 imm) (BEQ, BEQ, no_ext, 0x707F, 0x63)"
  by (rule decode_row, rule subsetD [OF sub_OP_BEQ], unfold rows_OP_BEQ_def, intro list.set_intros,
      simp add: match_BEQ)

lemma match_BNE: "(InstructionFactory_BNE s1 s2 imm) AND 0x707F = 0x1063"
  by (rule word32_eqI; simp add: InstructionFactory_BNE_def bits32)

lemma decode_BNE:
  "decode_normal arch cfg (InstructionFactory_BNE s1 s2 imm) = enc_result cfg (InstructionFactory_BNE s1 s2 imm) (BNE, BNE, no_ext, 0x707F, 0x1063)"
  by (rule decode_row, rule subsetD [OF sub_OP_BEQ], unfold rows_OP_BEQ_def, intro list.set_intros,
      simp add: match_BNE)

lemma match_EBREAK: "InstructionFactory_EBREAK AND 0xFFFFFFFF = 0x100073"
  by (rule word32_eqI; simp add: InstructionFactory_EBREAK_def bits32)

lemma decode_EBREAK:
  "decode_normal arch cfg InstructionFactory_EBREAK = enc_result cfg InstructionFactory_EBREAK (EBREAK, EBREAK, no_ext, 0xFFFFFFFF, 0x100073)"
  by (rule decode_row, rule subsetD [OF sub_OP_ECALL], unfold rows_OP_ECALL_def, intro list.set_intros,
      simp add: match_EBREAK)

lemma match_ADDIW: "(InstructionFactory_ADDIW r s1 imm) AND 0x707F = 0x1B"
  by (rule word32_eqI; simp add: InstructionFactory_ADDIW_def bits32)

lemma decode_ADDIW:
  "decode_normal arch cfg (InstructionFactory_ADDIW r s1 imm) = enc_result cfg (InstructionFactory_ADDIW r s1 imm) (ADDIW, ADDIW_NOP, no_ext, 0x707F, 0x1B)"
  by (rule decode_row, rule subsetD [OF sub_OP_ADDIW], unfold rows_OP_ADDIW_def, intro list.set_intros,
      simp add: match_ADDIW)

lemma match_ADDW: "(InstructionFactory_ADDW r s1 s2) AND 0xFE00707F = 0x3B"
  by (rule word32_eqI; simp add: InstructionFactory_ADDW_def bits32)

lemma decode_ADDW:
  "decode_normal arch cfg (InstructionFactory_ADDW r s1 s2) = enc_result cfg (InstructionFactory_ADDW r s1 s2) (ADDW, ADDW_NOP, no_ext, 0xFE00707F, 0x3B)"
  by (rule decode_row, rule subsetD [OF sub_OP_ADDW], unfold rows_OP_ADDW_def, intro list.set_intros,
      simp add: match_ADDW)

lemma match_SUBW: "(InstructionFactory_SUBW r s1 s2) AND 0xFE00707F = 0x4000003B"
  by (rule word32_eqI; simp add: InstructionFactory_SUBW_def bits32)

lemma decode_SUBW:
  "decode_normal arch cfg (InstructionFactory_SUBW r s1 s2) = enc_result cfg (InstructionFactory_SUBW r s1 s2) (SUBW, SUBW_NOP, no_ext, 0xFE00707F, 0x4000003B)"
  by (rule decode_row, rule subsetD [OF sub_OP_ADDW], unfold rows_OP_ADDW_def, intro list.set_intros,
      simp add: match_SUBW)

lemma le_31_bit5: "\<not> bit x 5" if "x \<le> 31" for x :: u32
proof
  assume "bit x 5"
  then have "bit (unat x) 5"
    by (simp add: bit_unsigned_iff)
  then have "odd (unat x div 2 ^ 5)"
    by (simp add: bit_iff_odd)
  moreover have "unat x \<le> 31" using that by (simp add: word_le_nat_alt)
  ultimately show False by simp
qed

lemma match_SLLI: "(InstructionFactory_SLLI r s1 sh_amt) AND 0xFC00707F = 0x1013"
  by (rule word32_eqI; simp add: InstructionFactory_SLLI_def bits32)

lemma decode_SLLI_64:
  "arch \<noteq> RV32 \<Longrightarrow> decode_normal arch cfg (InstructionFactory_SLLI r s1 sh_amt) = enc_result cfg (InstructionFactory_SLLI r s1 sh_amt) (SLLI, SLLI_NOP, no_ext, 0xFC00707F, 0x1013)"
  by (rule decode_row, erule subsetD [OF sub_OP_ADDI_RV64], unfold rows_OP_ADDI_RV64_def, intro list.set_intros,
      simp add: match_SLLI)

lemma match_SLLI_32:
  assumes "sh_amt \<le> 31"
  shows "(InstructionFactory_SLLI r s1 sh_amt) AND 0xFE00707F = 0x1013"
proof -
  have "\<not> bit sh_amt 5" using le_31_bit5 [OF assms] .
  then show ?thesis by (intro word32_eqI; simp add: InstructionFactory_SLLI_def bits32)
qed

lemma decode_SLLI_32:
  "sh_amt \<le> 31 \<Longrightarrow> decode_normal RV32 cfg (InstructionFactory_SLLI r s1 sh_amt) = enc_result cfg (InstructionFactory_SLLI r s1 sh_amt) (SLLI, SLLI_NOP, no_ext, 0xFE00707F, 0x1013)"
  by (rule decode_row, rule subsetD [OF sub_OP_ADDI_RV32 [OF refl]], unfold rows_OP_ADDI_RV32_def,
      intro list.set_intros, simp add: match_SLLI_32)

lemma match_SRLI: "(InstructionFactory_SRLI r s1 sh_amt) AND 0xFC00707F = 0x5013"
  by (rule word32_eqI; simp add: InstructionFactory_SRLI_def bits32)

lemma decode_SRLI_64:
  "arch \<noteq> RV32 \<Longrightarrow> decode_normal arch cfg (InstructionFactory_SRLI r s1 sh_amt) = enc_result cfg (InstructionFactory_SRLI r s1 sh_amt) (SRLI, SRLI_NOP, no_ext, 0xFC00707F, 0x5013)"
  by (rule decode_row, erule subsetD [OF sub_OP_ADDI_RV64], unfold rows_OP_ADDI_RV64_def, intro list.set_intros,
      simp add: match_SRLI)

lemma match_SRLI_32:
  assumes "sh_amt \<le> 31"
  shows "(InstructionFactory_SRLI r s1 sh_amt) AND 0xFE00707F = 0x5013"
proof -
  have "\<not> bit sh_amt 5" using le_31_bit5 [OF assms] .
  then show ?thesis by (intro word32_eqI; simp add: InstructionFactory_SRLI_def bits32)
qed

lemma decode_SRLI_32:
  "sh_amt \<le> 31 \<Longrightarrow> decode_normal RV32 cfg (InstructionFactory_SRLI r s1 sh_amt) = enc_result cfg (InstructionFactory_SRLI r s1 sh_amt) (SRLI, SRLI_NOP, no_ext, 0xFE00707F, 0x5013)"
  by (rule decode_row, rule subsetD [OF sub_OP_ADDI_RV32 [OF refl]], unfold rows_OP_ADDI_RV32_def,
      intro list.set_intros, simp add: match_SRLI_32)

lemma match_SRAI: "(InstructionFactory_SRAI r s1 sh_amt) AND 0xFC00707F = 0x40005013"
  by (rule word32_eqI; simp add: InstructionFactory_SRAI_def bits32)

lemma decode_SRAI_64:
  "arch \<noteq> RV32 \<Longrightarrow> decode_normal arch cfg (InstructionFactory_SRAI r s1 sh_amt) = enc_result cfg (InstructionFactory_SRAI r s1 sh_amt) (SRAI, SRAI_NOP, no_ext, 0xFC00707F, 0x40005013)"
  by (rule decode_row, erule subsetD [OF sub_OP_ADDI_RV64], unfold rows_OP_ADDI_RV64_def, intro list.set_intros,
      simp add: match_SRAI)

lemma match_SRAI_32:
  assumes "sh_amt \<le> 31"
  shows "(InstructionFactory_SRAI r s1 sh_amt) AND 0xFE00707F = 0x40005013"
proof -
  have "\<not> bit sh_amt 5" using le_31_bit5 [OF assms] .
  then show ?thesis by (intro word32_eqI; simp add: InstructionFactory_SRAI_def bits32)
qed

lemma decode_SRAI_32:
  "sh_amt \<le> 31 \<Longrightarrow> decode_normal RV32 cfg (InstructionFactory_SRAI r s1 sh_amt) = enc_result cfg (InstructionFactory_SRAI r s1 sh_amt) (SRAI, SRAI_NOP, no_ext, 0xFE00707F, 0x40005013)"
  by (rule decode_row, rule subsetD [OF sub_OP_ADDI_RV32 [OF refl]], unfold rows_OP_ADDI_RV32_def,
      intro list.set_intros, simp add: match_SRAI_32)

lemmas decode_factory =
  decode_ADD decode_AND decode_OR decode_XOR decode_SUB decode_LW
  decode_LD decode_FLW decode_FLD decode_SW decode_SD decode_FSW
  decode_FSD decode_LUI decode_ADDI decode_ANDI decode_JAL decode_JALR
  decode_BEQ decode_BNE decode_EBREAK decode_ADDIW decode_ADDW decode_SUBW
  decode_SLLI_64 decode_SLLI_32 decode_SRLI_64 decode_SRLI_32 decode_SRAI_64 decode_SRAI_32

lemma quadrant_ADD: "quadrant (InstructionFactory_ADD r s1 s2) = 3"
  by (rule word32_eqI; simp add: quadrant_def InstructionFactory_ADD_def bits32)

lemma quadrant_AND: "quadrant (InstructionFactory_AND r s1 s2) = 3"
  by (rule word32_eqI; simp add: quadrant_def InstructionFactory_AND_def bits32)

lemma quadrant_OR: "quadrant (InstructionFactory_OR r s1 s2) = 3"
  by (rule word32_eqI; simp add: quadrant_def InstructionFactory_OR_def bits32)

lemma quadrant_XOR: "quadrant (InstructionFactory_XOR r s1 s2) = 3"
  by (rule word32_eqI; simp add: quadrant_def InstructionFactory_XOR_def bits32)

lemma quadrant_SUB: "quadrant (InstructionFactory_SUB r s1 s2) = 3"
  by (rule word32_eqI; simp add: quadrant_def InstructionFactory_SUB_def bits32)

lemma quadrant_LW: "quadrant (InstructionFactory_LW r s1 imm) = 3"
  by (rule word32_eqI; simp add: quadrant_def InstructionFactory_LW_def bits32)

lemma quadrant_LD: "quadrant (InstructionFactory_LD r s1 imm) = 3"
  by (rule word32_eqI; simp add: quadrant_def InstructionFactory_LD_def bits32)

lemma quadrant_FLW: "quadrant (InstructionFactory_FLW r s1 imm) = 3"
  by (rule word32_eqI; simp add: quadrant_def InstructionFactory_FLW_def bits32)

lemma quadrant_FLD: "quadrant (InstructionFactory_FLD r s1 imm) = 3"
  by (rule word32_eqI; simp add: quadrant_def InstructionFactory_FLD_def bits32)

lemma quadrant_SW: "quadrant (InstructionFactory_SW s1 s2 imm) = 3"
  by (rule word32_eqI; simp add: quadrant_def InstructionFactory_SW_def bits32)

lemma quadrant_SD: "quadrant (InstructionFactory_SD s1 s2 imm) = 3"
  by (rule word32_eqI; simp add: quadrant_def InstructionFactory_SD_def bits32)

lemma quadrant_FSW: "quadrant (InstructionFactory_FSW s1 s2 imm) = 3"
  by (rule word32_eqI; simp add: quadrant_def InstructionFactory_FSW_def bits32)

lemma quadrant_FSD: "quadrant (InstructionFactory_FSD s1 s2 imm) = 3"
  by (rule word32_eqI; simp add: quadrant_def InstructionFactory_FSD_def bits32)

lemma quadrant_LUI: "quadrant (InstructionFactory_LUI r imm) = 3"
  by (rule word32_eqI; simp add: quadrant_def InstructionFactory_LUI_def bits32)

lemma quadrant_ADDI: "quadrant (InstructionFactory_ADDI r s1 imm) = 3"
  by (rule word32_eqI; simp add: quadrant_def InstructionFactory_ADDI_def bits32)

lemma quadrant_ANDI: "quadrant (InstructionFactory_ANDI r s1 imm) = 3"
  by (rule word32_eqI; simp add: quadrant_def InstructionFactory_ANDI_def bits32)

lemma quadrant_JAL: "quadrant (InstructionFactory_JAL r imm) = 3"
  by (rule word32_eqI; simp add: quadrant_def InstructionFactory_JAL_def bits32)

lemma quadrant_JALR: "quadrant (InstructionFactory_JALR r s1 imm) = 3"
  by (rule word32_eqI; simp add: quadrant_def InstructionFactory_JALR_def bits32)

lemma quadrant_BEQ: "quadrant (InstructionFactory_BEQ s1 s2 imm) = 3"
  by (rule word32_eqI; simp add: quadrant_def InstructionFactory_BEQ_def bits32)

lemma quadrant_BNE: "quadrant (InstructionFactory_BNE s1 s2 imm) = 3"
  by (rule word32_eqI; simp add: quadrant_def InstructionFactory_BNE_def bits32)

lemma quadrant_EBREAK: "quadrant InstructionFactory_EBREAK = 3"
  by (rule word32_eqI; simp add: quadrant_def InstructionFactory_EBREAK_def bits32)

lemma quadrant_ADDIW: "quadrant (InstructionFactory_ADDIW r s1 imm) = 3"
  by (rule word32_eqI; simp add: quadrant_def InstructionFactory_ADDIW_def bits32)

lemma quadrant_ADDW: "quadrant (InstructionFactory_ADDW r s1 s2) = 3"
  by (rule word32_eqI; simp add: quadrant_def InstructionFactory_ADDW_def bits32)

lemma quadrant_SUBW: "quadrant (InstructionFactory_SUBW r s1 s2) = 3"
  by (rule word32_eqI; simp add: quadrant_def InstructionFactory_SUBW_def bits32)

lemma quadrant_SLLI: "quadrant (InstructionFactory_SLLI r s1 sh_amt) = 3"
  by (rule word32_eqI; simp add: quadrant_def InstructionFactory_SLLI_def bits32)

lemma quadrant_SRLI: "quadrant (InstructionFactory_SRLI r s1 sh_amt) = 3"
  by (rule word32_eqI; simp add: quadrant_def InstructionFactory_SRLI_def bits32)

lemma quadrant_SRAI: "quadrant (InstructionFactory_SRAI r s1 sh_amt) = 3"
  by (rule word32_eqI; simp add: quadrant_def InstructionFactory_SRAI_def bits32)

lemmas factory_quadrant =
  quadrant_ADD quadrant_AND quadrant_OR quadrant_XOR quadrant_SUB
  quadrant_LW quadrant_LD quadrant_FLW quadrant_FLD quadrant_SW
  quadrant_SD quadrant_FSW quadrant_FSD quadrant_LUI quadrant_ADDI
  quadrant_ANDI quadrant_JAL quadrant_JALR quadrant_BEQ quadrant_BNE
  quadrant_EBREAK quadrant_ADDIW quadrant_ADDW quadrant_SUBW quadrant_SLLI
  quadrant_SRLI quadrant_SRAI

section \<open>Expansion agrees with decoding\<close>

text \<open>
  What \<^verbatim>\<open>expand_compressed\<close> promises: either the instruction is illegal and left alone, or the
  new word is uncompressed and decodes to the returned operation.
\<close>

definition expansion_ok :: "Architecture \<Rightarrow> u64 \<Rightarrow> u32 \<Rightarrow> OpId \<times> u32 \<Rightarrow> bool" where
  "expansion_ok arch cfg i r \<longleftrightarrow>
     (case r of (op, w) \<Rightarrow>
       if op = UNDEF \<or> op = UNSUP then w = i else \<not> is_compressed w \<and> decode_normal arch cfg w = op)"

lemma expansion_ok_UNDEF: "expansion_ok arch cfg i (UNDEF, i)"
  by (simp add: expansion_ok_def)

lemma not_compressed: "quadrant w = 3 \<Longrightarrow> \<not> is_compressed w"
  by (simp add: is_compressed_def)

lemma expansion_ok_to:
  "quadrant w = 3 \<Longrightarrow> decode_normal arch cfg w = op \<Longrightarrow> op \<noteq> UNDEF \<Longrightarrow> op \<noteq> UNSUP \<Longrightarrow>
     expansion_ok arch cfg i (expand_to w op)"
  by (simp add: expansion_ok_def expand_to_def not_compressed)

lemma expansion_ok_or_nop:
  "quadrant w = 3 \<Longrightarrow> decode_normal arch cfg w = (if rd w \<noteq> 0 then op else op_NOP) \<Longrightarrow>
     op \<noteq> UNDEF \<Longrightarrow> op \<noteq> UNSUP \<Longrightarrow> op_NOP \<noteq> UNDEF \<Longrightarrow> op_NOP \<noteq> UNSUP \<Longrightarrow>
     expansion_ok arch cfg i (expand_or_nop w op op_NOP)"
  by (simp add: expansion_ok_def expand_or_nop_def not_compressed)

lemma expansion_ok_required:
  "(cfg AND ext \<noteq> 0 \<Longrightarrow> expansion_ok arch cfg i r) \<Longrightarrow>
     expansion_ok arch cfg i (expand_required cfg ext i r)"
  by (simp add: expansion_ok_def expand_required_def)

lemma expansion_ok_shift:
  "(arch \<noteq> RV32 \<Longrightarrow> expansion_ok arch cfg i r) \<Longrightarrow>
   (arch = RV32 \<Longrightarrow> n \<le> 31 \<Longrightarrow> expansion_ok arch cfg i r) \<Longrightarrow>
   expansion_ok arch cfg i (if arch = RV32 \<and> n > (31 :: u32) then (UNDEF, i) else r)"
  by (cases "arch = RV32") (auto simp: expansion_ok_UNDEF not_less)

lemma expansion_ok_if:
  "(\<not> b \<Longrightarrow> expansion_ok arch cfg i r) \<Longrightarrow> expansion_ok arch cfg i (if b then (UNDEF, i) else r)"
  by (simp add: expansion_ok_UNDEF)

lemmas expansion_intros =
  expansion_ok_UNDEF expansion_ok_to expansion_ok_or_nop expansion_ok_required expansion_ok_shift
  expansion_ok_if

lemma expand_compressed_ok: "expansion_ok arch cfg i (expand_compressed i c arch cfg)"
  by (cases c; simp only: expand_compressed.simps Let_def;
      intro expansion_intros; simp add: decode_factory factory_quadrant)

lemma quadrant_cases: "is_compressed i \<Longrightarrow> quadrant i = 0 \<or> quadrant i = 1 \<or> quadrant i = 2"
proof -
  assume "is_compressed i"
  then have "unat (quadrant i) < 3"
    by (simp add: is_compressed_def word_less_nat_alt)
  then consider "unat (quadrant i) = unat (0 :: u32)" | "unat (quadrant i) = unat (1 :: u32)"
    | "unat (quadrant i) = unat (2 :: u32)" by fastforce
  then show ?thesis by cases (simp_all only: word_unat_eq_iff simp_thms)
qed

lemma decode_compressed_total: "is_compressed i \<Longrightarrow> \<exists>c. decode_compressed i arch = Inr c"
  by (drule quadrant_cases) (auto simp: decode_compressed_def)

text \<open>
  C2. Decoding a compressed instruction never throws. When the result is a legal operation, the
  instruction word has been replaced by an uncompressed one, and decoding that word as an ordinary
  instruction gives the same operation; when it is illegal, the word is left as fetched.
\<close>

theorem decode_and_expand_compressed_correct:
  assumes "is_compressed i"
  shows "\<exists>op w. decode_and_expand_compressed arch cfg i = Inr (op, w) \<and>
    (if op = UNDEF \<or> op = UNSUP then w = i else \<not> is_compressed w \<and> decode_normal arch cfg w = op)"
proof -
  obtain c where "decode_compressed i arch = Inr c"
    using decode_compressed_total [OF assms] by blast
  moreover obtain op w where "expand_compressed i c arch cfg = (op, w)"
    by fastforce
  ultimately show ?thesis
    using expand_compressed_ok [of arch cfg i c]
    by (cases "cfg AND misa_C = 0") (simp_all add: decode_and_expand_compressed_def expansion_ok_def)
qed

text \<open>\<^verbatim>\<open>0x4505\<close> is \<^verbatim>\<open>c.li a0, 1\<close>.\<close>

theorem decode_and_expand_compressed_correct_witness:
  "is_compressed 0x4505 \<and>
   (\<exists>op w. decode_and_expand_compressed RV32 (RV_ISA_Config False False) 0x4505 = Inr (op, w) \<and>
     (if op = UNDEF \<or> op = UNSUP then w = 0x4505
      else \<not> is_compressed w \<and> decode_normal RV32 (RV_ISA_Config False False) w = op))"
proof -
  have c: "is_compressed 0x4505" by (simp add: is_compressed_def quadrant_def)
  from c decode_and_expand_compressed_correct [OF c] show ?thesis by blast
qed

section \<open>No immediate bit is lost\<close>

















section \<open>The formats of the compressed immediates\<close>






















section \<open>The table of compressed instructions\<close>




































text \<open>
  The accessors invert the encoders: register fields are the low five bits of the register
  numbers, and the immediate of each format is the sign extension of the immediate's field (branch
  and jump offsets lose their lowest bit, \<^verbatim>\<open>LUI\<close> keeps the upper twenty bits).
\<close>

theorem factory_accessor_roundtrip:
  "rd (InstructionFactory_ADDI r s1 imm) = r AND 31 \<and>
   rs1 (InstructionFactory_ADDI r s1 imm) = s1 AND 31 \<and>
   I_imm (InstructionFactory_ADDI r s1 imm) = signed_take_bit 11 imm \<and>
   rs1 (InstructionFactory_SW s1 s2 imm) = s1 AND 31 \<and>
   rs2 (InstructionFactory_SW s1 s2 imm) = s2 AND 31 \<and>
   S_imm (InstructionFactory_SW s1 s2 imm) = signed_take_bit 11 imm \<and>
   rs1 (InstructionFactory_BEQ s1 s2 imm) = s1 AND 31 \<and>
   rs2 (InstructionFactory_BEQ s1 s2 imm) = s2 AND 31 \<and>
   B_imm (InstructionFactory_BEQ s1 s2 imm) = signed_take_bit 12 imm AND NOT 1 \<and>
   rd (InstructionFactory_JAL r imm) = r AND 31 \<and>
   J_imm (InstructionFactory_JAL r imm) = signed_take_bit 20 imm AND NOT 1 \<and>
   rd (InstructionFactory_LUI r imm) = r AND 31 \<and>
   U_imm (InstructionFactory_LUI r imm) = imm AND NOT 0xFFF \<and>
   rd (InstructionFactory_ADD r s1 s2) = r AND 31 \<and>
   rs1 (InstructionFactory_ADD r s1 s2) = s1 AND 31 \<and>
   rs2 (InstructionFactory_ADD r s1 s2) = s2 AND 31"
  by (simp only: factory_rd factory_imm factory_rs simp_thms)

end
