(* ===== verification/VP_FP.thy ===== *)
theory VP_FP
  imports VP_ISS32
begin

text \<open>
  The floating-point unit of the RV32 ISS: the register file and the format helpers of
  \<^verbatim>\<open>vp/src/core/common/fp.h\<close>, the \<^verbatim>\<open>fp_*\<close> functions and the operations of the Zfh, F and D extensions of
  \<^verbatim>\<open>vp/src/core/rv32/iss_ctemplate.cpp\<close>. The arithmetic is the softfloat library, the parameter \<open>SF\<close>: a
  function that rounds gets the rounding mode, and each returns its result with the exception flags it raises.
\<close>

section \<open>The softfloat library\<close>

record softfloat =
  sf_f16_add :: "u8 \<Rightarrow> u16 \<Rightarrow> u16 \<Rightarrow> u16 \<times> u8"
  sf_f16_sub :: "u8 \<Rightarrow> u16 \<Rightarrow> u16 \<Rightarrow> u16 \<times> u8"
  sf_f16_mul :: "u8 \<Rightarrow> u16 \<Rightarrow> u16 \<Rightarrow> u16 \<times> u8"
  sf_f16_div :: "u8 \<Rightarrow> u16 \<Rightarrow> u16 \<Rightarrow> u16 \<times> u8"
  sf_f16_sqrt :: "u8 \<Rightarrow> u16 \<Rightarrow> u16 \<times> u8"
  sf_f16_mulAdd :: "u8 \<Rightarrow> u16 \<Rightarrow> u16 \<Rightarrow> u16 \<Rightarrow> u16 \<times> u8"
  sf_f16_eq :: "u16 \<Rightarrow> u16 \<Rightarrow> bool \<times> u8"
  sf_f16_lt :: "u16 \<Rightarrow> u16 \<Rightarrow> bool \<times> u8"
  sf_f16_le :: "u16 \<Rightarrow> u16 \<Rightarrow> bool \<times> u8"
  sf_f16_lt_quiet :: "u16 \<Rightarrow> u16 \<Rightarrow> bool \<times> u8"
  sf_f16_classify :: "u16 \<Rightarrow> u32"
  sf_f16_to_i32 :: "u8 \<Rightarrow> u16 \<Rightarrow> u32 \<times> u8"
  sf_f16_to_ui32 :: "u8 \<Rightarrow> u16 \<Rightarrow> u32 \<times> u8"
  sf_i32_to_f16 :: "u8 \<Rightarrow> u32 \<Rightarrow> u16 \<times> u8"
  sf_ui32_to_f16 :: "u8 \<Rightarrow> u32 \<Rightarrow> u16 \<times> u8"
  sf_f32_add :: "u8 \<Rightarrow> u32 \<Rightarrow> u32 \<Rightarrow> u32 \<times> u8"
  sf_f32_sub :: "u8 \<Rightarrow> u32 \<Rightarrow> u32 \<Rightarrow> u32 \<times> u8"
  sf_f32_mul :: "u8 \<Rightarrow> u32 \<Rightarrow> u32 \<Rightarrow> u32 \<times> u8"
  sf_f32_div :: "u8 \<Rightarrow> u32 \<Rightarrow> u32 \<Rightarrow> u32 \<times> u8"
  sf_f32_sqrt :: "u8 \<Rightarrow> u32 \<Rightarrow> u32 \<times> u8"
  sf_f32_mulAdd :: "u8 \<Rightarrow> u32 \<Rightarrow> u32 \<Rightarrow> u32 \<Rightarrow> u32 \<times> u8"
  sf_f32_eq :: "u32 \<Rightarrow> u32 \<Rightarrow> bool \<times> u8"
  sf_f32_lt :: "u32 \<Rightarrow> u32 \<Rightarrow> bool \<times> u8"
  sf_f32_le :: "u32 \<Rightarrow> u32 \<Rightarrow> bool \<times> u8"
  sf_f32_lt_quiet :: "u32 \<Rightarrow> u32 \<Rightarrow> bool \<times> u8"
  sf_f32_classify :: "u32 \<Rightarrow> u32"
  sf_f32_to_i32 :: "u8 \<Rightarrow> u32 \<Rightarrow> u32 \<times> u8"
  sf_f32_to_ui32 :: "u8 \<Rightarrow> u32 \<Rightarrow> u32 \<times> u8"
  sf_i32_to_f32 :: "u8 \<Rightarrow> u32 \<Rightarrow> u32 \<times> u8"
  sf_ui32_to_f32 :: "u8 \<Rightarrow> u32 \<Rightarrow> u32 \<times> u8"
  sf_f64_add :: "u8 \<Rightarrow> u64 \<Rightarrow> u64 \<Rightarrow> u64 \<times> u8"
  sf_f64_sub :: "u8 \<Rightarrow> u64 \<Rightarrow> u64 \<Rightarrow> u64 \<times> u8"
  sf_f64_mul :: "u8 \<Rightarrow> u64 \<Rightarrow> u64 \<Rightarrow> u64 \<times> u8"
  sf_f64_div :: "u8 \<Rightarrow> u64 \<Rightarrow> u64 \<Rightarrow> u64 \<times> u8"
  sf_f64_sqrt :: "u8 \<Rightarrow> u64 \<Rightarrow> u64 \<times> u8"
  sf_f64_mulAdd :: "u8 \<Rightarrow> u64 \<Rightarrow> u64 \<Rightarrow> u64 \<Rightarrow> u64 \<times> u8"
  sf_f64_eq :: "u64 \<Rightarrow> u64 \<Rightarrow> bool \<times> u8"
  sf_f64_lt :: "u64 \<Rightarrow> u64 \<Rightarrow> bool \<times> u8"
  sf_f64_le :: "u64 \<Rightarrow> u64 \<Rightarrow> bool \<times> u8"
  sf_f64_lt_quiet :: "u64 \<Rightarrow> u64 \<Rightarrow> bool \<times> u8"
  sf_f64_classify :: "u64 \<Rightarrow> u32"
  sf_f64_to_i32 :: "u8 \<Rightarrow> u64 \<Rightarrow> u32 \<times> u8"
  sf_f64_to_ui32 :: "u8 \<Rightarrow> u64 \<Rightarrow> u32 \<times> u8"
  sf_i32_to_f64 :: "u8 \<Rightarrow> u32 \<Rightarrow> u64 \<times> u8"
  sf_ui32_to_f64 :: "u8 \<Rightarrow> u32 \<Rightarrow> u64 \<times> u8"
  sf_f16_to_f32 :: "u8 \<Rightarrow> u16 \<Rightarrow> u32 \<times> u8"
  sf_f16_to_f64 :: "u8 \<Rightarrow> u16 \<Rightarrow> u64 \<times> u8"
  sf_f32_to_f16 :: "u8 \<Rightarrow> u32 \<Rightarrow> u16 \<times> u8"
  sf_f32_to_f64 :: "u8 \<Rightarrow> u32 \<Rightarrow> u64 \<times> u8"
  sf_f64_to_f16 :: "u8 \<Rightarrow> u64 \<Rightarrow> u16 \<times> u8"
  sf_f64_to_f32 :: "u8 \<Rightarrow> u64 \<Rightarrow> u32 \<times> u8"

section \<open>Formats\<close>

abbreviation (input) FRM_RMM :: u32 where "FRM_RMM \<equiv> 4"
abbreviation (input) FRM_DYN :: u32 where "FRM_DYN \<equiv> 7"

definition f16_defaultNaN :: u16 where "f16_defaultNaN = 0x7E00"
definition f32_defaultNaN :: u32 where "f32_defaultNaN = 0x7FC00000"
definition f64_defaultNaN :: u64 where "f64_defaultNaN = 0x7FF8000000000000"

abbreviation (input) F16_SIGN_BIT :: u16 where "F16_SIGN_BIT \<equiv> 0x8000"
abbreviation (input) F32_SIGN_BIT :: u32 where "F32_SIGN_BIT \<equiv> 0x80000000"
abbreviation (input) F64_SIGN_BIT :: u64 where "F64_SIGN_BIT \<equiv> 0x8000000000000000"

definition f16_isNegative :: "u16 \<Rightarrow> bool" where
  "f16_isNegative x \<longleftrightarrow> x AND F16_SIGN_BIT \<noteq> 0"

definition f16_neg :: "u16 \<Rightarrow> u16" where
  "f16_neg x = x XOR F16_SIGN_BIT"

definition f16_isNaN :: "u16 \<Rightarrow> bool" where
  "f16_isNaN x \<longleftrightarrow> x AND 0x7C00 = 0x7C00 \<and> x AND 0x03FF \<noteq> 0"

definition f16_sgnj :: "u16 \<Rightarrow> u16 \<Rightarrow> u16" where
  "f16_sgnj x y = (x AND NOT F16_SIGN_BIT) OR (y AND F16_SIGN_BIT)"

definition f16_sgnjn :: "u16 \<Rightarrow> u16 \<Rightarrow> u16" where
  "f16_sgnjn x y = (x AND NOT F16_SIGN_BIT) OR (NOT y AND F16_SIGN_BIT)"

definition f16_sgnjx :: "u16 \<Rightarrow> u16 \<Rightarrow> u16" where
  "f16_sgnjx x y = x XOR (y AND F16_SIGN_BIT)"

definition f32_isNegative :: "u32 \<Rightarrow> bool" where
  "f32_isNegative x \<longleftrightarrow> x AND F32_SIGN_BIT \<noteq> 0"

definition f32_neg :: "u32 \<Rightarrow> u32" where
  "f32_neg x = x XOR F32_SIGN_BIT"

definition f32_isNaN :: "u32 \<Rightarrow> bool" where
  "f32_isNaN x \<longleftrightarrow> x AND 0x7F800000 = 0x7F800000 \<and> x AND 0x007FFFFF \<noteq> 0"

definition f32_sgnj :: "u32 \<Rightarrow> u32 \<Rightarrow> u32" where
  "f32_sgnj x y = (x AND NOT F32_SIGN_BIT) OR (y AND F32_SIGN_BIT)"

definition f32_sgnjn :: "u32 \<Rightarrow> u32 \<Rightarrow> u32" where
  "f32_sgnjn x y = (x AND NOT F32_SIGN_BIT) OR (NOT y AND F32_SIGN_BIT)"

definition f32_sgnjx :: "u32 \<Rightarrow> u32 \<Rightarrow> u32" where
  "f32_sgnjx x y = x XOR (y AND F32_SIGN_BIT)"

definition f64_isNegative :: "u64 \<Rightarrow> bool" where
  "f64_isNegative x \<longleftrightarrow> x AND F64_SIGN_BIT \<noteq> 0"

definition f64_neg :: "u64 \<Rightarrow> u64" where
  "f64_neg x = x XOR F64_SIGN_BIT"

definition f64_isNaN :: "u64 \<Rightarrow> bool" where
  "f64_isNaN x \<longleftrightarrow> x AND 0x7FF0000000000000 = 0x7FF0000000000000 \<and> x AND 0x000FFFFFFFFFFFFF \<noteq> 0"

definition f64_sgnj :: "u64 \<Rightarrow> u64 \<Rightarrow> u64" where
  "f64_sgnj x y = (x AND NOT F64_SIGN_BIT) OR (y AND F64_SIGN_BIT)"

definition f64_sgnjn :: "u64 \<Rightarrow> u64 \<Rightarrow> u64" where
  "f64_sgnjn x y = (x AND NOT F64_SIGN_BIT) OR (NOT y AND F64_SIGN_BIT)"

definition f64_sgnjx :: "u64 \<Rightarrow> u64 \<Rightarrow> u64" where
  "f64_sgnjx x y = x XOR (y AND F64_SIGN_BIT)"

section \<open>The register file\<close>

text \<open>\<^verbatim>\<open>FpRegs\<close>: a narrower value is boxed, its upper bits are ones.\<close>

definition is_boxed_f16 :: "u64 \<Rightarrow> bool" where "is_boxed_f16 x \<longleftrightarrow> drop_bit 16 x = 0xFFFFFFFFFFFF"
definition is_boxed_f32 :: "u64 \<Rightarrow> bool" where "is_boxed_f32 x \<longleftrightarrow> drop_bit 32 x = 0xFFFFFFFF"

definition box_f16 :: "u16 \<Rightarrow> u64" where "box_f16 x = ucast x OR 0xFFFFFFFFFFFF0000"
definition box_f32 :: "u32 \<Rightarrow> u64" where "box_f32 x = ucast x OR 0xFFFFFFFF00000000"

definition unbox_f16 :: "u64 \<Rightarrow> u16" where "unbox_f16 x = ucast x"
definition unbox_f32 :: "u64 \<Rightarrow> u32" where "unbox_f32 x = ucast x"

definition f16_boxed :: "u64 \<Rightarrow> u16" where
  "f16_boxed x = (if is_boxed_f16 x then unbox_f16 x else f16_defaultNaN)"

definition f32_boxed :: "u64 \<Rightarrow> u32" where
  "f32_boxed x = (if is_boxed_f32 x then unbox_f32 x else f32_defaultNaN)"

definition f64 :: "u32 \<Rightarrow> 'd iss \<Rightarrow> u64" where "f64 idx s = fp_regs s ! unat idx"
definition f32 :: "u32 \<Rightarrow> 'd iss \<Rightarrow> u32" where "f32 idx s = f32_boxed (f64 idx s)"
definition f16 :: "u32 \<Rightarrow> 'd iss \<Rightarrow> u16" where "f16 idx s = f16_boxed (f64 idx s)"

definition fp_write64 :: "u32 \<Rightarrow> u64 \<Rightarrow> 'd iss \<Rightarrow> 'd iss" where
  "fp_write64 idx x s = s\<lparr>fp_regs := (fp_regs s)[unat idx := x]\<rparr>"

definition fp_write32 :: "u32 \<Rightarrow> u32 \<Rightarrow> 'd iss \<Rightarrow> 'd iss" where
  "fp_write32 idx x = fp_write64 idx (box_f32 x)"

definition fp_write16 :: "u32 \<Rightarrow> u16 \<Rightarrow> 'd iss \<Rightarrow> 'd iss" where
  "fp_write16 idx x = fp_write64 idx (box_f16 x)"

section \<open>Instruction prologue and epilogue\<close>

definition fp_prepare_instr :: "('d iss, unit) M" where
  "fp_prepare_instr = bindM (getsM (\<lambda>s. softfloat_exceptionFlags s = 0)) (\<lambda>clean.
     seqM (assertM clean) fp_require_not_off)"

definition fp_set_dirty :: "'d iss \<Rightarrow> 'd iss" where
  "fp_set_dirty s = csr_fset csr_mstatus mstatus_fs FS_DIRTY (csr_fset csr_mstatus mstatus_sd 1 s)"

definition fp_update_exception_flags :: "'d iss \<Rightarrow> 'd iss" where
  "fp_update_exception_flags s =
     (if softfloat_exceptionFlags s \<noteq> 0
      then (let s = fp_set_dirty s;
                s = csr_fset csr_fcsr fcsr_fflags
                      (csr_fget csr_fcsr fcsr_fflags s OR ucast (softfloat_exceptionFlags s)) s
            in s\<lparr>softfloat_exceptionFlags := 0\<rparr>)
      else s)"

definition fp_finish_instr :: "'d iss \<Rightarrow> 'd iss" where
  "fp_finish_instr s = fp_update_exception_flags (fp_set_dirty s)"

definition fp_setup_rm :: "('d iss, unit) M" where
  "fp_setup_rm = bindM (getsM (\<lambda>s. if frm (instr s) = FRM_DYN then csr_fget csr_fcsr fcsr_frm s
                                   else frm (instr s))) (\<lambda>rm.
     if rm > FRM_RMM then RAISE_ILLEGAL_INSTRUCTION
     else modifyM (\<lambda>s. s\<lparr>softfloat_roundingMode := ucast rm\<rparr>))"

text \<open>A call of the library: the flags it raises are accumulated.\<close>

definition sf_call :: "('d iss \<Rightarrow> 'a \<times> u8) \<Rightarrow> ('d iss, 'a) M" where
  "sf_call f = bindM (getsM f) (\<lambda>(r, flags).
     seqM (modifyM (\<lambda>s. s\<lparr>softfloat_exceptionFlags := softfloat_exceptionFlags s OR flags\<rparr>)) (ret r))"

section \<open>The shapes of the operations\<close>

text \<open>Prepare, set the rounding mode, compute, write the floating-point register, finish.\<close>

definition fp_arith ::
  "(u32 \<Rightarrow> 'f \<Rightarrow> 'd iss \<Rightarrow> 'd iss) \<Rightarrow> ('d iss \<Rightarrow> 'f \<times> u8) \<Rightarrow> ('d iss, unit) M"
where
  "fp_arith write f = seqM fp_prepare_instr (seqM fp_setup_rm (bindM (sf_call f) (\<lambda>r.
     seqM (modifyM (\<lambda>s. write (rd (instr s)) r s)) (modifyM fp_finish_instr))))"

text \<open>Conversion to an integer register.\<close>

definition fp_to_int :: "('d iss \<Rightarrow> u32 \<times> u8) \<Rightarrow> ('d iss, unit) M" where
  "fp_to_int f = seqM fp_prepare_instr (seqM fp_setup_rm (bindM (sf_call f) (\<lambda>r.
     seqM (modifyM (set_rd r)) (seqM (modifyM fp_finish_instr) (modifyM reset_reg_zero)))))"

definition fp_compare :: "('d iss \<Rightarrow> bool \<times> u8) \<Rightarrow> ('d iss, unit) M" where
  "fp_compare f = seqM fp_prepare_instr (bindM (sf_call f) (\<lambda>b.
     seqM (modifyM (set_rd (bool_reg b)))
       (seqM (modifyM fp_update_exception_flags) (modifyM reset_reg_zero))))"

text \<open>Classification and moves to an integer register raise no flags.\<close>

definition fp_move_to_int :: "('d iss \<Rightarrow> u32) \<Rightarrow> ('d iss, unit) M" where
  "fp_move_to_int f = seqM fp_prepare_instr
     (seqM (modifyM (\<lambda>s. set_rd (f s) s)) (modifyM reset_reg_zero))"

text \<open>Sign injection and moves from an integer register.\<close>

definition fp_sign ::
  "(u32 \<Rightarrow> 'f \<Rightarrow> 'd iss \<Rightarrow> 'd iss) \<Rightarrow> ('d iss \<Rightarrow> 'f) \<Rightarrow> ('d iss, unit) M"
where
  "fp_sign write f = seqM fp_prepare_instr
     (seqM (modifyM (\<lambda>s. write (rd (instr s)) (f s) s)) (modifyM fp_set_dirty))"

text \<open>
  Minimum and maximum: \<open>first\<close> is \<^verbatim>\<open>rs1_smaller\<close> or \<^verbatim>\<open>rs1_greater\<close>; the second comparison is only made when the
  first is false.
\<close>

definition fp_min_max ::
  "(u32 \<Rightarrow> 'd iss \<Rightarrow> 'f) \<Rightarrow> (u32 \<Rightarrow> 'f \<Rightarrow> 'd iss \<Rightarrow> 'd iss) \<Rightarrow> ('f \<Rightarrow> bool) \<Rightarrow> ('f \<Rightarrow> bool) \<Rightarrow> 'f \<Rightarrow>
   ('f \<Rightarrow> 'f \<Rightarrow> bool \<times> u8) \<Rightarrow> ('f \<Rightarrow> 'f \<Rightarrow> bool \<times> u8) \<Rightarrow> bool \<Rightarrow> ('d iss, unit) M"
where
  "fp_min_max read write isNegative isNaN defaultNaN lt_quiet eq maximum = seqM fp_prepare_instr
     (bindM (getsM (\<lambda>s. (read (rs1 (instr s)) s, read (rs2 (instr s)) s))) (\<lambda>(a, b).
      let (x, y) = (if maximum then (b, a) else (a, b)) in
      bindM (sf_call (\<lambda>_. lt_quiet x y)) (\<lambda>lt.
      bindM (if lt then ret True
             else bindM (sf_call (\<lambda>_. eq x y)) (\<lambda>e. ret (e \<and> isNegative x))) (\<lambda>first.
      seqM (modifyM (\<lambda>s. write (rd (instr s))
              (if isNaN a \<and> isNaN b then defaultNaN else if first \<or> isNaN b then a else b) s))
        (modifyM fp_finish_instr)))))"

section \<open>Operations\<close>

definition op_FLH :: "'d iss_env \<Rightarrow> ('d iss, unit) M" where
  "op_FLH E = seqM fp_prepare_instr (bindM (getsM load_addr) (\<lambda>addr.
     seqM (trap_check_addr_alignment 2 True addr)
     (bindM (ls_load_uhalf (lscache E) (ucast addr)) (\<lambda>v.
      seqM (modifyM (\<lambda>s. fp_write16 (rd (instr s)) (ucast v) s)) (modifyM fp_set_dirty)))))"

definition op_FSH :: "'d iss_env \<Rightarrow> ('d iss, unit) M" where
  "op_FSH E = seqM fp_prepare_instr (bindM (getsM (\<lambda>s. (store_addr s, ucast (f64 (rs2 (instr s)) s)))) (\<lambda>(addr, v).
     seqM (trap_check_addr_alignment 2 False addr)
     (seqM (ls_store_half (lscache E) (ucast addr) v) (modifyM fp_set_dirty))))"

definition op_FADD_H :: "softfloat \<Rightarrow> ('d iss, unit) M" where
  "op_FADD_H SF = fp_arith fp_write16 (\<lambda>s. sf_f16_add SF (softfloat_roundingMode s)
     (f16 (rs1 (instr s)) s) (f16 (rs2 (instr s)) s))"

definition op_FSUB_H :: "softfloat \<Rightarrow> ('d iss, unit) M" where
  "op_FSUB_H SF = fp_arith fp_write16 (\<lambda>s. sf_f16_sub SF (softfloat_roundingMode s)
     (f16 (rs1 (instr s)) s) (f16 (rs2 (instr s)) s))"

definition op_FMUL_H :: "softfloat \<Rightarrow> ('d iss, unit) M" where
  "op_FMUL_H SF = fp_arith fp_write16 (\<lambda>s. sf_f16_mul SF (softfloat_roundingMode s)
     (f16 (rs1 (instr s)) s) (f16 (rs2 (instr s)) s))"

definition op_FDIV_H :: "softfloat \<Rightarrow> ('d iss, unit) M" where
  "op_FDIV_H SF = fp_arith fp_write16 (\<lambda>s. sf_f16_div SF (softfloat_roundingMode s)
     (f16 (rs1 (instr s)) s) (f16 (rs2 (instr s)) s))"

definition op_FSQRT_H :: "softfloat \<Rightarrow> ('d iss, unit) M" where
  "op_FSQRT_H SF = fp_arith fp_write16 (\<lambda>s. sf_f16_sqrt SF (softfloat_roundingMode s)
     (f16 (rs1 (instr s)) s))"

definition op_FMIN_H :: "softfloat \<Rightarrow> ('d iss, unit) M" where
  "op_FMIN_H SF = fp_min_max f16 fp_write16 f16_isNegative f16_isNaN f16_defaultNaN
     (sf_f16_lt_quiet SF) (sf_f16_eq SF) False"

definition op_FMAX_H :: "softfloat \<Rightarrow> ('d iss, unit) M" where
  "op_FMAX_H SF = fp_min_max f16 fp_write16 f16_isNegative f16_isNaN f16_defaultNaN
     (sf_f16_lt_quiet SF) (sf_f16_eq SF) True"

definition op_FMADD_H :: "softfloat \<Rightarrow> ('d iss, unit) M" where
  "op_FMADD_H SF = fp_arith fp_write16 (\<lambda>s. sf_f16_mulAdd SF (softfloat_roundingMode s)
     (f16 (rs1 (instr s)) s) (f16 (rs2 (instr s)) s) (f16 (rs3 (instr s)) s))"

definition op_FMSUB_H :: "softfloat \<Rightarrow> ('d iss, unit) M" where
  "op_FMSUB_H SF = fp_arith fp_write16 (\<lambda>s. sf_f16_mulAdd SF (softfloat_roundingMode s)
     (f16 (rs1 (instr s)) s) (f16 (rs2 (instr s)) s) (f16_neg (f16 (rs3 (instr s)) s)))"

definition op_FNMADD_H :: "softfloat \<Rightarrow> ('d iss, unit) M" where
  "op_FNMADD_H SF = fp_arith fp_write16 (\<lambda>s. sf_f16_mulAdd SF (softfloat_roundingMode s)
     (f16_neg (f16 (rs1 (instr s)) s)) (f16 (rs2 (instr s)) s) (f16_neg (f16 (rs3 (instr s)) s)))"

definition op_FNMSUB_H :: "softfloat \<Rightarrow> ('d iss, unit) M" where
  "op_FNMSUB_H SF = fp_arith fp_write16 (\<lambda>s. sf_f16_mulAdd SF (softfloat_roundingMode s)
     (f16_neg (f16 (rs1 (instr s)) s)) (f16 (rs2 (instr s)) s) (f16 (rs3 (instr s)) s))"

definition op_FSGNJ_H :: "('d iss, unit) M" where
  "op_FSGNJ_H = fp_sign fp_write16 (\<lambda>s. f16_sgnj (f16 (rs1 (instr s)) s) (f16 (rs2 (instr s)) s))"

definition op_FSGNJN_H :: "('d iss, unit) M" where
  "op_FSGNJN_H = fp_sign fp_write16 (\<lambda>s. f16_sgnjn (f16 (rs1 (instr s)) s) (f16 (rs2 (instr s)) s))"

definition op_FSGNJX_H :: "('d iss, unit) M" where
  "op_FSGNJX_H = fp_sign fp_write16 (\<lambda>s. f16_sgnjx (f16 (rs1 (instr s)) s) (f16 (rs2 (instr s)) s))"

definition op_FEQ_H :: "softfloat \<Rightarrow> ('d iss, unit) M" where
  "op_FEQ_H SF = fp_compare (\<lambda>s. sf_f16_eq SF (f16 (rs1 (instr s)) s) (f16 (rs2 (instr s)) s))"

definition op_FLT_H :: "softfloat \<Rightarrow> ('d iss, unit) M" where
  "op_FLT_H SF = fp_compare (\<lambda>s. sf_f16_lt SF (f16 (rs1 (instr s)) s) (f16 (rs2 (instr s)) s))"

definition op_FLE_H :: "softfloat \<Rightarrow> ('d iss, unit) M" where
  "op_FLE_H SF = fp_compare (\<lambda>s. sf_f16_le SF (f16 (rs1 (instr s)) s) (f16 (rs2 (instr s)) s))"

definition op_FCLASS_H :: "softfloat \<Rightarrow> ('d iss, unit) M" where
  "op_FCLASS_H SF = fp_move_to_int (\<lambda>s. scast (ucast (sf_f16_classify SF (f16 (rs1 (instr s)) s)) :: u16))"

definition op_FMV_H_X :: "('d iss, unit) M" where
  "op_FMV_H_X = fp_sign fp_write16 (\<lambda>s. ucast (rs1_val s))"

definition op_FMV_X_H :: "('d iss, unit) M" where
  "op_FMV_X_H = fp_move_to_int (\<lambda>s. scast (ucast (f64 (rs1 (instr s)) s) :: u16))"

definition op_FCVT_W_H :: "softfloat \<Rightarrow> ('d iss, unit) M" where
  "op_FCVT_W_H SF = fp_to_int (\<lambda>s. sf_f16_to_i32 SF (softfloat_roundingMode s)
     (f16 (rs1 (instr s)) s))"

definition op_FCVT_WU_H :: "softfloat \<Rightarrow> ('d iss, unit) M" where
  "op_FCVT_WU_H SF = fp_to_int (\<lambda>s. sf_f16_to_ui32 SF (softfloat_roundingMode s)
     (f16 (rs1 (instr s)) s))"

definition op_FCVT_H_W :: "softfloat \<Rightarrow> ('d iss, unit) M" where
  "op_FCVT_H_W SF = fp_arith fp_write16 (\<lambda>s. sf_i32_to_f16 SF (softfloat_roundingMode s)
     (rs1_val s))"

definition op_FCVT_H_WU :: "softfloat \<Rightarrow> ('d iss, unit) M" where
  "op_FCVT_H_WU SF = fp_arith fp_write16 (\<lambda>s. sf_ui32_to_f16 SF (softfloat_roundingMode s)
     (rs1_val s))"

definition op_FCVT_S_H :: "softfloat \<Rightarrow> ('d iss, unit) M" where
  "op_FCVT_S_H SF = fp_arith fp_write32 (\<lambda>s. sf_f16_to_f32 SF (softfloat_roundingMode s)
     (f16 (rs1 (instr s)) s))"

definition op_FCVT_H_S :: "softfloat \<Rightarrow> ('d iss, unit) M" where
  "op_FCVT_H_S SF = fp_arith fp_write16 (\<lambda>s. sf_f32_to_f16 SF (softfloat_roundingMode s)
     (f32 (rs1 (instr s)) s))"

definition op_FCVT_H_D :: "softfloat \<Rightarrow> ('d iss, unit) M" where
  "op_FCVT_H_D SF = fp_arith fp_write16 (\<lambda>s. sf_f64_to_f16 SF (softfloat_roundingMode s)
     (f64 (rs1 (instr s)) s))"

definition op_FCVT_D_H :: "softfloat \<Rightarrow> ('d iss, unit) M" where
  "op_FCVT_D_H SF = fp_arith fp_write64 (\<lambda>s. sf_f16_to_f64 SF (softfloat_roundingMode s)
     (f16 (rs1 (instr s)) s))"

definition op_FLW :: "'d iss_env \<Rightarrow> ('d iss, unit) M" where
  "op_FLW E = seqM fp_prepare_instr (bindM (getsM load_addr) (\<lambda>addr.
     seqM (trap_check_addr_alignment 4 True addr)
     (bindM (ls_load_uword (lscache E) (ucast addr)) (\<lambda>v.
      seqM (modifyM (\<lambda>s. fp_write32 (rd (instr s)) v s)) (modifyM fp_set_dirty)))))"

definition op_FSW :: "'d iss_env \<Rightarrow> ('d iss, unit) M" where
  "op_FSW E = seqM fp_prepare_instr (bindM (getsM (\<lambda>s. (store_addr s, ucast (f64 (rs2 (instr s)) s)))) (\<lambda>(addr, v).
     seqM (trap_check_addr_alignment 4 False addr)
     (seqM (ls_store_word (lscache E) (ucast addr) v) (modifyM fp_set_dirty))))"

definition op_FADD_S :: "softfloat \<Rightarrow> ('d iss, unit) M" where
  "op_FADD_S SF = fp_arith fp_write32 (\<lambda>s. sf_f32_add SF (softfloat_roundingMode s)
     (f32 (rs1 (instr s)) s) (f32 (rs2 (instr s)) s))"

definition op_FSUB_S :: "softfloat \<Rightarrow> ('d iss, unit) M" where
  "op_FSUB_S SF = fp_arith fp_write32 (\<lambda>s. sf_f32_sub SF (softfloat_roundingMode s)
     (f32 (rs1 (instr s)) s) (f32 (rs2 (instr s)) s))"

definition op_FMUL_S :: "softfloat \<Rightarrow> ('d iss, unit) M" where
  "op_FMUL_S SF = fp_arith fp_write32 (\<lambda>s. sf_f32_mul SF (softfloat_roundingMode s)
     (f32 (rs1 (instr s)) s) (f32 (rs2 (instr s)) s))"

definition op_FDIV_S :: "softfloat \<Rightarrow> ('d iss, unit) M" where
  "op_FDIV_S SF = fp_arith fp_write32 (\<lambda>s. sf_f32_div SF (softfloat_roundingMode s)
     (f32 (rs1 (instr s)) s) (f32 (rs2 (instr s)) s))"

definition op_FSQRT_S :: "softfloat \<Rightarrow> ('d iss, unit) M" where
  "op_FSQRT_S SF = fp_arith fp_write32 (\<lambda>s. sf_f32_sqrt SF (softfloat_roundingMode s)
     (f32 (rs1 (instr s)) s))"

definition op_FMIN_S :: "softfloat \<Rightarrow> ('d iss, unit) M" where
  "op_FMIN_S SF = fp_min_max f32 fp_write32 f32_isNegative f32_isNaN f32_defaultNaN
     (sf_f32_lt_quiet SF) (sf_f32_eq SF) False"

definition op_FMAX_S :: "softfloat \<Rightarrow> ('d iss, unit) M" where
  "op_FMAX_S SF = fp_min_max f32 fp_write32 f32_isNegative f32_isNaN f32_defaultNaN
     (sf_f32_lt_quiet SF) (sf_f32_eq SF) True"

definition op_FMADD_S :: "softfloat \<Rightarrow> ('d iss, unit) M" where
  "op_FMADD_S SF = fp_arith fp_write32 (\<lambda>s. sf_f32_mulAdd SF (softfloat_roundingMode s)
     (f32 (rs1 (instr s)) s) (f32 (rs2 (instr s)) s) (f32 (rs3 (instr s)) s))"

definition op_FMSUB_S :: "softfloat \<Rightarrow> ('d iss, unit) M" where
  "op_FMSUB_S SF = fp_arith fp_write32 (\<lambda>s. sf_f32_mulAdd SF (softfloat_roundingMode s)
     (f32 (rs1 (instr s)) s) (f32 (rs2 (instr s)) s) (f32_neg (f32 (rs3 (instr s)) s)))"

definition op_FNMADD_S :: "softfloat \<Rightarrow> ('d iss, unit) M" where
  "op_FNMADD_S SF = fp_arith fp_write32 (\<lambda>s. sf_f32_mulAdd SF (softfloat_roundingMode s)
     (f32_neg (f32 (rs1 (instr s)) s)) (f32 (rs2 (instr s)) s) (f32_neg (f32 (rs3 (instr s)) s)))"

definition op_FNMSUB_S :: "softfloat \<Rightarrow> ('d iss, unit) M" where
  "op_FNMSUB_S SF = fp_arith fp_write32 (\<lambda>s. sf_f32_mulAdd SF (softfloat_roundingMode s)
     (f32_neg (f32 (rs1 (instr s)) s)) (f32 (rs2 (instr s)) s) (f32 (rs3 (instr s)) s))"

definition op_FCVT_W_S :: "softfloat \<Rightarrow> ('d iss, unit) M" where
  "op_FCVT_W_S SF = fp_to_int (\<lambda>s. sf_f32_to_i32 SF (softfloat_roundingMode s)
     (f32 (rs1 (instr s)) s))"

definition op_FCVT_WU_S :: "softfloat \<Rightarrow> ('d iss, unit) M" where
  "op_FCVT_WU_S SF = fp_to_int (\<lambda>s. sf_f32_to_ui32 SF (softfloat_roundingMode s)
     (f32 (rs1 (instr s)) s))"

definition op_FCVT_S_W :: "softfloat \<Rightarrow> ('d iss, unit) M" where
  "op_FCVT_S_W SF = fp_arith fp_write32 (\<lambda>s. sf_i32_to_f32 SF (softfloat_roundingMode s)
     (rs1_val s))"

definition op_FCVT_S_WU :: "softfloat \<Rightarrow> ('d iss, unit) M" where
  "op_FCVT_S_WU SF = fp_arith fp_write32 (\<lambda>s. sf_ui32_to_f32 SF (softfloat_roundingMode s)
     (rs1_val s))"

definition op_FSGNJ_S :: "('d iss, unit) M" where
  "op_FSGNJ_S = fp_sign fp_write32 (\<lambda>s. f32_sgnj (f32 (rs1 (instr s)) s) (f32 (rs2 (instr s)) s))"

definition op_FSGNJN_S :: "('d iss, unit) M" where
  "op_FSGNJN_S = fp_sign fp_write32 (\<lambda>s. f32_sgnjn (f32 (rs1 (instr s)) s) (f32 (rs2 (instr s)) s))"

definition op_FSGNJX_S :: "('d iss, unit) M" where
  "op_FSGNJX_S = fp_sign fp_write32 (\<lambda>s. f32_sgnjx (f32 (rs1 (instr s)) s) (f32 (rs2 (instr s)) s))"

definition op_FMV_W_X :: "('d iss, unit) M" where
  "op_FMV_W_X = fp_sign fp_write32 rs1_val"

definition op_FMV_X_W :: "('d iss, unit) M" where
  "op_FMV_X_W = fp_move_to_int (\<lambda>s. ucast (f64 (rs1 (instr s)) s))"

definition op_FEQ_S :: "softfloat \<Rightarrow> ('d iss, unit) M" where
  "op_FEQ_S SF = fp_compare (\<lambda>s. sf_f32_eq SF (f32 (rs1 (instr s)) s) (f32 (rs2 (instr s)) s))"

definition op_FLT_S :: "softfloat \<Rightarrow> ('d iss, unit) M" where
  "op_FLT_S SF = fp_compare (\<lambda>s. sf_f32_lt SF (f32 (rs1 (instr s)) s) (f32 (rs2 (instr s)) s))"

definition op_FLE_S :: "softfloat \<Rightarrow> ('d iss, unit) M" where
  "op_FLE_S SF = fp_compare (\<lambda>s. sf_f32_le SF (f32 (rs1 (instr s)) s) (f32 (rs2 (instr s)) s))"

definition op_FCLASS_S :: "softfloat \<Rightarrow> ('d iss, unit) M" where
  "op_FCLASS_S SF = fp_move_to_int (\<lambda>s. ucast (sf_f32_classify SF (f32 (rs1 (instr s)) s)))"

definition op_FLD :: "'d iss_env \<Rightarrow> ('d iss, unit) M" where
  "op_FLD E = seqM fp_prepare_instr (bindM (getsM load_addr) (\<lambda>addr.
     seqM (trap_check_addr_alignment 8 True addr)
     (bindM (ls_load_double (lscache E) (ucast addr)) (\<lambda>v.
      seqM (modifyM (\<lambda>s. fp_write64 (rd (instr s)) v s)) (modifyM fp_set_dirty)))))"

definition op_FSD :: "'d iss_env \<Rightarrow> ('d iss, unit) M" where
  "op_FSD E = seqM fp_prepare_instr (bindM (getsM (\<lambda>s. (store_addr s, f64 (rs2 (instr s)) s))) (\<lambda>(addr, v).
     seqM (trap_check_addr_alignment 8 False addr)
     (seqM (ls_store_double (lscache E) (ucast addr) v) (modifyM fp_set_dirty))))"

definition op_FADD_D :: "softfloat \<Rightarrow> ('d iss, unit) M" where
  "op_FADD_D SF = fp_arith fp_write64 (\<lambda>s. sf_f64_add SF (softfloat_roundingMode s)
     (f64 (rs1 (instr s)) s) (f64 (rs2 (instr s)) s))"

definition op_FSUB_D :: "softfloat \<Rightarrow> ('d iss, unit) M" where
  "op_FSUB_D SF = fp_arith fp_write64 (\<lambda>s. sf_f64_sub SF (softfloat_roundingMode s)
     (f64 (rs1 (instr s)) s) (f64 (rs2 (instr s)) s))"

definition op_FMUL_D :: "softfloat \<Rightarrow> ('d iss, unit) M" where
  "op_FMUL_D SF = fp_arith fp_write64 (\<lambda>s. sf_f64_mul SF (softfloat_roundingMode s)
     (f64 (rs1 (instr s)) s) (f64 (rs2 (instr s)) s))"

definition op_FDIV_D :: "softfloat \<Rightarrow> ('d iss, unit) M" where
  "op_FDIV_D SF = fp_arith fp_write64 (\<lambda>s. sf_f64_div SF (softfloat_roundingMode s)
     (f64 (rs1 (instr s)) s) (f64 (rs2 (instr s)) s))"

definition op_FSQRT_D :: "softfloat \<Rightarrow> ('d iss, unit) M" where
  "op_FSQRT_D SF = fp_arith fp_write64 (\<lambda>s. sf_f64_sqrt SF (softfloat_roundingMode s)
     (f64 (rs1 (instr s)) s))"

definition op_FMIN_D :: "softfloat \<Rightarrow> ('d iss, unit) M" where
  "op_FMIN_D SF = fp_min_max f64 fp_write64 f64_isNegative f64_isNaN f64_defaultNaN
     (sf_f64_lt_quiet SF) (sf_f64_eq SF) False"

definition op_FMAX_D :: "softfloat \<Rightarrow> ('d iss, unit) M" where
  "op_FMAX_D SF = fp_min_max f64 fp_write64 f64_isNegative f64_isNaN f64_defaultNaN
     (sf_f64_lt_quiet SF) (sf_f64_eq SF) True"

definition op_FMADD_D :: "softfloat \<Rightarrow> ('d iss, unit) M" where
  "op_FMADD_D SF = fp_arith fp_write64 (\<lambda>s. sf_f64_mulAdd SF (softfloat_roundingMode s)
     (f64 (rs1 (instr s)) s) (f64 (rs2 (instr s)) s) (f64 (rs3 (instr s)) s))"

definition op_FMSUB_D :: "softfloat \<Rightarrow> ('d iss, unit) M" where
  "op_FMSUB_D SF = fp_arith fp_write64 (\<lambda>s. sf_f64_mulAdd SF (softfloat_roundingMode s)
     (f64 (rs1 (instr s)) s) (f64 (rs2 (instr s)) s) (f64_neg (f64 (rs3 (instr s)) s)))"

definition op_FNMADD_D :: "softfloat \<Rightarrow> ('d iss, unit) M" where
  "op_FNMADD_D SF = fp_arith fp_write64 (\<lambda>s. sf_f64_mulAdd SF (softfloat_roundingMode s)
     (f64_neg (f64 (rs1 (instr s)) s)) (f64 (rs2 (instr s)) s) (f64_neg (f64 (rs3 (instr s)) s)))"

definition op_FNMSUB_D :: "softfloat \<Rightarrow> ('d iss, unit) M" where
  "op_FNMSUB_D SF = fp_arith fp_write64 (\<lambda>s. sf_f64_mulAdd SF (softfloat_roundingMode s)
     (f64_neg (f64 (rs1 (instr s)) s)) (f64 (rs2 (instr s)) s) (f64 (rs3 (instr s)) s))"

definition op_FSGNJ_D :: "('d iss, unit) M" where
  "op_FSGNJ_D = fp_sign fp_write64 (\<lambda>s. f64_sgnj (f64 (rs1 (instr s)) s) (f64 (rs2 (instr s)) s))"

definition op_FSGNJN_D :: "('d iss, unit) M" where
  "op_FSGNJN_D = fp_sign fp_write64 (\<lambda>s. f64_sgnjn (f64 (rs1 (instr s)) s) (f64 (rs2 (instr s)) s))"

definition op_FSGNJX_D :: "('d iss, unit) M" where
  "op_FSGNJX_D = fp_sign fp_write64 (\<lambda>s. f64_sgnjx (f64 (rs1 (instr s)) s) (f64 (rs2 (instr s)) s))"

definition op_FEQ_D :: "softfloat \<Rightarrow> ('d iss, unit) M" where
  "op_FEQ_D SF = fp_compare (\<lambda>s. sf_f64_eq SF (f64 (rs1 (instr s)) s) (f64 (rs2 (instr s)) s))"

definition op_FLT_D :: "softfloat \<Rightarrow> ('d iss, unit) M" where
  "op_FLT_D SF = fp_compare (\<lambda>s. sf_f64_lt SF (f64 (rs1 (instr s)) s) (f64 (rs2 (instr s)) s))"

definition op_FLE_D :: "softfloat \<Rightarrow> ('d iss, unit) M" where
  "op_FLE_D SF = fp_compare (\<lambda>s. sf_f64_le SF (f64 (rs1 (instr s)) s) (f64 (rs2 (instr s)) s))"

definition op_FCLASS_D :: "softfloat \<Rightarrow> ('d iss, unit) M" where
  "op_FCLASS_D SF = fp_move_to_int (\<lambda>s. ucast (sf_f64_classify SF (f64 (rs1 (instr s)) s)))"

definition op_FCVT_W_D :: "softfloat \<Rightarrow> ('d iss, unit) M" where
  "op_FCVT_W_D SF = fp_to_int (\<lambda>s. sf_f64_to_i32 SF (softfloat_roundingMode s)
     (f64 (rs1 (instr s)) s))"

definition op_FCVT_WU_D :: "softfloat \<Rightarrow> ('d iss, unit) M" where
  "op_FCVT_WU_D SF = fp_to_int (\<lambda>s. sf_f64_to_ui32 SF (softfloat_roundingMode s)
     (f64 (rs1 (instr s)) s))"

definition op_FCVT_D_W :: "softfloat \<Rightarrow> ('d iss, unit) M" where
  "op_FCVT_D_W SF = fp_arith fp_write64 (\<lambda>s. sf_i32_to_f64 SF (softfloat_roundingMode s)
     (rs1_val s))"

definition op_FCVT_D_WU :: "softfloat \<Rightarrow> ('d iss, unit) M" where
  "op_FCVT_D_WU SF = fp_arith fp_write64 (\<lambda>s. sf_ui32_to_f64 SF (softfloat_roundingMode s)
     (rs1_val s))"

definition op_FCVT_S_D :: "softfloat \<Rightarrow> ('d iss, unit) M" where
  "op_FCVT_S_D SF = fp_arith fp_write32 (\<lambda>s. sf_f64_to_f32 SF (softfloat_roundingMode s)
     (f64 (rs1 (instr s)) s))"

definition op_FCVT_D_S :: "softfloat \<Rightarrow> ('d iss, unit) M" where
  "op_FCVT_D_S SF = fp_arith fp_write64 (\<lambda>s. sf_f32_to_f64 SF (softfloat_roundingMode s)
     (f32 (rs1 (instr s)) s))"

section \<open>Dispatch\<close>

text \<open>The floating-point cases of the dispatch; \<open>vec_op\<close> stands for the vector cases.\<close>

definition fp_op ::
  "softfloat \<Rightarrow> (OpId \<Rightarrow> ('d iss, unit) M) \<Rightarrow> 'd iss_env \<Rightarrow> OpId \<Rightarrow> ('d iss, unit) M"
where
  "fp_op SF vec_op E op = switch_on op
    [(FLH, op_FLH E), (FSH, op_FSH E), (FADD_H, op_FADD_H SF), (FSUB_H, op_FSUB_H SF),
     (FMUL_H, op_FMUL_H SF), (FDIV_H, op_FDIV_H SF), (FSQRT_H, op_FSQRT_H SF), (FMIN_H, op_FMIN_H SF),
     (FMAX_H, op_FMAX_H SF), (FMADD_H, op_FMADD_H SF), (FMSUB_H, op_FMSUB_H SF),
     (FNMADD_H, op_FNMADD_H SF), (FNMSUB_H, op_FNMSUB_H SF), (FSGNJ_H, op_FSGNJ_H),
     (FSGNJN_H, op_FSGNJN_H), (FSGNJX_H, op_FSGNJX_H), (FEQ_H, op_FEQ_H SF), (FLT_H, op_FLT_H SF),
     (FLE_H, op_FLE_H SF), (FCLASS_H, op_FCLASS_H SF), (FMV_H_X, op_FMV_H_X), (FMV_X_H, op_FMV_X_H),
     (FCVT_W_H, op_FCVT_W_H SF), (FCVT_WU_H, op_FCVT_WU_H SF), (FCVT_H_W, op_FCVT_H_W SF),
     (FCVT_H_WU, op_FCVT_H_WU SF), (FCVT_S_H, op_FCVT_S_H SF), (FCVT_H_S, op_FCVT_H_S SF),
     (FCVT_H_D, op_FCVT_H_D SF), (FCVT_D_H, op_FCVT_D_H SF), (FLW, op_FLW E), (FSW, op_FSW E),
     (FADD_S, op_FADD_S SF), (FSUB_S, op_FSUB_S SF), (FMUL_S, op_FMUL_S SF), (FDIV_S, op_FDIV_S SF),
     (FSQRT_S, op_FSQRT_S SF), (FMIN_S, op_FMIN_S SF), (FMAX_S, op_FMAX_S SF), (FMADD_S, op_FMADD_S SF),
     (FMSUB_S, op_FMSUB_S SF), (FNMADD_S, op_FNMADD_S SF), (FNMSUB_S, op_FNMSUB_S SF),
     (FCVT_W_S, op_FCVT_W_S SF), (FCVT_WU_S, op_FCVT_WU_S SF), (FCVT_S_W, op_FCVT_S_W SF),
     (FCVT_S_WU, op_FCVT_S_WU SF), (FSGNJ_S, op_FSGNJ_S), (FSGNJN_S, op_FSGNJN_S),
     (FSGNJX_S, op_FSGNJX_S), (FMV_W_X, op_FMV_W_X), (FMV_X_W, op_FMV_X_W), (FEQ_S, op_FEQ_S SF),
     (FLT_S, op_FLT_S SF), (FLE_S, op_FLE_S SF), (FCLASS_S, op_FCLASS_S SF), (FLD, op_FLD E),
     (FSD, op_FSD E), (FADD_D, op_FADD_D SF), (FSUB_D, op_FSUB_D SF), (FMUL_D, op_FMUL_D SF),
     (FDIV_D, op_FDIV_D SF), (FSQRT_D, op_FSQRT_D SF), (FMIN_D, op_FMIN_D SF), (FMAX_D, op_FMAX_D SF),
     (FMADD_D, op_FMADD_D SF), (FMSUB_D, op_FMSUB_D SF), (FNMADD_D, op_FNMADD_D SF),
     (FNMSUB_D, op_FNMSUB_D SF), (FSGNJ_D, op_FSGNJ_D), (FSGNJN_D, op_FSGNJN_D), (FSGNJX_D, op_FSGNJX_D),
     (FEQ_D, op_FEQ_D SF), (FLT_D, op_FLT_D SF), (FLE_D, op_FLE_D SF), (FCLASS_D, op_FCLASS_D SF),
     (FCVT_W_D, op_FCVT_W_D SF), (FCVT_WU_D, op_FCVT_WU_D SF), (FCVT_D_W, op_FCVT_D_W SF),
     (FCVT_D_WU, op_FCVT_D_WU SF), (FCVT_S_D, op_FCVT_S_D SF), (FCVT_D_S, op_FCVT_D_S SF)]
    (vec_op op)"

end
