(* ===== verification/VP_Mem.thy ===== *)
theory VP_Mem
  imports VP_State
begin

text \<open>
  The memory system of one hart. \<^verbatim>\<open>BusLock\<close> is from \<^verbatim>\<open>vp/src/platform/common/bus.h\<close>, \<^verbatim>\<open>MemoryDMI\<close> from
  \<^verbatim>\<open>vp/src/core/common/dmi.h\<close>, \<^verbatim>\<open>MMU_T\<close> from \<^verbatim>\<open>vp/src/core/common/mmu.h\<close>,
  \<^verbatim>\<open>CombinedMemoryInterface_T\<close> from \<^verbatim>\<open>vp/src/core/common/mem.h\<close> and the load/store caches from
  \<^verbatim>\<open>vp/src/core/common/lscache.h\<close>.

  Host memory is a family of blocks of bytes, so that a DMI range and the page pointers of the
  load/store cache may point into the same block. What lies behind the initiator socket is the
  parameter \<open>b_transport\<close>: it gets the command, the address and the data buffer, and returns the
  response status and the buffer. A SystemC \<^verbatim>\<open>wait\<close> ends in \<open>Suspended\<close>. The delays that are added to
  the quantum keeper are not modelled.
\<close>

section \<open>State\<close>

text \<open>\<^verbatim>\<open>class BusLock\<close>\<close>

record buslock =
  locked :: bool
  owner :: u32

text \<open>\<^verbatim>\<open>class MemoryDMI\<close>: the host block the range starts at the beginning of, and its guest addresses.\<close>

record MemoryDMI =
  dmi_block :: nat
  dmi_start :: u64
  dmi_size :: u64

text \<open>\<^verbatim>\<open>MMU_T::tlb_entry_t\<close>\<close>

record tlb_entry =
  tlb_ppn :: u64
  tlb_vpn :: u64

datatype MemoryAccessType = FETCH | LOAD | STORE

text \<open>\<^verbatim>\<open>LSCache_T::Entry\<close>\<close>

record lsc_entry =
  tag_valid :: u32
  host_page_addr :: host_ptr

text \<open>
  The members of \<^verbatim>\<open>CombinedMemoryInterface_T\<close>, of the \<^verbatim>\<open>MMU_T\<close>, the \<^verbatim>\<open>BusLock\<close> and the \<^verbatim>\<open>LSCache_T\<close>
  it works with, and host memory. The type parameter is the state of the devices.
\<close>

record 'b cmi =
  lr_addr :: u64
  dmi_on :: bool
  dmi_ranges :: "MemoryDMI list"
  dmi_ranges_disabled :: "MemoryDMI list"
  last_access_was_dmi :: bool
  last_dmi_page_host_addr :: host_ptr
  tlb :: "nat \<Rightarrow> MemoryAccessType \<Rightarrow> nat \<Rightarrow> tlb_entry"
  page_fault_on_AD :: bool
  bus_lock :: buslock
  lsc_enabled :: bool
  lsc :: "nat \<Rightarrow> lsc_entry"
  host :: "nat \<Rightarrow> u64 \<Rightarrow> u8"
  devices :: 'b

text \<open>
  How the interface is connected: whether an MMU is attached, and the target of its socket. The
  transport function returns whether the response is an error.
\<close>

record 'b cmi_conn =
  has_mmu :: bool
  b_transport :: "bool \<Rightarrow> u64 \<Rightarrow> u8 list \<Rightarrow> ('b cmi iss, bool \<times> u8 list) M"

abbreviation mem_upd :: "('b cmi \<Rightarrow> 'b cmi) \<Rightarrow> 'b cmi iss \<Rightarrow> 'b cmi iss" where
  "mem_upd f s \<equiv> s\<lparr>mem_st := f (mem_st s)\<rparr>"

section \<open>The bus lock\<close>

definition lock_is_locked_by :: "u32 \<Rightarrow> buslock \<Rightarrow> bool" where
  "lock_is_locked_by hart l \<longleftrightarrow> locked l \<and> owner l = hart"

text \<open>\<^verbatim>\<open>wait_until_unlocked\<close>: the process sleeps as long as the bus is locked.\<close>

definition wait_until_unlocked :: "('b cmi iss, unit) M" where
  "wait_until_unlocked = bindM (getsM (\<lambda>s. locked (bus_lock (mem_st s)))) (\<lambda>l. whenM l (raise Suspended))"

definition bus_lock_lock :: "u32 \<Rightarrow> ('b cmi iss, unit) M" where
  "bus_lock_lock hart =
     bindM (getsM (\<lambda>s. bus_lock (mem_st s))) (\<lambda>l.
      seqM (whenM (locked l \<and> hart \<noteq> owner l) wait_until_unlocked)
     (bindM (getsM (\<lambda>s. bus_lock (mem_st s))) (\<lambda>l.
      seqM (assertM (\<not> locked l \<or> hart = owner l))
        (modifyM (mem_upd (\<lambda>m. m\<lparr>bus_lock := \<lparr>locked = True, owner = hart\<rparr>\<rparr>))))))"

definition lock_unlock :: "u32 \<Rightarrow> buslock \<Rightarrow> buslock" where
  "lock_unlock hart l = (if locked l \<and> owner l = hart then l\<lparr>locked := False\<rparr> else l)"

text \<open>\<^verbatim>\<open>bus_lock_if::wait_for_access_rights\<close>\<close>

definition wait_for_access_rights :: "u32 \<Rightarrow> ('b cmi iss, unit) M" where
  "wait_for_access_rights hart = bindM (getsM (\<lambda>s. bus_lock (mem_st s))) (\<lambda>l.
     whenM (locked l \<and> \<not> lock_is_locked_by hart l) wait_until_unlocked)"

text \<open>The interface passes the 64-bit hart identifier to \<^verbatim>\<open>unsigned\<close> parameters.\<close>

definition hart :: "'b cmi iss \<Rightarrow> u32" where
  "hart s = ucast (get_hart_id s)"

definition cmi_atomic_unlock :: "('b cmi iss, unit) M" where
  "cmi_atomic_unlock = modifyM (\<lambda>s. mem_upd (\<lambda>m. m\<lparr>bus_lock := lock_unlock (hart s) (bus_lock m)\<rparr>) s)"

section \<open>Direct memory access\<close>

definition dmi_end :: "MemoryDMI \<Rightarrow> u64" where
  "dmi_end e = dmi_start e + dmi_size e"

definition dmi_contains :: "MemoryDMI \<Rightarrow> u64 \<Rightarrow> bool" where
  "dmi_contains e addr \<longleftrightarrow> addr \<ge> dmi_start e \<and> addr < dmi_end e"

definition get_mem_ptr_to_global_addr :: "nat \<Rightarrow> MemoryDMI \<Rightarrow> u64 \<Rightarrow> ('b cmi iss, host_ptr) M" where
  "get_mem_ptr_to_global_addr n e addr =
     seqM (assertM (dmi_contains e addr))
     (seqM (assertM (addr + of_nat n \<le> dmi_end e))
       (ret (dmi_block e, addr - dmi_start e)))"

definition host_read :: "nat \<Rightarrow> host_ptr \<Rightarrow> (nat \<Rightarrow> u64 \<Rightarrow> u8) \<Rightarrow> u8 list" where
  "host_read n p h = map (\<lambda>i. h (fst p) (snd p + of_nat i)) [0..<n]"

fun write_bytes :: "u64 \<Rightarrow> u8 list \<Rightarrow> (u64 \<Rightarrow> u8) \<Rightarrow> u64 \<Rightarrow> u8" where
  "write_bytes off [] blk = blk"
| "write_bytes off (b # bs) blk = write_bytes (off + 1) bs (blk(off := b))"

definition host_write :: "host_ptr \<Rightarrow> u8 list \<Rightarrow> (nat \<Rightarrow> u64 \<Rightarrow> u8) \<Rightarrow> nat \<Rightarrow> u64 \<Rightarrow> u8" where
  "host_write p bs h = h(fst p := write_bytes (snd p) bs (h (fst p)))"

definition dmi_load :: "nat \<Rightarrow> MemoryDMI \<Rightarrow> u64 \<Rightarrow> ('b cmi iss, u8 list) M" where
  "dmi_load n e addr = bindM (get_mem_ptr_to_global_addr n e addr)
     (\<lambda>p. getsM (\<lambda>s. host_read n p (host (mem_st s))))"

definition dmi_store :: "MemoryDMI \<Rightarrow> u64 \<Rightarrow> u8 list \<Rightarrow> ('b cmi iss, unit) M" where
  "dmi_store e addr bs = bindM (get_mem_ptr_to_global_addr (length bs) e addr)
     (\<lambda>p. modifyM (mem_upd (\<lambda>m. m\<lparr>host := host_write p bs (host m)\<rparr>)))"

definition dmi_add :: "MemoryDMI \<Rightarrow> 'b cmi \<Rightarrow> 'b cmi" where
  "dmi_add e m = (if dmi_on m then m\<lparr>dmi_ranges := dmi_ranges m @ [e]\<rparr>
     else m\<lparr>dmi_ranges_disabled := dmi_ranges_disabled m @ [e]\<rparr>)"

definition dmi_enable :: "bool \<Rightarrow> 'b cmi \<Rightarrow> 'b cmi" where
  "dmi_enable ena m =
     (let m = (if ena \<noteq> dmi_on m
               then m\<lparr>dmi_ranges := dmi_ranges_disabled m, dmi_ranges_disabled := dmi_ranges m\<rparr> else m)
      in m\<lparr>dmi_on := ena\<rparr>)"

section \<open>Physical accesses\<close>

text \<open>A failed transaction is reported as a page fault of the physical address.\<close>

definition do_transaction :: "'b cmi_conn \<Rightarrow> bool \<Rightarrow> u64 \<Rightarrow> u8 list \<Rightarrow> ('b cmi iss, u8 list) M" where
  "do_transaction C is_write addr data =
     seqM (modifyM commit_cycles)
     (bindM (b_transport C is_write addr data) (\<lambda>(error, data').
      if error
      then raise (SimulationTrap (if is_write then EXC_STORE_AMO_PAGE_FAULT else EXC_LOAD_PAGE_FAULT) addr)
      else ret data'))"

definition record_dmi_access :: "nat \<Rightarrow> MemoryDMI \<Rightarrow> u64 \<Rightarrow> ('b cmi iss, unit) M" where
  "record_dmi_access n e addr =
     seqM (modifyM (mem_upd (\<lambda>m. m\<lparr>last_access_was_dmi := True\<rparr>)))
     (bindM (get_mem_ptr_to_global_addr n e (addr AND NOT 0xFFF)) (\<lambda>p.
       modifyM (mem_upd (\<lambda>m. m\<lparr>last_dmi_page_host_addr := p\<rparr>))))"

definition raw_load_data :: "'b cmi_conn \<Rightarrow> nat \<Rightarrow> u64 \<Rightarrow> ('b cmi iss, u8 list) M" where
  "raw_load_data C n addr =
     bindM (getsM hart) (\<lambda>h. seqM (wait_for_access_rights h)
     (bindM (getsM (\<lambda>s. find (\<lambda>e. dmi_contains e addr) (dmi_ranges (mem_st s)))) (\<lambda>r.
      case r of
        Some e \<Rightarrow> bindM (dmi_load n e addr) (\<lambda>bs. seqM (record_dmi_access n e addr) (ret bs))
      | None \<Rightarrow> bindM (do_transaction C False addr (replicate n 0)) (\<lambda>bs.
          seqM (modifyM (mem_upd (\<lambda>m. m\<lparr>last_access_was_dmi := False\<rparr>))) (ret bs)))))"

definition raw_store_data :: "'b cmi_conn \<Rightarrow> u64 \<Rightarrow> u8 list \<Rightarrow> ('b cmi iss, unit) M" where
  "raw_store_data C addr bs =
     bindM (getsM hart) (\<lambda>h. seqM (wait_for_access_rights h)
     (bindM (getsM (\<lambda>s. find (\<lambda>e. dmi_contains e addr) (dmi_ranges (mem_st s)))) (\<lambda>r.
      case r of
        Some e \<Rightarrow> seqM (dmi_store e addr bs)
                   (seqM (record_dmi_access (length bs) e addr) cmi_atomic_unlock)
      | None \<Rightarrow> seqM (do_transaction C True addr bs)
                  (seqM cmi_atomic_unlock
                    (modifyM (mem_upd (\<lambda>m. m\<lparr>last_access_was_dmi := False\<rparr>)))))))"

section \<open>Address translation\<close>

definition PTE_V :: u64 where "PTE_V = 1"
definition PTE_R :: u64 where "PTE_R = 2"
definition PTE_W :: u64 where "PTE_W = 4"
definition PTE_X :: u64 where "PTE_X = 8"
definition PTE_U :: u64 where "PTE_U = 16"
definition PTE_A :: u64 where "PTE_A = 64"
definition PTE_D :: u64 where "PTE_D = 128"

definition pte_V :: "u64 \<Rightarrow> bool" where "pte_V pte \<longleftrightarrow> pte AND PTE_V \<noteq> 0"
definition pte_R :: "u64 \<Rightarrow> bool" where "pte_R pte \<longleftrightarrow> pte AND PTE_R \<noteq> 0"
definition pte_W :: "u64 \<Rightarrow> bool" where "pte_W pte \<longleftrightarrow> pte AND PTE_W \<noteq> 0"
definition pte_X :: "u64 \<Rightarrow> bool" where "pte_X pte \<longleftrightarrow> pte AND PTE_X \<noteq> 0"
definition pte_U :: "u64 \<Rightarrow> bool" where "pte_U pte \<longleftrightarrow> pte AND PTE_U \<noteq> 0"

record vm_info =
  levels :: nat
  idxbits :: nat
  ptesize :: nat
  ptbase :: u64

definition decode_vm_info :: "u32 \<Rightarrow> ('b cmi iss, vm_info) M" where
  "decode_vm_info mode =
     seqM (assertM (mode \<le> SupervisorMode))
     (bindM (getsM (\<lambda>s. csrs s csr_satp)) (\<lambda>satp.
      let base = push_bit 12 (ucast (fget satp_ppn satp)) in
      switch_on (unat (fget satp_mode satp))
        [(1, ret \<lparr>levels = 2, idxbits = 10, ptesize = 4, ptbase = base\<rparr>),
         (8, ret \<lparr>levels = 3, idxbits = 9, ptesize = 8, ptbase = base\<rparr>),
         (9, ret \<lparr>levels = 4, idxbits = 9, ptesize = 8, ptbase = base\<rparr>),
         (10, ret \<lparr>levels = 5, idxbits = 9, ptesize = 8, ptbase = base\<rparr>),
         (11, ret \<lparr>levels = 6, idxbits = 9, ptesize = 8, ptbase = base\<rparr>)]
        (raise RuntimeError)))"

text \<open>\<^verbatim>\<open>core.xlen\<close> is 32.\<close>

definition check_vaddr_extension :: "u64 \<Rightarrow> vm_info \<Rightarrow> bool" where
  "check_vaddr_extension vaddr vi =
     (let highbit = idxbits vi * levels vi + 12 - 1;
          ext_mask = push_bit (32 - highbit) 1 - 1;
          bits = drop_bit highbit vaddr AND ext_mask
      in bits = 0 \<or> bits = ext_mask)"

definition mmu_load_pte32 :: "'b cmi_conn \<Rightarrow> u64 \<Rightarrow> ('b cmi iss, u64) M" where
  "mmu_load_pte32 C addr = bindM (raw_load_data C 4 addr) (\<lambda>bs. ret (ucast (bytes_to_word bs :: u32)))"

definition mmu_load_pte64 :: "'b cmi_conn \<Rightarrow> u64 \<Rightarrow> ('b cmi iss, u64) M" where
  "mmu_load_pte64 C addr = bindM (raw_load_data C 8 addr) (\<lambda>bs. ret (bytes_to_word bs))"

definition mmu_store_pte32 :: "'b cmi_conn \<Rightarrow> u64 \<Rightarrow> u32 \<Rightarrow> ('b cmi iss, unit) M" where
  "mmu_store_pte32 C addr v = raw_store_data C addr (word_to_bytes 4 v)"

definition raise_page_fault :: "u64 \<Rightarrow> MemoryAccessType \<Rightarrow> ('b cmi iss, 'a) M" where
  "raise_page_fault vaddr type = (case type of
     FETCH \<Rightarrow> raise (SimulationTrap EXC_INSTR_PAGE_FAULT vaddr)
   | LOAD \<Rightarrow> raise (SimulationTrap EXC_LOAD_PAGE_FAULT vaddr)
   | STORE \<Rightarrow> raise (SimulationTrap EXC_STORE_AMO_PAGE_FAULT vaddr))"

text \<open>
  The permission checks of a leaf entry: all the \<^verbatim>\<open>break\<close> statements between the test for a
  pointer to the next level and the superpage test.
\<close>

definition leaf_allowed :: "MemoryAccessType \<Rightarrow> bool \<Rightarrow> bool \<Rightarrow> bool \<Rightarrow> u64 \<Rightarrow> bool" where
  "leaf_allowed type smode sumf mxr pte \<longleftrightarrow>
     \<not> (type = FETCH \<and> \<not> pte_X pte) \<and>
     \<not> (type = LOAD \<and> \<not> pte_R pte \<and> \<not> (mxr \<and> pte_X pte)) \<and>
     \<not> (type = STORE \<and> \<not> (pte_R pte \<and> pte_W pte)) \<and>
     (if pte_U pte then \<not> (smode \<and> (type = FETCH \<or> \<not> sumf)) else smode)"

definition walk_paddr :: "u64 \<Rightarrow> u64 \<Rightarrow> nat \<Rightarrow> u64" where
  "walk_paddr vaddr ppn ptshift =
     (let m = push_bit ptshift 1 - 1;
          vpn = drop_bit 12 vaddr;
          pgoff = vaddr AND 0xFFF
      in push_bit 12 ((ppn AND NOT m) OR (vpn AND m)) OR pgoff)"

text \<open>
  The loop of \<^verbatim>\<open>MMU_T::walk\<close>; the last argument is one more than the level \<^verbatim>\<open>i\<close>, and a \<^verbatim>\<open>break\<close> is a
  page fault.
\<close>

fun walk_level ::
  "'b cmi_conn \<Rightarrow> vm_info \<Rightarrow> u64 \<Rightarrow> MemoryAccessType \<Rightarrow> bool \<Rightarrow> bool \<Rightarrow> bool \<Rightarrow> u64 \<Rightarrow> nat \<Rightarrow> ('b cmi iss, u64) M"
where
  "walk_level C vi vaddr type sm sumf mxr base 0 = raise_page_fault vaddr type"
| "walk_level C vi vaddr type sm sumf mxr base (Suc i) =
     (let ptshift = i * idxbits vi;
          vpn_field = ucast (drop_bit (12 + ptshift) vaddr AND (push_bit (idxbits vi) 1 - 1)) :: u32;
          pte_paddr = base + ucast (vpn_field * of_nat (ptesize vi))
      in seqM (assertM (ptesize vi = 4 \<or> ptesize vi = 8))
         (bindM (if ptesize vi = 4 then mmu_load_pte32 C pte_paddr else mmu_load_pte64 C pte_paddr) (\<lambda>pte.
          let ppn = drop_bit 10 pte in
          if \<not> pte_V pte \<or> \<not> pte_R pte \<and> pte_W pte then raise_page_fault vaddr type
          else if \<not> pte_R pte \<and> \<not> pte_X pte
          then walk_level C vi vaddr type sm sumf mxr (push_bit 12 ppn) i
          else if \<not> leaf_allowed type sm sumf mxr pte then raise_page_fault vaddr type
          else if ppn AND (push_bit ptshift 1 - 1) \<noteq> 0 then raise_page_fault vaddr type
          else let ad = PTE_A OR (if type = STORE then PTE_D else 0) in
               bindM (getsM (\<lambda>s. page_fault_on_AD (mem_st s))) (\<lambda>pf.
               if pte AND ad \<noteq> ad \<and> pf then raise_page_fault vaddr type
               else seqM (whenM (pte AND ad \<noteq> ad) (mmu_store_pte32 C pte_paddr (ucast (pte OR ad))))
                      (ret (walk_paddr vaddr ppn ptshift))))))"

definition walk :: "'b cmi_conn \<Rightarrow> u64 \<Rightarrow> MemoryAccessType \<Rightarrow> u32 \<Rightarrow> ('b cmi iss, u64) M" where
  "walk C vaddr type mode =
     bindM (getsM (\<lambda>s. (fget mstatus_sum (csrs s csr_mstatus) \<noteq> 0, fget mstatus_mxr (csrs s csr_mstatus) \<noteq> 0)))
     (\<lambda>(sumf, mxr). bindM (decode_vm_info mode) (\<lambda>vi.
       walk_level C vi vaddr type (mode = SupervisorMode) sumf mxr (ptbase vi)
         (if check_vaddr_extension vaddr vi then levels vi else 0)))"

text \<open>The mode whose rights a memory access uses.\<close>

definition access_mode :: "MemoryAccessType \<Rightarrow> 'b cmi iss \<Rightarrow> u32" where
  "access_mode type s =
     (if type \<noteq> FETCH \<and> fget mstatus_mprv (csrs s csr_mstatus) \<noteq> 0
      then fget mstatus_mpp (csrs s csr_mstatus) else prv s)"

definition translate_virtual_to_physical_addr ::
  "'b cmi_conn \<Rightarrow> u64 \<Rightarrow> MemoryAccessType \<Rightarrow> ('b cmi iss, u64) M"
where
  "translate_virtual_to_physical_addr C vaddr type =
     bindM (getsM (\<lambda>s. (fget satp_mode (csrs s csr_satp) = 0, access_mode type s))) (\<lambda>(bare, mode).
     if bare then ret vaddr
     else if mode = MachineMode then ret vaddr
     else seqM (assertM (mode = 0 \<or> mode = 1))
      (let vpn = drop_bit 12 vaddr; idx = unat vpn mod 256 in
       bindM (getsM (\<lambda>s. tlb (mem_st s) (unat mode) type idx)) (\<lambda>x.
        if tlb_vpn x = vpn then ret (tlb_ppn x OR (vaddr AND 0xFFF))
        else bindM (walk C vaddr type mode) (\<lambda>paddr.
          seqM (modifyM (mem_upd (\<lambda>m. m\<lparr>tlb := (tlb m)(unat mode := (tlb m (unat mode))(type :=
                  (tlb m (unat mode) type)(idx := \<lparr>tlb_ppn = paddr AND NOT 0xFFF, tlb_vpn = vpn\<rparr>)))\<rparr>)))
            (ret paddr)))))"

definition tlb_init :: "nat \<Rightarrow> MemoryAccessType \<Rightarrow> nat \<Rightarrow> tlb_entry" where
  "tlb_init = (\<lambda>_ _ _. \<lparr>tlb_ppn = -1, tlb_vpn = -1\<rparr>)"

definition mmu_flush_tlb :: "'b cmi \<Rightarrow> 'b cmi" where
  "mmu_flush_tlb m = m\<lparr>tlb := tlb_init\<rparr>"

definition v2p :: "'b cmi_conn \<Rightarrow> u64 \<Rightarrow> MemoryAccessType \<Rightarrow> ('b cmi iss, u64) M" where
  "v2p C vaddr type = (if \<not> has_mmu C then ret vaddr else translate_virtual_to_physical_addr C vaddr type)"

section \<open>The memory interface\<close>

definition load_data :: "'b cmi_conn \<Rightarrow> nat \<Rightarrow> u64 \<Rightarrow> ('b cmi iss, u8 list) M" where
  "load_data C n addr = bindM (v2p C addr LOAD) (raw_load_data C n)"

definition store_data :: "'b cmi_conn \<Rightarrow> u64 \<Rightarrow> u8 list \<Rightarrow> ('b cmi iss, unit) M" where
  "store_data C addr bs = bindM (v2p C addr STORE) (\<lambda>p. raw_store_data C p bs)"

definition cmi_flush_tlb :: "'b cmi_conn \<Rightarrow> ('b cmi iss, unit) M" where
  "cmi_flush_tlb C = (if \<not> has_mmu C then ret () else modifyM (mem_upd mmu_flush_tlb))"

text \<open>
  A fetch at the last half-word of a page is split. The two halves are operands of one expression;
  the model evaluates the upper half first.
\<close>

definition cmi_load_instr :: "'b cmi_conn \<Rightarrow> u64 \<Rightarrow> ('b cmi iss, u32) M" where
  "cmi_load_instr C addr =
     (if addr AND 0xFFF = 0xFFE
      then bindM (v2p C (addr + 2) FETCH) (\<lambda>p. bindM (raw_load_data C 2 p) (\<lambda>hi.
           bindM (v2p C addr FETCH) (\<lambda>p. bindM (raw_load_data C 2 p) (\<lambda>lo.
           ret (push_bit 16 (ucast (bytes_to_word hi :: u16)) OR ucast (bytes_to_word lo :: u16))))))
      else bindM (v2p C addr FETCH) (\<lambda>p. bindM (raw_load_data C 4 p) (\<lambda>bs. ret (bytes_to_word bs))))"

definition atomic_load_data :: "'b cmi_conn \<Rightarrow> nat \<Rightarrow> u64 \<Rightarrow> ('b cmi iss, u8 list) M" where
  "atomic_load_data C n addr = bindM (getsM hart) (\<lambda>h. seqM (bus_lock_lock h) (load_data C n addr))"

text \<open>The source only prints a warning when the bus is not locked.\<close>

definition atomic_store_data :: "'b cmi_conn \<Rightarrow> u64 \<Rightarrow> u8 list \<Rightarrow> ('b cmi iss, unit) M" where
  "atomic_store_data C addr bs = store_data C addr bs"

definition atomic_load_reserved_data :: "'b cmi_conn \<Rightarrow> nat \<Rightarrow> u64 \<Rightarrow> ('b cmi iss, u8 list) M" where
  "atomic_load_reserved_data C n addr = bindM (getsM hart) (\<lambda>h. seqM (bus_lock_lock h)
     (seqM (modifyM (mem_upd (\<lambda>m. m\<lparr>lr_addr := addr\<rparr>))) (load_data C n addr)))"

definition atomic_store_conditional_data :: "'b cmi_conn \<Rightarrow> u64 \<Rightarrow> u8 list \<Rightarrow> ('b cmi iss, bool) M" where
  "atomic_store_conditional_data C addr bs =
     bindM (getsM (\<lambda>s. (lock_is_locked_by (hart s) (bus_lock (mem_st s)), lr_addr (mem_st s)))) (\<lambda>(own, la).
     if own
     then (if addr = la then seqM (store_data C addr bs) (ret True)
           else seqM cmi_atomic_unlock (ret False))
     else ret False)"

definition cmi_get_last_dmi_page_host_addr :: "('b cmi iss, host_ptr option) M" where
  "cmi_get_last_dmi_page_host_addr = getsM (\<lambda>s.
     if \<not> last_access_was_dmi (mem_st s) then None else Some (last_dmi_page_host_addr (mem_st s)))"

definition cmi_if :: "'b cmi_conn \<Rightarrow> 'b cmi data_memory_if" where
  "cmi_if C =
    \<lparr>load_double = (\<lambda>a. bindM (load_data C 8 a) (\<lambda>bs. ret (bytes_to_word bs))),
     load_word = (\<lambda>a. bindM (load_data C 4 a) (\<lambda>bs. ret (bytes_to_word bs))),
     load_half = (\<lambda>a. bindM (load_data C 2 a) (\<lambda>bs. ret (scast (bytes_to_word bs :: u16)))),
     load_byte = (\<lambda>a. bindM (load_data C 1 a) (\<lambda>bs. ret (scast (bytes_to_word bs :: u8)))),
     load_uword = (\<lambda>a. bindM (load_data C 4 a) (\<lambda>bs. ret (bytes_to_word bs))),
     load_uhalf = (\<lambda>a. bindM (load_data C 2 a) (\<lambda>bs. ret (ucast (bytes_to_word bs :: u16)))),
     load_ubyte = (\<lambda>a. bindM (load_data C 1 a) (\<lambda>bs. ret (ucast (bytes_to_word bs :: u8)))),
     store_double = (\<lambda>a v. store_data C a (word_to_bytes 8 v)),
     store_word = (\<lambda>a v. store_data C a (word_to_bytes 4 v)),
     store_half = (\<lambda>a v. store_data C a (word_to_bytes 2 v)),
     store_byte = (\<lambda>a v. store_data C a (word_to_bytes 1 v)),
     atomic_load_word = (\<lambda>a. bindM (atomic_load_data C 4 a) (\<lambda>bs. ret (bytes_to_word bs))),
     atomic_store_word = (\<lambda>a v. atomic_store_data C a (word_to_bytes 4 v)),
     atomic_load_reserved_word =
       (\<lambda>a. bindM (atomic_load_reserved_data C 4 a) (\<lambda>bs. ret (bytes_to_word bs))),
     atomic_store_conditional_word = (\<lambda>a v. atomic_store_conditional_data C a (word_to_bytes 4 v)),
     atomic_unlock = cmi_atomic_unlock,
     is_bus_locked = getsM (\<lambda>s. locked (bus_lock (mem_st s))),
     get_last_dmi_page_host_addr = cmi_get_last_dmi_page_host_addr,
     flush_tlb = cmi_flush_tlb C\<rparr>"

section \<open>The load/store cache\<close>

text \<open>\<^verbatim>\<open>LSCacheDummy_T\<close>: every access goes to the memory interface.\<close>

definition lscache_dummy :: "'d data_memory_if \<Rightarrow> 'd lscache_if" where
  "lscache_dummy D =
    \<lparr>ls_load_double = load_double D, ls_load_word = load_word D, ls_load_half = load_half D, ls_load_byte = load_byte D,
     ls_load_uword = load_uword D, ls_load_uhalf = load_uhalf D, ls_load_ubyte = load_ubyte D,
     ls_store_double = store_double D, ls_store_word = store_word D, ls_store_half = store_half D, ls_store_byte = store_byte D,
     ls_fence = ret (), ls_fence_vma = flush_tlb D\<rparr>"

definition LSCACHE_OFF :: "u64 \<Rightarrow> u64" where "LSCACHE_OFF a = a AND 0xFFF"
definition LSCACHE_IDX :: "u64 \<Rightarrow> nat" where "LSCACHE_IDX a = unat (drop_bit 12 (a AND 0xFF000))"
definition LSCACHE_TAG :: "u64 \<Rightarrow> u64" where "LSCACHE_TAG a = a AND NOT 0xFFFFF"

definition LSCACHE_LOAD_VALID_BITS :: u32 where "LSCACHE_LOAD_VALID_BITS = 1"
definition LSCACHE_STORE_VALID_BITS :: u32 where "LSCACHE_STORE_VALID_BITS = 3"

definition update_entry :: "u64 \<Rightarrow> host_ptr \<Rightarrow> u32 \<Rightarrow> 'b cmi \<Rightarrow> 'b cmi" where
  "update_entry virt_addr p valid_bits m =
     m\<lparr>lsc := (lsc m)(LSCACHE_IDX virt_addr :=
        \<lparr>tag_valid = ucast (LSCACHE_TAG virt_addr OR ucast valid_bits), host_page_addr = p\<rparr>)\<rparr>"

definition try_get_from_cache_load :: "u64 \<Rightarrow> 'b cmi \<Rightarrow> host_ptr option" where
  "try_get_from_cache_load virt_addr m =
     (let e = lsc m (LSCACHE_IDX virt_addr) in
      if LSCACHE_TAG virt_addr OR ucast LSCACHE_LOAD_VALID_BITS = ucast (tag_valid e AND NOT 2)
      then Some (fst (host_page_addr e), snd (host_page_addr e) + LSCACHE_OFF virt_addr) else None)"

definition try_get_from_cache_store :: "u64 \<Rightarrow> 'b cmi \<Rightarrow> host_ptr option" where
  "try_get_from_cache_store virt_addr m =
     (let e = lsc m (LSCACHE_IDX virt_addr) in
      if LSCACHE_TAG virt_addr OR ucast LSCACHE_STORE_VALID_BITS = ucast (tag_valid e)
      then Some (fst (host_page_addr e), snd (host_page_addr e) + LSCACHE_OFF virt_addr) else None)"

definition try_add_to_cache :: "'b cmi data_memory_if \<Rightarrow> u64 \<Rightarrow> u32 \<Rightarrow> ('b cmi iss, unit) M" where
  "try_add_to_cache D virt_addr valid_bits = bindM (get_last_dmi_page_host_addr D) (\<lambda>p.
     case p of
       None \<Rightarrow> ret ()
     | Some p \<Rightarrow> modifyM (\<lambda>s. if lsc_enabled (mem_st s)
                              then mem_upd (update_entry virt_addr p valid_bits) s else s))"

text \<open>\<open>n\<close> bytes are read on a hit and converted by \<open>conv\<close>, the cast to \<^verbatim>\<open>CAST_T\<close> and back.\<close>

definition lsc_load ::
  "'b cmi data_memory_if \<Rightarrow> nat \<Rightarrow> (u8 list \<Rightarrow> 'a) \<Rightarrow> (u64 \<Rightarrow> ('b cmi iss, 'a) M) \<Rightarrow> u64 \<Rightarrow> ('b cmi iss, 'a) M"
where
  "lsc_load D n conv load_f addr = bindM (is_bus_locked D) (\<lambda>bl.
     if bl then load_f addr
     else bindM (getsM (\<lambda>s. try_get_from_cache_load addr (mem_st s))) (\<lambda>haddr.
       case haddr of
         None \<Rightarrow> bindM (load_f addr) (\<lambda>v.
                    seqM (try_add_to_cache D addr LSCACHE_LOAD_VALID_BITS) (ret v))
       | Some p \<Rightarrow> getsM (\<lambda>s. conv (host_read n p (host (mem_st s))))))"

definition lsc_store ::
  "'b cmi data_memory_if \<Rightarrow> ('a \<Rightarrow> u8 list) \<Rightarrow> (u64 \<Rightarrow> 'a \<Rightarrow> ('b cmi iss, unit) M) \<Rightarrow> u64 \<Rightarrow> 'a \<Rightarrow> ('b cmi iss, unit) M"
where
  "lsc_store D bytes store_f addr v = bindM (is_bus_locked D) (\<lambda>bl.
     if bl then store_f addr v
     else bindM (getsM (\<lambda>s. try_get_from_cache_store addr (mem_st s))) (\<lambda>haddr.
       case haddr of
         None \<Rightarrow> seqM (store_f addr v) (try_add_to_cache D addr LSCACHE_STORE_VALID_BITS)
       | Some p \<Rightarrow> modifyM (mem_upd (\<lambda>m. m\<lparr>host := host_write p (bytes v) (host m)\<rparr>))))"

definition lsc_flush :: "'b cmi \<Rightarrow> 'b cmi" where
  "lsc_flush m = m\<lparr>lsc := (\<lambda>_. \<lparr>tag_valid = 0, host_page_addr = (0, 0)\<rparr>)\<rparr>"

definition lsc_enable :: "bool \<Rightarrow> 'b cmi \<Rightarrow> 'b cmi" where
  "lsc_enable ena m = (if ena = lsc_enabled m then m
     else if ena then m\<lparr>lsc_enabled := ena\<rparr> else lsc_flush (m\<lparr>lsc_enabled := ena\<rparr>))"

text \<open>\<^verbatim>\<open>LSCache_T\<close>\<close>

definition lscache_full :: "'b cmi data_memory_if \<Rightarrow> 'b cmi lscache_if" where
  "lscache_full D =
    \<lparr>ls_load_double = lsc_load D 8 bytes_to_word (load_double D),
     ls_load_word = lsc_load D 4 bytes_to_word (load_word D),
     ls_load_half = lsc_load D 2 (\<lambda>bs. scast (bytes_to_word bs :: u16)) (load_half D),
     ls_load_byte = lsc_load D 1 (\<lambda>bs. scast (bytes_to_word bs :: u8)) (load_byte D),
     ls_load_uword = lsc_load D 4 bytes_to_word (load_uword D),
     ls_load_uhalf = lsc_load D 2 (\<lambda>bs. ucast (bytes_to_word bs :: u16)) (load_uhalf D),
     ls_load_ubyte = lsc_load D 1 (\<lambda>bs. ucast (bytes_to_word bs :: u8)) (load_ubyte D),
     ls_store_double = lsc_store D (word_to_bytes 8) (store_double D),
     ls_store_word = lsc_store D (word_to_bytes 4) (store_word D),
     ls_store_half = lsc_store D (word_to_bytes 2) (store_half D),
     ls_store_byte = lsc_store D (word_to_bytes 1) (store_byte D),
     ls_fence = ret (),
     ls_fence_vma = seqM (modifyM (mem_upd lsc_flush)) (flush_tlb D)\<rparr>"

section \<open>The connections of a hart\<close>

text \<open>
  \<^verbatim>\<open>ISS_CT::init\<close> with a \<^verbatim>\<open>CombinedMemoryInterface\<close> as data and instruction memory; \<open>cached\<close> selects
  the \<^verbatim>\<open>LSCacheDefault_T\<close> of the build. The other connections are those of \<open>E\<close>.
\<close>

definition cmi_env :: "'b cmi_conn \<Rightarrow> bool \<Rightarrow> 'b cmi iss_env \<Rightarrow> 'b cmi iss_env" where
  "cmi_env C cached E =
     E\<lparr>mem := cmi_if C,
       lscache := if cached then lscache_full (cmi_if C) else lscache_dummy (cmi_if C),
       load_instr := cmi_load_instr C\<rparr>"

text \<open>The constructors of the memory interface, the MMU, the bus lock and the load/store cache.\<close>

definition cmi_init :: "'b \<Rightarrow> 'b cmi" where
  "cmi_init d =
    \<lparr>lr_addr = 0, dmi_on = True, dmi_ranges = [], dmi_ranges_disabled = [], last_access_was_dmi = False,
     last_dmi_page_host_addr = (0, 0), tlb = tlb_init, page_fault_on_AD = False,
     bus_lock = \<lparr>locked = False, owner = 0\<rparr>, lsc_enabled = False,
     lsc = (\<lambda>_. \<lparr>tag_valid = 0, host_page_addr = (0, 0)\<rparr>), host = (\<lambda>_ _. 0), devices = d\<rparr>"

end
