(* ===== verification/VP_Bus.thy ===== *)
theory VP_Bus
  imports VP_Trap VP_Mem
begin

text \<open>
  The bus and the memory-mapped devices: \<^verbatim>\<open>PortMapping\<close>, \<^verbatim>\<open>SimpleBus\<close> and \<^verbatim>\<open>PeripheralWriteConnector\<close>
  of \<^verbatim>\<open>vp/src/platform/common/bus.h\<close>, \<^verbatim>\<open>SimpleMemory\<close> of \<^verbatim>\<open>vp/src/platform/common/memory.h\<close>, and the
  register ranges of \<^verbatim>\<open>vp/src/util/memory_map.h\<close>.

  A target of the bus is a function of the command, the address and the data buffer that returns
  whether the response is an error, and the buffer. The network trace of the bus and the delays are
  not modelled.
\<close>

type_synonym ('s) target = "bool \<Rightarrow> u64 \<Rightarrow> u8 list \<Rightarrow> ('s, bool \<times> u8 list) M"

section \<open>SimpleBus\<close>

record PortMapping =
  port_start :: u64
  port_end :: u64

definition port_contains :: "PortMapping \<Rightarrow> u64 \<Rightarrow> bool" where
  "port_contains p addr \<longleftrightarrow> addr \<ge> port_start p \<and> addr \<le> port_end p"

definition global_to_local :: "PortMapping \<Rightarrow> u64 \<Rightarrow> u64" where
  "global_to_local p addr = addr - port_start p"

text \<open>The index of the first port that contains the address; \<^verbatim>\<open>-1\<close> is \<open>None\<close>.\<close>

fun decode_from :: "nat \<Rightarrow> PortMapping list \<Rightarrow> u64 \<Rightarrow> nat option" where
  "decode_from i [] addr = None"
| "decode_from i (p # ps) addr = (if port_contains p addr then Some i else decode_from (Suc i) ps addr)"

definition bus_decode :: "PortMapping list \<Rightarrow> u64 \<Rightarrow> nat option" where
  "bus_decode ports addr = decode_from 0 ports addr"

text \<open>
  \<open>halt\<close> is what \<^verbatim>\<open>break_on_transaction\<close> does to the initiator before the transaction. \<open>isocks\<close> are the
  targets bound to the ports.
\<close>

definition bus_transport ::
  "PortMapping list \<Rightarrow> 's target list \<Rightarrow> ('s, unit) M \<Rightarrow> 's target"
where
  "bus_transport ports isocks halt is_write addr data = (case bus_decode ports addr of
     None \<Rightarrow> ret (True, data)
   | Some i \<Rightarrow> seqM halt ((isocks ! i) is_write (global_to_local (ports ! i) addr) data))"

text \<open>\<^verbatim>\<open>PeripheralWriteConnector::transport\<close>: an unmapped address is fatal here.\<close>

definition peripheral_write_transport :: "'b cmi iss target \<Rightarrow> 'b cmi iss target" where
  "peripheral_write_transport isock is_write addr data =
     seqM wait_until_unlocked (bindM (isock is_write addr data) (\<lambda>(error, d).
       if error then raise RuntimeError else ret (error, d)))"

section \<open>SimpleMemory\<close>

text \<open>\<^verbatim>\<open>data\<close> is a block of host memory.\<close>

record SimpleMemory =
  sm_data :: nat
  sm_size :: u64
  sm_read_only :: bool

definition sm_write_data :: "SimpleMemory \<Rightarrow> u64 \<Rightarrow> u8 list \<Rightarrow> ('b cmi iss, unit) M" where
  "sm_write_data m addr src = seqM (assertM (addr + of_nat (length src) \<le> sm_size m))
     (modifyM (mem_upd (\<lambda>c. c\<lparr>host := host_write (sm_data m, addr) src (host c)\<rparr>)))"

definition sm_read_data :: "SimpleMemory \<Rightarrow> u64 \<Rightarrow> nat \<Rightarrow> ('b cmi iss, u8 list) M" where
  "sm_read_data m addr n = seqM (assertM (addr + of_nat n \<le> sm_size m))
     (getsM (\<lambda>s. host_read n (sm_data m, addr) (host (mem_st s))))"

text \<open>\<^verbatim>\<open>unsigned addr = trans.get_address()\<close> keeps the lower 32 bits of the address.\<close>

definition sm_transport :: "SimpleMemory \<Rightarrow> 'b cmi iss target" where
  "sm_transport m is_write address data =
     (let addr = ucast (ucast address :: u32) :: u64 in
      seqM (assertM (addr < sm_size m))
      (if is_write then seqM (sm_write_data m addr data) (ret (False, data))
       else bindM (sm_read_data m addr (length data)) (\<lambda>d. ret (False, d))))"

text \<open>\<^verbatim>\<open>load_if\<close>: what the ELF loader calls.\<close>

definition sm_load_data :: "SimpleMemory \<Rightarrow> u8 list \<Rightarrow> u64 \<Rightarrow> ('b cmi iss, unit) M" where
  "sm_load_data m src dst_addr = seqM (assertM (dst_addr + of_nat (length src) \<le> sm_size m))
     (modifyM (mem_upd (\<lambda>c. c\<lparr>host := host_write (sm_data m, dst_addr) src (host c)\<rparr>)))"

definition sm_load_zero :: "SimpleMemory \<Rightarrow> u64 \<Rightarrow> nat \<Rightarrow> ('b cmi iss, unit) M" where
  "sm_load_zero m dst_addr n = seqM (assertM (dst_addr + of_nat n \<le> sm_size m))
     (modifyM (mem_upd (\<lambda>c. c\<lparr>host := host_write (sm_data m, dst_addr) (replicate n 0) (host c)\<rparr>)))"

section \<open>Register ranges\<close>

record RegisterRange =
  rr_start :: u64
  rr_end :: u64
  rr_mem :: "u8 list"
  rr_readonly :: bool
  rr_alignment :: u64

definition RegisterRange_new :: "u64 \<Rightarrow> u64 \<Rightarrow> RegisterRange" where
  "RegisterRange_new start sz =
    \<lparr>rr_start = start, rr_end = start + sz - 1, rr_mem = replicate (unat sz) 0,
     rr_readonly = False, rr_alignment = 1\<rparr>"

text \<open>
  A register range as a member of a device: how it is read and updated in the state, and its
  callbacks, which get the local address and the length. A callback that is not set does nothing.
\<close>

record 's mapped_range =
  rr_get :: "'s \<Rightarrow> RegisterRange"
  rr_upd :: "(RegisterRange \<Rightarrow> RegisterRange) \<Rightarrow> 's \<Rightarrow> 's"
  pre_write_callback :: "u64 \<Rightarrow> nat \<Rightarrow> ('s, bool) M"
  post_write_callback :: "u64 \<Rightarrow> nat \<Rightarrow> ('s, unit) M"
  pre_read_callback :: "u64 \<Rightarrow> nat \<Rightarrow> ('s, bool) M"
  post_read_callback :: "u64 \<Rightarrow> nat \<Rightarrow> ('s, unit) M"

definition plain_range :: "('s \<Rightarrow> RegisterRange) \<Rightarrow> ((RegisterRange \<Rightarrow> RegisterRange) \<Rightarrow> 's \<Rightarrow> 's) \<Rightarrow> 's mapped_range" where
  "plain_range g u = \<lparr>rr_get = g, rr_upd = u, pre_write_callback = (\<lambda>_ _. ret True),
     post_write_callback = (\<lambda>_ _. ret ()), pre_read_callback = (\<lambda>_ _. ret True),
     post_read_callback = (\<lambda>_ _. ret ())\<rparr>"

definition rr_contains :: "RegisterRange \<Rightarrow> u64 \<Rightarrow> bool" where
  "rr_contains r addr \<longleftrightarrow> addr \<ge> rr_start r \<and> addr \<le> rr_end r"

definition rr_to_local :: "RegisterRange \<Rightarrow> u64 \<Rightarrow> u64" where
  "rr_to_local r addr = addr - rr_start r"

definition rr_assert_range :: "RegisterRange \<Rightarrow> nat \<Rightarrow> u64 \<Rightarrow> bool" where
  "rr_assert_range r len local_addr \<longleftrightarrow> local_addr + of_nat len \<le> of_nat (length (rr_mem r))"

text \<open>\<^verbatim>\<open>memcpy(mem.data() + local_addr, src, len)\<close>\<close>

definition put_bytes :: "nat \<Rightarrow> u8 list \<Rightarrow> u8 list \<Rightarrow> u8 list" where
  "put_bytes off bs xs = take off xs @ bs @ drop (off + length bs) xs"

definition get_bytes :: "nat \<Rightarrow> nat \<Rightarrow> u8 list \<Rightarrow> u8 list" where
  "get_bytes off n xs = take n (drop off xs)"

definition rr_write :: "'s mapped_range \<Rightarrow> u64 \<Rightarrow> u8 list \<Rightarrow> ('s, unit) M" where
  "rr_write R addr src =
     bindM (getsM (rr_get R)) (\<lambda>r. let la = rr_to_local r addr in
      seqM (assertM (rr_contains r addr))
     (seqM (assertM (rr_assert_range r (length src) la))
     (bindM (pre_write_callback R la (length src)) (\<lambda>go.
      if \<not> go then ret ()
      else seqM (modifyM (rr_upd R (\<lambda>r. r\<lparr>rr_mem := put_bytes (unat la) src (rr_mem r)\<rparr>)))
             (post_write_callback R la (length src))))))"

definition rr_read :: "'s mapped_range \<Rightarrow> u64 \<Rightarrow> u8 list \<Rightarrow> ('s, u8 list) M" where
  "rr_read R addr dst =
     bindM (getsM (rr_get R)) (\<lambda>r. let la = rr_to_local r addr in
      seqM (assertM (rr_contains r addr))
     (seqM (assertM (rr_assert_range r (length dst) la))
     (bindM (pre_read_callback R la (length dst)) (\<lambda>go.
      if \<not> go then ret dst
      else bindM (getsM (\<lambda>s. get_bytes (unat la) (length dst) (rr_mem (rr_get R s)))) (\<lambda>d.
             seqM (post_read_callback R la (length dst)) (ret d))))))"

definition rr_process :: "'s mapped_range \<Rightarrow> bool \<Rightarrow> u64 \<Rightarrow> u8 list \<Rightarrow> ('s, u8 list) M" where
  "rr_process R is_write addr data = bindM (getsM (rr_get R)) (\<lambda>r.
     if addr mod rr_alignment r = 0 \<and> of_nat (length data) mod rr_alignment r = 0
     then (if is_write
           then (if rr_readonly r then raise RuntimeError else seqM (rr_write R addr data) (ret data))
           else rr_read R addr data)
     else raise RuntimeError)"

fun route :: "'s mapped_range list \<Rightarrow> bool \<Rightarrow> u64 \<Rightarrow> u8 list \<Rightarrow> ('s, u8 list) M" where
  "route [] is_write addr data = raise RuntimeError"
| "route (R # Rs) is_write addr data = bindM (getsM (\<lambda>s. rr_contains (rr_get R s) addr)) (\<lambda>hit.
     if hit then rr_process R is_write addr data else route Rs is_write addr data)"

text \<open>A device behind \<^verbatim>\<open>vp::mm::route\<close> never sets an error response.\<close>

definition mm_transport :: "'s mapped_range list \<Rightarrow> 's target" where
  "mm_transport Rs is_write addr data = bindM (route Rs is_write addr data) (\<lambda>d. ret (False, d))"

section \<open>Views\<close>

text \<open>\<^verbatim>\<open>IntegerView\<close> and \<^verbatim>\<open>ArrayView\<close>: element \<open>i\<close> of \<open>n\<close> bytes.\<close>

definition view_get :: "nat \<Rightarrow> nat \<Rightarrow> RegisterRange \<Rightarrow> 'a::len word" where
  "view_get n i r = bytes_to_word (get_bytes (n * i) n (rr_mem r))"

definition view_set :: "nat \<Rightarrow> nat \<Rightarrow> 'a::len word \<Rightarrow> RegisterRange \<Rightarrow> RegisterRange" where
  "view_set n i v r = r\<lparr>rr_mem := put_bytes (n * i) (word_to_bytes n v) (rr_mem r)\<rparr>"

definition view_size :: "nat \<Rightarrow> RegisterRange \<Rightarrow> nat" where
  "view_size n r = length (rr_mem r) div n"

section \<open>Lemmas on bytes and views\<close>

lemma length_put_bytes [simp]: "off + length bs \<le> length xs \<Longrightarrow> length (put_bytes off bs xs) = length xs"
  by (simp add: put_bytes_def)

lemma length_get_bytes [simp]: "off + n \<le> length xs \<Longrightarrow> length (get_bytes off n xs) = n"
  by (simp add: get_bytes_def)

lemma get_put_bytes_same:
  "off + length bs \<le> length xs \<Longrightarrow> get_bytes off (length bs) (put_bytes off bs xs) = bs"
  by (simp add: get_bytes_def put_bytes_def)

lemma get_put_bytes_other:
  assumes "off + length bs \<le> length xs" "o' + n \<le> off \<or> off + length bs \<le> o'"
  shows "get_bytes o' n (put_bytes off bs xs) = get_bytes o' n xs"
proof -
  have "\<exists>k. o' = off + length bs + k" if "off + length bs \<le> o'"
    using that le_Suc_ex by blast
  then show ?thesis
    using assms by (auto simp: get_bytes_def put_bytes_def min_def add_ac drop_take simp flip: drop_drop)
qed

lemma view_get_set_same:
  fixes v :: "'a::len word"
  assumes "n * i + n \<le> length (rr_mem r)" "LENGTH('a) \<le> 8 * n"
  shows "view_get n i (view_set n i v r) = v"
  using assms get_put_bytes_same [of "n * i" "word_to_bytes n v"]
  by (simp add: view_get_def view_set_def bytes_to_word_to_bytes)

lemma view_get_set_other:
  assumes "n * j + n \<le> length (rr_mem r)" "i \<noteq> j"
  shows "view_get n i (view_set n j v r) = (view_get n i r :: 'a::len word)"
proof -
  have "n * i + n \<le> n * j \<or> n * j + n \<le> n * i"
  proof (cases "i < j")
    case True
    then have "n * Suc i \<le> n * j" by (intro mult_le_mono2) simp
    then show ?thesis by simp
  next
    case False
    then have "n * Suc j \<le> n * i" using assms(2) by (intro mult_le_mono2) simp
    then show ?thesis by simp
  qed
  then show ?thesis
    using assms(1) get_put_bytes_other [of "n * j" "word_to_bytes n v" "rr_mem r" "n * i" n]
    by (simp add: view_get_def view_set_def)
qed

lemma length_view_set [simp]:
  "n * i + n \<le> length (rr_mem r) \<Longrightarrow> length (rr_mem (view_set n i v r)) = length (rr_mem r)"
  by (simp add: view_set_def)

lemma view_set_frame [simp]:
  "rr_start (view_set n i v r) = rr_start r" "rr_end (view_set n i v r) = rr_end r"
  "rr_readonly (view_set n i v r) = rr_readonly r" "rr_alignment (view_set n i v r) = rr_alignment r"
  by (simp_all add: view_set_def)

end
