(* ===== verification/VP_CLINT.thy ===== *)
theory VP_CLINT
  imports VP_Bus
begin

text \<open>
  The interrupt controllers, for one hart: \<^verbatim>\<open>CLINT<1>\<close> of \<^verbatim>\<open>vp/src/core/common/clint.h\<close>, \<^verbatim>\<open>RealCLINT\<close> of
  \<^verbatim>\<open>vp/src/core/common/real_clint.cpp\<close> and \<^verbatim>\<open>FE310_PLIC<1, n, w, p>\<close> of
  \<^verbatim>\<open>vp/src/platform/common/fe310_plic.h\<close>. The hart they signal is the one whose state they live in.

  SystemC time and host time are components of the state that the environment advances. A pending
  event is the time at which it fires; the body of a SystemC process between two \<^verbatim>\<open>wait\<close> calls is a
  function.
\<close>

section \<open>State\<close>

record CLINT =
  regs_mtime :: RegisterRange
  regs_mtimecmp :: RegisterRange
  regs_msip :: RegisterRange
  scaler :: u64
  clint_access_delay :: u64
  irq_event :: "u64 option"

record RealCLINT =
  rc_regs_mtime :: RegisterRange
  rc_regs_mtimecmp :: RegisterRange
  rc_regs_msip :: RegisterRange
  rc_timer :: "u64 option"

record FE310_PLIC =
  NumberInterrupts :: nat
  MaxPriority :: u32
  regs_interrupt_priorities :: RegisterRange
  regs_pending_interrupts :: RegisterRange
  regs_hart_enabled_interrupts :: RegisterRange
  regs_hart_config :: RegisterRange
  irq_level :: u32
  hart_eip :: bool
  e_run :: bool

text \<open>
  The devices. \<open>sim_now\<close> is the SystemC time stamp, \<open>trans_delay\<close> the delay argument of the transaction in
  progress, \<open>real_usec\<close> the host time since the construction of the \<^verbatim>\<open>RealCLINT\<close> in microseconds, and
  \<open>sys_shall_exit\<close> the flag of the system call handler.
\<close>

record soc =
  clint :: CLINT
  real_clint :: RealCLINT
  plic :: FE310_PLIC
  sys_shall_exit :: bool
  sim_now :: u64
  trans_delay :: u64
  real_usec :: u64

type_synonym hart_soc = "soc cmi iss"

abbreviation dev :: "hart_soc \<Rightarrow> soc" where "dev s \<equiv> devices (mem_st s)"

definition dev_upd :: "(soc \<Rightarrow> soc) \<Rightarrow> hart_soc \<Rightarrow> hart_soc" where
  "dev_upd f s = mem_upd (\<lambda>m. m\<lparr>devices := f (devices m)\<rparr>) s"

section \<open>CLINT\<close>

definition CLINT_new :: CLINT where
  "CLINT_new =
    \<lparr>regs_mtime = (RegisterRange_new 0xBFF8 8)\<lparr>rr_alignment := 4\<rparr>,
     regs_mtimecmp = (RegisterRange_new 0x4000 8)\<lparr>rr_alignment := 4\<rparr>,
     regs_msip = (RegisterRange_new 0x0 4)\<lparr>rr_alignment := 4\<rparr>,
     scaler = 1000000, clint_access_delay = 20000, irq_event = None\<rparr>"

definition mtime :: "CLINT \<Rightarrow> u64" where "mtime c = view_get 8 0 (regs_mtime c)"
definition mtimecmp :: "CLINT \<Rightarrow> u64" where "mtimecmp c = view_get 8 0 (regs_mtimecmp c)"
definition msip :: "CLINT \<Rightarrow> u32" where "msip c = view_get 4 0 (regs_msip c)"

definition set_mtime :: "u64 \<Rightarrow> CLINT \<Rightarrow> CLINT" where
  "set_mtime v c = c\<lparr>regs_mtime := view_set 8 0 v (regs_mtime c)\<rparr>"

definition clint_upd :: "(CLINT \<Rightarrow> CLINT) \<Rightarrow> hart_soc \<Rightarrow> hart_soc" where
  "clint_upd f = dev_upd (\<lambda>d. d\<lparr>clint := f (clint d)\<rparr>)"

text \<open>\<^verbatim>\<open>sc_event::notify\<close> with a time: an earlier pending notification stays.\<close>

definition sc_notify :: "u64 \<Rightarrow> u64 option \<Rightarrow> u64 option" where
  "sc_notify t ev = (case ev of None \<Rightarrow> Some t | Some t' \<Rightarrow> Some (min t t'))"

definition clint_update_and_get_mtime :: "(hart_soc, u64) M" where
  "clint_update_and_get_mtime =
     seqM (modifyM (\<lambda>s. let now = sim_now (dev s) div scaler (clint (dev s)) in
             if now > mtime (clint (dev s)) then clint_upd (set_mtime now) s else s))
       (getsM (\<lambda>s. mtime (clint (dev s))))"

text \<open>The body of \<^verbatim>\<open>CLINT::run\<close> after its \<^verbatim>\<open>wait(irq_event)\<close>.\<close>

definition clint_run :: "(hart_soc, unit) M" where
  "clint_run =
     seqM (modifyM (clint_upd (\<lambda>c. c\<lparr>irq_event := None\<rparr>)))
     (bindM clint_update_and_get_mtime (\<lambda>_.
      bindM (getsM (\<lambda>s. (mtimecmp (clint (dev s)), mtime (clint (dev s))))) (\<lambda>(cmp, mt).
      if cmp > 0 \<and> mt \<ge> cmp then modifyM trigger_timer_interrupt
      else seqM (modifyM clear_timer_interrupt)
        (whenM (cmp > 0 \<and> cmp < -1)
          (modifyM (\<lambda>s. clint_upd (\<lambda>c. c\<lparr>irq_event :=
             sc_notify (sim_now (dev s) + (cmp * scaler c - mt * scaler c)) (irq_event c)\<rparr>) s))))))"

definition clint_delay :: "hart_soc \<Rightarrow> u64" where
  "clint_delay s = trans_delay (dev s) + clint_access_delay (clint (dev s))"

definition pre_read_mtime :: "u64 \<Rightarrow> nat \<Rightarrow> (hart_soc, bool) M" where
  "pre_read_mtime la n =
     seqM (modifyM (\<lambda>s. clint_upd (set_mtime ((sim_now (dev s) + clint_delay s) div scaler (clint (dev s)))) s))
       (ret True)"

definition post_write_mtimecmp :: "u64 \<Rightarrow> nat \<Rightarrow> (hart_soc, unit) M" where
  "post_write_mtimecmp la n = modifyM (\<lambda>s. clint_upd (\<lambda>c. c\<lparr>irq_event :=
     sc_notify (sim_now (dev s) + clint_delay s) (irq_event c)\<rparr>) s)"

definition post_write_msip :: "u64 \<Rightarrow> nat \<Rightarrow> (hart_soc, unit) M" where
  "post_write_msip la n =
     seqM (assertM (la mod 4 = 0))
     (let idx = unat (la div 4) in
      bindM (getsM (\<lambda>s. idx < view_size 4 (regs_msip (clint (dev s))))) (\<lambda>ok. seqM (assertM ok)
      (seqM (modifyM (clint_upd (\<lambda>c. c\<lparr>regs_msip :=
               view_set 4 idx (view_get 4 idx (regs_msip c) AND 1 :: u32) (regs_msip c)\<rparr>)))
        (modifyM (\<lambda>s. if (view_get 4 idx (regs_msip (clint (dev s))) :: u32) \<noteq> 0
                      then trigger_software_interrupt s else clear_software_interrupt s)))))"

definition clint_ranges :: "hart_soc mapped_range list" where
  "clint_ranges =
    [(plain_range (\<lambda>s. regs_mtime (clint (dev s)))
        (\<lambda>f. clint_upd (\<lambda>c. c\<lparr>regs_mtime := f (regs_mtime c)\<rparr>)))\<lparr>pre_read_callback := pre_read_mtime\<rparr>,
     (plain_range (\<lambda>s. regs_mtimecmp (clint (dev s)))
        (\<lambda>f. clint_upd (\<lambda>c. c\<lparr>regs_mtimecmp := f (regs_mtimecmp c)\<rparr>)))\<lparr>post_write_callback := post_write_mtimecmp\<rparr>,
     (plain_range (\<lambda>s. regs_msip (clint (dev s)))
        (\<lambda>f. clint_upd (\<lambda>c. c\<lparr>regs_msip := f (regs_msip c)\<rparr>)))\<lparr>post_write_callback := post_write_msip\<rparr>]"

definition clint_transport :: "hart_soc target" where
  "clint_transport = mm_transport clint_ranges"

section \<open>RealCLINT\<close>

text \<open>\<^verbatim>\<open>DIVIDEND\<close> is an integer division, 15625 / 512.\<close>

definition DIVIDEND :: u64 where "DIVIDEND = 15625 div 512"

definition usec_to_ticks :: "u64 \<Rightarrow> u64" where "usec_to_ticks usec = usec div DIVIDEND"
definition ticks_to_usec :: "u64 \<Rightarrow> u64" where "ticks_to_usec ticks = ticks * DIVIDEND"

definition RealCLINT_new :: RealCLINT where
  "RealCLINT_new =
    \<lparr>rc_regs_mtime = (RegisterRange_new 0xBFF8 8)\<lparr>rr_alignment := 4\<rparr>,
     rc_regs_mtimecmp = (RegisterRange_new 0x4000 8)\<lparr>rr_alignment := 4\<rparr>,
     rc_regs_msip = (RegisterRange_new 0x0 4)\<lparr>rr_alignment := 4\<rparr>,
     rc_timer = None\<rparr>"

definition real_clint_upd :: "(RealCLINT \<Rightarrow> RealCLINT) \<Rightarrow> hart_soc \<Rightarrow> hart_soc" where
  "real_clint_upd f = dev_upd (\<lambda>d. d\<lparr>real_clint := f (real_clint d)\<rparr>)"

definition real_update_and_get_mtime :: "(hart_soc, u64) M" where
  "real_update_and_get_mtime =
     seqM (modifyM (\<lambda>s. real_clint_upd (\<lambda>c. c\<lparr>rc_regs_mtime :=
             view_set 8 0 (usec_to_ticks (real_usec (dev s))) (rc_regs_mtime c)\<rparr>) s))
       (getsM (\<lambda>s. view_get 8 0 (rc_regs_mtime (real_clint (dev s)))))"

text \<open>\<^verbatim>\<open>at\<close> throws when the index is out of range; there is one hart and one timer.\<close>

definition real_post_write_mtimecmp :: "u64 \<Rightarrow> nat \<Rightarrow> (hart_soc, unit) M" where
  "real_post_write_mtimecmp la n =
     seqM (assertM (la mod 4 = 0))
     (if la div 8 \<noteq> 0 then raise RuntimeError
      else bindM (getsM (\<lambda>s. view_get 8 0 (rc_regs_mtimecmp (real_clint (dev s))) :: u64)) (\<lambda>cmp.
       bindM real_update_and_get_mtime (\<lambda>time.
       seqM (modifyM (real_clint_upd (\<lambda>c. c\<lparr>rc_timer := None\<rparr>)))
       (if time \<ge> cmp then modifyM trigger_timer_interrupt
        else seqM (modifyM clear_timer_interrupt)
               (modifyM (real_clint_upd (\<lambda>c. c\<lparr>rc_timer := Some (ticks_to_usec (cmp - time))\<rparr>)))))))"

definition real_post_write_msip :: "u64 \<Rightarrow> nat \<Rightarrow> (hart_soc, unit) M" where
  "real_post_write_msip la n =
     seqM (assertM (la mod 4 = 0))
     (if la div 4 \<noteq> 0 then raise RuntimeError
      else seqM (modifyM (real_clint_upd (\<lambda>c. c\<lparr>rc_regs_msip :=
               view_set 4 0 (view_get 4 0 (rc_regs_msip c) AND 1 :: u32) (rc_regs_msip c)\<rparr>)))
        (modifyM (\<lambda>s. if (view_get 4 0 (rc_regs_msip (real_clint (dev s))) :: u32) \<noteq> 0
                      then trigger_software_interrupt s else clear_software_interrupt s)))"

definition real_pre_read_mtime :: "u64 \<Rightarrow> nat \<Rightarrow> (hart_soc, bool) M" where
  "real_pre_read_mtime la n = bindM real_update_and_get_mtime (\<lambda>_. ret True)"

text \<open>\<^verbatim>\<open>RealCLINT::interrupt\<close>, run when a timer has expired.\<close>

definition real_interrupt :: "(hart_soc, unit) M" where
  "real_interrupt = bindM real_update_and_get_mtime (\<lambda>mt.
     bindM (getsM (\<lambda>s. view_get 8 0 (rc_regs_mtimecmp (real_clint (dev s))))) (\<lambda>cmp.
       whenM (mt \<ge> cmp) (modifyM trigger_timer_interrupt)))"

text \<open>The callback of writes to \<^verbatim>\<open>mtime\<close> does nothing.\<close>

definition real_clint_ranges :: "hart_soc mapped_range list" where
  "real_clint_ranges =
    [(plain_range (\<lambda>s. rc_regs_mtimecmp (real_clint (dev s)))
        (\<lambda>f. real_clint_upd (\<lambda>c. c\<lparr>rc_regs_mtimecmp := f (rc_regs_mtimecmp c)\<rparr>)))
        \<lparr>post_write_callback := real_post_write_mtimecmp\<rparr>,
     (plain_range (\<lambda>s. rc_regs_msip (real_clint (dev s)))
        (\<lambda>f. real_clint_upd (\<lambda>c. c\<lparr>rc_regs_msip := f (rc_regs_msip c)\<rparr>)))
        \<lparr>post_write_callback := real_post_write_msip\<rparr>,
     (plain_range (\<lambda>s. rc_regs_mtime (real_clint (dev s)))
        (\<lambda>f. real_clint_upd (\<lambda>c. c\<lparr>rc_regs_mtime := f (rc_regs_mtime c)\<rparr>)))
        \<lparr>pre_read_callback := real_pre_read_mtime\<rparr>]"

definition real_clint_transport :: "hart_soc target" where
  "real_clint_transport = mm_transport real_clint_ranges"

end
