(* ===== verification/VP_PLIC.thy ===== *)
theory VP_PLIC
  imports VP_CLINT
begin

text \<open>
  \<^verbatim>\<open>FE310_PLIC<1, n, w, p>\<close> of \<^verbatim>\<open>vp/src/platform/common/fe310_plic.h\<close>: the platform-level interrupt
  controller with one hart, and what it selects, claims and signals.
\<close>

section \<open>Operations\<close>

definition FE310_PLIC_new :: "nat \<Rightarrow> nat \<Rightarrow> u32 \<Rightarrow> u32 \<Rightarrow> FE310_PLIC" where
  "FE310_PLIC_new n w p level =
    \<lparr>NumberInterrupts = n, MaxPriority = p,
     regs_interrupt_priorities = RegisterRange_new 0x0 (4 * (of_nat n + 1)),
     regs_pending_interrupts = (RegisterRange_new 0x1000 (4 * of_nat w))\<lparr>rr_readonly := True\<rparr>,
     regs_hart_enabled_interrupts = RegisterRange_new 0x2000 (4 * of_nat w),
     regs_hart_config = (RegisterRange_new 0x200000 8)\<lparr>rr_alignment := 4\<rparr>,
     irq_level = level, hart_eip = False, e_run = False\<rparr>"

definition pending_word :: "nat \<Rightarrow> FE310_PLIC \<Rightarrow> u32" where
  "pending_word idx p = view_get 4 idx (regs_pending_interrupts p)"

definition priority_of :: "nat \<Rightarrow> FE310_PLIC \<Rightarrow> u32" where
  "priority_of i p = view_get 4 i (regs_interrupt_priorities p)"

text \<open>\<^verbatim>\<open>hart_enabled_interrupts(hart_id, idx)\<close>: the row size of the view is 1.\<close>

definition enabled_word :: "nat \<Rightarrow> nat \<Rightarrow> FE310_PLIC \<Rightarrow> u32" where
  "enabled_word hart_id idx p = view_get 4 (hart_id + idx) (regs_hart_enabled_interrupts p)"

definition priority_threshold :: "FE310_PLIC \<Rightarrow> u32" where
  "priority_threshold p = view_get 4 0 (regs_hart_config p)"

definition claim_response :: "FE310_PLIC \<Rightarrow> u32" where
  "claim_response p = view_get 4 1 (regs_hart_config p)"

definition irq_enabled :: "FE310_PLIC \<Rightarrow> nat \<Rightarrow> bool" where
  "irq_enabled p i \<longleftrightarrow> enabled_word 0 (i div 32) p AND push_bit (i mod 32) 1 \<noteq> 0"

definition irq_pending :: "FE310_PLIC \<Rightarrow> nat \<Rightarrow> bool" where
  "irq_pending p i \<longleftrightarrow> pending_word (i div 32) p AND push_bit (i mod 32) 1 \<noteq> 0"

definition set_pending_word :: "nat \<Rightarrow> u32 \<Rightarrow> FE310_PLIC \<Rightarrow> FE310_PLIC" where
  "set_pending_word idx v p = p\<lparr>regs_pending_interrupts := view_set 4 idx v (regs_pending_interrupts p)\<rparr>"

definition plic_upd :: "(FE310_PLIC \<Rightarrow> FE310_PLIC) \<Rightarrow> hart_soc \<Rightarrow> hart_soc" where
  "plic_upd f = dev_upd (\<lambda>d. d\<lparr>plic := f (plic d)\<rparr>)"

definition pending_index_ok :: "nat \<Rightarrow> FE310_PLIC \<Rightarrow> bool" where
  "pending_index_ok irq p \<longleftrightarrow> irq div 32 < view_size 4 (regs_pending_interrupts p)"

definition gateway_trigger_interrupt :: "nat \<Rightarrow> (hart_soc, unit) M" where
  "gateway_trigger_interrupt irq_id = bindM (getsM (\<lambda>s. plic (dev s))) (\<lambda>p.
     seqM (assertM (irq_id > 0 \<and> irq_id < NumberInterrupts p))
     (seqM (assertM (pending_index_ok irq_id p))
     (seqM (modifyM (plic_upd (\<lambda>p. set_pending_word (irq_id div 32)
              (pending_word (irq_id div 32) p OR push_bit (irq_id mod 32) 1) p)))
       (modifyM (plic_upd (\<lambda>p. p\<lparr>e_run := True\<rparr>))))))"

definition clear_pending_interrupt :: "nat \<Rightarrow> (hart_soc, unit) M" where
  "clear_pending_interrupt irq_id = bindM (getsM (\<lambda>s. plic (dev s))) (\<lambda>p.
     seqM (assertM (irq_id < NumberInterrupts p))
     (seqM (assertM (pending_index_ok irq_id p))
       (modifyM (plic_upd (\<lambda>p. set_pending_word (irq_id div 32)
          (pending_word (irq_id div 32) p AND NOT (push_bit (irq_id mod 32) 1)) p)))))"

text \<open>One pass of the loop of \<^verbatim>\<open>hart_get_next_pending_interrupt\<close>; the pair is \<^verbatim>\<open>min_id\<close> and \<^verbatim>\<open>max_priority\<close>.\<close>

definition next_step :: "FE310_PLIC \<Rightarrow> bool \<Rightarrow> nat \<times> u32 \<Rightarrow> nat \<Rightarrow> nat \<times> u32" where
  "next_step p consider_threshold = (\<lambda>(min_id, max_priority) i.
     if irq_enabled p i \<and> irq_pending p i \<and> priority_of i p > 0 \<and>
        (\<not> consider_threshold \<or> priority_of i p > priority_threshold p) \<and> priority_of i p > max_priority
     then (i, priority_of i p) else (min_id, max_priority))"

definition next_pending :: "FE310_PLIC \<Rightarrow> bool \<Rightarrow> nat" where
  "next_pending p consider_threshold =
     fst (foldl (next_step p consider_threshold) (0, 0) [1..<NumberInterrupts p])"

text \<open>The bounds checks of the views the loop makes on the way.\<close>

definition next_in_range :: "FE310_PLIC \<Rightarrow> bool" where
  "next_in_range p \<longleftrightarrow> (\<forall>i\<in>set [1..<NumberInterrupts p]. irq_enabled p i \<longrightarrow> pending_index_ok i p \<and>
     (irq_pending p i \<longrightarrow> i < view_size 4 (regs_interrupt_priorities p)))"

definition hart_get_next_pending_interrupt :: "bool \<Rightarrow> (hart_soc, nat) M" where
  "hart_get_next_pending_interrupt consider_threshold = bindM (getsM (\<lambda>s. plic (dev s))) (\<lambda>p.
     seqM (assertM (next_in_range p)) (ret (next_pending p consider_threshold)))"

definition hart_has_pending_enabled_interrupts :: "(hart_soc, bool) M" where
  "hart_has_pending_enabled_interrupts = bindM (hart_get_next_pending_interrupt True) (\<lambda>i. ret (i > 0))"

text \<open>The range-based \<^verbatim>\<open>for\<close> uses \<^verbatim>\<open>ArrayView::end()\<close>, which points at the last element.\<close>

definition post_write_interrupt_priorities :: "u64 \<Rightarrow> nat \<Rightarrow> (hart_soc, unit) M" where
  "post_write_interrupt_priorities la n = modifyM (plic_upd (\<lambda>p.
     p\<lparr>regs_interrupt_priorities := fold
        (\<lambda>i r. view_set 4 i (min (view_get 4 i r :: u32) (MaxPriority p)) r)
        [0..<view_size 4 (regs_interrupt_priorities p) - 1] (regs_interrupt_priorities p)\<rparr>))"

definition pre_read_hart_config :: "u64 \<Rightarrow> nat \<Rightarrow> (hart_soc, bool) M" where
  "pre_read_hart_config la n =
     seqM (assertM (la mod 4 = 0))
     (let idx = unat (la div 4) in
      if idx mod 2 = 1
      then seqM (assertM (n = 4))
        (bindM (hart_get_next_pending_interrupt False) (\<lambda>min_id.
         bindM (getsM (\<lambda>s. idx - 1 < view_size 8 (regs_hart_config (plic (dev s))))) (\<lambda>ok. seqM (assertM ok)
         (seqM (modifyM (plic_upd (\<lambda>p. p\<lparr>regs_hart_config :=
                  view_set 4 (2 * (idx - 1) + 1) (of_nat min_id :: u32) (regs_hart_config p)\<rparr>)))
         (seqM (clear_pending_interrupt min_id) (ret True))))))
      else ret True)"

text \<open>\<^verbatim>\<open>hart_eip\<close> and \<^verbatim>\<open>target_harts\<close> have one element.\<close>

definition post_write_hart_config :: "u64 \<Rightarrow> nat \<Rightarrow> (hart_soc, unit) M" where
  "post_write_hart_config la n =
     seqM (assertM (la mod 4 = 0))
     (let idx = unat (la div 4) in
      if idx mod 2 = 1
      then seqM (assertM (n = 4))
        (bindM hart_has_pending_enabled_interrupts (\<lambda>b.
         if b then bindM (getsM (\<lambda>s. hart_eip (plic (dev s)))) (\<lambda>eip. seqM (assertM eip)
                    (modifyM (\<lambda>s. trigger_external_interrupt (irq_level (plic (dev s))) s)))
         else seqM (modifyM (plic_upd (\<lambda>p. p\<lparr>hart_eip := False\<rparr>)))
                (modifyM (\<lambda>s. clear_external_interrupt (irq_level (plic (dev s))) s))))
      else ret ())"

text \<open>
  \<^verbatim>\<open>FE310_PLIC::run\<close>: the thread sleeps in \<^verbatim>\<open>wait(e_run)\<close> until the event is notified (its flag is set); it then
  consumes the notification and makes one pass of its loop. Without a notification nothing happens.
\<close>

definition plic_run :: "(hart_soc, unit) M" where
  "plic_run = bindM (getsM (\<lambda>s. e_run (plic (dev s)))) (\<lambda>notified.
     whenM notified
       (seqM (modifyM (plic_upd (\<lambda>p. p\<lparr>e_run := False\<rparr>)))
       (bindM (getsM (\<lambda>s. hart_eip (plic (dev s)))) (\<lambda>eip.
        if eip then ret ()
        else bindM hart_has_pending_enabled_interrupts (\<lambda>b.
          whenM b (seqM (modifyM (plic_upd (\<lambda>p. p\<lparr>hart_eip := True\<rparr>)))
            (modifyM (\<lambda>s. trigger_external_interrupt (irq_level (plic (dev s))) s))))))))"

definition plic_ranges :: "hart_soc mapped_range list" where
  "plic_ranges =
    [(plain_range (\<lambda>s. regs_interrupt_priorities (plic (dev s)))
        (\<lambda>f. plic_upd (\<lambda>p. p\<lparr>regs_interrupt_priorities := f (regs_interrupt_priorities p)\<rparr>)))
        \<lparr>post_write_callback := post_write_interrupt_priorities\<rparr>,
     plain_range (\<lambda>s. regs_pending_interrupts (plic (dev s)))
        (\<lambda>f. plic_upd (\<lambda>p. p\<lparr>regs_pending_interrupts := f (regs_pending_interrupts p)\<rparr>)),
     plain_range (\<lambda>s. regs_hart_enabled_interrupts (plic (dev s)))
        (\<lambda>f. plic_upd (\<lambda>p. p\<lparr>regs_hart_enabled_interrupts := f (regs_hart_enabled_interrupts p)\<rparr>)),
     (plain_range (\<lambda>s. regs_hart_config (plic (dev s)))
        (\<lambda>f. plic_upd (\<lambda>p. p\<lparr>regs_hart_config := f (regs_hart_config p)\<rparr>)))
        \<lparr>post_write_callback := post_write_hart_config, pre_read_callback := pre_read_hart_config\<rparr>]"

definition plic_transport :: "hart_soc target" where
  "plic_transport = mm_transport plic_ranges"

section \<open>Which interrupt is selected\<close>

text \<open>The interrupts that compete, and the winner: the highest priority, the lowest number among equals.\<close>

definition candidate :: "FE310_PLIC \<Rightarrow> bool \<Rightarrow> nat \<Rightarrow> bool" where
  "candidate p thr i \<longleftrightarrow> 1 \<le> i \<and> i < NumberInterrupts p \<and> irq_enabled p i \<and> irq_pending p i \<and>
     priority_of i p > 0 \<and> (thr \<longrightarrow> priority_of i p > priority_threshold p)"

definition wins :: "FE310_PLIC \<Rightarrow> bool \<Rightarrow> nat \<Rightarrow> bool" where
  "wins p thr i \<longleftrightarrow> candidate p thr i \<and>
     (\<forall>j. candidate p thr j \<longrightarrow> priority_of j p < priority_of i p \<or> priority_of j p = priority_of i p \<and> i \<le> j)"

text \<open>The loop invariant after the interrupts below \<open>k\<close>.\<close>

definition best_below :: "FE310_PLIC \<Rightarrow> bool \<Rightarrow> nat \<Rightarrow> nat \<times> u32 \<Rightarrow> bool" where
  "best_below p thr k x \<longleftrightarrow>
     (if fst x = 0 then snd x = 0 \<and> (\<forall>j<k. \<not> candidate p thr j)
      else candidate p thr (fst x) \<and> fst x < k \<and> snd x = priority_of (fst x) p \<and>
        (\<forall>j<k. candidate p thr j \<longrightarrow> priority_of j p < snd x \<or> priority_of j p = snd x \<and> fst x \<le> j))"

lemma next_step_candidate:
  assumes "1 \<le> k" "k < NumberInterrupts p"
  shows "next_step p thr x k =
    (if candidate p thr k \<and> priority_of k p > snd x then (k, priority_of k p) else x)"
  using assms by (cases x) (auto simp: next_step_def candidate_def)

lemma best_below_step:
  assumes "best_below p thr k x" "1 \<le> k" "k < NumberInterrupts p"
  shows "best_below p thr (Suc k) (next_step p thr x k)"
proof (cases "candidate p thr k \<and> priority_of k p > snd x")
  case True
  have "priority_of j p < priority_of k p" if "j < k" "candidate p thr j" for j
  proof -
    have "priority_of j p \<le> snd x"
      using assms(1) that by (auto simp: best_below_def split: if_splits)
    then show ?thesis using True by (meson le_less_trans)
  qed
  then show ?thesis
    using True assms(2) by (auto simp: next_step_candidate [OF assms(2,3)] best_below_def less_Suc_eq)
next
  case False
  have "fst x \<noteq> 0 \<and> priority_of k p \<le> snd x \<and> fst x \<le> k" if "candidate p thr k"
  proof -
    have "snd x \<noteq> 0" using False that by (auto simp: candidate_def)
    then show ?thesis using assms(1) False that by (auto simp: best_below_def not_less split: if_splits)
  qed
  then show ?thesis
    using False assms(1)
    by (auto simp: next_step_candidate [OF assms(2,3)] best_below_def less_Suc_eq order.order_iff_strict split: if_splits)
qed

lemma best_below_foldl:
  "best_below p thr k x \<Longrightarrow> 1 \<le> k \<Longrightarrow> k + n \<le> NumberInterrupts p \<Longrightarrow>
   best_below p thr (k + n) (foldl (next_step p thr) x [k..<k + n])"
proof (induction n)
  case 0
  then show ?case by simp
next
  case (Suc n)
  then show ?case
    using best_below_step [of p thr "k + n"] by simp
qed

lemma next_pending_wins:
  assumes "NumberInterrupts p \<ge> 1"
  shows "if next_pending p thr = 0 then \<forall>i. \<not> candidate p thr i else wins p thr (next_pending p thr)"
proof -
  have "best_below p thr 1 (0, 0)"
    by (simp add: best_below_def candidate_def)
  from best_below_foldl [OF this, of "NumberInterrupts p - 1"] assms
  have "best_below p thr (NumberInterrupts p) (foldl (next_step p thr) (0, 0) [1..<NumberInterrupts p])"
    by simp
  then show ?thesis
    by (auto simp: best_below_def next_pending_def wins_def candidate_def split: if_splits)
qed

end
