(* ===== verification/VP_Platform.thy ===== *)
theory VP_Platform
  imports VP_PLIC
begin

text \<open>
  The platform \<^verbatim>\<open>tiny\<close> (\<^verbatim>\<open>vp/src/platform/tiny/main.cpp\<close>) with one RV32 hart: its memory map, the targets on
  its bus and the construction of its state, with the default options. \<^verbatim>\<open>SyscallHandlerBase\<close> is from
  \<^verbatim>\<open>vp/src/core/common/syscall.h\<close>; the system calls themselves act on the host, so they are the parameter
  \<open>host_syscall\<close>, a function on guest memory and the state of the handler and its devices.
\<close>

section \<open>The system call handler\<close>

type_synonym host_syscall = "u64 \<Rightarrow> u64 \<Rightarrow> u64 \<Rightarrow> u64 \<Rightarrow> u64 \<Rightarrow> ((nat \<Rightarrow> u64 \<Rightarrow> u8) \<times> soc, u64) M"

text \<open>The system calls have pointers to guest memory and to the handler, but not to the hart.\<close>

definition lift_host :: "((nat \<Rightarrow> u64 \<Rightarrow> u8) \<times> 'b, 'a) M \<Rightarrow> ('b cmi iss, 'a) M" where
  "lift_host m s = (let (r, h, d) = m (host (mem_st s), devices (mem_st s))
     in (r, mem_upd (\<lambda>c. c\<lparr>host := h, devices := d\<rparr>) s))"

definition execute_syscall :: "host_syscall \<Rightarrow> (hart_soc, unit) M" where
  "execute_syscall hs =
     bindM (getsM get_syscall_register_index) (\<lambda>idx.
     bindM (read_register idx) (\<lambda>syscall.
     bindM (read_register 13) (\<lambda>a3.
     bindM (read_register 12) (\<lambda>a2.
     bindM (read_register 11) (\<lambda>a1.
     bindM (read_register 10) (\<lambda>a0.
     bindM (lift_host (hs syscall a0 a1 a2 a3)) (\<lambda>ans.
     seqM (write_register 10 ans)
     (bindM (getsM (\<lambda>s. sys_shall_exit (dev s))) (\<lambda>b. whenM b (modifyM sys_exit))))))))))"

definition sys_transport :: "host_syscall \<Rightarrow> hart_soc target" where
  "sys_transport hs is_write addr data =
     seqM (assertM (addr mod 4 = 0))
     (seqM (assertM (length data = 4))
     (bindM (getsM (\<lambda>s. ucast (bytes_to_word data :: u32) = get_hart_id s)) (\<lambda>registered.
      seqM (assertM registered)
      (seqM (execute_syscall hs) (ret (False, data))))))"

section \<open>Memory map and connections\<close>

definition tiny_mem_size :: u64 where "tiny_mem_size = 1024 * 1024 * 32"

definition tiny_memory :: SimpleMemory where
  "tiny_memory = \<lparr>sm_data = 0, sm_size = tiny_mem_size, sm_read_only = False\<rparr>"

definition tiny_ports :: "PortMapping list" where
  "tiny_ports =
    [\<lparr>port_start = 0, port_end = tiny_mem_size - 1\<rparr>,
     \<lparr>port_start = 0x02000000, port_end = 0x0200ffff\<rparr>,
     \<lparr>port_start = 0x02010000, port_end = 0x020103ff\<rparr>]"

definition tiny_isocks :: "host_syscall \<Rightarrow> hart_soc target list" where
  "tiny_isocks hs = [sm_transport tiny_memory, real_clint_transport, sys_transport hs]"

definition tiny_conn :: "host_syscall \<Rightarrow> soc cmi_conn" where
  "tiny_conn hs = \<lparr>has_mmu = True, b_transport = bus_transport tiny_ports (tiny_isocks hs) (ret ())\<rparr>"

text \<open>
  \<open>intercept\<close> is the option \<^verbatim>\<open>intercept_syscalls\<close>, \<open>cached\<close> the \<^verbatim>\<open>LSCacheDefault_T\<close> of the build; \<open>ns\<close>, \<open>sn\<close>
  and \<open>gran\<close> stand for the quantum keeper.
\<close>

definition tiny_env ::
  "host_syscall \<Rightarrow> bool \<Rightarrow> bool \<Rightarrow> (hart_soc \<Rightarrow> bool) \<Rightarrow> (hart_soc, unit) M \<Rightarrow> u64 \<Rightarrow> soc cmi iss_env"
where
  "tiny_env hs intercept cached ns sn gran = cmi_env (tiny_conn hs) cached
    \<lparr>mem = cmi_if (tiny_conn hs), lscache = lscache_dummy (cmi_if (tiny_conn hs)),
     load_instr = cmi_load_instr (tiny_conn hs), update_and_get_mtime = real_update_and_get_mtime,
     sys = if intercept then Some (execute_syscall hs) else None,
     need_sync = ns, sync = sn, fast_quantum_ins_granularity = gran\<rparr>"

definition soc_init :: soc where
  "soc_init = \<lparr>clint = CLINT_new, real_clint = RealCLINT_new, plic = FE310_PLIC_new 64 96 32 MachineMode,
     sys_shall_exit = False, sim_now = 0, trans_delay = 0, real_usec = 0\<rparr>"

definition tiny_dmi :: MemoryDMI where
  "tiny_dmi = \<lparr>dmi_block = 0, dmi_start = 0, dmi_size = tiny_mem_size\<rparr>"

definition tiny_init :: "bool \<Rightarrow> bool \<Rightarrow> (OpId \<Rightarrow> u64) \<Rightarrow> u32 \<Rightarrow> hart_soc" where
  "tiny_init use_data_dmi use_lscache op_times entrypoint =
     iss_init entrypoint (ucast (tiny_mem_size - 1))
       (ISS_CT (RV_ISA_Config False False) 0 op_times
         (dmi_enable use_data_dmi (dmi_add tiny_dmi ((cmi_init soc_init)\<lparr>lsc_enabled := use_lscache\<rparr>))))"

end
