(* ===== verification/VP_TrapProps.thy ===== *)
theory VP_TrapProps
  imports VP_Platform
begin

text \<open>
  Properties of the privileged architecture of \<open>VP_Trap\<close>: field-level simplification rules for the
  CSR table inside the ISS state, the target mode of traps and interrupts, trap entry and return as
  inverse operations, and reads after writes of CSRs.
\<close>

section \<open>Simplification rules for the CSR table\<close>

lemma csr_fget_upd: "csr_fget c f (csr_upd c' v s) = (if c = c' then fget f v else csr_fget c f s)"
  by (simp add: csr_fget_def csr_upd_def)

lemma csr_fget_fset_same:
  "fst f + snd f \<le> 32 \<Longrightarrow> csr_fget c f (csr_fset c f v s) = take_bit (snd f) v"
  by (simp add: csr_fset_def csr_fget_upd bitfield_simps)

lemma csr_fget_fset_other:
  "c \<noteq> c' \<or> fdisj f g \<Longrightarrow> csr_fget c f (csr_fset c' g v s) = csr_fget c f s"
  by (auto simp: csr_fset_def csr_fget_def csr_upd_def bitfield_simps)

lemma csrs_csr_upd [simp]: "csrs (csr_upd c v s) = (csrs s)(c := v)"
  by (simp add: csr_upd_def)

lemma csr_fset_cell: "c \<noteq> c' \<Longrightarrow> csrs (csr_fset c' f v s) c = csrs s c"
  by (simp add: csr_fset_def)

lemma csr_upd_frame [simp]:
  "regs (csr_upd c v s) = regs s" "prv (csr_upd c v s) = prv s" "pc (csr_upd c v s) = pc s"
  "instr (csr_upd c v s) = instr s" "isa_config (csr_upd c v s) = isa_config s"
  "dbbcache (csr_upd c v s) = dbbcache s" "lr_sc_counter (csr_upd c v s) = lr_sc_counter s"
  "iss_slow_path (csr_upd c v s) = iss_slow_path s" "status (csr_upd c v s) = status s"
  "debug_mode (csr_upd c v s) = debug_mode s" "mem_st (csr_upd c v s) = mem_st s"
  "error_on_zero_traphandler (csr_upd c v s) = error_on_zero_traphandler s"
  by (simp_all add: csr_upd_def)

lemma csr_fset_frame [simp]:
  "regs (csr_fset c f v s) = regs s" "prv (csr_fset c f v s) = prv s" "pc (csr_fset c f v s) = pc s"
  "instr (csr_fset c f v s) = instr s" "isa_config (csr_fset c f v s) = isa_config s"
  "dbbcache (csr_fset c f v s) = dbbcache s" "lr_sc_counter (csr_fset c f v s) = lr_sc_counter s"
  "iss_slow_path (csr_fset c f v s) = iss_slow_path s" "status (csr_fset c f v s) = status s"
  "debug_mode (csr_fset c f v s) = debug_mode s" "mem_st (csr_fset c f v s) = mem_st s"
  "error_on_zero_traphandler (csr_fset c f v s) = error_on_zero_traphandler s"
  by (simp_all add: csr_fset_def)

lemma set_cause_frame [simp]:
  "regs (set_cause c code irq s) = regs s" "prv (set_cause c code irq s) = prv s"
  "pc (set_cause c code irq s) = pc s" "dbbcache (set_cause c code irq s) = dbbcache s"
  "error_on_zero_traphandler (set_cause c code irq s) = error_on_zero_traphandler s"
  "c \<noteq> c' \<Longrightarrow> csrs (set_cause c code irq s) c' = csrs s c'"
  "c \<noteq> c' \<Longrightarrow> csr_fget c' f (set_cause c code irq s) = csr_fget c' f s"
  by (simp_all add: set_cause_def csr_fset_cell csr_fget_def)

lemma csr_fget_set_cause [simp]:
  "csr_fget c mcause_interrupt (set_cause c code irq s) = take_bit 1 irq"
  "csr_fget c mcause_exception_code (set_cause c code irq s) = take_bit 31 code"
  by (simp_all add: set_cause_def csr_fget_fset_same csr_fget_fset_other)

lemmas csr_fget_set_cause_code [simp] = csr_fget_set_cause [simplified]

lemma csr_fget_iss_upd [simp]:
  "csr_fget c f (s\<lparr>pc := p\<rparr>) = csr_fget c f s"
  "csr_fget c f (s\<lparr>prv := m\<rparr>) = csr_fget c f s"
  "csr_fget c f (s\<lparr>mem_st := d\<rparr>) = csr_fget c f s"
  "csr_fget c f (s\<lparr>lr_sc_counter := k\<rparr>) = csr_fget c f s"
  "csr_fget c f (s\<lparr>dbbcache := b\<rparr>) = csr_fget c f s"
  "csr_fget c f (s\<lparr>iss_slow_path := sp\<rparr>) = csr_fget c f s"
  by (simp_all add: csr_fget_def)

lemma fget_take_bit: "take_bit (snd f) (fget f w) = fget f w"
  by (simp add: fget_def)

lemma csr_fget_bit [simp]:
  "csr_fget c (l, Suc 0) s mod 2 = csr_fget c (l, Suc 0) s"
  using fget_take_bit [of "(l, 1)"] by (simp add: csr_fget_def take_bit_Suc flip: mod_2_eq_odd)

lemma csr_fget_bit_cases: "csr_fget c (l, Suc 0) s = 0 \<or> csr_fget c (l, Suc 0) s = 1"
  using csr_fget_bit [of c l s] by (metis parity_cases mod_2_eq_odd of_bool_eq(1) of_bool_eq(2))

lemmas csr_field_simps = csr_fget_fset_same csr_fget_fset_other csr_fget_upd csr_fset_cell

lemma lexical_cast_u32_ok: "v \<le> 0xFFFFFFFF \<Longrightarrow> lexical_cast_u32 v s = (Inr (ucast v), s)"
  by (simp add: lexical_cast_u32_def monad_simps)

section \<open>Where traps and interrupts go\<close>

text \<open>Whether exception \<open>r\<close> is delegated by the given register.\<close>

definition delegated :: "csr_cell \<Rightarrow> u32 \<Rightarrow> 'd iss \<Rightarrow> bool" where
  "delegated c r s \<longleftrightarrow> push_bit (unat r) 1 AND csrs s c \<noteq> 0"

text \<open>The registers in which a mode finds cause, trap value and return address of a trap.\<close>

definition cause_csr :: "u32 \<Rightarrow> csr_cell" where
  "cause_csr m = (if m = MachineMode then csr_mcause else if m = SupervisorMode then csr_scause else csr_ucause)"

definition tval_csr :: "u32 \<Rightarrow> csr_cell" where
  "tval_csr m = (if m = MachineMode then csr_mtval else if m = SupervisorMode then csr_stval else csr_utval)"

definition trap_target :: "u32 \<Rightarrow> 'd iss \<Rightarrow> u32" where
  "trap_target r s =
     (if prv s = MachineMode \<or> \<not> delegated csr_medeleg r s then MachineMode
      else if prv s = SupervisorMode \<or> \<not> delegated csr_sedeleg r s then SupervisorMode
      else UserMode)"

lemma prepare_trap_result:
  assumes "is_valid_privilege_level (prv s)" "v \<le> 0xFFFFFFFF"
  shows "prepare_trap r v lp s =
    (Inr (trap_target r s),
     csr_upd (tval_csr (trap_target r s)) (ucast v)
       (set_cause (cause_csr (trap_target r s)) r 0 (s\<lparr>pc := lp\<rparr>)))"
  using assms
  by (auto simp: prepare_trap_def Let_def record_trap_def monad_simps lexical_cast_u32_ok
      trap_target_def delegated_def is_valid_privilege_level_def cause_csr_def tval_csr_def)

lemma trap_target_privilege:
  "is_valid_privilege_level (prv s) \<Longrightarrow> prv s \<le> trap_target r s"
  by (auto simp: trap_target_def is_valid_privilege_level_def)

lemma interrupt_code_zero: "interrupt_code 0 = None"
  by (simp add: interrupt_code_def fget_def)



section \<open>Trap entry and return, abstractly\<close>

text \<open>
  The privileged architecture has one trap scheme for three modes: each has its own return address,
  vector, interrupt enable and previous interrupt enable.
\<close>

definition epc_csr :: "u32 \<Rightarrow> csr_cell" where
  "epc_csr m = (if m = MachineMode then csr_mepc else if m = SupervisorMode then csr_sepc else csr_uepc)"

definition tvec_csr :: "u32 \<Rightarrow> csr_cell" where
  "tvec_csr m = (if m = MachineMode then csr_mtvec else if m = SupervisorMode then csr_stvec else csr_utvec)"

definition ie_field :: "u32 \<Rightarrow> bitfield" where
  "ie_field m = (if m = MachineMode then mstatus_mie else if m = SupervisorMode then mstatus_sie else mstatus_uie)"

definition pie_field :: "u32 \<Rightarrow> bitfield" where
  "pie_field m = (if m = MachineMode then mstatus_mpie else if m = SupervisorMode then mstatus_spie else mstatus_upie)"

text \<open>The mode the trap came from, as the handler finds it.\<close>

definition previous_mode :: "u32 \<Rightarrow> 'd iss \<Rightarrow> u32" where
  "previous_mode m s = (if m = MachineMode then csr_fget csr_mstatus mstatus_mpp s
     else if m = SupervisorMode then csr_fget csr_mstatus mstatus_spp s else UserMode)"

text \<open>The fields of \<^verbatim>\<open>mstatus\<close> that entry of mode \<open>m\<close> writes; all other bits of \<open>w\<close> and \<open>w'\<close> are the same.\<close>

definition entry_fields :: "u32 \<Rightarrow> bitfield list" where
  "entry_fields m = [ie_field m, pie_field m] @
     (if m = MachineMode then [mstatus_mpp] else if m = SupervisorMode then [mstatus_spp] else [])"

definition status_kept :: "u32 \<Rightarrow> u32 \<Rightarrow> u32 \<Rightarrow> bool" where
  "status_kept m w w' \<longleftrightarrow>
     (\<forall>n. list_all (\<lambda>f. n < fst f \<or> fst f + snd f \<le> n) (entry_fields m) \<longrightarrow> bit w' n = bit w n)"

text \<open>
  The hart outside of what a trap is about: all members of \<open>s'\<close> but the mode, the control and status registers, the
  program counters, the reservation and the memory system are those of \<open>s\<close>.
\<close>

definition hart_kept :: "'d iss \<Rightarrow> 'd iss \<Rightarrow> bool" where
  "hart_kept s s' \<longleftrightarrow> s' = s\<lparr>prv := prv s', csrs := csrs s', pc := pc s', lr_sc_counter := lr_sc_counter s',
     dbbcache := (dbbcache s)\<lparr>dbb_pc := dbb_pc (dbbcache s')\<rparr>, mem_st := mem_st s'\<rparr>"

text \<open>\<open>s'\<close> is the state in which mode \<open>m\<close> handles a trap of state \<open>s\<close>.\<close>

definition trap_entered :: "u32 \<Rightarrow> 'd iss \<Rightarrow> 'd iss \<Rightarrow> bool" where
  "trap_entered m s s' \<longleftrightarrow>
     prv s' = m \<and> previous_mode m s' = prv s \<and>
     csr_fget csr_mstatus (ie_field m) s' = 0 \<and>
     csr_fget csr_mstatus (pie_field m) s' = csr_fget csr_mstatus (ie_field m) s \<and>
     csrs s' (epc_csr m) = pc s \<and>
     (\<forall>c. c \<notin> {epc_csr m, csr_mstatus} \<longrightarrow> csrs s' c = csrs s c) \<and>
     pc s' = vectored_pc (cause_csr m) (tvec_csr m) (get_base_address (csrs s (tvec_csr m))) s \<and>
     dbb_pc (dbbcache s') = pc s' \<and> lr_sc_counter s' = 0 \<and> regs s' = regs s \<and>
     status_kept m (csrs s csr_mstatus) (csrs s' csr_mstatus) \<and> hart_kept s s'"

text \<open>\<open>s'\<close> is what a return from the handler of mode \<open>m\<close> makes of \<open>s\<close>.\<close>

definition trap_returned :: "u32 \<Rightarrow> 'd iss \<Rightarrow> 'd iss \<Rightarrow> bool" where
  "trap_returned m s s' \<longleftrightarrow>
     prv s' = previous_mode m s \<and>
     csr_fget csr_mstatus (ie_field m) s' = csr_fget csr_mstatus (pie_field m) s \<and>
     csr_fget csr_mstatus (pie_field m) s' = 1 \<and>
     pc s' = csrs s (epc_csr m) \<and> dbb_pc (dbbcache s') = pc s' \<and> iss_slow_path s' \<and>
     (\<forall>c. c \<noteq> csr_mstatus \<longrightarrow> csrs s' c = csrs s c) \<and> regs s' = regs s"

lemmas trap_mode_defs = cause_csr_def tval_csr_def epc_csr_def tvec_csr_def ie_field_def pie_field_def previous_mode_def

lemma valid_privilege_cases:
  assumes "is_valid_privilege_level m"
  obtains "m = MachineMode" | "m = SupervisorMode" | "m = UserMode"
  using assms by (auto simp: is_valid_privilege_level_def)

lemma machine_not_le_supervisor [simp]: "\<not> MachineMode \<le> SupervisorMode"
  by (simp add: word_le_nat_alt)

lemma csr_fget_other_cell: "csrs s' c = csrs s c \<Longrightarrow> csr_fget c f s' = csr_fget c f s"
  by (simp add: csr_fget_def)

lemma vectored_pc_cong:
  "csrs s' cause = csrs s cause \<Longrightarrow> csrs s' tvec = csrs s tvec \<Longrightarrow>
   vectored_pc cause tvec b s' = vectored_pc cause tvec b s"
  by (simp add: vectored_pc_def csr_fget_def)

lemma hart_kept_members:
  "hart_kept s s' \<longleftrightarrow> regs s' = regs s \<and> fp_regs s' = fp_regs s \<and> instr s' = instr s \<and> isa_config s' = isa_config s \<and>
     iss_slow_path s' = iss_slow_path s \<and> trace s' = trace s \<and> shall_exit s' = shall_exit s \<and> status s' = status s \<and>
     debug_mode s' = debug_mode s \<and> breakpoints s' = breakpoints s \<and> ignore_wfi s' = ignore_wfi s \<and>
     error_on_zero_traphandler s' = error_on_zero_traphandler s \<and> cycle_counter s' = cycle_counter s \<and>
     cycle_counter_raw_last s' = cycle_counter_raw_last s \<and> ninstr_last s' = ninstr_last s \<and> ninstr s' = ninstr s \<and>
     debug_single_step_done s' = debug_single_step_done s \<and> prop_clock_cycle_period s' = prop_clock_cycle_period s \<and>
     opMap s' = opMap s \<and> softfloat_exceptionFlags s' = softfloat_exceptionFlags s \<and>
     softfloat_roundingMode s' = softfloat_roundingMode s \<and> v_ext s' = v_ext s \<and>
     dbb_last_pc (dbbcache s') = dbb_last_pc (dbbcache s) \<and>
     cycle_counter_raw (dbbcache s') = cycle_counter_raw (dbbcache s) \<and> mem_word (dbbcache s') = mem_word (dbbcache s)"
  by (cases s; cases s'; cases "dbbcache s"; cases "dbbcache s'") (auto simp: hart_kept_def)

text \<open>The single steps of trap entry and what they keep.\<close>

lemma csr_steps_kept:
  "hart_kept s (csr_upd c v s') \<longleftrightarrow> hart_kept s s'" "hart_kept s (csr_fset c f v s') \<longleftrightarrow> hart_kept s s'"
  "hart_kept s (s'\<lparr>pc := p\<rparr>) \<longleftrightarrow> hart_kept s s'" "hart_kept s (enter_trap p s') \<longleftrightarrow> hart_kept s s'"
  "hart_kept s (set_cause c code irq s') \<longleftrightarrow> hart_kept s s'" "hart_kept (s\<lparr>prv := q\<rparr>) s' \<longleftrightarrow> hart_kept s s'"
  "hart_kept (s\<lparr>lr_sc_counter := k\<rparr>) s' \<longleftrightarrow> hart_kept s s'" "hart_kept (s\<lparr>mem_st := d\<rparr>) s' \<longleftrightarrow> hart_kept s s'"
  "hart_kept (csr_upd c v s) s' \<longleftrightarrow> hart_kept s s'" "hart_kept (set_cause c code irq s) s' \<longleftrightarrow> hart_kept s s'"
  "hart_kept (s\<lparr>pc := p\<rparr>) s' \<longleftrightarrow> hart_kept s s'" "hart_kept s s"
  "hart_kept s s' \<Longrightarrow> hart_kept s (s'\<lparr>dbbcache := (dbbcache s)\<lparr>dbb_pc := p\<rparr>\<rparr>)"
  by (simp_all add: hart_kept_members csr_upd_def csr_fset_def enter_trap_def set_cause_def)

lemma csrs_csr_fset: "csrs (csr_fset c f v s) = (csrs s)(c := fset f v (csrs s c))"
  by (simp add: csr_fset_def)

lemma status_kept_fields:
  "status_kept m w w" "f \<in> set (entry_fields m) \<Longrightarrow> status_kept m w w' \<Longrightarrow> status_kept m w (fset f v w')"
  by (auto simp: status_kept_def bit_fset list_all_iff dest: bit_imp_le_length)

lemma enter_mode_status:
  "status_kept MachineMode w (fset mstatus_mpp x (fset mstatus_mie y (fset mstatus_mpie z w)))"
  "status_kept SupervisorMode w (fset mstatus_spp x (fset mstatus_sie y (fset mstatus_spie z w)))"
  "status_kept UserMode w (fset mstatus_uie y (fset mstatus_upie z w))"
  by (intro status_kept_fields; simp add: entry_fields_def ie_field_def pie_field_def)+

lemmas enter_mode_status_simps = enter_mode_status [simplified]

lemma enter_machine_entered:
  assumes "is_valid_privilege_level pp" "prv s = MachineMode" "lr_sc_counter s = 0"
    "get_base_address (csrs s csr_mtvec) \<noteq> 0 \<or> \<not> error_on_zero_traphandler s"
  shows "\<exists>s1. enter_machine pp s = (Inr (), s1) \<and> trap_entered MachineMode (s\<lparr>prv := pp\<rparr>) (enter_trap (pc s1) s1) \<and> mem_st s1 = mem_st s"
  using assms
  by (auto simp: enter_machine_def monad_simps csr_field_simps trap_entered_def trap_mode_defs enter_trap_def
      vectored_pc_def is_valid_privilege_level_def csr_steps_kept csrs_csr_fset enter_mode_status_simps)

lemma enter_supervisor_entered:
  assumes "pp = SupervisorMode \<or> pp = UserMode" "prv s = SupervisorMode" "lr_sc_counter s = 0"
  shows "\<exists>s1. enter_supervisor pp s = (Inr (), s1) \<and> trap_entered SupervisorMode (s\<lparr>prv := pp\<rparr>) (enter_trap (pc s1) s1) \<and> mem_st s1 = mem_st s"
  using assms
  by (auto simp: enter_supervisor_def monad_simps csr_field_simps trap_entered_def trap_mode_defs enter_trap_def
      vectored_pc_def is_valid_privilege_level_def csr_steps_kept csrs_csr_fset enter_mode_status_simps)

lemma enter_user_entered:
  assumes "prv s = UserMode" "lr_sc_counter s = 0"
  shows "\<exists>s1. enter_user s = (Inr (), s1) \<and> trap_entered UserMode s (enter_trap (pc s1) s1) \<and> mem_st s1 = mem_st s"
  using assms
  by (auto simp: enter_user_def monad_simps csr_field_simps trap_entered_def trap_mode_defs enter_trap_def
      vectored_pc_def is_valid_privilege_level_def csr_steps_kept csrs_csr_fset enter_mode_status_simps)

lemma return_from_trap_handler_returned:
  assumes "is_valid_privilege_level m"
  shows "\<exists>s'. return_from_trap_handler m s = (Inr (), s') \<and> trap_returned m s s'"
  using assms
  by (rule valid_privilege_cases)
    (auto simp: return_from_trap_handler_def monad_simps csr_field_simps trap_returned_def trap_mode_defs
      return_machine_def return_supervisor_def return_user_def ret_trap_def force_slow_path_def Let_def)

section \<open>Pending interrupts, abstractly\<close>

text \<open>The mode interrupt \<open>k\<close> is for, by the delegation registers.\<close>

definition interrupt_mode :: "nat \<Rightarrow> 'd iss \<Rightarrow> u32" where
  "interrupt_mode k s = (if \<not> bit (csrs s csr_mideleg) k then MachineMode
     else if \<not> bit (csrs s csr_sideleg) k then SupervisorMode else UserMode)"

text \<open>Mode \<open>m\<close> interrupts every lower mode, itself only when its interrupts are enabled.\<close>

definition mode_takes :: "u32 \<Rightarrow> 'd iss \<Rightarrow> bool" where
  "mode_takes m s \<longleftrightarrow> prv s < m \<or> prv s = m \<and> csr_fget csr_mstatus (ie_field m) s \<noteq> 0"

definition deliverable :: "'d iss \<Rightarrow> nat \<Rightarrow> bool" where
  "deliverable s k \<longleftrightarrow> bit (csrs s csr_mie) k \<and> bit (csrs s csr_mip) k \<and> mode_takes (interrupt_mode k s) s"

text \<open>The standard priorities: external, software, timer, and machine before supervisor before user.\<close>

definition interrupt_priority :: "nat list" where
  "interrupt_priority = [11, 3, 7, 9, 1, 5, 8, 0, 4]"

lemma fget_single: "fget (k, Suc 0) w \<noteq> 0 \<longleftrightarrow> bit w k"
  by (simp add: fget_def take_bit_Suc bit_iff_odd_drop_bit mod_2_eq_odd)

lemma interrupt_code_first:
  "interrupt_code x = map_option of_nat (find (bit x) interrupt_priority)"
  by (simp add: interrupt_code_def interrupt_priority_def fget_single)

lemma bit_nonzero: "bit w k \<Longrightarrow> w \<noteq> 0" for w :: "'a::len word"
  by auto

lemma compute_pending_interrupts_mode:
  assumes "compute_pending_interrupts s = (m, p)" "m \<noteq> NoneMode"
  shows "is_valid_privilege_level m \<and> p \<noteq> 0 \<and> prv s \<le> m"
  using assms by (auto simp: compute_pending_interrupts_def Let_def is_valid_privilege_level_def split: if_splits)

lemma compute_pending_interrupts_bits:
  assumes "compute_pending_interrupts s = (m, p)" "m \<noteq> NoneMode"
  shows "bit p k \<longleftrightarrow> deliverable s k \<and> interrupt_mode k s = m"
  using assms bit_imp_le_length [of "csrs s csr_mie" k]
  by (auto simp: compute_pending_interrupts_def Let_def deliverable_def mode_takes_def interrupt_mode_def
      ie_field_def bit_simps split: if_splits)

lemma compute_pending_interrupts_complete:
  assumes "compute_pending_interrupts s = (m, p)" "deliverable s k"
  shows "m \<noteq> NoneMode \<and> interrupt_mode k s \<le> m"
proof -
  let ?pend = "csrs s csr_mie AND csrs s csr_mip"
  have bits: "bit ?pend k" "mode_takes (interrupt_mode k s) s" and k: "k < 32"
    using assms(2) by (auto simp: deliverable_def bit_simps dest: bit_imp_le_length)
  have "?pend \<noteq> 0"
    using bit_nonzero [OF bits(1)] .
  moreover have "?pend AND NOT (csrs s csr_mideleg) \<noteq> 0" if "interrupt_mode k s = MachineMode"
    using that bits k by (intro bit_nonzero [of _ k]) (simp add: bit_simps interrupt_mode_def split: if_splits)
  moreover have "?pend AND csrs s csr_mideleg AND NOT (csrs s csr_sideleg) \<noteq> 0"
    if "interrupt_mode k s = SupervisorMode"
    using that bits k by (intro bit_nonzero [of _ k]) (simp add: bit_simps interrupt_mode_def split: if_splits)
  moreover have "?pend AND csrs s csr_mideleg AND csrs s csr_sideleg \<noteq> 0" if "interrupt_mode k s = UserMode"
    using that bits k by (intro bit_nonzero [of _ k]) (simp add: bit_simps interrupt_mode_def split: if_splits)
  moreover have "interrupt_mode k s \<in> {MachineMode, SupervisorMode, UserMode}"
    by (simp add: interrupt_mode_def)
  ultimately show ?thesis
    using assms(1) bits(2)
    by (auto simp: compute_pending_interrupts_def Let_def mode_takes_def ie_field_def and.assoc split: if_splits)
qed

text \<open>\<open>s'\<close> is the state after exception \<open>r\<close> with trap value \<open>v\<close> of the instruction at \<open>lp\<close>.\<close>

definition trap_taken :: "u32 \<Rightarrow> u64 \<Rightarrow> u32 \<Rightarrow> 'd iss \<Rightarrow> 'd iss \<Rightarrow> bool" where
  "trap_taken r v lp s s' \<longleftrightarrow>
     (let m = trap_target r s in
      prv s' = m \<and> previous_mode m s' = prv s \<and>
      csr_fget csr_mstatus (ie_field m) s' = 0 \<and>
      csr_fget csr_mstatus (pie_field m) s' = csr_fget csr_mstatus (ie_field m) s \<and>
      csrs s' (epc_csr m) = lp \<and> csrs s' (tval_csr m) = ucast v \<and>
      csr_fget (cause_csr m) mcause_interrupt s' = 0 \<and>
      csr_fget (cause_csr m) mcause_exception_code s' = take_bit 31 r \<and>
      (\<forall>c. c \<notin> {epc_csr m, tval_csr m, cause_csr m, csr_mstatus} \<longrightarrow> csrs s' c = csrs s c) \<and>
      pc s' = get_base_address (csrs s (tvec_csr m)) \<and> dbb_pc (dbbcache s') = pc s' \<and>
      lr_sc_counter s' = 0 \<and> regs s' = regs s \<and>
      status_kept m (csrs s csr_mstatus) (csrs s' csr_mstatus) \<and> hart_kept s s')"

text \<open>The interrupt that is taken among those deliverable to mode \<open>m\<close>.\<close>

definition chosen_interrupt :: "u32 \<Rightarrow> 'd iss \<Rightarrow> nat option" where
  "chosen_interrupt m s = find (\<lambda>k. deliverable s k \<and> interrupt_mode k s = m) interrupt_priority"

definition interrupt_taken :: "u32 \<Rightarrow> nat \<Rightarrow> 'd iss \<Rightarrow> 'd iss \<Rightarrow> bool" where
  "interrupt_taken m k s s' \<longleftrightarrow>
     prv s' = m \<and> previous_mode m s' = prv s \<and>
     csr_fget csr_mstatus (ie_field m) s' = 0 \<and>
     csr_fget csr_mstatus (pie_field m) s' = csr_fget csr_mstatus (ie_field m) s \<and>
     csrs s' (epc_csr m) = pc s \<and>
     csr_fget (cause_csr m) mcause_interrupt s' = 1 \<and>
     csr_fget (cause_csr m) mcause_exception_code s' = of_nat k \<and>
     pc s' = get_base_address (csrs s (tvec_csr m)) +
               (if csr_fget (tvec_csr m) mtvec_mode s = 1 then 4 * of_nat k else 0) \<and>
     (\<forall>c. c \<notin> {epc_csr m, cause_csr m, csr_mstatus} \<longrightarrow> csrs s' c = csrs s c) \<and>
     dbb_pc (dbbcache s') = pc s' \<and> lr_sc_counter s' = 0 \<and> regs s' = regs s \<and>
     status_kept m (csrs s csr_mstatus) (csrs s' csr_mstatus) \<and> hart_kept s s'"

lemma trap_cells_distinct:
  assumes "is_valid_privilege_level m"
  shows "cause_csr m \<noteq> csr_mstatus" "tval_csr m \<noteq> csr_mstatus" "cause_csr m \<noteq> epc_csr m"
    "tval_csr m \<noteq> epc_csr m" "tval_csr m \<noteq> cause_csr m" "cause_csr m \<noteq> tvec_csr m" "tval_csr m \<noteq> tvec_csr m"
    "tvec_csr m \<noteq> csr_mstatus" "tvec_csr m \<noteq> epc_csr m" "cause_csr m \<noteq> csr_mtvec" "tval_csr m \<noteq> csr_mtvec"
  using assms by (auto simp: is_valid_privilege_level_def trap_mode_defs)

lemma trap_cells_no_id: "cause_csr m \<noteq> csr_mhartid" "tval_csr m \<noteq> csr_mhartid"
  by (simp_all add: trap_mode_defs)

lemma trap_target_valid: "is_valid_privilege_level (trap_target r s)"
  by (simp add: trap_target_def is_valid_privilege_level_def)

lemma trap_entered_taken:
  fixes s :: "'d iss"
  assumes "trap_target r s = m"
    "trap_entered m (csr_upd (tval_csr m) (ucast v) (set_cause (cause_csr m) r 0 (s\<lparr>pc := lp\<rparr>))) s'"
  shows "trap_taken r v lp s s'"
proof -
  have m: "is_valid_privilege_level m"
    using assms(1) trap_target_valid by metis
  note cells = trap_cells_distinct [OF m] trap_cells_distinct [OF m, symmetric]
  let ?t = "csr_upd (tval_csr m) (ucast v) (set_cause (cause_csr m) r 0 (s\<lparr>pc := lp\<rparr>))"
  note e = assms(2) [unfolded trap_entered_def]
  have cause: "csr_fget (cause_csr m) f s' = csr_fget (cause_csr m) f ?t" for f
    using e cells by (intro csr_fget_other_cell) simp
  have other: "csrs s' c = csrs s c" if "c \<notin> {epc_csr m, tval_csr m, cause_csr m, csr_mstatus}" for c
    using e that set_cause_frame(6) [of "cause_csr m" c r 0 "s\<lparr>pc := lp\<rparr>"] by auto
  have mst: "csr_fget csr_mstatus f ?t = csr_fget csr_mstatus f s" for f
    using cells by (simp add: csr_fget_upd)
  have tval: "csrs s' (tval_csr m) = ucast v"
    using e cells by simp
  have irq: "csr_fget (cause_csr m) mcause_interrupt ?t = 0"
    "csr_fget (cause_csr m) mcause_exception_code ?t = take_bit 31 r"
    using cells by (simp_all add: csr_fget_upd)
  have vec: "vectored_pc (cause_csr m) (tvec_csr m) b ?t = b" for b
    using irq(1) by (simp add: vectored_pc_def)
  have tvec: "csrs ?t (tvec_csr m) = csrs s (tvec_csr m)"
    using cells by simp
  show ?thesis
    unfolding trap_taken_def assms(1) Let_def cause irq tval
    using e [unfolded vec tvec mst csr_steps_kept] other cells by simp
qed

lemma trap_entered_interrupt:
  fixes s :: "'d iss"
  assumes m: "is_valid_privilege_level m" and k: "k \<in> set interrupt_priority"
    and entered: "trap_entered m (set_cause (cause_csr m) (of_nat k) 1 s) s'"
  shows "interrupt_taken m k s s'"
proof -
  note cells = trap_cells_distinct [OF m] trap_cells_distinct [OF m, symmetric]
  let ?t = "set_cause (cause_csr m) (of_nat k) 1 s"
  note e = entered [unfolded trap_entered_def]
  have cause: "csr_fget (cause_csr m) f s' = csr_fget (cause_csr m) f ?t" for f
    using e cells by (intro csr_fget_other_cell) simp
  have "take_bit 31 (of_nat k) = (of_nat k :: u32)"
    using k by (auto simp: interrupt_priority_def)
  then have irq: "csr_fget (cause_csr m) mcause_interrupt ?t = 1"
    "csr_fget (cause_csr m) mcause_exception_code ?t = of_nat k"
    by simp_all
  have vec: "vectored_pc (cause_csr m) (tvec_csr m) b ?t =
      b + (if csr_fget (tvec_csr m) mtvec_mode s = 1 then 4 * of_nat k else 0)" for b
    using cells irq by (simp add: vectored_pc_def)
  show ?thesis
    unfolding interrupt_taken_def cause irq
    using e [unfolded vec csr_steps_kept] cells by auto
qed

lemma standard_interrupt:
  assumes "csrs s csr_mie AND NOT MIE_MASK = 0" "bit (csrs s csr_mie) k"
  shows "k \<in> set interrupt_priority"
proof -
  have "\<not> bit (csrs s csr_mie AND NOT MIE_MASK) k"
    unfolding assms(1) by simp
  then have "bit (MIE_MASK) k" and "k < 32"
    using assms(2) bit_imp_le_length [OF assms(2)] by (simp_all add: bit_simps)
  then show ?thesis
    by (auto dest!: less_32_cases simp: interrupt_priority_def)
qed

section \<open>The contract of \<open>atomic_unlock\<close>\<close>

text \<open>
  All that trap handling needs of the memory interface: an unlock by hart \<open>h\<close> returns, changes the memory system by
  \<open>unlock_mem h\<close> and nothing of the hart.
\<close>

locale unlocking =
  fixes E :: "'d iss_env" and unlock_mem :: "u64 \<Rightarrow> 'd \<Rightarrow> 'd"
  assumes unlock: "atomic_unlock (mem E) s = (Inr (), s\<lparr>mem_st := unlock_mem (get_hart_id s) (mem_st s)\<rparr>)"
begin

lemma release_result:
  "release_lr_sc_reservation E s = (Inr (), s\<lparr>lr_sc_counter := 0, mem_st := unlock_mem (get_hart_id s) (mem_st s)\<rparr>)"
  by (simp add: release_lr_sc_reservation_def monad_simps unlock get_hart_id_def)

lemma switch_to_trap_handler_entered:
  assumes "is_valid_privilege_level m" "is_valid_privilege_level (prv s)" "prv s \<le> m"
    "m = MachineMode \<Longrightarrow> get_base_address (csrs s csr_mtvec) \<noteq> 0 \<or> \<not> error_on_zero_traphandler s"
  shows "\<exists>s1. switch_to_trap_handler E m s = (Inr (), s1) \<and> trap_entered m s s1 \<and>
    mem_st s1 = unlock_mem (get_hart_id s) (mem_st s)"
proof -
  let ?s = "s\<lparr>lr_sc_counter := 0, mem_st := unlock_mem (get_hart_id s) (mem_st s), prv := m\<rparr>"
  have frame: "trap_entered m (?s\<lparr>prv := prv s\<rparr>) s1 \<longleftrightarrow> trap_entered m s s1" for s1
    by (simp add: trap_entered_def vectored_pc_def csr_steps_kept)
  have mem: "mem_st (enter_trap p s1) = mem_st s1" for p s1
    by (simp add: enter_trap_def)
  from assms(1) show ?thesis
  proof (cases rule: valid_privilege_cases)
    case 1
    then show ?thesis
      using enter_machine_entered [of "prv s" ?s] assms frame
      by (auto simp: switch_to_trap_handler_def monad_simps release_result mem)
  next
    case 2
    then show ?thesis
      using enter_supervisor_entered [of "prv s" ?s] assms frame
      by (auto simp: switch_to_trap_handler_def monad_simps release_result mem is_valid_privilege_level_def)
  next
    case 3
    then show ?thesis
      using enter_user_entered [of ?s] assms frame
      by (auto simp: switch_to_trap_handler_def monad_simps release_result mem is_valid_privilege_level_def)
  qed
qed

lemma handle_trap_taken:
  assumes "is_valid_privilege_level (prv s)" "v \<le> 0xFFFFFFFF"
    "trap_target r s = MachineMode \<Longrightarrow>
       get_base_address (csrs s csr_mtvec) \<noteq> 0 \<or> \<not> error_on_zero_traphandler s"
  shows "\<exists>s'. handle_trap E r v lp s = (Inr (), s') \<and> trap_taken r v lp s s' \<and>
    mem_st s' = unlock_mem (get_hart_id s) (mem_st s)"
proof -
  let ?m = "trap_target r s"
  let ?t = "csr_upd (tval_csr ?m) (ucast v) (set_cause (cause_csr ?m) r 0 (s\<lparr>pc := lp\<rparr>))"
  have "csrs ?t csr_mtvec = csrs s csr_mtvec" "csrs ?t csr_mhartid = csrs s csr_mhartid"
    using trap_cells_distinct [OF trap_target_valid [of r s]] trap_cells_no_id [of ?m] by simp_all
  moreover have "mem_st ?t = mem_st s" by (simp add: set_cause_def)
  ultimately have t: "mem_st ?t = mem_st s" "get_hart_id ?t = get_hart_id s" "trap_target r s = MachineMode \<Longrightarrow>
      get_base_address (csrs ?t csr_mtvec) \<noteq> 0 \<or> \<not> error_on_zero_traphandler ?t"
    using assms(3) by (simp_all add: get_hart_id_def del: csrs_csr_upd)
  then obtain s' where "switch_to_trap_handler E ?m ?t = (Inr (), s')" "trap_entered ?m ?t s'"
      "mem_st s' = unlock_mem (get_hart_id s) (mem_st s)"
    using switch_to_trap_handler_entered [OF trap_target_valid, of ?t r s] assms(1) trap_target_privilege [of s r]
    by (simp del: csrs_csr_upd) blast
  then show ?thesis
    using trap_entered_taken [OF refl] prepare_trap_result [OF assms(1,2)]
    by (auto simp: handle_trap_def monad_simps)
qed

lemma handle_trap_errors:
  assumes "is_valid_privilege_level (prv s)"
  shows "v > 0xFFFFFFFF \<Longrightarrow> fst (handle_trap E r v lp s) = Inl RuntimeError"
    and "v \<le> 0xFFFFFFFF \<Longrightarrow> trap_target r s = MachineMode \<Longrightarrow> get_base_address (csrs s csr_mtvec) = 0 \<Longrightarrow>
         error_on_zero_traphandler s \<Longrightarrow> fst (handle_trap E r v lp s) = Inl RuntimeError"
proof -
  assume "v > 0xFFFFFFFF"
  then show "fst (handle_trap E r v lp s) = Inl RuntimeError"
    using assms by (auto simp: handle_trap_def prepare_trap_def record_trap_def Let_def monad_simps
        lexical_cast_u32_def is_valid_privilege_level_def)
next
  assume "v \<le> 0xFFFFFFFF" "trap_target r s = MachineMode" "get_base_address (csrs s csr_mtvec) = 0"
    "error_on_zero_traphandler s"
  then show "fst (handle_trap E r v lp s) = Inl RuntimeError"
    using prepare_trap_result [OF assms, of v r lp]
    by (simp add: handle_trap_def monad_simps switch_to_trap_handler_def enter_machine_def csr_field_simps
        trap_mode_defs release_result)
qed

lemma handle_interrupt_none:
  assumes "\<And>k. \<not> deliverable s k"
  shows "handle_interrupt E s = (Inr (), s)"
proof -
  obtain m p where c: "compute_pending_interrupts s = (m, p)" by fastforce
  have "m = NoneMode"
  proof (rule ccontr)
    assume m: "m \<noteq> NoneMode"
    then have "p \<noteq> 0" using compute_pending_interrupts_mode [OF c] by simp
    then obtain k where "bit p k" using bit_eq_iff [of p 0] by auto
    then show False using compute_pending_interrupts_bits [OF c m] assms by simp
  qed
  then show ?thesis by (simp add: handle_interrupt_def monad_simps c)
qed

lemma prepare_interrupt_result:
  "interrupt_code p = Some k \<Longrightarrow> is_valid_privilege_level m \<Longrightarrow>
   prepare_interrupt m p s = (Inr (), set_cause (cause_csr m) k 1 s)"
  by (auto simp: prepare_interrupt_def is_valid_privilege_level_def monad_simps trap_mode_defs)

lemma handle_interrupt_taken:
  assumes "is_valid_privilege_level (prv s)" "csrs s csr_mie AND NOT MIE_MASK = 0" "deliverable s j"
    "get_base_address (csrs s csr_mtvec) \<noteq> 0 \<or> \<not> error_on_zero_traphandler s"
  shows "\<exists>m k s'. handle_interrupt E s = (Inr (), s') \<and> chosen_interrupt m s = Some k \<and>
           (\<forall>j. deliverable s j \<longrightarrow> interrupt_mode j s \<le> m) \<and> interrupt_taken m k s s'"
proof -
  obtain m p where c: "compute_pending_interrupts s = (m, p)" by fastforce
  have m: "m \<noteq> NoneMode" "\<And>j. deliverable s j \<Longrightarrow> interrupt_mode j s \<le> m"
    using compute_pending_interrupts_complete [OF c] assms(3) by auto
  note mode = compute_pending_interrupts_mode [OF c m(1)]
  note bits = compute_pending_interrupts_bits [OF c m(1)]
  obtain k0 where k0: "bit p k0" using mode bit_eq_iff [of p 0] by auto
  have "k0 \<in> set interrupt_priority"
    using standard_interrupt [OF assms(2)] k0 bits by (simp add: deliverable_def)
  then obtain k where find: "chosen_interrupt m s = Some k"
    using k0 bits by (cases "chosen_interrupt m s") (auto simp: chosen_interrupt_def find_None_iff)
  then have small: "k \<in> set interrupt_priority"
    by (auto simp: chosen_interrupt_def find_Some_iff)
  have "bit p = (\<lambda>k. deliverable s k \<and> interrupt_mode k s = m)"
    using bits by blast
  then have "interrupt_code p = Some (of_nat k)"
    using find by (simp add: interrupt_code_first chosen_interrupt_def)
  then have prep: "prepare_interrupt m p s = (Inr (), set_cause (cause_csr m) (of_nat k) 1 s)"
    using prepare_interrupt_result mode by blast
  let ?t = "set_cause (cause_csr m) (of_nat k) 1 s"
  have ok: "get_base_address (csrs ?t csr_mtvec) \<noteq> 0 \<or> \<not> error_on_zero_traphandler ?t"
    using trap_cells_distinct [of m] mode assms(4) by simp
  obtain s' where "switch_to_trap_handler E m ?t = (Inr (), s')" "trap_entered m ?t s'"
    using switch_to_trap_handler_entered [of m ?t, OF _ _ _ ok] mode assms(1) by auto
  then show ?thesis
    using trap_entered_interrupt [of m k s s'] find mode m c prep small
    by (auto simp: handle_interrupt_def monad_simps)
qed

lemma trap_roundtrip:
  assumes "is_valid_privilege_level (prv s)" "handle_trap E r v lp s = (Inr (), s1)" "trap_taken r v lp s s1"
  shows "\<exists>s2. return_from_trap_handler (trap_target r s) s1 = (Inr (), s2) \<and>
     prv s2 = prv s \<and> pc s2 = lp \<and> dbb_pc (dbbcache s2) = lp \<and> regs s2 = regs s \<and>
     csr_fget csr_mstatus (ie_field (trap_target r s)) s2 = csr_fget csr_mstatus (ie_field (trap_target r s)) s"
  using return_from_trap_handler_returned [OF trap_target_valid, of r s s1] assms
  by (auto simp: trap_taken_def trap_returned_def Let_def)

end

text \<open>The memory interface of the program keeps the contract, whatever is connected to it.\<close>

interpretation cmi: unlocking "cmi_env C cached E" "\<lambda>h m. m\<lparr>bus_lock := lock_unlock (ucast h) (bus_lock m)\<rparr>"
  for C cached E
  by unfold_locales (simp add: cmi_env_def cmi_if_def cmi_atomic_unlock_def monad_simps hart_def)

section \<open>Traps, interrupts and returns of the program\<close>

text \<open>
  C4. A synchronous exception, in every mode: control passes to the handler of the mode the delegation
  registers select, with the cause, the trap value, the return address, the previous mode and the
  interrupt-enable bit saved, interrupts of that mode disabled, the LR/SC reservation and the bus lock of the hart released;
  the mode is never lowered. Everything else is as before: the other CSRs, all bits of \<^verbatim>\<open>mstatus\<close> outside the three
  fields written, the integer, floating-point and vector registers, memory, and all other members of the hart.
\<close>

theorem handle_trap_refines:
  assumes "is_valid_privilege_level (prv s)" "v \<le> 0xFFFFFFFF"
    "get_base_address (csrs s csr_mtvec) \<noteq> 0 \<or> \<not> error_on_zero_traphandler s"
  shows "\<exists>s'. handle_trap (cmi_env C cached E) r v lp s = (Inr (), s') \<and> trap_taken r v lp s s' \<and>
           prv s \<le> prv s' \<and> mem_st s' = (mem_st s)\<lparr>bus_lock := lock_unlock (hart s) (bus_lock (mem_st s))\<rparr>"
proof -
  obtain s' where "handle_trap (cmi_env C cached E) r v lp s = (Inr (), s')" "trap_taken r v lp s s'"
      "mem_st s' = (mem_st s)\<lparr>bus_lock := lock_unlock (hart s) (bus_lock (mem_st s))\<rparr>"
    using cmi.handle_trap_taken [OF assms(1,2) assms(3)] unfolding hart_def by blast
  then show ?thesis
    using trap_target_privilege [OF assms(1), of r] by (auto simp: trap_taken_def Let_def)
qed

text \<open>A hart of the platform in user mode that delegated breakpoints to supervisor mode.\<close>

definition user_hart :: hart_soc where
  "user_hart = csr_upd csr_mtvec 0x100 (csr_upd csr_stvec 0x201 (csr_upd csr_medeleg 0x8
     ((tiny_init True True (\<lambda>_. 10000) 0x1000)\<lparr>prv := UserMode\<rparr>)))"

lemma user_hart_simps [simp]:
  "prv user_hart = UserMode" "csrs user_hart csr_mtvec = 0x100" "csrs user_hart csr_stvec = 0x201"
  "csrs user_hart csr_medeleg = 0x8" "error_on_zero_traphandler user_hart = False"
  "csrs user_hart csr_mie = 0" "csrs user_hart csr_mideleg = 0"
  by (simp_all add: user_hart_def tiny_init_def iss_init_def ISS_CT_def csr_table_init_def)

text \<open>The environment of the platform with an idle quantum keeper and host calls that return zero.\<close>

abbreviation tiny_idle :: "soc cmi iss_env" where
  "tiny_idle \<equiv> tiny_env (\<lambda>_ _ _ _ _. ret 0) False True (\<lambda>_. False) (ret ()) 0"

theorem handle_trap_refines_witness:
  "\<exists>s'. handle_trap tiny_idle EXC_BREAKPOINT 0x1234 0x1234 user_hart = (Inr (), s') \<and>
        trap_taken EXC_BREAKPOINT 0x1234 0x1234 user_hart s' \<and> UserMode \<le> prv s' \<and>
        mem_st s' = (mem_st user_hart)\<lparr>bus_lock := lock_unlock (hart user_hart) (bus_lock (mem_st user_hart))\<rparr>"
  unfolding tiny_env_def
  using handle_trap_refines [of user_hart "0x1234"]
  by (simp add: is_valid_privilege_level_def)

text \<open>
  C5. Trap entry followed by trap return: returning from the handler (\<^verbatim>\<open>MRET\<close>, \<^verbatim>\<open>SRET\<close> and \<^verbatim>\<open>URET\<close> call it) resumes
  the trapped program in its mode, at its program counter, with its interrupt-enable bit and registers.\<close>

theorem trap_return_roundtrip:
  assumes "is_valid_privilege_level (prv s)" "v \<le> 0xFFFFFFFF"
    "get_base_address (csrs s csr_mtvec) \<noteq> 0 \<or> \<not> error_on_zero_traphandler s"
  shows "\<exists>s1 s2. handle_trap (cmi_env C cached E) r v lp s = (Inr (), s1) \<and>
     return_from_trap_handler (trap_target r s) s1 = (Inr (), s2) \<and>
     prv s2 = prv s \<and> pc s2 = lp \<and> dbb_pc (dbbcache s2) = lp \<and> regs s2 = regs s \<and>
     csr_fget csr_mstatus (ie_field (trap_target r s)) s2 = csr_fget csr_mstatus (ie_field (trap_target r s)) s"
  using cmi.handle_trap_taken [OF assms(1,2) assms(3)] cmi.trap_roundtrip [OF assms(1)] by blast

theorem trap_return_roundtrip_witness:
  "\<exists>s1 s2. handle_trap tiny_idle EXC_BREAKPOINT 0x1234 0x1234 user_hart = (Inr (), s1) \<and>
     return_from_trap_handler SupervisorMode s1 = (Inr (), s2) \<and> prv s2 = UserMode \<and> pc s2 = 0x1234"
proof -
  have "trap_target EXC_BREAKPOINT user_hart = SupervisorMode"
    by (simp add: trap_target_def delegated_def user_hart_def tiny_init_def iss_init_def ISS_CT_def csr_table_init_def)
  then show ?thesis
    unfolding tiny_env_def
    using trap_return_roundtrip [of user_hart "0x1234" _ _ _ EXC_BREAKPOINT]
    by (fastforce simp: is_valid_privilege_level_def)
qed

text \<open>
  The two ways a trap can end the simulation instead of reaching a handler: a trap value that does
  not fit 32 bits makes \<^verbatim>\<open>boost::lexical_cast\<close> throw, and a machine-mode handler at address zero is
  an error when the user asked for it.\<close>

theorem handle_trap_fatal:
  assumes "is_valid_privilege_level (prv s)"
    and "v > 0xFFFFFFFF \<or> trap_target r s = MachineMode \<and> get_base_address (csrs s csr_mtvec) = 0 \<and>
         error_on_zero_traphandler s"
  shows "fst (handle_trap (cmi_env C cached E) r v lp s) = Inl RuntimeError"
  using cmi.handle_trap_errors [OF assms(1)] assms(2) by (cases "v > 0xFFFFFFFF") (auto simp: not_less)

theorem handle_trap_fatal_witness:
  "fst (handle_trap tiny_idle EXC_INSTR_PAGE_FAULT 0x100000000 0xFFFFFFFE user_hart) = Inl RuntimeError"
  unfolding tiny_env_def
  using handle_trap_fatal [of user_hart "0x100000000"] by (simp add: is_valid_privilege_level_def)

text \<open>
  C6. Interrupts: when an enabled pending interrupt may interrupt the current mode, the hart enters the
  most privileged mode that has one, with the interrupt of highest standard priority among those of
  that mode as its cause, at the (vectored) handler address; otherwise nothing changes.\<close>

theorem handle_interrupt_refines:
  assumes "is_valid_privilege_level (prv s)" "csrs s csr_mie AND NOT MIE_MASK = 0"
    "get_base_address (csrs s csr_mtvec) \<noteq> 0 \<or> \<not> error_on_zero_traphandler s"
  shows "if \<exists>j. deliverable s j
    then \<exists>m k s'. handle_interrupt (cmi_env C cached E) s = (Inr (), s') \<and> chosen_interrupt m s = Some k \<and>
           (\<forall>j. deliverable s j \<longrightarrow> interrupt_mode j s \<le> m) \<and> interrupt_taken m k s s'
    else handle_interrupt (cmi_env C cached E) s = (Inr (), s)"
  using cmi.handle_interrupt_taken [OF assms(1,2) _ assms(3)] cmi.handle_interrupt_none [of s] by auto

text \<open>The same hart with the machine timer and the machine software interrupt pending and enabled.\<close>

definition interrupted_hart :: hart_soc where
  "interrupted_hart = csr_upd csr_mie 0x88 (csr_upd csr_mip 0x88 user_hart)"

theorem handle_interrupt_refines_witness:
  "\<exists>s'. handle_interrupt tiny_idle interrupted_hart = (Inr (), s') \<and>
        interrupt_taken MachineMode 3 interrupted_hart s'"
proof -
  have cells: "prv interrupted_hart = UserMode" "csrs interrupted_hart csr_mie = 0x88"
    "csrs interrupted_hart csr_mip = 0x88" "csrs interrupted_hart csr_mideleg = 0"
    "error_on_zero_traphandler interrupted_hart = False"
    by (simp_all add: interrupted_hart_def)
  have mode: "interrupt_mode j interrupted_hart = MachineMode" for j
    by (simp add: interrupt_mode_def cells)
  have takes: "mode_takes MachineMode interrupted_hart"
    by (simp add: mode_takes_def cells)
  have deliver: "deliverable interrupted_hart 3" "\<not> deliverable interrupted_hart 11"
    by (simp_all add: deliverable_def cells mode takes)
  have "chosen_interrupt m interrupted_hart = Some k \<Longrightarrow> m = MachineMode \<and> k = 3" for m k
    using deliver by (auto simp: chosen_interrupt_def interrupt_priority_def mode split: if_splits)
  moreover have "is_valid_privilege_level (prv interrupted_hart)"
    "csrs interrupted_hart csr_mie AND NOT MIE_MASK = 0" "\<exists>j. deliverable interrupted_hart j"
    using deliver by (auto simp: is_valid_privilege_level_def cells)
  ultimately show ?thesis
    unfolding tiny_env_def
    using handle_interrupt_refines [of interrupted_hart] cells(5) by (metis (no_types))
qed

end
