(* ===== verification/VP_RegInv.thy ===== *)
theory VP_RegInv
  imports VP_Expand VP_FP VP_TrapProps
begin

text \<open>
  What every operation of the RV32 ISS keeps of the register file: \<^verbatim>\<open>x0\<close> is zero after each instruction, and
  the exception flags of the floating-point library are clear. The decoder guarantees that an operation that
  writes \<^verbatim>\<open>regs[rd]\<close> without a test is never selected for \<^verbatim>\<open>rd = x0\<close>; the contracts of the bus (\<open>hart_bus\<close>) and
  of the interfaces of the ISS (\<open>hart_env\<close>, \<open>hart_core\<close>) carry the rest.
\<close>

section \<open>What the decoder guarantees of rd\<close>

text \<open>The operations that assign to \<^verbatim>\<open>regs[rd]\<close> without a test: the decoder must never select them for \<^verbatim>\<open>x0\<close>.\<close>

definition writes_rd :: "OpId list" where
  "writes_rd =
    [ADDI, SLTI, SLTIU, XORI, ORI, ANDI, ADD, SUB, SLL, SLT, SLTU, SRL, SRA, XOR_op, OR_op, AND_op,
     SLLI, SRLI, SRAI, LUI, AUIPC, JAL, JALR, MUL, MULH, MULHU, MULHSU, DIV, DIVU, REM, REMU]"

lemma writes_rd_bound: "REMU < op \<Longrightarrow> op \<notin> set writes_rd"
  by (auto simp: writes_rd_def)

fun spares_x0 :: "encoding \<Rightarrow> bool" where
  "spares_x0 (op, opz, ext, m, e) \<longleftrightarrow> opz \<notin> set writes_rd"

lemma spares_x0_small:
  "spares_x0 (op, opz, ext, m, e) \<longleftrightarrow> (if REMU < opz then True else opz \<notin> set writes_rd)"
  using writes_rd_bound [of opz] by auto

lemmas rows_defs =
  rows_OP_LUI_def rows_OP_AUIPC_def rows_OP_JAL_def rows_OP_JALR_def rows_OP_BEQ_def rows_OP_LB_def
  rows_OP_SB_def rows_OP_ADDI_common_def rows_OP_ADDI_RV32_def rows_OP_ADDI_RV64_def
  rows_OP_ADDIW_def rows_OP_ADD_def rows_OP_ADDW_def rows_OP_FENCE_def rows_OP_ECALL_def
  rows_OP_AMO_def rows_OP_FMADD_S_def rows_OP_FADD_S_def rows_OP_FLW_funct3_0_mew_0_mop_0_def
  rows_OP_FLW_funct3_0_mew_0_def rows_OP_FLW_funct3_5_mew_0_mop_0_def rows_OP_FLW_funct3_5_mew_0_def
  rows_OP_FLW_funct3_6_mew_0_mop_0_def rows_OP_FLW_funct3_6_mew_0_def
  rows_OP_FLW_funct3_7_mew_0_mop_0_def rows_OP_FLW_funct3_7_mew_0_def rows_OP_FLW_def
  rows_OP_FSW_funct3_0_mew_0_mop_0_def rows_OP_FSW_funct3_0_mew_0_def rows_OP_FSW_funct3_5_mew_0_def
  rows_OP_FSW_funct3_6_mew_0_def rows_OP_FSW_funct3_7_mew_0_def rows_OP_FSW_def rows_OP_FMSUB_S_def
  rows_OP_FNMSUB_S_def rows_OP_FNMADD_S_def rows_OP_87_funct3_0_def rows_OP_87_funct3_3_def
  rows_OP_87_funct3_4_def rows_OP_87_funct3_2_def rows_OP_87_funct3_6_def
  rows_OP_87_funct3_1_funct6_18_def rows_OP_87_funct3_1_def rows_OP_87_funct3_5_def rows_OP_87_def

lemma rows_spare_x0: "list_all spares_x0 (encodings RV32)"
  by (simp add: encodings_def rows_defs spares_x0_small writes_rd_def del: spares_x0.simps)

lemma decode_rd_nonzero:
  assumes "decode_normal RV32 cfg w \<in> set writes_rd"
  shows "rd w \<noteq> 0"
proof
  assume z: "rd w = 0"
  have "decode_normal RV32 cfg w \<noteq> UNDEF" "decode_normal RV32 cfg w \<noteq> UNSUP"
    using assms by (auto simp: writes_rd_def)
  then obtain row where row: "row \<in> set (encodings RV32)" "decode_normal RV32 cfg w = enc_result cfg w row"
    using sound_decode_normal [of cfg w RV32] by (auto simp: sound_for_def)
  obtain op opz ext m e where r: "row = (op, opz, ext, m, e)" by (cases row) auto
  have "opz \<notin> set writes_rd"
    using rows_spare_x0 row(1) by (auto simp: list_all_iff r)
  then show False
    using assms row(2) z \<open>decode_normal RV32 cfg w \<noteq> UNSUP\<close> by (auto simp: r split: if_splits)
qed

lemma rd_index_nonzero: "rd w \<noteq> 0 \<Longrightarrow> unat (rd w) \<noteq> 0"
  by (simp add: unat_eq_0)

section \<open>The invariant\<close>

text \<open>\<open>hart_inv z fl cfg w\<close>: 32 registers, \<^verbatim>\<open>x0\<close> has the value \<open>z\<close>, the current instruction is \<open>w\<close> and the ISA configuration \<open>cfg\<close>.\<close>

definition hart_inv :: "u32 \<Rightarrow> u8 \<Rightarrow> u64 \<Rightarrow> u32 \<Rightarrow> 'd iss \<Rightarrow> bool" where
  "hart_inv z fl cfg w s \<longleftrightarrow> length (regs s) = 32 \<and> regs s ! 0 = z \<and> softfloat_exceptionFlags s = fl \<and>
     isa_config s = cfg \<and> instr s = w"

named_theorems hart_keeps \<open>operations that keep the register invariant\<close>
named_theorems hart_frame \<open>updates that do not concern the register invariant\<close>

lemma sf_flags_frame [simp]:
  "softfloat_exceptionFlags (csr_upd c v s) = softfloat_exceptionFlags s"
  "softfloat_exceptionFlags (csr_fset c f v s) = softfloat_exceptionFlags s"
  by (simp_all add: csr_fset_def csr_upd_def)

lemma hart_inv_csr_upd [hart_frame]: "hart_inv z fl cfg w (csr_upd c v s) = hart_inv z fl cfg w s"
  by (simp add: hart_inv_def)

lemma hart_inv_csr_fset [hart_frame]: "hart_inv z fl cfg w (csr_fset c f v s) = hart_inv z fl cfg w s"
  by (simp add: hart_inv_def)

lemma hart_inv_set_cause [hart_frame]: "hart_inv z fl cfg w (set_cause c x i s) = hart_inv z fl cfg w s"
  by (simp add: hart_inv_def set_cause_def)

lemma hart_inv_mem_upd [hart_frame]: "hart_inv z fl cfg w (s\<lparr>mem_st := m\<rparr>) = hart_inv z fl cfg w s"
  by (simp add: hart_inv_def)

lemma hart_inv_fields [hart_frame]:
  "hart_inv z fl cfg w (s\<lparr>csrs := t\<rparr>) = hart_inv z fl cfg w s"
  "hart_inv z fl cfg w (s\<lparr>prv := m\<rparr>) = hart_inv z fl cfg w s"
  "hart_inv z fl cfg w (s\<lparr>pc := p\<rparr>) = hart_inv z fl cfg w s"
  "hart_inv z fl cfg w (s\<lparr>dbbcache := b\<rparr>) = hart_inv z fl cfg w s"
  "hart_inv z fl cfg w (s\<lparr>lr_sc_counter := k\<rparr>) = hart_inv z fl cfg w s"
  "hart_inv z fl cfg w (s\<lparr>iss_slow_path := q\<rparr>) = hart_inv z fl cfg w s"
  "hart_inv z fl cfg w (s\<lparr>shall_exit := q\<rparr>) = hart_inv z fl cfg w s"
  "hart_inv z fl cfg w (s\<lparr>status := st\<rparr>) = hart_inv z fl cfg w s"
  "hart_inv z fl cfg w (s\<lparr>cycle_counter := n\<rparr>) = hart_inv z fl cfg w s"
  "hart_inv z fl cfg w (s\<lparr>cycle_counter_raw_last := n\<rparr>) = hart_inv z fl cfg w s"
  "hart_inv z fl cfg w (s\<lparr>ninstr := n\<rparr>) = hart_inv z fl cfg w s"
  "hart_inv z fl cfg w (s\<lparr>ninstr_last := n\<rparr>) = hart_inv z fl cfg w s"
  "hart_inv z fl cfg w (s\<lparr>debug_single_step_done := q\<rparr>) = hart_inv z fl cfg w s"
  by (simp_all add: hart_inv_def)

lemma hart_inv_small_ops [hart_frame]:
  "hart_inv z fl cfg w (force_slow_path s) = hart_inv z fl cfg w s"
  "hart_inv z fl cfg w (maybe_interrupt_pending s) = hart_inv z fl cfg w s"
  "hart_inv z fl cfg w (set_status st s) = hart_inv z fl cfg w s"
  "hart_inv z fl cfg w (sys_exit s) = hart_inv z fl cfg w s"
  "hart_inv z fl cfg w (commit_cycles s) = hart_inv z fl cfg w s"
  "hart_inv z fl cfg w (commit_instructions n s) = hart_inv z fl cfg w s"
  "hart_inv z fl cfg w (commit_all_and_reset_fast_quantum s) = hart_inv z fl cfg w s"
  "hart_inv z fl cfg w (branch_taken d s) = hart_inv z fl cfg w s"
  "hart_inv z fl cfg w (jump_dyn p s) = hart_inv z fl cfg w s"
  "hart_inv z fl cfg w (enter_trap p s) = hart_inv z fl cfg w s"
  "hart_inv z fl cfg w (ret_trap p s) = hart_inv z fl cfg w s"
  "hart_inv z fl cfg w (return_machine s) = hart_inv z fl cfg w s"
  "hart_inv z fl cfg w (return_supervisor s) = hart_inv z fl cfg w s"
  "hart_inv z fl cfg w (return_user s) = hart_inv z fl cfg w s"
  by (simp_all add: hart_inv_def maybe_interrupt_pending_def force_slow_path_def set_status_def
      sys_exit_def commit_cycles_def commit_instructions_def commit_all_and_reset_fast_quantum_def
      branch_taken_def jump_dyn_def enter_trap_def ret_trap_def return_machine_def
      return_supervisor_def return_user_def Let_def)

lemma hart_inv_lines [hart_frame]:
  "hart_inv z fl cfg w (trigger_external_interrupt l s) = hart_inv z fl cfg w s"
  "hart_inv z fl cfg w (clear_external_interrupt l s) = hart_inv z fl cfg w s"
  "hart_inv z fl cfg w (trigger_timer_interrupt s) = hart_inv z fl cfg w s"
  "hart_inv z fl cfg w (clear_timer_interrupt s) = hart_inv z fl cfg w s"
  "hart_inv z fl cfg w (trigger_software_interrupt s) = hart_inv z fl cfg w s"
  "hart_inv z fl cfg w (clear_software_interrupt s) = hart_inv z fl cfg w s"
  by (simp_all add: trigger_external_interrupt_def clear_external_interrupt_def
      trigger_timer_interrupt_def clear_timer_interrupt_def trigger_software_interrupt_def
      clear_software_interrupt_def hart_frame)

lemma hart_inv_instr: "hart_inv z fl cfg w s \<Longrightarrow> instr s = w"
  by (simp add: hart_inv_def)

lemma hart_inv_set_reg: "hart_inv z fl cfg w s \<Longrightarrow> d \<noteq> 0 \<Longrightarrow> hart_inv z fl cfg w (set_reg d v s)"
  by (simp add: hart_inv_def set_reg_def unat_eq_0)

lemma hart_inv_set_rd: "hart_inv z fl cfg w s \<Longrightarrow> rd w \<noteq> 0 \<Longrightarrow> hart_inv z fl cfg w (set_rd v s)"
  by (auto simp: set_rd_def hart_inv_set_reg) (simp add: hart_inv_def set_reg_def unat_eq_0)

lemma hart_inv_set_rd_zero: "hart_inv z fl cfg w s \<Longrightarrow> rd w = 0 \<Longrightarrow> hart_inv v fl cfg w (set_rd v s)"
  by (simp add: hart_inv_def set_rd_def set_reg_def)

lemma hart_inv_reset:
  "hart_inv z fl cfg w s \<Longrightarrow> hart_inv 0 fl cfg w (reset_reg_zero s)"
  by (simp add: hart_inv_def reset_reg_zero_def)

section \<open>The privileged architecture\<close>

lemma keeps_RAISE_ILLEGAL [hart_keeps]: "keeps P RAISE_ILLEGAL_INSTRUCTION"
  by (simp add: RAISE_ILLEGAL_INSTRUCTION_def keeps_intros)

lemma keeps_access_rights [hart_keeps]:
  "keeps P fp_require_not_off" "keeps P requireNotOff" "keeps P (is_invalid_csr_access a b)"
  "keeps P (validate_csr_counter_read_access_rights a)" "keeps P check_tvm" "keeps P (csr_read c m)"
  "keeps P (csr_default_read a)" "keeps P compute_and_get_current_cycles"
  "keeps P (trap_check_addr_alignment n l a')" "keeps P (lexical_cast_u32 v)" "keeps P jump_target"
  by (auto simp: fp_require_not_off_def requireNotOff_def is_invalid_csr_access_def csr_read_def
      validate_csr_counter_read_access_rights_def check_tvm_def csr_default_read_def Let_def
      compute_and_get_current_cycles_def trap_check_addr_alignment_def lexical_cast_u32_def jump_target_def
      intro!: keeps_intros keeps_cases hart_keeps)

lemma keeps_csr_write [hart_keeps]:
  "keeps (hart_inv z fl cfg w) (csr_write c m v)" "keeps (hart_inv z fl cfg w) (csr_default_write a v)"
  "keeps (hart_inv z fl cfg w) (write_epc c v)"
  by (auto simp: csr_write_def csr_default_write_def write_epc_def hart_frame intro!: keeps_intros keeps_cases hart_keeps)

lemma keeps_set_csr_value [hart_keeps]: "keeps (hart_inv z fl cfg w) (set_csr_value a v)"
  unfolding set_csr_value_def
  by (intro keeps_intros keeps_cases hart_keeps; simp add: hart_frame)

lemma keeps_traps [hart_keeps]:
  "keeps (hart_inv z fl cfg w) (record_trap c t r v)" "keeps (hart_inv z fl cfg w) (prepare_trap r v p)"
  "keeps (hart_inv z fl cfg w) (prepare_interrupt m x)" "keeps (hart_inv z fl cfg w) (enter_machine pp)"
  "keeps (hart_inv z fl cfg w) (enter_supervisor pp)" "keeps (hart_inv z fl cfg w) enter_user"
  "keeps (hart_inv z fl cfg w) (return_from_trap_handler m)"
  by (auto simp: record_trap_def prepare_trap_def prepare_interrupt_def enter_machine_def
      enter_supervisor_def enter_user_def return_from_trap_handler_def Let_def hart_frame
      intro!: keeps_intros keeps_cases hart_keeps split: option.splits)

section \<open>The memory system keeps it\<close>

text \<open>The contract of what is bound to the socket of the memory interface: no access touches the register file.\<close>

locale hart_bus =
  fixes C :: "'b cmi_conn"
  assumes transport_keeps: "keeps (hart_inv z fl cfg w) (b_transport C is_write a d)"
begin

lemma lock_keeps [hart_keeps]:
  "keeps P wait_until_unlocked" "keeps P (wait_for_access_rights h)"
  "keeps (hart_inv z fl cfg w) (bus_lock_lock h)" "keeps (hart_inv z fl cfg w) cmi_atomic_unlock"
  by (auto simp: wait_until_unlocked_def wait_for_access_rights_def bus_lock_lock_def
      cmi_atomic_unlock_def hart_frame intro!: keeps_intros keeps_cases hart_keeps)

lemma dmi_keeps [hart_keeps]:
  "keeps P (get_mem_ptr_to_global_addr n e a)" "keeps P (dmi_load n e a)"
  "keeps (hart_inv z fl cfg w) (dmi_store e a bs)" "keeps (hart_inv z fl cfg w) (record_dmi_access n e a)"
  by (auto simp: get_mem_ptr_to_global_addr_def dmi_load_def dmi_store_def record_dmi_access_def
      hart_frame intro!: keeps_intros keeps_cases hart_keeps)

lemma raw_keeps [hart_keeps]:
  "keeps (hart_inv z fl cfg w) (do_transaction C b a d)" "keeps (hart_inv z fl cfg w) (raw_load_data C n a)"
  "keeps (hart_inv z fl cfg w) (raw_store_data C a bs)"
  by (auto simp: do_transaction_def raw_load_data_def raw_store_data_def hart_frame
      intro!: keeps_intros keeps_cases hart_keeps transport_keeps)

lemma walk_level_keeps [hart_keeps]:
  "keeps (hart_inv z fl cfg w) (walk_level C vi va ty sm sumf mxr base i)"
  by (induction i arbitrary: base)
    (auto simp: raise_page_fault_def mmu_load_pte32_def mmu_load_pte64_def mmu_store_pte32_def Let_def
      intro!: keeps_intros keeps_cases hart_keeps split: MemoryAccessType.splits)

lemma decode_vm_info_keeps [hart_keeps]: "keeps P (decode_vm_info m)"
  unfolding decode_vm_info_def Let_def by (intro keeps_intros keeps_cases hart_keeps)

lemma v2p_keeps [hart_keeps]: "keeps (hart_inv z fl cfg w) (v2p C a ty)"
  by (auto simp: v2p_def translate_virtual_to_physical_addr_def walk_def Let_def hart_frame
      intro!: keeps_intros keeps_cases hart_keeps)

lemma data_keeps [hart_keeps]:
  "keeps (hart_inv z fl cfg w) (load_data C n a)" "keeps (hart_inv z fl cfg w) (store_data C a bs)"
  "keeps (hart_inv z fl cfg w) (cmi_flush_tlb C)" "keeps (hart_inv z fl cfg w) (cmi_load_instr C a)"
  "keeps (hart_inv z fl cfg w) (atomic_load_data C n a)" "keeps (hart_inv z fl cfg w) (atomic_store_data C a bs)"
  "keeps (hart_inv z fl cfg w) (atomic_load_reserved_data C n a)"
  "keeps (hart_inv z fl cfg w) (atomic_store_conditional_data C a bs)"
  "keeps P cmi_get_last_dmi_page_host_addr"
  by (auto simp: load_data_def store_data_def cmi_flush_tlb_def cmi_load_instr_def atomic_load_data_def
      atomic_store_data_def atomic_load_reserved_data_def atomic_store_conditional_data_def
      cmi_get_last_dmi_page_host_addr_def hart_frame intro!: keeps_intros keeps_cases hart_keeps)

lemma cmi_if_keeps [hart_keeps]:
  "keeps (hart_inv z fl cfg w) (load_word (cmi_if C) a)"
  "keeps (hart_inv z fl cfg w) (load_half (cmi_if C) a)"
  "keeps (hart_inv z fl cfg w) (load_byte (cmi_if C) a)"
  "keeps (hart_inv z fl cfg w) (load_uhalf (cmi_if C) a)"
  "keeps (hart_inv z fl cfg w) (load_ubyte (cmi_if C) a)"
  "keeps (hart_inv z fl cfg w) (load_uword (cmi_if C) a)"
  "keeps (hart_inv z fl cfg w) (load_double (cmi_if C) a)"
  "keeps (hart_inv z fl cfg w) (store_double (cmi_if C) a v8)"
  "keeps (hart_inv z fl cfg w) (store_word (cmi_if C) a v)"
  "keeps (hart_inv z fl cfg w) (store_half (cmi_if C) a v2)"
  "keeps (hart_inv z fl cfg w) (store_byte (cmi_if C) a v1)"
  "keeps (hart_inv z fl cfg w) (is_bus_locked (cmi_if C))"
  "keeps (hart_inv z fl cfg w) (get_last_dmi_page_host_addr (cmi_if C))"
  "keeps (hart_inv z fl cfg w) (flush_tlb (cmi_if C))"
  "keeps (hart_inv z fl cfg w) (atomic_load_word (cmi_if C) a)"
  "keeps (hart_inv z fl cfg w) (atomic_store_word (cmi_if C) a v)"
  "keeps (hart_inv z fl cfg w) (atomic_load_reserved_word (cmi_if C) a)"
  "keeps (hart_inv z fl cfg w) (atomic_store_conditional_word (cmi_if C) a v)"
  "keeps (hart_inv z fl cfg w) (atomic_unlock (cmi_if C))"
  by (auto simp: cmi_if_def intro!: keeps_intros keeps_cases hart_keeps)

lemma lsc_keeps [hart_keeps]:
  "(\<And>a. keeps (hart_inv z fl cfg w) (f a)) \<Longrightarrow> keeps (hart_inv z fl cfg w) (lsc_load (cmi_if C) n conv f a)"
  "(\<And>a. keeps (hart_inv z fl cfg w) (g a v)) \<Longrightarrow> keeps (hart_inv z fl cfg w) (lsc_store (cmi_if C) bytes g a v)"
  by (auto simp: lsc_load_def lsc_store_def try_add_to_cache_def hart_frame intro!: keeps_intros keeps_cases hart_keeps)

end

text \<open>
  The contract of the interfaces of an ISS with respect to its register file. Only the system call handler
  may write registers, and not \<^verbatim>\<open>x0\<close>.
\<close>

locale hart_env =
  fixes E :: "'d iss_env"
  assumes mem_keeps:
      "keeps (hart_inv z fl cfg w) (atomic_load_word (mem E) a)"
      "keeps (hart_inv z fl cfg w) (atomic_store_word (mem E) a v)"
      "keeps (hart_inv z fl cfg w) (atomic_load_reserved_word (mem E) a)"
      "keeps (hart_inv z fl cfg w) (atomic_store_conditional_word (mem E) a v)"
      "keeps (hart_inv z fl cfg w) (atomic_unlock (mem E))"
    and plain_keeps:
      "keeps (hart_inv z fl cfg w) (load_word (mem E) a)"
      "keeps (hart_inv z fl cfg w) (load_half (mem E) a)"
      "keeps (hart_inv z fl cfg w) (load_byte (mem E) a)"
      "keeps (hart_inv z fl cfg w) (load_double (mem E) a)"
      "keeps (hart_inv z fl cfg w) (store_word (mem E) a v)"
      "keeps (hart_inv z fl cfg w) (store_half (mem E) a v2)"
      "keeps (hart_inv z fl cfg w) (store_byte (mem E) a v1)"
      "keeps (hart_inv z fl cfg w) (store_double (mem E) a v8)"
    and ls_load_keeps:
      "keeps (hart_inv z fl cfg w) (ls_load_word (lscache E) a)"
      "keeps (hart_inv z fl cfg w) (ls_load_half (lscache E) a)"
      "keeps (hart_inv z fl cfg w) (ls_load_byte (lscache E) a)"
      "keeps (hart_inv z fl cfg w) (ls_load_uhalf (lscache E) a)"
      "keeps (hart_inv z fl cfg w) (ls_load_ubyte (lscache E) a)"
      "keeps (hart_inv z fl cfg w) (ls_load_uword (lscache E) a)"
      "keeps (hart_inv z fl cfg w) (ls_load_double (lscache E) a)"
    and ls_store_keeps:
      "keeps (hart_inv z fl cfg w) (ls_store_word (lscache E) a v)"
      "keeps (hart_inv z fl cfg w) (ls_store_half (lscache E) a v2)"
      "keeps (hart_inv z fl cfg w) (ls_store_byte (lscache E) a v1)"
      "keeps (hart_inv z fl cfg w) (ls_store_double (lscache E) a v8)"
      "keeps (hart_inv z fl cfg w) (ls_fence (lscache E))"
      "keeps (hart_inv z fl cfg w) (ls_fence_vma (lscache E))"
    and load_instr_keeps: "keeps (hart_inv z fl cfg w) (load_instr E a)"
    and mtime_keeps: "keeps (hart_inv z fl cfg w) (update_and_get_mtime E)"
    and sys_keeps: "sys E = Some m \<Longrightarrow> keeps (hart_inv z fl cfg w) m"
    and sync_keeps: "keeps (hart_inv z fl cfg w) (sync E)"
begin

lemmas env_keeps = mem_keeps plain_keeps ls_load_keeps ls_store_keeps load_instr_keeps mtime_keeps sync_keeps

lemma release_keeps: "keeps (hart_inv z fl cfg w) (release_lr_sc_reservation E)"
  by (auto simp: release_lr_sc_reservation_def hart_frame intro!: keeps_intros keeps_cases hart_keeps env_keeps)

lemma switch_to_trap_handler_keeps: "keeps (hart_inv z fl cfg w) (switch_to_trap_handler E m)"
  unfolding switch_to_trap_handler_def
  by (intro keeps_intros keeps_cases hart_keeps release_keeps; simp add: hart_frame)

lemma handle_keeps:
  "keeps (hart_inv z fl cfg w) (handle_trap E r v p)" "keeps (hart_inv z fl cfg w) (handle_interrupt E)"
  by (auto simp: handle_trap_def handle_interrupt_def intro!: keeps_intros keeps_cases hart_keeps switch_to_trap_handler_keeps)

lemma get_csr_value_keeps: "keeps (hart_inv z fl cfg w) (get_csr_value E a)"
  unfolding get_csr_value_def read_mtime_def read_cycles_def read_vcsr_def
  by (intro keeps_intros keeps_cases hart_keeps env_keeps; simp add: hart_frame)

lemma slow_path_keeps: "keeps (hart_inv z fl cfg w) (slow_path E dss)"
  by (auto simp: slow_path_def lr_sc_tick_def debug_check_def hart_frame
      intro!: keeps_intros keeps_cases hart_keeps handle_keeps release_keeps env_keeps)

end

text \<open>A hart whose memory is a \<^verbatim>\<open>CombinedMemoryInterface\<close> satisfies the contract when its bus and its other connections do.\<close>

locale hart_cmi = hart_bus C for C :: "'b cmi_conn" +
  fixes E :: "'b cmi iss_env"
  assumes timer_keeps: "keeps (hart_inv z fl cfg w) (update_and_get_mtime E)"
    and syscall_keeps: "sys E = Some m \<Longrightarrow> keeps (hart_inv z fl cfg w) m"
    and quantum_keeps: "keeps (hart_inv z fl cfg w) (sync E)"

sublocale hart_cmi \<subseteq> hart_env "cmi_env C cached E"
  by unfold_locales
    (auto simp: cmi_env_def lscache_full_def lscache_dummy_def hart_frame timer_keeps quantum_keeps
      intro!: keeps_intros keeps_cases hart_keeps intro: syscall_keeps)

section \<open>The operations keep it\<close>

lemma keeps_assign_rd: "rd w \<noteq> 0 \<Longrightarrow> keeps (hart_inv z fl cfg w) (assign_rd e)"
  by (auto simp: assign_rd_def intro!: keeps_modifyM hart_inv_set_rd)

lemma keeps_link:
  "rd w \<noteq> 0 \<Longrightarrow> keeps (hart_inv z fl cfg w) op_JAL" "rd w \<noteq> 0 \<Longrightarrow> keeps (hart_inv z fl cfg w) op_JALR"
  by (auto simp: op_JAL_def op_JALR_def jump_and_link_def jump_dyn_and_link_def hart_frame
      intro!: keeps_intros keeps_cases hart_keeps hart_inv_set_rd)

lemma keeps_jumps:
  "keeps (hart_inv z fl cfg w) op_J" "keeps (hart_inv z fl cfg w) op_JR" "keeps (hart_inv z fl cfg w) (branch_if b)"
  by (auto simp: op_J_def op_JR_def branch_if_def hart_frame intro!: keeps_intros keeps_cases hart_keeps)

text \<open>A load writes \<^verbatim>\<open>x0\<close> when \<^verbatim>\<open>rd\<close> says so, and resets it.\<close>

lemma any_set_rd: "hart_inv z fl cfg w s \<Longrightarrow> \<exists>z. hart_inv z fl cfg w (set_rd v s)"
  by (cases "rd w = 0") (blast intro: hart_inv_set_rd_zero hart_inv_set_rd)+

lemma set_rd_then_reset: "hart_inv z fl cfg w s \<Longrightarrow> hart_inv 0 fl cfg w (reset_reg_zero (set_rd v s))"
  by (drule any_set_rd [where v = v]) (blast intro: hart_inv_reset)

lemma keeps_load_to_rd: "keeps (hart_inv 0 0 cfg w) m \<Longrightarrow> keeps (hart_inv 0 0 cfg w) (load_to_rd m)"
  unfolding load_to_rd_def
  by (intro keeps_bindM) (auto simp: keeps_def monad_simps dest: set_rd_then_reset)

text \<open>The last steps of an \<^verbatim>\<open>AMO\<close> and of \<^verbatim>\<open>LR.W\<close>.\<close>

lemma keeps_write_back:
  "keeps (hart_inv z fl cfg w) (bindM (getsM (\<lambda>s. rd (instr s) \<noteq> 0)) (\<lambda>b. whenM b (modifyM (set_rd d))))"
  by (rule keeps_gets_bindM) (auto simp: hart_inv_instr intro!: keeps_whenM keeps_modifyM hart_inv_set_rd)

lemma reserve_then_reset:
  "hart_inv z fl cfg w s \<Longrightarrow> hart_inv 0 fl cfg w (reset_reg_zero (force_slow_path (set_rd v s\<lparr>lr_sc_counter := 17\<rparr>)))"
  by (drule any_set_rd [where v = v]) (auto simp: hart_frame intro: hart_inv_reset)

lemma keeps_reserve:
  "keeps (hart_inv 0 0 cfg w) (seqM (modifyM (set_rd v))
     (seqM (modifyM (\<lambda>s. if lr_sc_counter s = 0 then force_slow_path (s\<lparr>lr_sc_counter := 17\<rparr>) else s))
        (modifyM reset_reg_zero)))"
  by (simp add: keeps_def monad_simps set_rd_then_reset reserve_then_reset)

lemma keeps_privileged:
  "keeps (hart_inv z fl cfg w) op_URET" "keeps (hart_inv z fl cfg w) op_SRET" "keeps (hart_inv z fl cfg w) op_MRET"
  "keeps (hart_inv z fl cfg w) op_EBREAK" "keeps (hart_inv z fl cfg w) op_FENCE_I"
  by (auto simp: op_URET_def op_SRET_def op_MRET_def op_EBREAK_def op_FENCE_I_def hart_frame
      intro!: keeps_intros keeps_cases hart_keeps)

section \<open>The floating-point operations keep it\<close>

lemma hart_inv_fp_write [hart_frame]:
  "hart_inv z fl cfg w (fp_write64 i x s) = hart_inv z fl cfg w s"
  "hart_inv z fl cfg w (fp_write32 i x' s) = hart_inv z fl cfg w s"
  "hart_inv z fl cfg w (fp_write16 i x'' s) = hart_inv z fl cfg w s"
  by (simp_all add: fp_write64_def fp_write32_def fp_write16_def hart_inv_def)

lemma hart_inv_fp_set_dirty [hart_frame]: "hart_inv z fl cfg w (fp_set_dirty s) = hart_inv z fl cfg w s"
  by (simp add: fp_set_dirty_def hart_frame)

lemma hart_inv_set_flags: "hart_inv z fl cfg w s \<Longrightarrow> hart_inv z g cfg w (s\<lparr>softfloat_exceptionFlags := g\<rparr>)"
  by (simp add: hart_inv_def)

lemma hart_inv_update_flags: "hart_inv z fl cfg w s \<Longrightarrow> hart_inv z 0 cfg w (fp_update_exception_flags s)"
  by (auto simp: fp_update_exception_flags_def hart_inv_def Let_def fp_set_dirty_def)

lemma hart_inv_finish: "hart_inv z fl cfg w s \<Longrightarrow> hart_inv z 0 cfg w (fp_finish_instr s)"
  by (simp add: fp_finish_instr_def hart_inv_update_flags [of _ fl] hart_frame)

lemma fp_prologue_keeps [hart_keeps]:
  "keeps P fp_prepare_instr" "keeps (hart_inv z fl cfg w) fp_setup_rm"
  by (auto simp: fp_prepare_instr_def fp_setup_rm_def hart_inv_def intro!: keeps_intros keeps_cases hart_keeps)

text \<open>
  After a library call the flags are arbitrary; the epilogue takes them over. A write to an integer register
  leaves \<^verbatim>\<open>x0\<close> arbitrary until \<^verbatim>\<open>reset_reg_zero\<close>.
\<close>

lemma keeps_fp_arith [hart_keeps]:
  assumes "\<And>z fl i x s. hart_inv z fl cfg w (write i x s) = hart_inv z fl cfg w s"
  shows "keeps (hart_inv 0 0 cfg w) (fp_arith write f)"
proof -
  have "keeps (hart_inv 0 0 cfg w)
    (bindM (sf_call f) (\<lambda>r. seqM (modifyM (\<lambda>s. write (rd (instr s)) r s)) (modifyM fp_finish_instr)))"
    by (auto simp: keeps_def sf_call_def monad_simps assms split: prod.splits
        intro!: hart_inv_finish hart_inv_set_flags)
  then show ?thesis
    unfolding fp_arith_def by (blast intro: keeps_seqM hart_keeps)
qed

lemma int_result_keeps:
  assumes "hart_inv 0 fl cfg w s"
  shows "hart_inv 0 0 cfg w (reset_reg_zero (fp_finish_instr (set_rd r s)))"
    "hart_inv 0 0 cfg w (reset_reg_zero (fp_update_exception_flags (set_rd r s)))"
  using any_set_rd [OF assms, of r] by (auto dest: hart_inv_finish hart_inv_update_flags intro: hart_inv_reset)

lemma keeps_fp_to_int [hart_keeps]: "keeps (hart_inv 0 0 cfg w) (fp_to_int f)"
proof -
  have "keeps (hart_inv 0 0 cfg w) (bindM (sf_call f) (\<lambda>r.
     seqM (modifyM (set_rd r)) (seqM (modifyM fp_finish_instr) (modifyM reset_reg_zero))))"
    by (auto simp: keeps_def sf_call_def monad_simps split: prod.splits
        intro!: int_result_keeps hart_inv_set_flags)
  then show ?thesis
    unfolding fp_to_int_def by (blast intro: keeps_seqM hart_keeps)
qed

lemma keeps_fp_compare [hart_keeps]: "keeps (hart_inv 0 0 cfg w) (fp_compare f)"
proof -
  have "keeps (hart_inv 0 0 cfg w) (bindM (sf_call f) (\<lambda>b. seqM (modifyM (set_rd (bool_reg b)))
       (seqM (modifyM fp_update_exception_flags) (modifyM reset_reg_zero))))"
    by (auto simp: keeps_def sf_call_def monad_simps split: prod.splits
        intro!: int_result_keeps hart_inv_set_flags)
  then show ?thesis
    unfolding fp_compare_def by (blast intro: keeps_seqM hart_keeps)
qed

lemma keeps_fp_move_to_int [hart_keeps]: "keeps (hart_inv 0 0 cfg w) (fp_move_to_int f)"
proof -
  have "keeps (hart_inv 0 0 cfg w) (seqM (modifyM (\<lambda>s. set_rd (f s) s)) (modifyM reset_reg_zero))"
    by (auto simp: keeps_def monad_simps dest: set_rd_then_reset)
  then show ?thesis
    unfolding fp_move_to_int_def by (blast intro: keeps_seqM hart_keeps)
qed

lemma keeps_fp_sign [hart_keeps]:
  assumes "\<And>z fl i x s. hart_inv z fl cfg w (write i x s) = hart_inv z fl cfg w s"
  shows "keeps (hart_inv 0 0 cfg w) (fp_sign write f)"
  unfolding fp_sign_def by (intro keeps_intros keeps_cases hart_keeps) (simp_all add: assms hart_frame)

lemma keeps_fp_min_max [hart_keeps]:
  assumes "\<And>z fl i x s. hart_inv z fl cfg w (write i x s) = hart_inv z fl cfg w s"
  shows "keeps (hart_inv 0 0 cfg w) (fp_min_max read write neg nan dn lt eq mx)"
  unfolding fp_min_max_def
  by (intro keeps_seqM hart_keeps, rule keepsI)
    (auto simp: sf_call_def monad_simps assms Let_def split: prod.splits if_splits
      intro!: hart_inv_finish hart_inv_set_flags)

lemmas fp_defs =
  op_FADD_H_def op_FSUB_H_def op_FMUL_H_def op_FDIV_H_def op_FSQRT_H_def op_FMIN_H_def op_FMAX_H_def
  op_FMADD_H_def op_FMSUB_H_def op_FNMADD_H_def op_FNMSUB_H_def op_FSGNJ_H_def op_FSGNJN_H_def op_FSGNJX_H_def
  op_FEQ_H_def op_FLT_H_def op_FLE_H_def op_FCLASS_H_def op_FMV_H_X_def op_FMV_X_H_def op_FCVT_W_H_def
  op_FCVT_WU_H_def op_FCVT_H_W_def op_FCVT_H_WU_def op_FCVT_S_H_def op_FCVT_H_S_def op_FCVT_H_D_def
  op_FCVT_D_H_def op_FADD_S_def op_FSUB_S_def op_FMUL_S_def op_FDIV_S_def op_FSQRT_S_def op_FMIN_S_def
  op_FMAX_S_def op_FMADD_S_def op_FMSUB_S_def op_FNMADD_S_def op_FNMSUB_S_def op_FCVT_W_S_def op_FCVT_WU_S_def
  op_FCVT_S_W_def op_FCVT_S_WU_def op_FSGNJ_S_def op_FSGNJN_S_def op_FSGNJX_S_def op_FMV_W_X_def
  op_FMV_X_W_def op_FEQ_S_def op_FLT_S_def op_FLE_S_def op_FCLASS_S_def op_FADD_D_def op_FSUB_D_def
  op_FMUL_D_def op_FDIV_D_def op_FSQRT_D_def op_FMIN_D_def op_FMAX_D_def op_FMADD_D_def op_FMSUB_D_def
  op_FNMADD_D_def op_FNMSUB_D_def op_FSGNJ_D_def op_FSGNJN_D_def op_FSGNJX_D_def op_FEQ_D_def op_FLT_D_def
  op_FLE_D_def op_FCLASS_D_def op_FCVT_W_D_def op_FCVT_WU_D_def op_FCVT_D_W_def op_FCVT_D_WU_def
  op_FCVT_S_D_def op_FCVT_D_S_def

text \<open>An ISS with the extensions it does not implement itself.\<close>

locale hart_core = hart_env E for E :: "'d iss_env" +
  fixes ext_op :: "OpId \<Rightarrow> ('d iss, unit) M"
  assumes ext_keeps: "keeps (hart_inv 0 0 cfg w) (ext_op op)"
begin

lemma load_store_keeps:
  "keeps (hart_inv 0 0 cfg w) (op_LB E)" "keeps (hart_inv 0 0 cfg w) (op_LH E)" "keeps (hart_inv 0 0 cfg w) (op_LW E)"
  "keeps (hart_inv 0 0 cfg w) (op_LBU E)" "keeps (hart_inv 0 0 cfg w) (op_LHU E)"
  "keeps (hart_inv 0 0 cfg w) (op_SB E)" "keeps (hart_inv 0 0 cfg w) (op_SH E)" "keeps (hart_inv 0 0 cfg w) (op_SW E)"
  by (auto simp: op_LB_def op_LH_def op_LW_def op_LBU_def op_LHU_def op_SB_def op_SH_def op_SW_def
      intro!: keeps_intros keeps_cases hart_keeps keeps_load_to_rd env_keeps)

lemma system_keeps:
  "keeps (hart_inv 0 0 cfg w) (op_FENCE E)" "keeps (hart_inv 0 0 cfg w) (op_WFI E)"
  "keeps (hart_inv 0 0 cfg w) (op_SFENCE_VMA E)"
  by (auto simp: op_FENCE_def op_WFI_def op_SFENCE_VMA_def
      intro!: keeps_intros keeps_cases hart_keeps release_keeps env_keeps)

lemma ecall_keeps: "keeps (hart_inv 0 0 cfg w) (op_ECALL E)"
  unfolding op_ECALL_def
  by (cases "sys E") (auto intro!: keeps_intros keeps_cases hart_keeps intro: sys_keeps)

lemma csr_ops_keep:
  "keeps (hart_inv 0 0 cfg w) (op_CSRRW E)" "keeps (hart_inv 0 0 cfg w) (op_CSRRS E)"
  "keeps (hart_inv 0 0 cfg w) (op_CSRRC E)" "keeps (hart_inv 0 0 cfg w) (op_CSRRWI E)"
  "keeps (hart_inv 0 0 cfg w) (op_CSRRSI E)" "keeps (hart_inv 0 0 cfg w) (op_CSRRCI E)"
  by (auto simp: op_CSRRW_def op_CSRRS_def op_CSRRC_def op_CSRRWI_def op_CSRRSI_def op_CSRRCI_def
      csr_guard_def csr_swap_def csr_modify_def commit_ninstr_def Let_def hart_frame
      intro!: keeps_intros keeps_cases hart_keeps get_csr_value_keeps hart_inv_set_reg)

lemma amo_keeps: "keeps (hart_inv 0 0 cfg w) (execute_amo_w E f)"
  unfolding execute_amo_w_def by (intro keeps_write_back keeps_intros keeps_cases hart_keeps env_keeps)

lemma lr_keeps: "keeps (hart_inv 0 0 cfg w) (op_LR_W E)"
  unfolding op_LR_W_def by (intro keeps_reserve keeps_intros keeps_cases hart_keeps env_keeps)

end

context hart_core
begin

text \<open>
  \<^verbatim>\<open>SC.W\<close> stores 1 into \<^verbatim>\<open>regs[rd]\<close> before the store and corrects it after: when the store traps and \<^verbatim>\<open>rd\<close>
  is \<^verbatim>\<open>x0\<close>, the value 1 stays.
\<close>

lemma sc_keeps: "rd w \<noteq> 0 \<Longrightarrow> keeps (hart_inv 0 0 cfg w) (op_SC_W E)"
  by (auto simp: op_SC_W_def hart_frame intro!: keeps_intros keeps_cases hart_keeps env_keeps
      intro: hart_inv_set_rd hart_inv_reset)

lemma sc_result: "keeps (\<lambda>s. \<exists>z. hart_inv z 0 cfg w s) (op_SC_W E)"
  unfolding op_SC_W_def
  by (intro keeps_intros keeps_cases hart_keeps keeps_ex env_keeps)
    (auto simp: hart_frame intro: any_set_rd hart_inv_reset)

lemmas op_keeps =
  load_store_keeps system_keeps ecall_keeps csr_ops_keep lr_keeps amo_keeps
  keeps_jumps keeps_privileged keeps_cases hart_keeps ext_keeps

lemmas assign_defs =
  op_ADDI_def op_SLTI_def op_SLTIU_def op_XORI_def op_ORI_def op_ANDI_def op_ADD_def op_SUB_def op_SLL_def
  op_SLT_def op_SLTU_def op_SRL_def op_SRA_def op_XOR_def op_OR_def op_AND_def op_SLLI_def op_SRLI_def
  op_SRAI_def op_LUI_def op_AUIPC_def op_MUL_def op_MULH_def op_MULHU_def op_MULHSU_def op_DIV_def
  op_DIVU_def op_REM_def op_REMU_def

lemmas shared_defs =
  op_BEQ_def op_BNE_def op_BLT_def op_BGE_def op_BLTU_def op_BGEU_def
  op_AMOSWAP_W_def op_AMOADD_W_def op_AMOXOR_W_def op_AMOAND_W_def op_AMOOR_W_def op_AMOMIN_W_def
  op_AMOMINU_W_def op_AMOMAX_W_def op_AMOMAXU_W_def

lemma exec_op_keeps:
  assumes "op \<in> set (SC_W # writes_rd) \<Longrightarrow> rd w \<noteq> 0"
  shows "keeps (hart_inv 0 0 cfg w) (exec_op ext_op E op)"
  unfolding exec_op_def shared_defs assign_defs
  by (intro keeps_if keeps_ret op_keeps keeps_assign_rd keeps_link sc_keeps; rule assms; simp add: writes_rd_def)

end

section \<open>The execution loop\<close>

text \<open>The floating-point cases of the dispatch, with the vector cases still open.\<close>

context hart_env
begin

lemma fp_memory_keeps:
  "keeps (hart_inv 0 0 cfg w) (op_FLH E)" "keeps (hart_inv 0 0 cfg w) (op_FSH E)"
  "keeps (hart_inv 0 0 cfg w) (op_FLW E)" "keeps (hart_inv 0 0 cfg w) (op_FSW E)"
  "keeps (hart_inv 0 0 cfg w) (op_FLD E)" "keeps (hart_inv 0 0 cfg w) (op_FSD E)"
  by (auto simp: op_FLH_def op_FSH_def op_FLW_def op_FSW_def op_FLD_def op_FSD_def hart_frame
      intro!: keeps_intros keeps_cases hart_keeps env_keeps)

lemma fp_op_keeps:
  assumes "\<And>op. keeps (hart_inv 0 0 cfg w) (vec_op op)"
  shows "keeps (hart_inv 0 0 cfg w) (fp_op SF vec_op E op)"
  unfolding fp_op_def fp_defs
  by (intro keeps_switch_Cons keeps_switch_Nil fp_memory_keeps hart_keeps assms; simp add: hart_frame)

end

text \<open>
  The register file between instructions, and after one: when \<^verbatim>\<open>x0\<close> is not zero, the instruction was an
  \<^verbatim>\<open>SC.W\<close> with \<^verbatim>\<open>rd = x0\<close>.
\<close>

definition zero_ok :: "'d iss \<Rightarrow> bool" where
  "zero_ok s \<longleftrightarrow> length (regs s) = 32 \<and> regs s ! 0 = 0 \<and> softfloat_exceptionFlags s = 0"

definition is_sc_x0 :: "'d iss \<Rightarrow> bool" where
  "is_sc_x0 s \<longleftrightarrow> decode_normal RV32 (isa_config s) (instr s) = SC_W \<and> rd (instr s) = 0"

definition zero_but_sc :: "'d iss \<Rightarrow> bool" where
  "zero_but_sc s \<longleftrightarrow> length (regs s) = 32 \<and> (regs s ! 0 = 0 \<or> is_sc_x0 s) \<and> softfloat_exceptionFlags s = 0"

text \<open>The operation fits the instruction word.\<close>

definition decoded :: "OpId \<Rightarrow> 'd iss \<Rightarrow> bool" where
  "decoded op s \<longleftrightarrow> op = UNDEF \<or> op = UNSUP \<or> op = decode_normal RV32 (isa_config s) (instr s)"

lemma hart_inv_zero: "hart_inv 0 0 cfg w s \<Longrightarrow> zero_ok s"
  by (simp add: hart_inv_def zero_ok_def)

lemma zero_ok_inv: "zero_ok s \<Longrightarrow> hart_inv 0 0 (isa_config s) (instr s) s"
  by (simp add: hart_inv_def zero_ok_def)

lemma zero_ok_but_sc: "zero_ok s \<Longrightarrow> zero_but_sc s"
  by (simp add: zero_but_sc_def zero_ok_def)

lemma keeps_zero_ok:
  assumes "\<And>cfg w. keeps (hart_inv 0 0 cfg w) m"
  shows "keeps zero_ok m"
  using assms by (blast intro: keepsI hart_inv_zero dest: keepsD zero_ok_inv)

lemma keeps_zero_but_sc:
  assumes "\<And>z cfg w. keeps (hart_inv z 0 cfg w) m"
  shows "keeps zero_but_sc m"
proof (rule keepsI)
  fix s :: "'a iss"
  assume s: "zero_but_sc s"
  then have "hart_inv (regs s ! 0) 0 (isa_config s) (instr s) s"
    by (simp add: hart_inv_def zero_but_sc_def)
  then have "hart_inv (regs s ! 0) 0 (isa_config s) (instr s) (snd (m s))"
    by (rule keepsD [OF assms])
  then show "zero_but_sc (snd (m s))"
    using s by (auto simp: hart_inv_def zero_but_sc_def is_sc_x0_def)
qed

lemma decode_total_result:
  assumes "is_compressed i"
  shows "\<exists>op w. decode_and_expand_compressed RV32 cfg i = Inr (op, w) \<and>
     (op = UNDEF \<or> op = UNSUP \<or> op = decode_normal RV32 cfg w)"
proof -
  obtain c where c: "decode_compressed i RV32 = Inr c" using decode_compressed_total [OF assms] by blast
  obtain op w where "expand_compressed i c RV32 cfg = (op, w)" by fastforce
  then show ?thesis
    using expand_compressed_ok [of RV32 cfg i c]
    by (auto simp: decode_and_expand_compressed_def expansion_ok_def c split: if_splits)
qed

lemma dbb_decode_decoded: "hoare zero_ok dbb_decode (\<lambda>x s. zero_ok s \<and> decoded (fst x) s) zero_but_sc"
  unfolding hoare_def
proof (intro allI impI)
  fix s :: "'a iss"
  assume "zero_ok s"
  then show "case dbb_decode s of (Inl e, s') \<Rightarrow> zero_but_sc s' | (Inr x, s') \<Rightarrow> zero_ok s' \<and> decoded (fst x) s'"
    using decode_total_result [of "instr s" "isa_config s"]
    by (auto simp: dbb_decode_def monad_simps decoded_def zero_ok_def zero_but_sc_def)
qed

lemma zero_ok_frame [hart_frame]:
  "zero_ok (s\<lparr>instr := i\<rparr>) = zero_ok s" "zero_ok (s\<lparr>pc := p\<rparr>) = zero_ok s"
  "zero_ok (s\<lparr>dbbcache := b\<rparr>) = zero_ok s" "zero_ok (s\<lparr>iss_slow_path := q\<rparr>) = zero_ok s"
  "zero_ok (s\<lparr>ninstr := n\<rparr>) = zero_ok s" "zero_ok (force_slow_path s) = zero_ok s"
  "zero_but_sc (s\<lparr>ninstr := n\<rparr>) = zero_but_sc s"
  "decoded op (s\<lparr>pc := p\<rparr>) = decoded op s" "decoded op (s\<lparr>dbbcache := b\<rparr>) = decoded op s"
  "decoded op (force_slow_path s) = decoded op s"
  by (simp_all add: zero_ok_def force_slow_path_def zero_but_sc_def decoded_def is_sc_x0_def)

context hart_core
begin

lemma dbb_fetch_keeps: "keeps zero_ok (dbb_fetch E p)"
  unfolding dbb_fetch_def
  by (intro keeps_intros keeps_cases hart_keeps keeps_zero_ok env_keeps; simp add: hart_frame)

lemma fetch_decode_decoded:
  "hoare zero_ok (fetch_decode E) (\<lambda>op s. zero_ok s \<and> decoded op s) zero_but_sc"
  unfolding fetch_decode_def
  by (intro hoare_bindM [OF dbb_decode_decoded] hoare_seq_keeps hoare_bind_keeps dbb_fetch_keeps
      zero_ok_but_sc keeps_getsM keeps_modifyM)
    (auto simp: hoare_def monad_simps hart_frame split: prod.splits intro: zero_ok_but_sc)

lemma exec_op_zero:
  assumes "zero_ok s" "decoded op s"
  shows "zero_but_sc (snd (exec_op ext_op E op s))"
proof (cases "op = SC_W \<and> rd (instr s) = 0")
  case True
  have "exec_op ext_op E op = op_SC_W E"
    using True by (simp add: exec_op_def nop_ops_def invalid_ops_def)
  moreover obtain z where "hart_inv z 0 (isa_config s) (instr s) (snd (op_SC_W E s))"
    using keepsD [OF sc_result] zero_ok_inv [OF assms(1)] by blast
  ultimately show ?thesis
    using True assms(2) by (auto simp: zero_but_sc_def is_sc_x0_def hart_inv_def decoded_def)
next
  case False
  have "rd (instr s) \<noteq> 0" if "op \<in> set (SC_W # writes_rd)"
    using that False assms(2) decode_rd_nonzero [of "isa_config s" "instr s"]
    by (auto simp: decoded_def writes_rd_def)
  from exec_op_keeps [OF this] show ?thesis
    using zero_ok_inv [OF assms(1)] by (blast intro: zero_ok_but_sc hart_inv_zero dest: keepsD)
qed

lemma exec_and_count_zero:
  "hoare (\<lambda>s. zero_ok s \<and> decoded op s) (exec_and_count ext_op E op) (\<lambda>_. zero_but_sc) zero_but_sc"
  using exec_op_zero by (fastforce simp: exec_and_count_def hoare_def monad_simps hart_frame split: prod.splits sum.splits)

lemma keeps_zero:
  "keeps zero_ok (seqM (modifyM commit_all_and_reset_fast_quantum) (bindM (getsM (need_sync E)) (\<lambda>b. whenM b (sync E))))"
  "keeps zero_ok (slow_path E dss)"
  "keeps zero_ok (modifyM (\<lambda>s. if trace s then force_slow_path s else s))"
  "keeps zero_ok (modifyM (\<lambda>s. s\<lparr>pc := dbb_pc (dbbcache s)\<rparr>))"
  by (auto simp: hart_frame intro!: keeps_zero_ok keeps_intros keeps_cases hart_keeps slow_path_keeps env_keeps)

lemma traced_zero:
  "hoare (\<lambda>s. zero_ok s \<and> decoded op s)
     (seqM (modifyM (\<lambda>s. if trace s then force_slow_path s else s)) (exec_and_count ext_op E op))
     (\<lambda>_. zero_but_sc) zero_but_sc"
  by (rule hoare_seqM [OF _ exec_and_count_zero]) (auto simp: hoare_def monad_simps hart_frame)

lemma slow_fdd_zero: "hoare zero_ok (slow_fdd ext_op E) (\<lambda>_. zero_but_sc) zero_but_sc"
  unfolding slow_fdd_def
  by (intro hoare_bindM [OF fetch_decode_decoded traced_zero] hoare_bind_keeps hoare_seq_keeps
      keeps_getsM keeps_assertM zero_ok_but_sc)

lemma med_fdd_zero: "hoare zero_ok (med_fdd ext_op E) (\<lambda>_. zero_but_sc) zero_but_sc"
  unfolding med_fdd_def
  by (intro hoare_bindM [OF fetch_decode_decoded exec_and_count_zero] hoare_bind_keeps hoare_seq_keeps
      keeps_getsM keeps_whenM keeps_zero zero_ok_but_sc)

lemma iteration_zero: "hoare zero_ok (iteration ext_op E dss) (\<lambda>_. zero_but_sc) zero_but_sc"
  unfolding iteration_def
proof (rule hoare_catch_trap)
  show "hoare zero_ok (seqM (modifyM (\<lambda>s. s\<lparr>pc := dbb_pc (dbbcache s)\<rparr>))
      (bindM (getsM iss_slow_path) (\<lambda>slow.
       if slow then bindM (slow_path E dss) (\<lambda>leave. if leave then ret True else slow_fdd ext_op E)
       else med_fdd ext_op E))) (\<lambda>_. zero_but_sc) zero_but_sc"
    by (intro hoare_bind_keeps hoare_seq_keeps hoare_if hoare_ret slow_fdd_zero med_fdd_zero keeps_getsM
        keeps_zero zero_ok_but_sc)
  show "hoare zero_but_sc (bindM (getsM (\<lambda>s. dbb_last_pc (dbbcache s))) (\<lambda>last_pc.
       seqM (modifyM (\<lambda>s. s\<lparr>ninstr := ninstr s + 1\<rparr>)) (seqM (handle_trap E r v last_pc) (ret False))))
     (\<lambda>_. zero_but_sc) zero_but_sc" for r v
    by (intro hoare_keeps keeps_zero_but_sc keeps_intros keeps_cases hart_keeps handle_keeps; simp add: hart_frame)
qed

end

end
