(* ===== verification/VP_Reach.thy ===== *)
theory VP_Reach
  imports VP_RegInv
begin

text \<open>
  The contracts of \<open>VP_RegInv\<close> discharged for the platform \<^verbatim>\<open>tiny\<close>, the reachable states of its hart and their
  invariant.
\<close>

section \<open>The platform keeps it\<close>

lemma decode_from_bound: "decode_from i ps a = Some j \<Longrightarrow> i \<le> j \<and> j < i + length ps"
  by (induction i ps a rule: decode_from.induct) (auto split: if_splits)

lemma bus_transport_keeps:
  assumes "length isocks = length ports" "keeps P halt" "\<And>t is_write a d. t \<in> set isocks \<Longrightarrow> keeps P (t is_write a d)"
  shows "keeps P (bus_transport ports isocks halt is_write a d)"
proof (cases "bus_decode ports a")
  case None
  then show ?thesis by (simp add: bus_transport_def keeps_ret)
next
  case (Some i)
  then have "isocks ! i \<in> set isocks"
    using decode_from_bound [of 0 ports a i] assms(1) by (simp add: bus_decode_def)
  then show ?thesis
    by (simp add: bus_transport_def Some keeps_seqM assms(2,3))
qed

lemma sm_transport_keeps: "keeps (hart_inv z fl cfg w) (sm_transport m is_write a d)"
  by (auto simp: sm_transport_def sm_write_data_def sm_read_data_def Let_def hart_frame
      intro!: keeps_intros keeps_cases hart_keeps)

text \<open>A device behind register ranges keeps a predicate when its registers and its callbacks do.\<close>

definition range_keeps :: "('s \<Rightarrow> bool) \<Rightarrow> 's mapped_range \<Rightarrow> bool" where
  "range_keeps P R \<longleftrightarrow> (\<forall>f s. P s \<longrightarrow> P (rr_upd R f s)) \<and>
     (\<forall>a n. keeps P (pre_write_callback R a n) \<and> keeps P (post_write_callback R a n) \<and>
            keeps P (pre_read_callback R a n) \<and> keeps P (post_read_callback R a n))"

lemma rr_process_keeps: "range_keeps P R \<Longrightarrow> keeps P (rr_process R is_write a d)"
  by (auto simp: range_keeps_def rr_process_def rr_write_def rr_read_def Let_def
      intro!: keeps_intros keeps_modifyM)

lemma route_keeps: "(\<And>R. R \<in> set Rs \<Longrightarrow> range_keeps P R) \<Longrightarrow> keeps P (route Rs is_write a d)"
  by (induction Rs is_write a d rule: route.induct) (auto intro!: keeps_intros rr_process_keeps)

lemma hart_inv_dev_upd [hart_frame]: "hart_inv z fl cfg w (dev_upd f s) = hart_inv z fl cfg w s"
  by (simp add: dev_upd_def hart_frame)

lemma real_mtime_keeps [hart_keeps]: "keeps (hart_inv z fl cfg w) real_update_and_get_mtime"
  by (auto simp: real_update_and_get_mtime_def real_clint_upd_def hart_frame intro!: keeps_intros keeps_cases hart_keeps)

lemma real_interrupt_keeps [hart_keeps]: "keeps (hart_inv z fl cfg w) real_interrupt"
  by (auto simp: real_interrupt_def hart_frame intro!: keeps_intros keeps_cases hart_keeps)

lemma real_callbacks_keep [hart_keeps]:
  "keeps (hart_inv z fl cfg w) (real_post_write_mtimecmp a n)" "keeps (hart_inv z fl cfg w) (real_post_write_msip a n)"
  "keeps (hart_inv z fl cfg w) (real_pre_read_mtime a n)"
  by (auto simp: real_post_write_mtimecmp_def real_post_write_msip_def real_pre_read_mtime_def
      real_clint_upd_def hart_frame intro!: keeps_intros keeps_cases hart_keeps)

lemma real_clint_transport_keeps: "keeps (hart_inv z fl cfg w) (real_clint_transport is_write a d)"
proof -
  have "range_keeps (hart_inv z fl cfg w) R" if "R \<in> set real_clint_ranges" for R
    using that by (auto simp: real_clint_ranges_def range_keeps_def plain_range_def real_clint_upd_def
        hart_frame intro!: keeps_intros keeps_cases hart_keeps)
  then show ?thesis
    unfolding real_clint_transport_def mm_transport_def by (intro keeps_bindM keeps_ret route_keeps)
qed

lemma execute_syscall_keeps: "keeps (hart_inv z fl cfg w) (execute_syscall hs)"
proof -
  have "keeps (hart_inv z fl cfg w) (lift_host m)" for m :: "((nat \<Rightarrow> u64 \<Rightarrow> u8) \<times> soc, u64) M"
    by (auto simp: keeps_def lift_host_def hart_frame split: prod.splits)
  moreover have "keeps (hart_inv z fl cfg w) (regfile_write 10 v)" for v
    by (auto simp: regfile_write_def hart_inv_def intro!: keeps_intros keeps_cases hart_keeps)
  ultimately show ?thesis
    by (auto simp: execute_syscall_def read_register_def regfile_read_def write_register_def hart_frame
        intro!: keeps_intros keeps_cases hart_keeps)
qed

lemma sys_transport_keeps: "keeps (hart_inv z fl cfg w) (sys_transport hs is_write a d)"
  by (auto simp: sys_transport_def intro!: keeps_intros execute_syscall_keeps)

interpretation tiny_bus: hart_bus "tiny_conn hs"
proof
  fix z fl cfg w is_write a d
  show "keeps (hart_inv z fl cfg w) (b_transport (tiny_conn hs) is_write a d)"
    unfolding tiny_conn_def cmi_conn.simps
    by (rule bus_transport_keeps)
      (auto simp: tiny_isocks_def tiny_ports_def sm_transport_keeps real_clint_transport_keeps
        sys_transport_keeps keeps_ret)
qed

text \<open>
  What the other SystemC processes of the platform do while the hart waits at a synchronisation: host time
  advances and the timer of the \<^verbatim>\<open>RealCLINT\<close> may expire. \<open>adv\<close> chooses the time and whether it does.
\<close>

definition tiny_sync :: "(hart_soc \<Rightarrow> u64 \<times> bool) \<Rightarrow> (hart_soc, unit) M" where
  "tiny_sync adv = bindM (getsM adv) (\<lambda>(usec, expired).
     seqM (modifyM (dev_upd (\<lambda>d. d\<lparr>real_usec := usec\<rparr>))) (whenM expired real_interrupt))"

definition tiny_rest ::
  "host_syscall \<Rightarrow> bool \<Rightarrow> (hart_soc \<Rightarrow> bool) \<Rightarrow> (hart_soc \<Rightarrow> u64 \<times> bool) \<Rightarrow> u64 \<Rightarrow> soc cmi iss_env"
where
  "tiny_rest hs intercept ns adv gran = tiny_env hs intercept False ns (tiny_sync adv) gran"

lemma tiny_env_cmi: "tiny_env hs intercept cached ns (tiny_sync adv) gran = cmi_env (tiny_conn hs) cached (tiny_rest hs intercept ns adv gran)"
  by (simp add: tiny_rest_def tiny_env_def cmi_env_def)

interpretation tiny_hart: hart_cmi "tiny_conn hs" "tiny_rest hs intercept ns adv gran"
  by unfold_locales
    (auto simp: tiny_rest_def tiny_env_def cmi_env_def tiny_sync_def hart_frame execute_syscall_keeps
      intro!: keeps_intros keeps_cases hart_keeps split: if_splits)

lemma tiny_core_vec:
  assumes "\<And>cfg w op. keeps (hart_inv 0 0 cfg w) (vec_op op)"
  shows "hart_core (cmi_env (tiny_conn hs) cached (tiny_rest hs intercept ns adv gran))
    (fp_op SF vec_op (cmi_env (tiny_conn hs) cached (tiny_rest hs intercept ns adv gran)))"
  by unfold_locales (intro tiny_hart.fp_op_keeps assms)

section \<open>Reachable states of the platform\<close>

text \<open>
  The states of a hart of the platform \<^verbatim>\<open>tiny\<close> after any number of passes of the execution loop, with any
  program, any host and any timing; a pass that executes \<^verbatim>\<open>SC.W\<close> with \<^verbatim>\<open>rd = x0\<close> is left out.
\<close>

inductive tiny_reach ::
  "softfloat \<Rightarrow> (OpId \<Rightarrow> (hart_soc, unit) M) \<Rightarrow> soc cmi iss_env \<Rightarrow> hart_soc \<Rightarrow> bool"
  for SF vec_op E
where
  boot: "tiny_reach SF vec_op E (force_slow_path (tiny_init use_dmi use_lscache op_times entry))"
| load: "tiny_reach SF vec_op E s \<Longrightarrow> tiny_reach SF vec_op E (mem_upd (\<lambda>m. m\<lparr>host := h\<rparr>) s)"
| pass: "tiny_reach SF vec_op E s \<Longrightarrow> iteration (fp_op SF vec_op E) E dss s = (r, s') \<Longrightarrow> \<not> is_sc_x0 s' \<Longrightarrow>
         tiny_reach SF vec_op E s'"

lemma zero_ok_boot: "zero_ok (force_slow_path (tiny_init use_dmi use_lscache op_times entry))"
  by (simp add: tiny_init_def iss_init_def ISS_CT_def zero_ok_def force_slow_path_def)

lemma zero_ok_pass:
  assumes "\<And>cfg w op. keeps (hart_inv 0 0 cfg w) (vec_op op)"
    and "zero_ok s" "iteration (fp_op SF vec_op E) E dss s = (r, s')"
    and "E = tiny_env hs intercept cached ns (tiny_sync adv) gran"
  shows "zero_but_sc s'"
proof -
  have "hoare zero_ok (iteration (fp_op SF vec_op E) E dss) (\<lambda>_. zero_but_sc) zero_but_sc"
    unfolding assms(4) tiny_env_cmi by (rule hart_core.iteration_zero [OF tiny_core_vec]) (rule assms(1))
  then show ?thesis
    using assms(2,3) by (fastforce simp: hoare_def split: sum.splits)
qed

lemma reach_zero_ok:
  assumes "\<And>cfg w op. keeps (hart_inv 0 0 cfg w) (vec_op op)"
    and "tiny_reach SF vec_op (tiny_env hs intercept cached ns (tiny_sync adv) gran) s"
  shows "zero_ok s"
  using assms(2)
proof induction
  case (pass s dss r s')
  then have "zero_but_sc s'"
    by (intro zero_ok_pass [OF assms(1) _ pass.hyps(2)]) simp_all
  then show ?case
    using pass.hyps(3) by (simp add: zero_but_sc_def zero_ok_def)
qed (simp_all add: zero_ok_boot, simp add: zero_ok_def)

text \<open>
  C28. \<^verbatim>\<open>SC.W\<close> with \<^verbatim>\<open>rd = x0\<close> whose store raises an exception leaves 1 in \<^verbatim>\<open>x0\<close>: the register is set before the
  store and \<^verbatim>\<open>reset_reg_zero\<close> is skipped by the exception.\<close>

theorem sc_trap_corrupts_x0:
  assumes "zero_ok s" "rd (instr s) = 0" "rs1_val s mod 4 = 0"
    and "E = tiny_env hs intercept cached ns (tiny_sync adv) gran"
    and "atomic_store_conditional_word (mem E) (ucast (rs1_val s)) (rs2_val s) (set_rd 1 s) =
         (Inl (SimulationTrap r v), s')"
  shows "op_SC_W E s = (Inl (SimulationTrap r v), s') \<and> regs s' ! 0 = 1"
proof -
  have "hart_inv 1 0 (isa_config s) (instr s) (set_rd 1 s)"
    using hart_inv_set_rd_zero [OF zero_ok_inv [OF assms(1)] assms(2)] by blast
  moreover have "keeps (hart_inv 1 0 (isa_config s) (instr s)) (atomic_store_conditional_word (mem E) a x)" for a x
    unfolding assms(4) tiny_env_cmi by (rule tiny_hart.mem_keeps)
  ultimately have "hart_inv 1 0 (isa_config s) (instr s) s'"
    using assms(5) by (metis keepsD snd_conv)
  then show ?thesis
    using assms(3,5) by (simp add: op_SC_W_def trap_check_addr_alignment_def monad_simps hart_inv_def)
qed

text \<open>
  The hart holds the bus lock for a reservation at an address behind the memory; \<^verbatim>\<open>0x18A5202F\<close> is
  \<^verbatim>\<open>sc.w x0, a0, (a0)\<close>.
\<close>

definition sc_hart :: hart_soc where
  "sc_hart = mem_upd (\<lambda>m. m\<lparr>lr_addr := 0x80000000, bus_lock := \<lparr>locked = True, owner = 0\<rparr>\<rparr>)
     ((tiny_init True True (\<lambda>_. 10000) 0x1000)\<lparr>instr := 0x18A5202F,
        regs := (replicate 32 0)[10 := 0x80000000]\<rparr>)"

theorem sc_trap_corrupts_x0_witness:
  "decode_normal RV32 (RV_ISA_Config False False) 0x18A5202F = SC_W \<and>
   (\<exists>s'. op_SC_W (tiny_env (\<lambda>_ _ _ _ _. ret 0) False True (\<lambda>_. False) (tiny_sync (\<lambda>_. (0, False))) 0) sc_hart =
     (Inl (SimulationTrap EXC_STORE_AMO_PAGE_FAULT 0x80000000), s') \<and> regs s' ! 0 = 1)"
proof -
  let ?E = "tiny_env (\<lambda>_ _ _ _ _. ret 0) False True (\<lambda>_. False) (tiny_sync (\<lambda>_. (0, False))) 0"
  have "decodes RV32 (SC_W, SC_W, misa_A, 0xF800707F, 0x1800202F)"
    using complete_OP_AMO [of RV32] by (simp add: rows_OP_AMO_def)
  then have dec: "decode_normal RV32 (RV_ISA_Config False False) 0x18A5202F = SC_W"
    by (simp add: decodes_def RV_ISA_Config_def)
  have f: "rd 0x18A5202F = 0" "rs1 0x18A5202F = 10" "rs2 0x18A5202F = 10"
    by code_simp+
  have r: "rs1_val sc_hart = 0x80000000" "rs2_val sc_hart = 0x80000000" "instr sc_hart = 0x18A5202F"
    by (simp_all add: rs1_val_def rs2_val_def sc_hart_def reg_def f)
  have "zero_ok sc_hart"
    by (simp add: zero_ok_def sc_hart_def tiny_init_def iss_init_def ISS_CT_def)
  moreover have "mem_st (set_rd 1 sc_hart) = mem_st sc_hart" "csrs (set_rd 1 sc_hart) = csrs sc_hart"
    by (simp_all add: set_rd_def set_reg_def)
  moreover have "bus_lock (mem_st sc_hart) = \<lparr>locked = True, owner = 0\<rparr>" "lr_addr (mem_st sc_hart) = 0x80000000"
    "dmi_ranges (mem_st sc_hart) = [tiny_dmi]" "csrs sc_hart csr_satp = 0" "csrs sc_hart csr_mhartid = 0"
    by (simp_all add: sc_hart_def tiny_init_def iss_init_def ISS_CT_def csr_table_init_def dmi_enable_def
        dmi_add_def cmi_init_def)
  ultimately have "\<exists>s'. atomic_store_conditional_word (mem ?E) 0x80000000 0x80000000 (set_rd 1 sc_hart) =
      (Inl (SimulationTrap EXC_STORE_AMO_PAGE_FAULT 0x80000000), s')"
    by (simp add: tiny_env_def cmi_env_def cmi_if_def atomic_store_conditional_data_def monad_simps
        lock_is_locked_by_def hart_def get_hart_id_def store_data_def v2p_def tiny_conn_def fget_def
        translate_virtual_to_physical_addr_def raw_store_data_def wait_for_access_rights_def dmi_contains_def
        dmi_end_def tiny_dmi_def tiny_mem_size_def do_transaction_def bus_transport_def bus_decode_def
        tiny_ports_def port_contains_def)
  then show ?thesis
    using sc_trap_corrupts_x0 [of sc_hart ?E] dec r f \<open>zero_ok sc_hart\<close> by auto
qed

end
