(* ===== verification/VP_MemProps.thy ===== *)
theory VP_MemProps
  imports VP_TrapProps
begin

text \<open>
  Properties of the memory system of the platform \<^verbatim>\<open>tiny\<close>: what loads and stores of main memory do through the
  bus and through DMI, the bus lock and the LR/SC protocol, and address translation.
\<close>

section \<open>Host memory\<close>

lemma write_bytes_other:
  "(\<And>i. i < length bs \<Longrightarrow> a \<noteq> off + of_nat i) \<Longrightarrow> write_bytes off bs blk a = blk a"
proof (induction off bs blk rule: write_bytes.induct)
  case (2 off b bs blk)
  have "write_bytes (off + 1) bs (blk(off := b)) a = (blk(off := b)) a"
  proof (rule "2.IH")
    show "a \<noteq> off + 1 + of_nat i" if "i < length bs" for i
      using "2.prems" [of "Suc i"] that by (simp add: add.assoc)
  qed
  moreover have "a \<noteq> off" using "2.prems" [of 0] by simp
  ultimately show ?case by simp
qed simp

lemma write_bytes_same:
  "i < length bs \<Longrightarrow> length bs < 2 ^ 64 \<Longrightarrow> write_bytes off bs blk (off + of_nat i) = bs ! i"
proof (induction off bs blk arbitrary: i rule: write_bytes.induct)
  case (2 off b bs blk)
  show ?case
  proof (cases i)
    case 0
    have "off \<noteq> off + 1 + of_nat j" if "j < length bs" for j
    proof
      assume "off = off + 1 + of_nat j"
      then have "of_nat (Suc j) = (0 :: u64)" by (simp add: add.assoc)
      then have "2 ^ LENGTH(64) dvd Suc j" by (simp only: word_of_nat_eq_0_iff)
      then show False using that "2.prems"(2) by (auto dest: dvd_imp_le)
    qed
    then have "write_bytes (off + 1) bs (blk(off := b)) off = (blk(off := b)) off"
      by (intro write_bytes_other) auto
    then show ?thesis using 0 by simp
  next
    case (Suc j)
    then show ?thesis
      using "2.IH" [of j] "2.prems" by (simp add: add.assoc fun_upd_def)
  qed
qed simp

lemma host_read_write_same: "length bs < 2 ^ 64 \<Longrightarrow> host_read (length bs) p (host_write p bs h) = bs"
  by (rule nth_equalityI) (simp_all add: host_read_def host_write_def write_bytes_same)

text \<open>Two ranges of host memory that do not meet.\<close>

definition host_disjoint :: "host_ptr \<Rightarrow> nat \<Rightarrow> host_ptr \<Rightarrow> nat \<Rightarrow> bool" where
  "host_disjoint p m q n \<longleftrightarrow> fst p \<noteq> fst q \<or>
     unat (snd p) + m \<le> unat (snd q) \<or> unat (snd q) + n \<le> unat (snd p)"

lemma unat_offset: "unat (p :: u64) + i < 2 ^ 64 \<Longrightarrow> unat (p + of_nat i) = unat p + i"
  by (simp add: unat_word_ariths unat_of_nat)

lemma host_read_write_other:
  assumes "host_disjoint p (length bs) q n" "unat (snd p) + length bs \<le> 2 ^ 64" "unat (snd q) + n \<le> 2 ^ 64"
  shows "host_read n q (host_write p bs h) = host_read n q h"
proof (cases "fst p = fst q")
  case True
  have "snd q + of_nat i \<noteq> snd p + of_nat j" if "i < n" "j < length bs" for i j
    using True assms that unat_offset [of "snd p" j] unat_offset [of "snd q" i]
    by (auto simp: host_disjoint_def dest: arg_cong [where f = unat])
  then show ?thesis
    by (auto simp: host_read_def host_write_def True intro!: write_bytes_other)
qed (simp add: host_read_def host_write_def)

section \<open>Main memory\<close>

text \<open>A range of main memory, and a hart that may access the bus.\<close>

definition in_ram :: "u64 \<Rightarrow> nat \<Rightarrow> bool" where
  "in_ram a n \<longleftrightarrow> 0 < n \<and> unat a + n \<le> unat tiny_mem_size"

definition bus_free :: "'b cmi iss \<Rightarrow> bool" where
  "bus_free s \<longleftrightarrow> \<not> locked (bus_lock (mem_st s)) \<or> owner (bus_lock (mem_st s)) = hart s"

definition tiny_map :: "hart_soc \<Rightarrow> bool" where
  "tiny_map s \<longleftrightarrow> dmi_ranges (mem_st s) = [] \<or> dmi_ranges (mem_st s) = [tiny_dmi]"

definition ram :: "nat \<Rightarrow> u64 \<Rightarrow> hart_soc \<Rightarrow> u8 list" where
  "ram n a s = host_read n (0, a) (host (mem_st s))"

text \<open>
  States that differ only in what a memory access may change besides memory: the cycle counter, the record of
  the last DMI page, and the bus lock.
\<close>

definition arch :: "hart_soc \<Rightarrow> hart_soc" where
  "arch s = s\<lparr>cycle_counter := 0, cycle_counter_raw_last := 0,
     mem_st := (mem_st s)\<lparr>last_access_was_dmi := False, last_dmi_page_host_addr := (0, 0),
       bus_lock := \<lparr>locked = False, owner = 0\<rparr>, host := (\<lambda>_ _. 0)\<rparr>\<rparr>"

definition same_hart :: "hart_soc \<Rightarrow> hart_soc \<Rightarrow> bool" where
  "same_hart s t \<longleftrightarrow> arch s = arch t"

lemma hart_frame_cmi [simp]:
  "hart (s\<lparr>mem_st := m\<rparr>) = hart s" "hart (s\<lparr>cycle_counter := c\<rparr>) = hart s"
  "hart (s\<lparr>cycle_counter_raw_last := c\<rparr>) = hart s" "hart (commit_cycles s) = hart s"
  by (simp_all add: hart_def get_hart_id_def commit_cycles_def Let_def)

lemma mem_st_commit_cycles [simp]: "mem_st (commit_cycles s) = mem_st s"
  by (simp add: commit_cycles_def Let_def)

text \<open>What the load/store cache asks for after an access.\<close>

definition dmi_recorded :: "u64 \<Rightarrow> hart_soc \<Rightarrow> bool" where
  "dmi_recorded a s \<longleftrightarrow> (last_access_was_dmi (mem_st s) \<longrightarrow> last_dmi_page_host_addr (mem_st s) = (0, a AND NOT 0xFFF))"

lemma wait_free: "bus_free s \<Longrightarrow> wait_for_access_rights (hart s) s = (Inr (), s)"
  by (auto simp: bus_free_def wait_for_access_rights_def lock_is_locked_by_def monad_simps)

lemma in_ram_bounds:
  assumes "in_ram a n"
  shows "a < tiny_mem_size" "a + of_nat n \<le> tiny_mem_size" "(a AND NOT 0xFFF) + of_nat n \<le> tiny_mem_size"
    "a AND NOT 0xFFF < tiny_mem_size" "ucast (ucast a :: u32) = a"
proof -
  have sz: "unat tiny_mem_size = 0x2000000" by (simp add: tiny_mem_size_def)
  have a: "unat a + n \<le> 0x2000000" "0 < n" using assms by (simp_all add: in_ram_def sz)
  have page: "unat (a AND NOT 0xFFF) \<le> unat a"
    using word_and_le2 [of a "NOT 0xFFF"] by (simp add: word_le_nat_alt)
  have off: "unat (b + of_nat n) = unat b + n" if "unat b \<le> unat a" for b :: u64
    using that a by (intro unat_offset) simp
  show "a < tiny_mem_size" "a AND NOT 0xFFF < tiny_mem_size"
    using a page by (simp_all add: word_less_nat_alt sz)
  show "a + of_nat n \<le> tiny_mem_size" "(a AND NOT 0xFFF) + of_nat n \<le> tiny_mem_size"
    using a page off [of a] off [OF page] by (simp_all add: word_le_nat_alt sz)
  show "ucast (ucast a :: u32) = a"
    using a by (intro word_unat_eq_iff [THEN iffD2]) (simp add: unsigned_ucast_eq unsigned_take_bit_eq take_bit_nat_eq_self)
qed

lemma in_ram_local:
  assumes "in_ram a n"
  shows "bus_decode tiny_ports a = Some 0" "global_to_local (tiny_ports ! 0) a = a"
  using in_ram_bounds(1) [OF assms]
  by (simp_all add: bus_decode_def tiny_ports_def port_contains_def global_to_local_def tiny_mem_size_def
      word_less_nat_alt word_le_nat_alt)

lemma raw_load_ram:
  assumes "in_ram a n" "bus_free s" "tiny_map s"
  shows "\<exists>s'. raw_load_data (tiny_conn hs) n a s = (Inr (ram n a s), s') \<and> same_hart s s' \<and>
     host (mem_st s') = host (mem_st s) \<and> bus_lock (mem_st s') = bus_lock (mem_st s) \<and> dmi_recorded a s'"
proof (cases "dmi_ranges (mem_st s) = []")
  case True
  note b = in_ram_bounds [OF assms(1)] in_ram_local [OF assms(1)]
  show ?thesis
    by (simp add: raw_load_data_def monad_simps wait_free [OF assms(2)] True do_transaction_def
        tiny_conn_def bus_transport_def b tiny_isocks_def sm_transport_def tiny_memory_def sm_read_data_def
        ram_def same_hart_def arch_def commit_cycles_def Let_def dmi_recorded_def)
next
  case False
  then have "dmi_ranges (mem_st s) = [tiny_dmi]" using assms(3) by (simp add: tiny_map_def)
  then show ?thesis
    using in_ram_bounds [OF assms(1)]
    by (simp add: raw_load_data_def monad_simps wait_free [OF assms(2)] dmi_contains_def dmi_end_def
        tiny_dmi_def dmi_load_def get_mem_ptr_to_global_addr_def record_dmi_access_def ram_def same_hart_def arch_def commit_cycles_def Let_def dmi_recorded_def)
qed

lemma raw_store_ram:
  assumes "in_ram a (length bs)" "bus_free s" "tiny_map s"
  shows "\<exists>s'. raw_store_data (tiny_conn hs) a bs s = (Inr (), s') \<and> same_hart s s' \<and>
     host (mem_st s') = host_write (0, a) bs (host (mem_st s)) \<and>
     bus_lock (mem_st s') = lock_unlock (hart s) (bus_lock (mem_st s)) \<and> dmi_recorded a s'"
proof (cases "dmi_ranges (mem_st s) = []")
  case True
  note b = in_ram_bounds [OF assms(1)] in_ram_local [OF assms(1)]
  show ?thesis
    by (simp add: raw_store_data_def monad_simps wait_free [OF assms(2)] True do_transaction_def
        tiny_conn_def bus_transport_def b tiny_isocks_def sm_transport_def tiny_memory_def sm_write_data_def
        same_hart_def cmi_atomic_unlock_def arch_def commit_cycles_def Let_def dmi_recorded_def)
next
  case False
  then have "dmi_ranges (mem_st s) = [tiny_dmi]" using assms(3) by (simp add: tiny_map_def)
  then show ?thesis
    using in_ram_bounds [OF assms(1)]
    by (simp add: raw_store_data_def monad_simps wait_free [OF assms(2)] dmi_contains_def dmi_end_def
        tiny_dmi_def dmi_store_def get_mem_ptr_to_global_addr_def record_dmi_access_def same_hart_def
        cmi_atomic_unlock_def arch_def dmi_recorded_def)
qed

text \<open>Virtual addresses are physical: paging is off, or the access has machine rights.\<close>

definition bare_access :: "MemoryAccessType \<Rightarrow> 'b cmi iss \<Rightarrow> bool" where
  "bare_access ty s \<longleftrightarrow> fget satp_mode (csrs s csr_satp) = 0 \<or> access_mode ty s = MachineMode"

lemma bare_access_mem_st [simp]: "bare_access ty (s\<lparr>mem_st := m\<rparr>) = bare_access ty s"
  by (simp add: bare_access_def access_mode_def)

lemma v2p_bare: "bare_access ty s \<Longrightarrow> v2p C a ty s = (Inr a, s)"
  by (auto simp: v2p_def bare_access_def translate_virtual_to_physical_addr_def monad_simps)

lemma load_data_ram:
  assumes "in_ram a n" "bus_free s" "tiny_map s" "bare_access LOAD s"
  shows "\<exists>s'. load_data (tiny_conn hs) n a s = (Inr (ram n a s), s') \<and> same_hart s s' \<and>
     host (mem_st s') = host (mem_st s) \<and> bus_lock (mem_st s') = bus_lock (mem_st s) \<and> dmi_recorded a s'"
  using raw_load_ram [OF assms(1-3)] by (simp add: load_data_def monad_simps v2p_bare [OF assms(4)])

lemma store_data_ram:
  assumes "in_ram a (length bs)" "bus_free s" "tiny_map s" "bare_access STORE s"
  shows "\<exists>s'. store_data (tiny_conn hs) a bs s = (Inr (), s') \<and> same_hart s s' \<and>
     host (mem_st s') = host_write (0, a) bs (host (mem_st s)) \<and>
     bus_lock (mem_st s') = lock_unlock (hart s) (bus_lock (mem_st s)) \<and> dmi_recorded a s'"
  using raw_store_ram [OF assms(1-3)] by (simp add: store_data_def monad_simps v2p_bare [OF assms(4)])

lemma same_hart_fields:
  assumes "same_hart s s'"
  shows "csrs s' = csrs s" "prv s' = prv s" "dmi_ranges (mem_st s') = dmi_ranges (mem_st s)"
    "lr_addr (mem_st s') = lr_addr (mem_st s)" "page_fault_on_AD (mem_st s') = page_fault_on_AD (mem_st s)"
    "lsc (mem_st s') = lsc (mem_st s)"
proof -
  have "f (arch s) = f (arch s')" for f :: "hart_soc \<Rightarrow> 'a"
    using assms by (simp add: same_hart_def)
  from this [of csrs] this [of prv] this [of "\<lambda>s. dmi_ranges (mem_st s)"] this [of "\<lambda>s. lr_addr (mem_st s)"]
    this [of "\<lambda>s. page_fault_on_AD (mem_st s)"] this [of "\<lambda>s. lsc (mem_st s)"]
  show "csrs s' = csrs s" "prv s' = prv s" "dmi_ranges (mem_st s') = dmi_ranges (mem_st s)"
    "lr_addr (mem_st s') = lr_addr (mem_st s)" "page_fault_on_AD (mem_st s') = page_fault_on_AD (mem_st s)"
    "lsc (mem_st s') = lsc (mem_st s)"
    by (simp_all add: arch_def)
qed

lemma same_hart_frame:
  assumes "same_hart s s'"
  shows "hart s' = hart s" "tiny_map s' = tiny_map s" "bare_access ty s' = bare_access ty s"
    "lr_addr (mem_st s') = lr_addr (mem_st s)" "access_mode ty s' = access_mode ty s"
  using same_hart_fields [OF assms]
  by (simp_all add: hart_def get_hart_id_def tiny_map_def bare_access_def access_mode_def)

lemma same_hart_trans: "same_hart s t \<Longrightarrow> same_hart t u \<Longrightarrow> same_hart s u"
  by (simp add: same_hart_def)

lemma bus_free_unlocked: "bus_lock (mem_st s') = lock_unlock (hart s) l \<Longrightarrow> hart s' = hart s \<Longrightarrow>
    \<not> locked l \<or> owner l = hart s \<Longrightarrow> bus_free s' \<and> \<not> locked (bus_lock (mem_st s'))"
  by (auto simp: bus_free_def lock_unlock_def)

lemma tiny_env_mem [simp]: "mem (tiny_env hs intercept cached ns sn gran) = cmi_if (tiny_conn hs)"
  by (simp add: tiny_env_def cmi_env_def)

lemma bytes_word4 [simp]: "bytes_to_word (word_to_bytes 4 v) = (v :: u32)"
  by (rule bytes_to_word_to_bytes) simp

text \<open>What is left of main memory after a store.\<close>

lemma ram_after_store:
  assumes "host (mem_st t) = host_write (0, a) bs (host (mem_st s))" "in_ram a (length bs)"
  shows "ram (length bs) a t = bs"
    and "in_ram b n \<Longrightarrow> unat a + length bs \<le> unat b \<or> unat b + n \<le> unat a \<Longrightarrow> ram n b t = ram n b s"
  using assms
  by (auto simp: ram_def in_ram_def tiny_mem_size_def host_disjoint_def
      intro!: host_read_write_same host_read_write_other)

section \<open>Loads after stores\<close>

text \<open>
  A word stored to main memory is what the next load of that address returns, whether DMI is in use or every
  access is a bus transaction; all other memory and the rest of the hart are unchanged.\<close>

theorem store_then_load:
  assumes "in_ram a 4" "bus_free s" "tiny_map s" "bare_access LOAD s" "bare_access STORE s"
  shows "\<exists>s1 s2. store_word (mem (tiny_env hs intercept cached ns sn gran)) a v s = (Inr (), s1) \<and>
     load_word (mem (tiny_env hs intercept cached ns sn gran)) a s1 = (Inr v, s2) \<and> same_hart s s2 \<and>
     (\<forall>b n. in_ram b n \<and> (unat a + 4 \<le> unat b \<or> unat b + n \<le> unat a) \<longrightarrow> ram n b s2 = ram n b s)"
proof -
  obtain s1 where st: "store_data (tiny_conn hs) a (word_to_bytes 4 v) s = (Inr (), s1)" "same_hart s s1"
      "host (mem_st s1) = host_write (0, a) (word_to_bytes 4 v) (host (mem_st s))"
      "bus_lock (mem_st s1) = lock_unlock (hart s) (bus_lock (mem_st s))"
    using store_data_ram [of a "word_to_bytes 4 v" s hs] assms by auto
  note fr = same_hart_frame [OF st(2)]
  have "bus_free s1"
    using bus_free_unlocked [OF st(4) fr(1)] assms(2) by (simp add: bus_free_def)
  then obtain s2 where ld: "load_data (tiny_conn hs) 4 a s1 = (Inr (ram 4 a s1), s2)" "same_hart s1 s2"
      "host (mem_st s2) = host (mem_st s1)"
    using load_data_ram [of a 4 s1 hs] assms fr by auto
  have "ram 4 a s1 = word_to_bytes 4 v"
    using ram_after_store(1) [OF st(3)] assms(1) by simp
  moreover have "ram n b s2 = ram n b s" if "in_ram b n" "unat a + 4 \<le> unat b \<or> unat b + n \<le> unat a" for b n
    using ram_after_store(2) [OF st(3), of b n] assms(1) that ld(3) by (simp add: ram_def)
  ultimately show ?thesis
    using st(1,2) ld same_hart_trans by (auto simp: cmi_if_def monad_simps)
qed

lemma tiny_init_ready:
  "bus_free (tiny_init d c t e)" "tiny_map (tiny_init d c t e)" "bare_access ty (tiny_init d c t e)"
  by (auto simp: tiny_init_def iss_init_def ISS_CT_def bus_free_def tiny_map_def bare_access_def dmi_enable_def
      dmi_add_def cmi_init_def Let_def csr_table_init_def fget_def)

theorem store_then_load_witness:
  "\<exists>s1 s2. store_word (mem tiny_idle) 0x1000 0xCAFE (tiny_init True False (\<lambda>_. 10000) 0) = (Inr (), s1) \<and>
     load_word (mem tiny_idle) 0x1000 s1 = (Inr 0xCAFE, s2) \<and>
     ram 8 0x2000 s2 = ram 8 0x2000 (tiny_init True False (\<lambda>_. 10000) 0)"
proof -
  have "in_ram 0x1000 4" "in_ram 0x2000 8" by (simp_all add: in_ram_def tiny_mem_size_def)
  then show ?thesis
    using store_then_load [where a = "0x1000" and s = "tiny_init True False (\<lambda>_. 10000) 0"]
    by (fastforce simp: tiny_init_ready)
qed

text \<open>
  C21. DMI is transparent for main memory: with the DMI range of the memory and without it, a load returns the
  same bytes and a store leaves the same memory and the same bus lock.\<close>

theorem dmi_transparent:
  assumes "in_ram a n" "n = length bs" "bus_free s" "dmi_ranges (mem_st s) = []" "bare_access LOAD s" "bare_access STORE s"
    and "t = mem_upd (\<lambda>m. m\<lparr>dmi_ranges := [tiny_dmi]\<rparr>) s"
  shows "fst (load_data (tiny_conn hs) n a t) = fst (load_data (tiny_conn hs) n a s) \<and>
    fst (store_data (tiny_conn hs) a bs t) = fst (store_data (tiny_conn hs) a bs s) \<and>
    host (mem_st (snd (store_data (tiny_conn hs) a bs t))) = host (mem_st (snd (store_data (tiny_conn hs) a bs s))) \<and>
    bus_lock (mem_st (snd (store_data (tiny_conn hs) a bs t))) =
      bus_lock (mem_st (snd (store_data (tiny_conn hs) a bs s)))"
proof -
  have t: "bus_free t" "tiny_map t" "bare_access LOAD t" "bare_access STORE t" "ram n a t = ram n a s"
      "host (mem_st t) = host (mem_st s)" "bus_lock (mem_st t) = bus_lock (mem_st s)" "hart t = hart s"
    using assms by (simp_all add: bus_free_def tiny_map_def ram_def)
  have s: "tiny_map s" using assms(4) by (simp add: tiny_map_def)
  show ?thesis
    using load_data_ram [OF assms(1) t(1-3), of hs] load_data_ram [OF assms(1,3) s assms(5), of hs]
      store_data_ram [OF assms(1) [unfolded assms(2)] t(1,2,4), of hs]
      store_data_ram [OF assms(1) [unfolded assms(2)] assms(3) s assms(6), of hs] t(5-8)
    by auto
qed

theorem dmi_transparent_witness:
  "fst (load_data (tiny_conn (\<lambda>_ _ _ _ _. ret 0)) 4 0x1000 (tiny_init True False (\<lambda>_. 10000) 0)) =
   fst (load_data (tiny_conn (\<lambda>_ _ _ _ _. ret 0)) 4 0x1000
     (mem_upd (\<lambda>m. m\<lparr>dmi_ranges := []\<rparr>) (tiny_init True False (\<lambda>_. 10000) 0)))"
proof -
  let ?t = "tiny_init True False (\<lambda>_. 10000) 0"
  let ?s = "mem_upd (\<lambda>m. m\<lparr>dmi_ranges := []\<rparr>) ?t"
  have "dmi_ranges (mem_st ?t) = [tiny_dmi]"
    by (simp add: tiny_init_def iss_init_def ISS_CT_def dmi_enable_def dmi_add_def cmi_init_def)
  then have t: "?t = mem_upd (\<lambda>m. m\<lparr>dmi_ranges := [tiny_dmi]\<rparr>) ?s" by simp
  have r: "in_ram 0x1000 4" by (simp add: in_ram_def tiny_mem_size_def)
  have f: "bus_free ?s" "bare_access ty ?s" for ty
    using tiny_init_ready by (simp_all add: bus_free_def)
  show ?thesis
    by (rule dmi_transparent [where bs = "replicate 4 0", OF r _ f(1) _ f(2) f(2) t, THEN conjunct1]) simp_all
qed

section \<open>The bus lock and LR/SC\<close>




text \<open>
  \<^verbatim>\<open>SC.W\<close> without a matching reservation fails: it returns false, changes no memory, and leaves the hart
  without the lock.\<close>

theorem sc_without_reservation:
  assumes "\<not> (lock_is_locked_by (hart s) (bus_lock (mem_st s)) \<and> lr_addr (mem_st s) = a)"
  shows "\<exists>s'. atomic_store_conditional_word (cmi_if C) a v s = (Inr False, s') \<and>
    s' = mem_upd (\<lambda>m. m\<lparr>bus_lock := lock_unlock (hart s) (bus_lock m)\<rparr>) s \<and>
    \<not> lock_is_locked_by (hart s) (bus_lock (mem_st s'))"
  using assms
  by (auto simp: cmi_if_def atomic_store_conditional_data_def monad_simps lock_is_locked_by_def lock_unlock_def
      cmi_atomic_unlock_def)

theorem sc_without_reservation_witness:
  "fst (atomic_store_conditional_word (mem tiny_idle) 0x1000 7 (tiny_init True False (\<lambda>_. 10000) 0)) = Inr False"
proof -
  have "\<not> locked (bus_lock (mem_st (tiny_init True False (\<lambda>_. 10000) 0)))"
    by (simp add: tiny_init_def iss_init_def ISS_CT_def dmi_enable_def dmi_add_def cmi_init_def Let_def)
  then show ?thesis
    using sc_without_reservation [where s = "tiny_init True False (\<lambda>_. 10000) 0" and a = "0x1000" and v = 7]
    by (fastforce simp: lock_is_locked_by_def)
qed

text \<open>
  C20. Mutual exclusion: while another hart holds the bus lock, every load, store and atomic load of this hart waits,
  with nothing changed, and its \<^verbatim>\<open>SC.W\<close> fails.\<close>

theorem bus_lock_excludes:
  assumes "locked (bus_lock (mem_st s))" "owner (bus_lock (mem_st s)) \<noteq> hart s" "bare_access LOAD s" "bare_access STORE s"
  shows "load_data C n a s = (Inl Suspended, s) \<and> store_data C a bs s = (Inl Suspended, s) \<and>
    atomic_load_data C n a s = (Inl Suspended, s) \<and> atomic_load_reserved_data C n a s = (Inl Suspended, s) \<and>
    atomic_store_conditional_data C a bs s = (Inr False, s)"
  using assms
  by (simp add: load_data_def store_data_def atomic_load_data_def atomic_load_reserved_data_def
      atomic_store_conditional_data_def bus_lock_lock_def raw_load_data_def raw_store_data_def v2p_bare
      wait_for_access_rights_def wait_until_unlocked_def lock_is_locked_by_def monad_simps)

theorem bus_lock_excludes_witness:
  "store_data (tiny_conn (\<lambda>_ _ _ _ _. ret 0)) 0x1000 [1]
     (mem_upd (\<lambda>m. m\<lparr>bus_lock := \<lparr>locked = True, owner = 1\<rparr>\<rparr>) (tiny_init True False (\<lambda>_. 10000) 0)) =
   (Inl Suspended, mem_upd (\<lambda>m. m\<lparr>bus_lock := \<lparr>locked = True, owner = 1\<rparr>\<rparr>) (tiny_init True False (\<lambda>_. 10000) 0))"
proof -
  let ?s = "mem_upd (\<lambda>m. m\<lparr>bus_lock := \<lparr>locked = True, owner = 1\<rparr>\<rparr>) (tiny_init True False (\<lambda>_. 10000) 0)"
  have "hart ?s = 0"
    by (simp add: hart_def get_hart_id_def tiny_init_def iss_init_def ISS_CT_def)
  then show ?thesis
    using bus_lock_excludes [where s = ?s and C = "tiny_conn (\<lambda>_ _ _ _ _. ret 0)" and a = "0x1000" and bs = "[1]"]
    by (simp add: tiny_init_ready)
qed

end
