(* ===== verification/VP_MMU.thy ===== *)
theory VP_MMU
  imports VP_MemProps
begin

text \<open>
  Address translation: the page-table walk of \<^verbatim>\<open>MMU_T\<close> against the two-level Sv32 scheme of the privileged
  architecture, and the translation cache in front of it.
\<close>

section \<open>The Sv32 scheme\<close>

text \<open>
  A page-table entry is invalid, a pointer to the next level, or a leaf. What a leaf grants depends on the kind of
  access, the mode, \<^verbatim>\<open>SUM\<close> and \<^verbatim>\<open>MXR\<close>.
\<close>

definition pte_invalid :: "'a::len word \<Rightarrow> bool" where
  "pte_invalid pte \<longleftrightarrow> \<not> bit pte 0 \<or> \<not> bit pte 1 \<and> bit pte 2"

definition pte_pointer :: "'a::len word \<Rightarrow> bool" where
  "pte_pointer pte \<longleftrightarrow> \<not> bit pte 1 \<and> \<not> bit pte 3"

definition pte_grants :: "MemoryAccessType \<Rightarrow> bool \<Rightarrow> bool \<Rightarrow> bool \<Rightarrow> 'a::len word \<Rightarrow> bool" where
  "pte_grants ty smode sumf mxr pte \<longleftrightarrow>
     (case ty of FETCH \<Rightarrow> bit pte 3 | LOAD \<Rightarrow> bit pte 1 \<or> mxr \<and> bit pte 3 | STORE \<Rightarrow> bit pte 2) \<and>
     (if smode then bit pte 4 \<longrightarrow> ty \<noteq> FETCH \<and> sumf else bit pte 4)"

text \<open>
  \<open>sv32 M root va\<close>: the address of the leaf entry, the entry and the physical address, where \<open>M\<close> reads a word of
  memory, or none when the access faults.
\<close>

definition sv32 ::
  "(u64 \<Rightarrow> u32) \<Rightarrow> u64 \<Rightarrow> MemoryAccessType \<Rightarrow> bool \<Rightarrow> bool \<Rightarrow> bool \<Rightarrow> u64 \<Rightarrow> (u64 \<times> u32 \<times> u64) option"
where
  "sv32 M root ty smode sumf mxr va =
     (let a1 = push_bit 12 root + 4 * (drop_bit 22 va AND 0x3FF); p1 = M a1 in
      if pte_invalid p1 then None
      else if pte_pointer p1
      then (let a0 = push_bit 12 (ucast (drop_bit 10 p1)) + 4 * (drop_bit 12 va AND 0x3FF); p0 = M a0 in
            if pte_invalid p0 \<or> pte_pointer p0 \<or> \<not> pte_grants ty smode sumf mxr p0 then None
            else Some (a0, p0, push_bit 12 (ucast (drop_bit 10 p0)) OR (va AND 0xFFF)))
      else if \<not> pte_grants ty smode sumf mxr p1 \<or> drop_bit 10 p1 AND 0x3FF \<noteq> 0 then None
      else Some (a1, p1, push_bit 22 (ucast (drop_bit 20 p1)) OR (va AND 0x3FFFFF)))"

section \<open>The walk\<close>

lemma pte_bits:
  fixes p :: u32
  shows "pte_V (ucast p) \<longleftrightarrow> bit p 0" "pte_R (ucast p) \<longleftrightarrow> bit p 1" "pte_W (ucast p) \<longleftrightarrow> bit p 2"
    "pte_X (ucast p) \<longleftrightarrow> bit p 3" "pte_U (ucast p) \<longleftrightarrow> bit p 4"
proof -
  have "ucast p AND 2 ^ n \<noteq> (0 :: u64) \<longleftrightarrow> bit p n" if "n < 32" for n
    using that by (simp add: and_exp_eq_0_iff_not_bit bit_ucast_iff)
  from this [of 0] this [of 1] this [of 2] this [of 3] this [of 4]
  show "pte_V (ucast p) \<longleftrightarrow> bit p 0" "pte_R (ucast p) \<longleftrightarrow> bit p 1" "pte_W (ucast p) \<longleftrightarrow> bit p 2"
    "pte_X (ucast p) \<longleftrightarrow> bit p 3" "pte_U (ucast p) \<longleftrightarrow> bit p 4"
    by (simp_all add: pte_V_def pte_R_def pte_W_def pte_X_def pte_U_def PTE_V_def PTE_R_def PTE_W_def
        PTE_X_def PTE_U_def)
qed

lemma leaf_allowed_grants:
  "\<not> pte_invalid p \<Longrightarrow> leaf_allowed ty smode sumf mxr (ucast p) \<longleftrightarrow> pte_grants ty smode sumf mxr p" for p :: u32
  by (cases ty) (auto simp: leaf_allowed_def pte_grants_def pte_bits pte_invalid_def)

definition ram_word :: "hart_soc \<Rightarrow> u64 \<Rightarrow> u32" where
  "ram_word s a = bytes_to_word (ram 4 a s)"

lemma load_pte_ram:
  assumes "in_ram a 4" "bus_free s" "tiny_map s"
  shows "\<exists>s'. mmu_load_pte32 (tiny_conn hs) a s = (Inr (ucast (ram_word s a)), s') \<and> same_hart s s' \<and>
     host (mem_st s') = host (mem_st s) \<and> bus_lock (mem_st s') = bus_lock (mem_st s)"
  using raw_load_ram [OF assms, of hs] by (auto simp: mmu_load_pte32_def monad_simps ram_word_def)

text \<open>The end of the walk at a leaf: the superpage test, the accessed and dirty bits, the physical address.\<close>

definition ad_bits :: "MemoryAccessType \<Rightarrow> u64" where
  "ad_bits ty = PTE_A OR (if ty = STORE then PTE_D else 0)"

definition page_fault :: "MemoryAccessType \<Rightarrow> u64 \<Rightarrow> exn" where
  "page_fault ty va = SimulationTrap (case ty of FETCH \<Rightarrow> EXC_INSTR_PAGE_FAULT | LOAD \<Rightarrow> EXC_LOAD_PAGE_FAULT
     | STORE \<Rightarrow> EXC_STORE_AMO_PAGE_FAULT) va"

lemma raise_page_fault_simp: "raise_page_fault va ty s = (Inl (page_fault ty va), s)"
  by (cases ty) (simp_all add: raise_page_fault_def page_fault_def monad_simps)

lemma pte_addr_level:
  fixes va :: u64
  shows "push_bit 12 root + ucast ((ucast (drop_bit 22 va AND (push_bit 10 1 - 1)) :: u32) * of_nat 4) =
      push_bit 12 root + 4 * (drop_bit 22 va AND 0x3FF)"
    and "push_bit 12 root + ucast ((ucast (drop_bit 12 va AND (push_bit 10 1 - 1)) :: u32) * of_nat 4) =
      push_bit 12 root + 4 * (drop_bit 12 va AND 0x3FF)"
proof -
  have "ucast ((ucast (x AND 0x3FF) :: u32) * 4) = 4 * (x AND 0x3FF)" for x :: u64
  proof (rule word_unat_eq_iff [THEN iffD2])
    have "unat (x AND 0x3FF) \<le> 0x3FF"
      using word_and_le1 [of x "0x3FF"] by (simp add: word_le_nat_alt)
    then show "unat (ucast ((ucast (x AND 0x3FF) :: u32) * 4) :: u64) = unat (4 * (x AND 0x3FF))"
      by (simp add: unsigned_ucast_eq unat_word_ariths take_bit_nat_eq_self)
  qed
  then show "push_bit 12 root + ucast ((ucast (drop_bit 22 va AND (push_bit 10 1 - 1)) :: u32) * of_nat 4) =
      push_bit 12 root + 4 * (drop_bit 22 va AND 0x3FF)"
    "push_bit 12 root + ucast ((ucast (drop_bit 12 va AND (push_bit 10 1 - 1)) :: u32) * of_nat 4) =
      push_bit 12 root + 4 * (drop_bit 12 va AND 0x3FF)"
    by simp_all
qed

definition unlocked :: "hart_soc \<Rightarrow> bool" where
  "unlocked s \<longleftrightarrow> \<not> locked (bus_lock (mem_st s))"

text \<open>The result of a walk that ended at the entry \<open>p\<close> at address \<open>a\<close> with the physical address \<open>pa\<close>.\<close>

definition walk_ends :: "MemoryAccessType \<Rightarrow> u64 \<Rightarrow> (u64 \<times> u32 \<times> u64) option \<Rightarrow> hart_soc \<Rightarrow> (exn + u64) \<times> hart_soc \<Rightarrow> bool" where
  "walk_ends ty va r s x \<longleftrightarrow> same_hart s (snd x) \<and> (unlocked s \<longrightarrow> unlocked (snd x)) \<and>
     (case r of
        None \<Rightarrow> fst x = Inl (page_fault ty va) \<and> host (mem_st (snd x)) = host (mem_st s)
      | Some (a, p, pa) \<Rightarrow>
          if ucast p AND ad_bits ty = ad_bits ty
          then fst x = Inr pa \<and> host (mem_st (snd x)) = host (mem_st s)
          else if page_fault_on_AD (mem_st s)
          then fst x = Inl (page_fault ty va) \<and> host (mem_st (snd x)) = host (mem_st s)
          else fst x = Inr pa \<and>
               host (mem_st (snd x)) = host_write (0, a) (word_to_bytes 4 (p OR ucast (ad_bits ty))) (host (mem_st s)))"

lemma bus_free_cong: "bus_lock (mem_st s') = bus_lock (mem_st s) \<Longrightarrow> hart s' = hart s \<Longrightarrow> bus_free s' = bus_free s"
  by (simp add: bus_free_def)

definition leaf_tail :: "soc cmi_conn \<Rightarrow> MemoryAccessType \<Rightarrow> u64 \<Rightarrow> u64 \<Rightarrow> u32 \<Rightarrow> u64 \<Rightarrow> (hart_soc, u64) M" where
  "leaf_tail C ty va a p pa = bindM (getsM (\<lambda>s. page_fault_on_AD (mem_st s))) (\<lambda>pf.
     if ucast p AND ad_bits ty \<noteq> ad_bits ty \<and> pf then raise_page_fault va ty
     else seqM (whenM (ucast p AND ad_bits ty \<noteq> ad_bits ty)
                 (mmu_store_pte32 C a (ucast (ucast p OR ad_bits ty)))) (ret pa))"

lemma leaf_end:
  assumes "in_ram a 4" "bus_free s1" "tiny_map s1" "same_hart s s1" "host (mem_st s1) = host (mem_st s)"
    "unlocked s \<Longrightarrow> unlocked s1"
  shows "walk_ends ty va (Some (a, p, pa)) s (leaf_tail (tiny_conn hs) ty va a p pa s1)"
proof -
  have c: "ucast (ucast p OR ad_bits ty) = p OR ucast (ad_bits ty)"
    by (rule bit_eqI) (auto simp: bit_simps)
  obtain s' where "mmu_store_pte32 (tiny_conn hs) a (p OR ucast (ad_bits ty)) s1 = (Inr (), s')" "same_hart s1 s'"
      "host (mem_st s') = host_write (0, a) (word_to_bytes 4 (p OR ucast (ad_bits ty))) (host (mem_st s1))"
      "bus_lock (mem_st s') = lock_unlock (hart s1) (bus_lock (mem_st s1))"
    using raw_store_ram [of a "word_to_bytes 4 (p OR ucast (ad_bits ty))" s1 hs] assms
    by (auto simp: mmu_store_pte32_def)
  then show ?thesis
    using assms(4-) same_hart_fields(5) [OF assms(4)] same_hart_trans [OF assms(4)]
    by (auto simp: leaf_tail_def walk_ends_def monad_simps raise_page_fault_simp c unlocked_def lock_unlock_def)
qed

text \<open>One pass of the loop of the walk, on an entry in main memory.\<close>

lemma walk_level_step:
  assumes "mmu_load_pte32 C a s1 = (Inr (ucast p), s2)" "ptesize vi = 4"
    and "a = base + ucast ((ucast (drop_bit (12 + i * idxbits vi) va AND (push_bit (idxbits vi) 1 - 1)) :: u32) * of_nat 4)"
  shows "walk_level C vi va ty sm sumf mxr base (Suc i) s1 =
    (if pte_invalid p then raise_page_fault va ty s2
     else if pte_pointer p then walk_level C vi va ty sm sumf mxr (push_bit 12 (drop_bit 10 (ucast p))) i s2
     else if \<not> pte_grants ty sm sumf mxr p \<or> drop_bit 10 (ucast p) AND (push_bit (i * idxbits vi) 1 - 1) \<noteq> (0 :: u64)
     then raise_page_fault va ty s2
     else leaf_tail C ty va a p (walk_paddr va (drop_bit 10 (ucast p)) (i * idxbits vi)) s2)"
proof -
  let ?p = "ucast p :: u64"
  have bad: "(\<not> pte_V ?p \<or> \<not> pte_R ?p \<and> pte_W ?p) = pte_invalid p" "(\<not> pte_R ?p \<and> \<not> pte_X ?p) = pte_pointer p"
    by (auto simp: pte_bits pte_invalid_def pte_pointer_def)
  have "walk_level C vi va ty sm sumf mxr base (Suc i) s1 =
    (if \<not> pte_V ?p \<or> \<not> pte_R ?p \<and> pte_W ?p then raise_page_fault va ty
     else if \<not> pte_R ?p \<and> \<not> pte_X ?p then walk_level C vi va ty sm sumf mxr (push_bit 12 (drop_bit 10 ?p)) i
     else if \<not> leaf_allowed ty sm sumf mxr ?p then raise_page_fault va ty
     else if drop_bit 10 ?p AND (push_bit (i * idxbits vi) 1 - 1) \<noteq> 0 then raise_page_fault va ty
     else leaf_tail C ty va a p (walk_paddr va (drop_bit 10 ?p) (i * idxbits vi))) s2"
    unfolding walk_level.simps Let_def assms(2) assms(3) [symmetric] leaf_tail_def ad_bits_def
    by (simp only: monad_simps assms(1) prod.case sum.case simp_thms if_True)
  then show ?thesis
    unfolding bad using leaf_allowed_grants [of p ty sm sumf mxr] by (cases "pte_invalid p") simp_all
qed

lemma no_superpage: "walk_paddr va (drop_bit 10 (ucast p)) 0 = push_bit 12 (ucast (drop_bit 10 (p :: u32))) OR (va AND 0xFFF)"
  by (rule bit_eqI) (auto simp: walk_paddr_def Let_def bit_simps)

lemma page_masks:
  "0x3FF = (mask 10 :: u32)" "0x3FF = (mask 10 :: u64)" "push_bit 10 1 - 1 = (mask 10 :: u64)"
  "0xFFF = (mask 12 :: u64)" "0x3FFFFF = (mask 22 :: u64)"
  by (simp_all add: mask_eq_exp_minus_1)

lemma superpage_test:
  "drop_bit 10 (ucast p) AND (push_bit 10 1 - 1) = (0 :: u64) \<longleftrightarrow> drop_bit 10 (p :: u32) AND 0x3FF = 0"
proof -
  have "drop_bit 10 (ucast p) AND mask 10 = (ucast (drop_bit 10 p AND mask 10) :: u64)"
    by (rule bit_eqI) (auto simp: bit_simps)
  moreover have "ucast x = (0 :: u64) \<longleftrightarrow> x = 0" for x :: u32
    using word_unat_eq_iff [of "ucast x :: u64" 0] word_unat_eq_iff [of x 0]
    by (simp add: unsigned_ucast_eq take_bit_nat_eq_self less_trans [OF unsigned_less])
  ultimately show ?thesis unfolding page_masks by simp
qed

lemma superpage:
  assumes "drop_bit 10 (p :: u32) AND 0x3FF = 0"
  shows "walk_paddr va (drop_bit 10 (ucast p)) 10 = push_bit 22 (ucast (drop_bit 20 p)) OR (va AND 0x3FFFFF)"
proof -
  have z: "\<not> bit p (10 + n)" if "n < 10" for n
    using arg_cong [OF assms, of "\<lambda>w. bit w n"] that by (simp add: page_masks bit_simps)
  show ?thesis
    unfolding walk_paddr_def Let_def page_masks
    using z by (intro bit_eqI) (auto simp: bit_simps)
qed

lemma walk_ends_same: "same_hart s s1 \<Longrightarrow> host (mem_st s1) = host (mem_st s) \<Longrightarrow> (unlocked s \<Longrightarrow> unlocked s1) \<Longrightarrow>
    walk_ends ty va None s (raise_page_fault va ty s1)"
  by (simp add: walk_ends_def raise_page_fault_simp)

text \<open>The last level.\<close>

lemma walk_level_0:
  assumes a0: "a0 = push_bit 12 root + 4 * (drop_bit 12 va AND 0x3FF)"
    and vi: "idxbits vi = 10" "ptesize vi = 4"
    and ok: "in_ram a0 4" "bus_free s1" "tiny_map s1" and st: "same_hart s s1" "host (mem_st s1) = host (mem_st s)"
      "unlocked s \<Longrightarrow> unlocked s1"
  shows "walk_ends ty va
    (let p0 = ram_word s a0 in
     if pte_invalid p0 \<or> pte_pointer p0 \<or> \<not> pte_grants ty sm sumf mxr p0 then None
     else Some (a0, p0, push_bit 12 (ucast (drop_bit 10 p0)) OR (va AND 0xFFF))) s
    (walk_level (tiny_conn hs) vi va ty sm sumf mxr (push_bit 12 root) 1 s1)"
proof -
  obtain s2 where ld: "mmu_load_pte32 (tiny_conn hs) a0 s1 = (Inr (ucast (ram_word s1 a0)), s2)" "same_hart s1 s2"
      "host (mem_st s2) = host (mem_st s1)" "bus_lock (mem_st s2) = bus_lock (mem_st s1)"
    using load_pte_ram [OF ok] by blast
  note fr = same_hart_frame [OF ld(2)]
  have ok2: "bus_free s2" "tiny_map s2" "same_hart s s2" "host (mem_st s2) = host (mem_st s)" "unlocked s \<Longrightarrow> unlocked s2"
      "ram_word s1 a0 = ram_word s a0"
    using ok ld fr st same_hart_trans bus_free_cong [OF ld(4) fr(1)] by (auto simp: ram_word_def ram_def unlocked_def)
  have "a0 = push_bit 12 root + ucast ((ucast (drop_bit (12 + 0 * idxbits vi) va AND (push_bit (idxbits vi) 1 - 1)) :: u32) * of_nat 4)"
    by (simp add: vi a0 pte_addr_level [simplified])
  note step = walk_level_step [OF ld(1) vi(2) this, of ty sm sumf mxr]
  show ?thesis
    unfolding One_nat_def step Let_def
    using leaf_end [OF ok(1) ok2(1-5), of ty va "ram_word s a0"] walk_ends_same [OF ok2(3,4,5)]
    by (simp add: ok2(6) no_superpage)
qed

text \<open>Both levels. The second table is only read when the first entry points to it.\<close>

definition tables_in_ram :: "u64 \<Rightarrow> u64 \<Rightarrow> hart_soc \<Rightarrow> bool" where
  "tables_in_ram root va s \<longleftrightarrow>
     (let a1 = push_bit 12 root + 4 * (drop_bit 22 va AND 0x3FF); p1 = ram_word s a1 in
      in_ram a1 4 \<and> (pte_pointer p1 \<longrightarrow>
        in_ram (push_bit 12 (ucast (drop_bit 10 p1)) + 4 * (drop_bit 12 va AND 0x3FF)) 4))"

lemma drop_ucast: "drop_bit 10 (ucast (p :: u32)) = (ucast (drop_bit 10 p) :: u64)"
  by (rule bit_eqI) (auto simp: bit_simps dest: bit_imp_le_length)

lemma walk_level_1:
  assumes vi: "idxbits vi = 10" "ptesize vi = 4"
    and ok: "tables_in_ram root va s" "bus_free s" "tiny_map s"
  shows "walk_ends ty va (sv32 (ram_word s) root ty sm sumf mxr va) s
    (walk_level (tiny_conn hs) vi va ty sm sumf mxr (push_bit 12 root) 2 s)"
proof -
  define a1 where "a1 = push_bit 12 root + 4 * (drop_bit 22 va AND 0x3FF)"
  have a1: "in_ram a1 4" using ok(1) by (simp add: tables_in_ram_def a1_def Let_def)
  obtain s2 where ld: "mmu_load_pte32 (tiny_conn hs) a1 s = (Inr (ucast (ram_word s a1)), s2)" "same_hart s s2"
      "host (mem_st s2) = host (mem_st s)" "bus_lock (mem_st s2) = bus_lock (mem_st s)"
    using load_pte_ram [OF a1 ok(2,3)] by blast
  note fr = same_hart_frame [OF ld(2)]
  have ok2: "bus_free s2" "tiny_map s2" and lock: "unlocked s \<Longrightarrow> unlocked s2"
    using ok fr bus_free_cong [OF ld(4) fr(1)] ld(4) by (auto simp: unlocked_def)
  have "a1 = push_bit 12 root + ucast ((ucast (drop_bit (12 + 1 * idxbits vi) va AND (push_bit (idxbits vi) 1 - 1)) :: u32) * of_nat 4)"
    by (simp add: vi a1_def pte_addr_level [simplified])
  note step = walk_level_step [OF ld(1) vi(2) this, of ty sm sumf mxr]
  define q where "q = push_bit 12 (ucast (drop_bit 10 (ram_word s a1))) + 4 * (drop_bit 12 va AND (0x3FF :: u64))"
  have q: "pte_pointer (ram_word s a1) \<Longrightarrow> in_ram q 4"
    using ok(1) by (simp add: tables_in_ram_def a1_def q_def Let_def)
  have next_level: "walk_ends ty va
    (let p0 = ram_word s q in
     if pte_invalid p0 \<or> pte_pointer p0 \<or> \<not> pte_grants ty sm sumf mxr p0 then None
     else Some (q, p0, push_bit 12 (ucast (drop_bit 10 p0)) OR (va AND 0xFFF))) s
    (walk_level (tiny_conn hs) vi va ty sm sumf mxr (push_bit 12 (ucast (drop_bit 10 (ram_word s a1)))) 1 s2)"
    if "pte_pointer (ram_word s a1)"
    by (rule walk_level_0 [OF q_def vi q [OF that] ok2 ld(2,3) lock])
  have "walk_level (tiny_conn hs) vi va ty sm sumf mxr (push_bit 12 root) 2 s =
     walk_level (tiny_conn hs) vi va ty sm sumf mxr (push_bit 12 root) (Suc 1) s"
    by (simp only: Suc_1)
  also have "walk_ends ty va (sv32 (ram_word s) root ty sm sumf mxr va) s \<dots>"
    unfolding step sv32_def Let_def a1_def [symmetric] q_def [symmetric] drop_ucast
    using next_level leaf_end [OF a1 ok2 ld(2,3) lock, of ty va "ram_word s a1"] walk_ends_same [OF ld(2,3) lock]
      superpage_test [of "ram_word s a1"] superpage [of "ram_word s a1" va]
    by (auto simp: vi drop_ucast Let_def simp del: walk_level.simps)
  finally show ?thesis .
qed

lemma walk_sv32:
  assumes "fget satp_mode (csrs s csr_satp) = 1" "mode \<le> SupervisorMode"
    and "tables_in_ram (ucast (fget satp_ppn (csrs s csr_satp))) va s" "bus_free s" "tiny_map s"
  shows "walk_ends ty va
    (sv32 (ram_word s) (ucast (fget satp_ppn (csrs s csr_satp))) ty (mode = SupervisorMode)
       (fget mstatus_sum (csrs s csr_mstatus) \<noteq> 0) (fget mstatus_mxr (csrs s csr_mstatus) \<noteq> 0) va) s
    (walk (tiny_conn hs) va ty mode s)"
proof -
  let ?vi = "\<lparr>levels = 2, idxbits = 10, ptesize = 4, ptbase = push_bit 12 (ucast (fget satp_ppn (csrs s csr_satp)))\<rparr>"
  have "decode_vm_info mode s = (Inr ?vi, s)"
    using assms(1,2) by (simp add: decode_vm_info_def monad_simps Let_def)
  moreover have "check_vaddr_extension va ?vi"
    by (auto simp: check_vaddr_extension_def Let_def and_one_eq mod2_eq_if)
  ultimately show ?thesis
    using walk_level_1 [of ?vi _ va s] assms(3-5)
    by (simp add: walk_def monad_simps del: walk_level.simps)
qed

text \<open>
  C9. The page-table walk of the MMU implements Sv32: on page tables in main memory it returns the physical address
  the scheme defines, sets the accessed bit, and the dirty bit for a store, in the leaf entry and nowhere else, and
  raises the page fault of the access kind exactly when the scheme says so.\<close>

theorem walk_implements_sv32:
  assumes "fget satp_mode (csrs s csr_satp) = 1" "mode \<le> SupervisorMode"
    and "tables_in_ram (ucast (fget satp_ppn (csrs s csr_satp))) va s" "bus_free s" "tiny_map s"
  shows "walk_ends ty va
    (sv32 (ram_word s) (ucast (fget satp_ppn (csrs s csr_satp))) ty (mode = SupervisorMode)
       (fget mstatus_sum (csrs s csr_mstatus) \<noteq> 0) (fget mstatus_mxr (csrs s csr_mstatus) \<noteq> 0) va) s
    (walk (tiny_conn hs) va ty mode s)"
  by (rule walk_sv32 [OF assms])

text \<open>A superpage: the entry for \<^verbatim>\<open>0x400000\<close> in the root table at \<^verbatim>\<open>0x1000\<close> maps it to \<^verbatim>\<open>0x800000\<close>.\<close>

definition paged_hart :: hart_soc where
  "paged_hart = csr_upd csr_satp 0x80000001
     (mem_upd (\<lambda>m. m\<lparr>host := (\<lambda>_ a. if a = 0x1004 then 0xCF else if a = 0x1006 then 0x20 else 0)\<rparr>)
       (tiny_init True True (\<lambda>_. 10000) 0))"

lemma paged_hart_simps:
  "csrs paged_hart csr_satp = 0x80000001" "csrs paged_hart csr_mstatus = csrs (tiny_init True True (\<lambda>_. 10000) 0) csr_mstatus"
  "ram_word paged_hart 0x1004 = 0x2000CF" "bus_free paged_hart" "tiny_map paged_hart"
proof -
  have "ram 4 0x1004 paged_hart = [0xCF, 0, 0x20, 0]"
    by (simp add: ram_def host_read_def paged_hart_def upt_rec)
  moreover have "bytes_to_word [0xCF, 0, 0x20, 0] = (0x2000CF :: u32)" by code_simp
  ultimately show "ram_word paged_hart 0x1004 = 0x2000CF" by (simp add: ram_word_def)
  show "bus_free paged_hart" "tiny_map paged_hart"
    using tiny_init_ready by (simp_all add: paged_hart_def bus_free_def tiny_map_def hart_def get_hart_id_def)
qed (simp_all add: paged_hart_def)

theorem walk_implements_sv32_witness:
  "fst (walk (tiny_conn (\<lambda>_ _ _ _ _. ret 0)) 0x400123 STORE SupervisorMode paged_hart) = Inr 0x800123"
proof -
  have root: "ucast (fget satp_ppn (csrs paged_hart csr_satp)) = (1 :: u64)" "fget satp_mode (csrs paged_hart csr_satp) = 1"
    by (simp_all add: paged_hart_simps fget_def)
  have p: "\<not> pte_pointer (0x2000CF :: u32)" "\<not> pte_invalid (0x2000CF :: u32)" "pte_grants STORE True sumf mxr (0x2000CF :: u32)" for sumf mxr
    by (simp_all add: pte_pointer_def pte_invalid_def pte_grants_def)
  have "tables_in_ram 1 0x400123 paged_hart"
    by (simp add: tables_in_ram_def paged_hart_simps p in_ram_def tiny_mem_size_def)
  moreover have "sv32 (ram_word paged_hart) 1 STORE True sumf mxr 0x400123 = Some (0x1004, 0x2000CF, 0x800123)" for sumf mxr
    by (simp add: sv32_def paged_hart_simps p)
  ultimately show ?thesis
    using walk_implements_sv32 [OF root(2), where va = "0x400123" and ty = STORE and mode = SupervisorMode]
    by (simp add: root(1) paged_hart_simps(4,5) walk_ends_def ad_bits_def PTE_A_def PTE_D_def)
qed

section \<open>The translation cache\<close>

text \<open>A translated access: paging is on and the access has supervisor or user rights.\<close>

definition paged_access :: "MemoryAccessType \<Rightarrow> hart_soc \<Rightarrow> bool" where
  "paged_access ty s \<longleftrightarrow> fget satp_mode (csrs s csr_satp) \<noteq> 0 \<and> (access_mode ty s = 0 \<or> access_mode ty s = 1)"

lemma access_mode_mem_st [simp]: "access_mode ty (s\<lparr>mem_st := m\<rparr>) = access_mode ty s"
  by (simp add: access_mode_def)

lemma paged_access_mem_st [simp]: "paged_access ty (s\<lparr>mem_st := m\<rparr>) = paged_access ty s"
  by (simp add: paged_access_def)

lemma paged_not_machine: "access_mode ty s = 0 \<or> access_mode ty s = 1 \<Longrightarrow> access_mode ty s \<noteq> MachineMode"
  by auto

lemma translate_paged:
  assumes "paged_access ty s"
  shows "translate_virtual_to_physical_addr C va ty s =
    (let mode = access_mode ty s; vpn = drop_bit 12 va; idx = unat vpn mod 256; x = tlb (mem_st s) (unat mode) ty idx in
     if tlb_vpn x = vpn then (Inr (tlb_ppn x OR (va AND 0xFFF)), s)
     else bindM (walk C va ty mode) (\<lambda>paddr.
       seqM (modifyM (mem_upd (\<lambda>m. m\<lparr>tlb := (tlb m)(unat mode := (tlb m (unat mode))(ty :=
                (tlb m (unat mode) ty)(idx := \<lparr>tlb_ppn = paddr AND NOT 0xFFF, tlb_vpn = vpn\<rparr>)))\<rparr>)))
         (ret paddr)) s)"
  using assms paged_not_machine [of ty s]
  by (simp add: translate_virtual_to_physical_addr_def paged_access_def monad_simps Let_def)

lemma drop_not_minus_one: "drop_bit 12 va \<noteq> (-1 :: u64)"
proof
  assume "drop_bit 12 va = -1"
  then have "bit (drop_bit 12 va) 63 = bit (-1 :: u64) 63" by simp
  then show False by (auto simp: bit_simps dest: bit_imp_le_length)
qed

text \<open>
  After a flush (\<^verbatim>\<open>SFENCE.VMA\<close>) no translation comes from the cache: the next translation of any address is the
  result of a walk of the page tables.\<close>

theorem flushed_tlb_walks:
  assumes "paged_access ty s" "has_mmu C" "cmi_flush_tlb C s = (r, s1)"
  shows "fst (v2p C va ty s1) = fst (walk C va ty (access_mode ty s1) s1)"
proof -
  have "s1 = mem_upd mmu_flush_tlb s"
    using assms(2,3) by (simp add: cmi_flush_tlb_def monad_simps)
  then have "paged_access ty s1" "tlb (mem_st s1) = tlb_init"
    using assms(1) by (simp_all add: mmu_flush_tlb_def)
  then show ?thesis
    using assms(2) drop_not_minus_one [of va]
    by (auto simp: v2p_def translate_paged Let_def tlb_init_def monad_simps split: prod.splits sum.splits)
qed

theorem flushed_tlb_walks_witness:
  "\<exists>s1. cmi_flush_tlb (tiny_conn (\<lambda>_ _ _ _ _. ret 0)) (paged_hart\<lparr>prv := UserMode\<rparr>) = (Inr (), s1) \<and>
     fst (v2p (tiny_conn (\<lambda>_ _ _ _ _. ret 0)) 0x400123 FETCH s1) =
     fst (walk (tiny_conn (\<lambda>_ _ _ _ _. ret 0)) 0x400123 FETCH UserMode s1)"
proof -
  have "paged_access FETCH (paged_hart\<lparr>prv := UserMode\<rparr>)"
    by (simp add: paged_access_def access_mode_def paged_hart_simps fget_def)
  then show ?thesis
    using flushed_tlb_walks [where s = "paged_hart\<lparr>prv := UserMode\<rparr>" and ty = FETCH and va = "0x400123"
        and C = "tiny_conn (\<lambda>_ _ _ _ _. ret 0)"]
    by (simp add: cmi_flush_tlb_def tiny_conn_def monad_simps access_mode_def)
qed

text \<open>
  A translation that succeeded is cached: translating any address of the same page again, for the same kind of
  access, gives the same page and accesses no memory.\<close>

theorem tlb_hit_after_translation:
  assumes "paged_access ty s" "fget satp_mode (csrs s csr_satp) = 1"
    and "tables_in_ram (ucast (fget satp_ppn (csrs s csr_satp))) va s" "bus_free s" "tiny_map s"
    and "tlb_vpn (tlb (mem_st s) (unat (access_mode ty s)) ty (unat (drop_bit 12 va) mod 256)) \<noteq> drop_bit 12 va"
    and "v2p (tiny_conn hs) va ty s = (Inr pa, s1)" "drop_bit 12 va' = drop_bit 12 va"
  shows "v2p (tiny_conn hs) va' ty s1 = (Inr ((pa AND NOT 0xFFF) OR (va' AND 0xFFF)), s1)"
proof -
  let ?m = "access_mode ty s"
  have mmu: "has_mmu (tiny_conn hs)" by (simp add: tiny_conn_def)
  obtain s0 where w: "walk (tiny_conn hs) va ty ?m s = (Inr pa, s0)"
      "s1 = mem_upd (\<lambda>m. m\<lparr>tlb := (tlb m)(unat ?m := (tlb m (unat ?m))(ty :=
                (tlb m (unat ?m) ty)(unat (drop_bit 12 va) mod 256 := \<lparr>tlb_ppn = pa AND NOT 0xFFF, tlb_vpn = drop_bit 12 va\<rparr>)))\<rparr>) s0"
    using assms(1,6,7) by (auto simp: v2p_def mmu translate_paged Let_def monad_simps split: prod.splits sum.splits)
  have "?m \<le> SupervisorMode" using assms(1) by (auto simp: paged_access_def)
  then have same: "same_hart s s0"
    using walk_sv32 [OF assms(2) _ assms(3-5), of ?m ty hs] w(1) by (simp add: walk_ends_def)
  have "access_mode ty s1 = ?m" "paged_access ty s1"
    using assms(1) same_hart_fields [OF same] same_hart_frame(5) [OF same] by (simp_all add: w(2) paged_access_def)
  then show ?thesis
    using assms(8) by (simp add: v2p_def mmu translate_paged Let_def w(2))
qed

theorem tlb_hit_after_translation_witness:
  "\<exists>s1. v2p (tiny_conn (\<lambda>_ _ _ _ _. ret 0)) 0x400123 FETCH (paged_hart\<lparr>prv := SupervisorMode\<rparr>) = (Inr 0x800123, s1) \<and>
     v2p (tiny_conn (\<lambda>_ _ _ _ _. ret 0)) 0x400456 FETCH s1 = (Inr 0x800456, s1)"
proof -
  let ?s = "paged_hart\<lparr>prv := SupervisorMode\<rparr>" and ?C = "tiny_conn (\<lambda>_ _ _ _ _. ret 0)"
  have root: "ucast (fget satp_ppn (csrs ?s csr_satp)) = (1 :: u64)" "fget satp_mode (csrs ?s csr_satp) = 1"
    by (simp_all add: paged_hart_simps fget_def)
  have paged: "paged_access FETCH ?s"
    by (simp add: paged_access_def access_mode_def paged_hart_simps fget_def)
  have p: "\<not> pte_pointer (0x2000CF :: u32)" "\<not> pte_invalid (0x2000CF :: u32)" "pte_grants FETCH True sumf mxr (0x2000CF :: u32)" for sumf mxr
    by (simp_all add: pte_pointer_def pte_invalid_def pte_grants_def)
  have rw: "ram_word ?s = ram_word paged_hart" by (simp add: ram_word_def ram_def fun_eq_iff)
  have ok: "tables_in_ram 1 0x400123 ?s" "bus_free ?s" "tiny_map ?s"
    using paged_hart_simps(4,5) by (simp_all add: tables_in_ram_def rw paged_hart_simps(3) p in_ram_def tiny_mem_size_def
        bus_free_def tiny_map_def hart_def get_hart_id_def)
  have "sv32 (ram_word ?s) 1 FETCH True sumf mxr 0x400123 = Some (0x1004, 0x2000CF, 0x800123)" for sumf mxr
    by (simp add: sv32_def rw paged_hart_simps(3) p)
  then have "fst (walk ?C 0x400123 FETCH SupervisorMode ?s) = Inr 0x800123"
    using walk_sv32 [OF root(2) _ _ ok(2,3), where va = "0x400123" and ty = FETCH and mode = SupervisorMode] ok(1) root(1)
    by (simp add: walk_ends_def ad_bits_def PTE_A_def PTE_D_def)
  moreover have m: "access_mode FETCH ?s = SupervisorMode" "tlb (mem_st ?s) = tlb_init" "has_mmu ?C"
    by (simp_all add: access_mode_def paged_hart_def tiny_init_def iss_init_def ISS_CT_def dmi_enable_def dmi_add_def
        cmi_init_def Let_def tiny_conn_def)
  ultimately obtain s1 where s1: "v2p ?C 0x400123 FETCH ?s = (Inr 0x800123, s1)"
    by (cases "walk ?C 0x400123 FETCH SupervisorMode ?s")
      (auto simp: v2p_def translate_paged [OF paged] Let_def monad_simps tlb_init_def)
  have "v2p ?C 0x400456 FETCH s1 = (Inr 0x800456, s1)"
    using tlb_hit_after_translation [OF paged root(2) _ ok(2,3) _ s1, where va' = "0x400456"] ok(1) root(1) m
    by (simp add: tlb_init_def)
  with s1 show ?thesis by blast
qed

end
