(* ===== verification/VP_LSC.thy ===== *)
theory VP_LSC
  imports VP_MMU
begin

text \<open>
  The load/store cache: with it or without it, with DMI or without, the loads and stores of main memory a hart
  makes are those of a flat array of bytes.
\<close>

section \<open>Coherence of the cache\<close>

text \<open>Every hit on an address of main memory points at the byte of that address.\<close>

definition lsc_ok :: "hart_soc \<Rightarrow> bool" where
  "lsc_ok s \<longleftrightarrow> (\<forall>a p. in_ram a 1 \<longrightarrow>
     try_get_from_cache_load a (mem_st s) = Some p \<or> try_get_from_cache_store a (mem_st s) = Some p \<longrightarrow> p = (0, a))"

lemma in_ram_1: "in_ram a n \<Longrightarrow> in_ram a 1"
  by (auto simp: in_ram_def)

lemma lsc_okD:
  "lsc_ok s \<Longrightarrow> in_ram a n \<Longrightarrow> try_get_from_cache_load a (mem_st s) = Some p \<or> try_get_from_cache_store a (mem_st s) = Some p \<Longrightarrow>
   p = (0, a)"
  unfolding lsc_ok_def using in_ram_1 [of a n] by blast

lemma lsc_masks: "0xFFF = (mask 12 :: u64)" "0xFF000 = (push_bit 12 (mask 8) :: u64)" "0xFFFFF = (mask 20 :: u64)"
  by (simp_all add: mask_eq_exp_minus_1)

lemma high_bits_ram:
  assumes "in_ram a n" "25 \<le> k"
  shows "\<not> bit a k"
proof -
  have "unat a < 2 ^ 25" using in_ram_bounds(1) [OF assms(1)] by (simp add: tiny_mem_size_def word_less_nat_alt)
  then have "take_bit 25 a = a"
    by (intro word_unat_eq_iff [THEN iffD2]) (simp add: unsigned_take_bit_eq take_bit_nat_eq_self)
  then show ?thesis using assms(2) by (metis bit_take_bit_iff not_le)
qed

lemma low_high: "(a AND NOT 0xFFF) + (a AND 0xFFF) = (a :: u64)"
proof -
  have "(a AND NOT 0xFFF) + (a AND 0xFFF) = (a AND NOT 0xFFF) OR (a AND 0xFFF)"
    unfolding lsc_masks by (rule disjunctive_add) (auto simp: bit_simps)
  also have "\<dots> = a"
    by (rule bit_eqI) (auto simp: bit_simps)
  finally show ?thesis .
qed

text \<open>Two addresses with the same index and the same tag are on the same page.\<close>

lemma cache_line_page:
  assumes "LSCACHE_IDX a = LSCACHE_IDX b" "LSCACHE_TAG a = LSCACHE_TAG b"
  shows "a AND NOT 0xFFF = b AND NOT 0xFFF"
proof (rule bit_eqI)
  fix k
  assume "possible_bit TYPE(64 word) k"
  then have k: "k < 64" by simp
  have i: "drop_bit 12 (a AND 0xFF000) = drop_bit 12 (b AND 0xFF000)"
    using assms(1) by (simp only: LSCACHE_IDX_def unsigned_word_eqI)
  have "bit a k = bit b k" if "12 \<le> k" "k < 20"
    using arg_cong [OF i, of "\<lambda>w. bit w (k - 12)"] that k by (auto simp: lsc_masks bit_simps)
  moreover have "bit a k = bit b k" if "20 \<le> k"
    using arg_cong [OF assms(2), of "\<lambda>w. bit w k"] that k by (simp add: LSCACHE_TAG_def lsc_masks bit_simps)
  ultimately show "bit (a AND NOT 0xFFF) k = bit (b AND NOT 0xFFF) k"
    using k by (cases "k < 20") (auto simp: lsc_masks bit_simps)
qed

lemma cache_hit_tag:
  fixes vb :: u32
  assumes "in_ram a 1" "in_ram va 1" "vb = 1 \<or> vb = 3"
    and "LSCACHE_TAG a OR ucast LSCACHE_LOAD_VALID_BITS = ucast ((ucast (LSCACHE_TAG va OR ucast vb) :: u32) AND NOT 2) \<or>
         LSCACHE_TAG a OR ucast LSCACHE_STORE_VALID_BITS = ucast (ucast (LSCACHE_TAG va OR ucast vb) :: u32)"
  shows "LSCACHE_TAG a = LSCACHE_TAG va"
proof (rule bit_eqI)
  fix k
  assume "possible_bit TYPE(64 word) k"
  then have k: "k < 64" by simp
  have n: "3 = (mask 2 :: u32)" "2 = (push_bit 1 1 :: u32)" "1 = (mask 1 :: u32)"
    by (simp_all add: mask_eq_exp_minus_1)
  have v: "\<not> bit vb j" "\<not> bit LSCACHE_LOAD_VALID_BITS j" "\<not> bit LSCACHE_STORE_VALID_BITS j" "\<not> bit (2 :: u32) j"
    if "20 \<le> j" for j
    using that assms(3) unfolding LSCACHE_LOAD_VALID_BITS_def LSCACHE_STORE_VALID_BITS_def n
    by (auto simp: bit_simps)
  show "bit (LSCACHE_TAG a) k = bit (LSCACHE_TAG va) k"
  proof (cases "20 \<le> k \<and> k < 32")
    case True
    then show ?thesis
      using assms(4) v [of k]
      by (auto dest!: arg_cong [where f = "\<lambda>w. bit w k"] simp: bit_simps LSCACHE_TAG_def)
  next
    case False
    then show ?thesis
      using k high_bits_ram [OF assms(1), of k] high_bits_ram [OF assms(2), of k]
      by (auto simp: LSCACHE_TAG_def lsc_masks bit_simps)
  qed
qed

lemma lsc_ok_update_entry:
  assumes "lsc_ok s" "in_ram va 1" "vb = 1 \<or> vb = 3"
  shows "lsc_ok (mem_upd (update_entry va (0, va AND NOT 0xFFF) vb) s)"
proof -
  have hit: "(va AND NOT 0xFFF) + LSCACHE_OFF a = a"
    if "in_ram a 1" "LSCACHE_IDX a = LSCACHE_IDX va"
      "LSCACHE_TAG a OR ucast LSCACHE_LOAD_VALID_BITS = ucast ((ucast (LSCACHE_TAG va OR ucast vb) :: u32) AND NOT 2) \<or>
       LSCACHE_TAG a OR ucast LSCACHE_STORE_VALID_BITS = ucast (ucast (LSCACHE_TAG va OR ucast vb) :: u32)" for a
    using cache_line_page [OF that(2) cache_hit_tag [OF that(1) assms(2,3) that(3)]] low_high [of a]
    by (simp add: LSCACHE_OFF_def)
  show ?thesis
    unfolding lsc_ok_def
  proof (intro allI impI)
    fix a p
    assume a: "in_ram a 1"
      "try_get_from_cache_load a (mem_st (mem_upd (update_entry va (0, va AND NOT 0xFFF) vb) s)) = Some p \<or>
       try_get_from_cache_store a (mem_st (mem_upd (update_entry va (0, va AND NOT 0xFFF) vb) s)) = Some p"
    show "p = (0, a)"
    proof (cases "LSCACHE_IDX a = LSCACHE_IDX va")
      case True
      then show ?thesis
        using a hit [OF a(1) True]
        by (auto simp: try_get_from_cache_load_def try_get_from_cache_store_def update_entry_def Let_def split: if_splits)
    next
      case False
      then have "try_get_from_cache_load a (mem_st s) = Some p \<or> try_get_from_cache_store a (mem_st s) = Some p"
        using a(2) by (auto simp: try_get_from_cache_load_def try_get_from_cache_store_def update_entry_def Let_def)
      then show ?thesis using lsc_okD [OF assms(1) a(1)] by blast
    qed
  qed
qed

section \<open>Cached accesses\<close>

text \<open>A hart that makes bare accesses on an unlocked bus, with a coherent cache.\<close>

definition good :: "hart_soc \<Rightarrow> bool" where
  "good s \<longleftrightarrow> \<not> locked (bus_lock (mem_st s)) \<and> tiny_map s \<and> bare_access LOAD s \<and> bare_access STORE s \<and> lsc_ok s"

lemma good_cong:
  assumes "good s" "same_hart s s'" "\<not> locked (bus_lock (mem_st s'))"
  shows "good s'"
  using assms same_hart_frame [OF assms(2)] same_hart_fields(6) [OF assms(2)]
  by (simp add: good_def lsc_ok_def try_get_from_cache_load_def try_get_from_cache_store_def)

lemma good_bus_free: "good s \<Longrightarrow> bus_free s"
  by (simp add: good_def bus_free_def)

lemma try_add_good:
  assumes "good s" "in_ram a n" "dmi_recorded a s" "vb = 1 \<or> vb = 3"
  shows "\<exists>s'. try_add_to_cache (cmi_if C) a vb s = (Inr (), s') \<and> good s' \<and> host (mem_st s') = host (mem_st s)"
proof -
  have "good (mem_upd (update_entry a (0, a AND NOT 0xFFF) vb) s)"
    using assms lsc_ok_update_entry [OF _ in_ram_1 [OF assms(2)] assms(4), of s]
    by (simp add: good_def tiny_map_def update_entry_def)
  then show ?thesis
    using assms(1,3)
    by (auto simp: try_add_to_cache_def cmi_if_def cmi_get_last_dmi_page_host_addr_def monad_simps dmi_recorded_def
        update_entry_def split: if_splits)
qed

lemma load_good:
  assumes "good s" "in_ram a n"
  shows "\<exists>s'. load_data (tiny_conn hs) n a s = (Inr (ram n a s), s') \<and> good s' \<and>
    host (mem_st s') = host (mem_st s) \<and> dmi_recorded a s'"
  using load_data_ram [OF assms(2) good_bus_free [OF assms(1)], of hs] assms(1) good_cong [OF assms(1)]
  by (auto simp: good_def)

lemma store_good:
  assumes "good s" "in_ram a (length bs)"
  shows "\<exists>s'. store_data (tiny_conn hs) a bs s = (Inr (), s') \<and> good s' \<and>
    host (mem_st s') = host_write (0, a) bs (host (mem_st s)) \<and> dmi_recorded a s'"
proof -
  obtain s' where "store_data (tiny_conn hs) a bs s = (Inr (), s')" "same_hart s s'"
    "host (mem_st s') = host_write (0, a) bs (host (mem_st s))"
    "bus_lock (mem_st s') = lock_unlock (hart s) (bus_lock (mem_st s))" "dmi_recorded a s'"
    using store_data_ram [OF assms(2) good_bus_free [OF assms(1)], of hs] assms(1) by (auto simp: good_def)
  moreover have "\<not> locked (bus_lock (mem_st s'))"
    using assms(1) calculation(4) by (simp add: good_def lock_unlock_def)
  ultimately show ?thesis using good_cong [OF assms(1)] by auto
qed

lemma lsc_load_good:
  assumes "good s" "in_ram a n" "\<And>a. load_f a = bindM (load_data (tiny_conn hs) n a) (\<lambda>bs. ret (conv bs))"
  shows "\<exists>s'. lsc_load (cmi_if (tiny_conn hs)) n conv load_f a s = (Inr (conv (ram n a s)), s') \<and> good s' \<and>
    host (mem_st s') = host (mem_st s)"
proof (cases "try_get_from_cache_load a (mem_st s)")
  case None
  obtain s1 where s1: "load_data (tiny_conn hs) n a s = (Inr (ram n a s), s1)" "good s1"
    "host (mem_st s1) = host (mem_st s)" "dmi_recorded a s1"
    using load_good [OF assms(1,2)] by blast
  obtain s2 where "try_add_to_cache (cmi_if (tiny_conn hs)) a LSCACHE_LOAD_VALID_BITS s1 = (Inr (), s2)" "good s2"
    "host (mem_st s2) = host (mem_st s1)"
    using try_add_good [OF s1(2) assms(2) s1(4)] by (auto simp: LSCACHE_LOAD_VALID_BITS_def)
  then show ?thesis
    using s1 assms(1) None by (simp add: lsc_load_def monad_simps cmi_if_def assms(3) good_def)
next
  case (Some p)
  then have "p = (0, a)" using assms(1,2) lsc_okD [of s a _ p] by (simp add: good_def)
  then show ?thesis
    using Some assms(1) by (simp add: lsc_load_def monad_simps cmi_if_def good_def ram_def)
qed

lemma lsc_store_good:
  assumes "good s" "in_ram a (length (bytes v))" "\<And>a. store_f a v = store_data (tiny_conn hs) a (bytes v)"
  shows "\<exists>s'. lsc_store (cmi_if (tiny_conn hs)) bytes store_f a v s = (Inr (), s') \<and> good s' \<and>
    host (mem_st s') = host_write (0, a) (bytes v) (host (mem_st s))"
proof (cases "try_get_from_cache_store a (mem_st s)")
  case None
  obtain s1 where s1: "store_data (tiny_conn hs) a (bytes v) s = (Inr (), s1)" "good s1"
    "host (mem_st s1) = host_write (0, a) (bytes v) (host (mem_st s))" "dmi_recorded a s1"
    using store_good [OF assms(1,2)] by blast
  obtain s2 where "try_add_to_cache (cmi_if (tiny_conn hs)) a LSCACHE_STORE_VALID_BITS s1 = (Inr (), s2)" "good s2"
    "host (mem_st s2) = host (mem_st s1)"
    using try_add_good [OF s1(2) assms(2) s1(4)] by (auto simp: LSCACHE_STORE_VALID_BITS_def)
  then show ?thesis
    using s1 assms(1) None by (simp add: lsc_store_def monad_simps cmi_if_def assms(3) good_def)
next
  case (Some p)
  then have "p = (0, a)" using assms(1,2) lsc_okD [of s a _ p] by (simp add: good_def)
  then show ?thesis
    using Some assms(1)
    by (simp add: lsc_store_def monad_simps cmi_if_def good_def tiny_map_def lsc_ok_def
        try_get_from_cache_load_def try_get_from_cache_store_def)
qed

section \<open>Sequences of accesses\<close>

text \<open>The loads and stores of the load/store unit, and what they do on a flat array of bytes.\<close>

datatype mem_op =
  Load_double u64 | Load_word u64 | Load_uword u64 | Load_half u64 | Load_uhalf u64 | Load_byte u64 | Load_ubyte u64
| Store_double u64 u64 | Store_word u64 u32 | Store_half u64 u16 | Store_byte u64 u8

fun ls_op :: "'d lscache_if \<Rightarrow> mem_op \<Rightarrow> ('d iss, u64 option) M" where
  "ls_op L (Load_double a) = bindM (ls_load_double L a) (\<lambda>v. ret (Some v))"
| "ls_op L (Load_word a) = bindM (ls_load_word L a) (\<lambda>v. ret (Some (ucast v)))"
| "ls_op L (Load_uword a) = bindM (ls_load_uword L a) (\<lambda>v. ret (Some (ucast v)))"
| "ls_op L (Load_half a) = bindM (ls_load_half L a) (\<lambda>v. ret (Some (ucast v)))"
| "ls_op L (Load_uhalf a) = bindM (ls_load_uhalf L a) (\<lambda>v. ret (Some (ucast v)))"
| "ls_op L (Load_byte a) = bindM (ls_load_byte L a) (\<lambda>v. ret (Some (ucast v)))"
| "ls_op L (Load_ubyte a) = bindM (ls_load_ubyte L a) (\<lambda>v. ret (Some (ucast v)))"
| "ls_op L (Store_double a v) = bindM (ls_store_double L a v) (\<lambda>_. ret None)"
| "ls_op L (Store_word a v) = bindM (ls_store_word L a v) (\<lambda>_. ret None)"
| "ls_op L (Store_half a v) = bindM (ls_store_half L a v) (\<lambda>_. ret None)"
| "ls_op L (Store_byte a v) = bindM (ls_store_byte L a v) (\<lambda>_. ret None)"

fun ls_run :: "'d lscache_if \<Rightarrow> mem_op list \<Rightarrow> ('d iss, u64 option list) M" where
  "ls_run L [] = ret []"
| "ls_run L (x # xs) = bindM (ls_op L x) (\<lambda>r. bindM (ls_run L xs) (\<lambda>rs. ret (r # rs)))"

definition flat :: "nat \<Rightarrow> u64 \<Rightarrow> (u64 \<Rightarrow> u8) \<Rightarrow> 'a :: len word" where
  "flat n a m = bytes_to_word (map (\<lambda>i. m (a + of_nat i)) [0..<n])"

fun flat_op :: "mem_op \<Rightarrow> (u64 \<Rightarrow> u8) \<Rightarrow> u64 option \<times> (u64 \<Rightarrow> u8)" where
  "flat_op (Load_double a) m = (Some (flat 8 a m), m)"
| "flat_op (Load_word a) m = (Some (ucast (flat 4 a m :: u32)), m)"
| "flat_op (Load_uword a) m = (Some (ucast (flat 4 a m :: u32)), m)"
| "flat_op (Load_half a) m = (Some (ucast (scast (flat 2 a m :: u16) :: u32)), m)"
| "flat_op (Load_uhalf a) m = (Some (ucast (ucast (flat 2 a m :: u16) :: u32)), m)"
| "flat_op (Load_byte a) m = (Some (ucast (scast (flat 1 a m :: u8) :: u32)), m)"
| "flat_op (Load_ubyte a) m = (Some (ucast (ucast (flat 1 a m :: u8) :: u32)), m)"
| "flat_op (Store_double a v) m = (None, write_bytes a (word_to_bytes 8 v) m)"
| "flat_op (Store_word a v) m = (None, write_bytes a (word_to_bytes 4 v) m)"
| "flat_op (Store_half a v) m = (None, write_bytes a (word_to_bytes 2 v) m)"
| "flat_op (Store_byte a v) m = (None, write_bytes a (word_to_bytes 1 v) m)"

fun flat_run :: "mem_op list \<Rightarrow> (u64 \<Rightarrow> u8) \<Rightarrow> u64 option list \<times> (u64 \<Rightarrow> u8)" where
  "flat_run [] m = ([], m)"
| "flat_run (x # xs) m = (let (r, m1) = flat_op x m; (rs, m2) = flat_run xs m1 in (r # rs, m2))"

fun op_in_ram :: "mem_op \<Rightarrow> bool" where
  "op_in_ram (Load_double a) = in_ram a 8"
| "op_in_ram (Load_word a) = in_ram a 4"
| "op_in_ram (Load_uword a) = in_ram a 4"
| "op_in_ram (Load_half a) = in_ram a 2"
| "op_in_ram (Load_uhalf a) = in_ram a 2"
| "op_in_ram (Load_byte a) = in_ram a 1"
| "op_in_ram (Load_ubyte a) = in_ram a 1"
| "op_in_ram (Store_double a v) = in_ram a 8"
| "op_in_ram (Store_word a v) = in_ram a 4"
| "op_in_ram (Store_half a v) = in_ram a 2"
| "op_in_ram (Store_byte a v) = in_ram a 1"

lemma ram_flat: "bytes_to_word (ram n a s) = flat n a (host (mem_st s) 0)"
  by (simp add: ram_def host_read_def flat_def)

text \<open>The same accesses without a cache.\<close>

lemma plain_load_good:
  assumes "good s" "in_ram a n"
  shows "\<exists>s'. bindM (load_data (tiny_conn hs) n a) (\<lambda>bs. ret (conv bs)) s = (Inr (conv (ram n a s)), s') \<and> good s' \<and>
    host (mem_st s') = host (mem_st s)"
  using load_good [OF assms, of hs] by (auto simp: monad_simps)

definition tiny_lsc :: "bool \<Rightarrow> host_syscall \<Rightarrow> soc cmi lscache_if" where
  "tiny_lsc c hs = (if c then lscache_full (cmi_if (tiny_conn hs)) else lscache_dummy (cmi_if (tiny_conn hs)))"

lemma tiny_env_lsc: "lscache (tiny_env hs intercept c ns sn gran) = tiny_lsc c hs"
  by (simp add: tiny_env_def cmi_env_def tiny_lsc_def)

definition loads :: "(u64 \<Rightarrow> (hart_soc, 'a) M) \<Rightarrow> nat \<Rightarrow> (u8 list \<Rightarrow> 'a) \<Rightarrow> bool" where
  "loads f n conv \<longleftrightarrow> (\<forall>s a. good s \<longrightarrow> in_ram a n \<longrightarrow>
     (\<exists>s'. f a s = (Inr (conv (ram n a s)), s') \<and> good s' \<and> host (mem_st s') = host (mem_st s)))"

definition stores :: "(u64 \<Rightarrow> 'v \<Rightarrow> (hart_soc, unit) M) \<Rightarrow> nat \<Rightarrow> ('v \<Rightarrow> u8 list) \<Rightarrow> bool" where
  "stores f n bytes \<longleftrightarrow> (\<forall>s a v. good s \<longrightarrow> in_ram a n \<longrightarrow>
     (\<exists>s'. f a v s = (Inr (), s') \<and> good s' \<and> host (mem_st s') = host_write (0, a) (bytes v) (host (mem_st s))))"

lemma loads_cached:
  assumes "\<And>a. load_f a = bindM (load_data (tiny_conn hs) n a) (\<lambda>bs. ret (conv bs))"
  shows "loads (lsc_load (cmi_if (tiny_conn hs)) n conv load_f) n conv" "loads load_f n conv"
  using lsc_load_good [where load_f = load_f, OF _ _ assms] plain_load_good [of _ _ n hs conv]
  by (auto simp: loads_def assms)

lemma stores_cached:
  assumes "\<And>a v. store_f a v = store_data (tiny_conn hs) a (bytes v)" "\<And>v. length (bytes v) = n"
  shows "stores (lsc_store (cmi_if (tiny_conn hs)) bytes store_f) n bytes" "stores store_f n bytes"
  using lsc_store_good [where store_f = store_f and bytes = bytes, OF _ _ assms(1)] store_good [of _ _ "bytes _" hs] assms(2)
  by (auto simp: stores_def assms(1)) blast

lemma tiny_loads:
  "loads (ls_load_double (tiny_lsc c hs)) 8 bytes_to_word"
  "loads (ls_load_word (tiny_lsc c hs)) 4 bytes_to_word"
  "loads (ls_load_uword (tiny_lsc c hs)) 4 bytes_to_word"
  "loads (ls_load_half (tiny_lsc c hs)) 2 (\<lambda>bs. scast (bytes_to_word bs :: u16))"
  "loads (ls_load_uhalf (tiny_lsc c hs)) 2 (\<lambda>bs. ucast (bytes_to_word bs :: u16))"
  "loads (ls_load_byte (tiny_lsc c hs)) 1 (\<lambda>bs. scast (bytes_to_word bs :: u8))"
  "loads (ls_load_ubyte (tiny_lsc c hs)) 1 (\<lambda>bs. ucast (bytes_to_word bs :: u8))"
  by (cases c; simp only: tiny_lsc_def lscache_full_def lscache_dummy_def lscache_if.select_convs if_True if_False;
      rule loads_cached; simp add: cmi_if_def)+

lemma tiny_stores:
  "stores (ls_store_double (tiny_lsc c hs)) 8 (word_to_bytes 8)"
  "stores (ls_store_word (tiny_lsc c hs)) 4 (word_to_bytes 4)"
  "stores (ls_store_half (tiny_lsc c hs)) 2 (word_to_bytes 2)"
  "stores (ls_store_byte (tiny_lsc c hs)) 1 (word_to_bytes 1)"
  by (cases c; simp only: tiny_lsc_def lscache_full_def lscache_dummy_def lscache_if.select_convs if_True if_False;
      rule stores_cached; simp add: cmi_if_def)+

lemma load_op:
  assumes "loads f n conv" "good s" "in_ram a n"
  shows "\<exists>s'. bindM (f a) (\<lambda>v. ret (Some (h v))) s = (Inr (Some (h (conv (ram n a s)))), s') \<and> good s' \<and>
    host (mem_st s') 0 = host (mem_st s) 0"
  using assms by (fastforce simp: loads_def monad_simps)

lemma store_op:
  assumes "stores f n bytes" "good s" "in_ram a n"
  shows "\<exists>s'. bindM (f a v) (\<lambda>_. ret None) s = (Inr None, s') \<and> good s' \<and>
    host (mem_st s') 0 = write_bytes a (bytes v) (host (mem_st s) 0)"
proof -
  obtain s' where "f a v s = (Inr (), s')" "good s'" "host (mem_st s') = host_write (0, a) (bytes v) (host (mem_st s))"
    using assms unfolding stores_def by blast
  then show ?thesis by (simp add: monad_simps host_write_def)
qed

lemma ls_op_flat:
  assumes "good s" "op_in_ram x"
  shows "\<exists>s'. ls_op (tiny_lsc c hs) x s = (Inr (fst (flat_op x (host (mem_st s) 0))), s') \<and> good s' \<and>
    host (mem_st s') 0 = snd (flat_op x (host (mem_st s) 0))"
  using assms(2) tiny_loads [THEN load_op, OF assms(1), of _ c hs, where h = "\<lambda>v. v"]
    tiny_loads(2-) [THEN load_op, OF assms(1), of _ c hs, where h = ucast]
    tiny_stores [THEN store_op, OF assms(1), of _ c hs]
  by (cases x) (simp_all add: ram_flat)

text \<open>
  C11. For every sequence of loads and stores of all widths to main memory, the load/store unit of the tiny platform
  returns the values a flat array of bytes returns and leaves that array in memory, in each of the eight
  configurations: with the load/store cache compiled in and enabled or not, with DMI or through the bus. The
  accesses themselves fill the cache and so the hits of later accesses are among those covered. The hart makes bare
  accesses on an unlocked bus and starts from a coherent cache, such as the empty one.
\<close>

theorem load_store_unit_refines_flat_memory:
  assumes "good s" "list_all op_in_ram xs"
  shows "\<exists>s'. ls_run (lscache (tiny_env hs intercept c ns sn gran)) xs s =
       (Inr (fst (flat_run xs (host (mem_st s) 0))), s') \<and> good s' \<and>
     host (mem_st s') 0 = snd (flat_run xs (host (mem_st s) 0))"
  unfolding tiny_env_lsc using assms
proof (induction xs arbitrary: s)
  case Nil
  then show ?case by (simp add: monad_simps)
next
  case (Cons x xs)
  obtain s1 where s1: "ls_op (tiny_lsc c hs) x s = (Inr (fst (flat_op x (host (mem_st s) 0))), s1)" "good s1"
    "host (mem_st s1) 0 = snd (flat_op x (host (mem_st s) 0))"
    using ls_op_flat [of s x c hs] Cons.prems by auto
  then show ?case
    using Cons.IH [OF s1(2)] Cons.prems(2) by (auto simp: monad_simps split_beta Let_def)
qed

lemma or_odd: "x OR 1 \<noteq> (0 :: u64)" "x OR 3 \<noteq> (0 :: u64)"
  by (auto dest!: arg_cong [where f = "\<lambda>w. bit w 0"] simp: bit_or_iff)

lemma lsc_ok_empty: "lsc (mem_st s) = (\<lambda>_. \<lparr>tag_valid = 0, host_page_addr = p\<rparr>) \<Longrightarrow> lsc_ok s"
  by (simp add: lsc_ok_def try_get_from_cache_load_def try_get_from_cache_store_def LSCACHE_LOAD_VALID_BITS_def
      LSCACHE_STORE_VALID_BITS_def or_odd)

lemma good_boot: "good (tiny_init d c t e)"
proof -
  have "lsc_ok (tiny_init d c t e)" "\<not> locked (bus_lock (mem_st (tiny_init d c t e)))"
    by (simp_all add: lsc_ok_empty tiny_init_def iss_init_def ISS_CT_def dmi_enable_def dmi_add_def cmi_init_def Let_def)
  then show ?thesis by (simp add: good_def tiny_init_ready)
qed

theorem load_store_unit_refines_flat_memory_witness:
  "\<exists>s'. ls_run (lscache (tiny_env (\<lambda>_ _ _ _ _. ret 0) False True (\<lambda>_. False) (ret ()) 0))
       [Store_word 0x1000 0xDEADBEEF, Load_half 0x1000, Store_byte 0x1001 0x7F, Load_word 0x1000]
       (tiny_init True True (\<lambda>_. 10000) 0) = (Inr [None, Some 0xFFFFBEEF, None, Some 0xDEAD7FEF], s')"
proof -
  let ?xs = "[Store_word 0x1000 0xDEADBEEF, Load_half 0x1000, Store_byte 0x1001 0x7F, Load_word 0x1000]"
  have "[0..<4] = [0, 1, 2, 3]" "[0..<2] = [0, 1]" "[0..<1] = [0 :: nat]"
    by code_simp+
  moreover have "word_to_bytes 4 (0xDEADBEEF :: u32) = [0xEF, 0xBE, 0xAD, 0xDE]"
    by code_simp
  ultimately have "fst (flat_run ?xs m) = [None, Some 0xFFFFBEEF, None, Some 0xDEAD7FEF]" for m
    by (simp add: Let_def flat_def)
  moreover have "list_all op_in_ram ?xs"
    by (simp add: in_ram_def tiny_mem_size_def)
  ultimately show ?thesis
    using load_store_unit_refines_flat_memory [OF good_boot] by metis
qed

end
