(* ===== verification/VP_Protection.thy ===== *)
theory VP_Protection
  imports VP_LSC
begin

text \<open>
  Page protection and the load/store cache: an entry of the cache does not remember in which mode it was made.
\<close>

section \<open>A page of the supervisor\<close>

text \<open>
  \<open>supervisor_page s va pa\<close>: paging is on, the tables map \<open>va\<close> to \<open>pa\<close> in main memory for loads in supervisor mode, the
  leaf entry has been accessed and is not for user mode.
\<close>

definition supervisor_page :: "hart_soc \<Rightarrow> u64 \<Rightarrow> u64 \<Rightarrow> bool" where
  "supervisor_page s va pa \<longleftrightarrow>
     fget satp_mode (csrs s csr_satp) = 1 \<and> fget mstatus_mprv (csrs s csr_mstatus) = 0 \<and>
     tables_in_ram (ucast (fget satp_ppn (csrs s csr_satp))) va s \<and> in_ram pa 4 \<and> unat va < 2 ^ 32 \<and>
     (\<exists>a p. sv32 (ram_word s) (ucast (fget satp_ppn (csrs s csr_satp))) LOAD True
        (fget mstatus_sum (csrs s csr_mstatus) \<noteq> 0) (fget mstatus_mxr (csrs s csr_mstatus) \<noteq> 0) va = Some (a, p, pa) \<and>
        bit p 6 \<and> \<not> bit p 4)"

text \<open>A hart with DMI and the load/store cache switched on, after a flush of the caches.\<close>

definition caching :: "hart_soc \<Rightarrow> bool" where
  "caching s \<longleftrightarrow> unlocked s \<and> dmi_ranges (mem_st s) = [tiny_dmi] \<and> lsc_enabled (mem_st s) \<and>
     tlb (mem_st s) = tlb_init \<and> lsc (mem_st s) = (\<lambda>_. \<lparr>tag_valid = 0, host_page_addr = (0, 0)\<rparr>)"

lemma user_leaf:
  assumes "sv32 M root ty True sumf mxr va = Some (a, p, pa)" "\<not> bit p 4"
  shows "sv32 M root ty False sumf' mxr' va = None"
  using assms by (auto simp: sv32_def Let_def pte_grants_def split: if_splits MemoryAccessType.splits)

lemma accessed_leaf: "bit p 6 \<Longrightarrow> ucast (p :: u32) AND ad_bits LOAD = ad_bits LOAD"
proof -
  have "ad_bits LOAD = 2 ^ 6" by (simp add: ad_bits_def PTE_A_def)
  then show "bit p 6 \<Longrightarrow> ucast p AND ad_bits LOAD = ad_bits LOAD"
    by (auto intro!: bit_eqI simp del: power_numeral simp: bit_and_iff bit_ucast_iff bit_exp_iff)
qed

lemma leaf_offset:
  assumes "sv32 M root ty sm sumf mxr va = Some (a, p, pa)"
  shows "pa AND 0xFFF = va AND 0xFFF"
proof -
  have "(push_bit 12 x OR (va AND mask 12)) AND mask 12 = va AND mask 12" "(push_bit 22 x OR (va AND mask 22)) AND mask 12 = va AND mask 12"
    for x :: u64
    by (auto intro!: bit_eqI simp: bit_simps)
  then show ?thesis
    using assms unfolding sv32_def Let_def page_masks by (auto split: if_splits)
qed

lemma raw_load_dmi:
  assumes "in_ram a n" "unlocked s" "dmi_ranges (mem_st s) = [tiny_dmi]"
  shows "raw_load_data (tiny_conn hs) n a s =
    (Inr (ram n a s), mem_upd (\<lambda>m. m\<lparr>last_access_was_dmi := True, last_dmi_page_host_addr := (0, a AND NOT 0xFFF)\<rparr>) s)"
proof -
  have "bus_free s" using assms(2) by (simp add: bus_free_def unlocked_def)
  then show ?thesis
    using in_ram_bounds [OF assms(1)] assms(3)
    by (simp add: raw_load_data_def monad_simps wait_free dmi_contains_def dmi_end_def tiny_dmi_def dmi_load_def
        get_mem_ptr_to_global_addr_def record_dmi_access_def ram_def)
qed

text \<open>An entry made for a load of a 32-bit address is hit by the next load of that address.\<close>

lemma hit_after_update:
  assumes "unat va < 2 ^ 32" "pa AND 0xFFF = va AND 0xFFF"
  shows "try_get_from_cache_load va (update_entry va (0, pa AND NOT 0xFFF) LSCACHE_LOAD_VALID_BITS m) = Some (0, pa)"
proof -
  have high: "k < 32" if "bit va k" for k
  proof -
    have "take_bit 32 va = va"
      using assms(1) by (intro word_unat_eq_iff [THEN iffD2]) (simp add: unsigned_take_bit_eq take_bit_nat_eq_self)
    then show ?thesis using that by (metis bit_take_bit_iff)
  qed
  have two: "(2 :: u32) = push_bit 1 1" by simp
  have "LSCACHE_TAG va OR 1 = ucast ((ucast (LSCACHE_TAG va OR 1) :: u32) AND NOT 2)"
    unfolding LSCACHE_TAG_def lsc_masks two
    using high by (intro bit_eqI) (auto simp: bit_simps)
  then show ?thesis
    using low_high [of pa] assms(2)
    by (simp add: try_get_from_cache_load_def update_entry_def LSCACHE_LOAD_VALID_BITS_def LSCACHE_OFF_def)
qed

lemma same_hart_caches:
  assumes "same_hart s s'"
  shows "tlb (mem_st s') = tlb (mem_st s)" "lsc_enabled (mem_st s') = lsc_enabled (mem_st s)"
proof -
  have "f (arch s) = f (arch s')" for f :: "hart_soc \<Rightarrow> 'a"
    using assms by (simp add: same_hart_def)
  from this [of "\<lambda>s. tlb (mem_st s)"] this [of "\<lambda>s. lsc_enabled (mem_st s)"]
  show "tlb (mem_st s') = tlb (mem_st s)" "lsc_enabled (mem_st s') = lsc_enabled (mem_st s)"
    by (simp_all add: arch_def)
qed

section \<open>The load in supervisor mode\<close>

text \<open>The walk for the supervisor succeeds, and the translation is recorded for supervisor mode only.\<close>

lemma supervisor_translation:
  assumes "prv s = SupervisorMode" "supervisor_page s va pa" "caching s"
  shows "\<exists>t. v2p (tiny_conn hs) va LOAD s = (Inr pa, t) \<and> csrs t = csrs s \<and> host (mem_st t) = host (mem_st s) \<and>
    unlocked t \<and> dmi_ranges (mem_st t) = [tiny_dmi] \<and> lsc_enabled (mem_st t) \<and> lsc (mem_st t) = lsc (mem_st s) \<and>
    tlb (mem_st t) 0 = tlb_init 0"
proof -
  note pg = assms(2) [unfolded supervisor_page_def] and ca = assms(3) [unfolded caching_def]
  have st: "bus_free s" "tiny_map s" using ca by (simp_all add: bus_free_def unlocked_def tiny_map_def)
  have mode: "access_mode LOAD s = SupervisorMode" "paged_access LOAD s"
    using pg assms(1) by (simp_all add: access_mode_def paged_access_def)
  have "walk_ends LOAD va
    (sv32 (ram_word s) (ucast (fget satp_ppn (csrs s csr_satp))) LOAD (SupervisorMode = SupervisorMode)
       (fget mstatus_sum (csrs s csr_mstatus) \<noteq> 0) (fget mstatus_mxr (csrs s csr_mstatus) \<noteq> 0) va) s
    (walk (tiny_conn hs) va LOAD SupervisorMode s)"
    by (rule walk_sv32) (use pg st in simp_all)
  then have "\<exists>t. walk (tiny_conn hs) va LOAD SupervisorMode s = (Inr pa, t) \<and> same_hart s t \<and> unlocked t \<and> host (mem_st t) = host (mem_st s)"
    using pg ca accessed_leaf by (cases "walk (tiny_conn hs) va LOAD SupervisorMode s") (auto simp: walk_ends_def)
  then obtain t where t: "walk (tiny_conn hs) va LOAD SupervisorMode s = (Inr pa, t)" "same_hart s t" "unlocked t"
      "host (mem_st t) = host (mem_st s)"
    by blast
  show ?thesis
    using ca t same_hart_fields [OF t(2)] same_hart_caches [OF t(2)] drop_not_minus_one [of va]
    by (simp add: v2p_def tiny_conn_def [of hs] translate_paged [OF mode(2)] mode(1) Let_def tlb_init_def monad_simps unlocked_def)
qed

lemma supervisor_load:
  assumes "prv s = SupervisorMode" "supervisor_page s va pa" "caching s"
  shows "\<exists>t. ls_load_word (lscache_full (cmi_if (tiny_conn hs))) va s = (Inr (ram_word s pa), t) \<and>
    try_get_from_cache_load va (mem_st t) = Some (0, pa) \<and> csrs t = csrs s \<and> host (mem_st t) = host (mem_st s) \<and> unlocked t \<and>
    dmi_ranges (mem_st t) = [tiny_dmi] \<and> tlb (mem_st t) 0 = tlb_init 0"
proof -
  note pg = assms(2) [unfolded supervisor_page_def] and ca = assms(3) [unfolded caching_def]
  obtain u where u: "v2p (tiny_conn hs) va LOAD s = (Inr pa, u)" "host (mem_st u) = host (mem_st s)" "unlocked u"
      "csrs u = csrs s" "dmi_ranges (mem_st u) = [tiny_dmi]" "lsc_enabled (mem_st u)" "tlb (mem_st u) 0 = tlb_init 0"
    using supervisor_translation [OF assms, of hs] by blast
  have off: "pa AND 0xFFF = va AND 0xFFF" using pg leaf_offset by blast
  have miss: "try_get_from_cache_load va (mem_st s) = None"
    using ca by (simp add: try_get_from_cache_load_def LSCACHE_LOAD_VALID_BITS_def or_odd)
  have ld: "raw_load_data (tiny_conn hs) 4 pa u =
    (Inr (ram 4 pa s), mem_upd (\<lambda>m. m\<lparr>last_access_was_dmi := True, last_dmi_page_host_addr := (0, pa AND NOT 0xFFF)\<rparr>) u)"
    using raw_load_dmi [of pa 4 u hs] pg u(2-5) by (simp add: ram_def)
  have hit: "try_get_from_cache_load va (update_entry va (0, pa AND NOT 0xFFF) LSCACHE_LOAD_VALID_BITS m) = Some (0, pa)" for m :: "soc cmi"
    using hit_after_update [OF _ off] pg by blast
  show ?thesis
    using ca u(2-) hit
    by (simp add: lscache_full_def lsc_load_def cmi_if_def load_data_def monad_simps miss u(1) ld unlocked_def
        try_add_to_cache_def cmi_get_last_dmi_page_host_addr_def ram_word_def)
      (simp add: update_entry_def)
qed

section \<open>The load in user mode\<close>

lemma user_fault:
  assumes "supervisor_page s va pa" "prv v = UserMode" "csrs v csr_satp = csrs s csr_satp"
    and "fget mstatus_mprv (csrs v csr_mstatus) = 0" "host (mem_st v) = host (mem_st s)" "unlocked v"
    and "dmi_ranges (mem_st v) = [tiny_dmi]" "tlb (mem_st v) 0 = tlb_init 0"
  shows "fst (load_word (cmi_if (tiny_conn hs)) va v) = Inl (page_fault LOAD va)"
proof -
  note pg = assms(1) [unfolded supervisor_page_def]
  have rw: "ram_word v = ram_word s" using assms(5) by (intro ext) (simp add: ram_word_def ram_def)
  have st: "bus_free v" "tiny_map v" "tables_in_ram (ucast (fget satp_ppn (csrs v csr_satp))) va v"
    using assms(3,6,7) pg rw by (simp_all add: bus_free_def unlocked_def tiny_map_def tables_in_ram_def)
  have mode: "access_mode LOAD v = UserMode" "paged_access LOAD v"
    using assms(2-4) pg by (simp_all add: access_mode_def paged_access_def)
  have "sv32 (ram_word v) (ucast (fget satp_ppn (csrs v csr_satp))) LOAD False sumf mxr va = None" for sumf mxr
    using pg unfolding rw assms(3) by (auto intro: user_leaf)
  then have "fst (walk (tiny_conn hs) va LOAD UserMode v) = Inl (page_fault LOAD va)"
    using walk_sv32 [of v UserMode va LOAD hs] st pg assms(3) by (simp add: walk_ends_def)
  then show ?thesis
    using assms(8) drop_not_minus_one [of va]
    by (cases "walk (tiny_conn hs) va LOAD UserMode v")
      (simp add: cmi_if_def load_data_def v2p_def tiny_conn_def [of hs] translate_paged [OF mode(2)] mode(1) Let_def
        tlb_init_def monad_simps)
qed

text \<open>
  C29. The load/store cache lets user mode read a page of the supervisor: its entries do not record the mode they were
  made in, and a change of mode does not flush them. After a load in supervisor mode from a page without the user bit,
  a load of the same address in user mode through the cache returns the word, where the same load past the cache is a
  load page fault.
\<close>

theorem lscache_bypasses_page_protection:
  assumes "prv s = SupervisorMode" "supervisor_page s va pa" "caching s"
  shows "\<exists>t. ls_load_word (lscache_full (cmi_if (tiny_conn hs))) va s = (Inr (ram_word s pa), t) \<and>
    csrs t = csrs s \<and>
    (\<forall>v. prv v = UserMode \<and> mem_st v = mem_st t \<and> csrs v csr_satp = csrs t csr_satp \<and>
         fget mstatus_mprv (csrs v csr_mstatus) = 0 \<longrightarrow>
       ls_load_word (lscache_full (cmi_if (tiny_conn hs))) va v = (Inr (ram_word s pa), v) \<and>
       fst (load_word (cmi_if (tiny_conn hs)) va v) = Inl (page_fault LOAD va))"
proof -
  obtain t where t: "ls_load_word (lscache_full (cmi_if (tiny_conn hs))) va s = (Inr (ram_word s pa), t)"
    "try_get_from_cache_load va (mem_st t) = Some (0, pa)" "csrs t = csrs s" "host (mem_st t) = host (mem_st s)" "unlocked t"
    "dmi_ranges (mem_st t) = [tiny_dmi]" "tlb (mem_st t) 0 = tlb_init 0"
    using supervisor_load [OF assms, of hs] by blast
  have "ls_load_word (lscache_full (cmi_if (tiny_conn hs))) va v = (Inr (ram_word s pa), v)" if "mem_st v = mem_st t" for v
    using that t(2,4,5) by (simp add: lscache_full_def lsc_load_def cmi_if_def monad_simps unlocked_def ram_word_def ram_def)
  then show ?thesis
    using t user_fault [OF assms(2), of _ hs] by (auto simp: unlocked_def)
qed

text \<open>A hart in supervisor mode whose page at \<^verbatim>\<open>0x400000\<close> is main memory at \<^verbatim>\<open>0x800000\<close>, with a word in it.\<close>

definition secret_hart :: hart_soc where
  "secret_hart = mem_upd (\<lambda>m. m\<lparr>host := host_write (0, 0x800100) [42, 0, 0, 0] (host m)\<rparr>) (paged_hart\<lparr>prv := SupervisorMode\<rparr>)"

lemma secret_hart_ram: "ram_word secret_hart 0x1004 = 0x2000CF" "ram_word secret_hart 0x800100 = 42"
proof -
  have "ram 4 0x1004 secret_hart = [0xCF, 0, 0x20, 0]" "ram 4 0x800100 secret_hart = [42, 0, 0, 0]"
    by (simp_all add: ram_def host_read_def secret_hart_def paged_hart_def host_write_def upt_rec)
  moreover have "bytes_to_word [0xCF, 0, 0x20, 0] = (0x2000CF :: u32)" "bytes_to_word [42, 0, 0, 0] = (42 :: u32)"
    by code_simp+
  ultimately show "ram_word secret_hart 0x1004 = 0x2000CF" "ram_word secret_hart 0x800100 = 42"
    by (simp_all add: ram_word_def)
qed

lemma secret_hart_ready: "prv secret_hart = SupervisorMode" "supervisor_page secret_hart 0x400100 0x800100" "caching secret_hart"
proof -
  have c: "csrs secret_hart csr_satp = 0x80000001" "csrs secret_hart csr_mstatus = csrs (tiny_init True True (\<lambda>_. 10000) 0) csr_mstatus"
    by (simp_all add: secret_hart_def paged_hart_simps)
  have p: "\<not> pte_pointer (0x2000CF :: u32)" "\<not> pte_invalid (0x2000CF :: u32)" "pte_grants LOAD True sumf mxr (0x2000CF :: u32)" for sumf mxr
    by (simp_all add: pte_pointer_def pte_invalid_def pte_grants_def)
  have "sv32 (ram_word secret_hart) 1 LOAD True sumf mxr 0x400100 = Some (0x1004, 0x2000CF, 0x800100)" for sumf mxr
    by (simp add: sv32_def secret_hart_ram p)
  moreover have "fget mstatus_mprv (csrs secret_hart csr_mstatus) = 0"
    by (simp add: c tiny_init_def iss_init_def ISS_CT_def csr_table_init_def fget_def)
  moreover have "tables_in_ram 1 0x400100 secret_hart"
    by (simp add: tables_in_ram_def secret_hart_ram p in_ram_def tiny_mem_size_def)
  ultimately show "supervisor_page secret_hart 0x400100 0x800100"
    by (simp add: supervisor_page_def c(1) fget_def in_ram_def tiny_mem_size_def)
  show "prv secret_hart = SupervisorMode" "caching secret_hart"
    by (simp_all add: secret_hart_def caching_def unlocked_def paged_hart_def tiny_init_def iss_init_def ISS_CT_def
        dmi_enable_def dmi_add_def cmi_init_def Let_def)
qed

theorem lscache_bypasses_page_protection_witness:
  "\<exists>t. ls_load_word (lscache_full (cmi_if (tiny_conn (\<lambda>_ _ _ _ _. ret 0)))) 0x400100 secret_hart = (Inr 42, t) \<and>
     fst (ls_load_word (lscache_full (cmi_if (tiny_conn (\<lambda>_ _ _ _ _. ret 0)))) 0x400100 (t\<lparr>prv := UserMode\<rparr>)) = Inr 42 \<and>
     fst (load_word (cmi_if (tiny_conn (\<lambda>_ _ _ _ _. ret 0))) 0x400100 (t\<lparr>prv := UserMode\<rparr>)) =
       Inl (SimulationTrap EXC_LOAD_PAGE_FAULT 0x400100)"
proof -
  let ?hs = "\<lambda>_ _ _ _ _. ret 0"
  obtain t where t: "ls_load_word (lscache_full (cmi_if (tiny_conn ?hs))) 0x400100 secret_hart = (Inr 42, t)"
      "csrs t = csrs secret_hart"
      "\<And>v. prv v = UserMode \<and> mem_st v = mem_st t \<and> csrs v csr_satp = csrs t csr_satp \<and>
         fget mstatus_mprv (csrs v csr_mstatus) = 0 \<Longrightarrow>
       ls_load_word (lscache_full (cmi_if (tiny_conn ?hs))) 0x400100 v = (Inr 42, v) \<and>
       fst (load_word (cmi_if (tiny_conn ?hs)) 0x400100 v) = Inl (page_fault LOAD 0x400100)"
    using lscache_bypasses_page_protection [OF secret_hart_ready, of ?hs] unfolding secret_hart_ram by blast
  have "fget mstatus_mprv (csrs secret_hart csr_mstatus) = 0"
    using secret_hart_ready(2) by (simp add: supervisor_page_def)
  then show ?thesis
    using t(1,2) t(3) [of "t\<lparr>prv := UserMode\<rparr>"] by (simp add: page_fault_def)
qed

end
