(* ===== verification/VP_DevProps.thy ===== *)
theory VP_DevProps
  imports VP_LSC
begin

text \<open>
  The interrupt controllers: when the timers and the software interrupt register of the two CLINTs raise an
  interrupt, and which interrupt the PLIC selects, signals and hands out.
\<close>

section \<open>The timer of the CLINT\<close>

text \<open>The bit of \<^verbatim>\<open>mip\<close> a device drives, and the passing of simulated time.\<close>

definition mtip :: "hart_soc \<Rightarrow> bool" where "mtip s \<longleftrightarrow> csr_fget csr_mip mip_mtip s = 1"


lemma irq_lines [simp]:
  "mtip (trigger_timer_interrupt s)" "\<not> mtip (clear_timer_interrupt s)"
  "mem_st (trigger_timer_interrupt s) = mem_st s" "mem_st (clear_timer_interrupt s) = mem_st s"
  by (simp_all add: mtip_def trigger_timer_interrupt_def clear_timer_interrupt_def maybe_interrupt_pending_def
      force_slow_path_def csr_fget_fset_same csr_fget_def csr_fset_def csr_upd_def bitfield_simps)

lemma dev_upd_simps [simp]:
  "devices (mem_st (dev_upd f s)) = f (dev s)" "csrs (dev_upd f s) = csrs s"
  "csr_fget c g (dev_upd f s) = csr_fget c g s" "mtip (dev_upd f s) = mtip s"
  by (simp_all add: dev_upd_def csr_fget_def mtip_def)

text \<open>The registers of a CLINT that has been constructed.\<close>

definition clint_wf :: "CLINT \<Rightarrow> bool" where
  "clint_wf c \<longleftrightarrow> length (rr_mem (regs_mtime c)) = 8 \<and> length (rr_mem (regs_mtimecmp c)) = 8 \<and>
     length (rr_mem (regs_msip c)) = 4 \<and> scaler c \<noteq> 0"

lemma set_mtime_simps [simp]:
  "clint_wf c \<Longrightarrow> mtime (set_mtime v c) = v" "mtimecmp (set_mtime v c) = mtimecmp c" "scaler (set_mtime v c) = scaler c"
  "irq_event (set_mtime v c) = irq_event c" "clint_wf c \<Longrightarrow> clint_wf (set_mtime v c)"
  by (simp_all add: clint_wf_def mtime_def mtimecmp_def set_mtime_def view_get_set_same)

lemma irq_event_upd_simps [simp]:
  "mtime (c\<lparr>irq_event := e\<rparr>) = mtime c" "mtimecmp (c\<lparr>irq_event := e\<rparr>) = mtimecmp c"
  "clint_wf (c\<lparr>irq_event := e\<rparr>) = clint_wf c"
  by (simp_all add: clint_wf_def mtime_def mtimecmp_def)

text \<open>What a pass of the timer thread does.\<close>

lemma clint_tick:
  assumes "clint_wf (clint (dev s))"
  shows "\<exists>s'. clint_update_and_get_mtime s = (Inr (mtime (clint (dev s'))), s') \<and>
     s' = clint_upd (\<lambda>_. clint (dev s')) s \<and> clint_wf (clint (dev s')) \<and>
     mtime (clint (dev s')) = max (mtime (clint (dev s))) (sim_now (dev s) div scaler (clint (dev s))) \<and>
     mtimecmp (clint (dev s')) = mtimecmp (clint (dev s)) \<and> scaler (clint (dev s')) = scaler (clint (dev s)) \<and>
     irq_event (clint (dev s')) = irq_event (clint (dev s))"
  using assms
  by (auto simp: clint_update_and_get_mtime_def monad_simps Let_def clint_upd_def max_def dev_upd_def not_less)

lemma clint_run_spec:
  assumes "clint_wf (clint (dev s))"
  defines "c \<equiv> clint (dev s)"
  defines "now \<equiv> max (mtime c) (sim_now (dev s) div scaler c)"
  shows "\<exists>s'. clint_run s = (Inr (), s') \<and> clint_wf (clint (dev s')) \<and> mtime (clint (dev s')) = now \<and>
     mtimecmp (clint (dev s')) = mtimecmp c \<and> scaler (clint (dev s')) = scaler c \<and> sim_now (dev s') = sim_now (dev s) \<and>
     mtip s' = (0 < mtimecmp c \<and> mtimecmp c \<le> now) \<and>
     irq_event (clint (dev s')) = (if 0 < mtimecmp c \<and> mtimecmp c < -1 \<and> now < mtimecmp c
       then Some (sim_now (dev s) + (mtimecmp c - now) * scaler c) else None)"
proof -
  let ?s0 = "clint_upd (\<lambda>c. c\<lparr>irq_event := None\<rparr>) s"
  obtain s1 where s1: "clint_update_and_get_mtime ?s0 = (Inr (mtime (clint (dev s1))), s1)"
      "s1 = clint_upd (\<lambda>_. clint (dev s1)) ?s0" "clint_wf (clint (dev s1))" "mtime (clint (dev s1)) = now"
      "mtimecmp (clint (dev s1)) = mtimecmp c" "scaler (clint (dev s1)) = scaler c" "irq_event (clint (dev s1)) = None"
    using clint_tick [of ?s0] assms by (auto simp: clint_upd_def)
  have "sim_now (dev s1) = sim_now (dev s)"
    using arg_cong [OF s1(2), of "\<lambda>s. sim_now (dev s)"] by (simp add: clint_upd_def)
  then show ?thesis
    using s1(1) s1(3-7)
    by (cases "0 < mtimecmp c \<and> mtimecmp c \<le> now"; cases "0 < mtimecmp c \<and> mtimecmp c < -1")
      (auto simp: clint_run_def monad_simps clint_upd_def sc_notify_def whenM_def algebra_simps)
qed

text \<open>
  One pass of the timer thread of the CLINT updates \<^verbatim>\<open>mtime\<close> to the simulated time (it never runs backwards),
  drives the timer interrupt line with \<^verbatim>\<open>mtimecmp > 0 && mtime >= mtimecmp\<close>, and, exactly when the timer is armed
  and has not expired, schedules a wake-up after the remaining ticks.
\<close>

theorem clint_timer_pass:
  assumes "clint_wf (clint (dev s))" "c = clint (dev s)" "now = max (mtime c) (sim_now (dev s) div scaler c)"
  shows "\<exists>s'. clint_run s = (Inr (), s') \<and> mtime (clint (dev s')) = now \<and> mtimecmp (clint (dev s')) = mtimecmp c \<and>
     mtip s' = (0 < mtimecmp c \<and> mtimecmp c \<le> now) \<and>
     irq_event (clint (dev s')) = (if 0 < mtimecmp c \<and> mtimecmp c < -1 \<and> now < mtimecmp c
       then Some (sim_now (dev s) + (mtimecmp c - now) * scaler c) else None)"
  using clint_run_spec [OF assms(1)] by (auto simp: assms(2,3))

text \<open>A timer armed for tick 5 at time 0; a tick lasts one microsecond.\<close>

definition armed_soc :: hart_soc where
  "armed_soc = clint_upd (\<lambda>c. c\<lparr>regs_mtimecmp := view_set 8 0 (5 :: u64) (regs_mtimecmp c)\<rparr>)
     (tiny_init True True (\<lambda>_. 10000) 0)"

lemma boot_devices [simp]: "dev (tiny_init d c t e) = soc_init"
  by (simp add: tiny_init_def iss_init_def ISS_CT_def dmi_enable_def dmi_add_def cmi_init_def Let_def)

lemma bytes_zero [simp]: "bytes_to_word (replicate n 0) = 0"
  by (induction n) simp_all

lemma fresh_view: "rr_mem r = replicate k 0 \<Longrightarrow> view_get n i r = 0"
  by (simp add: view_get_def get_bytes_def)

lemma armed_soc_simps [simp]:
  "clint_wf (clint (dev armed_soc))" "mtimecmp (clint (dev armed_soc)) = 5" "mtime (clint (dev armed_soc)) = 0"
  "sim_now (dev armed_soc) = 0" "scaler (clint (dev armed_soc)) = 1000000"
  by (simp_all add: armed_soc_def clint_upd_def soc_init_def CLINT_new_def RegisterRange_new_def clint_wf_def mtimecmp_def
      view_get_set_same mtime_def fresh_view)

theorem clint_timer_pass_witness:
  "\<exists>s'. clint_run armed_soc = (Inr (), s') \<and> \<not> mtip s' \<and> irq_event (clint (dev s')) = Some 5000000"
  using clint_timer_pass [of armed_soc, OF _ refl refl] by auto




section \<open>Bus transactions with registers\<close>

text \<open>Two register ranges that differ at most in their contents.\<close>

definition same_shape :: "RegisterRange \<Rightarrow> RegisterRange \<Rightarrow> bool" where
  "same_shape r r' \<longleftrightarrow> rr_start r = rr_start r' \<and> rr_end r = rr_end r' \<and> length (rr_mem r) = length (rr_mem r') \<and>
     rr_readonly r = rr_readonly r' \<and> rr_alignment r = rr_alignment r'"

lemma same_shape_refl [simp]: "same_shape r r"
  by (simp add: same_shape_def)

lemma same_shape_set [simp]: "n * i + n \<le> length (rr_mem r) \<Longrightarrow> same_shape (view_set n i v r) r' = same_shape r r'"
  by (simp add: same_shape_def)

text \<open>The ranges of a \<^verbatim>\<open>RealCLINT\<close> that has been constructed.\<close>

definition real_clint_wf :: "RealCLINT \<Rightarrow> bool" where
  "real_clint_wf c \<longleftrightarrow> same_shape (rc_regs_mtime c) (rc_regs_mtime RealCLINT_new) \<and>
     same_shape (rc_regs_mtimecmp c) (rc_regs_mtimecmp RealCLINT_new) \<and>
     same_shape (rc_regs_msip c) (rc_regs_msip RealCLINT_new)"




lemma mtip_trigger_upd [simp]: "mtip (real_clint_upd f s) = mtip s"
  by (simp add: real_clint_upd_def)

lemma dev_real_clint_upd [simp]: "dev (real_clint_upd f s) = (dev s)\<lparr>real_clint := f (real_clint (dev s))\<rparr>"
  by (simp add: real_clint_upd_def)




section \<open>Software interrupts\<close>

definition msip_line :: "hart_soc \<Rightarrow> bool" where "msip_line s \<longleftrightarrow> csr_fget csr_mip mip_msip s = 1"

lemma msip_lines [simp]:
  "msip_line (trigger_software_interrupt s)" "\<not> msip_line (clear_software_interrupt s)"
  "mem_st (trigger_software_interrupt s) = mem_st s" "mem_st (clear_software_interrupt s) = mem_st s"
  "mtip (trigger_software_interrupt s) = mtip s" "mtip (clear_software_interrupt s) = mtip s"
  by (simp_all add: mtip_def msip_line_def trigger_software_interrupt_def clear_software_interrupt_def
      maybe_interrupt_pending_def force_slow_path_def csr_fget_def csr_fset_def csr_upd_def bitfield_simps fdisj_def)

lemma mask_one: "(v :: u32) AND 1 \<noteq> 0 \<longleftrightarrow> odd v" "odd (v AND 1) = odd v"
  by (simp_all add: and_one_eq one_and_eq odd_iff_mod_2_eq_one)

text \<open>
  A word written to \<^verbatim>\<open>msip\<close> over the bus: the register keeps bit 0 only, the software interrupt line of the hart is
  that bit, and the timer line is untouched.
\<close>

theorem real_clint_msip_write:
  assumes "real_clint_wf (real_clint (dev s))"
  shows "\<exists>s1. real_clint_transport True 0 (word_to_bytes 4 (v :: u32)) s = (Inr (False, word_to_bytes 4 v), s1) \<and>
     view_get 4 0 (rc_regs_msip (real_clint (dev s1))) = v AND 1 \<and> msip_line s1 = odd v \<and> mtip s1 = mtip s"
proof -
  let ?r = "rc_regs_msip (real_clint (dev s))" and ?c = "rc_regs_mtimecmp (real_clint (dev s))"
  let ?s = "real_clint_upd (\<lambda>c. c\<lparr>rc_regs_msip := view_set 4 0 v (rc_regs_msip c)\<rparr>) s"
  have shape: "rr_start ?r = 0" "rr_end ?r = 3" "length (rr_mem ?r) = 4" "\<not> rr_readonly ?r" "rr_alignment ?r = 4"
    "rr_start ?c = 0x4000"
    using assms by (simp_all add: real_clint_wf_def same_shape_def RealCLINT_new_def RegisterRange_new_def)
  have "real_clint_transport True 0 (word_to_bytes 4 v) s =
      (case real_post_write_msip 0 4 ?s of (Inl e, t) \<Rightarrow> (Inl e, t) | (Inr _, t) \<Rightarrow> (Inr (False, word_to_bytes 4 v), t))"
    using shape
    by (simp add: real_clint_transport_def mm_transport_def real_clint_ranges_def plain_range_def monad_simps rr_process_def
        rr_contains_def rr_write_def rr_to_local_def rr_assert_range_def assertM_def Let_def view_set_def real_clint_upd_def
        split: sum.splits prod.splits)
  then show ?thesis
    using shape by (simp add: real_post_write_msip_def monad_simps assertM_def view_get_set_same mask_one real_clint_upd_def)
qed

theorem real_clint_msip_write_witness:
  "\<exists>s1. real_clint_transport True 0 (word_to_bytes 4 (0xFF :: u32)) (tiny_init True True (\<lambda>_. 10000) 0) =
       (Inr (False, word_to_bytes 4 (0xFF :: u32)), s1) \<and> msip_line s1"
proof -
  have "real_clint_wf (real_clint soc_init)"
    by (simp add: soc_init_def real_clint_wf_def)
  then show ?thesis
    using real_clint_msip_write [of "tiny_init True True (\<lambda>_. 10000) 0" "0xFF"] by auto
qed

section \<open>The PLIC\<close>

text \<open>The registers of a PLIC that has been constructed, with parameters for which its register ranges do not overlap.\<close>

definition plic_wf :: "FE310_PLIC \<Rightarrow> bool" where
  "plic_wf p \<longleftrightarrow> (\<exists>w. 1 \<le> NumberInterrupts p \<and> NumberInterrupts p \<le> 1023 \<and> NumberInterrupts p \<le> 32 * w \<and> w \<le> 1024 \<and>
     (let q = FE310_PLIC_new (NumberInterrupts p) w 0 0 in
      same_shape (regs_interrupt_priorities p) (regs_interrupt_priorities q) \<and>
      same_shape (regs_pending_interrupts p) (regs_pending_interrupts q) \<and>
      same_shape (regs_hart_enabled_interrupts p) (regs_hart_enabled_interrupts q) \<and>
      same_shape (regs_hart_config p) (regs_hart_config q)))"

lemma plic_wfD:
  assumes "plic_wf p"
  shows "1 \<le> NumberInterrupts p" "NumberInterrupts p \<le> 1023"
    "i < NumberInterrupts p \<Longrightarrow> 4 * (i div 32) + 4 \<le> length (rr_mem (regs_pending_interrupts p))"
    "length (rr_mem (regs_interrupt_priorities p)) = 4 * (NumberInterrupts p + 1)"
    "rr_start (regs_hart_config p) = 0x200000" "rr_end (regs_hart_config p) = 0x200007"
    "length (rr_mem (regs_hart_config p)) = 8" "\<not> rr_readonly (regs_hart_config p)" "rr_alignment (regs_hart_config p) = 4"
    "rr_end (regs_interrupt_priorities p) \<le> 0xFFF" "rr_end (regs_pending_interrupts p) \<le> 0x1FFF"
    "rr_end (regs_hart_enabled_interrupts p) \<le> 0x2FFF"
proof -
  obtain w where w: "1 \<le> NumberInterrupts p" "NumberInterrupts p \<le> 1023" "NumberInterrupts p \<le> 32 * w" "w \<le> 1024"
      "same_shape (regs_interrupt_priorities p) (RegisterRange_new 0x0 (4 * (of_nat (NumberInterrupts p) + 1)))"
      "same_shape (regs_pending_interrupts p) ((RegisterRange_new 0x1000 (4 * of_nat w))\<lparr>rr_readonly := True\<rparr>)"
      "same_shape (regs_hart_enabled_interrupts p) (RegisterRange_new 0x2000 (4 * of_nat w))"
      "same_shape (regs_hart_config p) ((RegisterRange_new 0x200000 8)\<lparr>rr_alignment := 4\<rparr>)"
    using assms by (auto simp: plic_wf_def FE310_PLIC_new_def Let_def)
  have u: "unat (of_nat k :: u64) = k" if "k < 2 ^ 64" for k
    using that by (simp add: unsigned_of_nat take_bit_nat_eq_self)
  have n: "unat (4 * (of_nat (NumberInterrupts p) + 1) :: u64) = 4 * (NumberInterrupts p + 1)"
    using w(2) u [of "4 * (NumberInterrupts p + 1)"] by (simp add: add.commute)
  have m: "unat (4 * of_nat w :: u64) = 4 * w"
    using w(4) u [of "4 * w"] by simp
  have e: "unat (start + l - 1 :: u64) = unat start + unat l - 1" if "unat start \<le> 0x2000" "1 \<le> unat l" "unat l \<le> 4096" for start l
    using that by (subst unat_sub) (auto simp: unat_word_ariths word_le_nat_alt)
  show "1 \<le> NumberInterrupts p" "NumberInterrupts p \<le> 1023" by (fact w)+
  show "4 * (i div 32) + 4 \<le> length (rr_mem (regs_pending_interrupts p))" if "i < NumberInterrupts p"
  proof -
    have "i div 32 < w" using w(3) that by (simp add: div_less_iff_less_mult mult.commute)
    then show ?thesis using w(6) m by (simp add: same_shape_def RegisterRange_new_def)
  qed
  show "length (rr_mem (regs_interrupt_priorities p)) = 4 * (NumberInterrupts p + 1)"
    using w(5) n by (simp add: same_shape_def RegisterRange_new_def)
  show "rr_start (regs_hart_config p) = 0x200000" "rr_end (regs_hart_config p) = 0x200007"
    "length (rr_mem (regs_hart_config p)) = 8" "\<not> rr_readonly (regs_hart_config p)" "rr_alignment (regs_hart_config p) = 4"
    using w(8) by (simp_all add: same_shape_def RegisterRange_new_def)
  show "rr_end (regs_interrupt_priorities p) \<le> 0xFFF"
    using w(1,2,5) n e [of 0 "4 * (of_nat (NumberInterrupts p) + 1)"]
    by (simp add: same_shape_def RegisterRange_new_def word_le_nat_alt)
  show "rr_end (regs_pending_interrupts p) \<le> 0x1FFF" "rr_end (regs_hart_enabled_interrupts p) \<le> 0x2FFF"
    using w(1,3,4,6,7) m e [of "0x1000" "4 * of_nat w"] e [of "0x2000" "4 * of_nat w"]
    by (simp_all add: same_shape_def RegisterRange_new_def word_le_nat_alt)
qed

lemma plic_wf_views:
  assumes "plic_wf p"
  shows "i < NumberInterrupts p \<Longrightarrow> pending_index_ok i p" "next_in_range p"
proof -
  have *: "pending_index_ok j p \<and> j < view_size 4 (regs_interrupt_priorities p)" if "j < NumberInterrupts p" for j
    using plic_wfD(3) [OF assms that] plic_wfD(4) [OF assms] that by (simp add: pending_index_ok_def view_size_def)
  then show "i < NumberInterrupts p \<Longrightarrow> pending_index_ok i p" by blast
  show "next_in_range p" using * by (auto simp: next_in_range_def)
qed

lemma next_pending_bound: "plic_wf p \<Longrightarrow> next_pending p thr < NumberInterrupts p"
  using next_pending_wins [of p thr] plic_wfD(1) [of p] by (auto simp: wins_def candidate_def split: if_splits)

lemma pending_bit:
  "irq_pending p i = bit (pending_word (i div 32) p) (i mod 32)" "irq_enabled p i = bit (enabled_word 0 (i div 32) p) (i mod 32)"
  by (simp_all add: irq_pending_def irq_enabled_def bit_iff_and_push_bit_not_eq_0)

text \<open>Updates of the pending bits.\<close>

lemma irq_pending_set_word:
  assumes "plic_wf p" "i < NumberInterrupts p"
  shows "irq_pending (set_pending_word (i div 32) v p) j =
    (if i div 32 = j div 32 then bit v (j mod 32) else irq_pending p j)"
  using plic_wfD(3) [OF assms]
  by (auto simp: pending_bit pending_word_def set_pending_word_def view_get_set_same view_get_set_other)

lemma bit_clear: "bit ((x :: u32) AND NOT (push_bit n 1)) k \<longleftrightarrow> bit x k \<and> k \<noteq> n"
  by (auto simp: bit_simps dest: bit_imp_le_length)

lemma plic_wf_set_word:
  assumes "plic_wf p" "i < NumberInterrupts p"
  shows "plic_wf (set_pending_word (i div 32) v p)"
  using assms(1) plic_wfD(3) [OF assms] by (simp add: plic_wf_def set_pending_word_def FE310_PLIC_new_def Let_def)

lemma plic_upd_simps [simp]:
  "dev (plic_upd f s) = (dev s)\<lparr>plic := f (plic (dev s))\<rparr>" "csrs (plic_upd f s) = csrs s"
  by (simp_all add: plic_upd_def)

text \<open>Reading the claim register over the bus.\<close>

lemma plic_claim_read:
  assumes "plic_wf (plic (dev s))" "length data = 4"
  defines "p \<equiv> plic (dev s)"
  defines "i \<equiv> next_pending p False"
  shows "plic_transport False 0x200004 data s = (Inr (False, word_to_bytes 4 (of_nat i :: u32)),
    plic_upd (\<lambda>p. set_pending_word (i div 32) (pending_word (i div 32) p AND NOT (push_bit (i mod 32) 1))
      (p\<lparr>regs_hart_config := view_set 4 1 (of_nat i :: u32) (regs_hart_config p)\<rparr>)) s)"
proof -
  have wf: "plic_wf p" using assms(1) by (simp add: p_def)
  note d = plic_wfD [OF wf]
  have outside: "\<not> rr_contains r 0x200004" if "rr_end r \<le> 0x2FFF" for r
    using that by (auto simp: rr_contains_def dest: order.trans)
  have "rr_end (regs_interrupt_priorities p) \<le> 0x2FFF" "rr_end (regs_pending_interrupts p) \<le> 0x2FFF"
    using d(10,11) by (auto intro: order.trans)
  then have miss: "\<not> rr_contains (regs_interrupt_priorities p) 0x200004" "\<not> rr_contains (regs_pending_interrupts p) 0x200004"
      "\<not> rr_contains (regs_hart_enabled_interrupts p) 0x200004" "rr_contains (regs_hart_config p) 0x200004"
    using d(5,6,12) by (simp_all add: outside) (simp add: rr_contains_def)
  have i: "i < NumberInterrupts p" using next_pending_bound [OF wf] by (simp add: i_def)
  let ?r = "view_set 4 1 (of_nat i :: u32) (regs_hart_config p)"
  have cfg: "get_bytes 4 4 (rr_mem ?r) = word_to_bytes 4 (of_nat i :: u32)"
    using get_put_bytes_same [of 4 "word_to_bytes 4 (of_nat i :: u32)" "rr_mem (regs_hart_config p)"] d(7)
    by (simp add: view_set_def)
  have pre: "pre_read_hart_config 4 4 s = (Inr True,
    plic_upd (\<lambda>p. set_pending_word (i div 32) (pending_word (i div 32) p AND NOT (push_bit (i mod 32) 1))
      (p\<lparr>regs_hart_config := view_set 4 1 (of_nat i :: u32) (regs_hart_config p)\<rparr>)) s)"
    using plic_wf_views [OF wf] i d(7)
    by (simp add: pre_read_hart_config_def monad_simps assertM_def Let_def hart_get_next_pending_interrupt_def
        clear_pending_interrupt_def p_def [symmetric] i_def [symmetric] view_size_def pending_index_ok_def
        plic_upd_def dev_upd_def pending_word_def)
  show ?thesis
    using miss d(5-9) cfg pre assms(2) unfolding p_def
    by (simp add: plic_transport_def mm_transport_def plic_ranges_def plain_range_def monad_simps rr_process_def
        rr_read_def rr_to_local_def rr_assert_range_def assertM_def Let_def set_pending_word_def)
qed

text \<open>
  C36. Claiming an interrupt: a read of the claim register over the bus returns the pending and enabled interrupt
  with the highest priority (the lowest number among equals), or 0 when there is none; the pending bit of the returned
  interrupt is cleared, those of all others, the priorities and the enabled interrupts stay.
\<close>

theorem plic_claim:
  assumes "plic_wf (plic (dev s))" "length data = 4" "p = plic (dev s)"
  shows "\<exists>i s'. plic_transport False 0x200004 data s = (Inr (False, word_to_bytes 4 (of_nat i :: u32)), s') \<and>
     (if i = 0 then \<forall>j. \<not> candidate p False j else wins p False i) \<and>
     (\<forall>j. irq_pending (plic (dev s')) j = (irq_pending p j \<and> j \<noteq> i)) \<and> plic_wf (plic (dev s')) \<and>
     regs_interrupt_priorities (plic (dev s')) = regs_interrupt_priorities p \<and>
     regs_hart_enabled_interrupts (plic (dev s')) = regs_hart_enabled_interrupts p \<and> csrs s' = csrs s"
proof -
  let ?i = "next_pending p False"
  let ?q = "p\<lparr>regs_hart_config := view_set 4 1 (of_nat ?i :: u32) (regs_hart_config p)\<rparr>"
  let ?p = "set_pending_word (?i div 32) (pending_word (?i div 32) p AND NOT (push_bit (?i mod 32) 1)) ?q"
  have wf: "plic_wf p" "?i < NumberInterrupts ?q"
    using assms(1,3) next_pending_bound [of p] by simp_all
  have q: "plic_wf ?q" "pending_word w ?q = pending_word w p" "irq_pending ?q j = irq_pending p j" for w j
    using wf(1) plic_wfD(7) [OF wf(1)]
    by (simp_all add: plic_wf_def FE310_PLIC_new_def Let_def pending_word_def irq_pending_def)
  have "(?i div 32 = j div 32 \<and> j mod 32 = ?i mod 32) = (j = ?i)" for j
    by (metis div_mult_mod_eq)
  then have "irq_pending ?p j = (irq_pending p j \<and> j \<noteq> ?i)" for j
    unfolding irq_pending_set_word [OF q(1) wf(2)] bit_clear q(2,3) by (auto simp: pending_bit)
  moreover have "if ?i = 0 then \<forall>j. \<not> candidate p False j else wins p False ?i"
    by (rule next_pending_wins [OF plic_wfD(1) [OF wf(1)]])
  moreover obtain s' where "plic_transport False 0x200004 data s = (Inr (False, word_to_bytes 4 (of_nat ?i :: u32)), s')"
      "plic (dev s') = ?p" "csrs s' = csrs s"
    using plic_claim_read [OF assms(1,2)] assms(3) by simp
  moreover have "plic_wf ?p" by (rule plic_wf_set_word [OF q(1) wf(2)])
  moreover have "regs_interrupt_priorities ?p = regs_interrupt_priorities p"
      "regs_hart_enabled_interrupts ?p = regs_hart_enabled_interrupts p"
    by (simp_all add: set_pending_word_def)
  ultimately show ?thesis by (intro exI [of _ ?i] exI [of _ s'] conjI allI) (simp_all only: simp_thms)
qed

text \<open>Interrupt 5, with priority 3, is enabled in the PLIC of the booted platform.\<close>

definition enabled_soc :: hart_soc where
  "enabled_soc = plic_upd (\<lambda>p. p
     \<lparr>regs_interrupt_priorities := view_set 4 5 (3 :: u32) (regs_interrupt_priorities p),
      regs_hart_enabled_interrupts := view_set 4 0 (0x20 :: u32) (regs_hart_enabled_interrupts p)\<rparr>)
     (tiny_init True True (\<lambda>_. 10000) 0)"

lemma plic_wf_new: "plic_wf (FE310_PLIC_new 64 96 32 MachineMode)"
  unfolding plic_wf_def by (intro exI [of _ 96]) (simp add: FE310_PLIC_new_def Let_def)

lemma enabled_soc_simps [simp]:
  "plic_wf (plic (dev enabled_soc))" "NumberInterrupts (plic (dev enabled_soc)) = 64"
  "irq_level (plic (dev enabled_soc)) = MachineMode" "\<not> hart_eip (plic (dev enabled_soc))"
  "priority_of 5 (plic (dev enabled_soc)) = 3" "priority_threshold (plic (dev enabled_soc)) = 0"
  "irq_enabled (plic (dev enabled_soc)) j = (j = 5)" "pending_word j (plic (dev enabled_soc)) = 0"
proof -
  let ?n = "FE310_PLIC_new 64 96 32 MachineMode"
  have n: "length (rr_mem (regs_interrupt_priorities ?n)) = 260" "length (rr_mem (regs_hart_enabled_interrupts ?n)) = 384"
    by (simp_all add: FE310_PLIC_new_def RegisterRange_new_def)
  have p: "plic (dev enabled_soc) = ?n
     \<lparr>regs_interrupt_priorities := view_set 4 5 (3 :: u32) (regs_interrupt_priorities ?n),
      regs_hart_enabled_interrupts := view_set 4 0 (0x20 :: u32) (regs_hart_enabled_interrupts ?n)\<rparr>"
    by (simp add: enabled_soc_def soc_init_def)
  show "plic_wf (plic (dev enabled_soc))"
    using plic_wf_new n unfolding p plic_wf_def by (simp add: FE310_PLIC_new_def Let_def)
  show "NumberInterrupts (plic (dev enabled_soc)) = 64" "irq_level (plic (dev enabled_soc)) = MachineMode"
    "\<not> hart_eip (plic (dev enabled_soc))"
    unfolding p by (simp_all add: FE310_PLIC_new_def)
  show "priority_of 5 (plic (dev enabled_soc)) = 3"
    unfolding p using n by (simp add: priority_of_def view_get_set_same)
  show "priority_threshold (plic (dev enabled_soc)) = 0" "pending_word j (plic (dev enabled_soc)) = 0"
    unfolding p by (simp_all add: priority_threshold_def pending_word_def FE310_PLIC_new_def RegisterRange_new_def fresh_view)
  have "enabled_word 0 w (plic (dev enabled_soc)) = (if w = 0 then 0x20 else 0)" for w
    unfolding p using n
    by (simp add: enabled_word_def view_get_set_same view_get_set_other)
      (simp add: FE310_PLIC_new_def RegisterRange_new_def fresh_view)
  moreover have "bit (0x20 :: u32) k \<longleftrightarrow> k = 5" for k
    using bit_exp_iff [of 5 k, where ?'a = "32 word"] by auto
  moreover have "j div 32 = 0 \<and> j mod 32 = 5 \<longleftrightarrow> j = 5" by presburger
  ultimately show "irq_enabled (plic (dev enabled_soc)) j = (j = 5)"
    unfolding pending_bit by auto
qed

definition pending_soc :: hart_soc where
  "pending_soc = plic_upd (set_pending_word 0 0x20) enabled_soc"

theorem plic_claim_witness:
  "\<exists>s'. plic_transport False 0x200004 [0, 0, 0, 0] pending_soc = (Inr (False, [5, 0, 0, 0]), s') \<and>
     \<not> irq_pending (plic (dev s')) 5"
proof -
  let ?p = "plic (dev pending_soc)"
  have e: "plic_wf (plic (dev enabled_soc))" "(5 :: nat) < NumberInterrupts (plic (dev enabled_soc))" by simp_all
  have p: "?p = set_pending_word 0 0x20 (plic (dev enabled_soc))" by (simp add: pending_soc_def)
  have wf: "plic_wf ?p" using plic_wf_set_word [OF e, of "0x20"] by (simp add: p)
  have five: "candidate ?p False j \<longleftrightarrow> j = 5" for j
    using irq_pending_set_word [OF e, of "0x20" j] enabled_soc_simps(5) enabled_soc_simps(7) [of j]
    by (auto simp: p candidate_def set_pending_word_def irq_enabled_def enabled_word_def priority_of_def)
  have w: "word_to_bytes 4 (of_nat 5 :: u32) = [5, 0, 0, 0]"
    by code_simp
  show ?thesis
    using plic_claim [OF wf, of "[0, 0, 0, 0]", OF _ refl] five w
    by (auto simp: wins_def split: if_splits)
qed

section \<open>Delivery of external interrupts\<close>

text \<open>The external interrupt line of a privilege level: \<^verbatim>\<open>mip.ueip\<close>, \<^verbatim>\<open>mip.seip\<close> or \<^verbatim>\<open>mip.meip\<close>.\<close>

definition external_line :: "u32 \<Rightarrow> hart_soc \<Rightarrow> bool" where
  "external_line level s \<longleftrightarrow> csr_fget csr_mip
     (if level = UserMode then mip_ueip else if level = SupervisorMode then mip_seip else mip_meip) s = 1"

lemma external_line_csrs: "csrs s' = csrs s \<Longrightarrow> external_line level s' = external_line level s"
  by (simp add: external_line_def csr_fget_def)

lemma external_line_triggered:
  "level \<in> {UserMode, SupervisorMode, MachineMode} \<Longrightarrow> external_line level (trigger_external_interrupt level s)"
  by (auto simp: external_line_def trigger_external_interrupt_def maybe_interrupt_pending_def force_slow_path_def
      csr_fget_fset_same csr_fget_def csr_fset_def csr_upd_def bitfield_simps)

lemma plic_flags_frame [simp]:
  "irq_enabled (p\<lparr>e_run := b\<rparr>) = irq_enabled p" "irq_pending (p\<lparr>e_run := b\<rparr>) = irq_pending p"
  "priority_of i (p\<lparr>e_run := b\<rparr>) = priority_of i p" "priority_threshold (p\<lparr>e_run := b\<rparr>) = priority_threshold p"
  "pending_index_ok i (p\<lparr>e_run := b\<rparr>) = pending_index_ok i p" "plic_wf (p\<lparr>e_run := b\<rparr>) = plic_wf p"
  "plic_wf (p\<lparr>hart_eip := b\<rparr>) = plic_wf p"
  by (simp_all add: fun_eq_iff irq_enabled_def irq_pending_def pending_word_def enabled_word_def priority_of_def
      priority_threshold_def pending_index_ok_def plic_wf_def)

lemma next_step_frame [simp]: "next_step (p\<lparr>e_run := b\<rparr>) t = next_step p t"
  by (intro ext) (auto simp: next_step_def)

lemma next_pending_frame [simp]:
  "next_in_range (p\<lparr>e_run := b\<rparr>) = next_in_range p" "next_pending (p\<lparr>e_run := b\<rparr>) t = next_pending p t"
  "candidate (p\<lparr>e_run := b\<rparr>) t = candidate p t"
  by (simp_all add: fun_eq_iff next_in_range_def next_pending_def candidate_def)

lemma trigger_external_frame [simp]:
  "mem_st (trigger_external_interrupt l s) = mem_st s" "mem_st (clear_external_interrupt l s) = mem_st s"
  by (simp_all add: trigger_external_interrupt_def clear_external_interrupt_def maybe_interrupt_pending_def force_slow_path_def)

lemma plic_run_waits: "\<not> e_run (plic (dev s)) \<Longrightarrow> plic_run s = (Inr (), s)"
  by (simp add: plic_run_def monad_simps whenM_def)

lemma plic_run_spec:
  assumes "plic_wf (plic (dev s))" "irq_level (plic (dev s)) \<in> {UserMode, SupervisorMode, MachineMode}"
    and "e_run (plic (dev s))" "hart_eip (plic (dev s)) \<longrightarrow> external_line (irq_level (plic (dev s))) s"
    and "candidate (plic (dev s)) True i"
  shows "\<exists>s'. plic_run s = (Inr (), s') \<and> external_line (irq_level (plic (dev s))) s' \<and>
     plic (dev s') = (plic (dev s))\<lparr>e_run := False, hart_eip := True\<rparr>"
proof (cases "hart_eip (plic (dev s))")
  case True
  then have "(plic (dev s))\<lparr>e_run := False, hart_eip := True\<rparr> = (plic (dev s))\<lparr>e_run := False\<rparr>" by simp
  with True show ?thesis
    using assms(3,4) external_line_csrs [of "plic_upd (\<lambda>p. p\<lparr>e_run := False\<rparr>) s" s]
    by (simp add: plic_run_def monad_simps whenM_def)
next
  case False
  have "next_pending (plic (dev s)) True > 0"
    using next_pending_wins [OF plic_wfD(1) [OF assms(1)], of True] assms(5) by (auto split: if_splits)
  with False show ?thesis
    using assms(3) plic_wf_views(2) [OF assms(1)]
      external_line_triggered [OF assms(2), of "plic_upd (\<lambda>p. p\<lparr>hart_eip := True\<rparr>) (plic_upd (\<lambda>p. p\<lparr>e_run := False\<rparr>) s)"]
    by (simp add: plic_run_def monad_simps hart_has_pending_enabled_interrupts_def hart_get_next_pending_interrupt_def
        assertM_def whenM_def)
qed

lemma gateway_spec:
  assumes "plic_wf (plic (dev s))" "0 < irq" "irq < NumberInterrupts (plic (dev s))"
  shows "\<exists>s'. gateway_trigger_interrupt irq s = (Inr (), s') \<and> csrs s' = csrs s \<and>
     plic (dev s') = (set_pending_word (irq div 32) (pending_word (irq div 32) (plic (dev s)) OR push_bit (irq mod 32) 1)
        (plic (dev s)))\<lparr>e_run := True\<rparr>"
  using assms(2,3) plic_wf_views(1) [OF assms(1,3)]
  by (simp add: gateway_trigger_interrupt_def monad_simps assertM_def)

lemma wins_max: "wins p t i \<Longrightarrow> candidate p t j \<Longrightarrow> priority_of j p \<le> priority_of i p"
  by (auto simp: wins_def order.order_iff_strict)

lemma set_pending_frame [simp]:
  "irq_enabled (set_pending_word w v p) = irq_enabled p" "priority_of i (set_pending_word w v p) = priority_of i p"
  "priority_threshold (set_pending_word w v p) = priority_threshold p"
  "NumberInterrupts (set_pending_word w v p) = NumberInterrupts p"
  "hart_eip (set_pending_word w v p) = hart_eip p" "irq_level (set_pending_word w v p) = irq_level p"
  by (simp_all add: fun_eq_iff set_pending_word_def irq_enabled_def enabled_word_def priority_of_def priority_threshold_def)

text \<open>
  C37. Delivery: an enabled interrupt whose priority exceeds the threshold, raised at the gateway, notifies the
  sleeping thread of the PLIC, and the pass the thread then makes leaves the external interrupt line raised for the
  privilege level the PLIC is configured for, with the notification consumed and the line recorded in
  \<^verbatim>\<open>hart_eip\<close>; the claim that follows returns a pending and enabled interrupt of at least that priority. Assumed are the register
  layout of the PLIC, a level that the \<^verbatim>\<open>switch\<close> of \<^verbatim>\<open>trigger_external_interrupt\<close> handles, and that
  the line is up where the PLIC has recorded it as raised before (the thread does not raise it a second time).
\<close>

theorem plic_delivers:
  assumes "plic_wf (plic (dev s))" "p = plic (dev s)"
    and "irq_level p \<in> {UserMode, SupervisorMode, MachineMode}" "hart_eip p \<longrightarrow> external_line (irq_level p) s"
    and "0 < irq" "irq < NumberInterrupts p" "irq_enabled p irq" "priority_threshold p < priority_of irq p"
  shows "\<exists>s1 s2 i s3. gateway_trigger_interrupt irq s = (Inr (), s1) \<and> e_run (plic (dev s1)) \<and>
     plic_run s1 = (Inr (), s2) \<and> external_line (irq_level p) s2 \<and>
     hart_eip (plic (dev s2)) \<and> \<not> e_run (plic (dev s2)) \<and>
     plic_transport False 0x200004 [0, 0, 0, 0] s2 = (Inr (False, word_to_bytes 4 (of_nat i :: u32)), s3) \<and>
     irq_pending (plic (dev s2)) i \<and> irq_enabled p i \<and> priority_of irq p \<le> priority_of i p"
proof -
  let ?p = "set_pending_word (irq div 32) (pending_word (irq div 32) p OR push_bit (irq mod 32) 1) p"
  have wf: "plic_wf p" using assms(1,2) by simp
  obtain s1 where s1: "gateway_trigger_interrupt irq s = (Inr (), s1)" "plic (dev s1) = ?p\<lparr>e_run := True\<rparr>"
      "csrs s1 = csrs s"
    using gateway_spec [OF assms(1,5)] assms(2,6) by auto
  have "irq_pending ?p irq"
    using irq_pending_set_word [OF wf assms(6)] by (simp add: bit_or_iff bit_exp_iff)
  moreover have "0 < priority_of irq p" using assms(8) by (rule le_less_trans [rotated]) simp
  ultimately have c: "candidate ?p t irq" for t
    using assms(5-8) by (auto simp: candidate_def)
  have "hart_eip (plic (dev s1)) \<longrightarrow> external_line (irq_level (plic (dev s1))) s1"
    using assms(4) s1(2) external_line_csrs [OF s1(3)] by simp
  then obtain s2 where s2: "plic_run s1 = (Inr (), s2)" "external_line (irq_level p) s2"
      "plic (dev s2) = ?p\<lparr>e_run := False, hart_eip := True\<rparr>"
    using plic_run_spec [of s1 irq] s1(2) plic_wf_set_word [OF wf assms(6)] assms(3) c by auto
  have wf2: "plic_wf (plic (dev s2))" "\<And>t j. candidate (plic (dev s2)) t j = candidate ?p t j"
      "\<And>j. priority_of j (plic (dev s2)) = priority_of j p"
    using s2(3) plic_wf_set_word [OF wf assms(6)]
    by (simp_all add: candidate_def set_pending_word_def irq_enabled_def irq_pending_def enabled_word_def priority_of_def
        pending_word_def priority_threshold_def)
  let ?i = "next_pending (plic (dev s2)) False"
  have "wins (plic (dev s2)) False ?i"
    using next_pending_wins [OF plic_wfD(1) [OF wf2(1)], of False] c wf2(2) by (auto split: if_splits)
  then have "candidate (plic (dev s2)) False ?i" "priority_of irq p \<le> priority_of ?i p"
    using c wf2(2) wins_max [of "plic (dev s2)" False ?i irq] by (simp_all add: wins_def wf2(3))
  moreover from this have "irq_pending (plic (dev s2)) ?i" "irq_enabled p ?i"
    using wf2(2) by (auto simp: candidate_def)
  ultimately show ?thesis
    using s1(1,2) s2 plic_claim_read [OF wf2(1), of "[0, 0, 0, 0]"] by auto
qed

theorem plic_delivers_witness:
  "\<exists>s1 s2. gateway_trigger_interrupt 5 enabled_soc = (Inr (), s1) \<and> e_run (plic (dev s1)) \<and>
     plic_run s1 = (Inr (), s2) \<and> external_line MachineMode s2"
  using plic_delivers [of enabled_soc, OF _ refl, of 5] by auto

section \<open>The PLIC keeps its shape\<close>

abbreviation plic_inv :: "hart_soc \<Rightarrow> bool" where "plic_inv s \<equiv> plic_wf (plic (dev s))"

lemma clamp_shape:
  "\<forall>i\<in>set is. 4 * i + 4 \<le> length (rr_mem r) \<Longrightarrow>
   same_shape (fold (\<lambda>i r. view_set 4 i (f i r) r) is r) r' = same_shape r r'"
  by (induction "is" arbitrary: r) auto

lemma post_write_priorities_keeps: "keeps plic_inv (post_write_interrupt_priorities a n)"
proof -
  have "4 * i + 4 \<le> length (rr_mem r)" if "i < view_size 4 r - 1" for i r
    using that by (simp add: view_size_def less_diff_conv)
  then show ?thesis
    by (auto simp: post_write_interrupt_priorities_def plic_wf_def FE310_PLIC_new_def Let_def clamp_shape
        intro!: keeps_modifyM)
qed

lemma clear_pending_keeps: "keeps plic_inv (clear_pending_interrupt i)"
  by (auto simp: keeps_def clear_pending_interrupt_def monad_simps assertM_def plic_wf_set_word)

lemma next_pending_keeps: "keeps plic_inv (hart_get_next_pending_interrupt t)"
  by (auto simp: hart_get_next_pending_interrupt_def intro!: keeps_intros)

lemma pre_read_hart_config_keeps: "keeps plic_inv (pre_read_hart_config a n)"
proof -
  have "plic_wf (p\<lparr>regs_hart_config := view_set 4 (2 * k + 1) (v :: u32) (regs_hart_config p)\<rparr>)"
    if "plic_wf p" "k < view_size 8 (regs_hart_config p)" for p k v
    using that plic_wfD(7) [OF that(1)] by (simp add: plic_wf_def FE310_PLIC_new_def Let_def view_size_def)
  then have *: "keeps plic_inv (bindM (getsM (\<lambda>s. k < view_size 8 (regs_hart_config (plic (dev s))))) (\<lambda>ok. seqM (assertM ok)
      (seqM (modifyM (plic_upd (\<lambda>p. p\<lparr>regs_hart_config := view_set 4 (2 * k + 1) (v :: u32) (regs_hart_config p)\<rparr>))) m)))"
    if "keeps plic_inv m" for k v and m :: "(hart_soc, bool) M"
    using that by (auto simp: keeps_def monad_simps assertM_def split: prod.splits sum.splits)
  then show ?thesis
    unfolding pre_read_hart_config_def Let_def
    by (intro keeps_seqM [OF keeps_assertM] keeps_if keeps_ret keeps_bindM [OF next_pending_keeps] *
        keeps_seqM [OF clear_pending_keeps])
qed

lemma post_write_hart_config_keeps: "keeps plic_inv (post_write_hart_config a n)"
  by (auto simp: post_write_hart_config_def Let_def hart_has_pending_enabled_interrupts_def
      intro!: keeps_intros keeps_modifyM next_pending_keeps)

text \<open>A device whose ranges have no callback before a write keeps a predicate when writes in range and callbacks do.\<close>

lemma rr_write_keeps_in_range:
  assumes "\<And>s r. P s \<Longrightarrow> r = rr_get R s \<Longrightarrow> rr_contains r addr \<Longrightarrow> rr_assert_range r (length data) (rr_to_local r addr) \<Longrightarrow>
      P (rr_upd R (\<lambda>x. x\<lparr>rr_mem := put_bytes (unat (rr_to_local r addr)) data (rr_mem x)\<rparr>) s)"
    and "pre_write_callback R = (\<lambda>_ _. ret True)" "\<And>a n. keeps P (post_write_callback R a n)"
  shows "keeps P (rr_write R addr data)"
proof (rule keepsI)
  fix s assume "P s"
  then show "P (snd (rr_write R addr data s))"
    using keepsD [OF assms(3) assms(1) [OF \<open>P s\<close> refl]]
    by (simp add: rr_write_def monad_simps assertM_def Let_def assms(2))
qed

lemma rr_process_keeps_in_range:
  assumes "keeps P (rr_write R addr data)"
    and "\<And>a n. keeps P (pre_read_callback R a n)" "\<And>a n. keeps P (post_read_callback R a n)"
  shows "keeps P (rr_process R is_write addr data)"
  using assms by (auto simp: rr_process_def rr_read_def Let_def intro!: keeps_intros)

lemma put_bytes_shape:
  assumes "rr_contains r addr" "rr_assert_range r (length data) (rr_to_local r addr)" "length data < 2 ^ 32"
    and "rr_end r \<le> 0x200007" "length (rr_mem r) < 2 ^ 32"
  shows "length (put_bytes (unat (rr_to_local r addr)) data (rr_mem r)) = length (rr_mem r)"
proof -
  let ?a = "rr_to_local r addr"
  have "unat ?a < 2 ^ 32"
    using assms(1,4) by (auto simp: rr_contains_def rr_to_local_def unat_sub word_le_nat_alt)
  then have "unat (?a + of_nat (length data)) = unat ?a + length data"
    using assms(3) by (simp add: unat_word_ariths unsigned_of_nat take_bit_nat_eq_self)
  then show ?thesis
    using assms(2,5) by (simp add: rr_assert_range_def word_le_nat_alt unsigned_of_nat take_bit_nat_eq_self)
qed

lemma plic_lengths:
  assumes "plic_wf p"
  shows "length (rr_mem (regs_interrupt_priorities p)) < 2 ^ 32" "length (rr_mem (regs_pending_interrupts p)) < 2 ^ 32"
    "length (rr_mem (regs_hart_enabled_interrupts p)) < 2 ^ 32" "length (rr_mem (regs_hart_config p)) < 2 ^ 32"
    "rr_end (regs_interrupt_priorities p) \<le> 0x200007" "rr_end (regs_pending_interrupts p) \<le> 0x200007"
    "rr_end (regs_hart_enabled_interrupts p) \<le> 0x200007" "rr_end (regs_hart_config p) \<le> 0x200007"
proof -
  have "unat (4 * of_nat w :: u64) < 2 ^ 32" if "w \<le> 1024" for w
    using that by (simp add: unat_word_ariths unsigned_of_nat take_bit_nat_eq_self)
  then show "length (rr_mem (regs_pending_interrupts p)) < 2 ^ 32" "length (rr_mem (regs_hart_enabled_interrupts p)) < 2 ^ 32"
    using assms by (auto simp: plic_wf_def FE310_PLIC_new_def Let_def same_shape_def RegisterRange_new_def)
  show "rr_end (regs_interrupt_priorities p) \<le> 0x200007" "rr_end (regs_pending_interrupts p) \<le> 0x200007"
    "rr_end (regs_hart_enabled_interrupts p) \<le> 0x200007"
    using plic_wfD(10-12) [OF assms] by (auto elim: order.trans)
qed (use plic_wfD [OF assms] in auto)

lemma route_keeps_process:
  "(\<And>R. R \<in> set Rs \<Longrightarrow> keeps P (rr_process R is_write addr data)) \<Longrightarrow> keeps P (route Rs is_write addr data)"
  by (induction Rs is_write addr data rule: route.induct) (auto intro!: keeps_intros)

lemma plic_range_keeps:
  assumes "R \<in> set plic_ranges" "length data < 2 ^ 32"
  shows "keeps plic_inv (rr_process R is_write addr data)"
proof -
  have "plic_inv (rr_upd R (\<lambda>x. x\<lparr>rr_mem := put_bytes (unat (rr_to_local r addr)) data (rr_mem x)\<rparr>) s)"
    if "plic_inv s" "r = rr_get R s" "rr_contains r addr" "rr_assert_range r (length data) (rr_to_local r addr)" for s r
  proof -
    have "rr_end r \<le> 0x200007" "length (rr_mem r) < 2 ^ 32"
      using assms(1) that(2) plic_lengths [OF that(1)] by (auto simp: plic_ranges_def plain_range_def)
    from put_bytes_shape [OF that(3,4) assms(2) this] assms(1) that(1,2) show ?thesis
      by (auto simp: plic_ranges_def plain_range_def plic_wf_def FE310_PLIC_new_def Let_def same_shape_def)
  qed
  then have "keeps plic_inv (rr_write R addr data)"
    using assms(1)
    by (intro rr_write_keeps_in_range)
      (auto simp: plic_ranges_def plain_range_def intro!: keeps_ret post_write_priorities_keeps post_write_hart_config_keeps)
  then show ?thesis
    using assms(1)
    by (intro rr_process_keeps_in_range)
      (auto simp: plic_ranges_def plain_range_def intro!: keeps_ret pre_read_hart_config_keeps)
qed

text \<open>
  Whatever is read or written over the bus, whichever interrupts are raised, and whenever its thread runs, the PLIC
  keeps the layout of its registers, also when a transaction ends in an error: no access of the device goes beyond
  its register arrays.
\<close>

theorem plic_shape_invariant:
  assumes "length data < 2 ^ 32"
  shows "keeps (\<lambda>s. plic_wf (plic (dev s))) (plic_transport is_write addr data) \<and>
    keeps (\<lambda>s. plic_wf (plic (dev s))) (gateway_trigger_interrupt irq) \<and>
    keeps (\<lambda>s. plic_wf (plic (dev s))) plic_run"
proof (intro conjI)
  show "keeps (\<lambda>s. plic_wf (plic (dev s))) (plic_transport is_write addr data)"
    unfolding plic_transport_def mm_transport_def
    by (intro keeps_intros route_keeps_process plic_range_keeps assms)
  show "keeps (\<lambda>s. plic_wf (plic (dev s))) (gateway_trigger_interrupt irq)"
    by (auto simp: keeps_def gateway_trigger_interrupt_def monad_simps assertM_def plic_wf_set_word)
  show "keeps (\<lambda>s. plic_wf (plic (dev s))) plic_run"
    by (auto simp: plic_run_def hart_has_pending_enabled_interrupts_def intro!: keeps_intros keeps_modifyM next_pending_keeps)
qed

theorem plic_shape_invariant_witness:
  "plic_wf (plic (dev (snd (plic_transport True 0x14 [1, 0, 0, 0] enabled_soc))))"
  using keepsD [OF conjunct1 [OF plic_shape_invariant], of "[1, 0, 0, 0]" enabled_soc] by simp

end
