(* ===== verification/VP_CSRProps.thy ===== *)
theory VP_CSRProps
  imports VP_Reach VP_LSC
begin

text \<open>
  Control and status registers: no CSR instruction that runs below machine mode reads or writes machine-mode state, and
  the restricted views of \<^verbatim>\<open>mstatus\<close> show and change the bits of their masks only.
\<close>

section \<open>The privilege of a CSR\<close>

definition csr_privilege :: "u32 \<Rightarrow> u32" where
  "csr_privilege addr = drop_bit 8 (0x300 AND addr)"

definition csr_read_only :: "u32 \<Rightarrow> bool" where
  "csr_read_only addr \<longleftrightarrow> drop_bit 10 (0xC00 AND addr) = 3"

text \<open>The six instructions, with the address they access, and whether they write.\<close>

definition csr_ops :: "'d iss_env \<Rightarrow> (('d iss, unit) M \<times> ('d iss \<Rightarrow> bool)) list" where
  "csr_ops E = [(op_CSRRW E, \<lambda>_. True), (op_CSRRS E, \<lambda>s. rs1 (instr s) \<noteq> 0), (op_CSRRC E, \<lambda>s. rs1 (instr s) \<noteq> 0),
     (op_CSRRWI E, \<lambda>_. True), (op_CSRRSI E, \<lambda>s. zimm (instr s) \<noteq> 0), (op_CSRRCI E, \<lambda>s. zimm (instr s) \<noteq> 0)]"

lemma require_cases:
  "whenM b fp_require_not_off s \<in> {(Inr (), s), (Inl (SimulationTrap EXC_ILLEGAL_INSTR (ucast (instr s))), s)}"
  "whenM b requireNotOff s \<in> {(Inr (), s), (Inl (SimulationTrap EXC_ILLEGAL_INSTR (ucast (instr s))), s)}"
  by (simp_all add: whenM_def fp_require_not_off_def requireNotOff_def RAISE_ILLEGAL_INSTRUCTION_def monad_simps)

lemma csr_guard_cases:
  obtains "csr_guard addr w m s = (Inl (SimulationTrap EXC_ILLEGAL_INSTR (ucast (instr s))), s)"
  | "csr_guard addr w m s = m s" "csr_privilege addr \<le> prv s" "\<not> (w \<and> csr_read_only addr)"
proof -
  let ?x = "(Inl (SimulationTrap EXC_ILLEGAL_INSTR (ucast (instr s))), s)"
  have "is_invalid_csr_access addr w s = ?x \<or> is_invalid_csr_access addr w s = (Inr True, s) \<or>
    is_invalid_csr_access addr w s = (Inr False, s) \<and> csr_privilege addr \<le> prv s \<and> \<not> (w \<and> csr_read_only addr)"
    using require_cases(1) [of "unat addr \<in> {FFLAGS_ADDR, FRM_ADDR, FCSR_ADDR}" s]
      require_cases(2) [of "unat addr \<in> {VSTART_ADDR, VXSAT_ADDR, VXRM_ADDR, VCSR_ADDR, VL_ADDR, VTYPE_ADDR, VLENB_ADDR}" s]
    unfolding is_invalid_csr_access_def seqM_simp Let_def csr_privilege_def csr_read_only_def
    by (elim insertE) (auto simp: getsM_def)
  then show ?thesis
    using that by (auto simp: csr_guard_def bindM_def RAISE_ILLEGAL_INSTRUCTION_def monad_simps)
qed

text \<open>
  C39. A CSR instruction that names a register of a higher privilege level, or that writes a read-only register, raises
  an illegal-instruction exception with the instruction word as trap value and changes nothing.
\<close>

theorem csr_access_rights:
  assumes "(f, w) \<in> set (csr_ops E)" "prv s < csr_privilege (csr (instr s)) \<or> w s \<and> csr_read_only (csr (instr s))"
  shows "f s = (Inl (SimulationTrap EXC_ILLEGAL_INSTR (ucast (instr s))), s)"
proof -
  have *: "csr_guard (csr (instr s)) b m s = (Inl (SimulationTrap EXC_ILLEGAL_INSTR (ucast (instr s))), s)"
    if "b = w s" for b and m :: "('a iss, unit) M"
    using assms(2) that by (cases rule: csr_guard_cases [of "csr (instr s)" b m s]) (auto simp: not_le)
  show ?thesis
    using assms(1) by (auto simp: csr_ops_def op_CSRRW_def op_CSRRS_def op_CSRRC_def op_CSRRWI_def op_CSRRSI_def
        op_CSRRCI_def monad_simps Let_def intro!: *)
qed

text \<open>\<^verbatim>\<open>0x30029073\<close> is \<^verbatim>\<open>csrrw x0, mstatus, t0\<close>.\<close>

theorem csr_access_rights_witness:
  "op_CSRRW tiny_idle (user_hart\<lparr>instr := 0x30029073\<rparr>) =
     (Inl (SimulationTrap EXC_ILLEGAL_INSTR 0x30029073), user_hart\<lparr>instr := 0x30029073\<rparr>)"
proof -
  have "csr_privilege (csr 0x30029073) = 3" by code_simp
  then show ?thesis
    using csr_access_rights [of "op_CSRRW tiny_idle" "\<lambda>_. True" tiny_idle "user_hart\<lparr>instr := 0x30029073\<rparr>"]
    by (simp add: csr_ops_def)
qed

section \<open>Isolation of machine mode\<close>

text \<open>
  What a CSR instruction below machine mode must leave alone: the registers of machine mode and, of the registers shared
  with the lower modes, the bits outside the supervisor's write masks.
\<close>

definition machine_mask :: "csr_cell \<Rightarrow> u32" where
  "machine_mask c = switch_on c
    [(csr_mstatus, NOT SSTATUS_WRITE_MASK), (csr_mie, NOT SIE_MASK), (csr_mip, NOT SIP_MASK)]
    (if c \<in> {csr_mstatush, csr_misa, csr_medeleg, csr_mideleg, csr_mtvec, csr_mcounteren, csr_mcountinhibit, csr_mscratch,
        csr_mepc, csr_mcause, csr_mtval, csr_mvendorid, csr_marchid, csr_mimpid, csr_mhartid} \<or>
       (case c of csr_pmpaddr _ \<Rightarrow> True | csr_pmpcfg _ \<Rightarrow> True | _ \<Rightarrow> False) then -1 else 0)"

definition machine_view :: "csr_table \<Rightarrow> csr_table" where
  "machine_view t c = t c AND machine_mask c"

lemma machine_view_upd:
  "v AND machine_mask c = t c AND machine_mask c \<Longrightarrow> machine_view (t(c := v)) = machine_view t"
  by (simp add: fun_eq_iff machine_view_def)

lemma masked_write_view: "m AND k = 0 \<Longrightarrow> masked_write m v old AND k = old AND k" for k :: u32
  by (rule bit_eqI) (auto simp: bit_masked_write bit_and_iff dest: bit_eq_iff [THEN iffD1, THEN spec])

lemma csr_privilege_nat: "unat (csr_privilege addr) = unat addr div 256 mod 4"
proof -
  have "csr_privilege addr = take_bit 2 (drop_bit 8 addr)"
    by (simp add: csr_privilege_def take_bit_eq_mask mask_eq_exp_minus_1 and.commute)
  then show ?thesis
    by (simp add: take_bit_eq_mod drop_bit_eq_div unat_div unat_mod)
qed

lemma mapping_privilege:
  assumes "register_mapping (unat addr) = Some c" "csr_privilege addr < MachineMode"
  shows "machine_mask c = 0"
proof -
  have p: "unat addr div 256 mod 4 < 3"
    using assms(2) csr_privilege_nat [of addr] by (simp add: word_less_nat_alt)
  have "list_all (\<lambda>(a, c). a div 256 mod 4 < 3 \<longrightarrow> machine_mask c = 0) register_mapping_entries"
    by code_simp
  then have "machine_mask c = 0" if "map_of register_mapping_entries (unat addr) = Some c"
    using map_of_SomeD [OF that] p by (fastforce simp: list_all_iff)
  then show ?thesis
    using assms(1) p by (auto simp: register_mapping_def split: if_splits)
qed

text \<open>The predicate the CSR instructions keep.\<close>

definition isolated :: "csr_table \<Rightarrow> u32 \<Rightarrow> 'd iss \<Rightarrow> bool" where
  "isolated t p s \<longleftrightarrow> machine_view (csrs s) = machine_view t \<and> prv s = p"

lemma unmasked_cells:
  "machine_mask csr_cycle_lo = 0" "machine_mask csr_cycle_hi = 0" "machine_mask csr_time_lo = 0" "machine_mask csr_time_hi = 0"
  "machine_mask csr_instret_lo = 0" "machine_mask csr_instret_hi = 0" "machine_mask csr_fcsr = 0" "machine_mask csr_vcsr = 0"
  "machine_mask csr_vxsat = 0" "machine_mask csr_vxrm = 0" "machine_mask csr_vtype = 0" "machine_mask csr_satp = 0"
  "machine_mask csr_stvec = 0" "machine_mask csr_utvec = 0" "machine_mask csr_sepc = 0" "machine_mask csr_uepc = 0"
  "machine_mask csr_sideleg = 0" "machine_mask csr_sedeleg = 0" "machine_mask csr_scounteren = 0"
  by (simp_all add: machine_mask_def)

lemma isolated_upd: "machine_mask c = 0 \<Longrightarrow> isolated t p (csr_upd c v s) = isolated t p s"
  by (simp add: isolated_def machine_view_upd)

lemma isolated_table: "machine_mask c = 0 \<Longrightarrow> machine_view (u(c := v)) = machine_view u"
  by (simp add: machine_view_upd)

lemma isolated_frame:
  "isolated t p (commit_instructions n s) = isolated t p s" "isolated t p (commit_cycles s) = isolated t p s"
  "isolated t p (force_slow_path s) = isolated t p s" "isolated t p (set_reg d v s) = isolated t p s"
  "isolated t p (s\<lparr>csrs := set_csr64 csr_time_lo csr_time_hi m (csrs s)\<rparr>) = isolated t p s"
  "isolated t p (s\<lparr>csrs := set_csr64 csr_cycle_lo csr_cycle_hi m (csrs s)\<rparr>) = isolated t p s"
  by (simp_all add: isolated_def commit_instructions_def commit_cycles_def force_slow_path_def set_reg_def Let_def
      set_csr64_def isolated_table unmasked_cells)

lemma csr_write_isolated: "m AND machine_mask c = 0 \<Longrightarrow> keeps (isolated t p) (csr_write c m v)"
  by (auto simp: csr_write_def isolated_def machine_view_upd masked_write_view intro!: keeps_modifyM)

lemma csr_fset_isolated: "machine_mask c = 0 \<Longrightarrow> isolated t p (csr_fset c f v s) = isolated t p s"
  by (simp add: csr_fset_def isolated_upd)

lemma get_csr_isolated:
  assumes "keeps (isolated t p) (update_and_get_mtime E)"
  shows "keeps (isolated t p) (get_csr_value E addr)"
proof -
  have time: "keeps (isolated t p) (read_mtime E w)" "keeps (isolated t p) (read_cycles w)" for w
    using assms by (auto simp: read_mtime_def read_cycles_def compute_and_get_current_cycles_def isolated_frame
        intro!: keeps_intros keeps_cases)
  have default: "keeps (isolated t p) (csr_default_read a)" for a
    by (auto simp: csr_default_read_def RAISE_ILLEGAL_INSTRUCTION_def intro!: keeps_intros keeps_cases)
  show ?thesis
    unfolding get_csr_value_def
    by (intro keeps_seqM keeps_if keeps_ret keeps_cases time default)
      (auto simp: validate_csr_counter_read_access_rights_def Let_def csr_read_def check_tvm_def read_vcsr_def
        RAISE_ILLEGAL_INSTRUCTION_def csr_fset_isolated unmasked_cells intro!: keeps_intros keeps_cases default)
qed

lemma set_csr_isolated:
  assumes "csr_privilege addr < MachineMode"
  shows "keeps (isolated t p) (set_csr_value addr v)"
proof -
  have p: "unat addr div 256 mod 4 < 3"
    using assms csr_privilege_nat [of addr] by (simp add: word_less_nat_alt)
  have default: "keeps (isolated t p) (csr_default_write addr v)"
    using mapping_privilege [OF _ assms]
    by (auto simp: csr_default_write_def default_write32_def is_valid_csr32_addr_def keeps_def monad_simps isolated_def
        isolated_table RAISE_ILLEGAL_INSTRUCTION_def split: option.splits)
  show ?thesis
    unfolding set_csr_value_def
    by (intro keeps_seqM keeps_if keeps_ret keeps_cases default)
      (use p in \<open>auto simp: write_epc_def check_tvm_def maybe_interrupt_pending_def isolated_frame csr_fset_isolated unmasked_cells
        RAISE_ILLEGAL_INSTRUCTION_def machine_mask_def intro!: keeps_intros keeps_cases csr_write_isolated\<close>)
qed

lemma csr_guard_isolated:
  fixes m :: "('d iss, unit) M"
  assumes "csr_privilege addr \<le> p \<Longrightarrow> keeps (isolated t p) m"
  shows "keeps (isolated t p) (csr_guard addr w m)"
proof (rule keepsI)
  fix s :: "'d iss"
  assume "isolated t p s"
  then show "isolated t p (snd (csr_guard addr w m s))"
    using assms by (cases rule: csr_guard_cases [of addr w m s]) (auto simp: isolated_def keeps_def)
qed

lemma csr_ops_isolated:
  assumes "(f, w) \<in> set (csr_ops E)" "p < MachineMode" "keeps (isolated t p) (update_and_get_mtime E)"
  shows "keeps (isolated t p) f"
proof -
  have "keeps (isolated t p) (set_csr_value addr v)" if "csr_privilege addr \<le> p" for addr v
    using set_csr_isolated that assms(2) by (meson le_less_trans)
  then have "keeps (isolated t p) (csr_guard addr b (csr_swap E addr d v))"
    "keeps (isolated t p) (csr_guard addr b (csr_modify E addr d b g))" for addr b d v g
    by (auto simp: csr_swap_def csr_modify_def commit_ninstr_def isolated_frame
        intro!: csr_guard_isolated keeps_intros keeps_cases get_csr_isolated [OF assms(3)])
  then show ?thesis
    using assms(1) by (auto simp: csr_ops_def op_CSRRW_def op_CSRRS_def op_CSRRC_def op_CSRRWI_def op_CSRRSI_def
        op_CSRRCI_def Let_def intro!: keeps_intros keeps_cases)
qed

lemma real_mtime_isolated: "keeps (isolated t p) real_update_and_get_mtime"
  by (auto simp: real_update_and_get_mtime_def real_clint_upd_def dev_upd_def isolated_def intro!: keeps_intros keeps_cases)

text \<open>
  C38. Isolation: a CSR instruction that runs in supervisor or user mode leaves every register of machine mode unchanged,
  and, of \<^verbatim>\<open>mstatus\<close>, \<^verbatim>\<open>mie\<close> and \<^verbatim>\<open>mip\<close>, all bits outside the masks of \<^verbatim>\<open>sstatus\<close>, \<^verbatim>\<open>sie\<close> and \<^verbatim>\<open>sip\<close>, whether it succeeds or
  raises an exception; the privilege mode stays.
\<close>

theorem csr_isolation:
  assumes "E = tiny_env hs intercept cached ns sn gran" "(f, w) \<in> set (csr_ops E)" "prv s < MachineMode" "f s = (r, s')"
  shows "machine_view (csrs s') = machine_view (csrs s) \<and> prv s' = prv s"
proof -
  have "keeps (isolated (csrs s) (prv s)) (update_and_get_mtime E)"
    by (simp add: assms(1) tiny_env_def cmi_env_def real_mtime_isolated)
  from keepsD [OF csr_ops_isolated [OF assms(2,3) this], of s] show ?thesis
    by (simp add: isolated_def assms(4))
qed

text \<open>\<^verbatim>\<open>0x10029073\<close> is \<^verbatim>\<open>csrrw x0, sstatus, t0\<close>; \<^verbatim>\<open>t0\<close> has all bits set.\<close>

theorem csr_isolation_witness:
  "machine_view (csrs (snd (op_CSRRW tiny_idle (user_hart\<lparr>instr := 0x10029073, prv := SupervisorMode,
      regs := (replicate 32 0)[5 := -1]\<rparr>)))) csr_mstatus = csrs user_hart csr_mstatus AND NOT SSTATUS_WRITE_MASK"
proof -
  let ?s = "user_hart\<lparr>instr := 0x10029073, prv := SupervisorMode, regs := (replicate 32 0)[5 := -1]\<rparr>"
  have "(op_CSRRW tiny_idle, \<lambda>_. True) \<in> set (csr_ops tiny_idle)" by (simp add: csr_ops_def)
  from csr_isolation [OF refl this, of ?s "fst (op_CSRRW tiny_idle ?s)" "snd (op_CSRRW tiny_idle ?s)"] show ?thesis
    by (simp add: machine_view_def machine_mask_def)
qed

end
