(* ===== verification/VP_FPProps.thy ===== *)
theory VP_FPProps
  imports VP_Reach VP_LSC
begin

text \<open>
  Floating point: NaN-boxing of the narrower formats in the 64-bit registers, sign injection, the guard on
  \<^verbatim>\<open>mstatus.FS\<close>, the rounding mode and the accrued exception flags, for every implementation of the softfloat library.
\<close>

section \<open>Registers\<close>

lemma box_masks:
  "(0xFFFFFFFF00000000 :: u64) = push_bit 32 (mask 32)" "(0xFFFFFFFFFFFF0000 :: u64) = push_bit 16 (mask 48)"
  "(0xFFFFFFFF :: u64) = mask 32" "(0xFFFFFFFFFFFF :: u64) = mask 48" "(0xFFFF :: u32) = mask 16"
  by (simp_all add: mask_eq_exp_minus_1 push_bit_eq_mult)

lemma f32_box: "f32_boxed (box_f32 x) = x"
proof -
  have "is_boxed_f32 (box_f32 x)"
    unfolding is_boxed_f32_def box_f32_def box_masks by (rule bit_word_eqI) (auto simp: bit_simps)
  moreover have "unbox_f32 (box_f32 x) = x"
    unfolding unbox_f32_def box_f32_def box_masks by (rule bit_word_eqI) (auto simp: bit_simps)
  ultimately show ?thesis by (simp add: f32_boxed_def)
qed

lemma f16_box: "f16_boxed (box_f16 x) = x"
proof -
  have "is_boxed_f16 (box_f16 x)"
    unfolding is_boxed_f16_def box_f16_def box_masks by (rule bit_word_eqI) (auto simp: bit_simps)
  moreover have "unbox_f16 (box_f16 x) = x"
    unfolding unbox_f16_def box_f16_def box_masks by (rule bit_word_eqI) (auto simp: bit_simps)
  ultimately show ?thesis by (simp add: f16_boxed_def)
qed

text \<open>A narrow value read in a wider format, and a wide value read in a narrower one.\<close>

lemma f32_box_f16: "f32_boxed (box_f16 x) = ucast x OR 0xFFFF0000"
proof -
  have m: "(0xFFFF0000 :: u32) = push_bit 16 (mask 16)" by (simp add: mask_eq_exp_minus_1 push_bit_eq_mult)
  have "is_boxed_f32 (box_f16 x)"
    unfolding is_boxed_f32_def box_f16_def box_masks by (rule bit_word_eqI) (auto simp: bit_simps)
  moreover have "unbox_f32 (box_f16 x) = ucast x OR 0xFFFF0000"
    unfolding unbox_f32_def box_f16_def box_masks m by (rule bit_word_eqI) (auto simp: bit_simps)
  ultimately show ?thesis by (simp add: f32_boxed_def)
qed

lemma f32_isNaN_boxed: "f32_isNaN (ucast (x :: u16) OR 0xFFFF0000)"
proof -
  let ?w = "ucast x OR 0xFFFF0000 :: u32"
  have m: "(0xFFFF0000 :: u32) = push_bit 16 (mask 16)" "(0x7F800000 :: u32) = push_bit 23 (mask 8)" "(0x7FFFFF :: u32) = mask 23"
    by (simp_all add: mask_eq_exp_minus_1 push_bit_eq_mult)
  have "?w AND 0x7F800000 = 0x7F800000"
    unfolding m by (rule bit_word_eqI) (auto simp: bit_simps)
  moreover have "bit (?w AND 0x7FFFFF) 20"
    unfolding m by (simp add: bit_simps)
  then have "?w AND 0x7FFFFF \<noteq> 0" by fastforce
  ultimately show ?thesis by (simp add: f32_isNaN_def)
qed

text \<open>
  NaN boxing: a value written to a floating-point register in any of the three formats is read back in that format;
  a half-precision value reads as a NaN in single precision; a single-precision read of a register whose upper half
  is not all ones gives the canonical NaN; no other register changes.
\<close>

theorem nan_boxing:
  assumes "length (fp_regs s) = 32" "i < 32"
  shows "f16 i (fp_write16 i h s) = h \<and> f32 i (fp_write32 i w s) = w \<and> f64 i (fp_write64 i d s) = d \<and>
     f32_isNaN (f32 i (fp_write16 i h s)) \<and>
     f32 i (fp_write64 i d s) = (if drop_bit 32 d = 0xFFFFFFFF then ucast d else f32_defaultNaN) \<and>
     (\<forall>j. j \<noteq> i \<longrightarrow> f64 j (fp_write64 i d s) = f64 j s)"
proof -
  have "unat i < 32" using assms(2) by (simp add: word_less_nat_alt)
  then have "f64 i (fp_write64 i x s) = x" for x
    using assms(1) by (simp add: f64_def fp_write64_def)
  moreover have "f64 j (fp_write64 i d s) = f64 j s" if "j \<noteq> i" for j
    using that by (simp add: f64_def fp_write64_def word_unat_eq_iff)
  ultimately show ?thesis
    by (auto simp: f16_def f32_def fp_write16_def fp_write32_def f16_box f32_box f32_box_f16 f32_isNaN_boxed
        f32_boxed_def [of d] is_boxed_f32_def unbox_f32_def)
qed

lemma boot_fp_regs [simp]: "length (fp_regs (tiny_init d c t e)) = 32"
  by (simp add: tiny_init_def iss_init_def ISS_CT_def)

theorem nan_boxing_witness:
  "f32 3 (fp_write32 3 0x3F800000 (tiny_init True True (\<lambda>_. 10000) 0)) = 0x3F800000 \<and>
   f32 3 (fp_write64 3 0x3FF0000000000000 (tiny_init True True (\<lambda>_. 10000) 0)) = f32_defaultNaN"
  using nan_boxing [of "tiny_init True True (\<lambda>_. 10000) 0" 3 _ "0x3F800000" "0x3FF0000000000000"] by simp

lemma sign_bits:
  fixes a b S :: "'a :: len word"
  assumes "S = push_bit k 1" "k < LENGTH('a)"
  shows "bit ((a AND NOT S) OR (b AND S)) n = (if n = k then bit b k else bit a n)"
    "bit ((a AND NOT S) OR (NOT b AND S)) n = (if n = k then \<not> bit b k else bit a n)"
    "bit (a XOR (b AND S)) n = (if n = k then bit a k \<noteq> bit b k else bit a n)"
  using assms by (auto simp: bit_simps dest: bit_imp_le_length)

lemma xor_twice: "(a XOR S) XOR S = a" for a :: "'a :: len word"
  by (simp add: xor.assoc)

text \<open>
  Sign injection and negation, in the three formats: the sign bit of the result is the second operand's, its
  complement, or the exclusive or of both; every other bit is the first operand's; negation twice is the identity.
\<close>

theorem sign_injection:
  "bit (f16_sgnj a b) n = (if n = 15 then bit b 15 else bit a n) \<and>
   bit (f16_sgnjn a b) n = (if n = 15 then \<not> bit b 15 else bit a n) \<and>
   bit (f16_sgnjx a b) n = (if n = 15 then bit a 15 \<noteq> bit b 15 else bit a n) \<and> f16_neg (f16_neg a) = a \<and>
   bit (f32_sgnj c d) n = (if n = 31 then bit d 31 else bit c n) \<and>
   bit (f32_sgnjn c d) n = (if n = 31 then \<not> bit d 31 else bit c n) \<and>
   bit (f32_sgnjx c d) n = (if n = 31 then bit c 31 \<noteq> bit d 31 else bit c n) \<and> f32_neg (f32_neg c) = c \<and>
   bit (f64_sgnj e f) n = (if n = 63 then bit f 63 else bit e n) \<and>
   bit (f64_sgnjn e f) n = (if n = 63 then \<not> bit f 63 else bit e n) \<and>
   bit (f64_sgnjx e f) n = (if n = 63 then bit e 63 \<noteq> bit f 63 else bit e n) \<and> f64_neg (f64_neg e) = e"
proof -
  have m: "(0x8000 :: u16) = push_bit 15 1" "(0x80000000 :: u32) = push_bit 31 1" "(0x8000000000000000 :: u64) = push_bit 63 1"
    by (simp_all add: push_bit_eq_mult)
  show ?thesis
    unfolding f16_sgnj_def f16_sgnjn_def f16_sgnjx_def f16_neg_def f32_sgnj_def f32_sgnjn_def f32_sgnjx_def f32_neg_def
      f64_sgnj_def f64_sgnjn_def f64_sgnjx_def f64_neg_def
    by (intro conjI sign_bits xor_twice m) simp_all
qed

section \<open>The guard on the floating-point unit\<close>

definition fp_opcodes :: "OpId list" where
  "fp_opcodes =
    [FLH, FSH, FADD_H, FSUB_H, FMUL_H, FDIV_H, FSQRT_H, FMIN_H, FMAX_H, FMADD_H, FMSUB_H, FNMADD_H, FNMSUB_H,
     FSGNJ_H, FSGNJN_H, FSGNJX_H, FEQ_H, FLT_H, FLE_H, FCLASS_H, FMV_H_X, FMV_X_H, FCVT_W_H, FCVT_WU_H,
     FCVT_H_W, FCVT_H_WU, FCVT_S_H, FCVT_H_S, FCVT_H_D, FCVT_D_H, FLW, FSW, FADD_S, FSUB_S, FMUL_S, FDIV_S,
     FSQRT_S, FMIN_S, FMAX_S, FMADD_S, FMSUB_S, FNMADD_S, FNMSUB_S, FCVT_W_S, FCVT_WU_S, FCVT_S_W, FCVT_S_WU,
     FSGNJ_S, FSGNJN_S, FSGNJX_S, FMV_W_X, FMV_X_W, FEQ_S, FLT_S, FLE_S, FCLASS_S, FLD, FSD, FADD_D, FSUB_D,
     FMUL_D, FDIV_D, FSQRT_D, FMIN_D, FMAX_D, FMADD_D, FMSUB_D, FNMADD_D, FNMSUB_D, FSGNJ_D, FSGNJN_D,
     FSGNJX_D, FEQ_D, FLT_D, FLE_D, FCLASS_D, FCVT_W_D, FCVT_WU_D, FCVT_D_W, FCVT_D_WU, FCVT_S_D, FCVT_D_S]"

lemmas fp_op_defs =
  op_FLH_def op_FSH_def op_FADD_H_def op_FSUB_H_def op_FMUL_H_def op_FDIV_H_def op_FSQRT_H_def op_FMIN_H_def
  op_FMAX_H_def op_FMADD_H_def op_FMSUB_H_def op_FNMADD_H_def op_FNMSUB_H_def op_FSGNJ_H_def op_FSGNJN_H_def
  op_FSGNJX_H_def op_FEQ_H_def op_FLT_H_def op_FLE_H_def op_FCLASS_H_def op_FMV_H_X_def op_FMV_X_H_def
  op_FCVT_W_H_def op_FCVT_WU_H_def op_FCVT_H_W_def op_FCVT_H_WU_def op_FCVT_S_H_def op_FCVT_H_S_def
  op_FCVT_H_D_def op_FCVT_D_H_def op_FLW_def op_FSW_def op_FADD_S_def op_FSUB_S_def op_FMUL_S_def
  op_FDIV_S_def op_FSQRT_S_def op_FMIN_S_def op_FMAX_S_def op_FMADD_S_def op_FMSUB_S_def op_FNMADD_S_def
  op_FNMSUB_S_def op_FCVT_W_S_def op_FCVT_WU_S_def op_FCVT_S_W_def op_FCVT_S_WU_def op_FSGNJ_S_def
  op_FSGNJN_S_def op_FSGNJX_S_def op_FMV_W_X_def op_FMV_X_W_def op_FEQ_S_def op_FLT_S_def op_FLE_S_def
  op_FCLASS_S_def op_FLD_def op_FSD_def op_FADD_D_def op_FSUB_D_def op_FMUL_D_def op_FDIV_D_def
  op_FSQRT_D_def op_FMIN_D_def op_FMAX_D_def op_FMADD_D_def op_FMSUB_D_def op_FNMADD_D_def op_FNMSUB_D_def
  op_FSGNJ_D_def op_FSGNJN_D_def op_FSGNJX_D_def op_FEQ_D_def op_FLT_D_def op_FLE_D_def op_FCLASS_D_def
  op_FCVT_W_D_def op_FCVT_WU_D_def op_FCVT_D_W_def op_FCVT_D_WU_def op_FCVT_S_D_def op_FCVT_D_S_def

lemma prepare_off:
  assumes "csr_fget csr_mstatus mstatus_fs s = FS_OFF" "softfloat_exceptionFlags s = 0"
  shows "seqM fp_prepare_instr m s = (Inl (SimulationTrap EXC_ILLEGAL_INSTR (ucast (instr s))), s)"
  using assms by (simp add: fp_prepare_instr_def fp_require_not_off_def RAISE_ILLEGAL_INSTRUCTION_def monad_simps assertM_def)

text \<open>
  With \<^verbatim>\<open>mstatus.FS\<close> off, each of the 82 floating-point instructions raises an illegal-instruction exception and
  changes nothing.
\<close>

theorem fp_off_is_illegal:
  assumes "csr_fget csr_mstatus mstatus_fs s = FS_OFF" "softfloat_exceptionFlags s = 0" "op \<in> set fp_opcodes"
  shows "fp_op SF vec_op E op s = (Inl (SimulationTrap EXC_ILLEGAL_INSTR (ucast (instr s))), s)"
  using assms(3) unfolding fp_opcodes_def fp_op_def
  by (auto simp: fp_op_defs fp_arith_def fp_to_int_def fp_compare_def fp_move_to_int_def fp_sign_def fp_min_max_def
      prepare_off [OF assms(1,2)])

text \<open>A softfloat library that returns its first operand and raises a flag on single-precision addition only.\<close>

definition some_softfloat :: softfloat where
  "some_softfloat = \<lparr>
     sf_f16_add = (\<lambda>_ a _. (a, 0)), sf_f16_sub = (\<lambda>_ a _. (a, 0)), sf_f16_mul = (\<lambda>_ a _. (a, 0)), sf_f16_div = (\<lambda>_ a _. (a, 0)),
     sf_f16_sqrt = (\<lambda>_ a. (a, 0)), sf_f16_mulAdd = (\<lambda>_ a _ _. (a, 0)), sf_f16_eq = (\<lambda>a b. (a = b, 0)),
     sf_f16_lt = (\<lambda>a b. (a < b, 0)), sf_f16_le = (\<lambda>a b. (a \<le> b, 0)), sf_f16_lt_quiet = (\<lambda>a b. (a < b, 0)),
     sf_f16_classify = (\<lambda>_. 0), sf_f16_to_i32 = (\<lambda>_ a. (ucast a, 0)), sf_f16_to_ui32 = (\<lambda>_ a. (ucast a, 0)),
     sf_i32_to_f16 = (\<lambda>_ a. (ucast a, 0)), sf_ui32_to_f16 = (\<lambda>_ a. (ucast a, 0)),
     sf_f32_add = (\<lambda>_ a _. (a, 1)), sf_f32_sub = (\<lambda>_ a _. (a, 0)), sf_f32_mul = (\<lambda>_ a _. (a, 0)), sf_f32_div = (\<lambda>_ a _. (a, 0)),
     sf_f32_sqrt = (\<lambda>_ a. (a, 0)), sf_f32_mulAdd = (\<lambda>_ a _ _. (a, 0)), sf_f32_eq = (\<lambda>a b. (a = b, 0)),
     sf_f32_lt = (\<lambda>a b. (a < b, 0)), sf_f32_le = (\<lambda>a b. (a \<le> b, 0)), sf_f32_lt_quiet = (\<lambda>a b. (a < b, 0)),
     sf_f32_classify = (\<lambda>_. 0), sf_f32_to_i32 = (\<lambda>_ a. (a, 0)), sf_f32_to_ui32 = (\<lambda>_ a. (a, 0)),
     sf_i32_to_f32 = (\<lambda>_ a. (a, 0)), sf_ui32_to_f32 = (\<lambda>_ a. (a, 0)),
     sf_f64_add = (\<lambda>_ a _. (a, 0)), sf_f64_sub = (\<lambda>_ a _. (a, 0)), sf_f64_mul = (\<lambda>_ a _. (a, 0)), sf_f64_div = (\<lambda>_ a _. (a, 0)),
     sf_f64_sqrt = (\<lambda>_ a. (a, 0)), sf_f64_mulAdd = (\<lambda>_ a _ _. (a, 0)), sf_f64_eq = (\<lambda>a b. (a = b, 0)),
     sf_f64_lt = (\<lambda>a b. (a < b, 0)), sf_f64_le = (\<lambda>a b. (a \<le> b, 0)), sf_f64_lt_quiet = (\<lambda>a b. (a < b, 0)),
     sf_f64_classify = (\<lambda>_. 0), sf_f64_to_i32 = (\<lambda>_ a. (ucast a, 0)), sf_f64_to_ui32 = (\<lambda>_ a. (ucast a, 0)),
     sf_i32_to_f64 = (\<lambda>_ a. (ucast a, 0)), sf_ui32_to_f64 = (\<lambda>_ a. (ucast a, 0)),
     sf_f16_to_f32 = (\<lambda>_ a. (ucast a, 0)), sf_f16_to_f64 = (\<lambda>_ a. (ucast a, 0)), sf_f32_to_f16 = (\<lambda>_ a. (ucast a, 0)),
     sf_f32_to_f64 = (\<lambda>_ a. (ucast a, 0)), sf_f64_to_f16 = (\<lambda>_ a. (ucast a, 0)), sf_f64_to_f32 = (\<lambda>_ a. (ucast a, 0))\<rparr>"

lemma boot_fp [simp]:
  "csr_fget csr_mstatus mstatus_fs (tiny_init d c t e) = FS_OFF" "softfloat_exceptionFlags (tiny_init d c t e) = 0"
  by (simp_all add: tiny_init_def iss_init_def ISS_CT_def csr_table_init_def csr_fget_def fget_def)

theorem fp_off_is_illegal_witness:
  "fp_op some_softfloat (\<lambda>_. ret ()) tiny_idle FADD_S (tiny_init True True (\<lambda>_. 10000) 0) =
     (Inl (SimulationTrap EXC_ILLEGAL_INSTR (ucast (instr (tiny_init True True (\<lambda>_. 10000) 0)))), tiny_init True True (\<lambda>_. 10000) 0)"
  by (rule fp_off_is_illegal) (simp_all add: fp_opcodes_def)

section \<open>Arithmetic\<close>

text \<open>The rounding mode an instruction selects: its own, or that of \<^verbatim>\<open>fcsr\<close>.\<close>

definition rounding_mode :: "'d iss \<Rightarrow> u32" where
  "rounding_mode s = (if frm (instr s) = FRM_DYN then csr_fget csr_fcsr fcsr_frm s else frm (instr s))"

text \<open>The state after the result and its flags have been delivered.\<close>

definition fp_result :: "(u32 \<Rightarrow> 'f \<Rightarrow> 'd iss \<Rightarrow> 'd iss) \<Rightarrow> 'f \<Rightarrow> u8 \<Rightarrow> 'd iss \<Rightarrow> 'd iss" where
  "fp_result write r fl s = csr_fset csr_fcsr fcsr_fflags (csr_fget csr_fcsr fcsr_fflags s OR ucast fl)
     (fp_set_dirty (write (rd (instr s)) r (s\<lparr>softfloat_roundingMode := ucast (rounding_mode s)\<rparr>)))"

lemma fset_again: "fset f v (fset g w (fset f v (fset g w x))) = fset f v (fset g w x)" for x :: "'a :: len word"
  by (rule bit_eqI) (auto simp: bit_fset)

lemma fset_fget: "fset f (fget f x) x = x" for x :: "'a :: len word"
  by (rule bit_eqI) (auto simp: bit_fset bit_fget dest: bit_imp_le_length)

lemma fp_dirty_idem: "fp_set_dirty (fp_set_dirty s) = fp_set_dirty s"
  by (simp add: fp_set_dirty_def csr_fset_def csr_upd_def fset_again)

lemma fp_finish:
  assumes "softfloat_exceptionFlags s = 0"
  shows "fp_finish_instr (s\<lparr>softfloat_exceptionFlags := fl\<rparr>) =
    csr_fset csr_fcsr fcsr_fflags (csr_fget csr_fcsr fcsr_fflags s OR ucast fl) (fp_set_dirty s)"
proof -
  have e: "fp_set_dirty (t\<lparr>softfloat_exceptionFlags := fl\<rparr>) = (fp_set_dirty t)\<lparr>softfloat_exceptionFlags := fl\<rparr>" for t :: "'a iss"
    by (simp add: fp_set_dirty_def csr_fset_def csr_upd_def)
  have d: "csrs (fp_set_dirty s) csr_fcsr = csrs s csr_fcsr" "softfloat_exceptionFlags (fp_set_dirty s) = 0"
    using assms by (simp_all add: fp_set_dirty_def csr_fset_def csr_upd_def)
  have z: "s'\<lparr>softfloat_exceptionFlags := 0\<rparr> = s'" if "softfloat_exceptionFlags s' = 0" for s' :: "'a iss"
    using that by (cases s') simp
  show ?thesis
  proof (cases "fl = 0")
    case True
    have "fp_finish_instr s = fp_set_dirty s"
      using d(2) by (simp add: fp_finish_instr_def fp_update_exception_flags_def)
    moreover have "csr_fset csr_fcsr fcsr_fflags (csr_fget csr_fcsr fcsr_fflags s) (fp_set_dirty s) = fp_set_dirty s"
      by (simp add: csr_fset_def csr_upd_def csr_fget_def fset_fget flip: d(1))
    ultimately show ?thesis
      by (simp only: True z [OF assms] unsigned_0 or.right_neutral)
  next
    case False
    have "(fp_set_dirty s)\<lparr>csrs := t, softfloat_exceptionFlags := 0\<rparr> = (fp_set_dirty s)\<lparr>csrs := t\<rparr>" for t
      using z [of "(fp_set_dirty s)\<lparr>csrs := t\<rparr>"] d(2) by simp
    then show ?thesis
      using False d
      by (simp add: fp_finish_instr_def fp_update_exception_flags_def Let_def e fp_dirty_idem csr_fset_def csr_upd_def csr_fget_def)
  qed
qed

text \<open>
  C40. An arithmetic instruction with the floating-point unit on: a reserved rounding mode, static or dynamic, is an
  illegal instruction and changes nothing; otherwise the library is called with the selected rounding mode, its result
  goes to \<^verbatim>\<open>rd\<close>, the flags it raises accrue in \<^verbatim>\<open>fflags\<close>, the unit is marked dirty and the flags of the library are
  clear again. All F, D and Zfh arithmetic and conversions to floating point have this shape.
\<close>

theorem fp_arith_delivers:
  fixes s :: "'d iss"
  assumes "csr_fget csr_mstatus mstatus_fs s \<noteq> FS_OFF" "softfloat_exceptionFlags s = 0"
    and "write = (\<lambda>i x. fp_write64 i (box x))" "f (s\<lparr>softfloat_roundingMode := ucast (rounding_mode s)\<rparr>) = (r, fl)"
  shows "fp_arith write f s = (if rounding_mode s > FRM_RMM then (Inl (SimulationTrap EXC_ILLEGAL_INSTR (ucast (instr s))), s)
      else (Inr (), fp_result write r fl s)) \<and> softfloat_exceptionFlags (fp_result write r fl s) = 0"
proof -
  let ?s = "s\<lparr>softfloat_roundingMode := ucast (rounding_mode s)\<rparr>"
  let ?t = "write (rd (instr s)) r ?s"
  have t: "softfloat_exceptionFlags ?t = 0" "csr_fget csr_fcsr fcsr_fflags ?t = csr_fget csr_fcsr fcsr_fflags s"
    using assms(2) by (simp_all add: assms(3) fp_write64_def csr_fget_def)
  have "fp_result write r fl s = fp_finish_instr (?t\<lparr>softfloat_exceptionFlags := fl\<rparr>)"
    unfolding fp_finish [OF t(1)] by (simp add: fp_result_def t(2))
  moreover have "write (rd (instr s)) r (?s\<lparr>softfloat_exceptionFlags := fl\<rparr>) = ?t\<lparr>softfloat_exceptionFlags := fl\<rparr>"
    by (simp add: assms(3) fp_write64_def)
  moreover have "softfloat_exceptionFlags (fp_result write r fl s) = 0"
    using t(1) by (simp add: fp_result_def fp_set_dirty_def csr_fset_def csr_upd_def)
  ultimately show ?thesis
    using assms(1,2,4)
    by (simp add: fp_arith_def fp_prepare_instr_def fp_require_not_off_def fp_setup_rm_def monad_simps assertM_def
        sf_call_def RAISE_ILLEGAL_INSTRUCTION_def flip: rounding_mode_def)
qed

text \<open>\<^verbatim>\<open>0x0020F153\<close> is \<^verbatim>\<open>fadd.s f2, f1, f2\<close> with the dynamic rounding mode.\<close>

theorem fp_arith_delivers_witness:
  "\<exists>s'. op_FADD_S some_softfloat (csr_fset csr_mstatus mstatus_fs FS_DIRTY
       ((tiny_init True True (\<lambda>_. 10000) 0)\<lparr>instr := 0x0020F153\<rparr>)) = (Inr (), s') \<and> softfloat_exceptionFlags s' = 0"
proof -
  let ?s = "csr_fset csr_mstatus mstatus_fs FS_DIRTY ((tiny_init True True (\<lambda>_. 10000) 0)\<lparr>instr := 0x0020F153\<rparr>)"
  let ?f = "\<lambda>s. sf_f32_add some_softfloat (softfloat_roundingMode s) (f32 (rs1 (instr s)) s) (f32 (rs2 (instr s)) s)"
  have s: "csr_fget csr_mstatus mstatus_fs ?s \<noteq> FS_OFF" "softfloat_exceptionFlags ?s = 0"
    by (simp_all add: csr_fget_fset_same csr_fset_def csr_upd_def csr_fget_def bitfield_simps)
  have "frm 0x0020F153 = FRM_DYN" by code_simp
  then have "rounding_mode ?s = 0"
    by (simp add: rounding_mode_def csr_fget_fset_other)
      (simp add: csr_fget_def tiny_init_def iss_init_def ISS_CT_def csr_table_init_def fget_def)
  moreover have "fp_write32 = (\<lambda>i x. fp_write64 i (box_f32 x))" by (simp add: fun_eq_iff fp_write32_def)
  ultimately show ?thesis
    using fp_arith_delivers [OF s, of fp_write32 box_f32 ?f] unfolding op_FADD_S_def
    by (metis (no_types, lifting) old.prod.exhaust word_not_simps(1))
qed

end
