(* ===== verification/VP_VExt.thy ===== *)
theory VP_VExt
  imports VP_FP Complex_Main
begin

text \<open>
  The vector unit, class \<^verbatim>\<open>VExtension\<close> of \<^verbatim>\<open>vp/src/core/common/v.h\<close>: the register file, the settings of
  \<^verbatim>\<open>vsetvl\<close>, the checks of an instruction, loads and stores, and the loops over the elements.

  The register file is a list of bytes in the layout of the source. An access behind its end, which is undefined
  in C++, reads zeros and writes nothing; \<open>VP_VProps\<close> shows which accesses the checks of an instruction exclude, and
  that the comparisons make one they do not exclude, of a value they do not use. The source
  computes \<^verbatim>\<open>lmul\<close> and \<^verbatim>\<open>emul\<close> in floating point: they are powers of two, which are exact there, and
  rational numbers here. A local variable that a loop body captures by reference is the accumulator of the loop.
\<close>

section \<open>Constants and formats\<close>

abbreviation (input) VLEN :: u64 where "VLEN \<equiv> 512"
abbreviation (input) ELEN :: u64 where "ELEN \<equiv> 64"
abbreviation (input) SEW_MIN :: u64 where "SEW_MIN \<equiv> 8"

abbreviation (input) VS_DIRTY :: u32 where "VS_DIRTY \<equiv> 3"

abbreviation (input) vtype_vlmul :: bitfield where "vtype_vlmul \<equiv> (0, 3)"
abbreviation (input) vtype_vsew :: bitfield where "vtype_vsew \<equiv> (3, 3)"
abbreviation (input) vtype_vill :: bitfield where "vtype_vill \<equiv> (31, 1)"

fun elem_sel_bits :: "elem_sel_t \<Rightarrow> u8" where
  "elem_sel_bits xxxuuu = 0x00" | "elem_sel_bits xxxuus = 0x01" | "elem_sel_bits xxxssu = 0x06"
| "elem_sel_bits xxxsss = 0x07" | "elem_sel_bits xwxuuu = 0x10" | "elem_sel_bits xwxssu = 0x16"
| "elem_sel_bits xwxsss = 0x17" | "elem_sel_bits wxxuuu = 0x20" | "elem_sel_bits wxxuus = 0x21"
| "elem_sel_bits wxxusu = 0x22" | "elem_sel_bits wxxsss = 0x27" | "elem_sel_bits wxwuuu = 0x28"
| "elem_sel_bits wxwsss = 0x2F" | "elem_sel_bits wwxuuu = 0x30" | "elem_sel_bits wwxsss = 0x37"

datatype load_store_type_t = ls_standard | ls_standard_reg | ls_masked | ls_indexed | ls_fofl | ls_whole
datatype load_store_t = v_load | v_store

text \<open>\<^verbatim>\<open>>>\<close> of a signed and of an unsigned type.\<close>

definition shr :: "bool \<Rightarrow> u64 \<Rightarrow> u64 \<Rightarrow> u64" where
  "shr sg v d = (if sg then signed_drop_bit (unat d) v else drop_bit (unat d) v)"

text \<open>Conversion of a floating-point number that is not negative to \<^verbatim>\<open>uint64_t\<close>.\<close>

definition trunc_u64 :: "rat \<Rightarrow> u64" where
  "trunc_u64 x = of_int \<lfloor>x\<rfloor>"

definition vx_upd :: "(vext \<Rightarrow> vext) \<Rightarrow> 'd iss \<Rightarrow> 'd iss" where
  "vx_upd f s = s\<lparr>v_ext := f (v_ext s)\<rparr>"

section \<open>The register file\<close>

text \<open>The offset of element \<open>elem_num\<close>, of \<open>n\<close> bytes, of the register group that starts at \<open>vec_idx\<close>.\<close>

definition vreg_off :: "nat \<Rightarrow> u64 \<Rightarrow> u64 \<Rightarrow> nat" where
  "vreg_off n vec_idx elem_num =
     (let num_elem_per_reg = VLENB div n
      in (unat vec_idx + unat elem_num div num_elem_per_reg) * VLENB + unat elem_num mod num_elem_per_reg * n)"

definition put_bytes :: "nat \<Rightarrow> u8 list \<Rightarrow> u8 list \<Rightarrow> u8 list" where
  "put_bytes off bs xs =
     map (\<lambda>k. if off \<le> k \<and> k < off + length bs then bs ! (k - off) else xs ! k) [0..<length xs]"

definition get_reg :: "nat \<Rightarrow> u64 \<Rightarrow> u64 \<Rightarrow> 'd iss \<Rightarrow> u64" where
  "get_reg n vec_idx elem_num s =
     bytes_to_word (take n (drop (vreg_off n vec_idx elem_num) (v_regs (v_ext s))))"

definition reg_write :: "nat \<Rightarrow> u64 \<Rightarrow> u64 \<Rightarrow> u64 \<Rightarrow> 'd iss \<Rightarrow> 'd iss" where
  "reg_write n vec_idx elem_num val =
     vx_upd (\<lambda>x. x\<lparr>v_regs := put_bytes (vreg_off n vec_idx elem_num) (word_to_bytes n val) (v_regs x)\<rparr>)"

section \<open>Scalar registers\<close>

definition iss_reg_read :: "u32 \<Rightarrow> 'd iss \<Rightarrow> u64" where
  "iss_reg_read addr s = scast (reg addr s)"

definition iss_reg_read_unsigned :: "u32 \<Rightarrow> 'd iss \<Rightarrow> u64" where
  "iss_reg_read_unsigned addr s = scast (reg addr s) AND 0xFFFFFFFF"

definition iss_reg_write :: "u32 \<Rightarrow> u64 \<Rightarrow> 'd iss \<Rightarrow> 'd iss" where
  "iss_reg_write addr v s = (if addr = 0 then s else set_reg addr (ucast v) s)"

definition v_assert :: "bool \<Rightarrow> ('d iss, unit) M" where
  "v_assert cond = (if \<not> cond then RAISE_ILLEGAL_INSTRUCTION else ret ())"

definition set_fp_rm :: "('d iss, unit) M" where
  "set_fp_rm = bindM (getsM (csr_fget csr_fcsr fcsr_frm)) (\<lambda>frm.
     seqM (v_assert (frm \<le> FRM_RMM)) (modifyM (\<lambda>s. s\<lparr>softfloat_roundingMode := ucast frm\<rparr>)))"

definition fp_reg_read :: "u32 \<Rightarrow> u64 \<Rightarrow> ('d iss, u64) M" where
  "fp_reg_read addr sew =
     (if sew = 16 then getsM (\<lambda>s. ucast (f16 addr s))
      else if sew = 32 then getsM (\<lambda>s. ucast (f32 addr s))
      else if sew = 64 then getsM (f64 addr)
      else if sew = 0 then getsM (f64 addr)
      else seqM (v_assert False) (ret 0))"

definition fp_reg_write :: "u32 \<Rightarrow> u64 \<Rightarrow> u64 \<Rightarrow> ('d iss, unit) M" where
  "fp_reg_write addr v sew =
     (if sew = 16 then modifyM (fp_write16 addr (ucast v))
      else if sew = 32 then modifyM (fp_write32 addr (ucast v))
      else if sew = 64 then modifyM (fp_write64 addr v)
      else v_assert False)"

section \<open>Register groups\<close>

definition v_is_aligned :: "u64 \<Rightarrow> u64 \<Rightarrow> bool" where
  "v_is_aligned addr alignment \<longleftrightarrow> alignment = 0 \<or> addr AND (alignment - 1) = 0"

text \<open>Whether a destination group may overlap a source group.\<close>

definition vreg_overlap_valid :: "u64 \<Rightarrow> rat \<Rightarrow> u64 \<Rightarrow> u64 \<Rightarrow> rat \<Rightarrow> u64 \<Rightarrow> bool \<Rightarrow> bool" where
  "vreg_overlap_valid vd vd_emul vd_eew vs vs_emul vs_eew strict =
     (let d = rat_of_nat (unat vd); v = rat_of_nat (unat vs) in
      if d > v + of_int \<lceil>vs_emul\<rceil> - 1 \<or> v > d + of_int \<lceil>vd_emul\<rceil> - 1 then True
      else if strict then False
      else if vd_eew = vs_eew then True
      else if vd_eew < vs_eew \<and> vd = vs then True
      else vd_eew > vs_eew \<and> vs_emul \<ge> 1 \<and> v + vs_emul - 1 \<ge> d + vd_emul - 1)"

section \<open>Settings\<close>

definition getIntVSew :: "'d iss \<Rightarrow> u64" where
  "getIntVSew s = push_bit (unat (csr_fget csr_vtype vtype_vsew s) + 3) 1"

definition prepInstr :: "bool \<Rightarrow> bool \<Rightarrow> bool \<Rightarrow> ('d iss, unit) M" where
  "prepInstr require_not_off require_vill is_fp =
     seqM (whenM require_not_off requireNotOff)
     (seqM (modifyM (csr_fset csr_mstatus mstatus_sd 1))
     (seqM (modifyM (csr_fset csr_mstatus mstatus_vs VS_DIRTY))
     (seqM (whenM require_vill (bindM (getsM (csr_fget csr_vtype vtype_vill)) (\<lambda>vill. v_assert (vill \<noteq> 1))))
     (seqM (whenM is_fp (bindM (getsM getIntVSew) (\<lambda>sew.
        seqM (v_assert (sew \<ge> 32)) (seqM fp_prepare_instr set_fp_rm))))
     (modifyM (vx_upd (\<lambda>x. x\<lparr>vd_eew_overwrite := 0, o1_eew_overwrite := 0, o2_eew_overwrite := 0,
        require_no_overlap := False, require_vd_not_v0 := True, ignoreAlignment := False,
        ignoreOverlap := False, vd_is_mask := False, vs1_is_mask := False, vs2_is_mask := False,
        vd_is_scalar := False, vs1_is_scalar := False\<rparr>)))))))"

definition finishInstr :: "bool \<Rightarrow> ('d iss, unit) M" where
  "finishInstr is_fp = seqM (modifyM (csr_upd csr_vstart 0)) (whenM is_fp (modifyM fp_finish_instr))"

definition signExtend :: "u64 \<Rightarrow> u64 \<Rightarrow> u64" where
  "signExtend v width = shr True (push_bit (unat (64 - width)) v) (64 - width)"

text \<open>\<^verbatim>\<open>int8_t(vlmul << 5) >> 5\<close> and the power of two it stands for.\<close>

definition signed_vlmul :: "u64 \<Rightarrow> int" where
  "signed_vlmul vlmul = sint (signed_drop_bit 5 (push_bit 5 (ucast vlmul) :: u8))"

definition lmul_of :: "u64 \<Rightarrow> rat" where
  "lmul_of vlmul = (let k = signed_vlmul vlmul in if k \<le> 0 then 1 / 2 ^ nat (- k) else 2 ^ nat k)"

definition getVlmul :: "'d iss \<Rightarrow> rat" where
  "getVlmul s = lmul_of (ucast (csr_fget csr_vtype vtype_vlmul s))"

definition u_rat :: "u64 \<Rightarrow> rat" where
  "u_rat x = rat_of_nat (unat x)"

definition v_set_operation :: "u32 \<Rightarrow> u32 \<Rightarrow> u64 \<Rightarrow> u64 \<Rightarrow> 'd iss \<Rightarrow> 'd iss" where
  "v_set_operation xd xs1 vtype_new avl s =
     (let vlmul = BIT_RANGE vtype_new 2 0;
          intVSew = push_bit (unat (BIT_SLICE_u vtype_new 5 3) + 3) 1 :: u64;
          is_vsetivli = (bhigh (instr s) \<noteq> 0 \<and> bhigh2 (instr s) \<noteq> 0);
          lmul = lmul_of vlmul;
          vlmax = trunc_u64 (lmul * u_rat VLEN / u_rat intVSew);
          avl = (if \<not> is_vsetivli
                 then (if xs1 \<noteq> 0 then iss_reg_read xs1 s
                       else if xd \<noteq> 0 then - 1
                       else ucast (csrs s csr_vl))
                 else avl);
          s = csr_upd csr_vl (ucast (if avl \<le> vlmax then avl else vlmax)) s;
          s = csr_upd csr_vtype (ucast vtype_new) s;
          ill = (lmul * u_rat ELEN < u_rat SEW_MIN \<or> vtype_new AND NOT 0xFF \<noteq> 0 \<or>
                 intVSew > 64 \<or> vlmul = 4 \<or> u_rat intVSew / lmul > u_rat ELEN);
          s = csr_fset csr_vtype vtype_vill (csr_fget csr_vtype vtype_vill s OR of_bool ill) s;
          s = (if csr_fget csr_vtype vtype_vill s \<noteq> 0
               then csr_fset csr_vtype vtype_vill 1 (csr_upd csr_vtype 0 (csr_upd csr_vl 0 s))
               else s)
      in if \<not> is_vsetivli \<and> \<not> (xd = 0 \<and> xs1 = 0) \<or> is_vsetivli
         then iss_reg_write xd (ucast (csrs s csr_vl)) s else s)"

section \<open>Rounding and single bits\<close>

definition getMask :: "u64 \<Rightarrow> u64" where
  "getMask numBits = (if numBits < 64 then push_bit (unat numBits) 1 - 1 else - 1)"

definition getRoundingIncrement :: "bool \<Rightarrow> u64 \<Rightarrow> u64 \<Rightarrow> 'd iss \<Rightarrow> u64" where
  "getRoundingIncrement sg v d s =
     (let vxrm = csrs s csr_vxrm;
          lsb = shr sg v d AND 1;
          lsb_half = (if d = 0 then 0 else shr sg v (d - 1) AND 1);
          lsb_mask = getMask d
      in if vxrm = 0 then lsb_half
         else if vxrm = 1 then lsb_half AND (of_bool (v AND drop_bit 1 lsb_mask \<noteq> 0) OR lsb)
         else if vxrm = 2 then 0
         else of_bool (lsb = 0) AND of_bool (v AND lsb_mask \<noteq> 0))"

definition vRound :: "bool \<Rightarrow> u64 \<Rightarrow> u64 \<Rightarrow> 'd iss \<Rightarrow> u64" where
  "vRound sg v d s =
     (let r = getRoundingIncrement sg v d s in if d = 64 then r else shr sg v d + r)"

definition setSingleBit :: "u64 \<Rightarrow> u64 \<Rightarrow> u64 \<Rightarrow> u64" where
  "setSingleBit w m f = (w AND NOT m) OR (- f AND m)"

definition setSingleBitUnmasked :: "u64 \<Rightarrow> u64 \<Rightarrow> u64 \<Rightarrow> u64" where
  "setSingleBitUnmasked w f reg_pos = setSingleBit w (push_bit (unat reg_pos) 1) f"

section \<open>Operands\<close>

definition getSewSingleOperand :: "u64 \<Rightarrow> u64 \<Rightarrow> u64 \<Rightarrow> ('d iss, u64) M" where
  "getSewSingleOperand sew addr index =
     (if sew = 8 then getsM (get_reg 1 addr index)
      else if sew = 16 then getsM (get_reg 2 addr index)
      else if sew = 32 then getsM (get_reg 4 addr index)
      else if sew = 64 then getsM (get_reg 8 addr index)
      else seqM (v_assert False) (ret 0))"

text \<open>
  The widths and signs of destination, second and first operand: \<^verbatim>\<open>(vd_eew, vd_signed, op2_eew, op2_signed,
  op1_eew, op1_signed)\<close>.
\<close>

type_synonym eews = "u64 \<times> bool \<times> u64 \<times> bool \<times> u64 \<times> bool"

definition getSignedEew :: "'d iss \<Rightarrow> eews" where
  "getSignedEew s =
     (let sew = getIntVSew s; x = v_ext s; b = elem_sel_bits (elem_sel x);
          o1_eew = (if o1_eew_overwrite x \<noteq> 0 then o1_eew_overwrite x else if bit b 3 then push_bit 1 sew else sew);
          o2_eew = (if o2_eew_overwrite x \<noteq> 0 then o2_eew_overwrite x else if bit b 4 then push_bit 1 sew else sew);
          vd_eew = (if vd_eew_overwrite x \<noteq> 0 then vd_eew_overwrite x else if bit b 5 then push_bit 1 sew else sew)
      in (vd_eew, bit b 2, o2_eew, bit b 1, o1_eew, bit b 0))"

definition getOperandsRed :: "u64 \<Rightarrow> u64 \<Rightarrow> ('d iss, u64 \<times> u64) M" where
  "getOperandsRed i_op1 i_op2 = bindM (getsM (\<lambda>s. (getSignedEew s, instr s, param_sel (v_ext s))))
     (\<lambda>((vd_eew, vd_signed, op2_eew, op2_signed, op1_eew, op1_signed), w, sel).
      bindM (getSewSingleOperand op2_eew (ucast (rs2 w)) i_op2) (\<lambda>op2.
      bindM (case sel of
          sel_vv \<Rightarrow> getSewSingleOperand op1_eew (ucast (rs1 w)) i_op1
        | sel_vi \<Rightarrow> ret (if op1_signed then signExtend (ucast (rs1 w)) 5 else ucast (rs1 w))
        | sel_vx \<Rightarrow> getsM (\<lambda>s. let op1 = iss_reg_read (rs1 w) s AND getMask op1_eew
                              in if op1_signed then signExtend op1 op1_eew else op1)
        | sel_vf \<Rightarrow> fp_reg_read (rs1 w) op1_eew
        | sel_v \<Rightarrow> seqM (v_assert False) (ret 0)) (\<lambda>op1.
      ret (op1, op2))))"

definition getOperands :: "u64 \<Rightarrow> ('d iss, u64 \<times> u64) M" where
  "getOperands i = getOperandsRed i i"

definition clampSigned :: "u64 \<Rightarrow> u64 \<Rightarrow> u64 \<Rightarrow> ('d iss, u64) M" where
  "clampSigned elem orig_elemWidth dest_elemWidth =
     (let elem_signed = signExtend elem orig_elemWidth in
      bindM (if dest_elemWidth = 8 then ret (0x7F, - 0x80)
             else if dest_elemWidth = 16 then ret (0x7FFF, - 0x8000)
             else if dest_elemWidth = 32 then ret (0x7FFFFFFF, - 0x80000000)
             else if dest_elemWidth = 64 then ret (0x7FFFFFFFFFFFFFFF, - 0x8000000000000000)
             else seqM (v_assert False) (ret (0, 0))) (\<lambda>(upper_bound, lower_bound).
      let clamped = (if elem_signed <s lower_bound then lower_bound
                     else if upper_bound <s elem_signed then upper_bound else elem_signed) in
      seqM (modifyM (\<lambda>s. csr_fset csr_vxsat vxsat_vxsat
              (csr_fget csr_vxsat vxsat_vxsat s OR of_bool (clamped \<noteq> elem_signed)) s))
        (ret clamped)))"

definition getOperandsAll :: "u64 \<Rightarrow> ('d iss, u64 \<times> u64 \<times> u64) M" where
  "getOperandsAll i = bindM (getOperands i) (\<lambda>(op1, op2).
     bindM (getsM (\<lambda>s. (fst (getSignedEew s), rd (instr s)))) (\<lambda>(vd_eew, d).
     bindM (getSewSingleOperand vd_eew (ucast d) i) (\<lambda>vd. ret (op1, op2, vd))))"

text \<open>
  After the write the source reads the register back for a trace it does not print; for a width above 64 the
  computation of the index for it divides by zero.
\<close>

definition writeSewSingleOperand :: "u64 \<Rightarrow> u64 \<Rightarrow> u64 \<Rightarrow> u64 \<Rightarrow> ('d iss, unit) M" where
  "writeSewSingleOperand sew addr index result =
     seqM (if sew = 8 then modifyM (reg_write 1 addr index result)
           else if sew = 16 then modifyM (reg_write 2 addr index result)
           else if sew = 32 then modifyM (reg_write 4 addr index result)
           else if sew = 64 then modifyM (reg_write 8 addr index result)
           else ret ())
       (if 64 div sew = 0 then raise RuntimeError else ret ())"

definition writeGeneric :: "u64 \<Rightarrow> u64 \<Rightarrow> ('d iss, unit) M" where
  "writeGeneric result i = bindM (getsM (\<lambda>s. (fst (getSignedEew s), rd (instr s)))) (\<lambda>(vd_eew, d).
     writeSewSingleOperand vd_eew (ucast d) i result)"

section \<open>Checks\<close>

text \<open>
  For the overlap of register groups a mask has elements of one bit. \<^verbatim>\<open>vs1\<close> is a vector operand only for
  \<open>sel_vv\<close>; otherwise its \<^verbatim>\<open>emul\<close> is 0.
\<close>

definition applyChecks :: "('d iss, unit) M" where
  "applyChecks = bindM (getsM (\<lambda>s. (getSignedEew s, getVlmul s, getIntVSew s, instr s, v_ext s)))
     (\<lambda>((vd_eew, vd_signed, vs2_eew, vs2_signed, vs1_eew, vs1_signed), lmul, sew, w, x).
      seqM (v_assert (vd_eew \<ge> 8 \<and> vd_eew \<le> 64 \<and> vs2_eew \<ge> 8 \<and> vs2_eew \<le> 64 \<and> vs1_eew \<ge> 8 \<and> vs1_eew \<le> 64))
      (seqM (whenM (require_vd_not_v0 x \<and> vm w = 0) (v_assert (rd w \<noteq> 0)))
      (let vd_eew = (if vd_is_mask x then 1 else vd_eew);
           vs1_eew = (if vs1_is_mask x then 1 else vs1_eew);
           vs2_eew = (if vs2_is_mask x then 1 else vs2_eew);
           vv = (param_sel x = sel_vv);
           vd = ucast (rd w) :: u64; vs2 = ucast (rs2 w) :: u64; vs1 = ucast (rs1 w) :: u64;
           vd_emul = lmul * u_rat vd_eew / u_rat sew;
           vs2_emul = lmul * u_rat vs2_eew / u_rat sew;
           vs1_emul = (if vv then lmul * u_rat vs1_eew / u_rat sew else 0)
       in seqM (whenM (\<not> vd_is_scalar x) (v_assert (vd_emul \<le> 8)))
         (seqM (v_assert (vs2_emul \<le> 8))
         (seqM (whenM (\<not> vs1_is_scalar x) (v_assert (vs1_emul \<le> 8)))
         (seqM (whenM (\<not> ignoreOverlap x)
            (seqM (whenM vv (v_assert (vreg_overlap_valid vd vd_emul vd_eew vs1 vs1_emul vs1_eew (require_no_overlap x))))
               (v_assert (vreg_overlap_valid vd vd_emul vd_eew vs2 vs2_emul vs2_eew (require_no_overlap x)))))
         (whenM (\<not> ignoreAlignment x)
            (seqM (whenM (\<not> vd_is_mask x \<and> \<not> vd_is_scalar x) (v_assert (v_is_aligned vd (trunc_u64 vd_emul))))
            (seqM (whenM (\<not> vs2_is_mask x) (v_assert (v_is_aligned vs2 (trunc_u64 vs2_emul))))
               (whenM (vv \<and> \<not> vs1_is_mask x \<and> \<not> vs1_is_scalar x)
                  (v_assert (v_is_aligned vs1 (trunc_u64 vs1_emul)))))))))))))"

section \<open>Masks\<close>

definition getCarryElements :: "u64 \<Rightarrow> u64 \<times> u64" where
  "getCarryElements index = (index div ELEN, index mod ELEN)"

text \<open>Bit \<open>i\<close> of mask register \<open>addr\<close>.\<close>

definition mask_elem :: "u64 \<Rightarrow> u64 \<Rightarrow> ('d iss, u64) M" where
  "mask_elem addr i = (let (reg_idx, reg_pos) = getCarryElements i in
     bindM (getSewSingleOperand 64 addr reg_idx) (\<lambda>v. ret (drop_bit (unat reg_pos) v AND 1)))"

definition vInactiveHandling :: "u64 \<Rightarrow> u64 \<Rightarrow> ('d iss, bool) M" where
  "vInactiveHandling i evl = bindM (getsM (\<lambda>s. (ucast (csrs s csr_vstart) :: u64, vm (instr s)))) (\<lambda>(vstart, masked).
     if i < vstart then ret True
     else if i \<ge> evl then ret True
     else if masked = 0 then bindM (mask_elem 0 i) (\<lambda>m. ret (m = 0))
     else ret False)"

definition vCarry :: "u64 \<Rightarrow> ('d iss, u64) M" where
  "vCarry index = bindM (mask_elem 0 index) (\<lambda>carry. getsM (\<lambda>s. if vm (instr s) = 1 then 0 else carry))"

text \<open>Read the mask word of bit \<open>i\<close> of register \<open>rd\<close>, set the bit to \<open>f\<close>, write it back.\<close>

definition write_mask_bit :: "u64 \<Rightarrow> u64 \<Rightarrow> ('d iss, unit) M" where
  "write_mask_bit i f = (let (reg_idx, reg_pos) = getCarryElements i in
     bindM (getsM (\<lambda>s. ucast (rd (instr s)))) (\<lambda>d.
     bindM (getSewSingleOperand 64 d reg_idx) (\<lambda>vd.
     writeSewSingleOperand ELEN d reg_idx (setSingleBitUnmasked vd f reg_pos))))"

section \<open>Loads and stores\<close>

definition getShiftWidth :: "load_store_type_t \<Rightarrow> u64 \<Rightarrow> u64 \<Rightarrow> u64 \<Rightarrow> ('d iss, u64) M" where
  "getShiftWidth ldstType numBits i field =
     bindM (getsM (\<lambda>s. (instr s, getIntVSew s))) (\<lambda>(w, sew).
     let numBytes = drop_bit 3 numBits in
     case ldstType of
       ls_masked \<Rightarrow> ret i
     | ls_standard_reg \<Rightarrow> getsM (\<lambda>s. i * iss_reg_read (rs2 w) s + field * numBytes)
     | ls_indexed \<Rightarrow> bindM (getSewSingleOperand numBits (ucast (rs2 w)) i) (\<lambda>x. ret (x + field * drop_bit 3 sew))
     | _ \<Rightarrow> ret ((i * (ucast (nf w) + 1) + field) * numBytes))"

definition vLoadReqs :: "load_store_type_t \<Rightarrow> u64 \<Rightarrow> ('d iss, u64 \<times> u64) M" where
  "vLoadReqs ldstType eew = bindM (getsM (\<lambda>s. (instr s, getVlmul s, getIntVSew s, ucast (csrs s csr_vl) :: u64)))
     (\<lambda>(w, lmul, sew, vl).
      let nfields = ucast (nf w) + 1 :: u64 in
      bindM (if ldstType \<noteq> ls_whole \<and> ldstType \<noteq> ls_masked
             then (let emul = u_rat eew / u_rat sew * lmul;
                       effective_mul_idx =
                         (if ldstType = ls_indexed then (if lmul < 1 then 1 else trunc_u64 lmul)
                          else (if emul < 1 then 1 else trunc_u64 emul))
                   in seqM (v_assert (emul \<ge> 1 / 8 \<and> emul \<le> 8))
                      (seqM (v_assert (effective_mul_idx * nfields \<le> 8))
                      (seqM (v_assert (ucast (rd w) + nfields * effective_mul_idx \<le> 32))
                        (ret effective_mul_idx))))
             else ret 1) (\<lambda>effective_mul_idx.
      ret (effective_mul_idx,
           if ldstType = ls_masked then of_int \<lceil>u_rat vl / 8\<rceil>
           else if ldstType = ls_whole then VLEN div eew
           else vl)))"

definition vIndices :: "u32 \<Rightarrow> u64 \<Rightarrow> load_store_type_t \<Rightarrow> u64 \<Rightarrow> u64 \<Rightarrow> u64 \<Rightarrow> u64 \<times> u64" where
  "vIndices w i ldstType field switchElem effective_mul_idx =
     (let num_elem_per_reg = VLEN div switchElem in
      if ldstType = ls_whole
      then (let curr_idx = i * (ucast (nf w) + 1) + field
            in (ucast (rd w) + curr_idx div num_elem_per_reg, curr_idx mod num_elem_per_reg))
      else (ucast (rd w) + field * effective_mul_idx + i div num_elem_per_reg, i mod num_elem_per_reg))"

definition v_mem_load :: "'d iss_env \<Rightarrow> u64 \<Rightarrow> u64 \<Rightarrow> ('d iss, u64) M" where
  "v_mem_load E switchElem addr =
     (if switchElem = 8 then bindM (load_byte (mem E) addr) (\<lambda>v. ret (scast v))
      else if switchElem = 16 then bindM (load_half (mem E) addr) (\<lambda>v. ret (scast v))
      else if switchElem = 32 then bindM (load_word (mem E) addr) (\<lambda>v. ret (scast v))
      else if switchElem = 64 then load_double (mem E) addr
      else ret 0)"

definition v_mem_store :: "'d iss_env \<Rightarrow> u64 \<Rightarrow> u64 \<Rightarrow> u64 \<Rightarrow> ('d iss, unit) M" where
  "v_mem_store E switchElem addr v =
     (if switchElem = 8 then store_byte (mem E) addr (ucast v)
      else if switchElem = 16 then store_half (mem E) addr (ucast v)
      else if switchElem = 32 then store_word (mem E) addr (ucast v)
      else if switchElem = 64 then store_double (mem E) addr v
      else ret ())"

text \<open>A loop that a body ends early by returning \<open>True\<close>.\<close>

fun loop_break :: "nat list \<Rightarrow> (u64 \<Rightarrow> ('s, bool) M) \<Rightarrow> ('s, bool) M" where
  "loop_break [] f = ret False"
| "loop_break (i # is) f = bindM (f (of_nat i)) (\<lambda>stop. if stop then ret True else loop_break is f)"

text \<open>One field of one element; \<open>True\<close> ends the loops.\<close>

definition v_field ::
  "'d iss_env \<Rightarrow> load_store_t \<Rightarrow> u64 \<Rightarrow> load_store_type_t \<Rightarrow> u64 \<Rightarrow> u64 \<Rightarrow> u64 \<Rightarrow> u64 \<Rightarrow> ('d iss, bool) M"
where
  "v_field E ldst numBits ldstType switchElem effective_mul_idx i field =
     bindM (getsM (\<lambda>s. (instr s, iss_reg_read_unsigned (rs1 (instr s)) s))) (\<lambda>(w, base).
     bindM (getShiftWidth ldstType numBits i field) (\<lambda>off.
     let addr = base + off;
         (vec_idx, elem_num) = vIndices w i ldstType field switchElem effective_mul_idx
     in if ldst = v_load
        then bindM (v_mem_load E switchElem addr) (\<lambda>v.
          if ldstType = ls_fofl
          then catch_trap (seqM (writeSewSingleOperand switchElem vec_idx elem_num v) (ret False))
                 (\<lambda>r mtval. if i = 0 then raise (SimulationTrap r mtval)
                            else seqM (modifyM (csr_upd csr_vl (ucast i))) (ret True))
          else seqM (writeSewSingleOperand switchElem vec_idx elem_num v) (ret False))
        else bindM (getSewSingleOperand switchElem vec_idx elem_num) (\<lambda>v.
          seqM (v_mem_store E switchElem addr v) (ret False))))"

text \<open>The checks of \<^verbatim>\<open>vLoadStore\<close> before its loop.\<close>

definition v_ldst_checks :: "load_store_t \<Rightarrow> u64 \<Rightarrow> load_store_type_t \<Rightarrow> ('d iss, unit) M" where
  "v_ldst_checks ldst numBits ldstType =
     bindM (getsM (\<lambda>s. (instr s, getVlmul s, getIntVSew s))) (\<lambda>(w, lmul, sew).
     seqM (whenM (ldst = v_load \<and> vm w = 0) (v_assert (rd w \<noteq> 0)))
     (let vd = ucast (rd w) :: u64 in
      if ldstType = ls_indexed
      then (let vs2 = ucast (rs2 w) :: u64; vs2_emul = lmul * u_rat numBits / u_rat sew in
            seqM (v_assert (v_is_aligned vd (trunc_u64 lmul)))
            (seqM (v_assert (v_is_aligned vs2 (trunc_u64 vs2_emul)))
               (whenM (ldst = v_load)
                  (v_assert (\<forall>field \<in> set [0..<unat (nf w) + 1].
                     vreg_overlap_valid (vd + of_nat field * of_int \<lceil>lmul\<rceil>) lmul sew vs2 vs2_emul numBits
                       (nf w > 0))))))
      else if ldstType = ls_masked then ret ()
      else (let (lmul, sew) = (if ldstType = ls_whole then (u_rat (ucast (nf w) + 1), numBits) else (lmul, sew))
            in v_assert (v_is_aligned vd (trunc_u64 (lmul * u_rat numBits / u_rat sew))))))"

definition vLoadStore :: "'d iss_env \<Rightarrow> load_store_t \<Rightarrow> u64 \<Rightarrow> load_store_type_t \<Rightarrow> ('d iss, unit) M" where
  "vLoadStore E ldst numBits ldstType =
     bindM (vLoadReqs ldstType numBits) (\<lambda>(effective_mul_idx, evl).
     bindM (getsM (\<lambda>s. (if ldstType = ls_indexed then getIntVSew s else numBits, unat (nf (instr s)) + 1)))
       (\<lambda>(switchElem, nfields).
     seqM (v_ldst_checks ldst numBits ldstType)
     (bindM (loop_break [0..<unat evl] (\<lambda>i.
        bindM (vInactiveHandling i evl) (\<lambda>is_inactive.
        if is_inactive then ret False
        else seqM (modifyM (csr_upd csr_vstart (ucast i)))
               (loop_break [0..<nfields] (v_field E ldst numBits ldstType switchElem effective_mul_idx i)))))
      (\<lambda>_. ret ()))))"

section \<open>Loops over the elements\<close>

fun loop_acc :: "nat list \<Rightarrow> (u64 \<Rightarrow> 'a \<Rightarrow> ('s, 'a) M) \<Rightarrow> 'a \<Rightarrow> ('s, 'a) M" where
  "loop_acc [] f a = ret a"
| "loop_acc (i # is) f a = bindM (f (of_nat i) a) (loop_acc is f)"

text \<open>No body changes \<^verbatim>\<open>vl\<close>, which the source reads again for every element.\<close>

definition genericVLoop ::
  "(u64 \<Rightarrow> 'a \<Rightarrow> ('d iss, 'a) M) \<Rightarrow> elem_sel_t \<Rightarrow> param_sel_t \<Rightarrow> bool \<Rightarrow> 'a \<Rightarrow> ('d iss, 'a) M"
where
  "genericVLoop f elem param ignore_inactive acc =
     seqM (modifyM (vx_upd (\<lambda>x. x\<lparr>elem_sel := elem, param_sel := param\<rparr>)))
     (seqM applyChecks
     (bindM (getsM (\<lambda>s. ucast (csrs s csr_vl) :: u64)) (\<lambda>vl.
      bindM (loop_acc [0..<unat vl] (\<lambda>i a.
         bindM (if ignore_inactive then ret False else vInactiveHandling i vl) (\<lambda>is_inactive.
         if is_inactive then ret a else f i a)) acc) (\<lambda>a.
      seqM (modifyM (csr_upd csr_vstart 0)) (ret a)))))"

definition vLoop ::
  "(u64 \<Rightarrow> u64 \<Rightarrow> ('d iss, u64) M) \<Rightarrow> elem_sel_t \<Rightarrow> param_sel_t \<Rightarrow> ('d iss, unit) M"
where
  "vLoop func elem param = genericVLoop (\<lambda>i _. bindM (getOperands i) (\<lambda>(op1, op2).
     bindM (func op2 op1) (\<lambda>r. writeGeneric r i))) elem param False ()"

definition vLoopVdExt ::
  "(u64 \<Rightarrow> u64 \<Rightarrow> u64 \<Rightarrow> u64 \<Rightarrow> ('d iss, u64) M) \<Rightarrow> elem_sel_t \<Rightarrow> param_sel_t \<Rightarrow> ('d iss, unit) M"
where
  "vLoopVdExt func elem param = genericVLoop (\<lambda>i _. bindM (getOperandsAll i) (\<lambda>(op1, op2, vd).
     bindM (func op2 op1 vd i) (\<lambda>r. writeGeneric r i))) elem param False ()"

definition vLoopVdExtVoid ::
  "(u64 \<Rightarrow> u64 \<Rightarrow> u64 \<Rightarrow> u64 \<Rightarrow> ('d iss, unit) M) \<Rightarrow> elem_sel_t \<Rightarrow> param_sel_t \<Rightarrow> ('d iss, unit) M"
where
  "vLoopVdExtVoid func elem param =
     seqM (modifyM (vx_upd (\<lambda>x. x\<lparr>require_vd_not_v0 := False, vd_is_mask := True\<rparr>)))
       (genericVLoop (\<lambda>i _. bindM (getOperandsAll i) (\<lambda>(op1, op2, vd). func op2 op1 vd i)) elem param False ())"

definition vLoopVoid :: "(u64 \<Rightarrow> ('d iss, unit) M) \<Rightarrow> param_sel_t \<Rightarrow> ('d iss, unit) M" where
  "vLoopVoid func param = genericVLoop (\<lambda>i _. func i) xxxsss param False ()"

definition vLoopVoidNoOverlap :: "(u64 \<Rightarrow> ('d iss, unit) M) \<Rightarrow> param_sel_t \<Rightarrow> ('d iss, unit) M" where
  "vLoopVoidNoOverlap func param =
     seqM (modifyM (vx_upd (\<lambda>x. x\<lparr>require_no_overlap := True\<rparr>))) (vLoopVoid func param)"

definition vLoopVoidAllMask :: "(u64 \<Rightarrow> ('d iss, unit) M) \<Rightarrow> ('d iss, unit) M" where
  "vLoopVoidAllMask func =
     seqM (modifyM (vx_upd (\<lambda>x. x\<lparr>vd_is_mask := True, vs1_is_mask := True, vs2_is_mask := True\<rparr>)))
       (genericVLoop (\<lambda>i _. func i) xxxuuu sel_vv True ())"

definition vLoopVoidAll :: "(u64 \<Rightarrow> ('d iss, unit) M) \<Rightarrow> elem_sel_t \<Rightarrow> param_sel_t \<Rightarrow> ('d iss, unit) M" where
  "vLoopVoidAll func elem param =
     seqM (modifyM (vx_upd (\<lambda>x. x\<lparr>require_vd_not_v0 := False, vd_is_mask := True\<rparr>)))
       (genericVLoop (\<lambda>i _. func i) elem param True ())"

definition vLoopExt ::
  "(u64 \<Rightarrow> u64 \<Rightarrow> u64 \<Rightarrow> ('d iss, u64) M) \<Rightarrow> elem_sel_t \<Rightarrow> param_sel_t \<Rightarrow> ('d iss, unit) M"
where
  "vLoopExt func elem param =
     seqM (modifyM (vx_upd (\<lambda>x. x\<lparr>require_no_overlap := True\<rparr>)))
       (genericVLoop (\<lambda>i _. bindM (getOperands i) (\<lambda>(op1, op2).
          bindM (func op2 op1 i) (\<lambda>r. writeGeneric r i))) elem param False ())"

definition vLoopExtCarry ::
  "(u64 \<Rightarrow> u64 \<Rightarrow> u64 \<Rightarrow> ('d iss, u64) M) \<Rightarrow> elem_sel_t \<Rightarrow> param_sel_t \<Rightarrow> ('d iss, unit) M"
where
  "vLoopExtCarry func elem param = genericVLoop (\<lambda>i _. bindM (getOperands i) (\<lambda>(op1, op2).
     bindM (func op2 op1 i) (\<lambda>r. writeGeneric r i))) elem param True ()"

text \<open>
  Reductions: \<open>func\<close> maps the old to the new \<^verbatim>\<open>res\<close>; the accumulator is \<^verbatim>\<open>res\<close> and \<^verbatim>\<open>added_first\<close>.
\<close>

definition vLoopRed ::
  "(u64 \<Rightarrow> u64 \<Rightarrow> u64 \<Rightarrow> u64 \<Rightarrow> ('d iss, u64) M) \<Rightarrow> elem_sel_t \<Rightarrow> param_sel_t \<Rightarrow> ('d iss, unit) M"
where
  "vLoopRed func elem param =
     seqM (modifyM (vx_upd (\<lambda>x. x\<lparr>require_vd_not_v0 := False, ignoreOverlap := True, vd_is_scalar := True,
                                 vs1_is_scalar := True\<rparr>)))
     (bindM (genericVLoop (\<lambda>i (res, added_first).
        bindM (getsM getSignedEew) (\<lambda>(vd_eew, vd_signed, op2_eew, op2_signed, op1_eew, op1_signed).
        bindM (getOperandsRed 0 i) (\<lambda>(op1, op2).
        let res = (if \<not> added_first then (if op1_signed then signExtend op1 op1_eew else op1) else res) in
        bindM (func op2 op1 i res) (\<lambda>res. ret (res, True))))) elem param False (0, False))
      (\<lambda>(res, added_first). bindM (getsM (\<lambda>s. csrs s csr_vl)) (\<lambda>vl.
        whenM (vl > 0)
          (bindM (if \<not> added_first then bindM (getOperandsRed 0 0) (\<lambda>(op1, op2). ret op1) else ret res)
             (\<lambda>res. writeGeneric res 0)))))"

end
