(* ===== verification/VP_VOps.thy ===== *)
theory VP_VOps
  imports VP_VExt
begin

text \<open>
  The element operations of the vector unit (\<^verbatim>\<open>v.h\<close>): the functions that return a lambda for the loops, and the
  instructions with a loop of their own. A lambda is a monadic function; where the source computes something when
  it builds the lambda, the builder is monadic too. Signed arithmetic wraps.
\<close>

type_synonym 'd op2 = "u64 \<Rightarrow> u64 \<Rightarrow> ('d iss, u64) M"
type_synonym 'd op3 = "u64 \<Rightarrow> u64 \<Rightarrow> u64 \<Rightarrow> ('d iss, u64) M"
type_synonym 'd op4 = "u64 \<Rightarrow> u64 \<Rightarrow> u64 \<Rightarrow> u64 \<Rightarrow> ('d iss, u64) M"

text \<open>A lambda that begins by reading the widths and signs.\<close>

definition with_eew :: "(eews \<Rightarrow> ('d iss, 'a) M) \<Rightarrow> ('d iss, 'a) M" where
  "with_eew f = bindM (getsM getSignedEew) f"

definition set_vxsat :: "bool \<Rightarrow> ('d iss, unit) M" where
  "set_vxsat b = modifyM (\<lambda>s. csr_fset csr_vxsat vxsat_vxsat (csr_fget csr_vxsat vxsat_vxsat s OR of_bool b) s)"

section \<open>Integer arithmetic\<close>

definition vAdd :: "'d op2" where
  "vAdd op2 op1 = with_eew (\<lambda>(vd_eew, vd_signed, op2_eew, op2_signed, op1_eew, op1_signed).
     ret (if vd_signed then signExtend op2 op2_eew + signExtend op1 op1_eew else op2 + op1))"

definition vSub :: "'d op2" where
  "vSub op2 op1 = with_eew (\<lambda>(vd_eew, vd_signed, op2_eew, op2_signed, op1_eew, op1_signed).
     ret (if vd_signed then signExtend op2 op2_eew - signExtend op1 op1_eew else op2 - op1))"

definition vRSub :: "'d op2" where "vRSub op2 op1 = ret (op1 - op2)"
definition vAnd :: "'d op2" where "vAnd op2 op1 = ret (op2 AND op1)"
definition vOr :: "'d op2" where "vOr op2 op1 = ret (op2 OR op1)"
definition vXor :: "'d op2" where "vXor op2 op1 = ret (op2 XOR op1)"

definition shift_mask :: "u64 \<Rightarrow> u64 \<Rightarrow> 'd iss \<Rightarrow> u64" where
  "shift_mask op2_eew vd_eew s = getMask (ucast (csr_fget csr_vtype vtype_vsew s) + 2 + op2_eew div vd_eew)"

definition vShift :: "bool \<Rightarrow> 'd op2" where
  "vShift right op2 op1 = with_eew (\<lambda>(vd_eew, vd_signed, op2_eew, op2_signed, op1_eew, op1_signed).
     getsM (\<lambda>s. let shift_step = op1 AND shift_mask op2_eew vd_eew s in
       if right then (if vd_signed then shr True (signExtend op2 op2_eew) shift_step
                      else shr False op2 shift_step)
       else push_bit (unat shift_step) op2))"

definition vMin :: "'d op2" where
  "vMin op2 op1 = with_eew (\<lambda>(vd_eew, vd_signed, op2_eew, op2_signed, op1_eew, op1_signed).
     ret (if (if op2_signed then signExtend op2 op2_eew <s signExtend op1 op1_eew else op2 < op1)
          then op2 else op1))"

definition vMax :: "'d op2" where
  "vMax op2 op1 = with_eew (\<lambda>(vd_eew, vd_signed, op2_eew, op2_signed, op1_eew, op1_signed).
     ret (if (if op2_signed then signExtend op1 op1_eew <s signExtend op2 op2_eew else op1 < op2)
          then op2 else op1))"

text \<open>
  The 128-bit product in four 32-bit parts, shifted: \<^verbatim>\<open>(upper, lower)\<close>. \<open>sg2\<close> and \<open>sg1\<close> say whether the types of the
  operands are signed. The source shifts by 64 only where the result is not used or the operand is 0.
\<close>

definition multiply :: "bool \<Rightarrow> bool \<Rightarrow> u64 \<Rightarrow> u64 \<Rightarrow> u64 \<Rightarrow> bool \<Rightarrow> 'd iss \<Rightarrow> u64 \<times> u64" where
  "multiply sg2 sg1 op2 op1 shift rnd s =
     (let aHigh = shr sg2 op2 32;
          aLow = op2 AND 0xFFFFFFFF;
          bHigh = shr sg1 op1 32;
          bLow = op1 AND 0xFFFFFFFF;
          t0 = aLow * bLow;
          t1 = aLow * bHigh;
          t2 = aHigh * bLow;
          t3 = aHigh * bHigh;
          carry = drop_bit 32 t0 + (t1 AND 0xFFFFFFFF) + (t2 AND 0xFFFFFFFF);
          carry_other =
            (if sg2 \<and> sg1
             then shr True (signExtend t1 64) 32 + shr True (signExtend t2 64) 32 + shr True (signExtend carry 64) 32
             else if sg2 \<and> \<not> sg1
             then drop_bit 32 t1 + shr True (signExtend t2 64) 32 + shr True (signExtend carry 64) 32
             else drop_bit 32 t1 + drop_bit 32 t2 + drop_bit 32 carry);
          upper = t3 + carry_other;
          lower = push_bit 32 carry OR (t0 AND 0xFFFFFFFF);
          shiftOut = push_bit (unat (64 - shift)) (upper AND getMask shift);
          lower_part = (if shift = 64 then 0 else shr False lower shift);
          res = lower_part OR shiftOut
      in (shr False upper shift, if rnd then res + getRoundingIncrement False lower shift s else res))"

definition vMul :: "'d op2" where
  "vMul op2 op1 = with_eew (\<lambda>(vd_eew, vd_signed, op2_eew, op2_signed, op1_eew, op1_signed). getsM (\<lambda>s.
     snd (if op2_signed \<and> op1_signed
          then multiply True True (signExtend op2 op2_eew) (signExtend op1 op1_eew) 0 False s
          else if op2_signed \<and> \<not> op1_signed then multiply True False (signExtend op2 op2_eew) op1 0 False s
          else if \<not> op2_signed \<and> op1_signed then multiply True False (signExtend op1 op1_eew) op2 0 False s
          else multiply False False op1 op2 0 False s)))"

definition vMv :: "'d op2" where "vMv op2 op1 = ret op1"

definition quot_s :: "u64 \<Rightarrow> u64 \<Rightarrow> u64" where
  "quot_s a b = word_of_int (sint a sdiv sint b)"

definition rem_s :: "u64 \<Rightarrow> u64 \<Rightarrow> u64" where
  "rem_s a b = word_of_int (sint a smod sint b)"

abbreviation (input) INT64_MIN :: u64 where "INT64_MIN \<equiv> 0x8000000000000000"

definition vDiv :: "'d op2" where
  "vDiv op2 op1 = with_eew (\<lambda>(vd_eew, vd_signed, op2_eew, op2_signed, op1_eew, op1_signed). getsM (\<lambda>s.
     if \<not> vd_signed then (if op1 = 0 then - 1 else op2 div op1)
     else (let a = signExtend op1 op1_eew; b = signExtend op2 op2_eew in
           if a = 0 then - 1
           else if b = shr True INT64_MIN (64 - getIntVSew s) \<and> a = - 1 then b
           else quot_s b a)))"

text \<open>
  The remainder of the smallest 64-bit integer by \<open>- 1\<close> is undefined in C++; the division instruction of the host
  faults.
\<close>

definition vRem :: "'d op2" where
  "vRem op2 op1 = with_eew (\<lambda>(vd_eew, vd_signed, op2_eew, op2_signed, op1_eew, op1_signed).
     if \<not> vd_signed then ret (if op1 = 0 then op2 else op2 mod op1)
     else (let a = signExtend op1 op1_eew; b = signExtend op2 op2_eew in
           if a = 0 then ret b
           else if b = INT64_MIN \<and> a = - 1 then raise RuntimeError
           else ret (rem_s b a)))"

section \<open>Fixed-point arithmetic\<close>

definition vAadd :: "'d op2" where
  "vAadd op2 op1 = with_eew (\<lambda>(vd_eew, vd_signed, op2_eew, op2_signed, op1_eew, op1_signed). getsM (\<lambda>s.
     let msb = push_bit (unat (vd_eew - 1)) 1;
         res = (op2 + op1) AND getMask vd_eew;
         op1_msb_set = (op1 AND msb \<noteq> 0); op2_msb_set = (op2 AND msb \<noteq> 0); res_msb_set = (res AND msb \<noteq> 0);
         shiftResult = (if vd_signed then vRound True (signExtend res vd_eew) 1 s else vRound False res 1 s)
     in if vd_signed \<and> (op1_msb_set \<and> op2_msb_set \<and> \<not> res_msb_set \<or> \<not> op1_msb_set \<and> \<not> op2_msb_set \<and> res_msb_set)
        then shiftResult XOR msb
        else if \<not> vd_signed \<and> (op1_msb_set \<and> op2_msb_set \<or> \<not> op1_msb_set \<and> op2_msb_set \<and> \<not> res_msb_set \<or>
                               op1_msb_set \<and> \<not> op2_msb_set \<and> \<not> res_msb_set)
        then shiftResult OR msb
        else shiftResult))"

definition vAsub :: "'d op2" where
  "vAsub op2 op1 = with_eew (\<lambda>(vd_eew, vd_signed, op2_eew, op2_signed, op1_eew, op1_signed). getsM (\<lambda>s.
     let msb = push_bit (unat (vd_eew - 1)) 1;
         res = (op2 - op1) AND getMask vd_eew;
         op1_msb_set = (op1 AND msb \<noteq> 0); op2_msb_set = (op2 AND msb \<noteq> 0); res_msb_set = (res AND msb \<noteq> 0);
         shiftResult = (if vd_signed then vRound True (signExtend res vd_eew) 1 s else vRound False res 1 s)
     in if vd_signed \<and> (\<not> op1_msb_set \<and> op2_msb_set \<and> \<not> res_msb_set \<or> op1_msb_set \<and> \<not> op2_msb_set \<and> res_msb_set)
        then shiftResult XOR msb
        else if \<not> vd_signed \<and> (\<not> op1_msb_set \<and> \<not> op2_msb_set \<and> res_msb_set \<or>
                               op1_msb_set \<and> \<not> op2_msb_set \<and> res_msb_set \<or>
                               op1_msb_set \<and> \<not> op2_msb_set \<and> \<not> res_msb_set \<or>
                               op1_msb_set \<and> op2_msb_set \<and> res_msb_set)
        then shiftResult XOR msb
        else shiftResult))"

definition vSmul :: "'d op2" where
  "vSmul op2 op1 = with_eew (\<lambda>(vd_eew, vd_signed, op2_eew, op2_signed, op1_eew, op1_signed).
     if op2 AND getMask op2_eew = push_bit (unat (op2_eew - 1)) 1 \<and>
        op1 AND getMask op1_eew = push_bit (unat (op1_eew - 1)) 1
     then seqM (set_vxsat True) (ret (getMask (op2_eew - 1)))
     else getsM (\<lambda>s. snd (multiply True True (signExtend op2 op2_eew) (signExtend op1 op1_eew) (vd_eew - 1) True s)))"

definition vShiftRight :: "bool \<Rightarrow> 'd op2" where
  "vShiftRight clip_result op2 op1 = with_eew (\<lambda>(vd_eew, vd_signed, op2_eew, op2_signed, op1_eew, op1_signed).
     bindM (getsM (\<lambda>s. let d = op1 AND shift_mask op2_eew vd_eew s
                       in if vd_signed then vRound True (signExtend op2 op2_eew) d s else vRound False op2 d s))
       (\<lambda>result.
        if clip_result
        then (if \<not> vd_signed
              then (if result > getMask vd_eew then seqM (set_vxsat True) (ret (getMask vd_eew)) else ret result)
              else clampSigned result op2_eew vd_eew)
        else ret result))"

definition add_saturate :: "u64 \<Rightarrow> u64 \<Rightarrow> u64 \<Rightarrow> u64 \<times> bool" where
  "add_saturate op2 op1 bitWidth =
     (let msb = push_bit (unat (bitWidth - 1)) 1;
          maxVal = msb - 1;
          minVal = signExtend msb bitWidth;
          sm = (op2 + op1) AND getMask bitWidth;
          op1_msb_set = (op1 AND msb \<noteq> 0); op2_msb_set = (op2 AND msb \<noteq> 0); res_msb_set = (sm AND msb \<noteq> 0)
      in if op1_msb_set \<and> op2_msb_set \<and> \<not> res_msb_set then (minVal, True)
         else if \<not> op1_msb_set \<and> \<not> op2_msb_set \<and> res_msb_set then (maxVal, True)
         else (sm, False))"

definition addu_saturate :: "u64 \<Rightarrow> u64 \<Rightarrow> 'd iss \<Rightarrow> u64 \<times> bool" where
  "addu_saturate op2 op1 s =
     (let res = (op2 + op1) AND getMask (getIntVSew s);
          sat = (res < op1 AND getMask (getIntVSew s))
      in (res OR - of_bool sat, sat))"

definition vSadd :: "'d op2" where
  "vSadd op2 op1 = with_eew (\<lambda>(vd_eew, vd_signed, op2_eew, op2_signed, op1_eew, op1_signed).
     let (res, sat) = add_saturate op2 op1 vd_eew in seqM (set_vxsat sat) (ret res))"

definition vSaddu :: "'d op2" where
  "vSaddu op2 op1 = bindM (getsM (addu_saturate op2 op1)) (\<lambda>(res, sat). seqM (set_vxsat sat) (ret res))"

definition vSsub :: "'d op2" where
  "vSsub op2 op1 = with_eew (\<lambda>(vd_eew, vd_signed, op2_eew, op2_signed, op1_eew, op1_signed).
     let top = push_bit (unat (op2_eew - 1)) 1;
         maxVal = top - 1;
         minVal = signExtend top op2_eew;
         msb = push_bit (unat (vd_eew - 1)) 1;
         res = (op2 - op1) AND getMask vd_eew;
         op1_msb_set = (op1 AND msb \<noteq> 0); op2_msb_set = (op2 AND msb \<noteq> 0); res_msb_set = (res AND msb \<noteq> 0);
         (res, sat) = (if op2_msb_set \<and> \<not> op1_msb_set \<and> \<not> res_msb_set then (minVal, True)
                       else if \<not> op2_msb_set \<and> op1_msb_set \<and> res_msb_set then (maxVal, True)
                       else (res, False))
     in seqM (set_vxsat sat) (ret res))"

definition vSsubu :: "'d op2" where
  "vSsubu op2 op1 = bindM (getsM getIntVSew) (\<lambda>sew.
     let res = op2 - op1;
         sat = (res AND getMask sew \<le> op2)
     in seqM (set_vxsat (\<not> sat)) (ret (res AND - of_bool sat)))"

section \<open>Carries\<close>

definition vAdc :: "'d op3" where
  "vAdc op2 op1 i = bindM (vCarry i) (\<lambda>c. ret (op2 + op1 + c))"

definition vMadc :: "u64 \<Rightarrow> ('d iss, unit) M" where
  "vMadc i = with_eew (\<lambda>(vd_eew, vd_signed, op2_eew, op2_signed, op1_eew, op1_signed).
     bindM (getOperands i) (\<lambda>(op1, op2).
     bindM (vCarry i) (\<lambda>carry.
     let msb = push_bit (unat (vd_eew - 1)) 1;
         res = signExtend op2 op2_eew + signExtend op1 op1_eew;
         op1_msb_set = (op1 AND msb \<noteq> 0); op2_msb_set = (op2 AND msb \<noteq> 0); res_msb_set = (res AND msb \<noteq> 0);
         has_overflown = (op1_msb_set \<and> op2_msb_set \<or> op1_msb_set \<and> \<not> op2_msb_set \<and> \<not> res_msb_set \<or>
                          \<not> op1_msb_set \<and> op2_msb_set \<and> \<not> res_msb_set \<or> carry \<noteq> 0 \<and> res = getMask 64)
     in write_mask_bit i (of_bool has_overflown))))"

definition vSbc :: "'d op3" where
  "vSbc op2 op1 i = bindM (vCarry i) (\<lambda>c. ret (op2 - op1 - c))"

definition vMsbc :: "u64 \<Rightarrow> ('d iss, unit) M" where
  "vMsbc i = with_eew (\<lambda>(vd_eew, vd_signed, op2_eew, op2_signed, op1_eew, op1_signed).
     bindM (getOperands i) (\<lambda>(op1, op2).
     bindM (vCarry i) (\<lambda>carry.
     let msb = push_bit (unat (vd_eew - 1)) 1;
         res = signExtend op2 op2_eew - signExtend op1 op1_eew;
         op1_msb_set = (op1 AND msb \<noteq> 0); op2_msb_set = (op2 AND msb \<noteq> 0); res_msb_set = (res AND msb \<noteq> 0);
         has_overflown = (op1_msb_set \<and> \<not> op2_msb_set \<or> \<not> op1_msb_set \<and> \<not> op2_msb_set \<and> res_msb_set \<or>
                          op1_msb_set \<and> op2_msb_set \<and> res_msb_set \<or> carry \<noteq> 0 \<and> res = 0)
     in write_mask_bit i (of_bool has_overflown))))"

definition vMerge :: "'d op3" where
  "vMerge op2 op1 i = bindM (vCarry i) (\<lambda>c. ret (if c \<noteq> 0 then op1 else op2))"

section \<open>Multiply-add\<close>

definition vMacc :: "'d op4" where
  "vMacc op2 op1 vd i = with_eew (\<lambda>(vd_eew, vd_signed, op2_eew, op2_signed, op1_eew, op1_signed).
     ret (if op2_signed \<and> op1_signed
          then signExtend op2 op2_eew * signExtend op1 op1_eew + signExtend vd vd_eew
          else if \<not> op2_signed \<and> \<not> op1_signed then op2 * op1 + vd
          else if op2_signed \<and> \<not> op1_signed then signExtend op2 op2_eew * op1 + vd
          else op2 * signExtend op1 op1_eew + vd))"

definition vNmsac :: "'d op4" where "vNmsac op2 op1 vd i = ret (- (op2 * op1) + vd)"
definition vMadd :: "'d op4" where "vMadd op2 op1 vd i = ret ((op1 * vd) + op2)"
definition vNmsub :: "'d op4" where "vNmsub op2 op1 vd i = ret (- (op1 * vd) + op2)"

definition vMulh :: "'d op2" where
  "vMulh op2 op1 = with_eew (\<lambda>(vd_eew, vd_signed, op2_eew, op2_signed, op1_eew, op1_signed). getsM (\<lambda>s.
     snd (if op2_signed \<and> op1_signed
          then multiply True True (signExtend op2 op2_eew) (signExtend op1 op1_eew) op2_eew False s
          else if \<not> op2_signed \<and> \<not> op1_signed then multiply False False op2 op1 op2_eew False s
          else multiply True False (signExtend op2 op2_eew) op1 op2_eew False s)))"

section \<open>Comparisons and reductions\<close>

datatype int_compare_t = cmp_eq | cmp_ne | cmp_lt | cmp_le | cmp_gt

definition vCompInt :: "int_compare_t \<Rightarrow> u64 \<Rightarrow> u64 \<Rightarrow> u64 \<Rightarrow> u64 \<Rightarrow> ('d iss, unit) M" where
  "vCompInt type op2 op1 vd i = with_eew (\<lambda>(vd_eew, vd_signed, op2_eew, op2_signed, op1_eew, op1_signed).
     let op1 = op1 AND getMask op1_eew; a = signExtend op2 op2_eew; b = signExtend op1 op1_eew;
         comp = (case type of
             cmp_eq \<Rightarrow> op2 = op1
           | cmp_ne \<Rightarrow> op2 \<noteq> op1
           | cmp_lt \<Rightarrow> if op2_signed then a <s b else op2 < op1
           | cmp_le \<Rightarrow> if op2_signed then a \<le>s b else op2 \<le> op1
           | cmp_gt \<Rightarrow> if op2_signed then b <s a else op1 < op2)
     in write_mask_bit i (of_bool comp))"

definition vRedSum :: "'d op4" where
  "vRedSum op2 op1 i res = with_eew (\<lambda>(vd_eew, vd_signed, op2_eew, op2_signed, op1_eew, op1_signed).
     ret (if vd_signed then signExtend op2 op2_eew + signExtend res vd_eew else op2 + res))"

definition vRedMax :: "'d op4" where
  "vRedMax op2 op1 i res = with_eew (\<lambda>(vd_eew, vd_signed, op2_eew, op2_signed, op1_eew, op1_signed).
     ret (if (if vd_signed then signExtend res vd_eew \<le>s signExtend op2 op2_eew else res \<le> op2) then op2 else res))"

definition vRedMin :: "'d op4" where
  "vRedMin op2 op1 i res = with_eew (\<lambda>(vd_eew, vd_signed, op2_eew, op2_signed, op1_eew, op1_signed).
     ret (if (if vd_signed then signExtend op2 op2_eew \<le>s signExtend res vd_eew else op2 \<le> res) then op2 else res))"

definition vRedAnd :: "'d op4" where "vRedAnd op2 op1 i res = ret (res AND op2)"
definition vRedOr :: "'d op4" where "vRedOr op2 op1 i res = ret (res OR op2)"
definition vRedXor :: "'d op4" where "vRedXor op2 op1 i res = ret (res XOR op2)"

definition vExt :: "u64 \<Rightarrow> ('d iss, 'd op2) M" where
  "vExt division = seqM (modifyM (\<lambda>s. vx_upd (\<lambda>x. x\<lparr>o2_eew_overwrite := getIntVSew s div division\<rparr>) s))
     (ret (\<lambda>op2 op1. with_eew (\<lambda>(vd_eew, vd_signed, op2_eew, op2_signed, op1_eew, op1_signed).
        ret (if op2_signed then signExtend op2 op2_eew else op2))))"

section \<open>Mask registers\<close>

datatype maskOperation = m_and | m_nand | m_andn | m_or | m_xor | m_nor | m_orn | m_xnor

definition vMask :: "maskOperation \<Rightarrow> u64 \<Rightarrow> ('d iss, unit) M" where
  "vMask op i = bindM (getsM instr) (\<lambda>w.
     bindM (mask_elem (ucast (rs1 w)) i) (\<lambda>vs1.
     bindM (mask_elem (ucast (rs2 w)) i) (\<lambda>vs2.
     let res = (case op of
           m_and \<Rightarrow> vs2 AND vs1
         | m_nand \<Rightarrow> NOT (vs2 AND vs1)
         | m_andn \<Rightarrow> vs2 AND NOT vs1
         | m_or \<Rightarrow> vs2 OR vs1
         | m_xor \<Rightarrow> vs2 XOR vs1
         | m_nor \<Rightarrow> NOT (vs2 OR vs1)
         | m_orn \<Rightarrow> vs2 OR NOT vs1
         | m_xnor \<Rightarrow> vs2 XOR NOT vs1)
     in write_mask_bit i (res AND 1))))"

definition vx_rs2 :: "('d iss, u64) M" where
  "vx_rs2 = getsM (\<lambda>s. ucast (rs2 (instr s)))"

definition vCpop :: "('d iss, unit) M" where
  "vCpop = seqM (modifyM (vx_upd (\<lambda>x. x\<lparr>require_vd_not_v0 := False, ignoreAlignment := True\<rparr>)))
     (bindM (genericVLoop (\<lambda>i count. bindM vx_rs2 (\<lambda>r. bindM (mask_elem r i) (\<lambda>m. ret (count + m)))) xxxuuu sel_vv False 0)
        (\<lambda>count. modifyM (\<lambda>s. iss_reg_write (rd (instr s)) count s)))"

definition vFirst :: "('d iss, unit) M" where
  "vFirst = seqM (modifyM (vx_upd (\<lambda>x. x\<lparr>require_vd_not_v0 := False, ignoreAlignment := True\<rparr>)))
     (bindM (genericVLoop (\<lambda>i position. bindM vx_rs2 (\<lambda>r. bindM (mask_elem r i) (\<lambda>m.
        ret (if position = - 1 \<and> m \<noteq> 0 then i else position)))) xxxuuu sel_vv False (- 1))
        (\<lambda>position. modifyM (\<lambda>s. iss_reg_write (rd (instr s)) position s)))"

datatype vms_type_t = sbf | sif | sof

text \<open>The bit to set and the new \<^verbatim>\<open>hit\<close>.\<close>

fun vms_step :: "vms_type_t \<Rightarrow> bool \<Rightarrow> bool \<Rightarrow> u64 \<times> bool" where
  "vms_step type True m = (0, True)"
| "vms_step sof False m = (if m then (1, True) else (0, False))"
| "vms_step sif False m = (1, m)"
| "vms_step sbf False m = (if \<not> m then (1, False) else (0, True))"

definition vMs :: "vms_type_t \<Rightarrow> ('d iss, unit) M" where
  "vMs type = seqM (modifyM (vx_upd (\<lambda>x. x\<lparr>ignoreAlignment := True\<rparr>)))
     (seqM (bindM (getsM instr) (\<lambda>w. v_assert (rd w \<noteq> rs2 w)))
     (bindM (genericVLoop (\<lambda>i hit. bindM vx_rs2 (\<lambda>r. bindM (mask_elem r i) (\<lambda>m.
        let (result, hit) = vms_step type hit (m \<noteq> 0)
        in seqM (write_mask_bit i result) (ret hit)))) xxxuuu sel_vv False False)
      (\<lambda>_. ret ())))"

definition vIota :: "('d iss, unit) M" where
  "vIota = seqM (modifyM (vx_upd (\<lambda>x. x\<lparr>require_no_overlap := True, vs2_is_mask := True\<rparr>)))
     (bindM (genericVLoop (\<lambda>i count. bindM vx_rs2 (\<lambda>r. bindM (mask_elem r i) (\<lambda>m.
        seqM (writeGeneric count i) (ret (if m \<noteq> 0 then count + 1 else count))))) xxxuuu sel_v False 0)
      (\<lambda>_. ret ()))"

definition set_elem_sel :: "elem_sel_t \<Rightarrow> ('d iss, unit) M" where
  "set_elem_sel e = modifyM (vx_upd (\<lambda>x. x\<lparr>elem_sel := e\<rparr>))"

definition vId :: "u64 \<Rightarrow> ('d iss, unit) M" where
  "vId index = seqM (set_elem_sel xxxuuu) (writeGeneric index index)"

section \<open>Moves and permutations\<close>

definition vMvXs :: "('d iss, unit) M" where
  "vMvXs = bindM (getsM (\<lambda>s. (getIntVSew s, instr s))) (\<lambda>(sew, w).
     bindM (getSewSingleOperand sew (ucast (rs2 w)) 0) (\<lambda>res.
     modifyM (iss_reg_write (rd w) (signExtend res sew))))"

definition vMvSx :: "('d iss, unit) M" where
  "vMvSx = bindM (getsM (\<lambda>s. csrs s csr_vstart < csrs s csr_vl)) (\<lambda>b.
     whenM b (seqM (set_elem_sel xxxuuu)
       (bindM (getsM (\<lambda>s. signExtend (iss_reg_read (rs1 (instr s)) s) 32)) (\<lambda>res. writeGeneric res 0))))"

definition vSlideUp :: "u64 \<Rightarrow> u64 \<Rightarrow> ('d iss, unit) M" where
  "vSlideUp offset index = bindM (getsM (\<lambda>s. (ucast (csrs s csr_vstart) < offset, getIntVSew s, instr s)))
     (\<lambda>(early, sew, w).
      if early \<and> index < offset then ret ()
      else seqM (set_elem_sel xxxsss)
        (bindM (getSewSingleOperand sew (ucast (rs2 w)) (index - offset)) (\<lambda>res. writeGeneric res index)))"

definition vSlideDown :: "u64 \<Rightarrow> u64 \<Rightarrow> ('d iss, unit) M" where
  "vSlideDown offset index = seqM (set_elem_sel xxxsss)
     (bindM (getsM (\<lambda>s. (getVlmul s, getIntVSew s, instr s))) (\<lambda>(lmul, sew, w).
      let vlmax = trunc_u64 (lmul * u_rat VLEN / u_rat sew);
          is_zero = (index + offset \<ge> vlmax \<or> offset AND push_bit 63 1 \<noteq> 0)
      in bindM (if is_zero then ret 0 else getSewSingleOperand sew (ucast (rs2 w)) (index + offset))
           (\<lambda>res. writeGeneric res index)))"

text \<open>The value a slide by one moves in.\<close>

definition slide1_scalar :: "param_sel_t \<Rightarrow> u64 \<Rightarrow> ('d iss, u64) M" where
  "slide1_scalar param sew = bindM (getsM (\<lambda>s. rs1 (instr s))) (\<lambda>r.
     if param = sel_vx then getsM (iss_reg_read r) else fp_reg_read r sew)"

definition vSlide1Up :: "param_sel_t \<Rightarrow> u64 \<Rightarrow> ('d iss, unit) M" where
  "vSlide1Up param index = bindM (getsM (\<lambda>s. (getIntVSew s, instr s))) (\<lambda>(sew, w).
     if index \<noteq> 0
     then seqM (set_elem_sel xxxsss)
       (bindM (getSewSingleOperand sew (ucast (rs2 w)) (index - 1)) (\<lambda>res. writeGeneric res index))
     else seqM (set_elem_sel xxxuuu)
       (bindM (slide1_scalar param sew) (\<lambda>result. writeGeneric result index)))"

definition vSlide1Down :: "param_sel_t \<Rightarrow> u64 \<Rightarrow> ('d iss, unit) M" where
  "vSlide1Down param index = bindM (getsM (\<lambda>s. (getIntVSew s, instr s, csrs s csr_vl))) (\<lambda>(sew, w, vl).
     if index \<noteq> ucast (vl - 1)
     then seqM (set_elem_sel xxxsss)
       (bindM (getSewSingleOperand sew (ucast (rs2 w)) (index + 1)) (\<lambda>res. writeGeneric res index))
     else seqM (set_elem_sel xxxuuu)
       (bindM (slide1_scalar param sew) (\<lambda>result. writeGeneric result index)))"

definition vGather :: "bool \<Rightarrow> ('d iss, 'd op3) M" where
  "vGather isGather16 = seqM (whenM isGather16 (modifyM (vx_upd (\<lambda>x. x\<lparr>o1_eew_overwrite := 16\<rparr>))))
     (ret (\<lambda>op2 op1 i. bindM (getsM (\<lambda>s. (instr s, param_sel (v_ext s), getVlmul s, getIntVSew s)))
       (\<lambda>(w, sel, lmul, sew).
        seqM (whenM (sel = sel_vv) (v_assert (rd w \<noteq> rs1 w \<and> rd w \<noteq> rs2 w)))
        (bindM (getsM (\<lambda>s. if sel = sel_vx then iss_reg_read (rs1 w) s else op1)) (\<lambda>rs1_value.
         if rs1_value \<ge> trunc_u64 (lmul * u_rat VLEN / u_rat sew) then ret 0
         else getSewSingleOperand sew (ucast (rs2 w)) op1)))))"

definition vCompress :: "('d iss, unit) M" where
  "vCompress = seqM (modifyM (vx_upd (\<lambda>x. x\<lparr>require_no_overlap := True, vs1_is_mask := True\<rparr>)))
     (bindM (genericVLoop (\<lambda>i current_position. seqM (set_elem_sel xxxuuu)
        (bindM (getsM (\<lambda>s. (instr s, getIntVSew s))) (\<lambda>(w, sew).
         let (reg_idx, reg_pos) = getCarryElements i in
         bindM (getsM (get_reg 8 (ucast (rs1 w)) reg_idx)) (\<lambda>v.
         if drop_bit (unat reg_pos) v AND 1 \<noteq> 1 then ret current_position
         else bindM (getSewSingleOperand sew (ucast (rs2 w)) i) (\<lambda>res.
           seqM (writeGeneric res current_position) (ret (current_position + 1))))))) xxxuuu sel_vv False 0)
      (\<lambda>_. ret ()))"

definition vMvNr :: "('d iss, unit) M" where
  "vMvNr = bindM (getsM (\<lambda>s. (instr s, unat (csrs s csr_vstart), getIntVSew s))) (\<lambda>(w, start, sew).
     let nreg = ucast (rs1 w) + 1;
         evl = nreg * VLEN div sew
     in seqM (v_assert (v_is_aligned (ucast (rd w)) nreg))
        (seqM (v_assert (v_is_aligned (ucast (rs2 w)) nreg))
        (whenM (rd w \<noteq> rs2 w)
           (loop_acc [start..<unat evl] (\<lambda>idx _.
              let r = idx div (VLEN div sew); elem = idx mod (VLEN div sew) in
              bindM (getSewSingleOperand sew (ucast (rs2 w) + r) elem) (\<lambda>res.
              writeSewSingleOperand sew (ucast (rd w) + r) elem res)) ()))))"

end
