(* ===== verification/VP_VFloat.thy ===== *)
theory VP_VFloat
  imports VP_VOps
begin

text \<open>
  The floating-point operations of the vector unit (\<^verbatim>\<open>v.h\<close>). As for the scalar unit the arithmetic is the
  softfloat library: \<open>SF\<close> are the functions the scalar unit uses too, \<open>SV\<close> those of the vector unit alone. A cast
  \<^verbatim>\<open>f16(x)\<close>, \<^verbatim>\<open>f32(x)\<close> or \<^verbatim>\<open>f64(x)\<close> truncates an element.
\<close>

record softfloat_v =
  sf_f16_min :: "u16 \<Rightarrow> u16 \<Rightarrow> u16 \<times> u8"
  sf_f16_max :: "u16 \<Rightarrow> u16 \<Rightarrow> u16 \<times> u8"
  sf_f16_rsqrte7 :: "u16 \<Rightarrow> u16 \<times> u8"
  sf_f16_recip7 :: "u8 \<Rightarrow> u16 \<Rightarrow> u16 \<times> u8"
  sf_f32_min :: "u32 \<Rightarrow> u32 \<Rightarrow> u32 \<times> u8"
  sf_f32_max :: "u32 \<Rightarrow> u32 \<Rightarrow> u32 \<times> u8"
  sf_f32_rsqrte7 :: "u32 \<Rightarrow> u32 \<times> u8"
  sf_f32_recip7 :: "u8 \<Rightarrow> u32 \<Rightarrow> u32 \<times> u8"
  sf_f64_min :: "u64 \<Rightarrow> u64 \<Rightarrow> u64 \<times> u8"
  sf_f64_max :: "u64 \<Rightarrow> u64 \<Rightarrow> u64 \<times> u8"
  sf_f64_rsqrte7 :: "u64 \<Rightarrow> u64 \<times> u8"
  sf_f64_recip7 :: "u8 \<Rightarrow> u64 \<Rightarrow> u64 \<times> u8"
  sf_f16_to_i8 :: "u8 \<Rightarrow> u16 \<Rightarrow> u8 \<times> u8"
  sf_f16_to_ui8 :: "u8 \<Rightarrow> u16 \<Rightarrow> u8 \<times> u8"
  sf_f16_to_i16 :: "u8 \<Rightarrow> u16 \<Rightarrow> u16 \<times> u8"
  sf_f16_to_ui16 :: "u8 \<Rightarrow> u16 \<Rightarrow> u16 \<times> u8"
  sf_f32_to_i16 :: "u8 \<Rightarrow> u32 \<Rightarrow> u16 \<times> u8"
  sf_f32_to_ui16 :: "u8 \<Rightarrow> u32 \<Rightarrow> u16 \<times> u8"
  sf_f32_to_i64 :: "u8 \<Rightarrow> u32 \<Rightarrow> u64 \<times> u8"
  sf_f32_to_ui64 :: "u8 \<Rightarrow> u32 \<Rightarrow> u64 \<times> u8"
  sf_f64_to_i64 :: "u8 \<Rightarrow> u64 \<Rightarrow> u64 \<times> u8"
  sf_f64_to_ui64 :: "u8 \<Rightarrow> u64 \<Rightarrow> u64 \<times> u8"
  sf_i64_to_f32 :: "u8 \<Rightarrow> u64 \<Rightarrow> u32 \<times> u8"
  sf_ui64_to_f32 :: "u8 \<Rightarrow> u64 \<Rightarrow> u32 \<times> u8"
  sf_i64_to_f64 :: "u8 \<Rightarrow> u64 \<Rightarrow> u64 \<times> u8"
  sf_ui64_to_f64 :: "u8 \<Rightarrow> u64 \<Rightarrow> u64 \<times> u8"

abbreviation (input) softfloat_round_minMag :: u8 where "softfloat_round_minMag \<equiv> 1"
abbreviation (input) softfloat_round_odd :: u8 where "softfloat_round_odd \<equiv> 5"

section \<open>Calls of the library\<close>

text \<open>A call that rounds in the current mode, and calls that do not round, with the result as an element.\<close>

definition sf_rm :: "(u8 \<Rightarrow> 'a \<times> u8) \<Rightarrow> ('d iss, 'a) M" where
  "sf_rm f = sf_call (\<lambda>s. f (softfloat_roundingMode s))"

definition elem_of :: "('d iss, 'a::len word) M \<Rightarrow> ('d iss, u64) M" where
  "elem_of m = bindM m (\<lambda>r. ret (ucast r))"

definition sf_elem :: "(u8 \<Rightarrow> 'a::len word \<times> u8) \<Rightarrow> ('d iss, u64) M" where
  "sf_elem f = elem_of (sf_rm f)"

definition v_invalid :: "('d iss, u64) M" where
  "v_invalid = seqM (v_assert False) (ret 0)"

text \<open>\<^verbatim>\<open>switch (getIntVSew())\<close> with the cases 16, 32 and 64, and with the cases 16 and 32.\<close>

definition by_sew :: "('d iss, u64) M \<Rightarrow> ('d iss, u64) M \<Rightarrow> ('d iss, u64) M \<Rightarrow> ('d iss, u64) M" where
  "by_sew h s d = bindM (getsM getIntVSew) (\<lambda>sew.
     if sew = 16 then h else if sew = 32 then s else if sew = 64 then d else v_invalid)"

definition by_sew_w :: "('d iss, u64) M \<Rightarrow> ('d iss, u64) M \<Rightarrow> ('d iss, u64) M" where
  "by_sew_w h s = by_sew h s v_invalid"

text \<open>The two conversions to twice the width.\<close>

definition widen16 :: "softfloat \<Rightarrow> u16 \<Rightarrow> ('d iss, u32) M" where
  "widen16 SF x = sf_rm (\<lambda>rm. sf_f16_to_f32 SF rm x)"

definition widen32 :: "softfloat \<Rightarrow> u32 \<Rightarrow> ('d iss, u64) M" where
  "widen32 SF x = sf_rm (\<lambda>rm. sf_f32_to_f64 SF rm x)"

section \<open>Arithmetic\<close>

definition vfAdd :: "softfloat \<Rightarrow> 'd op4" where
  "vfAdd SF op2 op1 vd i = by_sew
     (sf_elem (\<lambda>rm. sf_f16_add SF rm (ucast op2) (ucast op1)))
     (sf_elem (\<lambda>rm. sf_f32_add SF rm (ucast op2) (ucast op1)))
     (sf_elem (\<lambda>rm. sf_f64_add SF rm (ucast op2) (ucast op1)))"

definition vfwAdd :: "softfloat \<Rightarrow> 'd op4" where
  "vfwAdd SF op2 op1 vd i = by_sew_w
     (bindM (widen16 SF (ucast op2)) (\<lambda>a. bindM (widen16 SF (ucast op1)) (\<lambda>b.
        sf_elem (\<lambda>rm. sf_f32_add SF rm a b))))
     (bindM (widen32 SF (ucast op2)) (\<lambda>a. bindM (widen32 SF (ucast op1)) (\<lambda>b.
        sf_elem (\<lambda>rm. sf_f64_add SF rm a b))))"

definition vfwAddw :: "softfloat \<Rightarrow> 'd op4" where
  "vfwAddw SF op2 op1 vd i = by_sew_w
     (bindM (widen16 SF (ucast op1)) (\<lambda>b. sf_elem (\<lambda>rm. sf_f32_add SF rm (ucast op2) b)))
     (bindM (widen32 SF (ucast op1)) (\<lambda>b. sf_elem (\<lambda>rm. sf_f64_add SF rm (ucast op2) b)))"

definition vfSub :: "softfloat \<Rightarrow> 'd op4" where
  "vfSub SF op2 op1 vd i = by_sew
     (sf_elem (\<lambda>rm. sf_f16_sub SF rm (ucast op2) (ucast op1)))
     (sf_elem (\<lambda>rm. sf_f32_sub SF rm (ucast op2) (ucast op1)))
     (sf_elem (\<lambda>rm. sf_f64_sub SF rm (ucast op2) (ucast op1)))"

definition vfwSub :: "softfloat \<Rightarrow> 'd op4" where
  "vfwSub SF op2 op1 vd i = by_sew_w
     (bindM (widen16 SF (ucast op2)) (\<lambda>a. bindM (widen16 SF (ucast op1)) (\<lambda>b.
        sf_elem (\<lambda>rm. sf_f32_sub SF rm a b))))
     (bindM (widen32 SF (ucast op2)) (\<lambda>a. bindM (widen32 SF (ucast op1)) (\<lambda>b.
        sf_elem (\<lambda>rm. sf_f64_sub SF rm a b))))"

definition vfwSubw :: "softfloat \<Rightarrow> 'd op4" where
  "vfwSubw SF op2 op1 vd i = by_sew_w
     (bindM (widen16 SF (ucast op1)) (\<lambda>b. sf_elem (\<lambda>rm. sf_f32_sub SF rm (ucast op2) b)))
     (bindM (widen32 SF (ucast op1)) (\<lambda>b. sf_elem (\<lambda>rm. sf_f64_sub SF rm (ucast op2) b)))"

definition vfrSub :: "softfloat \<Rightarrow> 'd op4" where
  "vfrSub SF op2 op1 vd i = by_sew
     (sf_elem (\<lambda>rm. sf_f16_sub SF rm (ucast op1) (ucast op2)))
     (sf_elem (\<lambda>rm. sf_f32_sub SF rm (ucast op1) (ucast op2)))
     (sf_elem (\<lambda>rm. sf_f64_sub SF rm (ucast op1) (ucast op2)))"

definition vfMul :: "softfloat \<Rightarrow> 'd op4" where
  "vfMul SF op2 op1 vd i = by_sew
     (sf_elem (\<lambda>rm. sf_f16_mul SF rm (ucast op2) (ucast op1)))
     (sf_elem (\<lambda>rm. sf_f32_mul SF rm (ucast op2) (ucast op1)))
     (sf_elem (\<lambda>rm. sf_f64_mul SF rm (ucast op2) (ucast op1)))"

definition vfwMul :: "softfloat \<Rightarrow> 'd op4" where
  "vfwMul SF op2 op1 vd i = with_eew (\<lambda>(vd_eew, vd_signed, op2_eew, op2_signed, op1_eew, op1_signed).
     if op2_eew = 16
     then bindM (widen16 SF (ucast op2)) (\<lambda>a. bindM (widen16 SF (ucast op1)) (\<lambda>b. sf_elem (\<lambda>rm. sf_f32_mul SF rm a b)))
     else if op2_eew = 32
     then bindM (widen32 SF (ucast op2)) (\<lambda>a. bindM (widen32 SF (ucast op1)) (\<lambda>b. sf_elem (\<lambda>rm. sf_f64_mul SF rm a b)))
     else v_invalid)"

definition vfDiv :: "softfloat \<Rightarrow> 'd op4" where
  "vfDiv SF op2 op1 vd i = by_sew
     (sf_elem (\<lambda>rm. sf_f16_div SF rm (ucast op2) (ucast op1)))
     (sf_elem (\<lambda>rm. sf_f32_div SF rm (ucast op2) (ucast op1)))
     (sf_elem (\<lambda>rm. sf_f64_div SF rm (ucast op2) (ucast op1)))"

definition vfrDiv :: "softfloat \<Rightarrow> 'd op4" where
  "vfrDiv SF op2 op1 vd i = by_sew
     (sf_elem (\<lambda>rm. sf_f16_div SF rm (ucast op1) (ucast op2)))
     (sf_elem (\<lambda>rm. sf_f32_div SF rm (ucast op1) (ucast op2)))
     (sf_elem (\<lambda>rm. sf_f64_div SF rm (ucast op1) (ucast op2)))"

definition vfMacc :: "softfloat \<Rightarrow> 'd op4" where
  "vfMacc SF op2 op1 vd i = by_sew
     (sf_elem (\<lambda>rm. sf_f16_mulAdd SF rm (ucast op2) (ucast op1) (ucast vd)))
     (sf_elem (\<lambda>rm. sf_f32_mulAdd SF rm (ucast op2) (ucast op1) (ucast vd)))
     (sf_elem (\<lambda>rm. sf_f64_mulAdd SF rm (ucast op2) (ucast op1) (ucast vd)))"

definition vfwMacc :: "softfloat \<Rightarrow> 'd op4" where
  "vfwMacc SF op2 op1 vd i = by_sew_w
     (bindM (widen16 SF (ucast op2)) (\<lambda>a. bindM (widen16 SF (ucast op1)) (\<lambda>b.
        sf_elem (\<lambda>rm. sf_f32_mulAdd SF rm a b (ucast vd)))))
     (bindM (widen32 SF (ucast op2)) (\<lambda>a. bindM (widen32 SF (ucast op1)) (\<lambda>b.
        sf_elem (\<lambda>rm. sf_f64_mulAdd SF rm a b (ucast vd)))))"

definition vfNmacc :: "softfloat \<Rightarrow> 'd op4" where
  "vfNmacc SF op2 op1 vd i = by_sew
     (sf_elem (\<lambda>rm. sf_f16_mulAdd SF rm (ucast op2) (f16_neg (ucast op1)) (f16_neg (ucast vd))))
     (sf_elem (\<lambda>rm. sf_f32_mulAdd SF rm (ucast op2) (f32_neg (ucast op1)) (f32_neg (ucast vd))))
     (sf_elem (\<lambda>rm. sf_f64_mulAdd SF rm (ucast op2) (f64_neg (ucast op1)) (f64_neg (ucast vd))))"

definition vfwNmacc :: "softfloat \<Rightarrow> 'd op4" where
  "vfwNmacc SF op2 op1 vd i = by_sew_w
     (bindM (widen16 SF (ucast op2)) (\<lambda>a. bindM (widen16 SF (f16_neg (ucast op1))) (\<lambda>b.
        sf_elem (\<lambda>rm. sf_f32_mulAdd SF rm a b (f32_neg (ucast vd))))))
     (bindM (widen32 SF (ucast op2)) (\<lambda>a. bindM (widen32 SF (f32_neg (ucast op1))) (\<lambda>b.
        sf_elem (\<lambda>rm. sf_f64_mulAdd SF rm a b (f64_neg (ucast vd))))))"

definition vfMsac :: "softfloat \<Rightarrow> 'd op4" where
  "vfMsac SF op2 op1 vd i = by_sew
     (sf_elem (\<lambda>rm. sf_f16_mulAdd SF rm (ucast op2) (ucast op1) (f16_neg (ucast vd))))
     (sf_elem (\<lambda>rm. sf_f32_mulAdd SF rm (ucast op2) (ucast op1) (f32_neg (ucast vd))))
     (sf_elem (\<lambda>rm. sf_f64_mulAdd SF rm (ucast op2) (ucast op1) (f64_neg (ucast vd))))"

definition vfwMsac :: "softfloat \<Rightarrow> 'd op4" where
  "vfwMsac SF op2 op1 vd i = by_sew_w
     (bindM (widen16 SF (ucast op2)) (\<lambda>a. bindM (widen16 SF (ucast op1)) (\<lambda>b.
        sf_elem (\<lambda>rm. sf_f32_mulAdd SF rm a b (f32_neg (ucast vd))))))
     (bindM (widen32 SF (ucast op2)) (\<lambda>a. bindM (widen32 SF (ucast op1)) (\<lambda>b.
        sf_elem (\<lambda>rm. sf_f64_mulAdd SF rm a b (f64_neg (ucast vd))))))"

definition vfNmsac :: "softfloat \<Rightarrow> 'd op4" where
  "vfNmsac SF op2 op1 vd i = by_sew
     (sf_elem (\<lambda>rm. sf_f16_mulAdd SF rm (ucast op2) (f16_neg (ucast op1)) (ucast vd)))
     (sf_elem (\<lambda>rm. sf_f32_mulAdd SF rm (ucast op2) (f32_neg (ucast op1)) (ucast vd)))
     (sf_elem (\<lambda>rm. sf_f64_mulAdd SF rm (ucast op2) (f64_neg (ucast op1)) (ucast vd)))"

definition vfwNmsac :: "softfloat \<Rightarrow> 'd op4" where
  "vfwNmsac SF op2 op1 vd i = by_sew_w
     (bindM (widen16 SF (ucast op2)) (\<lambda>a. bindM (widen16 SF (f16_neg (ucast op1))) (\<lambda>b.
        sf_elem (\<lambda>rm. sf_f32_mulAdd SF rm a b (ucast vd)))))
     (bindM (widen32 SF (ucast op2)) (\<lambda>a. bindM (widen32 SF (f32_neg (ucast op1))) (\<lambda>b.
        sf_elem (\<lambda>rm. sf_f64_mulAdd SF rm a b (ucast vd)))))"

definition vfMadd :: "softfloat \<Rightarrow> 'd op4" where
  "vfMadd SF op2 op1 vd i = by_sew
     (sf_elem (\<lambda>rm. sf_f16_mulAdd SF rm (ucast op1) (ucast vd) (ucast op2)))
     (sf_elem (\<lambda>rm. sf_f32_mulAdd SF rm (ucast op1) (ucast vd) (ucast op2)))
     (sf_elem (\<lambda>rm. sf_f64_mulAdd SF rm (ucast op1) (ucast vd) (ucast op2)))"

definition vfNmadd :: "softfloat \<Rightarrow> 'd op4" where
  "vfNmadd SF op2 op1 vd i = by_sew
     (sf_elem (\<lambda>rm. sf_f16_mulAdd SF rm (f16_neg (ucast op1)) (ucast vd) (f16_neg (ucast op2))))
     (sf_elem (\<lambda>rm. sf_f32_mulAdd SF rm (f32_neg (ucast op1)) (ucast vd) (f32_neg (ucast op2))))
     (sf_elem (\<lambda>rm. sf_f64_mulAdd SF rm (f64_neg (ucast op1)) (ucast vd) (f64_neg (ucast op2))))"

definition vfMsub :: "softfloat \<Rightarrow> 'd op4" where
  "vfMsub SF op2 op1 vd i = by_sew
     (sf_elem (\<lambda>rm. sf_f16_mulAdd SF rm (ucast op1) (ucast vd) (f16_neg (ucast op2))))
     (sf_elem (\<lambda>rm. sf_f32_mulAdd SF rm (ucast op1) (ucast vd) (f32_neg (ucast op2))))
     (sf_elem (\<lambda>rm. sf_f64_mulAdd SF rm (ucast op1) (ucast vd) (f64_neg (ucast op2))))"

definition vfNmsub :: "softfloat \<Rightarrow> 'd op4" where
  "vfNmsub SF op2 op1 vd i = by_sew
     (sf_elem (\<lambda>rm. sf_f16_mulAdd SF rm (f16_neg (ucast op1)) (ucast vd) (ucast op2)))
     (sf_elem (\<lambda>rm. sf_f32_mulAdd SF rm (f32_neg (ucast op1)) (ucast vd) (ucast op2)))
     (sf_elem (\<lambda>rm. sf_f64_mulAdd SF rm (f64_neg (ucast op1)) (ucast vd) (ucast op2)))"

definition vfSqrt :: "softfloat \<Rightarrow> 'd op4" where
  "vfSqrt SF op2 op1 vd i = by_sew
     (sf_elem (\<lambda>rm. sf_f16_sqrt SF rm (ucast op2)))
     (sf_elem (\<lambda>rm. sf_f32_sqrt SF rm (ucast op2)))
     (sf_elem (\<lambda>rm. sf_f64_sqrt SF rm (ucast op2)))"

definition vfMin :: "softfloat_v \<Rightarrow> 'd op4" where
  "vfMin SV op2 op1 vd i = by_sew
     (sf_elem (\<lambda>_. sf_f16_min SV (ucast op2) (ucast op1)))
     (sf_elem (\<lambda>_. sf_f32_min SV (ucast op2) (ucast op1)))
     (sf_elem (\<lambda>_. sf_f64_min SV (ucast op2) (ucast op1)))"

definition vfMax :: "softfloat_v \<Rightarrow> 'd op4" where
  "vfMax SV op2 op1 vd i = by_sew
     (sf_elem (\<lambda>_. sf_f16_max SV (ucast op2) (ucast op1)))
     (sf_elem (\<lambda>_. sf_f32_max SV (ucast op2) (ucast op1)))
     (sf_elem (\<lambda>_. sf_f64_max SV (ucast op2) (ucast op1)))"

definition vfRsqrt7 :: "softfloat_v \<Rightarrow> 'd op4" where
  "vfRsqrt7 SV op2 op1 vd i = by_sew
     (sf_elem (\<lambda>_. sf_f16_rsqrte7 SV (ucast op2)))
     (sf_elem (\<lambda>_. sf_f32_rsqrte7 SV (ucast op2)))
     (sf_elem (\<lambda>_. sf_f64_rsqrte7 SV (ucast op2)))"

definition vfFrec7 :: "softfloat_v \<Rightarrow> 'd op4" where
  "vfFrec7 SV op2 op1 vd i = by_sew
     (sf_elem (\<lambda>rm. sf_f16_recip7 SV rm (ucast op2)))
     (sf_elem (\<lambda>rm. sf_f32_recip7 SV rm (ucast op2)))
     (sf_elem (\<lambda>rm. sf_f64_recip7 SV rm (ucast op2)))"

section \<open>Signs, moves and comparisons\<close>

definition vfSgnj :: "'d op4" where
  "vfSgnj op2 op1 vd i = by_sew (ret (ucast (f16_sgnj (ucast op2) (ucast op1))))
     (ret (ucast (f32_sgnj (ucast op2) (ucast op1)))) (ret (f64_sgnj op2 op1))"

definition vfSgnjn :: "'d op4" where
  "vfSgnjn op2 op1 vd i = by_sew (ret (ucast (f16_sgnjn (ucast op2) (ucast op1))))
     (ret (ucast (f32_sgnjn (ucast op2) (ucast op1)))) (ret (f64_sgnjn op2 op1))"

definition vfSgnjx :: "'d op4" where
  "vfSgnjx op2 op1 vd i = by_sew (ret (ucast (f16_sgnjx (ucast op2) (ucast op1))))
     (ret (ucast (f32_sgnjx (ucast op2) (ucast op1)))) (ret (f64_sgnjx op2 op1))"

definition vfMv :: "'d op2" where
  "vfMv op2 op1 = by_sew (ret (ucast (ucast op1 :: u16))) (ret (ucast (ucast op1 :: u32))) (ret op1)"

text \<open>The shape of the comparisons: a bit of the destination mask.\<close>

definition bool_elem :: "(bool \<times> u8) \<Rightarrow> ('d iss, u64) M" where
  "bool_elem r = bindM (sf_call (\<lambda>_. r)) (\<lambda>b. ret (of_bool b))"

definition vMfcmp :: "('d iss, u64) M \<Rightarrow> u64 \<Rightarrow> ('d iss, unit) M" where
  "vMfcmp m i = bindM m (write_mask_bit i)"

definition vMfeq :: "softfloat \<Rightarrow> u64 \<Rightarrow> u64 \<Rightarrow> u64 \<Rightarrow> u64 \<Rightarrow> ('d iss, unit) M" where
  "vMfeq SF op2 op1 vd i = vMfcmp (by_sew (bool_elem (sf_f16_eq SF (ucast op2) (ucast op1)))
     (bool_elem (sf_f32_eq SF (ucast op2) (ucast op1)))
     (bool_elem (sf_f64_eq SF (ucast op2) (ucast op1)))) i"

definition vMfneq :: "softfloat \<Rightarrow> u64 \<Rightarrow> u64 \<Rightarrow> u64 \<Rightarrow> u64 \<Rightarrow> ('d iss, unit) M" where
  "vMfneq SF op2 op1 vd i = vMfcmp (bindM (by_sew (bool_elem (sf_f16_eq SF (ucast op2) (ucast op1)))
     (bool_elem (sf_f32_eq SF (ucast op2) (ucast op1)))
     (bool_elem (sf_f64_eq SF (ucast op2) (ucast op1)))) (\<lambda>b. ret (of_bool (b = 0)))) i"

definition vMflt :: "softfloat \<Rightarrow> u64 \<Rightarrow> u64 \<Rightarrow> u64 \<Rightarrow> u64 \<Rightarrow> ('d iss, unit) M" where
  "vMflt SF op2 op1 vd i = vMfcmp (by_sew (bool_elem (sf_f16_lt SF (ucast op2) (ucast op1)))
     (bool_elem (sf_f32_lt SF (ucast op2) (ucast op1)))
     (bool_elem (sf_f64_lt SF (ucast op2) (ucast op1)))) i"

definition vMfle :: "softfloat \<Rightarrow> u64 \<Rightarrow> u64 \<Rightarrow> u64 \<Rightarrow> u64 \<Rightarrow> ('d iss, unit) M" where
  "vMfle SF op2 op1 vd i = vMfcmp (by_sew (bool_elem (sf_f16_le SF (ucast op2) (ucast op1)))
     (bool_elem (sf_f32_le SF (ucast op2) (ucast op1)))
     (bool_elem (sf_f64_le SF (ucast op2) (ucast op1)))) i"

definition vMfgt :: "softfloat \<Rightarrow> u64 \<Rightarrow> u64 \<Rightarrow> u64 \<Rightarrow> u64 \<Rightarrow> ('d iss, unit) M" where
  "vMfgt SF op2 op1 vd i = vMfcmp (by_sew (bool_elem (sf_f16_lt SF (ucast op1) (ucast op2)))
     (bool_elem (sf_f32_lt SF (ucast op1) (ucast op2)))
     (bool_elem (sf_f64_lt SF (ucast op1) (ucast op2)))) i"

definition vMfge :: "softfloat \<Rightarrow> u64 \<Rightarrow> u64 \<Rightarrow> u64 \<Rightarrow> u64 \<Rightarrow> ('d iss, unit) M" where
  "vMfge SF op2 op1 vd i = vMfcmp (by_sew (bool_elem (sf_f16_le SF (ucast op1) (ucast op2)))
     (bool_elem (sf_f32_le SF (ucast op1) (ucast op2)))
     (bool_elem (sf_f64_le SF (ucast op1) (ucast op2)))) i"

definition vfClass :: "softfloat \<Rightarrow> 'd op4" where
  "vfClass SF op2 op1 vd i = by_sew (ret (ucast (sf_f16_classify SF (ucast op2))))
     (ret (ucast (sf_f32_classify SF (ucast op2)))) (ret (ucast (sf_f64_classify SF op2)))"

definition vMvFs :: "('d iss, unit) M" where
  "vMvFs = bindM (getsM (\<lambda>s. (getIntVSew s, instr s))) (\<lambda>(sew, w).
     bindM (getSewSingleOperand sew (ucast (rs2 w)) 0) (\<lambda>v. fp_reg_write (rd w) v sew))"

definition vMvSf :: "('d iss, unit) M" where
  "vMvSf = bindM (getsM (\<lambda>s. (csrs s csr_vstart < csrs s csr_vl, getIntVSew s, instr s))) (\<lambda>(b, sew, w).
     whenM b (bindM (fp_reg_read (rs1 w) sew) (\<lambda>v. writeSewSingleOperand sew (ucast (rd w)) 0 v)))"

section \<open>Conversions\<close>

text \<open>The rounding mode of the conversions to integers is chosen when the lambda is built.\<close>

definition cvt_rm :: "bool \<Rightarrow> (u8 \<Rightarrow> 'd op4) \<Rightarrow> ('d iss, 'd op4) M" where
  "cvt_rm rtz f = bindM (getsM (\<lambda>s. if rtz then softfloat_round_minMag else softfloat_roundingMode s)) (\<lambda>rm. ret (f rm))"

text \<open>The result of a conversion to a signed or an unsigned integer.\<close>

definition to_int :: "bool \<Rightarrow> ('a::len word \<times> u8) \<Rightarrow> ('a word \<times> u8) \<Rightarrow> ('d iss, u64) M" where
  "to_int sg i ui = (if sg then bindM (sf_call (\<lambda>_. i)) (\<lambda>r. ret (scast r)) else elem_of (sf_call (\<lambda>_. ui)))"

definition vfCvtXF :: "softfloat \<Rightarrow> softfloat_v \<Rightarrow> bool \<Rightarrow> ('d iss, 'd op4) M" where
  "vfCvtXF SF SV rtz = cvt_rm rtz (\<lambda>rm op2 op1 vd i.
     with_eew (\<lambda>(vd_eew, vd_signed, op2_eew, op2_signed, op1_eew, op1_signed). by_sew
       (to_int vd_signed (sf_f16_to_i16 SV rm (ucast op2)) (sf_f16_to_ui16 SV rm (ucast op2)))
       (to_int vd_signed (sf_f32_to_i32 SF rm (ucast op2)) (sf_f32_to_ui32 SF rm (ucast op2)))
       (to_int vd_signed (sf_f64_to_i64 SV rm op2) (sf_f64_to_ui64 SV rm op2))))"

definition vfCvtFX :: "softfloat \<Rightarrow> softfloat_v \<Rightarrow> 'd op2" where
  "vfCvtFX SF SV op2 op1 = with_eew (\<lambda>(vd_eew, vd_signed, op2_eew, op2_signed, op1_eew, op1_signed).
     let x = signExtend op2 op2_eew in
     if vd_eew \<ge> op2_eew
     then (if vd_eew = 16
           then sf_elem (\<lambda>rm. if vd_signed then sf_i32_to_f16 SF rm (ucast x) else sf_ui32_to_f16 SF rm (ucast op2))
           else if vd_eew = 32
           then sf_elem (\<lambda>rm. if vd_signed then sf_i32_to_f32 SF rm (ucast x) else sf_ui32_to_f32 SF rm (ucast op2))
           else if vd_eew = 64
           then sf_elem (\<lambda>rm. if vd_signed then sf_i64_to_f64 SV rm x else sf_ui64_to_f64 SV rm op2)
           else v_invalid)
     else (if vd_eew = 16
           then sf_elem (\<lambda>rm. if vd_signed then sf_i32_to_f16 SF rm (ucast op2) else sf_ui32_to_f16 SF rm (ucast op2))
           else if vd_eew = 32
           then sf_elem (\<lambda>rm. if vd_signed then sf_i64_to_f32 SV rm op2 else sf_ui64_to_f32 SV rm op2)
           else v_invalid))"

definition vfCvtwXF :: "softfloat \<Rightarrow> softfloat_v \<Rightarrow> bool \<Rightarrow> ('d iss, 'd op4) M" where
  "vfCvtwXF SF SV rtz = cvt_rm rtz (\<lambda>rm op2 op1 vd i.
     with_eew (\<lambda>(vd_eew, vd_signed, op2_eew, op2_signed, op1_eew, op1_signed). by_sew_w
       (to_int vd_signed (sf_f16_to_i32 SF rm (ucast op2)) (sf_f16_to_ui32 SF rm (ucast op2)))
       (to_int vd_signed (sf_f32_to_i64 SV rm (ucast op2)) (sf_f32_to_ui64 SV rm (ucast op2)))))"

definition vfCvtwFF :: "softfloat \<Rightarrow> 'd op4" where
  "vfCvtwFF SF op2 op1 vd i = by_sew_w (elem_of (widen16 SF (ucast op2))) (elem_of (widen32 SF (ucast op2)))"

definition vfCvtnXF :: "softfloat \<Rightarrow> softfloat_v \<Rightarrow> bool \<Rightarrow> ('d iss, 'd op4) M" where
  "vfCvtnXF SF SV rtz = cvt_rm rtz (\<lambda>rm op2 op1 vd i.
     with_eew (\<lambda>(vd_eew, vd_signed, op2_eew, op2_signed, op1_eew, op1_signed).
       if op2_eew = 16 then to_int vd_signed (sf_f16_to_i8 SV rm (ucast op2)) (sf_f16_to_ui8 SV rm (ucast op2))
       else if op2_eew = 32 then to_int vd_signed (sf_f32_to_i16 SV rm (ucast op2)) (sf_f32_to_ui16 SV rm (ucast op2))
       else if op2_eew = 64 then to_int vd_signed (sf_f64_to_i32 SF rm op2) (sf_f64_to_ui32 SF rm op2)
       else v_invalid))"

definition vfCvtnFF :: "softfloat \<Rightarrow> bool \<Rightarrow> ('d iss, 'd op4) M" where
  "vfCvtnFF SF roundOdd =
     seqM (whenM roundOdd (modifyM (\<lambda>s. s\<lparr>softfloat_roundingMode := softfloat_round_odd\<rparr>)))
     (ret (\<lambda>op2 op1 vd i. with_eew (\<lambda>(vd_eew, vd_signed, op2_eew, op2_signed, op1_eew, op1_signed).
        if op2_eew = 32 then sf_elem (\<lambda>rm. sf_f32_to_f16 SF rm (ucast op2))
        else if op2_eew = 64 then sf_elem (\<lambda>rm. sf_f64_to_f32 SF rm op2)
        else v_invalid)))"

section \<open>Reductions\<close>

definition vfRedSum :: "softfloat \<Rightarrow> 'd op4" where
  "vfRedSum SF op2 op1 i res = by_sew
     (sf_elem (\<lambda>rm. sf_f16_add SF rm (ucast res) (ucast op2)))
     (sf_elem (\<lambda>rm. sf_f32_add SF rm (ucast res) (ucast op2)))
     (sf_elem (\<lambda>rm. sf_f64_add SF rm (ucast res) (ucast op2)))"

definition vfwRedSum :: "softfloat \<Rightarrow> 'd op4" where
  "vfwRedSum SF op2 op1 i res = with_eew (\<lambda>(vd_eew, vd_signed, op2_eew, op2_signed, op1_eew, op1_signed).
     if vd_eew = 32 then bindM (widen16 SF (ucast op2)) (\<lambda>a. sf_elem (\<lambda>rm. sf_f32_add SF rm (ucast res) a))
     else if vd_eew = 64 then bindM (widen32 SF (ucast op2)) (\<lambda>a. sf_elem (\<lambda>rm. sf_f64_add SF rm res a))
     else v_invalid)"

definition vfRedMax :: "softfloat_v \<Rightarrow> 'd op4" where
  "vfRedMax SV op2 op1 i res = by_sew
     (sf_elem (\<lambda>_. sf_f16_max SV (ucast res) (ucast op2)))
     (sf_elem (\<lambda>_. sf_f32_max SV (ucast res) (ucast op2)))
     (sf_elem (\<lambda>_. sf_f64_max SV (ucast res) (ucast op2)))"

definition vfRedMin :: "softfloat_v \<Rightarrow> 'd op4" where
  "vfRedMin SV op2 op1 i res = by_sew
     (sf_elem (\<lambda>_. sf_f16_min SV (ucast res) (ucast op2)))
     (sf_elem (\<lambda>_. sf_f32_min SV (ucast res) (ucast op2)))
     (sf_elem (\<lambda>_. sf_f64_min SV (ucast res) (ucast op2)))"

end
