(* ===== verification/VP_VDispatch.thy ===== *)
theory VP_VDispatch
  imports VP_VFloat
begin

text \<open>
  The vector cases of \<^verbatim>\<open>exec_steps\<close> (\<^verbatim>\<open>vp/src/core/rv32/iss_ctemplate.cpp\<close>) in the order of the source, in tables of
  consecutive cases, and their dispatch.
\<close>

text \<open>Every case prepares the unit, does its work and finishes.\<close>

definition v_op :: "bool \<Rightarrow> bool \<Rightarrow> ('d iss, unit) M \<Rightarrow> ('d iss, unit) M" where
  "v_op require_vill is_fp m = seqM (prepInstr True require_vill is_fp) (seqM m (finishInstr is_fp))"

abbreviation (input) v_any :: "('d iss, unit) M \<Rightarrow> ('d iss, unit) M" where "v_any \<equiv> v_op False False"
abbreviation (input) v_int :: "('d iss, unit) M \<Rightarrow> ('d iss, unit) M" where "v_int \<equiv> v_op True False"
abbreviation (input) v_fp :: "('d iss, unit) M \<Rightarrow> ('d iss, unit) M" where "v_fp \<equiv> v_op True True"

definition vsetvli :: "('d iss, unit) M" where
  "vsetvli = modifyM (\<lambda>s. v_set_operation (rd (instr s)) (rs1 (instr s)) (ucast (zimm_10 (instr s))) 0 s)"

definition vsetivli :: "('d iss, unit) M" where
  "vsetivli = modifyM (\<lambda>s. v_set_operation (rd (instr s)) 0 (ucast (zimm_9 (instr s))) (ucast (rs1 (instr s))) s)"

definition vsetvl :: "('d iss, unit) M" where
  "vsetvl = modifyM (\<lambda>s. v_set_operation (rd (instr s)) (rs1 (instr s)) (scast (rs2_val s)) 0 s)"

definition cases_VSETVLI :: "'d iss_env \<Rightarrow> (OpId \<times> ('d iss, unit) M) list" where
  "cases_VSETVLI E =
     [(VSETVLI, v_any (vsetvli)),
      (VSETIVLI, v_any (vsetivli)),
      (VSETVL, v_any (vsetvl)),
      (VLM_V, v_int (vLoadStore E v_load 8 ls_masked)),
      (VSM_V, v_int (vLoadStore E v_store 8 ls_masked)),
      (VLE8_V, v_int (vLoadStore E v_load 8 ls_standard)),
      (VLE16_V, v_int (vLoadStore E v_load 16 ls_standard)),
      (VLE32_V, v_int (vLoadStore E v_load 32 ls_standard)),
      (VLE64_V, v_int (vLoadStore E v_load 64 ls_standard)),
      (VSE8_V, v_int (vLoadStore E v_store 8 ls_standard)),
      (VSE16_V, v_int (vLoadStore E v_store 16 ls_standard)),
      (VSE32_V, v_int (vLoadStore E v_store 32 ls_standard)),
      (VSE64_V, v_int (vLoadStore E v_store 64 ls_standard)),
      (VLSE8_V, v_int (vLoadStore E v_load 8 ls_standard_reg)),
      (VLSE16_V, v_int (vLoadStore E v_load 16 ls_standard_reg)),
      (VLSE32_V, v_int (vLoadStore E v_load 32 ls_standard_reg)),
      (VLSE64_V, v_int (vLoadStore E v_load 64 ls_standard_reg)),
      (VSSE8_V, v_int (vLoadStore E v_store 8 ls_standard_reg)),
      (VSSE16_V, v_int (vLoadStore E v_store 16 ls_standard_reg))]"

definition cases_VSSE32_V :: "'d iss_env \<Rightarrow> (OpId \<times> ('d iss, unit) M) list" where
  "cases_VSSE32_V E =
     [(VSSE32_V, v_int (vLoadStore E v_store 32 ls_standard_reg)),
      (VSSE64_V, v_int (vLoadStore E v_store 64 ls_standard_reg)),
      (VLUXEI8_V, v_int (vLoadStore E v_load 8 ls_indexed)),
      (VLUXEI16_V, v_int (vLoadStore E v_load 16 ls_indexed)),
      (VLUXEI32_V, v_int (vLoadStore E v_load 32 ls_indexed)),
      (VLUXEI64_V, v_int (vLoadStore E v_load 64 ls_indexed)),
      (VLOXEI8_V, v_int (vLoadStore E v_load 8 ls_indexed)),
      (VLOXEI16_V, v_int (vLoadStore E v_load 16 ls_indexed)),
      (VLOXEI32_V, v_int (vLoadStore E v_load 32 ls_indexed)),
      (VLOXEI64_V, v_int (vLoadStore E v_load 64 ls_indexed)),
      (VSUXEI8_V, v_int (vLoadStore E v_store 8 ls_indexed)),
      (VSUXEI16_V, v_int (vLoadStore E v_store 16 ls_indexed)),
      (VSUXEI32_V, v_int (vLoadStore E v_store 32 ls_indexed)),
      (VSUXEI64_V, v_int (vLoadStore E v_store 64 ls_indexed)),
      (VSOXEI8_V, v_int (vLoadStore E v_store 8 ls_indexed)),
      (VSOXEI16_V, v_int (vLoadStore E v_store 16 ls_indexed)),
      (VSOXEI32_V, v_int (vLoadStore E v_store 32 ls_indexed)),
      (VSOXEI64_V, v_int (vLoadStore E v_store 64 ls_indexed))]"

definition cases_VLE8FF_V :: "'d iss_env \<Rightarrow> (OpId \<times> ('d iss, unit) M) list" where
  "cases_VLE8FF_V E =
     [(VLE8FF_V, v_int (vLoadStore E v_load 8 ls_fofl)),
      (VLE16FF_V, v_int (vLoadStore E v_load 16 ls_fofl)),
      (VLE32FF_V, v_int (vLoadStore E v_load 32 ls_fofl)),
      (VLE64FF_V, v_int (vLoadStore E v_load 64 ls_fofl)),
      (VLSEG2E8_V, v_int (vLoadStore E v_load 8 ls_standard)),
      (VLSEG2E16_V, v_int (vLoadStore E v_load 16 ls_standard)),
      (VLSEG2E32_V, v_int (vLoadStore E v_load 32 ls_standard)),
      (VLSEG2E64_V, v_int (vLoadStore E v_load 64 ls_standard)),
      (VSSEG2E8_V, v_int (vLoadStore E v_store 8 ls_standard)),
      (VSSEG2E16_V, v_int (vLoadStore E v_store 16 ls_standard)),
      (VSSEG2E32_V, v_int (vLoadStore E v_store 32 ls_standard)),
      (VSSEG2E64_V, v_int (vLoadStore E v_store 64 ls_standard)),
      (VLSSEG2E8_V, v_int (vLoadStore E v_load 8 ls_standard_reg)),
      (VLSSEG2E16_V, v_int (vLoadStore E v_load 16 ls_standard_reg)),
      (VLSSEG2E32_V, v_int (vLoadStore E v_load 32 ls_standard_reg)),
      (VLSSEG2E64_V, v_int (vLoadStore E v_load 64 ls_standard_reg)),
      (VSSSEG2E8_V, v_int (vLoadStore E v_store 8 ls_standard_reg)),
      (VSSSEG2E16_V, v_int (vLoadStore E v_store 16 ls_standard_reg))]"

definition cases_VSSSEG2E32_V :: "'d iss_env \<Rightarrow> (OpId \<times> ('d iss, unit) M) list" where
  "cases_VSSSEG2E32_V E =
     [(VSSSEG2E32_V, v_int (vLoadStore E v_store 32 ls_standard_reg)),
      (VSSSEG2E64_V, v_int (vLoadStore E v_store 64 ls_standard_reg)),
      (VLUXSEG2EI8_V, v_int (vLoadStore E v_load 8 ls_indexed)),
      (VLUXSEG2EI16_V, v_int (vLoadStore E v_load 16 ls_indexed)),
      (VLUXSEG2EI32_V, v_int (vLoadStore E v_load 32 ls_indexed)),
      (VLUXSEG2EI64_V, v_int (vLoadStore E v_load 64 ls_indexed)),
      (VLOXSEG2EI8_V, v_int (vLoadStore E v_load 8 ls_indexed)),
      (VLOXSEG2EI16_V, v_int (vLoadStore E v_load 16 ls_indexed)),
      (VLOXSEG2EI32_V, v_int (vLoadStore E v_load 32 ls_indexed)),
      (VLOXSEG2EI64_V, v_int (vLoadStore E v_load 64 ls_indexed)),
      (VSUXSEG2EI8_V, v_int (vLoadStore E v_store 8 ls_indexed)),
      (VSUXSEG2EI16_V, v_int (vLoadStore E v_store 16 ls_indexed)),
      (VSUXSEG2EI32_V, v_int (vLoadStore E v_store 32 ls_indexed)),
      (VSUXSEG2EI64_V, v_int (vLoadStore E v_store 64 ls_indexed)),
      (VSOXSEG2EI8_V, v_int (vLoadStore E v_store 8 ls_indexed)),
      (VSOXSEG2EI16_V, v_int (vLoadStore E v_store 16 ls_indexed)),
      (VSOXSEG2EI32_V, v_int (vLoadStore E v_store 32 ls_indexed)),
      (VSOXSEG2EI64_V, v_int (vLoadStore E v_store 64 ls_indexed))]"

definition cases_VLSEG2E8FF_V :: "'d iss_env \<Rightarrow> (OpId \<times> ('d iss, unit) M) list" where
  "cases_VLSEG2E8FF_V E =
     [(VLSEG2E8FF_V, v_int (vLoadStore E v_load 8 ls_fofl)),
      (VLSEG2E16FF_V, v_int (vLoadStore E v_load 16 ls_fofl)),
      (VLSEG2E32FF_V, v_int (vLoadStore E v_load 32 ls_fofl)),
      (VLSEG2E64FF_V, v_int (vLoadStore E v_load 64 ls_fofl)),
      (VLSEG3E8_V, v_int (vLoadStore E v_load 8 ls_standard)),
      (VLSEG3E16_V, v_int (vLoadStore E v_load 16 ls_standard)),
      (VLSEG3E32_V, v_int (vLoadStore E v_load 32 ls_standard)),
      (VLSEG3E64_V, v_int (vLoadStore E v_load 64 ls_standard)),
      (VSSEG3E8_V, v_int (vLoadStore E v_store 8 ls_standard)),
      (VSSEG3E16_V, v_int (vLoadStore E v_store 16 ls_standard)),
      (VSSEG3E32_V, v_int (vLoadStore E v_store 32 ls_standard)),
      (VSSEG3E64_V, v_int (vLoadStore E v_store 64 ls_standard)),
      (VLSSEG3E8_V, v_int (vLoadStore E v_load 8 ls_standard_reg)),
      (VLSSEG3E16_V, v_int (vLoadStore E v_load 16 ls_standard_reg)),
      (VLSSEG3E32_V, v_int (vLoadStore E v_load 32 ls_standard_reg)),
      (VLSSEG3E64_V, v_int (vLoadStore E v_load 64 ls_standard_reg)),
      (VSSSEG3E8_V, v_int (vLoadStore E v_store 8 ls_standard_reg)),
      (VSSSEG3E16_V, v_int (vLoadStore E v_store 16 ls_standard_reg))]"

definition cases_VSSSEG3E32_V :: "'d iss_env \<Rightarrow> (OpId \<times> ('d iss, unit) M) list" where
  "cases_VSSSEG3E32_V E =
     [(VSSSEG3E32_V, v_int (vLoadStore E v_store 32 ls_standard_reg)),
      (VSSSEG3E64_V, v_int (vLoadStore E v_store 64 ls_standard_reg)),
      (VLUXSEG3EI8_V, v_int (vLoadStore E v_load 8 ls_indexed)),
      (VLUXSEG3EI16_V, v_int (vLoadStore E v_load 16 ls_indexed)),
      (VLUXSEG3EI32_V, v_int (vLoadStore E v_load 32 ls_indexed)),
      (VLUXSEG3EI64_V, v_int (vLoadStore E v_load 64 ls_indexed)),
      (VLOXSEG3EI8_V, v_int (vLoadStore E v_load 8 ls_indexed)),
      (VLOXSEG3EI16_V, v_int (vLoadStore E v_load 16 ls_indexed)),
      (VLOXSEG3EI32_V, v_int (vLoadStore E v_load 32 ls_indexed)),
      (VLOXSEG3EI64_V, v_int (vLoadStore E v_load 64 ls_indexed)),
      (VSUXSEG3EI8_V, v_int (vLoadStore E v_store 8 ls_indexed)),
      (VSUXSEG3EI16_V, v_int (vLoadStore E v_store 16 ls_indexed)),
      (VSUXSEG3EI32_V, v_int (vLoadStore E v_store 32 ls_indexed)),
      (VSUXSEG3EI64_V, v_int (vLoadStore E v_store 64 ls_indexed)),
      (VSOXSEG3EI8_V, v_int (vLoadStore E v_store 8 ls_indexed)),
      (VSOXSEG3EI16_V, v_int (vLoadStore E v_store 16 ls_indexed)),
      (VSOXSEG3EI32_V, v_int (vLoadStore E v_store 32 ls_indexed)),
      (VSOXSEG3EI64_V, v_int (vLoadStore E v_store 64 ls_indexed))]"

definition cases_VLSEG3E8FF_V :: "'d iss_env \<Rightarrow> (OpId \<times> ('d iss, unit) M) list" where
  "cases_VLSEG3E8FF_V E =
     [(VLSEG3E8FF_V, v_int (vLoadStore E v_load 8 ls_fofl)),
      (VLSEG3E16FF_V, v_int (vLoadStore E v_load 16 ls_fofl)),
      (VLSEG3E32FF_V, v_int (vLoadStore E v_load 32 ls_fofl)),
      (VLSEG3E64FF_V, v_int (vLoadStore E v_load 64 ls_fofl)),
      (VLSEG4E8_V, v_int (vLoadStore E v_load 8 ls_standard)),
      (VLSEG4E16_V, v_int (vLoadStore E v_load 16 ls_standard)),
      (VLSEG4E32_V, v_int (vLoadStore E v_load 32 ls_standard)),
      (VLSEG4E64_V, v_int (vLoadStore E v_load 64 ls_standard)),
      (VSSEG4E8_V, v_int (vLoadStore E v_store 8 ls_standard)),
      (VSSEG4E16_V, v_int (vLoadStore E v_store 16 ls_standard)),
      (VSSEG4E32_V, v_int (vLoadStore E v_store 32 ls_standard)),
      (VSSEG4E64_V, v_int (vLoadStore E v_store 64 ls_standard)),
      (VLSSEG4E8_V, v_int (vLoadStore E v_load 8 ls_standard_reg)),
      (VLSSEG4E16_V, v_int (vLoadStore E v_load 16 ls_standard_reg)),
      (VLSSEG4E32_V, v_int (vLoadStore E v_load 32 ls_standard_reg)),
      (VLSSEG4E64_V, v_int (vLoadStore E v_load 64 ls_standard_reg)),
      (VSSSEG4E8_V, v_int (vLoadStore E v_store 8 ls_standard_reg)),
      (VSSSEG4E16_V, v_int (vLoadStore E v_store 16 ls_standard_reg))]"

definition cases_VSSSEG4E32_V :: "'d iss_env \<Rightarrow> (OpId \<times> ('d iss, unit) M) list" where
  "cases_VSSSEG4E32_V E =
     [(VSSSEG4E32_V, v_int (vLoadStore E v_store 32 ls_standard_reg)),
      (VSSSEG4E64_V, v_int (vLoadStore E v_store 64 ls_standard_reg)),
      (VLUXSEG4EI8_V, v_int (vLoadStore E v_load 8 ls_indexed)),
      (VLUXSEG4EI16_V, v_int (vLoadStore E v_load 16 ls_indexed)),
      (VLUXSEG4EI32_V, v_int (vLoadStore E v_load 32 ls_indexed)),
      (VLUXSEG4EI64_V, v_int (vLoadStore E v_load 64 ls_indexed)),
      (VLOXSEG4EI8_V, v_int (vLoadStore E v_load 8 ls_indexed)),
      (VLOXSEG4EI16_V, v_int (vLoadStore E v_load 16 ls_indexed)),
      (VLOXSEG4EI32_V, v_int (vLoadStore E v_load 32 ls_indexed)),
      (VLOXSEG4EI64_V, v_int (vLoadStore E v_load 64 ls_indexed)),
      (VSUXSEG4EI8_V, v_int (vLoadStore E v_store 8 ls_indexed)),
      (VSUXSEG4EI16_V, v_int (vLoadStore E v_store 16 ls_indexed)),
      (VSUXSEG4EI32_V, v_int (vLoadStore E v_store 32 ls_indexed)),
      (VSUXSEG4EI64_V, v_int (vLoadStore E v_store 64 ls_indexed)),
      (VSOXSEG4EI8_V, v_int (vLoadStore E v_store 8 ls_indexed)),
      (VSOXSEG4EI16_V, v_int (vLoadStore E v_store 16 ls_indexed)),
      (VSOXSEG4EI32_V, v_int (vLoadStore E v_store 32 ls_indexed)),
      (VSOXSEG4EI64_V, v_int (vLoadStore E v_store 64 ls_indexed))]"

definition cases_VLSEG4E8FF_V :: "'d iss_env \<Rightarrow> (OpId \<times> ('d iss, unit) M) list" where
  "cases_VLSEG4E8FF_V E =
     [(VLSEG4E8FF_V, v_int (vLoadStore E v_load 8 ls_fofl)),
      (VLSEG4E16FF_V, v_int (vLoadStore E v_load 16 ls_fofl)),
      (VLSEG4E32FF_V, v_int (vLoadStore E v_load 32 ls_fofl)),
      (VLSEG4E64FF_V, v_int (vLoadStore E v_load 64 ls_fofl)),
      (VLSEG5E8_V, v_int (vLoadStore E v_load 8 ls_standard)),
      (VLSEG5E16_V, v_int (vLoadStore E v_load 16 ls_standard)),
      (VLSEG5E32_V, v_int (vLoadStore E v_load 32 ls_standard)),
      (VLSEG5E64_V, v_int (vLoadStore E v_load 64 ls_standard)),
      (VSSEG5E8_V, v_int (vLoadStore E v_store 8 ls_standard)),
      (VSSEG5E16_V, v_int (vLoadStore E v_store 16 ls_standard)),
      (VSSEG5E32_V, v_int (vLoadStore E v_store 32 ls_standard)),
      (VSSEG5E64_V, v_int (vLoadStore E v_store 64 ls_standard)),
      (VLSSEG5E8_V, v_int (vLoadStore E v_load 8 ls_standard_reg)),
      (VLSSEG5E16_V, v_int (vLoadStore E v_load 16 ls_standard_reg)),
      (VLSSEG5E32_V, v_int (vLoadStore E v_load 32 ls_standard_reg)),
      (VLSSEG5E64_V, v_int (vLoadStore E v_load 64 ls_standard_reg)),
      (VSSSEG5E8_V, v_int (vLoadStore E v_store 8 ls_standard_reg)),
      (VSSSEG5E16_V, v_int (vLoadStore E v_store 16 ls_standard_reg))]"

definition cases_VSSSEG5E32_V :: "'d iss_env \<Rightarrow> (OpId \<times> ('d iss, unit) M) list" where
  "cases_VSSSEG5E32_V E =
     [(VSSSEG5E32_V, v_int (vLoadStore E v_store 32 ls_standard_reg)),
      (VSSSEG5E64_V, v_int (vLoadStore E v_store 64 ls_standard_reg)),
      (VLUXSEG5EI8_V, v_int (vLoadStore E v_load 8 ls_indexed)),
      (VLUXSEG5EI16_V, v_int (vLoadStore E v_load 16 ls_indexed)),
      (VLUXSEG5EI32_V, v_int (vLoadStore E v_load 32 ls_indexed)),
      (VLUXSEG5EI64_V, v_int (vLoadStore E v_load 64 ls_indexed)),
      (VLOXSEG5EI8_V, v_int (vLoadStore E v_load 8 ls_indexed)),
      (VLOXSEG5EI16_V, v_int (vLoadStore E v_load 16 ls_indexed)),
      (VLOXSEG5EI32_V, v_int (vLoadStore E v_load 32 ls_indexed)),
      (VLOXSEG5EI64_V, v_int (vLoadStore E v_load 64 ls_indexed)),
      (VSUXSEG5EI8_V, v_int (vLoadStore E v_store 8 ls_indexed)),
      (VSUXSEG5EI16_V, v_int (vLoadStore E v_store 16 ls_indexed)),
      (VSUXSEG5EI32_V, v_int (vLoadStore E v_store 32 ls_indexed)),
      (VSUXSEG5EI64_V, v_int (vLoadStore E v_store 64 ls_indexed)),
      (VSOXSEG5EI8_V, v_int (vLoadStore E v_store 8 ls_indexed)),
      (VSOXSEG5EI16_V, v_int (vLoadStore E v_store 16 ls_indexed)),
      (VSOXSEG5EI32_V, v_int (vLoadStore E v_store 32 ls_indexed)),
      (VSOXSEG5EI64_V, v_int (vLoadStore E v_store 64 ls_indexed))]"

definition cases_VLSEG5E8FF_V :: "'d iss_env \<Rightarrow> (OpId \<times> ('d iss, unit) M) list" where
  "cases_VLSEG5E8FF_V E =
     [(VLSEG5E8FF_V, v_int (vLoadStore E v_load 8 ls_fofl)),
      (VLSEG5E16FF_V, v_int (vLoadStore E v_load 16 ls_fofl)),
      (VLSEG5E32FF_V, v_int (vLoadStore E v_load 32 ls_fofl)),
      (VLSEG5E64FF_V, v_int (vLoadStore E v_load 64 ls_fofl)),
      (VLSEG6E8_V, v_int (vLoadStore E v_load 8 ls_standard)),
      (VLSEG6E16_V, v_int (vLoadStore E v_load 16 ls_standard)),
      (VLSEG6E32_V, v_int (vLoadStore E v_load 32 ls_standard)),
      (VLSEG6E64_V, v_int (vLoadStore E v_load 64 ls_standard)),
      (VSSEG6E8_V, v_int (vLoadStore E v_store 8 ls_standard)),
      (VSSEG6E16_V, v_int (vLoadStore E v_store 16 ls_standard)),
      (VSSEG6E32_V, v_int (vLoadStore E v_store 32 ls_standard)),
      (VSSEG6E64_V, v_int (vLoadStore E v_store 64 ls_standard)),
      (VLSSEG6E8_V, v_int (vLoadStore E v_load 8 ls_standard_reg)),
      (VLSSEG6E16_V, v_int (vLoadStore E v_load 16 ls_standard_reg)),
      (VLSSEG6E32_V, v_int (vLoadStore E v_load 32 ls_standard_reg)),
      (VLSSEG6E64_V, v_int (vLoadStore E v_load 64 ls_standard_reg)),
      (VSSSEG6E8_V, v_int (vLoadStore E v_store 8 ls_standard_reg)),
      (VSSSEG6E16_V, v_int (vLoadStore E v_store 16 ls_standard_reg))]"

definition cases_VSSSEG6E32_V :: "'d iss_env \<Rightarrow> (OpId \<times> ('d iss, unit) M) list" where
  "cases_VSSSEG6E32_V E =
     [(VSSSEG6E32_V, v_int (vLoadStore E v_store 32 ls_standard_reg)),
      (VSSSEG6E64_V, v_int (vLoadStore E v_store 64 ls_standard_reg)),
      (VLUXSEG6EI8_V, v_int (vLoadStore E v_load 8 ls_indexed)),
      (VLUXSEG6EI16_V, v_int (vLoadStore E v_load 16 ls_indexed)),
      (VLUXSEG6EI32_V, v_int (vLoadStore E v_load 32 ls_indexed)),
      (VLUXSEG6EI64_V, v_int (vLoadStore E v_load 64 ls_indexed)),
      (VLOXSEG6EI8_V, v_int (vLoadStore E v_load 8 ls_indexed)),
      (VLOXSEG6EI16_V, v_int (vLoadStore E v_load 16 ls_indexed)),
      (VLOXSEG6EI32_V, v_int (vLoadStore E v_load 32 ls_indexed)),
      (VLOXSEG6EI64_V, v_int (vLoadStore E v_load 64 ls_indexed)),
      (VSUXSEG6EI8_V, v_int (vLoadStore E v_store 8 ls_indexed)),
      (VSUXSEG6EI16_V, v_int (vLoadStore E v_store 16 ls_indexed)),
      (VSUXSEG6EI32_V, v_int (vLoadStore E v_store 32 ls_indexed)),
      (VSUXSEG6EI64_V, v_int (vLoadStore E v_store 64 ls_indexed)),
      (VSOXSEG6EI8_V, v_int (vLoadStore E v_store 8 ls_indexed)),
      (VSOXSEG6EI16_V, v_int (vLoadStore E v_store 16 ls_indexed)),
      (VSOXSEG6EI32_V, v_int (vLoadStore E v_store 32 ls_indexed)),
      (VSOXSEG6EI64_V, v_int (vLoadStore E v_store 64 ls_indexed))]"

definition cases_VLSEG6E8FF_V :: "'d iss_env \<Rightarrow> (OpId \<times> ('d iss, unit) M) list" where
  "cases_VLSEG6E8FF_V E =
     [(VLSEG6E8FF_V, v_int (vLoadStore E v_load 8 ls_fofl)),
      (VLSEG6E16FF_V, v_int (vLoadStore E v_load 16 ls_fofl)),
      (VLSEG6E32FF_V, v_int (vLoadStore E v_load 32 ls_fofl)),
      (VLSEG6E64FF_V, v_int (vLoadStore E v_load 64 ls_fofl)),
      (VLSEG7E8_V, v_int (vLoadStore E v_load 8 ls_standard)),
      (VLSEG7E16_V, v_int (vLoadStore E v_load 16 ls_standard)),
      (VLSEG7E32_V, v_int (vLoadStore E v_load 32 ls_standard)),
      (VLSEG7E64_V, v_int (vLoadStore E v_load 64 ls_standard)),
      (VSSEG7E8_V, v_int (vLoadStore E v_store 8 ls_standard)),
      (VSSEG7E16_V, v_int (vLoadStore E v_store 16 ls_standard)),
      (VSSEG7E32_V, v_int (vLoadStore E v_store 32 ls_standard)),
      (VSSEG7E64_V, v_int (vLoadStore E v_store 64 ls_standard)),
      (VLSSEG7E8_V, v_int (vLoadStore E v_load 8 ls_standard_reg)),
      (VLSSEG7E16_V, v_int (vLoadStore E v_load 16 ls_standard_reg)),
      (VLSSEG7E32_V, v_int (vLoadStore E v_load 32 ls_standard_reg)),
      (VLSSEG7E64_V, v_int (vLoadStore E v_load 64 ls_standard_reg)),
      (VSSSEG7E8_V, v_int (vLoadStore E v_store 8 ls_standard_reg)),
      (VSSSEG7E16_V, v_int (vLoadStore E v_store 16 ls_standard_reg))]"

definition cases_VSSSEG7E32_V :: "'d iss_env \<Rightarrow> (OpId \<times> ('d iss, unit) M) list" where
  "cases_VSSSEG7E32_V E =
     [(VSSSEG7E32_V, v_int (vLoadStore E v_store 32 ls_standard_reg)),
      (VSSSEG7E64_V, v_int (vLoadStore E v_store 64 ls_standard_reg)),
      (VLUXSEG7EI8_V, v_int (vLoadStore E v_load 8 ls_indexed)),
      (VLUXSEG7EI16_V, v_int (vLoadStore E v_load 16 ls_indexed)),
      (VLUXSEG7EI32_V, v_int (vLoadStore E v_load 32 ls_indexed)),
      (VLUXSEG7EI64_V, v_int (vLoadStore E v_load 64 ls_indexed)),
      (VLOXSEG7EI8_V, v_int (vLoadStore E v_load 8 ls_indexed)),
      (VLOXSEG7EI16_V, v_int (vLoadStore E v_load 16 ls_indexed)),
      (VLOXSEG7EI32_V, v_int (vLoadStore E v_load 32 ls_indexed)),
      (VLOXSEG7EI64_V, v_int (vLoadStore E v_load 64 ls_indexed)),
      (VSUXSEG7EI8_V, v_int (vLoadStore E v_store 8 ls_indexed)),
      (VSUXSEG7EI16_V, v_int (vLoadStore E v_store 16 ls_indexed)),
      (VSUXSEG7EI32_V, v_int (vLoadStore E v_store 32 ls_indexed)),
      (VSUXSEG7EI64_V, v_int (vLoadStore E v_store 64 ls_indexed)),
      (VSOXSEG7EI8_V, v_int (vLoadStore E v_store 8 ls_indexed)),
      (VSOXSEG7EI16_V, v_int (vLoadStore E v_store 16 ls_indexed)),
      (VSOXSEG7EI32_V, v_int (vLoadStore E v_store 32 ls_indexed)),
      (VSOXSEG7EI64_V, v_int (vLoadStore E v_store 64 ls_indexed))]"

definition cases_VLSEG7E8FF_V :: "'d iss_env \<Rightarrow> (OpId \<times> ('d iss, unit) M) list" where
  "cases_VLSEG7E8FF_V E =
     [(VLSEG7E8FF_V, v_int (vLoadStore E v_load 8 ls_fofl)),
      (VLSEG7E16FF_V, v_int (vLoadStore E v_load 16 ls_fofl)),
      (VLSEG7E32FF_V, v_int (vLoadStore E v_load 32 ls_fofl)),
      (VLSEG7E64FF_V, v_int (vLoadStore E v_load 64 ls_fofl)),
      (VLSEG8E8_V, v_int (vLoadStore E v_load 8 ls_standard)),
      (VLSEG8E16_V, v_int (vLoadStore E v_load 16 ls_standard)),
      (VLSEG8E32_V, v_int (vLoadStore E v_load 32 ls_standard)),
      (VLSEG8E64_V, v_int (vLoadStore E v_load 64 ls_standard)),
      (VSSEG8E8_V, v_int (vLoadStore E v_store 8 ls_standard)),
      (VSSEG8E16_V, v_int (vLoadStore E v_store 16 ls_standard)),
      (VSSEG8E32_V, v_int (vLoadStore E v_store 32 ls_standard)),
      (VSSEG8E64_V, v_int (vLoadStore E v_store 64 ls_standard)),
      (VLSSEG8E8_V, v_int (vLoadStore E v_load 8 ls_standard_reg)),
      (VLSSEG8E16_V, v_int (vLoadStore E v_load 16 ls_standard_reg)),
      (VLSSEG8E32_V, v_int (vLoadStore E v_load 32 ls_standard_reg)),
      (VLSSEG8E64_V, v_int (vLoadStore E v_load 64 ls_standard_reg)),
      (VSSSEG8E8_V, v_int (vLoadStore E v_store 8 ls_standard_reg)),
      (VSSSEG8E16_V, v_int (vLoadStore E v_store 16 ls_standard_reg))]"

definition cases_VSSSEG8E32_V :: "'d iss_env \<Rightarrow> (OpId \<times> ('d iss, unit) M) list" where
  "cases_VSSSEG8E32_V E =
     [(VSSSEG8E32_V, v_int (vLoadStore E v_store 32 ls_standard_reg)),
      (VSSSEG8E64_V, v_int (vLoadStore E v_store 64 ls_standard_reg)),
      (VLUXSEG8EI8_V, v_int (vLoadStore E v_load 8 ls_indexed)),
      (VLUXSEG8EI16_V, v_int (vLoadStore E v_load 16 ls_indexed)),
      (VLUXSEG8EI32_V, v_int (vLoadStore E v_load 32 ls_indexed)),
      (VLUXSEG8EI64_V, v_int (vLoadStore E v_load 64 ls_indexed)),
      (VLOXSEG8EI8_V, v_int (vLoadStore E v_load 8 ls_indexed)),
      (VLOXSEG8EI16_V, v_int (vLoadStore E v_load 16 ls_indexed)),
      (VLOXSEG8EI32_V, v_int (vLoadStore E v_load 32 ls_indexed)),
      (VLOXSEG8EI64_V, v_int (vLoadStore E v_load 64 ls_indexed)),
      (VSUXSEG8EI8_V, v_int (vLoadStore E v_store 8 ls_indexed)),
      (VSUXSEG8EI16_V, v_int (vLoadStore E v_store 16 ls_indexed)),
      (VSUXSEG8EI32_V, v_int (vLoadStore E v_store 32 ls_indexed)),
      (VSUXSEG8EI64_V, v_int (vLoadStore E v_store 64 ls_indexed)),
      (VSOXSEG8EI8_V, v_int (vLoadStore E v_store 8 ls_indexed)),
      (VSOXSEG8EI16_V, v_int (vLoadStore E v_store 16 ls_indexed)),
      (VSOXSEG8EI32_V, v_int (vLoadStore E v_store 32 ls_indexed)),
      (VSOXSEG8EI64_V, v_int (vLoadStore E v_store 64 ls_indexed))]"

definition cases_VLSEG8E8FF_V :: "'d iss_env \<Rightarrow> (OpId \<times> ('d iss, unit) M) list" where
  "cases_VLSEG8E8FF_V E =
     [(VLSEG8E8FF_V, v_int (vLoadStore E v_load 8 ls_fofl)),
      (VLSEG8E16FF_V, v_int (vLoadStore E v_load 16 ls_fofl)),
      (VLSEG8E32FF_V, v_int (vLoadStore E v_load 32 ls_fofl)),
      (VLSEG8E64FF_V, v_int (vLoadStore E v_load 64 ls_fofl)),
      (VL1RE8_V, v_any (vLoadStore E v_load 8 ls_whole)),
      (VL1RE16_V, v_any (vLoadStore E v_load 16 ls_whole)),
      (VL1RE32_V, v_any (vLoadStore E v_load 32 ls_whole)),
      (VL1RE64_V, v_any (vLoadStore E v_load 64 ls_whole)),
      (VS1R_V, v_any (vLoadStore E v_store 8 ls_whole)),
      (VL2RE8_V, v_any (vLoadStore E v_load 8 ls_whole)),
      (VL2RE16_V, v_any (vLoadStore E v_load 16 ls_whole)),
      (VL2RE32_V, v_any (vLoadStore E v_load 32 ls_whole)),
      (VL2RE64_V, v_any (vLoadStore E v_load 64 ls_whole)),
      (VS2R_V, v_any (vLoadStore E v_store 8 ls_whole)),
      (VL4RE8_V, v_any (vLoadStore E v_load 8 ls_whole)),
      (VL4RE16_V, v_any (vLoadStore E v_load 16 ls_whole)),
      (VL4RE32_V, v_any (vLoadStore E v_load 32 ls_whole)),
      (VL4RE64_V, v_any (vLoadStore E v_load 64 ls_whole))]"

definition cases_VS4R_V :: "'d iss_env \<Rightarrow> (OpId \<times> ('d iss, unit) M) list" where
  "cases_VS4R_V E =
     [(VS4R_V, v_any (vLoadStore E v_store 8 ls_whole)),
      (VL8RE8_V, v_any (vLoadStore E v_load 8 ls_whole)),
      (VL8RE16_V, v_any (vLoadStore E v_load 16 ls_whole)),
      (VL8RE32_V, v_any (vLoadStore E v_load 32 ls_whole)),
      (VL8RE64_V, v_any (vLoadStore E v_load 64 ls_whole)),
      (VS8R_V, v_any (vLoadStore E v_store 8 ls_whole)),
      (VADD_VV, v_int (vLoop vAdd xxxsss sel_vv)),
      (VADD_VI, v_int (vLoop vAdd xxxsss sel_vi)),
      (VADD_VX, v_int (vLoop vAdd xxxsss sel_vx)),
      (VSUB_VV, v_int (vLoop vSub xxxsss sel_vv)),
      (VSUB_VX, v_int (vLoop vSub xxxsss sel_vx)),
      (VRSUB_VX, v_int (vLoop vRSub xxxsss sel_vx)),
      (VRSUB_VI, v_int (vLoop vRSub xxxsss sel_vi)),
      (VWADD_VV, v_int (vLoop vAdd wxxsss sel_vv)),
      (VWADD_VX, v_int (vLoop vAdd wxxsss sel_vx)),
      (VWSUB_VV, v_int (vLoop vSub wxxsss sel_vv)),
      (VWSUB_VX, v_int (vLoop vSub wxxsss sel_vx)),
      (VWADDU_VV, v_int (vLoop vAdd wxxuuu sel_vv)),
      (VWADDU_VX, v_int (vLoop vAdd wxxuuu sel_vx)),
      (VWSUBU_VV, v_int (vLoop vSub wxxuuu sel_vv))]"

definition cases_VWSUBU_VX :: "(OpId \<times> ('d iss, unit) M) list" where
  "cases_VWSUBU_VX =
     [(VWSUBU_VX, v_int (vLoop vSub wxxuuu sel_vx)),
      (VWADD_WV, v_int (vLoop vAdd wwxsss sel_vv)),
      (VWADD_WX, v_int (vLoop vAdd wwxsss sel_vx)),
      (VWSUB_WV, v_int (vLoop vSub wwxsss sel_vv)),
      (VWSUB_WX, v_int (vLoop vSub wwxsss sel_vx)),
      (VWADDU_WV, v_int (vLoop vAdd wwxuuu sel_vv)),
      (VWADDU_WX, v_int (vLoop vAdd wwxuuu sel_vx)),
      (VWSUBU_WV, v_int (vLoop vSub wwxuuu sel_vv)),
      (VWSUBU_WX, v_int (vLoop vSub wwxuuu sel_vx)),
      (VZEXT_VF2, v_int (bindM (vExt 2) (\<lambda>f. vLoop f xxxuuu sel_vx))),
      (VSEXT_VF2, v_int (bindM (vExt 2) (\<lambda>f. vLoop f xxxsss sel_vx))),
      (VZEXT_VF4, v_int (bindM (vExt 4) (\<lambda>f. vLoop f xxxuuu sel_vx))),
      (VSEXT_VF4, v_int (bindM (vExt 4) (\<lambda>f. vLoop f xxxsss sel_vx))),
      (VZEXT_VF8, v_int (bindM (vExt 8) (\<lambda>f. vLoop f xxxuuu sel_vx))),
      (VSEXT_VF8, v_int (bindM (vExt 8) (\<lambda>f. vLoop f xxxsss sel_vx))),
      (VADC_VVM, v_int (vLoopExtCarry vAdc xxxsss sel_vv)),
      (VADC_VXM, v_int (vLoopExtCarry vAdc xxxsss sel_vx)),
      (VADC_VIM, v_int (vLoopExtCarry vAdc xxxsss sel_vi)),
      (VMADC_VVM, v_int (vLoopVoidAll vMadc xxxsss sel_vv)),
      (VMADC_VXM, v_int (vLoopVoidAll vMadc xxxsss sel_vx)),
      (VMADC_VIM, v_int (vLoopVoidAll vMadc xxxsss sel_vi))]"

definition cases_VMADC_VV :: "(OpId \<times> ('d iss, unit) M) list" where
  "cases_VMADC_VV =
     [(VMADC_VV, v_int (vLoopVoidAll vMadc xxxsss sel_vv)),
      (VMADC_VX, v_int (vLoopVoidAll vMadc xxxsss sel_vx)),
      (VMADC_VI, v_int (vLoopVoidAll vMadc xxxsss sel_vi)),
      (VSBC_VVM, v_int (vLoopExtCarry vSbc xxxsss sel_vv)),
      (VSBC_VXM, v_int (vLoopExtCarry vSbc xxxsss sel_vx)),
      (VMSBC_VVM, v_int (vLoopVoidAll vMsbc xxxsss sel_vv)),
      (VMSBC_VXM, v_int (vLoopVoidAll vMsbc xxxsss sel_vx)),
      (VMSBC_VV, v_int (vLoopVoidAll vMsbc xxxsss sel_vv)),
      (VMSBC_VX, v_int (vLoopVoidAll vMsbc xxxsss sel_vx)),
      (VAND_VI, v_int (vLoop vAnd xxxsss sel_vi)),
      (VAND_VV, v_int (vLoop vAnd xxxsss sel_vv)),
      (VAND_VX, v_int (vLoop vAnd xxxsss sel_vx)),
      (VOR_VV, v_int (vLoop vOr xxxsss sel_vv)),
      (VOR_VI, v_int (vLoop vOr xxxsss sel_vi)),
      (VOR_VX, v_int (vLoop vOr xxxsss sel_vx)),
      (VXOR_VV, v_int (vLoop vXor xxxsss sel_vv)),
      (VXOR_VI, v_int (vLoop vXor xxxsss sel_vi)),
      (VXOR_VX, v_int (vLoop vXor xxxsss sel_vx)),
      (VSLL_VI, v_int (vLoop (vShift False) xxxuuu sel_vi)),
      (VSLL_VV, v_int (vLoop (vShift False) xxxuuu sel_vv)),
      (VSLL_VX, v_int (vLoop (vShift False) xxxuuu sel_vx))]"

definition cases_VSRL_VV :: "(OpId \<times> ('d iss, unit) M) list" where
  "cases_VSRL_VV =
     [(VSRL_VV, v_int (vLoop (vShift True) xxxuuu sel_vv)),
      (VSRL_VI, v_int (vLoop (vShift True) xxxuuu sel_vi)),
      (VSRL_VX, v_int (vLoop (vShift True) xxxuuu sel_vx)),
      (VSRA_VV, v_int (vLoop (vShift True) xxxssu sel_vv)),
      (VSRA_VI, v_int (vLoop (vShift True) xxxssu sel_vi)),
      (VSRA_VX, v_int (vLoop (vShift True) xxxssu sel_vx)),
      (VNSRL_WV, v_int (vLoop (vShift True) xwxuuu sel_vv)),
      (VNSRL_WI, v_int (vLoop (vShift True) xwxuuu sel_vi)),
      (VNSRL_WX, v_int (vLoop (vShift True) xwxuuu sel_vx)),
      (VNSRA_WV, v_int (vLoop (vShift True) xwxssu sel_vv)),
      (VNSRA_WI, v_int (vLoop (vShift True) xwxssu sel_vi)),
      (VNSRA_WX, v_int (vLoop (vShift True) xwxssu sel_vx)),
      (VMSEQ_VV, v_int (vLoopVdExtVoid (vCompInt cmp_eq) xxxsss sel_vv)),
      (VMSEQ_VX, v_int (vLoopVdExtVoid (vCompInt cmp_eq) xxxsss sel_vx)),
      (VMSEQ_VI, v_int (vLoopVdExtVoid (vCompInt cmp_eq) xxxsss sel_vi)),
      (VMSNE_VV, v_int (vLoopVdExtVoid (vCompInt cmp_ne) xxxsss sel_vv)),
      (VMSNE_VX, v_int (vLoopVdExtVoid (vCompInt cmp_ne) xxxsss sel_vx)),
      (VMSNE_VI, v_int (vLoopVdExtVoid (vCompInt cmp_ne) xxxsss sel_vi)),
      (VMSLTU_VV, v_int (vLoopVdExtVoid (vCompInt cmp_lt) xxxuuu sel_vv)),
      (VMSLTU_VX, v_int (vLoopVdExtVoid (vCompInt cmp_lt) xxxuuu sel_vx))]"

definition cases_VMSLT_VV :: "(OpId \<times> ('d iss, unit) M) list" where
  "cases_VMSLT_VV =
     [(VMSLT_VV, v_int (vLoopVdExtVoid (vCompInt cmp_lt) xxxsss sel_vv)),
      (VMSLT_VX, v_int (vLoopVdExtVoid (vCompInt cmp_lt) xxxsss sel_vx)),
      (VMSLEU_VV, v_int (vLoopVdExtVoid (vCompInt cmp_le) xxxuuu sel_vv)),
      (VMSLEU_VX, v_int (vLoopVdExtVoid (vCompInt cmp_le) xxxuuu sel_vx)),
      (VMSLEU_VI, v_int (vLoopVdExtVoid (vCompInt cmp_le) xxxuus sel_vi)),
      (VMSLE_VV, v_int (vLoopVdExtVoid (vCompInt cmp_le) xxxsss sel_vv)),
      (VMSLE_VX, v_int (vLoopVdExtVoid (vCompInt cmp_le) xxxsss sel_vx)),
      (VMSLE_VI, v_int (vLoopVdExtVoid (vCompInt cmp_le) xxxsss sel_vi)),
      (VMSGTU_VX, v_int (vLoopVdExtVoid (vCompInt cmp_gt) xxxuuu sel_vx)),
      (VMSGTU_VI, v_int (vLoopVdExtVoid (vCompInt cmp_gt) xxxuus sel_vi)),
      (VMSGT_VX, v_int (vLoopVdExtVoid (vCompInt cmp_gt) xxxsss sel_vx)),
      (VMSGT_VI, v_int (vLoopVdExtVoid (vCompInt cmp_gt) xxxsss sel_vi)),
      (VMINU_VV, v_int (vLoop vMin xxxuuu sel_vv)),
      (VMINU_VX, v_int (vLoop vMin xxxuuu sel_vx)),
      (VMIN_VV, v_int (vLoop vMin xxxsss sel_vv)),
      (VMIN_VX, v_int (vLoop vMin xxxsss sel_vx)),
      (VMAXU_VV, v_int (vLoop vMax xxxuuu sel_vv)),
      (VMAXU_VX, v_int (vLoop vMax xxxuuu sel_vx)),
      (VMAX_VV, v_int (vLoop vMax xxxsss sel_vv))]"

definition cases_VMAX_VX :: "(OpId \<times> ('d iss, unit) M) list" where
  "cases_VMAX_VX =
     [(VMAX_VX, v_int (vLoop vMax xxxsss sel_vx)),
      (VMUL_VV, v_int (vLoop vMul xxxsss sel_vv)),
      (VMUL_VX, v_int (vLoop vMul xxxsss sel_vx)),
      (VMULH_VV, v_int (vLoop vMulh xxxsss sel_vv)),
      (VMULH_VX, v_int (vLoop vMulh xxxsss sel_vx)),
      (VMULHU_VV, v_int (vLoop vMulh xxxuuu sel_vv)),
      (VMULHU_VX, v_int (vLoop vMulh xxxuuu sel_vx)),
      (VMULHSU_VV, v_int (vLoop vMulh xxxssu sel_vv)),
      (VMULHSU_VX, v_int (vLoop vMulh xxxssu sel_vx)),
      (VDIVU_VV, v_int (vLoop vDiv xxxuuu sel_vv)),
      (VDIVU_VX, v_int (vLoop vDiv xxxuuu sel_vx)),
      (VDIV_VV, v_int (vLoop vDiv xxxsss sel_vv)),
      (VDIV_VX, v_int (vLoop vDiv xxxsss sel_vx)),
      (VREMU_VV, v_int (vLoop vRem xxxuuu sel_vv)),
      (VREMU_VX, v_int (vLoop vRem xxxuuu sel_vx)),
      (VREM_VV, v_int (vLoop vRem xxxsss sel_vv)),
      (VREM_VX, v_int (vLoop vRem xxxsss sel_vx)),
      (VWMUL_VV, v_int (vLoop vMul wxxsss sel_vv)),
      (VWMUL_VX, v_int (vLoop vMul wxxsss sel_vx)),
      (VWMULU_VV, v_int (vLoop vMul wxxuuu sel_vv)),
      (VWMULU_VX, v_int (vLoop vMul wxxuuu sel_vx))]"

definition cases_VWMULSU_VV :: "(OpId \<times> ('d iss, unit) M) list" where
  "cases_VWMULSU_VV =
     [(VWMULSU_VV, v_int (vLoop vMul wxxusu sel_vv)),
      (VWMULSU_VX, v_int (vLoop vMul wxxusu sel_vx)),
      (VMACC_VV, v_int (vLoopVdExt vMacc xxxsss sel_vv)),
      (VMACC_VX, v_int (vLoopVdExt vMacc xxxsss sel_vx)),
      (VNMSAC_VV, v_int (vLoopVdExt vNmsac xxxsss sel_vv)),
      (VNMSAC_VX, v_int (vLoopVdExt vNmsac xxxsss sel_vx)),
      (VMADD_VV, v_int (vLoopVdExt vMadd xxxsss sel_vv)),
      (VMADD_VX, v_int (vLoopVdExt vMadd xxxsss sel_vx)),
      (VNMSUB_VV, v_int (vLoopVdExt vNmsub xxxsss sel_vv)),
      (VNMSUB_VX, v_int (vLoopVdExt vNmsub xxxsss sel_vx)),
      (VWMACCU_VV, v_int (vLoopVdExt vMacc wxxuuu sel_vv)),
      (VWMACCU_VX, v_int (vLoopVdExt vMacc wxxuuu sel_vx)),
      (VWMACC_VV, v_int (vLoopVdExt vMacc wxxsss sel_vv)),
      (VWMACC_VX, v_int (vLoopVdExt vMacc wxxsss sel_vx)),
      (VWMACCSU_VV, v_int (vLoopVdExt vMacc wxxuus sel_vv)),
      (VWMACCSU_VX, v_int (vLoopVdExt vMacc wxxuus sel_vx)),
      (VWMACCUS_VX, v_int (vLoopVdExt vMacc wxxusu sel_vx)),
      (VMERGE_VVM, v_int (vLoopExtCarry vMerge xxxsss sel_vv)),
      (VMERGE_VXM, v_int (vLoopExtCarry vMerge xxxsss sel_vx)),
      (VMERGE_VIM, v_int (vLoopExtCarry vMerge xxxsss sel_vi)),
      (VMV_V_V, v_int (vLoop vMv xxxsss sel_vv))]"

definition cases_VMV_V_X :: "(OpId \<times> ('d iss, unit) M) list" where
  "cases_VMV_V_X =
     [(VMV_V_X, v_int (vLoop vMv xxxsss sel_vx)),
      (VMV_V_I, v_int (vLoop vMv xxxsss sel_vi)),
      (VSADDU_VV, v_int (vLoop vSaddu xxxuuu sel_vv)),
      (VSADDU_VX, v_int (vLoop vSaddu xxxuuu sel_vx)),
      (VSADDU_VI, v_int (vLoop vSaddu xxxuus sel_vi)),
      (VSADD_VV, v_int (vLoop vSadd xxxsss sel_vv)),
      (VSADD_VX, v_int (vLoop vSadd xxxsss sel_vx)),
      (VSADD_VI, v_int (vLoop vSadd xxxsss sel_vi)),
      (VSSUBU_VV, v_int (vLoop vSsubu xxxuuu sel_vv)),
      (VSSUBU_VX, v_int (vLoop vSsubu xxxuuu sel_vx)),
      (VSSUB_VV, v_int (vLoop vSsub xxxsss sel_vv)),
      (VSSUB_VX, v_int (vLoop vSsub xxxsss sel_vx)),
      (VAADDU_VV, v_int (vLoop vAadd xxxuuu sel_vv)),
      (VAADDU_VX, v_int (vLoop vAadd xxxuuu sel_vx)),
      (VAADD_VV, v_int (vLoop vAadd xxxsss sel_vv)),
      (VAADD_VX, v_int (vLoop vAadd xxxsss sel_vx)),
      (VASUBU_VV, v_int (vLoop vAsub xxxuuu sel_vv)),
      (VASUBU_VX, v_int (vLoop vAsub xxxuuu sel_vx)),
      (VASUB_VV, v_int (vLoop vAsub xxxsss sel_vv)),
      (VASUB_VX, v_int (vLoop vAsub xxxsss sel_vx)),
      (VSMUL_VV, v_int (vLoop vSmul xxxsss sel_vv))]"

definition cases_VSMUL_VX :: "softfloat \<Rightarrow> (OpId \<times> ('d iss, unit) M) list" where
  "cases_VSMUL_VX SF =
     [(VSMUL_VX, v_int (vLoop vSmul xxxsss sel_vx)),
      (VSSRL_VV, v_int (vLoop (vShiftRight False) xxxuuu sel_vv)),
      (VSSRL_VX, v_int (vLoop (vShiftRight False) xxxuuu sel_vx)),
      (VSSRL_VI, v_int (vLoop (vShiftRight False) xxxuuu sel_vi)),
      (VSSRA_VV, v_int (vLoop (vShiftRight False) xxxssu sel_vv)),
      (VSSRA_VX, v_int (vLoop (vShiftRight False) xxxssu sel_vx)),
      (VSSRA_VI, v_int (vLoop (vShiftRight False) xxxssu sel_vi)),
      (VNCLIPU_WV, v_int (vLoop (vShiftRight True) xwxuuu sel_vv)),
      (VNCLIPU_WX, v_int (vLoop (vShiftRight True) xwxuuu sel_vx)),
      (VNCLIPU_WI, v_int (vLoop (vShiftRight True) xwxuuu sel_vi)),
      (VNCLIP_WV, v_int (vLoop (vShiftRight True) xwxssu sel_vv)),
      (VNCLIP_WX, v_int (vLoop (vShiftRight True) xwxssu sel_vx)),
      (VNCLIP_WI, v_int (vLoop (vShiftRight True) xwxssu sel_vi)),
      (VFADD_VV, v_fp (vLoopVdExt (vfAdd SF) xxxuuu sel_vv)),
      (VFADD_VF, v_fp (vLoopVdExt (vfAdd SF) xxxuuu sel_vf)),
      (VFSUB_VV, v_fp (vLoopVdExt (vfSub SF) xxxuuu sel_vv)),
      (VFSUB_VF, v_fp (vLoopVdExt (vfSub SF) xxxuuu sel_vf)),
      (VFRSUB_VF, v_fp (vLoopVdExt (vfrSub SF) xxxuuu sel_vf)),
      (VFWADD_VV, v_fp (vLoopVdExt (vfwAdd SF) wxxuuu sel_vv)),
      (VFWADD_VF, v_fp (vLoopVdExt (vfwAdd SF) wxxuuu sel_vf)),
      (VFWSUB_VV, v_fp (vLoopVdExt (vfwSub SF) wxxuuu sel_vv))]"

definition cases_VFWSUB_VF :: "softfloat \<Rightarrow> (OpId \<times> ('d iss, unit) M) list" where
  "cases_VFWSUB_VF SF =
     [(VFWSUB_VF, v_fp (vLoopVdExt (vfwSub SF) wxxuuu sel_vf)),
      (VFWADD_WV, v_fp (vLoopVdExt (vfwAddw SF) wwxuuu sel_vv)),
      (VFWADD_WF, v_fp (vLoopVdExt (vfwAddw SF) wwxuuu sel_vf)),
      (VFWSUB_WV, v_fp (vLoopVdExt (vfwSubw SF) wwxuuu sel_vv)),
      (VFWSUB_WF, v_fp (vLoopVdExt (vfwSubw SF) wwxuuu sel_vf)),
      (VFMUL_VV, v_fp (vLoopVdExt (vfMul SF) xxxuuu sel_vv)),
      (VFMUL_VF, v_fp (vLoopVdExt (vfMul SF) xxxuuu sel_vf)),
      (VFDIV_VV, v_fp (vLoopVdExt (vfDiv SF) xxxuuu sel_vv)),
      (VFDIV_VF, v_fp (vLoopVdExt (vfDiv SF) xxxuuu sel_vf)),
      (VFRDIV_VF, v_fp (vLoopVdExt (vfrDiv SF) xxxuuu sel_vf)),
      (VFWMUL_VV, v_fp (vLoopVdExt (vfwMul SF) wxxuuu sel_vv)),
      (VFWMUL_VF, v_fp (vLoopVdExt (vfwMul SF) wxxuuu sel_vf)),
      (VFMACC_VV, v_fp (vLoopVdExt (vfMacc SF) xxxuuu sel_vv)),
      (VFMACC_VF, v_fp (vLoopVdExt (vfMacc SF) xxxuuu sel_vf)),
      (VFNMACC_VV, v_fp (vLoopVdExt (vfNmacc SF) xxxuuu sel_vv)),
      (VFNMACC_VF, v_fp (vLoopVdExt (vfNmacc SF) xxxuuu sel_vf)),
      (VFMSAC_VV, v_fp (vLoopVdExt (vfMsac SF) xxxuuu sel_vv)),
      (VFMSAC_VF, v_fp (vLoopVdExt (vfMsac SF) xxxuuu sel_vf)),
      (VFNMSAC_VV, v_fp (vLoopVdExt (vfNmsac SF) xxxuuu sel_vv)),
      (VFNMSAC_VF, v_fp (vLoopVdExt (vfNmsac SF) xxxuuu sel_vf)),
      (VFMADD_VV, v_fp (vLoopVdExt (vfMadd SF) xxxuuu sel_vv))]"

definition cases_VFMADD_VF :: "softfloat \<Rightarrow> softfloat_v \<Rightarrow> (OpId \<times> ('d iss, unit) M) list" where
  "cases_VFMADD_VF SF SV =
     [(VFMADD_VF, v_fp (vLoopVdExt (vfMadd SF) xxxuuu sel_vf)),
      (VFNMADD_VV, v_fp (vLoopVdExt (vfNmadd SF) xxxuuu sel_vv)),
      (VFNMADD_VF, v_fp (vLoopVdExt (vfNmadd SF) xxxuuu sel_vf)),
      (VFMSUB_VV, v_fp (vLoopVdExt (vfMsub SF) xxxuuu sel_vv)),
      (VFMSUB_VF, v_fp (vLoopVdExt (vfMsub SF) xxxuuu sel_vf)),
      (VFNMSUB_VV, v_fp (vLoopVdExt (vfNmsub SF) xxxuuu sel_vv)),
      (VFNMSUB_VF, v_fp (vLoopVdExt (vfNmsub SF) xxxuuu sel_vf)),
      (VFWMACC_VV, v_fp (vLoopVdExt (vfwMacc SF) wxxuuu sel_vv)),
      (VFWMACC_VF, v_fp (vLoopVdExt (vfwMacc SF) wxxuuu sel_vf)),
      (VFWNMACC_VV, v_fp (vLoopVdExt (vfwNmacc SF) wxxuuu sel_vv)),
      (VFWNMACC_VF, v_fp (vLoopVdExt (vfwNmacc SF) wxxuuu sel_vf)),
      (VFWMSAC_VV, v_fp (vLoopVdExt (vfwMsac SF) wxxuuu sel_vv)),
      (VFWMSAC_VF, v_fp (vLoopVdExt (vfwMsac SF) wxxuuu sel_vf)),
      (VFWNMSAC_VV, v_fp (vLoopVdExt (vfwNmsac SF) wxxuuu sel_vv)),
      (VFWNMSAC_VF, v_fp (vLoopVdExt (vfwNmsac SF) wxxuuu sel_vf)),
      (VFSQRT_V, v_fp (vLoopVdExt (vfSqrt SF) xxxuuu sel_vv)),
      (VFRSQRT7_V, v_fp (vLoopVdExt (vfRsqrt7 SV) xxxuuu sel_vv)),
      (VFREC7_V, v_fp (vLoopVdExt (vfFrec7 SV) xxxuuu sel_vf)),
      (VFMIN_VV, v_fp (vLoopVdExt (vfMin SV) xxxuuu sel_vv)),
      (VFMIN_VF, v_fp (vLoopVdExt (vfMin SV) xxxuuu sel_vf)),
      (VFMAX_VV, v_fp (vLoopVdExt (vfMax SV) xxxuuu sel_vv))]"

definition cases_VFMAX_VF :: "softfloat \<Rightarrow> softfloat_v \<Rightarrow> (OpId \<times> ('d iss, unit) M) list" where
  "cases_VFMAX_VF SF SV =
     [(VFMAX_VF, v_fp (vLoopVdExt (vfMax SV) xxxuuu sel_vf)),
      (VFSGNJ_VV, v_fp (vLoopVdExt vfSgnj xxxuuu sel_vv)),
      (VFSGNJ_VF, v_fp (vLoopVdExt vfSgnj xxxuuu sel_vf)),
      (VFSGNJN_VV, v_fp (vLoopVdExt vfSgnjn xxxuuu sel_vv)),
      (VFSGNJN_VF, v_fp (vLoopVdExt vfSgnjn xxxuuu sel_vf)),
      (VFSGNJX_VV, v_fp (vLoopVdExt vfSgnjx xxxuuu sel_vv)),
      (VFSGNJX_VF, v_fp (vLoopVdExt vfSgnjx xxxuuu sel_vf)),
      (VMFEQ_VV, v_fp (vLoopVdExtVoid (vMfeq SF) xxxuuu sel_vv)),
      (VMFEQ_VF, v_fp (vLoopVdExtVoid (vMfeq SF) xxxuuu sel_vf)),
      (VMFNE_VV, v_fp (vLoopVdExtVoid (vMfneq SF) xxxuuu sel_vv)),
      (VMFNE_VF, v_fp (vLoopVdExtVoid (vMfneq SF) xxxuuu sel_vf)),
      (VMFLT_VV, v_fp (vLoopVdExtVoid (vMflt SF) xxxuuu sel_vv)),
      (VMFLT_VF, v_fp (vLoopVdExtVoid (vMflt SF) xxxuuu sel_vf)),
      (VMFLE_VV, v_fp (vLoopVdExtVoid (vMfle SF) xxxuuu sel_vv)),
      (VMFLE_VF, v_fp (vLoopVdExtVoid (vMfle SF) xxxuuu sel_vf)),
      (VMFGT_VF, v_fp (vLoopVdExtVoid (vMfgt SF) xxxuuu sel_vf)),
      (VMFGE_VF, v_fp (vLoopVdExtVoid (vMfge SF) xxxuuu sel_vf)),
      (VFCLASS_V, v_fp (vLoopVdExt (vfClass SF) xxxuuu sel_vv)),
      (VFMERGE_VFM, v_fp (vLoopExtCarry vMerge xxxuuu sel_vf)),
      (VFMV_V_F, v_fp (vLoop vfMv xxxuuu sel_vf)),
      (VFCVT_XU_F_V, v_fp (bindM (vfCvtXF SF SV False) (\<lambda>f. vLoopVdExt f xxxuuu sel_vf)))]"

definition cases_VFCVT_X_F_V :: "softfloat \<Rightarrow> softfloat_v \<Rightarrow> (OpId \<times> ('d iss, unit) M) list" where
  "cases_VFCVT_X_F_V SF SV =
     [(VFCVT_X_F_V, v_fp (bindM (vfCvtXF SF SV False) (\<lambda>f. vLoopVdExt f xxxsss sel_vf))),
      (VFCVT_RTZ_XU_F_V, v_fp (bindM (vfCvtXF SF SV True) (\<lambda>f. vLoopVdExt f xxxuuu sel_vf))),
      (VFCVT_RTZ_X_F_V, v_fp (bindM (vfCvtXF SF SV True) (\<lambda>f. vLoopVdExt f xxxsss sel_vf))),
      (VFCVT_F_XU_V, v_fp (vLoop (vfCvtFX SF SV) xxxuuu sel_vf)),
      (VFCVT_F_X_V, v_fp (vLoop (vfCvtFX SF SV) xxxsss sel_vf)),
      (VFWCVT_XU_F_V, v_fp (bindM (vfCvtwXF SF SV False) (\<lambda>f. vLoopVdExt f wxxuuu sel_vf))),
      (VFWCVT_X_F_V, v_fp (bindM (vfCvtwXF SF SV False) (\<lambda>f. vLoopVdExt f wxxsss sel_vf))),
      (VFWCVT_RTZ_XU_F_V, v_fp (bindM (vfCvtwXF SF SV True) (\<lambda>f. vLoopVdExt f wxxuuu sel_vf))),
      (VFWCVT_RTZ_X_F_V, v_fp (bindM (vfCvtwXF SF SV True) (\<lambda>f. vLoopVdExt f wxxsss sel_vf))),
      (VFWCVT_F_XU_V, v_fp (vLoop (vfCvtFX SF SV) wxxuuu sel_vf)),
      (VFWCVT_F_X_V, v_fp (vLoop (vfCvtFX SF SV) wxxsss sel_vf)),
      (VFWCVT_F_F_V, v_fp (vLoopVdExt (vfCvtwFF SF) wxxuuu sel_vf)),
      (VFNCVT_XU_F_W, v_fp (bindM (vfCvtnXF SF SV False) (\<lambda>f. vLoopVdExt f xwxuuu sel_vf))),
      (VFNCVT_X_F_W, v_fp (bindM (vfCvtnXF SF SV False) (\<lambda>f. vLoopVdExt f xwxsss sel_vf))),
      (VFNCVT_RTZ_XU_F_W, v_fp (bindM (vfCvtnXF SF SV True) (\<lambda>f. vLoopVdExt f xwxuuu sel_vf))),
      (VFNCVT_RTZ_X_F_W, v_fp (bindM (vfCvtnXF SF SV True) (\<lambda>f. vLoopVdExt f xwxsss sel_vf))),
      (VFNCVT_F_XU_W, v_fp (vLoop (vfCvtFX SF SV) xwxuuu sel_vf)),
      (VFNCVT_F_X_W, v_fp (vLoop (vfCvtFX SF SV) xwxsss sel_vf)),
      (VFNCVT_F_F_W, v_fp (bindM (vfCvtnFF SF False) (\<lambda>f. vLoopVdExt f xwxuuu sel_vf))),
      (VFNCVT_ROD_F_F_W, v_fp (bindM (vfCvtnFF SF True) (\<lambda>f. vLoopVdExt f xwxuuu sel_vf))),
      (VREDSUM_VS, v_int (vLoopRed vRedSum xxxsss sel_vv))]"

definition cases_VREDMAXU_VS :: "softfloat \<Rightarrow> softfloat_v \<Rightarrow> (OpId \<times> ('d iss, unit) M) list" where
  "cases_VREDMAXU_VS SF SV =
     [(VREDMAXU_VS, v_int (vLoopRed vRedMax xxxuuu sel_vv)),
      (VREDMAX_VS, v_int (vLoopRed vRedMax xxxsss sel_vv)),
      (VREDMINU_VS, v_int (vLoopRed vRedMin xxxuuu sel_vv)),
      (VREDMIN_VS, v_int (vLoopRed vRedMin xxxsss sel_vv)),
      (VREDAND_VS, v_int (vLoopRed vRedAnd xxxsss sel_vv)),
      (VREDOR_VS, v_int (vLoopRed vRedOr xxxsss sel_vv)),
      (VREDXOR_VS, v_int (vLoopRed vRedXor xxxsss sel_vv)),
      (VWREDSUMU_VS, v_int (vLoopRed vRedSum wxwuuu sel_vv)),
      (VWREDSUM_VS, v_int (vLoopRed vRedSum wxwsss sel_vv)),
      (VFREDUSUM_VS, v_fp (vLoopRed (vfRedSum SF) xxxuuu sel_vv)),
      (VFREDOSUM_VS, v_fp (vLoopRed (vfRedSum SF) xxxuuu sel_vv)),
      (VFREDMAX_VS, v_fp (vLoopRed (vfRedMax SV) xxxuuu sel_vv)),
      (VFREDMIN_VS, v_fp (vLoopRed (vfRedMin SV) xxxuuu sel_vv)),
      (VFWREDUSUM_VS, v_fp (vLoopRed (vfwRedSum SF) wxwuuu sel_vv)),
      (VFWREDOSUM_VS, v_fp (vLoopRed (vfwRedSum SF) wxwuuu sel_vv)),
      (VMAND_MM, v_int (vLoopVoidAllMask (vMask m_and))),
      (VMNAND_MM, v_int (vLoopVoidAllMask (vMask m_nand))),
      (VMANDN_MM, v_int (vLoopVoidAllMask (vMask m_andn))),
      (VMXOR_MM, v_int (vLoopVoidAllMask (vMask m_xor))),
      (VMOR_MM, v_int (vLoopVoidAllMask (vMask m_or))),
      (VMNOR_MM, v_int (vLoopVoidAllMask (vMask m_nor)))]"

definition cases_VMORN_MM :: "(OpId \<times> ('d iss, unit) M) list" where
  "cases_VMORN_MM =
     [(VMORN_MM, v_int (vLoopVoidAllMask (vMask m_orn))),
      (VMXNOR_MM, v_int (vLoopVoidAllMask (vMask m_xnor))),
      (VCPOP_M, v_int (vCpop)),
      (VFIRST_M, v_int (vFirst)),
      (VMSBF_M, v_int (vMs sbf)),
      (VMSIF_M, v_int (vMs sif)),
      (VMSOF_M, v_int (vMs sof)),
      (VIOTA_M, v_int (vIota)),
      (VID_V, v_int (vLoopVoid vId sel_vi)),
      (VMV_X_S, v_int (vMvXs)),
      (VMV_S_X, v_int (vMvSx)),
      (VFMV_F_S, v_fp (vMvFs)),
      (VFMV_S_F, v_fp (vMvSf)),
      (VSLIDEUP_VX, v_int (bindM (getsM (\<lambda>s. scast (rs1_val s))) (\<lambda>n. vLoopVoidNoOverlap (vSlideUp n) sel_vx))),
      (VSLIDEUP_VI, v_int (bindM (getsM (\<lambda>s. ucast (rs1 (instr s)))) (\<lambda>n. vLoopVoidNoOverlap (vSlideUp n) sel_vi))),
      (VSLIDEDOWN_VX, v_int (bindM (getsM (\<lambda>s. scast (rs1_val s))) (\<lambda>n. vLoopVoid (vSlideDown n) sel_vx))),
      (VSLIDEDOWN_VI, v_int (bindM (getsM (\<lambda>s. ucast (rs1 (instr s)))) (\<lambda>n. vLoopVoid (vSlideDown n) sel_vi))),
      (VSLIDE1UP_VX, v_int (vLoopVoidNoOverlap (vSlide1Up sel_vx) sel_vx)),
      (VFSLIDE1UP_VF, v_fp (vLoopVoidNoOverlap (vSlide1Up sel_vf) sel_vf)),
      (VSLIDE1DOWN_VX, v_int (vLoopVoid (vSlide1Down sel_vx) sel_vx)),
      (VFSLIDE1DOWN_VF, v_fp (vLoopVoid (vSlide1Down sel_vf) sel_vf))]"

definition cases_VRGATHER_VV :: "(OpId \<times> ('d iss, unit) M) list" where
  "cases_VRGATHER_VV =
     [(VRGATHER_VV, v_int (bindM (vGather False) (\<lambda>f. vLoopExt f xxxuuu sel_vv))),
      (VRGATHEREI16_VV, v_int (bindM (vGather True) (\<lambda>f. vLoopExt f xxxuuu sel_vv))),
      (VRGATHER_VX, v_int (bindM (vGather False) (\<lambda>f. vLoopExt f xxxuuu sel_vx))),
      (VRGATHER_VI, v_int (bindM (vGather False) (\<lambda>f. vLoopExt f xxxuuu sel_vi))),
      (VCOMPRESS_VM, v_int (vCompress)),
      (VMV_NR_R_V, v_int (vMvNr))]"

definition vec_cases :: "softfloat \<Rightarrow> softfloat_v \<Rightarrow> 'd iss_env \<Rightarrow> (OpId \<times> ('d iss, unit) M) list" where
  "vec_cases SF SV E =
     cases_VSETVLI E @ cases_VSSE32_V E @ cases_VLE8FF_V E @ cases_VSSSEG2E32_V E @ cases_VLSEG2E8FF_V E @
     cases_VSSSEG3E32_V E @ cases_VLSEG3E8FF_V E @ cases_VSSSEG4E32_V E @ cases_VLSEG4E8FF_V E @
     cases_VSSSEG5E32_V E @ cases_VLSEG5E8FF_V E @ cases_VSSSEG6E32_V E @ cases_VLSEG6E8FF_V E @
     cases_VSSSEG7E32_V E @ cases_VLSEG7E8FF_V E @ cases_VSSSEG8E32_V E @ cases_VLSEG8E8FF_V E @
     cases_VS4R_V E @ cases_VWSUBU_VX @ cases_VMADC_VV @ cases_VSRL_VV @ cases_VMSLT_VV @ cases_VMAX_VX @
     cases_VWMULSU_VV @ cases_VMV_V_X @ cases_VSMUL_VX SF @ cases_VFWSUB_VF SF @ cases_VFMADD_VF SF SV @
     cases_VFMAX_VF SF SV @ cases_VFCVT_X_F_V SF SV @ cases_VREDMAXU_VS SF SV @ cases_VMORN_MM @
     cases_VRGATHER_VV"

text \<open>Every remaining operation has a case; the default is not reached.\<close>

definition vec_op :: "softfloat \<Rightarrow> softfloat_v \<Rightarrow> 'd iss_env \<Rightarrow> OpId \<Rightarrow> ('d iss, unit) M" where
  "vec_op SF SV E op = switch_on op (vec_cases SF SV E) RAISE_ILLEGAL_INSTRUCTION"

text \<open>The RV32 hart with all its extensions.\<close>

definition rv32_ext_op :: "softfloat \<Rightarrow> softfloat_v \<Rightarrow> 'd iss_env \<Rightarrow> OpId \<Rightarrow> ('d iss, unit) M" where
  "rv32_ext_op SF SV E = fp_op SF (vec_op SF SV E) E"

end
