(* ===== verification/VP_VInv.thy ===== *)
theory VP_VInv
  imports VP_Reach VP_VDispatch
begin

text \<open>
  The vector instructions keep the invariant of the register file: \<^verbatim>\<open>x0\<close> is zero and the exception flags of the
  floating-point library are clear after each of them, also when it traps.
\<close>

section \<open>Integer instructions\<close>

lemma hart_inv_vx_upd [hart_frame]: "hart_inv z fl cfg w (vx_upd f s) = hart_inv z fl cfg w s"
  by (simp add: vx_upd_def hart_inv_def)

lemma hart_inv_reg_write [hart_frame]: "hart_inv z fl cfg w (reg_write n v i x s) = hart_inv z fl cfg w s"
  by (simp add: reg_write_def hart_frame)

lemma hart_inv_iss_reg_write: "hart_inv z fl cfg w s \<Longrightarrow> hart_inv z fl cfg w (iss_reg_write d v s)"
  by (simp add: iss_reg_write_def hart_inv_set_reg)

lemma hart_inv_v_set: "hart_inv z fl cfg w s \<Longrightarrow> hart_inv z fl cfg w (v_set_operation d r t a s)"
  by (simp add: v_set_operation_def Let_def hart_frame hart_inv_iss_reg_write)

lemma hart_inv_rounding [hart_frame]: "hart_inv z fl cfg w (s\<lparr>softfloat_roundingMode := r\<rparr>) = hart_inv z fl cfg w s"
  by (simp add: hart_inv_def)

lemma v_operands_keep [hart_keeps]:
  "keeps P (v_assert b)" "keeps P (fp_reg_read r sew)" "keeps P (getSewSingleOperand sew d i)"
  "keeps P (getOperandsRed i j)" "keeps P (getOperands i)" "keeps P (getOperandsAll i)" "keeps P (mask_elem d i)"
  "keeps P (vInactiveHandling i n)" "keeps P (vCarry i)" "keeps P (getShiftWidth t n i f)"
  "keeps P (vLoadReqs t n)" "keeps P (v_ldst_checks l n t)" "keeps P applyChecks" "keeps P vx_rs2"
  "keeps P (slide1_scalar sel sew)"
  by (auto simp: v_assert_def fp_reg_read_def getSewSingleOperand_def getOperandsRed_def getOperands_def
      getOperandsAll_def mask_elem_def vInactiveHandling_def vCarry_def getShiftWidth_def vLoadReqs_def
      v_ldst_checks_def applyChecks_def vx_rs2_def slide1_scalar_def Let_def
      intro!: keeps_intros keeps_cases hart_keeps split: param_sel_t.splits load_store_type_t.splits)

lemma v_writes_keep [hart_keeps]:
  "keeps (hart_inv z fl cfg w) (writeSewSingleOperand sew d i x)" "keeps (hart_inv z fl cfg w) (writeGeneric x i)"
  "keeps (hart_inv z fl cfg w) (fp_reg_write r x sew)" "keeps (hart_inv z fl cfg w) set_fp_rm"
  "keeps (hart_inv z fl cfg w) (prepInstr a1 a2 a3)" "keeps (hart_inv z fl cfg w) (finishInstr False)"
  "keeps (hart_inv z fl cfg w) (write_mask_bit i x)" "keeps (hart_inv z fl cfg w) (clampSigned x a x8)"
  "keeps (hart_inv z fl cfg w) (set_vxsat b)" "keeps (hart_inv z fl cfg w) (set_elem_sel e)"
  by (auto simp: writeSewSingleOperand_def writeGeneric_def fp_reg_write_def set_fp_rm_def prepInstr_def
      finishInstr_def write_mask_bit_def clampSigned_def set_vxsat_def set_elem_sel_def Let_def hart_frame
      intro!: keeps_intros keeps_cases hart_keeps)

lemma loop_break_keeps: "(\<And>i. keeps P (f i)) \<Longrightarrow> keeps P (loop_break is f)"
  by (induction "is" f rule: loop_break.induct) (auto intro!: keeps_intros)

lemma loop_acc_keeps: "(\<And>i a. keeps P (f i a)) \<Longrightarrow> keeps P (loop_acc is f a)"
  by (induction "is" f a rule: loop_acc.induct) (auto intro!: keeps_intros)

lemma genericVLoop_keeps:
  assumes "\<And>i a. keeps (hart_inv z fl cfg w) (f i a)"
  shows "keeps (hart_inv z fl cfg w) (genericVLoop f e p ign acc)"
  unfolding genericVLoop_def
  by (intro keeps_intros keeps_cases hart_keeps loop_acc_keeps assms; simp add: hart_frame)

lemma v_loops_keep [hart_keeps]:
  "(\<And>a b. keeps (hart_inv z fl cfg w) (f2 a b)) \<Longrightarrow> keeps (hart_inv z fl cfg w) (vLoop f2 e p)"
  "(\<And>a b i. keeps (hart_inv z fl cfg w) (f3 a b i)) \<Longrightarrow> keeps (hart_inv z fl cfg w) (vLoopExt f3 e p)"
  "(\<And>a b i. keeps (hart_inv z fl cfg w) (f3 a b i)) \<Longrightarrow> keeps (hart_inv z fl cfg w) (vLoopExtCarry f3 e p)"
  "(\<And>a b c i. keeps (hart_inv z fl cfg w) (f4 a b c i)) \<Longrightarrow> keeps (hart_inv z fl cfg w) (vLoopVdExt f4 e p)"
  "(\<And>a b c i. keeps (hart_inv z fl cfg w) (f4 a b c i)) \<Longrightarrow> keeps (hart_inv z fl cfg w) (vLoopRed f4 e p)"
  "(\<And>a b c i. keeps (hart_inv z fl cfg w) (g4 a b c i)) \<Longrightarrow> keeps (hart_inv z fl cfg w) (vLoopVdExtVoid g4 e p)"
  "(\<And>i. keeps (hart_inv z fl cfg w) (g i)) \<Longrightarrow> keeps (hart_inv z fl cfg w) (vLoopVoid g p)"
  "(\<And>i. keeps (hart_inv z fl cfg w) (g i)) \<Longrightarrow> keeps (hart_inv z fl cfg w) (vLoopVoidNoOverlap g p)"
  "(\<And>i. keeps (hart_inv z fl cfg w) (g i)) \<Longrightarrow> keeps (hart_inv z fl cfg w) (vLoopVoidAll g e p)"
  "(\<And>i. keeps (hart_inv z fl cfg w) (g i)) \<Longrightarrow> keeps (hart_inv z fl cfg w) (vLoopVoidAllMask g)"
  by (auto simp: vLoop_def vLoopExt_def vLoopExtCarry_def vLoopVdExt_def vLoopRed_def vLoopVdExtVoid_def vLoopVoid_def
      vLoopVoidNoOverlap_def vLoopVoidAll_def vLoopVoidAllMask_def Let_def hart_frame
      intro!: keeps_intros keeps_cases hart_keeps genericVLoop_keeps)

lemma with_eew_keeps [hart_keeps]: "(\<And>x. keeps P (f x)) \<Longrightarrow> keeps P (with_eew f)"
  unfolding with_eew_def by (intro keeps_intros)

lemma v_int_ops_keep [hart_keeps]:
  "keeps P (vAdd a b)" "keeps P (vSub a b)" "keeps P (vRSub a b)" "keeps P (vAnd a b)" "keeps P (vOr a b)"
  "keeps P (vXor a b)" "keeps P (vShift q a b)" "keeps P (vMin a b)" "keeps P (vMax a b)" "keeps P (vMul a b)"
  "keeps P (vMv a b)" "keeps P (vDiv a b)" "keeps P (vRem a b)" "keeps P (vAadd a b)" "keeps P (vAsub a b)"
  "keeps P (vAdc a b i)" "keeps P (vSbc a b i)" "keeps P (vMerge a b i)" "keeps P (vMacc a b c i)"
  "keeps P (vNmsac a b c i)" "keeps P (vMadd a b c i)" "keeps P (vNmsub a b c i)" "keeps P (vMulh a b)"
  "keeps P (vRedSum a b c i)" "keeps P (vRedMax a b c i)" "keeps P (vRedMin a b c i)" "keeps P (vRedAnd a b c i)"
  "keeps P (vRedOr a b c i)" "keeps P (vRedXor a b c i)"
  by (auto simp: vAdd_def vSub_def vRSub_def vAnd_def vOr_def vXor_def vShift_def vMin_def vMax_def vMul_def vMv_def
      vDiv_def vRem_def vAadd_def vAsub_def vAdc_def vSbc_def vMerge_def vMacc_def vNmsac_def vMadd_def vNmsub_def
      vMulh_def vRedSum_def vRedMax_def vRedMin_def vRedAnd_def vRedOr_def vRedXor_def Let_def
      intro!: with_eew_keeps keeps_intros keeps_cases hart_keeps)

lemma v_sat_ops_keep [hart_keeps]:
  "keeps (hart_inv z fl cfg w) (vSmul a b)" "keeps (hart_inv z fl cfg w) (vShiftRight q a b)"
  "keeps (hart_inv z fl cfg w) (vSadd a b)" "keeps (hart_inv z fl cfg w) (vSaddu a b)"
  "keeps (hart_inv z fl cfg w) (vSsub a b)" "keeps (hart_inv z fl cfg w) (vSsubu a b)"
  "keeps (hart_inv z fl cfg w) (vMadc i)" "keeps (hart_inv z fl cfg w) (vMsbc i)"
  "keeps (hart_inv z fl cfg w) (vCompInt t a b c i)" "keeps (hart_inv z fl cfg w) (vMask m i)"
  by (auto simp: vSmul_def vShiftRight_def vSadd_def vSaddu_def vSsub_def vSsubu_def vMadc_def vMsbc_def vCompInt_def
      vMask_def Let_def intro!: with_eew_keeps keeps_intros keeps_cases hart_keeps split: prod.splits)

lemma v_perm_ops_keep [hart_keeps]:
  "keeps (hart_inv z fl cfg w) vCpop" "keeps (hart_inv z fl cfg w) vFirst" "keeps (hart_inv z fl cfg w) (vMs t)"
  "keeps (hart_inv z fl cfg w) vIota" "keeps (hart_inv z fl cfg w) (vId i)" "keeps (hart_inv z fl cfg w) vMvXs"
  "keeps (hart_inv z fl cfg w) vMvSx" "keeps (hart_inv z fl cfg w) (vSlideUp n i)"
  "keeps (hart_inv z fl cfg w) (vSlideDown n i)" "keeps (hart_inv z fl cfg w) (vSlide1Up p i)"
  "keeps (hart_inv z fl cfg w) (vSlide1Down p i)" "keeps (hart_inv z fl cfg w) vCompress"
  "keeps (hart_inv z fl cfg w) vMvNr"
  by (auto simp: vCpop_def vFirst_def vMs_def vIota_def vId_def vMvXs_def vMvSx_def vSlideUp_def vSlideDown_def
      vSlide1Up_def vSlide1Down_def vCompress_def vMvNr_def Let_def hart_frame hart_inv_iss_reg_write
      intro!: keeps_intros keeps_cases hart_keeps genericVLoop_keeps loop_acc_keeps split: prod.splits)

section \<open>Floating-point instructions\<close>

text \<open>
  Between the first call of the floating-point library and the end of the instruction nothing may trap: the flags
  would stay behind.
\<close>

lemma loop_acc_returns: "(\<And>i a. returns P (f i a)) \<Longrightarrow> returns P (loop_acc is f a)"
  by (induction "is" f a rule: loop_acc.induct) (auto intro!: returns_intros returns_bindM)

lemma hoare_v_assert:
  "(b \<Longrightarrow> hoare P m Q R) \<Longrightarrow> (\<And>s. P s \<Longrightarrow> R s) \<Longrightarrow> hoare P (seqM (v_assert b) m) Q R"
  by (cases b) (auto simp: hoare_def v_assert_def RAISE_ILLEGAL_INSTRUCTION_def monad_simps)

text \<open>What the widths of the operands depend on.\<close>

type_synonym vconf = "u64 \<times> elem_sel_t \<times> param_sel_t \<times> u64 \<times> u64 \<times> u64"

definition vconf :: "'d iss \<Rightarrow> vconf" where
  "vconf s = (getIntVSew s, elem_sel (v_ext s), param_sel (v_ext s), vd_eew_overwrite (v_ext s),
     o2_eew_overwrite (v_ext s), o1_eew_overwrite (v_ext s))"

definition wide :: "elem_sel_t \<Rightarrow> bool" where
  "wide e \<longleftrightarrow> elem_sel_bits e AND 0x38 \<noteq> 0"

text \<open>A floating-point instruction with legal widths, in the loop.\<close>

definition fp_widths :: "elem_sel_t \<Rightarrow> u64 \<Rightarrow> bool" where
  "fp_widths e sew \<longleftrightarrow> sew = 32 \<or> sew = 64 \<and> \<not> wide e"

definition fp_live :: "u64 \<Rightarrow> u32 \<Rightarrow> elem_sel_t \<Rightarrow> param_sel_t \<Rightarrow> u64 \<Rightarrow> 'd iss \<Rightarrow> bool" where
  "fp_live cfg w e p sew s \<longleftrightarrow> (\<exists>fl. hart_inv 0 fl cfg w s) \<and> vconf s = (sew, e, p, 0, 0, 0)"

lemma getIntVSew_frame [simp]:
  "getIntVSew (vx_upd f s) = getIntVSew s" "getIntVSew (reg_write n v i x s) = getIntVSew s"
  "getIntVSew (csr_upd csr_vstart x' s) = getIntVSew s" "getIntVSew (s\<lparr>softfloat_exceptionFlags := q\<rparr>) = getIntVSew s"
  "getIntVSew (s\<lparr>softfloat_roundingMode := q\<rparr>) = getIntVSew s"
  by (simp_all add: getIntVSew_def vx_upd_def reg_write_def csr_fget_def csr_upd_def)

lemma vconf_frame [simp]:
  "vconf (reg_write n v i x s) = vconf s" "vconf (csr_upd csr_vstart x' s) = vconf s"
  "vconf (s\<lparr>softfloat_exceptionFlags := q\<rparr>) = vconf s" "vconf (s\<lparr>softfloat_roundingMode := q\<rparr>) = vconf s"
  by (simp_all add: vconf_def) (simp_all add: reg_write_def vx_upd_def csr_upd_def)

lemma fp_live_frame [simp]:
  "fp_live cfg w e p sew (reg_write n v i x s) = fp_live cfg w e p sew s"
  "fp_live cfg w e p sew (csr_upd csr_vstart x' s) = fp_live cfg w e p sew s"
  by (simp_all add: fp_live_def hart_frame)

lemma fp_live_flags: "fp_live cfg w e p sew s \<Longrightarrow> fp_live cfg w e p sew (s\<lparr>softfloat_exceptionFlags := q\<rparr>)"
  by (auto simp: fp_live_def intro: hart_inv_set_flags)

text \<open>The widths and signs by selector and \<^verbatim>\<open>SEW\<close>, with nothing overwritten.\<close>

definition eews_of :: "elem_sel_t \<Rightarrow> u64 \<Rightarrow> eews" where
  "eews_of e sew = (let b = elem_sel_bits e in
     (if bit b 5 then push_bit 1 sew else sew, bit b 2, if bit b 4 then push_bit 1 sew else sew, bit b 1,
      if bit b 3 then push_bit 1 sew else sew, bit b 0))"

lemma fp_live_conf:
  assumes "fp_live cfg w e p sew s"
  shows "getIntVSew s = sew" "elem_sel (v_ext s) = e" "param_sel (v_ext s) = p"
    "getSignedEew s = eews_of e sew"
  using assms by (simp_all add: fp_live_def vconf_def getSignedEew_def eews_of_def Let_def)

lemma sf_call_returns [returns_intros]: "returns (fp_live cfg w e p sew) (sf_call f)"
  by (auto simp: sf_call_def returns_def monad_simps fp_live_flags split: prod.splits)

lemma sf_calls_return [returns_intros]:
  "returns (fp_live cfg w e p sew) (sf_rm g)" "returns (fp_live cfg w e p sew) (sf_elem f)"
  "returns (fp_live cfg w e p sew) (bool_elem b)" "returns (fp_live cfg w e p sew) (to_int sg i ui)"
  "returns (fp_live cfg w e p sew) (widen16 SF h)" "returns (fp_live cfg w e p sew) (widen32 SF x)"
  by (auto simp: sf_rm_def sf_elem_def elem_of_def bool_elem_def to_int_def widen16_def widen32_def
      intro!: returns_intros returns_bindM)

lemma by_sew_returns:
  assumes "sew = 32 \<Longrightarrow> returns (fp_live cfg w e p sew) m32" "sew = 64 \<Longrightarrow> returns (fp_live cfg w e p sew) m64"
    and "sew = 32 \<or> sew = 64"
  shows "returns (fp_live cfg w e p sew) (by_sew m16 m32 m64)"
  unfolding by_sew_def by (rule returns_gets_bindM) (use assms in \<open>auto simp: fp_live_conf\<close>)

lemma by_sew_w_returns:
  assumes "returns (fp_live cfg w e p 32) m32"
  shows "returns (fp_live cfg w e p 32) (by_sew_w m16 m32)"
  unfolding by_sew_w_def by (rule by_sew_returns) (simp_all add: assms)

text \<open>The operands and the result of an element.\<close>

abbreviation (input) sew_ok :: "u64 \<Rightarrow> bool" where
  "sew_ok sew \<equiv> sew = 8 \<or> sew = 16 \<or> sew = 32 \<or> sew = 64"

lemma getSew_returns: "sew_ok sew \<Longrightarrow> returns P (getSewSingleOperand sew d i)"
  by (auto simp: getSewSingleOperand_def intro!: returns_intros)

lemma writeSew_returns:
  "sew_ok sew' \<Longrightarrow> returns (fp_live cfg w e p sew) (writeSewSingleOperand sew' d i x)"
  by (auto simp: writeSewSingleOperand_def intro!: returns_intros returns_modifyM)

lemma fp_eews:
  assumes "fp_live cfg w e p sew s" "fp_widths e sew"
    and "getSignedEew s = (vd_eew, vd_signed, o2_eew, o2_signed, o1_eew, o1_signed)"
  shows "vd_eew = 32 \<or> vd_eew = 64" "o2_eew = 32 \<or> o2_eew = 64" "o1_eew = 32 \<or> o1_eew = 64"
  using assms fp_live_conf(4) [OF assms(1)]
  by (cases e; auto simp: fp_widths_def wide_def eews_of_def split: if_splits)+

lemma fp_vd_eew: "fp_live cfg w e p sew s \<Longrightarrow> fp_widths e sew \<Longrightarrow> sew_ok (fst (getSignedEew s))"
  using fp_eews(1) [of cfg w e p sew s] by (cases "getSignedEew s") auto

lemma vectors_return [returns_intros]:
  assumes "fp_widths e sew" "p = sel_vv \<or> p = sel_vf"
  shows "returns (fp_live cfg w e p sew) (getOperandsRed i j)" "returns (fp_live cfg w e p sew) (getOperands i)"
    "returns (fp_live cfg w e p sew) (getOperandsAll i)" "returns (fp_live cfg w e p sew) (writeGeneric x i)"
    "returns (fp_live cfg w e p sew) (mask_elem d i)" "returns (fp_live cfg w e p sew) (write_mask_bit i x)"
    "returns (fp_live cfg w e p sew) (vInactiveHandling i n)"
proof -
  show red: "returns (fp_live cfg w e p sew) (getOperandsRed i j)" for i j :: u64
    unfolding getOperandsRed_def
    by (rule returns_gets_bindM)
      (use assms in \<open>auto simp: fp_live_conf(3) fp_reg_read_def dest: fp_eews
        intro!: returns_intros returns_bindM getSew_returns split: param_sel_t.splits prod.splits\<close>)
  then show ops: "returns (fp_live cfg w e p sew) (getOperands i)"
    by (simp add: getOperands_def)
  show "returns (fp_live cfg w e p sew) (getOperandsAll i)"
    unfolding getOperandsAll_def
    by (rule returns_bindM [OF ops], rule returns_case_prod, rule returns_gets_bindM)
      (auto dest!: fp_vd_eew [OF _ assms(1)] intro!: returns_basic returns_bindM getSew_returns)
  show "returns (fp_live cfg w e p sew) (writeGeneric x i)"
    unfolding writeGeneric_def
    by (rule returns_gets_bindM) (auto dest!: fp_vd_eew [OF _ assms(1)] intro!: writeSew_returns)
  show m: "returns (fp_live cfg w e p sew) (mask_elem d i)" for d i
    by (auto simp: mask_elem_def Let_def intro!: returns_intros returns_bindM getSew_returns)
  show "returns (fp_live cfg w e p sew) (write_mask_bit i x)"
    by (auto simp: write_mask_bit_def Let_def intro!: returns_intros returns_bindM getSew_returns writeSew_returns)
  show "returns (fp_live cfg w e p sew) (vInactiveHandling i n)"
    by (auto simp: vInactiveHandling_def intro!: returns_intros returns_bindM m)
qed

text \<open>Before the loop: the unit is prepared and no flag is set.\<close>

definition fp_ready :: "u64 \<Rightarrow> u32 \<Rightarrow> 'd iss \<Rightarrow> bool" where
  "fp_ready cfg w s \<longleftrightarrow> hart_inv 0 0 cfg w s \<and> getIntVSew s \<ge> 32 \<and> vd_eew_overwrite (v_ext s) = 0 \<and>
     o2_eew_overwrite (v_ext s) = 0 \<and> o1_eew_overwrite (v_ext s) = 0"

lemma getIntVSew_cases:
  "getIntVSew s = 8 \<or> getIntVSew s = 16 \<or> getIntVSew s = 32 \<or> getIntVSew s = 64 \<or> getIntVSew s = 128 \<or>
   getIntVSew s = 256 \<or> getIntVSew s = 512 \<or> getIntVSew s = 1024"
proof -
  let ?n = "unat (csr_fget csr_vtype vtype_vsew s)"
  have "?n < 8"
    using take_bit_nat_less_exp [of 3] by (simp add: csr_fget_def fget_def unsigned_take_bit_eq)
  then have "?n \<in> {0,1,2,3,4,5,6,7}" by auto
  then show ?thesis by (auto simp: getIntVSew_def)
qed

lemma applyChecks_state: "applyChecks s = (Inr x, s') \<Longrightarrow> s' = s"
  using keepsD [OF v_operands_keep(13) [of "\<lambda>t. t = s"], of s] by simp

lemma v_assert_holds: "seqM (v_assert b) n s = (Inr x, s') \<Longrightarrow> b \<and> n s = (Inr x, s')"
  by (cases b) (simp_all add: v_assert_def RAISE_ILLEGAL_INSTRUCTION_def monad_simps)

lemma applyChecks_eews:
  assumes "applyChecks s = (Inr x, s')"
    and "getSignedEew s = (vd_eew, vd_signed, o2_eew, o2_signed, o1_eew, o1_signed)"
  shows "8 \<le> vd_eew \<and> vd_eew \<le> 64 \<and> 8 \<le> o2_eew \<and> o2_eew \<le> 64 \<and> 8 \<le> o1_eew \<and> o1_eew \<le> 64"
  using assms(1) unfolding applyChecks_def bindM_simp getsM_simp prod.case sum.case assms(2)
  by (blast dest: v_assert_holds)

lemma fp_ready_widths:
  assumes "fp_ready cfg w s" "elem_sel (v_ext s) = e" "applyChecks s = (Inr x, s')"
  shows "fp_widths e (getIntVSew s)"
proof -
  let ?b = "elem_sel_bits e" and ?sew = "getIntVSew s"
  have "getSignedEew s = (if bit ?b 5 then push_bit 1 ?sew else ?sew, bit ?b 2,
       if bit ?b 4 then push_bit 1 ?sew else ?sew, bit ?b 1, if bit ?b 3 then push_bit 1 ?sew else ?sew, bit ?b 0)"
    using assms by (simp add: getSignedEew_def fp_ready_def Let_def)
  from applyChecks_eews [OF assms(3) this] show ?thesis
    using assms(1) getIntVSew_cases [of s]
    by (cases e) (auto simp: fp_widths_def wide_def fp_ready_def)
qed

text \<open>The loop: it traps before the first element or not at all.\<close>

lemma fp_loop:
  fixes f :: "u64 \<Rightarrow> 'a \<Rightarrow> ('d iss, 'a) M"
  assumes "\<And>sew i a. fp_widths e sew \<Longrightarrow> returns (fp_live cfg w e p sew) (f i a)" "p = sel_vv \<or> p = sel_vf"
  shows "hoare (fp_ready cfg w) (genericVLoop f e p ign acc)
           (\<lambda>_ s. \<exists>sew. fp_widths e sew \<and> fp_live cfg w e p sew s) (hart_inv 0 0 cfg w)"
proof -
  let ?set = "vx_upd (\<lambda>x. x\<lparr>elem_sel := e, param_sel := p\<rparr>)"
  let ?loop = "\<lambda>vl. bindM (loop_acc [0..<unat vl] (\<lambda>i a.
     bindM (if ign then ret False else vInactiveHandling i vl) (\<lambda>is_inactive.
     if is_inactive then ret a else f i a)) acc) (\<lambda>a. seqM (modifyM (csr_upd csr_vstart 0)) (ret a))"
  have loop: "returns (fp_live cfg w e p sew) (?loop vl)" if "fp_widths e sew" for sew vl
    by (intro returns_bindM loop_acc_returns returns_seqM returns_modifyM returns_basic returns_if
        vectors_return assms that) simp_all
  show ?thesis
    unfolding hoare_def
  proof (intro allI impI)
    fix s :: "'d iss"
    assume s: "fp_ready cfg w s"
    let ?s = "?set s"
    have r: "fp_ready cfg w ?s" "elem_sel (v_ext ?s) = e" "param_sel (v_ext ?s) = p"
      using s by (simp_all add: fp_ready_def hart_frame) (simp_all add: vx_upd_def)
    show "case genericVLoop f e p ign acc s of (Inl ex, s') \<Rightarrow> hart_inv 0 0 cfg w s'
        | (Inr x, s') \<Rightarrow> \<exists>sew. fp_widths e sew \<and> fp_live cfg w e p sew s'"
    proof (cases "applyChecks ?s")
      case (Pair res s')
      show ?thesis
      proof (cases res)
        case (Inl ex)
        then have "s' = ?s"
          using Pair keepsD [OF v_operands_keep(13) [of "\<lambda>t. t = ?s"], of ?s] by simp
        then show ?thesis
          using Pair Inl r(1) by (simp add: genericVLoop_def seqM_simp modifyM_simp fp_ready_def)
      next
        case (Inr u)
        then have s': "s' = ?s" "fp_widths e (getIntVSew ?s)"
          using applyChecks_state fp_ready_widths [OF r(1,2)] Pair by blast+
        then have "fp_live cfg w e p (getIntVSew ?s) ?s"
          using r by (auto simp: fp_live_def fp_ready_def vconf_def)
        then obtain y t where "?loop (ucast (csrs ?s csr_vl)) ?s = (Inr y, t)" "fp_live cfg w e p (getIntVSew ?s) t"
          using loop [OF s'(2)] unfolding returns_def by blast
        moreover have "genericVLoop f e p ign acc s = ?loop (ucast (csrs ?s csr_vl)) ?s"
          using Pair Inr s'(1) by (simp add: genericVLoop_def seqM_simp modifyM_simp bindM_simp [of "getsM g" for g] getsM_simp)
        ultimately show ?thesis
          using s'(2) by auto
      qed
    qed
  qed
qed

definition fp_done :: "u64 \<Rightarrow> u32 \<Rightarrow> 'd iss \<Rightarrow> bool" where
  "fp_done cfg w s \<longleftrightarrow> (\<exists>fl. hart_inv 0 fl cfg w s)"

text \<open>What a floating-point instruction does between \<^verbatim>\<open>prepInstr\<close> and \<^verbatim>\<open>finishInstr\<close>.\<close>

definition fp_safe :: "u64 \<Rightarrow> u32 \<Rightarrow> ('d iss, 'a) M \<Rightarrow> bool" where
  "fp_safe cfg w m \<longleftrightarrow> hoare (fp_ready cfg w) m (\<lambda>_. fp_done cfg w) (hart_inv 0 0 cfg w)"

lemma fp_loop_safe:
  assumes "\<And>sew i a. fp_widths e sew \<Longrightarrow> returns (fp_live cfg w e p sew) (f i a)" "p = sel_vv \<or> p = sel_vf"
  shows "fp_safe cfg w (genericVLoop f e p ign acc)"
  unfolding fp_safe_def
  by (rule hoare_weaken [OF fp_loop [OF assms]]) (auto simp: fp_live_def fp_done_def)

lemma fp_ready_settings:
  "fp_ready cfg w (vx_upd (\<lambda>x. x\<lparr>require_vd_not_v0 := a, vd_is_mask := b\<rparr>) s) = fp_ready cfg w s"
  "fp_ready cfg w (vx_upd (\<lambda>x. x\<lparr>require_vd_not_v0 := a, ignoreOverlap := b, vd_is_scalar := c, vs1_is_scalar := d\<rparr>) s) =
   fp_ready cfg w s"
  by (auto simp: fp_ready_def hart_frame) (auto simp: vx_upd_def)

text \<open>The three loops of the floating-point instructions, and the reductions.\<close>

lemma fp_loops_safe:
  assumes "p = sel_vv \<or> p = sel_vf"
  shows "(\<And>sew a b. fp_widths e sew \<Longrightarrow> returns (fp_live cfg w e p sew) (f2 a b)) \<Longrightarrow> fp_safe cfg w (vLoop f2 e p)"
    "(\<And>sew a b c i. fp_widths e sew \<Longrightarrow> returns (fp_live cfg w e p sew) (f4 a b c i)) \<Longrightarrow> fp_safe cfg w (vLoopVdExt f4 e p)"
    "(\<And>sew a b c i. fp_widths e sew \<Longrightarrow> returns (fp_live cfg w e p sew) (g4 a b c i)) \<Longrightarrow> fp_safe cfg w (vLoopVdExtVoid g4 e p)"
proof -
  show "fp_safe cfg w (vLoop f2 e p)"
    if "\<And>sew a b. fp_widths e sew \<Longrightarrow> returns (fp_live cfg w e p sew) (f2 a b)"
    unfolding vLoop_def by (intro fp_loop_safe assms returns_bindM returns_case_prod vectors_return that)
  show "fp_safe cfg w (vLoopVdExt f4 e p)"
    if "\<And>sew a b c i. fp_widths e sew \<Longrightarrow> returns (fp_live cfg w e p sew) (f4 a b c i)"
    unfolding vLoopVdExt_def by (intro fp_loop_safe assms returns_bindM returns_case_prod vectors_return that)
  show "fp_safe cfg w (vLoopVdExtVoid g4 e p)"
    if "\<And>sew a b c i. fp_widths e sew \<Longrightarrow> returns (fp_live cfg w e p sew) (g4 a b c i)"
    unfolding vLoopVdExtVoid_def fp_safe_def
    by (rule hoare_modify_seq [where P' = "fp_ready cfg w"], simp add: fp_ready_settings, fold fp_safe_def)
      (intro fp_loop_safe assms returns_bindM returns_case_prod vectors_return that)
qed

lemma returns_done:
  assumes "\<And>sew. fp_widths e sew \<Longrightarrow> returns (fp_live cfg w e p sew) m"
  shows "hoare (\<lambda>s. \<exists>sew. fp_widths e sew \<and> fp_live cfg w e p sew s) m (\<lambda>_. fp_done cfg w) R"
  by (rule hoare_ex, rule hoare_weaken [OF hoare_returns [OF assms]]) (auto simp: fp_done_def fp_live_def)

lemma fp_red_safe:
  assumes "\<And>sew a b c i. fp_widths e sew \<Longrightarrow> returns (fp_live cfg w e p sew) (f4 a b c i)" "p = sel_vv \<or> p = sel_vf"
  shows "fp_safe cfg w (vLoopRed f4 e p)"
proof -
  have after: "returns (fp_live cfg w e p sew) (bindM (getsM (\<lambda>s. csrs s csr_vl)) (\<lambda>vl.
        whenM (vl > 0)
          (bindM (if \<not> added_first then bindM (getOperandsRed 0 0) (\<lambda>(op1, op2). ret op1) else ret res)
             (\<lambda>res. writeGeneric res 0))))" if "fp_widths e sew" for sew added_first res
    unfolding whenM_def
    by (intro returns_bindM returns_basic returns_if returns_case_prod vectors_return that assms)
  show ?thesis
    unfolding vLoopRed_def fp_safe_def
  proof (rule hoare_modify_seq [where P' = "fp_ready cfg w"], simp add: fp_ready_settings, rule hoare_bindM, rule fp_loop)
    show "hoare (\<lambda>s. \<exists>sew. fp_widths e sew \<and> fp_live cfg w e p sew s)
        (case x of (res, added_first) \<Rightarrow> bindM (getsM (\<lambda>s. csrs s csr_vl)) (\<lambda>vl.
        whenM (vl > 0)
          (bindM (if \<not> added_first then bindM (getOperandsRed 0 0) (\<lambda>(op1, op2). ret op1) else ret res)
             (\<lambda>res. writeGeneric res 0)))) (\<lambda>_. fp_done cfg w) (hart_inv 0 0 cfg w)" for x
      by (intro returns_done returns_case_prod after)
  qed (auto simp: Let_def intro!: returns_bindM returns_basic returns_case_prod vectors_return assms)
qed

lemma by_sew_widths:
  assumes "fp_widths e sew" "returns (fp_live cfg w e p sew) m32" "returns (fp_live cfg w e p sew) m64"
  shows "returns (fp_live cfg w e p sew) (by_sew m16 m32 m64)"
  using assms by (intro by_sew_returns) (auto simp: fp_widths_def)

lemma by_sew_w_widths:
  assumes "fp_widths e sew" "wide e" "returns (fp_live cfg w e p sew) m32"
  shows "returns (fp_live cfg w e p sew) (by_sew_w m16 m32)"
  using assms by (auto simp: fp_widths_def intro: by_sew_w_returns)

lemma with_eew_returns:
  "returns (fp_live cfg w e p sew) (f (eews_of e sew)) \<Longrightarrow> returns (fp_live cfg w e p sew) (with_eew f)"
  unfolding with_eew_def by (rule returns_gets_bindM) (simp add: fp_live_conf)

lemma vf_ops_return [returns_intros]:
  assumes "fp_widths e sew"
  shows "returns (fp_live cfg w e p sew) (vfAdd SF a b c i)" "returns (fp_live cfg w e p sew) (vfSub SF a b c i)"
    "returns (fp_live cfg w e p sew) (vfrSub SF a b c i)" "returns (fp_live cfg w e p sew) (vfMul SF a b c i)"
    "returns (fp_live cfg w e p sew) (vfDiv SF a b c i)" "returns (fp_live cfg w e p sew) (vfrDiv SF a b c i)"
    "returns (fp_live cfg w e p sew) (vfMacc SF a b c i)" "returns (fp_live cfg w e p sew) (vfNmacc SF a b c i)"
    "returns (fp_live cfg w e p sew) (vfMsac SF a b c i)" "returns (fp_live cfg w e p sew) (vfNmsac SF a b c i)"
    "returns (fp_live cfg w e p sew) (vfMadd SF a b c i)" "returns (fp_live cfg w e p sew) (vfNmadd SF a b c i)"
    "returns (fp_live cfg w e p sew) (vfMsub SF a b c i)" "returns (fp_live cfg w e p sew) (vfNmsub SF a b c i)"
    "returns (fp_live cfg w e p sew) (vfSqrt SF a b c i)" "returns (fp_live cfg w e p sew) (vfClass SF a b c i)"
    "returns (fp_live cfg w e p sew) (vfMin SV a b c i)" "returns (fp_live cfg w e p sew) (vfMax SV a b c i)"
    "returns (fp_live cfg w e p sew) (vfRsqrt7 SV a b c i)" "returns (fp_live cfg w e p sew) (vfFrec7 SV a b c i)"
    "returns (fp_live cfg w e p sew) (vfSgnj a b c i)" "returns (fp_live cfg w e p sew) (vfSgnjn a b c i)"
    "returns (fp_live cfg w e p sew) (vfSgnjx a b c i)" "returns (fp_live cfg w e p sew) (vfMv a b)"
    "returns (fp_live cfg w e p sew) (vfRedSum SF a b c i)" "returns (fp_live cfg w e p sew) (vfRedMax SV a b c i)"
    "returns (fp_live cfg w e p sew) (vfRedMin SV a b c i)"
  unfolding vfAdd_def vfSub_def vfrSub_def vfMul_def vfDiv_def vfrDiv_def vfMacc_def vfNmacc_def vfMsac_def vfNmsac_def
    vfMadd_def vfNmadd_def vfMsub_def vfNmsub_def vfSqrt_def vfClass_def vfMin_def vfMax_def vfRsqrt7_def vfFrec7_def
    vfSgnj_def vfSgnjn_def vfSgnjx_def vfMv_def vfRedSum_def vfRedMax_def vfRedMin_def
  by (intro by_sew_widths assms returns_intros)+

lemma vfw_ops_return [returns_intros]:
  assumes "fp_widths e sew" "wide e"
  shows "returns (fp_live cfg w e p sew) (vfwAdd SF a b c i)" "returns (fp_live cfg w e p sew) (vfwAddw SF a b c i)"
    "returns (fp_live cfg w e p sew) (vfwSub SF a b c i)" "returns (fp_live cfg w e p sew) (vfwSubw SF a b c i)"
    "returns (fp_live cfg w e p sew) (vfwMacc SF a b c i)" "returns (fp_live cfg w e p sew) (vfwNmacc SF a b c i)"
    "returns (fp_live cfg w e p sew) (vfwMsac SF a b c i)" "returns (fp_live cfg w e p sew) (vfwNmsac SF a b c i)"
    "returns (fp_live cfg w e p sew) (vfCvtwFF SF a b c i)"
  unfolding vfwAdd_def vfwAddw_def vfwSub_def vfwSubw_def vfwMacc_def vfwNmacc_def vfwMsac_def vfwNmsac_def vfCvtwFF_def
    elem_of_def
  by (intro by_sew_w_widths assms returns_bindM returns_intros)+

lemma vfcmp_ops_return [returns_intros]:
  assumes "fp_widths e sew" "p = sel_vv \<or> p = sel_vf"
  shows "returns (fp_live cfg w e p sew) (vMfeq SF a b c i)" "returns (fp_live cfg w e p sew) (vMfneq SF a b c i)"
    "returns (fp_live cfg w e p sew) (vMflt SF a b c i)" "returns (fp_live cfg w e p sew) (vMfle SF a b c i)"
    "returns (fp_live cfg w e p sew) (vMfgt SF a b c i)" "returns (fp_live cfg w e p sew) (vMfge SF a b c i)"
  unfolding vMfeq_def vMfneq_def vMflt_def vMfle_def vMfgt_def vMfge_def vMfcmp_def
  by (intro by_sew_widths assms returns_bindM returns_intros)+

text \<open>The operations that choose by the width of an operand.\<close>

lemma eew_ops_return [returns_intros]:
  assumes "fp_widths e sew"
  shows "e = wxxuuu \<Longrightarrow> returns (fp_live cfg w e p sew) (vfwMul SF a b c i)"
    "e = wxwuuu \<Longrightarrow> returns (fp_live cfg w e p sew) (vfwRedSum SF a b c i)"
    "returns (fp_live cfg w e p sew) (vfCvtFX SF SV a b)"
  using assms unfolding vfwMul_def vfwRedSum_def vfCvtFX_def
  by (cases e; auto simp: eews_of_def fp_widths_def wide_def Let_def
      intro!: with_eew_returns returns_bindM sf_calls_return)+

text \<open>Conversions to integers: the lambda is chosen when it is built.\<close>

lemma cvt_ops_return:
  assumes "fp_widths e sew"
  shows "returns (fp_live cfg w e p sew) (with_eew (\<lambda>(vd_eew, vd_signed, op2_eew, op2_signed, op1_eew, op1_signed).
      by_sew (m16 vd_signed) (to_int vd_signed i32 ui32) (to_int vd_signed i64 ui64)))"
    "wide e \<Longrightarrow> returns (fp_live cfg w e p sew) (with_eew (\<lambda>(vd_eew, vd_signed, op2_eew, op2_signed, op1_eew, op1_signed).
      by_sew_w (m16 vd_signed) (to_int vd_signed i32 ui32)))"
  by (intro with_eew_returns returns_case_prod by_sew_widths by_sew_w_widths assms sf_calls_return; assumption)+

lemma narrow_ops_return:
  assumes "fp_widths e sew" "e = xwxuuu \<or> e = xwxsss"
  shows "(\<And>sg. returns (fp_live cfg w e p sew) (m64 sg)) \<Longrightarrow>
    returns (fp_live cfg w e p sew) (with_eew (\<lambda>(vd_eew, vd_signed, op2_eew, op2_signed, op1_eew, op1_signed).
      if op2_eew = 16 then m16 vd_signed else if op2_eew = 32 then m32 vd_signed
      else if op2_eew = 64 then m64 vd_signed else v_invalid))"
    "returns (fp_live cfg w e p sew) n64 \<Longrightarrow>
    returns (fp_live cfg w e p sew) (with_eew (\<lambda>(vd_eew, vd_signed, op2_eew, op2_signed, op1_eew, op1_signed).
      if op2_eew = 32 then n32 else if op2_eew = 64 then n64 else v_invalid))"
  using assms
  by (auto intro!: with_eew_returns simp: eews_of_def fp_widths_def wide_def)

section \<open>Every vector instruction\<close>

lemma prep_ready:
  "hoare (hart_inv 0 0 cfg w) (prepInstr True True True) (\<lambda>_. fp_ready cfg w) (hart_inv 0 0 cfg w)"
proof -
  have sew: "keeps (\<lambda>s. hart_inv 0 0 cfg w s \<and> getIntVSew s = x) set_fp_rm" for x
    by (auto simp: set_fp_rm_def hart_frame intro!: keeps_intros keeps_cases hart_keeps)
  have guard: "hoare (hart_inv 0 0 cfg w) (bindM (getsM getIntVSew) (\<lambda>sew.
      seqM (v_assert (sew \<ge> 32)) (seqM fp_prepare_instr set_fp_rm)))
      (\<lambda>_ s. hart_inv 0 0 cfg w s \<and> 32 \<le> getIntVSew s) (hart_inv 0 0 cfg w)"
    by (rule hoare_gets_bindM, rule hoare_v_assert, rule hoare_weaken, rule hoare_keeps)
      (auto intro!: keeps_seqM fp_prologue_keeps sew)
  have reset: "hoare (\<lambda>s. hart_inv 0 0 cfg w s \<and> 32 \<le> getIntVSew s)
      (modifyM (vx_upd (\<lambda>x. x\<lparr>vd_eew_overwrite := 0, o1_eew_overwrite := 0, o2_eew_overwrite := 0,
        require_no_overlap := False, require_vd_not_v0 := True, ignoreAlignment := False,
        ignoreOverlap := False, vd_is_mask := False, vs1_is_mask := False, vs2_is_mask := False,
        vd_is_scalar := False, vs1_is_scalar := False\<rparr>))) (\<lambda>_. fp_ready cfg w) (hart_inv 0 0 cfg w)"
    by (auto simp: hoare_def modifyM_simp fp_ready_def hart_frame) (simp_all add: vx_upd_def)
  show ?thesis
    unfolding prepInstr_def whenM_def if_True
    by (rule hoare_seq_keeps [OF _ _ hoare_seq_keeps [OF _ _ hoare_seq_keeps [OF _ _ hoare_seq_keeps
          [OF _ _ hoare_seqM [OF guard reset]]]]])
      (auto simp: hart_frame intro!: keeps_intros keeps_cases hart_keeps)
qed

lemma v_fp_keeps: "fp_safe cfg w m \<Longrightarrow> keeps (hart_inv 0 0 cfg w) (v_op True True m)"
proof -
  assume m: "fp_safe cfg w m"
  have fin: "hoare (fp_done cfg w) (finishInstr True) (\<lambda>_. hart_inv 0 0 cfg w) (hart_inv 0 0 cfg w)"
    unfolding hoare_def fp_done_def
    by (auto simp: finishInstr_def monad_simps hart_frame intro: hart_inv_finish simp del: split_paired_All)
  have "hoare (hart_inv 0 0 cfg w) (v_op True True m) (\<lambda>_. hart_inv 0 0 cfg w) (hart_inv 0 0 cfg w)"
    unfolding v_op_def
    by (rule hoare_seqM [OF prep_ready hoare_seqM [OF m [unfolded fp_safe_def] fin]])
  then show ?thesis by (rule keeps_hoare)
qed

text \<open>Instructions that are prepared as floating-point instructions and call no function of the library.\<close>

lemma v_plain_keeps:
  assumes "keeps (hart_inv 0 0 cfg w) m"
  shows "keeps (hart_inv 0 0 cfg w) (v_op True True m)" "keeps (hart_inv 0 0 cfg w) (v_op b False m)"
proof -
  have "keeps (hart_inv 0 0 cfg w) (finishInstr True)"
    by (auto simp: finishInstr_def hart_frame intro!: keeps_intros keeps_cases hart_inv_finish)
  then show "keeps (hart_inv 0 0 cfg w) (v_op True True m)" "keeps (hart_inv 0 0 cfg w) (v_op b False m)"
    unfolding v_op_def by (intro keeps_seqM hart_keeps assms; assumption)+
qed

lemma cvt_rm_safe: "(\<And>rm. fp_safe cfg w (g (f rm))) \<Longrightarrow> fp_safe cfg w (bindM (cvt_rm rtz f) g)"
  unfolding fp_safe_def cvt_rm_def hoare_def by (simp add: bindM_simp getsM_simp ret_simp)

lemma cvt_safe:
  assumes "p = sel_vv \<or> p = sel_vf"
  shows "fp_safe cfg w (bindM (vfCvtXF SF SV rtz) (\<lambda>f. vLoopVdExt f e p))"
    "wide e \<Longrightarrow> fp_safe cfg w (bindM (vfCvtwXF SF SV rtz) (\<lambda>f. vLoopVdExt f e p))"
    "e = xwxuuu \<or> e = xwxsss \<Longrightarrow> fp_safe cfg w (bindM (vfCvtnXF SF SV rtz) (\<lambda>f. vLoopVdExt f e p))"
  unfolding vfCvtXF_def vfCvtwXF_def vfCvtnXF_def
  by (intro cvt_rm_safe fp_loops_safe assms cvt_ops_return narrow_ops_return sf_calls_return; assumption)+

lemma cvtn_safe:
  assumes "p = sel_vv \<or> p = sel_vf" "e = xwxuuu \<or> e = xwxsss"
  shows "fp_safe cfg w (bindM (vfCvtnFF SF b) (\<lambda>f. vLoopVdExt f e p) :: ('d iss, unit) M)"
proof -
  have "keeps (fp_ready cfg w) (whenM b (modifyM (\<lambda>s. s\<lparr>softfloat_roundingMode := r\<rparr>)))" for r
    by (intro keeps_whenM keeps_modifyM) (simp add: fp_ready_def hart_frame)
  moreover have "fp_safe cfg w (vLoopVdExt (\<lambda>op2 op1 vd i. with_eew
      (\<lambda>(vd_eew, vd_signed, op2_eew, op2_signed, op1_eew, op1_signed).
        if op2_eew = 32 then sf_elem (\<lambda>rm. sf_f32_to_f16 SF rm (ucast op2))
        else if op2_eew = 64 then sf_elem (\<lambda>rm. sf_f64_to_f32 SF rm op2)
        else v_invalid)) e p)"
    by (intro fp_loops_safe narrow_ops_return assms sf_calls_return; assumption)
  ultimately show ?thesis
    unfolding vfCvtnFF_def fp_safe_def bindM_seq_ret
    by (intro hoare_seq_keeps) (auto simp: fp_ready_def)
qed


text \<open>A table of cases keeps the invariant.\<close>

definition cases_keep :: "(OpId \<times> ('d iss, unit) M) list \<Rightarrow> bool" where
  "cases_keep cs \<longleftrightarrow> (\<forall>(op, m) \<in> set cs. \<forall>cfg w. keeps (hart_inv 0 0 cfg w) m)"

lemma cases_keep_simps:
  "cases_keep []" "(\<And>cfg w. keeps (hart_inv 0 0 cfg w) m) \<Longrightarrow> cases_keep cs \<Longrightarrow> cases_keep ((op, m) # cs)"
  "cases_keep cs \<Longrightarrow> cases_keep ds \<Longrightarrow> cases_keep (cs @ ds)"
  by (auto simp: cases_keep_def)

lemma vset_keeps [hart_keeps]:
  "keeps (hart_inv z fl cfg w) vsetvli" "keeps (hart_inv z fl cfg w) vsetivli" "keeps (hart_inv z fl cfg w) vsetvl"
  by (auto simp: vsetvli_def vsetivli_def vsetvl_def intro!: keeps_modifyM hart_inv_v_set)

lemma v_builders_keep [hart_keeps]:
  "keeps (hart_inv z fl cfg w) (bindM (vExt n) (\<lambda>f. vLoop f e p))"
  "keeps (hart_inv z fl cfg w) (bindM (vGather b) (\<lambda>f. vLoopExt f e p))"
  unfolding vExt_def vGather_def bindM_seq_ret
  by (auto simp: hart_frame intro!: keeps_intros keeps_cases hart_keeps)

lemma keeps_gets_any [hart_keeps]: "(\<And>x. keeps P (f x)) \<Longrightarrow> keeps P (bindM (getsM g) f)"
  by (rule keeps_bindM [OF keeps_getsM])

lemma vfmove_keeps [hart_keeps]:
  "keeps (hart_inv z fl cfg w) vMvFs" "keeps (hart_inv z fl cfg w) vMvSf" "keeps P (vfMv a b)"
  by (auto simp: vMvFs_def vMvSf_def vfMv_def by_sew_def v_invalid_def hart_frame intro!: keeps_intros keeps_cases hart_keeps)

lemma wide_sel: "wide wxxuuu" "wide wxxsss" "wide wwxuuu" "wide wxwuuu" "wide xwxuuu" "wide xwxsss"
  by (simp_all add: wide_def)

lemmas fp_safe_intros = fp_loops_safe fp_red_safe cvt_safe cvtn_safe

context hart_env
begin

lemma vLoadStore_keeps: "keeps (hart_inv z fl cfg w) (vLoadStore E l n t)"
proof -
  have "keeps (hart_inv z fl cfg w) (v_mem_load E k a)" "keeps (hart_inv z fl cfg w) (v_mem_store E k a x)" for k a x
    by (auto simp: v_mem_load_def v_mem_store_def intro!: keeps_intros keeps_cases env_keeps)
  then have "keeps (hart_inv z fl cfg w) (v_field E l n t k m i f)" for k m i f
    by (auto simp: v_field_def Let_def hart_frame intro!: keeps_intros keeps_cases hart_keeps split: prod.splits)
  then show ?thesis
    unfolding vLoadStore_def
    by (intro keeps_intros keeps_cases hart_keeps loop_break_keeps; simp add: hart_frame)
qed

lemma cases_VSETVLI_keep: "cases_keep (cases_VSETVLI E)"
  unfolding cases_VSETVLI_def
  by (intro cases_keep_simps;
      ((rule v_plain_keeps, intro hart_keeps vLoadStore_keeps; fail) |
       (rule v_fp_keeps, intro fp_safe_intros returns_intros wide_sel; simp)))

lemma cases_VSSE32_V_keep: "cases_keep (cases_VSSE32_V E)"
  unfolding cases_VSSE32_V_def
  by (intro cases_keep_simps;
      ((rule v_plain_keeps, intro hart_keeps vLoadStore_keeps; fail) |
       (rule v_fp_keeps, intro fp_safe_intros returns_intros wide_sel; simp)))

lemma cases_VLE8FF_V_keep: "cases_keep (cases_VLE8FF_V E)"
  unfolding cases_VLE8FF_V_def
  by (intro cases_keep_simps;
      ((rule v_plain_keeps, intro hart_keeps vLoadStore_keeps; fail) |
       (rule v_fp_keeps, intro fp_safe_intros returns_intros wide_sel; simp)))

lemma cases_VSSSEG2E32_V_keep: "cases_keep (cases_VSSSEG2E32_V E)"
  unfolding cases_VSSSEG2E32_V_def
  by (intro cases_keep_simps;
      ((rule v_plain_keeps, intro hart_keeps vLoadStore_keeps; fail) |
       (rule v_fp_keeps, intro fp_safe_intros returns_intros wide_sel; simp)))

lemma cases_VLSEG2E8FF_V_keep: "cases_keep (cases_VLSEG2E8FF_V E)"
  unfolding cases_VLSEG2E8FF_V_def
  by (intro cases_keep_simps;
      ((rule v_plain_keeps, intro hart_keeps vLoadStore_keeps; fail) |
       (rule v_fp_keeps, intro fp_safe_intros returns_intros wide_sel; simp)))

lemma cases_VSSSEG3E32_V_keep: "cases_keep (cases_VSSSEG3E32_V E)"
  unfolding cases_VSSSEG3E32_V_def
  by (intro cases_keep_simps;
      ((rule v_plain_keeps, intro hart_keeps vLoadStore_keeps; fail) |
       (rule v_fp_keeps, intro fp_safe_intros returns_intros wide_sel; simp)))

lemma cases_VLSEG3E8FF_V_keep: "cases_keep (cases_VLSEG3E8FF_V E)"
  unfolding cases_VLSEG3E8FF_V_def
  by (intro cases_keep_simps;
      ((rule v_plain_keeps, intro hart_keeps vLoadStore_keeps; fail) |
       (rule v_fp_keeps, intro fp_safe_intros returns_intros wide_sel; simp)))

lemma cases_VSSSEG4E32_V_keep: "cases_keep (cases_VSSSEG4E32_V E)"
  unfolding cases_VSSSEG4E32_V_def
  by (intro cases_keep_simps;
      ((rule v_plain_keeps, intro hart_keeps vLoadStore_keeps; fail) |
       (rule v_fp_keeps, intro fp_safe_intros returns_intros wide_sel; simp)))

lemma cases_VLSEG4E8FF_V_keep: "cases_keep (cases_VLSEG4E8FF_V E)"
  unfolding cases_VLSEG4E8FF_V_def
  by (intro cases_keep_simps;
      ((rule v_plain_keeps, intro hart_keeps vLoadStore_keeps; fail) |
       (rule v_fp_keeps, intro fp_safe_intros returns_intros wide_sel; simp)))

lemma cases_VSSSEG5E32_V_keep: "cases_keep (cases_VSSSEG5E32_V E)"
  unfolding cases_VSSSEG5E32_V_def
  by (intro cases_keep_simps;
      ((rule v_plain_keeps, intro hart_keeps vLoadStore_keeps; fail) |
       (rule v_fp_keeps, intro fp_safe_intros returns_intros wide_sel; simp)))

lemma cases_VLSEG5E8FF_V_keep: "cases_keep (cases_VLSEG5E8FF_V E)"
  unfolding cases_VLSEG5E8FF_V_def
  by (intro cases_keep_simps;
      ((rule v_plain_keeps, intro hart_keeps vLoadStore_keeps; fail) |
       (rule v_fp_keeps, intro fp_safe_intros returns_intros wide_sel; simp)))

lemma cases_VSSSEG6E32_V_keep: "cases_keep (cases_VSSSEG6E32_V E)"
  unfolding cases_VSSSEG6E32_V_def
  by (intro cases_keep_simps;
      ((rule v_plain_keeps, intro hart_keeps vLoadStore_keeps; fail) |
       (rule v_fp_keeps, intro fp_safe_intros returns_intros wide_sel; simp)))

lemma cases_VLSEG6E8FF_V_keep: "cases_keep (cases_VLSEG6E8FF_V E)"
  unfolding cases_VLSEG6E8FF_V_def
  by (intro cases_keep_simps;
      ((rule v_plain_keeps, intro hart_keeps vLoadStore_keeps; fail) |
       (rule v_fp_keeps, intro fp_safe_intros returns_intros wide_sel; simp)))

lemma cases_VSSSEG7E32_V_keep: "cases_keep (cases_VSSSEG7E32_V E)"
  unfolding cases_VSSSEG7E32_V_def
  by (intro cases_keep_simps;
      ((rule v_plain_keeps, intro hart_keeps vLoadStore_keeps; fail) |
       (rule v_fp_keeps, intro fp_safe_intros returns_intros wide_sel; simp)))

lemma cases_VLSEG7E8FF_V_keep: "cases_keep (cases_VLSEG7E8FF_V E)"
  unfolding cases_VLSEG7E8FF_V_def
  by (intro cases_keep_simps;
      ((rule v_plain_keeps, intro hart_keeps vLoadStore_keeps; fail) |
       (rule v_fp_keeps, intro fp_safe_intros returns_intros wide_sel; simp)))

lemma cases_VSSSEG8E32_V_keep: "cases_keep (cases_VSSSEG8E32_V E)"
  unfolding cases_VSSSEG8E32_V_def
  by (intro cases_keep_simps;
      ((rule v_plain_keeps, intro hart_keeps vLoadStore_keeps; fail) |
       (rule v_fp_keeps, intro fp_safe_intros returns_intros wide_sel; simp)))

lemma cases_VLSEG8E8FF_V_keep: "cases_keep (cases_VLSEG8E8FF_V E)"
  unfolding cases_VLSEG8E8FF_V_def
  by (intro cases_keep_simps;
      ((rule v_plain_keeps, intro hart_keeps vLoadStore_keeps; fail) |
       (rule v_fp_keeps, intro fp_safe_intros returns_intros wide_sel; simp)))

lemma cases_VS4R_V_keep: "cases_keep (cases_VS4R_V E)"
  unfolding cases_VS4R_V_def
  by (intro cases_keep_simps;
      ((rule v_plain_keeps, intro hart_keeps vLoadStore_keeps; fail) |
       (rule v_fp_keeps, intro fp_safe_intros returns_intros wide_sel; simp)))

lemma cases_VWSUBU_VX_keep: "cases_keep (cases_VWSUBU_VX)"
  unfolding cases_VWSUBU_VX_def
  by (intro cases_keep_simps;
      ((rule v_plain_keeps, intro hart_keeps vLoadStore_keeps; fail) |
       (rule v_fp_keeps, intro fp_safe_intros returns_intros wide_sel; simp)))

lemma cases_VMADC_VV_keep: "cases_keep (cases_VMADC_VV)"
  unfolding cases_VMADC_VV_def
  by (intro cases_keep_simps;
      ((rule v_plain_keeps, intro hart_keeps vLoadStore_keeps; fail) |
       (rule v_fp_keeps, intro fp_safe_intros returns_intros wide_sel; simp)))

lemma cases_VSRL_VV_keep: "cases_keep (cases_VSRL_VV)"
  unfolding cases_VSRL_VV_def
  by (intro cases_keep_simps;
      ((rule v_plain_keeps, intro hart_keeps vLoadStore_keeps; fail) |
       (rule v_fp_keeps, intro fp_safe_intros returns_intros wide_sel; simp)))

lemma cases_VMSLT_VV_keep: "cases_keep (cases_VMSLT_VV)"
  unfolding cases_VMSLT_VV_def
  by (intro cases_keep_simps;
      ((rule v_plain_keeps, intro hart_keeps vLoadStore_keeps; fail) |
       (rule v_fp_keeps, intro fp_safe_intros returns_intros wide_sel; simp)))

lemma cases_VMAX_VX_keep: "cases_keep (cases_VMAX_VX)"
  unfolding cases_VMAX_VX_def
  by (intro cases_keep_simps;
      ((rule v_plain_keeps, intro hart_keeps vLoadStore_keeps; fail) |
       (rule v_fp_keeps, intro fp_safe_intros returns_intros wide_sel; simp)))

lemma cases_VWMULSU_VV_keep: "cases_keep (cases_VWMULSU_VV)"
  unfolding cases_VWMULSU_VV_def
  by (intro cases_keep_simps;
      ((rule v_plain_keeps, intro hart_keeps vLoadStore_keeps; fail) |
       (rule v_fp_keeps, intro fp_safe_intros returns_intros wide_sel; simp)))

lemma cases_VMV_V_X_keep: "cases_keep (cases_VMV_V_X)"
  unfolding cases_VMV_V_X_def
  by (intro cases_keep_simps;
      ((rule v_plain_keeps, intro hart_keeps vLoadStore_keeps; fail) |
       (rule v_fp_keeps, intro fp_safe_intros returns_intros wide_sel; simp)))

lemma cases_VSMUL_VX_keep: "cases_keep (cases_VSMUL_VX SF)"
  unfolding cases_VSMUL_VX_def
  by (intro cases_keep_simps;
      ((rule v_plain_keeps, intro hart_keeps vLoadStore_keeps; fail) |
       (rule v_fp_keeps, intro fp_safe_intros returns_intros wide_sel; simp)))

lemma cases_VFWSUB_VF_keep: "cases_keep (cases_VFWSUB_VF SF)"
  unfolding cases_VFWSUB_VF_def
  by (intro cases_keep_simps;
      ((rule v_plain_keeps, intro hart_keeps vLoadStore_keeps; fail) |
       (rule v_fp_keeps, intro fp_safe_intros returns_intros wide_sel; simp)))

lemma cases_VFMADD_VF_keep: "cases_keep (cases_VFMADD_VF SF SV)"
  unfolding cases_VFMADD_VF_def
  by (intro cases_keep_simps;
      ((rule v_plain_keeps, intro hart_keeps vLoadStore_keeps; fail) |
       (rule v_fp_keeps, intro fp_safe_intros returns_intros wide_sel; simp)))

lemma cases_VFMAX_VF_keep: "cases_keep (cases_VFMAX_VF SF SV)"
  unfolding cases_VFMAX_VF_def
  by (intro cases_keep_simps;
      ((rule v_plain_keeps, intro hart_keeps vLoadStore_keeps; fail) |
       (rule v_fp_keeps, intro fp_safe_intros returns_intros wide_sel; simp)))

lemma cases_VFCVT_X_F_V_keep: "cases_keep (cases_VFCVT_X_F_V SF SV)"
  unfolding cases_VFCVT_X_F_V_def
  by (intro cases_keep_simps;
      ((rule v_plain_keeps, intro hart_keeps vLoadStore_keeps; fail) |
       (rule v_fp_keeps, intro fp_safe_intros returns_intros wide_sel; simp)))

lemma cases_VREDMAXU_VS_keep: "cases_keep (cases_VREDMAXU_VS SF SV)"
  unfolding cases_VREDMAXU_VS_def
  by (intro cases_keep_simps;
      ((rule v_plain_keeps, intro hart_keeps vLoadStore_keeps; fail) |
       (rule v_fp_keeps, intro fp_safe_intros returns_intros wide_sel; simp)))

lemma cases_VMORN_MM_keep: "cases_keep (cases_VMORN_MM)"
  unfolding cases_VMORN_MM_def
  by (intro cases_keep_simps;
      ((rule v_plain_keeps, intro hart_keeps vLoadStore_keeps; fail) |
       (rule v_fp_keeps, intro fp_safe_intros returns_intros wide_sel; simp)))

lemma cases_VRGATHER_VV_keep: "cases_keep (cases_VRGATHER_VV)"
  unfolding cases_VRGATHER_VV_def
  by (intro cases_keep_simps;
      ((rule v_plain_keeps, intro hart_keeps vLoadStore_keeps; fail) |
       (rule v_fp_keeps, intro fp_safe_intros returns_intros wide_sel; simp)))

lemmas vec_tables_keep =
  cases_VSETVLI_keep cases_VSSE32_V_keep cases_VLE8FF_V_keep cases_VSSSEG2E32_V_keep
  cases_VLSEG2E8FF_V_keep cases_VSSSEG3E32_V_keep cases_VLSEG3E8FF_V_keep cases_VSSSEG4E32_V_keep
  cases_VLSEG4E8FF_V_keep cases_VSSSEG5E32_V_keep cases_VLSEG5E8FF_V_keep cases_VSSSEG6E32_V_keep
  cases_VLSEG6E8FF_V_keep cases_VSSSEG7E32_V_keep cases_VLSEG7E8FF_V_keep cases_VSSSEG8E32_V_keep
  cases_VLSEG8E8FF_V_keep cases_VS4R_V_keep cases_VWSUBU_VX_keep cases_VMADC_VV_keep
  cases_VSRL_VV_keep cases_VMSLT_VV_keep cases_VMAX_VX_keep cases_VWMULSU_VV_keep
  cases_VMV_V_X_keep cases_VSMUL_VX_keep cases_VFWSUB_VF_keep cases_VFMADD_VF_keep
  cases_VFMAX_VF_keep cases_VFCVT_X_F_V_keep cases_VREDMAXU_VS_keep cases_VMORN_MM_keep
  cases_VRGATHER_VV_keep

lemma vec_op_keeps: "keeps (hart_inv 0 0 cfg w) (vec_op SF SV E op)"
proof -
  have "cases_keep (vec_cases SF SV E)"
    unfolding vec_cases_def by (intro cases_keep_simps vec_tables_keep)
  then show ?thesis
    unfolding vec_op_def by (intro keeps_switch_on keeps_RAISE_ILLEGAL) (auto simp: cases_keep_def)
qed

end

section \<open>The platform\<close>

text \<open>The hart of the platform with the floating-point and the vector unit satisfies the contract of a core.\<close>

interpretation tiny_core:
  hart_core "cmi_env (tiny_conn hs) cached (tiny_rest hs intercept ns adv gran)"
    "fp_op SF (vec_op SF SV (cmi_env (tiny_conn hs) cached (tiny_rest hs intercept ns adv gran)))
       (cmi_env (tiny_conn hs) cached (tiny_rest hs intercept ns adv gran))"
  by unfold_locales (intro tiny_hart.fp_op_keeps tiny_hart.vec_op_keeps)

text \<open>
  C15. In every reachable state of the hart with all its extensions \<^verbatim>\<open>x0\<close> reads as zero, there are 32 registers, and
  the exception flags of the softfloat library are clear, so that the assertions of \<^verbatim>\<open>exec_steps\<close> and of
  \<^verbatim>\<open>fp_prepare_instr\<close> hold. The only instruction that can break it is \<^verbatim>\<open>SC.W\<close> with \<^verbatim>\<open>rd = x0\<close>.\<close>

theorem x0_and_flags_invariant:
  assumes "E = tiny_env hs intercept cached ns (tiny_sync adv) gran" "tiny_reach SF (vec_op SF SV E) E s"
  shows "length (regs s) = 32 \<and> regs s ! 0 = 0 \<and> softfloat_exceptionFlags s = 0"
proof -
  have k: "keeps (hart_inv 0 0 cfg w) (vec_op SF SV (tiny_env hs intercept cached ns (tiny_sync adv) gran) op)"
    for cfg w op
    unfolding tiny_env_cmi by (rule tiny_hart.vec_op_keeps)
  have "zero_ok s"
    using assms(2) unfolding assms(1) by (rule reach_zero_ok [OF k])
  then show ?thesis
    by (simp add: zero_ok_def)
qed

theorem x0_and_flags_invariant_witness:
  "regs (force_slow_path (tiny_init True True (\<lambda>_. 10000) 0x1000)) ! 0 = 0"
  using x0_and_flags_invariant [OF refl tiny_reach.boot] by blast

end
