(* ===== verification/VP_VArith.thy ===== *)
theory VP_VArith
  imports VP_VInv
begin

text \<open>
  The multiplication and division of the vector unit (\<^verbatim>\<open>v.h\<close>) against the integers: the product is computed in
  32-bit parts of either sign and shifted, a signed quotient overflows at every element width.
\<close>

section \<open>Words and integers\<close>

lemma bit_ubounded: "take_bit n q = q \<Longrightarrow> n \<le> m \<Longrightarrow> \<not> bit (q :: int) m"
  using bit_take_bit_iff [of n q m] by simp

lemma bit_sbounded: "signed_take_bit n q = q \<Longrightarrow> n \<le> m \<Longrightarrow> bit (q :: int) m = bit q n"
  using bit_signed_take_bit_iff [of n q m] by (simp add: min_def)

lemma drop_of_int:
  "take_bit 64 q = q \<Longrightarrow> drop_bit n (word_of_int q :: u64) = word_of_int (drop_bit n q)"
  by (rule bit_word_eqI) (use bit_ubounded [of 64 q] in \<open>auto simp: bit_simps not_less [symmetric]\<close>)

lemma signed_drop_of_int:
  assumes "signed_take_bit 63 q = q"
  shows "signed_drop_bit n (word_of_int q :: u64) = word_of_int (drop_bit n q)"
proof (rule bit_word_eqI)
  fix m
  assume "m < LENGTH(64)"
  moreover have "bit q 63 = bit q (n + m)" if "64 - n \<le> m"
    using that by (intro bit_sbounded [OF assms, symmetric]) simp
  ultimately show "bit (signed_drop_bit n (word_of_int q :: u64)) m = bit (word_of_int (drop_bit n q) :: u64) m"
    by (auto simp: bit_simps)
qed

lemma and_low: "(word_of_int q :: u64) AND 0xFFFFFFFF = word_of_int (take_bit 32 q)"
proof -
  have "(word_of_int q :: u64) AND 0xFFFFFFFF = take_bit 32 (word_of_int q)"
    by (simp add: take_bit_eq_mask mask_eq_exp_minus_1)
  also have "\<dots> = word_of_int (take_bit 32 q)"
    by (rule bit_word_eqI) (auto simp: bit_simps)
  finally show ?thesis .
qed

lemma signExtend_64 [simp]: "signExtend x 64 = x"
  by (simp add: signExtend_def shr_def)


section \<open>The 128-bit product\<close>

text \<open>The integer an operand of \<open>multiply\<close> stands for.\<close>

definition int_of :: "bool \<Rightarrow> u64 \<Rightarrow> int" where
  "int_of sg x = (if sg then sint x else uint x)"

text \<open>The two halves of an operand.\<close>

lemma of_int_of: "x = word_of_int (int_of sg x)"
  by (simp add: int_of_def)

lemma high_half: "shr sg x 32 = word_of_int (drop_bit 32 (int_of sg x))"
proof -
  have "take_bit 64 (uint x) = uint x" "signed_take_bit 63 (sint x) = sint x"
    using uint_lt2p [of x] sint_ge [of x] sint_lt [of x]
    by (simp_all add: take_bit_int_eq_self signed_take_bit_int_eq_self)
  then show ?thesis
    using drop_of_int [of "uint x" 32] signed_drop_of_int [of "sint x" 32] by (simp add: shr_def int_of_def)
qed

lemma low_half: "x AND 0xFFFFFFFF = word_of_int (take_bit 32 (int_of sg x))"
  using and_low [of "int_of sg x"] of_int_of [of x sg] by simp

text \<open>The schoolbook product: the middle terms carry into the upper half.\<close>

lemma product_split:
  fixes B :: int
  assumes "p = p1 * B + p0" "q = q1 * B + q0" "r = r1 * B + r0" "p1 + q0 + r0 = c1 * B + c0"
    and "al * bl = p" "al * bh = q" "ah * bl = r"
  shows "(ah * B + al) * (bh * B + bl) = (ah * bh + (q1 + r1 + c1)) * (B * B) + (c0 * B + p0)"
proof -
  have "(ah * B + al) * (bh * B + bl) = ah * bh * (B * B) + (q + r) * B + p"
    by (simp add: assms(5-7) [symmetric] algebra_simps)
  also have "\<dots> = ah * bh * (B * B) + (q1 + r1) * (B * B) + (p1 + q0 + r0) * B + p0"
    by (simp add: assms(1-3) algebra_simps)
  also have "\<dots> = ah * bh * (B * B) + (q1 + r1) * (B * B) + (c1 * B + c0) * B + p0"
    by (simp only: assms(4))
  finally show ?thesis
    by (simp add: algebra_simps)
qed

lemma getMask_mask: "getMask n = mask (unat n)"
proof (cases "n < 64")
  case False
  then have "64 \<le> unat n" by (simp add: word_le_nat_alt not_less)
  then have "mask (unat n) = (- 1 :: u64)"
    by (intro bit_word_eqI) (simp add: bit_simps)
  then show ?thesis using False by (simp add: getMask_def)
qed (simp add: getMask_def mask_eq_exp_minus_1 push_bit_eq_mult)

text \<open>Shifting the pair of words shifts the number it stands for.\<close>

lemma shift_pair:
  fixes U Lo :: int
  assumes "take_bit 64 Lo = Lo" "k \<le> 64"
  shows "(if k = 64 then 0 else drop_bit k (word_of_int Lo :: u64)) OR
         push_bit (64 - k) (word_of_int U AND mask k) = word_of_int (drop_bit k (U * 2 ^ 64 + Lo))"
proof -
  have "\<not> bit (push_bit 64 U) n \<or> \<not> bit Lo n" for n
    using bit_ubounded [OF assms(1), of n] by (auto simp: bit_simps)
  then have "U * 2 ^ 64 + Lo = push_bit 64 U OR Lo"
    by (simp add: push_bit_eq_mult disjunctive_add)
  then have "bit (U * 2 ^ 64 + Lo) n = (if n < 64 then bit Lo n else bit U (n - 64))" for n
    using bit_ubounded [OF assms(1), of n] by (auto simp: bit_simps)
  then show ?thesis
    using assms(2)
    by (intro bit_word_eqI) (auto simp: bit_simps add.commute)
qed


text \<open>Values a word represents without wrap-around, as signed or as unsigned ones.\<close>

definition fits :: "bool \<Rightarrow> int \<Rightarrow> bool" where
  "fits sg q = (if sg then - (2 ^ 63) \<le> q \<and> q < 2 ^ 63 else 0 \<le> q \<and> q < 2 ^ 64)"

lemma shr_of_int: "fits sg q \<Longrightarrow> shr sg (word_of_int q) n = word_of_int (drop_bit (unat n) q)"
  by (cases sg) (simp_all add: fits_def shr_def drop_of_int signed_drop_of_int take_bit_int_eq_self
    signed_take_bit_int_eq_self)

lemma fits_int_of: "fits sg (int_of sg x)"
  using uint_lt2p [of x] sint_ge [of x] sint_lt [of x] by (simp add: fits_def int_of_def)

lemma high_part: "fits sg q \<Longrightarrow> (if sg then - (2 ^ 31) \<le> drop_bit 32 q \<and> drop_bit 32 q < 2 ^ 31
  else 0 \<le> drop_bit 32 q \<and> drop_bit 32 q < 2 ^ 32)"
  by (cases sg) (simp_all add: fits_def drop_bit_eq_div, (linarith | presburger)+)

lemma low_part: "0 \<le> take_bit 32 q \<and> take_bit 32 q < (2 ^ 32 :: int)"
  using take_bit_int_less_exp [of 32 q] by simp

lemma part_product:
  assumes "if sg then - (2 ^ 31) \<le> h \<and> h < 2 ^ 31 else 0 \<le> h \<and> h < 2 ^ 32"
  shows "fits sg (take_bit 32 x * h)"
proof -
  define l where "l = take_bit 32 x"
  note l = low_part [of x, folded l_def]
  show ?thesis
    unfolding l_def [symmetric]
  proof (cases sg)
    case True
    have "l * h \<le> l * 2 ^ 31" by (rule mult_left_mono) (use assms l True in simp_all)
    moreover have "l * - (2 ^ 31) \<le> l * h" by (rule mult_left_mono) (use assms l True in simp_all)
    ultimately show "fits sg (l * h)" using l True by (simp add: fits_def)
  next
    case False
    have "l * h \<le> l * (2 ^ 32 - 1)" by (rule mult_left_mono) (use assms l False in simp_all)
    moreover have "0 \<le> l * h" using assms l False by simp
    ultimately show "fits sg (l * h)" using l False by (simp add: fits_def)
  qed
qed

lemma lower_word:
  "push_bit 32 (word_of_int k :: u64) OR word_of_int (take_bit 32 p) =
   word_of_int (take_bit 32 k * 2 ^ 32 + take_bit 32 p)"
proof -
  have "\<not> bit (push_bit 32 (take_bit 32 k)) n \<or> \<not> bit (take_bit 32 p) n" for n
    by (auto simp: bit_simps)
  then have "take_bit 32 k * 2 ^ 32 + take_bit 32 p = push_bit 32 (take_bit 32 k) OR take_bit 32 p"
    by (simp add: push_bit_eq_mult disjunctive_add)
  then show ?thesis by (intro bit_word_eqI) (auto simp: bit_simps)
qed

lemma unat_32: "unat (32 :: u64) = 32"
  by simp

lemma shr_False: "shr False x n = drop_bit (unat n) x"
  by (simp add: shr_def)

lemma shift_64: "shift \<le> 64 \<Longrightarrow> (shift = (64 :: u64)) = (unat shift = 64)"
  by (simp add: word_unat_eq_iff)

lemma unat_sub_64: "shift \<le> (64 :: u64) \<Longrightarrow> unat (64 - shift) = 64 - unat shift"
  by (simp add: unat_sub)

lemma halves: "q = drop_bit 32 q * 2 ^ 32 + take_bit 32 (q :: int)"
  by (simp add: drop_bit_eq_div take_bit_eq_mod)

text \<open>The three ways of adding the carries are one, by the signs of the operands.\<close>

lemma multiply_carries:
  assumes "sg1 \<longrightarrow> sg2"
  shows "multiply sg2 sg1 op2 op1 shift rnd s =
     (let aHigh = shr sg2 op2 32;
          aLow = op2 AND 0xFFFFFFFF;
          bHigh = shr sg1 op1 32;
          bLow = op1 AND 0xFFFFFFFF;
          t0 = aLow * bLow;
          t1 = aLow * bHigh;
          t2 = aHigh * bLow;
          carry = drop_bit 32 t0 + (t1 AND 0xFFFFFFFF) + (t2 AND 0xFFFFFFFF);
          upper = aHigh * bHigh + (shr sg1 t1 32 + shr sg2 t2 32 + shr sg2 carry 32);
          lower = push_bit 32 carry OR (t0 AND 0xFFFFFFFF);
          shiftOut = push_bit (unat (64 - shift)) (upper AND getMask shift);
          lower_part = (if shift = 64 then 0 else shr False lower shift);
          res = lower_part OR shiftOut
      in (shr False upper shift, if rnd then res + getRoundingIncrement False lower shift s else res))"
  using assms unfolding multiply_def Let_def by (cases sg2; cases sg1) (simp_all only: signExtend_64 shr_False unat_32 simp_thms if_True if_False)

lemma multiply_product:
  assumes sg: "sg1 \<longrightarrow> sg2" and k: "shift \<le> 64"
  shows "snd (multiply sg2 sg1 a b shift False s) =
    word_of_int (drop_bit (unat shift) (int_of sg2 a * int_of sg1 b))"
proof -
  define A B where "A = int_of sg2 a" and "B = int_of sg1 b"
  define ah al bh bl where "ah = drop_bit 32 A" and "al = take_bit 32 A" and "bh = drop_bit 32 B" and "bl = take_bit 32 B"
  define p q r where "p = al * bl" and "q = al * bh" and "r = bl * ah"
  define c where "c = drop_bit 32 p + take_bit 32 q + take_bit 32 r"
  define U L where "U = ah * bh + (drop_bit 32 q + drop_bit 32 r + drop_bit 32 c)"
    and "L = take_bit 32 c * 2 ^ 32 + take_bit 32 p"
  have "fits False p"
    unfolding p_def al_def bl_def by (rule part_product) (use low_part in simp)
  moreover have "fits sg1 q" "fits sg2 r"
    unfolding q_def r_def al_def bl_def ah_def bh_def A_def B_def
    by (rule part_product [OF high_part [OF fits_int_of]])+
  ultimately have fit: "fits False p" "fits sg1 q" "fits sg2 r" by simp_all
  have "0 \<le> c \<and> c < 3 * 2 ^ 32"
    using high_part [OF fit(1)] low_part [of q] low_part [of r] unfolding c_def if_False by linarith
  then have fit_c: "fits sg2 c" by (simp add: fits_def)
  have parts: "shr sg2 a 32 = word_of_int ah" "a AND 0xFFFFFFFF = word_of_int al"
    "shr sg1 b 32 = word_of_int bh" "b AND 0xFFFFFFFF = word_of_int bl"
    using high_half low_half by (simp_all add: ah_def al_def bh_def bl_def A_def B_def)
  have terms: "word_of_int al * word_of_int bl = (word_of_int p :: u64)" "word_of_int al * word_of_int bh = (word_of_int q :: u64)"
    "word_of_int ah * word_of_int bl = (word_of_int r :: u64)"
    by (simp_all only: wi_hom_mult p_def q_def r_def mult.commute)
  have carry: "drop_bit 32 (word_of_int p) + word_of_int (take_bit 32 q) + word_of_int (take_bit 32 r) = (word_of_int c :: u64)"
    using shr_of_int [OF fit(1), of 32] by (simp only: shr_False wi_hom_add c_def unat_32)
  have shifts: "shr sg1 (word_of_int q) 32 = word_of_int (drop_bit 32 q)" "shr sg2 (word_of_int r) 32 = word_of_int (drop_bit 32 r)"
    "shr sg2 (word_of_int c) 32 = word_of_int (drop_bit 32 c)"
    using fit(2,3) fit_c by (simp_all only: shr_of_int unat_32)
  have upper: "word_of_int ah * word_of_int bh + (shr sg1 (word_of_int q) 32 + shr sg2 (word_of_int r) 32 +
    shr sg2 (word_of_int c) 32) = (word_of_int U :: u64)"
    by (simp only: wi_hom_mult wi_hom_add shifts U_def)
  have "(ah * 2 ^ 32 + al) * (bh * 2 ^ 32 + bl) = U * (2 ^ 32 * 2 ^ 32) + L"
    unfolding U_def L_def
    by (rule product_split [OF halves [of p] halves [of q] halves [of r] c_def [symmetric, THEN trans, OF halves]])
      (simp_all only: p_def q_def r_def mult.commute)
  then have "A * B = U * 2 ^ 64 + L"
    using halves [of A] halves [of B] by (simp add: ah_def al_def bh_def bl_def)
  moreover have "take_bit 64 L = L"
    using low_part [of c] low_part [of p] by (intro take_bit_int_eq_self) (simp_all add: L_def)
  moreover have "snd (multiply sg2 sg1 a b shift False s) =
    (if unat shift = 64 then 0 else drop_bit (unat shift) (word_of_int L :: u64)) OR
    push_bit (64 - unat shift) (word_of_int U AND mask (unat shift))"
    by (simp only: multiply_carries [OF sg] Let_def parts terms and_low carry upper lower_word snd_conv if_False getMask_mask L_def
      shr_False shift_64 [OF k] unat_sub_64 [OF k])
  ultimately show ?thesis
    using shift_pair [of L "unat shift" U] k by (simp add: word_le_nat_alt A_def B_def)
qed

section \<open>The multiply instructions\<close>

text \<open>The number an element of \<open>eew\<close> bits stands for.\<close>

definition elem_value :: "bool \<Rightarrow> u64 \<Rightarrow> u64 \<Rightarrow> int" where
  "elem_value sg eew x = (if sg then signed_take_bit (unat eew - 1) (uint x) else uint x)"

lemma sint_signExtend:
  assumes "0 < w" "w \<le> 64"
  shows "sint (signExtend x w) = signed_take_bit (unat w - 1) (uint x)"
proof -
  obtain k where k: "unat w = Suc k" "k \<le> 63"
    using assms by (cases "unat w") (auto simp: word_le_nat_alt word_less_nat_alt)
  have "bit (sint (signExtend x w)) n = bit x (min n k)" for n
    using k assms(2)
    by (cases "k = 63"; cases n k rule: linorder_cases) (auto simp: signExtend_def shr_def unat_sub_64 min_def bit_simps)
  moreover have "bit (signed_take_bit k (uint x)) n = bit x (min n k)" for n
    using k by (auto simp: bit_simps min_def)
  ultimately show ?thesis by (intro bit_eqI) (simp add: k(1))
qed

lemma int_of_signExtend: "0 < w \<Longrightarrow> w \<le> 64 \<Longrightarrow> int_of True (signExtend x w) = elem_value True w x"
  by (simp add: int_of_def elem_value_def sint_signExtend)

lemma unsigned_values: "int_of False x = uint x" "elem_value False w x = uint x"
  by (simp_all add: int_of_def elem_value_def)

text \<open>
  C26. Vector multiplication: where the effective widths of the operands are at most 64 bits, \<^verbatim>\<open>vMul\<close> returns the
  low 64 bits of the exact product of the two elements, each read as a signed or an unsigned number as the
  instruction selects, and \<^verbatim>\<open>vMulh\<close>, for the combinations of signs it is used with, the product divided by two to
  the element width, rounded down. Neither changes the state.
\<close>

theorem vector_multiply_spec:
  assumes "getSignedEew s = (vd_eew, vd_signed, op2_eew, op2_signed, op1_eew, op1_signed)"
    and "0 < op2_eew" "op2_eew \<le> 64" "0 < op1_eew" "op1_eew \<le> 64"
  shows "vMul x y s =
      (Inr (word_of_int (elem_value op2_signed op2_eew x * elem_value op1_signed op1_eew y)), s) \<and>
    ((op1_signed \<longrightarrow> op2_signed) \<longrightarrow>
     vMulh x y s =
      (Inr (word_of_int (elem_value op2_signed op2_eew x * elem_value op1_signed op1_eew y div 2 ^ unat op2_eew)), s))"
  using assms
  by (cases op2_signed; cases op1_signed)
    (simp_all add: vMul_def vMulh_def with_eew_def bindM_def getsM_def multiply_product int_of_signExtend
      unsigned_values mult.commute drop_bit_eq_div)

text \<open>A hart whose vector unit has the settings \<open>t\<close> and the element selection \<open>e\<close>.\<close>

definition vector_hart :: "u32 \<Rightarrow> elem_sel_t \<Rightarrow> hart_soc" where
  "vector_hart t e = csr_upd csr_vtype t (vx_upd (\<lambda>x. x\<lparr>elem_sel := e\<rparr>) (tiny_init True True (\<lambda>_. 10000) 0x1000))"

lemma vector_hart_simps [simp]:
  "elem_sel (v_ext (vector_hart t e)) = e" "csrs (vector_hart t e) csr_vtype = t"
  "vd_eew_overwrite (v_ext (vector_hart t e)) = 0" "o2_eew_overwrite (v_ext (vector_hart t e)) = 0"
  "o1_eew_overwrite (v_ext (vector_hart t e)) = 0"
  by (simp_all add: vector_hart_def tiny_init_def iss_init_def ISS_CT_def VExtension_def vx_upd_def csr_upd_def)

lemma vector_hart_sew: "getIntVSew (vector_hart t e) = push_bit (unat (fget vtype_vsew t) + 3) 1"
  by (simp add: getIntVSew_def csr_fget_def)

theorem vector_multiply_spec_witness:
  "vMul 0xFFFE 3 (vector_hart 0x8 xxxsss) = (Inr (- 6), vector_hart 0x8 xxxsss) \<and>
   vMulh 0xFFFE 3 (vector_hart 0x8 xxxsss) = (Inr (- 1), vector_hart 0x8 xxxsss)"
proof -
  have "getSignedEew (vector_hart 0x8 xxxsss) = (16, True, 16, True, 16, True)"
    by (simp add: getSignedEew_def Let_def vector_hart_sew fget_def)
  moreover have "elem_value True 16 0xFFFE = - 2" "elem_value True 16 3 = 3" by code_simp+
  ultimately show ?thesis using vector_multiply_spec [of "vector_hart 0x8 xxxsss" 16 True 16 True 16 True "0xFFFE" "3"] by simp
qed

section \<open>The divide instructions\<close>

lemma signExtend_of_value: "0 < w \<Longrightarrow> w \<le> 64 \<Longrightarrow> signExtend x w = word_of_int (elem_value True w x)"
  using of_int_of [of "signExtend x w" True] by (simp add: int_of_signExtend)

lemma elem_value_fits: "0 < w \<Longrightarrow> w \<le> 64 \<Longrightarrow> fits sg (elem_value sg w x)"
  using fits_int_of [of True "signExtend x w"] fits_int_of [of False x]
  by (cases sg) (simp_all add: int_of_signExtend unsigned_values)

lemma int_of_word: "fits sg p \<Longrightarrow> int_of sg (word_of_int p) = p"
  by (cases sg) (simp_all only: int_of_def if_True if_False sint_sbintrunc' uint_word_of_int_eq,
    simp_all add: fits_def signed_take_bit_int_eq_self take_bit_int_eq_self)

lemma word_of_int_fits: "fits sg p \<Longrightarrow> fits sg q \<Longrightarrow> (word_of_int p = (word_of_int q :: u64)) = (p = q)"
  by (metis int_of_word)

lemma INT64_MIN_sew:
  assumes "0 < w" "w \<le> 64"
  shows "shr True INT64_MIN (64 - w) = word_of_int (- (2 ^ (unat w - 1)))"
proof -
  obtain k where k: "unat w = Suc k" "k \<le> 63"
    using assms by (cases "unat w") (auto simp: word_le_nat_alt word_less_nat_alt)
  have "INT64_MIN = word_of_int (- (2 ^ 63))" by simp
  moreover have "fits True (- (2 ^ 63))" by (simp add: fits_def)
  ultimately have "shr True INT64_MIN (64 - w) = word_of_int (drop_bit (63 - k) (- (2 ^ 63)))"
    using k assms by (simp only: shr_of_int unat_sub_64) simp
  moreover have "(2 :: int) ^ 63 = 2 ^ k * 2 ^ (63 - k)" using k(2) by (simp flip: power_add)
  then have "drop_bit (63 - k) (- (2 ^ 63) :: int) = - (2 ^ k)"
    by (simp only: drop_bit_eq_div mult_minus_left [symmetric]) (simp only: nonzero_mult_div_cancel_right power_not_zero zero_neq_numeral not_False_eq_True)
  ultimately show ?thesis by (simp only: k(1) diff_Suc_1)
qed

lemma INT64_MIN_int: "INT64_MIN = word_of_int (- (2 ^ 63))"
  by simp

lemma take_bit_of_int: "take_bit n (word_of_int z :: u64) = word_of_int (take_bit n z)"
  by (rule bit_word_eqI) (auto simp: bit_simps)

lemma overflow_quotient:
  "take_bit (Suc k) (- (2 ^ k) :: int) = take_bit (Suc k) (2 ^ k)"
proof -
  have "(- (2 ^ k) :: int) mod 2 ^ Suc k = (- (2 ^ k) + 2 ^ Suc k) mod 2 ^ Suc k" by (simp only: mod_add_self2)
  then show ?thesis by (simp add: take_bit_eq_mod)
qed


lemma nonneg_division:
  assumes "0 \<le> p" "0 \<le> (q :: int)"
  shows "p sdiv q = p div q" "p smod q = p mod q"
  using assms by (auto simp: signed_divide_int_def signed_modulo_int_def sgn_if)

lemma wrapped_quotient:
  assumes "b = - (2 ^ k)" "a = - 1"
  shows "take_bit (Suc k) (word_of_int b :: u64) = word_of_int (take_bit (Suc k) (b sdiv a))"
proof -
  have "b sdiv a = 2 ^ k" by (simp add: assms signed_divide_int_def)
  then show ?thesis by (simp only: take_bit_of_int overflow_quotient assms(1))
qed

text \<open>A signed element after its sign extension, and the operands the source singles out.\<close>

lemma signed_element:
  assumes "0 < w" "w \<le> 64" "unat w = Suc k" "k \<le> 63"
  shows "signExtend z w = word_of_int (elem_value True w z)"
    "sint (word_of_int (elem_value True w z) :: u64) = elem_value True w z"
    "(word_of_int (elem_value True w z) = (0 :: u64)) = (elem_value True w z = 0)"
    "(word_of_int (elem_value True w z) = (- 1 :: u64)) = (elem_value True w z = - 1)"
    "(word_of_int (elem_value True w z) = INT64_MIN) = (elem_value True w z = - (2 ^ 63))"
    "(word_of_int (elem_value True w z) = shr True INT64_MIN (64 - w)) = (elem_value True w z = - (2 ^ k))"
proof -
  note fit = elem_value_fits [OF assms(1,2), of True z]
  have "(2 :: int) ^ k \<le> 2 ^ 63" "0 < (2 :: int) ^ k" using assms(4) by (simp_all add: power_increasing del: power_numeral)
  then have "fits True 0" "fits True (- 1)" "fits True (- (2 ^ 63))" "fits True (- (2 ^ k))"
    unfolding fits_def if_True by linarith+
  note eqs = this [THEN word_of_int_fits [OF fit]]
  show "signExtend z w = word_of_int (elem_value True w z)" by (rule signExtend_of_value [OF assms(1,2)])
  show "sint (word_of_int (elem_value True w z) :: u64) = elem_value True w z"
    using int_of_word [OF fit] by (simp add: int_of_def)
  show "(word_of_int (elem_value True w z) = (0 :: u64)) = (elem_value True w z = 0)"
    "(word_of_int (elem_value True w z) = (- 1 :: u64)) = (elem_value True w z = - 1)"
    using eqs(1,2) by simp_all
  show "(word_of_int (elem_value True w z) = INT64_MIN) = (elem_value True w z = - (2 ^ 63))"
    unfolding INT64_MIN_int by (rule eqs(3))
  show "(word_of_int (elem_value True w z) = shr True INT64_MIN (64 - w)) = (elem_value True w z = - (2 ^ k))"
    unfolding INT64_MIN_sew [OF assms(1,2)] assms(3) diff_Suc_1 by (rule eqs(4))
qed

text \<open>
  C27. Vector division on elements of equal widths and signs, the widths at most 64 bits, read as signed or unsigned
  numbers: \<^verbatim>\<open>vDiv\<close> returns a value whose element bits are those of the truncated quotient, all ones for the divisor
  zero; the overflowing signed quotient wraps. \<^verbatim>\<open>vRem\<close> returns the remainder that has the sign of the dividend, the
  dividend for the divisor zero, except for the one pair of operands it does not exclude: the smallest 64-bit
  number modulo -1, whose remainder 0 the machine's division does not deliver, ends the simulation.
\<close>

theorem vector_division_spec:
  assumes "getSignedEew s = (w, sg, w, sg, w, sg)" "getIntVSew s = w" "0 < w" "w \<le> 64"
    and "a = elem_value sg w y" "b = elem_value sg w x"
  shows "(\<exists>q. vDiv x y s = (Inr q, s) \<and>
      take_bit (unat w) q = word_of_int (take_bit (unat w) (if a = 0 then - 1 else b sdiv a))) \<and>
    vRem x y s =
      (if b = - (2 ^ 63) \<and> a = - 1 then Inl RuntimeError
       else Inr (word_of_int (if a = 0 then b else b smod a)), s)"
proof (cases sg)
  case True
  obtain k where k: "unat w = Suc k" "k \<le> 63"
    using assms(3,4) by (cases "unat w") (auto simp: word_le_nat_alt word_less_nat_alt)
  have ab: "elem_value True w y = a" "elem_value True w x = b" using assms(5,6) True by simp_all
  note x = signed_element [OF assms(3,4) k, of x, unfolded ab]
  note y = signed_element [OF assms(3,4) k, of y, unfolded ab]
  have "vDiv x y s = (Inr (if a = 0 then - 1 else if b = - (2 ^ k) \<and> a = - 1 then word_of_int b else word_of_int (b sdiv a)), s)"
    using assms(1,2) True by (simp add: vDiv_def with_eew_def monad_simps x y quot_s_def Let_def)
  moreover have "take_bit (unat w) (if a = 0 then - 1 else if b = - (2 ^ k) \<and> a = - 1 then word_of_int b else word_of_int (b sdiv a) :: u64) =
     word_of_int (take_bit (unat w) (if a = 0 then - 1 else b sdiv a))"
    using take_bit_of_int [of "unat w" "- 1"] wrapped_quotient [of b k a] by (auto simp: take_bit_of_int k(1))
  moreover have "vRem x y s = (if b = - (2 ^ 63) \<and> a = - 1 then Inl RuntimeError
       else Inr (word_of_int (if a = 0 then b else b smod a)), s)"
    using assms(1) True by (simp add: vRem_def with_eew_def monad_simps x y rem_s_def Let_def)
  ultimately show ?thesis by blast
next
  case False
  then have ab: "a = uint y" "b = uint x" using assms(5,6) by (simp_all add: elem_value_def)
  then have "0 \<le> b" by simp
  then have "b \<noteq> - (2 ^ 63)" by auto
  moreover have "x div y = word_of_int (uint x sdiv uint y)" "x mod y = word_of_int (uint x smod uint y)"
    by (simp_all add: word_div_def word_mod_def nonneg_division)
  moreover have "(uint y = 0) = (y = 0)" by (simp add: uint_0_iff)
  ultimately show ?thesis
    using assms(1,2) False take_bit_of_int [of "unat w" "- 1"]
    by (simp add: vDiv_def vRem_def with_eew_def monad_simps ab take_bit_of_int)
qed


theorem vector_division_spec_witness:
  "vRem 0x8000000000000000 0xFFFFFFFFFFFFFFFF (vector_hart 0x18 xxxsss) =
     (Inl RuntimeError, vector_hart 0x18 xxxsss) \<and>
   vRem (- 7) 2 (vector_hart 0x18 xxxsss) = (Inr (- 1), vector_hart 0x18 xxxsss)"
proof -
  let ?s = "vector_hart 0x18 xxxsss"
  have "getIntVSew ?s = 64" by (simp add: vector_hart_sew fget_def)
  moreover from this have "getSignedEew ?s = (64, True, 64, True, 64, True)"
    by (simp add: getSignedEew_def Let_def)
  moreover have "elem_value True 64 0x8000000000000000 = - (2 ^ 63)" "elem_value True 64 0xFFFFFFFFFFFFFFFF = - 1"
    "elem_value True 64 (- 7) = - 7" "elem_value True 64 2 = 2" by code_simp+
  ultimately show ?thesis
    using vector_division_spec [of ?s 64 True "- 1" "0xFFFFFFFFFFFFFFFF" "- (2 ^ 63)" "0x8000000000000000"]
      vector_division_spec [of ?s 64 True 2 2 "- 7" "- 7"]
    by (simp add: signed_modulo_int_def sgn_if)
qed

end
