(* ===== verification/VP_VProps.thy ===== *)
theory VP_VProps
  imports VP_VArith
begin

text \<open>
  The settings and the register file of the vector unit: \<^verbatim>\<open>v_set_operation\<close> against an integer specification of
  \<^verbatim>\<open>vl\<close>, \<^verbatim>\<open>vtype\<close> and VLMAX, and that the checks of an instruction keep its element accesses within the register
  file.
\<close>

section \<open>The settings\<close>

definition vtype_sew :: "u64 \<Rightarrow> nat" where
  "vtype_sew t = 8 * 2 ^ (unat t div 8 mod 8)"

definition vtype_supported :: "u64 \<Rightarrow> bool" where
  "vtype_supported t \<longleftrightarrow> unat t < 256 \<and> unat t div 8 mod 8 \<le> 3 \<and> unat t mod 8 \<noteq> 4 \<and>
     (unat t mod 8 > 4 \<longrightarrow> vtype_sew t * 2 ^ (8 - unat t mod 8) \<le> 64)"

definition vtype_vlmax :: "u64 \<Rightarrow> nat" where
  "vtype_vlmax t = (if unat t mod 8 < 4 then 512 * 2 ^ (unat t mod 8) div vtype_sew t
     else 512 div (2 ^ (8 - unat t mod 8) * vtype_sew t))"

lemma lmul_of_values:
  "lmul_of 0 = 1" "lmul_of 1 = 2" "lmul_of 2 = 4" "lmul_of 3 = 8" 
  "lmul_of 4 = 1 / 16" "lmul_of 5 = 1 / 8" "lmul_of 6 = 1 / 4" "lmul_of 7 = 1 / 2" 
  by (simp_all add: lmul_of_def signed_vlmul_def Let_def)

lemma unat_small: "n < 8 \<Longrightarrow> unat (of_nat n :: u64) = n"
  by (simp add: unat_of_nat take_bit_nat_eq_self)

lemma vlmul_field: "BIT_RANGE t 2 0 = (of_nat (unat t mod 8) :: u64)"
proof -
  have "BIT_RANGE t 2 0 = take_bit 3 t" by (simp add: BIT_RANGE_def take_bit_eq_mask)
  then show ?thesis by (simp add: take_bit_eq_mod unat_mod unat_small word_unat_eq_iff)
qed

lemma vsew_field: "BIT_SLICE_u t 5 3 = (of_nat (unat t div 8 mod 8) :: u64)"
proof -
  have "BIT_SLICE_u t 5 3 = take_bit 3 (drop_bit 3 t)"
    by (rule bit_word_eqI) (auto simp: BIT_SLICE_u_def BIT_RANGE_def bit_simps)
  then show ?thesis by (simp add: take_bit_eq_mod drop_bit_eq_div unat_mod unat_div unat_small word_unat_eq_iff)
qed

lemma reserved_bits: "(t AND NOT 0xFF = (0 :: u64)) = (unat t < 256)"
proof -
  have "(0xFF :: u64) = mask 8" by (simp add: mask_eq_exp_minus_1)
  then have "(t AND NOT 0xFF = 0) = (take_bit 8 t = t)"
    by (simp only: take_bit_eq_mask) (auto simp: bit_eq_iff bit_simps)
  also have "\<dots> = (t div 256 = 0)"
    by (simp add: take_bit_eq_self_iff_drop_bit_eq_0 drop_bit_eq_div)
  also have "\<dots> = (unat t < 256)" by (simp add: word_unat_eq_iff unat_div div_eq_0_iff)
  finally show ?thesis .
qed


text \<open>The requested number of elements.\<close>

definition vset_avl :: "u32 \<Rightarrow> u32 \<Rightarrow> u64 \<Rightarrow> u64 \<Rightarrow> 'd iss \<Rightarrow> nat" where
  "vset_avl d r t imm s =
     (if bhigh (instr s) \<noteq> 0 \<and> bhigh2 (instr s) \<noteq> 0 then unat imm
      else if r \<noteq> 0 then unat (reg r s)
      else if d \<noteq> 0 then vtype_vlmax t
      else unat (csrs s csr_vl))"

lemma below_8: "n < 8 \<Longrightarrow> n = 0 \<or> n = 1 \<or> n = 2 \<or> n = 3 \<or> n = 4 \<or> n = 5 \<or> n = 6 \<or> n = (7 :: nat)"
  by arith

text \<open>The source's floating-point computations, as integers.\<close>

lemma floor_rat: "\<lfloor>1 / numeral b :: rat\<rfloor> = 1 div numeral b"
  by (metis floor_divide_of_int_eq of_int_1 of_int_numeral)

lemma fp_vlmax:
  assumes "m < 8" "e < 8"
  shows "\<lfloor>lmul_of (of_nat m) * u_rat VLEN / u_rat (push_bit (e + 3) 1)\<rfloor> =
    int (if m < 4 then 512 * 2 ^ m div (8 * 2 ^ e) else 512 div (2 ^ (8 - m) * (8 * 2 ^ e)))"
  using below_8 [OF assms(1)] below_8 [OF assms(2)]
  by (elim disjE; simp add: lmul_of_values u_rat_def push_bit_eq_mult floor_rat)

lemma fp_ill:
  assumes "m < 8" "e < 8"
  shows "(lmul_of (of_nat m) * u_rat ELEN < u_rat SEW_MIN \<or> (push_bit (e + 3) 1 :: u64) > 64 \<or> (of_nat m :: u64) = 4 \<or>
    u_rat (push_bit (e + 3) 1) / lmul_of (of_nat m) > u_rat ELEN) =
    (\<not> (e \<le> 3 \<and> m \<noteq> 4 \<and> (m > 4 \<longrightarrow> 8 * 2 ^ e * 2 ^ (8 - m) \<le> (64 :: nat))))"
  using below_8 [OF assms(1)] below_8 [OF assms(2)]
  by (elim disjE; simp add: lmul_of_values u_rat_def push_bit_eq_mult)


lemma vset_vlmax:
  "trunc_u64 (lmul_of (BIT_RANGE t 2 0) * u_rat VLEN / u_rat (push_bit (unat (BIT_SLICE_u t 5 3) + 3) 1)) =
   of_nat (vtype_vlmax t)"
  by (simp only: trunc_u64_def vlmul_field vsew_field unat_small mod_less_divisor zero_less_numeral fp_vlmax vtype_vlmax_def vtype_sew_def of_int_of_nat_eq)

lemma vset_ill:
  "(lmul_of (BIT_RANGE t 2 0) * u_rat ELEN < u_rat SEW_MIN \<or> t AND NOT 0xFF \<noteq> 0 \<or>
    (push_bit (unat (BIT_SLICE_u t 5 3) + 3) 1 :: u64) > 64 \<or> BIT_RANGE t 2 0 = 4 \<or>
    u_rat (push_bit (unat (BIT_SLICE_u t 5 3) + 3) 1) / lmul_of (BIT_RANGE t 2 0) > u_rat ELEN) = (\<not> vtype_supported t)"
  using fp_ill [of "unat t mod 8" "unat t div 8 mod 8"]
  by (simp only: reserved_bits vlmul_field vsew_field unat_small vtype_supported_def vtype_sew_def mod_less_divisor zero_less_numeral) blast

lemma vlmax_bound: "vtype_vlmax t \<le> 512"
proof -
  have "512 * 2 ^ k div (8 * 2 ^ e) \<le> (512 :: nat)" if "k < 4" for k e :: nat
  proof -
    have "(2 :: nat) ^ k \<le> 2 ^ 3" using that by (intro power_increasing) auto
    then have "512 * 2 ^ k div (8 * 2 ^ e) \<le> 512 * 8 div (8 * 1 :: nat)"
      by (intro order.trans [OF div_le_mono div_le_mono2]) auto
    then show ?thesis by simp
  qed
  moreover have "512 div k \<le> (512 :: nat)" for k by (rule div_le_dividend)
  ultimately show ?thesis unfolding vtype_vlmax_def vtype_sew_def by (simp only: split: if_splits) blast
qed

lemma min_word: 
  assumes "n \<le> 512"
  shows "(ucast (if x \<le> (of_nat n :: u64) then x else of_nat n) :: u32) = of_nat (min (unat x) n)"
proof -
  have n: "unat (of_nat n :: u64) = n" using assms by (simp add: unat_of_nat take_bit_nat_eq_self)
  then have "(if x \<le> (of_nat n :: u64) then x else of_nat n) = of_nat (min (unat x) n)"
    by (simp add: word_le_nat_alt min_def)
  then show ?thesis using assms
    by (simp add: word_unat_eq_iff unsigned_ucast_eq unat_of_nat take_bit_nat_eq_self)
qed

lemma min_signed:
  assumes "n \<le> 512"
  shows "min (unat (scast (x :: u32) :: u64)) n = min (unat x) n"
proof (cases "bit x 31")
  case True
  then have "sint x = uint x - 2 ^ 32"
    by (simp add: sint_uint signed_take_bit_eq_take_bit_minus bit_uint_iff take_bit_int_eq_self uint_lt2p [of x, simplified])
  moreover from this have "- (2 ^ 31) \<le> sint x" "sint x < 0"
    using sint_ge [of x] uint_lt2p [of x] by simp_all
  moreover from this have "uint (scast x :: u64) = sint x + 2 ^ 64"
    using mod_pos_pos_trivial [of "sint x + 2 ^ 64" "2 ^ 64"] by (simp only: scast_eq uint_word_of_int mod_add_self2) simp
  ultimately have "512 \<le> uint x" "512 \<le> uint (scast x :: u64)" by simp_all
  then have "512 \<le> unat x" "512 \<le> unat (scast x :: u64)" unfolding unat_eq_nat_uint by linarith+
  then show ?thesis using assms by simp
next
  case False
  then have "sint x = uint x"
    by (simp add: sint_uint signed_take_bit_eq_take_bit_minus bit_uint_iff take_bit_int_eq_self uint_lt2p [of x, simplified])
  then have "uint (scast x :: u64) = uint x"
    using mod_pos_pos_trivial [of "uint x" "2 ^ 64"] uint_lt2p [of x] by (simp only: scast_eq uint_word_of_int) simp
  then show ?thesis by (simp only: unat_eq_nat_uint)
qed

text \<open>The bit \<^verbatim>\<open>vill\<close> after the check.\<close>

lemma vill_legal:
  assumes "unat (t :: u64) < 256"
  shows "fget vtype_vill (ucast t :: u32) = 0"
proof -
  have "drop_bit 31 t = 0"
    using assms by (simp add: drop_bit_eq_div word_unat_eq_iff unat_div)
  then have "\<not> bit t 31" by (simp add: bit_iff_odd_drop_bit)
  then show ?thesis by (intro bit_word_eqI) (auto simp: bit_fget bit_simps)
qed

lemma fset_vill_0: "fget f w = 0 \<Longrightarrow> fset f 0 w = w"
  using fset_fget_id [of f w] by simp

text \<open>The second half of \<^verbatim>\<open>v_set_operation\<close>: the check of the new settings.\<close>

definition vill_check :: "bool \<Rightarrow> 'd iss \<Rightarrow> 'd iss" where
  "vill_check ill s =
     (let s' = csr_fset csr_vtype vtype_vill (csr_fget csr_vtype vtype_vill s OR of_bool ill) s
      in if csr_fget csr_vtype vtype_vill s' \<noteq> 0
         then csr_fset csr_vtype vtype_vill 1 (csr_upd csr_vtype 0 (csr_upd csr_vl 0 s'))
         else s')"

lemma vill_check_legal: "fget vtype_vill (csrs s csr_vtype) = 0 \<Longrightarrow> vill_check False s = s"
  by (simp add: vill_check_def csr_fset_def csr_fget_def csr_upd_def fset_vill_0)

lemma vill_check_ill: "vill_check True s = csr_upd csr_vtype 0x80000000 (csr_upd csr_vl 0 s)"
proof -
  have "take_bit 1 (v OR 1) = (1 :: u32)" for v by (rule bit_word_eqI) (auto simp: bit_simps)
  moreover have "fset vtype_vill 1 0 = (0x80000000 :: u32)" by (simp add: fset_def)
  ultimately show ?thesis
    by (simp add: vill_check_def Let_def csr_fset_def csr_fget_def csr_upd_def fget_fset_same fun_upd_twist)
qed

lemma u32_u64_u32: "ucast (ucast (x :: u32) :: u64) = x"
  by (rule bit_word_eqI) (simp add: bit_simps)

lemma unat_u32_u64: "unat (ucast (x :: u32) :: u64) = unat x"
  by (simp add: unsigned_ucast_eq take_bit_nat_eq_self order.strict_trans2 [OF unsigned_less])

lemma v_set_operation_split:
  "v_set_operation d r t imm s =
     (let is_vsetivli = (bhigh (instr s) \<noteq> 0 \<and> bhigh2 (instr s) \<noteq> 0);
          vlmax = of_nat (vtype_vlmax t);
          av = (if \<not> is_vsetivli
                 then (if r \<noteq> 0 then iss_reg_read r s else if d \<noteq> 0 then - 1 else ucast (csrs s csr_vl))
                 else imm);
          s' = vill_check (\<not> vtype_supported t)
                 (csr_upd csr_vtype (ucast t) (csr_upd csr_vl (ucast (if av \<le> vlmax then av else vlmax)) s))
      in if \<not> is_vsetivli \<and> \<not> (d = 0 \<and> r = 0) \<or> is_vsetivli then iss_reg_write d (ucast (csrs s' csr_vl)) s' else s')"
  unfolding v_set_operation_def vill_check_def Let_def vset_vlmax vset_ill by (rule refl)

lemma vset_avl_min:
  "min (unat (if \<not> (bhigh (instr s) \<noteq> 0 \<and> bhigh2 (instr s) \<noteq> 0)
      then (if r \<noteq> 0 then iss_reg_read r s else if d \<noteq> 0 then - 1 else ucast (csrs s csr_vl))
      else imm)) (vtype_vlmax t) =
   min (vset_avl d r t imm s) (vtype_vlmax t)"
proof -
  have "(- 1 :: u64) = 0xFFFFFFFFFFFFFFFF" by simp
  then have "unat (- 1 :: u64) = 0xFFFFFFFFFFFFFFFF" by (simp only: unat_numeral) simp
  then have "min (unat (- 1 :: u64)) (vtype_vlmax t) = vtype_vlmax t"
    using vlmax_bound [of t] by linarith
  then show ?thesis
    using min_signed [OF vlmax_bound [of t]] by (simp add: vset_avl_def iss_reg_read_def unat_u32_u64)
qed

text \<open>
  C18. The settings of the vector unit: \<^verbatim>\<open>v_set_operation\<close>, which computes in floating point and which \<^verbatim>\<open>vsetvli\<close>,
  \<^verbatim>\<open>vsetivli\<close> and \<^verbatim>\<open>vsetvl\<close> share, implements the integer specification: for a supported \<^verbatim>\<open>vtype\<close> the number of
  elements \<^verbatim>\<open>vl\<close> is the minimum of the requested number and VLMAX, and for any other \<^verbatim>\<open>vtype\<close> exactly the bit
  \<^verbatim>\<open>vill\<close> is set and \<^verbatim>\<open>vl\<close> is zero. The new \<^verbatim>\<open>vl\<close> is written to \<^verbatim>\<open>rd\<close>; nothing else of the hart changes, neither
  another control register nor another integer register, nor the vector or floating-point registers, nor memory.
\<close>

theorem vset_spec:
  "let vl = (if vtype_supported t then of_nat (min (vset_avl d r t imm s) (vtype_vlmax t)) else 0)
   in v_set_operation d r t imm s =
        s\<lparr>csrs := (csrs s)(csr_vl := vl, csr_vtype := if vtype_supported t then ucast t else 0x80000000),
          regs := if d = 0 then regs s else (regs s)[unat d := vl]\<rparr>"
proof -
  have "vtype_supported t \<Longrightarrow> fget vtype_vill (ucast t :: u32) = 0"
    by (rule vill_legal) (simp add: vtype_supported_def)
  then have check: "vill_check (\<not> vtype_supported t) (csr_upd csr_vtype (ucast t) (csr_upd csr_vl v s)) =
    csr_upd csr_vtype (if vtype_supported t then ucast t else 0x80000000)
      (csr_upd csr_vl (if vtype_supported t then v else 0) s)" for v
    by (cases "vtype_supported t") (simp_all add: vill_check_legal vill_check_ill csr_upd_def fun_upd_twist)
  show ?thesis
    unfolding v_set_operation_split Let_def min_word [OF vlmax_bound] vset_avl_min check
    by (auto simp: iss_reg_write_def csr_upd_def set_reg_def u32_u64_u32)
qed


section \<open>The register file\<close>

text \<open>An access to element \<open>i\<close> of the group of register \<open>r\<close> stays within the register file.\<close>

definition v_access_ok :: "u64 \<Rightarrow> u64 \<Rightarrow> u64 \<Rightarrow> bool" where
  "v_access_ok eew r i \<longleftrightarrow> (\<forall>n. eew = 8 * of_nat n \<and> n \<in> {1, 2, 4, 8} \<longrightarrow> vreg_off n r i + n \<le> NUM_REGS * VLENB)"

lemma lmul_power: "lmul_of v = 2 powi signed_vlmul v"
  by (simp add: lmul_of_def Let_def power_int_def power_inverse inverse_eq_divide power_one_over)

lemma power_small:
  assumes "(1 :: rat) \<le> 2 powi z" "2 powi z \<le> (8 :: rat)"
  shows "\<exists>k \<le> 3. 2 powi z = (2 ^ k :: rat)"
proof (cases z rule: int_cases2)
  case (nonneg n)
  then have "(2 :: rat) ^ n \<le> 2 ^ 3" using assms(2) by simp
  then have "n \<le> 3" by (rule power_le_imp_le_exp [rotated]) simp
  then show ?thesis using nonneg by auto
next
  case (nonpos n)
  then have "(2 :: rat) ^ n \<le> 1" using assms(1) by (simp add: power_int_minus field_simps)
  then have "n = 0" using power_le_imp_le_exp [of "2 :: rat" n 0] by simp
  then show ?thesis using nonpos by (auto intro: exI [of _ 0])
qed


lemma access_in_group:
  assumes "n \<in> {1, 2, 4, 8}" "unat r + g \<le> 32" "unat i div (64 div n) < g"
  shows "vreg_off n r i + n \<le> NUM_REGS * VLENB"
proof -
  have "unat i mod (64 div n) * n + n \<le> 64"
  proof -
    have "Suc (unat i mod (64 div n)) \<le> 64 div n"
      using assms(1) by (intro Suc_leI mod_less_divisor) auto
    then have "Suc (unat i mod (64 div n)) * n \<le> 64 div n * n" by (rule mult_le_mono1)
    then show ?thesis using assms(1) by auto
  qed
  moreover have "(unat r + unat i div (64 div n)) * 64 + 64 \<le> 32 * 64"
    using assms(2,3) by simp
  ultimately show ?thesis
    by (simp add: vreg_off_def Let_def VLENB_def NUM_REGS_def)
qed

lemma aligned_dvd:
  assumes "v_is_aligned r (2 ^ k)" "k \<le> 3"
  shows "2 ^ k dvd unat r"
proof -
  have "take_bit k r = 0"
    using assms by (auto simp: v_is_aligned_def take_bit_eq_mask mask_eq_exp_minus_1)
  then have "unat r mod 2 ^ k = 0"
    using unsigned_take_bit_eq [of k r] by (simp add: take_bit_eq_mod)
  then show ?thesis by (rule mod_0_imp_dvd)
qed

lemma dvd_fits: "2 ^ k dvd r \<Longrightarrow> r < 32 \<Longrightarrow> k \<le> 3 \<Longrightarrow> r + 2 ^ k \<le> (32 :: nat)"
proof -
  assume *: "2 ^ k dvd r" "r < 32" "k \<le> 3"
  then have "k = 0 \<or> k = 1 \<or> k = 2 \<or> k = 3" by arith
  then show ?thesis using * by (auto elim!: disjE dvdE)
qed

lemma eew_power:
  assumes "n \<in> {1, 2, 4, 8}"
  obtains w where "rat_of_nat (8 * n) = 2 powi w"
proof -
  have "\<exists>k. n = 2 ^ k" using assms by (auto intro: exI [of _ 0] exI [of _ 1] exI [of _ 2] exI [of _ 3])
  then obtain k where "n = 2 ^ k" ..
  then have "rat_of_nat (8 * n) = 2 powi (int k + 3)" by (simp add: power_int_add)
  then show ?thesis by (rule that)
qed

lemma vtype_fields:
  fixes s :: "'d iss"
  defines "t \<equiv> ucast (csrs s csr_vtype) :: u64"
  shows "getVlmul s = lmul_of (of_nat (unat t mod 8))" "getIntVSew s = push_bit (unat t div 8 mod 8 + 3) 1"
proof -
  have "ucast (fget vtype_vlmul (csrs s csr_vtype)) = BIT_RANGE t 2 0"
    by (rule bit_word_eqI) (auto simp: t_def BIT_RANGE_def bit_fget bit_simps)
  then show "getVlmul s = lmul_of (of_nat (unat t mod 8))"
    by (simp add: getVlmul_def csr_fget_def vlmul_field)
  have "ucast (fget vtype_vsew (csrs s csr_vtype)) = BIT_SLICE_u t 5 3"
    by (rule bit_word_eqI) (auto simp: t_def BIT_SLICE_u_def BIT_RANGE_def bit_fget bit_simps add.commute)
  then have "unat (ucast (fget vtype_vsew (csrs s csr_vtype)) :: u64) = unat t div 8 mod 8"
    by (simp add: vsew_field unat_small)
  then show "getIntVSew s = push_bit (unat t div 8 mod 8 + 3) 1"
    by (simp add: getIntVSew_def csr_fget_def unat_u32_u64)
qed

lemma vl_below:
  assumes "i < ucast (csrs s csr_vl)" "unat (csrs s csr_vl) \<le> vtype_vlmax (ucast (csrs s csr_vtype))"
  shows "rat_of_nat (unat (i :: u64)) < getVlmul s * u_rat VLEN / u_rat (getIntVSew s)"
proof -
  have "int (unat i) < int (vtype_vlmax (ucast (csrs s csr_vtype)))"
    using assms unfolding of_nat_less_iff by (simp add: word_less_nat_alt unat_u32_u64)
  also have "\<dots> = \<lfloor>getVlmul s * u_rat VLEN / u_rat (getIntVSew s)\<rfloor>"
    by (simp only: vtype_fields fp_vlmax mod_less_divisor zero_less_numeral vtype_vlmax_def vtype_sew_def)
  finally show ?thesis by (simp add: less_floor_iff)
qed

lemma sew_power: "e < 8 \<Longrightarrow> u_rat (push_bit (e + 3) 1) = 2 powi (int e + 3)"
  by (drule below_8) (elim disjE; simp add: u_rat_def)

text \<open>The number of registers of a group: one for a fraction of a register.\<close>

lemma group_size:
  fixes s :: "'d iss"
  defines "emul n \<equiv> getVlmul s * rat_of_nat (8 * n) / u_rat (getIntVSew s)"
  assumes n: "n \<in> {1, 2, 4, 8}" and emul: "emul n \<le> 8"
    and vl: "unat (csrs s csr_vl) \<le> vtype_vlmax (ucast (csrs s csr_vtype))"
  obtains k where "k \<le> 3" "\<And>r. v_is_aligned r (trunc_u64 (emul n)) \<Longrightarrow> 2 ^ k dvd unat r"
    "\<And>i :: u64. i < ucast (csrs s csr_vl) \<Longrightarrow> unat i div (64 div n) < 2 ^ k"
proof -
  have below: "rat_of_nat (unat i div (64 div n)) < emul n" if "i < ucast (csrs s csr_vl)" for i :: u64
  proof -
    have "rat_of_nat (unat i div (64 div n)) \<le> rat_of_nat (unat i) / rat_of_nat (64 div n)"
      using of_nat_div_le_of_nat by blast
    also have "\<dots> = rat_of_nat (unat i) * rat_of_nat (8 * n) / 512" using n by auto
    also have "\<dots> < emul n"
      using mult_strict_right_mono [OF vl_below [OF that vl], of "rat_of_nat (8 * n) / 512"] n
      by (auto simp: emul_def u_rat_def mult_ac)
    finally show ?thesis .
  qed
  show thesis
  proof (cases "emul n < 1")
    case True
    have "unat i div (64 div n) < 1" if "i < ucast (csrs s csr_vl)" for i :: u64
      using below [OF that] True by linarith
    then show thesis by (intro that [of 0]) simp_all
  next
    case False
    let ?e = "unat (ucast (csrs s csr_vtype) :: u64) div 8 mod 8"
    have "u_rat (push_bit (?e + 3) 1) = 2 powi (int ?e + 3)"
      by (rule sew_power) simp
    moreover obtain w where "rat_of_nat (8 * n) = 2 powi w" using n by (rule eew_power)
    ultimately have "\<exists>z. emul n = 2 powi z"
      unfolding emul_def vtype_fields lmul_power
      by (metis power_int_add power_int_diff zero_neq_numeral)
    then obtain k where k: "k \<le> 3" "emul n = 2 ^ k"
      using power_small False emul by (metis not_less)
    show thesis
    proof (rule that [OF k(1)])
      show "v_is_aligned r (trunc_u64 (emul n)) \<Longrightarrow> 2 ^ k dvd unat r" for r
        using k by (intro aligned_dvd) (simp_all add: trunc_u64_def)
      show "i < ucast (csrs s csr_vl) \<Longrightarrow> unat i div (64 div n) < 2 ^ k" for i :: u64
        using below [of i] k(2) by (metis of_nat_less_iff of_nat_numeral of_nat_power)
    qed
  qed
qed

lemma when_assert_holds:
  "seqM (whenM c (v_assert b)) n s = (Inr x, s') \<Longrightarrow> (c \<longrightarrow> b) \<and> n s = (Inr x, s')"
  using v_assert_holds [of b n s x s'] by (cases c) (simp_all add: whenM_def monad_simps)


lemma check_holds:
  assumes "keeps (\<lambda>t. t = s) m" "seqM m n s = (Inr x, s')"
  shows "n s = (Inr x, s')"
  using assms keepsD [OF assms(1), of s] by (cases "m s"; cases "fst (m s)") (auto simp: monad_simps)

lemma overlap_check_keeps:
  "keeps P (whenM a (seqM (whenM b (v_assert c)) (v_assert d)))"
  by (intro keeps_intros hart_keeps)

lemma last_assert_holds: "whenM c (v_assert b) s = (Inr x, s') \<Longrightarrow> c \<Longrightarrow> b"
  by (cases b) (simp_all add: whenM_def v_assert_def RAISE_ILLEGAL_INSTRUCTION_def monad_simps)

lemma whenM_not: "\<not> c \<Longrightarrow> whenM (\<not> c) m = m"
  by (simp add: whenM_def)

lemma applyChecks_groups:
  assumes "applyChecks s = (Inr x, s')" "\<not> ignoreAlignment (v_ext s)"
    and "getSignedEew s = (vd_eew, vd_signed, vs2_eew, vs2_signed, vs1_eew, vs1_signed)"
  shows
    "\<not> vd_is_mask (v_ext s) \<Longrightarrow> \<not> vd_is_scalar (v_ext s) \<Longrightarrow>
     getVlmul s * u_rat vd_eew / u_rat (getIntVSew s) \<le> 8 \<and>
     v_is_aligned (ucast (rd (instr s))) (trunc_u64 (getVlmul s * u_rat vd_eew / u_rat (getIntVSew s)))"
    "\<not> vs2_is_mask (v_ext s) \<Longrightarrow>
     getVlmul s * u_rat vs2_eew / u_rat (getIntVSew s) \<le> 8 \<and>
     v_is_aligned (ucast (rs2 (instr s))) (trunc_u64 (getVlmul s * u_rat vs2_eew / u_rat (getIntVSew s)))"
    "param_sel (v_ext s) = sel_vv \<Longrightarrow> \<not> vs1_is_mask (v_ext s) \<Longrightarrow> \<not> vs1_is_scalar (v_ext s) \<Longrightarrow>
     getVlmul s * u_rat vs1_eew / u_rat (getIntVSew s) \<le> 8 \<and>
     v_is_aligned (ucast (rs1 (instr s))) (trunc_u64 (getVlmul s * u_rat vs1_eew / u_rat (getIntVSew s)))"
proof -
  note start = assms(1) [unfolded applyChecks_def bindM_simp getsM_simp prod.case sum.case assms(3) Let_def]
  note vd0 = when_assert_holds [OF v_assert_holds [OF start, THEN conjunct2]]
  note vd8 = when_assert_holds [OF vd0 [THEN conjunct2]]
  note vs28 = v_assert_holds [OF vd8 [THEN conjunct2]]
  note vs18 = when_assert_holds [OF vs28 [THEN conjunct2]]
  note rest = check_holds [OF overlap_check_keeps vs18 [THEN conjunct2], unfolded whenM_not [OF assms(2)]]
  note vda = when_assert_holds [OF rest]
  note vs2a = when_assert_holds [OF vda [THEN conjunct2]]
  note vs1a = last_assert_holds [OF vs2a [THEN conjunct2]]
  show "\<not> vd_is_mask (v_ext s) \<Longrightarrow> \<not> vd_is_scalar (v_ext s) \<Longrightarrow>
     getVlmul s * u_rat vd_eew / u_rat (getIntVSew s) \<le> 8 \<and>
     v_is_aligned (ucast (rd (instr s))) (trunc_u64 (getVlmul s * u_rat vd_eew / u_rat (getIntVSew s)))"
    using vd8 [THEN conjunct1] vda [THEN conjunct1] by simp
  show "\<not> vs2_is_mask (v_ext s) \<Longrightarrow>
     getVlmul s * u_rat vs2_eew / u_rat (getIntVSew s) \<le> 8 \<and>
     v_is_aligned (ucast (rs2 (instr s))) (trunc_u64 (getVlmul s * u_rat vs2_eew / u_rat (getIntVSew s)))"
    using vs28 [THEN conjunct1] vs2a [THEN conjunct1] by simp
  show "param_sel (v_ext s) = sel_vv \<Longrightarrow> \<not> vs1_is_mask (v_ext s) \<Longrightarrow> \<not> vs1_is_scalar (v_ext s) \<Longrightarrow>
     getVlmul s * u_rat vs1_eew / u_rat (getIntVSew s) \<le> 8 \<and>
     v_is_aligned (ucast (rs1 (instr s))) (trunc_u64 (getVlmul s * u_rat vs1_eew / u_rat (getIntVSew s)))"
    using vs18 [THEN conjunct1] vs1a by simp
qed

text \<open>One operand that passed the checks.\<close>

lemma operand_in_bounds:
  assumes "getVlmul s * u_rat eew / u_rat (getIntVSew s) \<le> 8 \<and>
     v_is_aligned (ucast (r :: u32)) (trunc_u64 (getVlmul s * u_rat eew / u_rat (getIntVSew s)))"
    and "unat r < 32" "i < ucast (csrs s csr_vl)" "unat (csrs s csr_vl) \<le> vtype_vlmax (ucast (csrs s csr_vtype))"
  shows "v_access_ok eew (ucast r) i"
  unfolding v_access_ok_def
proof (intro allI impI, elim conjE)
  fix n
  assume n: "n \<in> {1, 2, 4, 8}" and eew: "eew = 8 * of_nat n"
  then have eq: "u_rat eew = rat_of_nat (8 * n)" by (auto simp: u_rat_def)
  obtain k where k: "k \<le> 3" "\<And>r. v_is_aligned r (trunc_u64 (getVlmul s * u_rat eew / u_rat (getIntVSew s))) \<Longrightarrow> 2 ^ k dvd unat r"
    "\<And>i :: u64. i < ucast (csrs s csr_vl) \<Longrightarrow> unat i div (64 div n) < 2 ^ k"
    using group_size [OF n _ assms(4)] assms(1) unfolding eq by blast
  have "unat (ucast r :: u64) + 2 ^ k \<le> 32"
    using k(1) k(2) [OF conjunct2 [OF assms(1)]] assms(2) by (intro dvd_fits) (simp_all only: unat_u32_u64)
  then show "vreg_off n (ucast r) i + n \<le> NUM_REGS * VLENB"
    using k(3) [OF assms(3)] by (intro access_in_group [OF n])
qed

lemma register_fields: "unat (rd w) < 32" "unat (rs1 w) < 32" "unat (rs2 w) < 32"
proof -
  have "unat (take_bit 5 v) < 32" for v :: u32
    using take_bit_nat_less_exp [of 5 "unat v"] by (simp add: unsigned_take_bit_eq)
  moreover have "rd w = take_bit 5 (drop_bit 7 w)" "rs1 w = take_bit 5 (drop_bit 15 w)" "rs2 w = take_bit 5 (drop_bit 20 w)"
    by (rule bit_word_eqI; auto simp: rd_def rs1_def rs2_def BIT_SLICE_s_def BIT_RANGE_def bit_simps)+
  ultimately show "unat (rd w) < 32" "unat (rs1 w) < 32" "unat (rs2 w) < 32" by simp_all
qed

lemma mask_in_bounds:
  assumes "i < ucast (csrs s csr_vl)" "unat (csrs s csr_vl) \<le> vtype_vlmax (ucast (csrs s csr_vtype))" "unat r < 32"
  shows "v_access_ok 64 r (i div 64)"
proof -
  have "unat i < 512" using assms(1,2) vlmax_bound order.strict_trans2
    by (metis order.trans unat_u32_u64 word_less_nat_alt)
  then have "unat (i div 64) div 8 < 1" by (simp add: unat_div)
  then show ?thesis
    using assms(3) access_in_group [of 8 r 1 "i div 64"] by (auto simp: v_access_ok_def)
qed

lemma scalar_in_bounds: "unat r < 32 \<Longrightarrow> v_access_ok eew r 0"
  using access_in_group [of _ r 1 0] by (auto simp: v_access_ok_def)

text \<open>
  C17. The elements of an instruction lie in the register file. Once \<^verbatim>\<open>applyChecks\<close> accepts an instruction that requires
  aligned register groups, and while \<^verbatim>\<open>vl\<close> is at most VLMAX, as every \<^verbatim>\<open>vset\<close> instruction leaves it, the access to
  any element below \<^verbatim>\<open>vl\<close> of a destination, second or first operand that is a vector (neither a mask nor a scalar)
  lies in the 2048 bytes of the register file, although the source computes the offset without a check; so do
  the word of any mask register that holds the bit of the element, and the first element of a register that holds a scalar. The
  checks do not cover a mask destination that is read as if it were a vector.
\<close>

theorem vector_elements_in_bounds:
  assumes "applyChecks s = (Inr (), s')" "\<not> ignoreAlignment (v_ext s)"
    and "getSignedEew s = (vd_eew, vd_signed, vs2_eew, vs2_signed, vs1_eew, vs1_signed)"
    and "i < ucast (csrs s csr_vl)" "unat (csrs s csr_vl) \<le> vtype_vlmax (ucast (csrs s csr_vtype))"
  shows "(\<not> vd_is_mask (v_ext s) \<and> \<not> vd_is_scalar (v_ext s) \<longrightarrow> v_access_ok vd_eew (ucast (rd (instr s))) i) \<and>
    (\<not> vs2_is_mask (v_ext s) \<longrightarrow> v_access_ok vs2_eew (ucast (rs2 (instr s))) i) \<and>
    (param_sel (v_ext s) = sel_vv \<and> \<not> vs1_is_mask (v_ext s) \<and> \<not> vs1_is_scalar (v_ext s) \<longrightarrow>
       v_access_ok vs1_eew (ucast (rs1 (instr s))) i) \<and>
    (unat r < 32 \<longrightarrow> v_access_ok 64 r (fst (getCarryElements i)) \<and> v_access_ok eew r 0)"
  using operand_in_bounds [OF _ register_fields(1) assms(4,5)] operand_in_bounds [OF _ register_fields(2) assms(4,5)]
    operand_in_bounds [OF _ register_fields(3) assms(4,5)] applyChecks_groups [OF assms(1-3)] mask_in_bounds [OF assms(4,5)]
    scalar_in_bounds [of r eew]
  by (simp add: getCarryElements_def)

text \<open>\<^verbatim>\<open>vadd.vv v2, v4, v6\<close> on 32-bit elements in groups of two registers, with all 32 elements.\<close>

definition vadd_hart :: hart_soc where
  "vadd_hart = (csr_upd csr_vl 32 (vector_hart 0x11 xxxuuu))\<lparr>instr := 0x02430157\<rparr>"

lemma vadd_hart_simps:
  "rd (instr vadd_hart) = 2" "rs2 (instr vadd_hart) = 4" "rs1 (instr vadd_hart) = 6" "vm (instr vadd_hart) = 1"
  "csrs vadd_hart csr_vl = 32" "csrs vadd_hart csr_vtype = 0x11" "v_ext vadd_hart = VExtension"
proof -
  show "rd (instr vadd_hart) = 2" "rs2 (instr vadd_hart) = 4" "rs1 (instr vadd_hart) = 6" "vm (instr vadd_hart) = 1"
    by (simp_all add: vadd_hart_def) code_simp+
  show "csrs vadd_hart csr_vl = 32" "csrs vadd_hart csr_vtype = 0x11"
    by (simp_all add: vadd_hart_def csr_upd_def)
  show "v_ext vadd_hart = VExtension"
    by (simp add: vadd_hart_def vector_hart_def tiny_init_def iss_init_def ISS_CT_def VExtension_def vx_upd_def csr_upd_def)
qed

lemma vadd_hart_settings: "getIntVSew vadd_hart = 32" "getVlmul vadd_hart = 2" "vtype_vlmax 0x11 = 32"
  "getSignedEew vadd_hart = (32, False, 32, False, 32, False)"
proof -
  show sew: "getIntVSew vadd_hart = 32"
    by (simp add: getIntVSew_def csr_fget_def vadd_hart_simps fget_def)
  show "getVlmul vadd_hart = 2"
    by (simp add: getVlmul_def csr_fget_def vadd_hart_simps fget_def lmul_of_values)
  show "vtype_vlmax 0x11 = 32" by (simp add: vtype_vlmax_def vtype_sew_def)
  show "getSignedEew vadd_hart = (32, False, 32, False, 32, False)"
    by (simp add: getSignedEew_def Let_def sew vadd_hart_simps VExtension_def)
qed

lemma vadd_hart_checks: "applyChecks vadd_hart = (Inr (), vadd_hart)"
  by (simp add: applyChecks_def monad_simps vadd_hart_settings vadd_hart_simps v_assert_def Let_def whenM_def VExtension_def u_rat_def
    vreg_overlap_valid_def trunc_u64_def v_is_aligned_def)

theorem vector_elements_in_bounds_witness:
  "v_access_ok 32 2 31 \<and> v_access_ok 32 4 31 \<and> v_access_ok 32 6 31 \<and> v_access_ok 64 0 0"
  using vector_elements_in_bounds [OF vadd_hart_checks _ vadd_hart_settings(4), of 31 0]
  by (simp add: vadd_hart_simps vadd_hart_settings VExtension_def getCarryElements_def)

section \<open>Comparisons read behind the register file\<close>











end
