(* ===== verification/VP_VLoop.thy ===== *)
theory VP_VLoop
  imports VP_VProps
begin

text \<open>
  The loop over the elements of single-width instructions against its elementwise specification: although the
  elements are computed one after the other in one register file, every element of the result is computed from
  the operands as they were before the instruction.
\<close>

section \<open>Elements of a register file\<close>

definition vread :: "nat \<Rightarrow> nat \<Rightarrow> u8 list \<Rightarrow> u64" where
  "vread n off R = bytes_to_word (take n (drop off R))"

definition vwrite :: "nat \<Rightarrow> nat \<Rightarrow> u64 \<Rightarrow> u8 list \<Rightarrow> u8 list" where
  "vwrite n off v R = put_bytes off (word_to_bytes n v) R"

lemma length_vwrite [simp]: "length (vwrite n off v R) = length R"
  by (simp add: vwrite_def put_bytes_def)

lemma vwrite_nth:
  "p < length R \<Longrightarrow> vwrite n off v R ! p = (if off \<le> p \<and> p < off + n then word_to_bytes n v ! (p - off) else R ! p)"
  by (simp add: vwrite_def put_bytes_def)

lemma vread_cong:
  assumes "length R = length R'" "off + n \<le> length R" "\<And>p. off \<le> p \<Longrightarrow> p < off + n \<Longrightarrow> R ! p = R' ! p"
  shows "vread n off R = vread n off R'"
proof -
  have "take n (drop off R) = take n (drop off R')"
    using assms by (intro nth_equalityI) auto
  then show ?thesis by (simp add: vread_def)
qed

lemma vread_vwrite_same:
  assumes "off + n \<le> length R"
  shows "vread n off (vwrite n off v R) = bytes_to_word (word_to_bytes n v)"
proof -
  have "take n (drop off (vwrite n off v R)) = word_to_bytes n v"
    using assms by (intro nth_equalityI) (auto simp: vwrite_nth)
  then show ?thesis by (simp add: vread_def)
qed

lemma vread_vwrite_other:
  assumes "off + n \<le> length R" "off + n \<le> off' \<or> off' + m \<le> off"
  shows "vread n off (vwrite m off' v R) = vread n off R"
  using assms by (intro vread_cong) (auto simp: vwrite_nth)

text \<open>Elements of one width have the same offset or do not overlap.\<close>

lemma vreg_off_eq:
  assumes "n \<in> {1, 2, 4, 8}"
  shows "vreg_off n r i = ((unat r * (64 div n)) + unat i) * n"
proof -
  define per where "per = 64 div n"
  have 64: "per * n = 64" using assms by (auto simp: per_def)
  have "vreg_off n r i = (unat r + unat i div per) * (per * n) + unat i mod per * n"
    by (simp add: vreg_off_def Let_def VLENB_def per_def [symmetric] 64)
  also have "\<dots> = (unat r * per + (unat i div per * per + unat i mod per)) * n"
    by (simp only: add_mult_distrib mult.assoc add.assoc)
  finally show ?thesis by (simp only: div_mult_mod_eq per_def)
qed

lemma elements_disjoint:
  assumes "n \<in> {1, 2, 4, 8}" "vreg_off n r i \<noteq> vreg_off n r' j"
  shows "vreg_off n r i + n \<le> vreg_off n r' j \<or> vreg_off n r' j + n \<le> vreg_off n r i"
proof -
  have "a * n + n \<le> b * n \<or> b * n + n \<le> a * n" if "a \<noteq> b" for a b :: nat
    using that mult_le_mono1 [of "Suc a" b n] mult_le_mono1 [of "Suc b" a n] by (cases "a < b") auto
  then show ?thesis
    using assms by (metis vreg_off_eq)
qed


section \<open>Sequential and parallel\<close>

definition loop_step :: "nat \<Rightarrow> (nat \<Rightarrow> nat) \<Rightarrow> (nat \<Rightarrow> u8 list \<Rightarrow> bool) \<Rightarrow> (nat \<Rightarrow> u8 list \<Rightarrow> u64) \<Rightarrow> nat \<Rightarrow> u8 list \<Rightarrow> u8 list" where
  "loop_step n dst act val i R = (if act i R then vwrite n (dst i) (val i R) R else R)"

text \<open>The bytes the first \<open>k\<close> elements of the destination do not occupy.\<close>

definition same_outside :: "nat \<Rightarrow> (nat \<Rightarrow> nat) \<Rightarrow> nat \<Rightarrow> u8 list \<Rightarrow> u8 list \<Rightarrow> bool" where
  "same_outside n dst k R R' \<longleftrightarrow> length R' = length R \<and>
     (\<forall>p < length R. (\<forall>j < k. \<not> (dst j \<le> p \<and> p < dst j + n)) \<longrightarrow> R' ! p = R ! p)"

lemma same_outside_step:
  assumes "same_outside n dst k R R'"
  shows "same_outside n dst (Suc k) R (loop_step n dst act val k R')"
  using assms by (auto simp: same_outside_def loop_step_def vwrite_nth)

lemma same_outside_read:
  assumes "same_outside n dst k R R'" "off + m \<le> length R" "\<And>j. j < k \<Longrightarrow> off + m \<le> dst j \<or> dst j + n \<le> off"
  shows "vread m off R' = vread m off R"
proof (rule vread_cong)
  fix p
  assume "off \<le> p" "p < off + m"
  then have "\<forall>j < k. \<not> (dst j \<le> p \<and> p < dst j + n)" using assms(3) by fastforce
  then show "R' ! p = R ! p" using assms(1,2) \<open>p < off + m\<close> by (simp add: same_outside_def)
qed (use assms(1,2) in \<open>simp_all add: same_outside_def\<close>)

lemma loop_elementwise:
  assumes fits: "\<And>i. i < N \<Longrightarrow> dst i + n \<le> length R"
    and disj: "\<And>i j. i < N \<Longrightarrow> j < N \<Longrightarrow> i \<noteq> j \<Longrightarrow> dst i + n \<le> dst j \<or> dst j + n \<le> dst i"
    and frame: "\<And>i R'. i < N \<Longrightarrow> same_outside n dst i R R' \<Longrightarrow> act i R' = act i R \<and> (act i R \<longrightarrow> val i R' = val i R)"
    and k: "k \<le> N"
  shows "same_outside n dst k R (fold (loop_step n dst act val) [0..<k] R) \<and>
    (\<forall>j < k. vread n (dst j) (fold (loop_step n dst act val) [0..<k] R) =
       (if act j R then bytes_to_word (word_to_bytes n (val j R)) else vread n (dst j) R))"
  using k
proof (induction k)
  case 0
  then show ?case by (simp add: same_outside_def)
next
  case (Suc k)
  define Rk where "Rk = fold (loop_step n dst act val) [0..<k] R"
  have IH: "same_outside n dst k R Rk" and vals: "\<And>j. j < k \<Longrightarrow> vread n (dst j) Rk =
       (if act j R then bytes_to_word (word_to_bytes n (val j R)) else vread n (dst j) R)"
    using Suc by (simp_all add: Rk_def)
  have len: "length Rk = length R" using IH by (simp add: same_outside_def)
  note new = frame [OF _ IH]
  have "vread n (dst j) (loop_step n dst act val k Rk) =
       (if act j R then bytes_to_word (word_to_bytes n (val j R)) else vread n (dst j) R)" if "j < Suc k" for j
  proof (cases "j = k")
    case True
    have "vread n (dst k) Rk = vread n (dst k) R"
      using Suc.prems fits [of k] disj [of k] by (intro same_outside_read [OF IH]) auto
    then show ?thesis
      using True Suc.prems new fits [of k] by (simp add: loop_step_def vread_vwrite_same len)
  next
    case False
    then have "vread n (dst j) (loop_step n dst act val k Rk) = vread n (dst j) Rk"
      using that Suc.prems fits [of j] disj [of j k] by (simp add: loop_step_def vread_vwrite_other len)
    then show ?thesis using vals False that by simp
  qed
  then show ?case
    using same_outside_step [OF IH, of act val] by (simp add: Rk_def)
qed


section \<open>The loop of the source\<close>

definition with_regs :: "'d iss \<Rightarrow> u8 list \<Rightarrow> 'd iss" where
  "with_regs s R = vx_upd (\<lambda>x. x\<lparr>v_regs := R\<rparr>) s"

lemma with_regs_simps [simp]:
  "csrs (with_regs s R) = csrs s" "instr (with_regs s R) = instr s" "regs (with_regs s R) = regs s"
  "param_sel (v_ext (with_regs s R)) = param_sel (v_ext s)" "elem_sel (v_ext (with_regs s R)) = elem_sel (v_ext s)"
  "v_regs (v_ext (with_regs s R)) = R" "getSignedEew (with_regs s R) = getSignedEew s"
  "iss_reg_read r (with_regs s R) = iss_reg_read r s" "with_regs (with_regs s R) R' = with_regs s R'"
  "with_regs s (v_regs (v_ext s)) = s"
  by (simp_all add: with_regs_def vx_upd_def getSignedEew_def getIntVSew_def csr_fget_def iss_reg_read_def reg_def Let_def)

lemma element_access:
  "get_reg n r i (with_regs s R) = vread n (vreg_off n r i) R"
  "reg_write n r i v (with_regs s R) = with_regs s (vwrite n (vreg_off n r i) v R)"
  by (simp_all add: get_reg_def vread_def reg_write_def vwrite_def with_regs_def vx_upd_def)

definition width_ok :: "nat \<Rightarrow> u64 \<Rightarrow> bool" where
  "width_ok n sew \<longleftrightarrow> n \<in> {1, 2, 4, 8} \<and> sew = of_nat (8 * n)"

lemma read_element: "width_ok n sew \<Longrightarrow>
  getSewSingleOperand sew r i (with_regs s R) = (Inr (vread n (vreg_off n r i) R), with_regs s R)"
  by (auto simp: width_ok_def getSewSingleOperand_def monad_simps element_access)

lemma write_element: "width_ok n sew \<Longrightarrow>
  writeSewSingleOperand sew r i v (with_regs s R) = (Inr (), with_regs s (vwrite n (vreg_off n r i) v R))"
  by (auto simp: width_ok_def writeSewSingleOperand_def monad_simps element_access)

definition mask_bit :: "nat \<Rightarrow> u8 list \<Rightarrow> bool" where
  "mask_bit i R \<longleftrightarrow> bit (vread 8 (8 * (i div 64)) R) (i mod 64)"

lemma mask_element: "mask_elem 0 i (with_regs s R) = (Inr (of_bool (mask_bit (unat i) R)), with_regs s R)"
proof -
  have "width_ok 8 64" by (simp add: width_ok_def)
  moreover have "vreg_off 8 0 (i div 64) = 8 * (unat i div 64)"
    by (simp add: vreg_off_eq unat_div)
  ultimately show ?thesis
    by (simp add: mask_elem_def getCarryElements_def monad_simps read_element mask_bit_def unat_mod
      and_one_eq bit_iff_odd_drop_bit mod_2_eq_odd)
qed


text \<open>The first operand of element \<open>i\<close>: an element, an immediate or a scalar register.\<close>

definition first_operand :: "param_sel_t \<Rightarrow> nat \<Rightarrow> u64 \<Rightarrow> bool \<Rightarrow> 'd iss \<Rightarrow> u64 \<Rightarrow> u8 list \<Rightarrow> u64" where
  "first_operand sel n sew sg s i R =
     (case sel of
        sel_vi \<Rightarrow> if sg then signExtend (ucast (rs1 (instr s))) 5 else ucast (rs1 (instr s))
      | sel_vx \<Rightarrow> (let x = iss_reg_read (rs1 (instr s)) s AND getMask sew
                   in if sg then signExtend x sew else x)
      | _ \<Rightarrow> vread n (vreg_off n (ucast (rs1 (instr s))) i) R)"

lemma operands:
  assumes "getSignedEew s = (sew, vd_signed, sew, op2_signed, sew, op1_signed)" "width_ok n sew"
    and "param_sel (v_ext s) \<in> {sel_vv, sel_vx, sel_vi}"
  shows "getOperands i (with_regs s R) =
    (Inr (first_operand (param_sel (v_ext s)) n sew op1_signed s i R, vread n (vreg_off n (ucast (rs2 (instr s))) i) R),
     with_regs s R)"
  using assms(3)
  by (auto simp: getOperands_def getOperandsRed_def monad_simps assms(1) read_element [OF assms(2)] first_operand_def Let_def)

definition active :: "'d iss \<Rightarrow> nat \<Rightarrow> u8 list \<Rightarrow> bool" where
  "active s i R \<longleftrightarrow> unat (csrs s csr_vstart) \<le> i \<and> (vm (instr s) = 0 \<longrightarrow> mask_bit i R)"

lemma inactive: "i < vl \<Longrightarrow>
  vInactiveHandling i vl (with_regs s R) = (Inr (\<not> active s (unat i) R), with_regs s R)"
  by (auto simp: vInactiveHandling_def monad_simps mask_element active_def word_less_nat_alt word_le_nat_alt unat_u32_u64)

lemma loop_acc_fold:
  assumes "\<And>i R. i \<in> set is \<Longrightarrow> f (of_nat i) () (with_regs s R) = (Inr (), with_regs s (step i R))"
  shows "loop_acc is f () (with_regs s R) = (Inr (), with_regs s (fold step is R))"
  using assms by (induction "is" arbitrary: R) (auto simp: monad_simps)


text \<open>A function of the elements alone, as the arithmetic of the source is for given widths and signs.\<close>

definition elem_fun :: "eews \<Rightarrow> (u64 \<Rightarrow> u64 \<Rightarrow> ('d iss, u64) M) \<Rightarrow> (u64 \<Rightarrow> u64 \<Rightarrow> u64) \<Rightarrow> bool" where
  "elem_fun w func g \<longleftrightarrow> (\<forall>x y t. getSignedEew t = w \<longrightarrow> func x y t = (Inr (g x y), t))"

abbreviation (input) element_at :: "nat \<Rightarrow> u32 \<Rightarrow> nat \<Rightarrow> nat" where
  "element_at n r i \<equiv> vreg_off n (ucast r) (of_nat i)"

definition select :: "elem_sel_t \<Rightarrow> param_sel_t \<Rightarrow> 'd iss \<Rightarrow> 'd iss" where
  "select e p s = vx_upd (\<lambda>x. x\<lparr>elem_sel := e, param_sel := p\<rparr>) s"

definition loop_value :: "(u64 \<Rightarrow> u64 \<Rightarrow> u64) \<Rightarrow> param_sel_t \<Rightarrow> nat \<Rightarrow> u64 \<Rightarrow> bool \<Rightarrow> 'd iss \<Rightarrow> nat \<Rightarrow> u8 list \<Rightarrow> u64" where
  "loop_value g p n sew sg s i R =
     g (vread n (element_at n (rs2 (instr s)) i) R) (first_operand p n sew sg s (of_nat i) R)"

lemma loop_body:
  assumes eew: "getSignedEew s = (sew, vd_signed, sew, op2_signed, sew, op1_signed)" "width_ok n sew"
    and p: "param_sel (v_ext s) \<in> {sel_vv, sel_vx, sel_vi}" and g: "elem_fun (getSignedEew s) func g"
    and i: "of_nat i < vl" "unat (of_nat i :: u64) = i"
  shows "bindM (vInactiveHandling (of_nat i) vl) (\<lambda>is_inactive. if is_inactive then ret ()
      else bindM (getOperands (of_nat i)) (\<lambda>(op1, op2). bindM (func op2 op1) (\<lambda>r. writeGeneric r (of_nat i))))
     (with_regs s R) =
   (Inr (), with_regs s (loop_step n (element_at n (rd (instr s))) (active s)
      (loop_value g (param_sel (v_ext s)) n sew op1_signed s) i R))"
proof -
  have "func x y (with_regs s R) = (Inr (g x y), with_regs s R)" for x y R
    using g by (simp add: elem_fun_def)
  then show ?thesis
    using i by (simp add: monad_simps inactive operands [OF eew p] writeGeneric_def eew(1) write_element [OF eew(2)]
      loop_step_def loop_value_def)
qed

lemma small_index:
  assumes "i < unat (x :: u32)"
  shows "unat (of_nat i :: u64) = i" "of_nat i < (ucast x :: u64)"
proof -
  have "i < 2 ^ 32" using assms unsigned_less [of x, where 'a = nat] by simp
  then show "unat (of_nat i :: u64) = i" by (simp add: unat_of_nat take_bit_nat_eq_self)
  then show "of_nat i < (ucast x :: u64)" using assms by (simp add: word_less_nat_alt unat_u32_u64)
qed

lemma vLoop_fold:
  fixes s :: "'d iss" and e p
  defines "t \<equiv> select e p s"
  assumes checks: "applyChecks t = (Inr (), t')"
    and eew: "getSignedEew t = (sew, vd_signed, sew, op2_signed, sew, op1_signed)" "width_ok n sew"
    and p: "p \<in> {sel_vv, sel_vx, sel_vi}" and g: "elem_fun (getSignedEew t) func g"
  shows "vLoop func e p s = (Inr (), csr_upd csr_vstart 0 (with_regs t
    (fold (loop_step n (element_at n (rd (instr s))) (active t) (loop_value g p n sew op1_signed t))
       [0..<unat (csrs s csr_vl)] (v_regs (v_ext s)))))"
proof -
  have t: "param_sel (v_ext t) = p" "instr t = instr s" "csrs t = csrs s" "v_regs (v_ext t) = v_regs (v_ext s)"
    by (simp_all add: t_def select_def vx_upd_def)
  note body = loop_body [OF eew _ g, unfolded t, OF p]
  have "loop_acc [0..<unat (csrs s csr_vl)] (\<lambda>i a. bindM (vInactiveHandling i (ucast (csrs s csr_vl))) (\<lambda>is_inactive. if is_inactive then ret a
      else bindM (getOperands i) (\<lambda>(op1, op2). bindM (func op2 op1) (\<lambda>r. writeGeneric r i)))) ()
     (with_regs t (v_regs (v_ext s))) = (Inr (), with_regs t (fold (loop_step n (element_at n (rd (instr s))) (active t) (loop_value g p n sew op1_signed t))
       [0..<unat (csrs s csr_vl)] (v_regs (v_ext s))))"
    by (intro loop_acc_fold body) (simp_all add: small_index)
  moreover have "with_regs t (v_regs (v_ext s)) = t" by (simp flip: t(4))
  ultimately show ?thesis
    using checks applyChecks_state [OF checks]
    by (simp add: vLoop_def genericVLoop_def monad_simps t(3) unat_u32_u64 flip: select_def t_def)
qed


section \<open>Elementwise results\<close>

lemma same_element:
  assumes "(2 :: nat) ^ k dvd r" "2 ^ k dvd r'" "i div per < 2 ^ k" "j div per < 2 ^ k" "r * per + i = r' * per + j"
    and "0 < per"
  shows "i = j"
proof -
  have "i < 2 ^ k * per" "j < 2 ^ k * per"
    using assms(3,4,6) by (simp_all add: div_less_iff_less_mult)
  moreover obtain q q' where "r = 2 ^ k * q" "r' = 2 ^ k * q'" using assms(1,2) by (auto elim!: dvdE)
  then have "(q * (2 ^ k * per) + i) mod (2 ^ k * per) = (q' * (2 ^ k * per) + j) mod (2 ^ k * per)"
    using assms(5) by (simp add: mult_ac)
  ultimately show ?thesis by simp
qed

lemma different_elements:
  assumes "n \<in> {1, 2, 4, 8}" "2 ^ k dvd unat r" "2 ^ k dvd unat r'" "unat i div (64 div n) < 2 ^ k"
    and "unat j div (64 div n) < 2 ^ k" "unat i \<noteq> unat j"
  shows "vreg_off n r i + n \<le> vreg_off n r' j \<or> vreg_off n r' j + n \<le> vreg_off n r i"
proof (rule elements_disjoint [OF assms(1)])
  have "0 < 64 div n" "0 < n" using assms(1) by auto
  then show "vreg_off n r i \<noteq> vreg_off n r' j"
    using same_element [OF assms(2-5)] assms(6) by (auto simp: vreg_off_eq [OF assms(1)])
qed

lemma bytes_of_word: "bytes_to_word (word_to_bytes n w) = take_bit (8 * n) (w :: 'a::len word)"
proof (induction n arbitrary: w)
  case (Suc n)
  show ?case by (rule bit_eqI) (auto simp: Suc bit_simps)
qed simp

text \<open>What \<^verbatim>\<open>prepInstr\<close> leaves of the settings.\<close>

definition prepared :: "vext \<Rightarrow> bool" where
  "prepared x \<longleftrightarrow> vd_eew_overwrite x = 0 \<and> o1_eew_overwrite x = 0 \<and> o2_eew_overwrite x = 0 \<and>
     require_vd_not_v0 x \<and> \<not> ignoreAlignment x \<and> \<not> vd_is_mask x \<and> \<not> vs1_is_mask x \<and> \<not> vs2_is_mask x \<and>
     \<not> vd_is_scalar x \<and> \<not> vs1_is_scalar x"

lemma single_width:
  assumes "prepared (v_ext s)" "elem_sel (v_ext s) \<in> {xxxuuu, xxxuus, xxxssu, xxxsss}" "applyChecks s = (Inr (), s')"
  obtains vd_signed op2_signed where
    "getSignedEew s = (getIntVSew s, vd_signed, getIntVSew s, op2_signed, getIntVSew s, bit (elem_sel_bits (elem_sel (v_ext s))) 0)"
    "width_ok (unat (getIntVSew s) div 8) (getIntVSew s)"
proof -
  have eew: "getSignedEew s = (getIntVSew s, bit (elem_sel_bits (elem_sel (v_ext s))) 2, getIntVSew s,
      bit (elem_sel_bits (elem_sel (v_ext s))) 1, getIntVSew s, bit (elem_sel_bits (elem_sel (v_ext s))) 0)"
    using assms(1,2) by (auto simp: getSignedEew_def prepared_def Let_def)
  moreover have "width_ok (unat (getIntVSew s) div 8) (getIntVSew s)"
    using applyChecks_eews [OF assms(3) eew] getIntVSew_cases [of s] by (auto simp: width_ok_def)
  ultimately show ?thesis by (rule that)
qed

lemma vd_not_v0:
  assumes "applyChecks s = (Inr x, s')" "require_vd_not_v0 (v_ext s)" "vm (instr s) = 0"
  shows "rd (instr s) \<noteq> 0"
proof -
  obtain vd_eew vd_signed o2_eew o2_signed o1_eew o1_signed
    where eew: "getSignedEew s = (vd_eew, vd_signed, o2_eew, o2_signed, o1_eew, o1_signed)" by (metis prod_cases6)
  note start = assms(1) [unfolded applyChecks_def bindM_simp getsM_simp prod.case sum.case eew Let_def]
  show ?thesis
    using when_assert_holds [OF v_assert_holds [OF start, THEN conjunct2]] assms(2,3) by simp
qed


lemma mask_frame:
  assumes "n \<in> {1, 2, 4, 8}" "rd (w :: u32) \<noteq> 0" "i < 512" "length R = NUM_REGS * VLENB"
    and "same_outside n (element_at n (rd w)) k R R'"
  shows "mask_bit i R' = mask_bit i R"
proof -
  have "64 \<le> element_at n (rd w) j" for j
  proof -
    have "1 \<le> unat (rd w)" using assms(2) by (simp add: unat_gt_0 Suc_le_eq)
    then have "1 * (64 div n) * n \<le> (unat (rd w) * (64 div n) + unat (of_nat j :: u64)) * n"
      by (intro mult_le_mono1 trans_le_add1) simp
    then show ?thesis using assms(1) by (auto simp: vreg_off_eq unat_u32_u64)
  qed
  moreover have "i div 64 < 8" using assms(3) by (simp add: div_less_iff_less_mult)
  then have "8 * (i div 64) + 8 \<le> 64" by linarith
  ultimately have "8 * (i div 64) + 8 \<le> element_at n (rd w) j" for j by (meson order.trans)
  then have "vread 8 (8 * (i div 64)) R' = vread 8 (8 * (i div 64)) R"
    using assms(4) \<open>i div 64 < 8\<close> by (intro same_outside_read [OF assms(5)]) (auto simp: NUM_REGS_def VLENB_def)
  then show ?thesis by (simp add: mask_bit_def)
qed

text \<open>An operand of the loop is not changed by the elements written before it is read.\<close>

lemma operand_frame:
  assumes "n \<in> {1, 2, 4, 8}" "2 ^ k dvd unat r" "2 ^ k dvd unat (rd w)" "k \<le> 3" "unat r < 32" "length R = NUM_REGS * VLENB"
    and "\<And>j. j \<le> i \<Longrightarrow> unat (of_nat j :: u64) = j \<and> j div (64 div n) < 2 ^ k"
    and "same_outside n (element_at n (rd w)) i R R'"
  shows "vread n (element_at n r i) R' = vread n (element_at n r i) R"
proof (rule same_outside_read [OF assms(8)])
  show "element_at n r i + n \<le> length R"
    using access_in_group [OF assms(1), of "ucast r" "2 ^ k" "of_nat i"] dvd_fits [OF assms(2,5,4)] assms(6,7)
    by (simp add: unat_u32_u64)
  show "element_at n r i + n \<le> element_at n (rd w) j \<or> element_at n (rd w) j + n \<le> element_at n r i" if "j < i" for j
    using that assms(2,3,7) by (intro different_elements [OF assms(1), of k]) (simp_all add: unat_u32_u64)
qed


lemma loop_frame:
  assumes n: "n \<in> {1, 2, 4, 8}" and k: "k \<le> 3"
    and dvd: "2 ^ k dvd unat (rd (instr s))" "2 ^ k dvd unat (rs2 (instr s))" "p = sel_vv \<Longrightarrow> 2 ^ k dvd unat (rs1 (instr s))"
    and v0: "vm (instr s) = 0 \<Longrightarrow> rd (instr s) \<noteq> 0" and R: "length R = NUM_REGS * VLENB"
    and i: "i < 512" "\<And>j. j \<le> i \<Longrightarrow> unat (of_nat j :: u64) = j \<and> j div (64 div n) < 2 ^ k"
    and p: "p \<in> {sel_vv, sel_vx, sel_vi}" and out: "same_outside n (element_at n (rd (instr s))) i R R'"
  shows "active s i R' = active s i R \<and> loop_value g p n sew sg s i R' = loop_value g p n sew sg s i R"
proof -
  have "mask_bit i R' = mask_bit i R" if "vm (instr s) = 0"
    using mask_frame [OF n v0 i(1) R out] that by simp
  then have "active s i R' = active s i R" by (auto simp: active_def)
  moreover note frame = operand_frame [OF n _ dvd(1) k _ R i(2) out]
  have "vread n (element_at n (rs2 (instr s)) i) R' = vread n (element_at n (rs2 (instr s)) i) R"
    by (rule frame [OF dvd(2) register_fields(3)])
  moreover have "vread n (element_at n (rs1 (instr s)) i) R' = vread n (element_at n (rs1 (instr s)) i) R" if "p = sel_vv"
    by (rule frame [OF dvd(3) [OF that] register_fields(2)])
  ultimately show ?thesis
    using p by (auto simp: loop_value_def first_operand_def)
qed

lemma checked_groups:
  assumes "prepared (v_ext s)" "applyChecks s = (Inr (), s')"
    and eew: "getSignedEew s = (sew, vd_signed, sew, op2_signed, sew, op1_signed)" and w: "width_ok n sew"
    and sew: "getIntVSew s = sew" and vl: "unat (csrs s csr_vl) \<le> vtype_vlmax (ucast (csrs s csr_vtype))"
  obtains k where "k \<le> 3" "2 ^ k dvd unat (rd (instr s))" "2 ^ k dvd unat (rs2 (instr s))"
    "param_sel (v_ext s) = sel_vv \<Longrightarrow> 2 ^ k dvd unat (rs1 (instr s))"
    "\<And>i. i < unat (csrs s csr_vl) \<Longrightarrow> unat (of_nat i :: u64) = i \<and> i div (64 div n) < 2 ^ k"
proof -
  have n: "n \<in> {1, 2, 4, 8}" and u_sew: "u_rat sew = rat_of_nat (8 * n)" using w by (auto simp: width_ok_def u_rat_def)
  have "\<not> ignoreAlignment (v_ext s)" and flags: "\<not> vd_is_mask (v_ext s)" "\<not> vs1_is_mask (v_ext s)" "\<not> vs2_is_mask (v_ext s)"
    "\<not> vd_is_scalar (v_ext s)" "\<not> vs1_is_scalar (v_ext s)"
    using assms(1) by (simp_all add: prepared_def)
  note groups = applyChecks_groups [OF assms(2) this(1) eew, unfolded sew u_sew]
  obtain k where k: "k \<le> 3"
    "\<And>r. v_is_aligned r (trunc_u64 (getVlmul s * rat_of_nat (8 * n) / rat_of_nat (8 * n))) \<Longrightarrow> 2 ^ k dvd unat r"
    "\<And>i :: u64. i < ucast (csrs s csr_vl) \<Longrightarrow> unat i div (64 div n) < 2 ^ k"
    using group_size [OF n, of s, unfolded sew u_sew] groups(2) flags vl by blast
  show thesis
  proof (rule that [OF k(1)])
    show "2 ^ k dvd unat (rd (instr s))" "2 ^ k dvd unat (rs2 (instr s))"
      "param_sel (v_ext s) = sel_vv \<Longrightarrow> 2 ^ k dvd unat (rs1 (instr s))"
      using k(2) [OF conjunct2 [OF groups(1)]] k(2) [OF conjunct2 [OF groups(2)]] k(2) [OF conjunct2 [OF groups(3)]] flags
      by (simp_all only: unat_u32_u64 not_False_eq_True)
    show "unat (of_nat i :: u64) = i \<and> i div (64 div n) < 2 ^ k" if "i < unat (csrs s csr_vl)" for i
      using k(3) [of "of_nat i"] small_index [OF that] by simp
  qed
qed

text \<open>
  C16. Single-width vector instructions (the loop \<^verbatim>\<open>vLoop\<close> with operands vector-vector, vector-scalar or
  vector-immediate, after \<^verbatim>\<open>prepInstr\<close>, the checks passed and \<^verbatim>\<open>vl\<close> at most VLMAX) work elementwise on the operands
  as they were before the instruction, although the source reads and writes one register file element by
  element and the groups may overlap: every element from \<^verbatim>\<open>vstart\<close> below \<^verbatim>\<open>vl\<close> whose mask bit is set, or that is not
  masked, becomes the function of the two old elements, reduced to the element width; every other element of
  the destination group and every byte outside of it keeps its value; \<^verbatim>\<open>vstart\<close> is reset. The loop always returns.
\<close>

theorem vector_loop_elementwise:
  fixes s :: "'d iss"
  assumes "e \<in> {xxxuuu, xxxuus, xxxssu, xxxsss}" "p \<in> {sel_vv, sel_vx, sel_vi}"
    and "prepared (v_ext s)" "applyChecks (select e p s) = (Inr (), t)"
    and "unat (csrs s csr_vl) \<le> vtype_vlmax (ucast (csrs s csr_vtype))" "length (v_regs (v_ext s)) = NUM_REGS * VLENB"
    and "elem_fun (getSignedEew (select e p s)) func g"
    and "sew = getIntVSew s" "n = unat sew div 8" "R = v_regs (v_ext s)" "dst = element_at n (rd (instr s))"
  shows "\<exists>R'. vLoop func e p s = (Inr (), csr_upd csr_vstart 0 (with_regs (select e p s) R')) \<and>
    same_outside n dst (unat (csrs s csr_vl)) R R' \<and>
    (\<forall>i < unat (csrs s csr_vl). vread n (dst i) R' =
       (if active s i R
        then take_bit (unat sew) (g (vread n (element_at n (rs2 (instr s)) i) R)
               (first_operand p n sew (bit (elem_sel_bits e) 0) s (of_nat i) R))
        else vread n (dst i) R))"
proof -
  let ?t = "select e p s" and ?N = "unat (csrs s csr_vl)"
  have t: "param_sel (v_ext ?t) = p" "instr ?t = instr s" "csrs ?t = csrs s" "elem_sel (v_ext ?t) = e"
    "prepared (v_ext ?t)" "getIntVSew ?t = sew" "iss_reg_read r ?t = iss_reg_read r s" for r
    using assms(3,8) by (simp_all add: select_def vx_upd_def prepared_def getIntVSew_def csr_fget_def iss_reg_read_def reg_def)
  obtain vs os where eew: "getSignedEew ?t = (sew, vs, sew, os, sew, bit (elem_sel_bits e) 0)"
    and w: "width_ok n sew"
    using single_width [OF t(5) _ assms(4)] assms(1,9) unfolding t by blast
  have n: "n \<in> {1, 2, 4, 8}" and sew: "unat sew = 8 * n" using w by (auto simp: width_ok_def)
  obtain k where k: "k \<le> 3" "2 ^ k dvd unat (rd (instr s))" "2 ^ k dvd unat (rs2 (instr s))"
    "p = sel_vv \<Longrightarrow> 2 ^ k dvd unat (rs1 (instr s))"
    "\<And>i. i < ?N \<Longrightarrow> unat (of_nat i :: u64) = i \<and> i div (64 div n) < 2 ^ k"
    using checked_groups [OF t(5) assms(4) eew w t(6), unfolded t, OF assms(5)] by blast
  have v0: "vm (instr s) = 0 \<Longrightarrow> rd (instr s) \<noteq> 0"
    using vd_not_v0 [OF assms(4)] t(2,5) by (simp add: prepared_def)
  have R: "length R = NUM_REGS * VLENB" using assms(6,10) by simp
  have dst: "dst i + n \<le> length R" if "i < ?N" for i
    using access_in_group [OF n, of "ucast (rd (instr s))" "2 ^ k" "of_nat i"] dvd_fits [OF k(2) register_fields(1) k(1)] k(5) [OF that]
    by (simp add: assms(11) R unat_u32_u64)
  have disj: "dst i + n \<le> dst j \<or> dst j + n \<le> dst i" if "i < ?N" "j < ?N" "i \<noteq> j" for i j
    using that k(2,5) unfolding assms(11) by (intro different_elements [OF n, of k]) (simp_all add: unat_u32_u64)
  have frame: "active ?t i R' = active ?t i R \<and> (active ?t i R \<longrightarrow>
      loop_value g p n sew (bit (elem_sel_bits e) 0) ?t i R' = loop_value g p n sew (bit (elem_sel_bits e) 0) ?t i R)"
    if "i < ?N" "same_outside n dst i R R'" for i R'
  proof -
    have "i < 512" using that(1) assms(5) vlmax_bound [of "ucast (csrs s csr_vtype)"] by linarith
    moreover have "\<And>j. j \<le> i \<Longrightarrow> unat (of_nat j :: u64) = j \<and> j div (64 div n) < 2 ^ k"
      using k(5) that(1) by (metis order.strict_trans1)
    ultimately show ?thesis
      using loop_frame [OF n k(1), of ?t p R i, unfolded t, OF k(2-4) v0 R _ _ assms(2) that(2) [unfolded assms(11)]] by blast
  qed
  have "active ?t i R = active s i R"
    "loop_value g p n sew (bit (elem_sel_bits e) 0) ?t i R = g (vread n (element_at n (rs2 (instr s)) i) R)
               (first_operand p n sew (bit (elem_sel_bits e) 0) s (of_nat i) R)" for i
    unfolding active_def loop_value_def first_operand_def t by (rule refl)+
  then show ?thesis
    using vLoop_fold [OF assms(4) eew w assms(2,7)] loop_elementwise [of ?N dst n R "active ?t" "loop_value g p n sew (bit (elem_sel_bits e) 0) ?t" ?N,
      OF dst disj frame order.refl]
    by (auto simp: assms(10,11) bytes_of_word sew)
qed


lemma vAdd_elem_fun: "elem_fun (w, False, w2) vAdd (+)"
  by (cases w2 rule: prod_cases4) (simp add: elem_fun_def vAdd_def with_eew_def monad_simps)

text \<open>\<^verbatim>\<open>vadd.vv v2, v4, v6\<close> after \<^verbatim>\<open>prepInstr\<close>, with a register file full of threes.\<close>

definition vadd_ready :: hart_soc where
  "vadd_ready = vx_upd (\<lambda>x. x\<lparr>require_vd_not_v0 := True, v_regs := replicate (NUM_REGS * VLENB) 3\<rparr>) vadd_hart"

lemma vadd_ready_simps:
  "instr vadd_ready = instr vadd_hart" "csrs vadd_ready = csrs vadd_hart"
  "v_ext vadd_ready = VExtension\<lparr>require_vd_not_v0 := True, v_regs := replicate (NUM_REGS * VLENB) 3\<rparr>"
  "select xxxuuu sel_vv vadd_ready = vadd_ready"
  by (simp_all add: vadd_ready_def vx_upd_def vadd_hart_simps select_def VExtension_def)

lemma vadd_ready_settings: "getIntVSew vadd_ready = 32" "getVlmul vadd_ready = 2"
  "getSignedEew vadd_ready = (32, False, 32, False, 32, False)"
  using vadd_hart_settings
  by (simp_all add: getIntVSew_def getVlmul_def getSignedEew_def csr_fget_def vadd_ready_simps vadd_hart_simps VExtension_def Let_def)

lemma vadd_ready_checks: "applyChecks vadd_ready = (Inr (), vadd_ready)"
  by (simp add: applyChecks_def monad_simps vadd_ready_settings vadd_ready_simps vadd_hart_simps v_assert_def Let_def whenM_def
    VExtension_def u_rat_def vreg_overlap_valid_def trunc_u64_def v_is_aligned_def)

lemma vread_threes:
  assumes "off + 4 \<le> NUM_REGS * VLENB"
  shows "vread 4 off (replicate (NUM_REGS * VLENB) 3) = 0x03030303"
proof -
  have "take 4 (drop off (replicate (NUM_REGS * VLENB) 3)) = replicate 4 (3 :: u8)"
    using assms by (intro nth_equalityI) auto
  also have "\<dots> = [3, 3, 3, 3]" by code_simp
  finally show ?thesis by (simp add: vread_def)
qed

theorem vector_loop_elementwise_witness:
  "\<exists>R'. vLoop vAdd xxxuuu sel_vv vadd_ready = (Inr (), csr_upd csr_vstart 0 (with_regs vadd_ready R')) \<and>
     vread 4 (vreg_off 4 2 31) R' = 0x06060606"
proof -
  let ?R = "v_regs (v_ext vadd_ready)" and ?s = vadd_ready
  have R: "?R = replicate (NUM_REGS * VLENB) 3" by (simp add: vadd_ready_simps)
  have "csrs ?s csr_vstart = 0"
    by (simp add: vadd_ready_simps vadd_hart_def vector_hart_def tiny_init_def iss_init_def ISS_CT_def csr_table_init_def csr_upd_def vx_upd_def)
  then have act: "active ?s 31 ?R"
    by (simp add: active_def vadd_ready_simps vadd_hart_simps)
  have n: "unat (getIntVSew ?s) = 32" "32 div 8 = (4 :: nat)" by (simp_all add: vadd_ready_settings)
  have fields: "rd (instr ?s) = 2" "rs2 (instr ?s) = 4" "rs1 (instr ?s) = 6" "unat (csrs ?s csr_vl) = 32"
    by (simp_all add: vadd_ready_simps vadd_hart_simps)
  have prep: "prepared (v_ext ?s)" by (simp add: prepared_def vadd_ready_simps VExtension_def)
  have fn: "elem_fun (getSignedEew (select xxxuuu sel_vv ?s)) vAdd (+)"
    by (simp add: vadd_ready_simps vadd_ready_settings vAdd_elem_fun)
  have vl: "unat (csrs ?s csr_vl) \<le> vtype_vlmax (ucast (csrs ?s csr_vtype))" and len: "length ?R = NUM_REGS * VLENB"
    by (simp_all add: vadd_ready_simps vadd_hart_simps vadd_hart_settings)
  have checks: "applyChecks (select xxxuuu sel_vv ?s) = (Inr (), ?s)" by (simp add: vadd_ready_simps vadd_ready_checks)
  obtain R' where R': "vLoop vAdd xxxuuu sel_vv ?s = (Inr (), csr_upd csr_vstart 0 (with_regs ?s R'))"
    and "\<forall>i < 32. vread 4 (element_at 4 2 i) R' = (if active ?s i ?R
      then take_bit 32 (vread 4 (element_at 4 4 i) ?R + first_operand sel_vv 4 (getIntVSew ?s) (bit (elem_sel_bits xxxuuu) 0) ?s (of_nat i) ?R)
      else vread 4 (element_at 4 2 i) ?R)"
    using vector_loop_elementwise [OF insertI1 insertI1 prep checks vl len fn refl refl refl refl, unfolded vadd_ready_simps(4) n fields]
    by (elim exE conjE) (rule that)
  then have "vread 4 (vreg_off 4 2 31) R' = take_bit 32 (vread 4 (vreg_off 4 4 31) ?R + vread 4 (vreg_off 4 6 31) ?R)"
    using act by (auto simp: first_operand_def fields dest: spec [of _ 31])
  also have "\<dots> = 0x06060606"
    unfolding R by (simp add: vread_threes [unfolded VLENB_def NUM_REGS_def, simplified] vreg_off_def VLENB_def NUM_REGS_def)
  finally show ?thesis using R' by blast
qed

end
