(* ===== verification/VP_DBB.thy ===== *)
theory VP_DBB
  imports VP_State
begin

text \<open>
  The dynamic basic block cache \<^verbatim>\<open>DBBCache_T\<close> of \<^verbatim>\<open>vp/src/core/common/dbbcache.h\<close>, the default
  fetch/decode unit of the harts, for RV32. Blocks live in a store indexed by block references,
  \<^verbatim>\<open>Entry *\<close> pointers are pairs of a block reference and an index into its array of entries (which
  may be \<open>-1\<close>, as in the source), and \<^verbatim>\<open>Block *\<close> pointers are block references. The labels of the
  operations are the operations themselves, and \<open>None\<close> is \<^verbatim>\<open>fast_abort_labelPtr\<close>. Memory fresh from
  \<^verbatim>\<open>malloc\<close> is modelled by \<open>blank_entry\<close>. The variables \<^verbatim>\<open>pc\<close> and \<^verbatim>\<open>instr\<close> of the hart, which the
  fetch functions take by reference, are the fields \<open>d_pc\<close> and \<open>d_instr\<close>; the instruction memory is
  a parameter \<open>L\<close> of the fetch functions, over a state of its own in \<open>d_imem\<close>.
\<close>

section \<open>Entries, link caches and blocks\<close>

datatype bref = dummyBlock | fastDisableBlock | Heap_block nat

record dbb_entry =
  e_link :: "bref option"
  e_op :: "OpId option"
  e_pc :: u32
  e_cycles :: u32
  e_mem_word :: u32
  e_instr :: u32
  e_inc :: u16
  e_idx :: u16

definition blank_entry :: dbb_entry where
  "blank_entry = \<lparr>e_link = None, e_op = None, e_pc = 0, e_cycles = 0, e_mem_word = 0, e_instr = 0,
     e_inc = 0, e_idx = 0\<rparr>"

definition set_terminal :: "dbb_entry \<Rightarrow> dbb_entry" where
  "set_terminal e = e\<lparr>e_op := None\<rparr>"

definition is_terminal :: "dbb_entry \<Rightarrow> bool" where
  "is_terminal e \<longleftrightarrow> e_op e = None"

definition pc_is_valid :: "u32 \<Rightarrow> bool" where
  "pc_is_valid p \<longleftrightarrow> p AND 1 = 0"

definition INVALID_PC :: u32 where
  "INVALID_PC = 0 - 1"

text \<open>\<^verbatim>\<open>Entry::check\<close>, without its messages.\<close>

definition entry_check :: "dbb_entry \<Rightarrow> bool" where
  "entry_check e \<longleftrightarrow> is_terminal e \<or> (pc_is_valid (e_pc e) \<and> (e_inc e = 2 \<or> e_inc e = 4))"

text \<open>
  \<^verbatim>\<open>BlockLinkCache_T\<close>: \<open>reset\<close> invalidates the addresses and leaves the block pointers alone;
  \<open>None\<close> stands for a pointer that was never assigned.
\<close>

record link_cache =
  lc_pc :: "u32 list"
  lc_block :: "bref option list"
  lc_curIdx :: nat

definition lc_new :: "nat \<Rightarrow> link_cache" where
  "lc_new n = \<lparr>lc_pc = replicate n INVALID_PC, lc_block = replicate n None, lc_curIdx = 0\<rparr>"

definition lc_reset :: "link_cache \<Rightarrow> link_cache" where
  "lc_reset c = c\<lparr>lc_pc := map (\<lambda>_. INVALID_PC) (lc_pc c), lc_curIdx := 0\<rparr>"

definition lc_set :: "nat \<Rightarrow> u32 \<Rightarrow> bref \<Rightarrow> link_cache \<Rightarrow> link_cache" where
  "lc_set i p b c = c\<lparr>lc_pc := (lc_pc c)[i := p], lc_block := (lc_block c)[i := Some b]\<rparr>"

fun lc_search :: "u32 \<Rightarrow> u32 list \<Rightarrow> bref option list \<Rightarrow> bref option" where
  "lc_search p (q # qs) (b # bs) = (if q = p then b else lc_search p qs bs)"
| "lc_search p _ _ = None"

definition lc_find :: "u32 \<Rightarrow> link_cache \<Rightarrow> bref option" where
  "lc_find p c = lc_search p (lc_pc c) (lc_block c)"

definition lc_add :: "u32 \<Rightarrow> bref \<Rightarrow> link_cache \<Rightarrow> link_cache" where
  "lc_add p b c =
     (let c = lc_set (lc_curIdx c) p b c;
          c = c\<lparr>lc_curIdx := lc_curIdx c + 1\<rparr>
      in if lc_curIdx c = length (lc_pc c) then c\<lparr>lc_curIdx := 0\<rparr> else c)"

definition lc_n_dirty :: "link_cache \<Rightarrow> nat" where
  "lc_n_dirty c = length (filter pc_is_valid (lc_pc c))"

record dbb_block =
  b_start_addr :: u32
  b_alloc_len :: nat
  b_len :: nat
  b_entries :: "dbb_entry list"
  b_jumpDynLinkCache :: link_cache
  b_coherence_cnt :: u32

definition N_ENTRIES_START :: nat where "N_ENTRIES_START = 2"
definition JUMPDYNLINKCACHE_SIZE :: nat where "JUMPDYNLINKCACHE_SIZE = 16"
definition TRAPLINKCACHE_SIZE :: nat where "TRAPLINKCACHE_SIZE = 8"

text \<open>\<^verbatim>\<open>entries[i]\<close>; the proofs show that every access of the code is inside the allocation.\<close>

definition entry_at :: "dbb_block \<Rightarrow> int \<Rightarrow> dbb_entry" where
  "entry_at B i = (if 0 \<le> i \<and> nat i < length (b_entries B) then b_entries B ! nat i else blank_entry)"

definition put_entry :: "int \<Rightarrow> (dbb_entry \<Rightarrow> dbb_entry) \<Rightarrow> dbb_block \<Rightarrow> dbb_block" where
  "put_entry i f B = B\<lparr>b_entries := (b_entries B)[nat i := f (entry_at B i)]\<rparr>"

definition block_invalidate_links :: "dbb_block \<Rightarrow> dbb_block" where
  "block_invalidate_links B =
     B\<lparr>b_jumpDynLinkCache := lc_reset (b_jumpDynLinkCache B),
       b_entries := map (\<lambda>e. e\<lparr>e_link := None\<rparr>) (take (b_len B) (b_entries B)) @ drop (b_len B) (b_entries B)\<rparr>"

text \<open>\<^verbatim>\<open>Block::Block\<close> and \<^verbatim>\<open>Block::init\<close>.\<close>

definition block_init :: "u32 \<Rightarrow> u32 \<Rightarrow> dbb_block" where
  "block_init p cnt =
     block_invalidate_links
       \<lparr>b_start_addr = p, b_alloc_len = N_ENTRIES_START, b_len = 0,
        b_entries = (replicate N_ENTRIES_START blank_entry)
          [0 := set_terminal (blank_entry\<lparr>e_idx := 0, e_pc := p, e_cycles := 0\<rparr>)],
        b_jumpDynLinkCache = lc_new JUMPDYNLINKCACHE_SIZE, b_coherence_cnt = cnt\<rparr>"

text \<open>
  \<^verbatim>\<open>Block::check\<close>: as in the source, each \<^verbatim>\<open>ok = entries[idx].check(..)\<close> overwrites what was found
  before it.
\<close>

definition block_check :: "dbb_block \<Rightarrow> bool" where
  "block_check B =
     (let ok = fold (\<lambda>i ok. entry_check (entry_at B (int i))) [0..<b_len B] True
      in ok \<and> is_terminal (entry_at B (int (b_len B))))"

definition n_links_dirty :: "dbb_block \<Rightarrow> nat" where
  "n_links_dirty B = length (filter (\<lambda>i. e_link (entry_at B (int i)) \<noteq> None) [0..<b_len B])"

section \<open>The state of the cache\<close>

record 'm dbbc =
  d_enabled :: bool
  d_isa_config :: u64
  d_has_compressed :: bool
  d_opMap :: "OpId \<Rightarrow> u64"
  d_mem_word :: u32
  d_blocks :: "bref \<Rightarrow> dbb_block"
  d_next_block :: nat
  d_blockmap :: "u64 \<rightharpoonup> bref"
  d_curBlock :: bref
  d_curEntryIdx :: int
  d_slow_path :: bool
  d_fastEntry :: "bref \<times> int"
  d_exception :: bool
  d_trapLinkCache :: link_cache
  d_coherence_cnt :: u32
  d_cycle_counter_raw :: u64
  d_pc :: u32
  d_instr :: u32
  d_imem :: 'm

definition DBB_entry :: "'m dbbc \<Rightarrow> bref \<times> int \<Rightarrow> dbb_entry" where
  "DBB_entry s e = entry_at (d_blocks s (fst e)) (snd e)"

definition DBB_put_block :: "bref \<Rightarrow> (dbb_block \<Rightarrow> dbb_block) \<Rightarrow> 'm dbbc \<Rightarrow> 'm dbbc" where
  "DBB_put_block b f s = s\<lparr>d_blocks := (d_blocks s)(b := f (d_blocks s b))\<rparr>"

definition DBB_put_entry :: "bref \<times> int \<Rightarrow> (dbb_entry \<Rightarrow> dbb_entry) \<Rightarrow> 'm dbbc \<Rightarrow> 'm dbbc" where
  "DBB_put_entry e f = DBB_put_block (fst e) (put_entry (snd e) f)"

definition DBB_in_fast_path :: "'m dbbc \<Rightarrow> bool" where
  "DBB_in_fast_path s \<longleftrightarrow> d_fastEntry s \<noteq> (fastDisableBlock, 0)"

definition DBB_fast_path_raw_disable :: "'m dbbc \<Rightarrow> 'm dbbc" where
  "DBB_fast_path_raw_disable s = s\<lparr>d_fastEntry := (fastDisableBlock, 0)\<rparr>"

definition DBB_fast_path_raw_enable :: "bref \<times> int \<Rightarrow> 'm dbbc \<Rightarrow> 'm dbbc" where
  "DBB_fast_path_raw_enable e s = s\<lparr>d_fastEntry := e\<rparr>"

text \<open>The entry the accessors read: \<^verbatim>\<open>fastEntry\<close> on the fast path, else \<^verbatim>\<open>curBlock->entries[curEntryIdx]\<close>.\<close>

definition DBB_lastEntry :: "'m dbbc \<Rightarrow> bref \<times> int" where
  "DBB_lastEntry s = (if DBB_in_fast_path s then d_fastEntry s else (d_curBlock s, d_curEntryIdx s))"

definition next_entry :: "bref \<times> int \<Rightarrow> bref \<times> int" where
  "next_entry e = (fst e, snd e + 1)"

text \<open>\<^verbatim>\<open>check_fastEntry\<close>, without its messages.\<close>

definition DBB_check_fastEntry :: "'m dbbc \<Rightarrow> bool" where
  "DBB_check_fastEntry s =
     (if \<not> DBB_in_fast_path s then True
      else let entry = (if d_fastEntry s = (d_curBlock s, -1) then next_entry (d_fastEntry s)
                        else d_fastEntry s)
           in entry = (d_curBlock s, uint (e_idx (DBB_entry s entry))))"

section \<open>Switching blocks\<close>

definition DBB_switch_block_dummy :: "u32 \<Rightarrow> 'm dbbc \<Rightarrow> 'm dbbc" where
  "DBB_switch_block_dummy p s =
     (let s = s\<lparr>d_cycle_counter_raw := d_cycle_counter_raw s +
                  ucast (e_cycles (DBB_entry s (next_entry (DBB_lastEntry s))))\<rparr>;
          s = DBB_put_entry (dummyBlock, 0) (\<lambda>e. e\<lparr>e_pc := p\<rparr>) s;
          s = DBB_put_entry (dummyBlock, 1) (\<lambda>e. e\<lparr>e_cycles := 0\<rparr>) s;
          s = DBB_fast_path_raw_disable s
      in s\<lparr>d_curBlock := dummyBlock, d_curEntryIdx := -1\<rparr>)"

definition DBB_switch_block :: "bref \<Rightarrow> 'm dbbc \<Rightarrow> 'm dbbc" where
  "DBB_switch_block b s =
     (let s = s\<lparr>d_cycle_counter_raw := d_cycle_counter_raw s +
                  ucast (e_cycles (DBB_entry s (next_entry (DBB_lastEntry s))))\<rparr>
      in if d_curBlock s = b
         then if DBB_in_fast_path s \<or> \<not> d_slow_path s
              then DBB_fast_path_raw_enable (d_curBlock s, -1) s
              else s\<lparr>d_curEntryIdx := -1\<rparr>
         else
           let s = s\<lparr>d_curBlock := b\<rparr>; B = d_blocks s b
           in if \<not> d_slow_path s \<and> b_len B > 0 \<and> d_coherence_cnt s = b_coherence_cnt B
              then DBB_fast_path_raw_enable (b, -1) s
              else (DBB_fast_path_raw_disable s)\<lparr>d_curEntryIdx := -1, d_slow_path := False\<rparr>)"

definition DBB_find_create_switch_block :: "u32 \<Rightarrow> 'm dbbc \<Rightarrow> 'm dbbc" where
  "DBB_find_create_switch_block p s =
     (case d_blockmap s (ucast p) of
        Some b \<Rightarrow> DBB_switch_block b s
      | None \<Rightarrow>
          let b = Heap_block (d_next_block s);
              s = s\<lparr>d_next_block := d_next_block s + 1,
                    d_blocks := (d_blocks s)(b := block_init p (d_coherence_cnt s)),
                    d_blockmap := (d_blockmap s)(ucast p \<mapsto> b)\<rparr>
          in DBB_switch_block b s)"

definition DBB_branch_taken_sjump :: "u32 \<Rightarrow> ('m dbbc, unit) M" where
  "DBB_branch_taken_sjump pc_offset s =
     (let fl = e_link (DBB_entry s (d_fastEntry s)) in
      if DBB_in_fast_path s \<and> fl \<noteq> None then (Inr (), DBB_switch_block (the fl) s)
      else
        let s = (if DBB_in_fast_path s
                 then s\<lparr>d_curEntryIdx := uint (e_idx (DBB_entry s (d_fastEntry s)))\<rparr> else s);
            e = DBB_entry s (d_curBlock s, d_curEntryIdx s)
        in if d_curBlock s \<noteq> dummyBlock \<and> e_link e \<noteq> None
           then (Inr (), DBB_switch_block (the (e_link e)) s)
           else
             let p = e_pc e + pc_offset
             in if \<not> pc_is_valid p then (Inl AssertFail, s)
                else if p AND 3 \<noteq> 0 \<and> \<not> d_has_compressed s
                then (Inl (SimulationTrap EXC_INSTR_ADDR_MISALIGNED (ucast p)), s)
                else if d_enabled s
                then
                  let lastBlock = d_curBlock s; lastEntryIdx = d_curEntryIdx s;
                      s = DBB_find_create_switch_block p s
                  in (Inr (), if lastBlock \<noteq> dummyBlock
                              then DBB_put_entry (lastBlock, lastEntryIdx) (\<lambda>e. e\<lparr>e_link := Some (d_curBlock s)\<rparr>) s
                              else s)
                else (Inr (), DBB_switch_block_dummy p s))"

definition DBB_coherence_update :: "'m dbbc \<Rightarrow> 'm dbbc" where
  "DBB_coherence_update s =
     (let s = s\<lparr>d_coherence_cnt := d_coherence_cnt s + 1\<rparr>
      in if DBB_in_fast_path s
         then DBB_fast_path_raw_disable (s\<lparr>d_curEntryIdx := uint (e_idx (DBB_entry s (d_fastEntry s)))\<rparr>)
         else s)"

section \<open>Initialisation and control\<close>

text \<open>
  \<^verbatim>\<open>init\<close> on an object in state \<open>s\<close>. \<^verbatim>\<open>DBBCacheBase_T::init\<close> assigns the whole extension word to the
  \<^verbatim>\<open>bool\<close> \<^verbatim>\<open>has_compressed\<close>: it is true as soon as any extension is configured.
\<close>

definition DBB_init :: "bool \<Rightarrow> u64 \<Rightarrow> (OpId \<Rightarrow> u64) \<Rightarrow> u32 \<Rightarrow> 'm dbbc \<Rightarrow> 'm dbbc" where
  "DBB_init ena cfg opm entrypoint s =
     (let s = s\<lparr>d_enabled := ena, d_isa_config := cfg, d_has_compressed := (get_misa_extensions cfg \<noteq> 0), d_opMap := opm,
                d_mem_word := 0\<rparr>;
          s = DBB_put_block dummyBlock (\<lambda>_. block_init 0 (d_coherence_cnt s)) s;
          s = DBB_put_block fastDisableBlock (\<lambda>_. block_init 0 (d_coherence_cnt s)) s;
          s = s\<lparr>d_coherence_cnt := 0, d_blockmap := Map.empty,
                d_trapLinkCache := lc_reset (d_trapLinkCache s), d_exception := False,
                d_curBlock := dummyBlock, d_curEntryIdx := -1, d_slow_path := False\<rparr>;
          s = DBB_put_entry (fastDisableBlock, 1) set_terminal s;
          s = DBB_fast_path_raw_disable s
      in if d_enabled s then DBB_find_create_switch_block entrypoint s
         else DBB_switch_block_dummy entrypoint s)"

text \<open>The members of a fresh object, before its constructor calls \<^verbatim>\<open>init\<close>.\<close>

definition DBB_fresh :: "'m \<Rightarrow> 'm dbbc" where
  "DBB_fresh m = \<lparr>d_enabled = False, d_isa_config = 0, d_has_compressed = False, d_opMap = (\<lambda>_. 0),
     d_mem_word = 0, d_blocks = (\<lambda>_. block_init 0 0), d_next_block = 0, d_blockmap = Map.empty,
     d_curBlock = dummyBlock, d_curEntryIdx = -1, d_slow_path = False,
     d_fastEntry = (fastDisableBlock, 0), d_exception = False,
     d_trapLinkCache = lc_new TRAPLINKCACHE_SIZE, d_coherence_cnt = 0, d_cycle_counter_raw = 0,
     d_pc = 0, d_instr = 0, d_imem = m\<rparr>"

definition DBB_enable :: "bool \<Rightarrow> 'm dbbc \<Rightarrow> 'm dbbc" where
  "DBB_enable ena s =
     (if ena = d_enabled s then s
      else let s = s\<lparr>d_enabled := ena\<rparr>
           in if d_enabled s then s
              else let s = DBB_put_block (d_curBlock s) block_invalidate_links s;
                       s = DBB_put_block dummyBlock block_invalidate_links s
                   in s\<lparr>d_trapLinkCache := lc_reset (d_trapLinkCache s)\<rparr>)"

definition DBB_branch_not_taken :: "u32 \<Rightarrow> 'm dbbc \<Rightarrow> 'm dbbc" where
  "DBB_branch_not_taken p s = s"

definition DBB_branch_taken :: "u32 \<Rightarrow> ('m dbbc, unit) M" where
  "DBB_branch_taken pc_offset = DBB_branch_taken_sjump pc_offset"

definition DBB_jump :: "u32 \<Rightarrow> ('m dbbc, unit) M" where
  "DBB_jump pc_offset = DBB_branch_taken_sjump pc_offset"

definition DBB_link :: "'m dbbc \<Rightarrow> u32" where
  "DBB_link s = (let e = DBB_entry s (DBB_lastEntry s) in e_pc e + ucast (e_inc e))"

definition DBB_jump_and_link :: "u32 \<Rightarrow> ('m dbbc, u32) M" where
  "DBB_jump_and_link pc_offset = bindM (getsM DBB_link) (\<lambda>l. seqM (DBB_jump pc_offset) (ret l))"

definition DBB_jump_dyn :: "u32 \<Rightarrow> 'm dbbc \<Rightarrow> 'm dbbc" where
  "DBB_jump_dyn p s =
     (case lc_find p (b_jumpDynLinkCache (d_blocks s (d_curBlock s))) of
        Some b \<Rightarrow> DBB_switch_block b s
      | None \<Rightarrow>
          if d_enabled s
          then let lastBlock = d_curBlock s; s = DBB_find_create_switch_block p s
               in DBB_put_block lastBlock
                    (\<lambda>B. B\<lparr>b_jumpDynLinkCache := lc_add p (d_curBlock s) (b_jumpDynLinkCache B)\<rparr>) s
          else DBB_switch_block_dummy p s)"

definition DBB_jump_dyn_and_link :: "u32 \<Rightarrow> 'm dbbc \<Rightarrow> u32 \<times> 'm dbbc" where
  "DBB_jump_dyn_and_link p s = (DBB_link s, DBB_jump_dyn p s)"

definition DBB_get_curBlock_start_addr :: "'m dbbc \<Rightarrow> u32" where
  "DBB_get_curBlock_start_addr s = b_start_addr (d_blocks s (d_curBlock s))"

definition DBB_fence_i :: "u32 \<Rightarrow> 'm dbbc \<Rightarrow> 'm dbbc" where
  "DBB_fence_i p s = DBB_coherence_update s"

definition DBB_fence_vma :: "u32 \<Rightarrow> 'm dbbc \<Rightarrow> 'm dbbc" where
  "DBB_fence_vma p s = DBB_coherence_update s"

definition DBB_enter_trap :: "u32 \<Rightarrow> 'm dbbc \<Rightarrow> 'm dbbc" where
  "DBB_enter_trap p s =
     (case lc_find p (d_trapLinkCache s) of
        Some b \<Rightarrow> DBB_switch_block b s
      | None \<Rightarrow>
          if d_enabled s
          then let s = DBB_find_create_switch_block p s
               in s\<lparr>d_trapLinkCache := lc_add p (d_curBlock s) (d_trapLinkCache s)\<rparr>
          else DBB_switch_block_dummy p s)"

definition DBB_ret_trap :: "u32 \<Rightarrow> 'm dbbc \<Rightarrow> 'm dbbc" where
  "DBB_ret_trap p s = DBB_switch_block_dummy p s"

definition DBB_force_slow_path :: "'m dbbc \<Rightarrow> 'm dbbc" where
  "DBB_force_slow_path s =
     (let s = s\<lparr>d_slow_path := True\<rparr>
      in if \<not> DBB_in_fast_path s then s
         else DBB_fast_path_raw_disable
           (s\<lparr>d_curEntryIdx := (if d_fastEntry s = (d_curBlock s, -1) then -1
                               else uint (e_idx (DBB_entry s (d_fastEntry s))))\<rparr>))"

section \<open>Fetching and decoding\<close>

definition DBB_fetch_raw :: "(u32 \<Rightarrow> ('m, u32) M) \<Rightarrow> u32 \<Rightarrow> ('m dbbc, u32) M" where
  "DBB_fetch_raw L p s = (case L p (d_imem s) of (r, m') \<Rightarrow> (r, s\<lparr>d_imem := m'\<rparr>))"

text \<open>What the two handlers of a failed fetch of the instruction at \<open>p\<close> do before they rethrow.\<close>

definition DBB_fetch_failed :: "u32 \<Rightarrow> 'm dbbc \<Rightarrow> 'm dbbc" where
  "DBB_fetch_failed p s =
     (let s = s\<lparr>d_instr := 0\<rparr>;
          s = DBB_put_entry (dummyBlock, 0) (\<lambda>e. e\<lparr>e_pc := p\<rparr>) s
      in s\<lparr>d_exception := True\<rparr>)"

definition DBB_fetch :: "(u32 \<Rightarrow> ('m, u32) M) \<Rightarrow> u32 \<Rightarrow> ('m dbbc, u32) M" where
  "DBB_fetch L p =
     seqM (modifyM (\<lambda>s. s\<lparr>d_exception := False\<rparr>))
     (bindM (catch_trap (DBB_fetch_raw L p)
               (\<lambda>r v. seqM (modifyM (DBB_fetch_failed p)) (raise (SimulationTrap r v))))
       (\<lambda>w. seqM (modifyM (\<lambda>s. s\<lparr>d_instr := w\<rparr>)) (ret w)))"

definition DBB_decode :: "('m dbbc, OpId \<times> u32) M" where
  "DBB_decode = bindM (getsM (\<lambda>s. (d_instr s, d_isa_config s))) (\<lambda>(i, cfg).
     if is_compressed i
     then (case decode_and_expand_compressed RV32 cfg i of
             Inl e \<Rightarrow> raise e
           | Inr (op, i') \<Rightarrow> seqM (modifyM (\<lambda>s. s\<lparr>d_instr := i'\<rparr>)) (ret (op, 2)))
     else ret (decode_normal RV32 cfg i, 4))"

text \<open>
  \<^verbatim>\<open>decode_update_entry\<close> for the entry \<open>e\<close> and the address \<open>p\<close>: the result is the address after the
  instruction (the reference parameter \<^verbatim>\<open>pc\<close> on return).
\<close>

definition DBB_decode_update_entry :: "bref \<times> int \<Rightarrow> u32 \<Rightarrow> ('m dbbc, u32) M" where
  "DBB_decode_update_entry e p =
     seqM (modifyM (\<lambda>s. DBB_put_entry e (\<lambda>x. x\<lparr>e_mem_word := d_instr s, e_pc := p\<rparr>) s))
     (bindM DBB_decode (\<lambda>(op, len).
      seqM (modifyM (DBB_put_entry e (\<lambda>x. x\<lparr>e_inc := ucast len, e_op := Some op\<rparr>)))
      (seqM (modifyM (\<lambda>s. DBB_put_entry (next_entry e)
               (\<lambda>x. x\<lparr>e_cycles := e_cycles (DBB_entry s e) + ucast (d_opMap s op)\<rparr>) s))
      (seqM (modifyM (\<lambda>s. DBB_put_entry e (\<lambda>x. x\<lparr>e_instr := d_instr s, e_link := None\<rparr>) s))
      (ret (p + len))))))"

text \<open>\<^verbatim>\<open>realloc\<close> to twice the size.\<close>

definition block_grow :: "dbb_block \<Rightarrow> dbb_block" where
  "block_grow B = B\<lparr>b_alloc_len := b_alloc_len B * 2,
     b_entries := b_entries B @ replicate (b_alloc_len B) blank_entry\<rparr>"

definition DBB_fetch_decode_add_entry :: "(u32 \<Rightarrow> ('m, u32) M) \<Rightarrow> ('m dbbc, bref \<times> int) M" where
  "DBB_fetch_decode_add_entry L =
     bindM (getsM (\<lambda>s. (d_curBlock s, b_len (d_blocks s (d_curBlock s)), d_pc s))) (\<lambda>(b, idx, p).
     let entry = (b, int idx) in
     seqM (modifyM (DBB_put_block b (\<lambda>B. if idx + 1 = b_alloc_len B then block_grow B else B)))
     (seqM (DBB_fetch L p)
     (bindM (DBB_decode_update_entry entry p) (\<lambda>p'.
      seqM (modifyM (\<lambda>s. s\<lparr>d_pc := p'\<rparr>))
      (seqM (modifyM (DBB_put_entry entry (\<lambda>x. x\<lparr>e_idx := of_nat idx\<rparr>)))
      (seqM (modifyM (DBB_put_entry (next_entry entry) (\<lambda>x. set_terminal (x\<lparr>e_idx := of_nat (idx + 1)\<rparr>))))
      (seqM (modifyM (DBB_put_block b (\<lambda>B. B\<lparr>b_len := b_len B + 1\<rparr>)))
      (ret entry))))))))"

definition DBB_fetch_decode_fast :: "'m dbbc \<Rightarrow> OpId option \<times> 'm dbbc" where
  "DBB_fetch_decode_fast s =
     (let s = s\<lparr>d_fastEntry := next_entry (d_fastEntry s)\<rparr>;
          e = DBB_entry s (d_fastEntry s)
      in (e_op e, s\<lparr>d_instr := e_instr e\<rparr>))"

definition DBB_abort_fetch_decode_fast :: "'m dbbc \<Rightarrow> 'm dbbc" where
  "DBB_abort_fetch_decode_fast s = s\<lparr>d_fastEntry := (fst (d_fastEntry s), snd (d_fastEntry s) - 1)\<rparr>"

text \<open>
  The loop of \<^verbatim>\<open>fetch_decode\<close> that checks and repairs the \<open>n\<close> entries of block \<open>b\<close> from index \<open>idx\<close>,
  at address \<open>addr\<close>: \<open>None\<close> when it reached the end, else the index at which a \<^verbatim>\<open>SimulationTrap\<close>
  left it, with the trap. \<open>once\<close> is \<^verbatim>\<open>invalidate_links_once\<close>.
\<close>

fun DBB_repair ::
  "(u32 \<Rightarrow> ('m, u32) M) \<Rightarrow> bref \<Rightarrow> nat \<Rightarrow> nat \<Rightarrow> u32 \<Rightarrow> bool \<Rightarrow> ('m dbbc, (nat \<times> u32 \<times> u64) option) M" where
  "DBB_repair L b 0 idx addr once = ret None"
| "DBB_repair L b (Suc n) idx addr once =
     bindM (catch_trap (bindM (DBB_fetch_raw L addr) (\<lambda>w. ret (Inr w))) (\<lambda>r v. ret (Inl (r, v))))
       (\<lambda>x. case x of
          Inl (r, v) \<Rightarrow> ret (Some (idx, r, v))
        | Inr w \<Rightarrow>
            bindM (getsM (\<lambda>s. DBB_entry s (b, int idx))) (\<lambda>e.
            if w \<noteq> e_mem_word e
            then seqM (modifyM (if once then DBB_put_block b block_invalidate_links else id))
                 (seqM (modifyM (\<lambda>s. s\<lparr>d_instr := w\<rparr>))
                 (bindM (DBB_decode_update_entry (b, int idx) addr) (\<lambda>addr'.
                  DBB_repair L b n (idx + 1) addr' False)))
            else DBB_repair L b n (idx + 1) (addr + ucast (e_inc e)) once))"

text \<open>The end of \<^verbatim>\<open>fetch_decode\<close> for an existing entry.\<close>

definition DBB_hit :: "bref \<times> int \<Rightarrow> ('m dbbc, OpId option) M" where
  "DBB_hit e = bindM (getsM (\<lambda>s. DBB_entry s e)) (\<lambda>x.
     seqM (modifyM (\<lambda>s. s\<lparr>d_curEntryIdx := snd e, d_instr := e_instr x, d_pc := d_pc s + ucast (e_inc x)\<rparr>))
     (ret (e_op x)))"

text \<open>The branch of \<^verbatim>\<open>fetch_decode\<close> for an entry of a block that is not coherent.\<close>

definition DBB_hit_incoherent :: "(u32 \<Rightarrow> ('m, u32) M) \<Rightarrow> nat \<Rightarrow> ('m dbbc, OpId option) M" where
  "DBB_hit_incoherent L nxt =
     bindM (getsM (\<lambda>s. (d_curBlock s, d_blocks s (d_curBlock s)))) (\<lambda>(b, B).
     seqM (modifyM (\<lambda>s. s\<lparr>d_exception := False\<rparr>))
     (bindM (DBB_repair L b (b_len B) 0 (b_start_addr B) True) (\<lambda>x. case x of
        None \<Rightarrow>
          seqM (modifyM (\<lambda>s. DBB_put_block b (\<lambda>B. B\<lparr>b_coherence_cnt := d_coherence_cnt s\<rparr>) s))
          (seqM (modifyM (DBB_fast_path_raw_enable (b, int nxt)))
          (DBB_hit (b, int nxt)))
      | Some (idx, r, v) \<Rightarrow>
          if idx = nxt
          then bindM (getsM d_pc) (\<lambda>p. seqM (modifyM (DBB_fetch_failed p)) (raise (SimulationTrap r v)))
          else if idx < nxt
          then bindM (getsM d_pc) (\<lambda>p. seqM (DBB_fetch L p)
               (bindM (DBB_decode_update_entry (b, int nxt) p) (\<lambda>p'.
                seqM (modifyM (\<lambda>s. s\<lparr>d_pc := p', d_curEntryIdx := int nxt\<rparr>))
                (getsM (\<lambda>s. e_op (DBB_entry s (b, int nxt)))))))
          else DBB_hit (b, int nxt))))"

text \<open>The branch for the dummy block, which is not cached.\<close>

definition DBB_fetch_decode_dummy :: "(u32 \<Rightarrow> ('m, u32) M) \<Rightarrow> ('m dbbc, OpId option) M" where
  "DBB_fetch_decode_dummy L =
     bindM (getsM d_pc) (\<lambda>last_pc.
     seqM (modifyM (\<lambda>s. DBB_put_entry (dummyBlock, 0) (\<lambda>e. e\<lparr>e_pc := last_pc\<rparr>) (s\<lparr>d_curEntryIdx := 0\<rparr>)))
     (bindM (DBB_fetch L last_pc) (\<lambda>w.
      bindM DBB_decode (\<lambda>(op, len).
      seqM (modifyM (\<lambda>s. s\<lparr>d_pc := last_pc + len, d_mem_word := w\<rparr>))
      (seqM (modifyM (DBB_put_entry (dummyBlock, 0) (\<lambda>e. e\<lparr>e_inc := ucast len\<rparr>)))
      (seqM (modifyM (\<lambda>s. DBB_put_entry (dummyBlock, 1)
               (\<lambda>e. e\<lparr>e_cycles := e_cycles e + ucast (d_opMap s op)\<rparr>) s))
      (ret (Some op))))))))"

definition DBB_fetch_decode_slow :: "(u32 \<Rightarrow> ('m, u32) M) \<Rightarrow> ('m dbbc, OpId option) M" where
  "DBB_fetch_decode_slow L =
     bindM (getsM (\<lambda>s. (d_curBlock s, d_blocks s (d_curBlock s), nat (d_curEntryIdx s + 1), d_coherence_cnt s)))
       (\<lambda>(b, B, nxt, cnt).
        if b = dummyBlock then DBB_fetch_decode_dummy L
        else if nxt \<ge> b_len B
        then bindM (DBB_fetch_decode_add_entry L) (\<lambda>e.
             seqM (modifyM (\<lambda>s. s\<lparr>d_curEntryIdx := int nxt\<rparr>))
             (getsM (\<lambda>s. e_op (DBB_entry s e))))
        else if b_coherence_cnt B \<noteq> cnt then DBB_hit_incoherent L nxt
        else seqM (modifyM (DBB_fast_path_raw_enable (b, int nxt))) (DBB_hit (b, int nxt)))"

text \<open>\<^verbatim>\<open>fetch_decode\<close>: the medium path, and the slow path behind it.\<close>

definition DBB_fetch_decode :: "(u32 \<Rightarrow> ('m, u32) M) \<Rightarrow> ('m dbbc, OpId option) M" where
  "DBB_fetch_decode L s =
     (if DBB_in_fast_path s
      then let s = s\<lparr>d_fastEntry := next_entry (d_fastEntry s)\<rparr>;
               e = DBB_entry s (d_fastEntry s)
           in if \<not> is_terminal e
              then (Inr (e_op e), s\<lparr>d_instr := e_instr e, d_pc := d_pc s + ucast (e_inc e)\<rparr>)
              else DBB_fetch_decode_slow L
                     (DBB_fast_path_raw_disable (s\<lparr>d_curEntryIdx := uint (e_idx e) - 1\<rparr>))
      else DBB_fetch_decode_slow L s)"

section \<open>What the hart reads\<close>

definition DBB_get_last_pc_before_callback :: "'m dbbc \<Rightarrow> u32" where
  "DBB_get_last_pc_before_callback s =
     (if DBB_in_fast_path s then e_pc (DBB_entry s (d_fastEntry s))
      else e_pc (DBB_entry s (d_curBlock s, d_curEntryIdx s)))"

definition DBB_get_last_pc_exception_safe :: "'m dbbc \<Rightarrow> u32" where
  "DBB_get_last_pc_exception_safe s =
     (if d_exception s then e_pc (DBB_entry s (dummyBlock, 0))
      else if DBB_in_fast_path s then e_pc (DBB_entry s (d_fastEntry s))
      else e_pc (DBB_entry s (d_curBlock s, d_curEntryIdx s)))"

definition DBB_get_pc_before_callback :: "'m dbbc \<Rightarrow> u32" where
  "DBB_get_pc_before_callback s = DBB_link s"

definition DBB_get_pc_maybe_after_callback :: "'m dbbc \<Rightarrow> u32" where
  "DBB_get_pc_maybe_after_callback s =
     (if DBB_in_fast_path s
      then if d_fastEntry s \<noteq> (d_curBlock s, -1)
           then e_pc (DBB_entry s (d_fastEntry s)) + ucast (e_inc (DBB_entry s (d_fastEntry s)))
           else e_pc (DBB_entry s (next_entry (d_fastEntry s)))
      else if d_curEntryIdx s \<noteq> -1
      then e_pc (DBB_entry s (d_curBlock s, d_curEntryIdx s)) + ucast (e_inc (DBB_entry s (d_curBlock s, d_curEntryIdx s)))
      else e_pc (DBB_entry s (d_curBlock s, d_curEntryIdx s + 1)))"

definition DBB_get_cycle_counter_raw :: "'m dbbc \<Rightarrow> u64" where
  "DBB_get_cycle_counter_raw s =
     (if DBB_in_fast_path s
      then d_cycle_counter_raw s + ucast (e_cycles (DBB_entry s (next_entry (d_fastEntry s))))
      else d_cycle_counter_raw s + ucast (e_cycles (DBB_entry s (d_curBlock s, d_curEntryIdx s + 1))))"

definition DBB_get_mem_word :: "'m dbbc \<Rightarrow> u32" where
  "DBB_get_mem_word s =
     (if DBB_in_fast_path s then e_mem_word (DBB_entry s (d_fastEntry s))
      else if d_curEntryIdx s < int (b_len (d_blocks s (d_curBlock s)))
      then e_mem_word (DBB_entry s (d_curBlock s, d_curEntryIdx s))
      else d_mem_word s)"

section \<open>Dispatch of the next operation by the hart\<close>

text \<open>
  \<^verbatim>\<open>GOTO_OP_GLOBAL_FDD\<close> and \<^verbatim>\<open>GOTO_OP_FAST_FDD\<close> of \<^verbatim>\<open>vp/src/core/rv32/iss_ctemplate.cpp\<close>, as far as
  they concern the cache: the global dispatch first reads the program counter back from the cache;
  the fast one falls back to it when it meets the abort label.
\<close>

definition DBB_fdd_global :: "(u32 \<Rightarrow> ('m, u32) M) \<Rightarrow> ('m dbbc, OpId option) M" where
  "DBB_fdd_global L =
     seqM (modifyM (\<lambda>s. s\<lparr>d_pc := DBB_get_pc_maybe_after_callback s\<rparr>)) (DBB_fetch_decode L)"

definition DBB_fdd_fast :: "(u32 \<Rightarrow> ('m, u32) M) \<Rightarrow> ('m dbbc, OpId option) M" where
  "DBB_fdd_fast L s =
     (case DBB_fetch_decode_fast s of
        (Some op, s') \<Rightarrow> (Inr (Some op), s')
      | (None, s') \<Rightarrow> DBB_fdd_global L (DBB_abort_fetch_decode_fast s'))"

end
