(* ===== verification/VP_DBBSpec.thy ===== *)
theory VP_DBBSpec
  imports VP_DBB
begin

text \<open>
  What a fetch/decode unit promises the hart, the calls the hart makes on it, and the ways of using
  it under which the block cache keeps the promise. \<open>spec_step\<close> is a machine without any cache: it
  fetches and decodes every instruction from the current code. \<open>DBB_step\<close> makes the same calls on
  the block cache. \<open>usage\<close> is bookkeeping about the calls only, from which \<open>allowed\<close> decides
  whether a call is one the cache supports.
\<close>

section \<open>Calls and answers\<close>

text \<open>
  \<open>Write_code m\<close> is not a call: the instruction memory changes to \<open>m\<close> (a store to code, a new page
  table, another hart). The offset of a branch or jump is the immediate of the current instruction.
\<close>

datatype 'm fetch_call =
    Fetch_fast | Fetch_global
  | Branch_taken | Branch_not_taken | Jump | Jump_and_link | Jump_dyn u32 | Jump_dyn_and_link u32
  | Fence_i | Fence_vma | Enter_trap u32 | Ret_trap u32
  | Force_slow_path | Enable bool | Write_code 'm
  | Get_last_pc | Get_last_pc_exception_safe | Get_pc | Get_cycles | Get_mem_word

datatype fetch_out = Out_unit | Out_op "OpId option" u32 | Out_word u32 | Out_cycles u64 | Out_exn exn

text \<open>The immediate the cases of \<^verbatim>\<open>exec_steps\<close> pass to \<^verbatim>\<open>jump\<close>, \<^verbatim>\<open>jump_and_link\<close> and \<^verbatim>\<open>branch_taken\<close>.\<close>

definition hart_offset :: "OpId \<Rightarrow> u32 \<Rightarrow> u32" where
  "hart_offset op i = (if op = J \<or> op = JAL then J_imm i else B_imm i)"

section \<open>The unit without a cache\<close>

text \<open>\<open>Ready p\<close>: the next instruction is at \<open>p\<close>. \<open>Done q w op i l\<close>: the instruction at \<open>q\<close> with word
  \<open>w\<close> and length \<open>l\<close> was fetched, \<open>op\<close> and \<open>i\<close> are its operation and expanded word. \<open>Fault q\<close>: the fetch at
  \<open>q\<close> failed.\<close>

datatype phase = Ready u32 | Done u32 u32 OpId u32 u32 | Fault u32

record fspec =
  sp_code :: "u32 \<Rightarrow> exn + u32"
  sp_phase :: phase
  sp_cycles :: u64

text \<open>The operation, the expanded word and the length of an instruction word.\<close>

definition dec :: "u64 \<Rightarrow> u32 \<Rightarrow> OpId \<times> u32 \<times> u32" where
  "dec cfg w =
     (if is_compressed w
      then case decode_and_expand_compressed RV32 cfg w of
             Inl e \<Rightarrow> (UNDEF, w, 2)
           | Inr (op, i) \<Rightarrow> (op, i, 2)
      else (decode_normal RV32 cfg w, w, 4))"

fun next_pc :: "phase \<Rightarrow> u32" where
  "next_pc (Ready p) = p"
| "next_pc (Done q w op i l) = q + l"
| "next_pc (Fault q) = q"

fun last_pc_of :: "phase \<Rightarrow> u32" where
  "last_pc_of (Ready p) = p"
| "last_pc_of (Done q w op i l) = q"
| "last_pc_of (Fault q) = q"

fun branch_target :: "phase \<Rightarrow> u32" where
  "branch_target (Done q w op i l) = q + hart_offset op i"
| "branch_target ph = next_pc ph"

fun word_of :: "phase \<Rightarrow> u32" where
  "word_of (Done q w op i l) = w"
| "word_of _ = 0"

definition spec_fetch :: "u64 \<Rightarrow> (OpId \<Rightarrow> u64) \<Rightarrow> fspec \<Rightarrow> fetch_out \<times> fspec" where
  "spec_fetch cfg opm a =
     (let p = next_pc (sp_phase a) in
      case sp_code a p of
        Inl e \<Rightarrow> (Out_exn e, a\<lparr>sp_phase := Fault p\<rparr>)
      | Inr w \<Rightarrow> let (op, i, l) = dec cfg w in
          (Out_op (Some op) i, a\<lparr>sp_phase := Done p w op i l, sp_cycles := sp_cycles a + opm op\<rparr>))"

text \<open>Where a call transfers control to, if it does.\<close>

fun transfer :: "'m fetch_call \<Rightarrow> phase \<Rightarrow> u32 option" where
  "transfer Branch_taken ph = Some (branch_target ph)"
| "transfer Jump ph = Some (branch_target ph)"
| "transfer Jump_and_link ph = Some (branch_target ph)"
| "transfer (Jump_dyn p) ph = Some p"
| "transfer (Jump_dyn_and_link p) ph = Some p"
| "transfer (Enter_trap p) ph = Some p"
| "transfer (Ret_trap p) ph = Some p"
| "transfer _ ph = None"

fun spec_out :: "'m fetch_call \<Rightarrow> fspec \<Rightarrow> fetch_out" where
  "spec_out Jump_and_link a = Out_word (next_pc (sp_phase a))"
| "spec_out (Jump_dyn_and_link p) a = Out_word (next_pc (sp_phase a))"
| "spec_out Get_last_pc a = Out_word (last_pc_of (sp_phase a))"
| "spec_out Get_last_pc_exception_safe a = Out_word (last_pc_of (sp_phase a))"
| "spec_out Get_pc a = Out_word (next_pc (sp_phase a))"
| "spec_out Get_cycles a = Out_cycles (sp_cycles a)"
| "spec_out Get_mem_word a = Out_word (word_of (sp_phase a))"
| "spec_out _ a = Out_unit"

definition code_of :: "(u32 \<Rightarrow> ('m, u32) M) \<Rightarrow> 'm \<Rightarrow> u32 \<Rightarrow> exn + u32" where
  "code_of L m p = fst (L p m)"

definition spec_step ::
  "(u32 \<Rightarrow> ('m, u32) M) \<Rightarrow> u64 \<Rightarrow> (OpId \<Rightarrow> u64) \<Rightarrow> 'm fetch_call \<Rightarrow> fspec \<Rightarrow> fetch_out \<times> fspec" where
  "spec_step L cfg opm c a =
     (case c of
        Fetch_fast \<Rightarrow> spec_fetch cfg opm a
      | Fetch_global \<Rightarrow> spec_fetch cfg opm a
      | Write_code m \<Rightarrow> (Out_unit, a\<lparr>sp_code := code_of L m\<rparr>)
      | _ \<Rightarrow> (spec_out c a,
              case transfer c (sp_phase a) of None \<Rightarrow> a | Some t \<Rightarrow> a\<lparr>sp_phase := Ready t\<rparr>))"

section \<open>The calls on the block cache\<close>

text \<open>The hart also knows which operation it is executing.\<close>

definition lift_out :: "('a \<Rightarrow> fetch_out) \<Rightarrow> OpId \<Rightarrow> (exn + 'a) \<times> 's \<Rightarrow> fetch_out \<times> 's \<times> OpId" where
  "lift_out f op r = (case r of (Inl e, s) \<Rightarrow> (Out_exn e, s, op) | (Inr x, s) \<Rightarrow> (f x, s, op))"

definition fetched :: "(exn + OpId option) \<times> 'm dbbc \<Rightarrow> OpId \<Rightarrow> fetch_out \<times> 'm dbbc \<times> OpId" where
  "fetched r cop =
     (case r of
        (Inl e, s) \<Rightarrow> (Out_exn e, s, cop)
      | (Inr None, s) \<Rightarrow> (Out_op None (d_instr s), s, cop)
      | (Inr (Some op), s) \<Rightarrow> (Out_op (Some op) (d_instr s), s, op))"

fun DBB_step :: "(u32 \<Rightarrow> ('m, u32) M) \<Rightarrow> 'm fetch_call \<Rightarrow> 'm dbbc \<times> OpId \<Rightarrow> fetch_out \<times> 'm dbbc \<times> OpId" where
  "DBB_step L Fetch_fast (s, op) = fetched (DBB_fdd_fast L s) op"
| "DBB_step L Fetch_global (s, op) = fetched (DBB_fdd_global L s) op"
| "DBB_step L Branch_taken (s, op) = lift_out (\<lambda>_. Out_unit) op (DBB_branch_taken (hart_offset op (d_instr s)) s)"
| "DBB_step L Branch_not_taken (s, op) = (Out_unit, DBB_branch_not_taken (d_pc s) s, op)"
| "DBB_step L Jump (s, op) = lift_out (\<lambda>_. Out_unit) op (DBB_jump (hart_offset op (d_instr s)) s)"
| "DBB_step L Jump_and_link (s, op) = lift_out Out_word op (DBB_jump_and_link (hart_offset op (d_instr s)) s)"
| "DBB_step L (Jump_dyn p) (s, op) = (Out_unit, DBB_jump_dyn p s, op)"
| "DBB_step L (Jump_dyn_and_link p) (s, op) =
     (case DBB_jump_dyn_and_link p s of (l, s') \<Rightarrow> (Out_word l, s', op))"
| "DBB_step L Fence_i (s, op) = (Out_unit, DBB_fence_i (d_pc s) s, op)"
| "DBB_step L Fence_vma (s, op) = (Out_unit, DBB_fence_vma (d_pc s) s, op)"
| "DBB_step L (Enter_trap p) (s, op) = (Out_unit, DBB_enter_trap p s, op)"
| "DBB_step L (Ret_trap p) (s, op) = (Out_unit, DBB_ret_trap p s, op)"
| "DBB_step L Force_slow_path (s, op) = (Out_unit, DBB_force_slow_path s, op)"
| "DBB_step L (Enable b) (s, op) = (Out_unit, DBB_enable b s, op)"
| "DBB_step L (Write_code m) (s, op) = (Out_unit, s\<lparr>d_imem := m\<rparr>, op)"
| "DBB_step L Get_last_pc (s, op) = (Out_word (DBB_get_last_pc_before_callback s), s, op)"
| "DBB_step L Get_last_pc_exception_safe (s, op) = (Out_word (DBB_get_last_pc_exception_safe s), s, op)"
| "DBB_step L Get_pc (s, op) = (Out_word (DBB_get_pc_maybe_after_callback s), s, op)"
| "DBB_step L Get_cycles (s, op) = (Out_cycles (DBB_get_cycle_counter_raw s), s, op)"
| "DBB_step L Get_mem_word (s, op) = (Out_word (DBB_get_mem_word s), s, op)"

section \<open>The calls on \<^verbatim>\<open>DBBCacheDummy_T\<close>\<close>

text \<open>
  The same calls on \<^verbatim>\<open>DBBCacheDummy_T\<close>, whose members are in the state of the hart: the fast fetch
  always returns the abort label, and \<^verbatim>\<open>fence_i\<close>, \<^verbatim>\<open>fence_vma\<close>, \<^verbatim>\<open>force_slow_path\<close> and
  \<^verbatim>\<open>branch_not_taken\<close> do nothing.
\<close>

definition Dummy_fdd_global :: "'d iss_env \<Rightarrow> ('d iss, OpId) M" where
  "Dummy_fdd_global E = seqM (modifyM (\<lambda>s. s\<lparr>pc := dbb_pc (dbbcache s)\<rparr>)) (fetch_decode E)"

definition Dummy_fetched :: "(exn + OpId) \<times> 'd iss \<Rightarrow> OpId \<Rightarrow> fetch_out \<times> 'd iss \<times> OpId" where
  "Dummy_fetched r cop =
     (case r of (Inl e, s) \<Rightarrow> (Out_exn e, s, cop) | (Inr op, s) \<Rightarrow> (Out_op (Some op) (instr s), s, op))"

fun Dummy_step :: "'d iss_env \<Rightarrow> 'd fetch_call \<Rightarrow> 'd iss \<times> OpId \<Rightarrow> fetch_out \<times> 'd iss \<times> OpId" where
  "Dummy_step E Fetch_fast (s, op) = Dummy_fetched (Dummy_fdd_global E s) op"
| "Dummy_step E Fetch_global (s, op) = Dummy_fetched (Dummy_fdd_global E s) op"
| "Dummy_step E Branch_taken (s, op) = (Out_unit, branch_taken (hart_offset op (instr s)) s, op)"
| "Dummy_step E Branch_not_taken (s, op) = (Out_unit, s, op)"
| "Dummy_step E Jump (s, op) = (Out_unit, branch_taken (hart_offset op (instr s)) s, op)"
| "Dummy_step E Jump_and_link (s, op) =
     (case jump_and_link (hart_offset op (instr s)) s of (l, s') \<Rightarrow> (Out_word l, s', op))"
| "Dummy_step E (Jump_dyn p) (s, op) = (Out_unit, jump_dyn p s, op)"
| "Dummy_step E (Jump_dyn_and_link p) (s, op) = (case jump_dyn_and_link p s of (l, s') \<Rightarrow> (Out_word l, s', op))"
| "Dummy_step E Fence_i (s, op) = (Out_unit, s, op)"
| "Dummy_step E Fence_vma (s, op) = (Out_unit, s, op)"
| "Dummy_step E (Enter_trap p) (s, op) = (Out_unit, enter_trap p s, op)"
| "Dummy_step E (Ret_trap p) (s, op) = (Out_unit, ret_trap p s, op)"
| "Dummy_step E Force_slow_path (s, op) = (Out_unit, s, op)"
| "Dummy_step E (Enable b) (s, op) = (Out_unit, s, op)"
| "Dummy_step E (Write_code m) (s, op) = (Out_unit, s\<lparr>mem_st := m\<rparr>, op)"
| "Dummy_step E Get_last_pc (s, op) = (Out_word (dbb_last_pc (dbbcache s)), s, op)"
| "Dummy_step E Get_last_pc_exception_safe (s, op) = (Out_word (dbb_last_pc (dbbcache s)), s, op)"
| "Dummy_step E Get_pc (s, op) = (Out_word (dbb_pc (dbbcache s)), s, op)"
| "Dummy_step E Get_cycles (s, op) = (Out_cycles (cycle_counter_raw (dbbcache s)), s, op)"
| "Dummy_step E Get_mem_word (s, op) = (Out_word (mem_word (dbbcache s)), s, op)"

text \<open>The instruction memory of the environment \<open>E\<close> is \<open>L\<close>, over the memory part of the state.\<close>

definition instr_mem :: "'d iss_env \<Rightarrow> (u32 \<Rightarrow> ('d, u32) M) \<Rightarrow> bool" where
  "instr_mem E L \<longleftrightarrow> (\<forall>p s. load_instr E (ucast p) s = (case L p (mem_st s) of (r, m) \<Rightarrow> (r, s\<lparr>mem_st := m\<rparr>)))"

section \<open>The supported uses\<close>

text \<open>
  \<open>u_mod\<close>: the addresses whose code changed since the last fence. \<open>u_block\<close>: the start of the
  straight-line run the hart is in, \<open>None\<close> after a return from a trap. \<open>u_run\<close>: the instructions
  fetched in it. \<open>u_fenced\<close>: a fence was executed in it. \<open>u_synced\<close>: a fetch in it, and no fence since,
  so that it is known to agree with the code. \<open>u_fences\<close>: all fences. \<open>u_faulted\<close>: a fetch failed, and
  no instruction was fetched after a return from a trap since.
\<close>

record usage =
  u_mod :: "u32 \<Rightarrow> bool"
  u_block :: "u32 option"
  u_run :: nat
  u_fenced :: bool
  u_synced :: bool
  u_fences :: nat
  u_faulted :: bool

definition usage_goto :: "u32 \<Rightarrow> bool \<Rightarrow> usage \<Rightarrow> usage" where
  "usage_goto t returning u =
     (let b = (if returning then None else Some t)
      in u\<lparr>u_synced := False, u_block := b, u_run := 0, u_fenced := False\<rparr>)"

fun is_fetch :: "'m fetch_call \<Rightarrow> bool" where
  "is_fetch Fetch_fast = True" | "is_fetch Fetch_global = True" | "is_fetch _ = False"

fun is_fence :: "'m fetch_call \<Rightarrow> bool" where
  "is_fence Fence_i = True" | "is_fence Fence_vma = True" | "is_fence _ = False"

fun is_ret_trap :: "'m fetch_call \<Rightarrow> bool" where
  "is_ret_trap (Ret_trap p) = True" | "is_ret_trap _ = False"

definition fails :: "exn + 'a \<Rightarrow> bool" where
  "fails r = (case r of Inl _ \<Rightarrow> True | Inr _ \<Rightarrow> False)"

definition usage_fetch :: "fspec \<Rightarrow> usage \<Rightarrow> usage" where
  "usage_fetch a u =
     (let f = fails (sp_code a (next_pc (sp_phase a)))
      in u\<lparr>u_run := (if f then u_run u else u_run u + 1),
           u_synced := (u_synced u \<or> \<not> u_fenced u),
           u_faulted := (if f then True else u_faulted u \<and> u_block u \<noteq> None)\<rparr>)"

definition usage_step :: "(u32 \<Rightarrow> ('m, u32) M) \<Rightarrow> 'm fetch_call \<Rightarrow> fspec \<Rightarrow> usage \<Rightarrow> usage" where
  "usage_step L c a u =
     (if is_fetch c then usage_fetch a u
      else if is_fence c
      then u\<lparr>u_mod := (\<lambda>_. False), u_fenced := True, u_synced := False, u_fences := u_fences u + 1\<rparr>
      else case c of
        Write_code m \<Rightarrow> u\<lparr>u_mod := (\<lambda>p. u_mod u p \<or> sp_code a p \<noteq> code_of L m p)\<rparr>
      | _ \<Rightarrow> (case transfer c (sp_phase a) of None \<Rightarrow> u | Some t \<Rightarrow> usage_goto t (is_ret_trap c) u))"

text \<open>
  Two words of the same length (and, when \<open>timed\<close>, of the same execution time); code that keeps
  what could be fetched fetchable, with words of the same shape.
\<close>

definition same_shape :: "u64 \<Rightarrow> (OpId \<Rightarrow> u64) \<Rightarrow> bool \<Rightarrow> u32 \<Rightarrow> u32 \<Rightarrow> bool" where
  "same_shape cfg opm timed w w' \<longleftrightarrow>
     is_compressed w = is_compressed w' \<and> (timed \<longrightarrow> opm (fst (dec cfg w)) = opm (fst (dec cfg w')))"

definition grows :: "u64 \<Rightarrow> (OpId \<Rightarrow> u64) \<Rightarrow> bool \<Rightarrow> (u32 \<Rightarrow> exn + u32) \<Rightarrow> (u32 \<Rightarrow> exn + u32) \<Rightarrow> bool" where
  "grows cfg opm timed c c' \<longleftrightarrow>
     (\<forall>p w. c p = Inr w \<longrightarrow> (\<exists>w'. c' p = Inr w' \<and> same_shape cfg opm timed w w'))"

fun is_done :: "phase \<Rightarrow> bool" where
  "is_done (Done q w op i l) = True" | "is_done _ = False"

fun is_fault :: "phase \<Rightarrow> bool" where
  "is_fault (Fault q) = True" | "is_fault _ = False"

text \<open>A transfer back to the start of the current run only after the run is known to agree with the code.\<close>

definition may_goto :: "u32 \<Rightarrow> usage \<Rightarrow> bool" where
  "may_goto t u \<longleftrightarrow> pc_is_valid t \<and> (u_block u = Some t \<longrightarrow> u_synced u)"

definition allowed ::
  "(u32 \<Rightarrow> ('m, u32) M) \<Rightarrow> u64 \<Rightarrow> (OpId \<Rightarrow> u64) \<Rightarrow> bool \<Rightarrow> 'm fetch_call \<Rightarrow> fspec \<Rightarrow> usage \<Rightarrow> bool" where
  "allowed L cfg opm timed c a u \<longleftrightarrow>
     (let ph = sp_phase a in
      case c of
        Fetch_fast \<Rightarrow> \<not> is_fault ph \<and> \<not> u_mod u (next_pc ph) \<and> u_run u < 65535
      | Fetch_global \<Rightarrow> \<not> is_fault ph \<and> \<not> u_mod u (next_pc ph) \<and> u_run u < 65535
      | Branch_taken \<Rightarrow> is_done ph \<and> may_goto (branch_target ph) u
      | Branch_not_taken \<Rightarrow> is_done ph
      | Jump \<Rightarrow> is_done ph \<and> may_goto (branch_target ph) u
      | Jump_and_link \<Rightarrow> is_done ph \<and> may_goto (branch_target ph) u
      | Jump_dyn p \<Rightarrow> is_done ph \<and> may_goto p u
      | Jump_dyn_and_link p \<Rightarrow> is_done ph \<and> may_goto p u
      | Fence_i \<Rightarrow> is_done ph \<and> u_fences u + 1 < 2 ^ 32
      | Fence_vma \<Rightarrow> is_done ph \<and> u_fences u + 1 < 2 ^ 32
      | Enter_trap p \<Rightarrow> may_goto p u
      | Ret_trap p \<Rightarrow> is_done ph \<and> pc_is_valid p
      | Force_slow_path \<Rightarrow> True
      | Enable b \<Rightarrow> True
      | Write_code m \<Rightarrow> grows cfg opm timed (sp_code a) (code_of L m)
      | Get_last_pc \<Rightarrow> is_done ph
      | Get_last_pc_exception_safe \<Rightarrow> is_fault ph \<or> (is_done ph \<and> \<not> u_faulted u)
      | Get_pc \<Rightarrow> \<not> is_fault ph
      | Get_cycles \<Rightarrow> timed
      | Get_mem_word \<Rightarrow> is_done ph)"

section \<open>Runs\<close>

fun run_outs :: "('c \<Rightarrow> 's \<Rightarrow> 'o \<times> 's) \<Rightarrow> 'c list \<Rightarrow> 's \<Rightarrow> 'o list \<times> 's" where
  "run_outs f [] s = ([], s)"
| "run_outs f (c # cs) s =
     (case f c s of (x, s') \<Rightarrow> case run_outs f cs s' of (xs, s'') \<Rightarrow> (x # xs, s''))"

text \<open>Every call of the list is one the bookkeeping allows at its time.\<close>

fun monitored ::
  "('c \<Rightarrow> 'a \<Rightarrow> 'o \<times> 'a) \<Rightarrow> ('c \<Rightarrow> 'a \<Rightarrow> 'u \<Rightarrow> 'u) \<Rightarrow> ('c \<Rightarrow> 'a \<Rightarrow> 'u \<Rightarrow> bool) \<Rightarrow> 'c list \<Rightarrow> 'a \<Rightarrow> 'u \<Rightarrow> bool" where
  "monitored f g ok [] a u \<longleftrightarrow> True"
| "monitored f g ok (c # cs) a u \<longleftrightarrow> ok c a u \<and> monitored f g ok cs (snd (f c a)) (g c a u)"

definition all_allowed ::
  "(u32 \<Rightarrow> ('m, u32) M) \<Rightarrow> u64 \<Rightarrow> (OpId \<Rightarrow> u64) \<Rightarrow> bool \<Rightarrow> 'm fetch_call list \<Rightarrow> fspec \<Rightarrow> usage \<Rightarrow> bool" where
  "all_allowed L cfg opm timed cs a u =
     monitored (spec_step L cfg opm) (usage_step L) (allowed L cfg opm timed) cs a u"

definition spec_init :: "(u32 \<Rightarrow> ('m, u32) M) \<Rightarrow> u32 \<Rightarrow> 'm \<Rightarrow> fspec" where
  "spec_init L entrypoint m = \<lparr>sp_code = code_of L m, sp_phase = Ready entrypoint, sp_cycles = 0\<rparr>"

definition usage_init :: "u32 \<Rightarrow> usage" where
  "usage_init entrypoint = \<lparr>u_mod = (\<lambda>_. False), u_block = Some entrypoint, u_run = 0, u_fenced = False,
     u_synced = False, u_fences = 0, u_faulted = False\<rparr>"

text \<open>An instruction memory that is a table, for examples.\<close>

definition map_load :: "u32 \<Rightarrow> (u32 \<Rightarrow> u32 option, u32) M" where
  "map_load p m = (case m p of None \<Rightarrow> Inl (SimulationTrap EXC_INSTR_ACCESS_FAULT (ucast p)) | Some w \<Rightarrow> Inr w, m)"

end
