(* ===== verification/VP_DBBInv.thy ===== *)
theory VP_DBBInv
  imports VP_DBBSpec VP_RegInv
begin

text \<open>
  The invariant of the block cache: what every block, link and position of the cache satisfies
  with respect to the code, and that the operations which only move between blocks keep it.
\<close>

section \<open>The invariant\<close>

abbreviation ent :: "dbb_block \<Rightarrow> nat \<Rightarrow> dbb_entry" where
  "ent B i \<equiv> entry_at B (int i)"

text \<open>A pointer to a live block that starts at \<open>t\<close>.\<close>

definition valid_ref :: "(bref \<Rightarrow> dbb_block) \<Rightarrow> nat \<Rightarrow> bref \<Rightarrow> u32 \<Rightarrow> bool" where
  "valid_ref blks nxt b t \<longleftrightarrow> (\<exists>n. b = Heap_block n \<and> n < nxt) \<and> b_start_addr (blks b) = t"

definition lc_ok :: "(bref \<Rightarrow> dbb_block) \<Rightarrow> nat \<Rightarrow> nat \<Rightarrow> link_cache \<Rightarrow> bool" where
  "lc_ok blks nxt k c \<longleftrightarrow> length (lc_pc c) = k \<and> length (lc_block c) = k \<and> lc_curIdx c < k \<and>
     (\<forall>i<k. pc_is_valid (lc_pc c ! i) \<longrightarrow>
        (\<exists>b. lc_block c ! i = Some b \<and> valid_ref blks nxt b (lc_pc c ! i)))"

definition entry_ok :: "u64 \<Rightarrow> (bref \<Rightarrow> dbb_block) \<Rightarrow> nat \<Rightarrow> dbb_entry \<Rightarrow> bool" where
  "entry_ok cfg blks nxt e \<longleftrightarrow> pc_is_valid (e_pc e) \<and>
     (case dec cfg (e_mem_word e) of (op, i, l) \<Rightarrow>
        e_op e = Some op \<and> e_instr e = i \<and> e_inc e = ucast l \<and>
        (\<forall>b. e_link e = Some b \<longrightarrow> valid_ref blks nxt b (e_pc e + hart_offset op i)))"

definition op_time :: "u64 \<Rightarrow> (OpId \<Rightarrow> u64) \<Rightarrow> u32 \<Rightarrow> u64" where
  "op_time cfg opm w = opm (fst (dec cfg w))"

definition cycles_ok :: "u64 \<Rightarrow> (OpId \<Rightarrow> u64) \<Rightarrow> dbb_block \<Rightarrow> bool" where
  "cycles_ok cfg opm B \<longleftrightarrow>
     (\<forall>i<b_len B. e_cycles (ent B (Suc i)) = e_cycles (ent B i) + ucast (op_time cfg opm (e_mem_word (ent B i))))"

definition fetchable :: "u64 \<Rightarrow> (OpId \<Rightarrow> u64) \<Rightarrow> bool \<Rightarrow> (u32 \<Rightarrow> exn + u32) \<Rightarrow> dbb_entry \<Rightarrow> bool" where
  "fetchable cfg opm timed code e \<longleftrightarrow>
     (\<exists>w. code (e_pc e) = Inr w \<and> same_shape cfg opm timed (e_mem_word e) w)"

definition block_shape :: "dbb_block \<Rightarrow> bool" where
  "block_shape B \<longleftrightarrow> b_alloc_len B = length (b_entries B) \<and> b_len B < b_alloc_len B \<and> b_len B \<le> 65535 \<and>
     pc_is_valid (b_start_addr B) \<and> e_pc (ent B 0) = b_start_addr B \<and> e_cycles (ent B 0) = 0 \<and>
     (\<forall>i\<le>b_len B. e_idx (ent B i) = of_nat i) \<and> e_op (ent B (b_len B)) = None \<and>
     (\<forall>i. Suc i < b_len B \<longrightarrow> e_pc (ent B (Suc i)) = e_pc (ent B i) + ucast (e_inc (ent B i)))"

definition block_ok ::
  "u64 \<Rightarrow> (OpId \<Rightarrow> u64) \<Rightarrow> bool \<Rightarrow> (u32 \<Rightarrow> exn + u32) \<Rightarrow> (bref \<Rightarrow> dbb_block) \<Rightarrow> nat \<Rightarrow> dbb_block \<Rightarrow> bool" where
  "block_ok cfg opm timed code blks nxt B \<longleftrightarrow> block_shape B \<and>
     (\<forall>i<b_len B. entry_ok cfg blks nxt (ent B i) \<and> fetchable cfg opm timed code (ent B i)) \<and>
     (timed \<longrightarrow> cycles_ok cfg opm B) \<and>
     lc_ok blks nxt JUMPDYNLINKCACHE_SIZE (b_jumpDynLinkCache B)"

text \<open>The entries are the words of the code, where it did not change since the last fence.\<close>

definition content :: "(u32 \<Rightarrow> exn + u32) \<Rightarrow> (u32 \<Rightarrow> bool) \<Rightarrow> dbb_block \<Rightarrow> bool" where
  "content code md B \<longleftrightarrow>
     (\<forall>i<b_len B. \<not> md (e_pc (ent B i)) \<longrightarrow> code (e_pc (ent B i)) = Inr (e_mem_word (ent B i)))"

definition dummy_ok :: "(bref \<Rightarrow> dbb_block) \<Rightarrow> nat \<Rightarrow> bool" where
  "dummy_ok blks nxt \<longleftrightarrow>
     length (b_entries (blks dummyBlock)) = 2 \<and> b_len (blks dummyBlock) = 0 \<and> e_cycles (ent (blks dummyBlock) 0) = 0 \<and>
     lc_ok blks nxt JUMPDYNLINKCACHE_SIZE (b_jumpDynLinkCache (blks dummyBlock)) \<and>
     length (b_entries (blks fastDisableBlock)) = 2 \<and> e_op (ent (blks fastDisableBlock) 1) = None"

text \<open>The part of the invariant that does not depend on the position of the hart.\<close>

definition store_ok ::
  "u64 \<Rightarrow> (OpId \<Rightarrow> u64) \<Rightarrow> bool \<Rightarrow> fspec \<Rightarrow> usage \<Rightarrow> (bref \<Rightarrow> dbb_block) \<Rightarrow> nat \<Rightarrow>
   (u64 \<rightharpoonup> bref) \<Rightarrow> link_cache \<Rightarrow> u32 \<Rightarrow> bool" where
  "store_ok cfg opm timed a u blks nxt bm tlc cnt \<longleftrightarrow>
     (\<forall>n<nxt. block_ok cfg opm timed (sp_code a) blks nxt (blks (Heap_block n)) \<and>
        unat (b_coherence_cnt (blks (Heap_block n))) \<le> u_fences u \<and>
        (b_coherence_cnt (blks (Heap_block n)) = cnt \<longrightarrow> content (sp_code a) (u_mod u) (blks (Heap_block n)))) \<and>
     (\<forall>p b. bm (ucast (p :: u32)) = Some b \<longrightarrow> valid_ref blks nxt b p) \<and>
     lc_ok blks nxt TRAPLINKCACHE_SIZE tlc \<and> dummy_ok blks nxt \<and> unat cnt = u_fences u"

definition hyps :: "(u32 \<Rightarrow> ('m, u32) M) \<Rightarrow> (OpId \<Rightarrow> u64) \<Rightarrow> bool \<Rightarrow> bool" where
  "hyps L opm timed \<longleftrightarrow>
     (\<forall>p q m. fst (L p (snd (L q m))) = fst (L p m)) \<and>
     (\<forall>p m e. fst (L p m) = Inl e \<longrightarrow> (\<exists>r v. e = SimulationTrap r v)) \<and>
     (timed \<longrightarrow> (\<forall>op. opm op \<le> 65536))"

definition base ::
  "(u32 \<Rightarrow> ('m, u32) M) \<Rightarrow> u64 \<Rightarrow> (OpId \<Rightarrow> u64) \<Rightarrow> bool \<Rightarrow> 'm dbbc \<Rightarrow> fspec \<Rightarrow> usage \<Rightarrow> bool" where
  "base L cfg opm timed s a u \<longleftrightarrow>
     hyps L opm timed \<and> d_isa_config s = cfg \<and> d_opMap s = opm \<and> d_has_compressed s \<and>
     code_of L (d_imem s) = sp_code a \<and>
     store_ok cfg opm timed a u (d_blocks s) (d_next_block s) (d_blockmap s) (d_trapLinkCache s) (d_coherence_cnt s)"

text \<open>The position: the index of the last entry executed in the current block, \<open>-1\<close> at its start.\<close>

definition pos :: "'m dbbc \<Rightarrow> int" where
  "pos s = snd (DBB_lastEntry s)"

definition curB :: "'m dbbc \<Rightarrow> dbb_block" where
  "curB s = d_blocks s (d_curBlock s)"

definition heap_pos :: "'m dbbc \<Rightarrow> fspec \<Rightarrow> usage \<Rightarrow> bool" where
  "heap_pos s a u \<longleftrightarrow>
     (\<exists>t. u_block u = Some t \<and> valid_ref (d_blocks s) (d_next_block s) (d_curBlock s) t) \<and>
     pos s + 1 = int (u_run u) \<and> u_run u \<le> b_len (curB s) \<and>
     (DBB_in_fast_path s \<or> u_synced u \<longrightarrow> content (sp_code a) (u_mod u) (curB s))"

definition dummy_pos :: "'m dbbc \<Rightarrow> bool \<Rightarrow> usage \<Rightarrow> bool" where
  "dummy_pos s timed u \<longleftrightarrow> \<not> DBB_in_fast_path s \<and>
     (timed \<longrightarrow> unat (e_cycles (ent (d_blocks s dummyBlock) 1)) \<le> u_run u * 65536)"

definition at_pos :: "'m dbbc \<Rightarrow> OpId \<Rightarrow> phase \<Rightarrow> bool" where
  "at_pos s cop ph =
     (case ph of
        Ready p \<Rightarrow> pc_is_valid p \<and> pos s = -1 \<and> e_pc (ent (curB s) 0) = p \<and>
          (d_curBlock s = dummyBlock \<longrightarrow> e_cycles (ent (curB s) 1) = 0)
      | Done q w op i l \<Rightarrow> pc_is_valid q \<and> 0 \<le> pos s \<and> cop = op \<and> d_instr s = i \<and> (l = 2 \<or> l = 4) \<and>
          e_pc (entry_at (curB s) (pos s)) = q \<and> e_inc (entry_at (curB s) (pos s)) = ucast l \<and>
          DBB_get_mem_word s = w \<and> dec (d_isa_config s) w = (op, i, l) \<and>
          (if d_curBlock s = dummyBlock then pos s = 0 else e_mem_word (entry_at (curB s) (pos s)) = w)
      | Fault q \<Rightarrow> d_exception s \<and> \<not> DBB_in_fast_path s \<and> e_pc (ent (d_blocks s dummyBlock) 0) = q \<and>
          (d_curBlock s = dummyBlock \<longrightarrow> pos s = 0))"

definition sim ::
  "(u32 \<Rightarrow> ('m, u32) M) \<Rightarrow> u64 \<Rightarrow> (OpId \<Rightarrow> u64) \<Rightarrow> bool \<Rightarrow> 'm dbbc \<times> OpId \<Rightarrow> fspec \<times> usage \<Rightarrow> bool" where
  "sim L cfg opm timed x y \<longleftrightarrow>
     (case (x, y) of ((s, cop), (a, u)) \<Rightarrow>
       base L cfg opm timed s a u \<and>
       (DBB_in_fast_path s \<longrightarrow> fst (d_fastEntry s) = d_curBlock s) \<and>
       (if d_curBlock s = dummyBlock then dummy_pos s timed u else heap_pos s a u) \<and>
       at_pos s cop (sp_phase a) \<and>
       (timed \<longrightarrow> sp_cycles a = DBB_get_cycle_counter_raw s) \<and>
       u_run u \<le> 65535 \<and> (is_fault (sp_phase a) \<or> d_exception s \<longrightarrow> u_faulted u) \<and> (u_block u = None \<longrightarrow> d_curBlock s = dummyBlock) \<and>
       (case sp_phase a of Ready p \<Rightarrow> u_run u = 0 | _ \<Rightarrow> True) \<and>
       (\<not> u_fenced u \<and> 0 < u_run u \<longrightarrow> u_synced u))"

section \<open>Entries and blocks\<close>

lemma entry_at_put [simp]:
  "0 \<le> i \<Longrightarrow> nat i < length (b_entries B) \<Longrightarrow>
   entry_at (put_entry i f B) j = (if j = i then f (entry_at B i) else entry_at B j)"
  by (auto simp: entry_at_def put_entry_def nth_list_update nat_eq_iff)

lemma put_entry_fields [simp]:
  "b_start_addr (put_entry i f B) = b_start_addr B" "b_alloc_len (put_entry i f B) = b_alloc_len B"
  "b_len (put_entry i f B) = b_len B" "length (b_entries (put_entry i f B)) = length (b_entries B)"
  "b_jumpDynLinkCache (put_entry i f B) = b_jumpDynLinkCache B"
  "b_coherence_cnt (put_entry i f B) = b_coherence_cnt B"
  by (simp_all add: put_entry_def)

lemma entry_at_more [simp]:
  "entry_at (B\<lparr>b_coherence_cnt := c\<rparr>) i = entry_at B i"
  "entry_at (B\<lparr>b_len := n\<rparr>) i = entry_at B i"
  "entry_at (B\<lparr>b_jumpDynLinkCache := lc\<rparr>) i = entry_at B i"
  by (simp_all add: entry_at_def)

lemma invalidate_fields [simp]:
  "b_start_addr (block_invalidate_links B) = b_start_addr B"
  "b_alloc_len (block_invalidate_links B) = b_alloc_len B"
  "b_len (block_invalidate_links B) = b_len B"
  "length (b_entries (block_invalidate_links B)) = length (b_entries B)"
  "b_jumpDynLinkCache (block_invalidate_links B) = lc_reset (b_jumpDynLinkCache B)"
  "b_coherence_cnt (block_invalidate_links B) = b_coherence_cnt B"
  by (simp_all add: block_invalidate_links_def)

lemma entry_at_invalidate [simp]:
  "b_len B \<le> length (b_entries B) \<Longrightarrow> entry_at (block_invalidate_links B) i =
     (if 0 \<le> i \<and> nat i < b_len B then (entry_at B i)\<lparr>e_link := None\<rparr> else entry_at B i)"
  by (auto simp: entry_at_def block_invalidate_links_def nth_append)

lemma grow_fields [simp]:
  "b_start_addr (block_grow B) = b_start_addr B" "b_alloc_len (block_grow B) = b_alloc_len B * 2"
  "b_len (block_grow B) = b_len B"
  "length (b_entries (block_grow B)) = length (b_entries B) + b_alloc_len B"
  "b_jumpDynLinkCache (block_grow B) = b_jumpDynLinkCache B"
  "b_coherence_cnt (block_grow B) = b_coherence_cnt B"
  by (simp_all add: block_grow_def)

lemma entry_at_grow [simp]: "entry_at (block_grow B) i = entry_at B i"
  by (auto simp: entry_at_def block_grow_def nth_append nth_replicate)

lemma block_init_fields [simp]:
  "b_start_addr (block_init p c) = p" "b_alloc_len (block_init p c) = 2" "b_len (block_init p c) = 0"
  "length (b_entries (block_init p c)) = 2"
  "b_jumpDynLinkCache (block_init p c) = lc_reset (lc_new JUMPDYNLINKCACHE_SIZE)"
  "b_coherence_cnt (block_init p c) = c"
  by (simp_all add: block_init_def N_ENTRIES_START_def)

lemma entry_at_block_init [simp]:
  "entry_at (block_init p c) 0 = blank_entry\<lparr>e_pc := p\<rparr>"
  "entry_at (block_init p c) 1 = blank_entry"
  by (auto simp: entry_at_def block_init_def N_ENTRIES_START_def block_invalidate_links_def numeral_2_eq_2
      set_terminal_def blank_entry_def nth_Cons split: nat.splits)

lemma blank_fields [simp]:
  "e_link blank_entry = None" "e_op blank_entry = None" "e_cycles blank_entry = 0" "e_idx blank_entry = 0"
  by (simp_all add: blank_entry_def)

section \<open>Link caches\<close>

lemma pc_is_valid_INVALID [simp]: "\<not> pc_is_valid INVALID_PC"
  by (simp add: pc_is_valid_def INVALID_PC_def)

lemma lc_ok_reset: "length (lc_pc c) = k \<Longrightarrow> length (lc_block c) = k \<Longrightarrow> 0 < k \<Longrightarrow> lc_ok blks nxt k (lc_reset c)"
  by (auto simp: lc_ok_def lc_reset_def)

lemma lc_ok_reset_ok [intro]: "lc_ok blks nxt k c \<Longrightarrow> lc_ok blks' nxt' k (lc_reset c)"
  by (rule lc_ok_reset) (auto simp: lc_ok_def)

lemma lc_ok_new: "0 < k \<Longrightarrow> lc_ok blks nxt k (lc_reset (lc_new k))"
  by (rule lc_ok_reset) (auto simp: lc_new_def)

lemma lc_ok_add:
  assumes "lc_ok blks nxt k c" "valid_ref blks nxt b p"
  shows "lc_ok blks nxt k (lc_add p b c)"
  using assms by (auto simp: lc_ok_def lc_add_def lc_set_def Let_def nth_list_update)

lemma lc_search_nth:
  "lc_search p ps bs = Some b \<Longrightarrow> \<exists>i<length ps. i < length bs \<and> ps ! i = p \<and> bs ! i = Some b"
proof (induction p ps bs rule: lc_search.induct)
  case (1 p q qs c bs)
  show ?case
  proof (cases "q = p")
    case True
    then show ?thesis using 1 by auto
  next
    case False
    then obtain i where "i < length qs \<and> i < length bs \<and> qs ! i = p \<and> bs ! i = Some b"
      using 1 by auto
    then show ?thesis by (intro exI [of _ "Suc i"]) simp
  qed
qed auto

lemma lc_find_ok:
  assumes "lc_ok blks nxt k c" "pc_is_valid p" "lc_find p c = Some b"
  shows "valid_ref blks nxt b p"
  using lc_search_nth [OF assms(3) [unfolded lc_find_def]] assms(1,2) by (auto simp: lc_ok_def)

text \<open>Links stay valid while blocks keep their start and new blocks are added.\<close>

definition extends :: "(bref \<Rightarrow> dbb_block) \<Rightarrow> nat \<Rightarrow> (bref \<Rightarrow> dbb_block) \<Rightarrow> nat \<Rightarrow> bool" where
  "extends blks nxt blks' nxt' \<longleftrightarrow> nxt \<le> nxt' \<and>
     (\<forall>n<nxt. b_start_addr (blks' (Heap_block n)) = b_start_addr (blks (Heap_block n)))"

lemma valid_ref_mono: "extends blks nxt blks' nxt' \<Longrightarrow> valid_ref blks nxt b t \<Longrightarrow> valid_ref blks' nxt' b t"
  by (auto simp: extends_def valid_ref_def)

lemma lc_ok_mono: "extends blks nxt blks' nxt' \<Longrightarrow> lc_ok blks nxt k c \<Longrightarrow> lc_ok blks' nxt' k c"
  unfolding lc_ok_def by (meson valid_ref_mono)

lemma entry_ok_mono: "extends blks nxt blks' nxt' \<Longrightarrow> entry_ok cfg blks nxt e \<Longrightarrow> entry_ok cfg blks' nxt' e"
  unfolding entry_ok_def by (auto split: prod.splits intro: valid_ref_mono)

lemma block_ok_mono:
  "extends blks nxt blks' nxt' \<Longrightarrow> block_ok cfg opm timed code blks nxt B \<Longrightarrow> block_ok cfg opm timed code blks' nxt' B"
  unfolding block_ok_def by (meson lc_ok_mono entry_ok_mono)

lemma extends_put [simp, intro]:
  "b_start_addr B = b_start_addr (blks b) \<Longrightarrow> extends blks nxt (blks(b := B)) nxt"
  by (simp add: extends_def)

section \<open>Decoding\<close>

lemma pc_is_valid_even: "pc_is_valid p \<longleftrightarrow> even p"
  by (simp add: pc_is_valid_def and_one_eq even_iff_mod_2_eq_zero)

lemma hart_offset_even: "even (hart_offset op i)"
proof -
  have "\<not> bit (J_imm i) 0" "\<not> bit (B_imm i) 0"
    by (simp_all add: J_imm_def B_imm_def bit_simps bit_macros bit_signed_drop_bit_iff bit_push_bit_iff)
  then show ?thesis by (simp add: hart_offset_def bit_0)
qed

lemma pc_is_valid_offset: "pc_is_valid p \<Longrightarrow> pc_is_valid (p + hart_offset op i)"
  using hart_offset_even by (simp add: pc_is_valid_even)

lemma dec_len: "dec cfg w = (op, i, l) \<Longrightarrow> l = (if is_compressed w then 2 else 4)"
  by (auto simp: dec_def split: if_splits sum.splits prod.splits)

lemma DBB_decode_dec:
  "DBB_decode s = (case dec (d_isa_config s) (d_instr s) of (op, i, l) \<Rightarrow> (Inr (op, l), s\<lparr>d_instr := i\<rparr>))"
proof (cases "is_compressed (d_instr s)")
  case True
  then obtain op w where "decode_and_expand_compressed RV32 (d_isa_config s) (d_instr s) = Inr (op, w)"
    using decode_total_result by blast
  then show ?thesis using True by (simp add: DBB_decode_def dec_def monad_simps)
next
  case False
  then show ?thesis by (simp add: DBB_decode_def dec_def monad_simps)
qed

text \<open>The effect of \<^verbatim>\<open>decode_update_entry\<close> on its block.\<close>

definition block_decode :: "nat \<Rightarrow> u32 \<Rightarrow> u32 \<Rightarrow> OpId \<times> u32 \<times> u32 \<Rightarrow> u32 \<Rightarrow> dbb_block \<Rightarrow> dbb_block" where
  "block_decode i p w d t B = (case d of (op, ins, l) \<Rightarrow>
     put_entry (int i) (\<lambda>x. x\<lparr>e_instr := ins, e_link := None\<rparr>)
     (put_entry (int (Suc i)) (\<lambda>x. x\<lparr>e_cycles := e_cycles (ent B i) + t\<rparr>)
     (put_entry (int i) (\<lambda>x. x\<lparr>e_inc := ucast l, e_op := Some op\<rparr>)
     (put_entry (int i) (\<lambda>x. x\<lparr>e_mem_word := w, e_pc := p\<rparr>) B))))"

lemma block_decode_fields [simp]:
  "b_start_addr (block_decode i p w d t B) = b_start_addr B"
  "b_alloc_len (block_decode i p w d t B) = b_alloc_len B"
  "b_len (block_decode i p w d t B) = b_len B"
  "length (b_entries (block_decode i p w d t B)) = length (b_entries B)"
  "b_jumpDynLinkCache (block_decode i p w d t B) = b_jumpDynLinkCache B"
  "b_coherence_cnt (block_decode i p w d t B) = b_coherence_cnt B"
  by (simp_all add: block_decode_def split: prod.splits)

lemma ent_block_decode:
  assumes "Suc i < length (b_entries B)"
  shows "ent (block_decode i p w (op, ins, l) t B) j =
    (if j = i then (ent B i)\<lparr>e_link := None, e_op := Some op, e_pc := p, e_mem_word := w, e_instr := ins,
       e_inc := ucast l\<rparr>
     else if j = Suc i then (ent B j)\<lparr>e_cycles := e_cycles (ent B i) + t\<rparr> else ent B j)"
  using assms by (simp add: block_decode_def del: of_nat_Suc)

lemma decode_update_entry_eq:
  assumes "dec (d_isa_config s) (d_instr s) = (op, i, l)" "Suc k < length (b_entries (d_blocks s b))"
  shows "DBB_decode_update_entry (b, int k) p s =
    (Inr (p + l), s\<lparr>d_instr := i, d_blocks := (d_blocks s)(b := block_decode k p (d_instr s) (op, i, l)
       (ucast (d_opMap s op)) (d_blocks s b))\<rparr>)"
  using assms
  by (simp add: DBB_decode_update_entry_def monad_simps DBB_decode_dec DBB_put_entry_def DBB_put_block_def
      next_entry_def DBB_entry_def block_decode_def add.commute [of 1])

section \<open>Projections of the simulation relation\<close>

lemma simD:
  assumes "sim L cfg opm timed (s, cop) (a, u)"
  shows "base L cfg opm timed s a u" "DBB_in_fast_path s \<Longrightarrow> fst (d_fastEntry s) = d_curBlock s"
    "d_curBlock s = dummyBlock \<Longrightarrow> dummy_pos s timed u" "d_curBlock s \<noteq> dummyBlock \<Longrightarrow> heap_pos s a u"
    "at_pos s cop (sp_phase a)" "timed \<Longrightarrow> sp_cycles a = DBB_get_cycle_counter_raw s" "u_run u \<le> 65535"
    "d_exception s \<Longrightarrow> u_faulted u" "is_fault (sp_phase a) \<Longrightarrow> u_faulted u"
    "u_block u = None \<Longrightarrow> d_curBlock s = dummyBlock"
    "sp_phase a = Ready p \<Longrightarrow> u_run u = 0" "\<not> u_fenced u \<Longrightarrow> 0 < u_run u \<Longrightarrow> u_synced u"
  using assms by (auto simp: sim_def split: if_splits phase.splits)

lemma baseD:
  assumes "base L cfg opm timed s a u"
  shows "hyps L opm timed" "d_isa_config s = cfg" "d_opMap s = opm" "d_has_compressed s"
    "code_of L (d_imem s) = sp_code a"
    "store_ok cfg opm timed a u (d_blocks s) (d_next_block s) (d_blockmap s) (d_trapLinkCache s) (d_coherence_cnt s)"
  using assms by (auto simp: base_def)

lemma store_okD:
  assumes "store_ok cfg opm timed a u blks nxt bm tlc cnt"
  shows "n < nxt \<Longrightarrow> block_ok cfg opm timed (sp_code a) blks nxt (blks (Heap_block n))"
    "n < nxt \<Longrightarrow> unat (b_coherence_cnt (blks (Heap_block n))) \<le> u_fences u"
    "n < nxt \<Longrightarrow> b_coherence_cnt (blks (Heap_block n)) = cnt \<Longrightarrow> content (sp_code a) (u_mod u) (blks (Heap_block n))"
    "bm (ucast (p :: u32)) = Some b \<Longrightarrow> valid_ref blks nxt b p"
    "lc_ok blks nxt TRAPLINKCACHE_SIZE tlc" "dummy_ok blks nxt" "unat cnt = u_fences u"
  using assms unfolding store_ok_def by blast+

lemma valid_ref_block:
  assumes "base L cfg opm timed s a u" "valid_ref (d_blocks s) (d_next_block s) b t"
  shows "block_ok cfg opm timed (sp_code a) (d_blocks s) (d_next_block s) (d_blocks s b)"
    "b_coherence_cnt (d_blocks s b) = d_coherence_cnt s \<Longrightarrow> content (sp_code a) (u_mod u) (d_blocks s b)"
    "b \<noteq> dummyBlock" "b \<noteq> fastDisableBlock" "b_start_addr (d_blocks s b) = t"
  using assms baseD(6) [OF assms(1)] store_okD by (auto simp: valid_ref_def)

lemma block_shapeD:
  assumes "block_ok cfg opm timed code blks nxt B"
  shows "b_alloc_len B = length (b_entries B)" "b_len B < length (b_entries B)" "b_len B \<le> 65535"
    "pc_is_valid (b_start_addr B)" "e_pc (ent B 0) = b_start_addr B" "e_cycles (ent B 0) = 0"
    "i \<le> b_len B \<Longrightarrow> e_idx (ent B i) = of_nat i" "e_op (ent B (b_len B)) = None"
    "Suc i < b_len B \<Longrightarrow> e_pc (ent B (Suc i)) = e_pc (ent B i) + ucast (e_inc (ent B i))"
    "i < b_len B \<Longrightarrow> entry_ok cfg blks nxt (ent B i)" "i < b_len B \<Longrightarrow> fetchable cfg opm timed code (ent B i)"
    "timed \<Longrightarrow> cycles_ok cfg opm B" "lc_ok blks nxt JUMPDYNLINKCACHE_SIZE (b_jumpDynLinkCache B)"
  using assms by (auto simp: block_ok_def block_shape_def)

lemma cycle_counter_last:
  "DBB_get_cycle_counter_raw s = d_cycle_counter_raw s + ucast (e_cycles (DBB_entry s (next_entry (DBB_lastEntry s))))"
  by (simp add: DBB_get_cycle_counter_raw_def DBB_lastEntry_def next_entry_def)

lemma lastEntry_cur:
  "(DBB_in_fast_path s \<Longrightarrow> fst (d_fastEntry s) = d_curBlock s) \<Longrightarrow> DBB_lastEntry s = (d_curBlock s, pos s)"
  by (auto simp: DBB_lastEntry_def pos_def prod_eq_iff)

lemma base_cong:
  "sp_code a' = sp_code a \<Longrightarrow> u_mod u' = u_mod u \<Longrightarrow> u_fences u' = u_fences u \<Longrightarrow>
   base L cfg opm timed s a' u' = base L cfg opm timed s a u"
  by (simp add: base_def store_ok_def)

lemma usage_goto_fields [simp]:
  "u_mod (usage_goto t r u) = u_mod u" "u_fences (usage_goto t r u) = u_fences u"
  "u_run (usage_goto t r u) = 0" "u_faulted (usage_goto t r u) = u_faulted u"
  "u_block (usage_goto t r u) = (if r then None else Some t)" "\<not> u_synced (usage_goto t r u)"
  "\<not> u_fenced (usage_goto t r u)"
  by (simp_all add: usage_goto_def Let_def)

lemma base_ghosts [simp]:
  "base L cfg opm timed s (a\<lparr>sp_phase := ph\<rparr>) u = base L cfg opm timed s a u"
  "base L cfg opm timed s (a\<lparr>sp_cycles := n\<rparr>) u = base L cfg opm timed s a u"
  "base L cfg opm timed s a (usage_goto t r u) = base L cfg opm timed s a u"
  by (rule base_cong; simp)+

section \<open>Switching blocks\<close>

text \<open>What a switch needs of the state it starts from.\<close>

definition switchable ::
  "(u32 \<Rightarrow> ('m, u32) M) \<Rightarrow> u64 \<Rightarrow> (OpId \<Rightarrow> u64) \<Rightarrow> bool \<Rightarrow> 'm dbbc \<Rightarrow> fspec \<Rightarrow> usage \<Rightarrow> bool" where
  "switchable L cfg opm timed s a u \<longleftrightarrow> base L cfg opm timed s a u \<and>
     (DBB_in_fast_path s \<longrightarrow> fst (d_fastEntry s) = d_curBlock s) \<and>
     (timed \<longrightarrow> sp_cycles a = DBB_get_cycle_counter_raw s) \<and> (d_exception s \<longrightarrow> u_faulted u) \<and>
     (d_curBlock s = dummyBlock \<or> valid_ref (d_blocks s) (d_next_block s) (d_curBlock s) (b_start_addr (curB s)))"

lemma sim_switchable: "sim L cfg opm timed (s, cop) (a, u) \<Longrightarrow> switchable L cfg opm timed s a u"
  by (auto simp: switchable_def sim_def heap_pos_def curB_def valid_ref_def split: if_splits)

lemma base_switch_block [simp]:
  "base L cfg opm timed (DBB_switch_block b s) a u = base L cfg opm timed s a u"
  by (simp add: base_def DBB_switch_block_def Let_def DBB_fast_path_raw_enable_def DBB_fast_path_raw_disable_def)

lemma switch_block_fields [simp]:
  "d_blocks (DBB_switch_block b s) = d_blocks s" "d_next_block (DBB_switch_block b s) = d_next_block s"
  "d_curBlock (DBB_switch_block b s) = b" "d_exception (DBB_switch_block b s) = d_exception s"
  "d_trapLinkCache (DBB_switch_block b s) = d_trapLinkCache s"
  by (simp_all add: DBB_switch_block_def Let_def DBB_fast_path_raw_enable_def DBB_fast_path_raw_disable_def)

lemma switch_block_pos [simp]: "pos (DBB_switch_block b s) = -1"
  by (auto simp: DBB_switch_block_def Let_def DBB_fast_path_raw_enable_def DBB_fast_path_raw_disable_def
      pos_def DBB_lastEntry_def DBB_in_fast_path_def)

lemma switch_block_fast:
  "DBB_in_fast_path (DBB_switch_block b s) \<Longrightarrow> fst (d_fastEntry (DBB_switch_block b s)) = b"
  "DBB_in_fast_path (DBB_switch_block b s) \<Longrightarrow> d_curBlock s = b \<or> b_coherence_cnt (d_blocks s b) = d_coherence_cnt s"
  by (auto simp: DBB_switch_block_def Let_def DBB_fast_path_raw_enable_def DBB_fast_path_raw_disable_def
      DBB_in_fast_path_def split: if_splits)

lemma switch_block_cycles:
  "d_cycle_counter_raw (DBB_switch_block b s) = DBB_get_cycle_counter_raw s"
  by (simp add: DBB_switch_block_def Let_def DBB_fast_path_raw_enable_def DBB_fast_path_raw_disable_def
      cycle_counter_last)

lemma switch_block_sim:
  assumes s: "switchable L cfg opm timed s a u" and b: "valid_ref (d_blocks s) (d_next_block s) b t"
    and same: "d_curBlock s = b \<Longrightarrow> content (sp_code a) (u_mod u) (d_blocks s b)"
  shows "sim L cfg opm timed (DBB_switch_block b s, cop) (a\<lparr>sp_phase := Ready t\<rparr>, usage_goto t False u)"
proof -
  let ?s = "DBB_switch_block b s"
  have base: "base L cfg opm timed s a u" using s by (simp add: switchable_def)
  note B = valid_ref_block [OF base b] block_shapeD [OF valid_ref_block(1) [OF base b]]
  have last: "DBB_lastEntry ?s = (b, -1)"
    by (subst lastEntry_cur) (auto dest: switch_block_fast(1))
  have "DBB_in_fast_path ?s \<longrightarrow> content (sp_code a) (u_mod u) (d_blocks s b)"
    using switch_block_fast(2) [of b s] same B(2) by blast
  moreover have "DBB_in_fast_path ?s \<longrightarrow> fst (d_fastEntry ?s) = b" using switch_block_fast(1) [of b s] by blast
  moreover have "base L cfg opm timed ?s (a\<lparr>sp_phase := Ready t\<rparr>) (usage_goto t False u)"
    using base by simp
  moreover have "pc_is_valid t" "e_pc (ent (d_blocks s b) 0) = t" using B by simp_all
  moreover have "timed \<Longrightarrow> sp_cycles a = DBB_get_cycle_counter_raw ?s"
    using s B(11) last
    by (simp add: cycle_counter_last [of ?s] switch_block_cycles next_entry_def DBB_entry_def switchable_def)
  moreover have "d_exception s \<longrightarrow> u_faulted u" using s by (simp add: switchable_def)
  ultimately show ?thesis
    using b B(3) by (simp add: sim_def heap_pos_def at_pos_def curB_def)
qed

lemma base_put_dummy:
  assumes "base L cfg opm timed s a u" "length (b_entries B') = 2" "b_len B' = 0"
    "e_cycles (ent B' 0) = 0" "lc_ok (d_blocks s) (d_next_block s) JUMPDYNLINKCACHE_SIZE (b_jumpDynLinkCache B')"
  shows "base L cfg opm timed (s\<lparr>d_blocks := (d_blocks s)(dummyBlock := B')\<rparr>) a u"
proof -
  let ?b = "(d_blocks s)(dummyBlock := B')"
  have e: "extends (d_blocks s) (d_next_block s) ?b (d_next_block s)" by (simp add: extends_def)
  note st = baseD(6) [OF assms(1)]
  have "store_ok cfg opm timed a u ?b (d_next_block s) (d_blockmap s) (d_trapLinkCache s) (d_coherence_cnt s)"
    using store_okD [OF st] assms(2-) block_ok_mono [OF e] lc_ok_mono [OF e] valid_ref_mono [OF e]
    by (simp add: store_ok_def dummy_ok_def)
  then show ?thesis using assms(1) by (simp add: base_def)
qed

lemma in_fast_path_disable [simp]: "d_fastEntry s = (fastDisableBlock, 0) \<Longrightarrow> \<not> DBB_in_fast_path s"
  by (simp add: DBB_in_fast_path_def)

definition dummy_switched :: "u32 \<Rightarrow> dbb_block \<Rightarrow> dbb_block" where
  "dummy_switched p B = put_entry 1 (\<lambda>e. e\<lparr>e_cycles := 0\<rparr>) (put_entry 0 (\<lambda>e. e\<lparr>e_pc := p\<rparr>) B)"

lemma switch_block_dummy_eq:
  "DBB_switch_block_dummy p s =
     s\<lparr>d_cycle_counter_raw := DBB_get_cycle_counter_raw s,
       d_blocks := (d_blocks s)(dummyBlock := dummy_switched p (d_blocks s dummyBlock)),
       d_fastEntry := (fastDisableBlock, 0), d_curBlock := dummyBlock, d_curEntryIdx := -1\<rparr>"
  by (simp add: DBB_switch_block_dummy_def Let_def DBB_put_entry_def DBB_put_block_def
      DBB_fast_path_raw_disable_def cycle_counter_last dummy_switched_def)

lemma base_fields:
  "base L cfg opm timed (s\<lparr>d_cycle_counter_raw := x\<rparr>) a u = base L cfg opm timed s a u"
  "base L cfg opm timed (s\<lparr>d_fastEntry := f\<rparr>) a u = base L cfg opm timed s a u"
  "base L cfg opm timed (s\<lparr>d_curBlock := b\<rparr>) a u = base L cfg opm timed s a u"
  "base L cfg opm timed (s\<lparr>d_curEntryIdx := i\<rparr>) a u = base L cfg opm timed s a u"
  "base L cfg opm timed (s\<lparr>d_slow_path := sl\<rparr>) a u = base L cfg opm timed s a u"
  "base L cfg opm timed (s\<lparr>d_exception := ex\<rparr>) a u = base L cfg opm timed s a u"
  "base L cfg opm timed (s\<lparr>d_instr := ins\<rparr>) a u = base L cfg opm timed s a u"
  "base L cfg opm timed (s\<lparr>d_pc := p\<rparr>) a u = base L cfg opm timed s a u"
  "base L cfg opm timed (s\<lparr>d_mem_word := w\<rparr>) a u = base L cfg opm timed s a u"
  "base L cfg opm timed (s\<lparr>d_enabled := en\<rparr>) a u = base L cfg opm timed s a u"
  by (simp_all add: base_def)

lemma dummy_okD:
  assumes "base L cfg opm timed s a u"
  shows "length (b_entries (d_blocks s dummyBlock)) = 2" "b_len (d_blocks s dummyBlock) = 0"
    "e_cycles (ent (d_blocks s dummyBlock) 0) = 0"
    "lc_ok (d_blocks s) (d_next_block s) JUMPDYNLINKCACHE_SIZE (b_jumpDynLinkCache (d_blocks s dummyBlock))"
    "length (b_entries (d_blocks s fastDisableBlock)) = 2" "e_op (ent (d_blocks s fastDisableBlock) 1) = None"
  using store_okD(6) [OF baseD(6) [OF assms]] unfolding dummy_ok_def by blast+

lemma dummy_switched_fields [simp]:
  "length (b_entries B) = 2 \<Longrightarrow> entry_at (dummy_switched p B) 0 = (entry_at B 0)\<lparr>e_pc := p\<rparr>"
  "length (b_entries B) = 2 \<Longrightarrow> entry_at (dummy_switched p B) 1 = (entry_at B 1)\<lparr>e_cycles := 0\<rparr>"
  "b_len (dummy_switched p B) = b_len B" "length (b_entries (dummy_switched p B)) = length (b_entries B)"
  "b_jumpDynLinkCache (dummy_switched p B) = b_jumpDynLinkCache B"
  by (simp_all add: dummy_switched_def)

lemma switch_block_dummy_sim:
  assumes s: "switchable L cfg opm timed s a u" and p: "pc_is_valid p"
  shows "sim L cfg opm timed (DBB_switch_block_dummy p s, cop) (a\<lparr>sp_phase := Ready p\<rparr>, usage_goto p r u)"
proof -
  have b: "base L cfg opm timed s a u" using s by (simp add: switchable_def)
  note D = dummy_okD [OF b]
  let ?B = "dummy_switched p (d_blocks s dummyBlock)"
  have b': "base L cfg opm timed (s\<lparr>d_blocks := (d_blocks s)(dummyBlock := ?B)\<rparr>) a u"
    by (rule base_put_dummy [OF b]) (use D in simp_all)
  then have "base L cfg opm timed (DBB_switch_block_dummy p s) a u"
    by (simp add: base_fields switch_block_dummy_eq base_def)
  then show ?thesis
    using p s D
    by (auto simp: sim_def dummy_pos_def at_pos_def switch_block_dummy_eq pos_def curB_def
        DBB_lastEntry_def cycle_counter_last DBB_entry_def next_entry_def switchable_def)
qed

section \<open>Finding and creating blocks\<close>

definition DBB_new_block :: "u32 \<Rightarrow> 'm dbbc \<Rightarrow> 'm dbbc" where
  "DBB_new_block p s =
     (let b = Heap_block (d_next_block s)
      in s\<lparr>d_next_block := d_next_block s + 1,
           d_blocks := (d_blocks s)(b := block_init p (d_coherence_cnt s)),
           d_blockmap := (d_blockmap s)(ucast p \<mapsto> b)\<rparr>)"

lemma find_create_eq:
  "DBB_find_create_switch_block p s =
     (case d_blockmap s (ucast p) of
        Some b \<Rightarrow> DBB_switch_block b s
      | None \<Rightarrow> DBB_switch_block (Heap_block (d_next_block s)) (DBB_new_block p s))"
  by (simp add: DBB_find_create_switch_block_def DBB_new_block_def Let_def split: option.split)

lemma block_init_ok:
  "pc_is_valid p \<Longrightarrow> block_ok cfg opm timed code blks nxt (block_init p c)"
  by (simp add: block_ok_def block_shape_def cycles_ok_def lc_ok_new JUMPDYNLINKCACHE_SIZE_def)

lemma ucast_u32_u64_inj: "(ucast (p :: u32) :: u64) = ucast q \<longleftrightarrow> p = q"
proof
  assume e: "(ucast p :: u64) = ucast q"
  show "p = q"
  proof (rule bit_word_eqI)
    fix n assume "n < LENGTH(32)"
    then show "bit p n = bit q n" using arg_cong [OF e, of "\<lambda>w. bit w n"] by (simp add: bit_ucast_iff)
  qed
qed simp

lemma new_block_base:
  assumes b: "base L cfg opm timed s a u" and p: "pc_is_valid p"
  shows "base L cfg opm timed (DBB_new_block p s) a u"
    and "valid_ref (d_blocks (DBB_new_block p s)) (d_next_block (DBB_new_block p s)) (Heap_block (d_next_block s)) p"
proof -
  let ?b = "Heap_block (d_next_block s)"
  let ?blks = "(d_blocks s)(?b := block_init p (d_coherence_cnt s))" and ?n = "Suc (d_next_block s)"
  note st = baseD(6) [OF b]
  have e: "extends (d_blocks s) (d_next_block s) ?blks ?n" by (simp add: extends_def)
  have v: "valid_ref ?blks ?n ?b p" by (auto simp: valid_ref_def)
  have "store_ok cfg opm timed a u ?blks ?n ((d_blockmap s)(ucast p \<mapsto> ?b)) (d_trapLinkCache s) (d_coherence_cnt s)"
    unfolding store_ok_def
  proof (intro conjI allI impI)
    fix n assume "n < ?n"
    then consider "n < d_next_block s" | "n = d_next_block s" by linarith
    then show "block_ok cfg opm timed (sp_code a) ?blks ?n (?blks (Heap_block n))"
      by cases (use store_okD(1) [OF st] block_ok_mono [OF e] block_init_ok [OF p] in auto)
    show "unat (b_coherence_cnt (?blks (Heap_block n))) \<le> u_fences u"
      using \<open>n < ?n\<close> store_okD(2) [OF st, of n] store_okD(7) [OF st] by auto
    show "content (sp_code a) (u_mod u) (?blks (Heap_block n))"
      if "b_coherence_cnt (?blks (Heap_block n)) = d_coherence_cnt s"
      using \<open>n < ?n\<close> store_okD(3) [OF st, of n] that by (auto simp: content_def)
  next
    fix q b' assume "((d_blockmap s)(ucast p \<mapsto> ?b)) (ucast (q :: u32)) = Some b'"
    then show "valid_ref ?blks ?n b' q"
      using v valid_ref_mono [OF e store_okD(4) [OF st]]
      by (auto simp: ucast_u32_u64_inj split: if_splits)
  next
    show "lc_ok ?blks ?n TRAPLINKCACHE_SIZE (d_trapLinkCache s)"
      by (rule lc_ok_mono [OF e store_okD(5) [OF st]])
    show "dummy_ok ?blks ?n"
      using store_okD(6) [OF st] lc_ok_mono [OF e] by (simp add: dummy_ok_def)
    show "unat (d_coherence_cnt s) = u_fences u" by (rule store_okD(7) [OF st])
  qed
  then show "base L cfg opm timed (DBB_new_block p s) a u"
    using b by (simp add: base_def DBB_new_block_def Let_def)
  show "valid_ref (d_blocks (DBB_new_block p s)) (d_next_block (DBB_new_block p s)) ?b p"
    using v by (simp add: DBB_new_block_def Let_def)
qed

lemma new_block_fields [simp]:
  "d_curBlock (DBB_new_block p s) = d_curBlock s" "d_fastEntry (DBB_new_block p s) = d_fastEntry s"
  "d_exception (DBB_new_block p s) = d_exception s" "DBB_in_fast_path (DBB_new_block p s) = DBB_in_fast_path s"
  "d_next_block (DBB_new_block p s) = Suc (d_next_block s)" "DBB_lastEntry (DBB_new_block p s) = DBB_lastEntry s"
  "d_cycle_counter_raw (DBB_new_block p s) = d_cycle_counter_raw s"
  "d_trapLinkCache (DBB_new_block p s) = d_trapLinkCache s"
  by (simp_all add: DBB_new_block_def Let_def DBB_in_fast_path_def DBB_lastEntry_def)

lemma new_block_other:
  "b \<noteq> Heap_block (d_next_block s) \<Longrightarrow> d_blocks (DBB_new_block p s) b = d_blocks s b"
  by (simp add: DBB_new_block_def Let_def)

lemma switchable_cur_live:
  assumes "switchable L cfg opm timed s a u"
  shows "d_curBlock s \<noteq> Heap_block (d_next_block s)" "d_curBlock s \<noteq> fastDisableBlock"
  using assms by (auto simp: switchable_def valid_ref_def)

lemma new_block_switchable:
  assumes s: "switchable L cfg opm timed s a u" and p: "pc_is_valid p"
  shows "switchable L cfg opm timed (DBB_new_block p s) a u"
proof -
  have f: "DBB_in_fast_path s \<Longrightarrow> fst (d_fastEntry s) = d_curBlock s" using s by (simp add: switchable_def)
  note live = switchable_cur_live [OF s]
  have "DBB_get_cycle_counter_raw (DBB_new_block p s) = DBB_get_cycle_counter_raw s"
    using live by (simp add: cycle_counter_last lastEntry_cur [OF f] next_entry_def DBB_entry_def new_block_other)
  moreover have "curB (DBB_new_block p s) = curB s" using live by (simp add: curB_def new_block_other)
  moreover have "valid_ref (d_blocks (DBB_new_block p s)) (d_next_block (DBB_new_block p s)) b t"
    if "valid_ref (d_blocks s) (d_next_block s) b t" for b t
    using that by (auto simp: valid_ref_def new_block_other)
  ultimately show ?thesis
    using s new_block_base(1) [OF _ p] by (simp add: switchable_def) blast
qed

text \<open>A switch by address ends at the start of a block for it.\<close>

lemma find_create_sim:
  assumes s: "switchable L cfg opm timed s a u" and p: "pc_is_valid p"
    and same: "valid_ref (d_blocks s) (d_next_block s) (d_curBlock s) p \<Longrightarrow> content (sp_code a) (u_mod u) (curB s)"
  shows "sim L cfg opm timed (DBB_find_create_switch_block p s, cop) (a\<lparr>sp_phase := Ready p\<rparr>, usage_goto p False u)"
proof (cases "d_blockmap s (ucast p)")
  case None
  have b: "base L cfg opm timed s a u" using s by (simp add: switchable_def)
  show ?thesis
    unfolding find_create_eq None option.case
    by (rule switch_block_sim [OF new_block_switchable [OF s p] new_block_base(2) [OF b p]])
      (use switchable_cur_live [OF s] in simp)
next
  case (Some b)
  have st: "base L cfg opm timed s a u" using s by (simp add: switchable_def)
  have v: "valid_ref (d_blocks s) (d_next_block s) b p" by (rule store_okD(4) [OF baseD(6) [OF st] Some])
  show ?thesis
    unfolding find_create_eq Some option.case
    by (rule switch_block_sim [OF s v]) (use v same in \<open>auto simp: curB_def\<close>)
qed

lemma find_create_kept:
  "b \<noteq> Heap_block (d_next_block s) \<Longrightarrow> d_blocks (DBB_find_create_switch_block p s) b = d_blocks s b"
  by (simp add: find_create_eq new_block_other split: option.split)

section \<open>Setting links\<close>

definition relinked :: "dbb_block \<Rightarrow> dbb_block \<Rightarrow> bool" where
  "relinked B B' \<longleftrightarrow> b_start_addr B' = b_start_addr B \<and> b_alloc_len B' = b_alloc_len B \<and> b_len B' = b_len B \<and>
     length (b_entries B') = length (b_entries B) \<and> b_coherence_cnt B' = b_coherence_cnt B \<and>
     (\<forall>i. \<exists>l. entry_at B' i = (entry_at B i)\<lparr>e_link := l\<rparr>)"

lemma relinked_fields:
  assumes "relinked B B'"
  shows "e_op (entry_at B' i) = e_op (entry_at B i)" "e_pc (entry_at B' i) = e_pc (entry_at B i)"
    "e_cycles (entry_at B' i) = e_cycles (entry_at B i)" "e_mem_word (entry_at B' i) = e_mem_word (entry_at B i)"
    "e_instr (entry_at B' i) = e_instr (entry_at B i)" "e_inc (entry_at B' i) = e_inc (entry_at B i)"
    "e_idx (entry_at B' i) = e_idx (entry_at B i)"
proof -
  obtain l where "entry_at B' i = (entry_at B i)\<lparr>e_link := l\<rparr>" using assms unfolding relinked_def by blast
  then show "e_op (entry_at B' i) = e_op (entry_at B i)" "e_pc (entry_at B' i) = e_pc (entry_at B i)"
    "e_cycles (entry_at B' i) = e_cycles (entry_at B i)" "e_mem_word (entry_at B' i) = e_mem_word (entry_at B i)"
    "e_instr (entry_at B' i) = e_instr (entry_at B i)" "e_inc (entry_at B' i) = e_inc (entry_at B i)"
    "e_idx (entry_at B' i) = e_idx (entry_at B i)"
    by simp_all
qed

lemma relinked_blocks:
  assumes "relinked (blks b) B'"
  shows "e_op (entry_at ((blks(b := B')) c) i) = e_op (entry_at (blks c) i)"
    "e_pc (entry_at ((blks(b := B')) c) i) = e_pc (entry_at (blks c) i)"
    "e_cycles (entry_at ((blks(b := B')) c) i) = e_cycles (entry_at (blks c) i)"
    "e_mem_word (entry_at ((blks(b := B')) c) i) = e_mem_word (entry_at (blks c) i)"
    "e_instr (entry_at ((blks(b := B')) c) i) = e_instr (entry_at (blks c) i)"
    "e_inc (entry_at ((blks(b := B')) c) i) = e_inc (entry_at (blks c) i)"
    "e_idx (entry_at ((blks(b := B')) c) i) = e_idx (entry_at (blks c) i)"
    "b_len ((blks(b := B')) c) = b_len (blks c)" "b_coherence_cnt ((blks(b := B')) c) = b_coherence_cnt (blks c)"
    "b_start_addr ((blks(b := B')) c) = b_start_addr (blks c)" "b_alloc_len ((blks(b := B')) c) = b_alloc_len (blks c)"
    "length (b_entries ((blks(b := B')) c)) = length (b_entries (blks c))"
  using relinked_fields [OF assms] assms by (auto simp: relinked_def)

text \<open>
  A block may be replaced by one that differs only in its links, as long as the new links are
  right.
\<close>

lemma relink_store:
  assumes st: "store_ok cfg opm timed a u blks nxt bm tlc cnt" and r: "relinked (blks b) B'"
    and links: "\<And>i n. b = Heap_block n \<Longrightarrow> n < nxt \<Longrightarrow> i < b_len (blks b) \<Longrightarrow> entry_ok cfg blks nxt (ent B' i)"
    and lc: "lc_ok blks nxt JUMPDYNLINKCACHE_SIZE (b_jumpDynLinkCache B')"
    and nd: "b \<noteq> fastDisableBlock"
  shows "store_ok cfg opm timed a u (blks(b := B')) nxt bm tlc cnt"
proof -
  let ?blks = "blks(b := B')"
  note R = relinked_blocks [where blks = blks and b = b, OF r]
  have e: "extends blks nxt ?blks nxt" using R by (simp add: extends_def)
  have c: "content code md (?blks x) = content code md (blks x)" for code md x
    by (simp only: content_def R)
  have k: "block_ok cfg opm timed (sp_code a) blks nxt (?blks (Heap_block n))" if n: "n < nxt" for n
  proof -
    have B: "block_ok cfg opm timed (sp_code a) blks nxt (blks (Heap_block n))" using store_okD(1) [OF st n] .
    have "lc_ok blks nxt JUMPDYNLINKCACHE_SIZE (b_jumpDynLinkCache (?blks (Heap_block n)))"
      using lc B by (auto simp: block_ok_def)
    moreover have "entry_ok cfg blks nxt (ent (?blks (Heap_block n)) i)" if "i < b_len (blks (Heap_block n))" for i
      using links [of n i] that n B by (auto simp: block_ok_def)
    moreover have "block_shape (?blks (Heap_block n))" using B unfolding block_ok_def block_shape_def R by simp
    moreover have "fetchable cfg opm timed (sp_code a) (ent (?blks (Heap_block n)) i)"
      if "i < b_len (blks (Heap_block n))" for i
      using B that unfolding block_ok_def fetchable_def R by simp
    moreover have "timed \<longrightarrow> cycles_ok cfg opm (?blks (Heap_block n))"
      using B unfolding block_ok_def cycles_ok_def R by simp
    ultimately show ?thesis unfolding block_ok_def R(8) by blast
  qed
  have "dummy_ok ?blks nxt"
    using store_okD(6) [OF st] lc_ok_mono [OF e] lc_ok_mono [OF e lc] nd R
    unfolding dummy_ok_def R by (cases b) simp_all
  then show ?thesis
    using k block_ok_mono [OF e] store_okD [OF st] valid_ref_mono [OF e] lc_ok_mono [OF e]
    unfolding store_ok_def R c by blast
qed

lemma relink_sim:
  assumes s: "sim L cfg opm timed (s, cop) (a, u)" and r: "relinked (d_blocks s b) B'"
    and links: "\<And>i n. b = Heap_block n \<Longrightarrow> n < d_next_block s \<Longrightarrow> i < b_len (d_blocks s b) \<Longrightarrow>
      entry_ok cfg (d_blocks s) (d_next_block s) (ent B' i)"
    and lc: "lc_ok (d_blocks s) (d_next_block s) JUMPDYNLINKCACHE_SIZE (b_jumpDynLinkCache B')"
    and nd: "b \<noteq> fastDisableBlock"
  shows "sim L cfg opm timed (s\<lparr>d_blocks := (d_blocks s)(b := B')\<rparr>, cop) (a, u)"
proof -
  let ?s = "s\<lparr>d_blocks := (d_blocks s)(b := B')\<rparr>"
  note R = relinked_blocks [where blks = "d_blocks s" and b = b, OF r]
  have S: "d_blocks ?s = (d_blocks s)(b := B')" "d_curBlock ?s = d_curBlock s" "d_exception ?s = d_exception s"
    "d_instr ?s = d_instr s" "d_isa_config ?s = d_isa_config s" "d_fastEntry ?s = d_fastEntry s"
    "d_curEntryIdx ?s = d_curEntryIdx s" "d_mem_word ?s = d_mem_word s" "d_cycle_counter_raw ?s = d_cycle_counter_raw s"
    by simp_all
  have "base L cfg opm timed ?s a u"
    using baseD [OF simD(1) [OF s]] relink_store [OF _ r links lc nd] by (simp add: base_def)
  moreover have F: "DBB_in_fast_path ?s = DBB_in_fast_path s" "pos ?s = pos s" "DBB_lastEntry ?s = DBB_lastEntry s"
    by (simp_all add: DBB_in_fast_path_def pos_def DBB_lastEntry_def)
  moreover have "content code md (curB ?s) = content code md (curB s)" for code md
    by (simp only: content_def curB_def S R)
  moreover have "valid_ref (d_blocks ?s) (d_next_block s) x t = valid_ref (d_blocks s) (d_next_block s) x t" for x t
    by (simp only: valid_ref_def S R)
  moreover have "b_len (curB ?s) = b_len (curB s)" by (simp only: curB_def S R)
  moreover have "at_pos ?s cop ph = at_pos s cop ph" for ph
    by (simp only: at_pos_def S R F curB_def DBB_get_mem_word_def DBB_entry_def fst_conv snd_conv)
  moreover have "DBB_get_cycle_counter_raw ?s = DBB_get_cycle_counter_raw s"
    by (simp only: cycle_counter_last S R F DBB_entry_def)
  moreover have "dummy_pos ?s timed u = dummy_pos s timed u"
    by (simp only: dummy_pos_def S F R)
  ultimately show ?thesis using s unfolding sim_def heap_pos_def by simp
qed

section \<open>Control transfers\<close>

lemma sim_same_content:
  assumes s: "sim L cfg opm timed (s, cop) (a, u)" and t: "may_goto t u"
    and v: "valid_ref (d_blocks s) (d_next_block s) (d_curBlock s) t"
  shows "content (sp_code a) (u_mod u) (curB s)"
proof -
  have "d_curBlock s \<noteq> dummyBlock" using v by (auto simp: valid_ref_def)
  then have h: "heap_pos s a u" using simD(4) [OF s] by blast
  then have "u_block u = Some t" using v by (auto simp: heap_pos_def valid_ref_def)
  then have "u_synced u" using t by (simp add: may_goto_def)
  then show ?thesis using h by (simp add: heap_pos_def)
qed

lemma linked_switch_sim:
  assumes s: "sim L cfg opm timed (s, cop) (a, u)" and t: "may_goto t u"
    and b: "valid_ref (d_blocks s) (d_next_block s) b t"
  shows "sim L cfg opm timed (DBB_switch_block b s, cop) (a\<lparr>sp_phase := Ready t\<rparr>, usage_goto t False u)"
proof (rule switch_block_sim [OF sim_switchable [OF s] b])
  assume "d_curBlock s = b"
  then show "content (sp_code a) (u_mod u) (d_blocks s b)"
    using sim_same_content [OF s t] b by (simp add: curB_def)
qed

lemma searched_switch_sim:
  assumes s: "sim L cfg opm timed (s, cop) (a, u)" and t: "may_goto t u"
  shows "sim L cfg opm timed (DBB_find_create_switch_block t s, cop) (a\<lparr>sp_phase := Ready t\<rparr>, usage_goto t False u)"
  by (rule find_create_sim [OF sim_switchable [OF s]])
    (use t sim_same_content [OF s t] in \<open>auto simp: may_goto_def\<close>)

lemma uncached_switch_sim:
  assumes "sim L cfg opm timed (s, cop) (a, u)" "pc_is_valid t"
  shows "sim L cfg opm timed (DBB_switch_block_dummy t s, cop) (a\<lparr>sp_phase := Ready t\<rparr>, usage_goto t r u)"
  by (rule switch_block_dummy_sim [OF sim_switchable [OF assms(1)] assms(2)])

lemma searched_switch_ref:
  assumes "sim L cfg opm timed (s', cop) (a\<lparr>sp_phase := Ready t\<rparr>, usage_goto t False u)" "d_curBlock s' \<noteq> dummyBlock"
  shows "valid_ref (d_blocks s') (d_next_block s') (d_curBlock s') t"
  using simD(4) [OF assms] by (simp add: heap_pos_def)

lemma searched_switch_cur:
  assumes "sim L cfg opm timed (s, cop) (a, u)"
  shows "d_curBlock (DBB_find_create_switch_block t s) \<noteq> dummyBlock"
  using store_okD(4) [OF baseD(6) [OF simD(1) [OF assms]], of t]
  by (auto simp: find_create_eq valid_ref_def split: option.split)

lemma sim_cur_live:
  assumes "sim L cfg opm timed (s, cop) (a, u)"
  shows "d_curBlock s \<noteq> Heap_block (d_next_block s)" "d_curBlock s \<noteq> fastDisableBlock"
  using switchable_cur_live [OF sim_switchable [OF assms]] by blast+

lemma sim_block_ok:
  assumes "sim L cfg opm timed (s, cop) (a, u)" "n < d_next_block s"
  shows "block_ok cfg opm timed (sp_code a) (d_blocks s) (d_next_block s) (d_blocks s (Heap_block n))"
  by (rule store_okD(1) [OF baseD(6) [OF simD(1) [OF assms(1)]] assms(2)])

lemma sim_jumpDyn_ok:
  assumes "sim L cfg opm timed (s, cop) (a, u)" "b = dummyBlock \<or> (\<exists>n<d_next_block s. b = Heap_block n)"
  shows "lc_ok (d_blocks s) (d_next_block s) JUMPDYNLINKCACHE_SIZE (b_jumpDynLinkCache (d_blocks s b))"
  using assms dummy_okD(4) [OF simD(1) [OF assms(1)]] block_shapeD(13) [OF sim_block_ok [OF assms(1)]] by auto

lemma sim_cur_ref:
  assumes "sim L cfg opm timed (s, cop) (a, u)"
  shows "d_curBlock s = dummyBlock \<or> (\<exists>n<d_next_block s. d_curBlock s = Heap_block n)"
  using simD(4) [OF assms] by (auto simp: heap_pos_def valid_ref_def)

lemma same_link: "\<exists>l. e = e\<lparr>e_link := l\<rparr>"
  by (rule exI [of _ "e_link e"]) simp

lemma jump_dyn_sim:
  assumes s: "sim L cfg opm timed (s, cop) (a, u)" and t: "may_goto t u"
  shows "sim L cfg opm timed (DBB_jump_dyn t s, cop) (a\<lparr>sp_phase := Ready t\<rparr>, usage_goto t False u)"
proof (cases "lc_find t (b_jumpDynLinkCache (d_blocks s (d_curBlock s)))")
  case (Some b)
  have "valid_ref (d_blocks s) (d_next_block s) b t"
    using lc_find_ok [OF sim_jumpDyn_ok [OF s sim_cur_ref [OF s]] _ Some] t by (simp add: may_goto_def)
  then show ?thesis using linked_switch_sim [OF s t] Some by (simp add: DBB_jump_dyn_def)
next
  case None
  show ?thesis
  proof (cases "d_enabled s")
    case False
    then show ?thesis using uncached_switch_sim [OF s] t None by (simp add: DBB_jump_dyn_def may_goto_def)
  next
    case True
    let ?s = "DBB_find_create_switch_block t s" and ?b = "d_curBlock s"
    have s': "sim L cfg opm timed (?s, cop) (a\<lparr>sp_phase := Ready t\<rparr>, usage_goto t False u)"
      by (rule searched_switch_sim [OF s t])
    have v: "valid_ref (d_blocks ?s) (d_next_block ?s) (d_curBlock ?s) t"
      by (rule searched_switch_ref [OF s' searched_switch_cur [OF s]])
    have n: "d_next_block s \<le> d_next_block ?s" by (simp add: find_create_eq split: option.split)
    have b: "?b = dummyBlock \<or> (\<exists>n<d_next_block ?s. ?b = Heap_block n)"
      using sim_cur_ref [OF s] n by auto
    have "sim L cfg opm timed (?s\<lparr>d_blocks := (d_blocks ?s)(?b := (d_blocks ?s ?b)\<lparr>b_jumpDynLinkCache :=
        lc_add t (d_curBlock ?s) (b_jumpDynLinkCache (d_blocks ?s ?b))\<rparr>)\<rparr>, cop)
        (a\<lparr>sp_phase := Ready t\<rparr>, usage_goto t False u)"
    proof (rule relink_sim [OF s'])
      show "relinked (d_blocks ?s ?b) ((d_blocks ?s ?b)\<lparr>b_jumpDynLinkCache :=
        lc_add t (d_curBlock ?s) (b_jumpDynLinkCache (d_blocks ?s ?b))\<rparr>)"
        by (simp add: relinked_def same_link)
      show "entry_ok cfg (d_blocks ?s) (d_next_block ?s) (ent ((d_blocks ?s ?b)\<lparr>b_jumpDynLinkCache :=
        lc_add t (d_curBlock ?s) (b_jumpDynLinkCache (d_blocks ?s ?b))\<rparr>) i)"
        if "?b = Heap_block n" "n < d_next_block ?s" "i < b_len (d_blocks ?s ?b)" for i n
        using block_shapeD(10) [OF sim_block_ok [OF s' that(2)]] that by simp
    qed (use lc_ok_add [OF sim_jumpDyn_ok [OF s' b] v] sim_cur_live [OF s] in simp_all)
    then show ?thesis using None True by (simp add: DBB_jump_dyn_def Let_def DBB_put_block_def)
  qed
qed

text \<open>Fields that the relation does not read may change.\<close>

lemma sim_frame:
  assumes s: "sim L cfg opm timed (s, cop) (a, u)" and b: "base L cfg opm timed s' a u"
    and E: "d_blocks s' = d_blocks s" "d_next_block s' = d_next_block s" "d_curBlock s' = d_curBlock s"
      "d_fastEntry s' = d_fastEntry s" "d_exception s' = d_exception s" "d_instr s' = d_instr s"
      "d_mem_word s' = d_mem_word s" "d_cycle_counter_raw s' = d_cycle_counter_raw s"
    and i: "\<not> DBB_in_fast_path s \<Longrightarrow> d_curEntryIdx s' = d_curEntryIdx s"
  shows "sim L cfg opm timed (s', cop) (a, u)"
proof -
  have c: "d_isa_config s' = d_isa_config s" using baseD(2) [OF b] baseD(2) [OF simD(1) [OF s]] by simp
  have f: "DBB_in_fast_path s' = DBB_in_fast_path s" by (simp add: DBB_in_fast_path_def E)
  have l: "DBB_lastEntry s' = DBB_lastEntry s" using i by (simp add: DBB_lastEntry_def f E)
  then have p: "pos s' = pos s" by (simp add: pos_def)
  have B: "curB s' = curB s" by (simp add: curB_def E)
  have m: "DBB_get_mem_word s' = DBB_get_mem_word s"
    using i by (cases "DBB_in_fast_path s") (simp_all add: DBB_get_mem_word_def f E DBB_entry_def)
  have "at_pos s' cop ph = at_pos s cop ph" for ph by (simp only: at_pos_def m p B f E c)
  moreover have "DBB_get_cycle_counter_raw s' = DBB_get_cycle_counter_raw s"
    by (simp only: cycle_counter_last DBB_entry_def l E)
  moreover have "heap_pos s' a u = heap_pos s a u" by (simp only: heap_pos_def p B f E)
  moreover have "dummy_pos s' timed u = dummy_pos s timed u" by (simp only: dummy_pos_def f E)
  ultimately show ?thesis using s b by (simp add: sim_def E f)
qed

lemma trap_cache_sim:
  assumes "sim L cfg opm timed (s, cop) (a, u)" "lc_ok (d_blocks s) (d_next_block s) TRAPLINKCACHE_SIZE c"
  shows "sim L cfg opm timed (s\<lparr>d_trapLinkCache := c\<rparr>, cop) (a, u)"
  by (rule sim_frame [OF assms(1)])
    (use simD(1) [OF assms(1)] assms(2) in \<open>auto simp: base_def store_ok_def\<close>)

lemma enter_trap_sim:
  assumes s: "sim L cfg opm timed (s, cop) (a, u)" and t: "may_goto t u"
  shows "sim L cfg opm timed (DBB_enter_trap t s, cop) (a\<lparr>sp_phase := Ready t\<rparr>, usage_goto t False u)"
proof (cases "lc_find t (d_trapLinkCache s)")
  case (Some b)
  have "valid_ref (d_blocks s) (d_next_block s) b t"
    using lc_find_ok [OF store_okD(5) [OF baseD(6) [OF simD(1) [OF s]]] _ Some] t by (simp add: may_goto_def)
  then show ?thesis using linked_switch_sim [OF s t] Some by (simp add: DBB_enter_trap_def)
next
  case None
  show ?thesis
  proof (cases "d_enabled s")
    case False
    then show ?thesis using uncached_switch_sim [OF s] t None by (simp add: DBB_enter_trap_def may_goto_def)
  next
    case True
    let ?s = "DBB_find_create_switch_block t s"
    have s': "sim L cfg opm timed (?s, cop) (a\<lparr>sp_phase := Ready t\<rparr>, usage_goto t False u)"
      by (rule searched_switch_sim [OF s t])
    have "lc_ok (d_blocks ?s) (d_next_block ?s) TRAPLINKCACHE_SIZE (lc_add t (d_curBlock ?s) (d_trapLinkCache ?s))"
      by (rule lc_ok_add [OF store_okD(5) [OF baseD(6) [OF simD(1) [OF s']]]
          searched_switch_ref [OF s' searched_switch_cur [OF s]]])
    then show ?thesis using trap_cache_sim [OF s'] None True by (simp add: DBB_enter_trap_def Let_def)
  qed
qed

lemma ret_trap_sim:
  assumes "sim L cfg opm timed (s, cop) (a, u)" "pc_is_valid t"
  shows "sim L cfg opm timed (DBB_ret_trap t s, cop) (a\<lparr>sp_phase := Ready t\<rparr>, usage_goto t True u)"
  using uncached_switch_sim [OF assms] by (simp add: DBB_ret_trap_def)

lemma uint_idx16: "k \<le> 65535 \<Longrightarrow> uint (of_nat k :: u16) = int k"
  by (simp add: unsigned_of_nat take_bit_nat_eq_self)

text \<open>The current entry of a cached block.\<close>

lemma heap_entry:
  assumes s: "sim L cfg opm timed (s, cop) (a, u)" and h: "d_curBlock s \<noteq> dummyBlock" and p: "0 \<le> pos s"
  obtains n k where "d_curBlock s = Heap_block n" "n < d_next_block s" "pos s = int k" "k < b_len (curB s)"
    "Suc k = u_run u" "uint (e_idx (ent (curB s) k)) = int k"
    "block_ok cfg opm timed (sp_code a) (d_blocks s) (d_next_block s) (curB s)"
    "entry_ok cfg (d_blocks s) (d_next_block s) (ent (curB s) k)"
proof -
  have hp: "heap_pos s a u" using simD(4) [OF s h] .
  then obtain n where n: "d_curBlock s = Heap_block n" "n < d_next_block s"
    by (auto simp: heap_pos_def valid_ref_def)
  have B: "block_ok cfg opm timed (sp_code a) (d_blocks s) (d_next_block s) (curB s)"
    using sim_block_ok [OF s n(2)] n by (simp add: curB_def)
  have k: "nat (pos s) < b_len (curB s)" "Suc (nat (pos s)) = u_run u" using hp p by (auto simp: heap_pos_def)
  show ?thesis
    by (rule that [of n "nat (pos s)"])
      (use n p k B block_shapeD(3) [OF B] block_shapeD(7) [OF B, of "nat (pos s)"] block_shapeD(10) [OF B, of "nat (pos s)"] uint_idx16 [of "nat (pos s)"] in auto)
qed

lemma set_idx_sim:
  assumes s: "sim L cfg opm timed (s, cop) (a, u)"
  shows "sim L cfg opm timed (s\<lparr>d_curEntryIdx := pos s\<rparr>, cop) (a, u)"
  by (rule sim_frame [OF s]) (use simD(1) [OF s] in \<open>auto simp: base_fields pos_def DBB_lastEntry_def\<close>)

text \<open>\<^verbatim>\<open>branch_taken_sjump\<close> in terms of the current entry.\<close>

lemma branch_eq:
  assumes s: "sim L cfg opm timed (s, cop) (a, u)" and p: "0 \<le> pos s" and e: "e = entry_at (curB s) (pos s)"
    and v: "pc_is_valid (e_pc e + off)"
  shows "DBB_branch_taken_sjump off s =
    (Inr (), let s' = s\<lparr>d_curEntryIdx := pos s\<rparr>; t = e_pc e + off; s'' = DBB_find_create_switch_block t s' in
      if d_curBlock s \<noteq> dummyBlock \<and> e_link e \<noteq> None then DBB_switch_block (the (e_link e)) s
      else if \<not> d_enabled s then DBB_switch_block_dummy t s'
      else if d_curBlock s = dummyBlock then s''
      else DBB_put_entry (d_curBlock s, pos s) (\<lambda>x. x\<lparr>e_link := Some (d_curBlock s'')\<rparr>) s'')"
proof (cases "DBB_in_fast_path s")
  case True
  then have f: "d_fastEntry s = (d_curBlock s, pos s)"
    using simD(2) [OF s] by (simp add: pos_def DBB_lastEntry_def prod_eq_iff)
  have h: "d_curBlock s \<noteq> dummyBlock" using True simD(3) [OF s] by (auto simp: dummy_pos_def)
  from heap_entry [OF s h p] have "uint (e_idx e) = pos s" by (metis e)
  then show ?thesis
    using True f h v e baseD(4) [OF simD(1) [OF s]]
    by (simp add: DBB_branch_taken_sjump_def Let_def DBB_entry_def curB_def)
next
  case False
  then have "pos s = d_curEntryIdx s" by (simp add: pos_def DBB_lastEntry_def)
  then show ?thesis
    using False v e baseD(4) [OF simD(1) [OF s]]
    by (simp add: DBB_branch_taken_sjump_def Let_def DBB_entry_def curB_def)
qed

lemma relink_entry_sim:
  assumes s: "sim L cfg opm timed (s, cop) (a, u)" and n: "n < d_next_block s"
    and k: "k < b_len (d_blocks s (Heap_block n))" and d: "dec cfg (e_mem_word (ent (d_blocks s (Heap_block n)) k)) = (op, i, l)"
    and v: "valid_ref (d_blocks s) (d_next_block s) c (e_pc (ent (d_blocks s (Heap_block n)) k) + hart_offset op i)"
  shows "sim L cfg opm timed (DBB_put_entry (Heap_block n, int k) (\<lambda>x. x\<lparr>e_link := Some c\<rparr>) s, cop) (a, u)"
proof -
  let ?B = "d_blocks s (Heap_block n)" and ?B' = "put_entry (int k) (\<lambda>x. x\<lparr>e_link := Some c\<rparr>) (d_blocks s (Heap_block n))"
  note B = block_shapeD [OF sim_block_ok [OF s n]]
  have "sim L cfg opm timed (s\<lparr>d_blocks := (d_blocks s)(Heap_block n := ?B')\<rparr>, cop) (a, u)"
  proof (rule relink_sim [OF s])
    show "relinked ?B ?B'" using B(2) k by (auto simp: relinked_def same_link)
    show "entry_ok cfg (d_blocks s) (d_next_block s) (ent ?B' j)" if "j < b_len ?B" for j
      using B(2) B(10) [OF that] k d v by (auto simp: entry_ok_def)
  qed (use B(13) in simp_all)
  then show ?thesis by (simp add: DBB_put_entry_def DBB_put_block_def)
qed

lemma branch_sim:
  assumes s: "sim L cfg opm timed (s, cop) (a, u)" and ph: "sp_phase a = Done q w op i l"
    and t: "may_goto (q + hart_offset op i) u"
  shows "\<exists>s'. DBB_branch_taken_sjump (hart_offset cop (d_instr s)) s = (Inr (), s') \<and>
    sim L cfg opm timed (s', cop) (a\<lparr>sp_phase := Ready (q + hart_offset op i)\<rparr>, usage_goto (q + hart_offset op i) False u)"
proof -
  let ?t = "q + hart_offset op i" and ?e = "entry_at (curB s) (pos s)"
  let ?s = "s\<lparr>d_curEntryIdx := pos s\<rparr>"
  let ?s2 = "DBB_find_create_switch_block ?t ?s"
  have A: "pc_is_valid q" "0 \<le> pos s" "cop = op" "d_instr s = i" "e_pc ?e = q" "dec cfg w = (op, i, l)"
    "d_curBlock s \<noteq> dummyBlock \<Longrightarrow> e_mem_word ?e = w"
    using simD(5) [OF s] baseD(2) [OF simD(1) [OF s]] by (auto simp: at_pos_def ph)
  have v: "pc_is_valid (e_pc ?e + hart_offset op i)" using A pc_is_valid_offset by simp
  have s1: "sim L cfg opm timed (?s, cop) (a, u)" by (rule set_idx_sim [OF s])
  have s2: "sim L cfg opm timed (?s2, cop) (a\<lparr>sp_phase := Ready ?t\<rparr>, usage_goto ?t False u)"
    by (rule searched_switch_sim [OF s1 t])
  have ref: "valid_ref (d_blocks ?s2) (d_next_block ?s2) (d_curBlock ?s2) ?t"
    by (rule searched_switch_ref [OF s2 searched_switch_cur [OF s1]])
  have linked: "sim L cfg opm timed (DBB_switch_block (the (e_link ?e)) s, cop) (a\<lparr>sp_phase := Ready ?t\<rparr>, usage_goto ?t False u)"
    if h: "d_curBlock s \<noteq> dummyBlock" and lk: "e_link ?e \<noteq> None"
  proof -
    obtain b where b: "e_link ?e = Some b" using lk by blast
    from heap_entry [OF s h A(2)] have "entry_ok cfg (d_blocks s) (d_next_block s) ?e" by metis
    then have "valid_ref (d_blocks s) (d_next_block s) b ?t" using A b h by (auto simp: entry_ok_def)
    then show ?thesis using linked_switch_sim [OF s t] b by simp
  qed
  have missed: "sim L cfg opm timed (DBB_put_entry (d_curBlock s, pos s) (\<lambda>x. x\<lparr>e_link := Some (d_curBlock ?s2)\<rparr>) ?s2, cop)
      (a\<lparr>sp_phase := Ready ?t\<rparr>, usage_goto ?t False u)" if h: "d_curBlock s \<noteq> dummyBlock"
  proof -
    from heap_entry [OF s h A(2)] obtain n k where
      n: "d_curBlock s = Heap_block n" "n < d_next_block s" "pos s = int k" "k < b_len (curB s)" by metis
    have B: "d_blocks ?s2 (Heap_block n) = curB s" using n find_create_kept [of "Heap_block n" ?s] by (simp add: curB_def)
    have m: "n < d_next_block ?s2" using n(2) by (simp add: find_create_eq split: option.split)
    have E: "e_pc (ent (curB s) k) = q" "e_mem_word (ent (curB s) k) = w" using A(5,7) n h by simp_all
    have "sim L cfg opm timed (DBB_put_entry (Heap_block n, int k) (\<lambda>x. x\<lparr>e_link := Some (d_curBlock ?s2)\<rparr>) ?s2, cop)
      (a\<lparr>sp_phase := Ready ?t\<rparr>, usage_goto ?t False u)"
      by (rule relink_entry_sim [OF s2 m, unfolded B, OF n(4)]) (use E A(6) ref in simp_all)
    then show ?thesis by (simp only: n(1,3))
  qed
  show ?thesis
    unfolding A(3,4) branch_eq [OF s A(2) refl v] Let_def
    using linked missed s2 uncached_switch_sim [OF s1, of ?t False] t A
    by (auto simp: may_goto_def)
qed

section \<open>Leaving the fast path, fences, and changes of the code\<close>

lemma mem_word_heap:
  assumes "DBB_in_fast_path s \<Longrightarrow> fst (d_fastEntry s) = d_curBlock s" "pos s < int (b_len (curB s))"
  shows "DBB_get_mem_word s = e_mem_word (entry_at (curB s) (pos s))"
proof -
  have "DBB_lastEntry s = (d_curBlock s, pos s)" using assms(1) by (rule lastEntry_cur)
  then have "DBB_entry s (DBB_lastEntry s) = entry_at (curB s) (pos s)" by (simp add: DBB_entry_def curB_def)
  then show ?thesis
    using assms(2) by (auto simp: DBB_get_mem_word_def DBB_lastEntry_def curB_def pos_def DBB_entry_def split: if_splits)
qed

lemma stop_fast_sim:
  assumes s: "sim L cfg opm timed (s, cop) (a, u)" and f: "DBB_in_fast_path s"
  shows "sim L cfg opm timed (s\<lparr>d_curEntryIdx := pos s, d_fastEntry := (fastDisableBlock, 0)\<rparr>, cop) (a, u)"
proof -
  let ?s = "s\<lparr>d_curEntryIdx := pos s, d_fastEntry := (fastDisableBlock, 0)\<rparr>"
  have h: "d_curBlock s \<noteq> dummyBlock" using f simD(3) [OF s] by (auto simp: dummy_pos_def)
  have c: "fst (d_fastEntry s) = d_curBlock s" using simD(2) [OF s f] .
  have F: "\<not> DBB_in_fast_path ?s" "DBB_lastEntry ?s = (d_curBlock s, pos s)" "pos ?s = pos s" "curB ?s = curB s"
    by (simp_all add: DBB_lastEntry_def pos_def curB_def)
  have L: "DBB_lastEntry s = (d_curBlock s, pos s)" by (rule lastEntry_cur) (rule c)
  have hp: "heap_pos s a u" using simD(4) [OF s h] .
  then have lt: "pos s < int (b_len (curB s))" by (auto simp: heap_pos_def)
  have m: "DBB_get_mem_word ?s = DBB_get_mem_word s"
    using mem_word_heap [of s] mem_word_heap [of ?s] lt c F by auto
  have "heap_pos ?s a u" using hp F f by (simp add: heap_pos_def)
  moreover have "at_pos ?s cop (sp_phase a)"
    using simD(5) [OF s] f unfolding at_pos_def F m by (cases "sp_phase a") simp_all
  moreover have "DBB_get_cycle_counter_raw ?s = DBB_get_cycle_counter_raw s"
    by (simp add: cycle_counter_last F(2) L DBB_entry_def)
  ultimately show ?thesis
    using s h F(1) by (simp add: sim_def base_fields)
qed

lemma force_slow_sim:
  assumes s: "sim L cfg opm timed (s, cop) (a, u)"
  shows "sim L cfg opm timed (DBB_force_slow_path s, cop) (a, u)"
proof -
  have s1: "sim L cfg opm timed (s\<lparr>d_slow_path := True\<rparr>, cop) (a, u)"
    by (rule sim_frame [OF s]) (use simD(1) [OF s] in \<open>auto simp: base_fields\<close>)
  show ?thesis
  proof (cases "DBB_in_fast_path s")
    case False
    then show ?thesis using s1 by (simp add: DBB_force_slow_path_def Let_def DBB_in_fast_path_def)
  next
    case True
    have h: "d_curBlock s \<noteq> dummyBlock" using True simD(3) [OF s] by (auto simp: dummy_pos_def)
    have f: "d_fastEntry s = (d_curBlock s, pos s)"
      using True simD(2) [OF s] by (simp add: pos_def DBB_lastEntry_def prod_eq_iff)
    have "pos s = -1 \<or> 0 \<le> pos s" using simD(4) [OF s h] by (auto simp: heap_pos_def)
    moreover have "uint (e_idx (DBB_entry s (d_fastEntry s))) = pos s" if p: "0 \<le> pos s"
      using heap_entry [OF s h p] by (metis DBB_entry_def curB_def f fst_conv snd_conv)
    ultimately have e: "(if d_fastEntry s = (d_curBlock s, -1) then -1 else uint (e_idx (DBB_entry s (d_fastEntry s)))) = pos s"
      by (auto simp: f)
    have "DBB_force_slow_path s = s\<lparr>d_slow_path := True, d_curEntryIdx := pos s, d_fastEntry := (fastDisableBlock, 0)\<rparr>"
      using True e by (auto simp: DBB_force_slow_path_def Let_def DBB_in_fast_path_def DBB_fast_path_raw_disable_def
          DBB_entry_def split: if_splits)
    moreover have "DBB_in_fast_path (s\<lparr>d_slow_path := True\<rparr>)" "pos (s\<lparr>d_slow_path := True\<rparr>) = pos s"
      using True by (simp_all add: DBB_in_fast_path_def pos_def DBB_lastEntry_def)
    ultimately show ?thesis using stop_fast_sim [OF s1] by simp
  qed
qed

lemma fence_base:
  assumes b: "base L cfg opm timed s a u" and n: "u_fences u + 1 < 2 ^ 32"
  shows "base L cfg opm timed (s\<lparr>d_coherence_cnt := d_coherence_cnt s + 1\<rparr>) a
    (u\<lparr>u_mod := (\<lambda>_. False), u_fenced := True, u_synced := False, u_fences := u_fences u + 1\<rparr>)"
proof -
  note st = baseD(6) [OF b]
  have c: "unat (d_coherence_cnt s + 1) = u_fences u + 1"
    using store_okD(7) [OF st] n by (simp add: unat_word_ariths)
  have "b_coherence_cnt (d_blocks s (Heap_block k)) \<noteq> d_coherence_cnt s + 1" if "k < d_next_block s" for k
    using store_okD(2) [OF st that] c by auto
  then show ?thesis using b c store_okD(2) [OF st] by (auto simp: base_def store_ok_def intro: le_SucI)
qed

lemma fence_sim:
  assumes s: "sim L cfg opm timed (s, cop) (a, u)" and n: "u_fences u + 1 < 2 ^ 32" and d: "is_done (sp_phase a)"
  shows "sim L cfg opm timed (DBB_coherence_update s, cop)
    (a, u\<lparr>u_mod := (\<lambda>_. False), u_fenced := True, u_synced := False, u_fences := u_fences u + 1\<rparr>)"
proof -
  let ?u = "u\<lparr>u_mod := (\<lambda>_. False), u_fenced := True, u_synced := False, u_fences := u_fences u + 1\<rparr>"
  let ?s = "if DBB_in_fast_path s then s\<lparr>d_curEntryIdx := pos s, d_fastEntry := (fastDisableBlock, 0)\<rparr> else s"
  have s1: "sim L cfg opm timed (?s, cop) (a, u)" using s stop_fast_sim [OF s] by simp
  have f: "\<not> DBB_in_fast_path ?s" by simp
  have p: "0 \<le> pos s" using simD(5) [OF s] d by (cases "sp_phase a") (auto simp: at_pos_def)
  have "DBB_coherence_update s = ?s\<lparr>d_coherence_cnt := d_coherence_cnt ?s + 1\<rparr>"
  proof (cases "DBB_in_fast_path s")
    case False
    then show ?thesis by (simp add: DBB_coherence_update_def Let_def DBB_in_fast_path_def)
  next
    case True
    have h: "d_curBlock s \<noteq> dummyBlock" using True simD(3) [OF s] by (auto simp: dummy_pos_def)
    have fe: "d_fastEntry s = (d_curBlock s, pos s)"
      using True simD(2) [OF s] by (simp add: pos_def DBB_lastEntry_def prod_eq_iff)
    have "uint (e_idx (DBB_entry s (d_fastEntry s))) = pos s"
      using heap_entry [OF s h p] by (metis DBB_entry_def curB_def fe fst_conv snd_conv)
    then show ?thesis
      using True by (simp add: DBB_coherence_update_def Let_def DBB_in_fast_path_def DBB_fast_path_raw_disable_def DBB_entry_def)
  qed
  moreover have "sim L cfg opm timed (?s\<lparr>d_coherence_cnt := d_coherence_cnt ?s + 1\<rparr>, cop) (a, ?u)"
  proof -
    let ?t = "?s\<lparr>d_coherence_cnt := d_coherence_cnt ?s + 1\<rparr>"
    have b: "base L cfg opm timed ?t a ?u" by (rule fence_base [OF simD(1) [OF s1] n])
    have F: "DBB_in_fast_path ?t = DBB_in_fast_path ?s" "DBB_lastEntry ?t = DBB_lastEntry ?s" "pos ?t = pos ?s" "curB ?t = curB ?s"
      by (auto simp: DBB_in_fast_path_def DBB_lastEntry_def pos_def curB_def)
    have G: "DBB_get_mem_word ?t = DBB_get_mem_word ?s" "DBB_get_cycle_counter_raw ?t = DBB_get_cycle_counter_raw ?s"
      by (simp_all add: DBB_get_mem_word_def DBB_get_cycle_counter_raw_def F DBB_entry_def DBB_in_fast_path_def)
    have A: "at_pos ?t cop (sp_phase a)"
      using simD(5) [OF s1] unfolding at_pos_def F G by (simp cong: phase.case_cong)
    have H: "heap_pos ?t a ?u" if "d_curBlock ?t \<noteq> dummyBlock"
      using simD(4) [OF s1] that f unfolding heap_pos_def F by simp
    have D: "dummy_pos ?t timed ?u" if "d_curBlock ?t = dummyBlock"
      using simD(3) [OF s1] that unfolding dummy_pos_def F by simp
    show ?thesis
      using s1 b f A H D G F(1) by (cases "sp_phase a") (simp_all add: sim_def)
  qed
  ultimately show ?thesis by simp
qed

lemma invalidate_sim:
  assumes s: "sim L cfg opm timed (s, cop) (a, u)" and b: "b = dummyBlock \<or> (\<exists>n<d_next_block s. b = Heap_block n)"
  shows "sim L cfg opm timed (DBB_put_block b block_invalidate_links s, cop) (a, u)"
proof -
  let ?B = "d_blocks s b"
  have le: "b_len ?B \<le> length (b_entries ?B)"
    using b dummy_okD(2) [OF simD(1) [OF s]] block_shapeD(2) [OF sim_block_ok [OF s]] by (auto intro: less_imp_le)
  have "sim L cfg opm timed (s\<lparr>d_blocks := (d_blocks s)(b := block_invalidate_links ?B)\<rparr>, cop) (a, u)"
  proof (rule relink_sim [OF s])
    show "relinked ?B (block_invalidate_links ?B)" using le by (auto simp: relinked_def same_link)
    show "entry_ok cfg (d_blocks s) (d_next_block s) (ent (block_invalidate_links ?B) i)"
      if "b = Heap_block n" "n < d_next_block s" "i < b_len ?B" for i n
      using block_shapeD(10) [OF sim_block_ok [OF s that(2)], of i] that le by (auto simp: entry_ok_def)
  qed (use lc_ok_reset_ok [OF sim_jumpDyn_ok [OF s b]] b in auto)
  then show ?thesis by (simp add: DBB_put_block_def)
qed

lemma enable_sim:
  assumes s: "sim L cfg opm timed (s, cop) (a, u)"
  shows "sim L cfg opm timed (DBB_enable e s, cop) (a, u)"
proof -
  let ?s1 = "s\<lparr>d_enabled := e\<rparr>"
  let ?s2 = "DBB_put_block (d_curBlock ?s1) block_invalidate_links ?s1"
  let ?s3 = "DBB_put_block dummyBlock block_invalidate_links ?s2"
  have s1: "sim L cfg opm timed (?s1, cop) (a, u)"
    by (rule sim_frame [OF s]) (use simD(1) [OF s] in \<open>auto simp: base_fields\<close>)
  have s2: "sim L cfg opm timed (?s2, cop) (a, u)" by (rule invalidate_sim [OF s1]) (rule sim_cur_ref [OF s1])
  have s3: "sim L cfg opm timed (?s3, cop) (a, u)" by (rule invalidate_sim [OF s2]) simp
  have "sim L cfg opm timed (?s3\<lparr>d_trapLinkCache := lc_reset (d_trapLinkCache ?s3)\<rparr>, cop) (a, u)"
    by (rule trap_cache_sim [OF s3]) (rule lc_ok_reset_ok [OF store_okD(5) [OF baseD(6) [OF simD(1) [OF s3]]]])
  then show ?thesis using s s1 by (cases e) (simp_all add: DBB_enable_def Let_def)
qed

lemma same_shape_trans:
  "same_shape cfg opm timed v w \<Longrightarrow> same_shape cfg opm timed w x \<Longrightarrow> same_shape cfg opm timed v x"
  by (auto simp: same_shape_def)

lemma fetchable_grows:
  assumes "fetchable cfg opm timed code e" "grows cfg opm timed code code'"
  shows "fetchable cfg opm timed code' e"
  using assms unfolding fetchable_def grows_def by (meson same_shape_trans)

lemma write_content:
  "content code md B \<Longrightarrow> content code' (\<lambda>p. md p \<or> code p \<noteq> code' p) B"
  by (auto simp: content_def)

lemma write_sim:
  assumes s: "sim L cfg opm timed (s, cop) (a, u)" and g: "grows cfg opm timed (sp_code a) (code_of L m)"
  shows "sim L cfg opm timed (s\<lparr>d_imem := m\<rparr>, cop)
    (a\<lparr>sp_code := code_of L m\<rparr>, u\<lparr>u_mod := (\<lambda>p. u_mod u p \<or> sp_code a p \<noteq> code_of L m p)\<rparr>)"
proof -
  let ?s = "s\<lparr>d_imem := m\<rparr>" and ?u = "u\<lparr>u_mod := (\<lambda>p. u_mod u p \<or> sp_code a p \<noteq> code_of L m p)\<rparr>"
  let ?a = "a\<lparr>sp_code := code_of L m\<rparr>"
  note st = baseD(6) [OF simD(1) [OF s]]
  have "block_ok cfg opm timed (code_of L m) (d_blocks s) (d_next_block s) B"
    if "block_ok cfg opm timed (sp_code a) (d_blocks s) (d_next_block s) B" for B
    using that fetchable_grows [OF _ g] by (auto simp: block_ok_def)
  then have b: "base L cfg opm timed ?s ?a ?u"
    using simD(1) [OF s] write_content by (fastforce simp: base_def store_ok_def)
  have F: "DBB_in_fast_path ?s = DBB_in_fast_path s" "DBB_lastEntry ?s = DBB_lastEntry s" "pos ?s = pos s" "curB ?s = curB s"
    "DBB_get_mem_word ?s = DBB_get_mem_word s" "DBB_get_cycle_counter_raw ?s = DBB_get_cycle_counter_raw s"
    by (simp_all add: DBB_in_fast_path_def DBB_lastEntry_def pos_def curB_def DBB_get_mem_word_def
        DBB_get_cycle_counter_raw_def DBB_entry_def)
  have A: "at_pos ?s cop (sp_phase a)"
    using simD(5) [OF s] unfolding at_pos_def F by (simp cong: phase.case_cong)
  have H: "heap_pos ?s ?a ?u" if "d_curBlock ?s \<noteq> dummyBlock"
    using simD(4) [OF s] that write_content unfolding heap_pos_def F by auto
  have D: "dummy_pos ?s timed ?u" if "d_curBlock ?s = dummyBlock"
    using simD(3) [OF s] that unfolding dummy_pos_def F by simp
  show ?thesis using s b A H D F(1,6) by (cases "sp_phase a") (simp_all add: sim_def)
qed

section \<open>What the hart reads\<close>

lemma sim_last:
  assumes "sim L cfg opm timed (s, cop) (a, u)"
  shows "DBB_lastEntry s = (d_curBlock s, pos s)"
  by (rule lastEntry_cur) (rule simD(2) [OF assms])

lemma last_pc_sim:
  assumes s: "sim L cfg opm timed (s, cop) (a, u)" and d: "is_done (sp_phase a)"
  shows "DBB_get_last_pc_before_callback s = last_pc_of (sp_phase a)"
proof -
  have "DBB_get_last_pc_before_callback s = e_pc (DBB_entry s (DBB_lastEntry s))"
    by (simp add: DBB_get_last_pc_before_callback_def DBB_lastEntry_def)
  then show ?thesis using simD(5) [OF s] d
    by (cases "sp_phase a") (auto simp: at_pos_def sim_last [OF s] DBB_entry_def curB_def)
qed

lemma last_pc_safe_sim:
  assumes s: "sim L cfg opm timed (s, cop) (a, u)"
    and d: "is_fault (sp_phase a) \<or> is_done (sp_phase a) \<and> \<not> u_faulted u"
  shows "DBB_get_last_pc_exception_safe s = last_pc_of (sp_phase a)"
proof (cases "is_fault (sp_phase a)")
  case True
  then show ?thesis using simD(5) [OF s]
    by (cases "sp_phase a") (auto simp: at_pos_def DBB_get_last_pc_exception_safe_def DBB_entry_def)
next
  case False
  then have "is_done (sp_phase a)" "\<not> d_exception s" using d simD(8) [OF s] by auto
  then show ?thesis
    using last_pc_sim [OF s] by (simp add: DBB_get_last_pc_exception_safe_def DBB_get_last_pc_before_callback_def)
qed

lemma ucast_len: "l = 2 \<or> l = 4 \<Longrightarrow> ucast (ucast (l :: u32) :: u16) = l"
  by auto

lemma link_sim:
  assumes s: "sim L cfg opm timed (s, cop) (a, u)" and d: "is_done (sp_phase a)"
  shows "DBB_link s = next_pc (sp_phase a)"
  using simD(5) [OF s] d
  by (cases "sp_phase a") (auto simp: at_pos_def DBB_link_def Let_def sim_last [OF s] DBB_entry_def curB_def ucast_len)

lemma get_pc_sim:
  assumes s: "sim L cfg opm timed (s, cop) (a, u)" and d: "\<not> is_fault (sp_phase a)"
  shows "DBB_get_pc_maybe_after_callback s = next_pc (sp_phase a)"
proof -
  have "DBB_get_pc_maybe_after_callback s =
    (if pos s = -1 then e_pc (entry_at (curB s) 0) else DBB_link s)"
    using sim_last [OF s]
    by (auto simp: DBB_get_pc_maybe_after_callback_def DBB_link_def Let_def DBB_lastEntry_def DBB_entry_def curB_def
        next_entry_def pos_def split: if_splits)
  then show ?thesis
    using simD(5) [OF s] link_sim [OF s] d by (cases "sp_phase a") (auto simp: at_pos_def)
qed

lemma mem_word_sim:
  assumes "sim L cfg opm timed (s, cop) (a, u)" "is_done (sp_phase a)"
  shows "DBB_get_mem_word s = word_of (sp_phase a)"
  using simD(5) [OF assms(1)] assms(2) by (cases "sp_phase a") (auto simp: at_pos_def)

section \<open>Initialisation\<close>

lemma const_upd: "(\<lambda>_. y)(x := y) = (\<lambda>_. y)"
  by auto

lemma init_sim:
  assumes h: "hyps L opm timed" and p: "pc_is_valid p" and c: "get_misa_extensions cfg \<noteq> 0"
  shows "sim L cfg opm timed (DBB_init ena cfg opm p (DBB_fresh m), cop) (spec_init L p m, usage_init p)"
proof -
  let ?B = "block_init 0 0"
  let ?s = "(DBB_fresh m)\<lparr>d_enabled := ena, d_isa_config := cfg, d_has_compressed := True, d_opMap := opm,
    d_blocks := (\<lambda>_. ?B)(fastDisableBlock := put_entry 1 set_terminal ?B),
    d_trapLinkCache := lc_reset (lc_new TRAPLINKCACHE_SIZE)\<rparr>"
  have e: "DBB_init ena cfg opm p (DBB_fresh m) =
    (if ena then DBB_find_create_switch_block p ?s else DBB_switch_block_dummy p ?s)"
    using c by (simp add: DBB_init_def Let_def DBB_fresh_def DBB_put_block_def DBB_put_entry_def
        DBB_fast_path_raw_disable_def const_upd)
  have "base L cfg opm timed ?s (spec_init L p m) (usage_init p)"
    using h by (simp add: base_def store_ok_def dummy_ok_def DBB_fresh_def spec_init_def usage_init_def
        lc_ok_new TRAPLINKCACHE_SIZE_def JUMPDYNLINKCACHE_SIZE_def set_terminal_def)
  then have sw: "switchable L cfg opm timed ?s (spec_init L p m) (usage_init p)"
    by (simp add: switchable_def DBB_fresh_def DBB_in_fast_path_def cycle_counter_last spec_init_def DBB_lastEntry_def
        next_entry_def DBB_entry_def)
  have "(spec_init L p m)\<lparr>sp_phase := Ready p\<rparr> = spec_init L p m" "usage_goto p False (usage_init p) = usage_init p"
    by (simp_all add: spec_init_def usage_goto_def usage_init_def)
  then show ?thesis
    using find_create_sim [OF sw p, of cop] switch_block_dummy_sim [OF sw p, of cop False] e
    by (auto simp: DBB_fresh_def valid_ref_def)
qed

end
