(* ===== verification/VP_DBBSim.thy ===== *)
theory VP_DBBSim
  imports VP_DBBInv
begin

text \<open>
  The fetches of the block cache: on every path (fast, medium, slow hit, repair of a block that is
  not coherent, miss, uncached) the cache returns what the unit without a cache returns and keeps the invariant; and with
  the transfers of the theory before, every supported call does.
\<close>

section \<open>Cycle counts\<close>

lemma ucast_add_no_wrap:
  assumes "unat (x :: u32) + unat (t :: u64) < 2 ^ 32"
  shows "unat (x + ucast t) = unat x + unat t" and "(ucast (x + ucast t) :: u64) = ucast x + t"
proof -
  have t: "unat (ucast t :: u32) = unat t"
    using assms by (simp add: unsigned_ucast_eq take_bit_nat_eq_self)
  show u: "unat (x + ucast t) = unat x + unat t" using assms by (simp add: unat_word_ariths t)
  have "unat (ucast y :: u64) = unat y" for y :: u32
  proof -
    have "unat y < 2 ^ LENGTH(32)" by (rule unsigned_less)
    then show ?thesis by (simp add: unsigned_ucast_eq take_bit_nat_eq_self)
  qed
  then show "(ucast (x + ucast t) :: u64) = ucast x + t"
    using assms by (simp only: word_unat_eq_iff) (simp add: unat_word_ariths t)
qed

lemma op_time_bound: "hyps L opm timed \<Longrightarrow> timed \<Longrightarrow> unat (op_time cfg opm w) \<le> 65536"
  by (simp add: hyps_def op_time_def word_le_nat_alt)

lemma cycles_bound:
  assumes B: "block_ok cfg opm timed code blks nxt B" and h: "hyps L opm timed" and t: timed
  shows "i \<le> b_len B \<Longrightarrow> unat (e_cycles (ent B i)) \<le> i * 65536"
proof (induction i)
  case 0
  then show ?case using block_shapeD(6) [OF B] by simp
next
  case (Suc i)
  have c: "e_cycles (ent B (Suc i)) = e_cycles (ent B i) + ucast (op_time cfg opm (e_mem_word (ent B i)))"
    using block_shapeD(12) [OF B t] Suc.prems unfolding cycles_ok_def by simp
  have "unat (e_cycles (ent B i)) + unat (op_time cfg opm (e_mem_word (ent B i))) < 2 ^ 32"
    using Suc op_time_bound [OF h t, of cfg "e_mem_word (ent B i)"] block_shapeD(3) [OF B] by simp
  then show ?case
    unfolding c using ucast_add_no_wrap(1) Suc op_time_bound [OF h t, of cfg "e_mem_word (ent B i)"] by simp
qed

lemma cycles_next:
  assumes B: "block_ok cfg opm timed code blks nxt B" and h: "hyps L opm timed" and t: timed and i: "i < b_len B"
  shows "(ucast (e_cycles (ent B (Suc i))) :: u64) = ucast (e_cycles (ent B i)) + op_time cfg opm (e_mem_word (ent B i))"
proof -
  have c: "e_cycles (ent B (Suc i)) = e_cycles (ent B i) + ucast (op_time cfg opm (e_mem_word (ent B i)))"
    using block_shapeD(12) [OF B t] i unfolding cycles_ok_def by simp
  have "unat (e_cycles (ent B i)) + unat (op_time cfg opm (e_mem_word (ent B i))) < 2 ^ 32"
    using cycles_bound [OF B h t, of i] i op_time_bound [OF h t, of cfg "e_mem_word (ent B i)"] block_shapeD(3) [OF B] by simp
  then show ?thesis unfolding c by (rule ucast_add_no_wrap(2))
qed

section \<open>Arriving at the next instruction\<close>

lemma usage_fetch_ok:
  assumes "sp_code a (next_pc (sp_phase a)) = Inr w"
  shows "usage_fetch a u = u\<lparr>u_run := u_run u + 1, u_synced := (u_synced u \<or> \<not> u_fenced u),
     u_faulted := (u_faulted u \<and> u_block u \<noteq> None)\<rparr>"
  using assms by (simp add: usage_fetch_def fails_def Let_def)

lemma usage_fetch_fail:
  assumes "sp_code a (next_pc (sp_phase a)) = Inl e"
  shows "usage_fetch a u = u\<lparr>u_synced := (u_synced u \<or> \<not> u_fenced u), u_faulted := True\<rparr>"
  using assms by (simp add: usage_fetch_def fails_def Let_def)

lemma base_usage [simp]:
  "base L cfg opm timed s a (u\<lparr>u_run := n\<rparr>) = base L cfg opm timed s a u"
  "base L cfg opm timed s a (u\<lparr>u_synced := x\<rparr>) = base L cfg opm timed s a u"
  "base L cfg opm timed s a (u\<lparr>u_faulted := x\<rparr>) = base L cfg opm timed s a u"
  by (rule base_cong; simp)+

lemma base_fetched:
  "base L cfg opm timed s (a\<lparr>sp_phase := ph, sp_cycles := n\<rparr>) (u\<lparr>u_run := r, u_synced := x, u_faulted := y\<rparr>) =
   base L cfg opm timed s a u"
  by (rule base_cong) simp_all

lemma arrive_heap:
  assumes b: "base L cfg opm timed s a u" and cyc: "timed \<Longrightarrow> sp_cycles a = d_cycle_counter_raw s + ucast (e_cycles (ent (curB s) k))"
    and blk: "u_block u = Some t" "valid_ref (d_blocks s) (d_next_block s) (d_curBlock s) t"
    and last: "DBB_lastEntry s = (d_curBlock s, int k)" and k: "k = u_run u" "k < b_len (curB s)" "k < 65535"
    and e: "e_pc (ent (curB s) k) = p" "e_mem_word (ent (curB s) k) = w"
    and p: "next_pc (sp_phase a) = p" "sp_code a p = Inr w" and d: "dec cfg w = (op, i, l)" "d_instr s = i"
    and c: "DBB_in_fast_path s \<or> u_synced u \<or> \<not> u_fenced u \<Longrightarrow> content (sp_code a) (u_mod u) (curB s)"
    and x: "d_exception s \<Longrightarrow> u_faulted u"
  shows "fst (spec_fetch cfg opm a) = Out_op (Some op) i"
    "sim L cfg opm timed (s, op) (snd (spec_fetch cfg opm a), usage_fetch a u)"
    "e_op (ent (curB s) k) = Some op" "e_instr (ent (curB s) k) = i"
proof -
  note B = valid_ref_block [OF b blk(2), folded curB_def]
  have en: "entry_ok cfg (d_blocks s) (d_next_block s) (ent (curB s) k)"
    by (rule block_shapeD(10) [OF B(1) k(2)])
  then show "e_op (ent (curB s) k) = Some op" "e_instr (ent (curB s) k) = i" using e d by (auto simp: entry_ok_def)
  have sp: "spec_fetch cfg opm a = (Out_op (Some op) i, a\<lparr>sp_phase := Done p w op i l, sp_cycles := sp_cycles a + opm op\<rparr>)"
    using p d by (simp add: spec_fetch_def)
  then show "fst (spec_fetch cfg opm a) = Out_op (Some op) i" by simp
  have ps: "pos s = int k" using last by (simp add: pos_def)
  have f: "DBB_in_fast_path s \<Longrightarrow> fst (d_fastEntry s) = d_curBlock s" using last by (simp add: DBB_lastEntry_def)
  have m: "DBB_get_mem_word s = w" using mem_word_heap [of s] f ps k e by simp
  have "sp_cycles a + opm op = DBB_get_cycle_counter_raw s" if t: timed
    using cycles_next [OF B(1) baseD(1) [OF b] t k(2)] cyc [OF t] e d
    by (simp add: cycle_counter_last last next_entry_def DBB_entry_def curB_def [symmetric] op_time_def add.commute [of 1])
  moreover have "at_pos s op (Done p w op i l)"
    using en e d dec_len [OF d(1)] B(3) baseD(2) [OF b] by (simp add: at_pos_def ps m entry_ok_def)
  moreover have "heap_pos s a (usage_fetch a u)"
    using blk k c unfolding usage_fetch_ok [of a, unfolded p(1), OF p(2)] by (auto simp: heap_pos_def ps)
  ultimately show "sim L cfg opm timed (s, op) (snd (spec_fetch cfg opm a), usage_fetch a u)"
    using b f B(3) k x blk unfolding sp usage_fetch_ok [of a, unfolded p(1), OF p(2)]
    by (simp add: sim_def base_fetched heap_pos_def)
qed

section \<open>A miss: appending to the current block\<close>

definition block_append :: "u32 \<Rightarrow> u32 \<Rightarrow> OpId \<times> u32 \<times> u32 \<Rightarrow> u32 \<Rightarrow> dbb_block \<Rightarrow> dbb_block" where
  "block_append p w d t B =
     (let k = b_len B; B = (if k + 1 = b_alloc_len B then block_grow B else B);
          B = block_decode k p w d t B;
          B = put_entry (int k) (\<lambda>x. x\<lparr>e_idx := of_nat k\<rparr>) B;
          B = put_entry (int (Suc k)) (\<lambda>x. set_terminal (x\<lparr>e_idx := of_nat (Suc k)\<rparr>)) B
      in B\<lparr>b_len := k + 1\<rparr>)"

lemma block_append_fields [simp]:
  "b_start_addr (block_append p w d t B) = b_start_addr B" "b_len (block_append p w d t B) = Suc (b_len B)"
  "b_jumpDynLinkCache (block_append p w d t B) = b_jumpDynLinkCache B"
  "b_coherence_cnt (block_append p w d t B) = b_coherence_cnt B"
  by (simp_all add: block_append_def Let_def)

lemma block_append_alloc:
  assumes "b_alloc_len B = length (b_entries B)" "b_len B < b_alloc_len B"
  shows "b_alloc_len (block_append p w d t B) = length (b_entries (block_append p w d t B))"
    "Suc (b_len B) < b_alloc_len (block_append p w d t B)"
  using assms by (auto simp: block_append_def Let_def)

lemma ent_block_append:
  assumes "b_alloc_len B = length (b_entries B)" "b_len B < b_alloc_len B"
  shows "ent (block_append p w (op, i, l) t B) j =
    (if j = b_len B then (ent B j)\<lparr>e_link := None, e_op := Some op, e_pc := p, e_mem_word := w, e_instr := i,
       e_inc := ucast l, e_idx := of_nat j\<rparr>
     else if j = Suc (b_len B) then (ent B j)\<lparr>e_cycles := e_cycles (ent B (b_len B)) + t, e_op := None, e_idx := of_nat j\<rparr>
     else ent B j)"
proof -
  let ?B = "if b_len B + 1 = b_alloc_len B then block_grow B else B"
  have "Suc (b_len B) < length (b_entries ?B)" using assms by auto
  moreover have "ent ?B j = ent B j" for j by simp
  ultimately show ?thesis
    using ent_block_decode [of "b_len B" ?B p w op i l t]
    by (auto simp: block_append_def Let_def set_terminal_def simp del: of_nat_Suc)
qed

lemma block_append_ok:
  assumes B: "block_ok cfg opm timed code blks nxt B" and d: "dec cfg w = (op, i, l)" and c: "code p = Inr w"
    and v: "pc_is_valid p" and n: "b_len B < 65535"
    and p: "p = (if b_len B = 0 then b_start_addr B else e_pc (ent B (b_len B - 1)) + ucast (e_inc (ent B (b_len B - 1))))"
  shows "block_ok cfg opm timed code blks nxt (block_append p w (op, i, l) (ucast (opm op)) B)" (is "block_ok _ _ _ _ _ _ ?B")
proof -
  note S = block_shapeD [OF B]
  have a: "b_alloc_len B = length (b_entries B)" "b_len B < b_alloc_len B" using S by simp_all
  note E = ent_block_append [OF a, of p w op i l "ucast (opm op)"]
  have chain: "e_pc (ent ?B (Suc j)) = e_pc (ent ?B j) + ucast (e_inc (ent ?B j))" if "Suc j < b_len ?B" for j
  proof (cases "Suc j = b_len B")
    case True
    have "p = e_pc (ent B j) + ucast (e_inc (ent B j))" using p unfolding True [symmetric] by (simp del: of_nat_Suc)
    then show ?thesis using True unfolding E by (simp del: of_nat_Suc)
  next
    case False
    then have "Suc j < b_len B" using that by simp
    then show ?thesis using S(9) [of j] unfolding E by (simp del: of_nat_Suc)
  qed
  have idx: "e_idx (ent ?B j) = of_nat j" if "j \<le> b_len ?B" for j
    using that S(7) [of j] by (auto simp: E le_Suc_eq)
  have "e_pc (ent ?B 0) = b_start_addr B" using E [of 0] S(5) p by (auto split: if_splits)
  moreover have "e_cycles (ent ?B 0) = 0" using E [of 0] S(6) by (auto split: if_splits)
  moreover have "e_op (ent ?B (b_len ?B)) = None" by (simp add: E del: of_nat_Suc)
  ultimately have "block_shape ?B"
    using chain idx S(4) n block_append_alloc [OF a, of p w "(op, i, l)" "ucast (opm op)"]
    unfolding block_shape_def by (simp del: of_nat_Suc)
  moreover have en: "entry_ok cfg blks nxt (ent ?B j) \<and> fetchable cfg opm timed code (ent ?B j)" if "j < b_len ?B" for j
    using that S(10,11) [of j] c d v by (auto simp: E entry_ok_def fetchable_def same_shape_def)
  moreover have "e_cycles (ent ?B (Suc j)) = e_cycles (ent ?B j) + ucast (op_time cfg opm (e_mem_word (ent ?B j)))"
    if "j < b_len ?B" and timed for j
  proof (cases "j = b_len B")
    case True
    then show ?thesis using d by (simp add: E op_time_def del: of_nat_Suc)
  next
    case False
    then have "j < b_len B" using that by simp
    then have "e_cycles (ent B (Suc j)) = e_cycles (ent B j) + ucast (op_time cfg opm (e_mem_word (ent B j)))"
      using S(12) [OF that(2)] unfolding cycles_ok_def by blast
    then show ?thesis using \<open>j < b_len B\<close> unfolding E by (auto simp del: of_nat_Suc)
  qed
  ultimately show ?thesis using S(13) unfolding block_ok_def cycles_ok_def by simp
qed

lemma block_append_content:
  assumes "block_ok cfg opm timed code blks nxt B" "code p = Inr w"
  shows "content code md (block_append p w (op, i, l) t B) \<longleftrightarrow> content code md B"
proof -
  note S = block_shapeD [OF assms(1)]
  have a: "b_alloc_len B = length (b_entries B)" "b_len B < b_alloc_len B" using S by simp_all
  show ?thesis using assms(2) by (auto simp: content_def ent_block_append [OF a] less_Suc_eq)
qed

section \<open>Loads\<close>

lemma fetch_ok:
  "code_of L (d_imem s) p = Inr w \<Longrightarrow> DBB_fetch L p s =
     (Inr w, s\<lparr>d_exception := False, d_imem := snd (L p (d_imem s)), d_instr := w\<rparr>)"
  by (cases "L p (d_imem s)") (simp add: DBB_fetch_def DBB_fetch_raw_def monad_simps code_of_def)

lemma fetch_trap:
  "code_of L (d_imem s) p = Inl (SimulationTrap r v) \<Longrightarrow> DBB_fetch L p s =
     (Inl (SimulationTrap r v), DBB_fetch_failed p (s\<lparr>d_exception := False, d_imem := snd (L p (d_imem s))\<rparr>))"
  by (cases "L p (d_imem s)") (simp add: DBB_fetch_def DBB_fetch_raw_def monad_simps code_of_def)

lemma code_of_load: "hyps L opm timed \<Longrightarrow> code_of L (snd (L p m)) = code_of L m"
  by (rule ext) (simp add: code_of_def hyps_def)

lemma base_load [simp]:
  "base L cfg opm timed (s\<lparr>d_imem := snd (L p (d_imem s))\<rparr>) a u = base L cfg opm timed s a u"
  by (auto simp: base_def code_of_load)

lemma trap_only:
  assumes "base L cfg opm timed s a u" "sp_code a p = Inl e"
  obtains r v where "e = SimulationTrap r v"
proof -
  have "fst (L p (d_imem s)) = Inl e" using assms baseD(5) [OF assms(1)] by (metis code_of_def)
  then show ?thesis using baseD(1) [OF assms(1)] that unfolding hyps_def by blast
qed

lemma base_put_heap:
  assumes b: "base L cfg opm timed s a u" and n: "n < d_next_block s"
    and B: "block_ok cfg opm timed (sp_code a) (d_blocks s) (d_next_block s) B'"
    and st: "b_start_addr B' = b_start_addr (d_blocks s (Heap_block n))"
    and coh: "unat (b_coherence_cnt B') \<le> u_fences u"
    and cont: "b_coherence_cnt B' = d_coherence_cnt s \<Longrightarrow> content (sp_code a) (u_mod u) B'"
  shows "base L cfg opm timed (s\<lparr>d_blocks := (d_blocks s)(Heap_block n := B')\<rparr>) a u"
proof -
  let ?b = "(d_blocks s)(Heap_block n := B')"
  have e: "extends (d_blocks s) (d_next_block s) ?b (d_next_block s)" using st by (simp add: extends_def)
  note S = store_okD [OF baseD(6) [OF b]]
  have "store_ok cfg opm timed a u ?b (d_next_block s) (d_blockmap s) (d_trapLinkCache s) (d_coherence_cnt s)"
    unfolding store_ok_def
  proof (intro conjI allI impI)
    fix m assume m: "m < d_next_block s"
    show "block_ok cfg opm timed (sp_code a) ?b (d_next_block s) (?b (Heap_block m))"
      using block_ok_mono [OF e] B S(1) [OF m] by simp
    show "unat (b_coherence_cnt (?b (Heap_block m))) \<le> u_fences u" using coh S(2) [OF m] by simp
    show "content (sp_code a) (u_mod u) (?b (Heap_block m))"
      if "b_coherence_cnt (?b (Heap_block m)) = d_coherence_cnt s"
      using that cont S(3) [OF m] by (auto split: if_splits)
  next
    show "valid_ref ?b (d_next_block s) c q" if "d_blockmap s (ucast q) = Some c" for c and q :: u32
      by (rule valid_ref_mono [OF e S(4) [OF that]])
    show "lc_ok ?b (d_next_block s) TRAPLINKCACHE_SIZE (d_trapLinkCache s)" by (rule lc_ok_mono [OF e S(5)])
    show "dummy_ok ?b (d_next_block s)" using S(6) lc_ok_mono [OF e] by (simp add: dummy_ok_def)
    show "unat (d_coherence_cnt s) = u_fences u" by (rule S(7))
  qed
  then show ?thesis using b by (simp add: base_def)
qed

lemma add_entry_ok:
  assumes b: "d_curBlock s = b" "d_blocks s b = B" "d_pc s = p"
    and B: "b_alloc_len B = length (b_entries B)" "b_len B < b_alloc_len B"
    and c: "code_of L (d_imem s) p = Inr w" and d: "dec (d_isa_config s) w = (op, i, l)"
  shows "DBB_fetch_decode_add_entry L s =
    (Inr (b, int (b_len B)), s\<lparr>d_exception := False, d_imem := snd (L p (d_imem s)), d_instr := i, d_pc := p + l,
       d_blocks := (d_blocks s)(b := block_append p w (op, i, l) (ucast (d_opMap s op)) B)\<rparr>)"
proof -
  let ?g = "\<lambda>B'. if b_len B + 1 = b_alloc_len B' then block_grow B' else B'"
  define G where "G = ?g B"
  have g: "DBB_put_block b ?g s = s\<lparr>d_blocks := (d_blocks s)(b := G)\<rparr>" by (simp add: DBB_put_block_def b(2) G_def)
  let ?s = "s\<lparr>d_blocks := (d_blocks s)(b := G)\<rparr>"
  let ?s1 = "?s\<lparr>d_exception := False, d_imem := snd (L p (d_imem s)), d_instr := w\<rparr>"
  have f: "DBB_fetch L p ?s = (Inr w, ?s1)"
    using fetch_ok [of L ?s p w] c by simp
  have len: "Suc (b_len B) < length (b_entries G)" using B by (auto simp: G_def)
  have u: "DBB_decode_update_entry (b, int (b_len B)) p ?s1 =
    (Inr (p + l), ?s1\<lparr>d_instr := i, d_blocks := (d_blocks ?s1)(b := block_decode (b_len B) p w (op, i, l)
       (ucast (d_opMap s op)) G)\<rparr>)"
    using decode_update_entry_eq [of ?s1 op i l "b_len B" b p] d len by simp
  have A: "block_append p w (op, i, l) t B = (put_entry (int (Suc (b_len B))) (\<lambda>x. set_terminal (x\<lparr>e_idx := of_nat (Suc (b_len B))\<rparr>))
    (put_entry (int (b_len B)) (\<lambda>x. x\<lparr>e_idx := of_nat (b_len B)\<rparr>) (block_decode (b_len B) p w (op, i, l) t G)))\<lparr>b_len := b_len B + 1\<rparr>" for t
    by (simp add: block_append_def Let_def G_def)
  have l: "b_len G = b_len B" by (simp add: G_def)
  show ?thesis
    unfolding DBB_fetch_decode_add_entry_def
    by (simp only: bindM_simp seqM_simp getsM_simp modifyM_simp ret_simp prod.case sum.case Let_def b g f u)
      (simp add: DBB_put_block_def DBB_put_entry_def next_entry_def A l add.commute [of 1])
qed

section \<open>The next entry of a cached block\<close>

definition good_fetch ::
  "(u32 \<Rightarrow> ('m, u32) M) \<Rightarrow> u64 \<Rightarrow> (OpId \<Rightarrow> u64) \<Rightarrow> bool \<Rightarrow> (exn + OpId option) \<times> 'm dbbc \<Rightarrow> OpId \<Rightarrow> fspec \<Rightarrow> usage \<Rightarrow> bool" where
  "good_fetch L cfg opm timed r cop a u \<longleftrightarrow>
     fst (fetched r cop) = fst (spec_fetch cfg opm a) \<and>
     sim L cfg opm timed (snd (fetched r cop)) (snd (spec_fetch cfg opm a), usage_fetch a u)"

lemma even_len: "(l :: u32) = 2 \<or> l = 4 \<Longrightarrow> even l"
  by auto

lemma next_pc_valid:
  assumes "sim L cfg opm timed (s, cop) (a, u)" "\<not> is_fault (sp_phase a)"
  shows "pc_is_valid (next_pc (sp_phase a))"
  using simD(5) [OF assms(1)] assms(2)
  by (cases "sp_phase a") (auto simp: at_pos_def pc_is_valid_even even_len)

lemma heap_next:
  assumes s: "sim L cfg opm timed (s, cop) (a, u)" and nf: "\<not> is_fault (sp_phase a)" and h: "d_curBlock s \<noteq> dummyBlock"
  obtains n k where "d_curBlock s = Heap_block n" "n < d_next_block s" "k = u_run u" "pos s = int k - 1" "k \<le> b_len (curB s)"
    "block_ok cfg opm timed (sp_code a) (d_blocks s) (d_next_block s) (curB s)"
    "next_pc (sp_phase a) = (if k = 0 then b_start_addr (curB s) else e_pc (ent (curB s) (k - 1)) + ucast (e_inc (ent (curB s) (k - 1))))"
    "k < b_len (curB s) \<Longrightarrow> e_pc (ent (curB s) k) = next_pc (sp_phase a)"
    "timed \<Longrightarrow> sp_cycles a = d_cycle_counter_raw s + ucast (e_cycles (ent (curB s) k))"
    "u_block u = Some (b_start_addr (curB s))" "valid_ref (d_blocks s) (d_next_block s) (d_curBlock s) (b_start_addr (curB s))"
    "DBB_in_fast_path s \<or> u_synced u \<Longrightarrow> content (sp_code a) (u_mod u) (curB s)"
proof -
  have hp: "heap_pos s a u" using simD(4) [OF s h] .
  then obtain n t where n: "d_curBlock s = Heap_block n" "n < d_next_block s" "u_block u = Some t" "b_start_addr (curB s) = t"
    by (auto simp: heap_pos_def valid_ref_def curB_def)
  have B: "block_ok cfg opm timed (sp_code a) (d_blocks s) (d_next_block s) (curB s)"
    using sim_block_ok [OF s n(2)] n by (simp add: curB_def)
  let ?k = "u_run u"
  have k: "pos s = int ?k - 1" "?k \<le> b_len (curB s)" using hp by (auto simp: heap_pos_def)
  have np: "next_pc (sp_phase a) = (if ?k = 0 then b_start_addr (curB s)
      else e_pc (ent (curB s) (?k - 1)) + ucast (e_inc (ent (curB s) (?k - 1))))"
  proof (cases "sp_phase a")
    case (Ready p)
    then show ?thesis using simD(5) [OF s] k block_shapeD(5) [OF B] by (simp add: at_pos_def)
  next
    case (Done q w op i l)
    then have "0 \<le> pos s" "e_pc (entry_at (curB s) (pos s)) = q" "e_inc (entry_at (curB s) (pos s)) = ucast l" "l = 2 \<or> l = 4"
      using simD(5) [OF s] by (auto simp: at_pos_def)
    moreover have "pos s = int (?k - 1)" "?k \<noteq> 0" using k \<open>0 \<le> pos s\<close> by auto
    ultimately show ?thesis using Done ucast_len by simp
  qed (use nf in simp)
  have pk: "e_pc (ent (curB s) ?k) = next_pc (sp_phase a)" if "?k < b_len (curB s)"
  proof (cases "?k = 0")
    case True
    then show ?thesis using np block_shapeD(5) [OF B] by simp
  next
    case False
    then have e: "Suc (?k - 1) = ?k" by simp
    show ?thesis using block_shapeD(9) [OF B, of "?k - 1", unfolded e, OF that] np False by simp
  qed
  have cy: "sp_cycles a = d_cycle_counter_raw s + ucast (e_cycles (ent (curB s) ?k))" if timed
    using simD(6) [OF s that] k
    by (simp add: cycle_counter_last sim_last [OF s] next_entry_def DBB_entry_def curB_def)
  show ?thesis
    by (rule that [of n ?k])
      (use n k B np pk cy hp in \<open>auto simp: heap_pos_def valid_ref_def curB_def\<close>)
qed

lemma synced_content:
  assumes s: "sim L cfg opm timed (s, cop) (a, u)" and h: "d_curBlock s \<noteq> dummyBlock"
    and c: "u_synced u \<or> \<not> u_fenced u" and z: "u_run u = 0 \<Longrightarrow> b_len (curB s) = 0"
  shows "content (sp_code a) (u_mod u) (curB s)"
proof (cases "u_synced u")
  case True
  then show ?thesis using simD(4) [OF s h] by (simp add: heap_pos_def)
next
  case False
  then have "u_run u = 0" using c simD(12) [OF s] by auto
  then show ?thesis using z by (simp add: content_def)
qed

section \<open>Hits\<close>

text \<open>Moving to an existing entry of a block that agrees with the code, on any of the paths.\<close>

lemma hit_good:
  assumes s: "sim L cfg opm timed (s, cop) (a, u)" and nf: "\<not> is_fault (sp_phase a)" and h: "d_curBlock s \<noteq> dummyBlock"
    and md: "\<not> u_mod u (next_pc (sp_phase a))" and lt: "u_run u < 65535" "u_run u < b_len (curB s)"
    and c: "content (sp_code a) (u_mod u) (curB s)"
    and s': "base L cfg opm timed s' a u" "d_blocks s' = d_blocks s" "d_next_block s' = d_next_block s" "d_curBlock s' = d_curBlock s"
      "d_cycle_counter_raw s' = d_cycle_counter_raw s" "d_exception s' \<Longrightarrow> u_faulted u"
      "DBB_lastEntry s' = (d_curBlock s, int (u_run u))" "d_instr s' = e_instr (ent (curB s) (u_run u))"
  shows "good_fetch L cfg opm timed (Inr (e_op (ent (curB s) (u_run u))), s') cop a u"
proof (rule heap_next [OF s nf h])
  fix n k
  assume A: "k = u_run u" "block_ok cfg opm timed (sp_code a) (d_blocks s) (d_next_block s) (curB s)"
    "k < b_len (curB s) \<Longrightarrow> e_pc (ent (curB s) k) = next_pc (sp_phase a)"
    "timed \<Longrightarrow> sp_cycles a = d_cycle_counter_raw s + ucast (e_cycles (ent (curB s) k))"
    "u_block u = Some (b_start_addr (curB s))" "valid_ref (d_blocks s) (d_next_block s) (d_curBlock s) (b_start_addr (curB s))"
  let ?e = "ent (curB s) k"
  have p: "e_pc ?e = next_pc (sp_phase a)" using A(1,3) lt by simp
  have w: "sp_code a (next_pc (sp_phase a)) = Inr (e_mem_word ?e)"
    using c md p A(1) lt by (auto simp: content_def)
  obtain op i l where d: "dec cfg (e_mem_word ?e) = (op, i, l)" by (cases "dec cfg (e_mem_word ?e)")
  have i: "e_instr ?e = i" "e_op ?e = Some op"
    using block_shapeD(10) [OF A(2), of k] A(1) lt d by (auto simp: entry_ok_def)
  have B: "curB s' = curB s" by (simp add: curB_def s')
  note R = arrive_heap [where s = s' and k = k and p = "next_pc (sp_phase a)" and w = "e_mem_word ?e" and op = op and i = i and l = l
      and t = "b_start_addr (curB s)", OF s'(1)]
  have "fst (spec_fetch cfg opm a) = Out_op (Some op) i"
    by (rule R(1)) (use A lt p w d i c s' in \<open>simp_all add: B\<close>)
  moreover have "sim L cfg opm timed (s', op) (snd (spec_fetch cfg opm a), usage_fetch a u)"
    by (rule R(2)) (use A lt p w d i c s' in \<open>simp_all add: B\<close>)
  ultimately show ?thesis using i s'(8) A(1) by (simp add: good_fetch_def fetched_def)
qed

section \<open>Misses\<close>

lemma block_grow_ok: "block_ok cfg opm timed code blks nxt B \<Longrightarrow> block_ok cfg opm timed code blks nxt (block_grow B)"
  by (simp add: block_ok_def block_shape_def cycles_ok_def)

lemma content_grow: "content code md (block_grow B) = content code md B"
  by (simp add: content_def)

lemma base_fetch_failed:
  assumes "base L cfg opm timed s a u"
  shows "base L cfg opm timed (DBB_fetch_failed p s) a u"
proof -
  note D = dummy_okD [OF assms]
  let ?B = "put_entry 0 (\<lambda>e. e\<lparr>e_pc := p\<rparr>) (d_blocks s dummyBlock)"
  have "base L cfg opm timed (s\<lparr>d_blocks := (d_blocks s)(dummyBlock := ?B)\<rparr>) a u"
    by (rule base_put_dummy [OF assms]) (use D in simp_all)
  then show ?thesis by (simp add: DBB_fetch_failed_def Let_def DBB_put_entry_def DBB_put_block_def base_def)
qed

lemma fetch_failed_fields [simp]:
  "d_exception (DBB_fetch_failed p s)" "d_curBlock (DBB_fetch_failed p s) = d_curBlock s"
  "d_fastEntry (DBB_fetch_failed p s) = d_fastEntry s" "d_curEntryIdx (DBB_fetch_failed p s) = d_curEntryIdx s"
  "d_next_block (DBB_fetch_failed p s) = d_next_block s" "d_cycle_counter_raw (DBB_fetch_failed p s) = d_cycle_counter_raw s"
  "b \<noteq> dummyBlock \<Longrightarrow> d_blocks (DBB_fetch_failed p s) b = d_blocks s b"
  "d_blocks (DBB_fetch_failed p s) dummyBlock = put_entry 0 (\<lambda>e. e\<lparr>e_pc := p\<rparr>) (d_blocks s dummyBlock)"
  by (simp_all add: DBB_fetch_failed_def Let_def DBB_put_entry_def DBB_put_block_def)

lemma fault_good:
  assumes s: "sim L cfg opm timed (s, cop) (a, u)" and nf: "\<not> is_fault (sp_phase a)" and f: "\<not> DBB_in_fast_path s"
    and e: "sp_code a (next_pc (sp_phase a)) = Inl e"
    and s': "base L cfg opm timed s' a u" "d_exception s'" "\<not> DBB_in_fast_path s'" "d_curBlock s' = d_curBlock s"
      "d_next_block s' = d_next_block s" "d_cycle_counter_raw s' = d_cycle_counter_raw s"
      "e_pc (entry_at (d_blocks s' dummyBlock) 0) = next_pc (sp_phase a)"
    and B: "\<And>i. e_cycles (entry_at (curB s') i) = e_cycles (entry_at (curB s) i)"
    and heap: "d_curBlock s \<noteq> dummyBlock \<Longrightarrow> d_curEntryIdx s' = d_curEntryIdx s \<and> u_run u = b_len (curB s) \<and>
      b_len (curB s') = b_len (curB s) \<and> b_start_addr (curB s') = b_start_addr (curB s) \<and>
      content (sp_code a) (u_mod u) (curB s') = content (sp_code a) (u_mod u) (curB s)"
    and dummy: "d_curBlock s = dummyBlock \<Longrightarrow> d_curEntryIdx s' = 0"
  shows "good_fetch L cfg opm timed (Inl e, s') cop a u"
proof -
  let ?p = "next_pc (sp_phase a)"
  have sp: "spec_fetch cfg opm a = (Out_exn e, a\<lparr>sp_phase := Fault ?p\<rparr>)" by (simp add: spec_fetch_def e)
  note u = usage_fetch_fail [OF e, of u]
  have l: "DBB_lastEntry s = (d_curBlock s, d_curEntryIdx s)" "DBB_lastEntry s' = (d_curBlock s, d_curEntryIdx s')"
    using f s' by (simp_all add: DBB_lastEntry_def)
  have ps: "pos s = d_curEntryIdx s" "pos s' = d_curEntryIdx s'" using l by (simp_all add: pos_def)
  have cy: "DBB_get_cycle_counter_raw s' = DBB_get_cycle_counter_raw s"
  proof (cases "d_curBlock s = dummyBlock")
    case True
    have "d_curEntryIdx s = 0 \<or> d_curEntryIdx s = -1 \<and> e_cycles (entry_at (curB s) 1) = 0"
      using simD(5) [OF s] nf True by (cases "sp_phase a") (auto simp: at_pos_def ps)
    moreover have "e_cycles (entry_at (curB s) 0) = 0" using dummy_okD(3) [OF simD(1) [OF s]] True by (simp add: curB_def)
    ultimately show ?thesis
      using dummy [OF True] B [of 1] s'(4,6) True
      by (auto simp: cycle_counter_last l next_entry_def DBB_entry_def curB_def)
  next
    case False
    then show ?thesis
      using heap B [of "d_curEntryIdx s + 1"] s'(4,6) by (auto simp: cycle_counter_last l next_entry_def DBB_entry_def curB_def)
  qed
  have A: "at_pos s' cop (Fault ?p)" using s' dummy ps by (simp add: at_pos_def)
  have H: "heap_pos s' a (usage_fetch a u)" if h: "d_curBlock s \<noteq> dummyBlock"
  proof -
    have "content (sp_code a) (u_mod u) (curB s')" if "u_synced u \<or> \<not> u_fenced u"
      using synced_content [OF s h that] heap [OF h] by simp
    then show ?thesis
      using simD(4) [OF s h] heap [OF h] s' ps unfolding u
      by (auto simp: heap_pos_def valid_ref_def curB_def)
  qed
  have D: "dummy_pos s' timed (usage_fetch a u)" if "d_curBlock s = dummyBlock"
    using simD(3) [OF s that] s'(3,4) B [of 1] that unfolding u by (simp add: dummy_pos_def curB_def)
  show ?thesis
    using s A H D cy s' nf unfolding good_fetch_def fetched_def sp u
    by (simp add: sim_def heap_pos_def)
qed

lemma miss_good:
  assumes s: "sim L cfg opm timed (s, cop) (a, u)" and nf: "\<not> is_fault (sp_phase a)" and h: "d_curBlock s \<noteq> dummyBlock"
    and f: "\<not> DBB_in_fast_path s" and lt: "u_run u < 65535" "b_len (curB s) \<le> u_run u"
    and F: "F = s\<lparr>d_pc := next_pc (sp_phase a), d_instr := x\<rparr>"
  shows "good_fetch L cfg opm timed
    (bindM (DBB_fetch_decode_add_entry L) (\<lambda>e. seqM (modifyM (\<lambda>s. s\<lparr>d_curEntryIdx := int (u_run u)\<rparr>))
       (getsM (\<lambda>s. e_op (DBB_entry s e)))) F) cop a u" (is "good_fetch _ _ _ _ ?r _ _ _")
proof (rule heap_next [OF s nf h])
  fix n k
  assume A: "d_curBlock s = Heap_block n" "n < d_next_block s" "k = u_run u" "pos s = int k - 1" "k \<le> b_len (curB s)"
    "block_ok cfg opm timed (sp_code a) (d_blocks s) (d_next_block s) (curB s)"
    "next_pc (sp_phase a) = (if k = 0 then b_start_addr (curB s) else e_pc (ent (curB s) (k - 1)) + ucast (e_inc (ent (curB s) (k - 1))))"
    "timed \<Longrightarrow> sp_cycles a = d_cycle_counter_raw s + ucast (e_cycles (ent (curB s) k))"
    "u_block u = Some (b_start_addr (curB s))" "valid_ref (d_blocks s) (d_next_block s) (d_curBlock s) (b_start_addr (curB s))"
  let ?p = "next_pc (sp_phase a)" and ?B = "curB s"
  have k: "k = b_len ?B" "u_run u = b_len ?B" using A(3,5) lt by simp_all
  note S = block_shapeD [OF A(6)]
  note b = simD(1) [OF s]
  have code: "code_of L (d_imem s) ?p = sp_code a ?p" using baseD(5) [OF b] by simp
  have coh: "unat (b_coherence_cnt ?B) \<le> u_fences u"
    "b_coherence_cnt ?B = d_coherence_cnt s \<Longrightarrow> content (sp_code a) (u_mod u) ?B"
    using store_okD(2,3) [OF baseD(6) [OF b] A(2)] A(1) by (simp_all add: curB_def)
  show ?thesis
  proof (cases "sp_code a ?p")
    case (Inr w)
    obtain op i l where d: "dec cfg w = (op, i, l)" by (cases "dec cfg w")
    let ?B' = "block_append ?p w (op, i, l) (ucast (opm op)) ?B"
    define s' where "s' = s\<lparr>d_exception := False, d_imem := snd (L ?p (d_imem s)), d_instr := i, d_pc := ?p + l,
       d_blocks := (d_blocks s)(Heap_block n := ?B'), d_curEntryIdx := int k\<rparr>"
    have add: "DBB_fetch_decode_add_entry L F = (Inr (Heap_block n, int k), F\<lparr>d_exception := False, d_imem := snd (L ?p (d_imem s)),
       d_instr := i, d_pc := ?p + l, d_blocks := (d_blocks s)(Heap_block n := ?B')\<rparr>)"
      using add_entry_ok [of F "Heap_block n" ?B ?p L w op i l] A(1) S(1,2) code Inr d baseD(2,3) [OF b] k(1)
      by (simp add: F curB_def)
    have E: "ent ?B' j = (if j = k then (ent ?B j)\<lparr>e_link := None, e_op := Some op, e_pc := ?p, e_mem_word := w,
         e_instr := i, e_inc := ucast l, e_idx := of_nat j\<rparr>
       else if j = Suc k then (ent ?B j)\<lparr>e_cycles := e_cycles (ent ?B k) + ucast (opm op), e_op := None, e_idx := of_nat j\<rparr>
       else ent ?B j)" for j
      using ent_block_append [of ?B ?p w op i l "ucast (opm op)" j] S(1,2) k(1) by simp
    have bk: "block_ok cfg opm timed (sp_code a) (d_blocks s) (d_next_block s) ?B'"
      by (rule block_append_ok [OF A(6) d Inr next_pc_valid [OF s nf]]) (use A(7) k lt in simp_all)
    have "base L cfg opm timed (s\<lparr>d_blocks := (d_blocks s)(Heap_block n := ?B')\<rparr>) a u"
      by (rule base_put_heap [OF b A(2) bk])
        (use coh block_append_content [OF A(6) Inr] A(1) in \<open>simp_all add: curB_def\<close>)
    then have b': "base L cfg opm timed s' a u"
      by (simp add: base_def code_of_load [OF baseD(1) [OF b]] s'_def)
    have nfast: "\<not> DBB_in_fast_path s'" using f by (simp add: DBB_in_fast_path_def s'_def)
    then have cur: "curB s' = ?B'" "d_curBlock s' = Heap_block n" "DBB_lastEntry s' = (Heap_block n, int k)"
      "d_cycle_counter_raw s' = d_cycle_counter_raw s" "d_instr s' = i" "\<not> d_exception s'"
      using A(1) by (simp_all add: curB_def s'_def DBB_lastEntry_def)
    have vr: "valid_ref (d_blocks s') (d_next_block s') (Heap_block n) (b_start_addr ?B)"
      using A(1,2) by (simp add: valid_ref_def s'_def)
    have ct: "content (sp_code a) (u_mod u) ?B'" if "u_synced u \<or> \<not> u_fenced u"
      unfolding block_append_content [OF A(6) Inr]
      by (rule synced_content [OF s h that]) (use k in simp)
    note R = arrive_heap [where s = s' and k = k and p = ?p and w = w and op = op and i = i and l = l
        and t = "b_start_addr ?B", OF b']
    have "fst (spec_fetch cfg opm a) = Out_op (Some op) i" using Inr d by (simp add: spec_fetch_def)
    moreover have "sim L cfg opm timed (s', op) (snd (spec_fetch cfg opm a), usage_fetch a u)"
      by (rule R(2); (simp only: cur E nfast)?) (use A(3,8,9) k lt Inr d vr ct in simp_all)
    moreover have "?r = (Inr (Some op), s')"
      using E [of k] add A(3) by (simp add: monad_simps DBB_entry_def F s'_def)
    ultimately show ?thesis using cur by (simp add: good_fetch_def fetched_def)
  next
    case (Inl e)
    obtain r v where e: "e = SimulationTrap r v" using trap_only [OF b Inl] .
    let ?g = "\<lambda>B'. if k + 1 = b_alloc_len B' then block_grow B' else B'"
    let ?X = "F\<lparr>d_blocks := (d_blocks s)(Heap_block n := ?g ?B), d_exception := False, d_imem := snd (L ?p (d_imem s))\<rparr>"
    have "DBB_fetch L ?p (DBB_put_block (Heap_block n) ?g F) = (Inl e, DBB_fetch_failed ?p ?X)"
      using fetch_trap [of L "DBB_put_block (Heap_block n) ?g F" ?p r v] code Inl e A(1)
      by (simp add: F DBB_put_block_def curB_def)
    then have r: "?r = (Inl e, DBB_fetch_failed ?p ?X)"
      using A(1) k(1) by (simp add: monad_simps DBB_fetch_decode_add_entry_def F Let_def curB_def)
    have "base L cfg opm timed (s\<lparr>d_blocks := (d_blocks s)(Heap_block n := ?g ?B)\<rparr>) a u"
      by (rule base_put_heap [OF b A(2)])
        (use A(1,6) coh block_grow_ok in \<open>auto simp: curB_def content_grow split: if_splits\<close>)
    then have "base L cfg opm timed ?X a u"
      by (simp add: base_def F code_of_load [OF baseD(1) [OF b]])
    then have b': "base L cfg opm timed (DBB_fetch_failed ?p ?X) a u" by (rule base_fetch_failed)
    define s' where "s' = DBB_fetch_failed ?p ?X"
    have cur: "curB s' = ?g ?B" using A(1) by (simp add: curB_def F s'_def)
    have fl: "d_exception s'" "d_curBlock s' = d_curBlock s" "d_next_block s' = d_next_block s" "d_curEntryIdx s' = d_curEntryIdx s"
      "d_cycle_counter_raw s' = d_cycle_counter_raw s" "DBB_in_fast_path s' = DBB_in_fast_path s"
      "e_pc (entry_at (d_blocks s' dummyBlock) 0) = ?p"
      using dummy_okD(1) [OF b] by (simp_all add: s'_def F DBB_in_fast_path_def)
    have gf: "entry_at (curB s') j = entry_at ?B j" "b_len (curB s') = b_len ?B" "b_start_addr (curB s') = b_start_addr ?B"
      "content c m (curB s') = content c m ?B" for j c m
      by (simp_all add: cur content_grow)
    show ?thesis unfolding r s'_def [symmetric]
      by (rule fault_good [OF s nf f Inl b' [folded s'_def]]; (simp only: fl gf)?) (use f k A(1) in simp_all)
  qed
qed

section \<open>Fetching without the cache\<close>

definition dummy_fetched :: "u32 \<Rightarrow> u32 \<Rightarrow> u32 \<Rightarrow> dbb_block \<Rightarrow> dbb_block" where
  "dummy_fetched p l t B =
     put_entry 1 (\<lambda>e. e\<lparr>e_cycles := e_cycles e + t\<rparr>)
       (put_entry 0 (\<lambda>e. e\<lparr>e_inc := ucast l\<rparr>) (put_entry 0 (\<lambda>e. e\<lparr>e_pc := p\<rparr>) B))"

lemma dummy_fetched_fields [simp]:
  "length (b_entries B) = 2 \<Longrightarrow> entry_at (dummy_fetched p l t B) 0 = (entry_at B 0)\<lparr>e_inc := ucast l, e_pc := p\<rparr>"
  "length (b_entries B) = 2 \<Longrightarrow> entry_at (dummy_fetched p l t B) 1 = (entry_at B 1)\<lparr>e_cycles := e_cycles (entry_at B 1) + t\<rparr>"
  "b_len (dummy_fetched p l t B) = b_len B" "length (b_entries (dummy_fetched p l t B)) = length (b_entries B)"
  "b_jumpDynLinkCache (dummy_fetched p l t B) = b_jumpDynLinkCache B"
  by (simp_all add: dummy_fetched_def)

lemma fetch_dummy_ok:
  assumes "code_of L (d_imem s) (d_pc s) = Inr w" "dec (d_isa_config s) w = (op, i, l)"
  shows "DBB_fetch_decode_dummy L s = (Inr (Some op), s\<lparr>d_curEntryIdx := 0, d_exception := False,
    d_imem := snd (L (d_pc s) (d_imem s)), d_instr := i, d_pc := d_pc s + l, d_mem_word := w,
    d_blocks := (d_blocks s)(dummyBlock := dummy_fetched (d_pc s) l (ucast (d_opMap s op)) (d_blocks s dummyBlock))\<rparr>)"
proof -
  let ?s = "DBB_put_entry (dummyBlock, 0) (\<lambda>e. e\<lparr>e_pc := d_pc s\<rparr>) (s\<lparr>d_curEntryIdx := 0\<rparr>)"
  have "DBB_fetch L (d_pc s) ?s = (Inr w, ?s\<lparr>d_exception := False, d_imem := snd (L (d_pc s) (d_imem s)), d_instr := w\<rparr>)"
    using fetch_ok [of L ?s "d_pc s" w] assms(1) by (simp add: DBB_put_entry_def DBB_put_block_def)
  then show ?thesis
    using assms(2)
    by (simp add: DBB_fetch_decode_dummy_def monad_simps DBB_decode_dec)
      (simp add: monad_simps DBB_put_entry_def DBB_put_block_def dummy_fetched_def)
qed

lemma fetch_dummy_trap:
  assumes "code_of L (d_imem s) (d_pc s) = Inl (SimulationTrap r v)"
  shows "DBB_fetch_decode_dummy L s = (Inl (SimulationTrap r v), DBB_fetch_failed (d_pc s)
    (DBB_put_entry (dummyBlock, 0) (\<lambda>e. e\<lparr>e_pc := d_pc s\<rparr>) (s\<lparr>d_curEntryIdx := 0\<rparr>)
       \<lparr>d_exception := False, d_imem := snd (L (d_pc s) (d_imem s))\<rparr>))"
proof -
  let ?s = "DBB_put_entry (dummyBlock, 0) (\<lambda>e. e\<lparr>e_pc := d_pc s\<rparr>) (s\<lparr>d_curEntryIdx := 0\<rparr>)"
  have "DBB_fetch L (d_pc s) ?s = (Inl (SimulationTrap r v), DBB_fetch_failed (d_pc s)
    (?s\<lparr>d_exception := False, d_imem := snd (L (d_pc s) (d_imem s))\<rparr>))"
    using fetch_trap [of L ?s "d_pc s" r v] assms by (simp add: DBB_put_entry_def DBB_put_block_def)
  then show ?thesis by (simp add: DBB_fetch_decode_dummy_def monad_simps)
qed

lemma dummy_good:
  assumes s: "sim L cfg opm timed (s, cop) (a, u)" and nf: "\<not> is_fault (sp_phase a)" and h: "d_curBlock s = dummyBlock"
    and lt: "u_run u < 65535" and F: "F = s\<lparr>d_pc := next_pc (sp_phase a), d_instr := x\<rparr>"
  shows "good_fetch L cfg opm timed (DBB_fetch_decode_dummy L F) cop a u"
proof -
  let ?p = "next_pc (sp_phase a)" and ?D = "d_blocks s dummyBlock"
  note b = simD(1) [OF s]
  note D = dummy_okD [OF b]
  have f: "\<not> DBB_in_fast_path s" and bd: "timed \<Longrightarrow> unat (e_cycles (entry_at ?D 1)) \<le> u_run u * 65536"
    using simD(3) [OF s h] by (simp_all add: dummy_pos_def)
  have code: "code_of L (d_imem F) (d_pc F) = sp_code a ?p" using baseD(5) [OF b] by (simp add: F)
  have "pos s = 0 \<or> pos s = -1 \<and> e_cycles (entry_at ?D 1) = 0"
    using simD(5) [OF s] nf h by (cases "sp_phase a") (auto simp: at_pos_def curB_def)
  then have cy: "timed \<Longrightarrow> sp_cycles a = d_cycle_counter_raw s + ucast (e_cycles (entry_at ?D 1))"
    using simD(6) [OF s] D(3) h by (auto simp: cycle_counter_last sim_last [OF s] next_entry_def DBB_entry_def)
  show ?thesis
  proof (cases "sp_code a ?p")
    case (Inr w)
    obtain op i l where d: "dec cfg w = (op, i, l)" by (cases "dec cfg w")
    let ?B = "dummy_fetched ?p l (ucast (opm op)) ?D"
    define s' where "s' = s\<lparr>d_curEntryIdx := 0, d_exception := False,
      d_imem := snd (L ?p (d_imem s)), d_instr := i, d_pc := ?p + l, d_mem_word := w,
      d_blocks := (d_blocks s)(dummyBlock := ?B)\<rparr>"
    have r: "DBB_fetch_decode_dummy L F = (Inr (Some op), s')"
      using fetch_dummy_ok [of L F w op i l] code Inr d baseD(2,3) [OF b] by (simp add: F s'_def)
    have "base L cfg opm timed (s\<lparr>d_blocks := (d_blocks s)(dummyBlock := ?B)\<rparr>) a u"
      by (rule base_put_dummy [OF b]) (use D in simp_all)
    then have b': "base L cfg opm timed s' a u" by (simp add: base_def code_of_load [OF baseD(1) [OF b]] s'_def)
    have sp: "spec_fetch cfg opm a = (Out_op (Some op) i, a\<lparr>sp_phase := Done ?p w op i l, sp_cycles := sp_cycles a + opm op\<rparr>)"
      using Inr d by (simp add: spec_fetch_def)
    have fl: "\<not> DBB_in_fast_path s'" "d_curBlock s' = dummyBlock" "DBB_lastEntry s' = (dummyBlock, 0)" "pos s' = 0"
      "\<not> d_exception s'" "d_instr s' = i"
      using f h by (simp_all add: s'_def DBB_lastEntry_def DBB_in_fast_path_def pos_def)
    have t: "unat (e_cycles (entry_at ?D 1)) + unat (opm op) < 2 ^ 32" if timed
      using bd [OF that] lt op_time_bound [OF baseD(1) [OF b] that, of cfg w] d by (simp add: op_time_def)
    have m: "DBB_get_mem_word s' = w" using fl D(2) by (simp add: DBB_get_mem_word_def s'_def h)
    have "at_pos s' op (Done ?p w op i l)"
      using next_pc_valid [OF s nf] d dec_len [OF d] baseD(2) [OF b] D(1) fl m
      by (simp add: at_pos_def) (simp add: s'_def curB_def h)
    moreover have "dummy_pos s' timed (usage_fetch a u)"
      using ucast_add_no_wrap(1) [OF t] bd D(1) fl op_time_bound [OF baseD(1) [OF b], of cfg w] d
      unfolding usage_fetch_ok [OF Inr] by (auto simp: dummy_pos_def s'_def op_time_def)
    moreover have "sp_cycles a + opm op = DBB_get_cycle_counter_raw s'" if timed
      using cy [OF that] ucast_add_no_wrap(2) [OF t [OF that]] D(1)
      by (simp add: cycle_counter_last fl next_entry_def DBB_entry_def) (simp add: s'_def)
    ultimately have "sim L cfg opm timed (s', op) (snd (spec_fetch cfg opm a), usage_fetch a u)"
      using b' fl lt unfolding sp usage_fetch_ok [OF Inr] by (simp add: sim_def base_fetched dummy_pos_def)
    then show ?thesis using fl by (simp add: good_fetch_def fetched_def r sp)
  next
    case (Inl e)
    obtain r v where e: "e = SimulationTrap r v" using trap_only [OF b Inl] .
    let ?D' = "put_entry 0 (\<lambda>e. e\<lparr>e_pc := ?p\<rparr>) ?D"
    let ?X = "F\<lparr>d_curEntryIdx := 0, d_blocks := (d_blocks s)(dummyBlock := ?D'),
       d_exception := False, d_imem := snd (L ?p (d_imem s))\<rparr>"
    define s' where "s' = DBB_fetch_failed ?p ?X"
    have r: "DBB_fetch_decode_dummy L F = (Inl e, s')"
      using fetch_dummy_trap [of L F r v] code Inl e by (simp add: s'_def F DBB_put_entry_def DBB_put_block_def)
    have "base L cfg opm timed (s\<lparr>d_blocks := (d_blocks s)(dummyBlock := ?D')\<rparr>) a u"
      by (rule base_put_dummy [OF b]) (use D in simp_all)
    then have "base L cfg opm timed ?X a u" by (simp add: base_def F code_of_load [OF baseD(1) [OF b]])
    then have b': "base L cfg opm timed s' a u" unfolding s'_def by (rule base_fetch_failed)
    have B: "curB s' = put_entry 0 (\<lambda>e. e\<lparr>e_pc := ?p\<rparr>) ?D'" using h by (simp add: s'_def curB_def F)
    have fl: "d_exception s'" "d_curBlock s' = d_curBlock s" "d_next_block s' = d_next_block s" "d_curEntryIdx s' = 0"
      "d_cycle_counter_raw s' = d_cycle_counter_raw s" "DBB_in_fast_path s' = DBB_in_fast_path s"
      "e_pc (entry_at (d_blocks s' dummyBlock) 0) = ?p" "e_cycles (entry_at (curB s') j) = e_cycles (entry_at (curB s) j)" for j
      using D(1) h unfolding B by (simp_all add: s'_def F DBB_in_fast_path_def curB_def)
    show ?thesis unfolding r
      by (rule fault_good [OF s nf f Inl b']; (simp only: fl)?) (use f h in simp_all)
  qed
qed

section \<open>Repairing a block\<close>

definition repaired :: "bool \<Rightarrow> dbb_block \<Rightarrow> dbb_block \<Rightarrow> bool" where
  "repaired timed B B' \<longleftrightarrow> b_start_addr B' = b_start_addr B \<and> b_len B' = b_len B \<and>
     b_coherence_cnt B' = b_coherence_cnt B \<and> (\<forall>j. e_pc (ent B' j) = e_pc (ent B j)) \<and>
     (timed \<longrightarrow> (\<forall>j\<le>b_len B. e_cycles (ent B' j) = e_cycles (ent B j)))"

lemma repaired_refl: "repaired timed B B"
  by (simp add: repaired_def)

lemma repaired_trans: "repaired timed A B \<Longrightarrow> repaired timed B C \<Longrightarrow> repaired timed A C"
  by (simp add: repaired_def)

lemma invalidate_ok:
  assumes "block_ok cfg opm timed code blks nxt B"
  shows "block_ok cfg opm timed code blks nxt (block_invalidate_links B)" "repaired timed B (block_invalidate_links B)"
    "e_mem_word (ent (block_invalidate_links B) j) = e_mem_word (ent B j)"
proof -
  note S = block_shapeD [OF assms]
  have l: "b_len B \<le> length (b_entries B)" using S(2) by simp
  have F: "e_pc (entry_at (block_invalidate_links B) i) = e_pc (entry_at B i)" "e_op (entry_at (block_invalidate_links B) i) = e_op (entry_at B i)"
    "e_cycles (entry_at (block_invalidate_links B) i) = e_cycles (entry_at B i)" "e_inc (entry_at (block_invalidate_links B) i) = e_inc (entry_at B i)"
    "e_idx (entry_at (block_invalidate_links B) i) = e_idx (entry_at B i)"
    "e_mem_word (entry_at (block_invalidate_links B) i) = e_mem_word (entry_at B i)" for i
    using l by simp_all
  show "e_mem_word (ent (block_invalidate_links B) j) = e_mem_word (ent B j)" by (rule F)
  show "repaired timed B (block_invalidate_links B)" by (simp add: repaired_def F)
  have "entry_ok cfg blks nxt (ent (block_invalidate_links B) i)" if "i < b_len B" for i
    using S(10) [OF that] l by (auto simp: entry_ok_def)
  then show "block_ok cfg opm timed code blks nxt (block_invalidate_links B)"
    using assms lc_ok_reset_ok [OF S(13)] by (simp add: block_ok_def block_shape_def F fetchable_def cycles_ok_def del: entry_at_invalidate)
qed

lemma redecode_ok:
  assumes B: "block_ok cfg opm timed code blks nxt B" and k: "k < b_len B" and d: "dec cfg w = (op, i, l)"
    and c: "code (e_pc (ent B k)) = Inr w"
  shows "block_ok cfg opm timed code blks nxt (block_decode k (e_pc (ent B k)) w (op, i, l) (ucast (opm op)) B)" (is "block_ok _ _ _ _ _ _ ?B")
    "repaired timed B (block_decode k (e_pc (ent B k)) w (op, i, l) (ucast (opm op)) B)"
    "e_mem_word (ent (block_decode k (e_pc (ent B k)) w (op, i, l) (ucast (opm op)) B) j) = (if j = k then w else e_mem_word (ent B j))"
    "l = ucast (e_inc (ent B k))"
proof -
  note S = block_shapeD [OF B]
  have E: "ent ?B j = (if j = k then (ent B k)\<lparr>e_link := None, e_op := Some op, e_pc := e_pc (ent B k), e_mem_word := w, e_instr := i, e_inc := ucast l\<rparr>
     else if j = Suc k then (ent B j)\<lparr>e_cycles := e_cycles (ent B k) + ucast (opm op)\<rparr> else ent B j)" for j
    by (rule ent_block_decode) (use S(2) k in simp)
  obtain w' where w': "code (e_pc (ent B k)) = Inr w'" "same_shape cfg opm timed (e_mem_word (ent B k)) w'"
    using S(11) [OF k] by (auto simp: fetchable_def)
  then have sh: "same_shape cfg opm timed (e_mem_word (ent B k)) w" using c by simp
  obtain op' i' l' where d': "dec cfg (e_mem_word (ent B k)) = (op', i', l')" by (cases "dec cfg (e_mem_word (ent B k))")
  have ll: "l' = l" using dec_len [OF d] dec_len [OF d'] sh by (simp add: same_shape_def)
  have inc: "e_inc (ent B k) = ucast l" using S(10) [OF k] d' ll by (auto simp: entry_ok_def)
  then show "l = ucast (e_inc (ent B k))" using ucast_len dec_len [OF d] by (simp split: if_splits)
  show "e_mem_word (ent ?B j) = (if j = k then w else e_mem_word (ent B j))" by (simp add: E)
  have cy: "e_cycles (ent ?B j) = e_cycles (ent B j)" if "j \<le> b_len B" timed for j
  proof (cases "j = Suc k")
    case True
    have "e_cycles (ent B (Suc k)) = e_cycles (ent B k) + ucast (op_time cfg opm (e_mem_word (ent B k)))"
      using S(12) [OF that(2)] k unfolding cycles_ok_def by blast
    moreover have "op_time cfg opm (e_mem_word (ent B k)) = opm op" using sh d that(2) by (simp add: same_shape_def op_time_def)
    ultimately show ?thesis unfolding E True by simp
  qed (simp add: E)
  have pc: "e_pc (ent ?B j) = e_pc (ent B j)" "e_idx (ent ?B j) = e_idx (ent B j)" "e_inc (ent ?B j) = e_inc (ent B j)" for j
    using inc by (simp_all add: E)
  show "repaired timed B ?B" using pc cy by (simp add: repaired_def)
  have op: "e_op (ent ?B (b_len B)) = None" using S(8) k unfolding E by (auto simp del: of_nat_Suc)
  have c0: "e_cycles (ent ?B 0) = 0" using S(6) E [of 0] by (auto split: if_splits)
  have "block_shape ?B" using S op c0 pc(1) [of 0] unfolding block_shape_def pc by simp
  moreover have "entry_ok cfg blks nxt (ent ?B j)" if "j < b_len ?B" for j
    using that S(10) [of j] S(10) [OF k] d by (auto simp: E entry_ok_def)
  moreover have "fetchable cfg opm timed code (ent ?B j)" if "j < b_len ?B" for j
    using that S(11) [of j] c by (auto simp: E fetchable_def same_shape_def)
  moreover have "e_cycles (ent ?B (Suc j)) = e_cycles (ent ?B j) + ucast (op_time cfg opm (e_mem_word (ent ?B j)))"
    if t: timed and j: "j < b_len ?B" for j
  proof -
    have "e_cycles (ent B (Suc j)) = e_cycles (ent B j) + ucast (op_time cfg opm (e_mem_word (ent B j)))"
      using S(12) [OF t] j unfolding cycles_ok_def by simp
    moreover have "op_time cfg opm (e_mem_word (ent ?B j)) = op_time cfg opm (e_mem_word (ent B j))"
      using sh t by (simp add: E same_shape_def op_time_def)
    ultimately show ?thesis using cy [of j] cy [of "Suc j"] j t by simp
  qed
  ultimately show "block_ok cfg opm timed code blks nxt ?B"
    using S(13) unfolding block_ok_def cycles_ok_def by simp
qed

lemma repair_ok:
  assumes "hyps L opm timed" "d_isa_config s = cfg" "d_opMap s = opm" "code_of L (d_imem s) = code"
    "block_ok cfg opm timed code blks nxt (d_blocks s b)" "idx + m = b_len (d_blocks s b)"
    "\<And>j. j < idx \<Longrightarrow> code (e_pc (ent (d_blocks s b) j)) = Inr (e_mem_word (ent (d_blocks s b) j))"
    "0 < m \<Longrightarrow> addr = e_pc (ent (d_blocks s b) idx)"
  shows "\<exists>B' i' m'. DBB_repair L b m idx addr once s =
      (Inr None, s\<lparr>d_instr := i', d_imem := m', d_blocks := (d_blocks s)(b := B')\<rparr>) \<and>
    block_ok cfg opm timed code blks nxt B' \<and> repaired timed (d_blocks s b) B' \<and> code_of L m' = code \<and>
    (\<forall>j<b_len B'. code (e_pc (ent B' j)) = Inr (e_mem_word (ent B' j)))"
  using assms
proof (induction m arbitrary: idx addr once s)
  case 0
  then show ?case
    by (intro exI [of _ "d_blocks s b"] exI [of _ "d_instr s"] exI [of _ "d_imem s"]) (simp add: ret_simp repaired_refl)
next
  case (Suc m)
  let ?B = "d_blocks s b"
  obtain r m2 where rm: "L addr (d_imem s) = (r, m2)" by (cases "L addr (d_imem s)")
  note S = block_shapeD [OF Suc.prems(5)]
  have k: "idx < b_len ?B" and ad: "addr = e_pc (ent ?B idx)" using Suc.prems by simp_all
  obtain w where w: "code addr = Inr w" using S(11) [OF k] ad by (auto simp: fetchable_def)
  have ld: "L addr (d_imem s) = (Inr w, m2)" using w Suc.prems(4) rm by (auto simp: code_of_def)
  have cm: "code_of L m2 = code" using code_of_load [OF Suc.prems(1), of addr "d_imem s"] Suc.prems(4) by (simp add: ld)
  have nxt_pc: "e_pc (ent ?B (idx + 1)) = e_pc (ent ?B idx) + ucast (e_inc (ent ?B idx))" if "0 < m"
    using S(9) [of idx] that Suc.prems(6) by simp
  show ?case
  proof (cases "w = e_mem_word (ent ?B idx)")
    case True
    let ?s = "s\<lparr>d_imem := m2\<rparr>"
    have eq: "DBB_repair L b (Suc m) idx addr once s = DBB_repair L b m (idx + 1) (addr + ucast (e_inc (ent ?B idx))) once ?s"
      using True by (simp add: monad_simps DBB_fetch_raw_def ld DBB_entry_def)
    have "\<exists>B' i' m'. DBB_repair L b m (idx + 1) (addr + ucast (e_inc (ent ?B idx))) once ?s =
        (Inr None, ?s\<lparr>d_instr := i', d_imem := m', d_blocks := (d_blocks ?s)(b := B')\<rparr>) \<and>
      block_ok cfg opm timed code blks nxt B' \<and> repaired timed (d_blocks ?s b) B' \<and> code_of L m' = code \<and>
      (\<forall>j<b_len B'. code (e_pc (ent B' j)) = Inr (e_mem_word (ent B' j)))"
    proof (rule Suc.IH)
      show "code (e_pc (ent (d_blocks ?s b) j)) = Inr (e_mem_word (ent (d_blocks ?s b) j))" if "j < idx + 1" for j
        using that Suc.prems(7) [of j] w ad True by (auto simp: less_Suc_eq)
    qed (use Suc.prems(1,2,3,5,6) cm nxt_pc ad in simp_all)
    then obtain B' i' m' where X: "DBB_repair L b m (idx + 1) (addr + ucast (e_inc (ent ?B idx))) once ?s =
        (Inr None, ?s\<lparr>d_instr := i', d_imem := m', d_blocks := (d_blocks ?s)(b := B')\<rparr>)"
      "block_ok cfg opm timed code blks nxt B'" "repaired timed (d_blocks ?s b) B'" "code_of L m' = code"
      "\<forall>j<b_len B'. code (e_pc (ent B' j)) = Inr (e_mem_word (ent B' j))" by blast
    show ?thesis unfolding eq X(1)
      by (intro exI [of _ B'] exI [of _ i'] exI [of _ m']) (use X(2-) in \<open>simp add: fun_upd_def cong: if_cong\<close>)
  next
    case False
    define B1 where "B1 = (if once then block_invalidate_links ?B else ?B)"
    have B1: "block_ok cfg opm timed code blks nxt B1" "repaired timed ?B B1" "e_mem_word (ent B1 j) = e_mem_word (ent ?B j)" for j
      using invalidate_ok [OF Suc.prems(5)] Suc.prems(5) by (simp_all add: B1_def repaired_refl)
    have k1: "idx < b_len B1" and ad1: "addr = e_pc (ent B1 idx)" using k ad B1(2) by (simp_all add: repaired_def)
    obtain op i l where d: "dec cfg w = (op, i, l)" by (cases "dec cfg w")
    have c1: "code (e_pc (ent B1 idx)) = Inr w" using w ad1 by simp
    define B2 where "B2 = block_decode idx addr w (op, i, l) (ucast (opm op)) B1"
    have B2: "block_ok cfg opm timed code blks nxt B2" "repaired timed B1 B2"
      "e_mem_word (ent B2 j) = (if j = idx then w else e_mem_word (ent B1 j))" "l = ucast (e_inc (ent B1 idx))" for j
      using redecode_ok [OF B1(1) k1 d c1] by (simp_all add: B2_def ad1)
    have R: "repaired timed ?B B2" by (rule repaired_trans [OF B1(2) B2(2)])
    let ?s1 = "s\<lparr>d_imem := m2, d_blocks := (d_blocks s)(b := B1), d_instr := w\<rparr>"
    let ?s2 = "s\<lparr>d_imem := m2, d_instr := i, d_blocks := (d_blocks s)(b := B2)\<rparr>"
    have up: "DBB_decode_update_entry (b, int idx) addr ?s1 = (Inr (addr + l), ?s2)"
      using decode_update_entry_eq [of ?s1 op i l idx b addr] d Suc.prems(2,3) block_shapeD(2) [OF B1(1)] k1
      by (simp add: B2_def)
    have inv: "(if once then DBB_put_block b block_invalidate_links else id) (s\<lparr>d_imem := m2\<rparr>) = s\<lparr>d_imem := m2, d_blocks := (d_blocks s)(b := B1)\<rparr>"
      by (simp add: DBB_put_block_def B1_def)
    have eq: "DBB_repair L b (Suc m) idx addr once s = DBB_repair L b m (idx + 1) (addr + l) False ?s2"
      using False up
      by (simp add: bindM_simp catch_trap_simp seqM_simp getsM_simp modifyM_simp ret_simp DBB_fetch_raw_def ld DBB_entry_def inv)
    have np: "addr + l = e_pc (ent B2 (idx + 1))" if "0 < m"
    proof -
      have "e_pc (ent B1 (Suc idx)) = e_pc (ent B1 idx) + ucast (e_inc (ent B1 idx))"
        by (rule block_shapeD(9) [OF B1(1)]) (use that Suc.prems(6) B1(2) in \<open>simp add: repaired_def\<close>)
      moreover have "e_pc (ent B2 (Suc idx)) = e_pc (ent B1 (Suc idx))" using B2(2) unfolding repaired_def by blast
      ultimately show ?thesis using B2(4) ad1 by simp
    qed
    have "\<exists>B' i' m'. DBB_repair L b m (idx + 1) (addr + l) False ?s2 =
        (Inr None, ?s2\<lparr>d_instr := i', d_imem := m', d_blocks := (d_blocks ?s2)(b := B')\<rparr>) \<and>
      block_ok cfg opm timed code blks nxt B' \<and> repaired timed (d_blocks ?s2 b) B' \<and> code_of L m' = code \<and>
      (\<forall>j<b_len B'. code (e_pc (ent B' j)) = Inr (e_mem_word (ent B' j)))"
    proof (rule Suc.IH)
      show "code (e_pc (ent (d_blocks ?s2 b) j)) = Inr (e_mem_word (ent (d_blocks ?s2 b) j))" if "j < idx + 1" for j
        using that Suc.prems(7) [of j] w ad R B1(3) B2(3) by (auto simp: repaired_def less_Suc_eq)
    qed (use Suc.prems(1,2,3,6) cm B2(1) R np in \<open>simp_all add: repaired_def\<close>)
    then obtain B' i' m' where X: "DBB_repair L b m (idx + 1) (addr + l) False ?s2 =
        (Inr None, ?s2\<lparr>d_instr := i', d_imem := m', d_blocks := (d_blocks ?s2)(b := B')\<rparr>)"
      "block_ok cfg opm timed code blks nxt B'" "repaired timed B2 B'" "code_of L m' = code"
      "\<forall>j<b_len B'. code (e_pc (ent B' j)) = Inr (e_mem_word (ent B' j))" by auto
    show ?thesis unfolding eq X(1)
      by (intro exI [of _ B'] exI [of _ i'] exI [of _ m']) (use X(2,4,5) repaired_trans [OF R X(3)] in \<open>simp add: fun_upd_def cong: if_cong\<close>)
  qed
qed

section \<open>\<^verbatim>\<open>fetch_decode\<close>\<close>

lemma coherent_good:
  assumes s: "sim L cfg opm timed (s, cop) (a, u)" and nf: "\<not> is_fault (sp_phase a)" and h: "d_curBlock s \<noteq> dummyBlock"
    and md: "\<not> u_mod u (next_pc (sp_phase a))" and lt: "u_run u < 65535" "u_run u < b_len (curB s)"
    and c: "content (sp_code a) (u_mod u) (curB s)"
    and F: "F = s\<lparr>d_pc := p, d_instr := x, d_exception := ex\<rparr>" and ex: "ex \<Longrightarrow> u_faulted u"
  shows "good_fetch L cfg opm timed
    (seqM (modifyM (DBB_fast_path_raw_enable (d_curBlock s, int (u_run u)))) (DBB_hit (d_curBlock s, int (u_run u))) F) cop a u"
proof -
  let ?e = "ent (curB s) (u_run u)"
  define s' where "s' = F\<lparr>d_fastEntry := (d_curBlock s, int (u_run u)), d_curEntryIdx := int (u_run u), d_instr := e_instr ?e,
    d_pc := p + ucast (e_inc ?e)\<rparr>"
  have b: "base L cfg opm timed s' a u" using simD(1) [OF s] by (simp add: base_def s'_def F)
  have nd: "d_curBlock s \<noteq> fastDisableBlock" using sim_cur_live [OF s] by simp
  have "good_fetch L cfg opm timed (Inr (e_op ?e), s') cop a u"
    by (rule hit_good [OF s nf h md lt c b])
      (use ex nd in \<open>simp_all add: s'_def F DBB_lastEntry_def DBB_in_fast_path_def\<close>)
  then show ?thesis
    by (simp add: DBB_hit_def monad_simps DBB_fast_path_raw_enable_def DBB_entry_def s'_def F curB_def)
qed

lemma incoherent_good:
  assumes s: "sim L cfg opm timed (s, cop) (a, u)" and nf: "\<not> is_fault (sp_phase a)" and h: "d_curBlock s \<noteq> dummyBlock"
    and f: "\<not> DBB_in_fast_path s"
    and md: "\<not> u_mod u (next_pc (sp_phase a))" and lt: "u_run u < 65535" "u_run u < b_len (curB s)"
    and F: "F = s\<lparr>d_pc := next_pc (sp_phase a), d_instr := x\<rparr>"
  shows "good_fetch L cfg opm timed (DBB_hit_incoherent L (u_run u) F) cop a u"
proof (rule heap_next [OF s nf h])
  fix n k
  assume A: "d_curBlock s = Heap_block n" "n < d_next_block s" "k = u_run u"
    "block_ok cfg opm timed (sp_code a) (d_blocks s) (d_next_block s) (curB s)"
    "k < b_len (curB s) \<Longrightarrow> e_pc (ent (curB s) k) = next_pc (sp_phase a)"
    "timed \<Longrightarrow> sp_cycles a = d_cycle_counter_raw s + ucast (e_cycles (ent (curB s) k))"
    "u_block u = Some (b_start_addr (curB s))" "valid_ref (d_blocks s) (d_next_block s) (d_curBlock s) (b_start_addr (curB s))"
  let ?B = "curB s" and ?b = "Heap_block n" and ?F = "F\<lparr>d_exception := False\<rparr>" and ?p = "next_pc (sp_phase a)"
  note b = simD(1) [OF s]
  have Bb: "d_blocks ?F ?b = ?B" using A(1) by (simp add: F curB_def)
  have "\<exists>B' i' m'. DBB_repair L ?b (b_len ?B) 0 (b_start_addr ?B) True ?F =
      (Inr None, ?F\<lparr>d_instr := i', d_imem := m', d_blocks := (d_blocks ?F)(?b := B')\<rparr>) \<and>
    block_ok cfg opm timed (sp_code a) (d_blocks s) (d_next_block s) B' \<and> repaired timed (d_blocks ?F ?b) B' \<and>
    code_of L m' = sp_code a \<and> (\<forall>j<b_len B'. sp_code a (e_pc (ent B' j)) = Inr (e_mem_word (ent B' j)))"
    by (rule repair_ok) (use baseD(1,2,3,5) [OF b] A(1,4) block_shapeD(5) [OF A(4)] in \<open>simp_all add: F curB_def\<close>)
  then obtain B' i' m' where X: "DBB_repair L ?b (b_len ?B) 0 (b_start_addr ?B) True ?F =
      (Inr None, ?F\<lparr>d_instr := i', d_imem := m', d_blocks := (d_blocks s)(?b := B')\<rparr>)"
    "block_ok cfg opm timed (sp_code a) (d_blocks s) (d_next_block s) B'" "repaired timed ?B B'" "code_of L m' = sp_code a"
    "\<forall>j<b_len B'. sp_code a (e_pc (ent B' j)) = Inr (e_mem_word (ent B' j))"
    unfolding Bb by (auto simp: F)
  let ?B2 = "B'\<lparr>b_coherence_cnt := d_coherence_cnt s\<rparr>" and ?e = "ent B' k"
  have ct: "content (sp_code a) (u_mod u) ?B2" using X(5) by (simp add: content_def)
  have ok2: "block_ok cfg opm timed (sp_code a) (d_blocks s) (d_next_block s) ?B2"
    using X(2) by (simp add: block_ok_def block_shape_def cycles_ok_def)
  define s' where "s' = s\<lparr>d_exception := False, d_imem := m', d_blocks := (d_blocks s)(?b := ?B2),
    d_fastEntry := (?b, int k), d_curEntryIdx := int k, d_instr := e_instr ?e, d_pc := ?p + ucast (e_inc ?e)\<rparr>"
  have "base L cfg opm timed (s\<lparr>d_blocks := (d_blocks s)(?b := ?B2)\<rparr>) a u"
    by (rule base_put_heap [OF b A(2) ok2])
      (use X(3) A(1) ct store_okD(7) [OF baseD(6) [OF b]] in \<open>simp_all add: repaired_def curB_def\<close>)
  then have b': "base L cfg opm timed s' a u"
    using X(4) baseD(5) [OF b] by (simp add: base_def s'_def)
  have fl: "curB s' = ?B2" "d_curBlock s' = ?b" "DBB_lastEntry s' = (?b, int k)" "d_cycle_counter_raw s' = d_cycle_counter_raw s"
    "d_instr s' = e_instr ?e" "\<not> d_exception s'"
    using A(1) by (simp_all add: s'_def curB_def DBB_lastEntry_def DBB_in_fast_path_def)
  have klt: "k < b_len B'" using A(3) lt X(3) by (simp add: repaired_def)
  have pk: "e_pc ?e = ?p" using X(3) A(3,5) lt by (simp add: repaired_def)
  have w: "sp_code a ?p = Inr (e_mem_word ?e)" using X(5) klt pk by metis
  obtain op i l where d: "dec cfg (e_mem_word ?e) = (op, i, l)" by (cases "dec cfg (e_mem_word ?e)")
  have i: "e_instr ?e = i" "e_op ?e = Some op" using block_shapeD(10) [OF X(2) klt] d by (auto simp: entry_ok_def)
  have vr: "valid_ref (d_blocks s') (d_next_block s') ?b (b_start_addr ?B)"
    using A(1,2) X(3) by (simp add: valid_ref_def s'_def repaired_def)
  have cy: "timed \<Longrightarrow> e_cycles ?e = e_cycles (ent ?B k)" using X(3) A(3) lt by (simp add: repaired_def)
  have "fst (spec_fetch cfg opm a) = Out_op (Some op) i" using w d by (simp add: spec_fetch_def)
  moreover have "sim L cfg opm timed (s', op) (snd (spec_fetch cfg opm a), usage_fetch a u)"
    by (rule arrive_heap(2) [where s = s' and k = k and p = ?p and w = "e_mem_word ?e" and op = op and i = i and l = l
        and t = "b_start_addr ?B", OF b']; (simp only: fl entry_at_more)?)
      (use A(3,6,7) lt klt pk w d i vr cy ct in simp_all)
  moreover have "DBB_hit_incoherent L (u_run u) F = (Inr (Some op), s')"
    using X(1) i A(1,3)
    by (simp add: DBB_hit_incoherent_def monad_simps DBB_put_block_def DBB_fast_path_raw_enable_def DBB_hit_def DBB_entry_def
        F curB_def s'_def)
  ultimately show ?thesis using i fl by (simp add: good_fetch_def fetched_def)
qed

lemma slow_good:
  assumes s: "sim L cfg opm timed (s, cop) (a, u)" and nf: "\<not> is_fault (sp_phase a)" and f: "\<not> DBB_in_fast_path s"
    and md: "\<not> u_mod u (next_pc (sp_phase a))" and lt: "u_run u < 65535"
    and F: "F = s\<lparr>d_pc := next_pc (sp_phase a), d_instr := x\<rparr>"
  shows "good_fetch L cfg opm timed (DBB_fetch_decode_slow L F) cop a u"
proof (cases "d_curBlock s = dummyBlock")
  case True
  then show ?thesis using dummy_good [OF s nf True lt F] by (simp add: DBB_fetch_decode_slow_def monad_simps F)
next
  case False
  from heap_next [OF s nf False] obtain n where
    n: "d_curBlock s = Heap_block n" "n < d_next_block s" "pos s = int (u_run u) - 1" by metis
  have k: "nat (d_curEntryIdx s + 1) = u_run u" using f n(3) by (simp add: pos_def DBB_lastEntry_def)
  show ?thesis
  proof (cases "b_len (curB s) \<le> u_run u")
    case True
    then show ?thesis
      using miss_good [OF s nf False f lt True F] n False
      by (simp add: DBB_fetch_decode_slow_def bindM_simp [of "getsM _"] getsM_simp F k curB_def)
  next
    case hit: False
    then have lt2: "u_run u < b_len (curB s)" by simp
    show ?thesis
    proof (cases "b_coherence_cnt (curB s) = d_coherence_cnt s")
      case True
      have c: "content (sp_code a) (u_mod u) (curB s)"
        using store_okD(3) [OF baseD(6) [OF simD(1) [OF s]] n(2)] True n(1) by (simp add: curB_def)
      have "F = s\<lparr>d_pc := next_pc (sp_phase a), d_instr := x, d_exception := d_exception s\<rparr>" by (simp add: F)
      from coherent_good [OF s nf False md lt lt2 c this simD(8) [OF s]] show ?thesis
        using lt2 True n False
        by (simp add: DBB_fetch_decode_slow_def bindM_simp [of "getsM _"] getsM_simp F k curB_def)
    next
      case inc: False
      from incoherent_good [OF s nf False f md lt lt2 F] show ?thesis
        using lt2 inc n False
        by (simp add: DBB_fetch_decode_slow_def bindM_simp [of "getsM _"] getsM_simp F k curB_def)
    qed
  qed
qed

lemma fast_hit_good:
  assumes s: "sim L cfg opm timed (s, cop) (a, u)" and nf: "\<not> is_fault (sp_phase a)" and f: "DBB_in_fast_path s"
    and md: "\<not> u_mod u (next_pc (sp_phase a))" and lt: "u_run u < 65535" "u_run u < b_len (curB s)"
  shows "good_fetch L cfg opm timed (Inr (e_op (ent (curB s) (u_run u))),
    s\<lparr>d_fastEntry := (d_curBlock s, int (u_run u)), d_instr := e_instr (ent (curB s) (u_run u)), d_pc := x\<rparr>) cop a u"
proof -
  have h: "d_curBlock s \<noteq> dummyBlock" using f simD(3) [OF s] by (auto simp: dummy_pos_def)
  have c: "content (sp_code a) (u_mod u) (curB s)" using simD(4) [OF s h] f by (simp add: heap_pos_def)
  have nd: "d_curBlock s \<noteq> fastDisableBlock" using sim_cur_live [OF s] by simp
  show ?thesis
    by (rule hit_good [OF s nf h md lt c])
      (use nd simD(1,8) [OF s] in \<open>simp_all add: base_fields DBB_lastEntry_def DBB_in_fast_path_def\<close>)
qed

lemma fast_next:
  assumes s: "sim L cfg opm timed (s, cop) (a, u)" and nf: "\<not> is_fault (sp_phase a)" and f: "DBB_in_fast_path s"
  shows "next_entry (d_fastEntry s) = (d_curBlock s, int (u_run u))" "u_run u \<le> b_len (curB s)"
    "e_op (ent (curB s) (u_run u)) = None \<longleftrightarrow> u_run u = b_len (curB s)"
    "u_run u = b_len (curB s) \<Longrightarrow> uint (e_idx (ent (curB s) (u_run u))) - 1 = pos s"
proof -
  have h: "d_curBlock s \<noteq> dummyBlock" using f simD(3) [OF s] by (auto simp: dummy_pos_def)
  have fe: "d_fastEntry s = (d_curBlock s, pos s)"
    using f simD(2) [OF s] by (simp add: pos_def DBB_lastEntry_def prod_eq_iff)
  from heap_next [OF s nf h] have
    A: "pos s = int (u_run u) - 1" "u_run u \<le> b_len (curB s)"
      "block_ok cfg opm timed (sp_code a) (d_blocks s) (d_next_block s) (curB s)" by metis+
  show "next_entry (d_fastEntry s) = (d_curBlock s, int (u_run u))" "u_run u \<le> b_len (curB s)"
    using fe A by (simp_all add: next_entry_def)
  show "e_op (ent (curB s) (u_run u)) = None \<longleftrightarrow> u_run u = b_len (curB s)"
    using block_shapeD(8) [OF A(3)] block_shapeD(10) [OF A(3), of "u_run u"] A(2)
    by (auto simp: entry_ok_def le_less split: prod.splits)
  show "uint (e_idx (ent (curB s) (u_run u))) - 1 = pos s" if "u_run u = b_len (curB s)"
    using block_shapeD(7) [OF A(3), of "u_run u"] uint_idx16 [of "u_run u"] block_shapeD(3) [OF A(3)] that A(1) by simp
qed

lemma fetch_decode_good:
  assumes s: "sim L cfg opm timed (s, cop) (a, u)" and nf: "\<not> is_fault (sp_phase a)"
    and md: "\<not> u_mod u (next_pc (sp_phase a))" and lt: "u_run u < 65535"
    and F: "F = s\<lparr>d_pc := next_pc (sp_phase a), d_instr := x\<rparr>"
  shows "good_fetch L cfg opm timed (DBB_fetch_decode L F) cop a u"
proof (cases "DBB_in_fast_path s")
  case False
  then have "DBB_fetch_decode L F = DBB_fetch_decode_slow L F" by (simp add: DBB_fetch_decode_def F DBB_in_fast_path_def)
  then show ?thesis using slow_good [OF s nf False md lt F] by simp
next
  case True
  note N = fast_next [OF s nf True]
  have fF: "DBB_in_fast_path F" "next_entry (d_fastEntry F) = (d_curBlock s, int (u_run u))"
    using True N(1) by (simp_all add: F DBB_in_fast_path_def)
  have e: "DBB_entry (F\<lparr>d_fastEntry := (d_curBlock s, int (u_run u))\<rparr>) (d_curBlock s, int (u_run u)) = ent (curB s) (u_run u)"
    by (simp add: DBB_entry_def F curB_def)
  show ?thesis
  proof (cases "u_run u = b_len (curB s)")
    case False
    then have lt2: "u_run u < b_len (curB s)" using N(2) by simp
    have "\<not> is_terminal (ent (curB s) (u_run u))" using N(3) False by (simp add: is_terminal_def)
    then have "DBB_fetch_decode L F = (Inr (e_op (ent (curB s) (u_run u))),
      s\<lparr>d_fastEntry := (d_curBlock s, int (u_run u)), d_instr := e_instr (ent (curB s) (u_run u)),
        d_pc := next_pc (sp_phase a) + ucast (e_inc (ent (curB s) (u_run u)))\<rparr>)"
      using fF e by (simp add: DBB_fetch_decode_def Let_def F)
    then show ?thesis using fast_hit_good [OF s nf True md lt lt2] by simp
  next
    case tail: True
    have t: "is_terminal (ent (curB s) (u_run u))" using N(3) tail by (simp add: is_terminal_def)
    let ?s = "s\<lparr>d_curEntryIdx := pos s, d_fastEntry := (fastDisableBlock, 0)\<rparr>"
    let ?F = "s\<lparr>d_pc := next_pc (sp_phase a), d_instr := x, d_curEntryIdx := pos s, d_fastEntry := (fastDisableBlock, 0)\<rparr>"
    have "DBB_fetch_decode L F = DBB_fetch_decode_slow L ?F"
      using fF e t N(4) [OF tail] by (simp add: DBB_fetch_decode_def Let_def F DBB_fast_path_raw_disable_def)
    moreover have "good_fetch L cfg opm timed (DBB_fetch_decode_slow L ?F) cop a u"
      by (rule slow_good [OF stop_fast_sim [OF s True] nf _ md lt, where x = x]) simp_all
    ultimately show ?thesis by simp
  qed
qed

lemma get_pc_instr: "DBB_get_pc_maybe_after_callback (s\<lparr>d_instr := x\<rparr>) = DBB_get_pc_maybe_after_callback s"
  by (simp add: DBB_get_pc_maybe_after_callback_def DBB_in_fast_path_def DBB_entry_def)

lemma fdd_global_good:
  assumes s: "sim L cfg opm timed (s, cop) (a, u)" and nf: "\<not> is_fault (sp_phase a)"
    and md: "\<not> u_mod u (next_pc (sp_phase a))" and lt: "u_run u < 65535"
  shows "good_fetch L cfg opm timed (DBB_fdd_global L (s\<lparr>d_instr := x\<rparr>)) cop a u"
proof -
  have "DBB_fdd_global L (s\<lparr>d_instr := x\<rparr>) = DBB_fetch_decode L (s\<lparr>d_instr := x, d_pc := next_pc (sp_phase a)\<rparr>)"
    using get_pc_sim [OF s nf] by (simp add: DBB_fdd_global_def seqM_simp modifyM_simp get_pc_instr)
  moreover have "good_fetch L cfg opm timed (DBB_fetch_decode L (s\<lparr>d_instr := x, d_pc := next_pc (sp_phase a)\<rparr>)) cop a u"
    by (rule fetch_decode_good [OF s nf md lt, where x = x]) simp
  ultimately show ?thesis by simp
qed

lemma fdd_fast_good:
  assumes s: "sim L cfg opm timed (s, cop) (a, u)" and nf: "\<not> is_fault (sp_phase a)"
    and md: "\<not> u_mod u (next_pc (sp_phase a))" and lt: "u_run u < 65535"
  shows "good_fetch L cfg opm timed (DBB_fdd_fast L s) cop a u"
proof -
  let ?e = "DBB_entry s (next_entry (d_fastEntry s))"
  have F: "DBB_fetch_decode_fast s = (e_op ?e, s\<lparr>d_fastEntry := next_entry (d_fastEntry s), d_instr := e_instr ?e\<rparr>)"
    by (simp add: DBB_fetch_decode_fast_def Let_def DBB_entry_def)
  have A: "DBB_abort_fetch_decode_fast (s\<lparr>d_fastEntry := next_entry (d_fastEntry s), d_instr := x\<rparr>) = s\<lparr>d_instr := x\<rparr>" for x
    by (simp add: DBB_abort_fetch_decode_fast_def next_entry_def)
  show ?thesis
  proof (cases "e_op ?e")
    case None
    then have "DBB_fdd_fast L s = DBB_fdd_global L (s\<lparr>d_instr := e_instr ?e\<rparr>)" by (simp add: DBB_fdd_fast_def F A)
    then show ?thesis using fdd_global_good [OF s nf md lt] by simp
  next
    case (Some op)
    then have f: "DBB_in_fast_path s"
      using dummy_okD(6) [OF simD(1) [OF s]] by (auto simp: DBB_in_fast_path_def DBB_entry_def next_entry_def)
    note N = fast_next [OF s nf f]
    have e: "?e = ent (curB s) (u_run u)" using N(1) by (simp add: DBB_entry_def curB_def)
    then have lt2: "u_run u < b_len (curB s)" using N(2,3) Some by force
    have "DBB_fdd_fast L s = (Inr (e_op (ent (curB s) (u_run u))),
      s\<lparr>d_fastEntry := (d_curBlock s, int (u_run u)), d_instr := e_instr (ent (curB s) (u_run u)), d_pc := d_pc s\<rparr>)"
      using Some e N(1) by (simp add: DBB_fdd_fast_def F)
    then show ?thesis using fast_hit_good [OF s nf f md lt lt2, of "d_pc s"] by simp
  qed
qed

section \<open>Every supported call\<close>

lemma is_doneE: assumes "is_done ph" obtains q w op i l where "ph = Done q w op i l"
  using assms by (cases ph) auto

lemma sim_step:
  assumes s: "sim L cfg opm timed (s, cop) (a, u)" and al: "allowed L cfg opm timed c a u"
  shows "fst (DBB_step L c (s, cop)) = fst (spec_step L cfg opm c a) \<and>
    sim L cfg opm timed (snd (DBB_step L c (s, cop))) (snd (spec_step L cfg opm c a), usage_step L c a u)"
proof -
  have br: "\<exists>s'. DBB_branch_taken_sjump (hart_offset cop (d_instr s)) s = (Inr (), s') \<and>
      sim L cfg opm timed (s', cop) (a\<lparr>sp_phase := Ready (branch_target (sp_phase a))\<rparr>, usage_goto (branch_target (sp_phase a)) False u)"
    if "is_done (sp_phase a)" "may_goto (branch_target (sp_phase a)) u"
    using that(1)
  proof (rule is_doneE)
    fix q w op i l assume ph: "sp_phase a = Done q w op i l"
    then show ?thesis using branch_sim [OF s ph] that(2) by simp
  qed
  note D = allowed_def spec_step_def usage_step_def Let_def
  show ?thesis
  proof (cases c)
    case Fetch_fast
    then show ?thesis using fdd_fast_good [OF s] al by (simp add: D good_fetch_def)
  next
    case Fetch_global
    then show ?thesis using fdd_global_good [OF s, of "d_instr s"] al by (simp add: D good_fetch_def)
  next
    case Branch_taken
    then show ?thesis using br al by (auto simp: D DBB_branch_taken_def lift_out_def)
  next
    case Branch_not_taken
    then show ?thesis using s by (simp add: D DBB_branch_not_taken_def)
  next
    case Jump
    then show ?thesis using br al by (auto simp: D DBB_jump_def lift_out_def)
  next
    case Jump_and_link
    then show ?thesis using br al link_sim [OF s] by (auto simp: D DBB_jump_and_link_def DBB_jump_def lift_out_def monad_simps)
  next
    case (Jump_dyn p)
    then show ?thesis using jump_dyn_sim [OF s, of p] al by (simp add: D)
  next
    case (Jump_dyn_and_link p)
    then show ?thesis using jump_dyn_sim [OF s, of p] link_sim [OF s] al by (simp add: D DBB_jump_dyn_and_link_def)
  next
    case Fence_i
    then show ?thesis using fence_sim [OF s] al by (simp add: D DBB_fence_i_def)
  next
    case Fence_vma
    then show ?thesis using fence_sim [OF s] al by (simp add: D DBB_fence_vma_def)
  next
    case (Enter_trap p)
    then show ?thesis using enter_trap_sim [OF s, of p] al by (simp add: D)
  next
    case (Ret_trap p)
    then show ?thesis using ret_trap_sim [OF s, of p] al by (simp add: D)
  next
    case Force_slow_path
    then show ?thesis using force_slow_sim [OF s] by (simp add: D)
  next
    case (Enable b)
    then show ?thesis using enable_sim [OF s] by (simp add: D)
  next
    case (Write_code m)
    then show ?thesis using write_sim [OF s, of m] al by (simp add: D)
  next
    case Get_last_pc
    then show ?thesis using s last_pc_sim [OF s] al by (simp add: D)
  next
    case Get_last_pc_exception_safe
    then show ?thesis using s last_pc_safe_sim [OF s] al by (simp add: D)
  next
    case Get_pc
    then show ?thesis using s get_pc_sim [OF s] al by (simp add: D)
  next
    case Get_cycles
    then show ?thesis using s simD(6) [OF s] al by (simp add: D)
  next
    case Get_mem_word
    then show ?thesis using s mem_word_sim [OF s] al by (simp add: D)
  qed
qed

end
