(* ===== verification/VP_DBBProps.thy ===== *)
theory VP_DBBProps
  imports VP_DBBSim
begin

text \<open>
  The block cache and the unit without a cache as implementations of one interface: a locale for
  simulations of call sequences under a monitor, its interpretation on the block cache, and what
  follows for whole runs. The last section shows what happens outside the supported uses.
\<close>

section \<open>Simulation of call sequences\<close>

locale monitored_simulation =
  fixes istep :: "'c \<Rightarrow> 'i \<Rightarrow> 'o \<times> 'i"
    and astep :: "'c \<Rightarrow> 'a \<Rightarrow> 'o \<times> 'a"
    and ustep :: "'c \<Rightarrow> 'a \<Rightarrow> 'u \<Rightarrow> 'u"
    and ok :: "'c \<Rightarrow> 'a \<Rightarrow> 'u \<Rightarrow> bool"
    and R :: "'i \<Rightarrow> 'a \<times> 'u \<Rightarrow> bool"
  assumes same_out: "R i (a, u) \<Longrightarrow> ok c a u \<Longrightarrow> fst (istep c i) = fst (astep c a)"
    and related: "R i (a, u) \<Longrightarrow> ok c a u \<Longrightarrow> R (snd (istep c i)) (snd (astep c a), ustep c a u)"
begin

lemma run_simulates:
  "R i (a, u) \<Longrightarrow> monitored astep ustep ok cs a u \<Longrightarrow>
   fst (run_outs istep cs i) = fst (run_outs astep cs a) \<and>
   (\<exists>u'. R (snd (run_outs istep cs i)) (snd (run_outs astep cs a), u'))"
proof (induction cs arbitrary: i a u)
  case Nil
  then show ?case by auto
next
  case (Cons c cs)
  then have ok: "ok c a u" and m: "monitored astep ustep ok cs (snd (astep c a)) (ustep c a u)" by simp_all
  from Cons.IH [OF related [OF Cons.prems(1) ok] m] same_out [OF Cons.prems(1) ok]
  show ?case by (auto split: prod.splits)
qed

end

interpretation dbb: monitored_simulation "DBB_step L" "spec_step L cfg opm" "usage_step L"
  "allowed L cfg opm timed" "sim L cfg opm timed" for L cfg opm timed
proof
  fix i :: "'a dbbc \<times> OpId" and a u c
  obtain s cop where i: "i = (s, cop)" by (cases i)
  show "fst (DBB_step L c i) = fst (spec_step L cfg opm c a)"
    if "sim L cfg opm timed i (a, u)" "allowed L cfg opm timed c a u"
    using sim_step that unfolding i by blast
  show "sim L cfg opm timed (snd (DBB_step L c i)) (snd (spec_step L cfg opm c a), usage_step L c a u)"
    if "sim L cfg opm timed i (a, u)" "allowed L cfg opm timed c a u"
    using sim_step that unfolding i by blast
qed

section \<open>The cache is transparent\<close>

definition loads_pure :: "(u32 \<Rightarrow> ('m, u32) M) \<Rightarrow> bool" where
  "loads_pure L \<longleftrightarrow> (\<forall>p q m. fst (L p (snd (L q m))) = fst (L p m)) \<and>
     (\<forall>p m e. fst (L p m) = Inl e \<longrightarrow> (\<exists>r v. e = SimulationTrap r v))"

lemma hyps_iff: "hyps L opm timed \<longleftrightarrow> loads_pure L \<and> (timed \<longrightarrow> (\<forall>op. opm op \<le> 65536))"
  by (auto simp: hyps_def loads_pure_def)

lemma run_related:
  assumes "loads_pure L" "timed \<Longrightarrow> \<forall>op. opm op \<le> 65536" "get_misa_extensions cfg \<noteq> 0" "pc_is_valid entrypoint"
    "all_allowed L cfg opm timed cs (spec_init L entrypoint m) (usage_init entrypoint)"
  shows "fst (run_outs (DBB_step L) cs (DBB_init ena cfg opm entrypoint (DBB_fresh m), cop)) =
      fst (run_outs (spec_step L cfg opm) cs (spec_init L entrypoint m)) \<and>
    (\<exists>u. sim L cfg opm timed (snd (run_outs (DBB_step L) cs (DBB_init ena cfg opm entrypoint (DBB_fresh m), cop)))
      (snd (run_outs (spec_step L cfg opm) cs (spec_init L entrypoint m)), u))"
proof -
  have "sim L cfg opm timed (DBB_init ena cfg opm entrypoint (DBB_fresh m), cop)
      (spec_init L entrypoint m, usage_init entrypoint)"
    by (rule init_sim [OF _ assms(4,3)]) (use assms(1,2) in \<open>simp add: hyps_iff\<close>)
  from dbb.run_simulates [OF this assms(5) [unfolded all_allowed_def]] show ?thesis .
qed

definition dummy_at :: "dbbcache_dummy \<Rightarrow> u32 \<Rightarrow> OpId \<Rightarrow> phase \<Rightarrow> bool" where
  "dummy_at d ins cop ph =
     (case ph of
        Ready p \<Rightarrow> dbb_pc d = p
      | Done q w op i l \<Rightarrow> dbb_pc d = q + l \<and> dbb_last_pc d = q \<and> mem_word d = w \<and> ins = i \<and> cop = op
      | Fault q \<Rightarrow> dbb_pc d = q \<and> dbb_last_pc d = q)"

definition dummy_sim ::
  "'d iss_env \<Rightarrow> (u32 \<Rightarrow> ('d, u32) M) \<Rightarrow> u64 \<Rightarrow> (OpId \<Rightarrow> u64) \<Rightarrow> 'd iss \<times> OpId \<Rightarrow> fspec \<times> usage \<Rightarrow> bool" where
  "dummy_sim E L cfg opm x y \<longleftrightarrow>
     (case (x, y) of ((s, cop), (a, u)) \<Rightarrow>
       instr_mem E L \<and> loads_pure L \<and> isa_config s = cfg \<and> opMap s = opm \<and> code_of L (mem_st s) = sp_code a \<and>
       dummy_at (dbbcache s) (instr s) cop (sp_phase a) \<and> sp_cycles a = cycle_counter_raw (dbbcache s))"

lemma dbb_decode_dec:
  "dbb_decode s = (case dec (isa_config s) (instr s) of (op, i, l) \<Rightarrow> (Inr (op, l), s\<lparr>instr := i\<rparr>))"
proof (cases "is_compressed (instr s)")
  case True
  then obtain op w where "decode_and_expand_compressed RV32 (isa_config s) (instr s) = Inr (op, w)"
    using decode_total_result by blast
  then show ?thesis using True by (simp add: dbb_decode_def dec_def monad_simps)
next
  case False
  then show ?thesis by (simp add: dbb_decode_def dec_def monad_simps)
qed

lemma dummy_fetch:
  assumes s: "dummy_sim E L cfg opm (s, cop) (a, u)" and nf: "\<not> is_fault (sp_phase a)"
  shows "fst (Dummy_fetched (Dummy_fdd_global E s) cop) = fst (spec_fetch cfg opm a) \<and>
    dummy_sim E L cfg opm (snd (Dummy_fetched (Dummy_fdd_global E s) cop)) (snd (spec_fetch cfg opm a), u')"
proof -
  let ?p = "next_pc (sp_phase a)"
  obtain r m where r: "L ?p (mem_st s) = (r, m)" by (cases "L ?p (mem_st s)")
  have p: "dbb_pc (dbbcache s) = ?p" using s nf by (cases "sp_phase a") (auto simp: dummy_sim_def dummy_at_def)
  have e: "code_of L (mem_st s) = sp_code a" and lp: "loads_pure L" using s by (simp_all add: dummy_sim_def)
  have "fst (L q (snd (L ?p (mem_st s)))) = fst (L q (mem_st s))" for q using lp by (simp add: loads_pure_def)
  then have c: "code_of L m = sp_code a" "sp_code a ?p = r"
    using e [symmetric] by (simp_all add: code_of_def fun_eq_iff r)
  have ld: "load_instr E (ucast ?p) t = (r, t\<lparr>mem_st := m\<rparr>)" if "mem_st t = mem_st s" for t
    using s r that by (simp add: dummy_sim_def instr_mem_def)
  show ?thesis
  proof (cases r)
    case (Inr w)
    obtain op i l where d: "dec cfg w = (op, i, l)" by (cases "dec cfg w")
    show ?thesis
      using s c d Inr ld
      by (simp add: Dummy_fdd_global_def fetch_decode_def dbb_fetch_def monad_simps p dbb_decode_dec Dummy_fetched_def spec_fetch_def
          dummy_sim_def dummy_at_def)
  next
    case (Inl x)
    then have "fst (L ?p (mem_st s)) = Inl x" using r by simp
    then obtain rs v where x: "x = SimulationTrap rs v" using lp unfolding loads_pure_def by blast
    show ?thesis
      using s c x Inl ld
      by (simp add: Dummy_fdd_global_def fetch_decode_def dbb_fetch_def monad_simps p Dummy_fetched_def spec_fetch_def
          dummy_sim_def dummy_at_def)
  qed
qed

interpretation dummy: monitored_simulation "Dummy_step E" "spec_step L cfg opm" "usage_step L"
  "allowed L cfg opm timed" "dummy_sim E L cfg opm" for E L cfg opm timed
proof
  fix x :: "'a iss \<times> OpId" and a u c
  assume s: "dummy_sim E L cfg opm x (a, u)" and al: "allowed L cfg opm timed c a u"
  obtain s cop where x: "x = (s, cop)" by (cases x)
  note D = allowed_def spec_step_def usage_step_def Let_def dummy_sim_def dummy_at_def
    branch_taken_def jump_and_link_def jump_dyn_def jump_dyn_and_link_def enter_trap_def ret_trap_def
  have f: "fst (Dummy_fetched (Dummy_fdd_global E s) cop) = fst (spec_fetch cfg opm a) \<and>
    dummy_sim E L cfg opm (snd (Dummy_fetched (Dummy_fdd_global E s) cop)) (snd (spec_fetch cfg opm a), usage_fetch a u)"
    if "\<not> is_fault (sp_phase a)"
    by (rule dummy_fetch [OF s [unfolded x] that])
  have "fst (Dummy_step E c x) = fst (spec_step L cfg opm c a) \<and>
    dummy_sim E L cfg opm (snd (Dummy_step E c x)) (snd (spec_step L cfg opm c a), usage_step L c a u)"
  proof (cases "is_fetch c")
    case True
    then show ?thesis using f al unfolding x by (cases c) (simp_all add: allowed_def spec_step_def usage_step_def Let_def)
  next
    case False
    then show ?thesis
      using s al unfolding x by (cases c; cases "sp_phase a") (simp_all add: D)
  qed
  then show "fst (Dummy_step E c x) = fst (spec_step L cfg opm c a)"
    "dummy_sim E L cfg opm (snd (Dummy_step E c x)) (snd (spec_step L cfg opm c a), usage_step L c a u)" by blast+
qed

section \<open>An example\<close>

lemma map_load_pure: "loads_pure map_load"
  by (auto simp: loads_pure_def map_load_def split: option.splits)

lemma code_of_map_load:
  "code_of map_load m p = (case m p of None \<Rightarrow> Inl (SimulationTrap EXC_INSTR_ACCESS_FAULT (ucast p)) | Some w \<Rightarrow> Inr w)"
  by (simp add: code_of_def map_load_def)

text \<open>Eight compressed no-operations, and the same with \<^verbatim>\<open>C.LI a0, 1\<close> at address 0; the extensions are I and C.\<close>

definition demo_prog :: "u32 \<Rightarrow> u32 option" where
  "demo_prog p = (if p < 0x20 then Some 1 else None)"

definition demo_patched :: "u32 \<Rightarrow> u32 option" where
  "demo_patched p = (if p = 0 then Some 0x4505 else demo_prog p)"

definition demo_calls :: "(u32 \<Rightarrow> u32 option) fetch_call list" where
  "demo_calls = [Fetch_global, Fetch_fast, Get_last_pc, Jump_dyn 0, Fetch_fast, Fetch_fast, Get_cycles,
     Write_code demo_patched, Fence_i, Fetch_fast, Jump_dyn 0x40, Fetch_global, Get_last_pc_exception_safe,
     Enter_trap 0x10, Fetch_fast, Ret_trap 0, Fetch_fast]"

lemma demo_dec: "is_compressed 1" "is_compressed 0x4505" "dec 0x104 1 = (ADD_NOP, 0x33, 2)" "dec 0x104 0x4505 = (ADDI, 0x100513, 2)"
proof -
  show c: "is_compressed 1" "is_compressed 0x4505" by (simp_all add: is_compressed_def quadrant_def)
  have "decode_and_expand_compressed RV32 0x104 1 = Inr (ADD_NOP, 0x33)"
    "decode_and_expand_compressed RV32 0x104 0x4505 = Inr (ADDI, 0x100513)" by code_simp+
  then show "dec 0x104 1 = (ADD_NOP, 0x33, 2)" "dec 0x104 0x4505 = (ADDI, 0x100513, 2)" using c by (simp_all add: dec_def)
qed

lemma demo_misa: "get_misa_extensions 0x104 \<noteq> 0"
  by (simp add: get_misa_extensions_def misa_extensions_mask_def)

lemma demo_grows:
  "opm ADD_NOP = opm ADDI \<or> \<not> t \<Longrightarrow> grows 0x104 opm t (code_of map_load demo_prog) (code_of map_load demo_patched)"
  by (auto simp: grows_def code_of_map_load demo_prog_def demo_patched_def same_shape_def demo_dec split: if_splits)

lemma demo_allowed: "all_allowed map_load 0x104 (\<lambda>_. 10) True demo_calls (spec_init map_load 0 demo_prog) (usage_init 0)"
  by (simp add: all_allowed_def demo_calls_def allowed_def spec_step_def usage_step_def spec_init_def usage_init_def
      usage_goto_def usage_fetch_def spec_fetch_def fails_def may_goto_def pc_is_valid_def Let_def code_of_map_load demo_prog_def demo_patched_def
      demo_dec demo_grows)

section \<open>The cache is transparent, on whole runs\<close>

text \<open>
  C12. The block cache is transparent. For every list of calls the hart may make (fetches on the fast and on the global path,
  branches, jumps, traps, fences, enabling and disabling the cache, forcing the slow path, and changes of the code in
  between), \<^verbatim>\<open>DBBCache_T\<close> answers every call (operation and expanded instruction, link addresses, program counters,
  cycle counts, instruction words, fetch traps) exactly as a unit that fetches and decodes every instruction anew. The calls have to be allowed: a changed instruction
  is executed only after a fence, a change keeps the lengths of instructions and what could be fetched, a straight-line run has less than 65536
  instructions, there are less than 2^32 fences, control does not return to the start of the current run before a fetch in it or between a fence in it and the next
  transfer elsewhere, and \<^verbatim>\<open>get_last_pc_exception_safe\<close> is not used between a failed fetch and the return from its trap.
\<close>

theorem dbbcache_transparent:
  assumes "loads_pure L" and "timed \<Longrightarrow> \<forall>op. opm op \<le> 65536" and "get_misa_extensions cfg \<noteq> 0" and "pc_is_valid entrypoint"
    and "all_allowed L cfg opm timed cs (spec_init L entrypoint m) (usage_init entrypoint)"
  shows "fst (run_outs (DBB_step L) cs (DBB_init ena cfg opm entrypoint (DBB_fresh m), cop)) =
    fst (run_outs (spec_step L cfg opm) cs (spec_init L entrypoint m))"
  using run_related [OF assms] by blast

theorem dbbcache_transparent_witness:
  "loads_pure map_load \<and> all_allowed map_load 0x104 (\<lambda>_. 10) True demo_calls (spec_init map_load 0 demo_prog) (usage_init 0) \<and>
   fst (run_outs (DBB_step map_load) demo_calls (DBB_init True 0x104 (\<lambda>_. 10) 0 (DBB_fresh demo_prog), 0)) =
   fst (run_outs (spec_step map_load 0x104 (\<lambda>_. 10)) demo_calls (spec_init map_load 0 demo_prog))"
  using dbbcache_transparent [of map_load True "\<lambda>_. 10" "0x104" 0 demo_calls demo_prog True 0]
  by (simp add: map_load_pure demo_allowed demo_misa pc_is_valid_def)

text \<open>
  C13. The two fetch/decode units of \<^verbatim>\<open>dbbcache.h\<close> are interchangeable: on every allowed list of calls \<^verbatim>\<open>DBBCache_T\<close> and
  \<^verbatim>\<open>DBBCacheDummy_T\<close>, the latter inside a hart whose instruction memory is the same, give the same answers.
\<close>

theorem dbbcache_equals_dummy:
  assumes "loads_pure L" and "instr_mem E L" and "timed \<Longrightarrow> \<forall>op. opm op \<le> 65536" and "get_misa_extensions cfg \<noteq> 0" and "pc_is_valid entrypoint"
    and "all_allowed L cfg opm timed cs (spec_init L entrypoint m) (usage_init entrypoint)"
  shows "fst (run_outs (DBB_step L) cs (DBB_init ena cfg opm entrypoint (DBB_fresh m), cop)) =
    fst (run_outs (Dummy_step E) cs (iss_init entrypoint sp (ISS_CT cfg hart_id opm m), cop))"
proof -
  have "dummy_sim E L cfg opm (iss_init entrypoint sp (ISS_CT cfg hart_id opm m), cop) (spec_init L entrypoint m, usage_init entrypoint)"
    using assms(1,2) by (simp add: dummy_sim_def iss_init_def ISS_CT_def spec_init_def dummy_at_def dbbcache_init_def)
  from dummy.run_simulates [OF this assms(6) [unfolded all_allowed_def]] run_related [OF assms(1,3-6), of ena cop]
  show ?thesis by simp
qed

theorem dbbcache_equals_dummy_witness:
  "\<forall>E. let E' = E\<lparr>load_instr := \<lambda>p s. case map_load (ucast p) (mem_st s) of (r, m) \<Rightarrow> (r, s\<lparr>mem_st := m\<rparr>)\<rparr> in
     instr_mem E' map_load \<and>
     fst (run_outs (DBB_step map_load) demo_calls (DBB_init True 0x104 (\<lambda>_. 10) 0 (DBB_fresh demo_prog), 0)) =
     fst (run_outs (Dummy_step E') demo_calls (iss_init 0 0 (ISS_CT 0x104 0 (\<lambda>_. 10) demo_prog), 0))"
proof
  fix E :: "(u32 \<Rightarrow> u32 option) iss_env"
  let ?E = "E\<lparr>load_instr := \<lambda>p s. case map_load (ucast p) (mem_st s) of (r, m) \<Rightarrow> (r, s\<lparr>mem_st := m\<rparr>)\<rparr>"
  have "ucast (ucast p :: u64) = p" for p :: u32 by (rule bit_word_eqI) (simp add: bit_ucast_iff)
  then have m: "instr_mem ?E map_load" by (simp add: instr_mem_def)
  then show "let E' = ?E in instr_mem E' map_load \<and>
     fst (run_outs (DBB_step map_load) demo_calls (DBB_init True 0x104 (\<lambda>_. 10) 0 (DBB_fresh demo_prog), 0)) =
     fst (run_outs (Dummy_step E') demo_calls (iss_init 0 0 (ISS_CT 0x104 0 (\<lambda>_. 10) demo_prog), 0))"
    using dbbcache_equals_dummy [OF map_load_pure m, of True "\<lambda>_. 10" "0x104" 0 demo_calls demo_prog True 0 0 0]
    by (simp add: demo_allowed demo_misa pc_is_valid_def)
qed

lemma block_check_ok:
  assumes "block_ok cfg opm timed code blks nxt B"
  shows "block_check B"
proof -
  note S = block_shapeD [OF assms]
  have e: "entry_check (ent B i)" if "i < b_len B" for i
    using S(10) [OF that] dec_len [of cfg "e_mem_word (ent B i)"]
    by (auto simp: entry_ok_def entry_check_def split: prod.splits if_splits)
  have "fold (\<lambda>i ok. entry_check (ent B i)) xs b" if "b" "\<forall>i\<in>set xs. i < b_len B" for xs b
    using that
  proof (induction xs arbitrary: b)
    case (Cons x xs)
    then show ?case using e [of x] by simp
  qed simp
  then show ?thesis using S(8) by (simp add: block_check_def Let_def is_terminal_def)
qed

lemma sim_position:
  assumes s: "sim L cfg opm timed (s, cop) (a, u)"
  shows "-1 \<le> snd (DBB_lastEntry s)" "snd (DBB_lastEntry s) + 1 < int (length (b_entries (d_blocks s (fst (DBB_lastEntry s)))))"
proof -
  have p: "DBB_lastEntry s = (d_curBlock s, pos s)" by (rule sim_last [OF s])
  have "-1 \<le> pos s \<and> pos s + 1 < int (length (b_entries (d_blocks s (d_curBlock s))))"
  proof (cases "d_curBlock s = dummyBlock")
    case True
    then show ?thesis
      using simD(5) [OF s] dummy_okD(1) [OF simD(1) [OF s]] by (cases "sp_phase a") (auto simp: at_pos_def)
  next
    case False
    have h: "heap_pos s a u" using simD(4) [OF s False] .
    then obtain n where "n < d_next_block s" "d_curBlock s = Heap_block n" by (auto simp: heap_pos_def valid_ref_def)
    then show ?thesis using h block_shapeD(2) [OF sim_block_ok [OF s]] by (fastforce simp: heap_pos_def curB_def)
  qed
  then show "-1 \<le> snd (DBB_lastEntry s)" "snd (DBB_lastEntry s) + 1 < int (length (b_entries (d_blocks s (fst (DBB_lastEntry s)))))"
    by (simp_all add: p)
qed

lemma sim_check_fastEntry:
  assumes s: "sim L cfg opm timed (s, cop) (a, u)"
  shows "DBB_check_fastEntry s"
proof (cases "DBB_in_fast_path s")
  case True
  have h: "d_curBlock s \<noteq> dummyBlock" using True simD(3) [OF s] by (auto simp: dummy_pos_def)
  have fe: "d_fastEntry s = (d_curBlock s, pos s)"
    using True simD(2) [OF s] by (simp add: pos_def DBB_lastEntry_def prod_eq_iff)
  show ?thesis
  proof (cases "0 \<le> pos s")
    case p: True
    have "uint (e_idx (entry_at (d_blocks s (d_curBlock s)) (pos s))) = pos s"
      using heap_entry [OF s h p] by (metis curB_def)
    then show ?thesis using p True fe by (simp add: DBB_check_fastEntry_def DBB_entry_def)
  next
    case False
    then have p: "pos s = -1" using sim_position(1) [OF s] sim_last [OF s] by simp
    obtain n where n: "n < d_next_block s" "d_curBlock s = Heap_block n"
      using simD(4) [OF s h] by (auto simp: heap_pos_def valid_ref_def)
    have "e_idx (entry_at (d_blocks s (d_curBlock s)) 0) = 0"
      using block_shapeD(7) [OF sim_block_ok [OF s n(1)], of 0] n by simp
    then show ?thesis using True fe p by (simp add: DBB_check_fastEntry_def next_entry_def DBB_entry_def)
  qed
qed (simp add: DBB_check_fastEntry_def)

text \<open>
  C14. The consistency checks of the source hold after every allowed list of calls: \<^verbatim>\<open>Block::check\<close> for every block and
  \<^verbatim>\<open>check_fastEntry\<close>; and the entry after the position of the unit, the one that the next fetch on the fast path reads and whose cycle count the
  accessors read, lies inside the memory allocated for the entries of its block. The position itself is an entry of that
  memory or -1, the place before the first entry where a switch to a block leaves it; it is never further before the array.
\<close>

theorem dbbcache_checks_hold:
  assumes "loads_pure L" and "get_misa_extensions cfg \<noteq> 0" and "pc_is_valid entrypoint"
    and "all_allowed L cfg opm False cs (spec_init L entrypoint m) (usage_init entrypoint)"
    and "run_outs (DBB_step L) cs (DBB_init ena cfg opm entrypoint (DBB_fresh m), cop) = (outs, s, cop')"
  shows "(\<forall>n<d_next_block s. block_check (d_blocks s (Heap_block n))) \<and> DBB_check_fastEntry s \<and>
    -1 \<le> snd (DBB_lastEntry s) \<and>
    snd (DBB_lastEntry s) + 1 < int (length (b_entries (d_blocks s (fst (DBB_lastEntry s)))))"
proof -
  obtain a u where s: "sim L cfg opm False (s, cop') (a, u)"
    using run_related [OF assms(1) _ assms(2-4), of ena cop] assms(5) by auto
  show ?thesis
    using block_check_ok [OF sim_block_ok [OF s]] sim_check_fastEntry [OF s] sim_position [OF s] by simp
qed

theorem dbbcache_checks_hold_witness:
  "\<exists>outs s cop. run_outs (DBB_step map_load) [Fetch_global, Fetch_fast] (DBB_init True 0x104 (\<lambda>_. 10) 0 (DBB_fresh demo_prog), 0) = (outs, s, cop) \<and>
     (\<forall>n<d_next_block s. block_check (d_blocks s (Heap_block n))) \<and> DBB_check_fastEntry s"
proof -
  obtain outs s cop where r: "run_outs (DBB_step map_load) [Fetch_global, Fetch_fast]
      (DBB_init True 0x104 (\<lambda>_. 10) 0 (DBB_fresh demo_prog), 0) = (outs, s, cop)"
    by (metis prod_cases3)
  have "all_allowed map_load 0x104 (\<lambda>_. 10) False [Fetch_global, Fetch_fast] (spec_init map_load 0 demo_prog) (usage_init 0)"
    by (simp add: all_allowed_def allowed_def spec_step_def usage_step_def spec_init_def usage_init_def
        usage_fetch_def spec_fetch_def fails_def Let_def code_of_map_load demo_prog_def demo_dec)
  from dbbcache_checks_hold [OF map_load_pure _ _ this r] r show ?thesis by (auto simp: demo_misa pc_is_valid_def)
qed

section \<open>A block that is still being built\<close>

definition building :: "u32 \<Rightarrow> nat \<Rightarrow> OpId \<Rightarrow> u32 \<Rightarrow> 'm dbbc \<Rightarrow> bool" where
  "building e k op0 i0 s \<longleftrightarrow> \<not> DBB_in_fast_path s \<and> \<not> d_slow_path s \<and> d_enabled s \<and> d_curBlock s \<noteq> dummyBlock \<and>
     d_blockmap s (ucast e) = Some (d_curBlock s) \<and> lc_find e (b_jumpDynLinkCache (curB s)) = None \<and>
     b_len (curB s) = k \<and> d_curEntryIdx s = int k - 1 \<and>
     (0 < k \<longrightarrow> e_op (ent (curB s) 0) = Some op0 \<and> e_instr (ent (curB s) 0) = i0)"

lemma lc_search_reset: "pc_is_valid p \<Longrightarrow> lc_search p (map (\<lambda>_. INVALID_PC) ps) bs = None"
proof (induction ps arbitrary: bs)
  case (Cons x ps)
  then show ?case by (cases bs) auto
qed simp

lemma lc_find_reset: "pc_is_valid p \<Longrightarrow> lc_find p (lc_reset c) = None"
  by (simp add: lc_find_def lc_reset_def lc_search_reset)

lemma init_building:
  assumes "pc_is_valid e"
  shows "building e 0 op0 i0 (DBB_init True cfg opm e (DBB_fresh m))"
  using assms
  by (simp add: building_def DBB_init_def Let_def DBB_fresh_def DBB_put_block_def DBB_put_entry_def DBB_fast_path_raw_disable_def
      DBB_find_create_switch_block_def DBB_switch_block_def DBB_in_fast_path_def curB_def lc_find_reset)

lemma miss_eq:
  assumes s: "sim L cfg opm timed (s, cop) (a, u)" and nf: "\<not> is_fault (sp_phase a)"
    and f: "\<not> DBB_in_fast_path s" and h: "d_curBlock s \<noteq> dummyBlock" and k: "d_curEntryIdx s = int (b_len (curB s)) - 1"
    and w: "sp_code a (next_pc (sp_phase a)) = Inr w" and d: "dec cfg w = (op, i, l)"
  shows "\<exists>m' p'. DBB_fdd_global L s = (Inr (Some op), s\<lparr>d_exception := False, d_imem := m', d_instr := i, d_pc := p',
    d_blocks := (d_blocks s)(d_curBlock s := block_append (next_pc (sp_phase a)) w (op, i, l) (ucast (opm op)) (curB s)),
    d_curEntryIdx := int (b_len (curB s))\<rparr>)"
proof (rule heap_next [OF s nf h])
  fix n j
  assume A: "d_curBlock s = Heap_block n" "block_ok cfg opm timed (sp_code a) (d_blocks s) (d_next_block s) (curB s)"
  let ?p = "next_pc (sp_phase a)" and ?B = "curB s"
  let ?F = "s\<lparr>d_pc := ?p\<rparr>"
  note S = block_shapeD [OF A(2)]
  have E: "ent (block_append ?p w (op, i, l) (ucast (opm op)) ?B) (b_len ?B) =
    (ent ?B (b_len ?B))\<lparr>e_link := None, e_op := Some op, e_pc := ?p, e_mem_word := w, e_instr := i, e_inc := ucast l, e_idx := of_nat (b_len ?B)\<rparr>"
    using ent_block_append [of ?B ?p w op i l "ucast (opm op)" "b_len ?B"] S(1,2) by simp
  have g: "DBB_fdd_global L s = DBB_fetch_decode_slow L ?F"
    using get_pc_sim [OF s nf] f by (simp add: DBB_fdd_global_def seqM_simp modifyM_simp DBB_fetch_decode_def DBB_in_fast_path_def)
  have add: "DBB_fetch_decode_add_entry L ?F = (Inr (Heap_block n, int (b_len ?B)), ?F\<lparr>d_exception := False, d_imem := snd (L ?p (d_imem s)),
       d_instr := i, d_pc := ?p + l, d_blocks := (d_blocks s)(Heap_block n := block_append ?p w (op, i, l) (ucast (opm op)) ?B)\<rparr>)"
    using add_entry_ok [of ?F "Heap_block n" ?B ?p L w op i l] A(1) S(1,2) w d baseD(2,3,5) [OF simD(1) [OF s]]
    by (simp add: curB_def)
  show ?thesis unfolding g
    by (rule exI [of _ "snd (L ?p (d_imem s))"], rule exI [of _ "?p + l"])
      (use k add E A(1) in \<open>simp add: DBB_fetch_decode_slow_def monad_simps curB_def DBB_entry_def\<close>)
qed

lemma miss_building:
  assumes s: "sim L cfg opm timed (s, cop) (a, u)" and b: "building e k op0 i0 s"
    and al: "allowed L cfg opm timed Fetch_global a u"
    and w: "sp_code a (next_pc (sp_phase a)) = Inr w" and d: "dec cfg w = (op, i, l)" and z: "k = 0 \<Longrightarrow> op0 = op \<and> i0 = i"
  shows "building e (Suc k) op0 i0 (fst (snd (DBB_step L Fetch_global (s, cop))))"
proof -
  have nf: "\<not> is_fault (sp_phase a)" using al by (simp add: allowed_def Let_def)
  have P: "\<not> DBB_in_fast_path s" "d_curBlock s \<noteq> dummyBlock" "d_curEntryIdx s = int (b_len (curB s)) - 1" "b_len (curB s) = k"
    using b by (simp_all add: building_def)
  let ?B = "block_append (next_pc (sp_phase a)) w (op, i, l) (ucast (opm op)) (curB s)"
  obtain n where n: "n < d_next_block s" "d_curBlock s = Heap_block n"
    using simD(4) [OF s P(2)] by (auto simp: heap_pos_def valid_ref_def)
  have S: "b_alloc_len (curB s) = length (b_entries (curB s))" "b_len (curB s) < b_alloc_len (curB s)"
    using block_shapeD(1,2) [OF sim_block_ok [OF s n(1)]] n(2) by (simp_all add: curB_def)
  obtain m' p' where r: "DBB_fdd_global L s = (Inr (Some op), s\<lparr>d_exception := False, d_imem := m', d_instr := i, d_pc := p',
    d_blocks := (d_blocks s)(d_curBlock s := ?B), d_curEntryIdx := int (b_len (curB s))\<rparr>)"
    using miss_eq [OF s nf P(1,2,3) w d] by blast
  have "e_op (ent ?B 0) = Some op0 \<and> e_instr (ent ?B 0) = i0"
    using ent_block_append [OF S, of "next_pc (sp_phase a)" w op i l "ucast (opm op)" 0] b z P(4) by (auto simp: building_def)
  then show ?thesis
    using b by (simp add: r fetched_def building_def DBB_in_fast_path_def) (simp add: curB_def)
qed

lemma building_loop:
  assumes b: "building e k op0 i0 s" and k: "0 < k"
  shows "fst (DBB_step L Fetch_fast (DBB_jump_dyn e (s\<lparr>d_coherence_cnt := c\<rparr>), cop)) = Out_op (Some op0) i0"
proof -
  let ?s = "s\<lparr>d_coherence_cnt := c\<rparr>" and ?b = "d_curBlock s"
  have "DBB_find_create_switch_block e ?s = DBB_switch_block ?b ?s"
    using b by (simp add: building_def DBB_find_create_switch_block_def)
  moreover have "DBB_switch_block ?b ?s = ?s\<lparr>d_cycle_counter_raw := DBB_get_cycle_counter_raw ?s, d_fastEntry := (?b, -1)\<rparr>"
    using b by (simp add: building_def DBB_switch_block_def Let_def DBB_fast_path_raw_enable_def cycle_counter_last)
  ultimately have "\<exists>x y. DBB_jump_dyn e ?s = ?s\<lparr>d_cycle_counter_raw := x, d_fastEntry := (?b, -1),
      d_blocks := (d_blocks s)(?b := (curB s)\<lparr>b_jumpDynLinkCache := y\<rparr>)\<rparr>"
    using b by (auto simp: building_def DBB_jump_dyn_def Let_def DBB_put_block_def curB_def intro!: exI)
  then obtain x y where j: "DBB_jump_dyn e ?s = ?s\<lparr>d_cycle_counter_raw := x, d_fastEntry := (?b, -1),
      d_blocks := (d_blocks s)(?b := (curB s)\<lparr>b_jumpDynLinkCache := y\<rparr>)\<rparr>" by blast
  show ?thesis
    using b k unfolding DBB_step.simps j
    by (simp add: DBB_fdd_fast_def DBB_fetch_decode_fast_def Let_def next_entry_def DBB_entry_def fetched_def building_def)
qed

lemma run_outs_Cons: "fst (run_outs f (c # cs) s) = fst (f c s) # fst (run_outs f cs (snd (f c s)))"
  by (simp split: prod.splits)

lemma building_frame:
  "building e k op0 i0 (s\<lparr>d_imem := m\<rparr>) = building e k op0 i0 s"
  "building e k op0 i0 (s\<lparr>d_coherence_cnt := c\<rparr>) = building e k op0 i0 s"
  by (simp_all add: building_def DBB_in_fast_path_def curB_def)

lemma building_fence: "building e k op0 i0 s \<Longrightarrow> DBB_fence_i p s = s\<lparr>d_coherence_cnt := d_coherence_cnt s + 1\<rparr>"
  by (simp add: building_def DBB_fence_i_def DBB_coherence_update_def Let_def DBB_in_fast_path_def)

text \<open>The calls of a program that changes its own first instruction, executes \<^verbatim>\<open>FENCE.I\<close> and jumps back.\<close>

definition self_patch_calls :: "u32 \<Rightarrow> 'm \<Rightarrow> 'm fetch_call list" where
  "self_patch_calls e m' = [Fetch_global, Write_code m', Fetch_global, Fence_i, Fetch_global, Jump_dyn e, Fetch_fast]"

text \<open>
  C32. Where the cache is not transparent: a program that changes the first instruction of the block it is in, executes
  \<^verbatim>\<open>FENCE.I\<close> and jumps back to that instruction executes the old instruction, because \<^verbatim>\<open>switch_block\<close> takes a block that is left for
  itself to be coherent; the unit without a cache executes the new one.
\<close>

theorem dbbcache_stale_after_fence_i:
  assumes "loads_pure L" and "get_misa_extensions cfg \<noteq> 0" and "pc_is_valid e"
    and m: "code_of L m e = Inr w0" "code_of L m (e + l0) = Inr w1" "code_of L m (e + l0 + l1) = Inr w2"
    and m': "code_of L m' e = Inr w0'" "code_of L m' (e + l0) = Inr w1" "code_of L m' (e + l0 + l1) = Inr w2"
    and g: "grows cfg opm False (code_of L m) (code_of L m')"
    and d: "dec cfg w0 = (opc, i0, l0)" "dec cfg w1 = (opc', i1, l1)" "dec cfg w0' = (opc'', i0', l0)"
  shows "last (fst (run_outs (DBB_step L) (self_patch_calls e m') (DBB_init True cfg opm e (DBB_fresh m), cop))) = Out_op (Some opc) i0 \<and>
    last (fst (run_outs (spec_step L cfg opm) (self_patch_calls e m') (spec_init L e m))) = Out_op (Some opc'') i0'"
proof -
  obtain op2 i2 l2 where d2: "dec cfg w2 = (op2, i2, l2)" by (cases "dec cfg w2")
  let ?st = "\<lambda>c x. snd (DBB_step L c x)"
  define x0 where "x0 = (DBB_init True cfg opm e (DBB_fresh m), cop)"
  define x1 where "x1 = ?st Fetch_global x0"
  define x2 where "x2 = ?st (Write_code m') x1"
  define x3 where "x3 = ?st Fetch_global x2"
  define x4 where "x4 = ?st Fence_i x3"
  define x5 where "x5 = ?st Fetch_global x4"
  let ?a = "\<lambda>ph n c. \<lparr>sp_code = c, sp_phase = ph, sp_cycles = n\<rparr>"
  define a0 where "a0 = spec_init L e m"
  define a1 where "a1 = ?a (Done e w0 opc i0 l0) (opm opc) (code_of L m)"
  define a2 where "a2 = ?a (Done e w0 opc i0 l0) (opm opc) (code_of L m')"
  define a3 where "a3 = ?a (Done (e + l0) w1 opc' i1 l1) (opm opc + opm opc') (code_of L m')"
  define u0 where "u0 = usage_init e"
  define u1 where "u1 = usage_step L Fetch_global a0 u0"
  define u2 where "u2 = usage_step L (Write_code m') a1 u1"
  define u3 where "u3 = usage_step L Fetch_global a2 u2"
  define u4 where "u4 = usage_step L Fence_i a3 u3"
  have st: "snd (spec_step L cfg opm Fetch_global a0) = a1" "snd (spec_step L cfg opm (Write_code m') a1) = a2"
    "snd (spec_step L cfg opm Fetch_global a2) = a3" "snd (spec_step L cfg opm Fence_i a3) = a3"
    using m m' d by (simp_all add: spec_step_def spec_fetch_def a0_def spec_init_def a1_def a2_def a3_def)
  have al: "allowed L cfg opm False Fetch_global a0 u0" "allowed L cfg opm False (Write_code m') a1 u1"
    "allowed L cfg opm False Fetch_global a2 u2" "allowed L cfg opm False Fence_i a3 u3" "allowed L cfg opm False Fetch_global a3 u4"
    using m m' d g
    by (simp_all add: allowed_def Let_def a0_def a1_def a2_def a3_def u0_def u1_def u2_def u3_def u4_def spec_init_def usage_init_def
        usage_step_def usage_fetch_def fails_def)
  have sim0: "sim L cfg opm False x0 (a0, u0)"
    unfolding x0_def a0_def u0_def by (rule init_sim) (use assms(1-3) in \<open>simp_all add: hyps_iff\<close>)
  note rel = dbb.related [of L cfg opm False]
  have sim1: "sim L cfg opm False x1 (a1, u1)" using rel [OF sim0 al(1)] by (simp add: st x1_def u1_def)
  have sim2: "sim L cfg opm False x2 (a2, u2)" using rel [OF sim1 al(2)] by (simp add: st x2_def u2_def)
  have sim3: "sim L cfg opm False x3 (a3, u3)" using rel [OF sim2 al(3)] by (simp add: st x3_def u3_def)
  have sim4: "sim L cfg opm False x4 (a3, u4)" using rel [OF sim3 al(4)] by (simp add: st x4_def u4_def)
  have b0: "building e 0 opc i0 (fst x0)" unfolding x0_def by (simp add: init_building assms(3))
  have b1: "building e 1 opc i0 (fst x1)"
    using miss_building [of L cfg opm False "fst x0" "snd x0" a0 u0 e 0 opc i0 w0 opc i0 l0] sim0 b0 al(1) m d
    by (simp add: x1_def a0_def spec_init_def)
  have b2: "building e 1 opc i0 (fst x2)" using b1 by (cases x1) (simp add: x2_def building_frame)
  have b3: "building e 2 opc i0 (fst x3)"
    using miss_building [of L cfg opm False "fst x2" "snd x2" a2 u2 e 1 opc i0 w1 opc' i1 l1] sim2 b2 al(3) m' d
    by (simp add: x3_def a2_def numeral_2_eq_2)
  have b4: "building e 2 opc i0 (fst x4)" using b3 building_fence [OF b3] by (cases x3) (simp add: x4_def building_frame)
  have b5: "building e 3 opc i0 (fst x5)"
    using miss_building [of L cfg opm False "fst x4" "snd x4" a3 u4 e 2 opc i0 w2 op2 i2 l2] sim4 b4 al(5) m' d2
    by (simp add: x5_def a3_def numeral_3_eq_3)
  obtain s5 c5 where s5: "x5 = (s5, c5)" by (cases x5)
  have "fst (DBB_step L Fetch_fast (DBB_jump_dyn e s5, c5)) = Out_op (Some opc) i0"
    using building_loop [of e 3 opc i0 s5 L "d_coherence_cnt s5" c5] b5 s5 by simp
  moreover have "last (fst (run_outs (DBB_step L) (self_patch_calls e m') x0)) = fst (DBB_step L Fetch_fast (?st (Jump_dyn e) x5))"
    by (simp add: self_patch_calls_def run_outs_Cons x5_def x4_def x3_def x2_def x1_def del: run_outs.simps(2) DBB_step.simps)
  moreover have "last (fst (run_outs (spec_step L cfg opm) (self_patch_calls e m') (spec_init L e m))) = Out_op (Some opc'') i0'"
    using m m' d d2 by (simp add: self_patch_calls_def run_outs_Cons spec_step_def spec_fetch_def spec_init_def del: run_outs.simps(2))
  ultimately show ?thesis by (simp add: s5 x0_def)
qed

theorem dbbcache_stale_after_fence_i_witness:
  "last (fst (run_outs (DBB_step map_load) (self_patch_calls 0 demo_patched) (DBB_init True 0x104 (\<lambda>_. 10) 0 (DBB_fresh demo_prog), 0))) =
     Out_op (Some ADD_NOP) 0x33 \<and>
   last (fst (run_outs (spec_step map_load 0x104 (\<lambda>_. 10)) (self_patch_calls 0 demo_patched) (spec_init map_load 0 demo_prog))) =
     Out_op (Some ADDI) 0x100513"
  using dbbcache_stale_after_fence_i [of map_load "0x104" 0 demo_prog 1 2 1 2 1 demo_patched "0x4505" "\<lambda>_. 10"
      ADD_NOP "0x33" ADD_NOP "0x33" ADDI "0x100513" 0]
  by (simp add: map_load_pure demo_dec demo_grows demo_misa pc_is_valid_def code_of_map_load demo_prog_def demo_patched_def)

section \<open>The exception flag\<close>

text \<open>The handler at \<open>t\<close> is cached: its block has entries and is coherent, and the trap cache knows it.\<close>

definition handler_cached :: "u32 \<Rightarrow> bref \<Rightarrow> 'm dbbc \<Rightarrow> bool" where
  "handler_cached t b s \<longleftrightarrow> lc_find t (d_trapLinkCache s) = Some b \<and> \<not> d_slow_path s \<and>
     (\<exists>n<d_next_block s. b = Heap_block n) \<and>
     0 < b_len (d_blocks s b) \<and> b_coherence_cnt (d_blocks s b) = d_coherence_cnt s"

lemma cached_handler_pc:
  assumes s: "sim L cfg opm timed (s, cop) (a, u)" and f: "sp_phase a = Fault f" and c: "handler_cached t b s"
    and o: "d_curBlock s \<noteq> b"
  shows "fst (DBB_step L Get_last_pc_exception_safe (snd (DBB_step L Fetch_fast (snd (DBB_step L (Enter_trap t) (s, cop)))))) = Out_word f"
proof -
  obtain n where n: "n < d_next_block s" "b = Heap_block n" using c by (auto simp: handler_cached_def)
  have x: "d_exception s" "e_pc (entry_at (d_blocks s dummyBlock) 0) = f" using simD(5) [OF s] by (simp_all add: f at_pos_def)
  have e: "DBB_enter_trap t s = s\<lparr>d_cycle_counter_raw := DBB_get_cycle_counter_raw s, d_curBlock := b, d_fastEntry := (b, -1)\<rparr>"
    using c o by (simp add: handler_cached_def DBB_enter_trap_def DBB_switch_block_def Let_def DBB_fast_path_raw_enable_def cycle_counter_last)
  obtain op where op: "e_op (entry_at (d_blocks s b) 0) = Some op"
    using block_shapeD(10) [OF sim_block_ok [OF s n(1)], of 0] c n by (auto simp: entry_ok_def handler_cached_def)
  show ?thesis
    using x op
    by (simp add: e DBB_fdd_fast_def DBB_fetch_decode_fast_def Let_def next_entry_def DBB_entry_def fetched_def
        DBB_get_last_pc_exception_safe_def)
qed

lemma lc_find_add:
  assumes "lc_curIdx c = 0" "lc_pc c \<noteq> []" "lc_block c \<noteq> []"
  shows "lc_find p (lc_add p b c) = Some b"
  using assms by (cases "lc_pc c"; cases "lc_block c") (auto simp: lc_find_def lc_add_def lc_set_def Let_def)

lemma init_fields:
  assumes "pc_is_valid e"
    and "s = DBB_init True cfg opm e (DBB_fresh m)"
  shows "d_trapLinkCache s = lc_reset (lc_new TRAPLINKCACHE_SIZE)" "d_blockmap s = [ucast e \<mapsto> Heap_block 0]"
    "d_next_block s = 1" "d_curBlock s = Heap_block 0" "d_coherence_cnt s = 0" "d_enabled s"
  using assms by (simp_all add: DBB_init_def Let_def DBB_fresh_def DBB_put_block_def DBB_put_entry_def DBB_fast_path_raw_disable_def
      DBB_find_create_switch_block_def DBB_switch_block_def)

lemma enter_trap_building:
  assumes s: "sim L cfg opm timed (s, cop) (a, u)" and t: "pc_is_valid t" "d_blockmap s (ucast t) = None" "d_enabled s"
    and c: "d_trapLinkCache s = lc_reset (lc_new TRAPLINKCACHE_SIZE)"
  defines "s' \<equiv> DBB_enter_trap t s"
  shows "building t 0 op i s'" "lc_find t (d_trapLinkCache s') = Some (d_curBlock s')" "d_curBlock s' = Heap_block (d_next_block s)"
    "d_blockmap s' = (d_blockmap s)(ucast t \<mapsto> Heap_block (d_next_block s))" "d_next_block s' = Suc (d_next_block s)"
    "b_coherence_cnt (curB s') = d_coherence_cnt s'" "pc_is_valid p \<Longrightarrow> lc_find p (b_jumpDynLinkCache (curB s')) = None"
proof -
  have nc: "d_curBlock s \<noteq> Heap_block (d_next_block s)" using sim_cur_live [OF s] by simp
  have "lc_find t (d_trapLinkCache s) = None" using c t by (simp add: lc_find_reset)
  then have e: "s' = (DBB_switch_block (Heap_block (d_next_block s)) (DBB_new_block t s))
      \<lparr>d_trapLinkCache := lc_add t (Heap_block (d_next_block s)) (d_trapLinkCache s)\<rparr>"
    using t by (simp add: s'_def DBB_enter_trap_def find_create_eq Let_def)
  have sw: "DBB_switch_block (Heap_block (d_next_block s)) (DBB_new_block t s) =
    (DBB_new_block t s)\<lparr>d_cycle_counter_raw := DBB_get_cycle_counter_raw (DBB_new_block t s), d_curBlock := Heap_block (d_next_block s),
      d_fastEntry := (fastDisableBlock, 0), d_curEntryIdx := -1, d_slow_path := False\<rparr>"
    using nc by (simp add: DBB_switch_block_def Let_def DBB_fast_path_raw_disable_def cycle_counter_last)
      (simp add: DBB_new_block_def Let_def)
  show "building t 0 op i s'" "d_curBlock s' = Heap_block (d_next_block s)"
    "d_blockmap s' = (d_blockmap s)(ucast t \<mapsto> Heap_block (d_next_block s))" "d_next_block s' = Suc (d_next_block s)"
    "b_coherence_cnt (curB s') = d_coherence_cnt s'" "pc_is_valid p \<Longrightarrow> lc_find p (b_jumpDynLinkCache (curB s')) = None"
    using t unfolding e sw
    by (simp_all add: building_def DBB_in_fast_path_def DBB_new_block_def Let_def curB_def lc_find_reset)
  show "lc_find t (d_trapLinkCache s') = Some (d_curBlock s')"
    unfolding e sw by (simp add: c lc_find_add lc_reset_def lc_new_def TRAPLINKCACHE_SIZE_def)
qed

lemma jump_new_block:
  assumes s: "sim L cfg opm timed (s, cop) (a, u)" and n: "d_blockmap s (ucast f) = None"
    and b: "lc_find f (b_jumpDynLinkCache (curB s)) = None" "d_enabled s" "d_curBlock s = b"
    and h: "handler_cached t b s"
  defines "s' \<equiv> DBB_jump_dyn f s"
  shows "handler_cached t b s'" "d_curBlock s' = Heap_block (d_next_block s)" "b_len (curB s') = 0" "\<not> DBB_in_fast_path s'"
    "d_curEntryIdx s' = -1" "b \<noteq> d_curBlock s'"
proof -
  have nc: "d_curBlock s \<noteq> Heap_block (d_next_block s)" using sim_cur_live [OF s] by simp
  have sw: "DBB_switch_block (Heap_block (d_next_block s)) (DBB_new_block f s) =
    (DBB_new_block f s)\<lparr>d_cycle_counter_raw := DBB_get_cycle_counter_raw (DBB_new_block f s), d_curBlock := Heap_block (d_next_block s),
      d_fastEntry := (fastDisableBlock, 0), d_curEntryIdx := -1, d_slow_path := False\<rparr>"
    using nc by (simp add: DBB_switch_block_def Let_def DBB_fast_path_raw_disable_def cycle_counter_last)
      (simp add: DBB_new_block_def Let_def)
  have e: "s' = DBB_put_block b (\<lambda>B. B\<lparr>b_jumpDynLinkCache := lc_add f (Heap_block (d_next_block s)) (b_jumpDynLinkCache B)\<rparr>)
      (DBB_switch_block (Heap_block (d_next_block s)) (DBB_new_block f s))"
    using b n by (simp add: s'_def DBB_jump_dyn_def find_create_eq Let_def curB_def)
  show "handler_cached t b s'" "d_curBlock s' = Heap_block (d_next_block s)" "b_len (curB s') = 0" "\<not> DBB_in_fast_path s'"
    "d_curEntryIdx s' = -1" "b \<noteq> d_curBlock s'"
    using nc b h unfolding e sw
    by (auto simp: handler_cached_def DBB_put_block_def DBB_new_block_def Let_def curB_def DBB_in_fast_path_def)
qed

lemma miss_handler:
  assumes s: "sim L cfg opm timed (s, cop) (a, u)" and b: "building t 0 opc i s"
    and al: "allowed L cfg opm timed Fetch_global a u" and w: "sp_code a (next_pc (sp_phase a)) = Inr w" and d: "dec cfg w = (opc, i, l)"
    and h: "lc_find t (d_trapLinkCache s) = Some (d_curBlock s)" "b_coherence_cnt (curB s) = d_coherence_cnt s" "d_blockmap s (ucast f) = None"
      "lc_find f (b_jumpDynLinkCache (curB s)) = None"
  defines "s' \<equiv> fst (snd (DBB_step L Fetch_global (s, cop)))"
  shows "handler_cached t (d_curBlock s) s'" "d_curBlock s' = d_curBlock s" "d_blockmap s' (ucast f) = None"
    "lc_find f (b_jumpDynLinkCache (curB s')) = None" "d_enabled s'" "d_next_block s' = d_next_block s"
proof -
  have nf: "\<not> is_fault (sp_phase a)" using al by (simp add: allowed_def Let_def)
  have P: "\<not> DBB_in_fast_path s" "d_curBlock s \<noteq> dummyBlock" "d_curEntryIdx s = int (b_len (curB s)) - 1" "b_len (curB s) = 0"
    using b by (simp_all add: building_def)
  obtain n where n: "n < d_next_block s" "d_curBlock s = Heap_block n"
    using simD(4) [OF s P(2)] by (auto simp: heap_pos_def valid_ref_def)
  obtain m' p' where r: "DBB_fdd_global L s = (Inr (Some opc), s\<lparr>d_exception := False, d_imem := m', d_instr := i, d_pc := p',
    d_blocks := (d_blocks s)(d_curBlock s := block_append (next_pc (sp_phase a)) w (opc, i, l) (ucast (opm opc)) (curB s)),
    d_curEntryIdx := int (b_len (curB s))\<rparr>)"
    using miss_eq [OF s nf P(1,2,3) w d] by blast
  show "handler_cached t (d_curBlock s) s'" "d_curBlock s' = d_curBlock s" "d_blockmap s' (ucast f) = None"
    "lc_find f (b_jumpDynLinkCache (curB s')) = None" "d_enabled s'" "d_next_block s' = d_next_block s"
    using b h n unfolding s'_def
    by (auto simp: r fetched_def handler_cached_def building_def curB_def)
qed

lemma fault_handler:
  assumes s: "sim L cfg opm timed (s, cop) (a, u)" and al: "allowed L cfg opm timed Fetch_global a u"
    and w: "sp_code a (next_pc (sp_phase a)) = Inl e"
    and b: "d_curBlock s = Heap_block n" "b_len (curB s) = 0" "\<not> DBB_in_fast_path s" "d_curEntryIdx s = -1"
    and h: "handler_cached t hb s" "hb \<noteq> d_curBlock s"
  defines "s' \<equiv> fst (snd (DBB_step L Fetch_global (s, cop)))"
  shows "handler_cached t hb s'" "d_curBlock s' \<noteq> hb"
proof -
  have nf: "\<not> is_fault (sp_phase a)" using al by (simp add: allowed_def Let_def)
  let ?p = "next_pc (sp_phase a)"
  obtain r v where e: "e = SimulationTrap r v" using trap_only [OF simD(1) [OF s] w] .
  let ?g = "\<lambda>B'. if 1 = b_alloc_len B' then block_grow B' else B'"
  let ?F = "s\<lparr>d_pc := ?p\<rparr>"
  have "DBB_fetch L ?p (DBB_put_block (Heap_block n) ?g ?F) = (Inl e, DBB_fetch_failed ?p ((DBB_put_block (Heap_block n) ?g ?F)
      \<lparr>d_exception := False, d_imem := snd (L ?p (d_imem s))\<rparr>))"
    using fetch_trap [of L "DBB_put_block (Heap_block n) ?g ?F" ?p r v] w e baseD(5) [OF simD(1) [OF s]] by (simp add: DBB_put_block_def)
  then have r: "DBB_fdd_global L s = (Inl e, DBB_fetch_failed ?p ((DBB_put_block (Heap_block n) ?g ?F)
      \<lparr>d_exception := False, d_imem := snd (L ?p (d_imem s))\<rparr>))"
    using get_pc_sim [OF s nf] b
    by (simp add: DBB_fdd_global_def DBB_fetch_decode_def DBB_in_fast_path_def DBB_fetch_decode_slow_def DBB_fetch_decode_add_entry_def
        monad_simps Let_def curB_def)
  have nd: "hb \<noteq> dummyBlock" using h(1) by (auto simp: handler_cached_def)
  show "handler_cached t hb s'" "d_curBlock s' \<noteq> hb"
    using h b nd unfolding s'_def
    by (auto simp: r fetched_def handler_cached_def DBB_fetch_failed_def DBB_put_entry_def DBB_put_block_def Let_def)
qed

definition nested_trap_calls :: "u32 \<Rightarrow> u32 \<Rightarrow> 'm fetch_call list" where
  "nested_trap_calls t f = [Enter_trap t, Fetch_global, Jump_dyn f, Fetch_global, Enter_trap t, Fetch_fast, Get_last_pc_exception_safe]"

text \<open>
  C33. A failed fetch sets the flag \<^verbatim>\<open>exception\<close>, and only a fetch from memory clears it. So when the trap handler of the failed fetch
  is served from the cache and one of its instructions traps, \<^verbatim>\<open>get_last_pc_exception_safe\<close>, from which the hart takes \<^verbatim>\<open>mepc\<close>, still returns
  the address of the failed fetch instead of that of the trapping instruction.
\<close>

theorem dbbcache_stale_exception_pc:
  assumes "loads_pure L" and "get_misa_extensions cfg \<noteq> 0" and v: "pc_is_valid e" "pc_is_valid t" "pc_is_valid f" and ne: "t \<noteq> e" "f \<noteq> t" "f \<noteq> e"
    and m: "code_of L m t = Inr w" "code_of L m f = Inl x"
  shows "last (fst (run_outs (DBB_step L) (nested_trap_calls t f) (DBB_init True cfg opm e (DBB_fresh m), cop))) = Out_word f \<and>
    last (fst (run_outs (spec_step L cfg opm) (nested_trap_calls t f) (spec_init L e m))) = Out_word t"
proof -
  obtain opc i l where d: "dec cfg w = (opc, i, l)" by (cases "dec cfg w")
  let ?st = "\<lambda>c x. snd (DBB_step L c x)"
  define s0 where "s0 = DBB_init True cfg opm e (DBB_fresh m)"
  define s1 where "s1 = DBB_enter_trap t s0"
  define x2 where "x2 = ?st Fetch_global (s1, cop)"
  define x3 where "x3 = ?st (Jump_dyn f) x2"
  define x4 where "x4 = ?st Fetch_global x3"
  let ?a = "\<lambda>ph n. \<lparr>sp_code = code_of L m, sp_phase = ph, sp_cycles = n\<rparr>"
  define u1 where "u1 = usage_step L (Enter_trap t) (spec_init L e m) (usage_init e)"
  define u2 where "u2 = usage_step L Fetch_global (?a (Ready t) 0) u1"
  define u3 where "u3 = usage_step L (Jump_dyn f) (?a (Done t w opc i l) (opm opc)) u2"
  have st: "snd (spec_step L cfg opm (Enter_trap t) (spec_init L e m)) = ?a (Ready t) 0"
    "snd (spec_step L cfg opm Fetch_global (?a (Ready t) 0)) = ?a (Done t w opc i l) (opm opc)"
    "snd (spec_step L cfg opm (Jump_dyn f) (?a (Done t w opc i l) (opm opc))) = ?a (Ready f) (opm opc)"
    "snd (spec_step L cfg opm Fetch_global (?a (Ready f) (opm opc))) = ?a (Fault f) (opm opc)"
    using m d by (simp_all add: spec_step_def spec_fetch_def spec_init_def)
  have al: "allowed L cfg opm False (Enter_trap t) (spec_init L e m) (usage_init e)"
    "allowed L cfg opm False Fetch_global (?a (Ready t) 0) u1"
    "allowed L cfg opm False (Jump_dyn f) (?a (Done t w opc i l) (opm opc)) u2"
    "allowed L cfg opm False Fetch_global (?a (Ready f) (opm opc)) u3"
    using m d v ne
    by (simp_all add: allowed_def Let_def u1_def u2_def u3_def spec_init_def usage_init_def may_goto_def
        usage_step_def usage_fetch_def usage_goto_def fails_def)
  note rel = dbb.related [of L cfg opm False]
  have sim0: "sim L cfg opm False (s0, cop) (spec_init L e m, usage_init e)"
    unfolding s0_def by (rule init_sim) (use assms(1,2) v in \<open>simp_all add: hyps_iff\<close>)
  have sim1: "sim L cfg opm False (s1, cop) (?a (Ready t) 0, u1)" using rel [OF sim0 al(1)] by (simp add: st s1_def u1_def)
  have sim2: "sim L cfg opm False x2 (?a (Done t w opc i l) (opm opc), u2)" using rel [OF sim1 al(2)] by (simp add: st x2_def u2_def)
  have sim3: "sim L cfg opm False x3 (?a (Ready f) (opm opc), u3)" using rel [OF sim2 al(3)] by (simp add: st x3_def u3_def)
  have sim4: "sim L cfg opm False x4 (?a (Fault f) (opm opc), usage_step L Fetch_global (?a (Ready f) (opm opc)) u3)"
    using rel [OF sim3 al(4)] by (simp add: st x4_def)
  note I = init_fields [OF v(1) s0_def]
  have nt: "d_blockmap s0 (ucast t) = None" "d_blockmap s0 (ucast f) = None" using I(2) ne by (simp_all add: ucast_u32_u64_inj)
  note E = enter_trap_building [OF sim0 v(2) nt(1) I(6,1), folded s1_def]
  have nf: "d_blockmap s1 (ucast f) = None" using E(4) nt ne by (simp add: ucast_u32_u64_inj)
  have jd: "lc_find f (b_jumpDynLinkCache (curB s1)) = None" by (rule E(7) [OF v(3)])
  obtain s2 c2 s3 c3 s4 c4 where x: "x2 = (s2, c2)" "x3 = (s3, c3)" "x4 = (s4, c4)" by (cases x2; cases x3; cases x4)
  have s2: "s2 = fst (snd (DBB_step L Fetch_global (s1, cop)))" using x(1) by (simp add: x2_def)
  note M = miss_handler [OF sim1 E(1) al(2) _ d E(2,6) nf jd, folded s2]
  have M': "handler_cached t (d_curBlock s1) s2" "d_curBlock s2 = d_curBlock s1" "d_blockmap s2 (ucast f) = None"
    "lc_find f (b_jumpDynLinkCache (curB s2)) = None" "d_enabled s2"
    using M m by simp_all
  have s3: "s3 = DBB_jump_dyn f s2" using x(1,2) by (simp add: x3_def)
  note J = jump_new_block [OF sim2 [unfolded x] M'(3,4,5,2,1), folded s3]
  have s4: "s4 = fst (snd (DBB_step L Fetch_global (s3, c3)))" using x(2,3) by (simp add: x4_def)
  note F = fault_handler [OF sim3 [unfolded x] al(4) _ J(2,3,4,5,1,6), folded s4]
  have "fst (DBB_step L Get_last_pc_exception_safe (snd (DBB_step L Fetch_fast (snd (DBB_step L (Enter_trap t) x4))))) = Out_word f"
    unfolding x by (rule cached_handler_pc [OF sim4 [unfolded x]]) (use F m in simp_all)
  moreover have "snd (DBB_step L (Enter_trap t) (s0, cop)) = (s1, cop)" by (simp add: s1_def)
  then have "last (fst (run_outs (DBB_step L) (nested_trap_calls t f) (s0, cop))) =
      fst (DBB_step L Get_last_pc_exception_safe (snd (DBB_step L Fetch_fast (snd (DBB_step L (Enter_trap t) x4)))))"
    by (simp add: nested_trap_calls_def run_outs_Cons x4_def x3_def x2_def del: run_outs.simps(2) DBB_step.simps)
  moreover have "last (fst (run_outs (spec_step L cfg opm) (nested_trap_calls t f) (spec_init L e m))) = Out_word t"
    using m d by (simp add: nested_trap_calls_def run_outs_Cons spec_step_def spec_fetch_def spec_init_def del: run_outs.simps(2))
  ultimately show ?thesis by (simp add: s0_def)
qed

theorem dbbcache_stale_exception_pc_witness:
  "last (fst (run_outs (DBB_step map_load) (nested_trap_calls 0x10 0x40) (DBB_init True 0x104 (\<lambda>_. 10) 0 (DBB_fresh demo_prog), 0))) = Out_word 0x40 \<and>
   last (fst (run_outs (spec_step map_load 0x104 (\<lambda>_. 10)) (nested_trap_calls 0x10 0x40) (spec_init map_load 0 demo_prog))) = Out_word 0x10"
  by (rule dbbcache_stale_exception_pc [of map_load "0x104" 0 "0x10" "0x40" demo_prog 1 "SimulationTrap EXC_INSTR_ACCESS_FAULT 0x40"])
    (simp_all add: map_load_pure demo_misa pc_is_valid_def code_of_map_load demo_prog_def)

end
