(* ===== verification/RV64_CSR.thy ===== *)
theory RV64_CSR
  imports VP_CSR
begin

text \<open>
  The control and status registers of RV64, \<^verbatim>\<open>vp/src/core/rv64/csr.h\<close>. What this file shares with its RV32 counterpart,
  the addresses and the bit-fields that lie at the same place, is taken from \<^verbatim>\<open>VP_CSR\<close>; the names of what differs
  begin with \<open>rv64_\<close>, as the C++ names are in namespace \<^verbatim>\<open>rv64\<close>.

  \<^verbatim>\<open>pmpcfg\<close> is an array of two registers, but the constructor maps four addresses to its elements 0 to 3. The
  members of \<^verbatim>\<open>csr_table\<close> are 64-bit words that follow each other, so elements 2 and 3 are the members behind the
  array, \<^verbatim>\<open>sedeleg\<close> and \<^verbatim>\<open>sideleg\<close>.
\<close>

section \<open>Masks and bit-fields\<close>

abbreviation (input) rv64_MIE_MASK :: u64 where "rv64_MIE_MASK \<equiv> 0xBBB"
abbreviation (input) rv64_SIE_MASK :: u64 where "rv64_SIE_MASK \<equiv> 0x333"
abbreviation (input) rv64_UIE_MASK :: u64 where "rv64_UIE_MASK \<equiv> 0x111"
abbreviation (input) rv64_MIP_WRITE_MASK :: u64 where "rv64_MIP_WRITE_MASK \<equiv> 0x333"
abbreviation (input) rv64_MIP_READ_MASK :: u64 where "rv64_MIP_READ_MASK \<equiv> 0xBBB"
abbreviation (input) rv64_SIP_MASK :: u64 where "rv64_SIP_MASK \<equiv> 0x3"
abbreviation (input) rv64_UIP_MASK :: u64 where "rv64_UIP_MASK \<equiv> 0x1"
abbreviation (input) rv64_MEDELEG_MASK :: u64 where "rv64_MEDELEG_MASK \<equiv> 0xBBFF"
abbreviation (input) rv64_MIDELEG_MASK :: u64 where "rv64_MIDELEG_MASK \<equiv> 0xBBB"
abbreviation (input) rv64_MTVEC_MASK :: u64 where "rv64_MTVEC_MASK \<equiv> 0xFFFFFFFFFFFFFFFD"
abbreviation (input) rv64_MCOUNTEREN_MASK :: u64 where "rv64_MCOUNTEREN_MASK \<equiv> 0x7"
abbreviation (input) rv64_MCOUNTINHIBIT_MASK :: u64 where "rv64_MCOUNTINHIBIT_MASK \<equiv> 0x5"
abbreviation (input) rv64_SEDELEG_MASK :: u64 where "rv64_SEDELEG_MASK \<equiv> 0xB1FF"
abbreviation (input) rv64_SIDELEG_MASK :: u64 where "rv64_SIDELEG_MASK \<equiv> 0xBBB"
abbreviation (input) rv64_MSTATUS_WRITE_MASK :: u64 where "rv64_MSTATUS_WRITE_MASK \<equiv> 0x80000000007FFFBB"
abbreviation (input) rv64_MSTATUS_READ_MASK :: u64 where "rv64_MSTATUS_READ_MASK \<equiv> 0x8000003F007FFFFB"
abbreviation (input) rv64_SSTATUS_WRITE_MASK :: u64 where "rv64_SSTATUS_WRITE_MASK \<equiv> 0x80000000000DE733"
abbreviation (input) rv64_SSTATUS_READ_MASK :: u64 where "rv64_SSTATUS_READ_MASK \<equiv> 0x80000003000DE773"
abbreviation (input) rv64_USTATUS_WRITE_MASK :: u64 where "rv64_USTATUS_WRITE_MASK \<equiv> 0x11"
abbreviation (input) rv64_USTATUS_READ_MASK :: u64 where "rv64_USTATUS_READ_MASK \<equiv> 0x51"
abbreviation (input) rv64_PMPADDR_MASK :: u64 where "rv64_PMPADDR_MASK \<equiv> 0x3FFFFFFFFFFFFF"
abbreviation (input) rv64_SATP_MASK :: u64 where "rv64_SATP_MASK \<equiv> 0xF0000FFFFFFFFFFF"
abbreviation (input) rv64_SATP_MODE :: u64 where "rv64_SATP_MODE \<equiv> 0xF000000000000000"
abbreviation (input) rv64_FCSR_MASK :: u64 where "rv64_FCSR_MASK \<equiv> 0xFF"
abbreviation (input) rv64_VTYPE_MASK :: u64 where "rv64_VTYPE_MASK \<equiv> 0x80000000000000FF"
abbreviation (input) rv64_VXRM_MASK :: u64 where "rv64_VXRM_MASK \<equiv> 0x3"
abbreviation (input) rv64_VXSAT_MASK :: u64 where "rv64_VXSAT_MASK \<equiv> 0x1"
abbreviation (input) rv64_VCSR_MASK :: u64 where "rv64_VCSR_MASK \<equiv> 0x7"

abbreviation (input) rv64_misa_mxl :: bitfield where "rv64_misa_mxl \<equiv> (62, 2)"
abbreviation (input) rv64_mstatus_uxl :: bitfield where "rv64_mstatus_uxl \<equiv> (32, 2)"
abbreviation (input) rv64_mstatus_sxl :: bitfield where "rv64_mstatus_sxl \<equiv> (34, 2)"
abbreviation (input) rv64_mstatus_sd :: bitfield where "rv64_mstatus_sd \<equiv> (63, 1)"
abbreviation (input) rv64_mtvec_base :: bitfield where "rv64_mtvec_base \<equiv> (2, 62)"
abbreviation (input) rv64_mcause_exception_code :: bitfield where "rv64_mcause_exception_code \<equiv> (0, 63)"
abbreviation (input) rv64_mcause_interrupt :: bitfield where "rv64_mcause_interrupt \<equiv> (63, 1)"
abbreviation (input) rv64_satp_ppn :: bitfield where "rv64_satp_ppn \<equiv> (0, 44)"
abbreviation (input) rv64_satp_asid :: bitfield where "rv64_satp_asid \<equiv> (44, 16)"
abbreviation (input) rv64_satp_mode :: bitfield where "rv64_satp_mode \<equiv> (60, 4)"
abbreviation (input) rv64_vtype_vill :: bitfield where "rv64_vtype_vill \<equiv> (63, 1)"

text \<open>The modes of \<^verbatim>\<open>satp\<close> (\<^verbatim>\<open>vp/src/core/common/core_defs.h\<close>).\<close>

abbreviation (input) rv64_SATP_MODE_BARE :: u64 where "rv64_SATP_MODE_BARE \<equiv> 0"
abbreviation (input) rv64_SATP_MODE_SV39 :: u64 where "rv64_SATP_MODE_SV39 \<equiv> 8"
abbreviation (input) rv64_SATP_MODE_SV48 :: u64 where "rv64_SATP_MODE_SV48 \<equiv> 9"

abbreviation (input) rv64_FS_OFF :: u64 where "rv64_FS_OFF \<equiv> 0"
abbreviation (input) rv64_FS_DIRTY :: u64 where "rv64_FS_DIRTY \<equiv> 3"

text \<open>\<^verbatim>\<open>SWITCH_CASE_MATCH_ANY_HPMCOUNTER_RV64\<close>: the labels are three contiguous blocks.\<close>

definition rv64_is_hpmcounter :: "nat \<Rightarrow> bool" where
  "rv64_is_hpmcounter a \<longleftrightarrow> 0xC03 \<le> a \<and> a \<le> 0xC1F \<or> 0xB03 \<le> a \<and> a \<le> 0xB1F \<or> 0x323 \<le> a \<and> a \<le> 0x33F"

section \<open>The table\<close>

datatype (plugins only: code) rv64_csr_cell =
    rv64_csr_cycle | rv64_csr_time | rv64_csr_instret | rv64_csr_mvendorid | rv64_csr_marchid
  | rv64_csr_mimpid | rv64_csr_mhartid | rv64_csr_mstatus | rv64_csr_misa | rv64_csr_medeleg
  | rv64_csr_mideleg | rv64_csr_mie | rv64_csr_mtvec | rv64_csr_mcounteren | rv64_csr_mcountinhibit
  | rv64_csr_mscratch | rv64_csr_mepc | rv64_csr_mcause | rv64_csr_mtval | rv64_csr_mip
  | rv64_csr_pmpaddr nat | rv64_csr_pmpcfg nat | rv64_csr_sedeleg | rv64_csr_sideleg | rv64_csr_stvec
  | rv64_csr_scounteren | rv64_csr_sscratch | rv64_csr_sepc | rv64_csr_scause | rv64_csr_stval
  | rv64_csr_satp | rv64_csr_utvec | rv64_csr_uscratch | rv64_csr_uepc | rv64_csr_ucause
  | rv64_csr_utval | rv64_csr_fcsr | rv64_csr_vstart | rv64_csr_vxsat | rv64_csr_vxrm
  | rv64_csr_vcsr | rv64_csr_vtype | rv64_csr_vl | rv64_csr_vlenb

type_synonym rv64_csr_table = "rv64_csr_cell \<Rightarrow> u64"

text \<open>The constructor fills \<^verbatim>\<open>register_mapping\<close>; two loops map the PMP registers.\<close>

definition rv64_register_mapping_entries :: "(nat \<times> rv64_csr_cell) list" where
  "rv64_register_mapping_entries =
    [(CYCLE_ADDR, rv64_csr_cycle), (TIME_ADDR, rv64_csr_time), (INSTRET_ADDR, rv64_csr_instret),
     (MCYCLE_ADDR, rv64_csr_cycle), (MTIME_ADDR, rv64_csr_time), (MINSTRET_ADDR, rv64_csr_instret),
     (MVENDORID_ADDR, rv64_csr_mvendorid), (MARCHID_ADDR, rv64_csr_marchid), (MIMPID_ADDR, rv64_csr_mimpid),
     (MHARTID_ADDR, rv64_csr_mhartid), (MSTATUS_ADDR, rv64_csr_mstatus), (MISA_ADDR, rv64_csr_misa),
     (MEDELEG_ADDR, rv64_csr_medeleg), (MIDELEG_ADDR, rv64_csr_mideleg), (MIE_ADDR, rv64_csr_mie),
     (MTVEC_ADDR, rv64_csr_mtvec), (MCOUNTEREN_ADDR, rv64_csr_mcounteren), (MCOUNTINHIBIT_ADDR, rv64_csr_mcountinhibit),
     (MSCRATCH_ADDR, rv64_csr_mscratch), (MEPC_ADDR, rv64_csr_mepc), (MCAUSE_ADDR, rv64_csr_mcause),
     (MTVAL_ADDR, rv64_csr_mtval), (MIP_ADDR, rv64_csr_mip), (SEDELEG_ADDR, rv64_csr_sedeleg),
     (SIDELEG_ADDR, rv64_csr_sideleg), (STVEC_ADDR, rv64_csr_stvec), (SCOUNTEREN_ADDR, rv64_csr_scounteren),
     (SSCRATCH_ADDR, rv64_csr_sscratch), (SEPC_ADDR, rv64_csr_sepc), (SCAUSE_ADDR, rv64_csr_scause),
     (STVAL_ADDR, rv64_csr_stval), (SATP_ADDR, rv64_csr_satp), (UTVEC_ADDR, rv64_csr_utvec),
     (USCRATCH_ADDR, rv64_csr_uscratch), (UEPC_ADDR, rv64_csr_uepc), (UCAUSE_ADDR, rv64_csr_ucause),
     (UTVAL_ADDR, rv64_csr_utval), (FCSR_ADDR, rv64_csr_fcsr), (VSTART_ADDR, rv64_csr_vstart),
     (VXSAT_ADDR, rv64_csr_vxsat), (VXRM_ADDR, rv64_csr_vxrm), (VCSR_ADDR, rv64_csr_vcsr),
     (VL_ADDR, rv64_csr_vl), (VTYPE_ADDR, rv64_csr_vtype), (VLENB_ADDR, rv64_csr_vlenb)]"

text \<open>
  The loop for \<^verbatim>\<open>pmpcfg\<close> takes the addresses of four elements of an array of two. What lies behind the array is not defined
  in C++: the cells exist for the mapping only, and an access through them fails.
\<close>

definition rv64_cell_exists :: "rv64_csr_cell \<Rightarrow> bool" where
  "rv64_cell_exists c = (case c of rv64_csr_pmpcfg i \<Rightarrow> i < 2 | _ \<Rightarrow> True)"

definition rv64_register_mapping :: "nat \<Rightarrow> rv64_csr_cell option" where
  "rv64_register_mapping addr =
     (if PMPADDR0_ADDR \<le> addr \<and> addr < PMPADDR0_ADDR + 16 then Some (rv64_csr_pmpaddr (addr - PMPADDR0_ADDR))
      else if PMPCFG0_ADDR \<le> addr \<and> addr < PMPCFG0_ADDR + 4 then Some (rv64_csr_pmpcfg (addr - PMPCFG0_ADDR))
      else map_of rv64_register_mapping_entries addr)"

definition rv64_is_valid_csr64_addr :: "nat \<Rightarrow> bool" where
  "rv64_is_valid_csr64_addr addr \<longleftrightarrow> rv64_register_mapping addr \<noteq> None"

text \<open>\<^verbatim>\<open>ensure\<close> throws a \<^verbatim>\<open>runtime_error\<close> on an address that is not mapped.\<close>

definition rv64_default_write64 :: "nat \<Rightarrow> u64 \<Rightarrow> rv64_csr_table \<Rightarrow> exn + rv64_csr_table" where
  "rv64_default_write64 addr v t = (case rv64_register_mapping addr of
     None \<Rightarrow> Inl RuntimeError | Some c \<Rightarrow> if rv64_cell_exists c then Inr (t(c := v)) else Inl RuntimeError)"

definition rv64_default_read64 :: "nat \<Rightarrow> rv64_csr_table \<Rightarrow> exn + u64" where
  "rv64_default_read64 addr t = (case rv64_register_mapping addr of
     None \<Rightarrow> Inl RuntimeError | Some c \<Rightarrow> if rv64_cell_exists c then Inr (t c) else Inl RuntimeError)"

definition rv64_has_C_extension :: "rv64_csr_table \<Rightarrow> bool" where
  "rv64_has_C_extension t \<longleftrightarrow> fget misa_extensions (t rv64_csr_misa) AND 0x4 \<noteq> 0"

definition rv64_has_E_base_isa :: "rv64_csr_table \<Rightarrow> bool" where
  "rv64_has_E_base_isa t \<longleftrightarrow> fget misa_extensions (t rv64_csr_misa) AND 0x10 \<noteq> 0"

definition rv64_has_user_mode_extension :: "rv64_csr_table \<Rightarrow> bool" where
  "rv64_has_user_mode_extension t \<longleftrightarrow> fget misa_extensions (t rv64_csr_misa) AND 0x100000 \<noteq> 0"

definition rv64_has_supervisor_mode_extension :: "rv64_csr_table \<Rightarrow> bool" where
  "rv64_has_supervisor_mode_extension t \<longleftrightarrow> fget misa_extensions (t rv64_csr_misa) AND 0x40000 \<noteq> 0"

definition rv64_misa_init :: u64 where
  "rv64_misa_init = fset rv64_misa_mxl 2 (fset misa_extensions 0 0)"

text \<open>The constructor of \<^verbatim>\<open>csr_mstatus\<close>.\<close>

definition rv64_mstatus_init :: u64 where
  "rv64_mstatus_init = fset rv64_mstatus_uxl 2 (fset rv64_mstatus_sxl 2 0)"

text \<open>\<^verbatim>\<open>csr_mtvec::get_base_address\<close>\<close>

definition rv64_get_base_address :: "u64 \<Rightarrow> u64" where
  "rv64_get_base_address v = push_bit 2 (fget rv64_mtvec_base v)"

definition rv64_checked_write :: "u64 \<Rightarrow> u64" where
  "rv64_checked_write v = (if fget mtvec_mode v \<ge> 1 then fset mtvec_mode 0 v else v)"

text \<open>\<^verbatim>\<open>csr::is_bitset\<close>\<close>

definition rv64_is_bitset :: "u64 \<Rightarrow> nat \<Rightarrow> bool" where
  "rv64_is_bitset v bitpos \<longleftrightarrow> v AND push_bit bitpos 1 \<noteq> 0"

text \<open>The state of the table after construction.\<close>

definition rv64_csr_table_init :: rv64_csr_table where
  "rv64_csr_table_init = (\<lambda>_. 0)(rv64_csr_misa := rv64_misa_init, rv64_csr_mstatus := rv64_mstatus_init,
     rv64_csr_vtype := 0x8000000000000000)"

text \<open>The lambda \<^verbatim>\<open>write\<close> of \<^verbatim>\<open>ISS::set_csr_value\<close>: only bits in the mask change.\<close>

definition rv64_masked_write :: "u64 \<Rightarrow> u64 \<Rightarrow> u64 \<Rightarrow> u64" where
  "rv64_masked_write m v old = (old AND NOT m) OR (v AND m)"

section \<open>Lemmas\<close>

lemma rv64_bit_masked_write: "bit (rv64_masked_write m v old) n = (if bit m n then bit v n else bit old n)"
  by (auto simp: rv64_masked_write_def bit_simps dest: bit_imp_le_length)

lemma rv64_default_read_write:
  "rv64_default_write64 addr v t = Inr t' \<Longrightarrow> rv64_default_read64 addr t' = Inr v"
  by (auto simp: rv64_default_write64_def rv64_default_read64_def split: option.splits if_splits)

lemma rv64_default_write_valid:
  "rv64_is_valid_csr64_addr addr \<Longrightarrow> addr \<notin> {PMPCFG0_ADDR + 2, PMPCFG0_ADDR + 3} \<Longrightarrow>
   \<exists>t'. rv64_default_write64 addr v t = Inr t'"
  by (auto simp: rv64_is_valid_csr64_addr_def rv64_default_write64_def rv64_register_mapping_def rv64_register_mapping_entries_def
      rv64_cell_exists_def split: if_splits)

end
