(* ===== verification/RV64_State.thy ===== *)
theory RV64_State
  imports VP_State RV64_CSR
begin

text \<open>
  The state of the RV64 instruction set simulator: the members of class \<^verbatim>\<open>ISS_CT\<close>
  (\<^verbatim>\<open>vp/src/core/rv64/iss_ctemplate.h\<close>), the members of its \<^verbatim>\<open>DBBCacheDummy_T\<close>
  (\<^verbatim>\<open>vp/src/core/common/dbbcache.h\<close>) and the local variables of \<^verbatim>\<open>exec_steps\<close> that outlive one
  instruction. The type parameter is the state of everything behind the memory interfaces. The two global
  variables of the softfloat library, its exception flags and its rounding mode, are part of the state.

  The interfaces the simulator calls through pointers (\<^verbatim>\<open>mem\<close>, \<^verbatim>\<open>instr_mem\<close>, \<^verbatim>\<open>clint\<close>, \<^verbatim>\<open>sys\<close>) and
  its \<^verbatim>\<open>lscache\<close> are records of functions over this state, one field per virtual function. The
  SystemC quantum keeper is such an interface as well. Statistics, trace output, \<^verbatim>\<open>wfi_event\<close> and
  the local time of the quantum keeper are not part of the state. The vector unit, a template over the simulator, has the same
  members as for RV32.
\<close>

text \<open>\<^verbatim>\<open>DBBCacheDummy_T\<close>: the fetch/decode unit without caching.\<close>

record rv64_dbbcache_dummy =
  rv64_dbb_pc :: u64
  rv64_dbb_last_pc :: u64
  rv64_cycle_counter_raw :: u64
  rv64_mem_word :: u32

record 'd rv64_iss =
  rv64_regs :: "u64 list"
  rv64_fp_regs :: "u64 list"
  rv64_csrs :: rv64_csr_table
  rv64_prv :: u32
  rv64_pc :: u64
  rv64_instr :: u32
  rv64_isa_config :: u64
  rv64_dbbcache :: rv64_dbbcache_dummy
  rv64_lr_sc_counter :: int
  rv64_iss_slow_path :: bool
  rv64_trace :: bool
  rv64_shall_exit :: bool
  rv64_status :: CoreExecStatus
  rv64_debug_mode :: bool
  rv64_breakpoints :: "u64 list"
  rv64_ignore_wfi :: bool
  rv64_error_on_zero_traphandler :: bool
  rv64_cycle_counter :: u64
  rv64_cycle_counter_raw_last :: u64
  rv64_ninstr_last :: u64
  rv64_ninstr :: u64
  rv64_debug_single_step_done :: bool
  rv64_prop_clock_cycle_period :: u64
  rv64_opMap :: "OpId \<Rightarrow> u64"
  rv64_softfloat_exceptionFlags :: u8
  rv64_softfloat_roundingMode :: u8
  rv64_v_ext :: vext
  rv64_mem_st :: 'd

section \<open>Interfaces\<close>

text \<open>\<^verbatim>\<open>data_memory_if_T\<close> of \<^verbatim>\<open>mem_if.h\<close>, the functions RV64 uses.\<close>

record 'd rv64_data_memory_if =
  rv64_load_double :: "u64 \<Rightarrow> ('d rv64_iss, u64) M"
  rv64_load_word :: "u64 \<Rightarrow> ('d rv64_iss, u64) M"
  rv64_load_half :: "u64 \<Rightarrow> ('d rv64_iss, u64) M"
  rv64_load_byte :: "u64 \<Rightarrow> ('d rv64_iss, u64) M"
  rv64_load_uword :: "u64 \<Rightarrow> ('d rv64_iss, u64) M"
  rv64_load_uhalf :: "u64 \<Rightarrow> ('d rv64_iss, u64) M"
  rv64_load_ubyte :: "u64 \<Rightarrow> ('d rv64_iss, u64) M"
  rv64_store_double :: "u64 \<Rightarrow> u64 \<Rightarrow> ('d rv64_iss, unit) M"
  rv64_store_word :: "u64 \<Rightarrow> u32 \<Rightarrow> ('d rv64_iss, unit) M"
  rv64_store_half :: "u64 \<Rightarrow> u16 \<Rightarrow> ('d rv64_iss, unit) M"
  rv64_store_byte :: "u64 \<Rightarrow> u8 \<Rightarrow> ('d rv64_iss, unit) M"
  rv64_atomic_load_word :: "u64 \<Rightarrow> ('d rv64_iss, u64) M"
  rv64_atomic_store_word :: "u64 \<Rightarrow> u32 \<Rightarrow> ('d rv64_iss, unit) M"
  rv64_atomic_load_reserved_word :: "u64 \<Rightarrow> ('d rv64_iss, u64) M"
  rv64_atomic_store_conditional_word :: "u64 \<Rightarrow> u32 \<Rightarrow> ('d rv64_iss, bool) M"
  rv64_atomic_load_double :: "u64 \<Rightarrow> ('d rv64_iss, u64) M"
  rv64_atomic_store_double :: "u64 \<Rightarrow> u64 \<Rightarrow> ('d rv64_iss, unit) M"
  rv64_atomic_load_reserved_double :: "u64 \<Rightarrow> ('d rv64_iss, u64) M"
  rv64_atomic_store_conditional_double :: "u64 \<Rightarrow> u64 \<Rightarrow> ('d rv64_iss, bool) M"
  rv64_atomic_unlock :: "('d rv64_iss, unit) M"
  rv64_is_bus_locked :: "('d rv64_iss, bool) M"
  rv64_get_last_dmi_page_host_addr :: "('d rv64_iss, host_ptr option) M"
  rv64_flush_tlb :: "('d rv64_iss, unit) M"

text \<open>The public operations of \<^verbatim>\<open>LSCache_IF_T\<close> (\<^verbatim>\<open>lscache.h\<close>).\<close>

record 'd rv64_lscache_if =
  rv64_ls_load_double :: "u64 \<Rightarrow> ('d rv64_iss, u64) M"
  rv64_ls_load_word :: "u64 \<Rightarrow> ('d rv64_iss, u64) M"
  rv64_ls_load_half :: "u64 \<Rightarrow> ('d rv64_iss, u64) M"
  rv64_ls_load_byte :: "u64 \<Rightarrow> ('d rv64_iss, u64) M"
  rv64_ls_load_uword :: "u64 \<Rightarrow> ('d rv64_iss, u64) M"
  rv64_ls_load_uhalf :: "u64 \<Rightarrow> ('d rv64_iss, u64) M"
  rv64_ls_load_ubyte :: "u64 \<Rightarrow> ('d rv64_iss, u64) M"
  rv64_ls_store_double :: "u64 \<Rightarrow> u64 \<Rightarrow> ('d rv64_iss, unit) M"
  rv64_ls_store_word :: "u64 \<Rightarrow> u32 \<Rightarrow> ('d rv64_iss, unit) M"
  rv64_ls_store_half :: "u64 \<Rightarrow> u16 \<Rightarrow> ('d rv64_iss, unit) M"
  rv64_ls_store_byte :: "u64 \<Rightarrow> u8 \<Rightarrow> ('d rv64_iss, unit) M"
  rv64_ls_fence :: "('d rv64_iss, unit) M"
  rv64_ls_fence_vma :: "('d rv64_iss, unit) M"

text \<open>
  What an ISS is connected to. \<open>need_sync\<close> and \<open>sync\<close> are those of the quantum keeper: a
  synchronisation lets the other SystemC processes run.
\<close>

record 'd rv64_iss_env =
  rv64_mem :: "'d rv64_data_memory_if"
  rv64_lscache :: "'d rv64_lscache_if"
  rv64_load_instr :: "u64 \<Rightarrow> ('d rv64_iss, u32) M"
  rv64_update_and_get_mtime :: "('d rv64_iss, u64) M"
  rv64_sys :: "('d rv64_iss, unit) M option"
  rv64_need_sync :: "'d rv64_iss \<Rightarrow> bool"
  rv64_sync :: "('d rv64_iss, unit) M"
  rv64_fast_quantum_ins_granularity :: u64

section \<open>Registers\<close>

definition rv64_reg :: "u32 \<Rightarrow> 'd rv64_iss \<Rightarrow> u64" where
  "rv64_reg i s = rv64_regs s ! unat i"

definition rv64_set_reg :: "u32 \<Rightarrow> u64 \<Rightarrow> 'd rv64_iss \<Rightarrow> 'd rv64_iss" where
  "rv64_set_reg i v s = s\<lparr>rv64_regs := (rv64_regs s)[unat i := v]\<rparr>"

definition rv64_reset_reg_zero :: "'d rv64_iss \<Rightarrow> 'd rv64_iss" where
  "rv64_reset_reg_zero s = s\<lparr>rv64_regs := (rv64_regs s)[0 := 0]\<rparr>"

text \<open>\<^verbatim>\<open>RegFile_T::write\<close>, \<^verbatim>\<open>RegFile_T::read\<close>, \<^verbatim>\<open>RegFile_T::shamt\<close> and \<^verbatim>\<open>RegFile_T::shamt_w\<close>: \<^verbatim>\<open>BIT_RANGE(x, n, 0)\<close> is the low \<open>n + 1\<close> bits.\<close>

definition rv64_regfile_write :: "nat \<Rightarrow> u64 \<Rightarrow> ('d rv64_iss, unit) M" where
  "rv64_regfile_write index v = seqM (assertM (index \<le> 31)) (seqM (assertM (index \<noteq> 0))
     (modifyM (\<lambda>s. s\<lparr>rv64_regs := (rv64_regs s)[index := v]\<rparr>)))"

definition rv64_regfile_read :: "nat \<Rightarrow> ('d rv64_iss, u64) M" where
  "rv64_regfile_read index = (if index > 31 then raise RuntimeError else getsM (\<lambda>s. rv64_regs s ! index))"

definition rv64_reg_shamt :: "u32 \<Rightarrow> 'd rv64_iss \<Rightarrow> nat" where
  "rv64_reg_shamt index s = unat (take_bit 6 (rv64_reg index s))"

definition rv64_reg_shamt_w :: "u32 \<Rightarrow> 'd rv64_iss \<Rightarrow> nat" where
  "rv64_reg_shamt_w index s = unat (take_bit 5 (rv64_reg index s))"

section \<open>Small operations of the ISS\<close>

definition rv64_RAISE_ILLEGAL_INSTRUCTION :: "('d rv64_iss, 'a) M" where
  "rv64_RAISE_ILLEGAL_INSTRUCTION = bindM (getsM rv64_instr) (\<lambda>i. raise (SimulationTrap EXC_ILLEGAL_INSTR (ucast i)))"

text \<open>\<^verbatim>\<open>DBBCacheDummy_T::force_slow_path\<close> does nothing.\<close>

definition rv64_force_slow_path :: "'d rv64_iss \<Rightarrow> 'd rv64_iss" where
  "rv64_force_slow_path s = s\<lparr>rv64_iss_slow_path := True\<rparr>"

definition rv64_maybe_interrupt_pending :: "'d rv64_iss \<Rightarrow> 'd rv64_iss" where
  "rv64_maybe_interrupt_pending s = rv64_force_slow_path s"

definition rv64_set_status :: "CoreExecStatus \<Rightarrow> 'd rv64_iss \<Rightarrow> 'd rv64_iss" where
  "rv64_set_status st s = rv64_force_slow_path (s\<lparr>rv64_status := st\<rparr>)"

definition rv64_sys_exit :: "'d rv64_iss \<Rightarrow> 'd rv64_iss" where
  "rv64_sys_exit s = rv64_force_slow_path (s\<lparr>rv64_shall_exit := True\<rparr>)"

definition rv64_get_hart_id :: "'d rv64_iss \<Rightarrow> u64" where
  "rv64_get_hart_id s = rv64_csrs s rv64_csr_mhartid"

definition rv64_get_syscall_register_index :: "'d rv64_iss \<Rightarrow> nat" where
  "rv64_get_syscall_register_index s = (if rv64_has_E_base_isa (rv64_csrs s) then 15 else 17)"

definition rv64_commit_cycles :: "'d rv64_iss \<Rightarrow> 'd rv64_iss" where
  "rv64_commit_cycles s =
     (let raw = rv64_cycle_counter_raw (rv64_dbbcache s);
          inc = raw - rv64_cycle_counter_raw_last s;
          s = s\<lparr>rv64_cycle_counter_raw_last := raw\<rparr>
      in if fget mcountinhibit_CY (rv64_csrs s rv64_csr_mcountinhibit) = 0
         then s\<lparr>rv64_cycle_counter := rv64_cycle_counter s + inc\<rparr> else s)"

definition rv64_commit_instructions :: "u64 \<Rightarrow> 'd rv64_iss \<Rightarrow> 'd rv64_iss" where
  "rv64_commit_instructions n s =
     (let inc = n - rv64_ninstr_last s;
          s = s\<lparr>rv64_ninstr_last := n\<rparr>
      in if fget mcountinhibit_IR (rv64_csrs s rv64_csr_mcountinhibit) = 0
         then s\<lparr>rv64_csrs := (rv64_csrs s)(rv64_csr_instret := rv64_csrs s rv64_csr_instret + inc)\<rparr>
         else s)"

definition rv64_commit_all_and_reset_fast_quantum :: "'d rv64_iss \<Rightarrow> 'd rv64_iss" where
  "rv64_commit_all_and_reset_fast_quantum s =
     (let s = rv64_commit_cycles (rv64_commit_instructions (rv64_ninstr s) s)
      in s\<lparr>rv64_ninstr := 0, rv64_ninstr_last := 0\<rparr>)"

text \<open>The cycle counter must be a whole number of clock periods: the source asserts it.\<close>

definition rv64_compute_and_get_current_cycles :: "('d rv64_iss, u64) M" where
  "rv64_compute_and_get_current_cycles =
     bindM (getsM (\<lambda>s. (rv64_cycle_counter s, rv64_prop_clock_cycle_period s)))
       (\<lambda>(cc, p). seqM (assertM (cc mod p = 0)) (ret (cc div p)))"

definition rv64_release_lr_sc_reservation :: "'d rv64_iss_env \<Rightarrow> ('d rv64_iss, unit) M" where
  "rv64_release_lr_sc_reservation E =
     seqM (modifyM (\<lambda>s. s\<lparr>rv64_lr_sc_counter := 0\<rparr>)) (rv64_atomic_unlock (rv64_mem E))"

definition rv64_pc_alignment_mask :: "'d rv64_iss \<Rightarrow> u64" where
  "rv64_pc_alignment_mask s = (if rv64_has_C_extension (rv64_csrs s) then NOT 1 else NOT 3)"

definition rv64_m_mode :: "'d rv64_iss \<Rightarrow> bool" where "rv64_m_mode s \<longleftrightarrow> rv64_prv s = MachineMode"
definition rv64_s_mode :: "'d rv64_iss \<Rightarrow> bool" where "rv64_s_mode s \<longleftrightarrow> rv64_prv s = SupervisorMode"
definition rv64_u_mode :: "'d rv64_iss \<Rightarrow> bool" where "rv64_u_mode s \<longleftrightarrow> rv64_prv s = UserMode"

definition rv64_trap_check_addr_alignment :: "u64 \<Rightarrow> bool \<Rightarrow> u64 \<Rightarrow> ('d rv64_iss, unit) M" where
  "rv64_trap_check_addr_alignment alignment is_load addr =
     (if addr mod alignment \<noteq> 0
      then raise (SimulationTrap (if is_load then EXC_LOAD_ADDR_MISALIGNED
                                  else EXC_STORE_AMO_ADDR_MISALIGNED) addr)
      else ret ())"

section \<open>Fetch and decode\<close>

definition rv64_dbb_fetch :: "'d rv64_iss_env \<Rightarrow> u64 \<Rightarrow> ('d rv64_iss, u32) M" where
  "rv64_dbb_fetch E p =
     bindM (catch_trap (rv64_load_instr E p)
              (\<lambda>r v. seqM (modifyM (\<lambda>s. s\<lparr>rv64_instr := 0\<rparr>)) (raise (SimulationTrap r v))))
       (\<lambda>w. seqM (modifyM (\<lambda>s. s\<lparr>rv64_instr := w\<rparr>)) (ret w))"

text \<open>The operation and the length of the instruction in \<open>instr\<close>, which is expanded in place.\<close>

definition rv64_dbb_decode :: "('d rv64_iss, OpId \<times> u64) M" where
  "rv64_dbb_decode = bindM (getsM (\<lambda>s. (rv64_instr s, rv64_isa_config s))) (\<lambda>(i, cfg).
     if is_compressed i
     then (case decode_and_expand_compressed RV64 cfg i of
             Inl e \<Rightarrow> raise e
           | Inr (op, i') \<Rightarrow> seqM (modifyM (\<lambda>s. s\<lparr>rv64_instr := i'\<rparr>)) (ret (op, 2)))
     else ret (decode_normal RV64 cfg i, 4))"

definition rv64_fetch_decode :: "'d rv64_iss_env \<Rightarrow> ('d rv64_iss, OpId) M" where
  "rv64_fetch_decode E =
     seqM (modifyM (\<lambda>s. s\<lparr>rv64_dbbcache := (rv64_dbbcache s)\<lparr>rv64_dbb_last_pc := rv64_dbb_pc (rv64_dbbcache s)\<rparr>\<rparr>))
     (bindM (getsM rv64_pc) (\<lambda>p.
      bindM (rv64_dbb_fetch E p) (\<lambda>w.
      bindM rv64_dbb_decode (\<lambda>(op, len).
      seqM (modifyM (\<lambda>s. s\<lparr>rv64_pc := p + len,
              rv64_dbbcache := (rv64_dbbcache s)\<lparr>rv64_mem_word := w, rv64_dbb_pc := p + len,
                rv64_cycle_counter_raw := rv64_cycle_counter_raw (rv64_dbbcache s) + rv64_opMap s op\<rparr>\<rparr>))
        (ret op)))))"

definition rv64_branch_taken :: "u64 \<Rightarrow> 'd rv64_iss \<Rightarrow> 'd rv64_iss" where
  "rv64_branch_taken pc_offset s =
     s\<lparr>rv64_dbbcache := (rv64_dbbcache s)\<lparr>rv64_dbb_pc := rv64_dbb_last_pc (rv64_dbbcache s) + pc_offset\<rparr>\<rparr>"

definition rv64_jump_and_link :: "u64 \<Rightarrow> 'd rv64_iss \<Rightarrow> u64 \<times> 'd rv64_iss" where
  "rv64_jump_and_link pc_offset s = (rv64_dbb_pc (rv64_dbbcache s), rv64_branch_taken pc_offset s)"

definition rv64_jump_dyn :: "u64 \<Rightarrow> 'd rv64_iss \<Rightarrow> 'd rv64_iss" where
  "rv64_jump_dyn p s = s\<lparr>rv64_dbbcache := (rv64_dbbcache s)\<lparr>rv64_dbb_pc := p\<rparr>\<rparr>"

definition rv64_jump_dyn_and_link :: "u64 \<Rightarrow> 'd rv64_iss \<Rightarrow> u64 \<times> 'd rv64_iss" where
  "rv64_jump_dyn_and_link p s = (rv64_dbb_pc (rv64_dbbcache s), rv64_jump_dyn p s)"

definition rv64_enter_trap :: "u64 \<Rightarrow> 'd rv64_iss \<Rightarrow> 'd rv64_iss" where
  "rv64_enter_trap p s = s\<lparr>rv64_dbbcache := (rv64_dbbcache s)\<lparr>rv64_dbb_pc := p\<rparr>\<rparr>"

definition rv64_ret_trap :: "u64 \<Rightarrow> 'd rv64_iss \<Rightarrow> 'd rv64_iss" where
  "rv64_ret_trap p s = s\<lparr>rv64_dbbcache := (rv64_dbbcache s)\<lparr>rv64_dbb_pc := p\<rparr>\<rparr>"

section \<open>Construction and the debug interface\<close>

text \<open>
  \<^verbatim>\<open>ISS_CT::ISS_CT\<close> with the default property tree: all members have their default values except the
  hart identifier, the extensions of \<^verbatim>\<open>misa\<close> and the cycle times of the operations. The clock period
  is 10 ns in ps. The constructor of the vector unit sets \<^verbatim>\<open>vlenb\<close>. Members the source leaves uninitialised are zero.
\<close>

definition rv64_dbbcache_init :: rv64_dbbcache_dummy where
  "rv64_dbbcache_init = \<lparr>rv64_dbb_pc = 0, rv64_dbb_last_pc = 0, rv64_cycle_counter_raw = 0, rv64_mem_word = 0\<rparr>"

definition rv64_ISS_CT :: "u64 \<Rightarrow> u64 \<Rightarrow> (OpId \<Rightarrow> u64) \<Rightarrow> 'd \<Rightarrow> 'd rv64_iss" where
  "rv64_ISS_CT cfg hart_id op_times d =
    \<lparr>rv64_regs = replicate 32 0, rv64_fp_regs = replicate 32 0,
     rv64_csrs = rv64_csr_table_init(rv64_csr_mhartid := hart_id,
              rv64_csr_misa := fset misa_extensions (ucast (get_misa_extensions cfg)) rv64_misa_init,
              rv64_csr_vlenb := of_nat VLENB),
     rv64_prv = MachineMode, rv64_pc = 0, rv64_instr = 0, rv64_isa_config = cfg, rv64_dbbcache = rv64_dbbcache_init,
     rv64_lr_sc_counter = 0, rv64_iss_slow_path = False, rv64_trace = False, rv64_shall_exit = False, rv64_status = Runnable,
     rv64_debug_mode = False, rv64_breakpoints = [], rv64_ignore_wfi = False, rv64_error_on_zero_traphandler = False,
     rv64_cycle_counter = 0, rv64_cycle_counter_raw_last = 0, rv64_ninstr_last = 0, rv64_ninstr = 0,
     rv64_debug_single_step_done = False, rv64_prop_clock_cycle_period = 10000, rv64_opMap = op_times,
     rv64_softfloat_exceptionFlags = 0, rv64_softfloat_roundingMode = 0, rv64_v_ext = VExtension, rv64_mem_st = d\<rparr>"

definition rv64_rv_align_stack_pointer_address :: "u64 \<Rightarrow> u64" where
  "rv64_rv_align_stack_pointer_address addr = addr - addr mod 16"

definition rv64_iss_init :: "u64 \<Rightarrow> u64 \<Rightarrow> 'd rv64_iss \<Rightarrow> 'd rv64_iss" where
  "rv64_iss_init entrypoint sp_base s =
     s\<lparr>rv64_regs := (rv64_regs s)[2 := rv64_rv_align_stack_pointer_address sp_base], rv64_pc := entrypoint,
       rv64_dbbcache := (rv64_dbbcache s)\<lparr>rv64_mem_word := 0, rv64_dbb_pc := entrypoint\<rparr>,
       rv64_cycle_counter_raw_last := 0, rv64_ninstr_last := 0\<rparr>"

definition rv64_read_register :: "nat \<Rightarrow> ('d rv64_iss, u64) M" where
  "rv64_read_register idx = rv64_regfile_read idx"

definition rv64_write_register :: "nat \<Rightarrow> u64 \<Rightarrow> ('d rv64_iss, unit) M" where
  "rv64_write_register idx v = rv64_regfile_write idx v"

definition rv64_get_registers :: "'d rv64_iss \<Rightarrow> u64 list" where
  "rv64_get_registers s = rv64_regs s"

definition rv64_enable_debug :: "'d rv64_iss \<Rightarrow> 'd rv64_iss" where
  "rv64_enable_debug s = rv64_force_slow_path (s\<lparr>rv64_debug_mode := True\<rparr>)"

definition rv64_block_on_wfi :: "bool \<Rightarrow> 'd rv64_iss \<Rightarrow> 'd rv64_iss" where
  "rv64_block_on_wfi block s = s\<lparr>rv64_ignore_wfi := \<not> block\<rparr>"

definition rv64_insert_breakpoint :: "u64 \<Rightarrow> 'd rv64_iss \<Rightarrow> 'd rv64_iss" where
  "rv64_insert_breakpoint addr s = s\<lparr>rv64_breakpoints := List.insert addr (rv64_breakpoints s)\<rparr>"

definition rv64_remove_breakpoint :: "u64 \<Rightarrow> 'd rv64_iss \<Rightarrow> 'd rv64_iss" where
  "rv64_remove_breakpoint addr s = s\<lparr>rv64_breakpoints := removeAll addr (rv64_breakpoints s)\<rparr>"

definition rv64_enable_trace :: "bool \<Rightarrow> 'd rv64_iss \<Rightarrow> 'd rv64_iss" where
  "rv64_enable_trace ena s = rv64_force_slow_path (s\<lparr>rv64_trace := ena\<rparr>)"

end
