(* ===== verification/RV64_Trap.thy ===== *)
theory RV64_Trap
  imports RV64_State
begin

text \<open>
  The privileged architecture of the RV64 ISS (\<^verbatim>\<open>vp/src/core/rv64/iss_ctemplate.cpp\<close>): access rights,
  reads and writes of the control and status registers, traps, interrupts, trap entry and trap return.
  The interrupt lines of the CLINT and the PLIC are set and cleared here as well.
\<close>

section \<open>CSR access\<close>

definition rv64_csr_upd :: "rv64_csr_cell \<Rightarrow> u64 \<Rightarrow> 'd rv64_iss \<Rightarrow> 'd rv64_iss" where
  "rv64_csr_upd c v s = s\<lparr>rv64_csrs := (rv64_csrs s)(c := v)\<rparr>"

text \<open>\<^verbatim>\<open>csrs.c.reg.fields.f = v\<close>\<close>

definition rv64_csr_fset :: "rv64_csr_cell \<Rightarrow> bitfield \<Rightarrow> u64 \<Rightarrow> 'd rv64_iss \<Rightarrow> 'd rv64_iss" where
  "rv64_csr_fset c f v s = rv64_csr_upd c (fset f v (rv64_csrs s c)) s"

definition rv64_csr_fget :: "rv64_csr_cell \<Rightarrow> bitfield \<Rightarrow> 'd rv64_iss \<Rightarrow> u64" where
  "rv64_csr_fget c f s = fget f (rv64_csrs s c)"

definition rv64_fp_require_not_off :: "('d rv64_iss, unit) M" where
  "rv64_fp_require_not_off = bindM (getsM (rv64_csr_fget rv64_csr_mstatus mstatus_fs))
     (\<lambda>fs. if fs = rv64_FS_OFF then rv64_RAISE_ILLEGAL_INSTRUCTION else ret ())"

text \<open>\<^verbatim>\<open>VExtension::requireNotOff\<close> of \<^verbatim>\<open>v.h\<close>.\<close>

definition rv64_requireNotOff :: "('d rv64_iss, unit) M" where
  "rv64_requireNotOff = bindM (getsM (rv64_csr_fget rv64_csr_mstatus mstatus_vs))
     (\<lambda>vs. if vs = 0 then rv64_RAISE_ILLEGAL_INSTRUCTION else ret ())"

definition rv64_is_invalid_csr_access :: "u32 \<Rightarrow> bool \<Rightarrow> ('d rv64_iss, bool) M" where
  "rv64_is_invalid_csr_access csr_addr is_write =
     seqM (whenM (unat csr_addr \<in> {FFLAGS_ADDR, FRM_ADDR, FCSR_ADDR}) rv64_fp_require_not_off)
     (seqM (whenM (unat csr_addr \<in> {VSTART_ADDR, VXSAT_ADDR, VXRM_ADDR, VCSR_ADDR, VL_ADDR, VTYPE_ADDR,
                     VLENB_ADDR}) rv64_requireNotOff)
      (getsM (\<lambda>s.
         let csr_prv = drop_bit 8 (0x300 AND csr_addr);
             csr_readonly = (drop_bit 10 (0xC00 AND csr_addr) = 3);
             s_invalid = (csr_prv = SupervisorMode \<and> \<not> rv64_has_supervisor_mode_extension (rv64_csrs s));
             u_invalid = (csr_prv = UserMode \<and> \<not> rv64_has_user_mode_extension (rv64_csrs s))
         in is_write \<and> csr_readonly \<or> rv64_prv s < csr_prv \<or> s_invalid \<or> u_invalid)))"

definition rv64_validate_csr_counter_read_access_rights :: "u32 \<Rightarrow> ('d rv64_iss, unit) M" where
  "rv64_validate_csr_counter_read_access_rights addr =
     (if 0xC00 \<le> addr \<and> addr \<le> 0xC1F
      then (let cnt = unat (addr AND 0x1F) in
        bindM (getsM (\<lambda>s. rv64_s_mode s \<and> \<not> rv64_is_bitset (rv64_csrs s rv64_csr_mcounteren) cnt))
          (\<lambda>b. seqM (whenM b rv64_RAISE_ILLEGAL_INSTRUCTION)
        (bindM (getsM (\<lambda>s. rv64_u_mode s \<and> (\<not> rv64_is_bitset (rv64_csrs s rv64_csr_mcounteren) cnt \<or>
                             \<not> rv64_is_bitset (rv64_csrs s rv64_csr_scounteren) cnt)))
          (\<lambda>b. whenM b rv64_RAISE_ILLEGAL_INSTRUCTION))))
      else ret ())"

text \<open>The lambda \<^verbatim>\<open>read\<close>.\<close>

definition rv64_csr_read :: "rv64_csr_cell \<Rightarrow> u64 \<Rightarrow> ('d rv64_iss, u64) M" where
  "rv64_csr_read c m = getsM (\<lambda>s. rv64_csrs s c AND m)"

definition rv64_read_mtime :: "'d rv64_iss_env \<Rightarrow> ('d rv64_iss, u64) M" where
  "rv64_read_mtime E = bindM (rv64_update_and_get_mtime E) (\<lambda>mtime.
     seqM (modifyM (rv64_csr_upd rv64_csr_time mtime)) (getsM (\<lambda>s. rv64_csrs s rv64_csr_time)))"

definition rv64_read_cycles :: "('d rv64_iss, u64) M" where
  "rv64_read_cycles = seqM (modifyM rv64_commit_cycles) (bindM rv64_compute_and_get_current_cycles (\<lambda>n.
     seqM (modifyM (rv64_csr_upd rv64_csr_cycle n)) (getsM (\<lambda>s. rv64_csrs s rv64_csr_cycle))))"

definition rv64_csr_default_read :: "u32 \<Rightarrow> ('d rv64_iss, u64) M" where
  "rv64_csr_default_read addr =
     (if \<not> rv64_is_valid_csr64_addr (unat addr) then rv64_RAISE_ILLEGAL_INSTRUCTION
      else bindM (getsM rv64_csrs) (\<lambda>t. case rv64_default_read64 (unat addr) t of
             Inl e \<Rightarrow> raise e | Inr v \<Rightarrow> ret v))"

definition rv64_read_vcsr :: "('d rv64_iss, u64) M" where
  "rv64_read_vcsr =
     seqM (modifyM (\<lambda>s. rv64_csr_fset rv64_csr_vcsr vcsr_vxrm (rv64_csr_fget rv64_csr_vxrm vxrm_vxrm s) s))
     (seqM (modifyM (\<lambda>s. rv64_csr_fset rv64_csr_vcsr vcsr_vxsat (rv64_csr_fget rv64_csr_vxsat vxsat_vxsat s) s))
       (getsM (\<lambda>s. rv64_csrs s rv64_csr_vcsr)))"

text \<open>\<^verbatim>\<open>SATP\<close> is trapped when \<^verbatim>\<open>mstatus.TVM\<close> is set, and falls through to the default read.\<close>

definition rv64_check_tvm :: "('d rv64_iss, unit) M" where
  "rv64_check_tvm = bindM (getsM (rv64_csr_fget rv64_csr_mstatus mstatus_tvm))
     (\<lambda>tvm. whenM (tvm \<noteq> 0) rv64_RAISE_ILLEGAL_INSTRUCTION)"

definition rv64_get_csr_value :: "'d rv64_iss_env \<Rightarrow> u32 \<Rightarrow> ('d rv64_iss, u64) M" where
  "rv64_get_csr_value E addr = seqM (rv64_validate_csr_counter_read_access_rights addr)
    (if rv64_is_hpmcounter (unat addr) then ret 0
     else switch_on (unat addr)
      [(TIME_ADDR, rv64_read_mtime E), (MTIME_ADDR, rv64_read_mtime E),
       (CYCLE_ADDR, rv64_read_cycles), (MCYCLE_ADDR, rv64_read_cycles),
       (MINSTRET_ADDR, getsM (\<lambda>s. rv64_csrs s rv64_csr_instret)),
       (MSTATUS_ADDR, rv64_csr_read rv64_csr_mstatus rv64_MSTATUS_READ_MASK),
       (SSTATUS_ADDR, rv64_csr_read rv64_csr_mstatus rv64_SSTATUS_READ_MASK),
       (USTATUS_ADDR, rv64_csr_read rv64_csr_mstatus rv64_USTATUS_READ_MASK),
       (MIP_ADDR, rv64_csr_read rv64_csr_mip rv64_MIP_READ_MASK),
       (SIP_ADDR, rv64_csr_read rv64_csr_mip rv64_SIP_MASK),
       (UIP_ADDR, rv64_csr_read rv64_csr_mip rv64_UIP_MASK),
       (MIE_ADDR, rv64_csr_read rv64_csr_mie rv64_MIE_MASK),
       (SIE_ADDR, rv64_csr_read rv64_csr_mie rv64_SIE_MASK),
       (UIE_ADDR, rv64_csr_read rv64_csr_mie rv64_UIE_MASK),
       (SATP_ADDR, seqM rv64_check_tvm (rv64_csr_default_read addr)),
       (FCSR_ADDR, rv64_csr_read rv64_csr_fcsr rv64_FCSR_MASK),
       (FFLAGS_ADDR, getsM (rv64_csr_fget rv64_csr_fcsr fcsr_fflags)),
       (FRM_ADDR, getsM (rv64_csr_fget rv64_csr_fcsr fcsr_frm)),
       (VCSR_ADDR, rv64_read_vcsr)]
      (rv64_csr_default_read addr))"

text \<open>The lambda \<^verbatim>\<open>write\<close>.\<close>

definition rv64_csr_write :: "rv64_csr_cell \<Rightarrow> u64 \<Rightarrow> u64 \<Rightarrow> ('d rv64_iss, unit) M" where
  "rv64_csr_write c m v = modifyM (\<lambda>s. rv64_csr_upd c (rv64_masked_write m v (rv64_csrs s c)) s)"

definition rv64_csr_default_write :: "u32 \<Rightarrow> u64 \<Rightarrow> ('d rv64_iss, unit) M" where
  "rv64_csr_default_write addr v =
     (if \<not> rv64_is_valid_csr64_addr (unat addr) then rv64_RAISE_ILLEGAL_INSTRUCTION
      else bindM (getsM rv64_csrs) (\<lambda>t. case rv64_default_write64 (unat addr) v t of
             Inl e \<Rightarrow> raise e | Inr t' \<Rightarrow> modifyM (\<lambda>s. s\<lparr>rv64_csrs := t'\<rparr>)))"

definition rv64_write_epc :: "rv64_csr_cell \<Rightarrow> u64 \<Rightarrow> ('d rv64_iss, unit) M" where
  "rv64_write_epc c v = bindM (getsM rv64_pc_alignment_mask) (\<lambda>m. rv64_csr_write c m v)"

text \<open>A write of \<^verbatim>\<open>satp\<close> with a mode that is not supported keeps the old mode, but takes the other fields.\<close>

definition rv64_write_satp :: "u64 \<Rightarrow> ('d rv64_iss, unit) M" where
  "rv64_write_satp v = bindM (getsM (rv64_csr_fget rv64_csr_satp rv64_satp_mode)) (\<lambda>mode.
     seqM (rv64_csr_write rv64_csr_satp rv64_SATP_MASK v)
     (bindM (getsM (rv64_csr_fget rv64_csr_satp rv64_satp_mode)) (\<lambda>new.
      whenM (new \<noteq> rv64_SATP_MODE_BARE \<and> new \<noteq> rv64_SATP_MODE_SV39 \<and> new \<noteq> rv64_SATP_MODE_SV48)
        (modifyM (rv64_csr_fset rv64_csr_satp rv64_satp_mode mode)))))"

definition rv64_set_csr_value :: "u32 \<Rightarrow> u64 \<Rightarrow> ('d rv64_iss, unit) M" where
  "rv64_set_csr_value addr v = seqM
    (if rv64_is_hpmcounter (unat addr) then ret ()
     else switch_on (unat addr)
      [(MISA_ADDR, ret ()),
       (SATP_ADDR, seqM rv64_check_tvm (rv64_write_satp v)),
       (MTVEC_ADDR, rv64_csr_write rv64_csr_mtvec rv64_MTVEC_MASK v),
       (STVEC_ADDR, rv64_csr_write rv64_csr_stvec rv64_MTVEC_MASK v),
       (UTVEC_ADDR, rv64_csr_write rv64_csr_utvec rv64_MTVEC_MASK v),
       (MEPC_ADDR, rv64_write_epc rv64_csr_mepc v),
       (SEPC_ADDR, rv64_write_epc rv64_csr_sepc v),
       (UEPC_ADDR, rv64_write_epc rv64_csr_uepc v),
       (MSTATUS_ADDR, rv64_csr_write rv64_csr_mstatus rv64_MSTATUS_WRITE_MASK v),
       (SSTATUS_ADDR, rv64_csr_write rv64_csr_mstatus rv64_SSTATUS_WRITE_MASK v),
       (USTATUS_ADDR, rv64_csr_write rv64_csr_mstatus rv64_USTATUS_WRITE_MASK v),
       (MIP_ADDR, rv64_csr_write rv64_csr_mip rv64_MIP_WRITE_MASK v),
       (SIP_ADDR, rv64_csr_write rv64_csr_mip rv64_SIP_MASK v),
       (UIP_ADDR, rv64_csr_write rv64_csr_mip rv64_UIP_MASK v),
       (MIE_ADDR, rv64_csr_write rv64_csr_mie rv64_MIE_MASK v),
       (SIE_ADDR, rv64_csr_write rv64_csr_mie rv64_SIE_MASK v),
       (UIE_ADDR, rv64_csr_write rv64_csr_mie rv64_UIE_MASK v),
       (MIDELEG_ADDR, rv64_csr_write rv64_csr_mideleg rv64_MIDELEG_MASK v),
       (MEDELEG_ADDR, rv64_csr_write rv64_csr_medeleg rv64_MEDELEG_MASK v),
       (SIDELEG_ADDR, rv64_csr_write rv64_csr_sideleg rv64_SIDELEG_MASK v),
       (SEDELEG_ADDR, rv64_csr_write rv64_csr_sedeleg rv64_SEDELEG_MASK v),
       (MCOUNTEREN_ADDR, rv64_csr_write rv64_csr_mcounteren rv64_MCOUNTEREN_MASK v),
       (SCOUNTEREN_ADDR, rv64_csr_write rv64_csr_scounteren rv64_MCOUNTEREN_MASK v),
       (MCOUNTINHIBIT_ADDR, seqM (modifyM rv64_commit_cycles) (rv64_csr_write rv64_csr_mcountinhibit rv64_MCOUNTINHIBIT_MASK v)),
       (FCSR_ADDR, rv64_csr_write rv64_csr_fcsr rv64_FCSR_MASK v),
       (FFLAGS_ADDR, modifyM (rv64_csr_fset rv64_csr_fcsr fcsr_fflags v)),
       (FRM_ADDR, modifyM (rv64_csr_fset rv64_csr_fcsr fcsr_frm v)),
       (VXSAT_ADDR, seqM (rv64_csr_write rv64_csr_vxsat rv64_VXSAT_MASK v)
          (modifyM (\<lambda>s. rv64_csr_fset rv64_csr_vcsr vcsr_vxsat (rv64_csr_fget rv64_csr_vxsat vxsat_vxsat s) s))),
       (VXRM_ADDR, seqM (rv64_csr_write rv64_csr_vxrm rv64_VXRM_MASK v)
          (modifyM (\<lambda>s. rv64_csr_fset rv64_csr_vcsr vcsr_vxrm (rv64_csr_fget rv64_csr_vxrm vxrm_vxrm s) s))),
       (VCSR_ADDR, seqM (rv64_csr_write rv64_csr_vcsr rv64_VCSR_MASK v)
          (seqM (modifyM (\<lambda>s. rv64_csr_fset rv64_csr_vxrm vxrm_vxrm (rv64_csr_fget rv64_csr_vcsr vcsr_vxrm s) s))
            (modifyM (\<lambda>s. rv64_csr_fset rv64_csr_vxsat vxsat_vxsat (rv64_csr_fget rv64_csr_vcsr vcsr_vxsat s) s))))]
      (rv64_csr_default_write addr v))
    (modifyM rv64_maybe_interrupt_pending)"

section \<open>Traps\<close>

definition rv64_set_cause :: "rv64_csr_cell \<Rightarrow> u64 \<Rightarrow> u64 \<Rightarrow> 'd rv64_iss \<Rightarrow> 'd rv64_iss" where
  "rv64_set_cause c code irq s = rv64_csr_fset c rv64_mcause_interrupt irq (rv64_csr_fset c rv64_mcause_exception_code code s)"

definition rv64_record_trap :: "rv64_csr_cell \<Rightarrow> rv64_csr_cell \<Rightarrow> u32 \<Rightarrow> u64 \<Rightarrow> ('d rv64_iss, unit) M" where
  "rv64_record_trap cause tval reason mtval =
     seqM (modifyM (rv64_set_cause cause (ucast reason) 0)) (modifyM (rv64_csr_upd tval mtval))"

definition rv64_prepare_trap :: "u32 \<Rightarrow> u64 \<Rightarrow> u64 \<Rightarrow> ('d rv64_iss, u32) M" where
  "rv64_prepare_trap reason mtval last_pc =
     seqM (modifyM (\<lambda>s. s\<lparr>rv64_pc := last_pc\<rparr>))
     (let exc_bit = ucast (push_bit (unat reason) 1 :: u32) in
      bindM (getsM (\<lambda>s. rv64_prv s = MachineMode \<or> exc_bit AND rv64_csrs s rv64_csr_medeleg = 0)) (\<lambda>m.
       if m then seqM (rv64_record_trap rv64_csr_mcause rv64_csr_mtval reason mtval) (ret MachineMode)
       else bindM (getsM (\<lambda>s. rv64_prv s = SupervisorMode \<or> exc_bit AND rv64_csrs s rv64_csr_sedeleg = 0)) (\<lambda>sv.
        if sv then seqM (rv64_record_trap rv64_csr_scause rv64_csr_stval reason mtval) (ret SupervisorMode)
        else bindM (getsM (\<lambda>s. rv64_prv s = UserMode \<and> exc_bit AND rv64_csrs s rv64_csr_medeleg \<noteq> 0 \<and>
                              exc_bit AND rv64_csrs s rv64_csr_sedeleg \<noteq> 0)) (\<lambda>ok.
         seqM (assertM ok)
         (seqM (rv64_record_trap rv64_csr_ucause rv64_csr_utval reason mtval) (ret UserMode))))))"

text \<open>The \<^verbatim>\<open>if\<close> cascade of \<^verbatim>\<open>prepare_interrupt\<close>: external before software before timer, machine before
  supervisor before user.\<close>

definition rv64_interrupt_code :: "u64 \<Rightarrow> u32 option" where
  "rv64_interrupt_code x =
     (if fget mip_meip x \<noteq> 0 then Some EXC_M_EXTERNAL_INTERRUPT
      else if fget mip_msip x \<noteq> 0 then Some EXC_M_SOFTWARE_INTERRUPT
      else if fget mip_mtip x \<noteq> 0 then Some EXC_M_TIMER_INTERRUPT
      else if fget mip_seip x \<noteq> 0 then Some EXC_S_EXTERNAL_INTERRUPT
      else if fget mip_ssip x \<noteq> 0 then Some EXC_S_SOFTWARE_INTERRUPT
      else if fget mip_stip x \<noteq> 0 then Some EXC_S_TIMER_INTERRUPT
      else if fget mip_ueip x \<noteq> 0 then Some EXC_U_EXTERNAL_INTERRUPT
      else if fget mip_usip x \<noteq> 0 then Some EXC_U_SOFTWARE_INTERRUPT
      else if fget mip_utip x \<noteq> 0 then Some EXC_U_TIMER_INTERRUPT
      else None)"

definition rv64_prepare_interrupt :: "u32 \<Rightarrow> u64 \<Rightarrow> ('d rv64_iss, unit) M" where
  "rv64_prepare_interrupt target_mode pending = (case rv64_interrupt_code pending of
     None \<Rightarrow> raise RuntimeError
   | Some exc \<Rightarrow> switch_on target_mode
       [(MachineMode, modifyM (rv64_set_cause rv64_csr_mcause (ucast exc) 1)),
        (SupervisorMode, modifyM (rv64_set_cause rv64_csr_scause (ucast exc) 1)),
        (UserMode, modifyM (rv64_set_cause rv64_csr_ucause (ucast exc) 1))]
       (raise RuntimeError))"

definition rv64_compute_pending_interrupts :: "'d rv64_iss \<Rightarrow> u32 \<times> u64" where
  "rv64_compute_pending_interrupts s =
     (let pending = rv64_csrs s rv64_csr_mie AND rv64_csrs s rv64_csr_mip in
      if pending = 0 then (NoneMode, 0)
      else let m_pending = pending AND NOT (rv64_csrs s rv64_csr_mideleg) in
      if m_pending \<noteq> 0 \<and>
         (rv64_prv s < MachineMode \<or> rv64_prv s = MachineMode \<and> rv64_csr_fget rv64_csr_mstatus mstatus_mie s \<noteq> 0)
      then (MachineMode, m_pending)
      else let pending = pending AND rv64_csrs s rv64_csr_mideleg;
               s_pending = pending AND NOT (rv64_csrs s rv64_csr_sideleg) in
      if s_pending \<noteq> 0 \<and>
         (rv64_prv s < SupervisorMode \<or> rv64_prv s = SupervisorMode \<and> rv64_csr_fget rv64_csr_mstatus mstatus_sie s \<noteq> 0)
      then (SupervisorMode, s_pending)
      else let u_pending = pending AND rv64_csrs s rv64_csr_sideleg in
      if u_pending \<noteq> 0 \<and> rv64_prv s = UserMode \<and> rv64_csr_fget rv64_csr_mstatus mstatus_uie s \<noteq> 0
      then (UserMode, u_pending)
      else (NoneMode, 0))"

definition rv64_has_pending_enabled_interrupts :: "'d rv64_iss \<Rightarrow> bool" where
  "rv64_has_pending_enabled_interrupts s \<longleftrightarrow> fst (rv64_compute_pending_interrupts s) \<noteq> NoneMode"

definition rv64_has_local_pending_enabled_interrupts :: "'d rv64_iss \<Rightarrow> bool" where
  "rv64_has_local_pending_enabled_interrupts s \<longleftrightarrow> rv64_csrs s rv64_csr_mie AND rv64_csrs s rv64_csr_mip \<noteq> 0"

section \<open>Trap entry and return\<close>

text \<open>\<^verbatim>\<open>pc = xtvec.get_base_address()\<close>, plus the vector offset of an interrupt.\<close>

definition rv64_vectored_pc :: "rv64_csr_cell \<Rightarrow> rv64_csr_cell \<Rightarrow> u64 \<Rightarrow> 'd rv64_iss \<Rightarrow> u64" where
  "rv64_vectored_pc cause tvec base s =
     (if rv64_csr_fget cause rv64_mcause_interrupt s \<noteq> 0 \<and> rv64_csr_fget tvec mtvec_mode s = 1
      then base + 4 * rv64_csr_fget cause rv64_mcause_exception_code s else base)"

definition rv64_enter_machine :: "u32 \<Rightarrow> ('d rv64_iss, unit) M" where
  "rv64_enter_machine pp =
     seqM (modifyM (\<lambda>s. rv64_csr_upd rv64_csr_mepc (rv64_pc s) s))
     (seqM (modifyM (\<lambda>s. rv64_csr_fset rv64_csr_mstatus mstatus_mpie (rv64_csr_fget rv64_csr_mstatus mstatus_mie s) s))
     (seqM (modifyM (rv64_csr_fset rv64_csr_mstatus mstatus_mie 0))
     (seqM (modifyM (rv64_csr_fset rv64_csr_mstatus mstatus_mpp (ucast pp)))
     (seqM (modifyM (\<lambda>s. s\<lparr>rv64_pc := rv64_get_base_address (rv64_csrs s rv64_csr_mtvec)\<rparr>))
     (bindM (getsM (\<lambda>s. rv64_pc s = 0 \<and> rv64_error_on_zero_traphandler s)) (\<lambda>err.
      if err then raise RuntimeError
      else modifyM (\<lambda>s. s\<lparr>rv64_pc := rv64_vectored_pc rv64_csr_mcause rv64_csr_mtvec (rv64_pc s) s\<rparr>)))))))"

definition rv64_enter_supervisor :: "u32 \<Rightarrow> ('d rv64_iss, unit) M" where
  "rv64_enter_supervisor pp =
     bindM (getsM (\<lambda>s. rv64_prv s = SupervisorMode \<or> rv64_prv s = UserMode)) (\<lambda>ok.
     seqM (assertM ok)
     (seqM (modifyM (\<lambda>s. rv64_csr_upd rv64_csr_sepc (rv64_pc s) s))
     (seqM (modifyM (\<lambda>s. rv64_csr_fset rv64_csr_mstatus mstatus_spie (rv64_csr_fget rv64_csr_mstatus mstatus_sie s) s))
     (seqM (modifyM (rv64_csr_fset rv64_csr_mstatus mstatus_sie 0))
     (seqM (modifyM (rv64_csr_fset rv64_csr_mstatus mstatus_spp (ucast pp)))
     (seqM (modifyM (\<lambda>s. s\<lparr>rv64_pc := rv64_get_base_address (rv64_csrs s rv64_csr_stvec)\<rparr>))
       (modifyM (\<lambda>s. s\<lparr>rv64_pc := rv64_vectored_pc rv64_csr_scause rv64_csr_stvec (rv64_pc s) s\<rparr>))))))))"

definition rv64_enter_user :: "('d rv64_iss, unit) M" where
  "rv64_enter_user =
     bindM (getsM (\<lambda>s. rv64_prv s = UserMode)) (\<lambda>ok.
     seqM (assertM ok)
     (seqM (modifyM (\<lambda>s. rv64_csr_upd rv64_csr_uepc (rv64_pc s) s))
     (seqM (modifyM (\<lambda>s. rv64_csr_fset rv64_csr_mstatus mstatus_upie (rv64_csr_fget rv64_csr_mstatus mstatus_uie s) s))
     (seqM (modifyM (rv64_csr_fset rv64_csr_mstatus mstatus_uie 0))
     (seqM (modifyM (\<lambda>s. s\<lparr>rv64_pc := rv64_get_base_address (rv64_csrs s rv64_csr_utvec)\<rparr>))
       (modifyM (\<lambda>s. s\<lparr>rv64_pc := rv64_vectored_pc rv64_csr_ucause rv64_csr_utvec (rv64_pc s) s\<rparr>)))))))"

definition rv64_switch_to_trap_handler :: "'d rv64_iss_env \<Rightarrow> u32 \<Rightarrow> ('d rv64_iss, unit) M" where
  "rv64_switch_to_trap_handler E target_mode =
     seqM (rv64_release_lr_sc_reservation E)
     (bindM (getsM rv64_prv) (\<lambda>pp.
      seqM (modifyM (\<lambda>s. s\<lparr>rv64_prv := target_mode\<rparr>))
      (seqM (switch_on target_mode
               [(MachineMode, rv64_enter_machine pp), (SupervisorMode, rv64_enter_supervisor pp),
                (UserMode, rv64_enter_user)] (raise RuntimeError))
        (modifyM (\<lambda>s. rv64_enter_trap (rv64_pc s) s)))))"

definition rv64_handle_interrupt :: "'d rv64_iss_env \<Rightarrow> ('d rv64_iss, unit) M" where
  "rv64_handle_interrupt E = bindM (getsM rv64_compute_pending_interrupts) (\<lambda>(target_mode, pending).
     whenM (target_mode \<noteq> NoneMode)
       (seqM (rv64_prepare_interrupt target_mode pending) (rv64_switch_to_trap_handler E target_mode)))"

definition rv64_handle_trap :: "'d rv64_iss_env \<Rightarrow> u32 \<Rightarrow> u64 \<Rightarrow> u64 \<Rightarrow> ('d rv64_iss, unit) M" where
  "rv64_handle_trap E reason mtval last_pc =
     bindM (rv64_prepare_trap reason mtval last_pc) (rv64_switch_to_trap_handler E)"

definition rv64_return_machine :: "'d rv64_iss \<Rightarrow> 'd rv64_iss" where
  "rv64_return_machine s =
     (let s = s\<lparr>rv64_prv := ucast (rv64_csr_fget rv64_csr_mstatus mstatus_mpp s)\<rparr>;
          s = rv64_csr_fset rv64_csr_mstatus mstatus_mie (rv64_csr_fget rv64_csr_mstatus mstatus_mpie s) s;
          s = rv64_csr_fset rv64_csr_mstatus mstatus_mpie 1 s;
          s = s\<lparr>rv64_pc := rv64_csrs s rv64_csr_mepc\<rparr>
      in rv64_csr_fset rv64_csr_mstatus mstatus_mpp
           (ucast (if rv64_has_user_mode_extension (rv64_csrs s) then UserMode else MachineMode)) s)"

definition rv64_return_supervisor :: "'d rv64_iss \<Rightarrow> 'd rv64_iss" where
  "rv64_return_supervisor s =
     (let s = s\<lparr>rv64_prv := ucast (rv64_csr_fget rv64_csr_mstatus mstatus_spp s)\<rparr>;
          s = rv64_csr_fset rv64_csr_mstatus mstatus_sie (rv64_csr_fget rv64_csr_mstatus mstatus_spie s) s;
          s = rv64_csr_fset rv64_csr_mstatus mstatus_spie 1 s;
          s = s\<lparr>rv64_pc := rv64_csrs s rv64_csr_sepc\<rparr>
      in rv64_csr_fset rv64_csr_mstatus mstatus_spp
           (ucast (if rv64_has_user_mode_extension (rv64_csrs s) then UserMode else SupervisorMode)) s)"

definition rv64_return_user :: "'d rv64_iss \<Rightarrow> 'd rv64_iss" where
  "rv64_return_user s =
     (let s = s\<lparr>rv64_prv := UserMode\<rparr>;
          s = rv64_csr_fset rv64_csr_mstatus mstatus_uie (rv64_csr_fget rv64_csr_mstatus mstatus_upie s) s;
          s = rv64_csr_fset rv64_csr_mstatus mstatus_upie 1 s
      in s\<lparr>rv64_pc := rv64_csrs s rv64_csr_uepc\<rparr>)"

definition rv64_return_from_trap_handler :: "u32 \<Rightarrow> ('d rv64_iss, unit) M" where
  "rv64_return_from_trap_handler return_mode =
     seqM (switch_on return_mode
             [(MachineMode, modifyM rv64_return_machine), (SupervisorMode, modifyM rv64_return_supervisor),
              (UserMode, modifyM rv64_return_user)] (raise RuntimeError))
       (modifyM (\<lambda>s. rv64_force_slow_path (rv64_ret_trap (rv64_pc s) s)))"

section \<open>Interrupt lines\<close>

definition rv64_trigger_external_interrupt :: "u32 \<Rightarrow> 'd rv64_iss \<Rightarrow> 'd rv64_iss" where
  "rv64_trigger_external_interrupt level s = rv64_maybe_interrupt_pending (switch_on level
     [(UserMode, rv64_csr_fset rv64_csr_mip mip_ueip 1 s), (SupervisorMode, rv64_csr_fset rv64_csr_mip mip_seip 1 s),
      (MachineMode, rv64_csr_fset rv64_csr_mip mip_meip 1 s)] s)"

definition rv64_clear_external_interrupt :: "u32 \<Rightarrow> 'd rv64_iss \<Rightarrow> 'd rv64_iss" where
  "rv64_clear_external_interrupt level s = switch_on level
     [(UserMode, rv64_csr_fset rv64_csr_mip mip_ueip 0 s), (SupervisorMode, rv64_csr_fset rv64_csr_mip mip_seip 0 s),
      (MachineMode, rv64_csr_fset rv64_csr_mip mip_meip 0 s)] s"

definition rv64_trigger_timer_interrupt :: "'d rv64_iss \<Rightarrow> 'd rv64_iss" where
  "rv64_trigger_timer_interrupt s = rv64_maybe_interrupt_pending (rv64_csr_fset rv64_csr_mip mip_mtip 1 s)"

definition rv64_clear_timer_interrupt :: "'d rv64_iss \<Rightarrow> 'd rv64_iss" where
  "rv64_clear_timer_interrupt s = rv64_csr_fset rv64_csr_mip mip_mtip 0 s"

definition rv64_trigger_software_interrupt :: "'d rv64_iss \<Rightarrow> 'd rv64_iss" where
  "rv64_trigger_software_interrupt s = rv64_maybe_interrupt_pending (rv64_csr_fset rv64_csr_mip mip_msip 1 s)"

definition rv64_clear_software_interrupt :: "'d rv64_iss \<Rightarrow> 'd rv64_iss" where
  "rv64_clear_software_interrupt s = rv64_csr_fset rv64_csr_mip mip_msip 0 s"

end
