(* ===== verification/RV64_Mem.thy ===== *)
theory RV64_Mem
  imports RV64_Trap VP_Mem
begin

text \<open>
  The memory system of one RV64 hart: the instances \<^verbatim>\<open>MMU_T<ISS>\<close>, \<^verbatim>\<open>CombinedMemoryInterface_T<ISS, int64_t, uint64_t>\<close>
  and \<^verbatim>\<open>LSCache_T<int64_t, uint64_t>\<close> of the templates of \<open>VP_Mem\<close>, whose definitions that do not depend on the hart
  are used here. Words are sign-extended when they are loaded, there are double-word atomic accesses, and the tags of
  the load/store cache have 64 bits.
\<close>

section \<open>State\<close>

text \<open>\<^verbatim>\<open>LSCache_T::Entry\<close>\<close>

record rv64_lsc_entry =
  rv64_tag_valid :: u64
  rv64_host_page_addr :: host_ptr

text \<open>
  The members of \<^verbatim>\<open>CombinedMemoryInterface_T\<close>, of the \<^verbatim>\<open>MMU_T\<close>, the \<^verbatim>\<open>BusLock\<close> and the \<^verbatim>\<open>LSCache_T\<close>
  it works with, and host memory. The type parameter is the state of the devices.
\<close>

record 'b rv64_cmi =
  rv64_lr_addr :: u64
  rv64_dmi_on :: bool
  rv64_dmi_ranges :: "MemoryDMI list"
  rv64_dmi_ranges_disabled :: "MemoryDMI list"
  rv64_last_access_was_dmi :: bool
  rv64_last_dmi_page_host_addr :: host_ptr
  rv64_tlb :: "nat \<Rightarrow> MemoryAccessType \<Rightarrow> nat \<Rightarrow> tlb_entry"
  rv64_page_fault_on_AD :: bool
  rv64_bus_lock :: buslock
  rv64_lsc_enabled :: bool
  rv64_lsc :: "nat \<Rightarrow> rv64_lsc_entry"
  rv64_host :: "nat \<Rightarrow> u64 \<Rightarrow> u8"
  rv64_devices :: 'b

text \<open>
  How the interface is connected: whether an MMU is attached, and the target of its socket. The
  transport function returns whether the response is an error.
\<close>

record 'b rv64_cmi_conn =
  rv64_has_mmu :: bool
  rv64_b_transport :: "bool \<Rightarrow> u64 \<Rightarrow> u8 list \<Rightarrow> ('b rv64_cmi rv64_iss, bool \<times> u8 list) M"

abbreviation rv64_mem_upd :: "('b rv64_cmi \<Rightarrow> 'b rv64_cmi) \<Rightarrow> 'b rv64_cmi rv64_iss \<Rightarrow> 'b rv64_cmi rv64_iss" where
  "rv64_mem_upd f s \<equiv> s\<lparr>rv64_mem_st := f (rv64_mem_st s)\<rparr>"

section \<open>The bus lock\<close>

text \<open>\<^verbatim>\<open>wait_until_unlocked\<close>: the process sleeps as long as the bus is locked.\<close>

definition rv64_wait_until_unlocked :: "('b rv64_cmi rv64_iss, unit) M" where
  "rv64_wait_until_unlocked = bindM (getsM (\<lambda>s. locked (rv64_bus_lock (rv64_mem_st s)))) (\<lambda>l. whenM l (raise Suspended))"

definition rv64_bus_lock_lock :: "u32 \<Rightarrow> ('b rv64_cmi rv64_iss, unit) M" where
  "rv64_bus_lock_lock rv64_hart =
     bindM (getsM (\<lambda>s. rv64_bus_lock (rv64_mem_st s))) (\<lambda>l.
      seqM (whenM (locked l \<and> rv64_hart \<noteq> owner l) rv64_wait_until_unlocked)
     (bindM (getsM (\<lambda>s. rv64_bus_lock (rv64_mem_st s))) (\<lambda>l.
      seqM (assertM (\<not> locked l \<or> rv64_hart = owner l))
        (modifyM (rv64_mem_upd (\<lambda>m. m\<lparr>rv64_bus_lock := \<lparr>locked = True, owner = rv64_hart\<rparr>\<rparr>))))))"

text \<open>\<^verbatim>\<open>bus_lock_if::wait_for_access_rights\<close>\<close>

definition rv64_wait_for_access_rights :: "u32 \<Rightarrow> ('b rv64_cmi rv64_iss, unit) M" where
  "rv64_wait_for_access_rights rv64_hart = bindM (getsM (\<lambda>s. rv64_bus_lock (rv64_mem_st s))) (\<lambda>l.
     whenM (locked l \<and> \<not> lock_is_locked_by rv64_hart l) rv64_wait_until_unlocked)"

text \<open>The interface passes the 64-bit hart identifier to \<^verbatim>\<open>unsigned\<close> parameters.\<close>

definition rv64_hart :: "'b rv64_cmi rv64_iss \<Rightarrow> u32" where
  "rv64_hart s = ucast (rv64_get_hart_id s)"

definition rv64_cmi_atomic_unlock :: "('b rv64_cmi rv64_iss, unit) M" where
  "rv64_cmi_atomic_unlock = modifyM (\<lambda>s. rv64_mem_upd (\<lambda>m. m\<lparr>rv64_bus_lock := lock_unlock (rv64_hart s) (rv64_bus_lock m)\<rparr>) s)"

section \<open>Direct memory access\<close>

definition rv64_get_mem_ptr_to_global_addr :: "nat \<Rightarrow> MemoryDMI \<Rightarrow> u64 \<Rightarrow> ('b rv64_cmi rv64_iss, host_ptr) M" where
  "rv64_get_mem_ptr_to_global_addr n e addr =
     seqM (assertM (dmi_contains e addr))
     (seqM (assertM (addr + of_nat n \<le> dmi_end e))
       (ret (dmi_block e, addr - dmi_start e)))"

definition rv64_dmi_load :: "nat \<Rightarrow> MemoryDMI \<Rightarrow> u64 \<Rightarrow> ('b rv64_cmi rv64_iss, u8 list) M" where
  "rv64_dmi_load n e addr = bindM (rv64_get_mem_ptr_to_global_addr n e addr)
     (\<lambda>p. getsM (\<lambda>s. host_read n p (rv64_host (rv64_mem_st s))))"

definition rv64_dmi_store :: "MemoryDMI \<Rightarrow> u64 \<Rightarrow> u8 list \<Rightarrow> ('b rv64_cmi rv64_iss, unit) M" where
  "rv64_dmi_store e addr bs = bindM (rv64_get_mem_ptr_to_global_addr (length bs) e addr)
     (\<lambda>p. modifyM (rv64_mem_upd (\<lambda>m. m\<lparr>rv64_host := host_write p bs (rv64_host m)\<rparr>)))"

definition rv64_dmi_add :: "MemoryDMI \<Rightarrow> 'b rv64_cmi \<Rightarrow> 'b rv64_cmi" where
  "rv64_dmi_add e m = (if rv64_dmi_on m then m\<lparr>rv64_dmi_ranges := rv64_dmi_ranges m @ [e]\<rparr>
     else m\<lparr>rv64_dmi_ranges_disabled := rv64_dmi_ranges_disabled m @ [e]\<rparr>)"

definition rv64_dmi_enable :: "bool \<Rightarrow> 'b rv64_cmi \<Rightarrow> 'b rv64_cmi" where
  "rv64_dmi_enable ena m =
     (let m = (if ena \<noteq> rv64_dmi_on m
               then m\<lparr>rv64_dmi_ranges := rv64_dmi_ranges_disabled m, rv64_dmi_ranges_disabled := rv64_dmi_ranges m\<rparr> else m)
      in m\<lparr>rv64_dmi_on := ena\<rparr>)"

section \<open>Physical accesses\<close>

text \<open>A failed transaction is reported as a page fault of the physical address.\<close>

definition rv64_do_transaction :: "'b rv64_cmi_conn \<Rightarrow> bool \<Rightarrow> u64 \<Rightarrow> u8 list \<Rightarrow> ('b rv64_cmi rv64_iss, u8 list) M" where
  "rv64_do_transaction C is_write addr data =
     seqM (modifyM rv64_commit_cycles)
     (bindM (rv64_b_transport C is_write addr data) (\<lambda>(error, data').
      if error
      then raise (SimulationTrap (if is_write then EXC_STORE_AMO_PAGE_FAULT else EXC_LOAD_PAGE_FAULT) addr)
      else ret data'))"

definition rv64_record_dmi_access :: "nat \<Rightarrow> MemoryDMI \<Rightarrow> u64 \<Rightarrow> ('b rv64_cmi rv64_iss, unit) M" where
  "rv64_record_dmi_access n e addr =
     seqM (modifyM (rv64_mem_upd (\<lambda>m. m\<lparr>rv64_last_access_was_dmi := True\<rparr>)))
     (bindM (rv64_get_mem_ptr_to_global_addr n e (addr AND NOT 0xFFF)) (\<lambda>p.
       modifyM (rv64_mem_upd (\<lambda>m. m\<lparr>rv64_last_dmi_page_host_addr := p\<rparr>))))"

definition rv64_raw_load_data :: "'b rv64_cmi_conn \<Rightarrow> nat \<Rightarrow> u64 \<Rightarrow> ('b rv64_cmi rv64_iss, u8 list) M" where
  "rv64_raw_load_data C n addr =
     bindM (getsM rv64_hart) (\<lambda>h. seqM (rv64_wait_for_access_rights h)
     (bindM (getsM (\<lambda>s. find (\<lambda>e. dmi_contains e addr) (rv64_dmi_ranges (rv64_mem_st s)))) (\<lambda>r.
      case r of
        Some e \<Rightarrow> bindM (rv64_dmi_load n e addr) (\<lambda>bs. seqM (rv64_record_dmi_access n e addr) (ret bs))
      | None \<Rightarrow> bindM (rv64_do_transaction C False addr (replicate n 0)) (\<lambda>bs.
          seqM (modifyM (rv64_mem_upd (\<lambda>m. m\<lparr>rv64_last_access_was_dmi := False\<rparr>))) (ret bs)))))"

definition rv64_raw_store_data :: "'b rv64_cmi_conn \<Rightarrow> u64 \<Rightarrow> u8 list \<Rightarrow> ('b rv64_cmi rv64_iss, unit) M" where
  "rv64_raw_store_data C addr bs =
     bindM (getsM rv64_hart) (\<lambda>h. seqM (rv64_wait_for_access_rights h)
     (bindM (getsM (\<lambda>s. find (\<lambda>e. dmi_contains e addr) (rv64_dmi_ranges (rv64_mem_st s)))) (\<lambda>r.
      case r of
        Some e \<Rightarrow> seqM (rv64_dmi_store e addr bs)
                   (seqM (rv64_record_dmi_access (length bs) e addr) rv64_cmi_atomic_unlock)
      | None \<Rightarrow> seqM (rv64_do_transaction C True addr bs)
                  (seqM rv64_cmi_atomic_unlock
                    (modifyM (rv64_mem_upd (\<lambda>m. m\<lparr>rv64_last_access_was_dmi := False\<rparr>)))))))"

section \<open>Address translation\<close>

definition rv64_decode_vm_info :: "u32 \<Rightarrow> ('b rv64_cmi rv64_iss, vm_info) M" where
  "rv64_decode_vm_info mode =
     seqM (assertM (mode \<le> SupervisorMode))
     (bindM (getsM (\<lambda>s. rv64_csrs s rv64_csr_satp)) (\<lambda>satp.
      let base = push_bit 12 (fget rv64_satp_ppn satp) in
      switch_on (unat (fget rv64_satp_mode satp))
        [(1, ret \<lparr>levels = 2, idxbits = 10, ptesize = 4, ptbase = base\<rparr>),
         (8, ret \<lparr>levels = 3, idxbits = 9, ptesize = 8, ptbase = base\<rparr>),
         (9, ret \<lparr>levels = 4, idxbits = 9, ptesize = 8, ptbase = base\<rparr>),
         (10, ret \<lparr>levels = 5, idxbits = 9, ptesize = 8, ptbase = base\<rparr>),
         (11, ret \<lparr>levels = 6, idxbits = 9, ptesize = 8, ptbase = base\<rparr>)]
        (raise RuntimeError)))"

text \<open>\<^verbatim>\<open>core.xlen\<close> is 64.\<close>

definition rv64_check_vaddr_extension :: "u64 \<Rightarrow> vm_info \<Rightarrow> bool" where
  "rv64_check_vaddr_extension vaddr vi =
     (let highbit = idxbits vi * levels vi + 12 - 1;
          ext_mask = push_bit (64 - highbit) 1 - 1;
          bits = drop_bit highbit vaddr AND ext_mask
      in bits = 0 \<or> bits = ext_mask)"

definition rv64_mmu_load_pte32 :: "'b rv64_cmi_conn \<Rightarrow> u64 \<Rightarrow> ('b rv64_cmi rv64_iss, u64) M" where
  "rv64_mmu_load_pte32 C addr = bindM (rv64_raw_load_data C 4 addr) (\<lambda>bs. ret (ucast (bytes_to_word bs :: u32)))"

definition rv64_mmu_load_pte64 :: "'b rv64_cmi_conn \<Rightarrow> u64 \<Rightarrow> ('b rv64_cmi rv64_iss, u64) M" where
  "rv64_mmu_load_pte64 C addr = bindM (rv64_raw_load_data C 8 addr) (\<lambda>bs. ret (bytes_to_word bs))"

definition rv64_mmu_store_pte32 :: "'b rv64_cmi_conn \<Rightarrow> u64 \<Rightarrow> u32 \<Rightarrow> ('b rv64_cmi rv64_iss, unit) M" where
  "rv64_mmu_store_pte32 C addr v = rv64_raw_store_data C addr (word_to_bytes 4 v)"

definition rv64_raise_page_fault :: "u64 \<Rightarrow> MemoryAccessType \<Rightarrow> ('b rv64_cmi rv64_iss, 'a) M" where
  "rv64_raise_page_fault vaddr type = (case type of
     FETCH \<Rightarrow> raise (SimulationTrap EXC_INSTR_PAGE_FAULT vaddr)
   | LOAD \<Rightarrow> raise (SimulationTrap EXC_LOAD_PAGE_FAULT vaddr)
   | STORE \<Rightarrow> raise (SimulationTrap EXC_STORE_AMO_PAGE_FAULT vaddr))"

text \<open>
  The loop of \<^verbatim>\<open>MMU_T::walk\<close>; the last argument is one more than the level \<^verbatim>\<open>i\<close>, and a \<^verbatim>\<open>break\<close> is a
  page fault.
\<close>

fun rv64_walk_level ::
  "'b rv64_cmi_conn \<Rightarrow> vm_info \<Rightarrow> u64 \<Rightarrow> MemoryAccessType \<Rightarrow> bool \<Rightarrow> bool \<Rightarrow> bool \<Rightarrow> u64 \<Rightarrow> nat \<Rightarrow> ('b rv64_cmi rv64_iss, u64) M"
where
  "rv64_walk_level C vi vaddr type sm sumf mxr base 0 = rv64_raise_page_fault vaddr type"
| "rv64_walk_level C vi vaddr type sm sumf mxr base (Suc i) =
     (let ptshift = i * idxbits vi;
          vpn_field = ucast (drop_bit (12 + ptshift) vaddr AND (push_bit (idxbits vi) 1 - 1)) :: u32;
          pte_paddr = base + ucast (vpn_field * of_nat (ptesize vi))
      in seqM (assertM (ptesize vi = 4 \<or> ptesize vi = 8))
         (bindM (if ptesize vi = 4 then rv64_mmu_load_pte32 C pte_paddr else rv64_mmu_load_pte64 C pte_paddr) (\<lambda>pte.
          let ppn = drop_bit 10 pte in
          if \<not> pte_V pte \<or> \<not> pte_R pte \<and> pte_W pte then rv64_raise_page_fault vaddr type
          else if \<not> pte_R pte \<and> \<not> pte_X pte
          then rv64_walk_level C vi vaddr type sm sumf mxr (push_bit 12 ppn) i
          else if \<not> leaf_allowed type sm sumf mxr pte then rv64_raise_page_fault vaddr type
          else if ppn AND (push_bit ptshift 1 - 1) \<noteq> 0 then rv64_raise_page_fault vaddr type
          else let ad = PTE_A OR (if type = STORE then PTE_D else 0) in
               bindM (getsM (\<lambda>s. rv64_page_fault_on_AD (rv64_mem_st s))) (\<lambda>pf.
               if pte AND ad \<noteq> ad \<and> pf then rv64_raise_page_fault vaddr type
               else seqM (whenM (pte AND ad \<noteq> ad) (rv64_mmu_store_pte32 C pte_paddr (ucast (pte OR ad))))
                      (ret (walk_paddr vaddr ppn ptshift))))))"

definition rv64_walk :: "'b rv64_cmi_conn \<Rightarrow> u64 \<Rightarrow> MemoryAccessType \<Rightarrow> u32 \<Rightarrow> ('b rv64_cmi rv64_iss, u64) M" where
  "rv64_walk C vaddr type mode =
     bindM (getsM (\<lambda>s. (fget mstatus_sum (rv64_csrs s rv64_csr_mstatus) \<noteq> 0, fget mstatus_mxr (rv64_csrs s rv64_csr_mstatus) \<noteq> 0)))
     (\<lambda>(sumf, mxr). bindM (rv64_decode_vm_info mode) (\<lambda>vi.
       rv64_walk_level C vi vaddr type (mode = SupervisorMode) sumf mxr (ptbase vi)
         (if rv64_check_vaddr_extension vaddr vi then levels vi else 0)))"

text \<open>The mode whose rights a memory access uses.\<close>

definition rv64_access_mode :: "MemoryAccessType \<Rightarrow> 'b rv64_cmi rv64_iss \<Rightarrow> u32" where
  "rv64_access_mode type s =
     (if type \<noteq> FETCH \<and> fget mstatus_mprv (rv64_csrs s rv64_csr_mstatus) \<noteq> 0
      then ucast (fget mstatus_mpp (rv64_csrs s rv64_csr_mstatus)) else rv64_prv s)"

definition rv64_translate_virtual_to_physical_addr ::
  "'b rv64_cmi_conn \<Rightarrow> u64 \<Rightarrow> MemoryAccessType \<Rightarrow> ('b rv64_cmi rv64_iss, u64) M"
where
  "rv64_translate_virtual_to_physical_addr C vaddr type =
     bindM (getsM (\<lambda>s. (fget rv64_satp_mode (rv64_csrs s rv64_csr_satp) = 0, rv64_access_mode type s))) (\<lambda>(bare, mode).
     if bare then ret vaddr
     else if mode = MachineMode then ret vaddr
     else seqM (assertM (mode = 0 \<or> mode = 1))
      (let vpn = drop_bit 12 vaddr; idx = unat vpn mod 256 in
       bindM (getsM (\<lambda>s. rv64_tlb (rv64_mem_st s) (unat mode) type idx)) (\<lambda>x.
        if tlb_vpn x = vpn then ret (tlb_ppn x OR (vaddr AND 0xFFF))
        else bindM (rv64_walk C vaddr type mode) (\<lambda>paddr.
          seqM (modifyM (rv64_mem_upd (\<lambda>m. m\<lparr>rv64_tlb := (rv64_tlb m)(unat mode := (rv64_tlb m (unat mode))(type :=
                  (rv64_tlb m (unat mode) type)(idx := \<lparr>tlb_ppn = paddr AND NOT 0xFFF, tlb_vpn = vpn\<rparr>)))\<rparr>)))
            (ret paddr)))))"

definition rv64_mmu_flush_tlb :: "'b rv64_cmi \<Rightarrow> 'b rv64_cmi" where
  "rv64_mmu_flush_tlb m = m\<lparr>rv64_tlb := tlb_init\<rparr>"

definition rv64_v2p :: "'b rv64_cmi_conn \<Rightarrow> u64 \<Rightarrow> MemoryAccessType \<Rightarrow> ('b rv64_cmi rv64_iss, u64) M" where
  "rv64_v2p C vaddr type = (if \<not> rv64_has_mmu C then ret vaddr else rv64_translate_virtual_to_physical_addr C vaddr type)"

section \<open>The memory interface\<close>

definition rv64_load_data :: "'b rv64_cmi_conn \<Rightarrow> nat \<Rightarrow> u64 \<Rightarrow> ('b rv64_cmi rv64_iss, u8 list) M" where
  "rv64_load_data C n addr = bindM (rv64_v2p C addr LOAD) (rv64_raw_load_data C n)"

definition rv64_store_data :: "'b rv64_cmi_conn \<Rightarrow> u64 \<Rightarrow> u8 list \<Rightarrow> ('b rv64_cmi rv64_iss, unit) M" where
  "rv64_store_data C addr bs = bindM (rv64_v2p C addr STORE) (\<lambda>p. rv64_raw_store_data C p bs)"

definition rv64_cmi_flush_tlb :: "'b rv64_cmi_conn \<Rightarrow> ('b rv64_cmi rv64_iss, unit) M" where
  "rv64_cmi_flush_tlb C = (if \<not> rv64_has_mmu C then ret () else modifyM (rv64_mem_upd rv64_mmu_flush_tlb))"

text \<open>
  A fetch at the last half-word of a page is split. The two halves are operands of one expression;
  the model evaluates the upper half first.
\<close>

definition rv64_cmi_load_instr :: "'b rv64_cmi_conn \<Rightarrow> u64 \<Rightarrow> ('b rv64_cmi rv64_iss, u32) M" where
  "rv64_cmi_load_instr C addr =
     (if addr AND 0xFFF = 0xFFE
      then bindM (rv64_v2p C (addr + 2) FETCH) (\<lambda>p. bindM (rv64_raw_load_data C 2 p) (\<lambda>hi.
           bindM (rv64_v2p C addr FETCH) (\<lambda>p. bindM (rv64_raw_load_data C 2 p) (\<lambda>lo.
           ret (push_bit 16 (ucast (bytes_to_word hi :: u16)) OR ucast (bytes_to_word lo :: u16))))))
      else bindM (rv64_v2p C addr FETCH) (\<lambda>p. bindM (rv64_raw_load_data C 4 p) (\<lambda>bs. ret (bytes_to_word bs))))"

definition rv64_atomic_load_data :: "'b rv64_cmi_conn \<Rightarrow> nat \<Rightarrow> u64 \<Rightarrow> ('b rv64_cmi rv64_iss, u8 list) M" where
  "rv64_atomic_load_data C n addr = bindM (getsM rv64_hart) (\<lambda>h. seqM (rv64_bus_lock_lock h) (rv64_load_data C n addr))"

text \<open>The source only prints a warning when the bus is not locked.\<close>

definition rv64_atomic_store_data :: "'b rv64_cmi_conn \<Rightarrow> u64 \<Rightarrow> u8 list \<Rightarrow> ('b rv64_cmi rv64_iss, unit) M" where
  "rv64_atomic_store_data C addr bs = rv64_store_data C addr bs"

definition rv64_atomic_load_reserved_data :: "'b rv64_cmi_conn \<Rightarrow> nat \<Rightarrow> u64 \<Rightarrow> ('b rv64_cmi rv64_iss, u8 list) M" where
  "rv64_atomic_load_reserved_data C n addr = bindM (getsM rv64_hart) (\<lambda>h. seqM (rv64_bus_lock_lock h)
     (seqM (modifyM (rv64_mem_upd (\<lambda>m. m\<lparr>rv64_lr_addr := addr\<rparr>))) (rv64_load_data C n addr)))"

definition rv64_atomic_store_conditional_data :: "'b rv64_cmi_conn \<Rightarrow> u64 \<Rightarrow> u8 list \<Rightarrow> ('b rv64_cmi rv64_iss, bool) M" where
  "rv64_atomic_store_conditional_data C addr bs =
     bindM (getsM (\<lambda>s. (lock_is_locked_by (rv64_hart s) (rv64_bus_lock (rv64_mem_st s)), rv64_lr_addr (rv64_mem_st s)))) (\<lambda>(own, la).
     if own
     then (if addr = la then seqM (rv64_store_data C addr bs) (ret True)
           else seqM rv64_cmi_atomic_unlock (ret False))
     else ret False)"

definition rv64_cmi_get_last_dmi_page_host_addr :: "('b rv64_cmi rv64_iss, host_ptr option) M" where
  "rv64_cmi_get_last_dmi_page_host_addr = getsM (\<lambda>s.
     if \<not> rv64_last_access_was_dmi (rv64_mem_st s) then None else Some (rv64_last_dmi_page_host_addr (rv64_mem_st s)))"

definition rv64_cmi_if :: "'b rv64_cmi_conn \<Rightarrow> 'b rv64_cmi rv64_data_memory_if" where
  "rv64_cmi_if C =
    \<lparr>rv64_load_double = (\<lambda>a. bindM (rv64_load_data C 8 a) (\<lambda>bs. ret (bytes_to_word bs))),
     rv64_load_word = (\<lambda>a. bindM (rv64_load_data C 4 a) (\<lambda>bs. ret (scast (bytes_to_word bs :: u32)))),
     rv64_load_half = (\<lambda>a. bindM (rv64_load_data C 2 a) (\<lambda>bs. ret (scast (bytes_to_word bs :: u16)))),
     rv64_load_byte = (\<lambda>a. bindM (rv64_load_data C 1 a) (\<lambda>bs. ret (scast (bytes_to_word bs :: u8)))),
     rv64_load_uword = (\<lambda>a. bindM (rv64_load_data C 4 a) (\<lambda>bs. ret (ucast (bytes_to_word bs :: u32)))),
     rv64_load_uhalf = (\<lambda>a. bindM (rv64_load_data C 2 a) (\<lambda>bs. ret (ucast (bytes_to_word bs :: u16)))),
     rv64_load_ubyte = (\<lambda>a. bindM (rv64_load_data C 1 a) (\<lambda>bs. ret (ucast (bytes_to_word bs :: u8)))),
     rv64_store_double = (\<lambda>a v. rv64_store_data C a (word_to_bytes 8 v)),
     rv64_store_word = (\<lambda>a v. rv64_store_data C a (word_to_bytes 4 v)),
     rv64_store_half = (\<lambda>a v. rv64_store_data C a (word_to_bytes 2 v)),
     rv64_store_byte = (\<lambda>a v. rv64_store_data C a (word_to_bytes 1 v)),
     rv64_atomic_load_word = (\<lambda>a. bindM (rv64_atomic_load_data C 4 a) (\<lambda>bs. ret (scast (bytes_to_word bs :: u32)))),
     rv64_atomic_store_word = (\<lambda>a v. rv64_atomic_store_data C a (word_to_bytes 4 v)),
     rv64_atomic_load_reserved_word =
       (\<lambda>a. bindM (rv64_atomic_load_reserved_data C 4 a) (\<lambda>bs. ret (scast (bytes_to_word bs :: u32)))),
     rv64_atomic_store_conditional_word = (\<lambda>a v. rv64_atomic_store_conditional_data C a (word_to_bytes 4 v)),
     rv64_atomic_load_double = (\<lambda>a. bindM (rv64_atomic_load_data C 8 a) (\<lambda>bs. ret (bytes_to_word bs))),
     rv64_atomic_store_double = (\<lambda>a v. rv64_atomic_store_data C a (word_to_bytes 8 v)),
     rv64_atomic_load_reserved_double =
       (\<lambda>a. bindM (rv64_atomic_load_reserved_data C 8 a) (\<lambda>bs. ret (bytes_to_word bs))),
     rv64_atomic_store_conditional_double = (\<lambda>a v. rv64_atomic_store_conditional_data C a (word_to_bytes 8 v)),
     rv64_atomic_unlock = rv64_cmi_atomic_unlock,
     rv64_is_bus_locked = getsM (\<lambda>s. locked (rv64_bus_lock (rv64_mem_st s))),
     rv64_get_last_dmi_page_host_addr = rv64_cmi_get_last_dmi_page_host_addr,
     rv64_flush_tlb = rv64_cmi_flush_tlb C\<rparr>"

section \<open>The load/store cache\<close>

text \<open>\<^verbatim>\<open>LSCacheDummy_T\<close>: every access goes to the memory interface.\<close>

definition rv64_lscache_dummy :: "'d rv64_data_memory_if \<Rightarrow> 'd rv64_lscache_if" where
  "rv64_lscache_dummy D =
    \<lparr>rv64_ls_load_double = rv64_load_double D, rv64_ls_load_word = rv64_load_word D, rv64_ls_load_half = rv64_load_half D, rv64_ls_load_byte = rv64_load_byte D,
     rv64_ls_load_uword = rv64_load_uword D, rv64_ls_load_uhalf = rv64_load_uhalf D, rv64_ls_load_ubyte = rv64_load_ubyte D,
     rv64_ls_store_double = rv64_store_double D, rv64_ls_store_word = rv64_store_word D, rv64_ls_store_half = rv64_store_half D, rv64_ls_store_byte = rv64_store_byte D,
     rv64_ls_fence = ret (), rv64_ls_fence_vma = rv64_flush_tlb D\<rparr>"

definition rv64_update_entry :: "u64 \<Rightarrow> host_ptr \<Rightarrow> u32 \<Rightarrow> 'b rv64_cmi \<Rightarrow> 'b rv64_cmi" where
  "rv64_update_entry virt_addr p valid_bits m =
     m\<lparr>rv64_lsc := (rv64_lsc m)(LSCACHE_IDX virt_addr :=
        \<lparr>rv64_tag_valid = LSCACHE_TAG virt_addr OR ucast valid_bits, rv64_host_page_addr = p\<rparr>)\<rparr>"

definition rv64_try_get_from_cache_load :: "u64 \<Rightarrow> 'b rv64_cmi \<Rightarrow> host_ptr option" where
  "rv64_try_get_from_cache_load virt_addr m =
     (let e = rv64_lsc m (LSCACHE_IDX virt_addr) in
      if LSCACHE_TAG virt_addr OR ucast LSCACHE_LOAD_VALID_BITS = rv64_tag_valid e AND NOT 2
      then Some (fst (rv64_host_page_addr e), snd (rv64_host_page_addr e) + LSCACHE_OFF virt_addr) else None)"

definition rv64_try_get_from_cache_store :: "u64 \<Rightarrow> 'b rv64_cmi \<Rightarrow> host_ptr option" where
  "rv64_try_get_from_cache_store virt_addr m =
     (let e = rv64_lsc m (LSCACHE_IDX virt_addr) in
      if LSCACHE_TAG virt_addr OR ucast LSCACHE_STORE_VALID_BITS = rv64_tag_valid e
      then Some (fst (rv64_host_page_addr e), snd (rv64_host_page_addr e) + LSCACHE_OFF virt_addr) else None)"

definition rv64_try_add_to_cache :: "'b rv64_cmi rv64_data_memory_if \<Rightarrow> u64 \<Rightarrow> u32 \<Rightarrow> ('b rv64_cmi rv64_iss, unit) M" where
  "rv64_try_add_to_cache D virt_addr valid_bits = bindM (rv64_get_last_dmi_page_host_addr D) (\<lambda>p.
     case p of
       None \<Rightarrow> ret ()
     | Some p \<Rightarrow> modifyM (\<lambda>s. if rv64_lsc_enabled (rv64_mem_st s)
                              then rv64_mem_upd (rv64_update_entry virt_addr p valid_bits) s else s))"

text \<open>\<open>n\<close> bytes are read on a hit and converted by \<open>conv\<close>, the cast to \<^verbatim>\<open>CAST_T\<close> and back.\<close>

definition rv64_lsc_load ::
  "'b rv64_cmi rv64_data_memory_if \<Rightarrow> nat \<Rightarrow> (u8 list \<Rightarrow> 'a) \<Rightarrow> (u64 \<Rightarrow> ('b rv64_cmi rv64_iss, 'a) M) \<Rightarrow> u64 \<Rightarrow> ('b rv64_cmi rv64_iss, 'a) M"
where
  "rv64_lsc_load D n conv load_f addr = bindM (rv64_is_bus_locked D) (\<lambda>bl.
     if bl then load_f addr
     else bindM (getsM (\<lambda>s. rv64_try_get_from_cache_load addr (rv64_mem_st s))) (\<lambda>haddr.
       case haddr of
         None \<Rightarrow> bindM (load_f addr) (\<lambda>v.
                    seqM (rv64_try_add_to_cache D addr LSCACHE_LOAD_VALID_BITS) (ret v))
       | Some p \<Rightarrow> getsM (\<lambda>s. conv (host_read n p (rv64_host (rv64_mem_st s))))))"

definition rv64_lsc_store ::
  "'b rv64_cmi rv64_data_memory_if \<Rightarrow> ('a \<Rightarrow> u8 list) \<Rightarrow> (u64 \<Rightarrow> 'a \<Rightarrow> ('b rv64_cmi rv64_iss, unit) M) \<Rightarrow> u64 \<Rightarrow> 'a \<Rightarrow> ('b rv64_cmi rv64_iss, unit) M"
where
  "rv64_lsc_store D bytes store_f addr v = bindM (rv64_is_bus_locked D) (\<lambda>bl.
     if bl then store_f addr v
     else bindM (getsM (\<lambda>s. rv64_try_get_from_cache_store addr (rv64_mem_st s))) (\<lambda>haddr.
       case haddr of
         None \<Rightarrow> seqM (store_f addr v) (rv64_try_add_to_cache D addr LSCACHE_STORE_VALID_BITS)
       | Some p \<Rightarrow> modifyM (rv64_mem_upd (\<lambda>m. m\<lparr>rv64_host := host_write p (bytes v) (rv64_host m)\<rparr>))))"

definition rv64_lsc_flush :: "'b rv64_cmi \<Rightarrow> 'b rv64_cmi" where
  "rv64_lsc_flush m = m\<lparr>rv64_lsc := (\<lambda>_. \<lparr>rv64_tag_valid = 0, rv64_host_page_addr = (0, 0)\<rparr>)\<rparr>"

definition rv64_lsc_enable :: "bool \<Rightarrow> 'b rv64_cmi \<Rightarrow> 'b rv64_cmi" where
  "rv64_lsc_enable ena m = (if ena = rv64_lsc_enabled m then m
     else if ena then m\<lparr>rv64_lsc_enabled := ena\<rparr> else rv64_lsc_flush (m\<lparr>rv64_lsc_enabled := ena\<rparr>))"

text \<open>\<^verbatim>\<open>LSCache_T\<close>\<close>

definition rv64_lscache_full :: "'b rv64_cmi rv64_data_memory_if \<Rightarrow> 'b rv64_cmi rv64_lscache_if" where
  "rv64_lscache_full D =
    \<lparr>rv64_ls_load_double = rv64_lsc_load D 8 bytes_to_word (rv64_load_double D),
     rv64_ls_load_word = rv64_lsc_load D 4 (\<lambda>bs. scast (bytes_to_word bs :: u32)) (rv64_load_word D),
     rv64_ls_load_half = rv64_lsc_load D 2 (\<lambda>bs. scast (bytes_to_word bs :: u16)) (rv64_load_half D),
     rv64_ls_load_byte = rv64_lsc_load D 1 (\<lambda>bs. scast (bytes_to_word bs :: u8)) (rv64_load_byte D),
     rv64_ls_load_uword = rv64_lsc_load D 4 (\<lambda>bs. ucast (bytes_to_word bs :: u32)) (rv64_load_uword D),
     rv64_ls_load_uhalf = rv64_lsc_load D 2 (\<lambda>bs. ucast (bytes_to_word bs :: u16)) (rv64_load_uhalf D),
     rv64_ls_load_ubyte = rv64_lsc_load D 1 (\<lambda>bs. ucast (bytes_to_word bs :: u8)) (rv64_load_ubyte D),
     rv64_ls_store_double = rv64_lsc_store D (word_to_bytes 8) (rv64_store_double D),
     rv64_ls_store_word = rv64_lsc_store D (word_to_bytes 4) (rv64_store_word D),
     rv64_ls_store_half = rv64_lsc_store D (word_to_bytes 2) (rv64_store_half D),
     rv64_ls_store_byte = rv64_lsc_store D (word_to_bytes 1) (rv64_store_byte D),
     rv64_ls_fence = ret (),
     rv64_ls_fence_vma = seqM (modifyM (rv64_mem_upd rv64_lsc_flush)) (rv64_flush_tlb D)\<rparr>"

section \<open>The connections of a hart\<close>

text \<open>
  \<^verbatim>\<open>ISS_CT::init\<close> with a \<^verbatim>\<open>CombinedMemoryInterface\<close> as data and instruction memory; \<open>cached\<close> selects
  the \<^verbatim>\<open>LSCacheDefault_T\<close> of the build. The other connections are those of \<open>E\<close>.
\<close>

definition rv64_cmi_env :: "'b rv64_cmi_conn \<Rightarrow> bool \<Rightarrow> 'b rv64_cmi rv64_iss_env \<Rightarrow> 'b rv64_cmi rv64_iss_env" where
  "rv64_cmi_env C cached E =
     E\<lparr>rv64_mem := rv64_cmi_if C,
       rv64_lscache := if cached then rv64_lscache_full (rv64_cmi_if C) else rv64_lscache_dummy (rv64_cmi_if C),
       rv64_load_instr := rv64_cmi_load_instr C\<rparr>"

text \<open>The constructors of the memory interface, the MMU, the bus lock and the load/store cache.\<close>

definition rv64_cmi_init :: "'b \<Rightarrow> 'b rv64_cmi" where
  "rv64_cmi_init d =
    \<lparr>rv64_lr_addr = 0, rv64_dmi_on = True, rv64_dmi_ranges = [], rv64_dmi_ranges_disabled = [], rv64_last_access_was_dmi = False,
     rv64_last_dmi_page_host_addr = (0, 0), rv64_tlb = tlb_init, rv64_page_fault_on_AD = False,
     rv64_bus_lock = \<lparr>locked = False, owner = 0\<rparr>, rv64_lsc_enabled = False,
     rv64_lsc = (\<lambda>_. \<lparr>rv64_tag_valid = 0, rv64_host_page_addr = (0, 0)\<rparr>), rv64_host = (\<lambda>_ _. 0), rv64_devices = d\<rparr>"

end
