(* ===== verification/RV64_ISS.thy ===== *)
theory RV64_ISS
  imports RV64_Trap VP_ISS32
begin

text \<open>
  The operations of the RV64 instruction set simulator, \<^verbatim>\<open>vp/src/core/rv64/iss_ctemplate.cpp\<close>: one
  definition per \<^verbatim>\<open>OP_CASE\<close> of the base instruction set, the M and A extensions, Zicsr and the
  privileged instructions, with the 64-bit operations and the operations on words, their dispatch, and the loop of \<^verbatim>\<open>exec_steps\<close>. The operations of the
  floating-point and vector extensions are the parameter \<open>ext_op\<close>.

  With \<^verbatim>\<open>DBBCacheDummy_T\<close> every operation ends in \<^verbatim>\<open>ninstr++\<close> and a jump to the global fetch, decode
  and dispatch; the quantum test some operations make before it leads to the same place.
\<close>

section \<open>Operands\<close>

definition rv64_rs1_val :: "'d rv64_iss \<Rightarrow> u64" where "rv64_rs1_val s = rv64_reg (rs1 (rv64_instr s)) s"
definition rv64_rs2_val :: "'d rv64_iss \<Rightarrow> u64" where "rv64_rs2_val s = rv64_reg (rs2 (rv64_instr s)) s"
definition rv64_set_rd :: "u64 \<Rightarrow> 'd rv64_iss \<Rightarrow> 'd rv64_iss" where "rv64_set_rd v s = rv64_set_reg (rd (rv64_instr s)) v s"

text \<open>\<^verbatim>\<open>regs[instr.rd()] = e\<close> with an \<open>e\<close> that has no side effect.\<close>

definition rv64_assign_rd :: "('d rv64_iss \<Rightarrow> u64) \<Rightarrow> ('d rv64_iss, unit) M" where
  "rv64_assign_rd e = modifyM (\<lambda>s. rv64_set_rd (e s) s)"

definition rv64_bool_reg :: "bool \<Rightarrow> u64" where "rv64_bool_reg b = (if b then 1 else 0)"

section \<open>Integer operations\<close>

definition rv64_op_ADDI :: "('d rv64_iss, unit) M" where
  "rv64_op_ADDI = rv64_assign_rd (\<lambda>s. rv64_rs1_val s + scast (I_imm (rv64_instr s)))"

definition rv64_op_SLTI :: "('d rv64_iss, unit) M" where
  "rv64_op_SLTI = rv64_assign_rd (\<lambda>s. rv64_bool_reg (sint (rv64_rs1_val s) < sint (I_imm (rv64_instr s))))"

definition rv64_op_SLTIU :: "('d rv64_iss, unit) M" where
  "rv64_op_SLTIU = rv64_assign_rd (\<lambda>s. rv64_bool_reg (rv64_rs1_val s < scast (I_imm (rv64_instr s))))"

definition rv64_op_XORI :: "('d rv64_iss, unit) M" where
  "rv64_op_XORI = rv64_assign_rd (\<lambda>s. rv64_rs1_val s XOR scast (I_imm (rv64_instr s)))"

definition rv64_op_ORI :: "('d rv64_iss, unit) M" where
  "rv64_op_ORI = rv64_assign_rd (\<lambda>s. rv64_rs1_val s OR scast (I_imm (rv64_instr s)))"

definition rv64_op_ANDI :: "('d rv64_iss, unit) M" where
  "rv64_op_ANDI = rv64_assign_rd (\<lambda>s. rv64_rs1_val s AND scast (I_imm (rv64_instr s)))"

definition rv64_op_ADD :: "('d rv64_iss, unit) M" where
  "rv64_op_ADD = rv64_assign_rd (\<lambda>s. rv64_rs1_val s + rv64_rs2_val s)"

definition rv64_op_SUB :: "('d rv64_iss, unit) M" where
  "rv64_op_SUB = rv64_assign_rd (\<lambda>s. rv64_rs1_val s - rv64_rs2_val s)"

definition rv64_op_SLL :: "('d rv64_iss, unit) M" where
  "rv64_op_SLL = rv64_assign_rd (\<lambda>s. push_bit (rv64_reg_shamt (rs2 (rv64_instr s)) s) (rv64_rs1_val s))"

definition rv64_op_SLT :: "('d rv64_iss, unit) M" where
  "rv64_op_SLT = rv64_assign_rd (\<lambda>s. rv64_bool_reg (sint (rv64_rs1_val s) < sint (rv64_rs2_val s)))"

definition rv64_op_SLTU :: "('d rv64_iss, unit) M" where
  "rv64_op_SLTU = rv64_assign_rd (\<lambda>s. rv64_bool_reg (rv64_rs1_val s < rv64_rs2_val s))"

definition rv64_op_SRL :: "('d rv64_iss, unit) M" where
  "rv64_op_SRL = rv64_assign_rd (\<lambda>s. drop_bit (rv64_reg_shamt (rs2 (rv64_instr s)) s) (rv64_rs1_val s))"

definition rv64_op_SRA :: "('d rv64_iss, unit) M" where
  "rv64_op_SRA = rv64_assign_rd (\<lambda>s. signed_drop_bit (rv64_reg_shamt (rs2 (rv64_instr s)) s) (rv64_rs1_val s))"

definition rv64_op_XOR :: "('d rv64_iss, unit) M" where
  "rv64_op_XOR = rv64_assign_rd (\<lambda>s. rv64_rs1_val s XOR rv64_rs2_val s)"

definition rv64_op_OR :: "('d rv64_iss, unit) M" where
  "rv64_op_OR = rv64_assign_rd (\<lambda>s. rv64_rs1_val s OR rv64_rs2_val s)"

definition rv64_op_AND :: "('d rv64_iss, unit) M" where
  "rv64_op_AND = rv64_assign_rd (\<lambda>s. rv64_rs1_val s AND rv64_rs2_val s)"

definition rv64_op_SLLI :: "('d rv64_iss, unit) M" where
  "rv64_op_SLLI = rv64_assign_rd (\<lambda>s. push_bit (unat (shamt (rv64_instr s))) (rv64_rs1_val s))"

definition rv64_op_SRLI :: "('d rv64_iss, unit) M" where
  "rv64_op_SRLI = rv64_assign_rd (\<lambda>s. drop_bit (unat (shamt (rv64_instr s))) (rv64_rs1_val s))"

definition rv64_op_SRAI :: "('d rv64_iss, unit) M" where
  "rv64_op_SRAI = rv64_assign_rd (\<lambda>s. signed_drop_bit (unat (shamt (rv64_instr s))) (rv64_rs1_val s))"

definition rv64_op_LUI :: "('d rv64_iss, unit) M" where
  "rv64_op_LUI = rv64_assign_rd (\<lambda>s. scast (U_imm (rv64_instr s)))"

definition rv64_op_AUIPC :: "('d rv64_iss, unit) M" where
  "rv64_op_AUIPC = rv64_assign_rd (\<lambda>s. rv64_dbb_last_pc (rv64_dbbcache s) + scast (U_imm (rv64_instr s)))"

section \<open>Operations on words\<close>

text \<open>\<^verbatim>\<open>(int32_t)regs[i]\<close> is the lower half of the register; an \<^verbatim>\<open>int32_t\<close> assigned to a register is sign-extended.\<close>

definition rv64_assign_word :: "('d rv64_iss \<Rightarrow> u32) \<Rightarrow> ('d rv64_iss, unit) M" where
  "rv64_assign_word e = rv64_assign_rd (\<lambda>s. scast (e s))"

definition rv64_rs1_word :: "'d rv64_iss \<Rightarrow> u32" where "rv64_rs1_word s = ucast (rv64_rs1_val s)"
definition rv64_rs2_word :: "'d rv64_iss \<Rightarrow> u32" where "rv64_rs2_word s = ucast (rv64_rs2_val s)"

definition rv64_op_ADDIW :: "('d rv64_iss, unit) M" where
  "rv64_op_ADDIW = rv64_assign_word (\<lambda>s. rv64_rs1_word s + I_imm (rv64_instr s))"

definition rv64_op_SLLIW :: "('d rv64_iss, unit) M" where
  "rv64_op_SLLIW = rv64_assign_word (\<lambda>s. push_bit (unat (shamt_w (rv64_instr s))) (rv64_rs1_word s))"

definition rv64_op_SRLIW :: "('d rv64_iss, unit) M" where
  "rv64_op_SRLIW = rv64_assign_word (\<lambda>s. drop_bit (unat (shamt_w (rv64_instr s))) (rv64_rs1_word s))"

definition rv64_op_SRAIW :: "('d rv64_iss, unit) M" where
  "rv64_op_SRAIW = rv64_assign_word (\<lambda>s. signed_drop_bit (unat (shamt_w (rv64_instr s))) (rv64_rs1_word s))"

definition rv64_op_ADDW :: "('d rv64_iss, unit) M" where
  "rv64_op_ADDW = rv64_assign_word (\<lambda>s. rv64_rs1_word s + rv64_rs2_word s)"

definition rv64_op_SUBW :: "('d rv64_iss, unit) M" where
  "rv64_op_SUBW = rv64_assign_word (\<lambda>s. rv64_rs1_word s - rv64_rs2_word s)"

definition rv64_op_SLLW :: "('d rv64_iss, unit) M" where
  "rv64_op_SLLW = rv64_assign_word (\<lambda>s. push_bit (rv64_reg_shamt_w (rs2 (rv64_instr s)) s) (rv64_rs1_word s))"

definition rv64_op_SRLW :: "('d rv64_iss, unit) M" where
  "rv64_op_SRLW = rv64_assign_word (\<lambda>s. drop_bit (rv64_reg_shamt_w (rs2 (rv64_instr s)) s) (rv64_rs1_word s))"

definition rv64_op_SRAW :: "('d rv64_iss, unit) M" where
  "rv64_op_SRAW = rv64_assign_word (\<lambda>s. signed_drop_bit (rv64_reg_shamt_w (rs2 (rv64_instr s)) s) (rv64_rs1_word s))"

section \<open>Control flow\<close>

definition rv64_op_J :: "('d rv64_iss, unit) M" where
  "rv64_op_J = modifyM (\<lambda>s. rv64_branch_taken (scast (J_imm (rv64_instr s))) s)"

definition rv64_op_JAL :: "('d rv64_iss, unit) M" where
  "rv64_op_JAL = modifyM (\<lambda>s. let (link, s') = rv64_jump_and_link (scast (J_imm (rv64_instr s))) s in rv64_set_rd link s')"

text \<open>The target of an indirect jump, with the check for a misaligned address.\<close>

definition rv64_jump_target :: "('d rv64_iss, u64) M" where
  "rv64_jump_target = bindM (getsM (\<lambda>s. ((rv64_rs1_val s + scast (I_imm (rv64_instr s))) AND NOT 1, rv64_has_C_extension (rv64_csrs s))))
     (\<lambda>(p, c). if p AND 3 \<noteq> 0 \<and> \<not> c
                then raise (SimulationTrap EXC_INSTR_ADDR_MISALIGNED p) else ret p)"

definition rv64_op_JR :: "('d rv64_iss, unit) M" where
  "rv64_op_JR = bindM rv64_jump_target (\<lambda>p. modifyM (rv64_jump_dyn p))"

definition rv64_op_JALR :: "('d rv64_iss, unit) M" where
  "rv64_op_JALR = bindM rv64_jump_target (\<lambda>p.
     modifyM (\<lambda>s. let (link, s') = rv64_jump_dyn_and_link p s in rv64_set_rd link s'))"

text \<open>\<^verbatim>\<open>DBBCacheDummy_T::branch_not_taken\<close> does nothing.\<close>

definition rv64_branch_if :: "('d rv64_iss \<Rightarrow> bool) \<Rightarrow> ('d rv64_iss, unit) M" where
  "rv64_branch_if b = modifyM (\<lambda>s. if b s then rv64_branch_taken (scast (B_imm (rv64_instr s))) s else s)"

definition rv64_op_BEQ :: "('d rv64_iss, unit) M" where
  "rv64_op_BEQ = rv64_branch_if (\<lambda>s. rv64_rs1_val s = rv64_rs2_val s)"

definition rv64_op_BNE :: "('d rv64_iss, unit) M" where
  "rv64_op_BNE = rv64_branch_if (\<lambda>s. rv64_rs1_val s \<noteq> rv64_rs2_val s)"

definition rv64_op_BLT :: "('d rv64_iss, unit) M" where
  "rv64_op_BLT = rv64_branch_if (\<lambda>s. sint (rv64_rs1_val s) < sint (rv64_rs2_val s))"

definition rv64_op_BGE :: "('d rv64_iss, unit) M" where
  "rv64_op_BGE = rv64_branch_if (\<lambda>s. sint (rv64_rs1_val s) \<ge> sint (rv64_rs2_val s))"

definition rv64_op_BLTU :: "('d rv64_iss, unit) M" where
  "rv64_op_BLTU = rv64_branch_if (\<lambda>s. rv64_rs1_val s < rv64_rs2_val s)"

definition rv64_op_BGEU :: "('d rv64_iss, unit) M" where
  "rv64_op_BGEU = rv64_branch_if (\<lambda>s. rv64_rs1_val s \<ge> rv64_rs2_val s)"

section \<open>Loads and stores\<close>

definition rv64_store_addr :: "'d rv64_iss \<Rightarrow> u64" where "rv64_store_addr s = rv64_rs1_val s + scast (S_imm (rv64_instr s))"
definition rv64_load_addr :: "'d rv64_iss \<Rightarrow> u64" where "rv64_load_addr s = rv64_rs1_val s + scast (I_imm (rv64_instr s))"

definition rv64_op_SB :: "'d rv64_iss_env \<Rightarrow> ('d rv64_iss, unit) M" where
  "rv64_op_SB E = bindM (getsM (\<lambda>s. (rv64_store_addr s, rv64_rs2_val s)))
     (\<lambda>(addr, v). rv64_ls_store_byte (rv64_lscache E) addr (ucast v))"

definition rv64_op_SH :: "'d rv64_iss_env \<Rightarrow> ('d rv64_iss, unit) M" where
  "rv64_op_SH E = bindM (getsM (\<lambda>s. (rv64_store_addr s, rv64_rs2_val s))) (\<lambda>(addr, v).
     seqM (rv64_trap_check_addr_alignment 2 False addr) (rv64_ls_store_half (rv64_lscache E) addr (ucast v)))"

definition rv64_op_SW :: "'d rv64_iss_env \<Rightarrow> ('d rv64_iss, unit) M" where
  "rv64_op_SW E = bindM (getsM (\<lambda>s. (rv64_store_addr s, rv64_rs2_val s))) (\<lambda>(addr, v).
     seqM (rv64_trap_check_addr_alignment 4 False addr) (rv64_ls_store_word (rv64_lscache E) addr (ucast v)))"

definition rv64_op_SD :: "'d rv64_iss_env \<Rightarrow> ('d rv64_iss, unit) M" where
  "rv64_op_SD E = bindM (getsM (\<lambda>s. (rv64_store_addr s, rv64_rs2_val s))) (\<lambda>(addr, v).
     seqM (rv64_trap_check_addr_alignment 8 False addr) (rv64_ls_store_double (rv64_lscache E) addr v))"

text \<open>\<^verbatim>\<open>regs[instr.rd()] = load; reset_reg_zero()\<close>: a load decoded with \<^verbatim>\<open>rd = x0\<close> is executed as well.\<close>

definition rv64_load_to_rd :: "('d rv64_iss, u64) M \<Rightarrow> ('d rv64_iss, unit) M" where
  "rv64_load_to_rd m = bindM m (\<lambda>v. seqM (modifyM (rv64_set_rd v)) (modifyM rv64_reset_reg_zero))"

definition rv64_op_LB :: "'d rv64_iss_env \<Rightarrow> ('d rv64_iss, unit) M" where
  "rv64_op_LB E = bindM (getsM rv64_load_addr) (\<lambda>addr. rv64_load_to_rd (rv64_ls_load_byte (rv64_lscache E) addr))"

definition rv64_op_LH :: "'d rv64_iss_env \<Rightarrow> ('d rv64_iss, unit) M" where
  "rv64_op_LH E = bindM (getsM rv64_load_addr) (\<lambda>addr. seqM (rv64_trap_check_addr_alignment 2 True addr)
     (rv64_load_to_rd (rv64_ls_load_half (rv64_lscache E) addr)))"

definition rv64_op_LW :: "'d rv64_iss_env \<Rightarrow> ('d rv64_iss, unit) M" where
  "rv64_op_LW E = bindM (getsM rv64_load_addr) (\<lambda>addr. seqM (rv64_trap_check_addr_alignment 4 True addr)
     (rv64_load_to_rd (rv64_ls_load_word (rv64_lscache E) addr)))"

definition rv64_op_LD :: "'d rv64_iss_env \<Rightarrow> ('d rv64_iss, unit) M" where
  "rv64_op_LD E = bindM (getsM rv64_load_addr) (\<lambda>addr. seqM (rv64_trap_check_addr_alignment 8 True addr)
     (rv64_load_to_rd (rv64_ls_load_double (rv64_lscache E) addr)))"

definition rv64_op_LBU :: "'d rv64_iss_env \<Rightarrow> ('d rv64_iss, unit) M" where
  "rv64_op_LBU E = bindM (getsM rv64_load_addr) (\<lambda>addr. rv64_load_to_rd (rv64_ls_load_ubyte (rv64_lscache E) addr))"

definition rv64_op_LHU :: "'d rv64_iss_env \<Rightarrow> ('d rv64_iss, unit) M" where
  "rv64_op_LHU E = bindM (getsM rv64_load_addr) (\<lambda>addr. seqM (rv64_trap_check_addr_alignment 2 True addr)
     (rv64_load_to_rd (rv64_ls_load_uhalf (rv64_lscache E) addr)))"

definition rv64_op_LWU :: "'d rv64_iss_env \<Rightarrow> ('d rv64_iss, unit) M" where
  "rv64_op_LWU E = bindM (getsM rv64_load_addr) (\<lambda>addr. seqM (rv64_trap_check_addr_alignment 4 True addr)
     (rv64_load_to_rd (rv64_ls_load_uword (rv64_lscache E) addr)))"

definition rv64_op_FENCE :: "'d rv64_iss_env \<Rightarrow> ('d rv64_iss, unit) M" where
  "rv64_op_FENCE E = rv64_ls_fence (rv64_lscache E)"

text \<open>\<^verbatim>\<open>DBBCacheDummy_T::fence_i\<close> does nothing.\<close>

definition rv64_op_FENCE_I :: "('d rv64_iss, unit) M" where
  "rv64_op_FENCE_I = ret ()"

section \<open>Environment calls\<close>

definition rv64_op_ECALL :: "'d rv64_iss_env \<Rightarrow> ('d rv64_iss, unit) M" where
  "rv64_op_ECALL E = (case rv64_sys E of
     Some execute_syscall \<Rightarrow> execute_syscall
   | None \<Rightarrow> bindM (getsM (\<lambda>s. (rv64_prv s, rv64_dbb_last_pc (rv64_dbbcache s)))) (\<lambda>(m, last_pc).
       switch_on m
         [(MachineMode, raise (SimulationTrap EXC_ECALL_M_MODE last_pc)),
          (SupervisorMode, raise (SimulationTrap EXC_ECALL_S_MODE last_pc)),
          (UserMode, raise (SimulationTrap EXC_ECALL_U_MODE last_pc))]
         (raise RuntimeError)))"

definition rv64_op_EBREAK :: "('d rv64_iss, unit) M" where
  "rv64_op_EBREAK = bindM (getsM (\<lambda>s. (rv64_debug_mode s, rv64_dbb_last_pc (rv64_dbbcache s)))) (\<lambda>(dbg, last_pc).
     if dbg then modifyM (rv64_set_status HitBreakpoint)
     else raise (SimulationTrap EXC_BREAKPOINT last_pc))"

section \<open>CSR instructions\<close>

text \<open>\<^verbatim>\<open>if (is_invalid_csr_access(addr, write)) RAISE_ILLEGAL_INSTRUCTION() else m\<close>\<close>

definition rv64_csr_guard :: "u32 \<Rightarrow> bool \<Rightarrow> ('d rv64_iss, unit) M \<Rightarrow> ('d rv64_iss, unit) M" where
  "rv64_csr_guard addr write m = bindM (rv64_is_invalid_csr_access addr write)
     (\<lambda>invalid. if invalid then rv64_RAISE_ILLEGAL_INSTRUCTION else m)"

definition rv64_commit_ninstr :: "('d rv64_iss, unit) M" where
  "rv64_commit_ninstr = modifyM (\<lambda>s. rv64_commit_instructions (rv64_ninstr s) s)"

text \<open>Swap: the CSR is read only when \<^verbatim>\<open>rd\<close> is not \<^verbatim>\<open>x0\<close>.\<close>

definition rv64_csr_swap :: "'d rv64_iss_env \<Rightarrow> u32 \<Rightarrow> u32 \<Rightarrow> u64 \<Rightarrow> ('d rv64_iss, unit) M" where
  "rv64_csr_swap E addr d v =
     seqM (whenM (d \<noteq> 0) (seqM rv64_commit_ninstr (bindM (rv64_get_csr_value E addr) (\<lambda>x. modifyM (rv64_set_reg d x)))))
       (rv64_set_csr_value addr v)"

text \<open>Set or clear bits: the CSR is always read, and written only when the source operand says so.\<close>

definition rv64_csr_modify :: "'d rv64_iss_env \<Rightarrow> u32 \<Rightarrow> u32 \<Rightarrow> bool \<Rightarrow> (u64 \<Rightarrow> u64) \<Rightarrow> ('d rv64_iss, unit) M" where
  "rv64_csr_modify E addr d write f =
     seqM rv64_commit_ninstr (bindM (rv64_get_csr_value E addr) (\<lambda>x.
       seqM (whenM (d \<noteq> 0) (modifyM (rv64_set_reg d x)))
         (whenM write (rv64_set_csr_value addr (f x)))))"

definition rv64_op_CSRRW :: "'d rv64_iss_env \<Rightarrow> ('d rv64_iss, unit) M" where
  "rv64_op_CSRRW E = bindM (getsM (\<lambda>s. (rv64_instr s, rv64_rs1_val s))) (\<lambda>(i, v).
     rv64_csr_guard (csr i) True (rv64_csr_swap E (csr i) (rd i) v))"

definition rv64_op_CSRRS :: "'d rv64_iss_env \<Rightarrow> ('d rv64_iss, unit) M" where
  "rv64_op_CSRRS E = bindM (getsM (\<lambda>s. (rv64_instr s, rv64_rs1_val s))) (\<lambda>(i, v).
     let write = (rs1 i \<noteq> 0) in
     rv64_csr_guard (csr i) write (rv64_csr_modify E (csr i) (rd i) write (\<lambda>x. x OR v)))"

definition rv64_op_CSRRC :: "'d rv64_iss_env \<Rightarrow> ('d rv64_iss, unit) M" where
  "rv64_op_CSRRC E = bindM (getsM (\<lambda>s. (rv64_instr s, rv64_rs1_val s))) (\<lambda>(i, v).
     let write = (rs1 i \<noteq> 0) in
     rv64_csr_guard (csr i) write (rv64_csr_modify E (csr i) (rd i) write (\<lambda>x. x AND NOT v)))"

definition rv64_op_CSRRWI :: "'d rv64_iss_env \<Rightarrow> ('d rv64_iss, unit) M" where
  "rv64_op_CSRRWI E = bindM (getsM rv64_instr) (\<lambda>i.
     rv64_csr_guard (csr i) True (rv64_csr_swap E (csr i) (rd i) (ucast (zimm i))))"

definition rv64_op_CSRRSI :: "'d rv64_iss_env \<Rightarrow> ('d rv64_iss, unit) M" where
  "rv64_op_CSRRSI E = bindM (getsM rv64_instr) (\<lambda>i.
     let write = (zimm i \<noteq> 0) in
     rv64_csr_guard (csr i) write (rv64_csr_modify E (csr i) (rd i) write (\<lambda>x. x OR ucast (zimm i))))"

text \<open>\<^verbatim>\<open>csr_val & ~zimm\<close>: \<^verbatim>\<open>zimm\<close> has type \<^verbatim>\<open>uint32_t\<close>, its complement is extended with zeros.\<close>

definition rv64_op_CSRRCI :: "'d rv64_iss_env \<Rightarrow> ('d rv64_iss, unit) M" where
  "rv64_op_CSRRCI E = bindM (getsM rv64_instr) (\<lambda>i.
     let write = (zimm i \<noteq> 0) in
     rv64_csr_guard (csr i) write (rv64_csr_modify E (csr i) (rd i) write (\<lambda>x. x AND ucast (NOT (zimm i)))))"

section \<open>M extension\<close>

definition rv64_REG_MIN :: u64 where "rv64_REG_MIN = 0x8000000000000000"
definition rv64_REG32_MIN :: u32 where "rv64_REG32_MIN = 0x80000000"

text \<open>Products are computed in 128 bits.\<close>

type_synonym u128 = "128 word"

definition rv64_mul_val :: "u64 \<Rightarrow> u64 \<Rightarrow> u64" where
  "rv64_mul_val a b = ucast (scast a * scast b :: u128)"

definition rv64_mulh_val :: "u64 \<Rightarrow> u64 \<Rightarrow> u64" where
  "rv64_mulh_val a b = ucast (signed_drop_bit 64 (scast a * scast b :: u128))"

definition rv64_mulhu_val :: "u64 \<Rightarrow> u64 \<Rightarrow> u64" where
  "rv64_mulhu_val a b = ucast (signed_drop_bit 64 (ucast a * ucast b :: u128))"

definition rv64_mulhsu_val :: "u64 \<Rightarrow> u64 \<Rightarrow> u64" where
  "rv64_mulhsu_val a b = ucast (signed_drop_bit 64 (scast a * ucast b :: u128))"

definition rv64_div_val :: "u64 \<Rightarrow> u64 \<Rightarrow> u64" where
  "rv64_div_val a b = (if b = 0 then -1 else if a = rv64_REG_MIN \<and> b = -1 then a
     else word_of_int (sint a sdiv sint b))"

definition rv64_divu_val :: "u64 \<Rightarrow> u64 \<Rightarrow> u64" where
  "rv64_divu_val a b = (if b = 0 then -1 else a div b)"

definition rv64_rem_val :: "u64 \<Rightarrow> u64 \<Rightarrow> u64" where
  "rv64_rem_val a b = (if b = 0 then a else if a = rv64_REG_MIN \<and> b = -1 then 0
     else word_of_int (sint a smod sint b))"

definition rv64_remu_val :: "u64 \<Rightarrow> u64 \<Rightarrow> u64" where
  "rv64_remu_val a b = (if b = 0 then a else a mod b)"

definition rv64_op_MUL :: "('d rv64_iss, unit) M" where
  "rv64_op_MUL = rv64_assign_rd (\<lambda>s. rv64_mul_val (rv64_rs1_val s) (rv64_rs2_val s))"

definition rv64_op_MULH :: "('d rv64_iss, unit) M" where
  "rv64_op_MULH = rv64_assign_rd (\<lambda>s. rv64_mulh_val (rv64_rs1_val s) (rv64_rs2_val s))"

definition rv64_op_MULHU :: "('d rv64_iss, unit) M" where
  "rv64_op_MULHU = rv64_assign_rd (\<lambda>s. rv64_mulhu_val (rv64_rs1_val s) (rv64_rs2_val s))"

definition rv64_op_MULHSU :: "('d rv64_iss, unit) M" where
  "rv64_op_MULHSU = rv64_assign_rd (\<lambda>s. rv64_mulhsu_val (rv64_rs1_val s) (rv64_rs2_val s))"

definition rv64_op_DIV :: "('d rv64_iss, unit) M" where
  "rv64_op_DIV = rv64_assign_rd (\<lambda>s. rv64_div_val (rv64_rs1_val s) (rv64_rs2_val s))"

definition rv64_op_DIVU :: "('d rv64_iss, unit) M" where
  "rv64_op_DIVU = rv64_assign_rd (\<lambda>s. rv64_divu_val (rv64_rs1_val s) (rv64_rs2_val s))"

definition rv64_op_REM :: "('d rv64_iss, unit) M" where
  "rv64_op_REM = rv64_assign_rd (\<lambda>s. rv64_rem_val (rv64_rs1_val s) (rv64_rs2_val s))"

definition rv64_op_REMU :: "('d rv64_iss, unit) M" where
  "rv64_op_REMU = rv64_assign_rd (\<lambda>s. rv64_remu_val (rv64_rs1_val s) (rv64_rs2_val s))"

text \<open>The operations on words, which compute with \<^verbatim>\<open>int32_t\<close> variables.\<close>

definition rv64_divw_val :: "u32 \<Rightarrow> u32 \<Rightarrow> u32" where
  "rv64_divw_val a b = (if b = 0 then -1 else if a = rv64_REG32_MIN \<and> b = -1 then a
     else word_of_int (sint a sdiv sint b))"

definition rv64_divuw_val :: "u32 \<Rightarrow> u32 \<Rightarrow> u32" where
  "rv64_divuw_val a b = (if b = 0 then -1 else a div b)"

definition rv64_remw_val :: "u32 \<Rightarrow> u32 \<Rightarrow> u32" where
  "rv64_remw_val a b = (if b = 0 then a else if a = rv64_REG32_MIN \<and> b = -1 then 0
     else word_of_int (sint a smod sint b))"

definition rv64_remuw_val :: "u32 \<Rightarrow> u32 \<Rightarrow> u32" where
  "rv64_remuw_val a b = (if b = 0 then a else a mod b)"

definition rv64_op_MULW :: "('d rv64_iss, unit) M" where
  "rv64_op_MULW = rv64_assign_word (\<lambda>s. ucast (rv64_rs1_val s * rv64_rs2_val s))"

definition rv64_op_DIVW :: "('d rv64_iss, unit) M" where
  "rv64_op_DIVW = rv64_assign_word (\<lambda>s. rv64_divw_val (rv64_rs1_word s) (rv64_rs2_word s))"

definition rv64_op_DIVUW :: "('d rv64_iss, unit) M" where
  "rv64_op_DIVUW = rv64_assign_word (\<lambda>s. rv64_divuw_val (rv64_rs1_word s) (rv64_rs2_word s))"

definition rv64_op_REMW :: "('d rv64_iss, unit) M" where
  "rv64_op_REMW = rv64_assign_word (\<lambda>s. rv64_remw_val (rv64_rs1_word s) (rv64_rs2_word s))"

definition rv64_op_REMUW :: "('d rv64_iss, unit) M" where
  "rv64_op_REMUW = rv64_assign_word (\<lambda>s. rv64_remuw_val (rv64_rs1_word s) (rv64_rs2_word s))"

section \<open>A extension\<close>

definition rv64_op_LR_W :: "'d rv64_iss_env \<Rightarrow> ('d rv64_iss, unit) M" where
  "rv64_op_LR_W E = bindM (getsM rv64_rs1_val) (\<lambda>addr. seqM (rv64_trap_check_addr_alignment 4 True addr)
     (bindM (rv64_atomic_load_reserved_word (rv64_mem E) addr) (\<lambda>v.
      seqM (modifyM (rv64_set_rd v))
      (seqM (modifyM (\<lambda>s. if rv64_lr_sc_counter s = 0 then rv64_force_slow_path (s\<lparr>rv64_lr_sc_counter := 17\<rparr>) else s))
        (modifyM rv64_reset_reg_zero)))))"

definition rv64_op_SC_W :: "'d rv64_iss_env \<Rightarrow> ('d rv64_iss, unit) M" where
  "rv64_op_SC_W E = bindM (getsM rv64_rs1_val) (\<lambda>addr. seqM (rv64_trap_check_addr_alignment 4 False addr)
     (bindM (getsM rv64_rs2_val) (\<lambda>v.
      seqM (modifyM (rv64_set_rd 1))
      (bindM (rv64_atomic_store_conditional_word (rv64_mem E) addr (ucast v)) (\<lambda>ok.
       seqM (modifyM (rv64_set_rd (if ok then 0 else 1)))
       (seqM (modifyM (\<lambda>s. s\<lparr>rv64_lr_sc_counter := 0\<rparr>))
         (modifyM rv64_reset_reg_zero)))))))"

definition rv64_execute_amo_w :: "'d rv64_iss_env \<Rightarrow> (u32 \<Rightarrow> u32 \<Rightarrow> u32) \<Rightarrow> ('d rv64_iss, unit) M" where
  "rv64_execute_amo_w E operation = bindM (getsM rv64_rs1_val) (\<lambda>addr.
     seqM (rv64_trap_check_addr_alignment 4 False addr)
     (bindM (catch_trap (rv64_atomic_load_word (rv64_mem E) addr)
               (\<lambda>r v. raise (SimulationTrap
                  (if r = EXC_LOAD_ACCESS_FAULT then EXC_STORE_AMO_ACCESS_FAULT else r) v))) (\<lambda>data.
      bindM (getsM (\<lambda>s. operation (ucast data) (rv64_rs2_word s))) (\<lambda>v.
      seqM (rv64_atomic_store_word (rv64_mem E) addr v)
        (bindM (getsM (\<lambda>s. rd (rv64_instr s) \<noteq> 0)) (\<lambda>b. whenM b (modifyM (rv64_set_rd (scast (ucast data :: u32))))))))))"

definition rv64_op_AMOSWAP_W :: "'d rv64_iss_env \<Rightarrow> ('d rv64_iss, unit) M" where
  "rv64_op_AMOSWAP_W E = rv64_execute_amo_w E (\<lambda>a b. b)"

definition rv64_op_AMOADD_W :: "'d rv64_iss_env \<Rightarrow> ('d rv64_iss, unit) M" where
  "rv64_op_AMOADD_W E = rv64_execute_amo_w E (\<lambda>a b. a + b)"

definition rv64_op_AMOXOR_W :: "'d rv64_iss_env \<Rightarrow> ('d rv64_iss, unit) M" where
  "rv64_op_AMOXOR_W E = rv64_execute_amo_w E (\<lambda>a b. a XOR b)"

definition rv64_op_AMOAND_W :: "'d rv64_iss_env \<Rightarrow> ('d rv64_iss, unit) M" where
  "rv64_op_AMOAND_W E = rv64_execute_amo_w E (\<lambda>a b. a AND b)"

definition rv64_op_AMOOR_W :: "'d rv64_iss_env \<Rightarrow> ('d rv64_iss, unit) M" where
  "rv64_op_AMOOR_W E = rv64_execute_amo_w E (\<lambda>a b. a OR b)"

definition rv64_op_AMOMIN_W :: "'d rv64_iss_env \<Rightarrow> ('d rv64_iss, unit) M" where
  "rv64_op_AMOMIN_W E = rv64_execute_amo_w E (\<lambda>a b. if sint b < sint a then b else a)"

definition rv64_op_AMOMINU_W :: "'d rv64_iss_env \<Rightarrow> ('d rv64_iss, unit) M" where
  "rv64_op_AMOMINU_W E = rv64_execute_amo_w E (\<lambda>a b. min a b)"

definition rv64_op_AMOMAX_W :: "'d rv64_iss_env \<Rightarrow> ('d rv64_iss, unit) M" where
  "rv64_op_AMOMAX_W E = rv64_execute_amo_w E (\<lambda>a b. if sint a < sint b then b else a)"

definition rv64_op_AMOMAXU_W :: "'d rv64_iss_env \<Rightarrow> ('d rv64_iss, unit) M" where
  "rv64_op_AMOMAXU_W E = rv64_execute_amo_w E (\<lambda>a b. max a b)"

definition rv64_op_LR_D :: "'d rv64_iss_env \<Rightarrow> ('d rv64_iss, unit) M" where
  "rv64_op_LR_D E = bindM (getsM rv64_rs1_val) (\<lambda>addr. seqM (rv64_trap_check_addr_alignment 8 True addr)
     (bindM (rv64_atomic_load_reserved_double (rv64_mem E) addr) (\<lambda>v.
      seqM (modifyM (rv64_set_rd v))
      (seqM (modifyM (\<lambda>s. if rv64_lr_sc_counter s = 0 then rv64_force_slow_path (s\<lparr>rv64_lr_sc_counter := 17\<rparr>) else s))
        (modifyM rv64_reset_reg_zero)))))"

definition rv64_op_SC_D :: "'d rv64_iss_env \<Rightarrow> ('d rv64_iss, unit) M" where
  "rv64_op_SC_D E = bindM (getsM rv64_rs1_val) (\<lambda>addr. seqM (rv64_trap_check_addr_alignment 8 False addr)
     (bindM (getsM rv64_rs2_val) (\<lambda>v.
      seqM (modifyM (rv64_set_rd 1))
      (bindM (rv64_atomic_store_conditional_double (rv64_mem E) addr v) (\<lambda>ok.
       seqM (modifyM (rv64_set_rd (if ok then 0 else 1)))
       (seqM (modifyM (\<lambda>s. s\<lparr>rv64_lr_sc_counter := 0\<rparr>))
         (modifyM rv64_reset_reg_zero)))))))"

definition rv64_execute_amo_d :: "'d rv64_iss_env \<Rightarrow> (u64 \<Rightarrow> u64 \<Rightarrow> u64) \<Rightarrow> ('d rv64_iss, unit) M" where
  "rv64_execute_amo_d E operation = bindM (getsM rv64_rs1_val) (\<lambda>addr.
     seqM (rv64_trap_check_addr_alignment 8 False addr)
     (bindM (catch_trap (rv64_atomic_load_double (rv64_mem E) addr)
               (\<lambda>r v. raise (SimulationTrap
                  (if r = EXC_LOAD_ACCESS_FAULT then EXC_STORE_AMO_ACCESS_FAULT else r) v))) (\<lambda>data.
      bindM (getsM (\<lambda>s. operation data (rv64_rs2_val s))) (\<lambda>v.
      seqM (rv64_atomic_store_double (rv64_mem E) addr v)
        (bindM (getsM (\<lambda>s. rd (rv64_instr s) \<noteq> 0)) (\<lambda>b. whenM b (modifyM (rv64_set_rd data))))))))"

definition rv64_op_AMOSWAP_D :: "'d rv64_iss_env \<Rightarrow> ('d rv64_iss, unit) M" where
  "rv64_op_AMOSWAP_D E = rv64_execute_amo_d E (\<lambda>a b. b)"

definition rv64_op_AMOADD_D :: "'d rv64_iss_env \<Rightarrow> ('d rv64_iss, unit) M" where
  "rv64_op_AMOADD_D E = rv64_execute_amo_d E (\<lambda>a b. a + b)"

definition rv64_op_AMOXOR_D :: "'d rv64_iss_env \<Rightarrow> ('d rv64_iss, unit) M" where
  "rv64_op_AMOXOR_D E = rv64_execute_amo_d E (\<lambda>a b. a XOR b)"

definition rv64_op_AMOAND_D :: "'d rv64_iss_env \<Rightarrow> ('d rv64_iss, unit) M" where
  "rv64_op_AMOAND_D E = rv64_execute_amo_d E (\<lambda>a b. a AND b)"

definition rv64_op_AMOOR_D :: "'d rv64_iss_env \<Rightarrow> ('d rv64_iss, unit) M" where
  "rv64_op_AMOOR_D E = rv64_execute_amo_d E (\<lambda>a b. a OR b)"

definition rv64_op_AMOMIN_D :: "'d rv64_iss_env \<Rightarrow> ('d rv64_iss, unit) M" where
  "rv64_op_AMOMIN_D E = rv64_execute_amo_d E (\<lambda>a b. if sint b < sint a then b else a)"

definition rv64_op_AMOMINU_D :: "'d rv64_iss_env \<Rightarrow> ('d rv64_iss, unit) M" where
  "rv64_op_AMOMINU_D E = rv64_execute_amo_d E (\<lambda>a b. min a b)"

definition rv64_op_AMOMAX_D :: "'d rv64_iss_env \<Rightarrow> ('d rv64_iss, unit) M" where
  "rv64_op_AMOMAX_D E = rv64_execute_amo_d E (\<lambda>a b. if sint a < sint b then b else a)"

definition rv64_op_AMOMAXU_D :: "'d rv64_iss_env \<Rightarrow> ('d rv64_iss, unit) M" where
  "rv64_op_AMOMAXU_D E = rv64_execute_amo_d E (\<lambda>a b. max a b)"

section \<open>Privileged instructions\<close>

text \<open>
  \<^verbatim>\<open>WFI\<close> suspends the SystemC process until an interrupt is pending; executing it again from this
  point is the same as resuming it, because the release of the reservation is idempotent.
\<close>

definition rv64_op_WFI :: "'d rv64_iss_env \<Rightarrow> ('d rv64_iss, unit) M" where
  "rv64_op_WFI E = seqM (rv64_release_lr_sc_reservation E)
     (bindM (getsM (\<lambda>s. rv64_s_mode s \<and> rv64_csr_fget rv64_csr_mstatus mstatus_tw s \<noteq> 0)) (\<lambda>b.
      seqM (whenM b rv64_RAISE_ILLEGAL_INSTRUCTION)
     (bindM (getsM (\<lambda>s. rv64_u_mode s \<and> rv64_has_supervisor_mode_extension (rv64_csrs s))) (\<lambda>b.
      seqM (whenM b rv64_RAISE_ILLEGAL_INSTRUCTION)
      (bindM (getsM (\<lambda>s. \<not> rv64_ignore_wfi s \<and> \<not> rv64_has_local_pending_enabled_interrupts s)) (\<lambda>wait.
       whenM wait (raise Suspended)))))))"

definition rv64_op_SFENCE_VMA :: "'d rv64_iss_env \<Rightarrow> ('d rv64_iss, unit) M" where
  "rv64_op_SFENCE_VMA E =
     bindM (getsM (\<lambda>s. rv64_s_mode s \<and> rv64_csr_fget rv64_csr_mstatus mstatus_tvm s \<noteq> 0)) (\<lambda>b.
      seqM (whenM b rv64_RAISE_ILLEGAL_INSTRUCTION) (rv64_ls_fence_vma (rv64_lscache E)))"

definition rv64_op_URET :: "('d rv64_iss, unit) M" where
  "rv64_op_URET = bindM (getsM (\<lambda>s. \<not> rv64_has_user_mode_extension (rv64_csrs s))) (\<lambda>b.
     seqM (whenM b rv64_RAISE_ILLEGAL_INSTRUCTION) (rv64_return_from_trap_handler UserMode))"

definition rv64_op_SRET :: "('d rv64_iss, unit) M" where
  "rv64_op_SRET = bindM (getsM (\<lambda>s. \<not> rv64_has_supervisor_mode_extension (rv64_csrs s) \<or>
                          rv64_s_mode s \<and> rv64_csr_fget rv64_csr_mstatus mstatus_tsr s \<noteq> 0)) (\<lambda>b.
     seqM (whenM b rv64_RAISE_ILLEGAL_INSTRUCTION) (rv64_return_from_trap_handler SupervisorMode))"

definition rv64_op_MRET :: "('d rv64_iss, unit) M" where
  "rv64_op_MRET = rv64_return_from_trap_handler MachineMode"

section \<open>Dispatch\<close>

text \<open>The \<^verbatim>\<open>OP_CASE_NOP\<close> list: operations decoded with \<^verbatim>\<open>rd = x0\<close> that have no effect.\<close>

definition rv64_nop_ops :: "OpId list" where
  "rv64_nop_ops =
    [LUI_NOP, AUIPC_NOP, ADDI_NOP, SLTI_NOP, SLTIU_NOP, XORI_NOP, ORI_NOP, ANDI_NOP,
     SLLI_NOP, SRLI_NOP, SRAI_NOP, ADD_NOP, SUB_NOP, SLL_NOP, SLT_NOP, SLTU_NOP,
     XOR_NOP, SRL_NOP, SRA_NOP, OR_NOP, AND_NOP, MUL_NOP, MULH_NOP, MULHSU_NOP,
     MULHU_NOP, DIV_NOP, DIVU_NOP, REM_NOP, REMU_NOP,
     ADDIW_NOP, SLLIW_NOP, SRLIW_NOP, SRAIW_NOP, ADDW_NOP, SUBW_NOP, SLLW_NOP, SRLW_NOP,
     SRAW_NOP, MULW_NOP, DIVW_NOP, DIVUW_NOP, REMW_NOP, REMUW_NOP]"

definition rv64_exec_op :: "(OpId \<Rightarrow> ('d rv64_iss, unit) M) \<Rightarrow> 'd rv64_iss_env \<Rightarrow> OpId \<Rightarrow> ('d rv64_iss, unit) M" where
  "rv64_exec_op ext_op E op =
     (if op \<in> set rv64_nop_ops then ret ()
      else switch_on op
       [(UNDEF, rv64_RAISE_ILLEGAL_INSTRUCTION), (UNSUP, rv64_RAISE_ILLEGAL_INSTRUCTION), (ADDI, rv64_op_ADDI),
        (SLTI, rv64_op_SLTI), (SLTIU, rv64_op_SLTIU), (XORI, rv64_op_XORI),
        (ORI, rv64_op_ORI), (ANDI, rv64_op_ANDI), (ADD, rv64_op_ADD),
        (SUB, rv64_op_SUB), (SLL, rv64_op_SLL), (SLT, rv64_op_SLT),
        (SLTU, rv64_op_SLTU), (SRL, rv64_op_SRL), (SRA, rv64_op_SRA),
        (XOR_op, rv64_op_XOR), (OR_op, rv64_op_OR), (AND_op, rv64_op_AND),
        (SLLI, rv64_op_SLLI), (SRLI, rv64_op_SRLI), (SRAI, rv64_op_SRAI),
        (LUI, rv64_op_LUI), (AUIPC, rv64_op_AUIPC), (J, rv64_op_J),
        (JAL, rv64_op_JAL), (JR, rv64_op_JR), (JALR, rv64_op_JALR),
        (BEQ, rv64_op_BEQ), (BNE, rv64_op_BNE), (BLT, rv64_op_BLT),
        (BGE, rv64_op_BGE), (BLTU, rv64_op_BLTU), (BGEU, rv64_op_BGEU),
        (SB, rv64_op_SB E), (SH, rv64_op_SH E), (SW, rv64_op_SW E),
        (LB, rv64_op_LB E), (LH, rv64_op_LH E), (LW, rv64_op_LW E),
        (LBU, rv64_op_LBU E), (LHU, rv64_op_LHU E), (FENCE, rv64_op_FENCE E),
        (FENCE_I, rv64_op_FENCE_I), (ECALL, rv64_op_ECALL E), (EBREAK, rv64_op_EBREAK),
        (CSRRW, rv64_op_CSRRW E), (CSRRS, rv64_op_CSRRS E), (CSRRC, rv64_op_CSRRC E),
        (CSRRWI, rv64_op_CSRRWI E), (CSRRSI, rv64_op_CSRRSI E), (CSRRCI, rv64_op_CSRRCI E),
        (MUL, rv64_op_MUL), (MULH, rv64_op_MULH), (MULHU, rv64_op_MULHU),
        (MULHSU, rv64_op_MULHSU), (DIV, rv64_op_DIV), (DIVU, rv64_op_DIVU),
        (REM, rv64_op_REM), (REMU, rv64_op_REMU), (LR_W, rv64_op_LR_W E),
        (SC_W, rv64_op_SC_W E), (AMOSWAP_W, rv64_op_AMOSWAP_W E), (AMOADD_W, rv64_op_AMOADD_W E),
        (AMOXOR_W, rv64_op_AMOXOR_W E), (AMOAND_W, rv64_op_AMOAND_W E), (AMOOR_W, rv64_op_AMOOR_W E),
        (AMOMIN_W, rv64_op_AMOMIN_W E), (AMOMINU_W, rv64_op_AMOMINU_W E), (AMOMAX_W, rv64_op_AMOMAX_W E),
        (AMOMAXU_W, rv64_op_AMOMAXU_W E), (WFI, rv64_op_WFI E), (SFENCE_VMA, rv64_op_SFENCE_VMA E),
        (URET, rv64_op_URET), (SRET, rv64_op_SRET), (MRET, rv64_op_MRET),
        (SD, rv64_op_SD E), (LD, rv64_op_LD E), (LWU, rv64_op_LWU E),
        (ADDIW, rv64_op_ADDIW), (SLLIW, rv64_op_SLLIW), (SRLIW, rv64_op_SRLIW),
        (SRAIW, rv64_op_SRAIW), (ADDW, rv64_op_ADDW), (SUBW, rv64_op_SUBW),
        (SLLW, rv64_op_SLLW), (SRLW, rv64_op_SRLW), (SRAW, rv64_op_SRAW),
        (MULW, rv64_op_MULW), (DIVW, rv64_op_DIVW), (DIVUW, rv64_op_DIVUW),
        (REMW, rv64_op_REMW), (REMUW, rv64_op_REMUW), (LR_D, rv64_op_LR_D E),
        (SC_D, rv64_op_SC_D E), (AMOSWAP_D, rv64_op_AMOSWAP_D E), (AMOADD_D, rv64_op_AMOADD_D E),
        (AMOXOR_D, rv64_op_AMOXOR_D E), (AMOAND_D, rv64_op_AMOAND_D E), (AMOOR_D, rv64_op_AMOOR_D E),
        (AMOMIN_D, rv64_op_AMOMIN_D E), (AMOMINU_D, rv64_op_AMOMINU_D E), (AMOMAX_D, rv64_op_AMOMAX_D E),
        (AMOMAXU_D, rv64_op_AMOMAXU_D E)]
       (ext_op op))"

section \<open>The execution loop\<close>

text \<open>
  The slow path of the global fetch, decode and dispatch. The result says whether the loop is left.
\<close>

definition rv64_lr_sc_tick :: "'d rv64_iss_env \<Rightarrow> ('d rv64_iss, unit) M" where
  "rv64_lr_sc_tick E = bindM (getsM rv64_lr_sc_counter) (\<lambda>k.
     if k \<noteq> 0
     then seqM (modifyM (\<lambda>s. s\<lparr>rv64_lr_sc_counter := k - 1\<rparr>))
          (seqM (assertM (k - 1 \<ge> 0))
           (if k - 1 = 0 then rv64_release_lr_sc_reservation E else modifyM rv64_force_slow_path))
     else bindM (getsM (rv64_need_sync E)) (\<lambda>b. whenM b (rv64_sync E)))"

definition rv64_debug_check :: "bool \<Rightarrow> ('d rv64_iss, bool) M" where
  "rv64_debug_check debug_single_step = bindM (getsM rv64_debug_mode) (\<lambda>dbg.
     if \<not> dbg then ret False
     else seqM (modifyM rv64_force_slow_path)
       (bindM (getsM (\<lambda>s. (rv64_debug_single_step_done s, rv64_pc s \<in> set (rv64_breakpoints s)))) (\<lambda>(stepped, bp).
        if debug_single_step \<and> stepped then ret True
        else if bp then seqM (modifyM (rv64_set_status HitBreakpoint)) (ret True)
        else seqM (modifyM (\<lambda>s. s\<lparr>rv64_debug_single_step_done := True\<rparr>)) (ret False))))"

definition rv64_slow_path :: "'d rv64_iss_env \<Rightarrow> bool \<Rightarrow> ('d rv64_iss, bool) M" where
  "rv64_slow_path E debug_single_step =
     seqM (modifyM (\<lambda>s. rv64_commit_all_and_reset_fast_quantum (s\<lparr>rv64_iss_slow_path := False\<rparr>)))
     (seqM (rv64_handle_interrupt E)
     (seqM (modifyM (\<lambda>s. if rv64_shall_exit s then rv64_set_status Terminated s else s))
     (bindM (getsM rv64_status) (\<lambda>st.
      if st \<noteq> Runnable then ret True
      else seqM (rv64_lr_sc_tick E) (rv64_debug_check debug_single_step)))))"

definition rv64_exec_and_count :: "(OpId \<Rightarrow> ('d rv64_iss, unit) M) \<Rightarrow> 'd rv64_iss_env \<Rightarrow> OpId \<Rightarrow> ('d rv64_iss, bool) M" where
  "rv64_exec_and_count ext_op E op = seqM (rv64_exec_op ext_op E op)
     (seqM (modifyM (\<lambda>s. s\<lparr>rv64_ninstr := rv64_ninstr s + 1\<rparr>)) (ret False))"

definition rv64_slow_fdd :: "(OpId \<Rightarrow> ('d rv64_iss, unit) M) \<Rightarrow> 'd rv64_iss_env \<Rightarrow> ('d rv64_iss, bool) M" where
  "rv64_slow_fdd ext_op E = bindM (getsM (\<lambda>s. rv64_pc s AND NOT (rv64_pc_alignment_mask s) = 0)) (\<lambda>aligned.
     seqM (assertM aligned)
     (bindM (rv64_fetch_decode E) (\<lambda>op.
      seqM (modifyM (\<lambda>s. if rv64_trace s then rv64_force_slow_path s else s)) (rv64_exec_and_count ext_op E op))))"

definition rv64_med_fdd :: "(OpId \<Rightarrow> ('d rv64_iss, unit) M) \<Rightarrow> 'd rv64_iss_env \<Rightarrow> ('d rv64_iss, bool) M" where
  "rv64_med_fdd ext_op E =
     bindM (getsM (\<lambda>s. rv64_ninstr s > rv64_fast_quantum_ins_granularity E)) (\<lambda>q.
     seqM (whenM q (seqM (modifyM rv64_commit_all_and_reset_fast_quantum)
             (bindM (getsM (rv64_need_sync E)) (\<lambda>b. whenM b (rv64_sync E)))))
       (bindM (rv64_fetch_decode E) (rv64_exec_and_count ext_op E)))"

text \<open>One pass of the \<^verbatim>\<open>do\<close> loop, with its \<^verbatim>\<open>try\<close> and \<^verbatim>\<open>catch\<close>.\<close>

definition rv64_iteration :: "(OpId \<Rightarrow> ('d rv64_iss, unit) M) \<Rightarrow> 'd rv64_iss_env \<Rightarrow> bool \<Rightarrow> ('d rv64_iss, bool) M" where
  "rv64_iteration ext_op E debug_single_step = catch_trap
     (seqM (modifyM (\<lambda>s. s\<lparr>rv64_pc := rv64_dbb_pc (rv64_dbbcache s)\<rparr>))
      (bindM (getsM rv64_iss_slow_path) (\<lambda>slow.
       if slow then bindM (rv64_slow_path E debug_single_step)
                      (\<lambda>leave. if leave then ret True else rv64_slow_fdd ext_op E)
       else rv64_med_fdd ext_op E)))
     (\<lambda>r v. bindM (getsM (\<lambda>s. rv64_dbb_last_pc (rv64_dbbcache s))) (\<lambda>last_pc.
       seqM (modifyM (\<lambda>s. s\<lparr>rv64_ninstr := rv64_ninstr s + 1\<rparr>))
       (seqM (rv64_handle_trap E r v last_pc) (ret False))))"

text \<open>The loop with a bound on the number of passes: the result is false when the bound is reached.\<close>

fun rv64_exec_loop :: "(OpId \<Rightarrow> ('d rv64_iss, unit) M) \<Rightarrow> 'd rv64_iss_env \<Rightarrow> bool \<Rightarrow> nat \<Rightarrow> ('d rv64_iss, bool) M" where
  "rv64_exec_loop ext_op E dss 0 = ret False"
| "rv64_exec_loop ext_op E dss (Suc n) = bindM (rv64_iteration ext_op E dss)
     (\<lambda>leave. if leave then ret True else rv64_exec_loop ext_op E dss n)"

definition rv64_exec_steps :: "(OpId \<Rightarrow> ('d rv64_iss, unit) M) \<Rightarrow> 'd rv64_iss_env \<Rightarrow> bool \<Rightarrow> nat \<Rightarrow> ('d rv64_iss, bool) M" where
  "rv64_exec_steps ext_op E dss n =
     bindM (getsM (\<lambda>s. rv64_regs s ! 0 = 0)) (\<lambda>z. seqM (assertM z)
     (seqM (modifyM (\<lambda>s. s\<lparr>rv64_debug_single_step_done := False, rv64_ninstr := 0, rv64_ninstr_last := 0\<rparr>))
     (bindM (getsM (\<lambda>s. rv64_pc s AND NOT (rv64_pc_alignment_mask s) = 0)) (\<lambda>aligned. seqM (assertM aligned)
     (seqM (modifyM rv64_force_slow_path)
     (bindM (rv64_exec_loop ext_op E dss n) (\<lambda>leave.
      if \<not> leave then ret False
      else seqM (modifyM (\<lambda>s. rv64_commit_all_and_reset_fast_quantum (s\<lparr>rv64_pc := rv64_dbb_pc (rv64_dbbcache s)\<rparr>)))
             (seqM (rv64_sync E) (ret True)))))))))"

text \<open>\<^verbatim>\<open>run_step\<close> and \<^verbatim>\<open>run\<close>, bounded in the same way.\<close>

definition rv64_run_step :: "(OpId \<Rightarrow> ('d rv64_iss, unit) M) \<Rightarrow> 'd rv64_iss_env \<Rightarrow> nat \<Rightarrow> ('d rv64_iss, bool) M" where
  "rv64_run_step ext_op E n = bindM (getsM rv64_debug_mode) (\<lambda>dbg.
     if \<not> dbg then raise RuntimeError else rv64_exec_steps ext_op E True n)"

definition rv64_run :: "(OpId \<Rightarrow> ('d rv64_iss, unit) M) \<Rightarrow> 'd rv64_iss_env \<Rightarrow> nat \<Rightarrow> ('d rv64_iss, bool) M" where
  "rv64_run ext_op E n = rv64_exec_steps ext_op E False n"

end
