(* ===== verification/RV64_FP.thy ===== *)
theory RV64_FP
  imports RV64_ISS VP_FP
begin

text \<open>
  The floating-point unit of the RV64 ISS: the \<^verbatim>\<open>fp_*\<close> functions and the operations of the Zfh, F and D extensions of
  \<^verbatim>\<open>vp/src/core/rv64/iss_ctemplate.cpp\<close>, with the conversions from and to 64-bit integers. The formats and the boxing
  of narrower values are those of \<^verbatim>\<open>VP_FP\<close>; the softfloat library is again a parameter.
\<close>

section \<open>The softfloat library\<close>

record softfloat_l =
  sfl_f16_to_i64 :: "u8 \<Rightarrow> u16 \<Rightarrow> u64 \<times> u8"
  sfl_i64_to_f16 :: "u8 \<Rightarrow> u64 \<Rightarrow> u16 \<times> u8"
  sfl_f16_to_ui64 :: "u8 \<Rightarrow> u16 \<Rightarrow> u64 \<times> u8"
  sfl_ui64_to_f16 :: "u8 \<Rightarrow> u64 \<Rightarrow> u16 \<times> u8"
  sfl_f32_to_i64 :: "u8 \<Rightarrow> u32 \<Rightarrow> u64 \<times> u8"
  sfl_i64_to_f32 :: "u8 \<Rightarrow> u64 \<Rightarrow> u32 \<times> u8"
  sfl_f32_to_ui64 :: "u8 \<Rightarrow> u32 \<Rightarrow> u64 \<times> u8"
  sfl_ui64_to_f32 :: "u8 \<Rightarrow> u64 \<Rightarrow> u32 \<times> u8"
  sfl_f64_to_i64 :: "u8 \<Rightarrow> u64 \<Rightarrow> u64 \<times> u8"
  sfl_i64_to_f64 :: "u8 \<Rightarrow> u64 \<Rightarrow> u64 \<times> u8"
  sfl_f64_to_ui64 :: "u8 \<Rightarrow> u64 \<Rightarrow> u64 \<times> u8"
  sfl_ui64_to_f64 :: "u8 \<Rightarrow> u64 \<Rightarrow> u64 \<times> u8"

section \<open>The register file\<close>

definition rv64_f64 :: "u32 \<Rightarrow> 'd rv64_iss \<Rightarrow> u64" where "rv64_f64 idx s = rv64_fp_regs s ! unat idx"
definition rv64_f32 :: "u32 \<Rightarrow> 'd rv64_iss \<Rightarrow> u32" where "rv64_f32 idx s = f32_boxed (rv64_f64 idx s)"
definition rv64_f16 :: "u32 \<Rightarrow> 'd rv64_iss \<Rightarrow> u16" where "rv64_f16 idx s = f16_boxed (rv64_f64 idx s)"

definition rv64_fp_write64 :: "u32 \<Rightarrow> u64 \<Rightarrow> 'd rv64_iss \<Rightarrow> 'd rv64_iss" where
  "rv64_fp_write64 idx x s = s\<lparr>rv64_fp_regs := (rv64_fp_regs s)[unat idx := x]\<rparr>"

definition rv64_fp_write32 :: "u32 \<Rightarrow> u32 \<Rightarrow> 'd rv64_iss \<Rightarrow> 'd rv64_iss" where
  "rv64_fp_write32 idx x = rv64_fp_write64 idx (box_f32 x)"

definition rv64_fp_write16 :: "u32 \<Rightarrow> u16 \<Rightarrow> 'd rv64_iss \<Rightarrow> 'd rv64_iss" where
  "rv64_fp_write16 idx x = rv64_fp_write64 idx (box_f16 x)"

section \<open>Instruction prologue and epilogue\<close>

definition rv64_fp_prepare_instr :: "('d rv64_iss, unit) M" where
  "rv64_fp_prepare_instr = bindM (getsM (\<lambda>s. rv64_softfloat_exceptionFlags s = 0)) (\<lambda>clean.
     seqM (assertM clean) rv64_fp_require_not_off)"

definition rv64_fp_set_dirty :: "'d rv64_iss \<Rightarrow> 'd rv64_iss" where
  "rv64_fp_set_dirty s = rv64_csr_fset rv64_csr_mstatus mstatus_fs rv64_FS_DIRTY (rv64_csr_fset rv64_csr_mstatus rv64_mstatus_sd 1 s)"

definition rv64_fp_update_exception_flags :: "'d rv64_iss \<Rightarrow> 'd rv64_iss" where
  "rv64_fp_update_exception_flags s =
     (if rv64_softfloat_exceptionFlags s \<noteq> 0
      then (let s = rv64_fp_set_dirty s;
                s = rv64_csr_fset rv64_csr_fcsr fcsr_fflags
                      (rv64_csr_fget rv64_csr_fcsr fcsr_fflags s OR ucast (rv64_softfloat_exceptionFlags s)) s
            in s\<lparr>rv64_softfloat_exceptionFlags := 0\<rparr>)
      else s)"

definition rv64_fp_finish_instr :: "'d rv64_iss \<Rightarrow> 'd rv64_iss" where
  "rv64_fp_finish_instr s = rv64_fp_update_exception_flags (rv64_fp_set_dirty s)"

definition rv64_fp_setup_rm :: "('d rv64_iss, unit) M" where
  "rv64_fp_setup_rm = bindM (getsM (\<lambda>s. if frm (rv64_instr s) = FRM_DYN then ucast (rv64_csr_fget rv64_csr_fcsr fcsr_frm s)
                                   else frm (rv64_instr s))) (\<lambda>rm.
     if rm > FRM_RMM then rv64_RAISE_ILLEGAL_INSTRUCTION
     else modifyM (\<lambda>s. s\<lparr>rv64_softfloat_roundingMode := ucast rm\<rparr>))"

text \<open>A call of the library: the flags it raises are accumulated.\<close>

definition rv64_sf_call :: "('d rv64_iss \<Rightarrow> 'a \<times> u8) \<Rightarrow> ('d rv64_iss, 'a) M" where
  "rv64_sf_call f = bindM (getsM f) (\<lambda>(r, flags).
     seqM (modifyM (\<lambda>s. s\<lparr>rv64_softfloat_exceptionFlags := rv64_softfloat_exceptionFlags s OR flags\<rparr>)) (ret r))"

section \<open>The shapes of the operations\<close>

text \<open>Prepare, set the rounding mode, compute, write the floating-point register, finish.\<close>

definition rv64_fp_arith ::
  "(u32 \<Rightarrow> 'f \<Rightarrow> 'd rv64_iss \<Rightarrow> 'd rv64_iss) \<Rightarrow> ('d rv64_iss \<Rightarrow> 'f \<times> u8) \<Rightarrow> ('d rv64_iss, unit) M"
where
  "rv64_fp_arith write f = seqM rv64_fp_prepare_instr (seqM rv64_fp_setup_rm (bindM (rv64_sf_call f) (\<lambda>r.
     seqM (modifyM (\<lambda>s. write (rd (rv64_instr s)) r s)) (modifyM rv64_fp_finish_instr))))"

text \<open>Conversion to an integer register.\<close>

definition rv64_fp_to_int :: "('d rv64_iss \<Rightarrow> u64 \<times> u8) \<Rightarrow> ('d rv64_iss, unit) M" where
  "rv64_fp_to_int f = seqM rv64_fp_prepare_instr (seqM rv64_fp_setup_rm (bindM (rv64_sf_call f) (\<lambda>r.
     seqM (modifyM (rv64_set_rd r)) (seqM (modifyM rv64_fp_finish_instr) (modifyM rv64_reset_reg_zero)))))"

definition rv64_fp_compare :: "('d rv64_iss \<Rightarrow> bool \<times> u8) \<Rightarrow> ('d rv64_iss, unit) M" where
  "rv64_fp_compare f = seqM rv64_fp_prepare_instr (bindM (rv64_sf_call f) (\<lambda>b.
     seqM (modifyM (rv64_set_rd (rv64_bool_reg b)))
       (seqM (modifyM rv64_fp_update_exception_flags) (modifyM rv64_reset_reg_zero))))"

text \<open>Classification and moves to an integer register raise no flags.\<close>

definition rv64_fp_move_to_int :: "('d rv64_iss \<Rightarrow> u64) \<Rightarrow> ('d rv64_iss, unit) M" where
  "rv64_fp_move_to_int f = seqM rv64_fp_prepare_instr
     (seqM (modifyM (\<lambda>s. rv64_set_rd (f s) s)) (modifyM rv64_reset_reg_zero))"

text \<open>Sign injection and moves from an integer register.\<close>

definition rv64_fp_sign ::
  "(u32 \<Rightarrow> 'f \<Rightarrow> 'd rv64_iss \<Rightarrow> 'd rv64_iss) \<Rightarrow> ('d rv64_iss \<Rightarrow> 'f) \<Rightarrow> ('d rv64_iss, unit) M"
where
  "rv64_fp_sign write f = seqM rv64_fp_prepare_instr
     (seqM (modifyM (\<lambda>s. write (rd (rv64_instr s)) (f s) s)) (modifyM rv64_fp_set_dirty))"

text \<open>
  Minimum and maximum: \<open>first\<close> is \<^verbatim>\<open>rs1_smaller\<close> or \<^verbatim>\<open>rs1_greater\<close>; the second comparison is only made when the
  first is false.
\<close>

definition rv64_fp_min_max ::
  "(u32 \<Rightarrow> 'd rv64_iss \<Rightarrow> 'f) \<Rightarrow> (u32 \<Rightarrow> 'f \<Rightarrow> 'd rv64_iss \<Rightarrow> 'd rv64_iss) \<Rightarrow> ('f \<Rightarrow> bool) \<Rightarrow> ('f \<Rightarrow> bool) \<Rightarrow> 'f \<Rightarrow>
   ('f \<Rightarrow> 'f \<Rightarrow> bool \<times> u8) \<Rightarrow> ('f \<Rightarrow> 'f \<Rightarrow> bool \<times> u8) \<Rightarrow> bool \<Rightarrow> ('d rv64_iss, unit) M"
where
  "rv64_fp_min_max read write isNegative isNaN defaultNaN lt_quiet eq maximum = seqM rv64_fp_prepare_instr
     (bindM (getsM (\<lambda>s. (read (rs1 (rv64_instr s)) s, read (rs2 (rv64_instr s)) s))) (\<lambda>(a, b).
      let (x, y) = (if maximum then (b, a) else (a, b)) in
      bindM (rv64_sf_call (\<lambda>_. lt_quiet x y)) (\<lambda>lt.
      bindM (if lt then ret True
             else bindM (rv64_sf_call (\<lambda>_. eq x y)) (\<lambda>e. ret (e \<and> isNegative x))) (\<lambda>first.
      seqM (modifyM (\<lambda>s. write (rd (rv64_instr s))
              (if isNaN a \<and> isNaN b then defaultNaN else if first \<or> isNaN b then a else b) s))
        (modifyM rv64_fp_finish_instr)))))"

text \<open>A 32-bit result is sign-extended, also an unsigned one.\<close>

definition rv64_fp_to_int32 :: "('d rv64_iss \<Rightarrow> u32 \<times> u8) \<Rightarrow> ('d rv64_iss, unit) M" where
  "rv64_fp_to_int32 f = rv64_fp_to_int (\<lambda>s. case f s of (r, flags) \<Rightarrow> (scast r, flags))"

section \<open>Operations\<close>

definition rv64_op_FLH :: "'d rv64_iss_env \<Rightarrow> ('d rv64_iss, unit) M" where
  "rv64_op_FLH E = seqM rv64_fp_prepare_instr (bindM (getsM rv64_load_addr) (\<lambda>addr.
     seqM (rv64_trap_check_addr_alignment 2 True addr)
     (bindM (rv64_ls_load_uhalf (rv64_lscache E) addr) (\<lambda>v.
      seqM (modifyM (\<lambda>s. rv64_fp_write16 (rd (rv64_instr s)) (ucast v) s)) (modifyM rv64_fp_set_dirty)))))"

definition rv64_op_FSH :: "'d rv64_iss_env \<Rightarrow> ('d rv64_iss, unit) M" where
  "rv64_op_FSH E = seqM rv64_fp_prepare_instr (bindM (getsM (\<lambda>s. (rv64_store_addr s, ucast (rv64_f64 (rs2 (rv64_instr s)) s)))) (\<lambda>(addr, v).
     seqM (rv64_trap_check_addr_alignment 2 False addr)
     (seqM (rv64_ls_store_half (rv64_lscache E) addr v) (modifyM rv64_fp_set_dirty))))"

definition rv64_op_FADD_H :: "softfloat \<Rightarrow> ('d rv64_iss, unit) M" where
  "rv64_op_FADD_H SF = rv64_fp_arith rv64_fp_write16 (\<lambda>s. sf_f16_add SF (rv64_softfloat_roundingMode s)
     (rv64_f16 (rs1 (rv64_instr s)) s) (rv64_f16 (rs2 (rv64_instr s)) s))"

definition rv64_op_FSUB_H :: "softfloat \<Rightarrow> ('d rv64_iss, unit) M" where
  "rv64_op_FSUB_H SF = rv64_fp_arith rv64_fp_write16 (\<lambda>s. sf_f16_sub SF (rv64_softfloat_roundingMode s)
     (rv64_f16 (rs1 (rv64_instr s)) s) (rv64_f16 (rs2 (rv64_instr s)) s))"

definition rv64_op_FMUL_H :: "softfloat \<Rightarrow> ('d rv64_iss, unit) M" where
  "rv64_op_FMUL_H SF = rv64_fp_arith rv64_fp_write16 (\<lambda>s. sf_f16_mul SF (rv64_softfloat_roundingMode s)
     (rv64_f16 (rs1 (rv64_instr s)) s) (rv64_f16 (rs2 (rv64_instr s)) s))"

definition rv64_op_FDIV_H :: "softfloat \<Rightarrow> ('d rv64_iss, unit) M" where
  "rv64_op_FDIV_H SF = rv64_fp_arith rv64_fp_write16 (\<lambda>s. sf_f16_div SF (rv64_softfloat_roundingMode s)
     (rv64_f16 (rs1 (rv64_instr s)) s) (rv64_f16 (rs2 (rv64_instr s)) s))"

definition rv64_op_FSQRT_H :: "softfloat \<Rightarrow> ('d rv64_iss, unit) M" where
  "rv64_op_FSQRT_H SF = rv64_fp_arith rv64_fp_write16 (\<lambda>s. sf_f16_sqrt SF (rv64_softfloat_roundingMode s)
     (rv64_f16 (rs1 (rv64_instr s)) s))"

definition rv64_op_FMIN_H :: "softfloat \<Rightarrow> ('d rv64_iss, unit) M" where
  "rv64_op_FMIN_H SF = rv64_fp_min_max rv64_f16 rv64_fp_write16 f16_isNegative f16_isNaN f16_defaultNaN
     (sf_f16_lt_quiet SF) (sf_f16_eq SF) False"

definition rv64_op_FMAX_H :: "softfloat \<Rightarrow> ('d rv64_iss, unit) M" where
  "rv64_op_FMAX_H SF = rv64_fp_min_max rv64_f16 rv64_fp_write16 f16_isNegative f16_isNaN f16_defaultNaN
     (sf_f16_lt_quiet SF) (sf_f16_eq SF) True"

definition rv64_op_FMADD_H :: "softfloat \<Rightarrow> ('d rv64_iss, unit) M" where
  "rv64_op_FMADD_H SF = rv64_fp_arith rv64_fp_write16 (\<lambda>s. sf_f16_mulAdd SF (rv64_softfloat_roundingMode s)
     (rv64_f16 (rs1 (rv64_instr s)) s) (rv64_f16 (rs2 (rv64_instr s)) s) (rv64_f16 (rs3 (rv64_instr s)) s))"

definition rv64_op_FMSUB_H :: "softfloat \<Rightarrow> ('d rv64_iss, unit) M" where
  "rv64_op_FMSUB_H SF = rv64_fp_arith rv64_fp_write16 (\<lambda>s. sf_f16_mulAdd SF (rv64_softfloat_roundingMode s)
     (rv64_f16 (rs1 (rv64_instr s)) s) (rv64_f16 (rs2 (rv64_instr s)) s) (f16_neg (rv64_f16 (rs3 (rv64_instr s)) s)))"

definition rv64_op_FNMADD_H :: "softfloat \<Rightarrow> ('d rv64_iss, unit) M" where
  "rv64_op_FNMADD_H SF = rv64_fp_arith rv64_fp_write16 (\<lambda>s. sf_f16_mulAdd SF (rv64_softfloat_roundingMode s)
     (f16_neg (rv64_f16 (rs1 (rv64_instr s)) s)) (rv64_f16 (rs2 (rv64_instr s)) s) (f16_neg (rv64_f16 (rs3 (rv64_instr s)) s)))"

definition rv64_op_FNMSUB_H :: "softfloat \<Rightarrow> ('d rv64_iss, unit) M" where
  "rv64_op_FNMSUB_H SF = rv64_fp_arith rv64_fp_write16 (\<lambda>s. sf_f16_mulAdd SF (rv64_softfloat_roundingMode s)
     (f16_neg (rv64_f16 (rs1 (rv64_instr s)) s)) (rv64_f16 (rs2 (rv64_instr s)) s) (rv64_f16 (rs3 (rv64_instr s)) s))"

definition rv64_op_FSGNJ_H :: "('d rv64_iss, unit) M" where
  "rv64_op_FSGNJ_H = rv64_fp_sign rv64_fp_write16 (\<lambda>s. f16_sgnj (rv64_f16 (rs1 (rv64_instr s)) s) (rv64_f16 (rs2 (rv64_instr s)) s))"

definition rv64_op_FSGNJN_H :: "('d rv64_iss, unit) M" where
  "rv64_op_FSGNJN_H = rv64_fp_sign rv64_fp_write16 (\<lambda>s. f16_sgnjn (rv64_f16 (rs1 (rv64_instr s)) s) (rv64_f16 (rs2 (rv64_instr s)) s))"

definition rv64_op_FSGNJX_H :: "('d rv64_iss, unit) M" where
  "rv64_op_FSGNJX_H = rv64_fp_sign rv64_fp_write16 (\<lambda>s. f16_sgnjx (rv64_f16 (rs1 (rv64_instr s)) s) (rv64_f16 (rs2 (rv64_instr s)) s))"

definition rv64_op_FEQ_H :: "softfloat \<Rightarrow> ('d rv64_iss, unit) M" where
  "rv64_op_FEQ_H SF = rv64_fp_compare (\<lambda>s. sf_f16_eq SF (rv64_f16 (rs1 (rv64_instr s)) s) (rv64_f16 (rs2 (rv64_instr s)) s))"

definition rv64_op_FLT_H :: "softfloat \<Rightarrow> ('d rv64_iss, unit) M" where
  "rv64_op_FLT_H SF = rv64_fp_compare (\<lambda>s. sf_f16_lt SF (rv64_f16 (rs1 (rv64_instr s)) s) (rv64_f16 (rs2 (rv64_instr s)) s))"

definition rv64_op_FLE_H :: "softfloat \<Rightarrow> ('d rv64_iss, unit) M" where
  "rv64_op_FLE_H SF = rv64_fp_compare (\<lambda>s. sf_f16_le SF (rv64_f16 (rs1 (rv64_instr s)) s) (rv64_f16 (rs2 (rv64_instr s)) s))"

definition rv64_op_FCLASS_H :: "softfloat \<Rightarrow> ('d rv64_iss, unit) M" where
  "rv64_op_FCLASS_H SF = rv64_fp_move_to_int (\<lambda>s. scast (ucast (sf_f16_classify SF (rv64_f16 (rs1 (rv64_instr s)) s)) :: u16))"

definition rv64_op_FMV_H_X :: "('d rv64_iss, unit) M" where
  "rv64_op_FMV_H_X = rv64_fp_sign rv64_fp_write16 (\<lambda>s. ucast (rv64_rs1_val s))"

definition rv64_op_FMV_X_H :: "('d rv64_iss, unit) M" where
  "rv64_op_FMV_X_H = rv64_fp_move_to_int (\<lambda>s. scast (ucast (rv64_f64 (rs1 (rv64_instr s)) s) :: u16))"

definition rv64_op_FCVT_W_H :: "softfloat \<Rightarrow> ('d rv64_iss, unit) M" where
  "rv64_op_FCVT_W_H SF = rv64_fp_to_int32 (\<lambda>s. sf_f16_to_i32 SF (rv64_softfloat_roundingMode s)
     (rv64_f16 (rs1 (rv64_instr s)) s))"

definition rv64_op_FCVT_WU_H :: "softfloat \<Rightarrow> ('d rv64_iss, unit) M" where
  "rv64_op_FCVT_WU_H SF = rv64_fp_to_int32 (\<lambda>s. sf_f16_to_ui32 SF (rv64_softfloat_roundingMode s)
     (rv64_f16 (rs1 (rv64_instr s)) s))"

definition rv64_op_FCVT_H_W :: "softfloat \<Rightarrow> ('d rv64_iss, unit) M" where
  "rv64_op_FCVT_H_W SF = rv64_fp_arith rv64_fp_write16 (\<lambda>s. sf_i32_to_f16 SF (rv64_softfloat_roundingMode s)
     (rv64_rs1_word s))"

definition rv64_op_FCVT_H_WU :: "softfloat \<Rightarrow> ('d rv64_iss, unit) M" where
  "rv64_op_FCVT_H_WU SF = rv64_fp_arith rv64_fp_write16 (\<lambda>s. sf_ui32_to_f16 SF (rv64_softfloat_roundingMode s)
     (rv64_rs1_word s))"

definition rv64_op_FCVT_S_H :: "softfloat \<Rightarrow> ('d rv64_iss, unit) M" where
  "rv64_op_FCVT_S_H SF = rv64_fp_arith rv64_fp_write32 (\<lambda>s. sf_f16_to_f32 SF (rv64_softfloat_roundingMode s)
     (rv64_f16 (rs1 (rv64_instr s)) s))"

definition rv64_op_FCVT_H_S :: "softfloat \<Rightarrow> ('d rv64_iss, unit) M" where
  "rv64_op_FCVT_H_S SF = rv64_fp_arith rv64_fp_write16 (\<lambda>s. sf_f32_to_f16 SF (rv64_softfloat_roundingMode s)
     (rv64_f32 (rs1 (rv64_instr s)) s))"

definition rv64_op_FCVT_H_D :: "softfloat \<Rightarrow> ('d rv64_iss, unit) M" where
  "rv64_op_FCVT_H_D SF = rv64_fp_arith rv64_fp_write16 (\<lambda>s. sf_f64_to_f16 SF (rv64_softfloat_roundingMode s)
     (rv64_f64 (rs1 (rv64_instr s)) s))"

definition rv64_op_FCVT_D_H :: "softfloat \<Rightarrow> ('d rv64_iss, unit) M" where
  "rv64_op_FCVT_D_H SF = rv64_fp_arith rv64_fp_write64 (\<lambda>s. sf_f16_to_f64 SF (rv64_softfloat_roundingMode s)
     (rv64_f16 (rs1 (rv64_instr s)) s))"

definition rv64_op_FLW :: "'d rv64_iss_env \<Rightarrow> ('d rv64_iss, unit) M" where
  "rv64_op_FLW E = seqM rv64_fp_prepare_instr (bindM (getsM rv64_load_addr) (\<lambda>addr.
     seqM (rv64_trap_check_addr_alignment 4 True addr)
     (bindM (rv64_ls_load_uword (rv64_lscache E) addr) (\<lambda>v.
      seqM (modifyM (\<lambda>s. rv64_fp_write32 (rd (rv64_instr s)) (ucast v) s)) (modifyM rv64_fp_set_dirty)))))"

definition rv64_op_FSW :: "'d rv64_iss_env \<Rightarrow> ('d rv64_iss, unit) M" where
  "rv64_op_FSW E = seqM rv64_fp_prepare_instr (bindM (getsM (\<lambda>s. (rv64_store_addr s, ucast (rv64_f64 (rs2 (rv64_instr s)) s)))) (\<lambda>(addr, v).
     seqM (rv64_trap_check_addr_alignment 4 False addr)
     (seqM (rv64_ls_store_word (rv64_lscache E) addr v) (modifyM rv64_fp_set_dirty))))"

definition rv64_op_FADD_S :: "softfloat \<Rightarrow> ('d rv64_iss, unit) M" where
  "rv64_op_FADD_S SF = rv64_fp_arith rv64_fp_write32 (\<lambda>s. sf_f32_add SF (rv64_softfloat_roundingMode s)
     (rv64_f32 (rs1 (rv64_instr s)) s) (rv64_f32 (rs2 (rv64_instr s)) s))"

definition rv64_op_FSUB_S :: "softfloat \<Rightarrow> ('d rv64_iss, unit) M" where
  "rv64_op_FSUB_S SF = rv64_fp_arith rv64_fp_write32 (\<lambda>s. sf_f32_sub SF (rv64_softfloat_roundingMode s)
     (rv64_f32 (rs1 (rv64_instr s)) s) (rv64_f32 (rs2 (rv64_instr s)) s))"

definition rv64_op_FMUL_S :: "softfloat \<Rightarrow> ('d rv64_iss, unit) M" where
  "rv64_op_FMUL_S SF = rv64_fp_arith rv64_fp_write32 (\<lambda>s. sf_f32_mul SF (rv64_softfloat_roundingMode s)
     (rv64_f32 (rs1 (rv64_instr s)) s) (rv64_f32 (rs2 (rv64_instr s)) s))"

definition rv64_op_FDIV_S :: "softfloat \<Rightarrow> ('d rv64_iss, unit) M" where
  "rv64_op_FDIV_S SF = rv64_fp_arith rv64_fp_write32 (\<lambda>s. sf_f32_div SF (rv64_softfloat_roundingMode s)
     (rv64_f32 (rs1 (rv64_instr s)) s) (rv64_f32 (rs2 (rv64_instr s)) s))"

definition rv64_op_FSQRT_S :: "softfloat \<Rightarrow> ('d rv64_iss, unit) M" where
  "rv64_op_FSQRT_S SF = rv64_fp_arith rv64_fp_write32 (\<lambda>s. sf_f32_sqrt SF (rv64_softfloat_roundingMode s)
     (rv64_f32 (rs1 (rv64_instr s)) s))"

definition rv64_op_FMIN_S :: "softfloat \<Rightarrow> ('d rv64_iss, unit) M" where
  "rv64_op_FMIN_S SF = rv64_fp_min_max rv64_f32 rv64_fp_write32 f32_isNegative f32_isNaN f32_defaultNaN
     (sf_f32_lt_quiet SF) (sf_f32_eq SF) False"

definition rv64_op_FMAX_S :: "softfloat \<Rightarrow> ('d rv64_iss, unit) M" where
  "rv64_op_FMAX_S SF = rv64_fp_min_max rv64_f32 rv64_fp_write32 f32_isNegative f32_isNaN f32_defaultNaN
     (sf_f32_lt_quiet SF) (sf_f32_eq SF) True"

definition rv64_op_FMADD_S :: "softfloat \<Rightarrow> ('d rv64_iss, unit) M" where
  "rv64_op_FMADD_S SF = rv64_fp_arith rv64_fp_write32 (\<lambda>s. sf_f32_mulAdd SF (rv64_softfloat_roundingMode s)
     (rv64_f32 (rs1 (rv64_instr s)) s) (rv64_f32 (rs2 (rv64_instr s)) s) (rv64_f32 (rs3 (rv64_instr s)) s))"

definition rv64_op_FMSUB_S :: "softfloat \<Rightarrow> ('d rv64_iss, unit) M" where
  "rv64_op_FMSUB_S SF = rv64_fp_arith rv64_fp_write32 (\<lambda>s. sf_f32_mulAdd SF (rv64_softfloat_roundingMode s)
     (rv64_f32 (rs1 (rv64_instr s)) s) (rv64_f32 (rs2 (rv64_instr s)) s) (f32_neg (rv64_f32 (rs3 (rv64_instr s)) s)))"

definition rv64_op_FNMADD_S :: "softfloat \<Rightarrow> ('d rv64_iss, unit) M" where
  "rv64_op_FNMADD_S SF = rv64_fp_arith rv64_fp_write32 (\<lambda>s. sf_f32_mulAdd SF (rv64_softfloat_roundingMode s)
     (f32_neg (rv64_f32 (rs1 (rv64_instr s)) s)) (rv64_f32 (rs2 (rv64_instr s)) s) (f32_neg (rv64_f32 (rs3 (rv64_instr s)) s)))"

definition rv64_op_FNMSUB_S :: "softfloat \<Rightarrow> ('d rv64_iss, unit) M" where
  "rv64_op_FNMSUB_S SF = rv64_fp_arith rv64_fp_write32 (\<lambda>s. sf_f32_mulAdd SF (rv64_softfloat_roundingMode s)
     (f32_neg (rv64_f32 (rs1 (rv64_instr s)) s)) (rv64_f32 (rs2 (rv64_instr s)) s) (rv64_f32 (rs3 (rv64_instr s)) s))"

definition rv64_op_FCVT_W_S :: "softfloat \<Rightarrow> ('d rv64_iss, unit) M" where
  "rv64_op_FCVT_W_S SF = rv64_fp_to_int32 (\<lambda>s. sf_f32_to_i32 SF (rv64_softfloat_roundingMode s)
     (rv64_f32 (rs1 (rv64_instr s)) s))"

definition rv64_op_FCVT_WU_S :: "softfloat \<Rightarrow> ('d rv64_iss, unit) M" where
  "rv64_op_FCVT_WU_S SF = rv64_fp_to_int32 (\<lambda>s. sf_f32_to_ui32 SF (rv64_softfloat_roundingMode s)
     (rv64_f32 (rs1 (rv64_instr s)) s))"

definition rv64_op_FCVT_S_W :: "softfloat \<Rightarrow> ('d rv64_iss, unit) M" where
  "rv64_op_FCVT_S_W SF = rv64_fp_arith rv64_fp_write32 (\<lambda>s. sf_i32_to_f32 SF (rv64_softfloat_roundingMode s)
     (rv64_rs1_word s))"

definition rv64_op_FCVT_S_WU :: "softfloat \<Rightarrow> ('d rv64_iss, unit) M" where
  "rv64_op_FCVT_S_WU SF = rv64_fp_arith rv64_fp_write32 (\<lambda>s. sf_ui32_to_f32 SF (rv64_softfloat_roundingMode s)
     (rv64_rs1_word s))"

definition rv64_op_FSGNJ_S :: "('d rv64_iss, unit) M" where
  "rv64_op_FSGNJ_S = rv64_fp_sign rv64_fp_write32 (\<lambda>s. f32_sgnj (rv64_f32 (rs1 (rv64_instr s)) s) (rv64_f32 (rs2 (rv64_instr s)) s))"

definition rv64_op_FSGNJN_S :: "('d rv64_iss, unit) M" where
  "rv64_op_FSGNJN_S = rv64_fp_sign rv64_fp_write32 (\<lambda>s. f32_sgnjn (rv64_f32 (rs1 (rv64_instr s)) s) (rv64_f32 (rs2 (rv64_instr s)) s))"

definition rv64_op_FSGNJX_S :: "('d rv64_iss, unit) M" where
  "rv64_op_FSGNJX_S = rv64_fp_sign rv64_fp_write32 (\<lambda>s. f32_sgnjx (rv64_f32 (rs1 (rv64_instr s)) s) (rv64_f32 (rs2 (rv64_instr s)) s))"

definition rv64_op_FMV_W_X :: "('d rv64_iss, unit) M" where
  "rv64_op_FMV_W_X = rv64_fp_sign rv64_fp_write32 rv64_rs1_word"

definition rv64_op_FMV_X_W :: "('d rv64_iss, unit) M" where
  "rv64_op_FMV_X_W = rv64_fp_move_to_int (\<lambda>s. scast (ucast (rv64_f64 (rs1 (rv64_instr s)) s) :: u32))"

definition rv64_op_FEQ_S :: "softfloat \<Rightarrow> ('d rv64_iss, unit) M" where
  "rv64_op_FEQ_S SF = rv64_fp_compare (\<lambda>s. sf_f32_eq SF (rv64_f32 (rs1 (rv64_instr s)) s) (rv64_f32 (rs2 (rv64_instr s)) s))"

definition rv64_op_FLT_S :: "softfloat \<Rightarrow> ('d rv64_iss, unit) M" where
  "rv64_op_FLT_S SF = rv64_fp_compare (\<lambda>s. sf_f32_lt SF (rv64_f32 (rs1 (rv64_instr s)) s) (rv64_f32 (rs2 (rv64_instr s)) s))"

definition rv64_op_FLE_S :: "softfloat \<Rightarrow> ('d rv64_iss, unit) M" where
  "rv64_op_FLE_S SF = rv64_fp_compare (\<lambda>s. sf_f32_le SF (rv64_f32 (rs1 (rv64_instr s)) s) (rv64_f32 (rs2 (rv64_instr s)) s))"

definition rv64_op_FCLASS_S :: "softfloat \<Rightarrow> ('d rv64_iss, unit) M" where
  "rv64_op_FCLASS_S SF = rv64_fp_move_to_int (\<lambda>s. scast (sf_f32_classify SF (rv64_f32 (rs1 (rv64_instr s)) s)))"

definition rv64_op_FLD :: "'d rv64_iss_env \<Rightarrow> ('d rv64_iss, unit) M" where
  "rv64_op_FLD E = seqM rv64_fp_prepare_instr (bindM (getsM rv64_load_addr) (\<lambda>addr.
     seqM (rv64_trap_check_addr_alignment 8 True addr)
     (bindM (rv64_ls_load_double (rv64_lscache E) addr) (\<lambda>v.
      seqM (modifyM (\<lambda>s. rv64_fp_write64 (rd (rv64_instr s)) v s)) (modifyM rv64_fp_set_dirty)))))"

definition rv64_op_FSD :: "'d rv64_iss_env \<Rightarrow> ('d rv64_iss, unit) M" where
  "rv64_op_FSD E = seqM rv64_fp_prepare_instr (bindM (getsM (\<lambda>s. (rv64_store_addr s, rv64_f64 (rs2 (rv64_instr s)) s))) (\<lambda>(addr, v).
     seqM (rv64_trap_check_addr_alignment 8 False addr)
     (seqM (rv64_ls_store_double (rv64_lscache E) addr v) (modifyM rv64_fp_set_dirty))))"

definition rv64_op_FADD_D :: "softfloat \<Rightarrow> ('d rv64_iss, unit) M" where
  "rv64_op_FADD_D SF = rv64_fp_arith rv64_fp_write64 (\<lambda>s. sf_f64_add SF (rv64_softfloat_roundingMode s)
     (rv64_f64 (rs1 (rv64_instr s)) s) (rv64_f64 (rs2 (rv64_instr s)) s))"

definition rv64_op_FSUB_D :: "softfloat \<Rightarrow> ('d rv64_iss, unit) M" where
  "rv64_op_FSUB_D SF = rv64_fp_arith rv64_fp_write64 (\<lambda>s. sf_f64_sub SF (rv64_softfloat_roundingMode s)
     (rv64_f64 (rs1 (rv64_instr s)) s) (rv64_f64 (rs2 (rv64_instr s)) s))"

definition rv64_op_FMUL_D :: "softfloat \<Rightarrow> ('d rv64_iss, unit) M" where
  "rv64_op_FMUL_D SF = rv64_fp_arith rv64_fp_write64 (\<lambda>s. sf_f64_mul SF (rv64_softfloat_roundingMode s)
     (rv64_f64 (rs1 (rv64_instr s)) s) (rv64_f64 (rs2 (rv64_instr s)) s))"

definition rv64_op_FDIV_D :: "softfloat \<Rightarrow> ('d rv64_iss, unit) M" where
  "rv64_op_FDIV_D SF = rv64_fp_arith rv64_fp_write64 (\<lambda>s. sf_f64_div SF (rv64_softfloat_roundingMode s)
     (rv64_f64 (rs1 (rv64_instr s)) s) (rv64_f64 (rs2 (rv64_instr s)) s))"

definition rv64_op_FSQRT_D :: "softfloat \<Rightarrow> ('d rv64_iss, unit) M" where
  "rv64_op_FSQRT_D SF = rv64_fp_arith rv64_fp_write64 (\<lambda>s. sf_f64_sqrt SF (rv64_softfloat_roundingMode s)
     (rv64_f64 (rs1 (rv64_instr s)) s))"

definition rv64_op_FMIN_D :: "softfloat \<Rightarrow> ('d rv64_iss, unit) M" where
  "rv64_op_FMIN_D SF = rv64_fp_min_max rv64_f64 rv64_fp_write64 f64_isNegative f64_isNaN f64_defaultNaN
     (sf_f64_lt_quiet SF) (sf_f64_eq SF) False"

definition rv64_op_FMAX_D :: "softfloat \<Rightarrow> ('d rv64_iss, unit) M" where
  "rv64_op_FMAX_D SF = rv64_fp_min_max rv64_f64 rv64_fp_write64 f64_isNegative f64_isNaN f64_defaultNaN
     (sf_f64_lt_quiet SF) (sf_f64_eq SF) True"

definition rv64_op_FMADD_D :: "softfloat \<Rightarrow> ('d rv64_iss, unit) M" where
  "rv64_op_FMADD_D SF = rv64_fp_arith rv64_fp_write64 (\<lambda>s. sf_f64_mulAdd SF (rv64_softfloat_roundingMode s)
     (rv64_f64 (rs1 (rv64_instr s)) s) (rv64_f64 (rs2 (rv64_instr s)) s) (rv64_f64 (rs3 (rv64_instr s)) s))"

definition rv64_op_FMSUB_D :: "softfloat \<Rightarrow> ('d rv64_iss, unit) M" where
  "rv64_op_FMSUB_D SF = rv64_fp_arith rv64_fp_write64 (\<lambda>s. sf_f64_mulAdd SF (rv64_softfloat_roundingMode s)
     (rv64_f64 (rs1 (rv64_instr s)) s) (rv64_f64 (rs2 (rv64_instr s)) s) (f64_neg (rv64_f64 (rs3 (rv64_instr s)) s)))"

definition rv64_op_FNMADD_D :: "softfloat \<Rightarrow> ('d rv64_iss, unit) M" where
  "rv64_op_FNMADD_D SF = rv64_fp_arith rv64_fp_write64 (\<lambda>s. sf_f64_mulAdd SF (rv64_softfloat_roundingMode s)
     (f64_neg (rv64_f64 (rs1 (rv64_instr s)) s)) (rv64_f64 (rs2 (rv64_instr s)) s) (f64_neg (rv64_f64 (rs3 (rv64_instr s)) s)))"

definition rv64_op_FNMSUB_D :: "softfloat \<Rightarrow> ('d rv64_iss, unit) M" where
  "rv64_op_FNMSUB_D SF = rv64_fp_arith rv64_fp_write64 (\<lambda>s. sf_f64_mulAdd SF (rv64_softfloat_roundingMode s)
     (f64_neg (rv64_f64 (rs1 (rv64_instr s)) s)) (rv64_f64 (rs2 (rv64_instr s)) s) (rv64_f64 (rs3 (rv64_instr s)) s))"

definition rv64_op_FSGNJ_D :: "('d rv64_iss, unit) M" where
  "rv64_op_FSGNJ_D = rv64_fp_sign rv64_fp_write64 (\<lambda>s. f64_sgnj (rv64_f64 (rs1 (rv64_instr s)) s) (rv64_f64 (rs2 (rv64_instr s)) s))"

definition rv64_op_FSGNJN_D :: "('d rv64_iss, unit) M" where
  "rv64_op_FSGNJN_D = rv64_fp_sign rv64_fp_write64 (\<lambda>s. f64_sgnjn (rv64_f64 (rs1 (rv64_instr s)) s) (rv64_f64 (rs2 (rv64_instr s)) s))"

definition rv64_op_FSGNJX_D :: "('d rv64_iss, unit) M" where
  "rv64_op_FSGNJX_D = rv64_fp_sign rv64_fp_write64 (\<lambda>s. f64_sgnjx (rv64_f64 (rs1 (rv64_instr s)) s) (rv64_f64 (rs2 (rv64_instr s)) s))"

definition rv64_op_FEQ_D :: "softfloat \<Rightarrow> ('d rv64_iss, unit) M" where
  "rv64_op_FEQ_D SF = rv64_fp_compare (\<lambda>s. sf_f64_eq SF (rv64_f64 (rs1 (rv64_instr s)) s) (rv64_f64 (rs2 (rv64_instr s)) s))"

definition rv64_op_FLT_D :: "softfloat \<Rightarrow> ('d rv64_iss, unit) M" where
  "rv64_op_FLT_D SF = rv64_fp_compare (\<lambda>s. sf_f64_lt SF (rv64_f64 (rs1 (rv64_instr s)) s) (rv64_f64 (rs2 (rv64_instr s)) s))"

definition rv64_op_FLE_D :: "softfloat \<Rightarrow> ('d rv64_iss, unit) M" where
  "rv64_op_FLE_D SF = rv64_fp_compare (\<lambda>s. sf_f64_le SF (rv64_f64 (rs1 (rv64_instr s)) s) (rv64_f64 (rs2 (rv64_instr s)) s))"

definition rv64_op_FCLASS_D :: "softfloat \<Rightarrow> ('d rv64_iss, unit) M" where
  "rv64_op_FCLASS_D SF = rv64_fp_move_to_int (\<lambda>s. ucast (sf_f64_classify SF (rv64_f64 (rs1 (rv64_instr s)) s)))"

definition rv64_op_FCVT_W_D :: "softfloat \<Rightarrow> ('d rv64_iss, unit) M" where
  "rv64_op_FCVT_W_D SF = rv64_fp_to_int32 (\<lambda>s. sf_f64_to_i32 SF (rv64_softfloat_roundingMode s)
     (rv64_f64 (rs1 (rv64_instr s)) s))"

definition rv64_op_FCVT_WU_D :: "softfloat \<Rightarrow> ('d rv64_iss, unit) M" where
  "rv64_op_FCVT_WU_D SF = rv64_fp_to_int32 (\<lambda>s. sf_f64_to_ui32 SF (rv64_softfloat_roundingMode s)
     (rv64_f64 (rs1 (rv64_instr s)) s))"

definition rv64_op_FCVT_D_W :: "softfloat \<Rightarrow> ('d rv64_iss, unit) M" where
  "rv64_op_FCVT_D_W SF = rv64_fp_arith rv64_fp_write64 (\<lambda>s. sf_i32_to_f64 SF (rv64_softfloat_roundingMode s)
     (rv64_rs1_word s))"

definition rv64_op_FCVT_D_WU :: "softfloat \<Rightarrow> ('d rv64_iss, unit) M" where
  "rv64_op_FCVT_D_WU SF = rv64_fp_arith rv64_fp_write64 (\<lambda>s. sf_ui32_to_f64 SF (rv64_softfloat_roundingMode s)
     (rv64_rs1_word s))"

definition rv64_op_FCVT_S_D :: "softfloat \<Rightarrow> ('d rv64_iss, unit) M" where
  "rv64_op_FCVT_S_D SF = rv64_fp_arith rv64_fp_write32 (\<lambda>s. sf_f64_to_f32 SF (rv64_softfloat_roundingMode s)
     (rv64_f64 (rs1 (rv64_instr s)) s))"

definition rv64_op_FCVT_D_S :: "softfloat \<Rightarrow> ('d rv64_iss, unit) M" where
  "rv64_op_FCVT_D_S SF = rv64_fp_arith rv64_fp_write64 (\<lambda>s. sf_f32_to_f64 SF (rv64_softfloat_roundingMode s)
     (rv64_f32 (rs1 (rv64_instr s)) s))"

section \<open>Conversions from and to 64-bit integers\<close>

definition rv64_op_FMV_D_X :: "('d rv64_iss, unit) M" where
  "rv64_op_FMV_D_X = rv64_fp_sign rv64_fp_write64 rv64_rs1_val"

definition rv64_op_FMV_X_D :: "('d rv64_iss, unit) M" where
  "rv64_op_FMV_X_D = rv64_fp_move_to_int (\<lambda>s. rv64_f64 (rs1 (rv64_instr s)) s)"

definition rv64_op_FCVT_L_H :: "softfloat_l \<Rightarrow> ('d rv64_iss, unit) M" where
  "rv64_op_FCVT_L_H SL = rv64_fp_to_int (\<lambda>s. sfl_f16_to_i64 SL (rv64_softfloat_roundingMode s)
     (rv64_f16 (rs1 (rv64_instr s)) s))"

definition rv64_op_FCVT_H_L :: "softfloat_l \<Rightarrow> ('d rv64_iss, unit) M" where
  "rv64_op_FCVT_H_L SL = rv64_fp_arith rv64_fp_write16 (\<lambda>s. sfl_i64_to_f16 SL (rv64_softfloat_roundingMode s)
     (rv64_rs1_val s))"

definition rv64_op_FCVT_LU_H :: "softfloat_l \<Rightarrow> ('d rv64_iss, unit) M" where
  "rv64_op_FCVT_LU_H SL = rv64_fp_to_int (\<lambda>s. sfl_f16_to_ui64 SL (rv64_softfloat_roundingMode s)
     (rv64_f16 (rs1 (rv64_instr s)) s))"

definition rv64_op_FCVT_H_LU :: "softfloat_l \<Rightarrow> ('d rv64_iss, unit) M" where
  "rv64_op_FCVT_H_LU SL = rv64_fp_arith rv64_fp_write16 (\<lambda>s. sfl_ui64_to_f16 SL (rv64_softfloat_roundingMode s)
     (rv64_rs1_val s))"

definition rv64_op_FCVT_L_S :: "softfloat_l \<Rightarrow> ('d rv64_iss, unit) M" where
  "rv64_op_FCVT_L_S SL = rv64_fp_to_int (\<lambda>s. sfl_f32_to_i64 SL (rv64_softfloat_roundingMode s)
     (rv64_f32 (rs1 (rv64_instr s)) s))"

definition rv64_op_FCVT_S_L :: "softfloat_l \<Rightarrow> ('d rv64_iss, unit) M" where
  "rv64_op_FCVT_S_L SL = rv64_fp_arith rv64_fp_write32 (\<lambda>s. sfl_i64_to_f32 SL (rv64_softfloat_roundingMode s)
     (rv64_rs1_val s))"

definition rv64_op_FCVT_LU_S :: "softfloat_l \<Rightarrow> ('d rv64_iss, unit) M" where
  "rv64_op_FCVT_LU_S SL = rv64_fp_to_int (\<lambda>s. sfl_f32_to_ui64 SL (rv64_softfloat_roundingMode s)
     (rv64_f32 (rs1 (rv64_instr s)) s))"

definition rv64_op_FCVT_S_LU :: "softfloat_l \<Rightarrow> ('d rv64_iss, unit) M" where
  "rv64_op_FCVT_S_LU SL = rv64_fp_arith rv64_fp_write32 (\<lambda>s. sfl_ui64_to_f32 SL (rv64_softfloat_roundingMode s)
     (rv64_rs1_val s))"

definition rv64_op_FCVT_L_D :: "softfloat_l \<Rightarrow> ('d rv64_iss, unit) M" where
  "rv64_op_FCVT_L_D SL = rv64_fp_to_int (\<lambda>s. sfl_f64_to_i64 SL (rv64_softfloat_roundingMode s)
     (rv64_f64 (rs1 (rv64_instr s)) s))"

definition rv64_op_FCVT_D_L :: "softfloat_l \<Rightarrow> ('d rv64_iss, unit) M" where
  "rv64_op_FCVT_D_L SL = rv64_fp_arith rv64_fp_write64 (\<lambda>s. sfl_i64_to_f64 SL (rv64_softfloat_roundingMode s)
     (rv64_rs1_val s))"

definition rv64_op_FCVT_LU_D :: "softfloat_l \<Rightarrow> ('d rv64_iss, unit) M" where
  "rv64_op_FCVT_LU_D SL = rv64_fp_to_int (\<lambda>s. sfl_f64_to_ui64 SL (rv64_softfloat_roundingMode s)
     (rv64_f64 (rs1 (rv64_instr s)) s))"

definition rv64_op_FCVT_D_LU :: "softfloat_l \<Rightarrow> ('d rv64_iss, unit) M" where
  "rv64_op_FCVT_D_LU SL = rv64_fp_arith rv64_fp_write64 (\<lambda>s. sfl_ui64_to_f64 SL (rv64_softfloat_roundingMode s)
     (rv64_rs1_val s))"

section \<open>Dispatch\<close>

text \<open>The floating-point cases of the dispatch; \<open>vec_op\<close> stands for the vector cases.\<close>

definition rv64_fp_op ::
  "softfloat \<Rightarrow> softfloat_l \<Rightarrow> (OpId \<Rightarrow> ('d rv64_iss, unit) M) \<Rightarrow> 'd rv64_iss_env \<Rightarrow> OpId \<Rightarrow> ('d rv64_iss, unit) M"
where
  "rv64_fp_op SF SL vec_op E op = switch_on op
    [(FLH, rv64_op_FLH E), (FSH, rv64_op_FSH E), (FADD_H, rv64_op_FADD_H SF), (FSUB_H, rv64_op_FSUB_H SF),
     (FMUL_H, rv64_op_FMUL_H SF), (FDIV_H, rv64_op_FDIV_H SF), (FSQRT_H, rv64_op_FSQRT_H SF), (FMIN_H, rv64_op_FMIN_H SF),
     (FMAX_H, rv64_op_FMAX_H SF), (FMADD_H, rv64_op_FMADD_H SF), (FMSUB_H, rv64_op_FMSUB_H SF),
     (FNMADD_H, rv64_op_FNMADD_H SF), (FNMSUB_H, rv64_op_FNMSUB_H SF), (FSGNJ_H, rv64_op_FSGNJ_H),
     (FSGNJN_H, rv64_op_FSGNJN_H), (FSGNJX_H, rv64_op_FSGNJX_H), (FEQ_H, rv64_op_FEQ_H SF), (FLT_H, rv64_op_FLT_H SF),
     (FLE_H, rv64_op_FLE_H SF), (FCLASS_H, rv64_op_FCLASS_H SF), (FMV_H_X, rv64_op_FMV_H_X), (FMV_X_H, rv64_op_FMV_X_H),
     (FCVT_W_H, rv64_op_FCVT_W_H SF), (FCVT_WU_H, rv64_op_FCVT_WU_H SF), (FCVT_H_W, rv64_op_FCVT_H_W SF),
     (FCVT_H_WU, rv64_op_FCVT_H_WU SF), (FCVT_S_H, rv64_op_FCVT_S_H SF), (FCVT_H_S, rv64_op_FCVT_H_S SF),
     (FCVT_H_D, rv64_op_FCVT_H_D SF), (FCVT_D_H, rv64_op_FCVT_D_H SF), (FLW, rv64_op_FLW E), (FSW, rv64_op_FSW E),
     (FADD_S, rv64_op_FADD_S SF), (FSUB_S, rv64_op_FSUB_S SF), (FMUL_S, rv64_op_FMUL_S SF), (FDIV_S, rv64_op_FDIV_S SF),
     (FSQRT_S, rv64_op_FSQRT_S SF), (FMIN_S, rv64_op_FMIN_S SF), (FMAX_S, rv64_op_FMAX_S SF), (FMADD_S, rv64_op_FMADD_S SF),
     (FMSUB_S, rv64_op_FMSUB_S SF), (FNMADD_S, rv64_op_FNMADD_S SF), (FNMSUB_S, rv64_op_FNMSUB_S SF),
     (FCVT_W_S, rv64_op_FCVT_W_S SF), (FCVT_WU_S, rv64_op_FCVT_WU_S SF), (FCVT_S_W, rv64_op_FCVT_S_W SF),
     (FCVT_S_WU, rv64_op_FCVT_S_WU SF), (FSGNJ_S, rv64_op_FSGNJ_S), (FSGNJN_S, rv64_op_FSGNJN_S),
     (FSGNJX_S, rv64_op_FSGNJX_S), (FMV_W_X, rv64_op_FMV_W_X), (FMV_X_W, rv64_op_FMV_X_W), (FEQ_S, rv64_op_FEQ_S SF),
     (FLT_S, rv64_op_FLT_S SF), (FLE_S, rv64_op_FLE_S SF), (FCLASS_S, rv64_op_FCLASS_S SF), (FLD, rv64_op_FLD E),
     (FSD, rv64_op_FSD E), (FADD_D, rv64_op_FADD_D SF), (FSUB_D, rv64_op_FSUB_D SF), (FMUL_D, rv64_op_FMUL_D SF),
     (FDIV_D, rv64_op_FDIV_D SF), (FSQRT_D, rv64_op_FSQRT_D SF), (FMIN_D, rv64_op_FMIN_D SF), (FMAX_D, rv64_op_FMAX_D SF),
     (FMADD_D, rv64_op_FMADD_D SF), (FMSUB_D, rv64_op_FMSUB_D SF), (FNMADD_D, rv64_op_FNMADD_D SF),
     (FNMSUB_D, rv64_op_FNMSUB_D SF), (FSGNJ_D, rv64_op_FSGNJ_D), (FSGNJN_D, rv64_op_FSGNJN_D), (FSGNJX_D, rv64_op_FSGNJX_D),
     (FEQ_D, rv64_op_FEQ_D SF), (FLT_D, rv64_op_FLT_D SF), (FLE_D, rv64_op_FLE_D SF), (FCLASS_D, rv64_op_FCLASS_D SF),
     (FCVT_W_D, rv64_op_FCVT_W_D SF), (FCVT_WU_D, rv64_op_FCVT_WU_D SF), (FCVT_D_W, rv64_op_FCVT_D_W SF),
     (FCVT_D_WU, rv64_op_FCVT_D_WU SF), (FCVT_S_D, rv64_op_FCVT_S_D SF), (FCVT_D_S, rv64_op_FCVT_D_S SF),
     (FMV_D_X, rv64_op_FMV_D_X), (FMV_X_D, rv64_op_FMV_X_D), (FCVT_L_H, rv64_op_FCVT_L_H SL),
     (FCVT_H_L, rv64_op_FCVT_H_L SL), (FCVT_LU_H, rv64_op_FCVT_LU_H SL), (FCVT_H_LU, rv64_op_FCVT_H_LU SL),
     (FCVT_L_S, rv64_op_FCVT_L_S SL), (FCVT_S_L, rv64_op_FCVT_S_L SL), (FCVT_LU_S, rv64_op_FCVT_LU_S SL),
     (FCVT_S_LU, rv64_op_FCVT_S_LU SL), (FCVT_L_D, rv64_op_FCVT_L_D SL), (FCVT_D_L, rv64_op_FCVT_D_L SL),
     (FCVT_LU_D, rv64_op_FCVT_LU_D SL), (FCVT_D_LU, rv64_op_FCVT_D_LU SL)]
    (vec_op op)"

end
