(* ===== verification/RV64_Platform.thy ===== *)
theory RV64_Platform
  imports RV64_Mem RV64_FP VP_Platform
begin

text \<open>
  The platform \<^verbatim>\<open>tiny\<close> (\<^verbatim>\<open>vp/src/platform/tiny/main.cpp\<close>) built with \<^verbatim>\<open>TARGET_RV64\<close>: the memory and the \<^verbatim>\<open>RealCLINT\<close> on
  its bus, with the register ranges, the memory map and the device state of \<open>VP_Platform\<close>, the system call handler and
  the construction of the hart.
\<close>

section \<open>SimpleMemory\<close>

definition rv64_sm_write_data :: "SimpleMemory \<Rightarrow> u64 \<Rightarrow> u8 list \<Rightarrow> ('b rv64_cmi rv64_iss, unit) M" where
  "rv64_sm_write_data m addr src = seqM (assertM (addr + of_nat (length src) \<le> sm_size m))
     (modifyM (rv64_mem_upd (\<lambda>c. c\<lparr>rv64_host := host_write (sm_data m, addr) src (rv64_host c)\<rparr>)))"

definition rv64_sm_read_data :: "SimpleMemory \<Rightarrow> u64 \<Rightarrow> nat \<Rightarrow> ('b rv64_cmi rv64_iss, u8 list) M" where
  "rv64_sm_read_data m addr n = seqM (assertM (addr + of_nat n \<le> sm_size m))
     (getsM (\<lambda>s. host_read n (sm_data m, addr) (rv64_host (rv64_mem_st s))))"

text \<open>\<^verbatim>\<open>unsigned addr = trans.get_address()\<close> keeps the lower 32 bits of the address.\<close>

definition rv64_sm_transport :: "SimpleMemory \<Rightarrow> 'b rv64_cmi rv64_iss target" where
  "rv64_sm_transport m is_write address data =
     (let addr = ucast (ucast address :: u32) :: u64 in
      seqM (assertM (addr < sm_size m))
      (if is_write then seqM (rv64_sm_write_data m addr data) (ret (False, data))
       else bindM (rv64_sm_read_data m addr (length data)) (\<lambda>d. ret (False, d))))"

text \<open>\<^verbatim>\<open>load_if\<close>: what the ELF loader calls.\<close>

definition rv64_sm_load_data :: "SimpleMemory \<Rightarrow> u8 list \<Rightarrow> u64 \<Rightarrow> ('b rv64_cmi rv64_iss, unit) M" where
  "rv64_sm_load_data m src dst_addr = seqM (assertM (dst_addr + of_nat (length src) \<le> sm_size m))
     (modifyM (rv64_mem_upd (\<lambda>c. c\<lparr>rv64_host := host_write (sm_data m, dst_addr) src (rv64_host c)\<rparr>)))"

definition rv64_sm_load_zero :: "SimpleMemory \<Rightarrow> u64 \<Rightarrow> nat \<Rightarrow> ('b rv64_cmi rv64_iss, unit) M" where
  "rv64_sm_load_zero m dst_addr n = seqM (assertM (dst_addr + of_nat n \<le> sm_size m))
     (modifyM (rv64_mem_upd (\<lambda>c. c\<lparr>rv64_host := host_write (sm_data m, dst_addr) (replicate n 0) (rv64_host c)\<rparr>)))"

section \<open>RealCLINT\<close>

type_synonym rv64_hart_soc = "soc rv64_cmi rv64_iss"

abbreviation rv64_dev :: "rv64_hart_soc \<Rightarrow> soc" where "rv64_dev s \<equiv> rv64_devices (rv64_mem_st s)"

definition rv64_dev_upd :: "(soc \<Rightarrow> soc) \<Rightarrow> rv64_hart_soc \<Rightarrow> rv64_hart_soc" where
  "rv64_dev_upd f s = rv64_mem_upd (\<lambda>m. m\<lparr>rv64_devices := f (rv64_devices m)\<rparr>) s"

definition rv64_real_clint_upd :: "(RealCLINT \<Rightarrow> RealCLINT) \<Rightarrow> rv64_hart_soc \<Rightarrow> rv64_hart_soc" where
  "rv64_real_clint_upd f = rv64_dev_upd (\<lambda>d. d\<lparr>real_clint := f (real_clint d)\<rparr>)"

definition rv64_real_update_and_get_mtime :: "(rv64_hart_soc, u64) M" where
  "rv64_real_update_and_get_mtime =
     seqM (modifyM (\<lambda>s. rv64_real_clint_upd (\<lambda>c. c\<lparr>rc_regs_mtime :=
             view_set 8 0 (usec_to_ticks (real_usec (rv64_dev s))) (rc_regs_mtime c)\<rparr>) s))
       (getsM (\<lambda>s. view_get 8 0 (rc_regs_mtime (real_clint (rv64_dev s)))))"

text \<open>\<^verbatim>\<open>at\<close> throws when the index is out of range; there is one hart and one timer.\<close>

definition rv64_real_post_write_mtimecmp :: "u64 \<Rightarrow> nat \<Rightarrow> (rv64_hart_soc, unit) M" where
  "rv64_real_post_write_mtimecmp la n =
     seqM (assertM (la mod 4 = 0))
     (if la div 8 \<noteq> 0 then raise RuntimeError
      else bindM (getsM (\<lambda>s. view_get 8 0 (rc_regs_mtimecmp (real_clint (rv64_dev s))) :: u64)) (\<lambda>cmp.
       bindM rv64_real_update_and_get_mtime (\<lambda>time.
       seqM (modifyM (rv64_real_clint_upd (\<lambda>c. c\<lparr>rc_timer := None\<rparr>)))
       (if time \<ge> cmp then modifyM rv64_trigger_timer_interrupt
        else seqM (modifyM rv64_clear_timer_interrupt)
               (modifyM (rv64_real_clint_upd (\<lambda>c. c\<lparr>rc_timer := Some (ticks_to_usec (cmp - time))\<rparr>)))))))"

definition rv64_real_post_write_msip :: "u64 \<Rightarrow> nat \<Rightarrow> (rv64_hart_soc, unit) M" where
  "rv64_real_post_write_msip la n =
     seqM (assertM (la mod 4 = 0))
     (if la div 4 \<noteq> 0 then raise RuntimeError
      else seqM (modifyM (rv64_real_clint_upd (\<lambda>c. c\<lparr>rc_regs_msip :=
               view_set 4 0 (view_get 4 0 (rc_regs_msip c) AND 1 :: u32) (rc_regs_msip c)\<rparr>)))
        (modifyM (\<lambda>s. if (view_get 4 0 (rc_regs_msip (real_clint (rv64_dev s))) :: u32) \<noteq> 0
                      then rv64_trigger_software_interrupt s else rv64_clear_software_interrupt s)))"

definition rv64_real_pre_read_mtime :: "u64 \<Rightarrow> nat \<Rightarrow> (rv64_hart_soc, bool) M" where
  "rv64_real_pre_read_mtime la n = bindM rv64_real_update_and_get_mtime (\<lambda>_. ret True)"

text \<open>\<^verbatim>\<open>RealCLINT::interrupt\<close>, run when a timer has expired.\<close>

definition rv64_real_interrupt :: "(rv64_hart_soc, unit) M" where
  "rv64_real_interrupt = bindM rv64_real_update_and_get_mtime (\<lambda>mt.
     bindM (getsM (\<lambda>s. view_get 8 0 (rc_regs_mtimecmp (real_clint (rv64_dev s))))) (\<lambda>cmp.
       whenM (mt \<ge> cmp) (modifyM rv64_trigger_timer_interrupt)))"

text \<open>The callback of writes to \<^verbatim>\<open>mtime\<close> does nothing.\<close>

definition rv64_real_clint_ranges :: "rv64_hart_soc mapped_range list" where
  "rv64_real_clint_ranges =
    [(plain_range (\<lambda>s. rc_regs_mtimecmp (real_clint (rv64_dev s)))
        (\<lambda>f. rv64_real_clint_upd (\<lambda>c. c\<lparr>rc_regs_mtimecmp := f (rc_regs_mtimecmp c)\<rparr>)))
        \<lparr>post_write_callback := rv64_real_post_write_mtimecmp\<rparr>,
     (plain_range (\<lambda>s. rc_regs_msip (real_clint (rv64_dev s)))
        (\<lambda>f. rv64_real_clint_upd (\<lambda>c. c\<lparr>rc_regs_msip := f (rc_regs_msip c)\<rparr>)))
        \<lparr>post_write_callback := rv64_real_post_write_msip\<rparr>,
     (plain_range (\<lambda>s. rc_regs_mtime (real_clint (rv64_dev s)))
        (\<lambda>f. rv64_real_clint_upd (\<lambda>c. c\<lparr>rc_regs_mtime := f (rc_regs_mtime c)\<rparr>)))
        \<lparr>pre_read_callback := rv64_real_pre_read_mtime\<rparr>]"

definition rv64_real_clint_transport :: "rv64_hart_soc target" where
  "rv64_real_clint_transport = mm_transport rv64_real_clint_ranges"

section \<open>The system call handler\<close>

text \<open>The system calls have pointers to guest memory and to the handler, but not to the hart.\<close>

definition rv64_lift_host :: "((nat \<Rightarrow> u64 \<Rightarrow> u8) \<times> 'b, 'a) M \<Rightarrow> ('b rv64_cmi rv64_iss, 'a) M" where
  "rv64_lift_host m s = (let (r, h, d) = m (rv64_host (rv64_mem_st s), rv64_devices (rv64_mem_st s))
     in (r, rv64_mem_upd (\<lambda>c. c\<lparr>rv64_host := h, rv64_devices := d\<rparr>) s))"

definition rv64_execute_syscall :: "host_syscall \<Rightarrow> (rv64_hart_soc, unit) M" where
  "rv64_execute_syscall hs =
     bindM (getsM rv64_get_syscall_register_index) (\<lambda>idx.
     bindM (rv64_read_register idx) (\<lambda>syscall.
     bindM (rv64_read_register 13) (\<lambda>a3.
     bindM (rv64_read_register 12) (\<lambda>a2.
     bindM (rv64_read_register 11) (\<lambda>a1.
     bindM (rv64_read_register 10) (\<lambda>a0.
     bindM (rv64_lift_host (hs syscall a0 a1 a2 a3)) (\<lambda>ans.
     seqM (rv64_write_register 10 ans)
     (bindM (getsM (\<lambda>s. sys_shall_exit (rv64_dev s))) (\<lambda>b. whenM b (modifyM rv64_sys_exit))))))))))"

definition rv64_sys_transport :: "host_syscall \<Rightarrow> rv64_hart_soc target" where
  "rv64_sys_transport hs is_write addr data =
     seqM (assertM (addr mod 4 = 0))
     (seqM (assertM (length data = 4))
     (bindM (getsM (\<lambda>s. ucast (bytes_to_word data :: u32) = rv64_get_hart_id s)) (\<lambda>registered.
      seqM (assertM registered)
      (seqM (rv64_execute_syscall hs) (ret (False, data))))))"

section \<open>Memory map and connections\<close>

definition rv64_tiny_isocks :: "host_syscall \<Rightarrow> rv64_hart_soc target list" where
  "rv64_tiny_isocks hs = [rv64_sm_transport tiny_memory, rv64_real_clint_transport, rv64_sys_transport hs]"

definition rv64_tiny_conn :: "host_syscall \<Rightarrow> soc rv64_cmi_conn" where
  "rv64_tiny_conn hs = \<lparr>rv64_has_mmu = True, rv64_b_transport = bus_transport tiny_ports (rv64_tiny_isocks hs) (ret ())\<rparr>"

text \<open>
  \<open>intercept\<close> is the option \<^verbatim>\<open>intercept_syscalls\<close>, \<open>cached\<close> the \<^verbatim>\<open>LSCacheDefault_T\<close> of the build; \<open>ns\<close>, \<open>sn\<close>
  and \<open>gran\<close> stand for the quantum keeper.
\<close>

definition rv64_tiny_env ::
  "host_syscall \<Rightarrow> bool \<Rightarrow> bool \<Rightarrow> (rv64_hart_soc \<Rightarrow> bool) \<Rightarrow> (rv64_hart_soc, unit) M \<Rightarrow> u64 \<Rightarrow> soc rv64_cmi rv64_iss_env"
where
  "rv64_tiny_env hs intercept cached ns sn gran = rv64_cmi_env (rv64_tiny_conn hs) cached
    \<lparr>rv64_mem = rv64_cmi_if (rv64_tiny_conn hs), rv64_lscache = rv64_lscache_dummy (rv64_cmi_if (rv64_tiny_conn hs)),
     rv64_load_instr = rv64_cmi_load_instr (rv64_tiny_conn hs), rv64_update_and_get_mtime = rv64_real_update_and_get_mtime,
     rv64_sys = if intercept then Some (rv64_execute_syscall hs) else None,
     rv64_need_sync = ns, rv64_sync = sn, rv64_fast_quantum_ins_granularity = gran\<rparr>"

definition rv64_tiny_init :: "bool \<Rightarrow> bool \<Rightarrow> (OpId \<Rightarrow> u64) \<Rightarrow> u64 \<Rightarrow> rv64_hart_soc" where
  "rv64_tiny_init use_data_dmi use_lscache op_times entrypoint =
     rv64_iss_init entrypoint (tiny_mem_size - 1)
       (rv64_ISS_CT (RV_ISA_Config False False) 0 op_times
         (rv64_dmi_enable use_data_dmi (rv64_dmi_add tiny_dmi ((rv64_cmi_init soc_init)\<lparr>rv64_lsc_enabled := use_lscache\<rparr>))))"

end
