(* ===== verification/RV64_TrapProps.thy ===== *)
theory RV64_TrapProps
  imports RV64_Platform VP_TrapProps
begin

text \<open>
  Traps, interrupts and trap returns of the RV64 hart against the trap scheme of \<open>VP_TrapProps\<close>, with 64-bit registers and
  trap values of any address.
\<close>

section \<open>Simplification rules for the CSR table\<close>

lemma rv64_csr_fget_upd: "rv64_csr_fget c f (rv64_csr_upd c' v s) = (if c = c' then fget f v else rv64_csr_fget c f s)"
  by (simp add: rv64_csr_fget_def rv64_csr_upd_def)

lemma rv64_csr_fget_fset_same:
  "fst f + snd f \<le> 64 \<Longrightarrow> rv64_csr_fget c f (rv64_csr_fset c f v s) = take_bit (snd f) v"
  by (simp add: rv64_csr_fset_def rv64_csr_fget_upd bitfield_simps)

lemma rv64_csr_fget_fset_other:
  "c \<noteq> c' \<or> fdisj f g \<Longrightarrow> rv64_csr_fget c f (rv64_csr_fset c' g v s) = rv64_csr_fget c f s"
  by (auto simp: rv64_csr_fset_def rv64_csr_fget_def rv64_csr_upd_def bitfield_simps)

lemma rv64_csrs_csr_upd [simp]: "rv64_csrs (rv64_csr_upd c v s) = (rv64_csrs s)(c := v)"
  by (simp add: rv64_csr_upd_def)

lemma rv64_csr_fset_cell: "c \<noteq> c' \<Longrightarrow> rv64_csrs (rv64_csr_fset c' f v s) c = rv64_csrs s c"
  by (simp add: rv64_csr_fset_def)

lemma rv64_csr_upd_frame [simp]:
  "rv64_regs (rv64_csr_upd c v s) = rv64_regs s" "rv64_prv (rv64_csr_upd c v s) = rv64_prv s" "rv64_pc (rv64_csr_upd c v s) = rv64_pc s"
  "rv64_instr (rv64_csr_upd c v s) = rv64_instr s" "rv64_isa_config (rv64_csr_upd c v s) = rv64_isa_config s"
  "rv64_dbbcache (rv64_csr_upd c v s) = rv64_dbbcache s" "rv64_lr_sc_counter (rv64_csr_upd c v s) = rv64_lr_sc_counter s"
  "rv64_iss_slow_path (rv64_csr_upd c v s) = rv64_iss_slow_path s" "rv64_status (rv64_csr_upd c v s) = rv64_status s"
  "rv64_debug_mode (rv64_csr_upd c v s) = rv64_debug_mode s" "rv64_mem_st (rv64_csr_upd c v s) = rv64_mem_st s"
  "rv64_error_on_zero_traphandler (rv64_csr_upd c v s) = rv64_error_on_zero_traphandler s"
  by (simp_all add: rv64_csr_upd_def)

lemma rv64_csr_fset_frame [simp]:
  "rv64_regs (rv64_csr_fset c f v s) = rv64_regs s" "rv64_prv (rv64_csr_fset c f v s) = rv64_prv s" "rv64_pc (rv64_csr_fset c f v s) = rv64_pc s"
  "rv64_instr (rv64_csr_fset c f v s) = rv64_instr s" "rv64_isa_config (rv64_csr_fset c f v s) = rv64_isa_config s"
  "rv64_dbbcache (rv64_csr_fset c f v s) = rv64_dbbcache s" "rv64_lr_sc_counter (rv64_csr_fset c f v s) = rv64_lr_sc_counter s"
  "rv64_iss_slow_path (rv64_csr_fset c f v s) = rv64_iss_slow_path s" "rv64_status (rv64_csr_fset c f v s) = rv64_status s"
  "rv64_debug_mode (rv64_csr_fset c f v s) = rv64_debug_mode s" "rv64_mem_st (rv64_csr_fset c f v s) = rv64_mem_st s"
  "rv64_error_on_zero_traphandler (rv64_csr_fset c f v s) = rv64_error_on_zero_traphandler s"
  by (simp_all add: rv64_csr_fset_def)

lemma rv64_set_cause_frame [simp]:
  "rv64_regs (rv64_set_cause c code irq s) = rv64_regs s" "rv64_prv (rv64_set_cause c code irq s) = rv64_prv s"
  "rv64_pc (rv64_set_cause c code irq s) = rv64_pc s" "rv64_dbbcache (rv64_set_cause c code irq s) = rv64_dbbcache s"
  "rv64_error_on_zero_traphandler (rv64_set_cause c code irq s) = rv64_error_on_zero_traphandler s"
  "c \<noteq> c' \<Longrightarrow> rv64_csrs (rv64_set_cause c code irq s) c' = rv64_csrs s c'"
  "c \<noteq> c' \<Longrightarrow> rv64_csr_fget c' f (rv64_set_cause c code irq s) = rv64_csr_fget c' f s"
  by (simp_all add: rv64_set_cause_def rv64_csr_fset_cell rv64_csr_fget_def)

lemma rv64_csr_fget_set_cause [simp]:
  "rv64_csr_fget c rv64_mcause_interrupt (rv64_set_cause c code irq s) = take_bit 1 irq"
  "rv64_csr_fget c rv64_mcause_exception_code (rv64_set_cause c code irq s) = take_bit 63 code"
  by (simp_all add: rv64_set_cause_def rv64_csr_fget_fset_same rv64_csr_fget_fset_other)

lemmas rv64_csr_fget_set_cause_code [simp] = rv64_csr_fget_set_cause [simplified]

lemma rv64_csr_fget_iss_upd [simp]:
  "rv64_csr_fget c f (s\<lparr>rv64_pc := p\<rparr>) = rv64_csr_fget c f s"
  "rv64_csr_fget c f (s\<lparr>rv64_prv := m\<rparr>) = rv64_csr_fget c f s"
  "rv64_csr_fget c f (s\<lparr>rv64_mem_st := d\<rparr>) = rv64_csr_fget c f s"
  "rv64_csr_fget c f (s\<lparr>rv64_lr_sc_counter := k\<rparr>) = rv64_csr_fget c f s"
  "rv64_csr_fget c f (s\<lparr>rv64_dbbcache := b\<rparr>) = rv64_csr_fget c f s"
  "rv64_csr_fget c f (s\<lparr>rv64_iss_slow_path := sp\<rparr>) = rv64_csr_fget c f s"
  by (simp_all add: rv64_csr_fget_def)


lemma rv64_csr_fget_bit [simp]:
  "rv64_csr_fget c (l, Suc 0) s mod 2 = rv64_csr_fget c (l, Suc 0) s"
  using fget_take_bit [of "(l, 1)"] by (simp add: rv64_csr_fget_def take_bit_Suc flip: mod_2_eq_odd)

lemma rv64_csr_fget_bit_cases: "rv64_csr_fget c (l, Suc 0) s = 0 \<or> rv64_csr_fget c (l, Suc 0) s = 1"
  using rv64_csr_fget_bit [of c l s] by (metis parity_cases mod_2_eq_odd of_bool_eq(1) of_bool_eq(2))

lemmas rv64_csr_field_simps = rv64_csr_fget_fset_same rv64_csr_fget_fset_other rv64_csr_fget_upd rv64_csr_fset_cell


section \<open>Where traps and interrupts go\<close>

text \<open>Whether exception \<open>r\<close> is delegated by the given register.\<close>

definition rv64_delegated :: "rv64_csr_cell \<Rightarrow> u32 \<Rightarrow> 'd rv64_iss \<Rightarrow> bool" where
  "rv64_delegated c r s \<longleftrightarrow> ucast (push_bit (unat r) 1 :: u32) AND rv64_csrs s c \<noteq> 0"

text \<open>The registers in which a mode finds cause, trap value and return address of a trap.\<close>

definition rv64_cause_csr :: "u32 \<Rightarrow> rv64_csr_cell" where
  "rv64_cause_csr m = (if m = MachineMode then rv64_csr_mcause else if m = SupervisorMode then rv64_csr_scause else rv64_csr_ucause)"

definition rv64_tval_csr :: "u32 \<Rightarrow> rv64_csr_cell" where
  "rv64_tval_csr m = (if m = MachineMode then rv64_csr_mtval else if m = SupervisorMode then rv64_csr_stval else rv64_csr_utval)"

definition rv64_trap_target :: "u32 \<Rightarrow> 'd rv64_iss \<Rightarrow> u32" where
  "rv64_trap_target r s =
     (if rv64_prv s = MachineMode \<or> \<not> rv64_delegated rv64_csr_medeleg r s then MachineMode
      else if rv64_prv s = SupervisorMode \<or> \<not> rv64_delegated rv64_csr_sedeleg r s then SupervisorMode
      else UserMode)"

lemma rv64_prepare_trap_result:
  assumes "is_valid_privilege_level (rv64_prv s)"
  shows "rv64_prepare_trap r v lp s =
    (Inr (rv64_trap_target r s),
     rv64_csr_upd (rv64_tval_csr (rv64_trap_target r s)) v
       (rv64_set_cause (rv64_cause_csr (rv64_trap_target r s)) (ucast r) 0 (s\<lparr>rv64_pc := lp\<rparr>)))"
  using assms
  by (auto simp: rv64_prepare_trap_def Let_def rv64_record_trap_def monad_simps 
      rv64_trap_target_def rv64_delegated_def is_valid_privilege_level_def rv64_cause_csr_def rv64_tval_csr_def)

lemma rv64_trap_target_privilege:
  "is_valid_privilege_level (rv64_prv s) \<Longrightarrow> rv64_prv s \<le> rv64_trap_target r s"
  by (auto simp: rv64_trap_target_def is_valid_privilege_level_def)




section \<open>Trap entry and return, abstractly\<close>

text \<open>
  The privileged architecture has one trap scheme for three modes: each has its own return address,
  vector, interrupt enable and previous interrupt enable.
\<close>

definition rv64_epc_csr :: "u32 \<Rightarrow> rv64_csr_cell" where
  "rv64_epc_csr m = (if m = MachineMode then rv64_csr_mepc else if m = SupervisorMode then rv64_csr_sepc else rv64_csr_uepc)"

definition rv64_tvec_csr :: "u32 \<Rightarrow> rv64_csr_cell" where
  "rv64_tvec_csr m = (if m = MachineMode then rv64_csr_mtvec else if m = SupervisorMode then rv64_csr_stvec else rv64_csr_utvec)"



text \<open>The mode the trap came from, as the handler finds it.\<close>

definition rv64_previous_mode :: "u32 \<Rightarrow> 'd rv64_iss \<Rightarrow> u32" where
  "rv64_previous_mode m s = (if m = MachineMode then ucast (rv64_csr_fget rv64_csr_mstatus mstatus_mpp s)
     else if m = SupervisorMode then ucast (rv64_csr_fget rv64_csr_mstatus mstatus_spp s) else UserMode)"

text \<open>\<open>s'\<close> is the state in which mode \<open>m\<close> handles a trap of state \<open>s\<close>.\<close>

definition rv64_trap_entered :: "u32 \<Rightarrow> 'd rv64_iss \<Rightarrow> 'd rv64_iss \<Rightarrow> bool" where
  "rv64_trap_entered m s s' \<longleftrightarrow>
     rv64_prv s' = m \<and> rv64_previous_mode m s' = rv64_prv s \<and>
     rv64_csr_fget rv64_csr_mstatus (ie_field m) s' = 0 \<and>
     rv64_csr_fget rv64_csr_mstatus (pie_field m) s' = rv64_csr_fget rv64_csr_mstatus (ie_field m) s \<and>
     rv64_csrs s' (rv64_epc_csr m) = rv64_pc s \<and>
     (\<forall>c. c \<notin> {rv64_epc_csr m, rv64_csr_mstatus} \<longrightarrow> rv64_csrs s' c = rv64_csrs s c) \<and>
     rv64_pc s' = rv64_vectored_pc (rv64_cause_csr m) (rv64_tvec_csr m) (rv64_get_base_address (rv64_csrs s (rv64_tvec_csr m))) s \<and>
     rv64_dbb_pc (rv64_dbbcache s') = rv64_pc s' \<and> rv64_lr_sc_counter s' = 0 \<and> rv64_regs s' = rv64_regs s"

text \<open>\<open>s'\<close> is what a return from the handler of mode \<open>m\<close> makes of \<open>s\<close>.\<close>

definition rv64_trap_returned :: "u32 \<Rightarrow> 'd rv64_iss \<Rightarrow> 'd rv64_iss \<Rightarrow> bool" where
  "rv64_trap_returned m s s' \<longleftrightarrow>
     rv64_prv s' = rv64_previous_mode m s \<and>
     rv64_csr_fget rv64_csr_mstatus (ie_field m) s' = rv64_csr_fget rv64_csr_mstatus (pie_field m) s \<and>
     rv64_csr_fget rv64_csr_mstatus (pie_field m) s' = 1 \<and>
     rv64_pc s' = rv64_csrs s (rv64_epc_csr m) \<and> rv64_dbb_pc (rv64_dbbcache s') = rv64_pc s' \<and> rv64_iss_slow_path s' \<and>
     (\<forall>c. c \<noteq> rv64_csr_mstatus \<longrightarrow> rv64_csrs s' c = rv64_csrs s c) \<and> rv64_regs s' = rv64_regs s"

lemmas rv64_trap_mode_defs = rv64_cause_csr_def rv64_tval_csr_def rv64_epc_csr_def rv64_tvec_csr_def ie_field_def pie_field_def rv64_previous_mode_def



lemma rv64_csr_fget_other_cell: "rv64_csrs s' c = rv64_csrs s c \<Longrightarrow> rv64_csr_fget c f s' = rv64_csr_fget c f s"
  by (simp add: rv64_csr_fget_def)

lemma rv64_vectored_pc_cong:
  "rv64_csrs s' cause = rv64_csrs s cause \<Longrightarrow> rv64_csrs s' tvec = rv64_csrs s tvec \<Longrightarrow>
   rv64_vectored_pc cause tvec b s' = rv64_vectored_pc cause tvec b s"
  by (simp add: rv64_vectored_pc_def rv64_csr_fget_def)

lemma rv64_enter_machine_entered:
  assumes "is_valid_privilege_level pp" "rv64_prv s = MachineMode" "rv64_lr_sc_counter s = 0"
    "rv64_get_base_address (rv64_csrs s rv64_csr_mtvec) \<noteq> 0 \<or> \<not> rv64_error_on_zero_traphandler s"
  shows "\<exists>s1. rv64_enter_machine pp s = (Inr (), s1) \<and> rv64_trap_entered MachineMode (s\<lparr>rv64_prv := pp\<rparr>) (rv64_enter_trap (rv64_pc s1) s1)"
  using assms
  by (auto simp: rv64_enter_machine_def monad_simps rv64_csr_field_simps rv64_trap_entered_def rv64_trap_mode_defs rv64_enter_trap_def
      rv64_vectored_pc_def is_valid_privilege_level_def)

lemma rv64_enter_supervisor_entered:
  assumes "pp = SupervisorMode \<or> pp = UserMode" "rv64_prv s = SupervisorMode" "rv64_lr_sc_counter s = 0"
  shows "\<exists>s1. rv64_enter_supervisor pp s = (Inr (), s1) \<and> rv64_trap_entered SupervisorMode (s\<lparr>rv64_prv := pp\<rparr>) (rv64_enter_trap (rv64_pc s1) s1)"
  using assms
  by (auto simp: rv64_enter_supervisor_def monad_simps rv64_csr_field_simps rv64_trap_entered_def rv64_trap_mode_defs rv64_enter_trap_def
      rv64_vectored_pc_def is_valid_privilege_level_def)

lemma rv64_enter_user_entered:
  assumes "rv64_prv s = UserMode" "rv64_lr_sc_counter s = 0"
  shows "\<exists>s1. rv64_enter_user s = (Inr (), s1) \<and> rv64_trap_entered UserMode s (rv64_enter_trap (rv64_pc s1) s1)"
  using assms
  by (auto simp: rv64_enter_user_def monad_simps rv64_csr_field_simps rv64_trap_entered_def rv64_trap_mode_defs rv64_enter_trap_def
      rv64_vectored_pc_def is_valid_privilege_level_def)

lemma rv64_return_from_trap_handler_returned:
  assumes "is_valid_privilege_level m"
  shows "\<exists>s'. rv64_return_from_trap_handler m s = (Inr (), s') \<and> rv64_trap_returned m s s'"
  using assms
  by (rule valid_privilege_cases)
    (auto simp: rv64_return_from_trap_handler_def monad_simps rv64_csr_field_simps rv64_trap_returned_def rv64_trap_mode_defs
      rv64_return_machine_def rv64_return_supervisor_def rv64_return_user_def rv64_ret_trap_def rv64_force_slow_path_def Let_def)

section \<open>Pending interrupts, abstractly\<close>

text \<open>The mode interrupt \<open>k\<close> is for, by the delegation registers.\<close>

definition rv64_interrupt_mode :: "nat \<Rightarrow> 'd rv64_iss \<Rightarrow> u32" where
  "rv64_interrupt_mode k s = (if \<not> bit (rv64_csrs s rv64_csr_mideleg) k then MachineMode
     else if \<not> bit (rv64_csrs s rv64_csr_sideleg) k then SupervisorMode else UserMode)"

text \<open>Mode \<open>m\<close> interrupts every lower mode, itself only when its interrupts are enabled.\<close>

definition rv64_mode_takes :: "u32 \<Rightarrow> 'd rv64_iss \<Rightarrow> bool" where
  "rv64_mode_takes m s \<longleftrightarrow> rv64_prv s < m \<or> rv64_prv s = m \<and> rv64_csr_fget rv64_csr_mstatus (ie_field m) s \<noteq> 0"

definition rv64_deliverable :: "'d rv64_iss \<Rightarrow> nat \<Rightarrow> bool" where
  "rv64_deliverable s k \<longleftrightarrow> bit (rv64_csrs s rv64_csr_mie) k \<and> bit (rv64_csrs s rv64_csr_mip) k \<and> rv64_mode_takes (rv64_interrupt_mode k s) s"

text \<open>The standard priorities: external, software, timer, and machine before supervisor before user.\<close>



lemma rv64_interrupt_code_first:
  "rv64_interrupt_code x = map_option of_nat (find (bit x) interrupt_priority)"
  by (simp add: rv64_interrupt_code_def interrupt_priority_def fget_single)


lemma rv64_compute_pending_interrupts_mode:
  assumes "rv64_compute_pending_interrupts s = (m, p)" "m \<noteq> NoneMode"
  shows "is_valid_privilege_level m \<and> p \<noteq> 0 \<and> rv64_prv s \<le> m"
  using assms by (auto simp: rv64_compute_pending_interrupts_def Let_def is_valid_privilege_level_def split: if_splits)

lemma rv64_compute_pending_interrupts_bits:
  assumes "rv64_compute_pending_interrupts s = (m, p)" "m \<noteq> NoneMode"
  shows "bit p k \<longleftrightarrow> rv64_deliverable s k \<and> rv64_interrupt_mode k s = m"
  using assms bit_imp_le_length [of "rv64_csrs s rv64_csr_mie" k]
  by (auto simp: rv64_compute_pending_interrupts_def Let_def rv64_deliverable_def rv64_mode_takes_def rv64_interrupt_mode_def
      ie_field_def bit_simps split: if_splits)

lemma rv64_compute_pending_interrupts_complete:
  assumes "rv64_compute_pending_interrupts s = (m, p)" "rv64_deliverable s k"
  shows "m \<noteq> NoneMode \<and> rv64_interrupt_mode k s \<le> m"
proof -
  let ?pend = "rv64_csrs s rv64_csr_mie AND rv64_csrs s rv64_csr_mip"
  have bits: "bit ?pend k" "rv64_mode_takes (rv64_interrupt_mode k s) s" and k: "k < 64"
    using assms(2) by (auto simp: rv64_deliverable_def bit_simps dest: bit_imp_le_length)
  have "?pend \<noteq> 0"
    using bit_nonzero [OF bits(1)] .
  moreover have "?pend AND NOT (rv64_csrs s rv64_csr_mideleg) \<noteq> 0" if "rv64_interrupt_mode k s = MachineMode"
    using that bits k by (intro bit_nonzero [of _ k]) (simp add: bit_simps rv64_interrupt_mode_def split: if_splits)
  moreover have "?pend AND rv64_csrs s rv64_csr_mideleg AND NOT (rv64_csrs s rv64_csr_sideleg) \<noteq> 0"
    if "rv64_interrupt_mode k s = SupervisorMode"
    using that bits k by (intro bit_nonzero [of _ k]) (simp add: bit_simps rv64_interrupt_mode_def split: if_splits)
  moreover have "?pend AND rv64_csrs s rv64_csr_mideleg AND rv64_csrs s rv64_csr_sideleg \<noteq> 0" if "rv64_interrupt_mode k s = UserMode"
    using that bits k by (intro bit_nonzero [of _ k]) (simp add: bit_simps rv64_interrupt_mode_def split: if_splits)
  moreover have "rv64_interrupt_mode k s \<in> {MachineMode, SupervisorMode, UserMode}"
    by (simp add: rv64_interrupt_mode_def)
  ultimately show ?thesis
    using assms(1) bits(2)
    by (auto simp: rv64_compute_pending_interrupts_def Let_def rv64_mode_takes_def ie_field_def and.assoc split: if_splits)
qed

text \<open>\<open>s'\<close> is the state after exception \<open>r\<close> with trap value \<open>v\<close> of the instruction at \<open>lp\<close>.\<close>

definition rv64_trap_taken :: "u32 \<Rightarrow> u64 \<Rightarrow> u64 \<Rightarrow> 'd rv64_iss \<Rightarrow> 'd rv64_iss \<Rightarrow> bool" where
  "rv64_trap_taken r v lp s s' \<longleftrightarrow>
     (let m = rv64_trap_target r s in
      rv64_prv s' = m \<and> rv64_previous_mode m s' = rv64_prv s \<and>
      rv64_csr_fget rv64_csr_mstatus (ie_field m) s' = 0 \<and>
      rv64_csr_fget rv64_csr_mstatus (pie_field m) s' = rv64_csr_fget rv64_csr_mstatus (ie_field m) s \<and>
      rv64_csrs s' (rv64_epc_csr m) = lp \<and> rv64_csrs s' (rv64_tval_csr m) = v \<and>
      rv64_csr_fget (rv64_cause_csr m) rv64_mcause_interrupt s' = 0 \<and>
      rv64_csr_fget (rv64_cause_csr m) rv64_mcause_exception_code s' = ucast r \<and>
      (\<forall>c. c \<notin> {rv64_epc_csr m, rv64_tval_csr m, rv64_cause_csr m, rv64_csr_mstatus} \<longrightarrow> rv64_csrs s' c = rv64_csrs s c) \<and>
      rv64_pc s' = rv64_get_base_address (rv64_csrs s (rv64_tvec_csr m)) \<and> rv64_dbb_pc (rv64_dbbcache s') = rv64_pc s' \<and>
      rv64_lr_sc_counter s' = 0 \<and> rv64_regs s' = rv64_regs s)"

text \<open>The interrupt that is taken among those deliverable to mode \<open>m\<close>.\<close>

definition rv64_chosen_interrupt :: "u32 \<Rightarrow> 'd rv64_iss \<Rightarrow> nat option" where
  "rv64_chosen_interrupt m s = find (\<lambda>k. rv64_deliverable s k \<and> rv64_interrupt_mode k s = m) interrupt_priority"

definition rv64_interrupt_taken :: "u32 \<Rightarrow> nat \<Rightarrow> 'd rv64_iss \<Rightarrow> 'd rv64_iss \<Rightarrow> bool" where
  "rv64_interrupt_taken m k s s' \<longleftrightarrow>
     rv64_prv s' = m \<and> rv64_previous_mode m s' = rv64_prv s \<and>
     rv64_csr_fget rv64_csr_mstatus (ie_field m) s' = 0 \<and>
     rv64_csr_fget rv64_csr_mstatus (pie_field m) s' = rv64_csr_fget rv64_csr_mstatus (ie_field m) s \<and>
     rv64_csrs s' (rv64_epc_csr m) = rv64_pc s \<and>
     rv64_csr_fget (rv64_cause_csr m) rv64_mcause_interrupt s' = 1 \<and>
     rv64_csr_fget (rv64_cause_csr m) rv64_mcause_exception_code s' = of_nat k \<and>
     rv64_pc s' = rv64_get_base_address (rv64_csrs s (rv64_tvec_csr m)) +
               (if rv64_csr_fget (rv64_tvec_csr m) mtvec_mode s = 1 then 4 * of_nat k else 0) \<and>
     rv64_dbb_pc (rv64_dbbcache s') = rv64_pc s' \<and> rv64_lr_sc_counter s' = 0 \<and> rv64_regs s' = rv64_regs s"

lemma rv64_trap_cells_distinct:
  assumes "is_valid_privilege_level m"
  shows "rv64_cause_csr m \<noteq> rv64_csr_mstatus" "rv64_tval_csr m \<noteq> rv64_csr_mstatus" "rv64_cause_csr m \<noteq> rv64_epc_csr m"
    "rv64_tval_csr m \<noteq> rv64_epc_csr m" "rv64_tval_csr m \<noteq> rv64_cause_csr m" "rv64_cause_csr m \<noteq> rv64_tvec_csr m" "rv64_tval_csr m \<noteq> rv64_tvec_csr m"
    "rv64_tvec_csr m \<noteq> rv64_csr_mstatus" "rv64_tvec_csr m \<noteq> rv64_epc_csr m" "rv64_cause_csr m \<noteq> rv64_csr_mtvec" "rv64_tval_csr m \<noteq> rv64_csr_mtvec"
  using assms by (auto simp: is_valid_privilege_level_def rv64_trap_mode_defs)

lemma rv64_trap_target_valid: "is_valid_privilege_level (rv64_trap_target r s)"
  by (simp add: rv64_trap_target_def is_valid_privilege_level_def)

lemma rv64_trap_entered_taken:
  fixes s :: "'d rv64_iss"
  assumes "rv64_trap_target r s = m"
    "rv64_trap_entered m (rv64_csr_upd (rv64_tval_csr m) v (rv64_set_cause (rv64_cause_csr m) (ucast r) 0 (s\<lparr>rv64_pc := lp\<rparr>))) s'"
  shows "rv64_trap_taken r v lp s s'"
proof -
  have m: "is_valid_privilege_level m"
    using assms(1) rv64_trap_target_valid by metis
  note cells = rv64_trap_cells_distinct [OF m] rv64_trap_cells_distinct [OF m, symmetric]
  let ?t = "rv64_csr_upd (rv64_tval_csr m) v (rv64_set_cause (rv64_cause_csr m) (ucast r) 0 (s\<lparr>rv64_pc := lp\<rparr>))"
  note e = assms(2) [unfolded rv64_trap_entered_def]
  have cause: "rv64_csr_fget (rv64_cause_csr m) f s' = rv64_csr_fget (rv64_cause_csr m) f ?t" for f
    using e cells by (intro rv64_csr_fget_other_cell) simp
  have other: "rv64_csrs s' c = rv64_csrs s c" if "c \<notin> {rv64_epc_csr m, rv64_tval_csr m, rv64_cause_csr m, rv64_csr_mstatus}" for c
    using e that rv64_set_cause_frame(6) [of "rv64_cause_csr m" c "ucast r" 0 "s\<lparr>rv64_pc := lp\<rparr>"] by auto
  have mst: "rv64_csr_fget rv64_csr_mstatus f ?t = rv64_csr_fget rv64_csr_mstatus f s" for f
    using cells by (simp add: rv64_csr_fget_upd)
  have tval: "rv64_csrs s' (rv64_tval_csr m) = v"
    using e cells by simp
  have "take_bit 63 (ucast r) = (ucast r :: u64)"
    by (rule bit_eqI) (auto simp: bit_simps dest: bit_imp_le_length)
  then have irq: "rv64_csr_fget (rv64_cause_csr m) rv64_mcause_interrupt ?t = 0"
    "rv64_csr_fget (rv64_cause_csr m) rv64_mcause_exception_code ?t = ucast r"
    using cells by (simp_all add: rv64_csr_fget_upd)
  have vec: "rv64_vectored_pc (rv64_cause_csr m) (rv64_tvec_csr m) b ?t = b" for b
    using irq(1) by (simp add: rv64_vectored_pc_def)
  have tvec: "rv64_csrs ?t (rv64_tvec_csr m) = rv64_csrs s (rv64_tvec_csr m)"
    using cells by simp
  show ?thesis
    unfolding rv64_trap_taken_def assms(1) Let_def cause irq tval
    using e [unfolded vec tvec mst] other by simp
qed

lemma rv64_trap_entered_interrupt:
  fixes s :: "'d rv64_iss"
  assumes m: "is_valid_privilege_level m" and k: "k \<in> set interrupt_priority"
    and entered: "rv64_trap_entered m (rv64_set_cause (rv64_cause_csr m) (of_nat k) 1 s) s'"
  shows "rv64_interrupt_taken m k s s'"
proof -
  note cells = rv64_trap_cells_distinct [OF m] rv64_trap_cells_distinct [OF m, symmetric]
  let ?t = "rv64_set_cause (rv64_cause_csr m) (of_nat k) 1 s"
  note e = entered [unfolded rv64_trap_entered_def]
  have cause: "rv64_csr_fget (rv64_cause_csr m) f s' = rv64_csr_fget (rv64_cause_csr m) f ?t" for f
    using e cells by (intro rv64_csr_fget_other_cell) simp
  have "take_bit 63 (of_nat k) = (of_nat k :: u64)"
    using k by (auto simp: interrupt_priority_def)
  then have irq: "rv64_csr_fget (rv64_cause_csr m) rv64_mcause_interrupt ?t = 1"
    "rv64_csr_fget (rv64_cause_csr m) rv64_mcause_exception_code ?t = of_nat k"
    by simp_all
  have vec: "rv64_vectored_pc (rv64_cause_csr m) (rv64_tvec_csr m) b ?t =
      b + (if rv64_csr_fget (rv64_tvec_csr m) mtvec_mode s = 1 then 4 * of_nat k else 0)" for b
    using cells irq by (simp add: rv64_vectored_pc_def)
  show ?thesis
    unfolding rv64_interrupt_taken_def cause irq
    using e [unfolded vec] cells by simp
qed

lemma rv64_standard_interrupt:
  assumes "rv64_csrs s rv64_csr_mie AND NOT rv64_MIE_MASK = 0" "bit (rv64_csrs s rv64_csr_mie) k"
  shows "k \<in> set interrupt_priority"
proof -
  have "\<not> bit (rv64_csrs s rv64_csr_mie AND NOT rv64_MIE_MASK) k"
    unfolding assms(1) by simp
  then have mask: "bit (rv64_MIE_MASK) k"
    using assms(2) bit_imp_le_length [OF assms(2)] by (simp add: bit_simps)
  have "rv64_MIE_MASK = take_bit 32 rv64_MIE_MASK" by simp
  then have "k < 32"
    using mask by (metis bit_take_bit_iff)
  then show ?thesis
    using mask by (auto dest!: less_32_cases simp: interrupt_priority_def)
qed

section \<open>The contract of \<open>atomic_unlock\<close>\<close>

text \<open>All that trap handling needs of the memory interface: an unlock returns, and changes nothing of the hart.\<close>

locale rv64_unlocking =
  fixes E :: "'d rv64_iss_env"
  assumes unlock: "\<exists>d. rv64_atomic_unlock (rv64_mem E) s = (Inr (), s\<lparr>rv64_mem_st := d\<rparr>)"
begin

lemma rv64_release_result: "\<exists>d. rv64_release_lr_sc_reservation E s = (Inr (), s\<lparr>rv64_lr_sc_counter := 0, rv64_mem_st := d\<rparr>)"
proof -
  obtain d where "rv64_atomic_unlock (rv64_mem E) (s\<lparr>rv64_lr_sc_counter := 0\<rparr>) = (Inr (), s\<lparr>rv64_lr_sc_counter := 0, rv64_mem_st := d\<rparr>)"
    using unlock [of "s\<lparr>rv64_lr_sc_counter := 0\<rparr>"] by auto
  then show ?thesis
    by (auto simp: rv64_release_lr_sc_reservation_def monad_simps)
qed

lemma rv64_switch_to_trap_handler_entered:
  assumes "is_valid_privilege_level m" "is_valid_privilege_level (rv64_prv s)" "rv64_prv s \<le> m"
    "m = MachineMode \<Longrightarrow> rv64_get_base_address (rv64_csrs s rv64_csr_mtvec) \<noteq> 0 \<or> \<not> rv64_error_on_zero_traphandler s"
  shows "\<exists>s1. rv64_switch_to_trap_handler E m s = (Inr (), s1) \<and> rv64_trap_entered m s s1"
proof -
  obtain d where d: "rv64_release_lr_sc_reservation E s = (Inr (), s\<lparr>rv64_lr_sc_counter := 0, rv64_mem_st := d\<rparr>)"
    using rv64_release_result by blast
  let ?s = "s\<lparr>rv64_lr_sc_counter := 0, rv64_mem_st := d, rv64_prv := m\<rparr>"
  have frame: "rv64_trap_entered m (?s\<lparr>rv64_prv := rv64_prv s\<rparr>) s1 \<longleftrightarrow> rv64_trap_entered m s s1" for s1
    by (simp add: rv64_trap_entered_def rv64_vectored_pc_def)
  from assms(1) show ?thesis
  proof (cases rule: valid_privilege_cases)
    case 1
    then show ?thesis
      using rv64_enter_machine_entered [of "rv64_prv s" ?s] assms frame
      by (auto simp: rv64_switch_to_trap_handler_def monad_simps d)
  next
    case 2
    then show ?thesis
      using rv64_enter_supervisor_entered [of "rv64_prv s" ?s] assms frame
      by (auto simp: rv64_switch_to_trap_handler_def monad_simps d is_valid_privilege_level_def)
  next
    case 3
    then show ?thesis
      using rv64_enter_user_entered [of ?s] assms frame
      by (auto simp: rv64_switch_to_trap_handler_def monad_simps d is_valid_privilege_level_def)
  qed
qed


lemma rv64_handle_trap_taken:
  assumes "is_valid_privilege_level (rv64_prv s)"
    "rv64_trap_target r s = MachineMode \<Longrightarrow>
       rv64_get_base_address (rv64_csrs s rv64_csr_mtvec) \<noteq> 0 \<or> \<not> rv64_error_on_zero_traphandler s"
  shows "\<exists>s'. rv64_handle_trap E r v lp s = (Inr (), s') \<and> rv64_trap_taken r v lp s s'"
proof -
  let ?m = "rv64_trap_target r s"
  let ?t = "rv64_csr_upd (rv64_tval_csr ?m) v (rv64_set_cause (rv64_cause_csr ?m) (ucast r) 0 (s\<lparr>rv64_pc := lp\<rparr>))"
  have "rv64_csrs ?t rv64_csr_mtvec = rv64_csrs s rv64_csr_mtvec"
    using rv64_trap_cells_distinct [OF rv64_trap_target_valid [of r s]] by simp
  then have "rv64_trap_target r s = MachineMode \<Longrightarrow>
      rv64_get_base_address (rv64_csrs ?t rv64_csr_mtvec) \<noteq> 0 \<or> \<not> rv64_error_on_zero_traphandler ?t"
    using assms(2) by simp
  then obtain s' where "rv64_switch_to_trap_handler E ?m ?t = (Inr (), s')" "rv64_trap_entered ?m ?t s'"
    using rv64_switch_to_trap_handler_entered [OF rv64_trap_target_valid, of ?t r s] assms(1) rv64_trap_target_privilege [of s r]
    by (simp del: rv64_csrs_csr_upd) blast
  then show ?thesis
    using rv64_trap_entered_taken [OF refl] rv64_prepare_trap_result [OF assms(1)]
    by (auto simp: rv64_handle_trap_def monad_simps)
qed

lemma rv64_handle_interrupt_none:
  assumes "\<And>k. \<not> rv64_deliverable s k"
  shows "rv64_handle_interrupt E s = (Inr (), s)"
proof -
  obtain m p where c: "rv64_compute_pending_interrupts s = (m, p)" by fastforce
  have "m = NoneMode"
  proof (rule ccontr)
    assume m: "m \<noteq> NoneMode"
    then have "p \<noteq> 0" using rv64_compute_pending_interrupts_mode [OF c] by simp
    then obtain k where "bit p k" using bit_eq_iff [of p 0] by auto
    then show False using rv64_compute_pending_interrupts_bits [OF c m] assms by simp
  qed
  then show ?thesis by (simp add: rv64_handle_interrupt_def monad_simps c)
qed

lemma rv64_prepare_interrupt_result:
  "rv64_interrupt_code p = Some k \<Longrightarrow> is_valid_privilege_level m \<Longrightarrow>
   rv64_prepare_interrupt m p s = (Inr (), rv64_set_cause (rv64_cause_csr m) (ucast k) 1 s)"
  by (auto simp: rv64_prepare_interrupt_def is_valid_privilege_level_def monad_simps rv64_trap_mode_defs)

lemma rv64_handle_interrupt_taken:
  assumes "is_valid_privilege_level (rv64_prv s)" "rv64_csrs s rv64_csr_mie AND NOT rv64_MIE_MASK = 0" "rv64_deliverable s j"
    "rv64_get_base_address (rv64_csrs s rv64_csr_mtvec) \<noteq> 0 \<or> \<not> rv64_error_on_zero_traphandler s"
  shows "\<exists>m k s'. rv64_handle_interrupt E s = (Inr (), s') \<and> rv64_chosen_interrupt m s = Some k \<and>
           (\<forall>j. rv64_deliverable s j \<longrightarrow> rv64_interrupt_mode j s \<le> m) \<and> rv64_interrupt_taken m k s s'"
proof -
  obtain m p where c: "rv64_compute_pending_interrupts s = (m, p)" by fastforce
  have m: "m \<noteq> NoneMode" "\<And>j. rv64_deliverable s j \<Longrightarrow> rv64_interrupt_mode j s \<le> m"
    using rv64_compute_pending_interrupts_complete [OF c] assms(3) by auto
  note mode = rv64_compute_pending_interrupts_mode [OF c m(1)]
  note bits = rv64_compute_pending_interrupts_bits [OF c m(1)]
  obtain k0 where k0: "bit p k0" using mode bit_eq_iff [of p 0] by auto
  have "k0 \<in> set interrupt_priority"
    using rv64_standard_interrupt [OF assms(2)] k0 bits by (simp add: rv64_deliverable_def)
  then obtain k where find: "rv64_chosen_interrupt m s = Some k"
    using k0 bits by (cases "rv64_chosen_interrupt m s") (auto simp: rv64_chosen_interrupt_def find_None_iff)
  then have small: "k \<in> set interrupt_priority"
    by (auto simp: rv64_chosen_interrupt_def find_Some_iff)
  have "bit p = (\<lambda>k. rv64_deliverable s k \<and> rv64_interrupt_mode k s = m)"
    using bits by blast
  then have "rv64_interrupt_code p = Some (of_nat k)"
    using find by (simp add: rv64_interrupt_code_first rv64_chosen_interrupt_def)
  then have prep: "rv64_prepare_interrupt m p s = (Inr (), rv64_set_cause (rv64_cause_csr m) (of_nat k) 1 s)"
    using rv64_prepare_interrupt_result [of p "of_nat k" m s] mode small by (auto simp: interrupt_priority_def)
  let ?t = "rv64_set_cause (rv64_cause_csr m) (of_nat k) 1 s"
  have ok: "rv64_get_base_address (rv64_csrs ?t rv64_csr_mtvec) \<noteq> 0 \<or> \<not> rv64_error_on_zero_traphandler ?t"
    using rv64_trap_cells_distinct [of m] mode assms(4) by simp
  obtain s' where "rv64_switch_to_trap_handler E m ?t = (Inr (), s')" "rv64_trap_entered m ?t s'"
    using rv64_switch_to_trap_handler_entered [of m ?t, OF _ _ _ ok] mode assms(1) by auto
  then show ?thesis
    using rv64_trap_entered_interrupt [of m k s s'] find mode m c prep small
    by (auto simp: rv64_handle_interrupt_def monad_simps)
qed

lemma rv64_trap_roundtrip:
  assumes "is_valid_privilege_level (rv64_prv s)" "rv64_handle_trap E r v lp s = (Inr (), s1)" "rv64_trap_taken r v lp s s1"
  shows "\<exists>s2. rv64_return_from_trap_handler (rv64_trap_target r s) s1 = (Inr (), s2) \<and>
     rv64_prv s2 = rv64_prv s \<and> rv64_pc s2 = lp \<and> rv64_dbb_pc (rv64_dbbcache s2) = lp \<and> rv64_regs s2 = rv64_regs s \<and>
     rv64_csr_fget rv64_csr_mstatus (ie_field (rv64_trap_target r s)) s2 = rv64_csr_fget rv64_csr_mstatus (ie_field (rv64_trap_target r s)) s"
  using rv64_return_from_trap_handler_returned [OF rv64_trap_target_valid, of r s s1] assms
  by (auto simp: rv64_trap_taken_def rv64_trap_returned_def Let_def)

end

text \<open>The memory interface of the program keeps the contract, whatever is connected to it.\<close>

interpretation rv64_cmi: rv64_unlocking "rv64_cmi_env C cached E" for C cached E
  by unfold_locales (auto simp: rv64_cmi_env_def rv64_cmi_if_def rv64_cmi_atomic_unlock_def monad_simps)

section \<open>Traps, interrupts and returns of the program\<close>

text \<open>A hart of the platform in user mode that delegated breakpoints to supervisor mode.\<close>

definition rv64_user_hart :: rv64_hart_soc where
  "rv64_user_hart = rv64_csr_upd rv64_csr_mtvec 0x100 (rv64_csr_upd rv64_csr_stvec 0x201 (rv64_csr_upd rv64_csr_medeleg 0x8
     ((rv64_tiny_init True True (\<lambda>_. 10000) 0x1000)\<lparr>rv64_prv := UserMode\<rparr>)))"

lemma rv64_user_hart_simps [simp]:
  "rv64_prv rv64_user_hart = UserMode" "rv64_csrs rv64_user_hart rv64_csr_mtvec = 0x100" "rv64_csrs rv64_user_hart rv64_csr_stvec = 0x201"
  "rv64_csrs rv64_user_hart rv64_csr_medeleg = 0x8" "rv64_error_on_zero_traphandler rv64_user_hart = False"
  "rv64_csrs rv64_user_hart rv64_csr_mie = 0" "rv64_csrs rv64_user_hart rv64_csr_mideleg = 0"
  by (simp_all add: rv64_user_hart_def rv64_tiny_init_def rv64_iss_init_def rv64_ISS_CT_def rv64_csr_table_init_def)

text \<open>The environment of the platform with an idle quantum keeper and host calls that return zero.\<close>

abbreviation rv64_tiny_idle :: "soc rv64_cmi rv64_iss_env" where
  "rv64_tiny_idle \<equiv> rv64_tiny_env (\<lambda>_ _ _ _ _. ret 0) False True (\<lambda>_. False) (ret ()) 0"

text \<open>
  C7. Traps of the RV64 hart: an exception with any trap value passes control to the handler of the mode the delegation
  registers select, with the cause, the trap value, the return address, the previous mode and the interrupt-enable bit
  saved, no other CSR and no register changed and the mode never lowered; returning from that handler resumes the trapped
  program in its mode, at its program counter, with its interrupt-enable bit and registers.\<close>

theorem rv64_trap_return_roundtrip:
  assumes "is_valid_privilege_level (rv64_prv s)"
    "rv64_get_base_address (rv64_csrs s rv64_csr_mtvec) \<noteq> 0 \<or> \<not> rv64_error_on_zero_traphandler s"
  shows "\<exists>s1 s2. rv64_handle_trap (rv64_cmi_env C cached E) r v lp s = (Inr (), s1) \<and>
     rv64_trap_taken r v lp s s1 \<and> rv64_prv s \<le> rv64_prv s1 \<and>
     rv64_return_from_trap_handler (rv64_trap_target r s) s1 = (Inr (), s2) \<and>
     rv64_prv s2 = rv64_prv s \<and> rv64_pc s2 = lp \<and> rv64_dbb_pc (rv64_dbbcache s2) = lp \<and> rv64_regs s2 = rv64_regs s \<and>
     rv64_csr_fget rv64_csr_mstatus (ie_field (rv64_trap_target r s)) s2 =
       rv64_csr_fget rv64_csr_mstatus (ie_field (rv64_trap_target r s)) s"
proof -
  obtain s1 where s1: "rv64_handle_trap (rv64_cmi_env C cached E) r v lp s = (Inr (), s1)" "rv64_trap_taken r v lp s s1"
    using rv64_cmi.rv64_handle_trap_taken [OF assms(1) assms(2)] by blast
  then have "rv64_prv s \<le> rv64_prv s1"
    using rv64_trap_target_privilege [OF assms(1), of r] by (auto simp: rv64_trap_taken_def Let_def)
  then show ?thesis
    using rv64_cmi.rv64_trap_roundtrip [OF assms(1) s1] s1 by blast
qed

theorem rv64_trap_return_roundtrip_witness:
  "\<exists>s1 s2. rv64_handle_trap rv64_tiny_idle EXC_BREAKPOINT 0x100001234 0x100001234 rv64_user_hart = (Inr (), s1) \<and>
     rv64_return_from_trap_handler SupervisorMode s1 = (Inr (), s2) \<and> rv64_prv s2 = UserMode \<and> rv64_pc s2 = 0x100001234"
proof -
  have "rv64_trap_target EXC_BREAKPOINT rv64_user_hart = SupervisorMode"
    by (simp add: rv64_trap_target_def rv64_delegated_def rv64_user_hart_def rv64_tiny_init_def rv64_iss_init_def
        rv64_ISS_CT_def rv64_csr_table_init_def)
  then show ?thesis
    unfolding rv64_tiny_env_def
    using rv64_trap_return_roundtrip [of rv64_user_hart _ _ _ EXC_BREAKPOINT "0x100001234"]
    by (fastforce simp: is_valid_privilege_level_def)
qed

text \<open>
  C8. Interrupts of the RV64 hart: when an enabled pending interrupt may interrupt the current mode, the hart enters the
  most privileged mode that has one, with the interrupt of highest standard priority among those of
  that mode as its cause, at the (vectored) handler address; otherwise nothing changes.\<close>

theorem rv64_handle_interrupt_refines:
  assumes "is_valid_privilege_level (rv64_prv s)" "rv64_csrs s rv64_csr_mie AND NOT rv64_MIE_MASK = 0"
    "rv64_get_base_address (rv64_csrs s rv64_csr_mtvec) \<noteq> 0 \<or> \<not> rv64_error_on_zero_traphandler s"
  shows "if \<exists>j. rv64_deliverable s j
    then \<exists>m k s'. rv64_handle_interrupt (rv64_cmi_env C cached E) s = (Inr (), s') \<and> rv64_chosen_interrupt m s = Some k \<and>
           (\<forall>j. rv64_deliverable s j \<longrightarrow> rv64_interrupt_mode j s \<le> m) \<and> rv64_interrupt_taken m k s s'
    else rv64_handle_interrupt (rv64_cmi_env C cached E) s = (Inr (), s)"
  using rv64_cmi.rv64_handle_interrupt_taken [OF assms(1,2) _ assms(3)] rv64_cmi.rv64_handle_interrupt_none [of s] by auto

text \<open>The same hart with the machine timer and the machine software interrupt pending and enabled.\<close>

definition rv64_interrupted_hart :: rv64_hart_soc where
  "rv64_interrupted_hart = rv64_csr_upd rv64_csr_mie 0x88 (rv64_csr_upd rv64_csr_mip 0x88 rv64_user_hart)"

theorem rv64_handle_interrupt_refines_witness:
  "\<exists>s'. rv64_handle_interrupt rv64_tiny_idle rv64_interrupted_hart = (Inr (), s') \<and>
        rv64_interrupt_taken MachineMode 3 rv64_interrupted_hart s'"
proof -
  have cells: "rv64_prv rv64_interrupted_hart = UserMode" "rv64_csrs rv64_interrupted_hart rv64_csr_mie = 0x88"
    "rv64_csrs rv64_interrupted_hart rv64_csr_mip = 0x88" "rv64_csrs rv64_interrupted_hart rv64_csr_mideleg = 0"
    "rv64_error_on_zero_traphandler rv64_interrupted_hart = False"
    by (simp_all add: rv64_interrupted_hart_def)
  have mode: "rv64_interrupt_mode j rv64_interrupted_hart = MachineMode" for j
    by (simp add: rv64_interrupt_mode_def cells)
  have takes: "rv64_mode_takes MachineMode rv64_interrupted_hart"
    by (simp add: rv64_mode_takes_def cells)
  have deliver: "rv64_deliverable rv64_interrupted_hart 3" "\<not> rv64_deliverable rv64_interrupted_hart 11"
    by (simp_all add: rv64_deliverable_def cells mode takes)
  have "rv64_chosen_interrupt m rv64_interrupted_hart = Some k \<Longrightarrow> m = MachineMode \<and> k = 3" for m k
    using deliver by (auto simp: rv64_chosen_interrupt_def interrupt_priority_def mode split: if_splits)
  moreover have "is_valid_privilege_level (rv64_prv rv64_interrupted_hart)"
    "rv64_csrs rv64_interrupted_hart rv64_csr_mie AND NOT rv64_MIE_MASK = 0" "\<exists>j. rv64_deliverable rv64_interrupted_hart j"
    using deliver by (auto simp: is_valid_privilege_level_def cells)
  ultimately show ?thesis
    unfolding rv64_tiny_env_def
    using rv64_handle_interrupt_refines [of rv64_interrupted_hart] cells(5) by (metis (no_types))
qed

end
