(* ===== verification/RV64_Props.thy ===== *)
theory RV64_Props
  imports RV64_Platform VP_Arith VP_VProps
begin

text \<open>
  The arithmetic of the RV64 hart. Its instructions on words are compared with the RV32 instructions of the same name on
  the lower halves of the registers, its products and quotients with those of the integers. Two CSR accesses that do not do
  what they are meant to do are shown as well.
\<close>

section \<open>Instructions on words\<close>

text \<open>A 32-bit instruction and the instruction of the 64-bit hart that works on words.\<close>

definition word_instructions :: "(('d iss, unit) M \<times> ('e rv64_iss, unit) M) list" where
  "word_instructions =
    [(op_ADDI, rv64_op_ADDIW), (op_SLLI, rv64_op_SLLIW), (op_SRLI, rv64_op_SRLIW), (op_SRAI, rv64_op_SRAIW),
     (op_ADD, rv64_op_ADDW), (op_SUB, rv64_op_SUBW), (op_SLL, rv64_op_SLLW), (op_SRL, rv64_op_SRLW),
     (op_SRA, rv64_op_SRAW), (op_MUL, rv64_op_MULW), (op_DIV, rv64_op_DIVW), (op_DIVU, rv64_op_DIVUW),
     (op_REM, rv64_op_REMW), (op_REMU, rv64_op_REMUW)]"

text \<open>
  A 32-bit and a 64-bit hart in front of instructions with the same operands, where the registers of the first are the
  lower halves of those of the second.
\<close>

definition lower_half_of :: "'d iss \<Rightarrow> 'e rv64_iss \<Rightarrow> bool" where
  "lower_half_of s t \<longleftrightarrow> regs s = map ucast (rv64_regs t) \<and> length (rv64_regs t) = 32 \<and>
     rd (instr s) = rd (rv64_instr t) \<and> rs1 (instr s) = rs1 (rv64_instr t) \<and> rs2 (instr s) = rs2 (rv64_instr t) \<and>
     I_imm (instr s) = I_imm (rv64_instr t) \<and> shamt (instr s) = shamt_w (rv64_instr t)"

lemma ucast_scast_word: "ucast (scast (w :: u32) :: u64) = w"
  by (rule bit_eqI) (auto simp: bit_simps)

lemma lower_half_operands:
  assumes "lower_half_of s t"
  shows "rs1_val s = rv64_rs1_word t" "rs2_val s = rv64_rs2_word t"
    "I_imm (instr s) = I_imm (rv64_instr t)" "shamt (instr s) = shamt_w (rv64_instr t)"
  using assms register_fields [of "rv64_instr t"]
  by (simp_all add: lower_half_of_def rs1_val_def rs2_val_def reg_def rv64_rs1_word_def rv64_rs2_word_def
      rv64_rs1_val_def rv64_rs2_val_def rv64_reg_def)

lemma lower_half_shamt:
  assumes "lower_half_of s t"
  shows "reg_shamt (rs2 (instr s)) s = rv64_reg_shamt_w (rs2 (rv64_instr t)) t"
proof -
  have "BIT_RANGE (ucast x :: u32) 4 0 = ucast (take_bit 5 x)" for x :: u64
    by (rule bit_eqI) (auto simp: bit_simps bit_BIT_RANGE)
  moreover have "unat (ucast (take_bit 5 x) :: u32) = unat (take_bit 5 x)" for x :: u64
    by (simp add: unsigned_ucast_eq unsigned_take_bit_eq)
  moreover have "reg (rs2 (instr s)) s = ucast (rv64_reg (rs2 (rv64_instr t)) t)"
    using assms register_fields [of "rv64_instr t"] by (simp add: lower_half_of_def reg_def rv64_reg_def)
  ultimately show ?thesis
    by (simp add: reg_shamt_def rv64_reg_shamt_w_def)
qed

lemma lower_half_assign:
  assumes "lower_half_of s t" "e s = f t"
  shows "\<exists>s' t'. assign_rd e s = (Inr (), s') \<and> rv64_assign_word f t = (Inr (), t') \<and> lower_half_of s' t' \<and>
     rv64_regs t' = (rv64_regs t)[unat (rd (rv64_instr t)) := scast (e s)]"
  using assms
  by (auto simp: assign_rd_def rv64_assign_word_def rv64_assign_rd_def monad_simps set_rd_def rv64_set_rd_def
      set_reg_def rv64_set_reg_def lower_half_of_def map_update ucast_scast_word)

lemma word_of_take_bit: "word_of_int (take_bit 64 i) = (word_of_int i :: u32)"
  by (rule bit_word_eqI) (simp add: bit_simps)

lemma word_of_product: "ucast (a * b) = (ucast a * ucast b :: u32)" for a b :: u64
proof -
  have "uint (a * b) = take_bit 64 (uint a * uint b)"
    by (simp add: uint_word_ariths take_bit_eq_mod)
  then show ?thesis
    by (simp only: ucast_eq wi_hom_mult word_of_take_bit)
qed

lemma mul_val_product: "mul_val a b = a * b"
  unfolding mul_val_def Let_def product_of_int lower_half_of_int by (simp add: wi_hom_mult [symmetric])

lemmas word_op_defs =
  op_ADDI_def op_SLLI_def op_SRLI_def op_SRAI_def op_ADD_def op_SUB_def op_SLL_def op_SRL_def op_SRA_def op_MUL_def
  op_DIV_def op_DIVU_def op_REM_def op_REMU_def rv64_op_ADDIW_def rv64_op_SLLIW_def rv64_op_SRLIW_def
  rv64_op_SRAIW_def rv64_op_ADDW_def rv64_op_SUBW_def rv64_op_SLLW_def rv64_op_SRLW_def rv64_op_SRAW_def
  rv64_op_MULW_def rv64_op_DIVW_def rv64_op_DIVUW_def rv64_op_REMW_def rv64_op_REMUW_def

lemmas word_val_defs =
  div_val_def divu_val_def rem_val_def remu_val_def rv64_divw_val_def rv64_divuw_val_def rv64_remw_val_def
  rv64_remuw_val_def REG_MIN_def rv64_REG32_MIN_def

definition same_word :: "('d iss, unit) M \<Rightarrow> ('e rv64_iss, unit) M \<Rightarrow> bool" where
  "same_word f g \<longleftrightarrow> (\<forall>s t. lower_half_of s t \<longrightarrow>
     (\<exists>s' t'. f s = (Inr (), s') \<and> g t = (Inr (), t') \<and> lower_half_of s' t' \<and>
       rv64_regs t' = (rv64_regs t)[unat (rd (rv64_instr t)) := scast (regs s' ! unat (rd (instr s)))]))"

lemma same_wordI:
  fixes e :: "'d iss \<Rightarrow> u32" and h :: "'e rv64_iss \<Rightarrow> u32"
  assumes "\<And>s t. lower_half_of s t \<Longrightarrow> e s = h t"
  shows "same_word (assign_rd e) (rv64_assign_word h)"
  unfolding same_word_def
proof (intro allI impI)
  fix s :: "'d iss" and t :: "'e rv64_iss"
  assume st: "lower_half_of s t"
  have "regs s' ! unat (rd (instr s)) = e s" if "assign_rd e s = (Inr (), s')" for s'
    using that st register_fields [of "instr s"]
    by (auto simp: assign_rd_def monad_simps set_rd_def set_reg_def lower_half_of_def)
  then show "\<exists>s' t'. assign_rd e s = (Inr (), s') \<and> rv64_assign_word h t = (Inr (), t') \<and> lower_half_of s' t' \<and>
       rv64_regs t' = (rv64_regs t)[unat (rd (rv64_instr t)) := scast (regs s' ! unat (rd (instr s)))]"
    using lower_half_assign [of s t e h] st assms [OF st] by metis
qed

lemma word_instructions_same: "list_all (\<lambda>(f, g). same_word f g) word_instructions"
  unfolding word_instructions_def word_op_defs list.pred_inject prod.case simp_thms
  by (intro conjI same_wordI)
    (simp_all add: lower_half_operands lower_half_shamt mul_val_product word_of_product word_val_defs
      rv64_rs1_word_def rv64_rs2_word_def)

text \<open>
  C25. The RV64 instructions on words (\<^verbatim>\<open>ADDIW\<close>, \<^verbatim>\<open>SLLIW\<close>, ..., \<^verbatim>\<open>DIVW\<close>, \<^verbatim>\<open>REMUW\<close>) do on the lower halves of the registers
  what the RV32 instructions of the same name without \<^verbatim>\<open>W\<close> do: the halves agree again afterwards, and the destination
  holds the sign extension of the 32-bit result.\<close>

theorem rv64_word_instructions_agree:
  assumes "(f, g) \<in> set word_instructions" "lower_half_of s t"
  shows "\<exists>s' t'. f s = (Inr (), s') \<and> g t = (Inr (), t') \<and> lower_half_of s' t' \<and>
     rv64_regs t' = (rv64_regs t)[unat (rd (rv64_instr t)) := scast (regs s' ! unat (rd (instr s)))]"
  using word_instructions_same assms by (auto simp: list_all_iff same_word_def)

text \<open>\<^verbatim>\<open>add x3, x1, x2\<close> and \<^verbatim>\<open>addw x3, x1, x2\<close>, with all registers \<^verbatim>\<open>0xFFFFFFFF\<close>.\<close>

definition add_hart :: hart_soc where
  "add_hart = (tiny_init True True (\<lambda>_. 10000) 0)\<lparr>instr := 0x002081B3, regs := replicate 32 0xFFFFFFFF\<rparr>"

definition addw_hart :: rv64_hart_soc where
  "addw_hart = (rv64_tiny_init True True (\<lambda>_. 10000) 0)\<lparr>rv64_instr := 0x002081BB, rv64_regs := replicate 32 0xFFFFFFFF\<rparr>"

theorem rv64_word_instructions_agree_witness:
  "\<exists>s' t'. op_ADD add_hart = (Inr (), s') \<and> rv64_op_ADDW addw_hart = (Inr (), t') \<and> lower_half_of s' t' \<and>
     rv64_regs t' = (rv64_regs addw_hart)[3 := scast (regs s' ! 3)]"
proof -
  have f: "rd 0x002081B3 = 3" "rd 0x002081BB = 3" "rs1 0x002081B3 = rs1 0x002081BB" "rs2 0x002081B3 = rs2 0x002081BB"
    "I_imm 0x002081B3 = I_imm 0x002081BB" "shamt 0x002081B3 = shamt_w 0x002081BB"
    by code_simp+
  have "lower_half_of add_hart addw_hart"
    by (simp add: lower_half_of_def add_hart_def addw_hart_def f)
  moreover have "(op_ADD :: (hart_soc, unit) M, rv64_op_ADDW :: (rv64_hart_soc, unit) M) \<in> set word_instructions"
    by (simp add: word_instructions_def)
  ultimately show ?thesis
    using rv64_word_instructions_agree [of op_ADD rv64_op_ADDW add_hart addw_hart]
    by (simp add: add_hart_def addw_hart_def f)
qed

section \<open>Products and quotients\<close>

lemma product_128:
  "scast (a :: u64) * scast (b :: u64) = (word_of_int (sint a * sint b) :: u128)"
  "ucast a * ucast b = (word_of_int (uint a * uint b) :: u128)"
  "scast a * ucast b = (word_of_int (sint a * uint b) :: u128)"
  unfolding scast_eq ucast_eq wi_hom_mult by (rule refl)+

lemma upper_128: "ucast (signed_drop_bit 64 (word_of_int i :: u128)) = (word_of_int (i div 2 ^ 64) :: u64)"
  unfolding drop_bit_eq_div [symmetric] by (rule bit_word_eqI) (auto simp: bit_simps ac_simps)

lemma lower_128: "ucast (word_of_int i :: u128) = (word_of_int i :: u64)"
  by (rule bit_word_eqI) (auto simp: bit_simps)

lemma rv64_REG_MIN_sint: "sint a = - 9223372036854775808 \<longleftrightarrow> a = rv64_REG_MIN" for a :: u64
  using sint_inject [of a rv64_REG_MIN] by (simp add: rv64_REG_MIN_def)

text \<open>
  C24. Multiplication and division of the RV64 hart: \<^verbatim>\<open>MUL\<close>, \<^verbatim>\<open>MULH\<close>, \<^verbatim>\<open>MULHU\<close> and \<^verbatim>\<open>MULHSU\<close> return the lower half, and the
  upper half of the signed, the unsigned and the mixed product of the integers; \<^verbatim>\<open>DIV\<close> and \<^verbatim>\<open>REM\<close> return -1 and the dividend
  for a division by zero, the dividend and 0 for the division that overflows, and are exact otherwise.\<close>

theorem rv64_multiply_divide_spec:
  "rv64_mul_val a b = word_of_int (sint a * sint b) \<and>
   rv64_mulh_val a b = word_of_int (sint a * sint b div 2 ^ 64) \<and>
   rv64_mulhu_val a b = word_of_int (uint a * uint b div 2 ^ 64) \<and>
   rv64_mulhsu_val a b = word_of_int (sint a * uint b div 2 ^ 64) \<and>
   (b = 0 \<longrightarrow> rv64_div_val a b = -1 \<and> rv64_rem_val a b = a) \<and>
   (a = rv64_REG_MIN \<and> b = -1 \<longrightarrow> rv64_div_val a b = rv64_REG_MIN \<and> rv64_rem_val a b = 0) \<and>
   (b \<noteq> 0 \<and> \<not> (a = rv64_REG_MIN \<and> b = -1) \<longrightarrow>
      sint a = sint (rv64_div_val a b) * sint b + sint (rv64_rem_val a b) \<and>
      \<bar>sint (rv64_rem_val a b)\<bar> < \<bar>sint b\<bar> \<and>
      (rv64_rem_val a b = 0 \<or> sgn (sint (rv64_rem_val a b)) = sgn (sint a)))"
proof -
  have "sint a = sint (rv64_div_val a b) * sint b + sint (rv64_rem_val a b) \<and>
      \<bar>sint (rv64_rem_val a b)\<bar> < \<bar>sint b\<bar> \<and> (rv64_rem_val a b = 0 \<or> sgn (sint (rv64_rem_val a b)) = sgn (sint a))"
    if "b \<noteq> 0" "\<not> (a = rv64_REG_MIN \<and> b = -1)"
    using that
    by (intro signed_division_exact) (auto simp: rv64_div_val_def rv64_rem_val_def rv64_REG_MIN_sint sint_minus_1)
  moreover have "rv64_mul_val a b = word_of_int (sint a * sint b)"
    "rv64_mulh_val a b = word_of_int (sint a * sint b div 2 ^ 64)"
    "rv64_mulhu_val a b = word_of_int (uint a * uint b div 2 ^ 64)"
    "rv64_mulhsu_val a b = word_of_int (sint a * uint b div 2 ^ 64)"
    unfolding rv64_mul_val_def rv64_mulh_val_def rv64_mulhu_val_def rv64_mulhsu_val_def product_128 upper_128 lower_128
    by (rule refl)+
  ultimately show ?thesis by (auto simp: rv64_div_val_def rv64_rem_val_def rv64_REG_MIN_def)
qed

theorem rv64_multiply_divide_spec_witness:
  "sint (-7 :: u64) = sint (rv64_div_val (-7) 2) * sint (2 :: u64) + sint (rv64_rem_val (-7) 2) \<and>
   \<bar>sint (rv64_rem_val (-7) 2)\<bar> < 2"
  using rv64_multiply_divide_spec [of "-7" 2] by (simp add: rv64_REG_MIN_def)

section \<open>CSR accesses\<close>

lemmas rv64_csr_defs =
  rv64_csr_guard_def rv64_is_invalid_csr_access_def rv64_csr_modify_def rv64_csr_swap_def rv64_commit_ninstr_def
  rv64_get_csr_value_def rv64_set_csr_value_def rv64_validate_csr_counter_read_access_rights_def rv64_csr_default_read_def
  rv64_csr_default_write_def rv64_is_valid_csr64_addr_def rv64_default_read64_def rv64_default_write64_def rv64_cell_exists_def
  rv64_register_mapping_def rv64_register_mapping_entries_def rv64_is_hpmcounter_def

lemma rv64_commit_instructions_frame:
  "c \<noteq> rv64_csr_instret \<Longrightarrow> rv64_csrs (rv64_commit_instructions n s) c = rv64_csrs s c"
  "rv64_prv (rv64_commit_instructions n s) = rv64_prv s"
  by (simp_all add: rv64_commit_instructions_def Let_def)

text \<open>
  Registers that are read and written without side effects: the address, the register, and the masks of reads and
  writes.
\<close>

definition simple_csrs :: "(u32 \<times> rv64_csr_cell \<times> u64 \<times> u64) list" where
  "simple_csrs =
    [(0x340, rv64_csr_mscratch, -1, -1), (0x342, rv64_csr_mcause, -1, -1), (0x343, rv64_csr_mtval, -1, -1),
     (0x140, rv64_csr_sscratch, -1, -1), (0x142, rv64_csr_scause, -1, -1), (0x143, rv64_csr_stval, -1, -1),
     (0x040, rv64_csr_uscratch, -1, -1), (0x042, rv64_csr_ucause, -1, -1), (0x043, rv64_csr_utval, -1, -1),
     (0x305, rv64_csr_mtvec, -1, rv64_MTVEC_MASK), (0x105, rv64_csr_stvec, -1, rv64_MTVEC_MASK),
     (0x005, rv64_csr_utvec, -1, rv64_MTVEC_MASK),
     (0x300, rv64_csr_mstatus, rv64_MSTATUS_READ_MASK, rv64_MSTATUS_WRITE_MASK),
     (0x100, rv64_csr_mstatus, rv64_SSTATUS_READ_MASK, rv64_SSTATUS_WRITE_MASK)]"

definition simple_csr_law :: "u32 \<times> rv64_csr_cell \<times> u64 \<times> u64 \<Rightarrow> bool" where
  "simple_csr_law = (\<lambda>(a, c, rm, wm). c \<noteq> rv64_csr_instret \<and>
     (\<forall>(E :: soc rv64_cmi rv64_iss_env) s. rv64_get_csr_value E a s = (Inr (rv64_csrs s c AND rm), s)) \<and>
     (\<forall>v (s :: rv64_hart_soc). \<exists>s'. rv64_set_csr_value a v s = (Inr (), s') \<and>
        rv64_csrs s' = (rv64_csrs s)(c := rv64_masked_write wm v (rv64_csrs s c))))"

lemma simple_csrs_law: "list_all simple_csr_law simple_csrs"
  by (simp add: simple_csrs_def simple_csr_law_def rv64_csr_defs monad_simps rv64_csr_read_def rv64_csr_write_def
      rv64_masked_write_def rv64_maybe_interrupt_pending_def rv64_force_slow_path_def rv64_csr_upd_def)

lemma rv64_set_reg_csrs: "rv64_csrs (rv64_set_reg d x s) = rv64_csrs s"
  by (simp add: rv64_set_reg_def)

text \<open>
  C30. \<^verbatim>\<open>CSRRCI\<close> on the RV64 hart clears more than the bits of its operand: the complement of the 32-bit operand is extended with
  zeros, so every writable bit of the upper half of the register is cleared too. Shown for any write, in a mode that may access it, to one of
  the scratch, cause and trap value registers of the three modes, the trap vectors, \<^verbatim>\<open>mstatus\<close> and
  \<^verbatim>\<open>sstatus\<close>: a writable bit is kept only if it is below bit 32, readable, and not in the operand.
\<close>

theorem rv64_csrrci_clears_upper_half:
  fixes s :: rv64_hart_soc
  assumes "(csr (rv64_instr s), c, rm, wm) \<in> set simple_csrs" "zimm (rv64_instr s) \<noteq> 0"
    and "rv64_is_invalid_csr_access (csr (rv64_instr s)) True s = (Inr False, s)"
  shows "\<exists>s'. rv64_op_CSRRCI E s = (Inr (), s') \<and>
     (\<forall>n. bit (rv64_csrs s' c) n \<longleftrightarrow>
       (if bit wm n then n < 32 \<and> bit rm n \<and> bit (rv64_csrs s c) n \<and> \<not> bit (zimm (rv64_instr s)) n
        else bit (rv64_csrs s c) n))"
proof -
  let ?i = "rv64_instr s" and ?t = "rv64_commit_instructions (rv64_ninstr s) s"
  have "simple_csr_law (csr ?i, c, rm, wm)"
    using simple_csrs_law assms(1) by (simp only: list_all_iff)
  then have law: "c \<noteq> rv64_csr_instret" "\<And>(E :: soc rv64_cmi rv64_iss_env) s. rv64_get_csr_value E (csr ?i) s = (Inr (rv64_csrs s c AND rm), s)"
    "\<And>v (s :: rv64_hart_soc). \<exists>s'. rv64_set_csr_value (csr ?i) v s = (Inr (), s') \<and>
       rv64_csrs s' = (rv64_csrs s)(c := rv64_masked_write wm v (rv64_csrs s c))"
    by (simp_all add: simple_csr_law_def)
  define x where "x = rv64_csrs s c AND rm"
  define u where "u = (if rd ?i \<noteq> 0 then rv64_set_reg (rd ?i) x ?t else ?t)"
  have u: "rv64_csrs u c = rv64_csrs s c"
    using rv64_commit_instructions_frame(1) [OF law(1), of "rv64_ninstr s" s] by (simp add: u_def rv64_set_reg_csrs)
  obtain s' where s': "rv64_set_csr_value (csr ?i) (x AND ucast (NOT (zimm ?i))) u = (Inr (), s')"
      "rv64_csrs s' c = rv64_masked_write wm (x AND ucast (NOT (zimm ?i))) (rv64_csrs s c)"
    using law(3) [of "x AND ucast (NOT (zimm ?i))" u] u by auto
  have "rv64_op_CSRRCI E s = rv64_set_csr_value (csr ?i) (x AND ucast (NOT (zimm ?i))) u"
    using assms(2,3) rv64_commit_instructions_frame(1) [OF law(1), of "rv64_ninstr s" s]
    by (simp add: rv64_op_CSRRCI_def rv64_csr_guard_def rv64_csr_modify_def rv64_commit_ninstr_def monad_simps law(2) x_def u_def whenM_def)
  moreover have "bit (rv64_csrs s' c) n \<longleftrightarrow>
       (if bit wm n then n < 32 \<and> bit rm n \<and> bit (rv64_csrs s c) n \<and> \<not> bit (zimm ?i) n else bit (rv64_csrs s c) n)" for n
    by (auto simp: s'(2) rv64_masked_write_def x_def bit_simps dest: bit_imp_le_length)
  ultimately show ?thesis using s'(1) by auto
qed

text \<open>\<^verbatim>\<open>0x3400F073\<close> is \<^verbatim>\<open>csrrci x0, mscratch, 1\<close>.\<close>

definition csrrci_hart :: rv64_hart_soc where
  "csrrci_hart = (rv64_tiny_init True True (\<lambda>_. 10000) 0)
     \<lparr>rv64_instr := 0x3400F073, rv64_csrs := (\<lambda>_. 0)(rv64_csr_mscratch := 0x1234567800000003)\<rparr>"

theorem rv64_csrrci_clears_upper_half_witness:
  "\<exists>s'. rv64_op_CSRRCI (rv64_tiny_env (\<lambda>_ _ _ _ _. ret 0) False True (\<lambda>_. False) (ret ()) 0) csrrci_hart = (Inr (), s') \<and>
      rv64_csrs s' rv64_csr_mscratch = 2"
proof -
  let ?E = "rv64_tiny_env (\<lambda>_ _ _ _ _. ret 0) False True (\<lambda>_. False) (ret ()) 0"
  have w: "csr 0x3400F073 = 0x340" "zimm 0x3400F073 = 1"
    by code_simp+
  have "rv64_instr csrrci_hart = 0x3400F073" "rv64_csrs csrrci_hart rv64_csr_mscratch = 0x1234567800000003"
    "rv64_is_invalid_csr_access 0x340 True csrrci_hart = (Inr False, csrrci_hart)"
    by (simp_all add: csrrci_hart_def rv64_tiny_init_def rv64_iss_init_def rv64_ISS_CT_def rv64_is_invalid_csr_access_def
        monad_simps whenM_def)
  then obtain s' where s': "rv64_op_CSRRCI ?E csrrci_hart = (Inr (), s')"
    "\<And>n. bit (rv64_csrs s' rv64_csr_mscratch) n \<longleftrightarrow>
       (if bit (-1 :: u64) n then n < 32 \<and> bit (-1 :: u64) n \<and> bit (0x1234567800000003 :: u64) n \<and> \<not> bit (1 :: u32) n
        else bit (0x1234567800000003 :: u64) n)"
    using rv64_csrrci_clears_upper_half [of csrrci_hart rv64_csr_mscratch "-1" "-1" ?E] w by (auto simp: simple_csrs_def)
  have "v = take_bit 32 x AND NOT 1" if "\<And>n. bit v n \<longleftrightarrow> n < 32 \<and> bit x n \<and> \<not> bit (1 :: u32) n" for v x :: u64
    by (rule bit_eqI) (auto simp: that bit_simps)
  from this [of "rv64_csrs s' rv64_csr_mscratch" "0x1234567800000003"]
  have "rv64_csrs s' rv64_csr_mscratch = take_bit 32 0x1234567800000003 AND NOT 1"
    using s'(2) bit_imp_le_length [of "0x1234567800000003 :: u64"] by (auto simp: bit_minus_1_iff)
  then show ?thesis using s'(1) by simp
qed

end
