(* ===== verification/RV64_MMU.thy ===== *)
theory RV64_MMU
  imports RV64_Platform VP_MMU
begin

text \<open>
  Address translation of the RV64 hart: the page-table walk of \<^verbatim>\<open>MMU_T\<close> against the schemes of the privileged architecture
  with three, four and five levels.
\<close>

section \<open>Main memory\<close>

definition rv64_bus_free :: "'b rv64_cmi rv64_iss \<Rightarrow> bool" where
  "rv64_bus_free s \<longleftrightarrow> \<not> locked (rv64_bus_lock (rv64_mem_st s)) \<or> owner (rv64_bus_lock (rv64_mem_st s)) = rv64_hart s"

definition rv64_tiny_map :: "rv64_hart_soc \<Rightarrow> bool" where
  "rv64_tiny_map s \<longleftrightarrow> rv64_dmi_ranges (rv64_mem_st s) = [] \<or> rv64_dmi_ranges (rv64_mem_st s) = [tiny_dmi]"

definition rv64_ram :: "nat \<Rightarrow> u64 \<Rightarrow> rv64_hart_soc \<Rightarrow> u8 list" where
  "rv64_ram n a s = host_read n (0, a) (rv64_host (rv64_mem_st s))"

text \<open>
  States that differ only in what a memory access may change besides memory: the cycle counter, the record of
  the last DMI page, and the bus lock.
\<close>

definition rv64_arch :: "rv64_hart_soc \<Rightarrow> rv64_hart_soc" where
  "rv64_arch s = s\<lparr>rv64_cycle_counter := 0, rv64_cycle_counter_raw_last := 0,
     rv64_mem_st := (rv64_mem_st s)\<lparr>rv64_last_access_was_dmi := False, rv64_last_dmi_page_host_addr := (0, 0),
       rv64_bus_lock := \<lparr>locked = False, owner = 0\<rparr>, rv64_host := (\<lambda>_ _. 0)\<rparr>\<rparr>"

definition rv64_same_hart :: "rv64_hart_soc \<Rightarrow> rv64_hart_soc \<Rightarrow> bool" where
  "rv64_same_hart s t \<longleftrightarrow> rv64_arch s = rv64_arch t"

lemma rv64_hart_frame_cmi [simp]:
  "rv64_hart (s\<lparr>rv64_mem_st := m\<rparr>) = rv64_hart s" "rv64_hart (s\<lparr>rv64_cycle_counter := c\<rparr>) = rv64_hart s"
  "rv64_hart (s\<lparr>rv64_cycle_counter_raw_last := c\<rparr>) = rv64_hart s" "rv64_hart (rv64_commit_cycles s) = rv64_hart s"
  by (simp_all add: rv64_hart_def rv64_get_hart_id_def rv64_commit_cycles_def Let_def)

lemma rv64_mem_st_commit_cycles [simp]: "rv64_mem_st (rv64_commit_cycles s) = rv64_mem_st s"
  by (simp add: rv64_commit_cycles_def Let_def)

text \<open>What the load/store cache asks for after an access.\<close>

definition rv64_dmi_recorded :: "u64 \<Rightarrow> rv64_hart_soc \<Rightarrow> bool" where
  "rv64_dmi_recorded a s \<longleftrightarrow> (rv64_last_access_was_dmi (rv64_mem_st s) \<longrightarrow> rv64_last_dmi_page_host_addr (rv64_mem_st s) = (0, a AND NOT 0xFFF))"

lemma rv64_wait_free: "rv64_bus_free s \<Longrightarrow> rv64_wait_for_access_rights (rv64_hart s) s = (Inr (), s)"
  by (auto simp: rv64_bus_free_def rv64_wait_for_access_rights_def lock_is_locked_by_def monad_simps)

lemma rv64_raw_load_ram:
  assumes "in_ram a n" "rv64_bus_free s" "rv64_tiny_map s"
  shows "\<exists>s'. rv64_raw_load_data (rv64_tiny_conn hs) n a s = (Inr (rv64_ram n a s), s') \<and> rv64_same_hart s s' \<and>
     rv64_host (rv64_mem_st s') = rv64_host (rv64_mem_st s) \<and> rv64_bus_lock (rv64_mem_st s') = rv64_bus_lock (rv64_mem_st s) \<and> rv64_dmi_recorded a s'"
proof (cases "rv64_dmi_ranges (rv64_mem_st s) = []")
  case True
  note b = in_ram_bounds [OF assms(1)] in_ram_local [OF assms(1)]
  show ?thesis
    by (simp add: rv64_raw_load_data_def monad_simps rv64_wait_free [OF assms(2)] True rv64_do_transaction_def
        rv64_tiny_conn_def bus_transport_def b rv64_tiny_isocks_def rv64_sm_transport_def tiny_memory_def rv64_sm_read_data_def
        rv64_ram_def rv64_same_hart_def rv64_arch_def rv64_commit_cycles_def Let_def rv64_dmi_recorded_def)
next
  case False
  then have "rv64_dmi_ranges (rv64_mem_st s) = [tiny_dmi]" using assms(3) by (simp add: rv64_tiny_map_def)
  then show ?thesis
    using in_ram_bounds [OF assms(1)]
    by (simp add: rv64_raw_load_data_def monad_simps rv64_wait_free [OF assms(2)] dmi_contains_def dmi_end_def
        tiny_dmi_def rv64_dmi_load_def rv64_get_mem_ptr_to_global_addr_def rv64_record_dmi_access_def rv64_ram_def rv64_same_hart_def rv64_arch_def rv64_commit_cycles_def Let_def rv64_dmi_recorded_def)
qed

lemma rv64_raw_store_ram:
  assumes "in_ram a (length bs)" "rv64_bus_free s" "rv64_tiny_map s"
  shows "\<exists>s'. rv64_raw_store_data (rv64_tiny_conn hs) a bs s = (Inr (), s') \<and> rv64_same_hart s s' \<and>
     rv64_host (rv64_mem_st s') = host_write (0, a) bs (rv64_host (rv64_mem_st s)) \<and>
     rv64_bus_lock (rv64_mem_st s') = lock_unlock (rv64_hart s) (rv64_bus_lock (rv64_mem_st s)) \<and> rv64_dmi_recorded a s'"
proof (cases "rv64_dmi_ranges (rv64_mem_st s) = []")
  case True
  note b = in_ram_bounds [OF assms(1)] in_ram_local [OF assms(1)]
  show ?thesis
    by (simp add: rv64_raw_store_data_def monad_simps rv64_wait_free [OF assms(2)] True rv64_do_transaction_def
        rv64_tiny_conn_def bus_transport_def b rv64_tiny_isocks_def rv64_sm_transport_def tiny_memory_def rv64_sm_write_data_def
        rv64_same_hart_def rv64_cmi_atomic_unlock_def rv64_arch_def rv64_commit_cycles_def Let_def rv64_dmi_recorded_def)
next
  case False
  then have "rv64_dmi_ranges (rv64_mem_st s) = [tiny_dmi]" using assms(3) by (simp add: rv64_tiny_map_def)
  then show ?thesis
    using in_ram_bounds [OF assms(1)]
    by (simp add: rv64_raw_store_data_def monad_simps rv64_wait_free [OF assms(2)] dmi_contains_def dmi_end_def
        tiny_dmi_def rv64_dmi_store_def rv64_get_mem_ptr_to_global_addr_def rv64_record_dmi_access_def rv64_same_hart_def
        rv64_cmi_atomic_unlock_def rv64_arch_def rv64_dmi_recorded_def)
qed

lemma rv64_same_hart_fields:
  assumes "rv64_same_hart s s'"
  shows "rv64_csrs s' = rv64_csrs s" "rv64_prv s' = rv64_prv s" "rv64_dmi_ranges (rv64_mem_st s') = rv64_dmi_ranges (rv64_mem_st s)"
    "rv64_lr_addr (rv64_mem_st s') = rv64_lr_addr (rv64_mem_st s)" "rv64_page_fault_on_AD (rv64_mem_st s') = rv64_page_fault_on_AD (rv64_mem_st s)"
    "rv64_lsc (rv64_mem_st s') = rv64_lsc (rv64_mem_st s)"
proof -
  have "f (rv64_arch s) = f (rv64_arch s')" for f :: "rv64_hart_soc \<Rightarrow> 'a"
    using assms by (simp add: rv64_same_hart_def)
  from this [of rv64_csrs] this [of rv64_prv] this [of "\<lambda>s. rv64_dmi_ranges (rv64_mem_st s)"] this [of "\<lambda>s. rv64_lr_addr (rv64_mem_st s)"]
    this [of "\<lambda>s. rv64_page_fault_on_AD (rv64_mem_st s)"] this [of "\<lambda>s. rv64_lsc (rv64_mem_st s)"]
  show "rv64_csrs s' = rv64_csrs s" "rv64_prv s' = rv64_prv s" "rv64_dmi_ranges (rv64_mem_st s') = rv64_dmi_ranges (rv64_mem_st s)"
    "rv64_lr_addr (rv64_mem_st s') = rv64_lr_addr (rv64_mem_st s)" "rv64_page_fault_on_AD (rv64_mem_st s') = rv64_page_fault_on_AD (rv64_mem_st s)"
    "rv64_lsc (rv64_mem_st s') = rv64_lsc (rv64_mem_st s)"
    by (simp_all add: rv64_arch_def)
qed

lemma rv64_same_hart_frame:
  assumes "rv64_same_hart s s'"
  shows "rv64_hart s' = rv64_hart s" "rv64_tiny_map s' = rv64_tiny_map s"
    "rv64_lr_addr (rv64_mem_st s') = rv64_lr_addr (rv64_mem_st s)" "rv64_access_mode ty s' = rv64_access_mode ty s"
  using rv64_same_hart_fields [OF assms]
  by (simp_all add: rv64_hart_def rv64_get_hart_id_def rv64_tiny_map_def rv64_access_mode_def)

lemma rv64_same_hart_trans: "rv64_same_hart s t \<Longrightarrow> rv64_same_hart t u \<Longrightarrow> rv64_same_hart s u"
  by (simp add: rv64_same_hart_def)

lemma rv64_tiny_init_ready:
  "rv64_bus_free (rv64_tiny_init d c t e)" "rv64_tiny_map (rv64_tiny_init d c t e)"
  by (auto simp: rv64_tiny_init_def rv64_iss_init_def rv64_ISS_CT_def rv64_bus_free_def rv64_tiny_map_def rv64_dmi_enable_def
      rv64_dmi_add_def rv64_cmi_init_def Let_def rv64_csr_table_init_def fget_def)


section \<open>The Sv39, Sv48 and Sv57 schemes\<close>

text \<open>
  The walk of the privileged architecture through \<open>n\<close> levels of tables with 512 entries of eight bytes. \<open>M\<close> reads a double
  word of memory and \<open>tbl\<close> is the address of the table of the current level. The result is the address of the leaf entry,
  the entry and the physical address, or none when the access faults. Bits 54 to 63 of an entry are reserved.
\<close>

definition pte_address :: "u64 \<Rightarrow> u64 \<Rightarrow> nat \<Rightarrow> u64" where
  "pte_address tbl va i = tbl + 8 * take_bit 9 (drop_bit (12 + 9 * i) va)"

definition pte_target :: "u64 \<Rightarrow> u64" where
  "pte_target p = push_bit 12 (take_bit 44 (drop_bit 10 p))"

fun sv_walk ::
  "(u64 \<Rightarrow> u64) \<Rightarrow> MemoryAccessType \<Rightarrow> bool \<Rightarrow> bool \<Rightarrow> bool \<Rightarrow> u64 \<Rightarrow> u64 \<Rightarrow> nat \<Rightarrow> (u64 \<times> u64 \<times> u64) option"
where
  "sv_walk M ty sm sumf mxr va tbl 0 = None"
| "sv_walk M ty sm sumf mxr va tbl (Suc i) =
     (let a = pte_address tbl va i; p = M a in
      if pte_invalid p then None
      else if pte_pointer p then sv_walk M ty sm sumf mxr va (pte_target p) i
      else if \<not> pte_grants ty sm sumf mxr p \<or> take_bit (12 + 9 * i) (pte_target p) \<noteq> 0 then None
      else Some (a, p, pte_target p OR take_bit (12 + 9 * i) va))"

text \<open>A virtual address has to be the sign extension of its low bits.\<close>

definition sv ::
  "nat \<Rightarrow> (u64 \<Rightarrow> u64) \<Rightarrow> u64 \<Rightarrow> MemoryAccessType \<Rightarrow> bool \<Rightarrow> bool \<Rightarrow> bool \<Rightarrow> u64 \<Rightarrow> (u64 \<times> u64 \<times> u64) option"
where
  "sv n M root ty sm sumf mxr va =
     (if signed_take_bit (11 + 9 * n) va = va then sv_walk M ty sm sumf mxr va (push_bit 12 root) n else None)"

text \<open>The entries a walk reads are in main memory and leave the reserved bits clear.\<close>

fun sv_tables :: "(u64 \<Rightarrow> u64) \<Rightarrow> u64 \<Rightarrow> u64 \<Rightarrow> nat \<Rightarrow> bool" where
  "sv_tables M va tbl 0 \<longleftrightarrow> True"
| "sv_tables M va tbl (Suc i) \<longleftrightarrow>
     (let a = pte_address tbl va i; p = M a in
      in_ram a 8 \<and> drop_bit 54 p = 0 \<and> (\<not> pte_invalid p \<and> pte_pointer p \<longrightarrow> sv_tables M va (pte_target p) i))"

section \<open>The walk\<close>

lemma pte_bits64:
  "pte_V p \<longleftrightarrow> bit p 0" "pte_R p \<longleftrightarrow> bit p 1" "pte_W p \<longleftrightarrow> bit p 2" "pte_X p \<longleftrightarrow> bit p 3" "pte_U p \<longleftrightarrow> bit p 4"
proof -
  have "p AND 2 ^ n \<noteq> (0 :: u64) \<longleftrightarrow> bit p n" for n
    by (simp add: and_exp_eq_0_iff_not_bit)
  from this [of 0] this [of 1] this [of 2] this [of 3] this [of 4]
  show "pte_V p \<longleftrightarrow> bit p 0" "pte_R p \<longleftrightarrow> bit p 1" "pte_W p \<longleftrightarrow> bit p 2" "pte_X p \<longleftrightarrow> bit p 3" "pte_U p \<longleftrightarrow> bit p 4"
    by (simp_all add: pte_V_def pte_R_def pte_W_def pte_X_def pte_U_def PTE_V_def PTE_R_def PTE_W_def
        PTE_X_def PTE_U_def)
qed

lemma leaf_allowed_grants64:
  "\<not> pte_invalid p \<Longrightarrow> leaf_allowed ty smode sumf mxr p \<longleftrightarrow> pte_grants ty smode sumf mxr p" for p :: u64
  by (cases ty) (auto simp: leaf_allowed_def pte_grants_def pte_bits64 pte_invalid_def)

definition rv64_ram_double :: "rv64_hart_soc \<Rightarrow> u64 \<Rightarrow> u64" where
  "rv64_ram_double s a = bytes_to_word (rv64_ram 8 a s)"

lemma rv64_load_pte_ram:
  assumes "in_ram a 8" "rv64_bus_free s" "rv64_tiny_map s"
  shows "\<exists>s'. rv64_mmu_load_pte64 (rv64_tiny_conn hs) a s = (Inr (rv64_ram_double s a), s') \<and> rv64_same_hart s s' \<and>
     rv64_host (rv64_mem_st s') = rv64_host (rv64_mem_st s) \<and> rv64_bus_lock (rv64_mem_st s') = rv64_bus_lock (rv64_mem_st s)"
  using rv64_raw_load_ram [OF assms, of hs] by (auto simp: rv64_mmu_load_pte64_def monad_simps rv64_ram_double_def)

lemma rv64_raise_page_fault_simp: "rv64_raise_page_fault va ty s = (Inl (page_fault ty va), s)"
  by (cases ty) (simp_all add: rv64_raise_page_fault_def page_fault_def monad_simps)

text \<open>The result of a walk that ended at the entry \<open>p\<close> at address \<open>a\<close> with the physical address \<open>pa\<close>.\<close>

definition rv64_walk_ends ::
  "MemoryAccessType \<Rightarrow> u64 \<Rightarrow> (u64 \<times> u64 \<times> u64) option \<Rightarrow> rv64_hart_soc \<Rightarrow> (exn + u64) \<times> rv64_hart_soc \<Rightarrow> bool"
where
  "rv64_walk_ends ty va r s x \<longleftrightarrow> rv64_same_hart s (snd x) \<and>
     (case r of
        None \<Rightarrow> fst x = Inl (page_fault ty va) \<and> rv64_host (rv64_mem_st (snd x)) = rv64_host (rv64_mem_st s)
      | Some (a, p, pa) \<Rightarrow>
          if p AND ad_bits ty = ad_bits ty
          then fst x = Inr pa \<and> rv64_host (rv64_mem_st (snd x)) = rv64_host (rv64_mem_st s)
          else if rv64_page_fault_on_AD (rv64_mem_st s)
          then fst x = Inl (page_fault ty va) \<and> rv64_host (rv64_mem_st (snd x)) = rv64_host (rv64_mem_st s)
          else fst x = Inr pa \<and>
               rv64_host (rv64_mem_st (snd x)) =
                 host_write (0, a) (word_to_bytes 4 (ucast (p OR ad_bits ty) :: u32)) (rv64_host (rv64_mem_st s)))"

lemma rv64_walk_ends_fault:
  "rv64_same_hart s s1 \<Longrightarrow> rv64_host (rv64_mem_st s1) = rv64_host (rv64_mem_st s) \<Longrightarrow>
   rv64_walk_ends ty va None s (rv64_raise_page_fault va ty s1)"
  by (simp add: rv64_walk_ends_def rv64_raise_page_fault_simp)

definition rv64_leaf_tail ::
  "soc rv64_cmi_conn \<Rightarrow> MemoryAccessType \<Rightarrow> u64 \<Rightarrow> u64 \<Rightarrow> u64 \<Rightarrow> u64 \<Rightarrow> (rv64_hart_soc, u64) M"
where
  "rv64_leaf_tail C ty va a p pa = bindM (getsM (\<lambda>s. rv64_page_fault_on_AD (rv64_mem_st s))) (\<lambda>pf.
     if p AND ad_bits ty \<noteq> ad_bits ty \<and> pf then rv64_raise_page_fault va ty
     else seqM (whenM (p AND ad_bits ty \<noteq> ad_bits ty) (rv64_mmu_store_pte32 C a (ucast (p OR ad_bits ty)))) (ret pa))"

lemma in_ram_prefix: "in_ram a 8 \<Longrightarrow> in_ram a 4"
  by (simp add: in_ram_def)

lemma rv64_leaf_end:
  assumes "in_ram a 8" "rv64_bus_free s1" "rv64_tiny_map s1" "rv64_same_hart s s1"
    "rv64_host (rv64_mem_st s1) = rv64_host (rv64_mem_st s)"
  shows "rv64_walk_ends ty va (Some (a, p, pa)) s (rv64_leaf_tail (rv64_tiny_conn hs) ty va a p pa s1)"
proof -
  obtain s' where "rv64_mmu_store_pte32 (rv64_tiny_conn hs) a (ucast (p OR ad_bits ty)) s1 = (Inr (), s')" "rv64_same_hart s1 s'"
      "rv64_host (rv64_mem_st s') =
        host_write (0, a) (word_to_bytes 4 (ucast (p OR ad_bits ty) :: u32)) (rv64_host (rv64_mem_st s1))"
    using rv64_raw_store_ram [of a "word_to_bytes 4 (ucast (p OR ad_bits ty) :: u32)" s1 hs] assms in_ram_prefix
    by (auto simp: rv64_mmu_store_pte32_def)
  then show ?thesis
    using assms(4,5) rv64_same_hart_fields(5) [OF assms(4)] rv64_same_hart_trans [OF assms(4)]
    by (auto simp: rv64_leaf_tail_def rv64_walk_ends_def monad_simps rv64_raise_page_fault_simp)
qed

lemma rv64_pte_addr:
  "tbl + ucast ((ucast (drop_bit (12 + i * 9) va AND (push_bit 9 1 - 1)) :: u32) * of_nat 8) = pte_address tbl va i"
proof -
  have "ucast ((ucast (take_bit 9 x) :: u32) * 8) = 8 * take_bit 9 x" for x :: u64
  proof (rule word_unat_eq_iff [THEN iffD2])
    have "unat (take_bit 9 x) < 2 ^ 9"
      using take_bit_nat_less_exp [of 9 "unat x"] by (simp add: unsigned_take_bit_eq)
    then show "unat (ucast ((ucast (take_bit 9 x) :: u32) * 8) :: u64) = unat (8 * take_bit 9 x)"
      by (simp add: unsigned_ucast_eq unat_word_ariths take_bit_nat_eq_self)
  qed
  moreover have "x AND (push_bit 9 1 - 1) = take_bit 9 x" for x :: u64
    by (simp add: take_bit_eq_mask mask_eq_exp_minus_1)
  ultimately show ?thesis
    unfolding pte_address_def by (simp only: of_nat_numeral mult.commute [of i 9])
qed

text \<open>One pass of the loop of the walk.\<close>

lemma rv64_walk_level_step:
  assumes "rv64_mmu_load_pte64 C a s1 = (Inr p, s2)" "ptesize vi = 8" "idxbits vi = 9" "a = pte_address tbl va i"
  shows "rv64_walk_level C vi va ty sm sumf mxr tbl (Suc i) s1 =
    (if pte_invalid p then rv64_raise_page_fault va ty s2
     else if pte_pointer p then rv64_walk_level C vi va ty sm sumf mxr (push_bit 12 (drop_bit 10 p)) i s2
     else if \<not> pte_grants ty sm sumf mxr p \<or> drop_bit 10 p AND (push_bit (i * 9) 1 - 1) \<noteq> 0
     then rv64_raise_page_fault va ty s2
     else rv64_leaf_tail C ty va a p (walk_paddr va (drop_bit 10 p) (i * 9)) s2)"
proof -
  have bad: "(\<not> pte_V p \<or> \<not> pte_R p \<and> pte_W p) = pte_invalid p" "(\<not> pte_R p \<and> \<not> pte_X p) = pte_pointer p"
    by (auto simp: pte_bits64 pte_invalid_def pte_pointer_def)
  have size: "((8 :: nat) = 4) = False"
    by simp
  have ad: "PTE_A OR (if ty = STORE then PTE_D else 0) = ad_bits ty"
    by (simp add: ad_bits_def)
  have "rv64_walk_level C vi va ty sm sumf mxr tbl (Suc i) s1 =
    (if \<not> pte_V p \<or> \<not> pte_R p \<and> pte_W p then rv64_raise_page_fault va ty
     else if \<not> pte_R p \<and> \<not> pte_X p then rv64_walk_level C vi va ty sm sumf mxr (push_bit 12 (drop_bit 10 p)) i
     else if \<not> leaf_allowed ty sm sumf mxr p then rv64_raise_page_fault va ty
     else if drop_bit 10 p AND (push_bit (i * 9) 1 - 1) \<noteq> 0 then rv64_raise_page_fault va ty
     else rv64_leaf_tail C ty va a p (walk_paddr va (drop_bit 10 p) (i * 9))) s2"
    unfolding rv64_walk_level.simps Let_def assms(2,3) rv64_pte_addr assms(4) [symmetric] ad rv64_leaf_tail_def
    by (simp only: monad_simps assms(1) prod.case sum.case simp_thms if_True if_False size)
  then show ?thesis
    unfolding bad using leaf_allowed_grants64 [of p ty sm sumf mxr] by (cases "pte_invalid p") simp_all
qed

section \<open>Page numbers\<close>

lemma clear_reserved: "drop_bit 54 p = 0 \<Longrightarrow> bit p k \<Longrightarrow> k < 54" for p :: u64
proof (rule ccontr)
  assume p: "drop_bit 54 p = 0" and k: "bit p k" "\<not> k < 54"
  have "bit (drop_bit 54 p) (k - 54)" using k by (simp add: bit_drop_bit_eq)
  then show False using p by simp
qed

lemma pte_target_bit: "drop_bit 54 p = 0 \<Longrightarrow> bit (pte_target p) k \<longleftrightarrow> 12 \<le> k \<and> bit p (k - 2)"
  using clear_reserved [of p "k - 2"] by (auto simp: pte_target_def bit_simps dest: bit_imp_le_length)

lemma next_table: "drop_bit 54 p = 0 \<Longrightarrow> push_bit 12 (drop_bit 10 p) = pte_target p"
  by (rule bit_eqI) (auto simp: pte_target_bit bit_simps dest: clear_reserved)

lemma superpage_aligned:
  assumes "drop_bit 54 p = 0"
  shows "drop_bit 10 p AND (push_bit (i * 9) 1 - 1) = 0 \<longleftrightarrow> take_bit (12 + 9 * i) (pte_target p) = 0"
proof -
  have m: "push_bit (i * 9) 1 - 1 = (mask (i * 9) :: u64)"
    by (simp add: mask_eq_exp_minus_1 push_bit_eq_mult)
  have len: "bit p (10 + k) \<Longrightarrow> k < 64" for k
    using bit_imp_le_length [of p "10 + k"] by simp
  have len': "bit (pte_target p) k \<Longrightarrow> k < 64" for k
    using bit_imp_le_length [of "pte_target p" k] by simp
  have L: "drop_bit 10 p AND mask (i * 9) = 0 \<longleftrightarrow> (\<forall>k < i * 9. \<not> bit p (10 + k))"
    by (auto simp: bit_eq_iff bit_simps dest: len)
  have R: "take_bit (12 + 9 * i) (pte_target p) = 0 \<longleftrightarrow> (\<forall>k < 12 + 9 * i. \<not> bit (pte_target p) k)"
    by (auto simp: bit_eq_iff bit_simps dest: len')
  have "(\<forall>k < i * 9. \<not> bit p (10 + k)) \<longleftrightarrow> (\<forall>k < 12 + 9 * i. \<not> (12 \<le> k \<and> bit p (k - 2)))"
  proof safe
    fix k assume "\<forall>k < i * 9. \<not> bit p (10 + k)" "k < 12 + 9 * i" "12 \<le> k" "bit p (k - 2)"
    then show False by (auto dest!: spec [of _ "k - 12"])
  next
    fix k assume "\<forall>k < 12 + 9 * i. \<not> (12 \<le> k \<and> bit p (k - 2))" "k < i * 9" "bit p (10 + k)"
    then show False by (auto dest!: spec [of _ "k + 12"])
  qed
  then show ?thesis
    unfolding m L R pte_target_bit [OF assms] .
qed

lemma superpage_address:
  assumes "drop_bit 54 p = 0" "take_bit (12 + 9 * i) (pte_target p) = 0"
  shows "walk_paddr va (drop_bit 10 p) (i * 9) = pte_target p OR take_bit (12 + 9 * i) va"
proof -
  have low: "\<not> bit (pte_target p) k" if "k < 12 + 9 * i" for k
    using assms(2) that by (metis bit_take_bit_iff bit_0_eq bot_apply bot_bool_def)
  have masks: "push_bit (i * 9) 1 - 1 = (mask (i * 9) :: u64)" "0xFFF = (mask 12 :: u64)"
    by (simp_all add: mask_eq_exp_minus_1 push_bit_eq_mult)
  have "walk_paddr va (drop_bit 10 p) (i * 9) =
      (push_bit 12 (drop_bit 10 p) AND NOT (push_bit 12 (mask (i * 9)))) OR take_bit (12 + 9 * i) va"
    unfolding walk_paddr_def Let_def masks by (rule bit_eqI) (auto simp: bit_simps mult.commute)
  moreover have "pte_target p AND NOT (push_bit 12 (mask (i * 9))) = pte_target p"
    using low by (intro bit_eqI) (auto simp: bit_simps mult.commute)
  ultimately show ?thesis
    by (simp add: next_table [OF assms(1)])
qed

section \<open>All levels\<close>

lemma rv64_bus_free_cong:
  "rv64_bus_lock (rv64_mem_st s') = rv64_bus_lock (rv64_mem_st s) \<Longrightarrow> rv64_hart s' = rv64_hart s \<Longrightarrow>
   rv64_bus_free s' = rv64_bus_free s"
  by (simp add: rv64_bus_free_def)

lemma rv64_walk_levels:
  assumes vi: "ptesize vi = 8" "idxbits vi = 9"
    and "sv_tables (rv64_ram_double s) va tbl i" "rv64_bus_free s1" "rv64_tiny_map s1" "rv64_same_hart s s1"
      "rv64_host (rv64_mem_st s1) = rv64_host (rv64_mem_st s)"
  shows "rv64_walk_ends ty va (sv_walk (rv64_ram_double s) ty sm sumf mxr va tbl i) s
    (rv64_walk_level (rv64_tiny_conn hs) vi va ty sm sumf mxr tbl i s1)"
  using assms(3-)
proof (induction i arbitrary: tbl s1)
  case 0
  then show ?case by (simp add: rv64_walk_ends_fault)
next
  case (Suc i)
  define a where "a = pte_address tbl va i"
  define p where "p = rv64_ram_double s a"
  have t: "in_ram a 8" "drop_bit 54 p = 0" "\<not> pte_invalid p \<Longrightarrow> pte_pointer p \<Longrightarrow> sv_tables (rv64_ram_double s) va (pte_target p) i"
    using Suc.prems(1) by (simp_all add: a_def p_def Let_def)
  have "rv64_ram_double s1 a = p"
    using Suc.prems(5) by (simp add: p_def rv64_ram_double_def rv64_ram_def)
  then obtain s2 where ld: "rv64_mmu_load_pte64 (rv64_tiny_conn hs) a s1 = (Inr p, s2)" "rv64_same_hart s1 s2"
      "rv64_host (rv64_mem_st s2) = rv64_host (rv64_mem_st s1)" "rv64_bus_lock (rv64_mem_st s2) = rv64_bus_lock (rv64_mem_st s1)"
    using rv64_load_pte_ram [OF t(1) Suc.prems(2,3)] by blast
  note fr = rv64_same_hart_frame [OF ld(2)]
  have ok: "rv64_bus_free s2" "rv64_tiny_map s2" "rv64_same_hart s s2" "rv64_host (rv64_mem_st s2) = rv64_host (rv64_mem_st s)"
    using Suc.prems ld fr rv64_same_hart_trans rv64_bus_free_cong [OF ld(4) fr(1)] by auto
  note step = rv64_walk_level_step [OF ld(1) vi a_def, of ty sm sumf mxr]
  show ?case
    unfolding step sv_walk.simps Let_def a_def [symmetric] p_def [symmetric]
    using Suc.IH [OF t(3) ok] rv64_leaf_end [OF t(1) ok, of ty va p] rv64_walk_ends_fault [OF ok(3,4)]
      superpage_aligned [OF t(2), of i] superpage_address [OF t(2), of i va] next_table [OF t(2)]
    by (simp del: rv64_walk_level.simps)
qed

lemma canonical_address:
  assumes "n \<in> {3, 4, 5}"
  shows "rv64_check_vaddr_extension va \<lparr>levels = n, idxbits = 9, ptesize = 8, ptbase = b\<rparr> \<longleftrightarrow> signed_take_bit (11 + 9 * n) va = va"
proof -
  define h where "h = 11 + 9 * n"
  have h: "h < 64" using assms by (auto simp: h_def)
  have m: "push_bit (64 - h) 1 - 1 = (mask (64 - h) :: u64)"
    by (simp add: mask_eq_exp_minus_1 push_bit_eq_mult)
  have d: "drop_bit h va AND mask (64 - h) = drop_bit h va"
    by (rule bit_eqI) (use bit_imp_le_length in \<open>fastforce simp: bit_simps\<close>)
  have len: "bit va (h + k) \<Longrightarrow> k < 64 - h" for k
    using bit_imp_le_length [of va "h + k"] by simp
  have zeros: "drop_bit h va = 0 \<longleftrightarrow> (\<forall>k < 64 - h. \<not> bit va (h + k))"
    by (auto simp: bit_eq_iff bit_simps dest: len)
  have ones: "drop_bit h va = mask (64 - h) \<longleftrightarrow> (\<forall>k < 64 - h. bit va (h + k))"
    by (auto simp: bit_eq_iff bit_simps dest: len)
  have "signed_take_bit h va = va \<longleftrightarrow> (\<forall>k < 64. bit va (min h k) = bit va k)"
    by (auto simp: bit_eq_iff bit_signed_take_bit_iff)
  moreover have "bit va (min h k) = bit va k" if "\<forall>k < 64 - h. bit va (h + k) = bit va h" "k < 64" for k
    using that spec [OF that(1), of "k - h"] by (cases "k < h") (auto simp: min_def)
  moreover have "bit va (h + k) = bit va h" if "\<forall>k < 64. bit va (min h k) = bit va k" "k < 64 - h" for k
    using spec [OF that(1), of "h + k"] that(2) h by (simp add: min_def split: if_splits)
  ultimately have sext: "signed_take_bit h va = va \<longleftrightarrow> (\<forall>k < 64 - h. bit va (h + k) = bit va h)"
    by blast
  have "(\<forall>k < 64 - h. \<not> bit va (h + k)) \<or> (\<forall>k < 64 - h. bit va (h + k)) \<longleftrightarrow>
      (\<forall>k < 64 - h. bit va (h + k) = bit va h)"
    using h by (cases "bit va h") (auto dest: spec [of _ 0])
  moreover have "9 * n + 12 - 1 = h"
    by (simp add: h_def)
  ultimately show ?thesis
    unfolding rv64_check_vaddr_extension_def Let_def vm_info.select_convs h_def [symmetric] sext
    by (simp only: m d zeros ones)
qed

text \<open>
  C10. The page-table walk of the RV64 hart implements Sv39, Sv48 and Sv57: on page tables in main memory whose reserved bits
  are clear it returns the physical address the scheme defines, for pages and superpages of every size, sets the accessed
  bit, and the dirty bit for a store, in the leaf entry and nowhere else, and raises the page fault of the access kind
  exactly when the scheme says so, in particular for an address that is not a sign extension.\<close>

theorem rv64_walk_implements_sv:
  assumes "unat (fget rv64_satp_mode (rv64_csrs s rv64_csr_satp)) = n + 5" "n \<in> {3, 4, 5}" "mode \<le> SupervisorMode"
    and "sv_tables (rv64_ram_double s) va (push_bit 12 (fget rv64_satp_ppn (rv64_csrs s rv64_csr_satp))) n"
    and "rv64_bus_free s" "rv64_tiny_map s"
  shows "rv64_walk_ends ty va
    (sv n (rv64_ram_double s) (fget rv64_satp_ppn (rv64_csrs s rv64_csr_satp)) ty (mode = SupervisorMode)
       (fget mstatus_sum (rv64_csrs s rv64_csr_mstatus) \<noteq> 0) (fget mstatus_mxr (rv64_csrs s rv64_csr_mstatus) \<noteq> 0) va) s
    (rv64_walk (rv64_tiny_conn hs) va ty mode s)"
proof -
  let ?vi = "\<lparr>levels = n, idxbits = 9, ptesize = 8, ptbase = push_bit 12 (fget rv64_satp_ppn (rv64_csrs s rv64_csr_satp))\<rparr>"
  have "rv64_decode_vm_info mode s = (Inr ?vi, s)"
    using assms(1-3) by (auto simp: rv64_decode_vm_info_def monad_simps Let_def)
  then show ?thesis
    using rv64_walk_levels [of ?vi s va "ptbase ?vi" n s] assms(4-6) canonical_address [OF assms(2), of va]
      rv64_walk_ends_fault [of s s ty va]
    by (auto simp: rv64_walk_def monad_simps sv_def rv64_same_hart_def simp del: rv64_walk_level.simps(2))
qed

text \<open>A page of 2 MiB: the second entry of the table at \<^verbatim>\<open>0x2000\<close>, to which the first entry of the root table at \<^verbatim>\<open>0x1000\<close>
  points, maps \<^verbatim>\<open>0x200000\<close> to \<^verbatim>\<open>0x600000\<close>.\<close>

definition sv39_hart :: rv64_hart_soc where
  "sv39_hart = rv64_csr_upd rv64_csr_satp 0x8000000000000001
     (rv64_mem_upd (\<lambda>m. m\<lparr>rv64_host := (\<lambda>_ a. if a = 0x1000 then 0x01 else if a = 0x1001 then 0x08 else
        if a = 0x2008 then 0xCF else if a = 0x200A then 0x18 else 0)\<rparr>)
       (rv64_tiny_init True True (\<lambda>_. 10000) 0))"

lemma sv39_hart_simps:
  "rv64_csrs sv39_hart rv64_csr_satp = 0x8000000000000001" "rv64_ram_double sv39_hart 0x1000 = 0x801"
  "rv64_ram_double sv39_hart 0x2008 = 0x1800CF" "rv64_bus_free sv39_hart" "rv64_tiny_map sv39_hart"
proof -
  have "rv64_ram 8 0x1000 sv39_hart = [0x01, 0x08, 0, 0, 0, 0, 0, 0]" "rv64_ram 8 0x2008 sv39_hart = [0xCF, 0, 0x18, 0, 0, 0, 0, 0]"
    by (simp_all add: rv64_ram_def host_read_def sv39_hart_def rv64_csr_upd_def upt_rec)
  moreover have "bytes_to_word [0x01, 0x08, 0, 0, 0, 0, 0, 0] = (0x801 :: u64)" "bytes_to_word [0xCF, 0, 0x18, 0, 0, 0, 0, 0] = (0x1800CF :: u64)"
    by code_simp+
  ultimately show "rv64_ram_double sv39_hart 0x1000 = 0x801" "rv64_ram_double sv39_hart 0x2008 = 0x1800CF"
    by (simp_all add: rv64_ram_double_def)
  show "rv64_bus_free sv39_hart" "rv64_tiny_map sv39_hart"
    using rv64_tiny_init_ready
    by (simp_all add: sv39_hart_def rv64_csr_upd_def rv64_bus_free_def rv64_tiny_map_def rv64_hart_def rv64_get_hart_id_def)
qed (simp add: sv39_hart_def rv64_csr_upd_def)

theorem rv64_walk_implements_sv_witness:
  "fst (rv64_walk (rv64_tiny_conn (\<lambda>_ _ _ _ _. ret 0)) 0x200123 STORE SupervisorMode sv39_hart) = Inr 0x600123"
proof -
  note simps = sv39_hart_simps fget_def
  have root: "fget rv64_satp_ppn (rv64_csrs sv39_hart rv64_csr_satp) = 1" "fget rv64_satp_mode (rv64_csrs sv39_hart rv64_csr_satp) = 8"
    by (simp_all add: simps)
  have addr: "pte_address 0x1000 0x200123 (Suc (Suc 0)) = 0x1000" "pte_address 0x2000 0x200123 (Suc 0) = 0x2008" "pte_target 0x801 = 0x2000"
    "pte_target 0x1800CF = 0x600000"
    by code_simp+
  have ptes: "\<not> pte_invalid (0x801 :: u64)" "pte_pointer (0x801 :: u64)" "\<not> pte_pointer (0x1800CF :: u64)" "\<not> pte_invalid (0x1800CF :: u64)"
    "pte_grants STORE True sumf mxr (0x1800CF :: u64)" for sumf mxr
    by (simp_all add: pte_pointer_def pte_invalid_def pte_grants_def)
  have tables: "sv_tables (rv64_ram_double sv39_hart) 0x200123 0x1000 3"
    by (simp add: numeral_3_eq_3 addr simps ptes Let_def in_ram_def tiny_mem_size_def)
  have walk: "sv 3 (rv64_ram_double sv39_hart) 1 STORE True sumf mxr 0x200123 = Some (0x2008, 0x1800CF, 0x600123)" for sumf mxr
    by (simp add: sv_def numeral_3_eq_3 addr simps ptes Let_def)
  show ?thesis
    using rv64_walk_implements_sv [of sv39_hart 3 SupervisorMode "0x200123" STORE "\<lambda>_ _ _ _ _. ret 0"]
      tables sv39_hart_simps(4,5)
    by (simp add: root walk rv64_walk_ends_def ad_bits_def PTE_A_def PTE_D_def)
qed

end
