(* ===== verification/RV64_VExt.thy ===== *)
theory RV64_VExt
  imports RV64_FP VP_VExt
begin

text \<open>
  The vector unit of RV64: class \<^verbatim>\<open>VExtension\<close> of \<^verbatim>\<open>vp/src/core/common/v.h\<close>, a template over the simulator, instantiated
  with the RV64 ISS. What does not depend on the simulator is that of \<^verbatim>\<open>VP_VExt\<close>.
\<close>

section \<open>Constants and formats\<close>

abbreviation (input) rv64_VS_DIRTY :: u64 where "rv64_VS_DIRTY \<equiv> 3"

abbreviation (input) rv64_vtype_vill :: bitfield where "rv64_vtype_vill \<equiv> (63, 1)"

definition rv64_vx_upd :: "(vext \<Rightarrow> vext) \<Rightarrow> 'd rv64_iss \<Rightarrow> 'd rv64_iss" where
  "rv64_vx_upd f s = s\<lparr>rv64_v_ext := f (rv64_v_ext s)\<rparr>"

section \<open>The register file\<close>

definition rv64_get_reg :: "nat \<Rightarrow> u64 \<Rightarrow> u64 \<Rightarrow> 'd rv64_iss \<Rightarrow> u64" where
  "rv64_get_reg n vec_idx elem_num s =
     bytes_to_word (take n (drop (vreg_off n vec_idx elem_num) (v_regs (rv64_v_ext s))))"

definition rv64_reg_write :: "nat \<Rightarrow> u64 \<Rightarrow> u64 \<Rightarrow> u64 \<Rightarrow> 'd rv64_iss \<Rightarrow> 'd rv64_iss" where
  "rv64_reg_write n vec_idx elem_num val =
     rv64_vx_upd (\<lambda>x. x\<lparr>v_regs := put_bytes (vreg_off n vec_idx elem_num) (word_to_bytes n val) (v_regs x)\<rparr>)"

section \<open>Scalar registers\<close>

definition rv64_iss_reg_read :: "u32 \<Rightarrow> 'd rv64_iss \<Rightarrow> u64" where
  "rv64_iss_reg_read addr s = rv64_reg addr s"

definition rv64_iss_reg_read_unsigned :: "u32 \<Rightarrow> 'd rv64_iss \<Rightarrow> u64" where
  "rv64_iss_reg_read_unsigned addr s = rv64_reg addr s"

definition rv64_iss_reg_write :: "u32 \<Rightarrow> u64 \<Rightarrow> 'd rv64_iss \<Rightarrow> 'd rv64_iss" where
  "rv64_iss_reg_write addr v s = (if addr = 0 then s else rv64_set_reg addr v s)"

definition rv64_v_assert :: "bool \<Rightarrow> ('d rv64_iss, unit) M" where
  "rv64_v_assert cond = (if \<not> cond then rv64_RAISE_ILLEGAL_INSTRUCTION else ret ())"

definition rv64_set_fp_rm :: "('d rv64_iss, unit) M" where
  "rv64_set_fp_rm = bindM (getsM (rv64_csr_fget rv64_csr_fcsr fcsr_frm)) (\<lambda>frm.
     seqM (rv64_v_assert (frm \<le> ucast FRM_RMM)) (modifyM (\<lambda>s. s\<lparr>rv64_softfloat_roundingMode := ucast frm\<rparr>)))"

definition rv64_fp_reg_read :: "u32 \<Rightarrow> u64 \<Rightarrow> ('d rv64_iss, u64) M" where
  "rv64_fp_reg_read addr sew =
     (if sew = 16 then getsM (\<lambda>s. ucast (rv64_f16 addr s))
      else if sew = 32 then getsM (\<lambda>s. ucast (rv64_f32 addr s))
      else if sew = 64 then getsM (rv64_f64 addr)
      else if sew = 0 then getsM (rv64_f64 addr)
      else seqM (rv64_v_assert False) (ret 0))"

definition rv64_fp_reg_write :: "u32 \<Rightarrow> u64 \<Rightarrow> u64 \<Rightarrow> ('d rv64_iss, unit) M" where
  "rv64_fp_reg_write addr v sew =
     (if sew = 16 then modifyM (rv64_fp_write16 addr (ucast v))
      else if sew = 32 then modifyM (rv64_fp_write32 addr (ucast v))
      else if sew = 64 then modifyM (rv64_fp_write64 addr v)
      else rv64_v_assert False)"

section \<open>Settings\<close>

definition rv64_getIntVSew :: "'d rv64_iss \<Rightarrow> u64" where
  "rv64_getIntVSew s = push_bit (unat (rv64_csr_fget rv64_csr_vtype vtype_vsew s) + 3) 1"

definition rv64_prepInstr :: "bool \<Rightarrow> bool \<Rightarrow> bool \<Rightarrow> ('d rv64_iss, unit) M" where
  "rv64_prepInstr require_not_off require_vill is_fp =
     seqM (whenM require_not_off rv64_requireNotOff)
     (seqM (modifyM (rv64_csr_fset rv64_csr_mstatus rv64_mstatus_sd 1))
     (seqM (modifyM (rv64_csr_fset rv64_csr_mstatus mstatus_vs rv64_VS_DIRTY))
     (seqM (whenM require_vill (bindM (getsM (rv64_csr_fget rv64_csr_vtype rv64_vtype_vill)) (\<lambda>vill. rv64_v_assert (vill \<noteq> 1))))
     (seqM (whenM is_fp (bindM (getsM rv64_getIntVSew) (\<lambda>sew.
        seqM (rv64_v_assert (sew \<ge> 32)) (seqM rv64_fp_prepare_instr rv64_set_fp_rm))))
     (modifyM (rv64_vx_upd (\<lambda>x. x\<lparr>vd_eew_overwrite := 0, o1_eew_overwrite := 0, o2_eew_overwrite := 0,
        require_no_overlap := False, require_vd_not_v0 := True, ignoreAlignment := False,
        ignoreOverlap := False, vd_is_mask := False, vs1_is_mask := False, vs2_is_mask := False,
        vd_is_scalar := False, vs1_is_scalar := False\<rparr>)))))))"

definition rv64_finishInstr :: "bool \<Rightarrow> ('d rv64_iss, unit) M" where
  "rv64_finishInstr is_fp = seqM (modifyM (rv64_csr_upd rv64_csr_vstart 0)) (whenM is_fp (modifyM rv64_fp_finish_instr))"

definition rv64_getVlmul :: "'d rv64_iss \<Rightarrow> rat" where
  "rv64_getVlmul s = lmul_of (ucast (rv64_csr_fget rv64_csr_vtype vtype_vlmul s))"

definition rv64_v_set_operation :: "u32 \<Rightarrow> u32 \<Rightarrow> u64 \<Rightarrow> u64 \<Rightarrow> 'd rv64_iss \<Rightarrow> 'd rv64_iss" where
  "rv64_v_set_operation xd xs1 vtype_new avl s =
     (let vlmul = BIT_RANGE vtype_new 2 0;
          intVSew = push_bit (unat (BIT_SLICE_u vtype_new 5 3) + 3) 1 :: u64;
          is_vsetivli = (bhigh (rv64_instr s) \<noteq> 0 \<and> bhigh2 (rv64_instr s) \<noteq> 0);
          lmul = lmul_of vlmul;
          vlmax = trunc_u64 (lmul * u_rat VLEN / u_rat intVSew);
          avl = (if \<not> is_vsetivli
                 then (if xs1 \<noteq> 0 then rv64_iss_reg_read xs1 s
                       else if xd \<noteq> 0 then - 1
                       else ucast (rv64_csrs s rv64_csr_vl))
                 else avl);
          s = rv64_csr_upd rv64_csr_vl (ucast (if avl \<le> vlmax then avl else vlmax)) s;
          s = rv64_csr_upd rv64_csr_vtype (ucast vtype_new) s;
          ill = (lmul * u_rat ELEN < u_rat SEW_MIN \<or> vtype_new AND NOT 0xFF \<noteq> 0 \<or>
                 intVSew > 64 \<or> vlmul = 4 \<or> u_rat intVSew / lmul > u_rat ELEN);
          s = rv64_csr_fset rv64_csr_vtype rv64_vtype_vill (rv64_csr_fget rv64_csr_vtype rv64_vtype_vill s OR of_bool ill) s;
          s = (if rv64_csr_fget rv64_csr_vtype rv64_vtype_vill s \<noteq> 0
               then rv64_csr_fset rv64_csr_vtype rv64_vtype_vill 1 (rv64_csr_upd rv64_csr_vtype 0 (rv64_csr_upd rv64_csr_vl 0 s))
               else s)
      in if \<not> is_vsetivli \<and> \<not> (xd = 0 \<and> xs1 = 0) \<or> is_vsetivli
         then rv64_iss_reg_write xd (ucast (rv64_csrs s rv64_csr_vl)) s else s)"

section \<open>Rounding and single bits\<close>

definition rv64_getRoundingIncrement :: "bool \<Rightarrow> u64 \<Rightarrow> u64 \<Rightarrow> 'd rv64_iss \<Rightarrow> u64" where
  "rv64_getRoundingIncrement sg v d s =
     (let vxrm = rv64_csrs s rv64_csr_vxrm;
          lsb = shr sg v d AND 1;
          lsb_half = (if d = 0 then 0 else shr sg v (d - 1) AND 1);
          lsb_mask = getMask d
      in if vxrm = 0 then lsb_half
         else if vxrm = 1 then lsb_half AND (of_bool (v AND drop_bit 1 lsb_mask \<noteq> 0) OR lsb)
         else if vxrm = 2 then 0
         else of_bool (lsb = 0) AND of_bool (v AND lsb_mask \<noteq> 0))"

definition rv64_vRound :: "bool \<Rightarrow> u64 \<Rightarrow> u64 \<Rightarrow> 'd rv64_iss \<Rightarrow> u64" where
  "rv64_vRound sg v d s =
     (let r = rv64_getRoundingIncrement sg v d s in if d = 64 then r else shr sg v d + r)"

section \<open>Operands\<close>

definition rv64_getSewSingleOperand :: "u64 \<Rightarrow> u64 \<Rightarrow> u64 \<Rightarrow> ('d rv64_iss, u64) M" where
  "rv64_getSewSingleOperand sew addr index =
     (if sew = 8 then getsM (rv64_get_reg 1 addr index)
      else if sew = 16 then getsM (rv64_get_reg 2 addr index)
      else if sew = 32 then getsM (rv64_get_reg 4 addr index)
      else if sew = 64 then getsM (rv64_get_reg 8 addr index)
      else seqM (rv64_v_assert False) (ret 0))"

definition rv64_getSignedEew :: "'d rv64_iss \<Rightarrow> eews" where
  "rv64_getSignedEew s =
     (let sew = rv64_getIntVSew s; x = rv64_v_ext s; b = elem_sel_bits (elem_sel x);
          o1_eew = (if o1_eew_overwrite x \<noteq> 0 then o1_eew_overwrite x else if bit b 3 then push_bit 1 sew else sew);
          o2_eew = (if o2_eew_overwrite x \<noteq> 0 then o2_eew_overwrite x else if bit b 4 then push_bit 1 sew else sew);
          vd_eew = (if vd_eew_overwrite x \<noteq> 0 then vd_eew_overwrite x else if bit b 5 then push_bit 1 sew else sew)
      in (vd_eew, bit b 2, o2_eew, bit b 1, o1_eew, bit b 0))"

definition rv64_getOperandsRed :: "u64 \<Rightarrow> u64 \<Rightarrow> ('d rv64_iss, u64 \<times> u64) M" where
  "rv64_getOperandsRed i_op1 i_op2 = bindM (getsM (\<lambda>s. (rv64_getSignedEew s, rv64_instr s, param_sel (rv64_v_ext s))))
     (\<lambda>((vd_eew, vd_signed, op2_eew, op2_signed, op1_eew, op1_signed), w, sel).
      bindM (rv64_getSewSingleOperand op2_eew (ucast (rs2 w)) i_op2) (\<lambda>op2.
      bindM (case sel of
          sel_vv \<Rightarrow> rv64_getSewSingleOperand op1_eew (ucast (rs1 w)) i_op1
        | sel_vi \<Rightarrow> ret (if op1_signed then signExtend (ucast (rs1 w)) 5 else ucast (rs1 w))
        | sel_vx \<Rightarrow> getsM (\<lambda>s. let op1 = rv64_iss_reg_read (rs1 w) s AND getMask op1_eew
                              in if op1_signed then signExtend op1 op1_eew else op1)
        | sel_vf \<Rightarrow> rv64_fp_reg_read (rs1 w) op1_eew
        | sel_v \<Rightarrow> seqM (rv64_v_assert False) (ret 0)) (\<lambda>op1.
      ret (op1, op2))))"

definition rv64_getOperands :: "u64 \<Rightarrow> ('d rv64_iss, u64 \<times> u64) M" where
  "rv64_getOperands i = rv64_getOperandsRed i i"

definition rv64_clampSigned :: "u64 \<Rightarrow> u64 \<Rightarrow> u64 \<Rightarrow> ('d rv64_iss, u64) M" where
  "rv64_clampSigned elem orig_elemWidth dest_elemWidth =
     (let elem_signed = signExtend elem orig_elemWidth in
      bindM (if dest_elemWidth = 8 then ret (0x7F, - 0x80)
             else if dest_elemWidth = 16 then ret (0x7FFF, - 0x8000)
             else if dest_elemWidth = 32 then ret (0x7FFFFFFF, - 0x80000000)
             else if dest_elemWidth = 64 then ret (0x7FFFFFFFFFFFFFFF, - 0x8000000000000000)
             else seqM (rv64_v_assert False) (ret (0, 0))) (\<lambda>(upper_bound, lower_bound).
      let clamped = (if elem_signed <s lower_bound then lower_bound
                     else if upper_bound <s elem_signed then upper_bound else elem_signed) in
      seqM (modifyM (\<lambda>s. rv64_csr_fset rv64_csr_vxsat vxsat_vxsat
              (rv64_csr_fget rv64_csr_vxsat vxsat_vxsat s OR of_bool (clamped \<noteq> elem_signed)) s))
        (ret clamped)))"

definition rv64_getOperandsAll :: "u64 \<Rightarrow> ('d rv64_iss, u64 \<times> u64 \<times> u64) M" where
  "rv64_getOperandsAll i = bindM (rv64_getOperands i) (\<lambda>(op1, op2).
     bindM (getsM (\<lambda>s. (fst (rv64_getSignedEew s), rd (rv64_instr s)))) (\<lambda>(vd_eew, d).
     bindM (rv64_getSewSingleOperand vd_eew (ucast d) i) (\<lambda>vd. ret (op1, op2, vd))))"

text \<open>
  After the write the source reads the register back for a trace it does not print; for a width above 64 the
  computation of the index for it divides by zero.
\<close>

definition rv64_writeSewSingleOperand :: "u64 \<Rightarrow> u64 \<Rightarrow> u64 \<Rightarrow> u64 \<Rightarrow> ('d rv64_iss, unit) M" where
  "rv64_writeSewSingleOperand sew addr index result =
     seqM (if sew = 8 then modifyM (rv64_reg_write 1 addr index result)
           else if sew = 16 then modifyM (rv64_reg_write 2 addr index result)
           else if sew = 32 then modifyM (rv64_reg_write 4 addr index result)
           else if sew = 64 then modifyM (rv64_reg_write 8 addr index result)
           else ret ())
       (if 64 div sew = 0 then raise RuntimeError else ret ())"

definition rv64_writeGeneric :: "u64 \<Rightarrow> u64 \<Rightarrow> ('d rv64_iss, unit) M" where
  "rv64_writeGeneric result i = bindM (getsM (\<lambda>s. (fst (rv64_getSignedEew s), rd (rv64_instr s)))) (\<lambda>(vd_eew, d).
     rv64_writeSewSingleOperand vd_eew (ucast d) i result)"

section \<open>Checks\<close>

text \<open>
  For the overlap of register groups a mask has elements of one bit. \<^verbatim>\<open>vs1\<close> is a vector operand only for
  \<open>sel_vv\<close>; otherwise its \<^verbatim>\<open>emul\<close> is 0.
\<close>

definition rv64_applyChecks :: "('d rv64_iss, unit) M" where
  "rv64_applyChecks = bindM (getsM (\<lambda>s. (rv64_getSignedEew s, rv64_getVlmul s, rv64_getIntVSew s, rv64_instr s, rv64_v_ext s)))
     (\<lambda>((vd_eew, vd_signed, vs2_eew, vs2_signed, vs1_eew, vs1_signed), lmul, sew, w, x).
      seqM (rv64_v_assert (vd_eew \<ge> 8 \<and> vd_eew \<le> 64 \<and> vs2_eew \<ge> 8 \<and> vs2_eew \<le> 64 \<and> vs1_eew \<ge> 8 \<and> vs1_eew \<le> 64))
      (seqM (whenM (require_vd_not_v0 x \<and> vm w = 0) (rv64_v_assert (rd w \<noteq> 0)))
      (let vd_eew = (if vd_is_mask x then 1 else vd_eew);
           vs1_eew = (if vs1_is_mask x then 1 else vs1_eew);
           vs2_eew = (if vs2_is_mask x then 1 else vs2_eew);
           vv = (param_sel x = sel_vv);
           vd = ucast (rd w) :: u64; vs2 = ucast (rs2 w) :: u64; vs1 = ucast (rs1 w) :: u64;
           vd_emul = lmul * u_rat vd_eew / u_rat sew;
           vs2_emul = lmul * u_rat vs2_eew / u_rat sew;
           vs1_emul = (if vv then lmul * u_rat vs1_eew / u_rat sew else 0)
       in seqM (whenM (\<not> vd_is_scalar x) (rv64_v_assert (vd_emul \<le> 8)))
         (seqM (rv64_v_assert (vs2_emul \<le> 8))
         (seqM (whenM (\<not> vs1_is_scalar x) (rv64_v_assert (vs1_emul \<le> 8)))
         (seqM (whenM (\<not> ignoreOverlap x)
            (seqM (whenM vv (rv64_v_assert (vreg_overlap_valid vd vd_emul vd_eew vs1 vs1_emul vs1_eew (require_no_overlap x))))
               (rv64_v_assert (vreg_overlap_valid vd vd_emul vd_eew vs2 vs2_emul vs2_eew (require_no_overlap x)))))
         (whenM (\<not> ignoreAlignment x)
            (seqM (whenM (\<not> vd_is_mask x \<and> \<not> vd_is_scalar x) (rv64_v_assert (v_is_aligned vd (trunc_u64 vd_emul))))
            (seqM (whenM (\<not> vs2_is_mask x) (rv64_v_assert (v_is_aligned vs2 (trunc_u64 vs2_emul))))
               (whenM (vv \<and> \<not> vs1_is_mask x \<and> \<not> vs1_is_scalar x)
                  (rv64_v_assert (v_is_aligned vs1 (trunc_u64 vs1_emul)))))))))))))"

section \<open>Masks\<close>

text \<open>Bit \<open>i\<close> of mask register \<open>addr\<close>.\<close>

definition rv64_mask_elem :: "u64 \<Rightarrow> u64 \<Rightarrow> ('d rv64_iss, u64) M" where
  "rv64_mask_elem addr i = (let (reg_idx, reg_pos) = getCarryElements i in
     bindM (rv64_getSewSingleOperand 64 addr reg_idx) (\<lambda>v. ret (drop_bit (unat reg_pos) v AND 1)))"

definition rv64_vInactiveHandling :: "u64 \<Rightarrow> u64 \<Rightarrow> ('d rv64_iss, bool) M" where
  "rv64_vInactiveHandling i evl = bindM (getsM (\<lambda>s. (ucast (rv64_csrs s rv64_csr_vstart) :: u64, vm (rv64_instr s)))) (\<lambda>(vstart, masked).
     if i < vstart then ret True
     else if i \<ge> evl then ret True
     else if masked = 0 then bindM (rv64_mask_elem 0 i) (\<lambda>m. ret (m = 0))
     else ret False)"

definition rv64_vCarry :: "u64 \<Rightarrow> ('d rv64_iss, u64) M" where
  "rv64_vCarry index = bindM (rv64_mask_elem 0 index) (\<lambda>carry. getsM (\<lambda>s. if vm (rv64_instr s) = 1 then 0 else carry))"

text \<open>Read the mask word of bit \<open>i\<close> of register \<open>rd\<close>, set the bit to \<open>f\<close>, write it back.\<close>

definition rv64_write_mask_bit :: "u64 \<Rightarrow> u64 \<Rightarrow> ('d rv64_iss, unit) M" where
  "rv64_write_mask_bit i f = (let (reg_idx, reg_pos) = getCarryElements i in
     bindM (getsM (\<lambda>s. ucast (rd (rv64_instr s)))) (\<lambda>d.
     bindM (rv64_getSewSingleOperand 64 d reg_idx) (\<lambda>vd.
     rv64_writeSewSingleOperand ELEN d reg_idx (setSingleBitUnmasked vd f reg_pos))))"

section \<open>Loads and stores\<close>

definition rv64_getShiftWidth :: "load_store_type_t \<Rightarrow> u64 \<Rightarrow> u64 \<Rightarrow> u64 \<Rightarrow> ('d rv64_iss, u64) M" where
  "rv64_getShiftWidth ldstType numBits i field =
     bindM (getsM (\<lambda>s. (rv64_instr s, rv64_getIntVSew s))) (\<lambda>(w, sew).
     let numBytes = drop_bit 3 numBits in
     case ldstType of
       ls_masked \<Rightarrow> ret i
     | ls_standard_reg \<Rightarrow> getsM (\<lambda>s. i * rv64_iss_reg_read (rs2 w) s + field * numBytes)
     | ls_indexed \<Rightarrow> bindM (rv64_getSewSingleOperand numBits (ucast (rs2 w)) i) (\<lambda>x. ret (x + field * drop_bit 3 sew))
     | _ \<Rightarrow> ret ((i * (ucast (nf w) + 1) + field) * numBytes))"

definition rv64_vLoadReqs :: "load_store_type_t \<Rightarrow> u64 \<Rightarrow> ('d rv64_iss, u64 \<times> u64) M" where
  "rv64_vLoadReqs ldstType eew = bindM (getsM (\<lambda>s. (rv64_instr s, rv64_getVlmul s, rv64_getIntVSew s, ucast (rv64_csrs s rv64_csr_vl) :: u64)))
     (\<lambda>(w, lmul, sew, vl).
      let nfields = ucast (nf w) + 1 :: u64 in
      bindM (if ldstType \<noteq> ls_whole \<and> ldstType \<noteq> ls_masked
             then (let emul = u_rat eew / u_rat sew * lmul;
                       effective_mul_idx =
                         (if ldstType = ls_indexed then (if lmul < 1 then 1 else trunc_u64 lmul)
                          else (if emul < 1 then 1 else trunc_u64 emul))
                   in seqM (rv64_v_assert (emul \<ge> 1 / 8 \<and> emul \<le> 8))
                      (seqM (rv64_v_assert (effective_mul_idx * nfields \<le> 8))
                      (seqM (rv64_v_assert (ucast (rd w) + nfields * effective_mul_idx \<le> 32))
                        (ret effective_mul_idx))))
             else ret 1) (\<lambda>effective_mul_idx.
      ret (effective_mul_idx,
           if ldstType = ls_masked then of_int \<lceil>u_rat vl / 8\<rceil>
           else if ldstType = ls_whole then VLEN div eew
           else vl)))"

definition rv64_v_mem_load :: "'d rv64_iss_env \<Rightarrow> u64 \<Rightarrow> u64 \<Rightarrow> ('d rv64_iss, u64) M" where
  "rv64_v_mem_load E switchElem addr =
     (if switchElem = 8 then bindM (rv64_load_byte (rv64_mem E) addr) (\<lambda>v. ret (scast v))
      else if switchElem = 16 then bindM (rv64_load_half (rv64_mem E) addr) (\<lambda>v. ret (scast v))
      else if switchElem = 32 then bindM (rv64_load_word (rv64_mem E) addr) (\<lambda>v. ret (scast v))
      else if switchElem = 64 then rv64_load_double (rv64_mem E) addr
      else ret 0)"

definition rv64_v_mem_store :: "'d rv64_iss_env \<Rightarrow> u64 \<Rightarrow> u64 \<Rightarrow> u64 \<Rightarrow> ('d rv64_iss, unit) M" where
  "rv64_v_mem_store E switchElem addr v =
     (if switchElem = 8 then rv64_store_byte (rv64_mem E) addr (ucast v)
      else if switchElem = 16 then rv64_store_half (rv64_mem E) addr (ucast v)
      else if switchElem = 32 then rv64_store_word (rv64_mem E) addr (ucast v)
      else if switchElem = 64 then rv64_store_double (rv64_mem E) addr v
      else ret ())"

text \<open>One field of one element; \<open>True\<close> ends the loops.\<close>

definition rv64_v_field ::
  "'d rv64_iss_env \<Rightarrow> load_store_t \<Rightarrow> u64 \<Rightarrow> load_store_type_t \<Rightarrow> u64 \<Rightarrow> u64 \<Rightarrow> u64 \<Rightarrow> u64 \<Rightarrow> ('d rv64_iss, bool) M"
where
  "rv64_v_field E ldst numBits ldstType switchElem effective_mul_idx i field =
     bindM (getsM (\<lambda>s. (rv64_instr s, rv64_iss_reg_read_unsigned (rs1 (rv64_instr s)) s))) (\<lambda>(w, base).
     bindM (rv64_getShiftWidth ldstType numBits i field) (\<lambda>off.
     let addr = base + off;
         (vec_idx, elem_num) = vIndices w i ldstType field switchElem effective_mul_idx
     in if ldst = v_load
        then bindM (rv64_v_mem_load E switchElem addr) (\<lambda>v.
          if ldstType = ls_fofl
          then catch_trap (seqM (rv64_writeSewSingleOperand switchElem vec_idx elem_num v) (ret False))
                 (\<lambda>r mtval. if i = 0 then raise (SimulationTrap r mtval)
                            else seqM (modifyM (rv64_csr_upd rv64_csr_vl (ucast i))) (ret True))
          else seqM (rv64_writeSewSingleOperand switchElem vec_idx elem_num v) (ret False))
        else bindM (rv64_getSewSingleOperand switchElem vec_idx elem_num) (\<lambda>v.
          seqM (rv64_v_mem_store E switchElem addr v) (ret False))))"

text \<open>The checks of \<^verbatim>\<open>vLoadStore\<close> before its loop.\<close>

definition rv64_v_ldst_checks :: "load_store_t \<Rightarrow> u64 \<Rightarrow> load_store_type_t \<Rightarrow> ('d rv64_iss, unit) M" where
  "rv64_v_ldst_checks ldst numBits ldstType =
     bindM (getsM (\<lambda>s. (rv64_instr s, rv64_getVlmul s, rv64_getIntVSew s))) (\<lambda>(w, lmul, sew).
     seqM (whenM (ldst = v_load \<and> vm w = 0) (rv64_v_assert (rd w \<noteq> 0)))
     (let vd = ucast (rd w) :: u64 in
      if ldstType = ls_indexed
      then (let vs2 = ucast (rs2 w) :: u64; vs2_emul = lmul * u_rat numBits / u_rat sew in
            seqM (rv64_v_assert (v_is_aligned vd (trunc_u64 lmul)))
            (seqM (rv64_v_assert (v_is_aligned vs2 (trunc_u64 vs2_emul)))
               (whenM (ldst = v_load)
                  (rv64_v_assert (\<forall>field \<in> set [0..<unat (nf w) + 1].
                     vreg_overlap_valid (vd + of_nat field * of_int \<lceil>lmul\<rceil>) lmul sew vs2 vs2_emul numBits
                       (nf w > 0))))))
      else if ldstType = ls_masked then ret ()
      else (let (lmul, sew) = (if ldstType = ls_whole then (u_rat (ucast (nf w) + 1), numBits) else (lmul, sew))
            in rv64_v_assert (v_is_aligned vd (trunc_u64 (lmul * u_rat numBits / u_rat sew))))))"

definition rv64_vLoadStore :: "'d rv64_iss_env \<Rightarrow> load_store_t \<Rightarrow> u64 \<Rightarrow> load_store_type_t \<Rightarrow> ('d rv64_iss, unit) M" where
  "rv64_vLoadStore E ldst numBits ldstType =
     bindM (rv64_vLoadReqs ldstType numBits) (\<lambda>(effective_mul_idx, evl).
     bindM (getsM (\<lambda>s. (if ldstType = ls_indexed then rv64_getIntVSew s else numBits, unat (nf (rv64_instr s)) + 1)))
       (\<lambda>(switchElem, nfields).
     seqM (rv64_v_ldst_checks ldst numBits ldstType)
     (bindM (loop_break [0..<unat evl] (\<lambda>i.
        bindM (rv64_vInactiveHandling i evl) (\<lambda>is_inactive.
        if is_inactive then ret False
        else seqM (modifyM (rv64_csr_upd rv64_csr_vstart (ucast i)))
               (loop_break [0..<nfields] (rv64_v_field E ldst numBits ldstType switchElem effective_mul_idx i)))))
      (\<lambda>_. ret ()))))"

section \<open>Loops over the elements\<close>

text \<open>No body changes \<^verbatim>\<open>vl\<close>, which the source reads again for every element.\<close>

definition rv64_genericVLoop ::
  "(u64 \<Rightarrow> 'a \<Rightarrow> ('d rv64_iss, 'a) M) \<Rightarrow> elem_sel_t \<Rightarrow> param_sel_t \<Rightarrow> bool \<Rightarrow> 'a \<Rightarrow> ('d rv64_iss, 'a) M"
where
  "rv64_genericVLoop f elem param ignore_inactive acc =
     seqM (modifyM (rv64_vx_upd (\<lambda>x. x\<lparr>elem_sel := elem, param_sel := param\<rparr>)))
     (seqM rv64_applyChecks
     (bindM (getsM (\<lambda>s. ucast (rv64_csrs s rv64_csr_vl) :: u64)) (\<lambda>vl.
      bindM (loop_acc [0..<unat vl] (\<lambda>i a.
         bindM (if ignore_inactive then ret False else rv64_vInactiveHandling i vl) (\<lambda>is_inactive.
         if is_inactive then ret a else f i a)) acc) (\<lambda>a.
      seqM (modifyM (rv64_csr_upd rv64_csr_vstart 0)) (ret a)))))"

definition rv64_vLoop ::
  "(u64 \<Rightarrow> u64 \<Rightarrow> ('d rv64_iss, u64) M) \<Rightarrow> elem_sel_t \<Rightarrow> param_sel_t \<Rightarrow> ('d rv64_iss, unit) M"
where
  "rv64_vLoop func elem param = rv64_genericVLoop (\<lambda>i _. bindM (rv64_getOperands i) (\<lambda>(op1, op2).
     bindM (func op2 op1) (\<lambda>r. rv64_writeGeneric r i))) elem param False ()"

definition rv64_vLoopVdExt ::
  "(u64 \<Rightarrow> u64 \<Rightarrow> u64 \<Rightarrow> u64 \<Rightarrow> ('d rv64_iss, u64) M) \<Rightarrow> elem_sel_t \<Rightarrow> param_sel_t \<Rightarrow> ('d rv64_iss, unit) M"
where
  "rv64_vLoopVdExt func elem param = rv64_genericVLoop (\<lambda>i _. bindM (rv64_getOperandsAll i) (\<lambda>(op1, op2, vd).
     bindM (func op2 op1 vd i) (\<lambda>r. rv64_writeGeneric r i))) elem param False ()"

definition rv64_vLoopVdExtVoid ::
  "(u64 \<Rightarrow> u64 \<Rightarrow> u64 \<Rightarrow> u64 \<Rightarrow> ('d rv64_iss, unit) M) \<Rightarrow> elem_sel_t \<Rightarrow> param_sel_t \<Rightarrow> ('d rv64_iss, unit) M"
where
  "rv64_vLoopVdExtVoid func elem param =
     seqM (modifyM (rv64_vx_upd (\<lambda>x. x\<lparr>require_vd_not_v0 := False, vd_is_mask := True\<rparr>)))
       (rv64_genericVLoop (\<lambda>i _. bindM (rv64_getOperandsAll i) (\<lambda>(op1, op2, vd). func op2 op1 vd i)) elem param False ())"

definition rv64_vLoopVoid :: "(u64 \<Rightarrow> ('d rv64_iss, unit) M) \<Rightarrow> param_sel_t \<Rightarrow> ('d rv64_iss, unit) M" where
  "rv64_vLoopVoid func param = rv64_genericVLoop (\<lambda>i _. func i) xxxsss param False ()"

definition rv64_vLoopVoidNoOverlap :: "(u64 \<Rightarrow> ('d rv64_iss, unit) M) \<Rightarrow> param_sel_t \<Rightarrow> ('d rv64_iss, unit) M" where
  "rv64_vLoopVoidNoOverlap func param =
     seqM (modifyM (rv64_vx_upd (\<lambda>x. x\<lparr>require_no_overlap := True\<rparr>))) (rv64_vLoopVoid func param)"

definition rv64_vLoopVoidAllMask :: "(u64 \<Rightarrow> ('d rv64_iss, unit) M) \<Rightarrow> ('d rv64_iss, unit) M" where
  "rv64_vLoopVoidAllMask func =
     seqM (modifyM (rv64_vx_upd (\<lambda>x. x\<lparr>vd_is_mask := True, vs1_is_mask := True, vs2_is_mask := True\<rparr>)))
       (rv64_genericVLoop (\<lambda>i _. func i) xxxuuu sel_vv True ())"

definition rv64_vLoopVoidAll :: "(u64 \<Rightarrow> ('d rv64_iss, unit) M) \<Rightarrow> elem_sel_t \<Rightarrow> param_sel_t \<Rightarrow> ('d rv64_iss, unit) M" where
  "rv64_vLoopVoidAll func elem param =
     seqM (modifyM (rv64_vx_upd (\<lambda>x. x\<lparr>require_vd_not_v0 := False, vd_is_mask := True\<rparr>)))
       (rv64_genericVLoop (\<lambda>i _. func i) elem param True ())"

definition rv64_vLoopExt ::
  "(u64 \<Rightarrow> u64 \<Rightarrow> u64 \<Rightarrow> ('d rv64_iss, u64) M) \<Rightarrow> elem_sel_t \<Rightarrow> param_sel_t \<Rightarrow> ('d rv64_iss, unit) M"
where
  "rv64_vLoopExt func elem param =
     seqM (modifyM (rv64_vx_upd (\<lambda>x. x\<lparr>require_no_overlap := True\<rparr>)))
       (rv64_genericVLoop (\<lambda>i _. bindM (rv64_getOperands i) (\<lambda>(op1, op2).
          bindM (func op2 op1 i) (\<lambda>r. rv64_writeGeneric r i))) elem param False ())"

definition rv64_vLoopExtCarry ::
  "(u64 \<Rightarrow> u64 \<Rightarrow> u64 \<Rightarrow> ('d rv64_iss, u64) M) \<Rightarrow> elem_sel_t \<Rightarrow> param_sel_t \<Rightarrow> ('d rv64_iss, unit) M"
where
  "rv64_vLoopExtCarry func elem param = rv64_genericVLoop (\<lambda>i _. bindM (rv64_getOperands i) (\<lambda>(op1, op2).
     bindM (func op2 op1 i) (\<lambda>r. rv64_writeGeneric r i))) elem param True ()"

text \<open>
  Reductions: \<open>func\<close> maps the old to the new \<^verbatim>\<open>res\<close>; the accumulator is \<^verbatim>\<open>res\<close> and \<^verbatim>\<open>added_first\<close>.
\<close>

definition rv64_vLoopRed ::
  "(u64 \<Rightarrow> u64 \<Rightarrow> u64 \<Rightarrow> u64 \<Rightarrow> ('d rv64_iss, u64) M) \<Rightarrow> elem_sel_t \<Rightarrow> param_sel_t \<Rightarrow> ('d rv64_iss, unit) M"
where
  "rv64_vLoopRed func elem param =
     seqM (modifyM (rv64_vx_upd (\<lambda>x. x\<lparr>require_vd_not_v0 := False, ignoreOverlap := True, vd_is_scalar := True,
                                 vs1_is_scalar := True\<rparr>)))
     (bindM (rv64_genericVLoop (\<lambda>i (res, added_first).
        bindM (getsM rv64_getSignedEew) (\<lambda>(vd_eew, vd_signed, op2_eew, op2_signed, op1_eew, op1_signed).
        bindM (rv64_getOperandsRed 0 i) (\<lambda>(op1, op2).
        let res = (if \<not> added_first then (if op1_signed then signExtend op1 op1_eew else op1) else res) in
        bindM (func op2 op1 i res) (\<lambda>res. ret (res, True))))) elem param False (0, False))
      (\<lambda>(res, added_first). bindM (getsM (\<lambda>s. rv64_csrs s rv64_csr_vl)) (\<lambda>vl.
        whenM (vl > 0)
          (bindM (if \<not> added_first then bindM (rv64_getOperandsRed 0 0) (\<lambda>(op1, op2). ret op1) else ret res)
             (\<lambda>res. rv64_writeGeneric res 0)))))"

end
