(* ===== verification/RV64_VOps.thy ===== *)
theory RV64_VOps
  imports RV64_VExt VP_VOps
begin

text \<open>
  The integer, fixed-point, mask and permute operations of the vector unit, for the RV64 ISS.
\<close>

type_synonym 'd rv64_op2 = "u64 \<Rightarrow> u64 \<Rightarrow> ('d rv64_iss, u64) M"
type_synonym 'd rv64_op3 = "u64 \<Rightarrow> u64 \<Rightarrow> u64 \<Rightarrow> ('d rv64_iss, u64) M"
type_synonym 'd rv64_op4 = "u64 \<Rightarrow> u64 \<Rightarrow> u64 \<Rightarrow> u64 \<Rightarrow> ('d rv64_iss, u64) M"

text \<open>A lambda that begins by reading the widths and signs.\<close>

definition rv64_with_eew :: "(eews \<Rightarrow> ('d rv64_iss, 'a) M) \<Rightarrow> ('d rv64_iss, 'a) M" where
  "rv64_with_eew f = bindM (getsM rv64_getSignedEew) f"

definition rv64_set_vxsat :: "bool \<Rightarrow> ('d rv64_iss, unit) M" where
  "rv64_set_vxsat b = modifyM (\<lambda>s. rv64_csr_fset rv64_csr_vxsat vxsat_vxsat (rv64_csr_fget rv64_csr_vxsat vxsat_vxsat s OR of_bool b) s)"

section \<open>Integer arithmetic\<close>

definition rv64_vAdd :: "'d rv64_op2" where
  "rv64_vAdd op2 op1 = rv64_with_eew (\<lambda>(vd_eew, vd_signed, op2_eew, op2_signed, op1_eew, op1_signed).
     ret (if vd_signed then signExtend op2 op2_eew + signExtend op1 op1_eew else op2 + op1))"

definition rv64_vSub :: "'d rv64_op2" where
  "rv64_vSub op2 op1 = rv64_with_eew (\<lambda>(vd_eew, vd_signed, op2_eew, op2_signed, op1_eew, op1_signed).
     ret (if vd_signed then signExtend op2 op2_eew - signExtend op1 op1_eew else op2 - op1))"

definition rv64_vRSub :: "'d rv64_op2" where "rv64_vRSub op2 op1 = ret (op1 - op2)"
definition rv64_vAnd :: "'d rv64_op2" where "rv64_vAnd op2 op1 = ret (op2 AND op1)"
definition rv64_vOr :: "'d rv64_op2" where "rv64_vOr op2 op1 = ret (op2 OR op1)"
definition rv64_vXor :: "'d rv64_op2" where "rv64_vXor op2 op1 = ret (op2 XOR op1)"

definition rv64_shift_mask :: "u64 \<Rightarrow> u64 \<Rightarrow> 'd rv64_iss \<Rightarrow> u64" where
  "rv64_shift_mask op2_eew vd_eew s = getMask (ucast (rv64_csr_fget rv64_csr_vtype vtype_vsew s) + 2 + op2_eew div vd_eew)"

definition rv64_vShift :: "bool \<Rightarrow> 'd rv64_op2" where
  "rv64_vShift right op2 op1 = rv64_with_eew (\<lambda>(vd_eew, vd_signed, op2_eew, op2_signed, op1_eew, op1_signed).
     getsM (\<lambda>s. let shift_step = op1 AND rv64_shift_mask op2_eew vd_eew s in
       if right then (if vd_signed then shr True (signExtend op2 op2_eew) shift_step
                      else shr False op2 shift_step)
       else push_bit (unat shift_step) op2))"

definition rv64_vMin :: "'d rv64_op2" where
  "rv64_vMin op2 op1 = rv64_with_eew (\<lambda>(vd_eew, vd_signed, op2_eew, op2_signed, op1_eew, op1_signed).
     ret (if (if op2_signed then signExtend op2 op2_eew <s signExtend op1 op1_eew else op2 < op1)
          then op2 else op1))"

definition rv64_vMax :: "'d rv64_op2" where
  "rv64_vMax op2 op1 = rv64_with_eew (\<lambda>(vd_eew, vd_signed, op2_eew, op2_signed, op1_eew, op1_signed).
     ret (if (if op2_signed then signExtend op1 op1_eew <s signExtend op2 op2_eew else op1 < op2)
          then op2 else op1))"

text \<open>
  The 128-bit product in four 32-bit parts, shifted: \<^verbatim>\<open>(upper, lower)\<close>. \<open>sg2\<close> and \<open>sg1\<close> say whether the types of the
  operands are signed. The source shifts by 64 only where the result is not used or the operand is 0.
\<close>

definition rv64_multiply :: "bool \<Rightarrow> bool \<Rightarrow> u64 \<Rightarrow> u64 \<Rightarrow> u64 \<Rightarrow> bool \<Rightarrow> 'd rv64_iss \<Rightarrow> u64 \<times> u64" where
  "rv64_multiply sg2 sg1 op2 op1 shift rnd s =
     (let aHigh = shr sg2 op2 32;
          aLow = op2 AND 0xFFFFFFFF;
          bHigh = shr sg1 op1 32;
          bLow = op1 AND 0xFFFFFFFF;
          t0 = aLow * bLow;
          t1 = aLow * bHigh;
          t2 = aHigh * bLow;
          t3 = aHigh * bHigh;
          carry = drop_bit 32 t0 + (t1 AND 0xFFFFFFFF) + (t2 AND 0xFFFFFFFF);
          carry_other =
            (if sg2 \<and> sg1
             then shr True (signExtend t1 64) 32 + shr True (signExtend t2 64) 32 + shr True (signExtend carry 64) 32
             else if sg2 \<and> \<not> sg1
             then drop_bit 32 t1 + shr True (signExtend t2 64) 32 + shr True (signExtend carry 64) 32
             else drop_bit 32 t1 + drop_bit 32 t2 + drop_bit 32 carry);
          upper = t3 + carry_other;
          lower = push_bit 32 carry OR (t0 AND 0xFFFFFFFF);
          shiftOut = push_bit (unat (64 - shift)) (upper AND getMask shift);
          lower_part = (if shift = 64 then 0 else shr False lower shift);
          res = lower_part OR shiftOut
      in (shr False upper shift, if rnd then res + rv64_getRoundingIncrement False lower shift s else res))"

definition rv64_vMul :: "'d rv64_op2" where
  "rv64_vMul op2 op1 = rv64_with_eew (\<lambda>(vd_eew, vd_signed, op2_eew, op2_signed, op1_eew, op1_signed). getsM (\<lambda>s.
     snd (if op2_signed \<and> op1_signed
          then rv64_multiply True True (signExtend op2 op2_eew) (signExtend op1 op1_eew) 0 False s
          else if op2_signed \<and> \<not> op1_signed then rv64_multiply True False (signExtend op2 op2_eew) op1 0 False s
          else if \<not> op2_signed \<and> op1_signed then rv64_multiply True False (signExtend op1 op1_eew) op2 0 False s
          else rv64_multiply False False op1 op2 0 False s)))"

definition rv64_vMv :: "'d rv64_op2" where "rv64_vMv op2 op1 = ret op1"

definition rv64_vDiv :: "'d rv64_op2" where
  "rv64_vDiv op2 op1 = rv64_with_eew (\<lambda>(vd_eew, vd_signed, op2_eew, op2_signed, op1_eew, op1_signed). getsM (\<lambda>s.
     if \<not> vd_signed then (if op1 = 0 then - 1 else op2 div op1)
     else (let a = signExtend op1 op1_eew; b = signExtend op2 op2_eew in
           if a = 0 then - 1
           else if b = shr True INT64_MIN (64 - rv64_getIntVSew s) \<and> a = - 1 then b
           else quot_s b a)))"

text \<open>
  The remainder of the smallest 64-bit integer by \<open>- 1\<close> is undefined in C++; the division instruction of the host
  faults.
\<close>

definition rv64_vRem :: "'d rv64_op2" where
  "rv64_vRem op2 op1 = rv64_with_eew (\<lambda>(vd_eew, vd_signed, op2_eew, op2_signed, op1_eew, op1_signed).
     if \<not> vd_signed then ret (if op1 = 0 then op2 else op2 mod op1)
     else (let a = signExtend op1 op1_eew; b = signExtend op2 op2_eew in
           if a = 0 then ret b
           else if b = INT64_MIN \<and> a = - 1 then raise RuntimeError
           else ret (rem_s b a)))"

section \<open>Fixed-point arithmetic\<close>

definition rv64_vAadd :: "'d rv64_op2" where
  "rv64_vAadd op2 op1 = rv64_with_eew (\<lambda>(vd_eew, vd_signed, op2_eew, op2_signed, op1_eew, op1_signed). getsM (\<lambda>s.
     let msb = push_bit (unat (vd_eew - 1)) 1;
         res = (op2 + op1) AND getMask vd_eew;
         op1_msb_set = (op1 AND msb \<noteq> 0); op2_msb_set = (op2 AND msb \<noteq> 0); res_msb_set = (res AND msb \<noteq> 0);
         shiftResult = (if vd_signed then rv64_vRound True (signExtend res vd_eew) 1 s else rv64_vRound False res 1 s)
     in if vd_signed \<and> (op1_msb_set \<and> op2_msb_set \<and> \<not> res_msb_set \<or> \<not> op1_msb_set \<and> \<not> op2_msb_set \<and> res_msb_set)
        then shiftResult XOR msb
        else if \<not> vd_signed \<and> (op1_msb_set \<and> op2_msb_set \<or> \<not> op1_msb_set \<and> op2_msb_set \<and> \<not> res_msb_set \<or>
                               op1_msb_set \<and> \<not> op2_msb_set \<and> \<not> res_msb_set)
        then shiftResult OR msb
        else shiftResult))"

definition rv64_vAsub :: "'d rv64_op2" where
  "rv64_vAsub op2 op1 = rv64_with_eew (\<lambda>(vd_eew, vd_signed, op2_eew, op2_signed, op1_eew, op1_signed). getsM (\<lambda>s.
     let msb = push_bit (unat (vd_eew - 1)) 1;
         res = (op2 - op1) AND getMask vd_eew;
         op1_msb_set = (op1 AND msb \<noteq> 0); op2_msb_set = (op2 AND msb \<noteq> 0); res_msb_set = (res AND msb \<noteq> 0);
         shiftResult = (if vd_signed then rv64_vRound True (signExtend res vd_eew) 1 s else rv64_vRound False res 1 s)
     in if vd_signed \<and> (\<not> op1_msb_set \<and> op2_msb_set \<and> \<not> res_msb_set \<or> op1_msb_set \<and> \<not> op2_msb_set \<and> res_msb_set)
        then shiftResult XOR msb
        else if \<not> vd_signed \<and> (\<not> op1_msb_set \<and> \<not> op2_msb_set \<and> res_msb_set \<or>
                               op1_msb_set \<and> \<not> op2_msb_set \<and> res_msb_set \<or>
                               op1_msb_set \<and> \<not> op2_msb_set \<and> \<not> res_msb_set \<or>
                               op1_msb_set \<and> op2_msb_set \<and> res_msb_set)
        then shiftResult XOR msb
        else shiftResult))"

definition rv64_vSmul :: "'d rv64_op2" where
  "rv64_vSmul op2 op1 = rv64_with_eew (\<lambda>(vd_eew, vd_signed, op2_eew, op2_signed, op1_eew, op1_signed).
     if op2 AND getMask op2_eew = push_bit (unat (op2_eew - 1)) 1 \<and>
        op1 AND getMask op1_eew = push_bit (unat (op1_eew - 1)) 1
     then seqM (rv64_set_vxsat True) (ret (getMask (op2_eew - 1)))
     else getsM (\<lambda>s. snd (rv64_multiply True True (signExtend op2 op2_eew) (signExtend op1 op1_eew) (vd_eew - 1) True s)))"

definition rv64_vShiftRight :: "bool \<Rightarrow> 'd rv64_op2" where
  "rv64_vShiftRight clip_result op2 op1 = rv64_with_eew (\<lambda>(vd_eew, vd_signed, op2_eew, op2_signed, op1_eew, op1_signed).
     bindM (getsM (\<lambda>s. let d = op1 AND rv64_shift_mask op2_eew vd_eew s
                       in if vd_signed then rv64_vRound True (signExtend op2 op2_eew) d s else rv64_vRound False op2 d s))
       (\<lambda>result.
        if clip_result
        then (if \<not> vd_signed
              then (if result > getMask vd_eew then seqM (rv64_set_vxsat True) (ret (getMask vd_eew)) else ret result)
              else rv64_clampSigned result op2_eew vd_eew)
        else ret result))"

definition rv64_addu_saturate :: "u64 \<Rightarrow> u64 \<Rightarrow> 'd rv64_iss \<Rightarrow> u64 \<times> bool" where
  "rv64_addu_saturate op2 op1 s =
     (let res = (op2 + op1) AND getMask (rv64_getIntVSew s);
          sat = (res < op1 AND getMask (rv64_getIntVSew s))
      in (res OR - of_bool sat, sat))"

definition rv64_vSadd :: "'d rv64_op2" where
  "rv64_vSadd op2 op1 = rv64_with_eew (\<lambda>(vd_eew, vd_signed, op2_eew, op2_signed, op1_eew, op1_signed).
     let (res, sat) = add_saturate op2 op1 vd_eew in seqM (rv64_set_vxsat sat) (ret res))"

definition rv64_vSaddu :: "'d rv64_op2" where
  "rv64_vSaddu op2 op1 = bindM (getsM (rv64_addu_saturate op2 op1)) (\<lambda>(res, sat). seqM (rv64_set_vxsat sat) (ret res))"

definition rv64_vSsub :: "'d rv64_op2" where
  "rv64_vSsub op2 op1 = rv64_with_eew (\<lambda>(vd_eew, vd_signed, op2_eew, op2_signed, op1_eew, op1_signed).
     let top = push_bit (unat (op2_eew - 1)) 1;
         maxVal = top - 1;
         minVal = signExtend top op2_eew;
         msb = push_bit (unat (vd_eew - 1)) 1;
         res = (op2 - op1) AND getMask vd_eew;
         op1_msb_set = (op1 AND msb \<noteq> 0); op2_msb_set = (op2 AND msb \<noteq> 0); res_msb_set = (res AND msb \<noteq> 0);
         (res, sat) = (if op2_msb_set \<and> \<not> op1_msb_set \<and> \<not> res_msb_set then (minVal, True)
                       else if \<not> op2_msb_set \<and> op1_msb_set \<and> res_msb_set then (maxVal, True)
                       else (res, False))
     in seqM (rv64_set_vxsat sat) (ret res))"

definition rv64_vSsubu :: "'d rv64_op2" where
  "rv64_vSsubu op2 op1 = bindM (getsM rv64_getIntVSew) (\<lambda>sew.
     let res = op2 - op1;
         sat = (res AND getMask sew \<le> op2)
     in seqM (rv64_set_vxsat (\<not> sat)) (ret (res AND - of_bool sat)))"

section \<open>Carries\<close>

definition rv64_vAdc :: "'d rv64_op3" where
  "rv64_vAdc op2 op1 i = bindM (rv64_vCarry i) (\<lambda>c. ret (op2 + op1 + c))"

definition rv64_vMadc :: "u64 \<Rightarrow> ('d rv64_iss, unit) M" where
  "rv64_vMadc i = rv64_with_eew (\<lambda>(vd_eew, vd_signed, op2_eew, op2_signed, op1_eew, op1_signed).
     bindM (rv64_getOperands i) (\<lambda>(op1, op2).
     bindM (rv64_vCarry i) (\<lambda>carry.
     let msb = push_bit (unat (vd_eew - 1)) 1;
         res = signExtend op2 op2_eew + signExtend op1 op1_eew;
         op1_msb_set = (op1 AND msb \<noteq> 0); op2_msb_set = (op2 AND msb \<noteq> 0); res_msb_set = (res AND msb \<noteq> 0);
         has_overflown = (op1_msb_set \<and> op2_msb_set \<or> op1_msb_set \<and> \<not> op2_msb_set \<and> \<not> res_msb_set \<or>
                          \<not> op1_msb_set \<and> op2_msb_set \<and> \<not> res_msb_set \<or> carry \<noteq> 0 \<and> res = getMask 64)
     in rv64_write_mask_bit i (of_bool has_overflown))))"

definition rv64_vSbc :: "'d rv64_op3" where
  "rv64_vSbc op2 op1 i = bindM (rv64_vCarry i) (\<lambda>c. ret (op2 - op1 - c))"

definition rv64_vMsbc :: "u64 \<Rightarrow> ('d rv64_iss, unit) M" where
  "rv64_vMsbc i = rv64_with_eew (\<lambda>(vd_eew, vd_signed, op2_eew, op2_signed, op1_eew, op1_signed).
     bindM (rv64_getOperands i) (\<lambda>(op1, op2).
     bindM (rv64_vCarry i) (\<lambda>carry.
     let msb = push_bit (unat (vd_eew - 1)) 1;
         res = signExtend op2 op2_eew - signExtend op1 op1_eew;
         op1_msb_set = (op1 AND msb \<noteq> 0); op2_msb_set = (op2 AND msb \<noteq> 0); res_msb_set = (res AND msb \<noteq> 0);
         has_overflown = (op1_msb_set \<and> \<not> op2_msb_set \<or> \<not> op1_msb_set \<and> \<not> op2_msb_set \<and> res_msb_set \<or>
                          op1_msb_set \<and> op2_msb_set \<and> res_msb_set \<or> carry \<noteq> 0 \<and> res = 0)
     in rv64_write_mask_bit i (of_bool has_overflown))))"

definition rv64_vMerge :: "'d rv64_op3" where
  "rv64_vMerge op2 op1 i = bindM (rv64_vCarry i) (\<lambda>c. ret (if c \<noteq> 0 then op1 else op2))"

section \<open>Multiply-add\<close>

definition rv64_vMacc :: "'d rv64_op4" where
  "rv64_vMacc op2 op1 vd i = rv64_with_eew (\<lambda>(vd_eew, vd_signed, op2_eew, op2_signed, op1_eew, op1_signed).
     ret (if op2_signed \<and> op1_signed
          then signExtend op2 op2_eew * signExtend op1 op1_eew + signExtend vd vd_eew
          else if \<not> op2_signed \<and> \<not> op1_signed then op2 * op1 + vd
          else if op2_signed \<and> \<not> op1_signed then signExtend op2 op2_eew * op1 + vd
          else op2 * signExtend op1 op1_eew + vd))"

definition rv64_vNmsac :: "'d rv64_op4" where "rv64_vNmsac op2 op1 vd i = ret (- (op2 * op1) + vd)"
definition rv64_vMadd :: "'d rv64_op4" where "rv64_vMadd op2 op1 vd i = ret ((op1 * vd) + op2)"
definition rv64_vNmsub :: "'d rv64_op4" where "rv64_vNmsub op2 op1 vd i = ret (- (op1 * vd) + op2)"

definition rv64_vMulh :: "'d rv64_op2" where
  "rv64_vMulh op2 op1 = rv64_with_eew (\<lambda>(vd_eew, vd_signed, op2_eew, op2_signed, op1_eew, op1_signed). getsM (\<lambda>s.
     snd (if op2_signed \<and> op1_signed
          then rv64_multiply True True (signExtend op2 op2_eew) (signExtend op1 op1_eew) op2_eew False s
          else if \<not> op2_signed \<and> \<not> op1_signed then rv64_multiply False False op2 op1 op2_eew False s
          else rv64_multiply True False (signExtend op2 op2_eew) op1 op2_eew False s)))"

section \<open>Comparisons and reductions\<close>

definition rv64_vCompInt :: "int_compare_t \<Rightarrow> u64 \<Rightarrow> u64 \<Rightarrow> u64 \<Rightarrow> u64 \<Rightarrow> ('d rv64_iss, unit) M" where
  "rv64_vCompInt type op2 op1 vd i = rv64_with_eew (\<lambda>(vd_eew, vd_signed, op2_eew, op2_signed, op1_eew, op1_signed).
     let op1 = op1 AND getMask op1_eew; a = signExtend op2 op2_eew; b = signExtend op1 op1_eew;
         comp = (case type of
             cmp_eq \<Rightarrow> op2 = op1
           | cmp_ne \<Rightarrow> op2 \<noteq> op1
           | cmp_lt \<Rightarrow> if op2_signed then a <s b else op2 < op1
           | cmp_le \<Rightarrow> if op2_signed then a \<le>s b else op2 \<le> op1
           | cmp_gt \<Rightarrow> if op2_signed then b <s a else op1 < op2)
     in rv64_write_mask_bit i (of_bool comp))"

definition rv64_vRedSum :: "'d rv64_op4" where
  "rv64_vRedSum op2 op1 i res = rv64_with_eew (\<lambda>(vd_eew, vd_signed, op2_eew, op2_signed, op1_eew, op1_signed).
     ret (if vd_signed then signExtend op2 op2_eew + signExtend res vd_eew else op2 + res))"

definition rv64_vRedMax :: "'d rv64_op4" where
  "rv64_vRedMax op2 op1 i res = rv64_with_eew (\<lambda>(vd_eew, vd_signed, op2_eew, op2_signed, op1_eew, op1_signed).
     ret (if (if vd_signed then signExtend res vd_eew \<le>s signExtend op2 op2_eew else res \<le> op2) then op2 else res))"

definition rv64_vRedMin :: "'d rv64_op4" where
  "rv64_vRedMin op2 op1 i res = rv64_with_eew (\<lambda>(vd_eew, vd_signed, op2_eew, op2_signed, op1_eew, op1_signed).
     ret (if (if vd_signed then signExtend op2 op2_eew \<le>s signExtend res vd_eew else op2 \<le> res) then op2 else res))"

definition rv64_vRedAnd :: "'d rv64_op4" where "rv64_vRedAnd op2 op1 i res = ret (res AND op2)"
definition rv64_vRedOr :: "'d rv64_op4" where "rv64_vRedOr op2 op1 i res = ret (res OR op2)"
definition rv64_vRedXor :: "'d rv64_op4" where "rv64_vRedXor op2 op1 i res = ret (res XOR op2)"

definition rv64_vExt :: "u64 \<Rightarrow> ('d rv64_iss, 'd rv64_op2) M" where
  "rv64_vExt division = seqM (modifyM (\<lambda>s. rv64_vx_upd (\<lambda>x. x\<lparr>o2_eew_overwrite := rv64_getIntVSew s div division\<rparr>) s))
     (ret (\<lambda>op2 op1. rv64_with_eew (\<lambda>(vd_eew, vd_signed, op2_eew, op2_signed, op1_eew, op1_signed).
        ret (if op2_signed then signExtend op2 op2_eew else op2))))"

section \<open>Mask registers\<close>

definition rv64_vMask :: "maskOperation \<Rightarrow> u64 \<Rightarrow> ('d rv64_iss, unit) M" where
  "rv64_vMask op i = bindM (getsM rv64_instr) (\<lambda>w.
     bindM (rv64_mask_elem (ucast (rs1 w)) i) (\<lambda>vs1.
     bindM (rv64_mask_elem (ucast (rs2 w)) i) (\<lambda>vs2.
     let res = (case op of
           m_and \<Rightarrow> vs2 AND vs1
         | m_nand \<Rightarrow> NOT (vs2 AND vs1)
         | m_andn \<Rightarrow> vs2 AND NOT vs1
         | m_or \<Rightarrow> vs2 OR vs1
         | m_xor \<Rightarrow> vs2 XOR vs1
         | m_nor \<Rightarrow> NOT (vs2 OR vs1)
         | m_orn \<Rightarrow> vs2 OR NOT vs1
         | m_xnor \<Rightarrow> vs2 XOR NOT vs1)
     in rv64_write_mask_bit i (res AND 1))))"

definition rv64_vx_rs2 :: "('d rv64_iss, u64) M" where
  "rv64_vx_rs2 = getsM (\<lambda>s. ucast (rs2 (rv64_instr s)))"

definition rv64_vCpop :: "('d rv64_iss, unit) M" where
  "rv64_vCpop = seqM (modifyM (rv64_vx_upd (\<lambda>x. x\<lparr>require_vd_not_v0 := False, ignoreAlignment := True\<rparr>)))
     (bindM (rv64_genericVLoop (\<lambda>i count. bindM rv64_vx_rs2 (\<lambda>r. bindM (rv64_mask_elem r i) (\<lambda>m. ret (count + m)))) xxxuuu sel_vv False 0)
        (\<lambda>count. modifyM (\<lambda>s. rv64_iss_reg_write (rd (rv64_instr s)) count s)))"

definition rv64_vFirst :: "('d rv64_iss, unit) M" where
  "rv64_vFirst = seqM (modifyM (rv64_vx_upd (\<lambda>x. x\<lparr>require_vd_not_v0 := False, ignoreAlignment := True\<rparr>)))
     (bindM (rv64_genericVLoop (\<lambda>i position. bindM rv64_vx_rs2 (\<lambda>r. bindM (rv64_mask_elem r i) (\<lambda>m.
        ret (if position = - 1 \<and> m \<noteq> 0 then i else position)))) xxxuuu sel_vv False (- 1))
        (\<lambda>position. modifyM (\<lambda>s. rv64_iss_reg_write (rd (rv64_instr s)) position s)))"

definition rv64_vMs :: "vms_type_t \<Rightarrow> ('d rv64_iss, unit) M" where
  "rv64_vMs type = seqM (modifyM (rv64_vx_upd (\<lambda>x. x\<lparr>ignoreAlignment := True\<rparr>)))
     (seqM (bindM (getsM rv64_instr) (\<lambda>w. rv64_v_assert (rd w \<noteq> rs2 w)))
     (bindM (rv64_genericVLoop (\<lambda>i hit. bindM rv64_vx_rs2 (\<lambda>r. bindM (rv64_mask_elem r i) (\<lambda>m.
        let (result, hit) = vms_step type hit (m \<noteq> 0)
        in seqM (rv64_write_mask_bit i result) (ret hit)))) xxxuuu sel_vv False False)
      (\<lambda>_. ret ())))"

definition rv64_vIota :: "('d rv64_iss, unit) M" where
  "rv64_vIota = seqM (modifyM (rv64_vx_upd (\<lambda>x. x\<lparr>require_no_overlap := True, vs2_is_mask := True\<rparr>)))
     (bindM (rv64_genericVLoop (\<lambda>i count. bindM rv64_vx_rs2 (\<lambda>r. bindM (rv64_mask_elem r i) (\<lambda>m.
        seqM (rv64_writeGeneric count i) (ret (if m \<noteq> 0 then count + 1 else count))))) xxxuuu sel_v False 0)
      (\<lambda>_. ret ()))"

definition rv64_set_elem_sel :: "elem_sel_t \<Rightarrow> ('d rv64_iss, unit) M" where
  "rv64_set_elem_sel e = modifyM (rv64_vx_upd (\<lambda>x. x\<lparr>elem_sel := e\<rparr>))"

definition rv64_vId :: "u64 \<Rightarrow> ('d rv64_iss, unit) M" where
  "rv64_vId index = seqM (rv64_set_elem_sel xxxuuu) (rv64_writeGeneric index index)"

section \<open>Moves and permutations\<close>

definition rv64_vMvXs :: "('d rv64_iss, unit) M" where
  "rv64_vMvXs = bindM (getsM (\<lambda>s. (rv64_getIntVSew s, rv64_instr s))) (\<lambda>(sew, w).
     bindM (rv64_getSewSingleOperand sew (ucast (rs2 w)) 0) (\<lambda>res.
     modifyM (rv64_iss_reg_write (rd w) (signExtend res sew))))"

definition rv64_vMvSx :: "('d rv64_iss, unit) M" where
  "rv64_vMvSx = bindM (getsM (\<lambda>s. rv64_csrs s rv64_csr_vstart < rv64_csrs s rv64_csr_vl)) (\<lambda>b.
     whenM b (seqM (rv64_set_elem_sel xxxuuu)
       (bindM (getsM (\<lambda>s. signExtend (rv64_iss_reg_read (rs1 (rv64_instr s)) s) 32)) (\<lambda>res. rv64_writeGeneric res 0))))"

definition rv64_vSlideUp :: "u64 \<Rightarrow> u64 \<Rightarrow> ('d rv64_iss, unit) M" where
  "rv64_vSlideUp offset index = bindM (getsM (\<lambda>s. (ucast (rv64_csrs s rv64_csr_vstart) < offset, rv64_getIntVSew s, rv64_instr s)))
     (\<lambda>(early, sew, w).
      if early \<and> index < offset then ret ()
      else seqM (rv64_set_elem_sel xxxsss)
        (bindM (rv64_getSewSingleOperand sew (ucast (rs2 w)) (index - offset)) (\<lambda>res. rv64_writeGeneric res index)))"

definition rv64_vSlideDown :: "u64 \<Rightarrow> u64 \<Rightarrow> ('d rv64_iss, unit) M" where
  "rv64_vSlideDown offset index = seqM (rv64_set_elem_sel xxxsss)
     (bindM (getsM (\<lambda>s. (rv64_getVlmul s, rv64_getIntVSew s, rv64_instr s))) (\<lambda>(lmul, sew, w).
      let vlmax = trunc_u64 (lmul * u_rat VLEN / u_rat sew);
          is_zero = (index + offset \<ge> vlmax \<or> offset AND push_bit 63 1 \<noteq> 0)
      in bindM (if is_zero then ret 0 else rv64_getSewSingleOperand sew (ucast (rs2 w)) (index + offset))
           (\<lambda>res. rv64_writeGeneric res index)))"

text \<open>The value a slide by one moves in.\<close>

definition rv64_slide1_scalar :: "param_sel_t \<Rightarrow> u64 \<Rightarrow> ('d rv64_iss, u64) M" where
  "rv64_slide1_scalar param sew = bindM (getsM (\<lambda>s. rs1 (rv64_instr s))) (\<lambda>r.
     if param = sel_vx then getsM (rv64_iss_reg_read r) else rv64_fp_reg_read r sew)"

definition rv64_vSlide1Up :: "param_sel_t \<Rightarrow> u64 \<Rightarrow> ('d rv64_iss, unit) M" where
  "rv64_vSlide1Up param index = bindM (getsM (\<lambda>s. (rv64_getIntVSew s, rv64_instr s))) (\<lambda>(sew, w).
     if index \<noteq> 0
     then seqM (rv64_set_elem_sel xxxsss)
       (bindM (rv64_getSewSingleOperand sew (ucast (rs2 w)) (index - 1)) (\<lambda>res. rv64_writeGeneric res index))
     else seqM (rv64_set_elem_sel xxxuuu)
       (bindM (rv64_slide1_scalar param sew) (\<lambda>result. rv64_writeGeneric result index)))"

definition rv64_vSlide1Down :: "param_sel_t \<Rightarrow> u64 \<Rightarrow> ('d rv64_iss, unit) M" where
  "rv64_vSlide1Down param index = bindM (getsM (\<lambda>s. (rv64_getIntVSew s, rv64_instr s, rv64_csrs s rv64_csr_vl))) (\<lambda>(sew, w, vl).
     if index \<noteq> ucast (vl - 1)
     then seqM (rv64_set_elem_sel xxxsss)
       (bindM (rv64_getSewSingleOperand sew (ucast (rs2 w)) (index + 1)) (\<lambda>res. rv64_writeGeneric res index))
     else seqM (rv64_set_elem_sel xxxuuu)
       (bindM (rv64_slide1_scalar param sew) (\<lambda>result. rv64_writeGeneric result index)))"

definition rv64_vGather :: "bool \<Rightarrow> ('d rv64_iss, 'd rv64_op3) M" where
  "rv64_vGather isGather16 = seqM (whenM isGather16 (modifyM (rv64_vx_upd (\<lambda>x. x\<lparr>o1_eew_overwrite := 16\<rparr>))))
     (ret (\<lambda>op2 op1 i. bindM (getsM (\<lambda>s. (rv64_instr s, param_sel (rv64_v_ext s), rv64_getVlmul s, rv64_getIntVSew s)))
       (\<lambda>(w, sel, lmul, sew).
        seqM (whenM (sel = sel_vv) (rv64_v_assert (rd w \<noteq> rs1 w \<and> rd w \<noteq> rs2 w)))
        (bindM (getsM (\<lambda>s. if sel = sel_vx then rv64_iss_reg_read (rs1 w) s else op1)) (\<lambda>rs1_value.
         if rs1_value \<ge> trunc_u64 (lmul * u_rat VLEN / u_rat sew) then ret 0
         else rv64_getSewSingleOperand sew (ucast (rs2 w)) op1)))))"

definition rv64_vCompress :: "('d rv64_iss, unit) M" where
  "rv64_vCompress = seqM (modifyM (rv64_vx_upd (\<lambda>x. x\<lparr>require_no_overlap := True, vs1_is_mask := True\<rparr>)))
     (bindM (rv64_genericVLoop (\<lambda>i current_position. seqM (rv64_set_elem_sel xxxuuu)
        (bindM (getsM (\<lambda>s. (rv64_instr s, rv64_getIntVSew s))) (\<lambda>(w, sew).
         let (reg_idx, reg_pos) = getCarryElements i in
         bindM (getsM (rv64_get_reg 8 (ucast (rs1 w)) reg_idx)) (\<lambda>v.
         if drop_bit (unat reg_pos) v AND 1 \<noteq> 1 then ret current_position
         else bindM (rv64_getSewSingleOperand sew (ucast (rs2 w)) i) (\<lambda>res.
           seqM (rv64_writeGeneric res current_position) (ret (current_position + 1))))))) xxxuuu sel_vv False 0)
      (\<lambda>_. ret ()))"

definition rv64_vMvNr :: "('d rv64_iss, unit) M" where
  "rv64_vMvNr = bindM (getsM (\<lambda>s. (rv64_instr s, unat (rv64_csrs s rv64_csr_vstart), rv64_getIntVSew s))) (\<lambda>(w, start, sew).
     let nreg = ucast (rs1 w) + 1;
         evl = nreg * VLEN div sew
     in seqM (rv64_v_assert (v_is_aligned (ucast (rd w)) nreg))
        (seqM (rv64_v_assert (v_is_aligned (ucast (rs2 w)) nreg))
        (whenM (rd w \<noteq> rs2 w)
           (loop_acc [start..<unat evl] (\<lambda>idx _.
              let r = idx div (VLEN div sew); elem = idx mod (VLEN div sew) in
              bindM (rv64_getSewSingleOperand sew (ucast (rs2 w) + r) elem) (\<lambda>res.
              rv64_writeSewSingleOperand sew (ucast (rd w) + r) elem res)) ()))))"

end
