(* ===== verification/RV64_VFloat.thy ===== *)
theory RV64_VFloat
  imports RV64_VOps VP_VFloat
begin

text \<open>
  The floating-point operations of the vector unit, for the RV64 ISS.
\<close>

section \<open>Calls of the library\<close>

text \<open>A call that rounds in the current mode, and calls that do not round, with the result as an element.\<close>

definition rv64_sf_rm :: "(u8 \<Rightarrow> 'a \<times> u8) \<Rightarrow> ('d rv64_iss, 'a) M" where
  "rv64_sf_rm f = rv64_sf_call (\<lambda>s. f (rv64_softfloat_roundingMode s))"

definition rv64_elem_of :: "('d rv64_iss, 'a::len word) M \<Rightarrow> ('d rv64_iss, u64) M" where
  "rv64_elem_of m = bindM m (\<lambda>r. ret (ucast r))"

definition rv64_sf_elem :: "(u8 \<Rightarrow> 'a::len word \<times> u8) \<Rightarrow> ('d rv64_iss, u64) M" where
  "rv64_sf_elem f = rv64_elem_of (rv64_sf_rm f)"

definition rv64_v_invalid :: "('d rv64_iss, u64) M" where
  "rv64_v_invalid = seqM (rv64_v_assert False) (ret 0)"

text \<open>\<^verbatim>\<open>switch (getIntVSew())\<close> with the cases 16, 32 and 64, and with the cases 16 and 32.\<close>

definition rv64_by_sew :: "('d rv64_iss, u64) M \<Rightarrow> ('d rv64_iss, u64) M \<Rightarrow> ('d rv64_iss, u64) M \<Rightarrow> ('d rv64_iss, u64) M" where
  "rv64_by_sew h s d = bindM (getsM rv64_getIntVSew) (\<lambda>sew.
     if sew = 16 then h else if sew = 32 then s else if sew = 64 then d else rv64_v_invalid)"

definition rv64_by_sew_w :: "('d rv64_iss, u64) M \<Rightarrow> ('d rv64_iss, u64) M \<Rightarrow> ('d rv64_iss, u64) M" where
  "rv64_by_sew_w h s = rv64_by_sew h s rv64_v_invalid"

text \<open>The two conversions to twice the width.\<close>

definition rv64_widen16 :: "softfloat \<Rightarrow> u16 \<Rightarrow> ('d rv64_iss, u32) M" where
  "rv64_widen16 SF x = rv64_sf_rm (\<lambda>rm. sf_f16_to_f32 SF rm x)"

definition rv64_widen32 :: "softfloat \<Rightarrow> u32 \<Rightarrow> ('d rv64_iss, u64) M" where
  "rv64_widen32 SF x = rv64_sf_rm (\<lambda>rm. sf_f32_to_f64 SF rm x)"

section \<open>Arithmetic\<close>

definition rv64_vfAdd :: "softfloat \<Rightarrow> 'd rv64_op4" where
  "rv64_vfAdd SF op2 op1 vd i = rv64_by_sew
     (rv64_sf_elem (\<lambda>rm. sf_f16_add SF rm (ucast op2) (ucast op1)))
     (rv64_sf_elem (\<lambda>rm. sf_f32_add SF rm (ucast op2) (ucast op1)))
     (rv64_sf_elem (\<lambda>rm. sf_f64_add SF rm (ucast op2) (ucast op1)))"

definition rv64_vfwAdd :: "softfloat \<Rightarrow> 'd rv64_op4" where
  "rv64_vfwAdd SF op2 op1 vd i = rv64_by_sew_w
     (bindM (rv64_widen16 SF (ucast op2)) (\<lambda>a. bindM (rv64_widen16 SF (ucast op1)) (\<lambda>b.
        rv64_sf_elem (\<lambda>rm. sf_f32_add SF rm a b))))
     (bindM (rv64_widen32 SF (ucast op2)) (\<lambda>a. bindM (rv64_widen32 SF (ucast op1)) (\<lambda>b.
        rv64_sf_elem (\<lambda>rm. sf_f64_add SF rm a b))))"

definition rv64_vfwAddw :: "softfloat \<Rightarrow> 'd rv64_op4" where
  "rv64_vfwAddw SF op2 op1 vd i = rv64_by_sew_w
     (bindM (rv64_widen16 SF (ucast op1)) (\<lambda>b. rv64_sf_elem (\<lambda>rm. sf_f32_add SF rm (ucast op2) b)))
     (bindM (rv64_widen32 SF (ucast op1)) (\<lambda>b. rv64_sf_elem (\<lambda>rm. sf_f64_add SF rm (ucast op2) b)))"

definition rv64_vfSub :: "softfloat \<Rightarrow> 'd rv64_op4" where
  "rv64_vfSub SF op2 op1 vd i = rv64_by_sew
     (rv64_sf_elem (\<lambda>rm. sf_f16_sub SF rm (ucast op2) (ucast op1)))
     (rv64_sf_elem (\<lambda>rm. sf_f32_sub SF rm (ucast op2) (ucast op1)))
     (rv64_sf_elem (\<lambda>rm. sf_f64_sub SF rm (ucast op2) (ucast op1)))"

definition rv64_vfwSub :: "softfloat \<Rightarrow> 'd rv64_op4" where
  "rv64_vfwSub SF op2 op1 vd i = rv64_by_sew_w
     (bindM (rv64_widen16 SF (ucast op2)) (\<lambda>a. bindM (rv64_widen16 SF (ucast op1)) (\<lambda>b.
        rv64_sf_elem (\<lambda>rm. sf_f32_sub SF rm a b))))
     (bindM (rv64_widen32 SF (ucast op2)) (\<lambda>a. bindM (rv64_widen32 SF (ucast op1)) (\<lambda>b.
        rv64_sf_elem (\<lambda>rm. sf_f64_sub SF rm a b))))"

definition rv64_vfwSubw :: "softfloat \<Rightarrow> 'd rv64_op4" where
  "rv64_vfwSubw SF op2 op1 vd i = rv64_by_sew_w
     (bindM (rv64_widen16 SF (ucast op1)) (\<lambda>b. rv64_sf_elem (\<lambda>rm. sf_f32_sub SF rm (ucast op2) b)))
     (bindM (rv64_widen32 SF (ucast op1)) (\<lambda>b. rv64_sf_elem (\<lambda>rm. sf_f64_sub SF rm (ucast op2) b)))"

definition rv64_vfrSub :: "softfloat \<Rightarrow> 'd rv64_op4" where
  "rv64_vfrSub SF op2 op1 vd i = rv64_by_sew
     (rv64_sf_elem (\<lambda>rm. sf_f16_sub SF rm (ucast op1) (ucast op2)))
     (rv64_sf_elem (\<lambda>rm. sf_f32_sub SF rm (ucast op1) (ucast op2)))
     (rv64_sf_elem (\<lambda>rm. sf_f64_sub SF rm (ucast op1) (ucast op2)))"

definition rv64_vfMul :: "softfloat \<Rightarrow> 'd rv64_op4" where
  "rv64_vfMul SF op2 op1 vd i = rv64_by_sew
     (rv64_sf_elem (\<lambda>rm. sf_f16_mul SF rm (ucast op2) (ucast op1)))
     (rv64_sf_elem (\<lambda>rm. sf_f32_mul SF rm (ucast op2) (ucast op1)))
     (rv64_sf_elem (\<lambda>rm. sf_f64_mul SF rm (ucast op2) (ucast op1)))"

definition rv64_vfwMul :: "softfloat \<Rightarrow> 'd rv64_op4" where
  "rv64_vfwMul SF op2 op1 vd i = rv64_with_eew (\<lambda>(vd_eew, vd_signed, op2_eew, op2_signed, op1_eew, op1_signed).
     if op2_eew = 16
     then bindM (rv64_widen16 SF (ucast op2)) (\<lambda>a. bindM (rv64_widen16 SF (ucast op1)) (\<lambda>b. rv64_sf_elem (\<lambda>rm. sf_f32_mul SF rm a b)))
     else if op2_eew = 32
     then bindM (rv64_widen32 SF (ucast op2)) (\<lambda>a. bindM (rv64_widen32 SF (ucast op1)) (\<lambda>b. rv64_sf_elem (\<lambda>rm. sf_f64_mul SF rm a b)))
     else rv64_v_invalid)"

definition rv64_vfDiv :: "softfloat \<Rightarrow> 'd rv64_op4" where
  "rv64_vfDiv SF op2 op1 vd i = rv64_by_sew
     (rv64_sf_elem (\<lambda>rm. sf_f16_div SF rm (ucast op2) (ucast op1)))
     (rv64_sf_elem (\<lambda>rm. sf_f32_div SF rm (ucast op2) (ucast op1)))
     (rv64_sf_elem (\<lambda>rm. sf_f64_div SF rm (ucast op2) (ucast op1)))"

definition rv64_vfrDiv :: "softfloat \<Rightarrow> 'd rv64_op4" where
  "rv64_vfrDiv SF op2 op1 vd i = rv64_by_sew
     (rv64_sf_elem (\<lambda>rm. sf_f16_div SF rm (ucast op1) (ucast op2)))
     (rv64_sf_elem (\<lambda>rm. sf_f32_div SF rm (ucast op1) (ucast op2)))
     (rv64_sf_elem (\<lambda>rm. sf_f64_div SF rm (ucast op1) (ucast op2)))"

definition rv64_vfMacc :: "softfloat \<Rightarrow> 'd rv64_op4" where
  "rv64_vfMacc SF op2 op1 vd i = rv64_by_sew
     (rv64_sf_elem (\<lambda>rm. sf_f16_mulAdd SF rm (ucast op2) (ucast op1) (ucast vd)))
     (rv64_sf_elem (\<lambda>rm. sf_f32_mulAdd SF rm (ucast op2) (ucast op1) (ucast vd)))
     (rv64_sf_elem (\<lambda>rm. sf_f64_mulAdd SF rm (ucast op2) (ucast op1) (ucast vd)))"

definition rv64_vfwMacc :: "softfloat \<Rightarrow> 'd rv64_op4" where
  "rv64_vfwMacc SF op2 op1 vd i = rv64_by_sew_w
     (bindM (rv64_widen16 SF (ucast op2)) (\<lambda>a. bindM (rv64_widen16 SF (ucast op1)) (\<lambda>b.
        rv64_sf_elem (\<lambda>rm. sf_f32_mulAdd SF rm a b (ucast vd)))))
     (bindM (rv64_widen32 SF (ucast op2)) (\<lambda>a. bindM (rv64_widen32 SF (ucast op1)) (\<lambda>b.
        rv64_sf_elem (\<lambda>rm. sf_f64_mulAdd SF rm a b (ucast vd)))))"

definition rv64_vfNmacc :: "softfloat \<Rightarrow> 'd rv64_op4" where
  "rv64_vfNmacc SF op2 op1 vd i = rv64_by_sew
     (rv64_sf_elem (\<lambda>rm. sf_f16_mulAdd SF rm (ucast op2) (f16_neg (ucast op1)) (f16_neg (ucast vd))))
     (rv64_sf_elem (\<lambda>rm. sf_f32_mulAdd SF rm (ucast op2) (f32_neg (ucast op1)) (f32_neg (ucast vd))))
     (rv64_sf_elem (\<lambda>rm. sf_f64_mulAdd SF rm (ucast op2) (f64_neg (ucast op1)) (f64_neg (ucast vd))))"

definition rv64_vfwNmacc :: "softfloat \<Rightarrow> 'd rv64_op4" where
  "rv64_vfwNmacc SF op2 op1 vd i = rv64_by_sew_w
     (bindM (rv64_widen16 SF (ucast op2)) (\<lambda>a. bindM (rv64_widen16 SF (f16_neg (ucast op1))) (\<lambda>b.
        rv64_sf_elem (\<lambda>rm. sf_f32_mulAdd SF rm a b (f32_neg (ucast vd))))))
     (bindM (rv64_widen32 SF (ucast op2)) (\<lambda>a. bindM (rv64_widen32 SF (f32_neg (ucast op1))) (\<lambda>b.
        rv64_sf_elem (\<lambda>rm. sf_f64_mulAdd SF rm a b (f64_neg (ucast vd))))))"

definition rv64_vfMsac :: "softfloat \<Rightarrow> 'd rv64_op4" where
  "rv64_vfMsac SF op2 op1 vd i = rv64_by_sew
     (rv64_sf_elem (\<lambda>rm. sf_f16_mulAdd SF rm (ucast op2) (ucast op1) (f16_neg (ucast vd))))
     (rv64_sf_elem (\<lambda>rm. sf_f32_mulAdd SF rm (ucast op2) (ucast op1) (f32_neg (ucast vd))))
     (rv64_sf_elem (\<lambda>rm. sf_f64_mulAdd SF rm (ucast op2) (ucast op1) (f64_neg (ucast vd))))"

definition rv64_vfwMsac :: "softfloat \<Rightarrow> 'd rv64_op4" where
  "rv64_vfwMsac SF op2 op1 vd i = rv64_by_sew_w
     (bindM (rv64_widen16 SF (ucast op2)) (\<lambda>a. bindM (rv64_widen16 SF (ucast op1)) (\<lambda>b.
        rv64_sf_elem (\<lambda>rm. sf_f32_mulAdd SF rm a b (f32_neg (ucast vd))))))
     (bindM (rv64_widen32 SF (ucast op2)) (\<lambda>a. bindM (rv64_widen32 SF (ucast op1)) (\<lambda>b.
        rv64_sf_elem (\<lambda>rm. sf_f64_mulAdd SF rm a b (f64_neg (ucast vd))))))"

definition rv64_vfNmsac :: "softfloat \<Rightarrow> 'd rv64_op4" where
  "rv64_vfNmsac SF op2 op1 vd i = rv64_by_sew
     (rv64_sf_elem (\<lambda>rm. sf_f16_mulAdd SF rm (ucast op2) (f16_neg (ucast op1)) (ucast vd)))
     (rv64_sf_elem (\<lambda>rm. sf_f32_mulAdd SF rm (ucast op2) (f32_neg (ucast op1)) (ucast vd)))
     (rv64_sf_elem (\<lambda>rm. sf_f64_mulAdd SF rm (ucast op2) (f64_neg (ucast op1)) (ucast vd)))"

definition rv64_vfwNmsac :: "softfloat \<Rightarrow> 'd rv64_op4" where
  "rv64_vfwNmsac SF op2 op1 vd i = rv64_by_sew_w
     (bindM (rv64_widen16 SF (ucast op2)) (\<lambda>a. bindM (rv64_widen16 SF (f16_neg (ucast op1))) (\<lambda>b.
        rv64_sf_elem (\<lambda>rm. sf_f32_mulAdd SF rm a b (ucast vd)))))
     (bindM (rv64_widen32 SF (ucast op2)) (\<lambda>a. bindM (rv64_widen32 SF (f32_neg (ucast op1))) (\<lambda>b.
        rv64_sf_elem (\<lambda>rm. sf_f64_mulAdd SF rm a b (ucast vd)))))"

definition rv64_vfMadd :: "softfloat \<Rightarrow> 'd rv64_op4" where
  "rv64_vfMadd SF op2 op1 vd i = rv64_by_sew
     (rv64_sf_elem (\<lambda>rm. sf_f16_mulAdd SF rm (ucast op1) (ucast vd) (ucast op2)))
     (rv64_sf_elem (\<lambda>rm. sf_f32_mulAdd SF rm (ucast op1) (ucast vd) (ucast op2)))
     (rv64_sf_elem (\<lambda>rm. sf_f64_mulAdd SF rm (ucast op1) (ucast vd) (ucast op2)))"

definition rv64_vfNmadd :: "softfloat \<Rightarrow> 'd rv64_op4" where
  "rv64_vfNmadd SF op2 op1 vd i = rv64_by_sew
     (rv64_sf_elem (\<lambda>rm. sf_f16_mulAdd SF rm (f16_neg (ucast op1)) (ucast vd) (f16_neg (ucast op2))))
     (rv64_sf_elem (\<lambda>rm. sf_f32_mulAdd SF rm (f32_neg (ucast op1)) (ucast vd) (f32_neg (ucast op2))))
     (rv64_sf_elem (\<lambda>rm. sf_f64_mulAdd SF rm (f64_neg (ucast op1)) (ucast vd) (f64_neg (ucast op2))))"

definition rv64_vfMsub :: "softfloat \<Rightarrow> 'd rv64_op4" where
  "rv64_vfMsub SF op2 op1 vd i = rv64_by_sew
     (rv64_sf_elem (\<lambda>rm. sf_f16_mulAdd SF rm (ucast op1) (ucast vd) (f16_neg (ucast op2))))
     (rv64_sf_elem (\<lambda>rm. sf_f32_mulAdd SF rm (ucast op1) (ucast vd) (f32_neg (ucast op2))))
     (rv64_sf_elem (\<lambda>rm. sf_f64_mulAdd SF rm (ucast op1) (ucast vd) (f64_neg (ucast op2))))"

definition rv64_vfNmsub :: "softfloat \<Rightarrow> 'd rv64_op4" where
  "rv64_vfNmsub SF op2 op1 vd i = rv64_by_sew
     (rv64_sf_elem (\<lambda>rm. sf_f16_mulAdd SF rm (f16_neg (ucast op1)) (ucast vd) (ucast op2)))
     (rv64_sf_elem (\<lambda>rm. sf_f32_mulAdd SF rm (f32_neg (ucast op1)) (ucast vd) (ucast op2)))
     (rv64_sf_elem (\<lambda>rm. sf_f64_mulAdd SF rm (f64_neg (ucast op1)) (ucast vd) (ucast op2)))"

definition rv64_vfSqrt :: "softfloat \<Rightarrow> 'd rv64_op4" where
  "rv64_vfSqrt SF op2 op1 vd i = rv64_by_sew
     (rv64_sf_elem (\<lambda>rm. sf_f16_sqrt SF rm (ucast op2)))
     (rv64_sf_elem (\<lambda>rm. sf_f32_sqrt SF rm (ucast op2)))
     (rv64_sf_elem (\<lambda>rm. sf_f64_sqrt SF rm (ucast op2)))"

definition rv64_vfMin :: "softfloat_v \<Rightarrow> 'd rv64_op4" where
  "rv64_vfMin SV op2 op1 vd i = rv64_by_sew
     (rv64_sf_elem (\<lambda>_. sf_f16_min SV (ucast op2) (ucast op1)))
     (rv64_sf_elem (\<lambda>_. sf_f32_min SV (ucast op2) (ucast op1)))
     (rv64_sf_elem (\<lambda>_. sf_f64_min SV (ucast op2) (ucast op1)))"

definition rv64_vfMax :: "softfloat_v \<Rightarrow> 'd rv64_op4" where
  "rv64_vfMax SV op2 op1 vd i = rv64_by_sew
     (rv64_sf_elem (\<lambda>_. sf_f16_max SV (ucast op2) (ucast op1)))
     (rv64_sf_elem (\<lambda>_. sf_f32_max SV (ucast op2) (ucast op1)))
     (rv64_sf_elem (\<lambda>_. sf_f64_max SV (ucast op2) (ucast op1)))"

definition rv64_vfRsqrt7 :: "softfloat_v \<Rightarrow> 'd rv64_op4" where
  "rv64_vfRsqrt7 SV op2 op1 vd i = rv64_by_sew
     (rv64_sf_elem (\<lambda>_. sf_f16_rsqrte7 SV (ucast op2)))
     (rv64_sf_elem (\<lambda>_. sf_f32_rsqrte7 SV (ucast op2)))
     (rv64_sf_elem (\<lambda>_. sf_f64_rsqrte7 SV (ucast op2)))"

definition rv64_vfFrec7 :: "softfloat_v \<Rightarrow> 'd rv64_op4" where
  "rv64_vfFrec7 SV op2 op1 vd i = rv64_by_sew
     (rv64_sf_elem (\<lambda>rm. sf_f16_recip7 SV rm (ucast op2)))
     (rv64_sf_elem (\<lambda>rm. sf_f32_recip7 SV rm (ucast op2)))
     (rv64_sf_elem (\<lambda>rm. sf_f64_recip7 SV rm (ucast op2)))"

section \<open>Signs, moves and comparisons\<close>

definition rv64_vfSgnj :: "'d rv64_op4" where
  "rv64_vfSgnj op2 op1 vd i = rv64_by_sew (ret (ucast (f16_sgnj (ucast op2) (ucast op1))))
     (ret (ucast (f32_sgnj (ucast op2) (ucast op1)))) (ret (f64_sgnj op2 op1))"

definition rv64_vfSgnjn :: "'d rv64_op4" where
  "rv64_vfSgnjn op2 op1 vd i = rv64_by_sew (ret (ucast (f16_sgnjn (ucast op2) (ucast op1))))
     (ret (ucast (f32_sgnjn (ucast op2) (ucast op1)))) (ret (f64_sgnjn op2 op1))"

definition rv64_vfSgnjx :: "'d rv64_op4" where
  "rv64_vfSgnjx op2 op1 vd i = rv64_by_sew (ret (ucast (f16_sgnjx (ucast op2) (ucast op1))))
     (ret (ucast (f32_sgnjx (ucast op2) (ucast op1)))) (ret (f64_sgnjx op2 op1))"

definition rv64_vfMv :: "'d rv64_op2" where
  "rv64_vfMv op2 op1 = rv64_by_sew (ret (ucast (ucast op1 :: u16))) (ret (ucast (ucast op1 :: u32))) (ret op1)"

text \<open>The shape of the comparisons: a bit of the destination mask.\<close>

definition rv64_bool_elem :: "(bool \<times> u8) \<Rightarrow> ('d rv64_iss, u64) M" where
  "rv64_bool_elem r = bindM (rv64_sf_call (\<lambda>_. r)) (\<lambda>b. ret (of_bool b))"

definition rv64_vMfcmp :: "('d rv64_iss, u64) M \<Rightarrow> u64 \<Rightarrow> ('d rv64_iss, unit) M" where
  "rv64_vMfcmp m i = bindM m (rv64_write_mask_bit i)"

definition rv64_vMfeq :: "softfloat \<Rightarrow> u64 \<Rightarrow> u64 \<Rightarrow> u64 \<Rightarrow> u64 \<Rightarrow> ('d rv64_iss, unit) M" where
  "rv64_vMfeq SF op2 op1 vd i = rv64_vMfcmp (rv64_by_sew (rv64_bool_elem (sf_f16_eq SF (ucast op2) (ucast op1)))
     (rv64_bool_elem (sf_f32_eq SF (ucast op2) (ucast op1)))
     (rv64_bool_elem (sf_f64_eq SF (ucast op2) (ucast op1)))) i"

definition rv64_vMfneq :: "softfloat \<Rightarrow> u64 \<Rightarrow> u64 \<Rightarrow> u64 \<Rightarrow> u64 \<Rightarrow> ('d rv64_iss, unit) M" where
  "rv64_vMfneq SF op2 op1 vd i = rv64_vMfcmp (bindM (rv64_by_sew (rv64_bool_elem (sf_f16_eq SF (ucast op2) (ucast op1)))
     (rv64_bool_elem (sf_f32_eq SF (ucast op2) (ucast op1)))
     (rv64_bool_elem (sf_f64_eq SF (ucast op2) (ucast op1)))) (\<lambda>b. ret (of_bool (b = 0)))) i"

definition rv64_vMflt :: "softfloat \<Rightarrow> u64 \<Rightarrow> u64 \<Rightarrow> u64 \<Rightarrow> u64 \<Rightarrow> ('d rv64_iss, unit) M" where
  "rv64_vMflt SF op2 op1 vd i = rv64_vMfcmp (rv64_by_sew (rv64_bool_elem (sf_f16_lt SF (ucast op2) (ucast op1)))
     (rv64_bool_elem (sf_f32_lt SF (ucast op2) (ucast op1)))
     (rv64_bool_elem (sf_f64_lt SF (ucast op2) (ucast op1)))) i"

definition rv64_vMfle :: "softfloat \<Rightarrow> u64 \<Rightarrow> u64 \<Rightarrow> u64 \<Rightarrow> u64 \<Rightarrow> ('d rv64_iss, unit) M" where
  "rv64_vMfle SF op2 op1 vd i = rv64_vMfcmp (rv64_by_sew (rv64_bool_elem (sf_f16_le SF (ucast op2) (ucast op1)))
     (rv64_bool_elem (sf_f32_le SF (ucast op2) (ucast op1)))
     (rv64_bool_elem (sf_f64_le SF (ucast op2) (ucast op1)))) i"

definition rv64_vMfgt :: "softfloat \<Rightarrow> u64 \<Rightarrow> u64 \<Rightarrow> u64 \<Rightarrow> u64 \<Rightarrow> ('d rv64_iss, unit) M" where
  "rv64_vMfgt SF op2 op1 vd i = rv64_vMfcmp (rv64_by_sew (rv64_bool_elem (sf_f16_lt SF (ucast op1) (ucast op2)))
     (rv64_bool_elem (sf_f32_lt SF (ucast op1) (ucast op2)))
     (rv64_bool_elem (sf_f64_lt SF (ucast op1) (ucast op2)))) i"

definition rv64_vMfge :: "softfloat \<Rightarrow> u64 \<Rightarrow> u64 \<Rightarrow> u64 \<Rightarrow> u64 \<Rightarrow> ('d rv64_iss, unit) M" where
  "rv64_vMfge SF op2 op1 vd i = rv64_vMfcmp (rv64_by_sew (rv64_bool_elem (sf_f16_le SF (ucast op1) (ucast op2)))
     (rv64_bool_elem (sf_f32_le SF (ucast op1) (ucast op2)))
     (rv64_bool_elem (sf_f64_le SF (ucast op1) (ucast op2)))) i"

definition rv64_vfClass :: "softfloat \<Rightarrow> 'd rv64_op4" where
  "rv64_vfClass SF op2 op1 vd i = rv64_by_sew (ret (ucast (sf_f16_classify SF (ucast op2))))
     (ret (ucast (sf_f32_classify SF (ucast op2)))) (ret (ucast (sf_f64_classify SF op2)))"

definition rv64_vMvFs :: "('d rv64_iss, unit) M" where
  "rv64_vMvFs = bindM (getsM (\<lambda>s. (rv64_getIntVSew s, rv64_instr s))) (\<lambda>(sew, w).
     bindM (rv64_getSewSingleOperand sew (ucast (rs2 w)) 0) (\<lambda>v. rv64_fp_reg_write (rd w) v sew))"

definition rv64_vMvSf :: "('d rv64_iss, unit) M" where
  "rv64_vMvSf = bindM (getsM (\<lambda>s. (rv64_csrs s rv64_csr_vstart < rv64_csrs s rv64_csr_vl, rv64_getIntVSew s, rv64_instr s))) (\<lambda>(b, sew, w).
     whenM b (bindM (rv64_fp_reg_read (rs1 w) sew) (\<lambda>v. rv64_writeSewSingleOperand sew (ucast (rd w)) 0 v)))"

section \<open>Conversions\<close>

text \<open>The rounding mode of the conversions to integers is chosen when the lambda is built.\<close>

definition rv64_cvt_rm :: "bool \<Rightarrow> (u8 \<Rightarrow> 'd rv64_op4) \<Rightarrow> ('d rv64_iss, 'd rv64_op4) M" where
  "rv64_cvt_rm rtz f = bindM (getsM (\<lambda>s. if rtz then softfloat_round_minMag else rv64_softfloat_roundingMode s)) (\<lambda>rm. ret (f rm))"

text \<open>The result of a conversion to a signed or an unsigned integer.\<close>

definition rv64_to_int :: "bool \<Rightarrow> ('a::len word \<times> u8) \<Rightarrow> ('a word \<times> u8) \<Rightarrow> ('d rv64_iss, u64) M" where
  "rv64_to_int sg i ui = (if sg then bindM (rv64_sf_call (\<lambda>_. i)) (\<lambda>r. ret (scast r)) else rv64_elem_of (rv64_sf_call (\<lambda>_. ui)))"

definition rv64_vfCvtXF :: "softfloat \<Rightarrow> softfloat_v \<Rightarrow> bool \<Rightarrow> ('d rv64_iss, 'd rv64_op4) M" where
  "rv64_vfCvtXF SF SV rtz = rv64_cvt_rm rtz (\<lambda>rm op2 op1 vd i.
     rv64_with_eew (\<lambda>(vd_eew, vd_signed, op2_eew, op2_signed, op1_eew, op1_signed). rv64_by_sew
       (rv64_to_int vd_signed (sf_f16_to_i16 SV rm (ucast op2)) (sf_f16_to_ui16 SV rm (ucast op2)))
       (rv64_to_int vd_signed (sf_f32_to_i32 SF rm (ucast op2)) (sf_f32_to_ui32 SF rm (ucast op2)))
       (rv64_to_int vd_signed (sf_f64_to_i64 SV rm op2) (sf_f64_to_ui64 SV rm op2))))"

definition rv64_vfCvtFX :: "softfloat \<Rightarrow> softfloat_v \<Rightarrow> 'd rv64_op2" where
  "rv64_vfCvtFX SF SV op2 op1 = rv64_with_eew (\<lambda>(vd_eew, vd_signed, op2_eew, op2_signed, op1_eew, op1_signed).
     let x = signExtend op2 op2_eew in
     if vd_eew \<ge> op2_eew
     then (if vd_eew = 16
           then rv64_sf_elem (\<lambda>rm. if vd_signed then sf_i32_to_f16 SF rm (ucast x) else sf_ui32_to_f16 SF rm (ucast op2))
           else if vd_eew = 32
           then rv64_sf_elem (\<lambda>rm. if vd_signed then sf_i32_to_f32 SF rm (ucast x) else sf_ui32_to_f32 SF rm (ucast op2))
           else if vd_eew = 64
           then rv64_sf_elem (\<lambda>rm. if vd_signed then sf_i64_to_f64 SV rm x else sf_ui64_to_f64 SV rm op2)
           else rv64_v_invalid)
     else (if vd_eew = 16
           then rv64_sf_elem (\<lambda>rm. if vd_signed then sf_i32_to_f16 SF rm (ucast op2) else sf_ui32_to_f16 SF rm (ucast op2))
           else if vd_eew = 32
           then rv64_sf_elem (\<lambda>rm. if vd_signed then sf_i64_to_f32 SV rm op2 else sf_ui64_to_f32 SV rm op2)
           else rv64_v_invalid))"

definition rv64_vfCvtwXF :: "softfloat \<Rightarrow> softfloat_v \<Rightarrow> bool \<Rightarrow> ('d rv64_iss, 'd rv64_op4) M" where
  "rv64_vfCvtwXF SF SV rtz = rv64_cvt_rm rtz (\<lambda>rm op2 op1 vd i.
     rv64_with_eew (\<lambda>(vd_eew, vd_signed, op2_eew, op2_signed, op1_eew, op1_signed). rv64_by_sew_w
       (rv64_to_int vd_signed (sf_f16_to_i32 SF rm (ucast op2)) (sf_f16_to_ui32 SF rm (ucast op2)))
       (rv64_to_int vd_signed (sf_f32_to_i64 SV rm (ucast op2)) (sf_f32_to_ui64 SV rm (ucast op2)))))"

definition rv64_vfCvtwFF :: "softfloat \<Rightarrow> 'd rv64_op4" where
  "rv64_vfCvtwFF SF op2 op1 vd i = rv64_by_sew_w (rv64_elem_of (rv64_widen16 SF (ucast op2))) (rv64_elem_of (rv64_widen32 SF (ucast op2)))"

definition rv64_vfCvtnXF :: "softfloat \<Rightarrow> softfloat_v \<Rightarrow> bool \<Rightarrow> ('d rv64_iss, 'd rv64_op4) M" where
  "rv64_vfCvtnXF SF SV rtz = rv64_cvt_rm rtz (\<lambda>rm op2 op1 vd i.
     rv64_with_eew (\<lambda>(vd_eew, vd_signed, op2_eew, op2_signed, op1_eew, op1_signed).
       if op2_eew = 16 then rv64_to_int vd_signed (sf_f16_to_i8 SV rm (ucast op2)) (sf_f16_to_ui8 SV rm (ucast op2))
       else if op2_eew = 32 then rv64_to_int vd_signed (sf_f32_to_i16 SV rm (ucast op2)) (sf_f32_to_ui16 SV rm (ucast op2))
       else if op2_eew = 64 then rv64_to_int vd_signed (sf_f64_to_i32 SF rm op2) (sf_f64_to_ui32 SF rm op2)
       else rv64_v_invalid))"

definition rv64_vfCvtnFF :: "softfloat \<Rightarrow> bool \<Rightarrow> ('d rv64_iss, 'd rv64_op4) M" where
  "rv64_vfCvtnFF SF roundOdd =
     seqM (whenM roundOdd (modifyM (\<lambda>s. s\<lparr>rv64_softfloat_roundingMode := softfloat_round_odd\<rparr>)))
     (ret (\<lambda>op2 op1 vd i. rv64_with_eew (\<lambda>(vd_eew, vd_signed, op2_eew, op2_signed, op1_eew, op1_signed).
        if op2_eew = 32 then rv64_sf_elem (\<lambda>rm. sf_f32_to_f16 SF rm (ucast op2))
        else if op2_eew = 64 then rv64_sf_elem (\<lambda>rm. sf_f64_to_f32 SF rm op2)
        else rv64_v_invalid)))"

section \<open>Reductions\<close>

definition rv64_vfRedSum :: "softfloat \<Rightarrow> 'd rv64_op4" where
  "rv64_vfRedSum SF op2 op1 i res = rv64_by_sew
     (rv64_sf_elem (\<lambda>rm. sf_f16_add SF rm (ucast res) (ucast op2)))
     (rv64_sf_elem (\<lambda>rm. sf_f32_add SF rm (ucast res) (ucast op2)))
     (rv64_sf_elem (\<lambda>rm. sf_f64_add SF rm (ucast res) (ucast op2)))"

definition rv64_vfwRedSum :: "softfloat \<Rightarrow> 'd rv64_op4" where
  "rv64_vfwRedSum SF op2 op1 i res = rv64_with_eew (\<lambda>(vd_eew, vd_signed, op2_eew, op2_signed, op1_eew, op1_signed).
     if vd_eew = 32 then bindM (rv64_widen16 SF (ucast op2)) (\<lambda>a. rv64_sf_elem (\<lambda>rm. sf_f32_add SF rm (ucast res) a))
     else if vd_eew = 64 then bindM (rv64_widen32 SF (ucast op2)) (\<lambda>a. rv64_sf_elem (\<lambda>rm. sf_f64_add SF rm res a))
     else rv64_v_invalid)"

definition rv64_vfRedMax :: "softfloat_v \<Rightarrow> 'd rv64_op4" where
  "rv64_vfRedMax SV op2 op1 i res = rv64_by_sew
     (rv64_sf_elem (\<lambda>_. sf_f16_max SV (ucast res) (ucast op2)))
     (rv64_sf_elem (\<lambda>_. sf_f32_max SV (ucast res) (ucast op2)))
     (rv64_sf_elem (\<lambda>_. sf_f64_max SV (ucast res) (ucast op2)))"

definition rv64_vfRedMin :: "softfloat_v \<Rightarrow> 'd rv64_op4" where
  "rv64_vfRedMin SV op2 op1 i res = rv64_by_sew
     (rv64_sf_elem (\<lambda>_. sf_f16_min SV (ucast res) (ucast op2)))
     (rv64_sf_elem (\<lambda>_. sf_f32_min SV (ucast res) (ucast op2)))
     (rv64_sf_elem (\<lambda>_. sf_f64_min SV (ucast res) (ucast op2)))"

end
