(* ===== verification/RV64_VDispatch.thy ===== *)
theory RV64_VDispatch
  imports RV64_VFloat VP_VDispatch
begin

text \<open>
  The vector cases of \<^verbatim>\<open>exec_steps\<close> (\<^verbatim>\<open>vp/src/core/rv64/iss_ctemplate.cpp\<close>) in the order of the source, in tables of
  consecutive cases, and their dispatch.
\<close>

text \<open>Every case prepares the unit, does its work and finishes.\<close>

definition rv64_v_op :: "bool \<Rightarrow> bool \<Rightarrow> ('d rv64_iss, unit) M \<Rightarrow> ('d rv64_iss, unit) M" where
  "rv64_v_op require_vill is_fp m = seqM (rv64_prepInstr True require_vill is_fp) (seqM m (rv64_finishInstr is_fp))"

abbreviation (input) rv64_v_any :: "('d rv64_iss, unit) M \<Rightarrow> ('d rv64_iss, unit) M" where "rv64_v_any \<equiv> rv64_v_op False False"
abbreviation (input) rv64_v_int :: "('d rv64_iss, unit) M \<Rightarrow> ('d rv64_iss, unit) M" where "rv64_v_int \<equiv> rv64_v_op True False"
abbreviation (input) rv64_v_fp :: "('d rv64_iss, unit) M \<Rightarrow> ('d rv64_iss, unit) M" where "rv64_v_fp \<equiv> rv64_v_op True True"

definition rv64_vsetvli :: "('d rv64_iss, unit) M" where
  "rv64_vsetvli = modifyM (\<lambda>s. rv64_v_set_operation (rd (rv64_instr s)) (rs1 (rv64_instr s)) (ucast (zimm_10 (rv64_instr s))) 0 s)"

definition rv64_vsetivli :: "('d rv64_iss, unit) M" where
  "rv64_vsetivli = modifyM (\<lambda>s. rv64_v_set_operation (rd (rv64_instr s)) 0 (ucast (zimm_9 (rv64_instr s))) (ucast (rs1 (rv64_instr s))) s)"

definition rv64_vsetvl :: "('d rv64_iss, unit) M" where
  "rv64_vsetvl = modifyM (\<lambda>s. rv64_v_set_operation (rd (rv64_instr s)) (rs1 (rv64_instr s)) (scast (rv64_rs2_val s)) 0 s)"

definition rv64_cases_VSETVLI :: "'d rv64_iss_env \<Rightarrow> (OpId \<times> ('d rv64_iss, unit) M) list" where
  "rv64_cases_VSETVLI E =
     [(VSETVLI, rv64_v_any (rv64_vsetvli)),
      (VSETIVLI, rv64_v_any (rv64_vsetivli)),
      (VSETVL, rv64_v_any (rv64_vsetvl)),
      (VLM_V, rv64_v_int (rv64_vLoadStore E v_load 8 ls_masked)),
      (VSM_V, rv64_v_int (rv64_vLoadStore E v_store 8 ls_masked)),
      (VLE8_V, rv64_v_int (rv64_vLoadStore E v_load 8 ls_standard)),
      (VLE16_V, rv64_v_int (rv64_vLoadStore E v_load 16 ls_standard)),
      (VLE32_V, rv64_v_int (rv64_vLoadStore E v_load 32 ls_standard)),
      (VLE64_V, rv64_v_int (rv64_vLoadStore E v_load 64 ls_standard)),
      (VSE8_V, rv64_v_int (rv64_vLoadStore E v_store 8 ls_standard)),
      (VSE16_V, rv64_v_int (rv64_vLoadStore E v_store 16 ls_standard)),
      (VSE32_V, rv64_v_int (rv64_vLoadStore E v_store 32 ls_standard)),
      (VSE64_V, rv64_v_int (rv64_vLoadStore E v_store 64 ls_standard)),
      (VLSE8_V, rv64_v_int (rv64_vLoadStore E v_load 8 ls_standard_reg)),
      (VLSE16_V, rv64_v_int (rv64_vLoadStore E v_load 16 ls_standard_reg)),
      (VLSE32_V, rv64_v_int (rv64_vLoadStore E v_load 32 ls_standard_reg)),
      (VLSE64_V, rv64_v_int (rv64_vLoadStore E v_load 64 ls_standard_reg)),
      (VSSE8_V, rv64_v_int (rv64_vLoadStore E v_store 8 ls_standard_reg)),
      (VSSE16_V, rv64_v_int (rv64_vLoadStore E v_store 16 ls_standard_reg))]"

definition rv64_cases_VSSE32_V :: "'d rv64_iss_env \<Rightarrow> (OpId \<times> ('d rv64_iss, unit) M) list" where
  "rv64_cases_VSSE32_V E =
     [(VSSE32_V, rv64_v_int (rv64_vLoadStore E v_store 32 ls_standard_reg)),
      (VSSE64_V, rv64_v_int (rv64_vLoadStore E v_store 64 ls_standard_reg)),
      (VLUXEI8_V, rv64_v_int (rv64_vLoadStore E v_load 8 ls_indexed)),
      (VLUXEI16_V, rv64_v_int (rv64_vLoadStore E v_load 16 ls_indexed)),
      (VLUXEI32_V, rv64_v_int (rv64_vLoadStore E v_load 32 ls_indexed)),
      (VLUXEI64_V, rv64_v_int (rv64_vLoadStore E v_load 64 ls_indexed)),
      (VLOXEI8_V, rv64_v_int (rv64_vLoadStore E v_load 8 ls_indexed)),
      (VLOXEI16_V, rv64_v_int (rv64_vLoadStore E v_load 16 ls_indexed)),
      (VLOXEI32_V, rv64_v_int (rv64_vLoadStore E v_load 32 ls_indexed)),
      (VLOXEI64_V, rv64_v_int (rv64_vLoadStore E v_load 64 ls_indexed)),
      (VSUXEI8_V, rv64_v_int (rv64_vLoadStore E v_store 8 ls_indexed)),
      (VSUXEI16_V, rv64_v_int (rv64_vLoadStore E v_store 16 ls_indexed)),
      (VSUXEI32_V, rv64_v_int (rv64_vLoadStore E v_store 32 ls_indexed)),
      (VSUXEI64_V, rv64_v_int (rv64_vLoadStore E v_store 64 ls_indexed)),
      (VSOXEI8_V, rv64_v_int (rv64_vLoadStore E v_store 8 ls_indexed)),
      (VSOXEI16_V, rv64_v_int (rv64_vLoadStore E v_store 16 ls_indexed)),
      (VSOXEI32_V, rv64_v_int (rv64_vLoadStore E v_store 32 ls_indexed)),
      (VSOXEI64_V, rv64_v_int (rv64_vLoadStore E v_store 64 ls_indexed))]"

definition rv64_cases_VLE8FF_V :: "'d rv64_iss_env \<Rightarrow> (OpId \<times> ('d rv64_iss, unit) M) list" where
  "rv64_cases_VLE8FF_V E =
     [(VLE8FF_V, rv64_v_int (rv64_vLoadStore E v_load 8 ls_fofl)),
      (VLE16FF_V, rv64_v_int (rv64_vLoadStore E v_load 16 ls_fofl)),
      (VLE32FF_V, rv64_v_int (rv64_vLoadStore E v_load 32 ls_fofl)),
      (VLE64FF_V, rv64_v_int (rv64_vLoadStore E v_load 64 ls_fofl)),
      (VLSEG2E8_V, rv64_v_int (rv64_vLoadStore E v_load 8 ls_standard)),
      (VLSEG2E16_V, rv64_v_int (rv64_vLoadStore E v_load 16 ls_standard)),
      (VLSEG2E32_V, rv64_v_int (rv64_vLoadStore E v_load 32 ls_standard)),
      (VLSEG2E64_V, rv64_v_int (rv64_vLoadStore E v_load 64 ls_standard)),
      (VSSEG2E8_V, rv64_v_int (rv64_vLoadStore E v_store 8 ls_standard)),
      (VSSEG2E16_V, rv64_v_int (rv64_vLoadStore E v_store 16 ls_standard)),
      (VSSEG2E32_V, rv64_v_int (rv64_vLoadStore E v_store 32 ls_standard)),
      (VSSEG2E64_V, rv64_v_int (rv64_vLoadStore E v_store 64 ls_standard)),
      (VLSSEG2E8_V, rv64_v_int (rv64_vLoadStore E v_load 8 ls_standard_reg)),
      (VLSSEG2E16_V, rv64_v_int (rv64_vLoadStore E v_load 16 ls_standard_reg)),
      (VLSSEG2E32_V, rv64_v_int (rv64_vLoadStore E v_load 32 ls_standard_reg)),
      (VLSSEG2E64_V, rv64_v_int (rv64_vLoadStore E v_load 64 ls_standard_reg)),
      (VSSSEG2E8_V, rv64_v_int (rv64_vLoadStore E v_store 8 ls_standard_reg)),
      (VSSSEG2E16_V, rv64_v_int (rv64_vLoadStore E v_store 16 ls_standard_reg))]"

definition rv64_cases_VSSSEG2E32_V :: "'d rv64_iss_env \<Rightarrow> (OpId \<times> ('d rv64_iss, unit) M) list" where
  "rv64_cases_VSSSEG2E32_V E =
     [(VSSSEG2E32_V, rv64_v_int (rv64_vLoadStore E v_store 32 ls_standard_reg)),
      (VSSSEG2E64_V, rv64_v_int (rv64_vLoadStore E v_store 64 ls_standard_reg)),
      (VLUXSEG2EI8_V, rv64_v_int (rv64_vLoadStore E v_load 8 ls_indexed)),
      (VLUXSEG2EI16_V, rv64_v_int (rv64_vLoadStore E v_load 16 ls_indexed)),
      (VLUXSEG2EI32_V, rv64_v_int (rv64_vLoadStore E v_load 32 ls_indexed)),
      (VLUXSEG2EI64_V, rv64_v_int (rv64_vLoadStore E v_load 64 ls_indexed)),
      (VLOXSEG2EI8_V, rv64_v_int (rv64_vLoadStore E v_load 8 ls_indexed)),
      (VLOXSEG2EI16_V, rv64_v_int (rv64_vLoadStore E v_load 16 ls_indexed)),
      (VLOXSEG2EI32_V, rv64_v_int (rv64_vLoadStore E v_load 32 ls_indexed)),
      (VLOXSEG2EI64_V, rv64_v_int (rv64_vLoadStore E v_load 64 ls_indexed)),
      (VSUXSEG2EI8_V, rv64_v_int (rv64_vLoadStore E v_store 8 ls_indexed)),
      (VSUXSEG2EI16_V, rv64_v_int (rv64_vLoadStore E v_store 16 ls_indexed)),
      (VSUXSEG2EI32_V, rv64_v_int (rv64_vLoadStore E v_store 32 ls_indexed)),
      (VSUXSEG2EI64_V, rv64_v_int (rv64_vLoadStore E v_store 64 ls_indexed)),
      (VSOXSEG2EI8_V, rv64_v_int (rv64_vLoadStore E v_store 8 ls_indexed)),
      (VSOXSEG2EI16_V, rv64_v_int (rv64_vLoadStore E v_store 16 ls_indexed)),
      (VSOXSEG2EI32_V, rv64_v_int (rv64_vLoadStore E v_store 32 ls_indexed)),
      (VSOXSEG2EI64_V, rv64_v_int (rv64_vLoadStore E v_store 64 ls_indexed))]"

definition rv64_cases_VLSEG2E8FF_V :: "'d rv64_iss_env \<Rightarrow> (OpId \<times> ('d rv64_iss, unit) M) list" where
  "rv64_cases_VLSEG2E8FF_V E =
     [(VLSEG2E8FF_V, rv64_v_int (rv64_vLoadStore E v_load 8 ls_fofl)),
      (VLSEG2E16FF_V, rv64_v_int (rv64_vLoadStore E v_load 16 ls_fofl)),
      (VLSEG2E32FF_V, rv64_v_int (rv64_vLoadStore E v_load 32 ls_fofl)),
      (VLSEG2E64FF_V, rv64_v_int (rv64_vLoadStore E v_load 64 ls_fofl)),
      (VLSEG3E8_V, rv64_v_int (rv64_vLoadStore E v_load 8 ls_standard)),
      (VLSEG3E16_V, rv64_v_int (rv64_vLoadStore E v_load 16 ls_standard)),
      (VLSEG3E32_V, rv64_v_int (rv64_vLoadStore E v_load 32 ls_standard)),
      (VLSEG3E64_V, rv64_v_int (rv64_vLoadStore E v_load 64 ls_standard)),
      (VSSEG3E8_V, rv64_v_int (rv64_vLoadStore E v_store 8 ls_standard)),
      (VSSEG3E16_V, rv64_v_int (rv64_vLoadStore E v_store 16 ls_standard)),
      (VSSEG3E32_V, rv64_v_int (rv64_vLoadStore E v_store 32 ls_standard)),
      (VSSEG3E64_V, rv64_v_int (rv64_vLoadStore E v_store 64 ls_standard)),
      (VLSSEG3E8_V, rv64_v_int (rv64_vLoadStore E v_load 8 ls_standard_reg)),
      (VLSSEG3E16_V, rv64_v_int (rv64_vLoadStore E v_load 16 ls_standard_reg)),
      (VLSSEG3E32_V, rv64_v_int (rv64_vLoadStore E v_load 32 ls_standard_reg)),
      (VLSSEG3E64_V, rv64_v_int (rv64_vLoadStore E v_load 64 ls_standard_reg)),
      (VSSSEG3E8_V, rv64_v_int (rv64_vLoadStore E v_store 8 ls_standard_reg)),
      (VSSSEG3E16_V, rv64_v_int (rv64_vLoadStore E v_store 16 ls_standard_reg))]"

definition rv64_cases_VSSSEG3E32_V :: "'d rv64_iss_env \<Rightarrow> (OpId \<times> ('d rv64_iss, unit) M) list" where
  "rv64_cases_VSSSEG3E32_V E =
     [(VSSSEG3E32_V, rv64_v_int (rv64_vLoadStore E v_store 32 ls_standard_reg)),
      (VSSSEG3E64_V, rv64_v_int (rv64_vLoadStore E v_store 64 ls_standard_reg)),
      (VLUXSEG3EI8_V, rv64_v_int (rv64_vLoadStore E v_load 8 ls_indexed)),
      (VLUXSEG3EI16_V, rv64_v_int (rv64_vLoadStore E v_load 16 ls_indexed)),
      (VLUXSEG3EI32_V, rv64_v_int (rv64_vLoadStore E v_load 32 ls_indexed)),
      (VLUXSEG3EI64_V, rv64_v_int (rv64_vLoadStore E v_load 64 ls_indexed)),
      (VLOXSEG3EI8_V, rv64_v_int (rv64_vLoadStore E v_load 8 ls_indexed)),
      (VLOXSEG3EI16_V, rv64_v_int (rv64_vLoadStore E v_load 16 ls_indexed)),
      (VLOXSEG3EI32_V, rv64_v_int (rv64_vLoadStore E v_load 32 ls_indexed)),
      (VLOXSEG3EI64_V, rv64_v_int (rv64_vLoadStore E v_load 64 ls_indexed)),
      (VSUXSEG3EI8_V, rv64_v_int (rv64_vLoadStore E v_store 8 ls_indexed)),
      (VSUXSEG3EI16_V, rv64_v_int (rv64_vLoadStore E v_store 16 ls_indexed)),
      (VSUXSEG3EI32_V, rv64_v_int (rv64_vLoadStore E v_store 32 ls_indexed)),
      (VSUXSEG3EI64_V, rv64_v_int (rv64_vLoadStore E v_store 64 ls_indexed)),
      (VSOXSEG3EI8_V, rv64_v_int (rv64_vLoadStore E v_store 8 ls_indexed)),
      (VSOXSEG3EI16_V, rv64_v_int (rv64_vLoadStore E v_store 16 ls_indexed)),
      (VSOXSEG3EI32_V, rv64_v_int (rv64_vLoadStore E v_store 32 ls_indexed)),
      (VSOXSEG3EI64_V, rv64_v_int (rv64_vLoadStore E v_store 64 ls_indexed))]"

definition rv64_cases_VLSEG3E8FF_V :: "'d rv64_iss_env \<Rightarrow> (OpId \<times> ('d rv64_iss, unit) M) list" where
  "rv64_cases_VLSEG3E8FF_V E =
     [(VLSEG3E8FF_V, rv64_v_int (rv64_vLoadStore E v_load 8 ls_fofl)),
      (VLSEG3E16FF_V, rv64_v_int (rv64_vLoadStore E v_load 16 ls_fofl)),
      (VLSEG3E32FF_V, rv64_v_int (rv64_vLoadStore E v_load 32 ls_fofl)),
      (VLSEG3E64FF_V, rv64_v_int (rv64_vLoadStore E v_load 64 ls_fofl)),
      (VLSEG4E8_V, rv64_v_int (rv64_vLoadStore E v_load 8 ls_standard)),
      (VLSEG4E16_V, rv64_v_int (rv64_vLoadStore E v_load 16 ls_standard)),
      (VLSEG4E32_V, rv64_v_int (rv64_vLoadStore E v_load 32 ls_standard)),
      (VLSEG4E64_V, rv64_v_int (rv64_vLoadStore E v_load 64 ls_standard)),
      (VSSEG4E8_V, rv64_v_int (rv64_vLoadStore E v_store 8 ls_standard)),
      (VSSEG4E16_V, rv64_v_int (rv64_vLoadStore E v_store 16 ls_standard)),
      (VSSEG4E32_V, rv64_v_int (rv64_vLoadStore E v_store 32 ls_standard)),
      (VSSEG4E64_V, rv64_v_int (rv64_vLoadStore E v_store 64 ls_standard)),
      (VLSSEG4E8_V, rv64_v_int (rv64_vLoadStore E v_load 8 ls_standard_reg)),
      (VLSSEG4E16_V, rv64_v_int (rv64_vLoadStore E v_load 16 ls_standard_reg)),
      (VLSSEG4E32_V, rv64_v_int (rv64_vLoadStore E v_load 32 ls_standard_reg)),
      (VLSSEG4E64_V, rv64_v_int (rv64_vLoadStore E v_load 64 ls_standard_reg)),
      (VSSSEG4E8_V, rv64_v_int (rv64_vLoadStore E v_store 8 ls_standard_reg)),
      (VSSSEG4E16_V, rv64_v_int (rv64_vLoadStore E v_store 16 ls_standard_reg))]"

definition rv64_cases_VSSSEG4E32_V :: "'d rv64_iss_env \<Rightarrow> (OpId \<times> ('d rv64_iss, unit) M) list" where
  "rv64_cases_VSSSEG4E32_V E =
     [(VSSSEG4E32_V, rv64_v_int (rv64_vLoadStore E v_store 32 ls_standard_reg)),
      (VSSSEG4E64_V, rv64_v_int (rv64_vLoadStore E v_store 64 ls_standard_reg)),
      (VLUXSEG4EI8_V, rv64_v_int (rv64_vLoadStore E v_load 8 ls_indexed)),
      (VLUXSEG4EI16_V, rv64_v_int (rv64_vLoadStore E v_load 16 ls_indexed)),
      (VLUXSEG4EI32_V, rv64_v_int (rv64_vLoadStore E v_load 32 ls_indexed)),
      (VLUXSEG4EI64_V, rv64_v_int (rv64_vLoadStore E v_load 64 ls_indexed)),
      (VLOXSEG4EI8_V, rv64_v_int (rv64_vLoadStore E v_load 8 ls_indexed)),
      (VLOXSEG4EI16_V, rv64_v_int (rv64_vLoadStore E v_load 16 ls_indexed)),
      (VLOXSEG4EI32_V, rv64_v_int (rv64_vLoadStore E v_load 32 ls_indexed)),
      (VLOXSEG4EI64_V, rv64_v_int (rv64_vLoadStore E v_load 64 ls_indexed)),
      (VSUXSEG4EI8_V, rv64_v_int (rv64_vLoadStore E v_store 8 ls_indexed)),
      (VSUXSEG4EI16_V, rv64_v_int (rv64_vLoadStore E v_store 16 ls_indexed)),
      (VSUXSEG4EI32_V, rv64_v_int (rv64_vLoadStore E v_store 32 ls_indexed)),
      (VSUXSEG4EI64_V, rv64_v_int (rv64_vLoadStore E v_store 64 ls_indexed)),
      (VSOXSEG4EI8_V, rv64_v_int (rv64_vLoadStore E v_store 8 ls_indexed)),
      (VSOXSEG4EI16_V, rv64_v_int (rv64_vLoadStore E v_store 16 ls_indexed)),
      (VSOXSEG4EI32_V, rv64_v_int (rv64_vLoadStore E v_store 32 ls_indexed)),
      (VSOXSEG4EI64_V, rv64_v_int (rv64_vLoadStore E v_store 64 ls_indexed))]"

definition rv64_cases_VLSEG4E8FF_V :: "'d rv64_iss_env \<Rightarrow> (OpId \<times> ('d rv64_iss, unit) M) list" where
  "rv64_cases_VLSEG4E8FF_V E =
     [(VLSEG4E8FF_V, rv64_v_int (rv64_vLoadStore E v_load 8 ls_fofl)),
      (VLSEG4E16FF_V, rv64_v_int (rv64_vLoadStore E v_load 16 ls_fofl)),
      (VLSEG4E32FF_V, rv64_v_int (rv64_vLoadStore E v_load 32 ls_fofl)),
      (VLSEG4E64FF_V, rv64_v_int (rv64_vLoadStore E v_load 64 ls_fofl)),
      (VLSEG5E8_V, rv64_v_int (rv64_vLoadStore E v_load 8 ls_standard)),
      (VLSEG5E16_V, rv64_v_int (rv64_vLoadStore E v_load 16 ls_standard)),
      (VLSEG5E32_V, rv64_v_int (rv64_vLoadStore E v_load 32 ls_standard)),
      (VLSEG5E64_V, rv64_v_int (rv64_vLoadStore E v_load 64 ls_standard)),
      (VSSEG5E8_V, rv64_v_int (rv64_vLoadStore E v_store 8 ls_standard)),
      (VSSEG5E16_V, rv64_v_int (rv64_vLoadStore E v_store 16 ls_standard)),
      (VSSEG5E32_V, rv64_v_int (rv64_vLoadStore E v_store 32 ls_standard)),
      (VSSEG5E64_V, rv64_v_int (rv64_vLoadStore E v_store 64 ls_standard)),
      (VLSSEG5E8_V, rv64_v_int (rv64_vLoadStore E v_load 8 ls_standard_reg)),
      (VLSSEG5E16_V, rv64_v_int (rv64_vLoadStore E v_load 16 ls_standard_reg)),
      (VLSSEG5E32_V, rv64_v_int (rv64_vLoadStore E v_load 32 ls_standard_reg)),
      (VLSSEG5E64_V, rv64_v_int (rv64_vLoadStore E v_load 64 ls_standard_reg)),
      (VSSSEG5E8_V, rv64_v_int (rv64_vLoadStore E v_store 8 ls_standard_reg)),
      (VSSSEG5E16_V, rv64_v_int (rv64_vLoadStore E v_store 16 ls_standard_reg))]"

definition rv64_cases_VSSSEG5E32_V :: "'d rv64_iss_env \<Rightarrow> (OpId \<times> ('d rv64_iss, unit) M) list" where
  "rv64_cases_VSSSEG5E32_V E =
     [(VSSSEG5E32_V, rv64_v_int (rv64_vLoadStore E v_store 32 ls_standard_reg)),
      (VSSSEG5E64_V, rv64_v_int (rv64_vLoadStore E v_store 64 ls_standard_reg)),
      (VLUXSEG5EI8_V, rv64_v_int (rv64_vLoadStore E v_load 8 ls_indexed)),
      (VLUXSEG5EI16_V, rv64_v_int (rv64_vLoadStore E v_load 16 ls_indexed)),
      (VLUXSEG5EI32_V, rv64_v_int (rv64_vLoadStore E v_load 32 ls_indexed)),
      (VLUXSEG5EI64_V, rv64_v_int (rv64_vLoadStore E v_load 64 ls_indexed)),
      (VLOXSEG5EI8_V, rv64_v_int (rv64_vLoadStore E v_load 8 ls_indexed)),
      (VLOXSEG5EI16_V, rv64_v_int (rv64_vLoadStore E v_load 16 ls_indexed)),
      (VLOXSEG5EI32_V, rv64_v_int (rv64_vLoadStore E v_load 32 ls_indexed)),
      (VLOXSEG5EI64_V, rv64_v_int (rv64_vLoadStore E v_load 64 ls_indexed)),
      (VSUXSEG5EI8_V, rv64_v_int (rv64_vLoadStore E v_store 8 ls_indexed)),
      (VSUXSEG5EI16_V, rv64_v_int (rv64_vLoadStore E v_store 16 ls_indexed)),
      (VSUXSEG5EI32_V, rv64_v_int (rv64_vLoadStore E v_store 32 ls_indexed)),
      (VSUXSEG5EI64_V, rv64_v_int (rv64_vLoadStore E v_store 64 ls_indexed)),
      (VSOXSEG5EI8_V, rv64_v_int (rv64_vLoadStore E v_store 8 ls_indexed)),
      (VSOXSEG5EI16_V, rv64_v_int (rv64_vLoadStore E v_store 16 ls_indexed)),
      (VSOXSEG5EI32_V, rv64_v_int (rv64_vLoadStore E v_store 32 ls_indexed)),
      (VSOXSEG5EI64_V, rv64_v_int (rv64_vLoadStore E v_store 64 ls_indexed))]"

definition rv64_cases_VLSEG5E8FF_V :: "'d rv64_iss_env \<Rightarrow> (OpId \<times> ('d rv64_iss, unit) M) list" where
  "rv64_cases_VLSEG5E8FF_V E =
     [(VLSEG5E8FF_V, rv64_v_int (rv64_vLoadStore E v_load 8 ls_fofl)),
      (VLSEG5E16FF_V, rv64_v_int (rv64_vLoadStore E v_load 16 ls_fofl)),
      (VLSEG5E32FF_V, rv64_v_int (rv64_vLoadStore E v_load 32 ls_fofl)),
      (VLSEG5E64FF_V, rv64_v_int (rv64_vLoadStore E v_load 64 ls_fofl)),
      (VLSEG6E8_V, rv64_v_int (rv64_vLoadStore E v_load 8 ls_standard)),
      (VLSEG6E16_V, rv64_v_int (rv64_vLoadStore E v_load 16 ls_standard)),
      (VLSEG6E32_V, rv64_v_int (rv64_vLoadStore E v_load 32 ls_standard)),
      (VLSEG6E64_V, rv64_v_int (rv64_vLoadStore E v_load 64 ls_standard)),
      (VSSEG6E8_V, rv64_v_int (rv64_vLoadStore E v_store 8 ls_standard)),
      (VSSEG6E16_V, rv64_v_int (rv64_vLoadStore E v_store 16 ls_standard)),
      (VSSEG6E32_V, rv64_v_int (rv64_vLoadStore E v_store 32 ls_standard)),
      (VSSEG6E64_V, rv64_v_int (rv64_vLoadStore E v_store 64 ls_standard)),
      (VLSSEG6E8_V, rv64_v_int (rv64_vLoadStore E v_load 8 ls_standard_reg)),
      (VLSSEG6E16_V, rv64_v_int (rv64_vLoadStore E v_load 16 ls_standard_reg)),
      (VLSSEG6E32_V, rv64_v_int (rv64_vLoadStore E v_load 32 ls_standard_reg)),
      (VLSSEG6E64_V, rv64_v_int (rv64_vLoadStore E v_load 64 ls_standard_reg)),
      (VSSSEG6E8_V, rv64_v_int (rv64_vLoadStore E v_store 8 ls_standard_reg)),
      (VSSSEG6E16_V, rv64_v_int (rv64_vLoadStore E v_store 16 ls_standard_reg))]"

definition rv64_cases_VSSSEG6E32_V :: "'d rv64_iss_env \<Rightarrow> (OpId \<times> ('d rv64_iss, unit) M) list" where
  "rv64_cases_VSSSEG6E32_V E =
     [(VSSSEG6E32_V, rv64_v_int (rv64_vLoadStore E v_store 32 ls_standard_reg)),
      (VSSSEG6E64_V, rv64_v_int (rv64_vLoadStore E v_store 64 ls_standard_reg)),
      (VLUXSEG6EI8_V, rv64_v_int (rv64_vLoadStore E v_load 8 ls_indexed)),
      (VLUXSEG6EI16_V, rv64_v_int (rv64_vLoadStore E v_load 16 ls_indexed)),
      (VLUXSEG6EI32_V, rv64_v_int (rv64_vLoadStore E v_load 32 ls_indexed)),
      (VLUXSEG6EI64_V, rv64_v_int (rv64_vLoadStore E v_load 64 ls_indexed)),
      (VLOXSEG6EI8_V, rv64_v_int (rv64_vLoadStore E v_load 8 ls_indexed)),
      (VLOXSEG6EI16_V, rv64_v_int (rv64_vLoadStore E v_load 16 ls_indexed)),
      (VLOXSEG6EI32_V, rv64_v_int (rv64_vLoadStore E v_load 32 ls_indexed)),
      (VLOXSEG6EI64_V, rv64_v_int (rv64_vLoadStore E v_load 64 ls_indexed)),
      (VSUXSEG6EI8_V, rv64_v_int (rv64_vLoadStore E v_store 8 ls_indexed)),
      (VSUXSEG6EI16_V, rv64_v_int (rv64_vLoadStore E v_store 16 ls_indexed)),
      (VSUXSEG6EI32_V, rv64_v_int (rv64_vLoadStore E v_store 32 ls_indexed)),
      (VSUXSEG6EI64_V, rv64_v_int (rv64_vLoadStore E v_store 64 ls_indexed)),
      (VSOXSEG6EI8_V, rv64_v_int (rv64_vLoadStore E v_store 8 ls_indexed)),
      (VSOXSEG6EI16_V, rv64_v_int (rv64_vLoadStore E v_store 16 ls_indexed)),
      (VSOXSEG6EI32_V, rv64_v_int (rv64_vLoadStore E v_store 32 ls_indexed)),
      (VSOXSEG6EI64_V, rv64_v_int (rv64_vLoadStore E v_store 64 ls_indexed))]"

definition rv64_cases_VLSEG6E8FF_V :: "'d rv64_iss_env \<Rightarrow> (OpId \<times> ('d rv64_iss, unit) M) list" where
  "rv64_cases_VLSEG6E8FF_V E =
     [(VLSEG6E8FF_V, rv64_v_int (rv64_vLoadStore E v_load 8 ls_fofl)),
      (VLSEG6E16FF_V, rv64_v_int (rv64_vLoadStore E v_load 16 ls_fofl)),
      (VLSEG6E32FF_V, rv64_v_int (rv64_vLoadStore E v_load 32 ls_fofl)),
      (VLSEG6E64FF_V, rv64_v_int (rv64_vLoadStore E v_load 64 ls_fofl)),
      (VLSEG7E8_V, rv64_v_int (rv64_vLoadStore E v_load 8 ls_standard)),
      (VLSEG7E16_V, rv64_v_int (rv64_vLoadStore E v_load 16 ls_standard)),
      (VLSEG7E32_V, rv64_v_int (rv64_vLoadStore E v_load 32 ls_standard)),
      (VLSEG7E64_V, rv64_v_int (rv64_vLoadStore E v_load 64 ls_standard)),
      (VSSEG7E8_V, rv64_v_int (rv64_vLoadStore E v_store 8 ls_standard)),
      (VSSEG7E16_V, rv64_v_int (rv64_vLoadStore E v_store 16 ls_standard)),
      (VSSEG7E32_V, rv64_v_int (rv64_vLoadStore E v_store 32 ls_standard)),
      (VSSEG7E64_V, rv64_v_int (rv64_vLoadStore E v_store 64 ls_standard)),
      (VLSSEG7E8_V, rv64_v_int (rv64_vLoadStore E v_load 8 ls_standard_reg)),
      (VLSSEG7E16_V, rv64_v_int (rv64_vLoadStore E v_load 16 ls_standard_reg)),
      (VLSSEG7E32_V, rv64_v_int (rv64_vLoadStore E v_load 32 ls_standard_reg)),
      (VLSSEG7E64_V, rv64_v_int (rv64_vLoadStore E v_load 64 ls_standard_reg)),
      (VSSSEG7E8_V, rv64_v_int (rv64_vLoadStore E v_store 8 ls_standard_reg)),
      (VSSSEG7E16_V, rv64_v_int (rv64_vLoadStore E v_store 16 ls_standard_reg))]"

definition rv64_cases_VSSSEG7E32_V :: "'d rv64_iss_env \<Rightarrow> (OpId \<times> ('d rv64_iss, unit) M) list" where
  "rv64_cases_VSSSEG7E32_V E =
     [(VSSSEG7E32_V, rv64_v_int (rv64_vLoadStore E v_store 32 ls_standard_reg)),
      (VSSSEG7E64_V, rv64_v_int (rv64_vLoadStore E v_store 64 ls_standard_reg)),
      (VLUXSEG7EI8_V, rv64_v_int (rv64_vLoadStore E v_load 8 ls_indexed)),
      (VLUXSEG7EI16_V, rv64_v_int (rv64_vLoadStore E v_load 16 ls_indexed)),
      (VLUXSEG7EI32_V, rv64_v_int (rv64_vLoadStore E v_load 32 ls_indexed)),
      (VLUXSEG7EI64_V, rv64_v_int (rv64_vLoadStore E v_load 64 ls_indexed)),
      (VLOXSEG7EI8_V, rv64_v_int (rv64_vLoadStore E v_load 8 ls_indexed)),
      (VLOXSEG7EI16_V, rv64_v_int (rv64_vLoadStore E v_load 16 ls_indexed)),
      (VLOXSEG7EI32_V, rv64_v_int (rv64_vLoadStore E v_load 32 ls_indexed)),
      (VLOXSEG7EI64_V, rv64_v_int (rv64_vLoadStore E v_load 64 ls_indexed)),
      (VSUXSEG7EI8_V, rv64_v_int (rv64_vLoadStore E v_store 8 ls_indexed)),
      (VSUXSEG7EI16_V, rv64_v_int (rv64_vLoadStore E v_store 16 ls_indexed)),
      (VSUXSEG7EI32_V, rv64_v_int (rv64_vLoadStore E v_store 32 ls_indexed)),
      (VSUXSEG7EI64_V, rv64_v_int (rv64_vLoadStore E v_store 64 ls_indexed)),
      (VSOXSEG7EI8_V, rv64_v_int (rv64_vLoadStore E v_store 8 ls_indexed)),
      (VSOXSEG7EI16_V, rv64_v_int (rv64_vLoadStore E v_store 16 ls_indexed)),
      (VSOXSEG7EI32_V, rv64_v_int (rv64_vLoadStore E v_store 32 ls_indexed)),
      (VSOXSEG7EI64_V, rv64_v_int (rv64_vLoadStore E v_store 64 ls_indexed))]"

definition rv64_cases_VLSEG7E8FF_V :: "'d rv64_iss_env \<Rightarrow> (OpId \<times> ('d rv64_iss, unit) M) list" where
  "rv64_cases_VLSEG7E8FF_V E =
     [(VLSEG7E8FF_V, rv64_v_int (rv64_vLoadStore E v_load 8 ls_fofl)),
      (VLSEG7E16FF_V, rv64_v_int (rv64_vLoadStore E v_load 16 ls_fofl)),
      (VLSEG7E32FF_V, rv64_v_int (rv64_vLoadStore E v_load 32 ls_fofl)),
      (VLSEG7E64FF_V, rv64_v_int (rv64_vLoadStore E v_load 64 ls_fofl)),
      (VLSEG8E8_V, rv64_v_int (rv64_vLoadStore E v_load 8 ls_standard)),
      (VLSEG8E16_V, rv64_v_int (rv64_vLoadStore E v_load 16 ls_standard)),
      (VLSEG8E32_V, rv64_v_int (rv64_vLoadStore E v_load 32 ls_standard)),
      (VLSEG8E64_V, rv64_v_int (rv64_vLoadStore E v_load 64 ls_standard)),
      (VSSEG8E8_V, rv64_v_int (rv64_vLoadStore E v_store 8 ls_standard)),
      (VSSEG8E16_V, rv64_v_int (rv64_vLoadStore E v_store 16 ls_standard)),
      (VSSEG8E32_V, rv64_v_int (rv64_vLoadStore E v_store 32 ls_standard)),
      (VSSEG8E64_V, rv64_v_int (rv64_vLoadStore E v_store 64 ls_standard)),
      (VLSSEG8E8_V, rv64_v_int (rv64_vLoadStore E v_load 8 ls_standard_reg)),
      (VLSSEG8E16_V, rv64_v_int (rv64_vLoadStore E v_load 16 ls_standard_reg)),
      (VLSSEG8E32_V, rv64_v_int (rv64_vLoadStore E v_load 32 ls_standard_reg)),
      (VLSSEG8E64_V, rv64_v_int (rv64_vLoadStore E v_load 64 ls_standard_reg)),
      (VSSSEG8E8_V, rv64_v_int (rv64_vLoadStore E v_store 8 ls_standard_reg)),
      (VSSSEG8E16_V, rv64_v_int (rv64_vLoadStore E v_store 16 ls_standard_reg))]"

definition rv64_cases_VSSSEG8E32_V :: "'d rv64_iss_env \<Rightarrow> (OpId \<times> ('d rv64_iss, unit) M) list" where
  "rv64_cases_VSSSEG8E32_V E =
     [(VSSSEG8E32_V, rv64_v_int (rv64_vLoadStore E v_store 32 ls_standard_reg)),
      (VSSSEG8E64_V, rv64_v_int (rv64_vLoadStore E v_store 64 ls_standard_reg)),
      (VLUXSEG8EI8_V, rv64_v_int (rv64_vLoadStore E v_load 8 ls_indexed)),
      (VLUXSEG8EI16_V, rv64_v_int (rv64_vLoadStore E v_load 16 ls_indexed)),
      (VLUXSEG8EI32_V, rv64_v_int (rv64_vLoadStore E v_load 32 ls_indexed)),
      (VLUXSEG8EI64_V, rv64_v_int (rv64_vLoadStore E v_load 64 ls_indexed)),
      (VLOXSEG8EI8_V, rv64_v_int (rv64_vLoadStore E v_load 8 ls_indexed)),
      (VLOXSEG8EI16_V, rv64_v_int (rv64_vLoadStore E v_load 16 ls_indexed)),
      (VLOXSEG8EI32_V, rv64_v_int (rv64_vLoadStore E v_load 32 ls_indexed)),
      (VLOXSEG8EI64_V, rv64_v_int (rv64_vLoadStore E v_load 64 ls_indexed)),
      (VSUXSEG8EI8_V, rv64_v_int (rv64_vLoadStore E v_store 8 ls_indexed)),
      (VSUXSEG8EI16_V, rv64_v_int (rv64_vLoadStore E v_store 16 ls_indexed)),
      (VSUXSEG8EI32_V, rv64_v_int (rv64_vLoadStore E v_store 32 ls_indexed)),
      (VSUXSEG8EI64_V, rv64_v_int (rv64_vLoadStore E v_store 64 ls_indexed)),
      (VSOXSEG8EI8_V, rv64_v_int (rv64_vLoadStore E v_store 8 ls_indexed)),
      (VSOXSEG8EI16_V, rv64_v_int (rv64_vLoadStore E v_store 16 ls_indexed)),
      (VSOXSEG8EI32_V, rv64_v_int (rv64_vLoadStore E v_store 32 ls_indexed)),
      (VSOXSEG8EI64_V, rv64_v_int (rv64_vLoadStore E v_store 64 ls_indexed))]"

definition rv64_cases_VLSEG8E8FF_V :: "'d rv64_iss_env \<Rightarrow> (OpId \<times> ('d rv64_iss, unit) M) list" where
  "rv64_cases_VLSEG8E8FF_V E =
     [(VLSEG8E8FF_V, rv64_v_int (rv64_vLoadStore E v_load 8 ls_fofl)),
      (VLSEG8E16FF_V, rv64_v_int (rv64_vLoadStore E v_load 16 ls_fofl)),
      (VLSEG8E32FF_V, rv64_v_int (rv64_vLoadStore E v_load 32 ls_fofl)),
      (VLSEG8E64FF_V, rv64_v_int (rv64_vLoadStore E v_load 64 ls_fofl)),
      (VL1RE8_V, rv64_v_any (rv64_vLoadStore E v_load 8 ls_whole)),
      (VL1RE16_V, rv64_v_any (rv64_vLoadStore E v_load 16 ls_whole)),
      (VL1RE32_V, rv64_v_any (rv64_vLoadStore E v_load 32 ls_whole)),
      (VL1RE64_V, rv64_v_any (rv64_vLoadStore E v_load 64 ls_whole)),
      (VS1R_V, rv64_v_any (rv64_vLoadStore E v_store 8 ls_whole)),
      (VL2RE8_V, rv64_v_any (rv64_vLoadStore E v_load 8 ls_whole)),
      (VL2RE16_V, rv64_v_any (rv64_vLoadStore E v_load 16 ls_whole)),
      (VL2RE32_V, rv64_v_any (rv64_vLoadStore E v_load 32 ls_whole)),
      (VL2RE64_V, rv64_v_any (rv64_vLoadStore E v_load 64 ls_whole)),
      (VS2R_V, rv64_v_any (rv64_vLoadStore E v_store 8 ls_whole)),
      (VL4RE8_V, rv64_v_any (rv64_vLoadStore E v_load 8 ls_whole)),
      (VL4RE16_V, rv64_v_any (rv64_vLoadStore E v_load 16 ls_whole)),
      (VL4RE32_V, rv64_v_any (rv64_vLoadStore E v_load 32 ls_whole)),
      (VL4RE64_V, rv64_v_any (rv64_vLoadStore E v_load 64 ls_whole))]"

definition rv64_cases_VS4R_V :: "'d rv64_iss_env \<Rightarrow> (OpId \<times> ('d rv64_iss, unit) M) list" where
  "rv64_cases_VS4R_V E =
     [(VS4R_V, rv64_v_any (rv64_vLoadStore E v_store 8 ls_whole)),
      (VL8RE8_V, rv64_v_any (rv64_vLoadStore E v_load 8 ls_whole)),
      (VL8RE16_V, rv64_v_any (rv64_vLoadStore E v_load 16 ls_whole)),
      (VL8RE32_V, rv64_v_any (rv64_vLoadStore E v_load 32 ls_whole)),
      (VL8RE64_V, rv64_v_any (rv64_vLoadStore E v_load 64 ls_whole)),
      (VS8R_V, rv64_v_any (rv64_vLoadStore E v_store 8 ls_whole)),
      (VADD_VV, rv64_v_int (rv64_vLoop rv64_vAdd xxxsss sel_vv)),
      (VADD_VI, rv64_v_int (rv64_vLoop rv64_vAdd xxxsss sel_vi)),
      (VADD_VX, rv64_v_int (rv64_vLoop rv64_vAdd xxxsss sel_vx)),
      (VSUB_VV, rv64_v_int (rv64_vLoop rv64_vSub xxxsss sel_vv)),
      (VSUB_VX, rv64_v_int (rv64_vLoop rv64_vSub xxxsss sel_vx)),
      (VRSUB_VX, rv64_v_int (rv64_vLoop rv64_vRSub xxxsss sel_vx)),
      (VRSUB_VI, rv64_v_int (rv64_vLoop rv64_vRSub xxxsss sel_vi)),
      (VWADD_VV, rv64_v_int (rv64_vLoop rv64_vAdd wxxsss sel_vv)),
      (VWADD_VX, rv64_v_int (rv64_vLoop rv64_vAdd wxxsss sel_vx)),
      (VWSUB_VV, rv64_v_int (rv64_vLoop rv64_vSub wxxsss sel_vv)),
      (VWSUB_VX, rv64_v_int (rv64_vLoop rv64_vSub wxxsss sel_vx)),
      (VWADDU_VV, rv64_v_int (rv64_vLoop rv64_vAdd wxxuuu sel_vv)),
      (VWADDU_VX, rv64_v_int (rv64_vLoop rv64_vAdd wxxuuu sel_vx)),
      (VWSUBU_VV, rv64_v_int (rv64_vLoop rv64_vSub wxxuuu sel_vv))]"

definition rv64_cases_VWSUBU_VX :: "(OpId \<times> ('d rv64_iss, unit) M) list" where
  "rv64_cases_VWSUBU_VX =
     [(VWSUBU_VX, rv64_v_int (rv64_vLoop rv64_vSub wxxuuu sel_vx)),
      (VWADD_WV, rv64_v_int (rv64_vLoop rv64_vAdd wwxsss sel_vv)),
      (VWADD_WX, rv64_v_int (rv64_vLoop rv64_vAdd wwxsss sel_vx)),
      (VWSUB_WV, rv64_v_int (rv64_vLoop rv64_vSub wwxsss sel_vv)),
      (VWSUB_WX, rv64_v_int (rv64_vLoop rv64_vSub wwxsss sel_vx)),
      (VWADDU_WV, rv64_v_int (rv64_vLoop rv64_vAdd wwxuuu sel_vv)),
      (VWADDU_WX, rv64_v_int (rv64_vLoop rv64_vAdd wwxuuu sel_vx)),
      (VWSUBU_WV, rv64_v_int (rv64_vLoop rv64_vSub wwxuuu sel_vv)),
      (VWSUBU_WX, rv64_v_int (rv64_vLoop rv64_vSub wwxuuu sel_vx)),
      (VZEXT_VF2, rv64_v_int (bindM (rv64_vExt 2) (\<lambda>f. rv64_vLoop f xxxuuu sel_vx))),
      (VSEXT_VF2, rv64_v_int (bindM (rv64_vExt 2) (\<lambda>f. rv64_vLoop f xxxsss sel_vx))),
      (VZEXT_VF4, rv64_v_int (bindM (rv64_vExt 4) (\<lambda>f. rv64_vLoop f xxxuuu sel_vx))),
      (VSEXT_VF4, rv64_v_int (bindM (rv64_vExt 4) (\<lambda>f. rv64_vLoop f xxxsss sel_vx))),
      (VZEXT_VF8, rv64_v_int (bindM (rv64_vExt 8) (\<lambda>f. rv64_vLoop f xxxuuu sel_vx))),
      (VSEXT_VF8, rv64_v_int (bindM (rv64_vExt 8) (\<lambda>f. rv64_vLoop f xxxsss sel_vx))),
      (VADC_VVM, rv64_v_int (rv64_vLoopExtCarry rv64_vAdc xxxsss sel_vv)),
      (VADC_VXM, rv64_v_int (rv64_vLoopExtCarry rv64_vAdc xxxsss sel_vx)),
      (VADC_VIM, rv64_v_int (rv64_vLoopExtCarry rv64_vAdc xxxsss sel_vi)),
      (VMADC_VVM, rv64_v_int (rv64_vLoopVoidAll rv64_vMadc xxxsss sel_vv)),
      (VMADC_VXM, rv64_v_int (rv64_vLoopVoidAll rv64_vMadc xxxsss sel_vx)),
      (VMADC_VIM, rv64_v_int (rv64_vLoopVoidAll rv64_vMadc xxxsss sel_vi))]"

definition rv64_cases_VMADC_VV :: "(OpId \<times> ('d rv64_iss, unit) M) list" where
  "rv64_cases_VMADC_VV =
     [(VMADC_VV, rv64_v_int (rv64_vLoopVoidAll rv64_vMadc xxxsss sel_vv)),
      (VMADC_VX, rv64_v_int (rv64_vLoopVoidAll rv64_vMadc xxxsss sel_vx)),
      (VMADC_VI, rv64_v_int (rv64_vLoopVoidAll rv64_vMadc xxxsss sel_vi)),
      (VSBC_VVM, rv64_v_int (rv64_vLoopExtCarry rv64_vSbc xxxsss sel_vv)),
      (VSBC_VXM, rv64_v_int (rv64_vLoopExtCarry rv64_vSbc xxxsss sel_vx)),
      (VMSBC_VVM, rv64_v_int (rv64_vLoopVoidAll rv64_vMsbc xxxsss sel_vv)),
      (VMSBC_VXM, rv64_v_int (rv64_vLoopVoidAll rv64_vMsbc xxxsss sel_vx)),
      (VMSBC_VV, rv64_v_int (rv64_vLoopVoidAll rv64_vMsbc xxxsss sel_vv)),
      (VMSBC_VX, rv64_v_int (rv64_vLoopVoidAll rv64_vMsbc xxxsss sel_vx)),
      (VAND_VI, rv64_v_int (rv64_vLoop rv64_vAnd xxxsss sel_vi)),
      (VAND_VV, rv64_v_int (rv64_vLoop rv64_vAnd xxxsss sel_vv)),
      (VAND_VX, rv64_v_int (rv64_vLoop rv64_vAnd xxxsss sel_vx)),
      (VOR_VV, rv64_v_int (rv64_vLoop rv64_vOr xxxsss sel_vv)),
      (VOR_VI, rv64_v_int (rv64_vLoop rv64_vOr xxxsss sel_vi)),
      (VOR_VX, rv64_v_int (rv64_vLoop rv64_vOr xxxsss sel_vx)),
      (VXOR_VV, rv64_v_int (rv64_vLoop rv64_vXor xxxsss sel_vv)),
      (VXOR_VI, rv64_v_int (rv64_vLoop rv64_vXor xxxsss sel_vi)),
      (VXOR_VX, rv64_v_int (rv64_vLoop rv64_vXor xxxsss sel_vx)),
      (VSLL_VI, rv64_v_int (rv64_vLoop (rv64_vShift False) xxxuuu sel_vi)),
      (VSLL_VV, rv64_v_int (rv64_vLoop (rv64_vShift False) xxxuuu sel_vv)),
      (VSLL_VX, rv64_v_int (rv64_vLoop (rv64_vShift False) xxxuuu sel_vx))]"

definition rv64_cases_VSRL_VV :: "(OpId \<times> ('d rv64_iss, unit) M) list" where
  "rv64_cases_VSRL_VV =
     [(VSRL_VV, rv64_v_int (rv64_vLoop (rv64_vShift True) xxxuuu sel_vv)),
      (VSRL_VI, rv64_v_int (rv64_vLoop (rv64_vShift True) xxxuuu sel_vi)),
      (VSRL_VX, rv64_v_int (rv64_vLoop (rv64_vShift True) xxxuuu sel_vx)),
      (VSRA_VV, rv64_v_int (rv64_vLoop (rv64_vShift True) xxxssu sel_vv)),
      (VSRA_VI, rv64_v_int (rv64_vLoop (rv64_vShift True) xxxssu sel_vi)),
      (VSRA_VX, rv64_v_int (rv64_vLoop (rv64_vShift True) xxxssu sel_vx)),
      (VNSRL_WV, rv64_v_int (rv64_vLoop (rv64_vShift True) xwxuuu sel_vv)),
      (VNSRL_WI, rv64_v_int (rv64_vLoop (rv64_vShift True) xwxuuu sel_vi)),
      (VNSRL_WX, rv64_v_int (rv64_vLoop (rv64_vShift True) xwxuuu sel_vx)),
      (VNSRA_WV, rv64_v_int (rv64_vLoop (rv64_vShift True) xwxssu sel_vv)),
      (VNSRA_WI, rv64_v_int (rv64_vLoop (rv64_vShift True) xwxssu sel_vi)),
      (VNSRA_WX, rv64_v_int (rv64_vLoop (rv64_vShift True) xwxssu sel_vx)),
      (VMSEQ_VV, rv64_v_int (rv64_vLoopVdExtVoid (rv64_vCompInt cmp_eq) xxxsss sel_vv)),
      (VMSEQ_VX, rv64_v_int (rv64_vLoopVdExtVoid (rv64_vCompInt cmp_eq) xxxsss sel_vx)),
      (VMSEQ_VI, rv64_v_int (rv64_vLoopVdExtVoid (rv64_vCompInt cmp_eq) xxxsss sel_vi)),
      (VMSNE_VV, rv64_v_int (rv64_vLoopVdExtVoid (rv64_vCompInt cmp_ne) xxxsss sel_vv)),
      (VMSNE_VX, rv64_v_int (rv64_vLoopVdExtVoid (rv64_vCompInt cmp_ne) xxxsss sel_vx)),
      (VMSNE_VI, rv64_v_int (rv64_vLoopVdExtVoid (rv64_vCompInt cmp_ne) xxxsss sel_vi)),
      (VMSLTU_VV, rv64_v_int (rv64_vLoopVdExtVoid (rv64_vCompInt cmp_lt) xxxuuu sel_vv)),
      (VMSLTU_VX, rv64_v_int (rv64_vLoopVdExtVoid (rv64_vCompInt cmp_lt) xxxuuu sel_vx))]"

definition rv64_cases_VMSLT_VV :: "(OpId \<times> ('d rv64_iss, unit) M) list" where
  "rv64_cases_VMSLT_VV =
     [(VMSLT_VV, rv64_v_int (rv64_vLoopVdExtVoid (rv64_vCompInt cmp_lt) xxxsss sel_vv)),
      (VMSLT_VX, rv64_v_int (rv64_vLoopVdExtVoid (rv64_vCompInt cmp_lt) xxxsss sel_vx)),
      (VMSLEU_VV, rv64_v_int (rv64_vLoopVdExtVoid (rv64_vCompInt cmp_le) xxxuuu sel_vv)),
      (VMSLEU_VX, rv64_v_int (rv64_vLoopVdExtVoid (rv64_vCompInt cmp_le) xxxuuu sel_vx)),
      (VMSLEU_VI, rv64_v_int (rv64_vLoopVdExtVoid (rv64_vCompInt cmp_le) xxxuus sel_vi)),
      (VMSLE_VV, rv64_v_int (rv64_vLoopVdExtVoid (rv64_vCompInt cmp_le) xxxsss sel_vv)),
      (VMSLE_VX, rv64_v_int (rv64_vLoopVdExtVoid (rv64_vCompInt cmp_le) xxxsss sel_vx)),
      (VMSLE_VI, rv64_v_int (rv64_vLoopVdExtVoid (rv64_vCompInt cmp_le) xxxsss sel_vi)),
      (VMSGTU_VX, rv64_v_int (rv64_vLoopVdExtVoid (rv64_vCompInt cmp_gt) xxxuuu sel_vx)),
      (VMSGTU_VI, rv64_v_int (rv64_vLoopVdExtVoid (rv64_vCompInt cmp_gt) xxxuus sel_vi)),
      (VMSGT_VX, rv64_v_int (rv64_vLoopVdExtVoid (rv64_vCompInt cmp_gt) xxxsss sel_vx)),
      (VMSGT_VI, rv64_v_int (rv64_vLoopVdExtVoid (rv64_vCompInt cmp_gt) xxxsss sel_vi)),
      (VMINU_VV, rv64_v_int (rv64_vLoop rv64_vMin xxxuuu sel_vv)),
      (VMINU_VX, rv64_v_int (rv64_vLoop rv64_vMin xxxuuu sel_vx)),
      (VMIN_VV, rv64_v_int (rv64_vLoop rv64_vMin xxxsss sel_vv)),
      (VMIN_VX, rv64_v_int (rv64_vLoop rv64_vMin xxxsss sel_vx)),
      (VMAXU_VV, rv64_v_int (rv64_vLoop rv64_vMax xxxuuu sel_vv)),
      (VMAXU_VX, rv64_v_int (rv64_vLoop rv64_vMax xxxuuu sel_vx)),
      (VMAX_VV, rv64_v_int (rv64_vLoop rv64_vMax xxxsss sel_vv))]"

definition rv64_cases_VMAX_VX :: "(OpId \<times> ('d rv64_iss, unit) M) list" where
  "rv64_cases_VMAX_VX =
     [(VMAX_VX, rv64_v_int (rv64_vLoop rv64_vMax xxxsss sel_vx)),
      (VMUL_VV, rv64_v_int (rv64_vLoop rv64_vMul xxxsss sel_vv)),
      (VMUL_VX, rv64_v_int (rv64_vLoop rv64_vMul xxxsss sel_vx)),
      (VMULH_VV, rv64_v_int (rv64_vLoop rv64_vMulh xxxsss sel_vv)),
      (VMULH_VX, rv64_v_int (rv64_vLoop rv64_vMulh xxxsss sel_vx)),
      (VMULHU_VV, rv64_v_int (rv64_vLoop rv64_vMulh xxxuuu sel_vv)),
      (VMULHU_VX, rv64_v_int (rv64_vLoop rv64_vMulh xxxuuu sel_vx)),
      (VMULHSU_VV, rv64_v_int (rv64_vLoop rv64_vMulh xxxssu sel_vv)),
      (VMULHSU_VX, rv64_v_int (rv64_vLoop rv64_vMulh xxxssu sel_vx)),
      (VDIVU_VV, rv64_v_int (rv64_vLoop rv64_vDiv xxxuuu sel_vv)),
      (VDIVU_VX, rv64_v_int (rv64_vLoop rv64_vDiv xxxuuu sel_vx)),
      (VDIV_VV, rv64_v_int (rv64_vLoop rv64_vDiv xxxsss sel_vv)),
      (VDIV_VX, rv64_v_int (rv64_vLoop rv64_vDiv xxxsss sel_vx)),
      (VREMU_VV, rv64_v_int (rv64_vLoop rv64_vRem xxxuuu sel_vv)),
      (VREMU_VX, rv64_v_int (rv64_vLoop rv64_vRem xxxuuu sel_vx)),
      (VREM_VV, rv64_v_int (rv64_vLoop rv64_vRem xxxsss sel_vv)),
      (VREM_VX, rv64_v_int (rv64_vLoop rv64_vRem xxxsss sel_vx)),
      (VWMUL_VV, rv64_v_int (rv64_vLoop rv64_vMul wxxsss sel_vv)),
      (VWMUL_VX, rv64_v_int (rv64_vLoop rv64_vMul wxxsss sel_vx)),
      (VWMULU_VV, rv64_v_int (rv64_vLoop rv64_vMul wxxuuu sel_vv)),
      (VWMULU_VX, rv64_v_int (rv64_vLoop rv64_vMul wxxuuu sel_vx))]"

definition rv64_cases_VWMULSU_VV :: "(OpId \<times> ('d rv64_iss, unit) M) list" where
  "rv64_cases_VWMULSU_VV =
     [(VWMULSU_VV, rv64_v_int (rv64_vLoop rv64_vMul wxxusu sel_vv)),
      (VWMULSU_VX, rv64_v_int (rv64_vLoop rv64_vMul wxxusu sel_vx)),
      (VMACC_VV, rv64_v_int (rv64_vLoopVdExt rv64_vMacc xxxsss sel_vv)),
      (VMACC_VX, rv64_v_int (rv64_vLoopVdExt rv64_vMacc xxxsss sel_vx)),
      (VNMSAC_VV, rv64_v_int (rv64_vLoopVdExt rv64_vNmsac xxxsss sel_vv)),
      (VNMSAC_VX, rv64_v_int (rv64_vLoopVdExt rv64_vNmsac xxxsss sel_vx)),
      (VMADD_VV, rv64_v_int (rv64_vLoopVdExt rv64_vMadd xxxsss sel_vv)),
      (VMADD_VX, rv64_v_int (rv64_vLoopVdExt rv64_vMadd xxxsss sel_vx)),
      (VNMSUB_VV, rv64_v_int (rv64_vLoopVdExt rv64_vNmsub xxxsss sel_vv)),
      (VNMSUB_VX, rv64_v_int (rv64_vLoopVdExt rv64_vNmsub xxxsss sel_vx)),
      (VWMACCU_VV, rv64_v_int (rv64_vLoopVdExt rv64_vMacc wxxuuu sel_vv)),
      (VWMACCU_VX, rv64_v_int (rv64_vLoopVdExt rv64_vMacc wxxuuu sel_vx)),
      (VWMACC_VV, rv64_v_int (rv64_vLoopVdExt rv64_vMacc wxxsss sel_vv)),
      (VWMACC_VX, rv64_v_int (rv64_vLoopVdExt rv64_vMacc wxxsss sel_vx)),
      (VWMACCSU_VV, rv64_v_int (rv64_vLoopVdExt rv64_vMacc wxxuus sel_vv)),
      (VWMACCSU_VX, rv64_v_int (rv64_vLoopVdExt rv64_vMacc wxxuus sel_vx)),
      (VWMACCUS_VX, rv64_v_int (rv64_vLoopVdExt rv64_vMacc wxxusu sel_vx)),
      (VMERGE_VVM, rv64_v_int (rv64_vLoopExtCarry rv64_vMerge xxxsss sel_vv)),
      (VMERGE_VXM, rv64_v_int (rv64_vLoopExtCarry rv64_vMerge xxxsss sel_vx)),
      (VMERGE_VIM, rv64_v_int (rv64_vLoopExtCarry rv64_vMerge xxxsss sel_vi)),
      (VMV_V_V, rv64_v_int (rv64_vLoop rv64_vMv xxxsss sel_vv))]"

definition rv64_cases_VMV_V_X :: "(OpId \<times> ('d rv64_iss, unit) M) list" where
  "rv64_cases_VMV_V_X =
     [(VMV_V_X, rv64_v_int (rv64_vLoop rv64_vMv xxxsss sel_vx)),
      (VMV_V_I, rv64_v_int (rv64_vLoop rv64_vMv xxxsss sel_vi)),
      (VSADDU_VV, rv64_v_int (rv64_vLoop rv64_vSaddu xxxuuu sel_vv)),
      (VSADDU_VX, rv64_v_int (rv64_vLoop rv64_vSaddu xxxuuu sel_vx)),
      (VSADDU_VI, rv64_v_int (rv64_vLoop rv64_vSaddu xxxuus sel_vi)),
      (VSADD_VV, rv64_v_int (rv64_vLoop rv64_vSadd xxxsss sel_vv)),
      (VSADD_VX, rv64_v_int (rv64_vLoop rv64_vSadd xxxsss sel_vx)),
      (VSADD_VI, rv64_v_int (rv64_vLoop rv64_vSadd xxxsss sel_vi)),
      (VSSUBU_VV, rv64_v_int (rv64_vLoop rv64_vSsubu xxxuuu sel_vv)),
      (VSSUBU_VX, rv64_v_int (rv64_vLoop rv64_vSsubu xxxuuu sel_vx)),
      (VSSUB_VV, rv64_v_int (rv64_vLoop rv64_vSsub xxxsss sel_vv)),
      (VSSUB_VX, rv64_v_int (rv64_vLoop rv64_vSsub xxxsss sel_vx)),
      (VAADDU_VV, rv64_v_int (rv64_vLoop rv64_vAadd xxxuuu sel_vv)),
      (VAADDU_VX, rv64_v_int (rv64_vLoop rv64_vAadd xxxuuu sel_vx)),
      (VAADD_VV, rv64_v_int (rv64_vLoop rv64_vAadd xxxsss sel_vv)),
      (VAADD_VX, rv64_v_int (rv64_vLoop rv64_vAadd xxxsss sel_vx)),
      (VASUBU_VV, rv64_v_int (rv64_vLoop rv64_vAsub xxxuuu sel_vv)),
      (VASUBU_VX, rv64_v_int (rv64_vLoop rv64_vAsub xxxuuu sel_vx)),
      (VASUB_VV, rv64_v_int (rv64_vLoop rv64_vAsub xxxsss sel_vv)),
      (VASUB_VX, rv64_v_int (rv64_vLoop rv64_vAsub xxxsss sel_vx)),
      (VSMUL_VV, rv64_v_int (rv64_vLoop rv64_vSmul xxxsss sel_vv))]"

definition rv64_cases_VSMUL_VX :: "softfloat \<Rightarrow> (OpId \<times> ('d rv64_iss, unit) M) list" where
  "rv64_cases_VSMUL_VX SF =
     [(VSMUL_VX, rv64_v_int (rv64_vLoop rv64_vSmul xxxsss sel_vx)),
      (VSSRL_VV, rv64_v_int (rv64_vLoop (rv64_vShiftRight False) xxxuuu sel_vv)),
      (VSSRL_VX, rv64_v_int (rv64_vLoop (rv64_vShiftRight False) xxxuuu sel_vx)),
      (VSSRL_VI, rv64_v_int (rv64_vLoop (rv64_vShiftRight False) xxxuuu sel_vi)),
      (VSSRA_VV, rv64_v_int (rv64_vLoop (rv64_vShiftRight False) xxxssu sel_vv)),
      (VSSRA_VX, rv64_v_int (rv64_vLoop (rv64_vShiftRight False) xxxssu sel_vx)),
      (VSSRA_VI, rv64_v_int (rv64_vLoop (rv64_vShiftRight False) xxxssu sel_vi)),
      (VNCLIPU_WV, rv64_v_int (rv64_vLoop (rv64_vShiftRight True) xwxuuu sel_vv)),
      (VNCLIPU_WX, rv64_v_int (rv64_vLoop (rv64_vShiftRight True) xwxuuu sel_vx)),
      (VNCLIPU_WI, rv64_v_int (rv64_vLoop (rv64_vShiftRight True) xwxuuu sel_vi)),
      (VNCLIP_WV, rv64_v_int (rv64_vLoop (rv64_vShiftRight True) xwxssu sel_vv)),
      (VNCLIP_WX, rv64_v_int (rv64_vLoop (rv64_vShiftRight True) xwxssu sel_vx)),
      (VNCLIP_WI, rv64_v_int (rv64_vLoop (rv64_vShiftRight True) xwxssu sel_vi)),
      (VFADD_VV, rv64_v_fp (rv64_vLoopVdExt (rv64_vfAdd SF) xxxuuu sel_vv)),
      (VFADD_VF, rv64_v_fp (rv64_vLoopVdExt (rv64_vfAdd SF) xxxuuu sel_vf)),
      (VFSUB_VV, rv64_v_fp (rv64_vLoopVdExt (rv64_vfSub SF) xxxuuu sel_vv)),
      (VFSUB_VF, rv64_v_fp (rv64_vLoopVdExt (rv64_vfSub SF) xxxuuu sel_vf)),
      (VFRSUB_VF, rv64_v_fp (rv64_vLoopVdExt (rv64_vfrSub SF) xxxuuu sel_vf)),
      (VFWADD_VV, rv64_v_fp (rv64_vLoopVdExt (rv64_vfwAdd SF) wxxuuu sel_vv)),
      (VFWADD_VF, rv64_v_fp (rv64_vLoopVdExt (rv64_vfwAdd SF) wxxuuu sel_vf)),
      (VFWSUB_VV, rv64_v_fp (rv64_vLoopVdExt (rv64_vfwSub SF) wxxuuu sel_vv))]"

definition rv64_cases_VFWSUB_VF :: "softfloat \<Rightarrow> (OpId \<times> ('d rv64_iss, unit) M) list" where
  "rv64_cases_VFWSUB_VF SF =
     [(VFWSUB_VF, rv64_v_fp (rv64_vLoopVdExt (rv64_vfwSub SF) wxxuuu sel_vf)),
      (VFWADD_WV, rv64_v_fp (rv64_vLoopVdExt (rv64_vfwAddw SF) wwxuuu sel_vv)),
      (VFWADD_WF, rv64_v_fp (rv64_vLoopVdExt (rv64_vfwAddw SF) wwxuuu sel_vf)),
      (VFWSUB_WV, rv64_v_fp (rv64_vLoopVdExt (rv64_vfwSubw SF) wwxuuu sel_vv)),
      (VFWSUB_WF, rv64_v_fp (rv64_vLoopVdExt (rv64_vfwSubw SF) wwxuuu sel_vf)),
      (VFMUL_VV, rv64_v_fp (rv64_vLoopVdExt (rv64_vfMul SF) xxxuuu sel_vv)),
      (VFMUL_VF, rv64_v_fp (rv64_vLoopVdExt (rv64_vfMul SF) xxxuuu sel_vf)),
      (VFDIV_VV, rv64_v_fp (rv64_vLoopVdExt (rv64_vfDiv SF) xxxuuu sel_vv)),
      (VFDIV_VF, rv64_v_fp (rv64_vLoopVdExt (rv64_vfDiv SF) xxxuuu sel_vf)),
      (VFRDIV_VF, rv64_v_fp (rv64_vLoopVdExt (rv64_vfrDiv SF) xxxuuu sel_vf)),
      (VFWMUL_VV, rv64_v_fp (rv64_vLoopVdExt (rv64_vfwMul SF) wxxuuu sel_vv)),
      (VFWMUL_VF, rv64_v_fp (rv64_vLoopVdExt (rv64_vfwMul SF) wxxuuu sel_vf)),
      (VFMACC_VV, rv64_v_fp (rv64_vLoopVdExt (rv64_vfMacc SF) xxxuuu sel_vv)),
      (VFMACC_VF, rv64_v_fp (rv64_vLoopVdExt (rv64_vfMacc SF) xxxuuu sel_vf)),
      (VFNMACC_VV, rv64_v_fp (rv64_vLoopVdExt (rv64_vfNmacc SF) xxxuuu sel_vv)),
      (VFNMACC_VF, rv64_v_fp (rv64_vLoopVdExt (rv64_vfNmacc SF) xxxuuu sel_vf)),
      (VFMSAC_VV, rv64_v_fp (rv64_vLoopVdExt (rv64_vfMsac SF) xxxuuu sel_vv)),
      (VFMSAC_VF, rv64_v_fp (rv64_vLoopVdExt (rv64_vfMsac SF) xxxuuu sel_vf)),
      (VFNMSAC_VV, rv64_v_fp (rv64_vLoopVdExt (rv64_vfNmsac SF) xxxuuu sel_vv)),
      (VFNMSAC_VF, rv64_v_fp (rv64_vLoopVdExt (rv64_vfNmsac SF) xxxuuu sel_vf)),
      (VFMADD_VV, rv64_v_fp (rv64_vLoopVdExt (rv64_vfMadd SF) xxxuuu sel_vv))]"

definition rv64_cases_VFMADD_VF :: "softfloat \<Rightarrow> softfloat_v \<Rightarrow> (OpId \<times> ('d rv64_iss, unit) M) list" where
  "rv64_cases_VFMADD_VF SF SV =
     [(VFMADD_VF, rv64_v_fp (rv64_vLoopVdExt (rv64_vfMadd SF) xxxuuu sel_vf)),
      (VFNMADD_VV, rv64_v_fp (rv64_vLoopVdExt (rv64_vfNmadd SF) xxxuuu sel_vv)),
      (VFNMADD_VF, rv64_v_fp (rv64_vLoopVdExt (rv64_vfNmadd SF) xxxuuu sel_vf)),
      (VFMSUB_VV, rv64_v_fp (rv64_vLoopVdExt (rv64_vfMsub SF) xxxuuu sel_vv)),
      (VFMSUB_VF, rv64_v_fp (rv64_vLoopVdExt (rv64_vfMsub SF) xxxuuu sel_vf)),
      (VFNMSUB_VV, rv64_v_fp (rv64_vLoopVdExt (rv64_vfNmsub SF) xxxuuu sel_vv)),
      (VFNMSUB_VF, rv64_v_fp (rv64_vLoopVdExt (rv64_vfNmsub SF) xxxuuu sel_vf)),
      (VFWMACC_VV, rv64_v_fp (rv64_vLoopVdExt (rv64_vfwMacc SF) wxxuuu sel_vv)),
      (VFWMACC_VF, rv64_v_fp (rv64_vLoopVdExt (rv64_vfwMacc SF) wxxuuu sel_vf)),
      (VFWNMACC_VV, rv64_v_fp (rv64_vLoopVdExt (rv64_vfwNmacc SF) wxxuuu sel_vv)),
      (VFWNMACC_VF, rv64_v_fp (rv64_vLoopVdExt (rv64_vfwNmacc SF) wxxuuu sel_vf)),
      (VFWMSAC_VV, rv64_v_fp (rv64_vLoopVdExt (rv64_vfwMsac SF) wxxuuu sel_vv)),
      (VFWMSAC_VF, rv64_v_fp (rv64_vLoopVdExt (rv64_vfwMsac SF) wxxuuu sel_vf)),
      (VFWNMSAC_VV, rv64_v_fp (rv64_vLoopVdExt (rv64_vfwNmsac SF) wxxuuu sel_vv)),
      (VFWNMSAC_VF, rv64_v_fp (rv64_vLoopVdExt (rv64_vfwNmsac SF) wxxuuu sel_vf)),
      (VFSQRT_V, rv64_v_fp (rv64_vLoopVdExt (rv64_vfSqrt SF) xxxuuu sel_vv)),
      (VFRSQRT7_V, rv64_v_fp (rv64_vLoopVdExt (rv64_vfRsqrt7 SV) xxxuuu sel_vv)),
      (VFREC7_V, rv64_v_fp (rv64_vLoopVdExt (rv64_vfFrec7 SV) xxxuuu sel_vf)),
      (VFMIN_VV, rv64_v_fp (rv64_vLoopVdExt (rv64_vfMin SV) xxxuuu sel_vv)),
      (VFMIN_VF, rv64_v_fp (rv64_vLoopVdExt (rv64_vfMin SV) xxxuuu sel_vf)),
      (VFMAX_VV, rv64_v_fp (rv64_vLoopVdExt (rv64_vfMax SV) xxxuuu sel_vv))]"

definition rv64_cases_VFMAX_VF :: "softfloat \<Rightarrow> softfloat_v \<Rightarrow> (OpId \<times> ('d rv64_iss, unit) M) list" where
  "rv64_cases_VFMAX_VF SF SV =
     [(VFMAX_VF, rv64_v_fp (rv64_vLoopVdExt (rv64_vfMax SV) xxxuuu sel_vf)),
      (VFSGNJ_VV, rv64_v_fp (rv64_vLoopVdExt rv64_vfSgnj xxxuuu sel_vv)),
      (VFSGNJ_VF, rv64_v_fp (rv64_vLoopVdExt rv64_vfSgnj xxxuuu sel_vf)),
      (VFSGNJN_VV, rv64_v_fp (rv64_vLoopVdExt rv64_vfSgnjn xxxuuu sel_vv)),
      (VFSGNJN_VF, rv64_v_fp (rv64_vLoopVdExt rv64_vfSgnjn xxxuuu sel_vf)),
      (VFSGNJX_VV, rv64_v_fp (rv64_vLoopVdExt rv64_vfSgnjx xxxuuu sel_vv)),
      (VFSGNJX_VF, rv64_v_fp (rv64_vLoopVdExt rv64_vfSgnjx xxxuuu sel_vf)),
      (VMFEQ_VV, rv64_v_fp (rv64_vLoopVdExtVoid (rv64_vMfeq SF) xxxuuu sel_vv)),
      (VMFEQ_VF, rv64_v_fp (rv64_vLoopVdExtVoid (rv64_vMfeq SF) xxxuuu sel_vf)),
      (VMFNE_VV, rv64_v_fp (rv64_vLoopVdExtVoid (rv64_vMfneq SF) xxxuuu sel_vv)),
      (VMFNE_VF, rv64_v_fp (rv64_vLoopVdExtVoid (rv64_vMfneq SF) xxxuuu sel_vf)),
      (VMFLT_VV, rv64_v_fp (rv64_vLoopVdExtVoid (rv64_vMflt SF) xxxuuu sel_vv)),
      (VMFLT_VF, rv64_v_fp (rv64_vLoopVdExtVoid (rv64_vMflt SF) xxxuuu sel_vf)),
      (VMFLE_VV, rv64_v_fp (rv64_vLoopVdExtVoid (rv64_vMfle SF) xxxuuu sel_vv)),
      (VMFLE_VF, rv64_v_fp (rv64_vLoopVdExtVoid (rv64_vMfle SF) xxxuuu sel_vf)),
      (VMFGT_VF, rv64_v_fp (rv64_vLoopVdExtVoid (rv64_vMfgt SF) xxxuuu sel_vf)),
      (VMFGE_VF, rv64_v_fp (rv64_vLoopVdExtVoid (rv64_vMfge SF) xxxuuu sel_vf)),
      (VFCLASS_V, rv64_v_fp (rv64_vLoopVdExt (rv64_vfClass SF) xxxuuu sel_vv)),
      (VFMERGE_VFM, rv64_v_fp (rv64_vLoopExtCarry rv64_vMerge xxxuuu sel_vf)),
      (VFMV_V_F, rv64_v_fp (rv64_vLoop rv64_vfMv xxxuuu sel_vf)),
      (VFCVT_XU_F_V, rv64_v_fp (bindM (rv64_vfCvtXF SF SV False) (\<lambda>f. rv64_vLoopVdExt f xxxuuu sel_vf)))]"

definition rv64_cases_VFCVT_X_F_V :: "softfloat \<Rightarrow> softfloat_v \<Rightarrow> (OpId \<times> ('d rv64_iss, unit) M) list" where
  "rv64_cases_VFCVT_X_F_V SF SV =
     [(VFCVT_X_F_V, rv64_v_fp (bindM (rv64_vfCvtXF SF SV False) (\<lambda>f. rv64_vLoopVdExt f xxxsss sel_vf))),
      (VFCVT_RTZ_XU_F_V, rv64_v_fp (bindM (rv64_vfCvtXF SF SV True) (\<lambda>f. rv64_vLoopVdExt f xxxuuu sel_vf))),
      (VFCVT_RTZ_X_F_V, rv64_v_fp (bindM (rv64_vfCvtXF SF SV True) (\<lambda>f. rv64_vLoopVdExt f xxxsss sel_vf))),
      (VFCVT_F_XU_V, rv64_v_fp (rv64_vLoop (rv64_vfCvtFX SF SV) xxxuuu sel_vf)),
      (VFCVT_F_X_V, rv64_v_fp (rv64_vLoop (rv64_vfCvtFX SF SV) xxxsss sel_vf)),
      (VFWCVT_XU_F_V, rv64_v_fp (bindM (rv64_vfCvtwXF SF SV False) (\<lambda>f. rv64_vLoopVdExt f wxxuuu sel_vf))),
      (VFWCVT_X_F_V, rv64_v_fp (bindM (rv64_vfCvtwXF SF SV False) (\<lambda>f. rv64_vLoopVdExt f wxxsss sel_vf))),
      (VFWCVT_RTZ_XU_F_V, rv64_v_fp (bindM (rv64_vfCvtwXF SF SV True) (\<lambda>f. rv64_vLoopVdExt f wxxuuu sel_vf))),
      (VFWCVT_RTZ_X_F_V, rv64_v_fp (bindM (rv64_vfCvtwXF SF SV True) (\<lambda>f. rv64_vLoopVdExt f wxxsss sel_vf))),
      (VFWCVT_F_XU_V, rv64_v_fp (rv64_vLoop (rv64_vfCvtFX SF SV) wxxuuu sel_vf)),
      (VFWCVT_F_X_V, rv64_v_fp (rv64_vLoop (rv64_vfCvtFX SF SV) wxxsss sel_vf)),
      (VFWCVT_F_F_V, rv64_v_fp (rv64_vLoopVdExt (rv64_vfCvtwFF SF) wxxuuu sel_vf)),
      (VFNCVT_XU_F_W, rv64_v_fp (bindM (rv64_vfCvtnXF SF SV False) (\<lambda>f. rv64_vLoopVdExt f xwxuuu sel_vf))),
      (VFNCVT_X_F_W, rv64_v_fp (bindM (rv64_vfCvtnXF SF SV False) (\<lambda>f. rv64_vLoopVdExt f xwxsss sel_vf))),
      (VFNCVT_RTZ_XU_F_W, rv64_v_fp (bindM (rv64_vfCvtnXF SF SV True) (\<lambda>f. rv64_vLoopVdExt f xwxuuu sel_vf))),
      (VFNCVT_RTZ_X_F_W, rv64_v_fp (bindM (rv64_vfCvtnXF SF SV True) (\<lambda>f. rv64_vLoopVdExt f xwxsss sel_vf))),
      (VFNCVT_F_XU_W, rv64_v_fp (rv64_vLoop (rv64_vfCvtFX SF SV) xwxuuu sel_vf)),
      (VFNCVT_F_X_W, rv64_v_fp (rv64_vLoop (rv64_vfCvtFX SF SV) xwxsss sel_vf)),
      (VFNCVT_F_F_W, rv64_v_fp (bindM (rv64_vfCvtnFF SF False) (\<lambda>f. rv64_vLoopVdExt f xwxuuu sel_vf))),
      (VFNCVT_ROD_F_F_W, rv64_v_fp (bindM (rv64_vfCvtnFF SF True) (\<lambda>f. rv64_vLoopVdExt f xwxuuu sel_vf))),
      (VREDSUM_VS, rv64_v_int (rv64_vLoopRed rv64_vRedSum xxxsss sel_vv))]"

definition rv64_cases_VREDMAXU_VS :: "softfloat \<Rightarrow> softfloat_v \<Rightarrow> (OpId \<times> ('d rv64_iss, unit) M) list" where
  "rv64_cases_VREDMAXU_VS SF SV =
     [(VREDMAXU_VS, rv64_v_int (rv64_vLoopRed rv64_vRedMax xxxuuu sel_vv)),
      (VREDMAX_VS, rv64_v_int (rv64_vLoopRed rv64_vRedMax xxxsss sel_vv)),
      (VREDMINU_VS, rv64_v_int (rv64_vLoopRed rv64_vRedMin xxxuuu sel_vv)),
      (VREDMIN_VS, rv64_v_int (rv64_vLoopRed rv64_vRedMin xxxsss sel_vv)),
      (VREDAND_VS, rv64_v_int (rv64_vLoopRed rv64_vRedAnd xxxsss sel_vv)),
      (VREDOR_VS, rv64_v_int (rv64_vLoopRed rv64_vRedOr xxxsss sel_vv)),
      (VREDXOR_VS, rv64_v_int (rv64_vLoopRed rv64_vRedXor xxxsss sel_vv)),
      (VWREDSUMU_VS, rv64_v_int (rv64_vLoopRed rv64_vRedSum wxwuuu sel_vv)),
      (VWREDSUM_VS, rv64_v_int (rv64_vLoopRed rv64_vRedSum wxwsss sel_vv)),
      (VFREDUSUM_VS, rv64_v_fp (rv64_vLoopRed (rv64_vfRedSum SF) xxxuuu sel_vv)),
      (VFREDOSUM_VS, rv64_v_fp (rv64_vLoopRed (rv64_vfRedSum SF) xxxuuu sel_vv)),
      (VFREDMAX_VS, rv64_v_fp (rv64_vLoopRed (rv64_vfRedMax SV) xxxuuu sel_vv)),
      (VFREDMIN_VS, rv64_v_fp (rv64_vLoopRed (rv64_vfRedMin SV) xxxuuu sel_vv)),
      (VFWREDUSUM_VS, rv64_v_fp (rv64_vLoopRed (rv64_vfwRedSum SF) wxwuuu sel_vv)),
      (VFWREDOSUM_VS, rv64_v_fp (rv64_vLoopRed (rv64_vfwRedSum SF) wxwuuu sel_vv)),
      (VMAND_MM, rv64_v_int (rv64_vLoopVoidAllMask (rv64_vMask m_and))),
      (VMNAND_MM, rv64_v_int (rv64_vLoopVoidAllMask (rv64_vMask m_nand))),
      (VMANDN_MM, rv64_v_int (rv64_vLoopVoidAllMask (rv64_vMask m_andn))),
      (VMXOR_MM, rv64_v_int (rv64_vLoopVoidAllMask (rv64_vMask m_xor))),
      (VMOR_MM, rv64_v_int (rv64_vLoopVoidAllMask (rv64_vMask m_or))),
      (VMNOR_MM, rv64_v_int (rv64_vLoopVoidAllMask (rv64_vMask m_nor)))]"

definition rv64_cases_VMORN_MM :: "(OpId \<times> ('d rv64_iss, unit) M) list" where
  "rv64_cases_VMORN_MM =
     [(VMORN_MM, rv64_v_int (rv64_vLoopVoidAllMask (rv64_vMask m_orn))),
      (VMXNOR_MM, rv64_v_int (rv64_vLoopVoidAllMask (rv64_vMask m_xnor))),
      (VCPOP_M, rv64_v_int (rv64_vCpop)),
      (VFIRST_M, rv64_v_int (rv64_vFirst)),
      (VMSBF_M, rv64_v_int (rv64_vMs sbf)),
      (VMSIF_M, rv64_v_int (rv64_vMs sif)),
      (VMSOF_M, rv64_v_int (rv64_vMs sof)),
      (VIOTA_M, rv64_v_int (rv64_vIota)),
      (VID_V, rv64_v_int (rv64_vLoopVoid rv64_vId sel_vi)),
      (VMV_X_S, rv64_v_int (rv64_vMvXs)),
      (VMV_S_X, rv64_v_int (rv64_vMvSx)),
      (VFMV_F_S, rv64_v_fp (rv64_vMvFs)),
      (VFMV_S_F, rv64_v_fp (rv64_vMvSf)),
      (VSLIDEUP_VX, rv64_v_int (bindM (getsM (\<lambda>s. scast (rv64_rs1_val s))) (\<lambda>n. rv64_vLoopVoidNoOverlap (rv64_vSlideUp n) sel_vx))),
      (VSLIDEUP_VI, rv64_v_int (bindM (getsM (\<lambda>s. ucast (rs1 (rv64_instr s)))) (\<lambda>n. rv64_vLoopVoidNoOverlap (rv64_vSlideUp n) sel_vi))),
      (VSLIDEDOWN_VX, rv64_v_int (bindM (getsM (\<lambda>s. scast (rv64_rs1_val s))) (\<lambda>n. rv64_vLoopVoid (rv64_vSlideDown n) sel_vx))),
      (VSLIDEDOWN_VI, rv64_v_int (bindM (getsM (\<lambda>s. ucast (rs1 (rv64_instr s)))) (\<lambda>n. rv64_vLoopVoid (rv64_vSlideDown n) sel_vi))),
      (VSLIDE1UP_VX, rv64_v_int (rv64_vLoopVoidNoOverlap (rv64_vSlide1Up sel_vx) sel_vx)),
      (VFSLIDE1UP_VF, rv64_v_fp (rv64_vLoopVoidNoOverlap (rv64_vSlide1Up sel_vf) sel_vf)),
      (VSLIDE1DOWN_VX, rv64_v_int (rv64_vLoopVoid (rv64_vSlide1Down sel_vx) sel_vx)),
      (VFSLIDE1DOWN_VF, rv64_v_fp (rv64_vLoopVoid (rv64_vSlide1Down sel_vf) sel_vf))]"

definition rv64_cases_VRGATHER_VV :: "(OpId \<times> ('d rv64_iss, unit) M) list" where
  "rv64_cases_VRGATHER_VV =
     [(VRGATHER_VV, rv64_v_int (bindM (rv64_vGather False) (\<lambda>f. rv64_vLoopExt f xxxuuu sel_vv))),
      (VRGATHEREI16_VV, rv64_v_int (bindM (rv64_vGather True) (\<lambda>f. rv64_vLoopExt f xxxuuu sel_vv))),
      (VRGATHER_VX, rv64_v_int (bindM (rv64_vGather False) (\<lambda>f. rv64_vLoopExt f xxxuuu sel_vx))),
      (VRGATHER_VI, rv64_v_int (bindM (rv64_vGather False) (\<lambda>f. rv64_vLoopExt f xxxuuu sel_vi))),
      (VCOMPRESS_VM, rv64_v_int (rv64_vCompress)),
      (VMV_NR_R_V, rv64_v_int (rv64_vMvNr))]"

definition rv64_vec_cases :: "softfloat \<Rightarrow> softfloat_v \<Rightarrow> 'd rv64_iss_env \<Rightarrow> (OpId \<times> ('d rv64_iss, unit) M) list" where
  "rv64_vec_cases SF SV E =
     rv64_cases_VSETVLI E @ rv64_cases_VSSE32_V E @ rv64_cases_VLE8FF_V E @ rv64_cases_VSSSEG2E32_V E @ rv64_cases_VLSEG2E8FF_V E @
     rv64_cases_VSSSEG3E32_V E @ rv64_cases_VLSEG3E8FF_V E @ rv64_cases_VSSSEG4E32_V E @ rv64_cases_VLSEG4E8FF_V E @
     rv64_cases_VSSSEG5E32_V E @ rv64_cases_VLSEG5E8FF_V E @ rv64_cases_VSSSEG6E32_V E @ rv64_cases_VLSEG6E8FF_V E @
     rv64_cases_VSSSEG7E32_V E @ rv64_cases_VLSEG7E8FF_V E @ rv64_cases_VSSSEG8E32_V E @ rv64_cases_VLSEG8E8FF_V E @
     rv64_cases_VS4R_V E @ rv64_cases_VWSUBU_VX @ rv64_cases_VMADC_VV @ rv64_cases_VSRL_VV @ rv64_cases_VMSLT_VV @ rv64_cases_VMAX_VX @
     rv64_cases_VWMULSU_VV @ rv64_cases_VMV_V_X @ rv64_cases_VSMUL_VX SF @ rv64_cases_VFWSUB_VF SF @ rv64_cases_VFMADD_VF SF SV @
     rv64_cases_VFMAX_VF SF SV @ rv64_cases_VFCVT_X_F_V SF SV @ rv64_cases_VREDMAXU_VS SF SV @ rv64_cases_VMORN_MM @
     rv64_cases_VRGATHER_VV"

text \<open>Every remaining operation has a case; the default is not reached.\<close>

definition rv64_vec_op :: "softfloat \<Rightarrow> softfloat_v \<Rightarrow> 'd rv64_iss_env \<Rightarrow> OpId \<Rightarrow> ('d rv64_iss, unit) M" where
  "rv64_vec_op SF SV E op = switch_on op (rv64_vec_cases SF SV E) rv64_RAISE_ILLEGAL_INSTRUCTION"

text \<open>The RV64 hart with all its extensions.\<close>

definition rv64_ext_op :: "softfloat \<Rightarrow> softfloat_l \<Rightarrow> softfloat_v \<Rightarrow> 'd rv64_iss_env \<Rightarrow> OpId \<Rightarrow> ('d rv64_iss, unit) M" where
  "rv64_ext_op SF SL SV E = rv64_fp_op SF SL (rv64_vec_op SF SV E) E"

end
