(* ===== verification/Spec2Isabelle.thy ===== *)
theory Spec2Isabelle
  imports VP_Arith VP_Reach VP_Protection VP_DevProps VP_CSRProps VP_FPProps VP_VLoop VP_DBBProps RV64_TrapProps RV64_Props RV64_MMU RV64_VDispatch
begin

text \<open>
  A verification library for RISC-V VP++, a virtual prototype of RISC-V systems in
  SystemC. The source paths below are relative to \<^verbatim>\<open>src/vp/src\<close>.

  \<^bold>\<open>The program.\<close> A hart (\<^verbatim>\<open>core/rv32/iss_ctemplate.cpp\<close>, class
  \<^verbatim>\<open>ISS_CT\<close>) fetches an instruction word through its fetch/decode unit
  (\<^verbatim>\<open>core/common/dbbcache.h\<close>), decodes it
  (\<^verbatim>\<open>core/common/instr.cpp\<close>) and executes the case of the operation. Loads
  and stores go through a load/store cache (\<^verbatim>\<open>core/common/lscache.h\<close>) to
  the memory interface (\<^verbatim>\<open>core/common/mem.h\<close>), which translates
  addresses with the MMU (\<^verbatim>\<open>core/common/mmu.h\<close>), takes the bus lock for
  atomics, and uses a DMI pointer or a transaction on the bus
  (\<^verbatim>\<open>platform/common/bus.h\<close>). Memory
  (\<^verbatim>\<open>platform/common/memory.h\<close>), the timers
  (\<^verbatim>\<open>core/common/clint.h\<close>, \<^verbatim>\<open>real_clint.cpp\<close>) and the
  interrupt controller (\<^verbatim>\<open>platform/common/fe310_plic.h\<close>) answer the
  transactions; the devices drive the interrupt lines of the hart. A trap is a C++
  exception which the execution loop catches and turns into trap entry.

  \<^bold>\<open>Conventions.\<close> A class is a record, an enumeration a datatype, an integer a
  word of its width. Code that changes the hart is a function in the monad of
  \<^verbatim>\<open>VP_Prelude\<close>: it takes the state and returns a result or an exception
  (\<^verbatim>\<open>SimulationTrap\<close> for the C++ exception of that name,
  \<^verbatim>\<open>RuntimeError\<close>, \<^verbatim>\<open>AssertFail\<close>, and
  \<^verbatim>\<open>Suspended\<close> where a SystemC thread waits), with the state at that point in
  both cases. The objects a class holds by pointer are records of functions, so that a
  client is modelled against the interface it uses. The vendored softfloat library and host
  system calls are parameters.

  \<^bold>\<open>Theories.\<close>
    \<^item> \<^verbatim>\<open>VP_Prelude\<close>: words, bit fields, the state and exception monad and
      the rules (\<^verbatim>\<open>keeps\<close>, \<^verbatim>\<open>hoare\<close>) by which invariants pass
      through it.
    \<^item> \<^verbatim>\<open>VP_Opcodes\<close>, \<^verbatim>\<open>VP_Instr\<close>: opcode constants, the operations,
      class \<^verbatim>\<open>Instruction\<close> with its accessors (\<^verbatim>\<open>instr.h\<close>).
    \<^item> \<^verbatim>\<open>VP_DecodeV\<close>, \<^verbatim>\<open>VP_Decode\<close>: the decoder as its nested
      switches; \<^verbatim>\<open>VP_Encodings\<close>: the flat table of mask, match and operation
      that specifies it; \<^verbatim>\<open>VP_DecodeSpec\<close>: their equivalence.
    \<^item> \<^verbatim>\<open>VP_Expand\<close>: the compressed instructions, the encoders of
      \<^verbatim>\<open>InstructionFactory\<close>, and that an expanded instruction is the one it
      stands for.
    \<^item> \<^verbatim>\<open>VP_CSR\<close>, \<^verbatim>\<open>VP_State\<close>, \<^verbatim>\<open>VP_Trap\<close>,
      \<^verbatim>\<open>VP_ISS32\<close>, \<^verbatim>\<open>VP_FP\<close>: the RV32 hart, that is the control
      and status registers, its state and helpers, traps and interrupts, the integer, atomic
      and system instructions with the execution loop, and the floating-point
      instructions.
    \<^item> \<^verbatim>\<open>VP_VExt\<close>, \<^verbatim>\<open>VP_VOps\<close>, \<^verbatim>\<open>VP_VFloat\<close>,
      \<^verbatim>\<open>VP_VDispatch\<close>: the vector unit (\<^verbatim>\<open>core/common/v.h\<close>, class
      \<^verbatim>\<open>VExtension\<close>), that is its register file, settings, checks, loads and
      stores and loops, the integer, fixed-point, mask and permute operations, the
      floating-point operations, and the 624 vector cases of the execution loop.
    \<^item> \<^verbatim>\<open>VP_Mem\<close>, \<^verbatim>\<open>VP_Bus\<close>, \<^verbatim>\<open>VP_CLINT\<close>,
      \<^verbatim>\<open>VP_PLIC\<close>, \<^verbatim>\<open>VP_Platform\<close>: the memory interface with MMU
      and load/store cache, the bus with memory and register ranges, the devices, and
      \<^verbatim>\<open>platform/tiny\<close>, which composes them.
    \<^item> \<^verbatim>\<open>RV64_CSR\<close>, \<^verbatim>\<open>RV64_State\<close>, \<^verbatim>\<open>RV64_Trap\<close>,
      \<^verbatim>\<open>RV64_ISS\<close>, \<^verbatim>\<open>RV64_FP\<close>, \<^verbatim>\<open>RV64_VExt\<close>,
      \<^verbatim>\<open>RV64_VOps\<close>, \<^verbatim>\<open>RV64_VFloat\<close>, \<^verbatim>\<open>RV64_VDispatch\<close>,
      \<^verbatim>\<open>RV64_Mem\<close>, \<^verbatim>\<open>RV64_Platform\<close>: the same parts for the
      RV64 hart (\<^verbatim>\<open>core/rv64\<close>). A definition \<^verbatim>\<open>rv64_f\<close> is the
      64-bit counterpart of \<^verbatim>\<open>f\<close>; what does not depend on the register width is
      shared.
    \<^item> \<^verbatim>\<open>VP_DBB\<close>: the block cache \<^verbatim>\<open>DBBCache_T\<close>, the fetch/decode
      unit that keeps decoded instructions in linked blocks; \<^verbatim>\<open>VP_DBBSpec\<close>: the
      calls a hart makes to such a unit, the unit without a cache that specifies the
      answers, and the rules a program has to follow; \<^verbatim>\<open>VP_DBBInv\<close>,
      \<^verbatim>\<open>VP_DBBSim\<close>: the invariant of the blocks and that every operation
      simulates its specification; \<^verbatim>\<open>VP_DBBProps\<close>: the theorems, over a locale
      that both units of the source interpret.
    \<^item> \<^verbatim>\<open>VP_TrapProps\<close>, \<^verbatim>\<open>VP_Arith\<close>, \<^verbatim>\<open>VP_RegInv\<close>,
      \<^verbatim>\<open>VP_Reach\<close>, \<^verbatim>\<open>VP_MemProps\<close>, \<^verbatim>\<open>VP_MMU\<close>,
      \<^verbatim>\<open>VP_LSC\<close>, \<^verbatim>\<open>VP_Protection\<close>, \<^verbatim>\<open>VP_DevProps\<close>,
      \<^verbatim>\<open>VP_CSRProps\<close>,
      \<^verbatim>\<open>VP_FPProps\<close>, \<^verbatim>\<open>VP_VInv\<close>, \<^verbatim>\<open>VP_VArith\<close>,
      \<^verbatim>\<open>VP_VProps\<close>, \<^verbatim>\<open>VP_VLoop\<close>,
      \<^verbatim>\<open>RV64_TrapProps\<close>, \<^verbatim>\<open>RV64_Props\<close>, \<^verbatim>\<open>RV64_MMU\<close>: the theorems.

  \<^bold>\<open>What is shown.\<close> Decoding agrees with the encoding table on every word,
  architecture and ISA configuration; compressed instructions decode and expand as the
  tables of the manual say, and decode to what they expand to. Trap entry and return and the choice of an interrupt refine the scheme of the
  privileged architecture. In every reachable state, whatever integer, floating-point and
  vector instructions led to it, x0 is zero, except after an SC.W whose store traps. The
  page-table walk refines Sv32, and loads and stores through cache, DMI and bus refine a flat
  array of bytes when addresses are not translated; with paging a cached page can be read from
  a mode that may not access it. LR/SC pairs and the bus lock behave as atomics.
  Multiplication and division meet their integer specification. Timers and interrupt
  controller raise the lines they should, when they should; the thread of the interrupt controller
  runs only when it is notified. CSR access obeys the privilege
  rules and keeps the machine-mode registers from lower modes. Floating-point registers are
  NaN-boxed, and the instructions deliver the result and the flags of the library. Vector instructions
  of a single width compute every element from the operands as they were before, the elements of
  vector operands that pass the checks lie within the register file, the settings follow their integer
  specification, and products and quotients those of the integers; the comparisons that write a mask
  are shown to read behind the register file. The block cache is transparent: as long as
  a program follows its rules (changed code is fenced before it runs, and does not jump back to
  the start of its own block right after the fence) fetching through the cache, through the
  uncached unit and anew from memory give the same instructions, addresses, cycles and traps;
  two programs that break a rule are shown to see a stale instruction and a wrong trap address.
  For the RV64 hart: trap entry and return and the choice of an interrupt refine the same scheme,
  the page-table walk refines Sv39, Sv48 and Sv57, multiplication and division meet their integer
  specification, the word instructions agree with the RV32 hart on the lower halves of the
  registers, and \<^verbatim>\<open>CSRRCI\<close> is shown to clear the upper half of a register.

  \<^bold>\<open>Undefined behaviour.\<close> Where the source leaves C++ the model takes one of two ways. An
  index behind the two elements of \<^verbatim>\<open>pmpcfg\<close> and \<^verbatim>\<open>INT64_MIN % -1\<close> of \<^verbatim>\<open>vrem\<close>
  are the error \<^verbatim>\<open>RuntimeError\<close>; a read behind the vector register file gives zeros, and
  the theorems say which reads cannot do so and exhibit one that does.

  \<^bold>\<open>Bounds and fuel.\<close> The execution loop takes fuel, one unit for each
  instruction; the other loops are structural in the data they run over (levels of the page
  table, entries of the TLB, interrupts, ports, vector elements, entries of a block under
  repair). Transparency of the block cache is for straight-line runs of less than 65536
  instructions and less than 2^32 fences, the widths of its index and its coherence counter. The vector unit computes
  with powers of two in floating point, exactly: they are rational numbers here. The platform has one hart, as
  \<^verbatim>\<open>platform/tiny\<close> has; the memory interface models the bus lock for any
  number of others.

  \<^bold>\<open>Not modelled.\<close> The CHERI hart, a
  variant of the RV64 hart with capabilities and a decoder of its own; peripherals that act on the host, the GDB server,
  the ELF loader, option parsing, statistics and trace output; the local time of the quantum
  keeper.
\<close>

end
